(* ===== verification/Go_Prelude.thy ===== *)
theory Go_Prelude
  imports Complex_Main "HOL-Library.Multiset" "HOL-Library.Word"
begin

text \<open>
  What every component of the model shares: the fragment of Go and of its standard library the
  server relies on.  A Go \<open>string\<close> or \<open>[]byte\<close> is an Isabelle \<open>string\<close>, that is a list of bytes
  (\<open>char\<close> is an 8-bit value), so lengths and indexes count bytes as Go does.  An \<open>int64\<close> is an
  \<open>int\<close>; where the code's arithmetic can leave the 64-bit range the wrap-around is written out with
  \<open>i64\<close>.  A \<open>float64\<close> that is only compared, clamped or scaled by a power of two is a \<open>rat\<close>.  A
  \<open>time.Time\<close> is an \<open>int\<close> (nanoseconds since the Unix epoch) whose zero value is \<open>zero_time\<close>.
  An error result is \<open>Inl\<close> of a sum.  Case mapping and white space are those of the ASCII letters
  and blanks, which is what the compared keywords are made of.
\<close>

named_theorems go_simps \<open>evaluation rules of the library functions\<close>

subsection \<open>Machine integers\<close>

definition i64 :: "int \<Rightarrow> int" where
  "i64 x = (x + 2 ^ 63) mod 2 ^ 64 - 2 ^ 63"

lemma i64_id: "- (2 ^ 63) \<le> x \<Longrightarrow> x < 2 ^ 63 \<Longrightarrow> i64 x = x"
  by (simp add: i64_def)

lemma i64_range: "- (2 ^ 63) \<le> i64 x \<and> i64 x < 2 ^ 63"
proof -
  have "0 \<le> (x + 2 ^ 63) mod 2 ^ 64" and "(x + 2 ^ 63) mod 2 ^ 64 < 2 ^ 64"
    by simp_all
  then show ?thesis by (simp add: i64_def)
qed

lemma i64_add_left: "i64 (i64 x + y) = i64 (x + y)"
proof -
  have "i64 x + y + 2 ^ 63 = (x + 2 ^ 63) mod 2 ^ 64 + y"
    by (simp add: i64_def)
  moreover have "((x + 2 ^ 63) mod 2 ^ 64 + y) mod 2 ^ 64 = (x + y + 2 ^ 63) mod (2 ^ 64 :: int)"
    by (metis (no_types, lifting) mod_add_left_eq add.assoc add.commute)
  ultimately show ?thesis by (simp add: i64_def)
qed

text \<open>\<open>i64\<close> is the two's complement reading of the low 64 bits.\<close>

lemma i64_word: "i64 x = sint (word_of_int x :: 64 word)"
  by (simp add: i64_def sint_sbintrunc' signed_take_bit_eq_take_bit_shift take_bit_eq_mod)

definition trunc_rat :: "rat \<Rightarrow> int" where
  "trunc_rat q = (if q < 0 then - \<lfloor>- q\<rfloor> else \<lfloor>q\<rfloor>)"

subsection \<open>Time\<close>

type_synonym go_time = int

definition zero_time :: go_time where
  "zero_time = - 62135596800000000000"

definition second :: int where "second = 1000000000"
definition minute :: int where "minute = 60 * second"
definition hour :: int where "hour = 60 * minute"

lemmas time_units = second_def minute_def hour_def

subsection \<open>Byte strings\<close>

definition lower_byte :: "char \<Rightarrow> char" where
  "lower_byte c = (let n = of_char c :: nat in if 65 \<le> n \<and> n \<le> 90 then char_of (n + 32) else c)"

definition to_lower :: "string \<Rightarrow> string" where
  "to_lower s = map lower_byte s"

definition is_blank :: "char \<Rightarrow> bool" where
  "is_blank c = (let n = of_char c :: nat in n = 32 \<or> (9 \<le> n \<and> n \<le> 13))"

definition trim_by :: "(char \<Rightarrow> bool) \<Rightarrow> string \<Rightarrow> string" where
  "trim_by p s = rev (dropWhile p (rev (dropWhile p s)))"

definition trim_space :: "string \<Rightarrow> string" where
  "trim_space s = trim_by is_blank s"

definition has_prefix :: "string \<Rightarrow> string \<Rightarrow> bool" where
  "has_prefix s p = (take (length p) s = p)"

definition has_suffix :: "string \<Rightarrow> string \<Rightarrow> bool" where
  "has_suffix s p = (length p \<le> length s \<and> drop (length s - length p) s = p)"

definition trim_prefix :: "string \<Rightarrow> string \<Rightarrow> string" where
  "trim_prefix s p = (if has_prefix s p then drop (length p) s else s)"

definition trim_suffix :: "string \<Rightarrow> string \<Rightarrow> string" where
  "trim_suffix s p = (if has_suffix s p then take (length s - length p) s else s)"

fun index_of :: "string \<Rightarrow> string \<Rightarrow> nat option" where
  "index_of [] p = (if p = [] then Some 0 else None)"
| "index_of (c # s) p = (if has_prefix (c # s) p then Some 0 else map_option Suc (index_of s p))"

definition contains :: "string \<Rightarrow> string \<Rightarrow> bool" where
  "contains s p = (index_of s p \<noteq> None)"

text \<open>\<open>strings.Split\<close> on a one-byte separator: always at least one part.\<close>

fun split_on :: "char \<Rightarrow> string \<Rightarrow> string list" where
  "split_on sep [] = [[]]"
| "split_on sep (c # s) =
     (if c = sep then [] # split_on sep s
      else (case split_on sep s of [] \<Rightarrow> [[c]] | w # ws \<Rightarrow> (c # w) # ws))"

fun join_with :: "string \<Rightarrow> string list \<Rightarrow> string" where
  "join_with sep [] = []"
| "join_with sep [w] = w"
| "join_with sep (w # v # ws) = w @ sep @ join_with sep (v # ws)"

text \<open>\<open>strings.Fields\<close>: the maximal runs of non-blank bytes.\<close>

fun fields_acc :: "string \<Rightarrow> string \<Rightarrow> string list" where
  "fields_acc acc [] = (if acc = [] then [] else [rev acc])"
| "fields_acc acc (c # s) =
     (if is_blank c then (if acc = [] then fields_acc [] s else rev acc # fields_acc [] s)
      else fields_acc (c # acc) s)"

definition str_fields :: "string \<Rightarrow> string list" where
  "str_fields s = fields_acc [] s"

text \<open>\<open>strings.Cut\<close> on a one-byte separator.\<close>

definition cut_at :: "char \<Rightarrow> string \<Rightarrow> (string \<times> string) option" where
  "cut_at sep s = (case dropWhile (\<lambda>c. c \<noteq> sep) s of
     [] \<Rightarrow> None | _ # rest \<Rightarrow> Some (takeWhile (\<lambda>c. c \<noteq> sep) s, rest))"

definition equal_fold :: "string \<Rightarrow> string \<Rightarrow> bool" where
  "equal_fold a b = (to_lower a = to_lower b)"

definition is_digit :: "char \<Rightarrow> bool" where
  "is_digit c = (let n = of_char c :: nat in 48 \<le> n \<and> n \<le> 57)"

text \<open>Byte-wise string comparison, Go's \<open><\<close> on strings.\<close>

fun str_less :: "string \<Rightarrow> string \<Rightarrow> bool" where
  "str_less s [] = False"
| "str_less [] (b # t) = True"
| "str_less (a # s) (b # t) =
     (if (of_char a :: nat) < of_char b then True
      else if a = b then str_less s t else False)"

lemma has_prefix_append [simp]: "has_prefix (p @ s) p"
  by (simp add: has_prefix_def)

lemma has_prefixE: "has_prefix s p \<Longrightarrow> (\<And>t. s = p @ t \<Longrightarrow> P) \<Longrightarrow> P"
  by (metis append_take_drop_id has_prefix_def)

lemma trim_prefix_append [simp]: "trim_prefix (p @ s) p = s"
  by (simp add: trim_prefix_def)

lemma split_on_not_Nil [simp]: "split_on sep s \<noteq> []"
  by (induction s) (auto split: list.splits)

lemma split_on_no_sep: "w \<in> set (split_on sep s) \<Longrightarrow> sep \<notin> set w"
  by (induction s arbitrary: w) (auto split: list.splits if_splits)

lemma split_on_single: "sep \<notin> set s \<Longrightarrow> split_on sep s = [s]"
  by (induction s) auto

lemma join_split [simp]: "join_with [sep] (split_on sep s) = s"
proof (induction s)
  case (Cons c s)
  then show ?case by (cases "split_on sep s") (auto, (metis join_with.simps(2,3) list.exhaust append_Cons)+)
qed simp

lemma split_on_append:
  "sep \<notin> set w \<Longrightarrow> split_on sep (w @ sep # s) = w # split_on sep s"
  by (induction w) auto

lemma split_join:
  "ws \<noteq> [] \<Longrightarrow> (\<And>w. w \<in> set ws \<Longrightarrow> sep \<notin> set w) \<Longrightarrow> split_on sep (join_with [sep] ws) = ws"
proof (induction ws rule: induct_list012)
  case (3 w v ws)
  then show ?case by (simp add: split_on_append)
qed (auto simp: split_on_single)

lemma cut_at_append: "c \<notin> set p \<Longrightarrow> cut_at c (p @ c # s) = Some (p, s)"
  by (simp add: cut_at_def dropWhile_append takeWhile_append)

lemma str_less_irrefl [simp]: "\<not> str_less s s"
  by (induction s) auto

lemma str_less_trans: "str_less a b \<Longrightarrow> str_less b c \<Longrightarrow> str_less a c"
proof (induction a b arbitrary: c rule: str_less.induct)
  case (3 a s b t)
  then show ?case by (cases c) (auto split: if_splits)
qed (auto elim: str_less.elims)

lemma str_less_total: "a \<noteq> b \<Longrightarrow> str_less a b \<or> str_less b a"
proof (induction a b rule: str_less.induct)
  case (1 s)
  then show ?case by (cases s) auto
next
  case (3 a s b t)
  show ?case
  proof (cases "a = b")
    case False
    then have "(of_char a :: nat) \<noteq> of_char b" by simp
    then show ?thesis using False by auto
  qed (use 3 in auto)
qed simp

lemma str_less_asym: "str_less a b \<Longrightarrow> \<not> str_less b a"
  using str_less_trans str_less_irrefl by blast

lemma str_less_negtrans: "\<not> str_less a b \<Longrightarrow> \<not> str_less b c \<Longrightarrow> \<not> str_less a c"
  by (metis str_less_total str_less_trans)

lemma lower_lower [simp]: "to_lower (to_lower s) = to_lower s"
  by (simp add: to_lower_def lower_byte_def Let_def)

lemma to_lower_Nil [simp]: "to_lower s = [] \<longleftrightarrow> s = []"
  by (simp add: to_lower_def)

subsection \<open>Sorting by a comparator\<close>

text \<open>
  \<open>sort.SliceStable\<close> with a \<open>less\<close> function: an insertion keeps an element behind the elements it
  does not precede.  \<open>sort.Slice\<close> is modelled by the same function; where elements may tie under
  \<open>lt\<close> the library leaves their order open and the model picks the stable one.
\<close>

fun insert_by :: "('a \<Rightarrow> 'a \<Rightarrow> bool) \<Rightarrow> 'a \<Rightarrow> 'a list \<Rightarrow> 'a list" where
  "insert_by lt x [] = [x]"
| "insert_by lt x (y # ys) = (if lt x y then x # y # ys else y # insert_by lt x ys)"

definition sort_by :: "('a \<Rightarrow> 'a \<Rightarrow> bool) \<Rightarrow> 'a list \<Rightarrow> 'a list" where
  "sort_by lt xs = foldl (\<lambda>acc x. insert_by lt x acc) [] xs"

lemma mset_insert_by [simp]: "mset (insert_by lt x ys) = add_mset x (mset ys)"
  by (induction ys) auto

lemma set_insert_by [simp]: "set (insert_by lt x ys) = insert x (set ys)"
  by (induction ys) auto

lemma mset_foldl_insert_by: "mset (foldl (\<lambda>acc x. insert_by lt x acc) acc xs) = mset acc + mset xs"
  by (induction xs arbitrary: acc) auto

lemma mset_sort_by [simp]: "mset (sort_by lt xs) = mset xs"
  by (simp add: sort_by_def mset_foldl_insert_by)

lemma set_sort_by [simp]: "set (sort_by lt xs) = set xs"
  by (metis mset_sort_by set_mset_mset)

lemma length_sort_by [simp]: "length (sort_by lt xs) = length xs"
  by (metis mset_sort_by size_mset)

lemma sort_by_Nil [simp]: "sort_by lt [] = []"
  by (simp add: sort_by_def)

lemma sort_by_eq_Nil [simp]: "sort_by lt xs = [] \<longleftrightarrow> xs = []"
  by (metis length_0_conv length_sort_by)

text \<open>
  The contract of a comparator: a strict weak order.  It is interpreted on every comparator the
  code passes to the sort package whose output order a property depends on.
\<close>

locale strict_weak =
  fixes lt :: "'a \<Rightarrow> 'a \<Rightarrow> bool"
  assumes asym: "lt x y \<Longrightarrow> \<not> lt y x"
    and negtrans: "\<not> lt x y \<Longrightarrow> \<not> lt y z \<Longrightarrow> \<not> lt x z"
begin

lemma irrefl [simp]: "\<not> lt x x"
  using asym by blast

lemma trans: "lt x y \<Longrightarrow> lt y z \<Longrightarrow> lt x z"
  using asym negtrans by blast

lemma sorted_insert_by:
  "sorted_wrt (\<lambda>x y. \<not> lt y x) ys \<Longrightarrow> sorted_wrt (\<lambda>x y. \<not> lt y x) (insert_by lt x ys)"
proof (induction ys)
  case (Cons y ys)
  show ?case
  proof (cases "lt x y")
    case True
    have "\<not> lt z x" if "z \<in> set (y # ys)" for z
    proof -
      have "\<not> lt z y" using Cons.prems that by auto
      then show ?thesis using True asym negtrans trans by blast
    qed
    then show ?thesis using True Cons.prems by simp
  next
    case False
    then show ?thesis using Cons by auto
  qed
qed simp

lemma sorted_foldl:
  "sorted_wrt (\<lambda>x y. \<not> lt y x) acc \<Longrightarrow>
   sorted_wrt (\<lambda>x y. \<not> lt y x) (foldl (\<lambda>acc x. insert_by lt x acc) acc xs)"
  by (induction xs arbitrary: acc) (auto intro: sorted_insert_by)

lemma sorted_sort_by: "sorted_wrt (\<lambda>x y. \<not> lt y x) (sort_by lt xs)"
  by (simp add: sort_by_def sorted_foldl)

lemma sort_by_hd_least:
  assumes "sort_by lt xs = y # ys" and "x \<in> set xs"
  shows "\<not> lt x y"
proof -
  have "x \<in> set (y # ys)" using assms by (metis set_sort_by)
  then show ?thesis using sorted_sort_by[of xs] assms by auto
qed

end

subsection \<open>Lists and association\<close>

lemma list_all2_partner: "list_all2 P xs ys \<Longrightarrow> x \<in> set xs \<Longrightarrow> \<exists>y \<in> set ys. P x y"
  by (induction rule: list_all2_induct) auto

lemma find_some_in: "List.find p xs = Some x \<Longrightarrow> x \<in> set xs \<and> p x"
  by (metis find_Some_iff nth_mem)

subsection \<open>Tables\<close>

text \<open>
  A table of the repository is the list of its rows in insertion order; \<open>key\<close> reads a row's primary
  key.  \<open>upsert\<close> is \<open>INSERT ... ON CONFLICT DO UPDATE\<close> of all columns, \<open>row_of\<close> a select by key.
\<close>

definition row_of :: "('a \<Rightarrow> 'k) \<Rightarrow> 'k \<Rightarrow> 'a list \<Rightarrow> 'a option" where
  "row_of key k xs = List.find (\<lambda>x. key x = k) xs"

fun upsert :: "('a \<Rightarrow> 'k) \<Rightarrow> 'a \<Rightarrow> 'a list \<Rightarrow> 'a list" where
  "upsert key x [] = [x]"
| "upsert key x (y # ys) = (if key y = key x then x # ys else y # upsert key x ys)"

definition delete_row :: "('a \<Rightarrow> 'k) \<Rightarrow> 'k \<Rightarrow> 'a list \<Rightarrow> 'a list" where
  "delete_row key k xs = filter (\<lambda>x. key x \<noteq> k) xs"

lemma row_of_upsert_same [simp]: "row_of key (key x) (upsert key x xs) = Some x"
  by (induction xs) (auto simp: row_of_def)

lemma row_of_upsert_other [simp]: "k \<noteq> key x \<Longrightarrow> row_of key k (upsert key x xs) = row_of key k xs"
  by (induction xs) (auto simp: row_of_def)

lemma row_of_delete_same [simp]: "row_of key k (delete_row key k xs) = None"
  by (induction xs) (auto simp: row_of_def delete_row_def)

lemma row_of_delete_other [simp]: "j \<noteq> k \<Longrightarrow> row_of key j (delete_row key k xs) = row_of key j xs"
  by (induction xs) (auto simp: row_of_def delete_row_def)

lemma row_of_key: "row_of key k xs = Some x \<Longrightarrow> key x = k \<and> x \<in> set xs"
  by (auto simp: row_of_def dest: find_some_in)

lemma distinct_upsert: "distinct (map key xs) \<Longrightarrow> distinct (map key (upsert key x xs))"
proof -
  have "key ` set (upsert key x xs) = insert (key x) (key ` set xs)" for xs
    by (induction xs) auto
  then show "distinct (map key xs) \<Longrightarrow> distinct (map key (upsert key x xs))"
    by (induction xs) auto
qed

lemma set_upsert:
  "distinct (map key xs) \<Longrightarrow> set (upsert key x xs) = insert x {y \<in> set xs. key y \<noteq> key x}"
  by (induction xs) (auto simp: image_iff split: if_splits)

lemma row_of_None: "row_of key k xs = None \<longleftrightarrow> k \<notin> key ` set xs"
  by (auto simp: row_of_def find_None_iff)

lemma map_of_delete_row: "map_of (delete_row fst k al) j = (if j = k then None else map_of al j)"
  by (induction al) (auto simp: delete_row_def)

lemma map_of_upsert: "map_of (upsert fst p al) j = (if j = fst p then Some (snd p) else map_of al j)"
  by (induction al) auto

lemma set_upsert_subset: "set (upsert key x xs) \<subseteq> insert x (set xs)"
  by (induction xs) auto

text \<open>The laws the components rely on when they save a row and read it back.\<close>

locale row_store =
  fixes get :: "'k \<Rightarrow> 's \<Rightarrow> 'a option"
    and put :: "'a \<Rightarrow> 's \<Rightarrow> 's"
    and key :: "'a \<Rightarrow> 'k"
  assumes get_put_same: "get (key x) (put x s) = Some x"
    and get_put_other: "k \<noteq> key x \<Longrightarrow> get k (put x s) = get k s"
begin

lemma last_write_wins: "key x = key y \<Longrightarrow> get k (put y (put x s)) = get k (put y s)"
  by (cases "k = key y") (auto simp: get_put_same get_put_other)

lemma put_commute: "key x \<noteq> key y \<Longrightarrow> get k (put y (put x s)) = get k (put x (put y s))"
  by (cases "k = key y"; cases "k = key x") (auto simp: get_put_same get_put_other)

lemma get_put: "get k (put x s) = (if k = key x then Some x else get k s)"
  by (simp add: get_put_same get_put_other)

end

end
