(* ===== verification/Media_Path.thy ===== *)
theory Media_Path
  imports Go_Prelude
begin

text \<open>
  Paths below the download root: the lexical functions of \<open>path/filepath\<close> on a system whose separator
  is the slash, and the checks built on them: \<open>safeJoin\<close> and \<open>safeQBPath\<close> (\<open>service.go\<close>),
  \<open>requireContainedPath\<close> (\<open>streaming.go\<close>).  \<open>cwd\<close> is the working directory \<open>filepath.Abs\<close> reads, \<open>None\<close>
  when it cannot be read.  \<open>filepath.Rel\<close> is modelled for the absolute paths it is called with.
\<close>

subsection \<open>Lexical path functions\<close>

fun norm_parts :: "bool \<Rightarrow> string list \<Rightarrow> string list \<Rightarrow> string list" where
  "norm_parts rooted st [] = rev st"
| "norm_parts rooted st (p # ps) =
     (if p = [] \<or> p = ''.'' then norm_parts rooted st ps
      else if p = ''..'' then
        (case st of
           [] \<Rightarrow> norm_parts rooted (if rooted then [] else [''..'']) ps
         | t # r \<Rightarrow> norm_parts rooted (if t = ''..'' then ''..'' # st else r) ps)
      else norm_parts rooted (p # st) ps)"

definition is_abs :: "string \<Rightarrow> bool" where
  "is_abs path = has_prefix path ''/''"

definition elems :: "string \<Rightarrow> string list" where
  "elems path = filter (\<lambda>p. p \<noteq> []) (split_on CHR ''/'' path)"

definition clean :: "string \<Rightarrow> string" where
  "clean path =
     (let ps = norm_parts (is_abs path) [] (split_on CHR ''/'' path) in
      if is_abs path then CHR ''/'' # join_with ''/'' ps
      else if ps = [] then ''.'' else join_with ''/'' ps)"

definition path_join :: "string list \<Rightarrow> string" where
  "path_join ps = (let qs = filter (\<lambda>p. p \<noteq> []) ps in
     if qs = [] then [] else clean (join_with ''/'' qs))"

definition path_abs :: "string option \<Rightarrow> string \<Rightarrow> string option" where
  "path_abs cwd path =
     (if is_abs path then Some (clean path)
      else map_option (\<lambda>d. path_join [d, path]) cwd)"

fun common_len :: "string list \<Rightarrow> string list \<Rightarrow> nat" where
  "common_len (b # bs) (t # ts) = (if b = t then Suc (common_len bs ts) else 0)"
| "common_len _ _ = 0"

definition path_rel :: "string \<Rightarrow> string \<Rightarrow> string" where
  "path_rel base targ =
     (let b = elems (clean base); t = elems (clean targ); k = common_len b t in
      if b = t then ''.''
      else join_with ''/'' (replicate (length b - k) ''..'' @ drop k t))"

definition path_base :: "string \<Rightarrow> string" where
  "path_base path =
     (if path = [] then ''.''
      else (let es = elems path in if es = [] then ''/'' else last es))"

definition path_dir :: "string \<Rightarrow> string" where
  "path_dir path = clean (rev (dropWhile (\<lambda>c. c \<noteq> CHR ''/'') (rev path)))"

subsection \<open>The checks\<close>

definition outside :: "string \<Rightarrow> bool" where
  "outside rel = (rel = ''..'' \<or> has_prefix rel ''../'')"

datatype path_error = Path_Abs | Path_Escapes | Path_Save_Outside | Path_Content_Outside
  | Path_Persisted_Outside | Path_No_Match

definition require_contained_path :: "string \<Rightarrow> string \<Rightarrow> bool" where
  "require_contained_path base path = (\<not> outside (path_rel base path))"

definition safe_join :: "string option \<Rightarrow> string \<Rightarrow> string \<Rightarrow> path_error + string" where
  "safe_join cwd base name =
     (case path_abs cwd base of
        None \<Rightarrow> Inl Path_Abs
      | Some r \<Rightarrow>
          (case path_abs cwd (path_join [r, name]) of
             None \<Rightarrow> Inl Path_Abs
           | Some p \<Rightarrow> if outside (path_rel r p) then Inl Path_Escapes else Inr p))"

definition safe_qb_path :: "string option \<Rightarrow> string \<Rightarrow> string \<Rightarrow> string \<Rightarrow> path_error + string" where
  "safe_qb_path cwd base save_path name =
     (case path_abs cwd base of
        None \<Rightarrow> Inl Path_Abs
      | Some r \<Rightarrow>
          (case path_abs cwd (if save_path = [] then r else save_path) of
             None \<Rightarrow> Inl Path_Abs
           | Some s \<Rightarrow> if outside (path_rel r s) then Inl Path_Save_Outside
                       else safe_join cwd s name))"

subsection \<open>What a clean path looks like\<close>

definition plain_elem :: "string \<Rightarrow> bool" where
  "plain_elem p = (p \<noteq> [] \<and> p \<noteq> ''.'' \<and> p \<noteq> ''..'' \<and> CHR ''/'' \<notin> set p)"

lemma norm_parts_plain:
  "list_all plain_elem st \<Longrightarrow> (\<And>p. p \<in> set ps \<Longrightarrow> CHR ''/'' \<notin> set p) \<Longrightarrow>
   list_all plain_elem (norm_parts True st ps)"
proof (induction ps arbitrary: st)
  case (Cons p ps)
  have IH: "list_all plain_elem (norm_parts True st' ps)" if "list_all plain_elem st'" for st'
    using Cons.IH[OF that] Cons.prems(2) by simp
  have p: "CHR ''/'' \<notin> set p" using Cons.prems(2) by simp
  consider "p = [] \<or> p = ''.''" | "p = ''..''" | "plain_elem p" using p by (auto simp: plain_elem_def)
  then show ?case
  proof cases
    case 2
    moreover have "\<not> plain_elem ''..''" by (simp add: plain_elem_def)
    ultimately show ?thesis using Cons.prems(1) IH by (cases st) auto
  next
    case 3
    then have "p \<noteq> [] \<and> p \<noteq> ''.'' \<and> p \<noteq> ''..''" by (simp add: plain_elem_def)
    then show ?thesis using 3 Cons.prems(1) IH[of "p # st"] by simp
  qed (use Cons.prems(1) IH in auto)
qed simp

lemma norm_parts_plain_id:
  "list_all plain_elem ps \<Longrightarrow> norm_parts rooted st ps = rev st @ ps"
  by (induction ps arbitrary: st) (auto simp: plain_elem_def)

lemma elems_join:
  "list_all plain_elem ps \<Longrightarrow> elems (CHR ''/'' # join_with ''/'' ps) = ps"
proof (cases "ps = []")
  case False
  assume a: "list_all plain_elem ps"
  have "split_on CHR ''/'' (join_with ''/'' ps) = ps"
    using a False split_join[of ps "CHR ''/''"] by (auto simp: list_all_iff plain_elem_def)
  moreover have "filter (\<lambda>p. p \<noteq> []) ps = ps" using a by (auto simp: list_all_iff plain_elem_def filter_id_conv)
  ultimately show ?thesis by (simp add: elems_def)
qed (simp add: elems_def)

lemma is_abs_Cons [simp]: "is_abs (CHR ''/'' # s)"
  by (simp add: is_abs_def has_prefix_def)

lemma is_absE: "is_abs p \<Longrightarrow> (\<And>s. p = CHR ''/'' # s \<Longrightarrow> P) \<Longrightarrow> P"
  by (cases p) (auto simp: is_abs_def has_prefix_def)

text \<open>The cleaned absolute path with components \<open>ps\<close>.\<close>

definition abs_of :: "string list \<Rightarrow> string" where
  "abs_of ps = CHR ''/'' # join_with ''/'' ps"

lemma clean_abs:
  assumes "is_abs path"
  obtains ps where "clean path = abs_of ps" and "list_all plain_elem ps"
proof
  show "clean path = abs_of (norm_parts True [] (split_on CHR ''/'' path))"
    using assms by (simp add: clean_def abs_of_def Let_def)
  show "list_all plain_elem (norm_parts True [] (split_on CHR ''/'' path))"
    by (rule norm_parts_plain) (auto dest: split_on_no_sep)
qed

lemma clean_abs_of: "list_all plain_elem ps \<Longrightarrow> clean (abs_of ps) = abs_of ps"
proof (cases "ps = []")
  case False
  assume a: "list_all plain_elem ps"
  have "split_on CHR ''/'' (join_with ''/'' ps) = ps"
    using a False split_join[of ps "CHR ''/''"] by (auto simp: list_all_iff plain_elem_def)
  then show ?thesis using a norm_parts_plain_id[OF a] by (simp add: clean_def abs_of_def)
qed (simp add: clean_def abs_of_def)

lemma elems_abs_of [simp]: "list_all plain_elem ps \<Longrightarrow> elems (abs_of ps) = ps"
  by (simp add: abs_of_def elems_join)

lemma common_len_prefix: "common_len b t = length b \<longleftrightarrow> take (length b) t = b"
  by (induction b t rule: common_len.induct) auto

lemma common_len_le: "common_len b t \<le> length b"
  by (induction b t rule: common_len.induct) auto

text \<open>On cleaned absolute paths the check of \<open>filepath.Rel\<close> is the prefix order on components.\<close>

lemma outside_rel:
  assumes "list_all plain_elem b" and "list_all plain_elem t"
  shows "outside (path_rel (abs_of b) (abs_of t)) \<longleftrightarrow> take (length b) t \<noteq> b"
proof (cases "b = t")
  case True
  then show ?thesis using assms by (simp add: path_rel_def clean_abs_of outside_def has_prefix_def)
next
  case False
  let ?k = "common_len b t"
  have rel: "path_rel (abs_of b) (abs_of t) = join_with ''/'' (replicate (length b - ?k) ''..'' @ drop ?k t)"
    using assms False by (simp add: path_rel_def clean_abs_of Let_def)
  show ?thesis
  proof (cases "take (length b) t = b")
    case True
    then have k: "?k = length b" by (simp add: common_len_prefix)
    obtain e es where e: "drop (length b) t = e # es"
      using True False by (cases "drop (length b) t") auto
    have "e \<in> set t" using e by (metis in_set_dropD list.set_intros(1))
    then have pe: "plain_elem e" using assms(2) by (simp add: list_all_iff)
    have "\<not> outside (join_with ''/'' (e # es))"
    proof (cases es)
      case Nil
      then show ?thesis using pe by (auto simp: outside_def plain_elem_def elim!: has_prefixE)
    next
      case (Cons e' es')
      have "\<not> has_prefix (e @ CHR ''/'' # s) ''../''" for s
      proof
        assume "has_prefix (e @ CHR ''/'' # s) ''../''"
        then obtain u where "e @ CHR ''/'' # s = ''..'' @ CHR ''/'' # u" by (auto elim: has_prefixE)
        then have "takeWhile (\<lambda>c. c \<noteq> CHR ''/'') (e @ CHR ''/'' # s) =
            takeWhile (\<lambda>c. c \<noteq> CHR ''/'') (''..'' @ CHR ''/'' # u)" by simp
        then have "e = ''..''" using pe by (auto simp: plain_elem_def takeWhile_append split: if_splits)
        then show False using pe by (simp add: plain_elem_def)
      qed
      moreover have "e @ CHR ''/'' # s \<noteq> ''..''" for s
        using pe by (auto simp: plain_elem_def append_eq_Cons_conv)
      ultimately show ?thesis using Cons by (simp add: outside_def)
    qed
    then show ?thesis using rel k e True by simp
  next
    case f: False
    then obtain m where "length b - ?k = Suc m"
      using common_len_prefix[of b t] common_len_le[of b t] by (cases "length b - ?k") auto
    then have "outside (join_with ''/'' (replicate (length b - ?k) ''..'' @ drop ?k t))"
      by (cases "replicate m ''..'' @ drop ?k t") (auto simp: outside_def has_prefix_def)
    then show ?thesis using rel f by simp
  qed
qed

lemma path_abs_clean:
  assumes "path_abs cwd path = Some p" and "\<And>d. cwd = Some d \<Longrightarrow> is_abs d"
  obtains ps where "p = abs_of ps" and "list_all plain_elem ps"
proof (cases "is_abs path")
  case True
  then show ?thesis using assms that by (auto simp: path_abs_def elim: clean_abs)
next
  case False
  then obtain d where d: "cwd = Some d" "p = path_join [d, path]" using assms by (auto simp: path_abs_def)
  have abs: "is_abs d" using assms d by simp
  then have "d \<noteq> []" and "\<And>s. is_abs (d @ s)" by (auto elim: is_absE)
  then have "\<exists>q. is_abs q \<and> p = clean q" using d abs by (auto simp: path_join_def Let_def)
  then show ?thesis using that by (metis clean_abs)
qed

text \<open>\<open>inside base p\<close>: the cleaned absolute path \<open>p\<close> is \<open>base\<close> or lies below it.\<close>

definition inside :: "string \<Rightarrow> string \<Rightarrow> bool" where
  "inside base p = (p = clean p \<and> is_abs p \<and> take (length (elems base)) (elems p) = elems base)"

lemma inside_trans: "inside a b \<Longrightarrow> inside b c \<Longrightarrow> inside a c"
proof -
  assume a: "inside a b" and b: "inside b c"
  have "take (length (elems a)) (elems b) = elems a" "take (length (elems b)) (elems c) = elems b"
    using a b by (simp_all add: inside_def)
  then have "take (length (elems a)) (elems c) = elems a"
    by (metis min.absorb1 nat_le_linear take_all_iff take_take)
  then show ?thesis using b by (simp add: inside_def)
qed

lemma contained_inside:
  assumes "path_abs cwd a = Some r" and "path_abs cwd b = Some p" and "\<And>d. cwd = Some d \<Longrightarrow> is_abs d"
    and "\<not> outside (path_rel r p)"
  shows "inside r p"
proof -
  obtain rs where r: "r = abs_of rs" "list_all plain_elem rs"
    using path_abs_clean[OF assms(1,3)] by blast
  obtain ps where p: "p = abs_of ps" "list_all plain_elem ps"
    using path_abs_clean[OF assms(2,3)] by blast
  have "take (length rs) ps = rs" using outside_rel[of rs ps] r p assms(4) by simp
  then show ?thesis using r p by (simp add: inside_def clean_abs_of) (simp add: abs_of_def)
qed

lemma safe_join_inside:
  assumes "safe_join cwd base name = Inr p" and "\<And>d. cwd = Some d \<Longrightarrow> is_abs d"
    and "path_abs cwd base = Some r"
  shows "inside r p"
  using assms contained_inside[OF assms(3) _ assms(2)]
  by (auto simp: safe_join_def split: option.splits if_splits)
end
