(* ===== verification/Domain_Model.thy ===== *)
theory Domain_Model
  imports Go_Prelude
begin

text \<open>
  The data of the server: one record per struct of \<open>internal/domain/models.go\<close>, \<open>catalog.go\<close> and
  \<open>tracker.go\<close>, with the struct's fields in the struct's order.  A field name carries a prefix naming
  its record (\<open>dl_state\<close> is \<open>Download.State\<close>).  A Go pointer field is an \<open>option\<close>, a slice a list,
  \<open>float64\<close> a \<open>rat\<close>, \<open>[]byte\<close> a \<open>string\<close>; the JSON tags and the comments are not part of the model.
\<close>

type_synonym media_kind = string

definition media_movie :: media_kind where "media_movie = ''movie''"
definition media_series :: media_kind where "media_series = ''series''"

record tracker_ref =
  tr_id :: string
  tr_name :: string

record tracker_category =
  tc_id :: string
  tc_name :: string
  tc_browse_class :: string
  tc_excluded :: bool

record torrent_acquisition =
  ta_metainfo :: string
  ta_magnet :: string
  ta_magnet_discovery :: "8 word"

record allocation_error =
  ae_release :: string
  ae_required_bytes :: int
  ae_free_bytes :: int
  ae_capacity_bytes :: int

record torrent_release =
  rel_id :: string
  rel_tracker_id :: string
  rel_tracker_name :: string
  rel_provider_id :: string
  rel_category_id :: string
  rel_browse_class :: string
  rel_discovery_excluded :: bool
  rel_name :: string
  rel_category :: string
  rel_size_bytes :: int
  rel_imdb :: string
  rel_seeders :: int
  rel_leechers :: int
  rel_times_completed :: int
  rel_freeleech :: bool
  rel_double_up :: bool
  rel_internal :: bool
  rel_moderated :: bool
  rel_small_description :: string
  rel_uploaded_at :: "go_time option"
  rel_file_count :: int
  rel_comments :: int

record torrent_file =
  tf_index :: int
  tf_path :: string
  tf_size_bytes :: int
  tf_progress :: rat
  tf_priority :: int
  tf_offset :: int
  tf_playable :: bool

record torrent_manifest =
  man_release_id :: string
  man_files :: "torrent_file list"
  man_metainfo :: string
  man_fetched_at :: go_time

record tracker_status =
  ts_url :: string
  ts_status :: int
  ts_message :: string
  ts_peers :: int
  ts_seeds :: int

record download_status =
  ds_hash :: string
  ds_state :: string
  ds_progress :: rat
  ds_downloaded_bytes :: int
  ds_total_bytes :: int
  ds_speed_bytes_per_second :: int
  ds_eta_seconds :: int
  ds_peers :: int
  ds_seeds :: int
  ds_upload_speed_bytes_per_second :: int
  ds_piece_size :: int
  ds_sequential :: bool
  ds_first_last_priority :: bool
  ds_save_path :: string
  ds_content_path :: string
  ds_temp_path :: string
  ds_temp_path_enabled :: bool
  ds_trackers :: "tracker_status list"
  ds_tracker_error :: string

record parsed_release =
  pr_title :: string
  pr_sort_title :: string
  pr_kind :: media_kind
  pr_year :: int
  pr_season_start :: int
  pr_season_end :: int
  pr_season_explicit :: bool
  pr_episode_start :: int
  pr_episode_end :: int
  pr_episode_title :: string
  pr_resolution :: string
  pr_quality :: string
  pr_video_codec :: string
  pr_audio :: string
  pr_hdr :: string
  pr_edition :: string
  pr_release_group :: string

record download =
  dl_id :: string
  dl_release_id :: string
  dl_engine_id :: string
  dl_file_path :: string
  dl_absolute_path :: string
  dl_state :: string
  dl_tracker_id :: string
  dl_tracker_name :: string
  dl_title_id :: string
  dl_display_title :: string
  dl_release_name :: string
  dl_category :: string
  dl_parsed :: parsed_release
  dl_file_index :: int
  dl_size_bytes :: int
  dl_release_size_bytes :: int
  dl_file_offset :: int
  dl_piece_size :: int
  dl_buffered_bytes :: int
  dl_downloaded_bytes :: int
  dl_speed_bytes_per_second :: int
  dl_eta_seconds :: int
  dl_peers :: int
  dl_seeds :: int
  dl_tracker_seeders :: int
  dl_upload_speed_bytes_per_second :: int
  dl_rating :: rat
  dl_rating_votes :: int
  dl_rating_provider :: string
  dl_progress :: rat
  dl_leased :: bool
  dl_created_at :: go_time
  dl_updated_at :: go_time
  dl_error :: string

record piece_map =
  pm_states :: "int list"
  pm_piece_size :: int

record job =
  job_id :: string
  job_tracker_id :: string
  job_kind :: string
  job_state :: string
  job_label :: string
  job_dedupe_key :: string
  job_progress :: rat
  job_attempt :: int
  job_error :: string
  job_retryable :: bool
  job_next_attempt_at :: "go_time option"
  job_created_at :: go_time
  job_updated_at :: go_time

record job_log =
  jl_id :: int
  jl_job_id :: string
  jl_attempt :: int
  jl_level :: string
  jl_phase :: string
  jl_message :: string
  jl_context :: "(string \<times> string) list"
  jl_created_at :: go_time

record event =
  ev_id :: int
  ev_kind :: string
  ev_payload :: string
  ev_created_at :: go_time

record playback_state =
  pb_profile_id :: string
  pb_source_id :: string
  pb_release_id :: string
  pb_file_index :: int
  pb_file_path :: string
  pb_position_ms :: int
  pb_duration_ms :: int
  pb_watched :: bool
  pb_updated_at :: go_time

record playback_preferences =
  pp_profile_id :: string
  pp_source_id :: string
  pp_audio_language :: string
  pp_audio_track_index :: int
  pp_subtitle_language :: string
  pp_subtitle_provider :: string
  pp_subtitle_candidate_id :: string
  pp_subtitle_mode :: string
  pp_updated_at :: go_time

record favorite =
  fav_profile_id :: string
  fav_title_id :: string
  fav_release_id :: string
  fav_created_at :: go_time

record media_state =
  ms_download_state :: string
  ms_transfer_state :: string
  ms_watch_state :: string
  ms_download_id :: string
  ms_progress :: rat
  ms_position_ms :: int
  ms_duration_ms :: int

record catalog_source =
  cs_release :: torrent_release
  cs_parsed :: parsed_release
  cs_title_id :: string
  cs_file_index :: "int option"
  cs_file_path :: string
  cs_file_size_bytes :: int
  cs_library_state :: media_state

record catalog_title =
  ct_id :: string
  ct_title :: string
  ct_original_title :: string
  ct_kind :: media_kind
  ct_year :: int
  ct_release_date :: string
  ct_imdb :: string
  ct_overview :: string
  ct_poster_url :: string
  ct_backdrop_url :: string
  ct_trackers :: "tracker_ref list"
  ct_categories :: "string list"
  ct_resolutions :: "string list"
  ct_source_count :: int
  ct_season_count :: int
  ct_episode_count :: int
  ct_best_seeders :: int
  ct_largest_size_bytes :: int
  ct_newest_upload :: "go_time option"
  ct_rating :: rat
  ct_rating_votes :: int
  ct_rating_provider :: string
  ct_genres :: "string list"
  ct_sources :: "catalog_source list"
  ct_library_state :: media_state

record catalog_query =
  cq_search :: string
  cq_category :: string
  cq_family :: string
  cq_categories :: "string list"
  cq_tracker_i_ds :: "string list"
  cq_kind :: media_kind
  cq_resolution :: string
  cq_hdr :: string
  cq_quality :: string
  cq_codec :: string
  cq_min_seeders :: int
  cq_freeleech :: "bool option"
  cq_internal :: "bool option"
  cq_moderated :: "bool option"
  cq_sort :: string
  cq_limit :: int
  cq_offset :: int

record catalog_episode =
  ce_number :: int
  ce_title :: string
  ce_season :: int
  ce_air_date :: string
  ce_source_count :: int
  ce_sources :: "catalog_source list"
  ce_library_state :: media_state

record catalog_season =
  cn_number :: int
  cn_title :: string
  cn_episode_count :: int
  cn_episodes :: "catalog_episode list"
  cn_unknown :: "catalog_episode list"
  cn_pack_sources :: "catalog_source list"
  cn_library_state :: media_state

record catalog_detail =
  cd_title :: catalog_title
  cd_seasons :: "catalog_season list"
  cd_sources :: "catalog_source list"

record catalog_facets =
  cf_categories :: "string list"
  cf_kinds :: "string list"
  cf_resolutions :: "string list"
  cf_hdr :: "string list"
  cf_qualities :: "string list"
  cf_codecs :: "string list"

record catalog_metadata =
  cm_title_id :: string
  cm_provider :: string
  cm_provider_id :: string
  cm_title :: string
  cm_original_title :: string
  cm_overview :: string
  cm_poster_path :: string
  cm_backdrop_path :: string
  cm_language :: string
  cm_rating :: rat
  cm_rating_votes :: int
  cm_rating_provider :: string
  cm_year :: int
  cm_release_date :: string
  cm_kind :: media_kind
  cm_genres :: "string list"
  cm_fetched_at :: go_time
  cm_expires_at :: go_time
  cm_last_error :: string

record household_item =
  hi_release :: torrent_release
  hi_catalog :: "catalog_title option"
  hi_playback_state :: playback_state
  hi_favorite :: bool
  hi_title_id :: string
  hi_season_number :: int
  hi_episode_number :: int

record household_state =
  hs_favorites :: "household_item list"
  hs_continue_watching :: "household_item list"
  hs_recent :: "household_item list"
  hs_watched :: "household_item list"

record cast_entry =
  ca_name :: string
  ca_character :: string
  ca_image_url :: string
  ca_image_path :: string

record season_summary =
  ss_number :: int
  ss_name :: string
  ss_air_date :: string
  ss_episode_count :: int
  ss_overview :: string
  ss_poster_url :: string
  ss_poster_path :: string

record title_seasons =
  tl_title_id :: string
  tl_provider :: string
  tl_provider_id :: string
  tl_language :: string
  tl_seasons :: "season_summary list"
  tl_available :: bool
  tl_fetched_at :: go_time
  tl_expires_at :: go_time

record episode_info =
  ei_number :: int
  ei_name :: string
  ei_air_date :: string
  ei_runtime :: int
  ei_rating :: rat
  ei_vote_count :: int
  ei_overview :: string
  ei_still_url :: string
  ei_still_path :: string
  ei_directors :: "string list"
  ei_writers :: "string list"
  ei_guest_stars :: "cast_entry list"
  ei_filler :: bool
  ei_recap :: bool
  ei_lazy_detail :: bool

record season_info =
  si_title_id :: string
  si_provider :: string
  si_provider_id :: string
  si_language :: string
  si_number :: int
  si_name :: string
  si_overview :: string
  si_air_date :: string
  si_poster_url :: string
  si_poster_path :: string
  si_cast :: "cast_entry list"
  si_episodes :: "episode_info list"
  si_available :: bool
  si_fetched_at :: go_time
  si_expires_at :: go_time

record season_cache_entry =
  sc_provider :: string
  sc_provider_id :: string
  sc_season :: int
  sc_language :: string
  sc_available :: bool
  sc_payload :: string
  sc_fetched_at :: go_time
  sc_expires_at :: go_time

record series_episode =
  se_number :: int
  se_name :: string
  se_air_date :: string

record series_season =
  sn_number :: int
  sn_name :: string
  sn_episode_count :: int
  sn_episodes :: "series_episode list"

record series_seasons =
  sr_provider :: string
  sr_provider_id :: string
  sr_language :: string
  sr_genres :: "string list"
  sr_seasons :: "series_season list"
  sr_fetched_at :: go_time
  sr_expires_at :: go_time

text \<open>The zero values of the structs, which the code returns and fills in.\<close>

definition zero_tracker_ref :: tracker_ref where
  "zero_tracker_ref = \<lparr>tr_id = [], tr_name = []\<rparr>"

definition zero_torrent_acquisition :: torrent_acquisition where
  "zero_torrent_acquisition = \<lparr>ta_metainfo = [], ta_magnet = [], ta_magnet_discovery = 0\<rparr>"

definition zero_torrent_release :: torrent_release where
  "zero_torrent_release = \<lparr>rel_id = [], rel_tracker_id = [], rel_tracker_name = [], rel_provider_id = [],
    rel_category_id = [], rel_browse_class = [], rel_discovery_excluded = False, rel_name = [],
    rel_category = [], rel_size_bytes = 0, rel_imdb = [], rel_seeders = 0, rel_leechers = 0,
    rel_times_completed = 0, rel_freeleech = False, rel_double_up = False, rel_internal = False,
    rel_moderated = False, rel_small_description = [], rel_uploaded_at = None,
    rel_file_count = 0, rel_comments = 0\<rparr>"

definition zero_torrent_file :: torrent_file where
  "zero_torrent_file = \<lparr>tf_index = 0, tf_path = [], tf_size_bytes = 0, tf_progress = 0, tf_priority = 0,
    tf_offset = 0, tf_playable = False\<rparr>"

definition zero_torrent_manifest :: torrent_manifest where
  "zero_torrent_manifest = \<lparr>man_release_id = [], man_files = [], man_metainfo = [], man_fetched_at = zero_time\<rparr>"

definition zero_download_status :: download_status where
  "zero_download_status = \<lparr>ds_hash = [], ds_state = [], ds_progress = 0, ds_downloaded_bytes = 0, ds_total_bytes = 0,
    ds_speed_bytes_per_second = 0, ds_eta_seconds = 0, ds_peers = 0, ds_seeds = 0,
    ds_upload_speed_bytes_per_second = 0, ds_piece_size = 0, ds_sequential = False,
    ds_first_last_priority = False, ds_save_path = [], ds_content_path = [], ds_temp_path = [],
    ds_temp_path_enabled = False, ds_trackers = [], ds_tracker_error = []\<rparr>"

definition zero_parsed_release :: parsed_release where
  "zero_parsed_release = \<lparr>pr_title = [], pr_sort_title = [], pr_kind = [], pr_year = 0, pr_season_start = 0,
    pr_season_end = 0, pr_season_explicit = False, pr_episode_start = 0, pr_episode_end = 0,
    pr_episode_title = [], pr_resolution = [], pr_quality = [], pr_video_codec = [],
    pr_audio = [], pr_hdr = [], pr_edition = [], pr_release_group = []\<rparr>"

definition zero_download :: download where
  "zero_download = \<lparr>dl_id = [], dl_release_id = [], dl_engine_id = [], dl_file_path = [], dl_absolute_path = [],
    dl_state = [], dl_tracker_id = [], dl_tracker_name = [], dl_title_id = [],
    dl_display_title = [], dl_release_name = [], dl_category = [],
    dl_parsed = zero_parsed_release, dl_file_index = 0, dl_size_bytes = 0,
    dl_release_size_bytes = 0, dl_file_offset = 0, dl_piece_size = 0, dl_buffered_bytes = 0,
    dl_downloaded_bytes = 0, dl_speed_bytes_per_second = 0, dl_eta_seconds = 0, dl_peers = 0,
    dl_seeds = 0, dl_tracker_seeders = 0, dl_upload_speed_bytes_per_second = 0, dl_rating = 0,
    dl_rating_votes = 0, dl_rating_provider = [], dl_progress = 0, dl_leased = False,
    dl_created_at = zero_time, dl_updated_at = zero_time, dl_error = []\<rparr>"

definition zero_job :: job where
  "zero_job = \<lparr>job_id = [], job_tracker_id = [], job_kind = [], job_state = [], job_label = [],
    job_dedupe_key = [], job_progress = 0, job_attempt = 0, job_error = [],
    job_retryable = False, job_next_attempt_at = None, job_created_at = zero_time,
    job_updated_at = zero_time\<rparr>"

definition zero_job_log :: job_log where
  "zero_job_log = \<lparr>jl_id = 0, jl_job_id = [], jl_attempt = 0, jl_level = [], jl_phase = [], jl_message = [],
    jl_context = [], jl_created_at = zero_time\<rparr>"

definition zero_event :: event where
  "zero_event = \<lparr>ev_id = 0, ev_kind = [], ev_payload = [], ev_created_at = zero_time\<rparr>"

definition zero_playback_state :: playback_state where
  "zero_playback_state = \<lparr>pb_profile_id = [], pb_source_id = [], pb_release_id = [], pb_file_index = 0,
    pb_file_path = [], pb_position_ms = 0, pb_duration_ms = 0, pb_watched = False,
    pb_updated_at = zero_time\<rparr>"

definition zero_playback_preferences :: playback_preferences where
  "zero_playback_preferences = \<lparr>pp_profile_id = [], pp_source_id = [], pp_audio_language = [], pp_audio_track_index = 0,
    pp_subtitle_language = [], pp_subtitle_provider = [], pp_subtitle_candidate_id = [],
    pp_subtitle_mode = [], pp_updated_at = zero_time\<rparr>"

definition zero_media_state :: media_state where
  "zero_media_state = \<lparr>ms_download_state = [], ms_transfer_state = [], ms_watch_state = [], ms_download_id = [],
    ms_progress = 0, ms_position_ms = 0, ms_duration_ms = 0\<rparr>"

definition zero_catalog_source :: catalog_source where
  "zero_catalog_source = \<lparr>cs_release = zero_torrent_release, cs_parsed = zero_parsed_release, cs_title_id = [],
    cs_file_index = None, cs_file_path = [], cs_file_size_bytes = 0,
    cs_library_state = zero_media_state\<rparr>"

definition zero_catalog_title :: catalog_title where
  "zero_catalog_title = \<lparr>ct_id = [], ct_title = [], ct_original_title = [], ct_kind = [], ct_year = 0,
    ct_release_date = [], ct_imdb = [], ct_overview = [], ct_poster_url = [],
    ct_backdrop_url = [], ct_trackers = [], ct_categories = [], ct_resolutions = [],
    ct_source_count = 0, ct_season_count = 0, ct_episode_count = 0, ct_best_seeders = 0,
    ct_largest_size_bytes = 0, ct_newest_upload = None, ct_rating = 0, ct_rating_votes = 0,
    ct_rating_provider = [], ct_genres = [], ct_sources = [], ct_library_state = zero_media_state\<rparr>"

definition zero_catalog_query :: catalog_query where
  "zero_catalog_query = \<lparr>cq_search = [], cq_category = [], cq_family = [], cq_categories = [], cq_tracker_i_ds = [],
    cq_kind = [], cq_resolution = [], cq_hdr = [], cq_quality = [], cq_codec = [],
    cq_min_seeders = 0, cq_freeleech = None, cq_internal = None, cq_moderated = None,
    cq_sort = [], cq_limit = 0, cq_offset = 0\<rparr>"

definition zero_catalog_episode :: catalog_episode where
  "zero_catalog_episode = \<lparr>ce_number = 0, ce_title = [], ce_season = 0, ce_air_date = [], ce_source_count = 0,
    ce_sources = [], ce_library_state = zero_media_state\<rparr>"

definition zero_catalog_season :: catalog_season where
  "zero_catalog_season = \<lparr>cn_number = 0, cn_title = [], cn_episode_count = 0, cn_episodes = [], cn_unknown = [],
    cn_pack_sources = [], cn_library_state = zero_media_state\<rparr>"

definition zero_catalog_metadata :: catalog_metadata where
  "zero_catalog_metadata = \<lparr>cm_title_id = [], cm_provider = [], cm_provider_id = [], cm_title = [],
    cm_original_title = [], cm_overview = [], cm_poster_path = [], cm_backdrop_path = [],
    cm_language = [], cm_rating = 0, cm_rating_votes = 0, cm_rating_provider = [], cm_year = 0,
    cm_release_date = [], cm_kind = [], cm_genres = [], cm_fetched_at = zero_time,
    cm_expires_at = zero_time, cm_last_error = []\<rparr>"

definition zero_household_item :: household_item where
  "zero_household_item = \<lparr>hi_release = zero_torrent_release, hi_catalog = None,
    hi_playback_state = zero_playback_state, hi_favorite = False, hi_title_id = [],
    hi_season_number = 0, hi_episode_number = 0\<rparr>"

definition zero_season_cache_entry :: season_cache_entry where
  "zero_season_cache_entry = \<lparr>sc_provider = [], sc_provider_id = [], sc_season = 0, sc_language = [], sc_available = False,
    sc_payload = [], sc_fetched_at = zero_time, sc_expires_at = zero_time\<rparr>"

definition zero_series_episode :: series_episode where
  "zero_series_episode = \<lparr>se_number = 0, se_name = [], se_air_date = []\<rparr>"

definition zero_series_season :: series_season where
  "zero_series_season = \<lparr>sn_number = 0, sn_name = [], sn_episode_count = 0, sn_episodes = []\<rparr>"

definition zero_series_seasons :: series_seasons where
  "zero_series_seasons = \<lparr>sr_provider = [], sr_provider_id = [], sr_language = [], sr_genres = [], sr_seasons = [],
    sr_fetched_at = zero_time, sr_expires_at = zero_time\<rparr>"


end
