(* ===== verification/Domain_Rules.thy ===== *)
theory Domain_Rules
  imports Domain_Model
begin

text \<open>
  The rules of \<open>internal/domain\<close>: tracker categories and their browse classes (\<open>categories.go\<close>), the
  Category families of the household (\<open>families.go\<close>), download states (\<open>state.go\<close>), acquisition
  validation (\<open>tracker.go\<close>) and language tags (\<open>language.go\<close>).  The regular expressions of
  \<open>families.go\<close> are alternations of literals, some with word boundaries; \<open>word_in\<close> is a literal between
  two boundaries \<open>\b\<close>.
\<close>

subsection \<open>Download states and acquisitions\<close>

definition is_paused :: "string \<Rightarrow> bool" where
  "is_paused st = (let s = to_lower st in
     has_prefix s ''paused'' \<or> s = ''stoppeddl'' \<or> s = ''stoppedup'')"

datatype acquisition_error = Acq_Not_Exactly_One | Acq_Metadata_Too_Large

definition validate_acquisition :: "torrent_acquisition \<Rightarrow> acquisition_error + unit" where
  "validate_acquisition a =
     (if (ta_metainfo a = []) = (ta_magnet a = []) then Inl Acq_Not_Exactly_One
      else if length (ta_metainfo a) \<ge> 16 * 2 ^ 20 then Inl Acq_Metadata_Too_Large
      else Inr ())"

lemma validate_acquisition_ok:
  "validate_acquisition a = Inr () \<longleftrightarrow>
     (ta_metainfo a \<noteq> [] \<and> ta_magnet a = [] \<and> length (ta_metainfo a) < 16 * 2 ^ 20) \<or>
     (ta_metainfo a = [] \<and> ta_magnet a \<noteq> [])"
  by (auto simp: validate_acquisition_def)

subsection \<open>Tracker categories\<close>

record category =
  cat_id :: int
  cat_name :: string
  cat_artwork :: string
  cat_episodic :: bool
  cat_default_blacklisted :: bool

abbreviation category_row :: "int \<Rightarrow> string \<Rightarrow> string \<Rightarrow> bool \<Rightarrow> bool \<Rightarrow> category" where
  "category_row i n a e b \<equiv> \<lparr>cat_id = i, cat_name = n, cat_artwork = a, cat_episodic = e,
     cat_default_blacklisted = b\<rparr>"

definition categories :: "category list" where
  "categories = [
   category_row 24 ''Anime'' ''animation'' True False,
   category_row 11 ''Music'' ''music'' False False,
   category_row 29 ''Books'' ''learning'' False True,
   category_row 30 ''Courses'' ''learning'' False True,
   category_row 15 ''Cartoons'' ''animation'' True False,
   category_row 18 ''Various'' ''other'' False True,
   category_row 16 ''Docs'' ''learning'' False True,
   category_row 25 ''Movies 3D'' ''movies'' False False,
   category_row 6 ''Movies 4K'' ''movies'' False False,
   category_row 26 ''Movies 4K Blu-Ray'' ''movies'' False False,
   category_row 20 ''Movies Blu-Ray'' ''movies'' False False,
   category_row 2 ''Movies DVD'' ''movies'' False False,
   category_row 3 ''Movies DVD-RO'' ''movies'' False False,
   category_row 4 ''Movies HD'' ''movies'' False False,
   category_row 19 ''Movies HD-RO'' ''movies'' False False,
   category_row 1 ''Movies SD'' ''movies'' False False,
   category_row 5 ''FLAC'' ''music'' False False,
   category_row 10 ''Games Console'' ''software'' False True,
   category_row 9 ''Games PC'' ''software'' False True,
   category_row 31 ''K-Drama'' ''television'' True False,
   category_row 17 ''Linux'' ''software'' False True,
   category_row 22 ''Mobile'' ''software'' False True,
   category_row 8 ''Apps'' ''software'' False True,
   category_row 28 ''RO Dubbed'' ''television'' True False,
   category_row 27 ''TV-Series 4K'' ''television'' True False,
   category_row 21 ''TV-Series HD'' ''television'' True False,
   category_row 23 ''TV-Series SD'' ''television'' True False,
   category_row 13 ''Sport'' ''sport'' False False,
   category_row 12 ''Videoclips'' ''music'' False False,
   category_row 7 ''XXX'' ''other'' False True]"

definition default_blacklisted_category :: "string \<Rightarrow> bool" where
  "default_blacklisted_category name =
     (case List.find (\<lambda>c. equal_fold (cat_name c) name) categories of
        None \<Rightarrow> False | Some c \<Rightarrow> cat_default_blacklisted c)"

definition category_browse_class :: "category \<Rightarrow> string" where
  "category_browse_class c =
     (if has_prefix (cat_name c) ''Games'' then ''games''
      else if cat_name c = ''XXX'' then ''adult''
      else if cat_artwork c \<in> set [''movies'', ''animation'', ''television'', ''sport''] then ''video''
      else if cat_artwork c = ''music'' then ''audio''
      else if cat_artwork c = ''software'' then ''software''
      else ''other'')"

subsection \<open>Category families\<close>

definition category_families :: "(string \<times> string) list" where
  "category_families = [(''movies'', ''Movies''), (''series'', ''Series''), (''uhd'', ''4K & UHD''),
     (''anime'', ''Anime''), (''kids'', ''Animation & Kids''), (''romanian'', ''Romanian''),
     (''docs-sport'', ''Documentaries & Sport''), (''music-videos'', ''Music videos''),
     (''other'', ''Other'')]"

definition category_family_by_key :: "string \<Rightarrow> (string \<times> string) option" where
  "category_family_by_key key = List.find (\<lambda>f. fst f = key) category_families"

definition is_word_byte :: "char \<Rightarrow> bool" where
  "is_word_byte c = (let n = of_char c :: nat in
     is_digit c \<or> (65 \<le> n \<and> n \<le> 90) \<or> (97 \<le> n \<and> n \<le> 122) \<or> n = 95)"

text \<open>\<open>\b\<close> between the text read so far (its last byte first) and the text ahead.\<close>

definition boundary :: "string \<Rightarrow> string \<Rightarrow> bool" where
  "boundary bef ahead =
     ((case bef of [] \<Rightarrow> False | c # _ \<Rightarrow> is_word_byte c) \<noteq>
      (case ahead of [] \<Rightarrow> False | c # _ \<Rightarrow> is_word_byte c))"

definition word_here :: "string \<Rightarrow> string \<Rightarrow> string \<Rightarrow> bool" where
  "word_here bef s w =
     (has_prefix s w \<and> boundary bef s \<and> boundary (rev w @ bef) (drop (length w) s))"

fun word_from :: "string \<Rightarrow> string \<Rightarrow> string \<Rightarrow> bool" where
  "word_from bef [] w = word_here bef [] w"
| "word_from bef (c # s) w = (word_here bef (c # s) w \<or> word_from (c # bef) s w)"

definition word_in :: "string \<Rightarrow> string \<Rightarrow> bool" where
  "word_in s w = word_from [] s w"

definition re_space :: "char \<Rightarrow> bool" where
  "re_space c = (let n = of_char c :: nat in n = 32 \<or> n = 9 \<or> n = 10 \<or> n = 12 \<or> n = 13)"

text \<open>\<open>(^|[\s-])ro($|[\s-])\<close>\<close>

fun ro_from :: "bool \<Rightarrow> string \<Rightarrow> bool" where
  "ro_from at_start [] = False"
| "ro_from at_start (c # s) =
     ((at_start \<and> has_prefix (c # s) ''ro'' \<and>
        (case drop 2 (c # s) of [] \<Rightarrow> True | d # _ \<Rightarrow> re_space d \<or> d = CHR ''-'')) \<or>
      ro_from (re_space c \<or> c = CHR ''-'') s)"

definition hidden_category :: "string \<Rightarrow> bool" where
  "hidden_category n =
     (contains n ''flac'' \<or> contains n ''audio'' \<or> contains n ''sound'' \<or> word_in n ''music'' \<or>
      word_in n ''mp3'' \<or> (has_prefix n ''cam'' \<and> boundary ''mac'' (drop 3 n)) \<or>
      word_in n ''cam/ts'' \<or> word_in n ''ts'' \<or> contains n ''telesync'' \<or> word_in n ''xxx'')"

definition romanian_category :: "string \<Rightarrow> bool" where
  "romanian_category n = ro_from True n"

definition uhd_category :: "string \<Rightarrow> bool" where
  "uhd_category n = (contains n ''4k'' \<or> contains n ''uhd'' \<or> contains n ''2160'')"

definition series_category :: "string \<Rightarrow> bool" where
  "series_category n = (contains n ''tv-'' \<or> contains n ''tv '' \<or> contains n ''series'' \<or>
     contains n ''shows'' \<or> contains n ''drama'')"

definition movies_category :: "string \<Rightarrow> bool" where
  "movies_category n = (contains n ''movie'' \<or> contains n ''dvd'' \<or> contains n ''blu-ray'' \<or>
     contains n ''bluray'' \<or> n = ''3d'' \<or> word_in n ''3d'')"

definition family_for_category :: "string \<Rightarrow> string option" where
  "family_for_category name =
     (let n = to_lower (join_with '' '' (str_fields name)) in
      if n = [] \<or> default_blacklisted_category n then None
      else if contains n ''videoclip'' \<or> contains n ''music video'' then Some ''music-videos''
      else if hidden_category n then None
      else if contains n ''anime'' then Some ''anime''
      else if contains n ''cartoon'' \<or> contains n ''kids'' then Some ''kids''
      else if romanian_category n then Some ''romanian''
      else if uhd_category n then Some ''uhd''
      else if contains n ''clip'' then Some ''other''
      else if series_category n then Some ''series''
      else if movies_category n then Some ''movies''
      else if n = ''sport'' \<or> contains n ''sport'' \<or> contains n ''doc'' then Some ''docs-sport''
      else Some ''other'')"

text \<open>\<open>PickFamilyArt\<close>; \<open>digest\<close> is \<open>sha256.Sum256\<close> (crypto/sha256), 32 bytes for every input.\<close>

definition be_nat :: "string \<Rightarrow> nat" where
  "be_nat bs = foldl (\<lambda>n b. n * 256 + of_char b) 0 bs"

definition pick_family_art ::
  "(string \<Rightarrow> string) \<Rightarrow> string \<Rightarrow> string \<Rightarrow> string list \<Rightarrow> string option" where
  "pick_family_art digest family_key quarter candidates =
     (if candidates = [] then None
      else Some (candidates ! (be_nat (take 8 (digest (quarter @ [CHR 0x00] @ family_key)))
                   mod length candidates)))"

subsection \<open>Language tags\<close>

definition iso6391 :: "string list" where
  "iso6391 = [
   ''aa'', ''ab'', ''ae'', ''af'', ''ak'', ''am'', ''an'', ''ar'', ''as'', ''av'', ''ay'', ''az'',
   ''ba'', ''be'', ''bg'', ''bi'', ''bm'', ''bn'', ''bo'', ''br'', ''bs'', ''ca'', ''ce'', ''ch'',
   ''co'', ''cr'', ''cs'', ''cu'', ''cv'', ''cy'', ''da'', ''de'', ''dv'', ''dz'', ''ee'', ''el'',
   ''en'', ''eo'', ''es'', ''et'', ''eu'', ''fa'', ''ff'', ''fi'', ''fj'', ''fo'', ''fr'', ''fy'',
   ''ga'', ''gd'', ''gl'', ''gn'', ''gu'', ''gv'', ''ha'', ''he'', ''hi'', ''ho'', ''hr'', ''ht'',
   ''hu'', ''hy'', ''hz'', ''ia'', ''id'', ''ie'', ''ig'', ''ii'', ''ik'', ''io'', ''is'', ''it'',
   ''iu'', ''ja'', ''jv'', ''ka'', ''kg'', ''ki'', ''kj'', ''kk'', ''kl'', ''km'', ''kn'', ''ko'',
   ''kr'', ''ks'', ''ku'', ''kv'', ''kw'', ''ky'', ''la'', ''lb'', ''lg'', ''li'', ''ln'', ''lo'',
   ''lt'', ''lu'', ''lv'', ''mg'', ''mh'', ''mi'', ''mk'', ''ml'', ''mn'', ''mr'', ''ms'', ''mt'',
   ''my'', ''na'', ''nb'', ''nd'', ''ne'', ''ng'', ''nl'', ''nn'', ''no'', ''nr'', ''nv'', ''ny'',
   ''oc'', ''oj'', ''om'', ''or'', ''os'', ''pa'', ''pi'', ''pl'', ''ps'', ''pt'', ''qu'', ''rm'',
   ''rn'', ''ro'', ''ru'', ''rw'', ''sa'', ''sc'', ''sd'', ''se'', ''sg'', ''si'', ''sk'', ''sl'',
   ''sm'', ''sn'', ''so'', ''sq'', ''sr'', ''ss'', ''st'', ''su'', ''sv'', ''sw'', ''ta'', ''te'',
   ''tg'', ''th'', ''ti'', ''tk'', ''tl'', ''tn'', ''to'', ''tr'', ''ts'', ''tt'', ''tw'', ''ty'',
   ''ug'', ''uk'', ''ur'', ''uz'', ''ve'', ''vi'', ''vo'', ''wa'', ''wo'', ''xh'', ''yi'', ''yo'',
   ''za'', ''zh'', ''zu'']"

definition iso6392 :: "(string \<times> string) list" where
  "iso6392 = [
   (''aar'', ''aa''), (''abk'', ''ab''), (''ave'', ''ae''), (''afr'', ''af''), (''aka'', ''ak''), (''amh'', ''am''),
   (''arg'', ''an''), (''ara'', ''ar''), (''asm'', ''as''), (''ava'', ''av''), (''aym'', ''ay''), (''aze'', ''az''),
   (''bak'', ''ba''), (''bel'', ''be''), (''bul'', ''bg''), (''bis'', ''bi''), (''bam'', ''bm''), (''ben'', ''bn''),
   (''bod'', ''bo''), (''tib'', ''bo''), (''lav'', ''lv''), (''mlg'', ''mg''), (''mah'', ''mh''), (''mri'', ''mi''),
   (''mao'', ''mi''), (''mkd'', ''mk''), (''mac'', ''mk''), (''mal'', ''ml''), (''mon'', ''mn''), (''mar'', ''mr''),
   (''msa'', ''ms''), (''bre'', ''br''), (''bos'', ''bs''), (''cat'', ''ca''), (''che'', ''ce''), (''cha'', ''ch''),
   (''cos'', ''co''), (''cre'', ''cr''), (''ces'', ''cs''), (''cze'', ''cs''), (''chu'', ''cu''), (''chv'', ''cv''),
   (''cym'', ''cy''), (''wel'', ''cy''), (''dan'', ''da''), (''deu'', ''de''), (''ger'', ''de''), (''div'', ''dv''),
   (''dzo'', ''dz''), (''ewe'', ''ee''), (''ell'', ''el''), (''gre'', ''el''), (''eng'', ''en''), (''epo'', ''eo''),
   (''spa'', ''es''), (''est'', ''et''), (''eus'', ''eu''), (''baq'', ''eu''), (''fas'', ''fa''), (''per'', ''fa''),
   (''ful'', ''ff''), (''fin'', ''fi''), (''fij'', ''fj''), (''fao'', ''fo''), (''fra'', ''fr''), (''fre'', ''fr''),
   (''fry'', ''fy''), (''gle'', ''ga''), (''gla'', ''gd''), (''glg'', ''gl''), (''grn'', ''gn''), (''guj'', ''gu''),
   (''glv'', ''gv''), (''hau'', ''ha''), (''heb'', ''he''), (''hin'', ''hi''), (''hmo'', ''ho''), (''hrv'', ''hr''),
   (''scr'', ''hr''), (''hat'', ''ht''), (''hun'', ''hu''), (''hye'', ''hy''), (''arm'', ''hy''), (''her'', ''hz''),
   (''ina'', ''ia''), (''ind'', ''id''), (''ile'', ''ie''), (''ibo'', ''ig''), (''iii'', ''ii''), (''ipk'', ''ik''),
   (''ido'', ''io''), (''isl'', ''is''), (''ice'', ''is''), (''ita'', ''it''), (''iku'', ''iu''), (''jpn'', ''ja''),
   (''jav'', ''jv''), (''kat'', ''ka''), (''geo'', ''ka''), (''kon'', ''kg''), (''kik'', ''ki''), (''kua'', ''kj''),
   (''kaz'', ''kk''), (''kal'', ''kl''), (''khm'', ''km''), (''kan'', ''kn''), (''kor'', ''ko''), (''kau'', ''kr''),
   (''kas'', ''ks''), (''kur'', ''ku''), (''kom'', ''kv''), (''cor'', ''kw''), (''kir'', ''ky''), (''lat'', ''la''),
   (''ltz'', ''lb''), (''lug'', ''lg''), (''lim'', ''li''), (''lin'', ''ln''), (''lao'', ''lo''), (''lit'', ''lt''),
   (''lub'', ''lu''), (''may'', ''ms''), (''mlt'', ''mt''), (''mya'', ''my''), (''bur'', ''my''), (''nau'', ''na''),
   (''nob'', ''nb''), (''nde'', ''nd''), (''nep'', ''ne''), (''ndo'', ''ng''), (''nld'', ''nl''), (''dut'', ''nl''),
   (''nno'', ''nn''), (''nor'', ''no''), (''nbl'', ''nr''), (''nav'', ''nv''), (''nya'', ''ny''), (''oci'', ''oc''),
   (''oji'', ''oj''), (''orm'', ''om''), (''ori'', ''or''), (''oss'', ''os''), (''pan'', ''pa''), (''pli'', ''pi''),
   (''pol'', ''pl''), (''pus'', ''ps''), (''por'', ''pt''), (''que'', ''qu''), (''roh'', ''rm''), (''run'', ''rn''),
   (''ron'', ''ro''), (''rum'', ''ro''), (''rus'', ''ru''), (''kin'', ''rw''), (''san'', ''sa''), (''srd'', ''sc''),
   (''snd'', ''sd''), (''sme'', ''se''), (''sag'', ''sg''), (''sin'', ''si''), (''slk'', ''sk''), (''slo'', ''sk''),
   (''slv'', ''sl''), (''smo'', ''sm''), (''sna'', ''sn''), (''som'', ''so''), (''sqi'', ''sq''), (''alb'', ''sq''),
   (''srp'', ''sr''), (''scc'', ''sr''), (''ssw'', ''ss''), (''sot'', ''st''), (''sun'', ''su''), (''swe'', ''sv''),
   (''swa'', ''sw''), (''tam'', ''ta''), (''tel'', ''te''), (''tgk'', ''tg''), (''tha'', ''th''), (''tir'', ''ti''),
   (''tuk'', ''tk''), (''tgl'', ''tl''), (''tsn'', ''tn''), (''ton'', ''to''), (''tur'', ''tr''), (''tso'', ''ts''),
   (''tat'', ''tt''), (''twi'', ''tw''), (''tah'', ''ty''), (''uig'', ''ug''), (''ukr'', ''uk''), (''urd'', ''ur''),
   (''uzb'', ''uz''), (''ven'', ''ve''), (''vie'', ''vi''), (''vol'', ''vo''), (''wln'', ''wa''), (''wol'', ''wo''),
   (''xho'', ''xh''), (''yid'', ''yi''), (''yor'', ''yo''), (''zha'', ''za''), (''zho'', ''zh''), (''chi'', ''zh''),
   (''zul'', ''zu'')]"

definition normalize_language :: "string \<Rightarrow> string" where
  "normalize_language value =
     (let code = to_lower (trim_space (takeWhile (\<lambda>c. c \<noteq> CHR ''-'' \<and> c \<noteq> CHR ''_'') value)) in
      if code \<in> set iso6391 then code
      else (case map_of iso6392 code of None \<Rightarrow> [] | Some c \<Rightarrow> c))"

subsection \<open>Facts about the rules\<close>

definition lower_letter :: "char \<Rightarrow> bool" where
  "lower_letter c = (let n = of_char c :: nat in 97 \<le> n \<and> n \<le> 122)"

lemma iso6391_letters: "list_all (list_all lower_letter) iso6391"
  unfolding iso6391_def by (simp add: lower_letter_def)

lemma lower_letter_facts:
  "lower_letter c \<Longrightarrow> lower_byte c = c \<and> \<not> is_blank c \<and> c \<noteq> CHR ''-'' \<and> c \<noteq> CHR ''_''"
  by (auto simp: lower_letter_def lower_byte_def is_blank_def Let_def)

lemma to_lower_letters: "list_all lower_letter s \<Longrightarrow> to_lower s = s"
  by (induction s) (auto simp: to_lower_def lower_letter_facts)

lemma trim_space_letters: "list_all lower_letter s \<Longrightarrow> trim_space s = s"
proof -
  assume a: "list_all lower_letter s"
  then have "\<not> is_blank c" if "c \<in> set s" for c
    using that lower_letter_facts by (auto simp: list_all_iff)
  then have "dropWhile is_blank s = s" "dropWhile is_blank (rev s) = rev s"
    by (metis dropWhile_eq_self_iff hd_in_set, metis dropWhile_eq_self_iff hd_in_set set_rev)
  then show ?thesis by (simp add: trim_space_def trim_by_def)
qed

lemma takeWhile_letters:
  "list_all lower_letter s \<Longrightarrow> takeWhile (\<lambda>c. c \<noteq> CHR ''-'' \<and> c \<noteq> CHR ''_'') s = s"
  by (auto simp: list_all_iff takeWhile_eq_all_conv dest: lower_letter_facts)

lemma iso6391_fixed: "code \<in> set iso6391 \<Longrightarrow> normalize_language code = code"
  using iso6391_letters
  by (auto simp: normalize_language_def list_all_iff takeWhile_letters trim_space_letters to_lower_letters)

lemma normalize_language_empty: "normalize_language [] = []"
  by (simp add: normalize_language_def iso6391_def iso6392_def trim_space_def trim_by_def to_lower_def)

lemma normalize_language_region:
  "normalize_language (code @ CHR ''-'' # region) = normalize_language code"
  if "CHR ''-'' \<notin> set code" and "CHR ''_'' \<notin> set code"
proof -
  have "takeWhile (\<lambda>c. c \<noteq> CHR ''-'' \<and> c \<noteq> CHR ''_'') (code @ CHR ''-'' # region) = code"
    using that by (induction code) auto
  moreover have "takeWhile (\<lambda>c. c \<noteq> CHR ''-'' \<and> c \<noteq> CHR ''_'') code = code"
    using that by (induction code) auto
  ultimately show ?thesis unfolding normalize_language_def by metis
qed

lemma family_for_category_known:
  "family_for_category name = Some key \<Longrightarrow> category_family_by_key key \<noteq> None"
  by (auto simp: family_for_category_def Let_def category_family_by_key_def category_families_def
      split: if_splits)

end
