(* ===== verification/Stream_Range.thy ===== *)
theory Stream_Range
  imports Media_Path Domain_Rules
begin

text \<open>
  Reading a byte range of a download (\<open>internal/application/streaming.go\<close>, and \<open>WaitRange\<close>,
  \<open>ValidateSourcePath\<close> of \<open>service.go\<close>): the path of a torrent's content below the download root,
  the range guards, the wait for downloaded pieces and the choice between a completed local file
  and a torrent in progress.  The engine and the file system are observed through arguments: a
  \<open>local_file\<close> is what \<open>os.Stat\<close> reports, a poll is one answer of the engine, and the list of polls is
  everything seen before the deadline, so an exhausted list is a timeout.
\<close>

definition safe_qb_content_path ::
  "string option \<Rightarrow> string \<Rightarrow> download_status \<Rightarrow> string \<Rightarrow> path_error + string" where
  "safe_qb_content_path cwd base st name =
     (if ds_progress st < 1 \<and> ds_temp_path_enabled st \<and> ds_temp_path st \<noteq> []
      then safe_qb_path cwd base (ds_temp_path st) name
      else if ds_content_path st = [] then safe_qb_path cwd base (ds_save_path st) name
      else (case path_abs cwd base of
              None \<Rightarrow> Inl Path_Abs
            | Some r \<Rightarrow>
                (case path_abs cwd (ds_content_path st) of
                   None \<Rightarrow> Inl Path_Abs
                 | Some c \<Rightarrow>
                     if \<not> require_contained_path r c then Inl Path_Content_Outside
                     else (let n = clean name in
                       if n = ''.'' \<or> is_abs n \<or> n = ''..'' \<or> has_prefix n ''../'' then Inl Path_Escapes
                       else (let parts = split_on CHR ''/'' n;
                                 raw = (if length parts = 1 \<and> path_base c = hd parts then c
                                        else if length parts > 1 \<and> path_base c = hd parts
                                        then path_join [path_dir c, n]
                                        else path_join [c, n]) in
                         case path_abs cwd raw of
                           None \<Rightarrow> Inl Path_Abs
                         | Some p \<Rightarrow> if \<not> require_contained_path r p then Inl Path_Escapes
                                     else Inr p)))))"

definition validate_source_path :: "string option \<Rightarrow> string \<Rightarrow> download \<Rightarrow> path_error option" where
  "validate_source_path cwd base d =
     (case path_abs cwd base of
        None \<Rightarrow> Some Path_Abs
      | Some r \<Rightarrow>
          (case path_abs cwd (dl_absolute_path d) of
             None \<Rightarrow> Some Path_Abs
           | Some p \<Rightarrow>
               if outside (path_rel r p) then Some Path_Persisted_Outside
               else if \<not> has_suffix p (dl_file_path d) then Some Path_No_Match
               else None))"

subsection \<open>Ranges\<close>

text \<open>\<open>start+cnt > d.SizeBytes\<close> is computed in an int64.\<close>

definition range_outside :: "download \<Rightarrow> int \<Rightarrow> int \<Rightarrow> bool" where
  "range_outside d start cnt = (cnt \<le> 0 \<or> start < 0 \<or> i64 (start + cnt) > dl_size_bytes d)"

datatype local_file = Stat_Error | Stat_Dir | Stat_File int

definition completed_local_file :: "(string \<Rightarrow> local_file) \<Rightarrow> download \<Rightarrow> bool" where
  "completed_local_file stat d =
     (if dl_progress d < 1 \<or> dl_absolute_path d = [] \<or> dl_size_bytes d \<le> 0 then False
      else (case stat (dl_absolute_path d) of
              Stat_File sz \<Rightarrow> sz \<ge> dl_size_bytes d
            | _ \<Rightarrow> False))"

datatype range_error = Range_Path path_error | Range_Outside | Range_Unavailable | Range_Short
  | Range_No_Engine | Range_Engine string | Range_No_Piece_Size | Range_Timeout | Range_Unreadable

definition local_readable_path ::
  "string option \<Rightarrow> string \<Rightarrow> (string \<Rightarrow> local_file) \<Rightarrow> download \<Rightarrow> int \<Rightarrow> int \<Rightarrow> range_error + string" where
  "local_readable_path cwd base stat d start cnt =
     (case validate_source_path cwd base d of
        Some e \<Rightarrow> Inl (Range_Path e)
      | None \<Rightarrow>
          if range_outside d start cnt then Inl Range_Outside
          else (case stat (dl_absolute_path d) of
                  Stat_Error \<Rightarrow> Inl Range_Unavailable
                | Stat_Dir \<Rightarrow> Inl Range_Short
                | Stat_File sz \<Rightarrow>
                    if sz < i64 (start + cnt) then Inl Range_Short
                    else Inr (dl_absolute_path d)))"

subsection \<open>Waiting for pieces\<close>

text \<open>Go's integer division truncates toward zero.\<close>

definition go_div :: "int \<Rightarrow> int \<Rightarrow> int" where
  "go_div a b = (if (a < 0) \<noteq> (b < 0) then - (\<bar>a\<bar> div \<bar>b\<bar>) else \<bar>a\<bar> div \<bar>b\<bar>)"

definition pieces_ready :: "int list \<Rightarrow> int \<Rightarrow> int \<Rightarrow> bool" where
  "pieces_ready states first final =
     (first \<ge> 0 \<and> final < int (length states) \<and>
      list_all (\<lambda>i. states ! nat i = 2) (map int [nat first ..< nat (final + 1)]))"

fun wait_range ::
  "(string + piece_map) list \<Rightarrow> download \<Rightarrow> int \<Rightarrow> int \<Rightarrow> range_error option" where
  "wait_range [] d start cnt = Some Range_Timeout"
| "wait_range (Inl e # polls) d start cnt = Some (Range_Engine e)"
| "wait_range (Inr pm # polls) d start cnt =
     (let sz = (if pm_piece_size pm \<le> 0 then dl_piece_size d else pm_piece_size pm) in
      if sz \<le> 0 then Some Range_No_Piece_Size
      else if pieces_ready (pm_states pm)
                (go_div (i64 (dl_file_offset d + start)) sz)
                (go_div (i64 (dl_file_offset d + start + cnt - 1)) sz)
      then None
      else wait_range polls d start cnt)"

subsection \<open>The torrent in progress\<close>

text \<open>
  One look at the file: whether the range's last byte can be read at the given path, and the status
  the engine then reports.
\<close>

type_synonym read_poll = "(string \<Rightarrow> bool) \<times> (string + download_status)"

fun read_polls ::
  "string option \<Rightarrow> string \<Rightarrow> download \<Rightarrow> string \<Rightarrow> read_poll list \<Rightarrow> range_error + string" where
  "read_polls cwd base d path [] = Inl Range_Unreadable"
| "read_polls cwd base d path ((readable, status) # polls) =
     (if readable path then Inr path
      else read_polls cwd base d
        (case status of
           Inl _ \<Rightarrow> path
         | Inr st \<Rightarrow> (case safe_qb_content_path cwd base st (dl_file_path d) of
                        Inl _ \<Rightarrow> path | Inr p \<Rightarrow> p)) polls)"

record engine_view =
  vw_owner :: bool
  vw_status :: "string + download_status"
  vw_prepare :: "string option"
  vw_pieces :: "(string + piece_map) list"
  vw_reads :: "read_poll list"

definition torrent_readable_path ::
  "string option \<Rightarrow> string \<Rightarrow> engine_view \<Rightarrow> download \<Rightarrow> int \<Rightarrow> int \<Rightarrow> range_error + string" where
  "torrent_readable_path cwd base v d start cnt =
     (if range_outside d start cnt then Inl Range_Outside
      else if \<not> vw_owner v then Inl Range_No_Engine
      else (case vw_status v of
              Inl e \<Rightarrow> Inl (Range_Engine e)
            | Inr st \<Rightarrow>
                (case safe_qb_content_path cwd base st (dl_file_path d) of
                   Inl e \<Rightarrow> Inl (Range_Path e)
                 | Inr path \<Rightarrow>
                     (case vw_prepare v of
                        Some e \<Rightarrow> Inl (Range_Engine e)
                      | None \<Rightarrow>
                          (case wait_range (vw_pieces v) d start cnt of
                             Some e \<Rightarrow> Inl e
                           | None \<Rightarrow> read_polls cwd base d path (vw_reads v))))))"

definition readable_range_path ::
  "string option \<Rightarrow> string \<Rightarrow> (string \<Rightarrow> local_file) \<Rightarrow> engine_view \<Rightarrow> download \<Rightarrow> int \<Rightarrow> int \<Rightarrow>
   range_error + string" where
  "readable_range_path cwd base stat v d start cnt =
     (if completed_local_file stat d then local_readable_path cwd base stat d start cnt
      else torrent_readable_path cwd base v d start cnt)"

subsection \<open>Facts\<close>

lemma safe_qb_path_inside:
  assumes "safe_qb_path cwd base save name = Inr p" and "\<And>d. cwd = Some d \<Longrightarrow> is_abs d"
    and "path_abs cwd base = Some r"
  shows "inside r p"
proof -
  let ?save = "if save = [] then r else save"
  obtain s where s: "path_abs cwd ?save = Some s" "\<not> outside (path_rel r s)" "safe_join cwd s name = Inr p"
    using assms(1,3) by (auto simp: safe_qb_path_def split: option.splits if_splits)
  have rs: "inside r s" by (rule contained_inside[OF assms(3) s(1) assms(2) s(2)])
  then have "path_abs cwd s = Some s" by (simp add: inside_def path_abs_def)
  then have "inside s p" using safe_join_inside[OF s(3) assms(2)] by blast
  then show ?thesis using rs inside_trans by blast
qed

lemma safe_qb_content_path_inside:
  assumes "safe_qb_content_path cwd base st name = Inr p" and "\<And>d. cwd = Some d \<Longrightarrow> is_abs d"
    and "path_abs cwd base = Some r"
  shows "inside r p"
proof (cases "(ds_progress st < 1 \<and> ds_temp_path_enabled st \<and> ds_temp_path st \<noteq> []) \<or> ds_content_path st = []")
  case True
  then show ?thesis using assms(1) safe_qb_path_inside[OF _ assms(2,3)]
    by (auto simp: safe_qb_content_path_def split: if_splits)
next
  case False
  then obtain raw where "path_abs cwd raw = Some p" "require_contained_path r p"
    using assms(1,3) by (auto simp: safe_qb_content_path_def Let_def split: option.splits if_splits)
  then show ?thesis using contained_inside[OF assms(3) _ assms(2)] by (auto simp: require_contained_path_def)
qed

lemma read_polls_inside:
  "read_polls cwd base d path polls = Inr p \<Longrightarrow> (\<And>d. cwd = Some d \<Longrightarrow> is_abs d) \<Longrightarrow>
   path_abs cwd base = Some r \<Longrightarrow> inside r path \<Longrightarrow> inside r p"
proof (induction cwd base d path polls rule: read_polls.induct)
  case (2 cwd base d path readable status polls)
  let ?next = "case status of Inl _ \<Rightarrow> path
     | Inr st \<Rightarrow> (case safe_qb_content_path cwd base st (dl_file_path d) of Inl _ \<Rightarrow> path | Inr p \<Rightarrow> p)"
  have "inside r ?next"
    using 2(4,5) safe_qb_content_path_inside[OF _ 2(3) 2(4)] by (simp split: sum.splits)
  then show ?case using 2 by (auto split: if_splits)
qed simp

lemma safe_qb_content_path_abs:
  "safe_qb_content_path cwd base st name = Inr p \<Longrightarrow> \<exists>r. path_abs cwd base = Some r"
  by (auto simp: safe_qb_content_path_def safe_qb_path_def split: if_splits option.splits)

lemma torrent_readable_inside:
  assumes "torrent_readable_path cwd base v d start cnt = Inr p" and "\<And>d. cwd = Some d \<Longrightarrow> is_abs d"
    and "path_abs cwd base = Some r"
  shows "inside r p"
  using assms(1) safe_qb_content_path_inside[OF _ assms(2,3)] read_polls_inside[OF _ assms(2,3)]
  by (auto simp: torrent_readable_path_def split: if_splits sum.splits option.splits)

lemma inside_abs: "inside r p \<Longrightarrow> path_abs cwd p = Some p"
  by (simp add: inside_def path_abs_def)

lemma readable_path_below:
  assumes "readable_range_path cwd base stat v d start cnt = Inr p"
    and "\<And>d. cwd = Some d \<Longrightarrow> is_abs d"
  shows "\<exists>r q. path_abs cwd base = Some r \<and> path_abs cwd p = Some q \<and> inside r q"
proof (cases "completed_local_file stat d")
  case True
  then show ?thesis
    using assms(1) contained_inside[OF _ _ assms(2)]
    by (auto simp: readable_range_path_def local_readable_path_def validate_source_path_def
        split: option.splits if_splits local_file.splits)
next
  case False
  then have t: "torrent_readable_path cwd base v d start cnt = Inr p"
    using assms(1) by (simp add: readable_range_path_def)
  then obtain r where r: "path_abs cwd base = Some r"
    using safe_qb_content_path_abs
    by (fastforce simp: torrent_readable_path_def split: if_splits sum.splits option.splits)
  have "inside r p" by (rule torrent_readable_inside[OF t assms(2) r])
  then show ?thesis using r inside_abs by blast
qed

text \<open>
  Property C5: the path handed out for a byte range, of a completed file or of a torrent in progress
  whose content moves meanwhile, lies at or below the download root, whatever paths the row, the
  torrent and the engine name.
\<close>

theorem readable_range_path_inside:
  assumes "readable_range_path cwd base stat v d start cnt = Inr p"
    and "\<And>d. cwd = Some d \<Longrightarrow> is_abs d"
  shows "\<exists>r q. path_abs cwd base = Some r \<and> path_abs cwd p = Some q \<and> inside r q"
  using assms by (rule readable_path_below)

lemma pieces_ready_all:
  "pieces_ready states first final \<Longrightarrow> first \<le> i \<Longrightarrow> i \<le> final \<Longrightarrow>
   i < int (length states) \<and> states ! nat i = 2"
proof -
  assume a: "pieces_ready states first final" "first \<le> i" "i \<le> final"
  then have "i \<in> int ` set [nat first ..< nat (final + 1)]"
    by (intro image_eqI[of _ _ "nat i"]) (auto simp: pieces_ready_def)
  then show ?thesis using a by (auto simp: pieces_ready_def list_all_iff)
qed

lemma go_div_nonneg: "0 \<le> a \<Longrightarrow> 0 < b \<Longrightarrow> go_div a b = a div b"
  by (simp add: go_div_def)

definition byte_present :: "piece_map \<Rightarrow> download \<Rightarrow> int \<Rightarrow> bool" where
  "byte_present pm d x =
     (let sz = (if pm_piece_size pm \<le> 0 then dl_piece_size d else pm_piece_size pm) in
      0 < sz \<and> x div sz < int (length (pm_states pm)) \<and> pm_states pm ! nat (x div sz) = 2)"

lemma wait_range_ready:
  assumes "wait_range polls d start cnt = None"
    and "0 \<le> dl_file_offset d" and "0 \<le> start" and "0 < cnt" and "dl_file_offset d + start + cnt < 2 ^ 63"
  shows "\<exists>pm. Inr pm \<in> set polls \<and>
    (\<forall>x. dl_file_offset d + start \<le> x \<and> x < dl_file_offset d + start + cnt \<longrightarrow> byte_present pm d x)"
  using assms
proof (induction polls d start cnt rule: wait_range.induct)
  case (3 pm polls d start cnt)
  let ?sz = "if pm_piece_size pm \<le> 0 then dl_piece_size d else pm_piece_size pm"
  let ?a = "dl_file_offset d + start" and ?b = "dl_file_offset d + start + cnt - 1"
  have sz: "0 < ?sz" using 3(2) by (auto simp: Let_def split: if_splits)
  have ids: "i64 ?a = ?a" "i64 ?b = ?b" using 3(3-6) by (auto intro!: i64_id)
  show ?case
  proof (cases "pieces_ready (pm_states pm) (go_div (i64 ?a) ?sz) (go_div (i64 ?b) ?sz)")
    case True
    then have ready: "pieces_ready (pm_states pm) (?a div ?sz) (?b div ?sz)"
      using ids sz 3(3-5) by (simp add: go_div_nonneg)
    have "byte_present pm d x" if "?a \<le> x" "x < ?a + cnt" for x
    proof -
      have "?a div ?sz \<le> x div ?sz" "x div ?sz \<le> ?b div ?sz"
        using that sz by (auto intro!: zdiv_mono1)
      then show ?thesis using pieces_ready_all[OF ready] sz by (simp add: byte_present_def Let_def)
    qed
    then show ?thesis by auto
  next
    case False
    then have "wait_range polls d start cnt = None" using 3(2) sz by (simp add: Let_def split: if_splits)
    then show ?thesis using 3 False sz by (auto simp: Let_def)
  qed
qed simp_all

text \<open>
  Property C6: a range of a torrent in progress is handed out only after the engine reported, for
  every byte of it, that the piece holding the byte is downloaded.
\<close>

theorem torrent_readable_pieces:
  assumes "torrent_readable_path cwd base v d start cnt = Inr p"
    and "0 \<le> dl_file_offset d" and "dl_file_offset d + start + cnt < 2 ^ 63"
  shows "\<exists>pm. Inr pm \<in> set (vw_pieces v) \<and>
    (\<forall>x. dl_file_offset d + start \<le> x \<and> x < dl_file_offset d + start + cnt \<longrightarrow> byte_present pm d x)"
proof (rule wait_range_ready)
  show "wait_range (vw_pieces v) d start cnt = None" "0 \<le> start" "0 < cnt"
    using assms(1) by (auto simp: torrent_readable_path_def range_outside_def
        split: if_splits sum.splits option.splits)
qed (use assms in auto)

lemma range_outside_exact:
  "0 \<le> start \<Longrightarrow> 0 < cnt \<Longrightarrow> start + cnt < 2 ^ 63 \<Longrightarrow>
   range_outside d start cnt \<longleftrightarrow> dl_size_bytes d < start + cnt"
  by (simp add: range_outside_def i64_id)

definition local_download :: download where
  "local_download = zero_download\<lparr>dl_progress := 1, dl_absolute_path := ''/srv/media/a/b.mkv'',
     dl_file_path := ''a/b.mkv'', dl_size_bytes := 10\<rparr>"

lemmas path_eval = path_abs_def is_abs_def clean_def path_rel_def elems_def outside_def has_prefix_def
  has_suffix_def Let_def path_join_def

lemma local_download_readable:
  "readable_range_path None ''/srv/media'' (\<lambda>_. Stat_File 10)
     \<lparr>vw_owner = False, vw_status = Inl [], vw_prepare = None, vw_pieces = [], vw_reads = []\<rparr>
     local_download 2 8 = Inr ''/srv/media/a/b.mkv''"
  by (simp add: readable_range_path_def completed_local_file_def local_download_def zero_download_def
      local_readable_path_def validate_source_path_def range_outside_def i64_id path_eval)

theorem readable_range_path_inside_witness:
  "\<exists>r q. path_abs None ''/srv/media'' = Some r \<and> path_abs None ''/srv/media/a/b.mkv'' = Some q \<and> inside r q"
  using readable_range_path_inside[OF local_download_readable] by simp

definition torrent_download :: download where
  "torrent_download = zero_download\<lparr>dl_file_path := ''b.mkv'', dl_size_bytes := 10, dl_file_offset := 4\<rparr>"

definition torrent_view :: engine_view where
  "torrent_view = \<lparr>vw_owner = True, vw_status = Inr (zero_download_status\<lparr>ds_save_path := ''/srv/media''\<rparr>),
     vw_prepare = None, vw_pieces = [Inr \<lparr>pm_states = [2, 0, 1], pm_piece_size = 4\<rparr>,
       Inr \<lparr>pm_states = [2, 2, 2], pm_piece_size = 4\<rparr>], vw_reads = [((\<lambda>_. True), Inl [])]\<rparr>"

lemma torrent_download_readable:
  "torrent_readable_path None ''/srv/media'' torrent_view torrent_download 2 6 = Inr ''/srv/media/b.mkv''"
  by (simp add: torrent_readable_path_def range_outside_def i64_id torrent_view_def torrent_download_def
      zero_download_def zero_download_status_def safe_qb_content_path_def safe_qb_path_def safe_join_def
      path_eval go_div_def pieces_ready_def upt_rec)

theorem torrent_readable_pieces_witness:
  "\<exists>pm. Inr pm \<in> set (vw_pieces torrent_view) \<and> byte_present pm torrent_download 11"
  using torrent_readable_pieces[OF torrent_download_readable]
  by (force simp: torrent_download_def zero_download_def)

end
