(* ===== verification/Go_Regexp.thy ===== *)
theory Go_Regexp
  imports Go_Prelude
begin

text \<open>
  The regular expressions the server compiles with Go's \<open>regexp\<close>, and the text functions around them.
  \<open>runs s r (i, c)\<close> lists the ways \<open>r\<close> matches \<open>s\<close> from byte \<open>i\<close> on, the preferred one first, with
  the captures added to \<open>c\<close>: Go's search is leftmost-first, so \<open>rx_find\<close> takes the first way at the
  first start that has one.  Case folding under \<open>(?i)\<close> is that of the ASCII letters.
\<close>

subsection \<open>Text\<close>

text \<open>\<open>strconv.Itoa\<close>\<close>

fun nat_text :: "nat \<Rightarrow> string" where
  "nat_text n = (if n < 10 then [char_of (48 + n)] else nat_text (n div 10) @ [char_of (48 + n mod 10)])"

definition int_text :: "int \<Rightarrow> string" where
  "int_text i = (if i < 0 then ''-'' @ nat_text (nat (- i)) else nat_text (nat i))"

definition upper_byte :: "char \<Rightarrow> char" where
  "upper_byte c = (let n = of_char c :: nat in if 97 \<le> n \<and> n \<le> 122 then char_of (n - 32) else c)"

definition to_upper :: "string \<Rightarrow> string" where
  "to_upper s = map upper_byte s"

text \<open>\<open>strconv.Atoi\<close> of a captured run of digits; the code ignores its error.\<close>

definition digit_value :: "char \<Rightarrow> int" where
  "digit_value c = int (of_char c) - 48"

definition atoi_digits :: "string \<Rightarrow> int" where
  "atoi_digits s = foldl (\<lambda>a c. 10 * a + digit_value c) 0 s"

declare nat_text.simps [simp del]

subsection \<open>Regular expressions\<close>

datatype rx = Cls "char \<Rightarrow> bool" | Lit string | Cat rx rx | Alt rx rx | Opt rx
  | Many "char \<Rightarrow> bool" | Cap nat rx | Rune "char \<Rightarrow> bool" | Line_Start | Line_End | Word_Edge

type_synonym capture = "nat \<times> nat \<times> nat"

definition word_byte :: "char \<Rightarrow> bool" where
  "word_byte c = (let n = of_char c :: nat in
     (48 \<le> n \<and> n \<le> 57) \<or> (65 \<le> n \<and> n \<le> 90) \<or> n = 95 \<or> (97 \<le> n \<and> n \<le> 122))"

definition word_at :: "string \<Rightarrow> nat \<Rightarrow> bool" where
  "word_at s i = (i < length s \<and> word_byte (s ! i))"

definition word_edge :: "string \<Rightarrow> nat \<Rightarrow> bool" where
  "word_edge s i = ((i > 0 \<and> word_at s (i - 1)) \<noteq> word_at s i)"

text \<open>The bytes of the UTF-8 rune that starts with \<open>c\<close>.\<close>

definition rune_width :: "char \<Rightarrow> nat" where
  "rune_width c = (let n = of_char c :: nat in
     if n < 192 then 1 else if n < 224 then 2 else if n < 240 then 3 else 4)"

fun runs :: "string \<Rightarrow> rx \<Rightarrow> nat \<times> capture list \<Rightarrow> (nat \<times> capture list) list" where
  "runs s (Cls p) (i, c) = (if i < length s \<and> p (s ! i) then [(i + 1, c)] else [])"
| "runs s (Lit w) (i, c) = (if take (length w) (drop i s) = w then [(i + length w, c)] else [])"
| "runs s (Cat a b) st = concat (map (runs s b) (runs s a st))"
| "runs s (Alt a b) st = runs s a st @ runs s b st"
| "runs s (Opt a) st = runs s a st @ [st]"
| "runs s (Many p) (i, c) =
     map (\<lambda>k. (i + k, c)) (rev [0 ..< Suc (length (takeWhile p (drop i s)))])"
| "runs s (Cap k a) (i, c) = map (\<lambda>(j, d). (j, d @ [(k, i, j)])) (runs s a (i, c))"
| "runs s (Rune p) (i, c) =
     (if i < length s \<and> p (s ! i) \<and> i + rune_width (s ! i) \<le> length s
      then [(i + rune_width (s ! i), c)] else [])"
| "runs s Line_Start (i, c) = (if i = 0 then [(i, c)] else [])"
| "runs s Line_End (i, c) = (if i = length s then [(i, c)] else [])"
| "runs s Word_Edge (i, c) = (if word_edge s i then [(i, c)] else [])"

text \<open>\<open>a{m,m+n}\<close>, greedy; \<open>FindStringSubmatchIndex\<close>: the span and the captures.\<close>

fun opt_times :: "nat \<Rightarrow> rx \<Rightarrow> rx" where
  "opt_times 0 a = Lit []"
| "opt_times (Suc n) a = Opt (Cat a (opt_times n a))"

fun times_rx :: "nat \<Rightarrow> nat \<Rightarrow> rx \<Rightarrow> rx" where
  "times_rx 0 n a = opt_times n a"
| "times_rx (Suc m) n a = Cat a (times_rx m n a)"

fun cats :: "rx list \<Rightarrow> rx" where
  "cats [] = Lit []"
| "cats [a] = a"
| "cats (a # b # rs) = Cat a (cats (b # rs))"

fun alts :: "rx list \<Rightarrow> rx" where
  "alts [] = Cls (\<lambda>_. False)"
| "alts [a] = a"
| "alts (a # b # rs) = Alt a (alts (b # rs))"

fun find_from :: "string \<Rightarrow> rx \<Rightarrow> nat list \<Rightarrow> (nat \<times> nat \<times> capture list) option" where
  "find_from s r [] = None"
| "find_from s r (i # is) =
     (case runs s r (i, []) of [] \<Rightarrow> find_from s r is | (j, c) # _ \<Rightarrow> Some (i, j, c))"

definition rx_find :: "rx \<Rightarrow> string \<Rightarrow> (nat \<times> nat \<times> capture list) option" where
  "rx_find r s = find_from s r [0 ..< Suc (length s)]"

definition slice :: "string \<Rightarrow> nat \<Rightarrow> nat \<Rightarrow> string" where
  "slice s i j = take (j - i) (drop i s)"

definition captured :: "string \<Rightarrow> capture list \<Rightarrow> nat \<Rightarrow> string option" where
  "captured s c k = map_option (\<lambda>(i, j). slice s i j) (map_of c k)"

subsection \<open>Building patterns\<close>

definition one_of :: "string \<Rightarrow> rx" where
  "one_of cs = Cls (\<lambda>c. c \<in> set cs)"

text \<open>A literal under \<open>(?i)\<close>.\<close>

definition word_ci :: "string \<Rightarrow> rx" where
  "word_ci w = cats (map (\<lambda>x. Cls (\<lambda>c. lower_byte c = x)) w)"

definition digits_rx :: "nat \<Rightarrow> nat \<Rightarrow> rx" where
  "digits_rx m n = times_rx m (n - m) (Cls is_digit)"

definition rx_space :: "char \<Rightarrow> bool" where
  "rx_space c = (c \<in> set [CHR 9, CHR 10, CHR 12, CHR 13, CHR '' ''])"

text \<open>\<open>[-\<dots>]\<close>: the hyphen and the three bytes of the en dash.\<close>

definition dash_rx :: rx where
  "dash_rx = Alt (one_of ''-'') (Lit [CHR 0xE2, CHR 0x80, CHR 0x93])"


subsection \<open>Facts\<close>

lemma prefix_fits: "take (length w) (drop i s) = w \<Longrightarrow> i \<le> length s \<Longrightarrow> i + length w \<le> length s"
  by (metis add_le_cancel_left le_add_diff_inverse length_drop length_take min.cobounded1)

lemma take_while_fits: "i \<le> length s \<Longrightarrow> i + length (takeWhile p (drop i s)) \<le> length s"
  by (metis add_le_cancel_left le_add_diff_inverse length_drop length_takeWhile_le)

lemma runs_bounds:
  "(j, d) \<in> set (runs s r (i, c)) \<Longrightarrow> i \<le> length s \<Longrightarrow> i \<le> j \<and> j \<le> length s"
proof (induction r arbitrary: i c j d)
  case (Lit w) then show ?case using prefix_fits by auto
next
  case (Cat a b)
  then obtain k e where k: "(k, e) \<in> set (runs s a (i, c))" "(j, d) \<in> set (runs s b (k, e))" by auto
  then have "i \<le> k \<and> k \<le> length s" using Cat by blast
  then show ?case using Cat.IH(2)[OF k(2)] by auto
next
  case (Many p)
  then obtain k where k: "j = i + k" "k \<le> length (takeWhile p (drop i s))" by auto
  then show ?case using take_while_fits[OF Many.prems(2), of p] by linarith
qed (auto split: if_splits)

primrec caps_of :: "rx \<Rightarrow> (nat \<times> rx) list" where
  "caps_of (Cls p) = []"
| "caps_of (Lit w) = []"
| "caps_of (Cat a b) = caps_of a @ caps_of b"
| "caps_of (Alt a b) = caps_of a @ caps_of b"
| "caps_of (Opt a) = caps_of a"
| "caps_of (Many p) = []"
| "caps_of (Cap k a) = caps_of a @ [(k, a)]"
| "caps_of (Rune p) = []"
| "caps_of Line_Start = []"
| "caps_of Line_End = []"
| "caps_of Word_Edge = []"

text \<open>Where a capture of a match comes from.\<close>

definition capture_of :: "string \<Rightarrow> rx \<Rightarrow> capture \<Rightarrow> bool" where
  "capture_of s r x = (case x of (k, i, j) \<Rightarrow> i \<le> length s \<and>
     (\<exists>a c d. (k, a) \<in> set (caps_of r) \<and> (j, d) \<in> set (runs s a (i, c))))"

lemma capture_of_mono: "capture_of s a x \<Longrightarrow> set (caps_of a) \<subseteq> set (caps_of r) \<Longrightarrow> capture_of s r x"
  unfolding capture_of_def by (cases x) blast

lemma capture_of_intros:
  "capture_of s a x \<Longrightarrow> capture_of s (Cat a b) x" "capture_of s b x \<Longrightarrow> capture_of s (Cat a b) x"
  "capture_of s a x \<Longrightarrow> capture_of s (Alt a b) x" "capture_of s b x \<Longrightarrow> capture_of s (Alt a b) x"
  "capture_of s a x \<Longrightarrow> capture_of s (Opt a) x" "capture_of s a x \<Longrightarrow> capture_of s (Cap n a) x"
  by (erule capture_of_mono, auto)+

lemma runs_captures:
  "(j, d) \<in> set (runs s r (i, c)) \<Longrightarrow> i \<le> length s \<Longrightarrow> x \<in> set d \<Longrightarrow> x \<in> set c \<or> capture_of s r x"
proof (induction r arbitrary: i c j d)
  case (Cat a b)
  then obtain k e where k: "(k, e) \<in> set (runs s a (i, c))" "(j, d) \<in> set (runs s b (k, e))" by auto
  then have "k \<le> length s" using runs_bounds Cat.prems(2) by blast
  then have "x \<in> set e \<or> capture_of s b x" using Cat.IH(2)[OF k(2)] Cat.prems by blast
  then show ?case using Cat.IH(1)[OF k(1) Cat.prems(2)] capture_of_intros(1,2) by blast
next
  case (Alt a b)
  from Alt.prems(1) consider "(j, d) \<in> set (runs s a (i, c))" | "(j, d) \<in> set (runs s b (i, c))" by auto
  then have "x \<in> set c \<or> capture_of s a x \<or> capture_of s b x"
    by cases (use Alt.IH Alt.prems in blast)+
  then show ?case using capture_of_intros(3,4) by blast
next
  case (Opt a)
  from Opt.prems(1) consider "(j, d) \<in> set (runs s a (i, c))" | "d = c" by auto
  then have "x \<in> set c \<or> capture_of s a x" by cases (use Opt.IH Opt.prems in blast)+
  then show ?case using capture_of_intros(5) by blast
next
  case (Cap n a)
  then obtain e where e: "(j, e) \<in> set (runs s a (i, c))" "d = e @ [(n, i, j)]" by auto
  consider "x \<in> set e" | "x = (n, i, j)" using Cap.prems(3) e(2) by auto
  then show ?case
  proof cases
    case 1
    then show ?thesis using Cap.IH[OF e(1) Cap.prems(2)] capture_of_intros(6) by blast
  next
    case 2
    have "(n, a) \<in> set (caps_of (Cap n a))" by simp
    then have "capture_of s (Cap n a) x" using e(1) Cap.prems(2) 2 unfolding capture_of_def by blast
    then show ?thesis ..
  qed
qed (auto split: if_splits)

lemma find_from_Some: "find_from s r is = Some (i, j, c) \<Longrightarrow> i \<in> set is \<and> (j, c) \<in> set (runs s r (i, []))"
  by (induction "is") (auto split: list.splits)

lemma rx_find_Some: "rx_find r s = Some (i, j, c) \<Longrightarrow> i \<le> length s \<and> (j, c) \<in> set (runs s r (i, []))"
  unfolding rx_find_def by (drule find_from_Some) auto

lemma rx_find_bounds: "rx_find r s = Some (i, j, c) \<Longrightarrow> i \<le> j \<and> j \<le> length s"
  using rx_find_Some[of r s i j c] runs_bounds[of j c s r i "[]"] by auto

lemma rx_find_capture: "rx_find r s = Some (i, j, c) \<Longrightarrow> x \<in> set c \<Longrightarrow> capture_of s r x"
  using rx_find_Some[of r s i j c] runs_captures[of j c s r i "[]" x] by auto

subsection \<open>Runs of digits\<close>

lemma slice_Suc: "i < length s \<Longrightarrow> i < j \<Longrightarrow> slice s i j = s ! i # slice s (Suc i) j"
  unfolding slice_def by (metis Cons_nth_drop_Suc Suc_diff_Suc take_Suc_Cons)

lemma runs_opt_times:
  "(j, d) \<in> set (runs s (opt_times n (Cls p)) (i, c)) \<Longrightarrow>
   i \<le> j \<and> j \<le> i + n \<and> list_all p (slice s i j)"
proof (induction n arbitrary: i c)
  case 0 then show ?case by (simp add: slice_def)
next
  case (Suc n)
  consider "j = i" | "i < length s" "p (s ! i)" "(j, d) \<in> set (runs s (opt_times n (Cls p)) (Suc i, c))"
    using Suc.prems by (auto split: if_splits)
  then show ?case
  proof cases
    case 2
    from Suc.IH[OF 2(3)] show ?thesis using 2(1,2) by (auto simp: slice_Suc)
  qed (simp add: slice_def)
qed

lemma runs_times:
  "(j, d) \<in> set (runs s (times_rx m n (Cls p)) (i, c)) \<Longrightarrow>
   i + m \<le> j \<and> j \<le> i + m + n \<and> list_all p (slice s i j)"
proof (induction m arbitrary: i c)
  case 0 then show ?case using runs_opt_times by fastforce
next
  case (Suc m)
  then have r: "i < length s" "p (s ! i)" "(j, d) \<in> set (runs s (times_rx m n (Cls p)) (Suc i, c))"
    by (auto split: if_splits)
  from Suc.IH[OF r(3)] show ?case using r(1,2) by (auto simp: slice_Suc)
qed

lemma runs_digits:
  "(j, d) \<in> set (runs s (digits_rx m n) (i, c)) \<Longrightarrow> m \<le> n \<Longrightarrow>
   i + m \<le> j \<and> j \<le> i + n \<and> list_all is_digit (slice s i j)"
  unfolding digits_rx_def using runs_times by fastforce

lemma digit_value_range: "is_digit c \<Longrightarrow> 0 \<le> digit_value c \<and> digit_value c \<le> 9"
  by (auto simp: is_digit_def digit_value_def Let_def)

lemma atoi_fold:
  "list_all is_digit s \<Longrightarrow> 0 \<le> a \<Longrightarrow> a < b \<Longrightarrow>
   0 \<le> foldl (\<lambda>a c. 10 * a + digit_value c) a s \<and> foldl (\<lambda>a c. 10 * a + digit_value c) a s < b * 10 ^ length s"
proof (induction s arbitrary: a b)
  case (Cons c s)
  have "0 \<le> 10 * a + digit_value c" "10 * a + digit_value c < 10 * b"
    using Cons.prems digit_value_range[of c] by auto
  from Cons.IH[OF _ this] Cons.prems show ?case by (simp add: algebra_simps)
qed simp

lemma atoi_fold_low: "list_all is_digit s \<Longrightarrow> a * 10 ^ length s \<le> foldl (\<lambda>a c. 10 * a + digit_value c) a s"
proof (induction s arbitrary: a)
  case (Cons c s)
  have "10 * a * 10 ^ length s \<le> (10 * a + digit_value c) * 10 ^ length s"
    using Cons.prems digit_value_range[of c] by (simp add: mult_right_mono)
  also have "\<dots> \<le> foldl (\<lambda>a c. 10 * a + digit_value c) (10 * a + digit_value c) s"
    using Cons by simp
  finally show ?case by (simp add: algebra_simps)
qed simp

lemma atoi_digits_range: "list_all is_digit s \<Longrightarrow> 0 \<le> atoi_digits s \<and> atoi_digits s < 10 ^ length s"
  unfolding atoi_digits_def using atoi_fold[of s 0 1] by simp

lemma length_slice: "length (slice s i j) = min (j - i) (length s - i)"
  by (simp add: slice_def min.commute)

lemma digits_capture_range:
  assumes "(j, d) \<in> set (runs s (digits_rx m n) (i, c))" and "m \<le> n"
  shows "0 \<le> atoi_digits (slice s i j) \<and> atoi_digits (slice s i j) < 10 ^ n"
proof -
  have r: "i + m \<le> j" "j \<le> i + n" "list_all is_digit (slice s i j)" using runs_digits[OF assms] by auto
  then have "length (slice s i j) \<le> n" by (simp add: length_slice)
  then have "(10::int) ^ length (slice s i j) \<le> 10 ^ n" by (simp add: power_increasing)
  then show ?thesis using atoi_digits_range[OF r(3)] by (meson order.strict_trans2)
qed

end
