(* ===== verification/Torrent_Meta.thy ===== *)
theory Torrent_Meta
  imports Domain_Rules "HOL-Library.AList"
begin

text \<open>
  Torrent metadata (\<open>internal/application/torrentmeta.go\<close>): the bencode reader \<open>readBNode\<close>, the
  manifest \<open>parseTorrentManifest\<close> builds from it, the file path check and the cached lookup of a
  release's metainfo and manifest.

  A \<open>bnode\<close> of the code is a struct of which \<open>readBNode\<close> fills one field; a lookup in the empty
  fields of the others yields the zero value, which the selectors below write out.  The reader keeps
  the code's positions.  Its recursion is bounded by fuel; \<open>read_node_fuel_enough\<close> shows that the
  fuel \<open>read_bnode\<close> starts with is never used up.  \<open>Bn_Panic\<close> is the run-time panic of a slice
  expression whose bounds are out of range.
\<close>

subsection \<open>Decimal numbers\<close>

definition digit_val :: "char \<Rightarrow> nat" where
  "digit_val c = of_char c - 48"

fun dec_nat :: "nat \<Rightarrow> string \<Rightarrow> nat option" where
  "dec_nat acc [] = Some acc"
| "dec_nat acc (c # s) = (if is_digit c then dec_nat (acc * 10 + digit_val c) s else None)"

text \<open>\<open>strconv.ParseInt(s, 10, 64)\<close> and, on a 64-bit platform, \<open>strconv.Atoi\<close>.\<close>

definition parse_int64 :: "string \<Rightarrow> int option" where
  "parse_int64 s =
     (let (neg, ds) = (case s of
            c # r \<Rightarrow> if c = CHR ''-'' then (True, r) else if c = CHR ''+'' then (False, r) else (False, s)
          | [] \<Rightarrow> (False, s)) in
      if ds = [] then None
      else (case dec_nat 0 ds of
              None \<Rightarrow> None
            | Some n \<Rightarrow>
                if neg then (if int n \<le> 2 ^ 63 then Some (- int n) else None)
                else if int n < 2 ^ 63 then Some (int n) else None))"

definition digit_char :: "nat \<Rightarrow> char" where
  "digit_char d = char_of (48 + d)"

fun show_nat :: "nat \<Rightarrow> string" where
  "show_nat n = (if n < 10 then [digit_char n] else show_nat (n div 10) @ [digit_char (n mod 10)])"

declare show_nat.simps [simp del]

subsection \<open>Bencoded nodes\<close>

datatype bnode = BValue string | BList "bnode list" | BDict "(string \<times> bnode) list"

fun bn_value :: "bnode \<Rightarrow> string" where
  "bn_value (BValue s) = s" | "bn_value _ = []"

fun bn_list :: "bnode \<Rightarrow> bnode list" where
  "bn_list (BList l) = l" | "bn_list _ = []"

fun bn_dict :: "bnode \<Rightarrow> (string \<times> bnode) list" where
  "bn_dict (BDict d) = d" | "bn_dict _ = []"

definition bn_zero :: bnode where "bn_zero = BValue []"

definition bn_get :: "bnode \<Rightarrow> string \<Rightarrow> bnode" where
  "bn_get n key = (case map_of (bn_dict n) key of None \<Rightarrow> bn_zero | Some v \<Rightarrow> v)"

datatype bn_error = Bn_Invalid | Bn_Unterminated_Int | Bn_Unterminated_List | Bn_Unterminated_Dict
  | Bn_Invalid_String | Bn_Invalid_Length | Bn_Panic | Bn_Fuel
  | Bn_Size | Bn_No_Info | Bn_File_Length | Bn_Unsafe_Path

definition byte_index :: "char \<Rightarrow> string \<Rightarrow> nat option" where
  "byte_index c s = (let k = length (takeWhile (\<lambda>x. x \<noteq> c) s) in if k < length s then Some k else None)"

definition read_string :: "string \<Rightarrow> nat \<Rightarrow> bn_error + bnode \<times> nat" where
  "read_string data pos =
     (case byte_index CHR '':'' (drop pos data) of
        None \<Rightarrow> Inl Bn_Invalid_String
      | Some k \<Rightarrow>
          (let colon = pos + k in
           case parse_int64 (take k (drop pos data)) of
             None \<Rightarrow> Inl Bn_Invalid_Length
           | Some len \<Rightarrow>
               if len < 0 \<or> i64 (int colon + 1 + len) > int (length data) then Inl Bn_Invalid_Length
               else if i64 (int colon + 1 + len) < int colon + 1 then Inl Bn_Panic
               else (let stop = nat (i64 (int colon + 1 + len)) in
                     Inr (BValue (take (stop - (colon + 1)) (drop (colon + 1) data)), stop))))"

definition read_int_node :: "string \<Rightarrow> nat \<Rightarrow> bn_error + bnode \<times> nat" where
  "read_int_node data pos =
     (case byte_index CHR ''e'' (drop (pos + 1) data) of
        None \<Rightarrow> Inl Bn_Unterminated_Int
      | Some k \<Rightarrow> Inr (BValue (take k (drop (pos + 1) data)), pos + 1 + k + 1))"

fun read_node :: "nat \<Rightarrow> string \<Rightarrow> nat \<Rightarrow> bn_error + bnode \<times> nat"
  and read_items :: "nat \<Rightarrow> string \<Rightarrow> nat \<Rightarrow> bnode list \<Rightarrow> bn_error + bnode \<times> nat"
  and read_entries :: "nat \<Rightarrow> string \<Rightarrow> nat \<Rightarrow> (string \<times> bnode) list \<Rightarrow> bn_error + bnode \<times> nat" where
  "read_node 0 data pos = Inl Bn_Fuel"
| "read_node (Suc n) data pos =
     (if pos \<ge> length data then Inl Bn_Invalid
      else if data ! pos = CHR ''i'' then read_int_node data pos
      else if data ! pos = CHR ''l'' then read_items n data (pos + 1) []
      else if data ! pos = CHR ''d'' then read_entries n data (pos + 1) []
      else read_string data pos)"
| "read_items 0 data pos acc = Inl Bn_Fuel"
| "read_items (Suc n) data pos acc =
     (if pos \<ge> length data then Inl Bn_Unterminated_List
      else if data ! pos = CHR ''e'' then Inr (BList acc, pos + 1)
      else (case read_node n data pos of
              Inl e \<Rightarrow> Inl e
            | Inr (child, next) \<Rightarrow> read_items n data next (acc @ [child])))"
| "read_entries 0 data pos acc = Inl Bn_Fuel"
| "read_entries (Suc n) data pos acc =
     (if pos \<ge> length data then Inl Bn_Unterminated_Dict
      else if data ! pos = CHR ''e'' then Inr (BDict acc, pos + 1)
      else (case read_node n data pos of
              Inl e \<Rightarrow> Inl e
            | Inr (key, next) \<Rightarrow>
                (case read_node n data next of
                   Inl e \<Rightarrow> Inl e
                 | Inr (v, next2) \<Rightarrow> read_entries n data next2 (AList.update (bn_value key) v acc))))"

definition read_fuel :: "string \<Rightarrow> nat" where
  "read_fuel data = 2 * length data + 3"

definition read_bnode :: "string \<Rightarrow> nat \<Rightarrow> bn_error + bnode \<times> nat" where
  "read_bnode data pos = read_node (read_fuel data) data pos"

subsection \<open>The manifest\<close>

definition bint :: "bnode \<Rightarrow> bn_error + int" where
  "bint node = (case parse_int64 (bn_value node) of
     None \<Rightarrow> Inl Bn_File_Length
   | Some v \<Rightarrow> if v < 0 then Inl Bn_File_Length else Inr v)"

definition safe_torrent_path :: "string \<Rightarrow> string option" where
  "safe_torrent_path path =
     (let p = trim_by (\<lambda>c. c = CHR ''/'') (map (\<lambda>c. if c = CHR 0x5C then CHR ''/'' else c) path) in
      if p = [] then None
      else if list_ex (\<lambda>part. part = [] \<or> part = ''.'' \<or> part = ''..'') (split_on CHR ''/'' p) then None
      else Some p)"

definition file_ext :: "string \<Rightarrow> string" where
  "file_ext path =
     (let tail = takeWhile (\<lambda>c. c \<noteq> CHR ''/'') (rev path) in
      if CHR ''.'' \<in> set tail then CHR ''.'' # rev (takeWhile (\<lambda>c. c \<noteq> CHR ''.'') tail) else [])"

definition playable_exts :: "string list" where
  "playable_exts = [''.mkv'', ''.mp4'', ''.avi'', ''.mov'', ''.m4v'', ''.webm'', ''.ts'', ''.mp3'',
     ''.m4a'', ''.flac'', ''.ogg'', ''.opus'']"

definition is_playable :: "string \<Rightarrow> bool" where
  "is_playable path = (to_lower (file_ext path) \<in> set playable_exts)"

fun manifest_rows :: "bnode list \<Rightarrow> nat \<Rightarrow> int \<Rightarrow> bn_error + torrent_file list" where
  "manifest_rows [] index offset = Inr []"
| "manifest_rows (row # rows) index offset =
     (case bint (bn_get row ''length'') of
        Inl e \<Rightarrow> Inl e
      | Inr len \<Rightarrow>
          (case safe_torrent_path (join_with ''/'' (map bn_value (bn_list (bn_get row ''path'')))) of
             None \<Rightarrow> Inl Bn_Unsafe_Path
           | Some path \<Rightarrow>
               (case manifest_rows rows (index + 1) (i64 (offset + len)) of
                  Inl e \<Rightarrow> Inl e
                | Inr fs \<Rightarrow> Inr (\<lparr>tf_index = int index, tf_path = path, tf_size_bytes = len,
                     tf_progress = 0, tf_priority = 0, tf_offset = offset,
                     tf_playable = is_playable path\<rparr> # fs))))"

definition manifest_single :: "bnode \<Rightarrow> bn_error + torrent_file list" where
  "manifest_single info =
     (case bint (bn_get info ''length'') of
        Inl e \<Rightarrow> Inl e
      | Inr len \<Rightarrow>
          (let raw = bn_value (bn_get info ''name''); name = (if raw = [] then ''content'' else raw) in
           case safe_torrent_path name of
             None \<Rightarrow> Inl Bn_Unsafe_Path
           | Some path \<Rightarrow> Inr [\<lparr>tf_index = 0, tf_path = path, tf_size_bytes = len, tf_progress = 0,
               tf_priority = 0, tf_offset = 0, tf_playable = is_playable path\<rparr>]))"

definition manifest_files :: "bnode \<Rightarrow> bn_error + torrent_file list" where
  "manifest_files nd =
     (case map_of (bn_dict nd) ''info'' of
        None \<Rightarrow> Inl Bn_No_Info
      | Some info \<Rightarrow>
          (case map_of (bn_dict info) ''files'' of
             Some multi \<Rightarrow> manifest_rows (bn_list multi) 0 0
           | None \<Rightarrow> manifest_single info))"

definition parse_torrent_manifest ::
  "string \<Rightarrow> string \<Rightarrow> go_time \<Rightarrow> bn_error + torrent_manifest" where
  "parse_torrent_manifest release_id data now =
     (if length data = 0 \<or> length data \<ge> 16 * 2 ^ 20 then Inl Bn_Size
      else (case read_bnode data 0 of
              Inl e \<Rightarrow> Inl e
            | Inr (top_node, _) \<Rightarrow>
                (case manifest_files top_node of
                   Inl e \<Rightarrow> Inl e
                 | Inr files \<Rightarrow> Inr \<lparr>man_release_id = release_id, man_files = files,
                     man_metainfo = data, man_fetched_at = now\<rparr>)))"

definition manifest_total :: "torrent_manifest \<Rightarrow> int" where
  "manifest_total m = foldl (\<lambda>total f. i64 (total + tf_size_bytes f)) 0 (man_files m)"

subsection \<open>The reader\<close>

lemma byte_index_Some: "byte_index c s = Some k \<Longrightarrow> k < length s \<and> s ! k = c \<and> c \<notin> set (take k s)"
proof -
  assume "byte_index c s = Some k"
  then have k: "k = length (takeWhile (\<lambda>x. x \<noteq> c) s)" "k < length s"
    by (auto simp: byte_index_def Let_def split: if_splits)
  have "take k s = takeWhile (\<lambda>x. x \<noteq> c) s" unfolding k(1) by (rule takeWhile_eq_take[symmetric])
  then have "c \<notin> set (take k s)" by (auto dest: set_takeWhileD)
  moreover have "s ! k = c" using k nth_length_takeWhile[of "\<lambda>x. x \<noteq> c" s] by simp
  ultimately show ?thesis using k(2) by simp
qed

lemma byte_index_append [simp]: "c \<notin> set s \<Longrightarrow> byte_index c (s @ c # t) = Some (length s)"
  by (simp add: byte_index_def takeWhile_append)

lemma read_string_progress:
  "read_string data pos = Inr (nd, next) \<Longrightarrow> pos < next \<and> next \<le> length data"
  by (auto simp: read_string_def Let_def split: option.splits if_splits)

lemma read_int_node_progress:
  "read_int_node data pos = Inr (nd, next) \<Longrightarrow> pos < next \<and> next \<le> length data"
  by (auto simp: read_int_node_def split: option.splits dest: byte_index_Some)

lemma read_progress:
  "read_node n data pos = Inr (nd, next) \<Longrightarrow> pos < next \<and> next \<le> length data"
  "read_items n data pos acc = Inr (nd, next) \<Longrightarrow> pos < next \<and> next \<le> length data"
  "read_entries n data pos acc2 = Inr (nd, next) \<Longrightarrow> pos < next \<and> next \<le> length data"
proof (induction n data pos and n data pos acc and n data pos acc2 arbitrary: nd "next" and nd "next" and nd "next"
    rule: read_node_read_items_read_entries.induct)
  case (2 n data pos)
  then show ?case
    by (fastforce split: if_splits dest: read_string_progress read_int_node_progress)
next
  case (4 n data pos acc)
  then show ?case by (auto split: if_splits sum.splits) (metis less_trans)+
next
  case (6 n data pos acc)
  then show ?case by (auto split: if_splits sum.splits) (metis less_trans)+
qed auto

lemma read_string_no_fuel: "read_string data pos \<noteq> Inl Bn_Fuel"
  by (auto simp: read_string_def Let_def split: option.splits)

lemma read_int_node_no_fuel: "read_int_node data pos \<noteq> Inl Bn_Fuel"
  by (auto simp: read_int_node_def split: option.splits)

lemma read_fuel_enough:
  "2 * (length data - pos) + 2 \<le> n \<Longrightarrow> read_node n data pos \<noteq> Inl Bn_Fuel"
  "2 * (length data - pos) + 3 \<le> n \<Longrightarrow> read_items n data pos acc \<noteq> Inl Bn_Fuel"
  "2 * (length data - pos) + 3 \<le> n \<Longrightarrow> read_entries n data pos acc2 \<noteq> Inl Bn_Fuel"
proof (induction n data pos and n data pos acc and n data pos acc2
    rule: read_node_read_items_read_entries.induct)
  case (2 n data pos)
  then show ?case by (auto simp: read_string_no_fuel read_int_node_no_fuel)
next
  case (4 n data pos acc)
  show ?case
  proof (cases "read_node n data pos")
    case (Inr r)
    obtain child stop where r: "r = (child, stop)" by (cases r)
    have "pos < stop" using read_progress(1) Inr r by blast
    then show ?thesis using 4 Inr r by auto
  qed (use 4 in auto)
next
  case (6 n data pos acc)
  show ?case
  proof (cases "read_node n data pos")
    case (Inr r)
    obtain key stop where r: "r = (key, stop)" by (cases r)
    have less: "pos < stop" using read_progress(1) Inr r by blast
    show ?thesis
    proof (cases "read_node n data stop")
      case (Inl e)
      then show ?thesis using 6 Inr r less by auto
    next
      case i2: (Inr r2)
      obtain v stop2 where r2: "r2 = (v, stop2)" by (cases r2)
      have "stop < stop2" using read_progress(1) i2 r2 by blast
      then show ?thesis using 6 Inr r less i2 r2 by auto
    qed
  qed (use 6 in auto)
qed auto

lemma read_bnode_no_fuel: "read_bnode data pos \<noteq> Inl Bn_Fuel"
  unfolding read_bnode_def by (rule read_fuel_enough) (simp add: read_fuel_def)

subsection \<open>Round trip\<close>

datatype btext = TStr string | TInt string | TList "btext list" | TDict "(string \<times> btext) list"

fun btext_ok :: "btext \<Rightarrow> bool" where
  "btext_ok (TStr s) = True"
| "btext_ok (TInt s) = (CHR ''e'' \<notin> set s)"
| "btext_ok (TList ts) = (\<forall>t \<in> set ts. btext_ok t)"
| "btext_ok (TDict d) = (\<forall>p \<in> set d. btext_ok (snd p))"

definition encode_str :: "string \<Rightarrow> string" where
  "encode_str s = show_nat (length s) @ CHR '':'' # s"

fun encode :: "btext \<Rightarrow> string" where
  "encode (TStr s) = encode_str s"
| "encode (TInt s) = CHR ''i'' # s @ ''e''"
| "encode (TList ts) = CHR ''l'' # concat (map encode ts) @ ''e''"
| "encode (TDict d) = CHR ''d'' # concat (map (\<lambda>p. encode_str (fst p) @ encode (snd p)) d) @ ''e''"

fun node_of :: "btext \<Rightarrow> bnode" where
  "node_of (TStr s) = BValue s"
| "node_of (TInt s) = BValue s"
| "node_of (TList ts) = BList (map node_of ts)"
| "node_of (TDict d) = BDict (foldl (\<lambda>acc p. AList.update (fst p) (node_of (snd p)) acc) [] d)"

lemma digit_char_facts: "d < 10 \<Longrightarrow> is_digit (digit_char d) \<and> digit_val (digit_char d) = d"
  by (simp add: is_digit_def digit_char_def digit_val_def Let_def)

lemma show_nat_digits: "list_all is_digit (show_nat n)"
proof (induction n rule: show_nat.induct)
  case (1 n)
  then show ?case by (subst show_nat.simps) (auto simp: digit_char_facts)
qed

lemma show_nat_not_Nil [simp]: "show_nat n \<noteq> []"
  by (subst show_nat.simps) simp

lemma dec_nat_append:
  "dec_nat acc (s @ t) = (case dec_nat acc s of None \<Rightarrow> None | Some m \<Rightarrow> dec_nat m t)"
  by (induction acc s rule: dec_nat.induct) auto

lemma dec_nat_show: "dec_nat 0 (show_nat n) = Some n"
proof (induction n rule: show_nat.induct)
  case (1 n)
  then show ?case by (subst show_nat.simps) (auto simp: digit_char_facts dec_nat_append)
qed

lemma not_digit: "\<not> is_digit CHR '':''" "\<not> is_digit CHR ''-''" "\<not> is_digit CHR ''+''"
  "\<not> is_digit CHR ''i''" "\<not> is_digit CHR ''l''" "\<not> is_digit CHR ''d''"  "\<not> is_digit CHR ''e''"
  by (simp_all add: is_digit_def)

lemma show_nat_hd: "show_nat n = c # s \<Longrightarrow> is_digit c"
  using show_nat_digits[of n] by simp

lemma parse_int64_show: "int n < 2 ^ 63 \<Longrightarrow> parse_int64 (show_nat n) = Some (int n)"
  using dec_nat_show[of n] not_digit show_nat_hd[of n]
  by (cases "show_nat n") (auto simp: parse_int64_def)

lemma read_string_encode:
  assumes "int (length (pre @ encode_str s @ post)) < 2 ^ 63"
  shows "read_string (pre @ encode_str s @ post) (length pre) =
    Inr (BValue s, length pre + length (encode_str s))"
proof -
  let ?n = "show_nat (length s)"
  have colon: "CHR '':'' \<notin> set ?n"
    using show_nat_digits[of "length s"] not_digit by (auto simp: list_all_iff)
  have len: "i64 (int (length pre + length ?n) + 1 + int (length s))
      = int (length pre + length ?n + 1 + length s)"
    using assms by (subst i64_id) (auto simp: encode_str_def)
  have "parse_int64 ?n = Some (int (length s))"
    using assms by (intro parse_int64_show) (simp add: encode_str_def)
  then show ?thesis
    using colon len by (simp add: read_string_def encode_str_def byte_index_append del: of_nat_add)
qed

definition read_ok :: "btext \<Rightarrow> bool" where
  "read_ok t = (\<forall>pre post n. int (length (pre @ encode t @ post)) < 2 ^ 63 \<longrightarrow>
     2 * length (encode t @ post) + 2 \<le> n \<longrightarrow>
     read_node n (pre @ encode t @ post) (length pre) = Inr (node_of t, length pre + length (encode t)))"

lemma read_okD:
  "read_ok t \<Longrightarrow> data = pre @ encode t @ post \<Longrightarrow> int (length data) < 2 ^ 63 \<Longrightarrow> pos = length pre \<Longrightarrow>
   2 * length (encode t @ post) + 2 \<le> n \<Longrightarrow>
   read_node n data pos = Inr (node_of t, pos + length (encode t))"
  by (simp add: read_ok_def)

lemma encode_not_e: "\<exists>c s. encode t = c # s \<and> c \<noteq> CHR ''e''"
proof (cases t)
  case (TStr s)
  then show ?thesis using show_nat_hd[of "length s"] not_digit
    by (cases "show_nat (length s)") (auto simp: encode_str_def)
qed auto

lemma read_items_encode:
  assumes "\<And>t. t \<in> set ts \<Longrightarrow> read_ok t"
    and "int (length (pre @ concat (map encode ts) @ CHR ''e'' # post)) < 2 ^ 63"
    and "2 * length (concat (map encode ts) @ CHR ''e'' # post) + 3 \<le> n"
  shows "read_items n (pre @ concat (map encode ts) @ CHR ''e'' # post) (length pre) acc =
    Inr (BList (acc @ map node_of ts), length pre + length (concat (map encode ts)) + 1)"
  using assms
proof (induction ts arbitrary: pre n acc)
  case Nil
  then obtain m where "n = Suc m" by (cases n) auto
  then show ?case by simp
next
  case (Cons t ts)
  then obtain m where n: "n = Suc m" by (cases n) auto
  let ?data = "pre @ concat (map encode (t # ts)) @ CHR ''e'' # post"
  obtain c s where c: "encode t = c # s" "c \<noteq> CHR ''e''" using encode_not_e by blast
  have here: "?data ! length pre = c" "length pre < length ?data" using c by simp_all
  have "read_node m ?data (length pre) = Inr (node_of t, length pre + length (encode t))"
    by (rule read_okD[of t _ pre "concat (map encode ts) @ CHR ''e'' # post"]) (use Cons.prems n in auto)
  moreover have "read_items m ((pre @ encode t) @ concat (map encode ts) @ CHR ''e'' # post)
      (length (pre @ encode t)) (acc @ [node_of t]) =
    Inr (BList ((acc @ [node_of t]) @ map node_of ts),
      length (pre @ encode t) + length (concat (map encode ts)) + 1)"
    by (rule Cons.IH) (use Cons.prems n c in auto)
  ultimately show ?case using here c(2) n by simp
qed

lemma read_entries_encode:
  assumes "\<And>p. p \<in> set d \<Longrightarrow> read_ok (snd p)"
    and "int (length (pre @ concat (map (\<lambda>p. encode_str (fst p) @ encode (snd p)) d) @ CHR ''e'' # post)) < 2 ^ 63"
    and "2 * length (concat (map (\<lambda>p. encode_str (fst p) @ encode (snd p)) d) @ CHR ''e'' # post) + 3 \<le> n"
  shows "read_entries n (pre @ concat (map (\<lambda>p. encode_str (fst p) @ encode (snd p)) d) @ CHR ''e'' # post)
      (length pre) acc =
    Inr (BDict (foldl (\<lambda>acc p. AList.update (fst p) (node_of (snd p)) acc) acc d),
      length pre + length (concat (map (\<lambda>p. encode_str (fst p) @ encode (snd p)) d)) + 1)"
  using assms
proof (induction d arbitrary: pre n acc)
  case Nil
  then obtain m where "n = Suc m" by (cases n) auto
  then show ?case by simp
next
  case (Cons p d)
  let ?enc = "\<lambda>d. concat (map (\<lambda>p. encode_str (fst p) @ encode (snd p)) d)"
  let ?k = "fst p" and ?v = "snd p"
  obtain m where n: "n = Suc m" using Cons.prems(3) by (cases n) auto
  let ?data = "pre @ ?enc (p # d) @ CHR ''e'' # post"
  obtain c s where c: "encode (TStr ?k) = c # s" "c \<noteq> CHR ''e''" using encode_not_e by blast
  have here: "?data ! length pre = c" "length pre < length ?data" using c by simp_all
  obtain l where m: "m = Suc l" using Cons.prems(3) n c by (cases m) auto
  have digit: "is_digit c" using c show_nat_hd[of "length ?k"]
    by (cases "show_nat (length ?k)") (auto simp: encode_str_def)
  have key: "read_node m ?data (length pre) = Inr (BValue ?k, length pre + length (encode_str ?k))"
    using read_string_encode[of pre ?k "encode ?v @ ?enc d @ CHR ''e'' # post"] Cons.prems(2)
      here digit not_digit m by auto
  have val: "read_node m ?data (length pre + length (encode_str ?k)) =
      Inr (node_of ?v, length pre + length (encode_str ?k) + length (encode ?v))"
    by (rule read_okD[of ?v _ "pre @ encode_str ?k" "?enc d @ CHR ''e'' # post"]) (use Cons.prems n c in auto)
  have rest: "read_entries m ((pre @ encode_str ?k @ encode ?v) @ ?enc d @ CHR ''e'' # post)
      (length (pre @ encode_str ?k @ encode ?v)) (AList.update ?k (node_of ?v) acc) =
    Inr (BDict (foldl (\<lambda>acc p. AList.update (fst p) (node_of (snd p)) acc) (AList.update ?k (node_of ?v) acc) d),
      length (pre @ encode_str ?k @ encode ?v) + length (?enc d) + 1)"
    by (rule Cons.IH) (use Cons.prems n c in auto)
  show ?case unfolding n using here c(2) key val rest by (simp add: add.assoc)
qed

lemma read_ok_all: "btext_ok t \<Longrightarrow> read_ok t"
proof (induction t)
  case (TStr s)
  obtain c r where c: "encode (TStr s) = c # r" "is_digit c"
    using show_nat_hd[of "length s"] by (cases "show_nat (length s)") (auto simp: encode_str_def)
  show ?case unfolding read_ok_def
  proof (intro allI impI)
    fix pre post n
    assume a: "int (length (pre @ encode (TStr s) @ post)) < 2 ^ 63" and "2 * length (encode (TStr s) @ post) + 2 \<le> n"
    then obtain m where "n = Suc m" by (cases n) auto
    moreover have "(pre @ encode (TStr s) @ post) ! length pre = c" using c by simp
    ultimately show "read_node n (pre @ encode (TStr s) @ post) (length pre) =
        Inr (node_of (TStr s), length pre + length (encode (TStr s)))"
      using c a read_string_encode[of pre s post] not_digit by auto
  qed
next
  case (TInt s)
  show ?case unfolding read_ok_def
  proof (intro allI impI)
    fix pre post :: string and n
    assume "2 * length (encode (TInt s) @ post) + 2 \<le> n"
    then obtain m where "n = Suc m" by (cases n) auto
    then show "read_node n (pre @ encode (TInt s) @ post) (length pre) =
        Inr (node_of (TInt s), length pre + length (encode (TInt s)))"
      using TInt by (simp add: read_int_node_def nth_append)
  qed
next
  case (TList ts)
  show ?case unfolding read_ok_def
  proof (intro allI impI)
    fix pre post n
    assume a: "int (length (pre @ encode (TList ts) @ post)) < 2 ^ 63"
      "2 * length (encode (TList ts) @ post) + 2 \<le> n"
    then obtain m where m: "n = Suc m" by (cases n) auto
    have "read_items m ((pre @ ''l'') @ concat (map encode ts) @ CHR ''e'' # post) (length (pre @ ''l'')) [] =
      Inr (BList ([] @ map node_of ts), length (pre @ ''l'') + length (concat (map encode ts)) + 1)"
      by (rule read_items_encode) (use TList a m in auto)
    then show "read_node n (pre @ encode (TList ts) @ post) (length pre) =
        Inr (node_of (TList ts), length pre + length (encode (TList ts)))"
      using m by simp
  qed
next
  case (TDict d)
  have ok: "read_ok (snd p)" if "p \<in> set d" for p
    using TDict that by (cases p) (auto intro: snds.intros)
  let ?enc = "concat (map (\<lambda>p. encode_str (fst p) @ encode (snd p)) d)"
  show ?case unfolding read_ok_def
  proof (intro allI impI)
    fix pre post n
    assume a: "int (length (pre @ encode (TDict d) @ post)) < 2 ^ 63"
      "2 * length (encode (TDict d) @ post) + 2 \<le> n"
    then obtain m where m: "n = Suc m" by (cases n) auto
    have "read_entries m ((pre @ ''d'') @ ?enc @ CHR ''e'' # post) (length (pre @ ''d'')) [] =
      Inr (BDict (foldl (\<lambda>acc p. AList.update (fst p) (node_of (snd p)) acc) [] d),
        length (pre @ ''d'') + length ?enc + 1)"
      by (rule read_entries_encode) (use ok a m in auto)
    then show "read_node n (pre @ encode (TDict d) @ post) (length pre) =
        Inr (node_of (TDict d), length pre + length (encode (TDict d)))"
      using m by simp
  qed
qed

text \<open>
  Property C9: every bencoded document (of less than 2^63 bytes, followed by anything) is read as the
  node it denotes, and the reader stops right behind it.
\<close>

theorem read_bnode_encode:
  assumes "btext_ok t" and "int (length (encode t @ rest)) < 2 ^ 63"
  shows "read_bnode (encode t @ rest) 0 = Inr (node_of t, length (encode t))"
  using read_okD[OF read_ok_all[OF assms(1)], of _ "[]" rest 0] assms(2)
  by (simp add: read_bnode_def read_fuel_def)

subsection \<open>What an accepted manifest guarantees\<close>

definition plain_path :: "string \<Rightarrow> bool" where
  "plain_path p = (p \<noteq> [] \<and> CHR 0x5C \<notin> set p \<and>
     list_all (\<lambda>part. part \<noteq> [] \<and> part \<noteq> ''.'' \<and> part \<noteq> ''..'') (split_on CHR ''/'' p))"

lemma set_trim_by: "set (trim_by p s) \<subseteq> set s"
  by (auto simp: trim_by_def dest!: set_dropWhileD)

lemma safe_torrent_path_plain: "safe_torrent_path path = Some p \<Longrightarrow> plain_path p"
proof -
  assume a: "safe_torrent_path path = Some p"
  let ?m = "map (\<lambda>c. if c = CHR 0x5C then CHR ''/'' else c) path"
  have p: "p = trim_by (\<lambda>c. c = CHR ''/'') ?m" "p \<noteq> []"
      "\<not> list_ex (\<lambda>part. part = [] \<or> part = ''.'' \<or> part = ''..'') (split_on CHR ''/'' p)"
    using a by (auto simp: safe_torrent_path_def Let_def split: if_splits)
  have "CHR 0x5C \<notin> set ?m" by auto
  then have "CHR 0x5C \<notin> set p" using set_trim_by p(1) by blast
  then show ?thesis using p by (auto simp: plain_path_def list_all_iff list_ex_iff)
qed

definition file_ok :: "torrent_file \<Rightarrow> bool" where
  "file_ok f = (plain_path (tf_path f) \<and> 0 \<le> tf_size_bytes f \<and> tf_size_bytes f < 2 ^ 63)"

lemma parse_int64_range: "parse_int64 s = Some v \<Longrightarrow> - (2 ^ 63) \<le> v \<and> v < 2 ^ 63"
  by (auto simp: parse_int64_def Let_def split: option.splits if_splits prod.splits)

lemma bint_range: "bint nd = Inr v \<Longrightarrow> 0 \<le> v \<and> v < 2 ^ 63"
  by (auto simp: bint_def split: option.splits if_splits dest: parse_int64_range)

lemma file_okI:
  "bint nd = Inr len \<Longrightarrow> safe_torrent_path q = Some path \<Longrightarrow>
   file_ok \<lparr>tf_index = i, tf_path = path, tf_size_bytes = len, tf_progress = g, tf_priority = r,
     tf_offset = off, tf_playable = pl\<rparr>"
  using bint_range safe_torrent_path_plain by (simp add: file_ok_def)

lemma manifest_rows_ok: "manifest_rows rows i off = Inr fs \<Longrightarrow> list_all file_ok fs"
  by (induction rows i off arbitrary: fs rule: manifest_rows.induct)
    (auto split: sum.splits option.splits intro: file_okI)

lemma manifest_single_ok: "manifest_single info = Inr fs \<Longrightarrow> list_all file_ok fs"
  by (auto simp: manifest_single_def Let_def split: sum.splits option.splits simp del: if_split intro: file_okI)

fun laid_out :: "torrent_file list \<Rightarrow> nat \<Rightarrow> int \<Rightarrow> bool" where
  "laid_out [] i off = True"
| "laid_out (f # fs) i off =
     (tf_index f = int i \<and> tf_offset f = off \<and> laid_out fs (i + 1) (i64 (off + tf_size_bytes f)))"

lemma manifest_rows_laid_out: "manifest_rows rows i off = Inr fs \<Longrightarrow> laid_out fs i off"
  by (induction rows i off arbitrary: fs rule: manifest_rows.induct)
    (auto split: sum.splits option.splits)

lemma manifest_files_ok: "manifest_files nd = Inr fs \<Longrightarrow> list_all file_ok fs \<and> laid_out fs 0 0"
  by (auto simp: manifest_files_def manifest_rows_ok manifest_rows_laid_out manifest_single_ok
      split: option.splits)
    (auto simp: manifest_single_def Let_def split: option.splits sum.splits)

lemma parse_torrent_manifest_files:
  "parse_torrent_manifest rid data now = Inr m \<Longrightarrow>
   \<exists>nd. manifest_files nd = Inr (man_files m) \<and> man_metainfo m = data \<and> man_release_id m = rid"
  by (auto simp: parse_torrent_manifest_def split: if_splits sum.splits prod.splits)

lemma laid_out_exact:
  "laid_out fs i off \<Longrightarrow> list_all file_ok fs \<Longrightarrow> 0 \<le> off \<Longrightarrow> off + sum_list (map tf_size_bytes fs) < 2 ^ 63 \<Longrightarrow>
   k < length fs \<Longrightarrow> tf_offset (fs ! k) = off + sum_list (map tf_size_bytes (take k fs))"
proof (induction fs i off arbitrary: k rule: laid_out.induct)
  case (2 f fs i off)
  have size: "0 \<le> tf_size_bytes f" using 2 by (simp add: file_ok_def)
  have nonneg: "0 \<le> sum_list (map tf_size_bytes fs)"
    using 2 by (intro sum_list_nonneg) (auto simp: list_all_iff file_ok_def)
  have "i64 (off + tf_size_bytes f) = off + tf_size_bytes f"
    using 2 size nonneg by (intro i64_id) auto
  then show ?case using 2 size by (cases k) auto
qed simp

text \<open>
  Property C4: the manifest of an accepted torrent names only plain relative paths (no empty, dot or
  dot-dot component and no backslash), with sizes in the range of an int64; its files are numbered
  from 0 and, as long as their sizes add up below 2^63, each starts where the previous ones end.
\<close>

theorem parse_torrent_manifest_sound:
  assumes "parse_torrent_manifest rid data now = Inr m"
  shows "list_all file_ok (man_files m) \<and> man_metainfo m = data \<and>
    (sum_list (map tf_size_bytes (man_files m)) < 2 ^ 63 \<longrightarrow>
      (\<forall>k < length (man_files m).
        tf_offset (man_files m ! k) = sum_list (map tf_size_bytes (take k (man_files m)))))"
  using parse_torrent_manifest_files[OF assms] manifest_files_ok laid_out_exact[of "man_files m" 0 0]
  by (metis add_0 order_refl)

definition sample_torrent :: btext where
  "sample_torrent = TDict [(''info'', TDict [(''files'', TList
     [TDict [(''length'', TInt ''7''), (''path'', TList [TStr ''S1'', TStr ''e1.mkv''])],
      TDict [(''length'', TInt ''5''), (''path'', TList [TStr ''S1'', TStr ''e2.srt''])]])])]"

lemma parse_encoded:
  "btext_ok t \<Longrightarrow> length (encode t) < 16 * 2 ^ 20 \<Longrightarrow> manifest_files (node_of t) = Inr fs \<Longrightarrow>
   parse_torrent_manifest rid (encode t) now = Inr \<lparr>man_release_id = rid, man_files = fs,
     man_metainfo = encode t, man_fetched_at = now\<rparr>"
  using read_bnode_encode[of t "[]"] encode_not_e[of t] by (auto simp: parse_torrent_manifest_def)

lemmas manifest_eval = manifest_files_def bn_get_def bn_zero_def bint_def parse_int64_def is_digit_def
  digit_val_def safe_torrent_path_def trim_by_def Let_def is_playable_def file_ext_def to_lower_def
  lower_byte_def playable_exts_def encode_str_def show_nat.simps digit_char_def

lemma sample_torrent_files:
  "manifest_files (node_of sample_torrent) = Inr
     [\<lparr>tf_index = 0, tf_path = ''S1/e1.mkv'', tf_size_bytes = 7, tf_progress = 0, tf_priority = 0,
        tf_offset = 0, tf_playable = True\<rparr>,
      \<lparr>tf_index = 1, tf_path = ''S1/e2.srt'', tf_size_bytes = 5, tf_progress = 0, tf_priority = 0,
        tf_offset = 7, tf_playable = False\<rparr>]"
  by (simp add: sample_torrent_def manifest_eval i64_id)

lemma sample_torrent_ok: "btext_ok sample_torrent" "length (encode sample_torrent) < 16 * 2 ^ 20"
  by (simp_all add: sample_torrent_def manifest_eval)

theorem parse_torrent_manifest_sound_witness:
  "\<exists>m. parse_torrent_manifest ''r1'' (encode sample_torrent) 0 = Inr m \<and>
     list_all file_ok (man_files m) \<and> tf_offset (man_files m ! 1) = 7"
proof -
  obtain m where m: "parse_torrent_manifest ''r1'' (encode sample_torrent) 0 = Inr m"
    and off: "tf_offset (man_files m ! 1) = 7"
    using parse_encoded[OF sample_torrent_ok sample_torrent_files, of "''r1''" 0] by auto
  show ?thesis using parse_torrent_manifest_sound[OF m] m off by blast
qed

subsection \<open>Headers that wrap\<close>

lemma read_string_panics:
  assumes "byte_index CHR '':'' (drop pos data) = Some k" and "parse_int64 (take k (drop pos data)) = Some len"
    and "0 \<le> len" and "length data < 2 ^ 63"
  shows "read_string data pos = Inl Bn_Panic \<longleftrightarrow> 2 ^ 63 \<le> int (pos + k) + 1 + len"
proof -
  let ?s = "int pos + int k + 1 + len"
  have "k < length data - pos" using byte_index_Some[OF assms(1)] by simp
  then have colon: "pos + k + 1 \<le> length data" by arith
  have len: "len < 2 ^ 63" using assms(2) parse_int64_range by blast
  show ?thesis
  proof (cases "?s < 2 ^ 63")
    case True
    then have "i64 ?s = ?s" using assms(3) by (intro i64_id) auto
    then show ?thesis using assms True by (auto simp: read_string_def Let_def algebra_simps)
  next
    case False
    have "i64 ?s = ?s - 2 ^ 64"
    proof -
      have "(?s + 2 ^ 63) mod 2 ^ 64 = ?s + 2 ^ 63 - 2 ^ 64"
        using False colon len assms(4) by (subst mod_pos_geq) (auto simp: mod_pos_pos_trivial)
      then show ?thesis by (simp add: i64_def)
    qed
    then show ?thesis using assms False colon len by (auto simp: read_string_def Let_def algebra_simps)
  qed
qed

lemma read_bnode_string:
  "pos < length data \<Longrightarrow> data ! pos \<notin> {CHR ''i'', CHR ''l'', CHR ''d''} \<Longrightarrow>
   read_bnode data pos = read_string data pos"
  by (simp add: read_bnode_def read_fuel_def eval_nat_numeral)

text \<open>
  A torrent of 20 bytes, the string length 9223372036854775807 and its colon, makes
  \<open>readBNode\<close> panic: the bound \<open>colon+1+length\<close> wraps below zero, passes the check against
  \<open>len(data)\<close>, and the slice expression fails at run time.
\<close>

theorem parse_torrent_manifest_panics:
  "parse_torrent_manifest rid ''9223372036854775807:'' now = Inl Bn_Panic"
proof -
  let ?data = "''9223372036854775807:''"
  have k: "byte_index CHR '':'' (drop 0 ?data) = Some 19" by (simp add: byte_index_def)
  have len: "parse_int64 (take 19 (drop 0 ?data)) = Some 9223372036854775807"
    by (simp add: parse_int64_def is_digit_def digit_val_def)
  have "read_string ?data 0 = Inl Bn_Panic" using read_string_panics[OF k len] by simp
  then have "read_bnode ?data 0 = Inl Bn_Panic" by (subst read_bnode_string) simp_all
  then show ?thesis by (simp add: parse_torrent_manifest_def)
qed

text \<open>
  Reading always ends within its fuel, for any input and position, and a node that is
  returned ends behind its start and within the data.
\<close>

theorem read_bnode_total:
  "case read_bnode data pos of
     Inl e \<Rightarrow> e \<noteq> Bn_Fuel
   | Inr (nd, stop) \<Rightarrow> pos < stop \<and> stop \<le> length data"
proof (cases "read_bnode data pos")
  case (Inr r)
  then show ?thesis using read_progress(1)[of "read_fuel data" data pos] by (cases r) (simp add: read_bnode_def)
qed (use read_bnode_no_fuel in auto)

subsection \<open>The size a torrent claims\<close>

text \<open>\<open>incomingTorrentBytes\<close> (\<open>service.go\<close>), given what \<open>torrentManifest\<close> answered.\<close>

definition incoming_torrent_bytes :: "('e + torrent_manifest) \<Rightarrow> torrent_release \<Rightarrow> int" where
  "incoming_torrent_bytes answer rel =
     (case answer of
        Inr m \<Rightarrow> if manifest_total m > 0 then manifest_total m else rel_size_bytes rel
      | Inl _ \<Rightarrow> rel_size_bytes rel)"

lemma manifest_total_fold:
  "foldl (\<lambda>total f. i64 (total + tf_size_bytes f)) (i64 t) fs = i64 (t + sum_list (map tf_size_bytes fs))"
  by (induction fs arbitrary: t) (auto simp: i64_add_left add.assoc)

lemma manifest_total_eq: "manifest_total m = i64 (sum_list (map tf_size_bytes (man_files m)))"
  using manifest_total_fold[of 0 "man_files m"] by (simp add: manifest_total_def i64_id)

lemma incoming_torrent_bytes_exact:
  assumes "list_all file_ok (man_files m)" and "sum_list (map tf_size_bytes (man_files m)) < 2 ^ 63"
    and "\<exists>f \<in> set (man_files m). tf_size_bytes f > 0"
  shows "incoming_torrent_bytes (Inr m) rel = sum_list (map tf_size_bytes (man_files m))"
proof -
  have nonneg: "\<forall>x \<in> set (map tf_size_bytes (man_files m)). 0 \<le> x"
    using assms(1) by (auto simp: list_all_iff file_ok_def)
  then have "0 \<le> sum_list (map tf_size_bytes (man_files m))" by (intro sum_list_nonneg) auto
  moreover have "sum_list (map tf_size_bytes (man_files m)) \<noteq> 0"
    using assms(3) nonneg by (subst sum_list_nonneg_eq_0_iff) force+
  ultimately show ?thesis
    using assms(2) by (simp add: incoming_torrent_bytes_def manifest_total_eq i64_id)
qed

definition wrapping_torrent :: btext where
  "wrapping_torrent = (let entry = (\<lambda>n. TDict [(''length'', TInt n), (''path'', TList [TStr ''a''])]) in
     TDict [(''info'', TDict [(''files'', TList
       [entry ''9223372036854775807'', entry ''9223372036854775807'', entry ''3''])])])"

text \<open>
  The sizes of a manifest are added in an int64 without a check: there is an accepted
  torrent whose files claim more than 2^64 bytes and whose incoming size is a single byte, so that
  the admission check of the Allocation lets it in.
\<close>

theorem incoming_torrent_bytes_wraps:
  "\<exists>m. parse_torrent_manifest rid (encode wrapping_torrent) now = Inr m \<and>
     sum_list (map tf_size_bytes (man_files m)) > 2 ^ 64 \<and> incoming_torrent_bytes (Inr m :: 'e + _) rel = 1"
proof -
  have ok: "btext_ok wrapping_torrent" "length (encode wrapping_torrent) < 16 * 2 ^ 20"
    by (simp_all add: wrapping_torrent_def manifest_eval)
  obtain fs where fs: "manifest_files (node_of wrapping_torrent) = Inr fs"
    and sizes: "map tf_size_bytes fs = [9223372036854775807, 9223372036854775807, 3]"
    by (simp add: wrapping_torrent_def manifest_eval)
  show ?thesis using parse_encoded[OF ok fs, of rid now] sizes
    by (simp add: incoming_torrent_bytes_def manifest_total_eq i64_def)
qed

theorem read_bnode_encode_witness:
  "read_bnode (encode sample_torrent @ ''xx'') 0 = Inr (node_of sample_torrent, length (encode sample_torrent))"
  using read_bnode_encode[OF sample_torrent_ok(1), of "''xx''"] sample_torrent_ok(2) by simp

end
