(* ===== verification/Release_Name.thy ===== *)
theory Release_Name
  imports Go_Regexp Torrent_Meta
begin

text \<open>
  Release names (\<open>ParseRelease\<close> of \<open>internal/domain/catalog.go\<close>, \<open>packFileEpisode\<close> and
  \<open>episodeSource\<close> of \<open>internal/application/torrentmeta.go\<close>).
  Names are byte strings; case is that of the ASCII letters, and a byte above 127 counts as part of a
  letter.
\<close>

subsection \<open>The patterns\<close>

definition sep_chars :: string where "sep_chars = '' ._-''"
definition token_start :: rx where "token_start = Alt Line_Start (one_of sep_chars)"
definition token_end :: rx where "token_end = Alt (one_of sep_chars) Line_End"

definition episode_re :: rx where
  "episode_re = cats [token_start, word_ci ''s'', Cap 1 (digits_rx 1 2), Opt (one_of sep_chars), word_ci ''e'',
     Cap 2 (digits_rx 1 3),
     Opt (cats [Opt (one_of sep_chars), word_ci ''e'', Cap 3 (digits_rx 1 3)]), token_end]"

definition episode_alt_re :: rx where
  "episode_alt_re = cats [token_start, Cap 1 (digits_rx 1 2), word_ci ''x'', Cap 2 (digits_rx 1 3), token_end]"

definition season_re :: rx where
  "season_re = cats [token_start, word_ci ''s'', Cap 1 (digits_rx 1 2),
     Opt (cats [Many rx_space, dash_rx, Many rx_space, word_ci ''s'', Cap 2 (digits_rx 1 2)]), token_end]"

definition season_word :: rx where
  "season_word = Alt (word_ci ''season'') (word_ci ''sezonul'')"

definition season_word_re :: rx where
  "season_word_re = cats [token_start, season_word, Many rx_space, Cap 1 (digits_rx 1 2),
     Opt (cats [Many rx_space, dash_rx, Many rx_space, Opt season_word, Many rx_space, Cap 2 (digits_rx 1 2)]),
     Alt (one_of '' ._-['') Line_End]"

definition leading_group :: rx where
  "leading_group = cats [Line_Start, one_of ''['', Cap 1 (times_rx 2 38 (Rune (\<lambda>c. c \<noteq> CHR '']''))), one_of '']'', Many rx_space]"

definition year_re :: rx where
  "year_re = cats [Alt Line_Start (one_of '' ._-(''),
     Cap 1 (Alt (Cat (Lit ''19'') (digits_rx 2 2)) (Cat (Lit ''20'') (digits_rx 2 2))),
     Alt (one_of '' ._-)'') Line_End]"

definition resolution_re :: rx where
  "resolution_re = cats [Alt Line_Start (one_of '' ._-[''),
     Cap 1 (alts (map word_ci [''2160p'', ''1080p'', ''1080i'', ''720p'', ''576p'', ''480p'', ''4k'', ''uhd''])),
     Alt (one_of '' ._-]'') Line_End]"

definition release_ext_re :: rx where
  "release_ext_re = cats [one_of ''.'',
     alts (map word_ci [''mkv'', ''mp4'', ''avi'', ''m4v'', ''mov'', ''ts'', ''wmv'', ''srt'']), Line_End]"

subsection \<open>Titles and tags\<close>

definition clean_title :: "string \<Rightarrow> string" where
  "clean_title v = join_with '' '' (str_fields
     (map (\<lambda>c. if c = CHR ''.'' \<or> c = CHR ''_'' then CHR '' '' else c) (trim_by (\<lambda>c. c \<in> set '' ._-()[]'') v)))"

definition title_byte :: "char \<Rightarrow> bool" where
  "title_byte c = (let n = of_char c :: nat in n \<ge> 128 \<or> (48 \<le> n \<and> n \<le> 57) \<or> (97 \<le> n \<and> n \<le> 122))"

fun squeeze :: "bool \<Rightarrow> string \<Rightarrow> string" where
  "squeeze sp [] = []"
| "squeeze sp (c # cs) =
     (if title_byte c then c # squeeze False cs
      else if sp then squeeze True cs else CHR '' '' # squeeze True cs)"

definition normalize_title :: "string \<Rightarrow> string" where
  "normalize_title v = trim_space (squeeze False (to_lower v))"

definition technical_tokens :: "string list" where
  "technical_tokens = [''2160P'', ''1080P'', ''1080I'', ''720P'', ''576P'', ''480P'', ''WEB-DL'', ''WEBRIP'',
     ''BLURAY'', ''BLU-RAY'', ''HDTV'', ''DVDRIP'', ''REMUX'']"

definition first_technical_token :: "string \<Rightarrow> nat" where
  "first_technical_token v =
     (let upper = to_upper (map (\<lambda>c. if c = CHR ''_'' then CHR ''.'' else c) v) in
      foldl (\<lambda>best w. case index_of upper w of None \<Rightarrow> best | Some i \<Rightarrow> if i < best then i else best)
        (length v) (concat (map (\<lambda>t. [''.'' @ t, '' '' @ t]) technical_tokens)))"

definition clean_episode_title :: "string \<Rightarrow> string" where
  "clean_episode_title v = clean_title (take (first_technical_token v) v)"

definition is_letter :: "char \<Rightarrow> bool" where
  "is_letter c = (let n = of_char c :: nat in (65 \<le> n \<and> n \<le> 90) \<or> (97 \<le> n \<and> n \<le> 122))"

definition is_alnum :: "char \<Rightarrow> bool" where
  "is_alnum c = (is_letter c \<or> is_digit c)"

text \<open>An occurrence of a tag that is not glued to a letter or, in front, a digit.\<close>

definition whole_token :: "string \<Rightarrow> string \<Rightarrow> nat \<Rightarrow> bool" where
  "whole_token upper value i =
     (has_prefix (drop i upper) value \<and> (i = 0 \<or> \<not> is_alnum (upper ! (i - 1))) \<and>
      (i + length value = length upper \<or> \<not> is_letter (upper ! (i + length value))))"

fun first_match :: "string \<Rightarrow> string list \<Rightarrow> string" where
  "first_match upper [] = []"
| "first_match upper (v # vs) =
     (if list_ex (whole_token upper v) [0 ..< length upper] then v else first_match upper vs)"

text \<open>
  \<open>releaseYear\<close>: the start and value of the last year token before the technical part.  A year ends
  at least four bytes behind the previous one, so the length of the name is fuel enough.
\<close>

fun year_scan :: "nat \<Rightarrow> string \<Rightarrow> nat \<Rightarrow> nat \<Rightarrow> nat \<times> int \<Rightarrow> nat \<times> int" where
  "year_scan 0 name limit pos found = found"
| "year_scan (Suc n) name limit pos found =
     (if pos \<ge> length name then found
      else (case rx_find year_re (drop pos name) of
              None \<Rightarrow> found
            | Some (m0, m1, c) \<Rightarrow>
                (case map_of c 1 of
                   None \<Rightarrow> found
                 | Some (m2, m3) \<Rightarrow>
                     if pos + m2 \<ge> limit then found
                     else if pos + m2 = 0 then year_scan n name limit (pos + m3) found
                     else year_scan n name limit (pos + m3)
                            (pos + m0, atoi_digits (slice name (pos + m2) (pos + m3))))))"

definition release_year :: "string \<Rightarrow> nat \<times> int" where
  "release_year name =
     (let limit = min (length name) (first_technical_token name);
          limit = (case rx_find resolution_re name of None \<Rightarrow> limit | Some (m0, _) \<Rightarrow> min m0 limit) in
      year_scan (length name) name limit 0 (0, 0))"

definition last_index_of :: "char \<Rightarrow> string \<Rightarrow> nat option" where
  "last_index_of c s = (if c \<in> set s
     then Some (length s - 1 - length (takeWhile (\<lambda>x. x \<noteq> c) (rev s))) else None)"

definition trailing_release_group :: "string \<Rightarrow> string" where
  "trailing_release_group full =
     (let name = (case rx_find release_ext_re full of None \<Rightarrow> full | Some (i, j, _) \<Rightarrow> take i full @ drop j full) in
      case last_index_of CHR ''-'' name of
        None \<Rightarrow> []
      | Some i \<Rightarrow>
          (let group = drop (i + 1) name; front = to_upper (take i name) in
           if i + 1 = length name then []
           else if length group < 2 \<or> length group > 30 \<or> CHR '' '' \<in> set group \<or> CHR ''.'' \<in> set group then []
           else if to_upper group \<in> set [''DL'', ''RAY'', ''HD'', ''MA'', ''HDMA'', ''X'', ''RIP''] \<and>
                   list_ex (has_suffix front) [''WEB'', ''BLU'', ''DTS'', ''DD'', ''HDTV'', ''DVD'']
                then []
           else group))"

subsection \<open>Parsing a name\<close>

definition cap_value :: "string \<Rightarrow> capture list \<Rightarrow> nat \<Rightarrow> int" where
  "cap_value name c k = (case captured name c k of None \<Rightarrow> 0 | Some s \<Rightarrow> atoi_digits s)"

definition season_fields :: "string \<Rightarrow> capture list \<Rightarrow> parsed_release \<Rightarrow> parsed_release" where
  "season_fields name c p = p\<lparr>pr_kind := media_series, pr_season_start := cap_value name c 1,
     pr_season_end := cap_value name c 1, pr_season_explicit := True\<rparr>"

definition episode_fields :: "string \<Rightarrow> capture list \<Rightarrow> nat \<Rightarrow> parsed_release \<Rightarrow> parsed_release" where
  "episode_fields name c stop p = (season_fields name c p)\<lparr>pr_episode_start := cap_value name c 2,
     pr_episode_end := (if map_of c 3 \<noteq> None \<and> cap_value name c 3 > cap_value name c 2
       then cap_value name c 3 else cap_value name c 2),
     pr_episode_title := clean_episode_title (drop stop name)\<rparr>"

definition season_range :: "string \<Rightarrow> capture list \<Rightarrow> parsed_release \<Rightarrow> parsed_release" where
  "season_range name c p = (season_fields name c p)\<lparr>pr_season_end :=
     (if map_of c 2 \<noteq> None then cap_value name c 2 else cap_value name c 1)\<rparr>"

text \<open>The marker that makes a name a series, with the byte it starts at.\<close>

definition series_marker :: "string \<Rightarrow> parsed_release \<Rightarrow> parsed_release \<times> nat" where
  "series_marker name p =
     (case rx_find episode_re name of
        Some (m0, m1, c) \<Rightarrow> (episode_fields name c m1 p, m0)
      | None \<Rightarrow>
     (case rx_find episode_alt_re name of
        Some (m0, m1, c) \<Rightarrow> (episode_fields name c m1 p, m0)
      | None \<Rightarrow>
     (case rx_find season_re name of
        Some (m0, m1, c) \<Rightarrow> (season_range name c p, m0)
      | None \<Rightarrow>
     (case rx_find season_word_re name of
        Some (m0, m1, c) \<Rightarrow> (season_range name c p, m0)
      | None \<Rightarrow> (p, length name)))))"

definition strip_group :: "string \<Rightarrow> string \<times> string" where
  "strip_group name = (case rx_find leading_group name of
     None \<Rightarrow> ([], name)
   | Some (_, stop, c) \<Rightarrow>
       (trim_space (case captured name c 1 of None \<Rightarrow> [] | Some g \<Rightarrow> g), trim_space (drop stop name)))"

definition name_resolution :: "string \<Rightarrow> string" where
  "name_resolution name = (case rx_find resolution_re name of
     None \<Rightarrow> []
   | Some (_, _, c) \<Rightarrow>
       (let r = to_upper (case captured name c 1 of None \<Rightarrow> [] | Some g \<Rightarrow> g) in
        if r = ''4K'' \<or> r = ''UHD'' then ''2160p'' else to_lower r))"

definition tags_of :: "string \<Rightarrow> parsed_release \<Rightarrow> parsed_release" where
  "tags_of upper p = p\<lparr>
     pr_quality := first_match upper [''REMUX'', ''BLU-RAY'', ''BLURAY'', ''WEB-DL'', ''WEBRIP'', ''HDTV'', ''DVDRIP''],
     pr_video_codec := first_match upper [''AV1'', ''H.265'', ''H265'', ''HEVC'', ''X265'', ''H.264'', ''H264'', ''X264'', ''XVID''],
     pr_audio := first_match upper [''TRUEHD'', ''ATMOS'', ''DTS-HD'', ''DTS'', ''EAC3'', ''DDP'', ''AC3'', ''AAC'', ''FLAC''],
     pr_hdr := first_match upper [''DOLBY VISION'', ''DOVI'', ''HDR10+'', ''HDR10'', ''HDR''],
     pr_edition := first_match upper [''DIRECTOR'' @ [CHR 39] @ ''S CUT'', ''EXTENDED'', ''REMASTERED'', ''REPACK'', ''PROPER'']\<rparr>"

definition parse_release :: "torrent_release \<Rightarrow> parsed_release" where
  "parse_release rel =
     (let (group, name) = strip_group (trim_space (rel_name rel));
          (p, mark) = series_marker name (zero_parsed_release\<lparr>pr_kind := media_movie, pr_release_group := group\<rparr>);
          (y_start, year) = release_year name;
          p = (if year > 0 then p\<lparr>pr_year := year\<rparr> else p);
          title_end = (if year > 0 \<and> y_start < mark then y_start else mark);
          boundary = (if title_end = length name then first_technical_token name else title_end);
          title = clean_title (take boundary name);
          title = (if title = [] then clean_title name else title);
          p = p\<lparr>pr_title := title, pr_sort_title := normalize_title title, pr_resolution := name_resolution name\<rparr>;
          tech_start = (if title_end = length name then boundary else title_end);
          p = tags_of (to_upper (drop tech_start name)) p in
      if pr_release_group p = [] then p\<lparr>pr_release_group := trailing_release_group name\<rparr> else p)"

text \<open>\<open>CatalogTitleID\<close>: \<open>sha\<close> is the first 15 bytes of SHA-256 in base64.\<close>

definition catalog_title_id :: "(string \<Rightarrow> string) \<Rightarrow> torrent_release \<Rightarrow> parsed_release \<Rightarrow> string" where
  "catalog_title_id sha rel p =
     sha (if rel_imdb rel \<noteq> [] then pr_kind p @ [CHR 0x00] @ ''imdb:'' @ to_lower (rel_imdb rel)
          else pr_kind p @ [CHR 0x00] @ pr_sort_title p @ [CHR 0x00] @ int_text (pr_year p))"

subsection \<open>Files of a pack\<close>

definition pack_episode_re :: rx where
  "pack_episode_re = Alt
     (cats [Alt (cats [word_ci ''s'', digits_rx 1 2, Many rx_space])
                (cats [Word_Edge, word_ci ''season'', Cat (Cls rx_space) (Many rx_space), digits_rx 1 2,
                   Opt (cats [Many rx_space, one_of ''('', digits_rx 4 4, one_of '')'']),
                   Many rx_space, Opt (one_of '')''), Many rx_space]),
        dash_rx, Many rx_space, Cap 1 (digits_rx 1 3), Opt (Cat (word_ci ''v'') (Cls is_digit)), Word_Edge])
     (cats [Line_Start, Many rx_space, Cap 2 (digits_rx 1 3), Opt (Cat (word_ci ''v'') (Cls is_digit)),
        Many rx_space, dash_rx])"

definition pack_file_episode :: "string \<Rightarrow> int" where
  "pack_file_episode name = (case rx_find pack_episode_re name of
     None \<Rightarrow> 0
   | Some (_, _, c) \<Rightarrow>
       (case captured name c 1 of
          Some g \<Rightarrow> atoi_digits g
        | None \<Rightarrow> (case captured name c 2 of Some g \<Rightarrow> atoi_digits g | None \<Rightarrow> 0)))"

definition inherit_text :: "string \<Rightarrow> string \<Rightarrow> string" where
  "inherit_text value own = (if own = [] then value else own)"

definition episode_source :: "catalog_source \<Rightarrow> torrent_file \<Rightarrow> catalog_source option" where
  "episode_source base file =
     (let parsed = parse_release ((cs_release base)\<lparr>rel_name := tf_path file, rel_size_bytes := tf_size_bytes file\<rparr>);
          number = pack_file_episode (tf_path file);
          parsed = (if pr_episode_start parsed \<le> 0 \<and> number > 0
                    then parsed\<lparr>pr_episode_start := number,
                      pr_season_start := (if pr_season_start parsed = 0
                        then pr_season_start (cs_parsed base) else pr_season_start parsed)\<rparr>
                    else parsed) in
      if pr_episode_start parsed \<le> 0 then None
      else Some \<lparr>cs_release = cs_release base,
             cs_parsed = parsed\<lparr>pr_resolution := inherit_text (pr_resolution (cs_parsed base)) (pr_resolution parsed),
               pr_quality := inherit_text (pr_quality (cs_parsed base)) (pr_quality parsed),
               pr_video_codec := inherit_text (pr_video_codec (cs_parsed base)) (pr_video_codec parsed),
               pr_audio := inherit_text (pr_audio (cs_parsed base)) (pr_audio parsed),
               pr_hdr := inherit_text (pr_hdr (cs_parsed base)) (pr_hdr parsed)\<rparr>,
             cs_title_id = [], cs_file_index = Some (tf_index file), cs_file_path = tf_path file,
             cs_file_size_bytes = tf_size_bytes file, cs_library_state = zero_media_state\<rparr>)"

subsection \<open>Bounds of the fields\<close>

lemma capture_digits_range:
  assumes "rx_find r s = Some (i, j, c)" and "map_of c k = Some (x, y)"
    and "\<And>a. (k, a) \<in> set (caps_of r) \<Longrightarrow> \<exists>m \<le> n. a = digits_rx m n"
  shows "0 \<le> atoi_digits (slice s x y) \<and> atoi_digits (slice s x y) < 10 ^ n"
proof -
  have "capture_of s r (k, x, y)" using rx_find_capture[OF assms(1)] assms(2) map_of_SomeD by fast
  then obtain a e d where "(k, a) \<in> set (caps_of r)" "(y, d) \<in> set (runs s a (x, e))"
    by (auto simp: capture_of_def)
  then show ?thesis using assms(3) digits_capture_range by blast
qed

lemma cap_value_range:
  assumes "rx_find r s = Some (i, j, c)" and "\<And>a. (k, a) \<in> set (caps_of r) \<Longrightarrow> \<exists>m \<le> n. a = digits_rx m n"
  shows "0 \<le> cap_value s c k \<and> cap_value s c k < 10 ^ n"
proof (cases "map_of c k")
  case (Some p)
  then show ?thesis using capture_digits_range[OF assms(1) _ assms(2), of k "fst p" "snd p"]
    by (cases p) (simp add: cap_value_def captured_def)
qed (simp add: cap_value_def captured_def)

lemma caps_plain [simp]: "caps_of (one_of cs) = []" "caps_of token_start = []" "caps_of token_end = []"
  "caps_of dash_rx = []"
  by (simp_all add: one_of_def token_start_def token_end_def dash_rx_def)

lemma caps_cats [simp]: "caps_of (cats rs) = concat (map caps_of rs)"
  by (induction rs rule: cats.induct) auto

lemma caps_alts [simp]: "caps_of (alts rs) = concat (map caps_of rs)"
  by (induction rs rule: alts.induct) auto

lemma caps_word [simp]: "caps_of (word_ci w) = []"
  by (simp add: word_ci_def comp_def)

lemma caps_digits [simp]: "caps_of (digits_rx m n) = []"
proof -
  have opt: "caps_of (opt_times k (Cls p)) = []" for k p by (induction k) auto
  have "caps_of (times_rx l k (Cls p)) = []" for l k p by (induction l) (auto simp: opt)
  then show ?thesis by (simp add: digits_rx_def)
qed

lemma marker_caps:
  "caps_of episode_re = [(1, digits_rx 1 2), (2, digits_rx 1 3), (3, digits_rx 1 3)]"
  "caps_of episode_alt_re = [(1, digits_rx 1 2), (2, digits_rx 1 3)]"
  "caps_of season_re = [(1, digits_rx 1 2), (2, digits_rx 1 2)]"
  "caps_of season_word_re = [(1, digits_rx 1 2), (2, digits_rx 1 2)]"
  by (simp_all add: episode_re_def episode_alt_re_def season_re_def season_word_re_def season_word_def)

text \<open>What a name can say about seasons and episodes.\<close>

definition fields_ok :: "parsed_release \<Rightarrow> bool" where
  "fields_ok p = (pr_season_start p \<in> {0..99} \<and> pr_season_end p \<in> {0..99} \<and>
     0 \<le> pr_episode_start p \<and> pr_episode_start p \<le> pr_episode_end p \<and> pr_episode_end p \<le> 999 \<and>
     (if pr_season_explicit p then pr_kind p = media_series
      else pr_kind p = media_movie \<and> pr_season_start p = 0 \<and> pr_season_end p = 0 \<and>
        pr_episode_start p = 0 \<and> pr_episode_end p = 0))"

lemma one_two_digits: "\<exists>m\<le>(2::nat). digits_rx 1 2 = digits_rx m 2" "\<exists>m\<le>(3::nat). digits_rx 1 3 = digits_rx m 3"
  by (rule exI[of _ 1], simp)+

lemma episode_fields_ok:
  assumes "rx_find r name = Some (i, j, c)" and "caps_of r = (1, digits_rx 1 2) # (2, digits_rx 1 3) # rest"
    and "rest = [] \<or> rest = [(3, digits_rx 1 3)]"
  shows "fields_ok (episode_fields name c j p)"
proof -
  have "0 \<le> cap_value name c 1 \<and> cap_value name c 1 < 10 ^ 2"
    by (rule cap_value_range[OF assms(1)]) (use assms(2,3) one_two_digits in auto)
  moreover have "0 \<le> cap_value name c 2 \<and> cap_value name c 2 < 10 ^ 3"
    by (rule cap_value_range[OF assms(1)]) (use assms(2,3) one_two_digits in auto)
  moreover have "0 \<le> cap_value name c 3 \<and> cap_value name c 3 < 10 ^ 3"
    by (rule cap_value_range[OF assms(1)]) (use assms(2,3) one_two_digits in auto)
  ultimately show ?thesis by (auto simp: fields_ok_def episode_fields_def season_fields_def)
qed

lemma season_range_ok:
  assumes "rx_find r name = Some (i, j, c)" and "caps_of r = [(1, digits_rx 1 2), (2, digits_rx 1 2)]"
    and "pr_episode_start p = 0" "pr_episode_end p = 0"
  shows "fields_ok (season_range name c p)"
proof -
  have "0 \<le> cap_value name c k \<and> cap_value name c k < 10 ^ 2" for k
    by (rule cap_value_range[OF assms(1)]) (use assms(2) one_two_digits in auto)
  from this[of 1] this[of 2] show ?thesis using assms(3,4)
    by (auto simp: fields_ok_def season_range_def season_fields_def)
qed

lemma series_marker_ok:
  assumes "fields_ok p" and "pr_episode_start p = 0" "pr_episode_end p = 0"
  shows "fields_ok (fst (series_marker name p))"
  using assms by (auto simp: series_marker_def marker_caps split: option.splits
      intro: episode_fields_ok[where rest = "[(3, digits_rx 1 3)]"] episode_fields_ok[where rest = "[]"] season_range_ok)

lemma slice_drop: "slice (drop p s) i j = slice s (p + i) (p + j)"
  by (simp add: slice_def add.commute)

lemma year_capture:
  assumes "rx_find year_re s = Some (i, j, c)" and "map_of c 1 = Some (x, y)"
  shows "y = x + 4 \<and> 1900 \<le> atoi_digits (slice s x y) \<and> atoi_digits (slice s x y) \<le> 2099"
proof -
  have "capture_of s year_re (1, x, y)" using rx_find_capture[OF assms(1)] assms(2) map_of_SomeD by fast
  then obtain e d where "(y, d) \<in> set (runs s (Alt (Cat (Lit ''19'') (digits_rx 2 2)) (Cat (Lit ''20'') (digits_rx 2 2))) (x, e))"
    by (auto simp: capture_of_def year_re_def)
  then consider "take 2 (drop x s) = ''19''" "(y, d) \<in> set (runs s (digits_rx 2 2) (x + 2, e))"
    | "take 2 (drop x s) = ''20''" "(y, d) \<in> set (runs s (digits_rx 2 2) (x + 2, e))"
    by (auto simp: numeral_2_eq_2 split: if_splits)
  then obtain w h where w: "w = take 2 (drop x s)" "atoi_digits w = h" "h = 19 \<or> h = 20" "length w = 2"
    and r: "(y, d) \<in> set (runs s (digits_rx 2 2) (x + 2, e))"
    by cases (simp_all add: atoi_digits_def digit_value_def)
  then have y: "y = x + 4" "list_all is_digit (slice s (x + 2) y)" using runs_digits[OF r] by auto
  have split: "slice s x y = w @ slice s (x + 2) y"
    using y(1) w(1) take_add[of 2 2 "drop x s"] by (simp add: slice_def add.commute)
  have "x + 2 \<le> length s" using w(1,4) by auto
  then have two: "length (slice s (x + 2) y) = 2" using runs_bounds[OF r] y(1) by (simp add: length_slice)
  have "atoi_digits (slice s x y) = foldl (\<lambda>a c. 10 * a + digit_value c) h (slice s (x + 2) y)"
    using w(2) by (simp add: split atoi_digits_def)
  then have "h * 10 ^ 2 \<le> atoi_digits (slice s x y) \<and> atoi_digits (slice s x y) < (h + 1) * 10 ^ 2"
    using atoi_fold[OF y(2), of h "h + 1"] atoi_fold_low[OF y(2), of h] w(3) two by auto
  then show ?thesis using y(1) w(3) by auto
qed

text \<open>One turn of the search: it stops, or it goes on behind a year with the same or a new result.\<close>

lemma year_scan_turn:
  obtains "\<And>n. year_scan (Suc n) name limit pos found = found"
  | m2 f where "\<And>n. year_scan (Suc n) name limit pos found = year_scan n name limit (pos + m2 + 4) f"
      "f = found \<or> snd f \<in> {1900..2099}"
proof (cases "pos < length name \<and> rx_find year_re (drop pos name) \<noteq> None")
  case True
  then obtain m0 m1 c where m: "rx_find year_re (drop pos name) = Some (m0, m1, c)" by auto
  show thesis
  proof (cases "map_of c 1")
    case None
    then show thesis using that(1) m True by simp
  next
    case (Some p)
    then obtain m2 m3 where p: "map_of c 1 = Some (m2, m3)" by (cases p) auto
    have y: "m3 = m2 + 4" "atoi_digits (slice name (pos + m2) (pos + m3)) \<in> {1900..2099}"
      using year_capture[OF m p] by (auto simp: slice_drop)
    show thesis
    proof (cases "pos + m2 \<ge> limit")
      case True
      then show thesis using that(1) m p \<open>pos < length name \<and> _\<close> by simp
    next
      case False
      let ?f = "if pos + m2 = 0 then found else (pos + m0, atoi_digits (slice name (pos + m2) (pos + m3)))"
      have "year_scan (Suc n) name limit pos found = year_scan n name limit (pos + m2 + 4) ?f" for n
        using m p True False y(1) by (simp add: add.assoc)
      then show thesis using that(2)[of m2 ?f] y(2) by simp
    qed
  qed
next
  case False
  show thesis by (rule that(1)) (use False in \<open>auto split: option.split\<close>)
qed

lemma year_scan_range:
  "snd found = 0 \<or> snd found \<in> {1900..2099} \<Longrightarrow>
   snd (year_scan n name limit pos found) = 0 \<or> snd (year_scan n name limit pos found) \<in> {1900..2099}"
proof (induction n arbitrary: pos found)
  case (Suc n)
  show ?case
    by (cases rule: year_scan_turn[of name limit pos found]) (use Suc in auto)
qed simp

lemma release_year_range: "snd (release_year name) = 0 \<or> snd (release_year name) \<in> {1900..2099}"
  unfolding release_year_def Let_def by (rule year_scan_range) simp

definition blank_parse :: "string \<Rightarrow> parsed_release" where
  "blank_parse g = zero_parsed_release\<lparr>pr_kind := media_movie, pr_release_group := g\<rparr>"

lemma parse_release_core:
  obtains name g p mark ys y where "series_marker name (blank_parse g) = (p, mark)" "release_year name = (ys, y)"
    "pr_kind (parse_release rel) = pr_kind p" "pr_season_start (parse_release rel) = pr_season_start p"
    "pr_season_end (parse_release rel) = pr_season_end p"
    "pr_season_explicit (parse_release rel) = pr_season_explicit p"
    "pr_episode_start (parse_release rel) = pr_episode_start p"
    "pr_episode_end (parse_release rel) = pr_episode_end p"
    "pr_year (parse_release rel) = (if y > 0 then y else pr_year p)"
    "name = snd (strip_group (trim_space (rel_name rel)))"
proof -
  obtain g name where s: "strip_group (trim_space (rel_name rel)) = (g, name)" by fastforce
  obtain p mark where m: "series_marker name (blank_parse g) = (p, mark)" by fastforce
  obtain ys y where y: "release_year name = (ys, y)" by fastforce
  show thesis
    by (rule that[OF m y])
      (simp_all add: parse_release_def Let_def tags_of_def s m[unfolded blank_parse_def] y)
qed

lemma series_marker_year: "pr_year (fst (series_marker name p)) = pr_year p"
  by (auto simp: series_marker_def episode_fields_def season_range_def season_fields_def split: option.splits)

lemma parse_release_fields: "fields_ok (parse_release rel)"
proof -
  obtain name g p mark ys y where c: "series_marker name (blank_parse g) = (p, mark)"
    "pr_kind (parse_release rel) = pr_kind p" "pr_season_start (parse_release rel) = pr_season_start p"
    "pr_season_end (parse_release rel) = pr_season_end p"
    "pr_season_explicit (parse_release rel) = pr_season_explicit p"
    "pr_episode_start (parse_release rel) = pr_episode_start p"
    "pr_episode_end (parse_release rel) = pr_episode_end p"
    by (rule parse_release_core)
  have "fields_ok (fst (series_marker name (blank_parse g)))"
    by (rule series_marker_ok) (simp_all add: fields_ok_def blank_parse_def zero_parsed_release_def)
  then show ?thesis using c by (simp add: fields_ok_def)
qed

lemma parse_release_year: "pr_year (parse_release rel) = 0 \<or> pr_year (parse_release rel) \<in> {1900..2099}"
proof -
  obtain name g p mark ys y where c: "series_marker name (blank_parse g) = (p, mark)" "release_year name = (ys, y)"
    "pr_year (parse_release rel) = (if y > 0 then y else pr_year p)"
    by (rule parse_release_core)
  have "pr_year p = 0" using series_marker_year[of name "blank_parse g"] c(1)
    by (simp add: blank_parse_def zero_parsed_release_def)
  then show ?thesis using release_year_range[of name] c by auto
qed

lemma pack_caps: "caps_of pack_episode_re = [(1, digits_rx 1 3), (2, digits_rx 1 3)]"
  by (simp add: pack_episode_re_def)

lemma pack_file_episode_range: "0 \<le> pack_file_episode name \<and> pack_file_episode name \<le> 999"
proof -
  have "0 \<le> atoi_digits g \<and> atoi_digits g < 10 ^ 3"
    if "rx_find pack_episode_re name = Some (i, j, c)" "captured name c k = Some g" for i j c k g
  proof -
    have "0 \<le> cap_value name c k \<and> cap_value name c k < 10 ^ 3"
      by (rule cap_value_range[OF that(1)]) (use pack_caps one_two_digits in auto)
    then show ?thesis using that(2) by (simp add: cap_value_def)
  qed
  then show ?thesis by (fastforce simp: pack_file_episode_def split: option.splits)
qed

lemma episode_source_shape:
  assumes "episode_source base file = Some v"
  shows "1 \<le> pr_episode_start (cs_parsed v) \<and> pr_episode_start (cs_parsed v) \<le> 999 \<and>
    cs_release v = cs_release base \<and> cs_file_index v = Some (tf_index file) \<and> cs_file_path v = tf_path file"
proof -
  have "pr_episode_start (parse_release rel) \<le> 999" for rel
    using parse_release_fields[of rel] by (auto simp: fields_ok_def)
  then show ?thesis using assms pack_file_episode_range[of "tf_path file"]
    by (auto simp: episode_source_def Let_def split: if_splits)
qed

text \<open>The length of a name is fuel enough for the search of its year.\<close>

lemma year_scan_fuel:
  "length name - pos \<le> n \<Longrightarrow> year_scan (n + k) name limit pos found = year_scan n name limit pos found"
proof (induction n arbitrary: pos found)
  case 0
  then show ?case by (cases k) auto
next
  case (Suc n)
  show ?case
    by (cases rule: year_scan_turn[of name limit pos found]) (use Suc in auto)
qed

text \<open>
  Property C26: whatever the name of a release, the season and episode numbers read from it lie in 0..99
  and 0..999, the episodes are an ordered range, a series is exactly a name with a written season, a
  movie has neither season nor episode, and a year is a year of 1900..2099.
\<close>

theorem parse_release_bounds:
  "fields_ok (parse_release rel) \<and> (pr_year (parse_release rel) = 0 \<or> pr_year (parse_release rel) \<in> {1900..2099})"
  using parse_release_fields parse_release_year by blast

text \<open>
  A file of a pack becomes an episode only with a number of 1..999; the source keeps the
  release it belongs to and names the file.
\<close>

theorem episode_source_numbered:
  assumes "episode_source base file = Some v"
  shows "pr_episode_start (cs_parsed v) \<in> {1..999} \<and> cs_release v = cs_release base \<and>
    cs_file_index v = Some (tf_index file) \<and> cs_file_path v = tf_path file"
  using episode_source_shape[OF assms] by simp

definition pack_source :: catalog_source where
  "pack_source = zero_catalog_source\<lparr>cs_release := zero_torrent_release\<lparr>rel_id := ''r'', rel_file_count := 2\<rparr>\<rparr>"

definition pack_file :: torrent_file where
  "pack_file = zero_torrent_file\<lparr>tf_index := 4, tf_path := ''7-a.mkv''\<rparr>"

lemma numbered_file_accepted: "pack_file_episode (tf_path file) > 0 \<Longrightarrow> episode_source base file \<noteq> None"
  by (simp add: episode_source_def Let_def)

lemma pack_file_accepted: "episode_source pack_source pack_file \<noteq> None"
  by (rule numbered_file_accepted) code_simp

theorem episode_source_numbered_witness:
  "\<exists>v. episode_source pack_source pack_file = Some v \<and> cs_file_index v = Some 4"
proof -
  obtain v where v: "episode_source pack_source pack_file = Some v" using pack_file_accepted by blast
  then show ?thesis using episode_source_numbered[OF v] by (simp add: pack_file_def)
qed

end
