(* ===== verification/Title_Identity.thy ===== *)
theory Title_Identity
  imports Release_Name
begin

text \<open>
  The identity of a catalog title (\<open>CatalogTitleID\<close>, \<open>ResolveFamilyTitleIDs\<close> of
  \<open>internal/domain/catalog.go\<close>): releases of one kind and sort title form a family; explicit IMDb
  identities anchor it, and a release without one joins an anchor only when exactly one fits its year.
  \<open>sha\<close> is the encoded digest.  The Go maps are association lists.
\<close>

record candidate_anchor =
  ca_imdb :: string
  ca_canonical :: string
  ca_years :: "int list"

record release_evidence =
  ev_release :: string
  ev_title :: string
  ev_sort_title :: string
  ev_imdb :: string
  ev_year :: int

definition ev_id :: "release_evidence \<Rightarrow> string" where
  "ev_id ev = to_lower (trim_space (ev_imdb ev))"

definition anchored_id :: "(string \<Rightarrow> string) \<Rightarrow> media_kind \<Rightarrow> string \<Rightarrow> release_evidence \<Rightarrow> string" where
  "anchored_id sha kind sort_title ev = catalog_title_id sha (zero_torrent_release\<lparr>rel_imdb := ev_id ev\<rparr>)
     (zero_parsed_release\<lparr>pr_kind := kind, pr_title := ev_title ev, pr_sort_title := sort_title\<rparr>)"

definition fallback_id :: "(string \<Rightarrow> string) \<Rightarrow> media_kind \<Rightarrow> string \<Rightarrow> release_evidence \<Rightarrow> string" where
  "fallback_id sha kind sort_title ev = catalog_title_id sha zero_torrent_release
     (zero_parsed_release\<lparr>pr_kind := kind, pr_title := ev_title ev, pr_sort_title := sort_title, pr_year := ev_year ev\<rparr>)"

definition add_year :: "int \<Rightarrow> candidate_anchor \<Rightarrow> candidate_anchor" where
  "add_year y a = (if y > 0 then a\<lparr>ca_years := y # ca_years a\<rparr> else a)"

text \<open>Pass 1: the anchors in the order of their first evidence, and the results of anchored releases.\<close>

definition anchor_step ::
  "(string \<Rightarrow> string) \<Rightarrow> media_kind \<Rightarrow> string \<Rightarrow> release_evidence \<Rightarrow>
   candidate_anchor list \<times> (string \<times> string) list \<Rightarrow> candidate_anchor list \<times> (string \<times> string) list" where
  "anchor_step sha kind sort_title ev st =
     (let (anchors, results) = st; id = ev_id ev in
      if id = [] then st
      else (let a = (case row_of ca_imdb id anchors of
                  Some a \<Rightarrow> a
                | None \<Rightarrow> \<lparr>ca_imdb = id, ca_canonical = anchored_id sha kind sort_title ev, ca_years = []\<rparr>) in
            (upsert ca_imdb (add_year (ev_year ev) a) anchors,
             upsert fst (ev_release ev, ca_canonical a) results)))"

definition anchor_pass ::
  "(string \<Rightarrow> string) \<Rightarrow> media_kind \<Rightarrow> string \<Rightarrow> release_evidence list \<Rightarrow>
   candidate_anchor list \<times> (string \<times> string) list" where
  "anchor_pass sha kind sort_title evs = fold (anchor_step sha kind sort_title) evs ([], [])"

text \<open>The loop over the anchors: the only one that fits, and no one as soon as a second fits.\<close>

fun match_anchor :: "int \<Rightarrow> candidate_anchor list \<Rightarrow> candidate_anchor option \<Rightarrow> candidate_anchor option" where
  "match_anchor year [] m = m"
| "match_anchor year (a # as) m =
     (if ca_years a = [] \<or> year \<in> set (ca_years a)
      then (if m \<noteq> None then None else match_anchor year as (Some a))
      else match_anchor year as m)"

definition joined_anchor :: "media_kind \<Rightarrow> candidate_anchor list \<Rightarrow> int \<Rightarrow> candidate_anchor option" where
  "joined_anchor kind anchors year =
     (if kind = media_series then (if length anchors = 1 then Some (hd anchors) else None)
      else if year > 0 then match_anchor year anchors None
      else (if length anchors = 1 then Some (hd anchors) else None))"

text \<open>Pass 2: the releases without an IMDb identity.\<close>

definition join_step ::
  "(string \<Rightarrow> string) \<Rightarrow> media_kind \<Rightarrow> string \<Rightarrow> candidate_anchor list \<Rightarrow> release_evidence \<Rightarrow>
   (string \<times> string) list \<Rightarrow> (string \<times> string) list" where
  "join_step sha kind sort_title anchors ev results =
     (if trim_space (ev_imdb ev) \<noteq> [] then results
      else (let results = (case joined_anchor kind anchors (ev_year ev) of
                  None \<Rightarrow> results
                | Some a \<Rightarrow> upsert fst (ev_release ev, ca_canonical a) results) in
            if map_of results (ev_release ev) \<in> {None, Some []}
            then upsert fst (ev_release ev, fallback_id sha kind sort_title ev) results
            else results))"

definition resolve_family_title_ids ::
  "(string \<Rightarrow> string) \<Rightarrow> media_kind \<Rightarrow> string \<Rightarrow> release_evidence list \<Rightarrow> (string \<times> string) list" where
  "resolve_family_title_ids sha kind sort_title evs =
     (let (anchors, results) = anchor_pass sha kind sort_title evs in
      fold (join_step sha kind sort_title anchors) evs results)"

subsection \<open>What it computes\<close>

text \<open>The identities of a family, the years known of one, and those an unidentified release can join.\<close>

definition family_ids :: "release_evidence set \<Rightarrow> string set" where
  "family_ids E = ev_id ` E - {[]}"

definition known_years :: "release_evidence set \<Rightarrow> string \<Rightarrow> int set" where
  "known_years E i = {y. 0 < y \<and> (\<exists>ev \<in> E. ev_id ev = i \<and> ev_year ev = y)}"

definition joinable :: "media_kind \<Rightarrow> release_evidence set \<Rightarrow> int \<Rightarrow> string set" where
  "joinable kind E year = (if kind = media_series \<or> year \<le> 0 then family_ids E
     else {i \<in> family_ids E. known_years E i = {} \<or> year \<in> known_years E i})"

definition imdb_title_id :: "(string \<Rightarrow> string) \<Rightarrow> media_kind \<Rightarrow> string \<Rightarrow> string" where
  "imdb_title_id sha kind i = sha (kind @ [CHR 0x00] @ ''imdb:'' @ i)"

definition family_spec ::
  "(string \<Rightarrow> string) \<Rightarrow> media_kind \<Rightarrow> string \<Rightarrow> release_evidence set \<Rightarrow> release_evidence \<Rightarrow> string \<Rightarrow> bool" where
  "family_spec sha kind sort_title E ev t =
     (if ev_id ev \<noteq> [] then t = imdb_title_id sha kind (ev_id ev)
      else if \<exists>i. joinable kind E (ev_year ev) = {i}
        then \<exists>i. joinable kind E (ev_year ev) = {i} \<and> t = imdb_title_id sha kind i
      else t = fallback_id sha kind sort_title ev)"

lemma ev_id_lower [simp]: "to_lower (ev_id ev) = ev_id ev"
  by (simp add: ev_id_def)

lemma anchored_id_imdb: "ev_id ev \<noteq> [] \<Longrightarrow> anchored_id sha kind sort_title ev = imdb_title_id sha kind (ev_id ev)"
  by (simp add: anchored_id_def catalog_title_id_def imdb_title_id_def)

text \<open>The anchors after a pass over \<open>E\<close>: one for each identity, with the years known of it.\<close>

definition anchors_of :: "(string \<Rightarrow> string) \<Rightarrow> media_kind \<Rightarrow> release_evidence set \<Rightarrow> candidate_anchor list \<Rightarrow> bool" where
  "anchors_of sha kind E anchors = (distinct (map ca_imdb anchors) \<and> ca_imdb ` set anchors = family_ids E \<and>
     (\<forall>a \<in> set anchors. ca_canonical a = imdb_title_id sha kind (ca_imdb a) \<and>
       set (ca_years a) = known_years E (ca_imdb a)))"

lemma known_years_insert:
  "known_years (insert ev E) i = known_years E i \<union> (if ev_id ev = i \<and> ev_year ev > 0 then {ev_year ev} else {})"
  by (auto simp: known_years_def)

lemma anchor_step_anchors:
  assumes "anchors_of sha kind E (fst st)"
  shows "anchors_of sha kind (insert ev E) (fst (anchor_step sha kind sort_title ev st))"
proof (cases "ev_id ev = []")
  case True
  then have "family_ids (insert ev E) = family_ids E" "known_years (insert ev E) i = known_years E i" if "i \<noteq> []" for i
    using that by (auto simp: family_ids_def known_years_insert)
  then show ?thesis using assms True
    by (fastforce simp: anchors_of_def anchor_step_def family_ids_def known_years_insert split: prod.split)
next
  case False
  let ?old = "case row_of ca_imdb (ev_id ev) (fst st) of Some a \<Rightarrow> a
     | None \<Rightarrow> \<lparr>ca_imdb = ev_id ev, ca_canonical = anchored_id sha kind sort_title ev, ca_years = []\<rparr>"
  let ?a = "add_year (ev_year ev) ?old"
  have a0: "ca_imdb ?old = ev_id ev \<and> ca_canonical ?old = imdb_title_id sha kind (ev_id ev) \<and>
      set (ca_years ?old) = known_years E (ev_id ev)"
  proof (cases "row_of ca_imdb (ev_id ev) (fst st)")
    case None
    then have "ev_id ev \<notin> ev_id ` E" using assms False by (auto simp: row_of_None anchors_of_def family_ids_def)
    then have "ev_id x \<noteq> ev_id ev" if "x \<in> E" for x using that by (metis imageI)
    then have "known_years E (ev_id ev) = {}" unfolding known_years_def by blast
    then show ?thesis using None False by (simp add: anchored_id_imdb)
  next
    case (Some a)
    then show ?thesis using assms row_of_key[OF Some] by (auto simp: anchors_of_def)
  qed
  then have a: "ca_imdb ?a = ev_id ev" "ca_canonical ?a = imdb_title_id sha kind (ev_id ev)"
      "set (ca_years ?a) = known_years (insert ev E) (ev_id ev)"
    by (auto simp: add_year_def known_years_insert)
  have anchors: "fst (anchor_step sha kind sort_title ev st) = upsert ca_imdb ?a (fst st)"
    using False by (simp add: anchor_step_def Let_def split: prod.split)
  have d: "distinct (map ca_imdb (fst st))" using assms by (simp add: anchors_of_def)
  have s: "set (upsert ca_imdb ?a (fst st)) = insert ?a {y \<in> set (fst st). ca_imdb y \<noteq> ev_id ev}"
    using set_upsert[OF d, of ?a] a(1) by simp
  have ids: "ca_imdb ` set (upsert ca_imdb ?a (fst st)) = family_ids (insert ev E)"
  proof -
    have "ca_imdb ` {y \<in> set (fst st). ca_imdb y \<noteq> ev_id ev} = family_ids E - {ev_id ev}"
      using assms by (auto simp: anchors_of_def)
    moreover have "family_ids (insert ev E) = insert (ev_id ev) (family_ids E)"
      using False by (auto simp: family_ids_def)
    ultimately show ?thesis unfolding s using a(1) by simp
  qed
  have other: "known_years (insert ev E) i = known_years E i" if "i \<noteq> ev_id ev" for i
    using that by (simp add: known_years_insert)
  show ?thesis unfolding anchors_of_def anchors
    using distinct_upsert[OF d] ids a assms other s by (simp add: anchors_of_def)
qed

lemma anchor_pass_snoc:
  "anchor_pass sha kind sort_title (evs @ [ev]) =
   anchor_step sha kind sort_title ev (anchor_pass sha kind sort_title evs)"
  by (simp add: anchor_pass_def)

lemma anchor_pass_anchors: "anchors_of sha kind (set evs) (fst (anchor_pass sha kind sort_title evs))"
proof (induction evs rule: rev_induct)
  case Nil
  show ?case by (simp add: anchor_pass_def anchors_of_def family_ids_def)
next
  case (snoc ev evs)
  then show ?case using anchor_step_anchors by (simp add: anchor_pass_snoc)
qed

lemma anchor_step_results:
  assumes "anchors_of sha kind E (fst st)"
  shows "map_of (snd (anchor_step sha kind sort_title ev st)) r =
    (if ev_id ev \<noteq> [] \<and> r = ev_release ev then Some (imdb_title_id sha kind (ev_id ev)) else map_of (snd st) r)"
proof (cases "row_of ca_imdb (ev_id ev) (fst st)")
  case None
  then show ?thesis by (auto simp: anchor_step_def Let_def map_of_upsert anchored_id_imdb split: prod.split)
next
  case (Some a)
  then show ?thesis using assms row_of_key[OF Some]
    by (auto simp: anchor_step_def Let_def map_of_upsert anchors_of_def split: prod.split)
qed

lemma anchor_pass_results:
  "distinct (map ev_release evs) \<Longrightarrow> map_of (snd (anchor_pass sha kind sort_title evs)) r =
   (case row_of ev_release r evs of
      None \<Rightarrow> None | Some ev \<Rightarrow> if ev_id ev = [] then None else Some (imdb_title_id sha kind (ev_id ev)))"
proof (induction evs rule: rev_induct)
  case Nil
  show ?case by (simp add: anchor_pass_def row_of_def)
next
  case (snoc ev evs)
  have "row_of ev_release r (evs @ [ev]) = (case row_of ev_release r evs of None \<Rightarrow>
      if ev_release ev = r then Some ev else None | Some x \<Rightarrow> Some x)"
    by (induction evs) (auto simp: row_of_def)
  moreover have "row_of ev_release (ev_release ev) evs = None"
    using snoc.prems by (auto simp: row_of_None)
  ultimately show ?case
    using snoc anchor_step_results[OF anchor_pass_anchors]
    by (auto simp: anchor_pass_snoc split: option.splits)
qed

subsection \<open>Joining\<close>

definition fits_year :: "int \<Rightarrow> candidate_anchor \<Rightarrow> bool" where
  "fits_year year a = (ca_years a = [] \<or> year \<in> set (ca_years a))"

lemma match_anchor_filter:
  "match_anchor year as m = (case m of
     None \<Rightarrow> (case filter (fits_year year) as of [a] \<Rightarrow> Some a | _ \<Rightarrow> None)
   | Some a \<Rightarrow> if filter (fits_year year) as = [] then Some a else None)"
  by (induction year as m rule: match_anchor.induct)
    (auto simp: fits_year_def split: option.splits list.splits)

lemma one_of_distinct:
  assumes "distinct (map f xs)"
  shows "(f ` set xs = {i}) \<longleftrightarrow> (\<exists>a. xs = [a] \<and> f a = i)"
proof
  assume s: "f ` set xs = {i}"
  have "card (f ` set xs) = length xs" using assms by (metis distinct_card length_map set_map)
  then have "length xs = 1" using s by simp
  then obtain a where "xs = [a]" by (auto simp: length_Suc_conv)
  then show "\<exists>a. xs = [a] \<and> f a = i" using s by auto
qed auto

lemma joined_anchor_spec:
  assumes "anchors_of sha kind E anchors"
  shows "(case joined_anchor kind anchors year of
      Some a \<Rightarrow> joinable kind E year = {ca_imdb a} \<and> ca_canonical a = imdb_title_id sha kind (ca_imdb a)
    | None \<Rightarrow> \<nexists>i. joinable kind E year = {i})"
proof -
  obtain c where c: "c = (if kind = media_series \<or> year \<le> 0 then anchors else filter (fits_year year) anchors)"
    by simp
  have d: "distinct (map ca_imdb anchors)" and ids: "ca_imdb ` set anchors = family_ids E"
    using assms by (simp_all add: anchors_of_def)
  have fits: "fits_year year a \<longleftrightarrow> known_years E (ca_imdb a) = {} \<or> year \<in> known_years E (ca_imdb a)"
    if "a \<in> set anchors" for a
    using assms that by (auto simp: anchors_of_def fits_year_def)
  have j: "joinable kind E year = ca_imdb ` set c"
    using fits by (auto simp: joinable_def ids[symmetric] c)
  have dc: "distinct (map ca_imdb c)" using d by (simp add: distinct_map_filter c)
  have m: "joined_anchor kind anchors year = (case c of [a] \<Rightarrow> Some a | _ \<Rightarrow> None)"
  proof (cases "kind = media_series \<or> year \<le> 0")
    case True
    then have "joined_anchor kind anchors year = (if length anchors = 1 then Some (hd anchors) else None)" "c = anchors"
      by (auto simp: joined_anchor_def c)
    then show ?thesis by (cases anchors; cases "tl anchors") auto
  next
    case False
    then show ?thesis by (simp add: joined_anchor_def match_anchor_filter c)
  qed
  have canon: "a \<in> set c \<Longrightarrow> ca_canonical a = imdb_title_id sha kind (ca_imdb a)" for a
    using assms by (auto simp: anchors_of_def c split: if_splits)
  show ?thesis
  proof (cases "\<exists>a. c = [a]")
    case True
    then show ?thesis using canon by (auto simp: j m)
  next
    case False
    have "ca_imdb ` set c \<noteq> {i}" for i using one_of_distinct[OF dc, of i] False by metis
    then have "\<nexists>i. ca_imdb ` set c = {i}" by simp
    moreover have "(case c of [a] \<Rightarrow> Some a | _ \<Rightarrow> None) = None" using False by (auto split: list.split)
    ultimately show ?thesis by (simp add: j m)
  qed
qed

lemma join_step_other:
  "r \<noteq> ev_release ev \<Longrightarrow> map_of (join_step sha kind sort_title anchors ev results) r = map_of results r"
  by (auto simp: join_step_def Let_def map_of_upsert split: option.splits)

lemma join_step_own:
  assumes "[] \<notin> range sha" and "anchors_of sha kind E anchors" and "ev_id ev = []"
    and "map_of results (ev_release ev) = None"
  shows "\<exists>t. map_of (join_step sha kind sort_title anchors ev results) (ev_release ev) = Some t \<and>
    family_spec sha kind sort_title E ev t"
proof -
  have "trim_space (ev_imdb ev) = []" using assms(3) by (simp add: ev_id_def)
  moreover have "sha x \<noteq> []" for x using assms(1) by (metis rangeI)
  ultimately show ?thesis
    using assms joined_anchor_spec[OF assms(2), of "ev_year ev"]
    by (auto simp: join_step_def Let_def map_of_upsert family_spec_def imdb_title_id_def split: option.splits)
qed

lemma join_step_skip: "ev_id ev \<noteq> [] \<Longrightarrow> join_step sha kind sort_title anchors ev results = results"
  by (auto simp: join_step_def ev_id_def to_lower_def)

lemma join_pass_other:
  "r \<notin> ev_release ` set evs \<Longrightarrow>
   map_of (fold (join_step sha kind sort_title anchors) evs results) r = map_of results r"
  by (induction evs arbitrary: results) (auto simp: join_step_other)

lemma join_pass_own:
  assumes "ev \<in> set evs" and "distinct (map ev_release evs)"
  shows "map_of (fold (join_step sha kind sort_title anchors) evs results) (ev_release ev) =
    map_of (join_step sha kind sort_title anchors ev (fold (join_step sha kind sort_title anchors)
      (takeWhile (\<lambda>x. x \<noteq> ev) evs) results)) (ev_release ev)"
  using assms
proof (induction evs arbitrary: results)
  case (Cons x evs)
  show ?case
  proof (cases "x = ev")
    case True
    then show ?thesis using Cons.prems(2) by (simp add: join_pass_other)
  qed (use Cons in auto)
qed simp

lemma family_resolved:
  assumes "[] \<notin> range sha" and "distinct (map ev_release evs)" and "ev \<in> set evs"
  shows "\<exists>t. map_of (resolve_family_title_ids sha kind sort_title evs) (ev_release ev) = Some t \<and>
    family_spec sha kind sort_title (set evs) ev t"
proof -
  obtain anchors results where p: "anchor_pass sha kind sort_title evs = (anchors, results)" by fastforce
  have a: "anchors_of sha kind (set evs) anchors"
    using anchor_pass_anchors[of sha kind evs sort_title] p by simp
  have row: "row_of ev_release (ev_release ev) evs = Some ev"
    using assms(2,3) by (induction evs) (auto simp: row_of_def image_iff)
  have r: "map_of results (ev_release ev) =
      (if ev_id ev = [] then None else Some (imdb_title_id sha kind (ev_id ev)))"
    using anchor_pass_results[OF assms(2), of sha kind sort_title "ev_release ev"] p row by simp
  let ?pre = "fold (join_step sha kind sort_title anchors) (takeWhile (\<lambda>x. x \<noteq> ev) evs) results"
  have "ev_release ev \<notin> ev_release ` set (takeWhile (\<lambda>x. x \<noteq> ev) evs)"
  proof -
    have "inj_on ev_release (set evs)" using assms(2) by (simp add: distinct_map)
    moreover have "x \<in> set evs \<and> x \<noteq> ev" if "x \<in> set (takeWhile (\<lambda>x. x \<noteq> ev) evs)" for x
      using set_takeWhileD[OF that] .
    ultimately show ?thesis using assms(3) by (auto dest: inj_onD)
  qed
  then have pre: "map_of ?pre (ev_release ev) = map_of results (ev_release ev)" by (rule join_pass_other)
  have own: "map_of (resolve_family_title_ids sha kind sort_title evs) (ev_release ev) =
      map_of (join_step sha kind sort_title anchors ev ?pre) (ev_release ev)"
    using join_pass_own[OF assms(3,2), of sha kind sort_title anchors results]
    by (simp add: resolve_family_title_ids_def p)
  show ?thesis
  proof (cases "ev_id ev = []")
    case True
    then show ?thesis using join_step_own[OF assms(1) a True, of ?pre sort_title] own pre r by simp
  next
    case False
    then show ?thesis using own pre r by (simp add: join_step_skip family_spec_def)
  qed
qed

lemma family_spec_unique: "family_spec sha kind sort_title E ev t \<Longrightarrow> family_spec sha kind sort_title E ev u \<Longrightarrow> t = u"
  by (auto simp: family_spec_def split: if_splits)

lemma family_unknown:
  assumes "distinct (map ev_release evs)" and "r \<notin> ev_release ` set evs"
  shows "map_of (resolve_family_title_ids sha kind sort_title evs) r = None"
proof -
  have "row_of ev_release r evs = None" using assms(2) by (simp add: row_of_None)
  moreover obtain anchors results where p: "anchor_pass sha kind sort_title evs = (anchors, results)" by fastforce
  ultimately have "map_of results r = None"
    using anchor_pass_results[OF assms(1), of sha kind sort_title r] by simp
  then show ?thesis using join_pass_other[OF assms(2)] by (simp add: resolve_family_title_ids_def p)
qed

text \<open>
  Property C12: the canonical title ids of a family depend only on the set of its releases, not on the
  order in which they are examined, and follow the rule for each release: its own IMDb identity; else
  the only identity of the family that fits its year (any year for a series); else the id of its
  kind, sort title and year.
\<close>

theorem family_ids_order_free:
  assumes "[] \<notin> range sha" and "distinct (map ev_release evs)" and "distinct (map ev_release evs')"
    and "set evs = set evs'"
  shows "map_of (resolve_family_title_ids sha kind sort_title evs) =
    map_of (resolve_family_title_ids sha kind sort_title evs') \<and>
    (\<forall>ev \<in> set evs. \<exists>t. map_of (resolve_family_title_ids sha kind sort_title evs) (ev_release ev) = Some t \<and>
       family_spec sha kind sort_title (set evs) ev t)"
proof
  show "\<forall>ev \<in> set evs. \<exists>t. map_of (resolve_family_title_ids sha kind sort_title evs) (ev_release ev) = Some t \<and>
       family_spec sha kind sort_title (set evs) ev t"
    using family_resolved[OF assms(1,2)] by blast
  have "map_of (resolve_family_title_ids sha kind sort_title evs) r =
      map_of (resolve_family_title_ids sha kind sort_title evs') r" for r
  proof (cases "r \<in> ev_release ` set evs")
    case True
    then obtain ev where ev: "ev \<in> set evs" "ev \<in> set evs'" "r = ev_release ev" using assms(4) by auto
    show ?thesis
      using family_resolved[where kind = kind and sort_title = sort_title, OF assms(1,2) ev(1)]
        family_resolved[where kind = kind and sort_title = sort_title, OF assms(1,3) ev(2)]
        family_spec_unique ev(3) assms(4) by metis
  next
    case False
    then show ?thesis using family_unknown assms by metis
  qed
  then show "map_of (resolve_family_title_ids sha kind sort_title evs) =
    map_of (resolve_family_title_ids sha kind sort_title evs')" by blast
qed

text \<open>
  Property C13: releases with different IMDb identities are never given the same title, whatever else
  the family holds, when the digest does not collide.
\<close>

theorem family_ids_never_merge:
  assumes "[] \<notin> range sha" and "inj sha" and "distinct (map ev_release evs)"
    and "a \<in> set evs" "b \<in> set evs" "ev_id a \<noteq> []" "ev_id b \<noteq> []" "ev_id a \<noteq> ev_id b"
  shows "map_of (resolve_family_title_ids sha kind sort_title evs) (ev_release a) \<noteq>
    map_of (resolve_family_title_ids sha kind sort_title evs) (ev_release b)"
proof -
  have "map_of (resolve_family_title_ids sha kind sort_title evs) (ev_release x) = Some (imdb_title_id sha kind (ev_id x))"
    if "x \<in> set evs" "ev_id x \<noteq> []" for x
    using family_resolved[OF assms(1,3) that(1), of kind sort_title] that(2) by (auto simp: family_spec_def)
  then show ?thesis using assms(4-8) injD[OF assms(2)] by (auto simp: imdb_title_id_def dest: injD[OF assms(2)])
qed

subsection \<open>An example\<close>

definition evidence :: "string \<Rightarrow> string \<Rightarrow> int \<Rightarrow> release_evidence" where
  "evidence r i y = \<lparr>ev_release = r, ev_title = ''Solaris'', ev_sort_title = ''solaris'', ev_imdb = i, ev_year = y\<rparr>"

definition solaris :: "release_evidence list" where
  "solaris = [evidence ''a'' ''tt1'' 1972, evidence ''b'' ''TT2'' 2002, evidence ''c'' [] 2002]"

definition plain_digest :: "string \<Rightarrow> string" where
  "plain_digest s = CHR ''#'' # s"

theorem family_ids_order_free_witness:
  "map_of (resolve_family_title_ids plain_digest media_movie ''solaris'' solaris) =
   map_of (resolve_family_title_ids plain_digest media_movie ''solaris'' (rev solaris))"
  by (rule family_ids_order_free[THEN conjunct1])
    (auto simp: plain_digest_def solaris_def evidence_def)

theorem family_ids_never_merge_witness:
  "map_of (resolve_family_title_ids plain_digest media_movie ''solaris'' solaris) ''a'' \<noteq>
   map_of (resolve_family_title_ids plain_digest media_movie ''solaris'' solaris) ''b''"
proof -
  have r: "ev_release (evidence r i y) = r" for r i y by (simp add: evidence_def)
  have "ev_id (evidence ''a'' ''tt1'' 1972) = ''tt1''" "ev_id (evidence ''b'' ''TT2'' 2002) = ''tt2''" by code_simp+
  then have "map_of (resolve_family_title_ids plain_digest media_movie ''solaris'' solaris)
      (ev_release (evidence ''a'' ''tt1'' 1972)) \<noteq>
    map_of (resolve_family_title_ids plain_digest media_movie ''solaris'' solaris)
      (ev_release (evidence ''b'' ''TT2'' 2002))"
    by (intro family_ids_never_merge) (auto simp: plain_digest_def solaris_def r inj_def)
  then show ?thesis unfolding r .
qed

end
