(* ===== verification/Torrent_Lookup.thy ===== *)
theory Torrent_Lookup
  imports Torrent_Meta
begin

text \<open>
  The cached lookup of a release's metainfo and manifest: \<open>releaseMetainfo\<close>, \<open>torrentManifest\<close> and
  \<open>warmTorrentManifest\<close> of \<open>torrentmeta.go\<close> over the manifest table of the repository
  (\<open>SaveTorrentManifest\<close>, \<open>GetTorrentManifest\<close> of \<open>sqlite/repository.go\<close>).  The trackers and the
  engine are remote: \<open>source_env\<close> holds what they answer.  A repository call fails when its fault
  field is set, whatever the reason.
\<close>

datatype 'a row = Row 'a | No_Row | Row_Error string

record manifest_store =
  mst_rows :: "torrent_manifest list"
  mst_get_fault :: "string option"
  mst_save_fault :: "string option"

interpretation manifests: row_store "row_of man_release_id" "upsert man_release_id" man_release_id
  by unfold_locales auto

definition get_torrent_manifest :: "manifest_store \<Rightarrow> string \<Rightarrow> torrent_manifest row" where
  "get_torrent_manifest st rid =
     (case mst_get_fault st of
        Some e \<Rightarrow> Row_Error e
      | None \<Rightarrow> (case row_of man_release_id rid (mst_rows st) of None \<Rightarrow> No_Row | Some m \<Rightarrow> Row m))"

text \<open>The column keeps whole seconds; a zero \<open>FetchedAt\<close> is stored as the present.\<close>

definition unix_seconds :: "go_time \<Rightarrow> go_time" where
  "unix_seconds t = (t div second) * second"

definition stored_manifest :: "torrent_manifest \<Rightarrow> go_time \<Rightarrow> torrent_manifest" where
  "stored_manifest m now = m\<lparr>man_fetched_at :=
     unix_seconds (if man_fetched_at m = zero_time then now else man_fetched_at m)\<rparr>"

definition save_torrent_manifest ::
  "manifest_store \<Rightarrow> torrent_manifest \<Rightarrow> go_time \<Rightarrow> manifest_store \<times> string option" where
  "save_torrent_manifest st m now =
     (if length (man_metainfo m) \<ge> 16 * 2 ^ 20 then (st, Some ''torrent metadata is too large'')
      else (case mst_save_fault st of
              Some e \<Rightarrow> (st, Some e)
            | None \<Rightarrow>
                (st\<lparr>mst_rows := upsert man_release_id (stored_manifest m now) (mst_rows st)\<rparr>, None)))"

datatype resolve_error = Resolve_Deadline string | Resolve_Failed string

record source_env =
  se_eligible :: "string \<Rightarrow> string option"
  se_acquire :: "string \<Rightarrow> string \<Rightarrow> string + torrent_acquisition"
  se_resolve :: "string \<Rightarrow> 8 word \<Rightarrow> resolve_error + string"
  se_cancelled :: bool

datatype meta_error = Meta_Row string | Meta_Ineligible string | Meta_Acquire string
  | Meta_Acquisition acquisition_error | Meta_Deadline string | Meta_Engine string
  | Meta_Parse bn_error | Meta_Save string

definition provider_key :: "torrent_release \<Rightarrow> string" where
  "provider_key rel = (if rel_provider_id rel = [] then rel_id rel else rel_provider_id rel)"

definition fetch_metainfo :: "source_env \<Rightarrow> torrent_release \<Rightarrow> meta_error + string" where
  "fetch_metainfo env rel =
     (case se_eligible env (rel_tracker_id rel) of
        Some e \<Rightarrow> Inl (Meta_Ineligible e)
      | None \<Rightarrow>
          (case se_acquire env (rel_tracker_id rel) (provider_key rel) of
             Inl e \<Rightarrow> Inl (Meta_Acquire e)
           | Inr a \<Rightarrow>
               (case validate_acquisition a of
                  Inl e \<Rightarrow> Inl (Meta_Acquisition e)
                | Inr _ \<Rightarrow>
                    if ta_magnet a = [] then Inr (ta_metainfo a)
                    else (case se_resolve env (ta_magnet a) (ta_magnet_discovery a) of
                            Inr data \<Rightarrow> Inr data
                          | Inl (Resolve_Deadline e) \<Rightarrow>
                              if se_cancelled env then Inl (Meta_Engine e) else Inl (Meta_Deadline e)
                          | Inl (Resolve_Failed e) \<Rightarrow> Inl (Meta_Engine e)))))"

definition release_metainfo ::
  "source_env \<Rightarrow> manifest_store \<Rightarrow> torrent_release \<Rightarrow> meta_error + string" where
  "release_metainfo env st rel =
     (case get_torrent_manifest st (rel_id rel) of
        Row_Error e \<Rightarrow> Inl (Meta_Row e)
      | Row m \<Rightarrow> if man_metainfo m \<noteq> [] then Inr (man_metainfo m) else fetch_metainfo env rel
      | No_Row \<Rightarrow> fetch_metainfo env rel)"

definition manifest_cached :: "torrent_manifest \<Rightarrow> bool" where
  "manifest_cached m = (man_files m \<noteq> [] \<or> man_metainfo m \<noteq> [])"

definition build_manifest ::
  "source_env \<Rightarrow> manifest_store \<Rightarrow> torrent_release \<Rightarrow> go_time \<Rightarrow>
   manifest_store \<times> (meta_error + torrent_manifest)" where
  "build_manifest env st rel now =
     (case release_metainfo env st rel of
        Inl e \<Rightarrow> (st, Inl e)
      | Inr data \<Rightarrow>
          (case parse_torrent_manifest (rel_id rel) data now of
             Inl e \<Rightarrow> (st, Inl (Meta_Parse e))
           | Inr m \<Rightarrow>
               (case save_torrent_manifest st m now of
                  (st', Some e) \<Rightarrow> (st', Inl (Meta_Save e))
                | (st', None) \<Rightarrow> (st', Inr m))))"

definition torrent_manifest_of ::
  "source_env \<Rightarrow> manifest_store \<Rightarrow> torrent_release \<Rightarrow> go_time \<Rightarrow>
   manifest_store \<times> (meta_error + torrent_manifest)" where
  "torrent_manifest_of env st rel now =
     (case get_torrent_manifest st (rel_id rel) of
        Row m \<Rightarrow> if manifest_cached m then (st, Inr m) else build_manifest env st rel now
      | Row_Error e \<Rightarrow> (st, Inl (Meta_Row e))
      | No_Row \<Rightarrow> build_manifest env st rel now)"

definition warm_fetch ::
  "source_env \<Rightarrow> manifest_store \<Rightarrow> torrent_release \<Rightarrow> go_time \<Rightarrow> manifest_store \<times> (meta_error + bool)" where
  "warm_fetch env st rel now =
     (case se_eligible env (rel_tracker_id rel) of
        Some e \<Rightarrow> (st, Inl (Meta_Ineligible e))
      | None \<Rightarrow>
          (case se_acquire env (rel_tracker_id rel) (provider_key rel) of
             Inl e \<Rightarrow> (st, Inl (Meta_Acquire e))
           | Inr a \<Rightarrow>
               if ta_magnet a \<noteq> [] then (st, Inr False)
               else (case validate_acquisition a of
                  Inl e \<Rightarrow> (st, Inl (Meta_Acquisition e))
                | Inr _ \<Rightarrow>
                    (case parse_torrent_manifest (rel_id rel) (ta_metainfo a) now of
                       Inl e \<Rightarrow> (st, Inl (Meta_Parse e))
                     | Inr m \<Rightarrow>
                         (case save_torrent_manifest st m now of
                            (st', Some e) \<Rightarrow> (st', Inl (Meta_Save e))
                          | (st', None) \<Rightarrow> (st', Inr True))))))"

definition warm_torrent_manifest ::
  "source_env \<Rightarrow> manifest_store \<Rightarrow> torrent_release \<Rightarrow> go_time \<Rightarrow> manifest_store \<times> (meta_error + bool)" where
  "warm_torrent_manifest env st rel now =
     (case get_torrent_manifest st (rel_id rel) of
        Row m \<Rightarrow> if manifest_cached m then (st, Inr True) else warm_fetch env st rel now
      | Row_Error e \<Rightarrow> (st, Inl (Meta_Row e))
      | No_Row \<Rightarrow> warm_fetch env st rel now)"

subsection \<open>Facts\<close>

lemma stored_manifest_simps [simp]:
  "man_release_id (stored_manifest m now) = man_release_id m"
  "man_files (stored_manifest m now) = man_files m"
  "man_metainfo (stored_manifest m now) = man_metainfo m"
  by (simp_all add: stored_manifest_def)

lemma save_then_get:
  "save_torrent_manifest st m now = (st', None) \<Longrightarrow> mst_get_fault st = None \<Longrightarrow>
   get_torrent_manifest st' (man_release_id m) = Row (stored_manifest m now)"
  using manifests.get_put_same[of "stored_manifest m now"]
  by (auto simp: save_torrent_manifest_def get_torrent_manifest_def split: if_splits option.splits)

lemma save_failed: "save_torrent_manifest st m now = (st', Some e) \<Longrightarrow> st' = st"
  by (auto simp: save_torrent_manifest_def split: if_splits option.splits)

lemma build_manifest_cases:
  "build_manifest env st rel now = (st', r) \<Longrightarrow>
   (st' = st \<and> (\<exists>e. r = Inl e)) \<or>
   (\<exists>m data. r = Inr m \<and> release_metainfo env st rel = Inr data \<and>
      parse_torrent_manifest (rel_id rel) data now = Inr m \<and> save_torrent_manifest st m now = (st', None))"
  by (auto simp: build_manifest_def split: sum.splits prod.splits option.splits dest: save_failed)

lemma torrent_manifest_of_failed:
  "torrent_manifest_of env st rel now = (st', Inl e) \<Longrightarrow> st' = st"
  using build_manifest_cases[of env st rel now st' "Inl e"]
  by (auto simp: torrent_manifest_of_def split: row.splits if_splits)

lemma parsed_manifest_cached:
  "parse_torrent_manifest rid data now = Inr m \<Longrightarrow>
   manifest_cached m \<and> man_release_id m = rid \<and> man_metainfo m = data"
  by (auto simp: parse_torrent_manifest_def manifest_cached_def split: if_splits sum.splits prod.splits)

lemma built_manifest_cached:
  assumes "build_manifest env st rel now = (st', Inr m)" and "mst_get_fault st = None"
  shows "\<exists>m'. torrent_manifest_of env' st' rel now' = (st', Inr m') \<and>
    man_files m' = man_files m \<and> man_metainfo m' = man_metainfo m"
proof -
  obtain data where p: "parse_torrent_manifest (rel_id rel) data now = Inr m"
    and s: "save_torrent_manifest st m now = (st', None)" using build_manifest_cases[OF assms(1)] by blast
  show ?thesis using save_then_get[OF s assms(2)] parsed_manifest_cached[OF p]
    by (auto simp: torrent_manifest_of_def manifest_cached_def)
qed

lemma get_fault_free:
  "get_torrent_manifest st rid = Row c \<Longrightarrow> mst_get_fault st = None"
  "get_torrent_manifest st rid = No_Row \<Longrightarrow> mst_get_fault st = None"
  by (auto simp: get_torrent_manifest_def split: option.splits)

text \<open>
  Once a lookup has answered with a manifest, the next lookup of that release answers
  from the table: the same files and metainfo, whatever the trackers and the engine then do, and
  without changing the table.
\<close>

theorem torrent_manifest_cached:
  assumes "torrent_manifest_of env st rel now = (st', Inr m)"
  shows "\<exists>m'. torrent_manifest_of env' st' rel now' = (st', Inr m') \<and>
    man_files m' = man_files m \<and> man_metainfo m' = man_metainfo m"
proof (cases "get_torrent_manifest st (rel_id rel)")
  case (Row c)
  then have "mst_get_fault st = None" by (rule get_fault_free)
  then show ?thesis using assms Row built_manifest_cached
    by (cases "manifest_cached c") (auto simp: torrent_manifest_of_def)
next
  case No_Row
  then have "mst_get_fault st = None" by (rule get_fault_free)
  then show ?thesis using assms No_Row built_manifest_cached by (simp add: torrent_manifest_of_def)
qed (use assms in \<open>simp add: torrent_manifest_of_def\<close>)

definition sample_release :: torrent_release where
  "sample_release = \<lparr>rel_id = ''r1'', rel_tracker_id = ''filelist'', rel_tracker_name = ''FileList'',
     rel_provider_id = ''17'', rel_category_id = ''21'', rel_browse_class = ''video'',
     rel_discovery_excluded = False, rel_name = ''Show S01'', rel_category = ''TV-Series HD'',
     rel_size_bytes = 12, rel_imdb = [], rel_seeders = 3, rel_leechers = 0, rel_times_completed = 9,
     rel_freeleech = False, rel_double_up = False, rel_internal = False, rel_moderated = True,
     rel_small_description = [], rel_uploaded_at = None, rel_file_count = 2, rel_comments = 0\<rparr>"

definition sample_env :: source_env where
  "sample_env = \<lparr>se_eligible = (\<lambda>_. None),
     se_acquire = (\<lambda>t p. if p = ''17'' then Inr \<lparr>ta_metainfo = encode sample_torrent, ta_magnet = [],
        ta_magnet_discovery = 0\<rparr> else Inl ''unknown torrent''),
     se_resolve = (\<lambda>_ _. Inl (Resolve_Failed ''no engine'')), se_cancelled = False\<rparr>"

definition empty_manifests :: manifest_store where
  "empty_manifests = \<lparr>mst_rows = [], mst_get_fault = None, mst_save_fault = None\<rparr>"

lemma sample_lookup:
  "\<exists>st' m. torrent_manifest_of sample_env empty_manifests sample_release 5 = (st', Inr m) \<and>
     length (man_files m) = 2"
  using parse_encoded[OF sample_torrent_ok sample_torrent_files, of "''r1''" 5] encode_not_e[of sample_torrent]
    sample_torrent_ok(2)
  by (auto simp: torrent_manifest_of_def get_torrent_manifest_def empty_manifests_def row_of_def
      build_manifest_def release_metainfo_def fetch_metainfo_def sample_env_def sample_release_def
      provider_key_def validate_acquisition_def save_torrent_manifest_def)

theorem torrent_manifest_cached_witness:
  "\<exists>st' m'. torrent_manifest_of (sample_env\<lparr>se_eligible := (\<lambda>_. Some ''disabled'')\<rparr>) st' sample_release 9
     = (st', Inr m') \<and> length (man_files m') = 2"
proof -
  obtain st' m where l: "torrent_manifest_of sample_env empty_manifests sample_release 5 = (st', Inr m)"
    and n: "length (man_files m) = 2" using sample_lookup by blast
  show ?thesis using torrent_manifest_cached[OF l] n by metis
qed

lemma warm_fetch_never_resolves: "warm_fetch (env\<lparr>se_resolve := f\<rparr>) st rel now = warm_fetch env st rel now"
  by (auto simp: warm_fetch_def split: option.split sum.split)

lemma warm_never_resolves:
  "warm_torrent_manifest (env\<lparr>se_resolve := f\<rparr>) st rel now = warm_torrent_manifest env st rel now"
  by (auto simp: warm_torrent_manifest_def warm_fetch_never_resolves split: row.splits)

end
