(* ===== verification/Engine_Set.thy ===== *)
theory Engine_Set
  imports Go_Prelude
begin

text \<open>
  \<open>EngineSet\<close> (\<open>internal/application/engine.go\<close>): the torrent engines under their owner prefixes, the
  construction errors of the missing ones, and the fixed order of the prefixes.  The engines map is
  an association list with distinct prefixes; \<open>'e\<close> is the engine.  A route is a prefix and a hash,
  \<open>native:HASH\<close>.
\<close>

record 'e engine_set =
  es_default :: string
  es_engines :: "(string \<times> 'e) list"
  es_init_errs :: "(string \<times> string) list"

datatype engine_set_error = Engines_Empty | Prefix_Without_Colon | Default_Not_Registered

definition new_engine_set :: "string \<Rightarrow> (string \<times> 'e) list \<Rightarrow> engine_set_error + 'e engine_set" where
  "new_engine_set prefix engines =
     (if engines = [] then Inl Engines_Empty
      else if \<not> has_suffix prefix '':'' then Inl Prefix_Without_Colon
      else if map_of engines prefix = None then Inl Default_Not_Registered
      else Inr \<lparr>es_default = prefix, es_engines = engines, es_init_errs = []\<rparr>)"

definition resolve :: "'e engine_set \<Rightarrow> string \<Rightarrow> ('e \<times> string) option" where
  "resolve es route =
     (case cut_at CHR '':'' route of
        None \<Rightarrow> None
      | Some (prefix, hash) \<Rightarrow>
          (case map_of (es_engines es) (prefix @ '':'') of
             None \<Rightarrow> None
           | Some e \<Rightarrow> Some (e, hash)))"

definition default_engine :: "'e engine_set \<Rightarrow> 'e option" where
  "default_engine es = map_of (es_engines es) (es_default es)"

definition mark_unavailable :: "string \<Rightarrow> string \<Rightarrow> 'e engine_set \<Rightarrow> 'e engine_set" where
  "mark_unavailable prefix err es =
     es\<lparr>es_init_errs := upsert fst (prefix, err) (es_init_errs es),
        es_engines := delete_row fst prefix (es_engines es)\<rparr>"

definition init_error :: "'e engine_set \<Rightarrow> string \<Rightarrow> string option" where
  "init_error es prefix = map_of (es_init_errs es) prefix"

definition route_rank :: "string \<Rightarrow> nat" where
  "route_rank prefix = (if prefix = ''native:'' then 0 else if prefix = ''qb:'' then 1 else 2)"

definition prefix_less :: "string \<Rightarrow> string \<Rightarrow> bool" where
  "prefix_less a b =
     (if route_rank a \<noteq> route_rank b then route_rank a < route_rank b else str_less a b)"

definition engine_order :: "'e engine_set \<Rightarrow> string list" where
  "engine_order es = sort_by prefix_less (map fst (es_engines es))"

text \<open>\<open>routePrefix\<close> and \<open>engineIdentity\<close> of \<open>service.go\<close>.\<close>

definition route_prefix :: "string \<Rightarrow> string" where
  "route_prefix route = (case cut_at CHR '':'' route of None \<Rightarrow> route | Some (p, _) \<Rightarrow> p) @ '':''"

definition engine_identity :: "string \<Rightarrow> string" where
  "engine_identity prefix =
     (if prefix = ''native:'' then ''native'' else if prefix = ''qb:'' then ''qbittorrent''
      else trim_suffix prefix '':'')"

definition engine_unavailable_reason :: "'e engine_set \<Rightarrow> string \<Rightarrow> string" where
  "engine_unavailable_reason es route =
     (case init_error es (route_prefix route) of None \<Rightarrow> ''not constructed'' | Some e \<Rightarrow> e)"

subsection \<open>Facts\<close>

interpretation prefixes: strict_weak prefix_less
proof
  show "prefix_less x y \<Longrightarrow> \<not> prefix_less y x" for x y
    by (auto simp: prefix_less_def dest: str_less_asym split: if_splits)
  show "\<not> prefix_less x y \<Longrightarrow> \<not> prefix_less y z \<Longrightarrow> \<not> prefix_less x z" for x y z
    using str_less_negtrans by (auto simp: prefix_less_def split: if_splits)
qed

lemma resolve_route:
  "CHR '':'' \<notin> set p \<Longrightarrow> resolve es (p @ CHR '':'' # hash) =
   map_option (\<lambda>e. (e, hash)) (map_of (es_engines es) (p @ '':''))"
  by (simp add: resolve_def cut_at_append split: option.split)

lemma resolve_marked:
  "resolve (mark_unavailable prefix err es) route =
   (if route_prefix route = prefix then None else resolve es route)"
  by (auto simp: resolve_def route_prefix_def mark_unavailable_def map_of_delete_row split: option.splits)

lemma marked_reason: "route_prefix route = prefix \<Longrightarrow>
    engine_unavailable_reason (mark_unavailable prefix err es) route = err"
  by (simp add: engine_unavailable_reason_def init_error_def mark_unavailable_def map_of_upsert)

lemma native_least: "prefix_less ''native:'' p \<or> p = ''native:''"
  by (auto simp: prefix_less_def route_rank_def)

text \<open>
  The engines are visited in a fixed order: every registered prefix once, sorted by rank
  and name, the native engine first when it is registered; marking an engine unavailable makes
  exactly the routes of its prefix unresolvable (no route falls back to another engine) and reports
  the recorded construction error for them.
\<close>

theorem engine_order_and_routing:
  assumes "distinct (map fst (es_engines es))"
  shows "mset (engine_order es) = mset (map fst (es_engines es)) \<and>
    sorted_wrt (\<lambda>a b. \<not> prefix_less b a) (engine_order es) \<and> distinct (engine_order es) \<and>
    (''native:'' \<in> set (map fst (es_engines es)) \<longrightarrow> hd (engine_order es) = ''native:'') \<and>
    resolve (mark_unavailable prefix err es) route =
      (if route_prefix route = prefix then None else resolve es route) \<and>
    (route_prefix route = prefix \<longrightarrow>
      engine_unavailable_reason (mark_unavailable prefix err es) route = err)"
proof -
  let ?ps = "map fst (es_engines es)"
  have perm: "mset (engine_order es) = mset ?ps" by (simp add: engine_order_def)
  then have dist: "distinct (engine_order es)" using assms mset_eq_imp_distinct_iff by blast
  have sorted: "sorted_wrt (\<lambda>a b. \<not> prefix_less b a) (engine_order es)"
    unfolding engine_order_def by (rule prefixes.sorted_sort_by)
  have head: "hd (engine_order es) = ''native:''" if "''native:'' \<in> set ?ps"
  proof -
    have "engine_order es \<noteq> []" using that by (auto simp: engine_order_def)
    then obtain y ys where y: "engine_order es = y # ys" by (cases "engine_order es") auto
    then have "\<not> prefix_less ''native:'' y"
      using that prefixes.sort_by_hd_least unfolding engine_order_def by blast
    then show ?thesis using native_least y by auto
  qed
  show ?thesis using perm dist sorted head resolve_marked marked_reason by blast
qed

definition two_engines :: "nat engine_set" where
  "two_engines = \<lparr>es_default = ''qb:'', es_engines = [(''qb:'', 1), (''native:'', 2)], es_init_errs = []\<rparr>"

theorem engine_order_and_routing_witness:
  "hd (engine_order two_engines) = ''native:'' \<and>
   resolve (mark_unavailable ''qb:'' ''boom'' two_engines) ''qb:abc'' = None"
  using engine_order_and_routing[of two_engines "''qb:''" "''boom''" "''qb:abc''"]
  by (simp add: two_engines_def route_prefix_def cut_at_def)

end
