(* ===== verification/Stream_Leases.thy ===== *)
theory Stream_Leases
  imports Go_Prelude
begin

text \<open>
  Stream leases (\<open>service.go\<close>: \<open>Acquire\<close>, \<open>Release\<close>, \<open>persistLease\<close>, \<open>dropLease\<close>, \<open>leaseHeld\<close>).
  The table in memory counts the streams of a download; the row carries a flag derived from the
  count.  The calls run concurrently: \<open>leaseMu\<close> makes a change or a look at the count atomic, and
  \<open>leaseWriteMu\<close> covers the look at the count and the write of the flag that follows it.  The step
  relation interleaves these atomic parts; a write that fails leaves the flag as it was.
\<close>

subsection \<open>The table\<close>

type_synonym lease_table = "string \<Rightarrow> nat"

definition lease_held :: "lease_table \<Rightarrow> string \<Rightarrow> bool" where
  "lease_held leases dl = (leases dl > 0)"

definition take_lease :: "string \<Rightarrow> lease_table \<Rightarrow> lease_table" where
  "take_lease dl leases = leases(dl := leases dl + 1)"

text \<open>\<open>dropLease\<close>: the new table and whether the count reached zero.\<close>

definition drop_lease :: "string \<Rightarrow> lease_table \<Rightarrow> lease_table \<times> bool" where
  "drop_lease dl leases =
     (if leases dl > 1 then (leases(dl := leases dl - 1), False) else (leases(dl := 0), True))"

definition row_leased :: "lease_table \<Rightarrow> (string \<Rightarrow> bool) \<Rightarrow> string \<Rightarrow> bool" where
  "row_leased leases flag dl = (lease_held leases dl \<or> flag dl)"

subsection \<open>Interleavings\<close>

text \<open>
  What a call in flight has left to do: \<open>Acq\<close> is the first write of \<open>Acquire\<close>, \<open>Undo\<close> its
  reconciling write after a failure, \<open>Rel\<close> and \<open>Retry\<close> the two attempts of \<open>Release\<close>.  \<open>Look\<close> waits for
  \<open>leaseWriteMu\<close>; \<open>Write\<close> holds it and has read the count.
\<close>

datatype purpose = Acq | Undo | Rel | Retry
datatype call = Look string purpose | Write string purpose bool

record lease_state =
  ls_count :: lease_table
  ls_flag :: "string \<Rightarrow> bool"
  ls_calls :: "call list"

fun is_write :: "call \<Rightarrow> bool" where
  "is_write (Write _ _ _) = True" | "is_write (Look _ _) = False"

text \<open>What follows a failed write: the new count and the call that is left, if any.\<close>

fun after_failure :: "string \<Rightarrow> purpose \<Rightarrow> lease_table \<Rightarrow> lease_table \<times> call list" where
  "after_failure dl Acq leases = (fst (drop_lease dl leases), [Look dl Undo])"
| "after_failure dl Undo leases = (leases, [])"
| "after_failure dl Rel leases = (leases, [Look dl Retry])"
| "after_failure dl Retry leases = (leases, [])"

datatype event_kind = Ev_Acquire | Ev_Release | Ev_Look | Ev_Stored | Ev_Failed purpose

inductive lease_step :: "lease_state \<Rightarrow> event_kind \<Rightarrow> lease_state \<Rightarrow> bool" where
  acquire: "lease_step s Ev_Acquire
     (s\<lparr>ls_count := take_lease dl (ls_count s), ls_calls := Look dl Acq # ls_calls s\<rparr>)"
| release_last: "drop_lease dl (ls_count s) = (c, True) \<Longrightarrow>
     lease_step s Ev_Release (s\<lparr>ls_count := c, ls_calls := Look dl Rel # ls_calls s\<rparr>)"
| release_shared: "drop_lease dl (ls_count s) = (c, False) \<Longrightarrow>
     lease_step s Ev_Release (s\<lparr>ls_count := c\<rparr>)"
| look: "ls_calls s = xs @ Look dl p # ys \<Longrightarrow> list_all (\<lambda>c. \<not> is_write c) (ls_calls s) \<Longrightarrow>
     lease_step s Ev_Look (s\<lparr>ls_calls := xs @ Write dl p (lease_held (ls_count s) dl) # ys\<rparr>)"
| stored: "ls_calls s = xs @ Write dl p v # ys \<Longrightarrow>
     lease_step s Ev_Stored (s\<lparr>ls_flag := (ls_flag s)(dl := v), ls_calls := xs @ ys\<rparr>)"
| failed: "ls_calls s = xs @ Write dl p v # ys \<Longrightarrow> after_failure dl p (ls_count s) = (c, rest) \<Longrightarrow>
     lease_step s (Ev_Failed p) (s\<lparr>ls_count := c, ls_calls := rest @ xs @ ys\<rparr>)"

inductive_cases lease_stepE: "lease_step s e s'"

text \<open>\<open>ResetLeases\<close> at startup: no stream, no flag, no call.\<close>

definition lease_init :: lease_state where
  "lease_init = \<lparr>ls_count = (\<lambda>_. 0), ls_flag = (\<lambda>_. False), ls_calls = []\<rparr>"

text \<open>Runs in which a write may fail, but not the attempt that follows a failed one.\<close>

inductive lease_run :: "lease_state \<Rightarrow> bool" where
  start: "lease_run lease_init"
| step: "lease_run s \<Longrightarrow> lease_step s e s' \<Longrightarrow> e \<noteq> Ev_Failed Undo \<Longrightarrow> e \<noteq> Ev_Failed Retry \<Longrightarrow> lease_run s'"

subsection \<open>The invariant\<close>

definition pending :: "lease_state \<Rightarrow> string \<Rightarrow> bool" where
  "pending s dl = (\<exists>p. Look dl p \<in> set (ls_calls s))"

text \<open>The flag once the write in progress, if it is for this download, has landed.\<close>

definition flag_after :: "lease_state \<Rightarrow> string \<Rightarrow> bool \<Rightarrow> bool" where
  "flag_after s dl b = (if \<exists>p v. Write dl p v \<in> set (ls_calls s)
     then (\<exists>p. Write dl p b \<in> set (ls_calls s)) else ls_flag s dl = b)"

definition lease_inv :: "lease_state \<Rightarrow> bool" where
  "lease_inv s = (length (filter is_write (ls_calls s)) \<le> 1 \<and>
     (\<forall>dl. pending s dl \<or> flag_after s dl (lease_held (ls_count s) dl)))"

lemma one_write:
  assumes "length (filter is_write (xs @ Write dl p v # ys)) \<le> 1"
  shows "Write d q w \<notin> set xs \<and> Write d q w \<notin> set ys"
proof -
  have "filter is_write xs = [] \<and> filter is_write ys = []" using assms by auto
  then show ?thesis by (auto simp: filter_empty_conv)
qed

lemma no_write: "list_all (\<lambda>c. \<not> is_write c) cs \<Longrightarrow> Write d p v \<notin> set cs"
  by (auto simp: list_all_iff)

lemma drop_lease_other: "drop_lease dl c = (c', b) \<Longrightarrow> d \<noteq> dl \<Longrightarrow> c' d = c d"
  by (auto simp: drop_lease_def split: if_splits)

lemma drop_lease_shared: "drop_lease dl c = (c', False) \<Longrightarrow> lease_held c' d = lease_held c d"
  by (auto simp: drop_lease_def lease_held_def split: if_splits)

lemma lease_inv_step:
  assumes "lease_step s e s'" and "lease_inv s" and "e \<noteq> Ev_Failed Undo" and "e \<noteq> Ev_Failed Retry"
  shows "lease_inv s'"
  using assms(1)
proof (cases rule: lease_step.cases)
  case (acquire dl)
  then show ?thesis using assms(2)
    by (auto simp: lease_inv_def pending_def flag_after_def take_lease_def lease_held_def split: if_splits)
next
  case (release_last dl c)
  have "c d = ls_count s d" if "d \<noteq> dl" for d using drop_lease_other release_last that by blast
  then show ?thesis using assms(2) release_last
    by (auto simp: lease_inv_def pending_def flag_after_def lease_held_def split: if_splits) metis+
next
  case (release_shared dl c)
  have "lease_held c d = lease_held (ls_count s) d" for d using release_shared drop_lease_shared by blast
  then have "lease_held (ls_count s') d = lease_held (ls_count s) d" "flag_after s' d b = flag_after s d b"
    "pending s' d = pending s d" "ls_calls s' = ls_calls s" for d b
    using release_shared by (simp_all add: pending_def flag_after_def)
  then show ?thesis using assms(2) by (simp add: lease_inv_def)
next
  case (look xs dl p ys)
  have nw: "Write d q v \<notin> set (ls_calls s)" for d q v using look no_write by blast
  have none: "filter is_write xs = []" "filter is_write ys = []"
    using look by (auto simp: list_all_iff filter_empty_conv)
  have inv: "pending s d \<or> ls_flag s d = lease_held (ls_count s) d" for d
    using assms(2) nw by (auto simp: lease_inv_def flag_after_def)
  have "pending s' d \<or> flag_after s' d (lease_held (ls_count s') d)" for d
  proof (cases "d = dl")
    case True
    then show ?thesis using look by (auto simp: flag_after_def)
  next
    case False
    then show ?thesis using look inv[of d] nw
      by (auto simp: pending_def flag_after_def split: if_splits)
  qed
  then show ?thesis using look none by (simp add: lease_inv_def)
next
  case (stored xs dl p v ys)
  have ow: "Write d q w \<notin> set xs \<and> Write d q w \<notin> set ys" for d q w
    using assms(2) stored one_write[of xs dl p v ys] by (simp add: lease_inv_def)
  have inv: "pending s d \<or> flag_after s d (lease_held (ls_count s) d)" for d
    using assms(2) by (simp add: lease_inv_def)
  have "pending s' d \<or> flag_after s' d (lease_held (ls_count s') d)" for d
    using inv[of d] stored ow by (cases "d = dl") (auto simp: pending_def flag_after_def split: if_splits)
  then show ?thesis using stored assms(2) by (auto simp: lease_inv_def)
next
  case (failed xs dl p v ys c rest)
  have ow: "Write d q w \<notin> set xs \<and> Write d q w \<notin> set ys" for d q w
    using assms(2) failed one_write[of xs dl p v ys] by (simp add: lease_inv_def)
  have inv: "pending s d \<or> flag_after s d (lease_held (ls_count s) d)" for d
    using assms(2) by (simp add: lease_inv_def)
  have p: "p = Acq \<or> p = Rel" using failed assms(3,4) by (cases p) auto
  obtain q where rest: "rest = [Look dl q]" using p failed by auto
  have same: "c d = ls_count s d" if "d \<noteq> dl" for d
    using p failed that by (auto simp: drop_lease_def split: if_splits)
  have "pending s' d \<or> flag_after s' d (lease_held (ls_count s') d)" for d
    using inv[of d] failed ow rest same[of d]
    by (cases "d = dl") (auto simp: pending_def flag_after_def lease_held_def split: if_splits)
  then show ?thesis using failed assms(2) rest by (auto simp: lease_inv_def)
qed

lemma lease_run_inv: "lease_run s \<Longrightarrow> lease_inv s"
proof (induction rule: lease_run.induct)
  case start
  then show ?case by (simp add: lease_inv_def lease_init_def flag_after_def pending_def lease_held_def)
next
  case (step s e s')
  then show ?case using lease_inv_step by blast
qed

text \<open>
  Property C3: however acquisitions and releases of streams interleave, and whichever first writes
  fail, as soon as no call is in flight every row carries the lease flag exactly when a stream is
  active on it.
\<close>

theorem leases_settle:
  assumes "lease_run s" and "ls_calls s = []"
  shows "ls_flag s dl = lease_held (ls_count s) dl"
  using lease_run_inv[OF assms(1)] assms(2) by (auto simp: lease_inv_def pending_def flag_after_def)

text \<open>Two streams start, the first write fails, one stream ends: the flag stays set.\<close>

definition settled :: lease_state where
  "settled = \<lparr>ls_count = (\<lambda>_. 0)(''d'' := 1), ls_flag = (\<lambda>_. False)(''d'' := True), ls_calls = []\<rparr>"

lemma settled_run: "lease_run settled"
proof -
  let ?c = "\<lambda>n. (\<lambda>_. 0)(''d'' := n) :: lease_table"
  let ?s = "\<lambda>n f cs. \<lparr>ls_count = ?c n, ls_flag = f, ls_calls = cs\<rparr>"
  let ?off = "\<lambda>_. False" and ?on = "(\<lambda>_. False)(''d'' := True)"
  have "lease_step lease_init Ev_Acquire (?s 1 ?off [Look ''d'' Acq])"
    using acquire[of lease_init "''d''"] by (simp add: lease_init_def take_lease_def)
  then have r1: "lease_run (?s 1 ?off [Look ''d'' Acq])" using lease_run.step[OF lease_run.start] by simp
  have "lease_step (?s 1 ?off [Look ''d'' Acq]) Ev_Look (?s 1 ?off [Write ''d'' Acq True])"
    using look[of "?s 1 ?off [Look ''d'' Acq]" "[]" "''d''" Acq "[]"] by (simp add: lease_held_def)
  then have r2: "lease_run (?s 1 ?off [Write ''d'' Acq True])" using lease_run.step[OF r1] by simp
  have "lease_step (?s 1 ?off [Write ''d'' Acq True]) Ev_Acquire
      (?s 2 ?off [Look ''d'' Acq, Write ''d'' Acq True])"
    using acquire[of "?s 1 ?off [Write ''d'' Acq True]" "''d''"] by (simp add: take_lease_def numeral_2_eq_2)
  then have r3: "lease_run (?s 2 ?off [Look ''d'' Acq, Write ''d'' Acq True])"
    using lease_run.step[OF r2] by simp
  have "lease_step (?s 2 ?off [Look ''d'' Acq, Write ''d'' Acq True]) (Ev_Failed Acq)
      (?s 1 ?off [Look ''d'' Undo, Look ''d'' Acq])"
    using failed[of "?s 2 ?off [Look ''d'' Acq, Write ''d'' Acq True]" "[Look ''d'' Acq]" "''d''" Acq True "[]"]
    by (simp add: drop_lease_def)
  then have r4: "lease_run (?s 1 ?off [Look ''d'' Undo, Look ''d'' Acq])"
    using lease_run.step[OF r3] by simp
  have "lease_step (?s 1 ?off [Look ''d'' Undo, Look ''d'' Acq]) Ev_Look
      (?s 1 ?off [Write ''d'' Undo True, Look ''d'' Acq])"
    using look[of "?s 1 ?off [Look ''d'' Undo, Look ''d'' Acq]" "[]" "''d''" Undo "[Look ''d'' Acq]"]
    by (simp add: lease_held_def)
  then have r5: "lease_run (?s 1 ?off [Write ''d'' Undo True, Look ''d'' Acq])"
    using lease_run.step[OF r4] by simp
  have "lease_step (?s 1 ?off [Write ''d'' Undo True, Look ''d'' Acq]) Ev_Stored
      (?s 1 ?on [Look ''d'' Acq])"
    using stored[of "?s 1 ?off [Write ''d'' Undo True, Look ''d'' Acq]" "[]" "''d''" Undo True "[Look ''d'' Acq]"]
    by simp
  then have r6: "lease_run (?s 1 ?on [Look ''d'' Acq])" using lease_run.step[OF r5] by simp
  have "lease_step (?s 1 ?on [Look ''d'' Acq]) Ev_Look (?s 1 ?on [Write ''d'' Acq True])"
    using look[of "?s 1 ?on [Look ''d'' Acq]" "[]" "''d''" Acq "[]"] by (simp add: lease_held_def)
  then have r7: "lease_run (?s 1 ?on [Write ''d'' Acq True])" using lease_run.step[OF r6] by simp
  have "lease_step (?s 1 ?on [Write ''d'' Acq True]) Ev_Stored settled"
    using stored[of "?s 1 ?on [Write ''d'' Acq True]" "[]" "''d''" Acq True "[]"]
    by (simp add: settled_def)
  then show ?thesis using lease_run.step[OF r7] by simp
qed

theorem leases_settle_witness: "ls_flag settled ''d'' = lease_held (ls_count settled) ''d'' \<and> ls_flag settled ''d''"
  using leases_settle[OF settled_run, of "''d''"] by (simp add: settled_def)

end
