(* ===== verification/Config.thy ===== *)
theory Config
  imports Torrent_Meta Media_Path
begin

text \<open>
  Settings (\<open>internal/platform/config\<close>): the \<open>Settings\<close> record and its defaults, the normalisation of
  rule and provider lists, validation, the environment overlay, and the store with its two
  transitions \<open>LoadAt\<close> and \<open>Save\<close>.  \<open>reflect\<close> walks the struct's fields in order; the model does with
  the table \<open>settings_fields\<close>, one row per field with its JSON key, its reader and its writer.

  The JSON codec, the environment, the URL and CIDR parsers and \<open>strconv.ParseFloat\<close> are read through
  \<open>config_env\<close>; \<open>float64\<close> values are rationals, so the rejection of NaN and infinities has no counterpart.
  Decoding a settings file is modelled by its effect: \<open>present\<close> holds the keys of the file, \<open>decode\<close> is
  the record after \<open>json.Unmarshal\<close> over the given one.
\<close>

subsection \<open>The settings\<close>

record settings =
  st_instance_name :: string
  st_listen_address :: string
  st_trusted_cidrs :: "string list"
  st_database_path :: string
  st_download_root :: string
  st_filelist_enabled :: bool
  st_filelist_url :: string
  st_filelist_username :: string
  st_filelist_passkey :: string
  st_piratebay_enabled :: bool
  st_piratebay_website_url :: string
  st_piratebay_api_url :: string
  st_qbittorrent_url :: string
  st_qbittorrent_username :: string
  st_qbittorrent_password :: string
  st_download_engine :: string
  st_torrent_peer_port :: int
  st_torrent_public_peer_port :: int
  st_torrent_session_dir :: string
  st_initial_buffer_bytes :: int
  st_read_ahead_bytes :: int
  st_piece_wait_timeout_seconds :: int
  st_stream_start_bytes :: int
  st_catalog_max_age_hours :: int
  st_allocation_gb :: rat
  st_reserve_gb :: rat
  st_eviction_rules :: "string list"
  st_protect_incomplete :: bool
  st_protect_leased :: bool
  st_protect_favorites :: bool
  st_protect_never_watched :: bool
  st_preferred_subtitle_language :: string
  st_fallback_subtitle_language :: string
  st_preferred_audio_language :: string
  st_tmdb_api_key :: string
  st_metadata_providers :: "string list"
  st_metadata_language :: string
  st_metadata_fallback_language :: string
  st_artwork_cache_path :: string
  st_artwork_cache_max_bytes :: int
  st_subdl_url :: string
  st_subdl_api_key :: string
  st_subtitle_cache_path :: string
  st_subtitle_cache_max_bytes :: int
  st_ffprobe_path :: string
  st_ffmpeg_path :: string
  st_watched_threshold_percent :: int
  st_max_concurrent_jobs :: int
  st_title_refresh_timeout_minutes :: int
  st_portal_api_key :: string

definition default_media_tool_path :: "string \<Rightarrow> string \<Rightarrow> string" where
  "default_media_tool_path goos binary =
     (if goos = ''windows''
      then ''C:'' @ [CHR 0x5C] @ ''Program Files'' @ [CHR 0x5C] @ ''ffmpeg'' @ [CHR 0x5C] @ ''bin'' @ [CHR 0x5C]
           @ binary @ ''.exe''
      else ''/usr/bin/'' @ binary)"

definition defaults :: "string \<Rightarrow> settings" where
  "defaults goos = \<lparr>
     st_instance_name = ''Torrent TV'', st_listen_address = '':8097'',
     st_trusted_cidrs = [''127.0.0.0/8'', ''::1/128'', ''10.0.0.0/8'', ''172.16.0.0/12'', ''192.168.0.0/16''],
     st_database_path = ''data/filelist.db'', st_download_root = ''data/downloads'',
     st_filelist_enabled = True, st_filelist_url = ''https://filelist.io'',
     st_filelist_username = [], st_filelist_passkey = [], st_piratebay_enabled = False,
     st_piratebay_website_url = ''https://thepiratebay.org'',
     st_piratebay_api_url = ''https://apibay.org'',
     st_qbittorrent_url = ''http://127.0.0.1:8080'', st_qbittorrent_username = [],
     st_qbittorrent_password = [], st_download_engine = ''native'', st_torrent_peer_port = 42069,
     st_torrent_public_peer_port = 0, st_torrent_session_dir = ''data/torrent-session'',
     st_initial_buffer_bytes = 128 * 2 ^ 20, st_read_ahead_bytes = 256 * 2 ^ 20,
     st_piece_wait_timeout_seconds = 600, st_stream_start_bytes = 2 * 2 ^ 20,
     st_catalog_max_age_hours = 24, st_allocation_gb = 15, st_reserve_gb = 8,
     st_eviction_rules = [''oldest-completed''], st_protect_incomplete = True,
     st_protect_leased = True, st_protect_favorites = False, st_protect_never_watched = False,
     st_preferred_subtitle_language = ''ro'', st_fallback_subtitle_language = ''en'',
     st_preferred_audio_language = ''en'', st_tmdb_api_key = [],
     st_metadata_providers = [''tmdb'', ''tvmaze'', ''jikan''], st_metadata_language = ''ro-RO'',
     st_metadata_fallback_language = ''en-US'', st_artwork_cache_path = ''data/artwork'',
     st_artwork_cache_max_bytes = 512 * 2 ^ 20, st_subdl_url = ''https://api.subdl.com'',
     st_subdl_api_key = [], st_subtitle_cache_path = ''data/subtitles'',
     st_subtitle_cache_max_bytes = 256 * 2 ^ 20,
     st_ffprobe_path = default_media_tool_path goos ''ffprobe'',
     st_ffmpeg_path = default_media_tool_path goos ''ffmpeg'', st_watched_threshold_percent = 90,
     st_max_concurrent_jobs = 10, st_title_refresh_timeout_minutes = 30, st_portal_api_key = []\<rparr>"

subsection \<open>Rule and provider lists\<close>

definition eviction_rule_atoms :: "string list" where
  "eviction_rule_atoms = [''oldest-completed'', ''newest-completed'', ''least-recently-played'',
     ''most-recently-played'', ''watched-first'', ''never-watched-first'', ''largest'', ''smallest'']"

definition valid_eviction_rule :: "string \<Rightarrow> bool" where
  "valid_eviction_rule rule = (to_lower (trim_space rule) \<in> set eviction_rule_atoms)"

definition normalize_eviction_rules :: "string list \<Rightarrow> string list" where
  "normalize_eviction_rules rules =
     (let out = filter (\<lambda>r. r \<noteq> []) (map (\<lambda>r. to_lower (trim_space r)) rules) in
      if out = [] then [hd eviction_rule_atoms] else out)"

fun dedupe_from :: "string list \<Rightarrow> string list \<Rightarrow> string list" where
  "dedupe_from seen [] = []"
| "dedupe_from seen (p # ps) =
     (let k = to_lower (trim_space p) in
      if k \<noteq> [] \<and> k \<notin> set seen then k # dedupe_from (k # seen) ps else dedupe_from seen ps)"

definition normalize_metadata_providers :: "string list \<Rightarrow> string list" where
  "normalize_metadata_providers providers = dedupe_from [] providers"

subsection \<open>Validation\<close>

record url_parts =
  up_scheme :: string
  up_host :: string
  up_has_user :: bool

record config_env =
  cf_goos :: string
  cf_lookup :: "string \<Rightarrow> string option"
  cf_parse_float :: "string \<Rightarrow> rat option"
  cf_parse_url :: "string \<Rightarrow> url_parts option"
  cf_valid_prefix :: "string \<Rightarrow> bool"

datatype config_error = Required_Fields | Initial_Buffer | Read_Ahead | Stream_Start | Piece_Wait
  | Allocation_Range | Reserve_Range | Watched_Threshold | Subtitle_Cache | Ffprobe_Name | Ffmpeg_Name
  | Artwork_Cache | Subdl_Url | Piratebay_Url | Max_Jobs | Refresh_Timeout | Trusted_Cidr
  | Download_Engine | Peer_Port | Public_Peer_Port | Ports_Equal | Session_Dir | Eviction_Rule
  | Metadata_Provider | Env_Integer string | Env_Boolean string | Env_Number string
  | Tool_Probe string | Storage_Error

definition retention_gb_invalid :: "rat \<Rightarrow> bool" where
  "retention_gb_invalid v = (v < 0 \<or> (v \<noteq> 0 \<and> (v < 1 / 10 \<or> v > 100000)))"

text \<open>\<open>mediaToolName\<close> off Windows: an absolute path whose base name starts with the binary.\<close>

definition media_tool_name_ok :: "string \<Rightarrow> string \<Rightarrow> bool" where
  "media_tool_name_ok path binary =
     (is_abs path \<and> has_prefix (to_lower (path_base path)) binary)"

definition trim_right_slashes :: "string \<Rightarrow> string" where
  "trim_right_slashes s = rev (dropWhile (\<lambda>c. c = CHR ''/'') (rev s))"

definition subdl_url_bad :: "config_env \<Rightarrow> string \<Rightarrow> bool" where
  "subdl_url_bad env raw =
     ((case cf_parse_url env raw of None \<Rightarrow> True | Some u \<Rightarrow> up_scheme u = [] \<or> up_host u = []) \<or>
      \<not> equal_fold (trim_space (trim_right_slashes raw)) ''https://api.subdl.com'')"

definition piratebay_url_bad :: "config_env \<Rightarrow> string \<Rightarrow> bool" where
  "piratebay_url_bad env raw =
     (case cf_parse_url env (trim_space raw) of
        None \<Rightarrow> True
      | Some u \<Rightarrow> up_scheme u = [] \<or> up_host u = [] \<or>
          (up_scheme u \<noteq> ''http'' \<and> up_scheme u \<noteq> ''https'') \<or> up_has_user u)"

definition known_providers :: "string list" where
  "known_providers = [''tmdb'', ''tvmaze'', ''jikan'']"

definition check_all :: "(bool \<times> config_error) list \<Rightarrow> config_error option" where
  "check_all cs = map_option snd (List.find fst cs)"

definition validate :: "config_env \<Rightarrow> settings \<Rightarrow> config_error option" where
  "validate env v = check_all [
     (trim_space (st_instance_name v) = [] \<or> st_listen_address v = [] \<or> st_database_path v = [] \<or>
        st_download_root v = [], Required_Fields),
     (st_initial_buffer_bytes v < 16 * 2 ^ 20 \<or> st_initial_buffer_bytes v > 2 * 2 ^ 30, Initial_Buffer),
     (st_read_ahead_bytes v < st_initial_buffer_bytes v \<or> st_read_ahead_bytes v > 2 * 2 ^ 30, Read_Ahead),
     (st_stream_start_bytes v < 256 * 2 ^ 10 \<or> st_stream_start_bytes v > 64 * 2 ^ 20, Stream_Start),
     (st_piece_wait_timeout_seconds v < 1, Piece_Wait),
     (retention_gb_invalid (st_allocation_gb v), Allocation_Range),
     (retention_gb_invalid (st_reserve_gb v), Reserve_Range),
     (st_watched_threshold_percent v < 50 \<or> st_watched_threshold_percent v > 100, Watched_Threshold),
     (st_subtitle_cache_path v = [] \<or> st_subtitle_cache_max_bytes v < 2 ^ 20 \<or>
        st_subtitle_cache_max_bytes v > 4 * 2 ^ 30, Subtitle_Cache),
     (\<not> media_tool_name_ok (st_ffprobe_path v) ''ffprobe'', Ffprobe_Name),
     (\<not> media_tool_name_ok (st_ffmpeg_path v) ''ffmpeg'', Ffmpeg_Name),
     (st_artwork_cache_path v = [] \<or> st_artwork_cache_max_bytes v < 16 * 2 ^ 20 \<or>
        st_artwork_cache_max_bytes v > 8 * 2 ^ 30, Artwork_Cache),
     (subdl_url_bad env (st_subdl_url v), Subdl_Url),
     (piratebay_url_bad env (st_piratebay_website_url v) \<or>
        piratebay_url_bad env (st_piratebay_api_url v), Piratebay_Url),
     (st_max_concurrent_jobs v < 1 \<or> st_max_concurrent_jobs v > 20, Max_Jobs),
     (st_title_refresh_timeout_minutes v < 5 \<or> st_title_refresh_timeout_minutes v > 120, Refresh_Timeout),
     (\<not> list_all (cf_valid_prefix env) (st_trusted_cidrs v), Trusted_Cidr),
     (st_download_engine v \<noteq> ''native'' \<and> st_download_engine v \<noteq> ''qbittorrent'', Download_Engine),
     (st_torrent_peer_port v < 0 \<or> st_torrent_peer_port v > 65535, Peer_Port),
     (st_torrent_public_peer_port v < 0 \<or> st_torrent_public_peer_port v > 65535, Public_Peer_Port),
     (st_torrent_peer_port v \<noteq> 0 \<and> st_torrent_public_peer_port v \<noteq> 0 \<and>
        st_torrent_peer_port v = st_torrent_public_peer_port v, Ports_Equal),
     (trim_space (st_torrent_session_dir v) = [], Session_Dir),
     (\<not> list_all valid_eviction_rule (st_eviction_rules v), Eviction_Rule),
     (\<not> list_all (\<lambda>p. p \<in> set known_providers)
        (normalize_metadata_providers (st_metadata_providers v)), Metadata_Provider)]"

subsection \<open>The environment overlay\<close>

datatype settings_field =
    Str_Field string "settings \<Rightarrow> string" "string \<Rightarrow> settings \<Rightarrow> settings"
  | Int_Field string "settings \<Rightarrow> int" "int \<Rightarrow> settings \<Rightarrow> settings"
  | Bool_Field string "settings \<Rightarrow> bool" "bool \<Rightarrow> settings \<Rightarrow> settings"
  | Num_Field string "settings \<Rightarrow> rat" "rat \<Rightarrow> settings \<Rightarrow> settings"
  | List_Field string "settings \<Rightarrow> string list" "string list \<Rightarrow> settings \<Rightarrow> settings"

fun field_key :: "settings_field \<Rightarrow> string" where
  "field_key (Str_Field k g w) = k"
| "field_key (Int_Field k g w) = k"
| "field_key (Bool_Field k g w) = k"
| "field_key (Num_Field k g w) = k"
| "field_key (List_Field k g w) = k"

definition settings_fields :: "settings_field list" where
  "settings_fields = [
     Str_Field ''instanceName'' st_instance_name
       (\<lambda>v. st_instance_name_update (\<lambda>_. v)),
     Str_Field ''listenAddress'' st_listen_address
       (\<lambda>v. st_listen_address_update (\<lambda>_. v)),
     List_Field ''trustedCidrs'' st_trusted_cidrs
       (\<lambda>v. st_trusted_cidrs_update (\<lambda>_. v)),
     Str_Field ''databasePath'' st_database_path
       (\<lambda>v. st_database_path_update (\<lambda>_. v)),
     Str_Field ''downloadRoot'' st_download_root
       (\<lambda>v. st_download_root_update (\<lambda>_. v)),
     Bool_Field ''fileListEnabled'' st_filelist_enabled
       (\<lambda>v. st_filelist_enabled_update (\<lambda>_. v)),
     Str_Field ''fileListUrl'' st_filelist_url
       (\<lambda>v. st_filelist_url_update (\<lambda>_. v)),
     Str_Field ''fileListUsername'' st_filelist_username
       (\<lambda>v. st_filelist_username_update (\<lambda>_. v)),
     Str_Field ''fileListPasskey'' st_filelist_passkey
       (\<lambda>v. st_filelist_passkey_update (\<lambda>_. v)),
     Bool_Field ''pirateBayEnabled'' st_piratebay_enabled
       (\<lambda>v. st_piratebay_enabled_update (\<lambda>_. v)),
     Str_Field ''pirateBayWebsiteUrl'' st_piratebay_website_url
       (\<lambda>v. st_piratebay_website_url_update (\<lambda>_. v)),
     Str_Field ''pirateBayApiUrl'' st_piratebay_api_url
       (\<lambda>v. st_piratebay_api_url_update (\<lambda>_. v)),
     Str_Field ''qbittorrentUrl'' st_qbittorrent_url
       (\<lambda>v. st_qbittorrent_url_update (\<lambda>_. v)),
     Str_Field ''qbittorrentUsername'' st_qbittorrent_username
       (\<lambda>v. st_qbittorrent_username_update (\<lambda>_. v)),
     Str_Field ''qbittorrentPassword'' st_qbittorrent_password
       (\<lambda>v. st_qbittorrent_password_update (\<lambda>_. v)),
     Str_Field ''downloadEngine'' st_download_engine
       (\<lambda>v. st_download_engine_update (\<lambda>_. v)),
     Int_Field ''torrentPeerPort'' st_torrent_peer_port
       (\<lambda>v. st_torrent_peer_port_update (\<lambda>_. v)),
     Int_Field ''torrentPublicPeerPort'' st_torrent_public_peer_port
       (\<lambda>v. st_torrent_public_peer_port_update (\<lambda>_. v)),
     Str_Field ''torrentSessionDir'' st_torrent_session_dir
       (\<lambda>v. st_torrent_session_dir_update (\<lambda>_. v)),
     Int_Field ''initialBufferBytes'' st_initial_buffer_bytes
       (\<lambda>v. st_initial_buffer_bytes_update (\<lambda>_. v)),
     Int_Field ''readAheadBytes'' st_read_ahead_bytes
       (\<lambda>v. st_read_ahead_bytes_update (\<lambda>_. v)),
     Int_Field ''pieceWaitTimeoutSeconds'' st_piece_wait_timeout_seconds
       (\<lambda>v. st_piece_wait_timeout_seconds_update (\<lambda>_. v)),
     Int_Field ''streamStartBytes'' st_stream_start_bytes
       (\<lambda>v. st_stream_start_bytes_update (\<lambda>_. v)),
     Int_Field ''catalogMaxAgeHours'' st_catalog_max_age_hours
       (\<lambda>v. st_catalog_max_age_hours_update (\<lambda>_. v)),
     Num_Field ''allocationGb'' st_allocation_gb
       (\<lambda>v. st_allocation_gb_update (\<lambda>_. v)),
     Num_Field ''reserveGb'' st_reserve_gb
       (\<lambda>v. st_reserve_gb_update (\<lambda>_. v)),
     List_Field ''evictionRules'' st_eviction_rules
       (\<lambda>v. st_eviction_rules_update (\<lambda>_. v)),
     Bool_Field ''protectIncomplete'' st_protect_incomplete
       (\<lambda>v. st_protect_incomplete_update (\<lambda>_. v)),
     Bool_Field ''protectLeased'' st_protect_leased
       (\<lambda>v. st_protect_leased_update (\<lambda>_. v)),
     Bool_Field ''protectFavorites'' st_protect_favorites
       (\<lambda>v. st_protect_favorites_update (\<lambda>_. v)),
     Bool_Field ''protectNeverWatched'' st_protect_never_watched
       (\<lambda>v. st_protect_never_watched_update (\<lambda>_. v)),
     Str_Field ''preferredSubtitleLanguage'' st_preferred_subtitle_language
       (\<lambda>v. st_preferred_subtitle_language_update (\<lambda>_. v)),
     Str_Field ''fallbackSubtitleLanguage'' st_fallback_subtitle_language
       (\<lambda>v. st_fallback_subtitle_language_update (\<lambda>_. v)),
     Str_Field ''preferredAudioLanguage'' st_preferred_audio_language
       (\<lambda>v. st_preferred_audio_language_update (\<lambda>_. v)),
     Str_Field ''tmdbApiKey'' st_tmdb_api_key
       (\<lambda>v. st_tmdb_api_key_update (\<lambda>_. v)),
     List_Field ''metadataProviders'' st_metadata_providers
       (\<lambda>v. st_metadata_providers_update (\<lambda>_. v)),
     Str_Field ''metadataLanguage'' st_metadata_language
       (\<lambda>v. st_metadata_language_update (\<lambda>_. v)),
     Str_Field ''metadataFallbackLanguage'' st_metadata_fallback_language
       (\<lambda>v. st_metadata_fallback_language_update (\<lambda>_. v)),
     Str_Field ''artworkCachePath'' st_artwork_cache_path
       (\<lambda>v. st_artwork_cache_path_update (\<lambda>_. v)),
     Int_Field ''artworkCacheMaxBytes'' st_artwork_cache_max_bytes
       (\<lambda>v. st_artwork_cache_max_bytes_update (\<lambda>_. v)),
     Str_Field ''subDLUrl'' st_subdl_url
       (\<lambda>v. st_subdl_url_update (\<lambda>_. v)),
     Str_Field ''subDLApiKey'' st_subdl_api_key
       (\<lambda>v. st_subdl_api_key_update (\<lambda>_. v)),
     Str_Field ''subtitleCachePath'' st_subtitle_cache_path
       (\<lambda>v. st_subtitle_cache_path_update (\<lambda>_. v)),
     Int_Field ''subtitleCacheMaxBytes'' st_subtitle_cache_max_bytes
       (\<lambda>v. st_subtitle_cache_max_bytes_update (\<lambda>_. v)),
     Str_Field ''ffprobePath'' st_ffprobe_path
       (\<lambda>v. st_ffprobe_path_update (\<lambda>_. v)),
     Str_Field ''ffmpegPath'' st_ffmpeg_path
       (\<lambda>v. st_ffmpeg_path_update (\<lambda>_. v)),
     Int_Field ''watchedThresholdPercent'' st_watched_threshold_percent
       (\<lambda>v. st_watched_threshold_percent_update (\<lambda>_. v)),
     Int_Field ''maxConcurrentJobs'' st_max_concurrent_jobs
       (\<lambda>v. st_max_concurrent_jobs_update (\<lambda>_. v)),
     Int_Field ''titleRefreshTimeoutMinutes'' st_title_refresh_timeout_minutes
       (\<lambda>v. st_title_refresh_timeout_minutes_update (\<lambda>_. v)),
     Str_Field ''portalAPIKey'' st_portal_api_key
       (\<lambda>v. st_portal_api_key_update (\<lambda>_. v))]"

fun camel_rest :: "string \<Rightarrow> string" where
  "camel_rest [] = []"
| "camel_rest (c # s) =
     (let n = of_char c :: nat in
      (if 65 \<le> n \<and> n \<le> 90 then [CHR ''_'', c]
       else if 97 \<le> n \<and> n \<le> 122 then [char_of (n - 32)] else [c]) @ camel_rest s)"

definition camel_to_environment :: "string \<Rightarrow> string" where
  "camel_to_environment v =
     (case v of [] \<Rightarrow> []
      | c # s \<Rightarrow> (let n = of_char c :: nat in
          (if 97 \<le> n \<and> n \<le> 122 then char_of (n - 32) else c) # camel_rest s))"

definition parse_bool :: "string \<Rightarrow> bool option" where
  "parse_bool s =
     (if s \<in> set [''1'', ''t'', ''T'', ''TRUE'', ''true'', ''True''] then Some True
      else if s \<in> set [''0'', ''f'', ''F'', ''FALSE'', ''false'', ''False''] then Some False else None)"

definition env_list :: "string \<Rightarrow> string list" where
  "env_list raw = filter (\<lambda>x. x \<noteq> []) (map trim_space (split_on CHR '','' raw))"

definition apply_field ::
  "config_env \<Rightarrow> settings_field \<Rightarrow> string \<Rightarrow> settings \<Rightarrow> config_error + settings" where
  "apply_field env f raw v =
     (case f of
        Str_Field k g w \<Rightarrow> Inr (w raw v)
      | Int_Field k g w \<Rightarrow>
          (case parse_int64 (trim_space raw) of None \<Rightarrow> Inl (Env_Integer k) | Some n \<Rightarrow> Inr (w n v))
      | Bool_Field k g w \<Rightarrow>
          (case parse_bool (trim_space raw) of None \<Rightarrow> Inl (Env_Boolean k) | Some b \<Rightarrow> Inr (w b v))
      | Num_Field k g w \<Rightarrow>
          (case cf_parse_float env (trim_space raw) of None \<Rightarrow> Inl (Env_Number k) | Some q \<Rightarrow> Inr (w q v))
      | List_Field k g w \<Rightarrow> Inr (w (env_list raw) v))"

fun apply_fields ::
  "config_env \<Rightarrow> settings_field list \<Rightarrow> settings \<Rightarrow> string list \<Rightarrow>
   config_error + settings \<times> string list" where
  "apply_fields env [] v managed = Inr (v, managed)"
| "apply_fields env (f # fs) v managed =
     (case cf_lookup env (''TORRENT_TV_'' @ camel_to_environment (field_key f)) of
        None \<Rightarrow> apply_fields env fs v managed
      | Some raw \<Rightarrow>
          (case apply_field env f raw v of
             Inl e \<Rightarrow> Inl e
           | Inr v' \<Rightarrow> apply_fields env fs v' (field_key f # managed)))"

definition apply_environment :: "config_env \<Rightarrow> settings \<Rightarrow> config_error + settings \<times> string list" where
  "apply_environment env v = apply_fields env settings_fields v []"

fun restore_field :: "settings_field \<Rightarrow> settings \<Rightarrow> settings \<Rightarrow> settings" where
  "restore_field (Str_Field k g w) base v = w (g base) v"
| "restore_field (Int_Field k g w) base v = w (g base) v"
| "restore_field (Bool_Field k g w) base v = w (g base) v"
| "restore_field (Num_Field k g w) base v = w (g base) v"
| "restore_field (List_Field k g w) base v = w (g base) v"

definition restore_managed_fields :: "settings \<Rightarrow> settings \<Rightarrow> string list \<Rightarrow> settings" where
  "restore_managed_fields target base managed =
     foldl (\<lambda>v f. if field_key f \<in> set managed then restore_field f base v else v) target settings_fields"

definition merge_secrets :: "settings \<Rightarrow> settings \<Rightarrow> settings" where
  "merge_secrets next old =
     (let n1 = (if st_filelist_passkey next = [] then next\<lparr>st_filelist_passkey := st_filelist_passkey old\<rparr> else next);
          n2 = (if st_qbittorrent_password n1 = [] \<and> st_qbittorrent_username n1 \<noteq> []
                then n1\<lparr>st_qbittorrent_password := st_qbittorrent_password old\<rparr> else n1);
          n3 = (if st_tmdb_api_key n2 = [] then n2\<lparr>st_tmdb_api_key := st_tmdb_api_key old\<rparr> else n2);
          n4 = (if st_subdl_api_key n3 = [] then n3\<lparr>st_subdl_api_key := st_subdl_api_key old\<rparr> else n3) in
      if st_portal_api_key n4 = [] then n4\<lparr>st_portal_api_key := st_portal_api_key old\<rparr> else n4)"

definition restart_required :: "settings \<Rightarrow> settings \<Rightarrow> bool" where
  "restart_required old new =
     (st_listen_address old \<noteq> st_listen_address new \<or> st_database_path old \<noteq> st_database_path new \<or>
      st_max_concurrent_jobs old \<noteq> st_max_concurrent_jobs new \<or>
      st_title_refresh_timeout_minutes old \<noteq> st_title_refresh_timeout_minutes new \<or>
      st_download_engine old \<noteq> st_download_engine new \<or>
      st_torrent_peer_port old \<noteq> st_torrent_peer_port new \<or>
      st_torrent_public_peer_port old \<noteq> st_torrent_public_peer_port new \<or>
      st_torrent_session_dir old \<noteq> st_torrent_session_dir new)"

subsection \<open>Anchoring relative paths\<close>

definition anchor_path :: "string \<Rightarrow> string \<Rightarrow> string" where
  "anchor_path dir path =
     (if path = [] \<or> is_abs path then path
      else (let c = clean path;
                d = (if has_prefix c ''data/'' then drop 5 c else if c = ''data'' then ''.'' else c) in
            path_join [dir, d]))"

definition anchor_native_paths :: "settings \<Rightarrow> string list \<Rightarrow> string \<Rightarrow> settings" where
  "anchor_native_paths v managed dir =
     v\<lparr>st_database_path := (if ''databasePath'' \<in> set managed then st_database_path v
         else anchor_path dir (st_database_path v)),
       st_download_root := (if ''downloadRoot'' \<in> set managed then st_download_root v
         else anchor_path dir (st_download_root v)),
       st_torrent_session_dir := (if ''torrentSessionDir'' \<in> set managed then st_torrent_session_dir v
         else anchor_path dir (st_torrent_session_dir v)),
       st_artwork_cache_path := (if ''artworkCachePath'' \<in> set managed then st_artwork_cache_path v
         else anchor_path dir (st_artwork_cache_path v)),
       st_subtitle_cache_path := (if ''subtitleCachePath'' \<in> set managed then st_subtitle_cache_path v
         else anchor_path dir (st_subtitle_cache_path v))\<rparr>"

end
