(* ===== verification/Tracker_Registry.thy ===== *)
theory Tracker_Registry
  imports Domain_Model Config
begin

text \<open>
  The tracker registry (\<open>internal/application/trackers.go\<close>): the registered adapters in a fixed order;
  whether one is enabled and configured is asked of the settings at the time of the call, so the
  callbacks are functions of the settings.  \<open>None\<close> is Go's nil; what the adapters answer over the
  network is an argument.
\<close>

record tracker_capabilities =
  tc_imdb_search :: bool
  tc_season_filter :: bool
  tc_episode_filter :: bool
  tc_categories :: bool

record tracker_adapter =
  tk_id :: string
  tk_name :: string
  tk_capabilities :: tracker_capabilities

record tracker_registration =
  rg_adapter :: "tracker_adapter option"
  rg_enabled :: "(settings \<Rightarrow> bool) option"
  rg_configured :: "(settings \<Rightarrow> bool) option"

record tracker_entry =
  te_adapter :: tracker_adapter
  te_enabled :: "settings \<Rightarrow> bool"
  te_configured :: "settings \<Rightarrow> bool"

record tracker_registry =
  reg_order :: "string list"
  reg_entries :: "(string \<times> tracker_entry) list"

record tracker_state =
  ts_id :: string
  ts_name :: string
  ts_enabled :: bool
  ts_configured :: bool
  ts_capabilities :: tracker_capabilities

datatype registry_error = Nil_Adapter | Empty_Tracker_Id | Duplicate_Tracker string
  | Nil_Enabled string | Nil_Configured string

datatype tracker_error = Unknown_Tracker string | Tracker_Disabled string | Tracker_Unconfigured string
  | Tracker_Call string

fun register_all :: "tracker_registration list \<Rightarrow> tracker_registry \<Rightarrow> registry_error + tracker_registry" where
  "register_all [] reg = Inr reg"
| "register_all (r # rs) reg =
     (case rg_adapter r of
        None \<Rightarrow> Inl Nil_Adapter
      | Some a \<Rightarrow>
          (let i = trim_space (tk_id a) in
           if i = [] then Inl Empty_Tracker_Id
           else if map_of (reg_entries reg) i \<noteq> None then Inl (Duplicate_Tracker i)
           else (case (rg_enabled r, rg_configured r) of
                   (None, _) \<Rightarrow> Inl (Nil_Enabled i)
                 | (Some en, None) \<Rightarrow> Inl (Nil_Configured i)
                 | (Some en, Some cf) \<Rightarrow>
                     register_all rs (reg\<lparr>reg_order := reg_order reg @ [i],
                       reg_entries := reg_entries reg @
                         [(i, \<lparr>te_adapter = a, te_enabled = en, te_configured = cf\<rparr>)]\<rparr>))))"

definition new_tracker_registry :: "tracker_registration list \<Rightarrow> registry_error + tracker_registry" where
  "new_tracker_registry rs = register_all rs \<lparr>reg_order = [], reg_entries = []\<rparr>"

definition lookup_tracker :: "tracker_registry \<Rightarrow> string \<Rightarrow> tracker_adapter option" where
  "lookup_tracker reg i = map_option te_adapter (map_of (reg_entries reg) i)"

definition tracker_eligible :: "tracker_registry \<Rightarrow> settings \<Rightarrow> string \<Rightarrow> bool" where
  "tracker_eligible reg st i = (case map_of (reg_entries reg) i of
     None \<Rightarrow> False | Some e \<Rightarrow> te_enabled e st \<and> te_configured e st)"

definition tracker_configured :: "tracker_registry \<Rightarrow> settings \<Rightarrow> string \<Rightarrow> bool" where
  "tracker_configured reg st i = (case map_of (reg_entries reg) i of
     None \<Rightarrow> False | Some e \<Rightarrow> te_configured e st)"

definition eligible_ids :: "tracker_registry \<Rightarrow> settings \<Rightarrow> string list" where
  "eligible_ids reg st = filter (\<lambda>i. case map_of (reg_entries reg) i of
     None \<Rightarrow> False | Some e \<Rightarrow> te_enabled e st \<and> te_configured e st) (reg_order reg)"

definition require_eligible :: "tracker_registry \<Rightarrow> settings \<Rightarrow> string \<Rightarrow> tracker_error + tracker_adapter" where
  "require_eligible reg st i = (case map_of (reg_entries reg) i of
     None \<Rightarrow> Inl (Unknown_Tracker i)
   | Some e \<Rightarrow>
       if \<not> te_enabled e st then Inl (Tracker_Disabled (tk_name (te_adapter e)))
       else if \<not> te_configured e st then Inl (Tracker_Unconfigured (tk_name (te_adapter e)))
       else Inr (te_adapter e))"

definition registry_status :: "tracker_registry \<Rightarrow> settings \<Rightarrow> tracker_state list" where
  "registry_status reg st = map (\<lambda>i. case map_of (reg_entries reg) i of
     Some e \<Rightarrow> \<lparr>ts_id = i, ts_name = tk_name (te_adapter e), ts_enabled = te_enabled e st,
       ts_configured = te_configured e st, ts_capabilities = tk_capabilities (te_adapter e)\<rparr>
   | None \<Rightarrow> \<lparr>ts_id = i, ts_name = [], ts_enabled = False, ts_configured = False,
       ts_capabilities = \<lparr>tc_imdb_search = False, tc_season_filter = False, tc_episode_filter = False,
         tc_categories = False\<rparr>\<rparr>) (reg_order reg)"

text \<open>\<open>TestTracker\<close>: a disabled tracker may be tested; \<open>latest\<close> is what the adapter answers.\<close>

definition test_tracker ::
  "tracker_registry \<Rightarrow> settings \<Rightarrow> (string \<Rightarrow> string + torrent_release list) \<Rightarrow> string \<Rightarrow> tracker_error + nat" where
  "test_tracker reg st latest i = (case lookup_tracker reg i of
     None \<Rightarrow> Inl (Unknown_Tracker i)
   | Some a \<Rightarrow>
       if \<not> tracker_configured reg st i then Inl (Tracker_Unconfigured (tk_name a))
       else (case latest i of Inl e \<Rightarrow> Inl (Tracker_Call e) | Inr items \<Rightarrow> Inr (length items)))"

subsection \<open>Facts\<close>

text \<open>A registry that was built: the order lists each entry once, under a non-empty id.\<close>

definition registry_ok :: "tracker_registry \<Rightarrow> bool" where
  "registry_ok reg = (distinct (reg_order reg) \<and> map fst (reg_entries reg) = reg_order reg \<and> [] \<notin> set (reg_order reg))"

lemma register_all_ok: "registry_ok reg \<Longrightarrow> register_all rs reg = Inr reg' \<Longrightarrow> registry_ok reg'"
proof (induction rs arbitrary: reg)
  case (Cons r rs)
  obtain a en cf where r: "rg_adapter r = Some a" "rg_enabled r = Some en" "rg_configured r = Some cf"
    "trim_space (tk_id a) \<noteq> []" "map_of (reg_entries reg) (trim_space (tk_id a)) = None"
    using Cons.prems(2) by (auto simp: Let_def split: option.splits if_splits prod.splits)
  have "trim_space (tk_id a) \<notin> set (reg_order reg)"
    using r(5) Cons.prems(1) by (auto simp: registry_ok_def map_of_eq_None_iff simp flip: set_map)
  then have "registry_ok (reg\<lparr>reg_order := reg_order reg @ [trim_space (tk_id a)],
      reg_entries := reg_entries reg @ [(trim_space (tk_id a), \<lparr>te_adapter = a, te_enabled = en, te_configured = cf\<rparr>)]\<rparr>)"
    using Cons.prems(1) r(4) by (auto simp: registry_ok_def)
  then show ?case using Cons.IH Cons.prems(2) r by (simp add: Let_def)
qed simp

lemma new_registry_ok: "new_tracker_registry rs = Inr reg \<Longrightarrow> registry_ok reg"
  unfolding new_tracker_registry_def by (rule register_all_ok) (auto simp: registry_ok_def)

text \<open>
  In a registry that was built, under any settings, a provider is handed out for acquisition
  exactly when its id is among the eligible ids, which are those of the enabled and configured entries
  in registration order without repetition; the status list has one row for each registration.
\<close>

theorem registry_eligibility:
  assumes "new_tracker_registry rs = Inr reg"
  shows "(\<exists>a. require_eligible reg st i = Inr a) = (i \<in> set (eligible_ids reg st)) \<and>
    tracker_eligible reg st i = (i \<in> set (eligible_ids reg st)) \<and> distinct (eligible_ids reg st) \<and>
    eligible_ids reg st = map ts_id (filter (\<lambda>t. ts_enabled t \<and> ts_configured t) (registry_status reg st)) \<and>
    map ts_id (registry_status reg st) = reg_order reg"
proof -
  have ok: "registry_ok reg" using new_registry_ok[OF assms] .
  have known: "map_of (reg_entries reg) j \<noteq> None \<longleftrightarrow> j \<in> set (reg_order reg)" for j
    using ok by (auto simp: registry_ok_def map_of_eq_None_iff simp flip: set_map)
  have s: "map ts_id (registry_status reg st) = reg_order reg"
    by (auto simp: registry_status_def comp_def split: option.splits intro!: map_idI)
  have e: "eligible_ids reg st = map ts_id (filter (\<lambda>t. ts_enabled t \<and> ts_configured t) (registry_status reg st))"
    unfolding eligible_ids_def registry_status_def filter_map map_map
    by (rule sym, rule trans[OF map_idI]) (auto split: option.splits intro!: filter_cong)
  have m: "i \<in> set (eligible_ids reg st) \<longleftrightarrow> tracker_eligible reg st i"
    using known[of i] by (cases "map_of (reg_entries reg) i") (auto simp: eligible_ids_def tracker_eligible_def)
  have r: "(\<exists>a. require_eligible reg st i = Inr a) \<longleftrightarrow> tracker_eligible reg st i"
    by (simp add: require_eligible_def tracker_eligible_def split: option.split)
  have d: "distinct (eligible_ids reg st)" using ok by (simp add: registry_ok_def eligible_ids_def)
  show ?thesis using m r d e s by (intro conjI) simp_all
qed

definition sample_adapter :: "string \<Rightarrow> tracker_adapter" where
  "sample_adapter i = \<lparr>tk_id = i, tk_name = i, tk_capabilities = \<lparr>tc_imdb_search = True, tc_season_filter = True,
     tc_episode_filter = True, tc_categories = True\<rparr>\<rparr>"

definition sample_registrations :: "tracker_registration list" where
  "sample_registrations = [
     \<lparr>rg_adapter = Some (sample_adapter ''filelist''), rg_enabled = Some st_filelist_enabled,
       rg_configured = Some (\<lambda>st. st_filelist_passkey st \<noteq> [])\<rparr>,
     \<lparr>rg_adapter = Some (sample_adapter ''piratebay''), rg_enabled = Some (\<lambda>_. True), rg_configured = Some (\<lambda>_. True)\<rparr>]"

theorem registry_eligibility_witness:
  "\<exists>reg. new_tracker_registry sample_registrations = Inr reg \<and>
     ''piratebay'' \<in> set (eligible_ids reg (defaults ''linux'')) \<and>
     (\<exists>a. require_eligible reg (defaults ''linux'') ''piratebay'' = Inr a)"
proof -
  obtain reg where r: "new_tracker_registry sample_registrations = Inr reg"
    and e: "map_of (reg_entries reg) ''piratebay'' = Some \<lparr>te_adapter = sample_adapter ''piratebay'',
      te_enabled = (\<lambda>_. True), te_configured = (\<lambda>_. True)\<rparr>" "''piratebay'' \<in> set (reg_order reg)"
    by (simp add: new_tracker_registry_def sample_registrations_def sample_adapter_def trim_space_def trim_by_def is_blank_def Let_def)
  then have "''piratebay'' \<in> set (eligible_ids reg (defaults ''linux''))" by (simp add: eligible_ids_def)
  then show ?thesis using registry_eligibility[OF r, of "defaults ''linux''" "''piratebay''"] r by blast
qed

end
