(* ===== verification/Service_World.thy ===== *)
theory Service_World
  imports Torrent_Lookup Engine_Set Stream_Leases Tracker_Registry
begin

text \<open>
  The state the application service works on (\<open>internal/application/service.go\<close>): the engine set, the
  tables of the repository it uses, the lease table, the bytes reserved by admitted requests and the
  settings snapshot; and its calls to the repository and the engines.

  Every fallible call consults \<open>w_fault\<close> at the number of the call, so a statement about all worlds
  covers every schedule of failures; a call that fails changes nothing.  Free space is probed
  through \<open>w_free\<close>, the clock through \<open>w_clock\<close>, both indexed by the same counter.  What is published
  or logged is kept in \<open>w_trace\<close> as the kind of the entry and the identity it is about.
\<close>

record torrent =
  et_hash :: string
  et_status :: download_status
  et_files :: "torrent_file list"

type_synonym engine = "torrent list"

record sync_row =
  sy_name :: string
  sy_last :: "go_time option"
  sy_count :: int
  sy_error :: string

record refresh_request =
  rq_title :: string
  rq_query :: string
  rq_force :: bool

record world =
  w_set :: "engine engine_set"
  w_downloads :: "download list"
  w_leases :: lease_table
  w_reserved :: int
  w_settings :: settings
  w_titles :: "(string \<times> string) list"
  w_favorites :: "favorite list"
  w_playback :: "playback_state list"
  w_jobs :: "job list"
  w_releases :: "torrent_release list"
  w_manifests :: "torrent_manifest list"
  w_metadata :: "catalog_metadata list"
  w_preferences :: "playback_preferences list"
  w_sync :: "sync_row list"
  w_registry :: tracker_registry
  w_search_queue :: "string list"
  w_refresh_queue :: "refresh_request list"
  w_trace :: "(string \<times> string) list"
  w_fault :: "nat \<Rightarrow> string option"
  w_free :: "nat \<Rightarrow> string + int"
  w_clock :: "nat \<Rightarrow> go_time"
  w_tick :: nat

text \<open>A service that has just started on empty tables: \<open>NewService\<close> without engines and trackers.\<close>

definition blank_world :: "settings \<Rightarrow> world" where
  "blank_world st = \<lparr>
     w_set = \<lparr>es_default = ''native:'', es_engines = [], es_init_errs = []\<rparr>,
     w_downloads = [], w_leases = (\<lambda>_. 0), w_reserved = 0, w_settings = st, w_titles = [],
     w_favorites = [], w_playback = [], w_jobs = [], w_releases = [], w_manifests = [], w_metadata = [],
     w_preferences = [], w_sync = [], w_registry = \<lparr>reg_order = [], reg_entries = []\<rparr>,
     w_search_queue = [], w_refresh_queue = [], w_trace = [], w_fault = (\<lambda>_. None),
     w_free = (\<lambda>_. Inr 0), w_clock = (\<lambda>n. int n * second), w_tick = 0\<rparr>"

datatype svc_error = Engine_Unavailable string string | Repo_Error string | Engine_Error string
  | Torrent_Not_Found | No_Rows | Allocation_Exhausted allocation_error | Uncertain_Owners "string list"
  | Streamed_Download | Unknown_Action | Job_Active | Job_Not_Retryable | Bad_Mode

definition attempt :: "world \<Rightarrow> string option \<times> world" where
  "attempt w = (w_fault w (w_tick w), w\<lparr>w_tick := w_tick w + 1\<rparr>)"

definition now_of :: "world \<Rightarrow> go_time" where
  "now_of w = w_clock w (w_tick w)"

definition publish :: "string \<Rightarrow> string \<Rightarrow> world \<Rightarrow> world" where
  "publish kind subject w = w\<lparr>w_trace := w_trace w @ [(kind, subject)]\<rparr>"

definition job_log_entry :: "job \<Rightarrow> string \<Rightarrow> string \<Rightarrow> world \<Rightarrow> world" where
  "job_log_entry job level phase w = w\<lparr>w_trace := w_trace w @ [(''job.log:'' @ level @ '':'' @ phase, job_id job)]\<rparr>"

subsection \<open>Repository calls\<close>

text \<open>\<open>ORDER BY created_at DESC, id ASC\<close>\<close>

definition download_before :: "download \<Rightarrow> download \<Rightarrow> bool" where
  "download_before a b =
     (if dl_created_at a \<noteq> dl_created_at b then dl_created_at a > dl_created_at b
      else str_less (dl_id a) (dl_id b))"

definition list_downloads :: "world \<Rightarrow> (svc_error + download list) \<times> world" where
  "list_downloads w = (case attempt w of
     (Some e, w') \<Rightarrow> (Inl (Repo_Error e), w')
   | (None, w') \<Rightarrow> (Inr (sort_by download_before (w_downloads w')), w'))"

definition get_download :: "string \<Rightarrow> world \<Rightarrow> (svc_error + download) \<times> world" where
  "get_download i w = (case attempt w of
     (Some e, w') \<Rightarrow> (Inl (Repo_Error e), w')
   | (None, w') \<Rightarrow> (case row_of dl_id i (w_downloads w') of
        None \<Rightarrow> (Inl No_Rows, w') | Some d \<Rightarrow> (Inr d, w')))"

definition delete_download :: "string \<Rightarrow> world \<Rightarrow> svc_error option \<times> world" where
  "delete_download i w = (case attempt w of
     (Some e, w') \<Rightarrow> (Some (Repo_Error e), w')
   | (None, w') \<Rightarrow>
       if row_of dl_id i (w_downloads w') = None then (Some No_Rows, w')
       else (None, w'\<lparr>w_downloads := delete_row dl_id i (w_downloads w')\<rparr>))"

text \<open>
  \<open>SaveDownload\<close>: a row that exists keeps its release, file, size, offset, lease flag and creation
  time; times are stored in whole seconds.
\<close>

definition merge_download :: "download \<Rightarrow> download \<Rightarrow> download" where
  "merge_download d old = old\<lparr>dl_engine_id := dl_engine_id d, dl_absolute_path := dl_absolute_path d,
     dl_piece_size := dl_piece_size d, dl_state := dl_state d, dl_progress := dl_progress d,
     dl_downloaded_bytes := dl_downloaded_bytes d,
     dl_speed_bytes_per_second := dl_speed_bytes_per_second d, dl_eta_seconds := dl_eta_seconds d,
     dl_peers := dl_peers d, dl_seeds := dl_seeds d, dl_buffered_bytes := dl_buffered_bytes d,
     dl_error := dl_error d, dl_tracker_id := dl_tracker_id d, dl_tracker_name := dl_tracker_name d,
     dl_updated_at := unix_seconds (dl_updated_at d)\<rparr>"

definition save_download :: "download \<Rightarrow> world \<Rightarrow> svc_error option \<times> world" where
  "save_download d w = (case attempt w of
     (Some e, w') \<Rightarrow> (Some (Repo_Error e), w')
   | (None, w') \<Rightarrow> (None, w'\<lparr>w_downloads := upsert dl_id
        (case row_of dl_id (dl_id d) (w_downloads w') of
           None \<Rightarrow> d\<lparr>dl_created_at := unix_seconds (dl_created_at d),
                     dl_updated_at := unix_seconds (dl_updated_at d)\<rparr>
         | Some old \<Rightarrow> merge_download d old) (w_downloads w')\<rparr>))"

text \<open>\<open>SaveJob\<close>: the row with the job's dedupe key, else the row with its id, is updated.\<close>

definition merge_job :: "job \<Rightarrow> job \<Rightarrow> go_time \<Rightarrow> job" where
  "merge_job j old now = old\<lparr>job_tracker_id := job_tracker_id j, job_dedupe_key := job_dedupe_key j,
     job_state := job_state j, job_label := job_label j, job_attempt := job_attempt j,
     job_progress := job_progress j, job_error := job_error j, job_retryable := job_retryable j,
     job_next_attempt_at := map_option unix_seconds (job_next_attempt_at j),
     job_updated_at := unix_seconds (if job_updated_at j = zero_time then now else job_updated_at j)\<rparr>"

definition new_job_row :: "job \<Rightarrow> go_time \<Rightarrow> job" where
  "new_job_row j now = merge_job j
     (j\<lparr>job_created_at := unix_seconds (if job_created_at j = zero_time then now else job_created_at j)\<rparr>) now"

definition store_job :: "job \<Rightarrow> go_time \<Rightarrow> job list \<Rightarrow> job list" where
  "store_job j now rows =
     (case row_of job_dedupe_key (job_dedupe_key j) rows of
        Some old \<Rightarrow> upsert job_dedupe_key (merge_job j old now) rows
      | None \<Rightarrow>
          (case row_of job_id (job_id j) rows of
             Some old \<Rightarrow> upsert job_id (merge_job j old now) rows
           | None \<Rightarrow> rows @ [new_job_row j now]))"

definition save_job :: "job \<Rightarrow> world \<Rightarrow> svc_error option \<times> world" where
  "save_job j w = (case attempt w of
     (Some e, w') \<Rightarrow> (Some (Repo_Error e), w')
   | (None, w') \<Rightarrow> (None, w'\<lparr>w_jobs := store_job j (now_of w) (w_jobs w')\<rparr>))"

definition get_job :: "string \<Rightarrow> world \<Rightarrow> (svc_error + job) \<times> world" where
  "get_job i w = (case attempt w of
     (Some e, w') \<Rightarrow> (Inl (Repo_Error e), w')
   | (None, w') \<Rightarrow> (case row_of job_id i (w_jobs w') of
        None \<Rightarrow> (Inl No_Rows, w') | Some j \<Rightarrow> (Inr j, w')))"

text \<open>\<open>ListJobs\<close>: running jobs first, then queued ones, then by age; at most \<open>limit\<close> rows.\<close>

definition job_rank :: "job \<Rightarrow> nat" where
  "job_rank j = (if job_state j = ''running'' then 0 else if job_state j = ''queued'' then 1 else 2)"

definition job_before :: "job \<Rightarrow> job \<Rightarrow> bool" where
  "job_before a b = (if job_rank a \<noteq> job_rank b then job_rank a < job_rank b
     else job_updated_at a > job_updated_at b)"

definition list_jobs :: "nat \<Rightarrow> world \<Rightarrow> (svc_error + job list) \<times> world" where
  "list_jobs limit w = (case attempt w of
     (Some e, w') \<Rightarrow> (Inl (Repo_Error e), w')
   | (None, w') \<Rightarrow> (Inr (take (if limit < 1 \<or> limit > 1000 then 100 else limit)
        (sort_by job_before (w_jobs w'))), w'))"

definition title_ids_for :: "string list \<Rightarrow> world \<Rightarrow> (svc_error + (string \<times> string) list) \<times> world" where
  "title_ids_for ids w =
     (if ids = [] then (Inr [], w)
      else (case attempt w of
              (Some e, w') \<Rightarrow> (Inl (Repo_Error e), w')
            | (None, w') \<Rightarrow> (Inr (filter (\<lambda>p. fst p \<in> set ids) (w_titles w')), w')))"

definition list_favorites :: "string \<Rightarrow> world \<Rightarrow> (svc_error + favorite list) \<times> world" where
  "list_favorites profile w = (case attempt w of
     (Some e, w') \<Rightarrow> (Inl (Repo_Error e), w')
   | (None, w') \<Rightarrow> (Inr (sort_by (\<lambda>a b. fav_created_at a > fav_created_at b)
        (filter (\<lambda>f. fav_profile_id f = profile) (w_favorites w'))), w'))"

definition list_playback :: "string \<Rightarrow> world \<Rightarrow> (svc_error + playback_state list) \<times> world" where
  "list_playback profile w = (case attempt w of
     (Some e, w') \<Rightarrow> (Inl (Repo_Error e), w')
   | (None, w') \<Rightarrow> (Inr (sort_by (\<lambda>a b. pb_updated_at a > pb_updated_at b)
        (filter (\<lambda>p. pb_profile_id p = profile) (w_playback w'))), w'))"

subsection \<open>Engine calls\<close>

definition owner :: "world \<Rightarrow> string \<Rightarrow> (engine \<times> string) option" where
  "owner w route = resolve (w_set w) route"

definition unavailable_err :: "world \<Rightarrow> string \<Rightarrow> svc_error" where
  "unavailable_err w route = Engine_Unavailable route (engine_unavailable_reason (w_set w) route)"

definition engine_status :: "engine \<Rightarrow> string \<Rightarrow> world \<Rightarrow> (svc_error + download_status) \<times> world" where
  "engine_status e hash w = (case attempt w of
     (Some m, w') \<Rightarrow> (Inl (Engine_Error m), w')
   | (None, w') \<Rightarrow> (case row_of et_hash hash e of
        None \<Rightarrow> (Inl Torrent_Not_Found, w') | Some t \<Rightarrow> (Inr (et_status t), w')))"

text \<open>\<open>Remove(hash, true)\<close> deletes the torrent and its files from the engine that owns the route.\<close>

definition engine_remove :: "string \<Rightarrow> string \<Rightarrow> world \<Rightarrow> svc_error option \<times> world" where
  "engine_remove route hash w = (case attempt w of
     (Some m, w') \<Rightarrow> (Some (Engine_Error m), w')
   | (None, w') \<Rightarrow>
       (case map_of (es_engines (w_set w')) (route_prefix route) of
          None \<Rightarrow> (Some Torrent_Not_Found, w')
        | Some e \<Rightarrow>
            if row_of et_hash hash e = None then (Some Torrent_Not_Found, w')
            else (None, w'\<lparr>w_set := (w_set w')\<lparr>es_engines :=
              upsert fst (route_prefix route, delete_row et_hash hash e) (es_engines (w_set w'))\<rparr>\<rparr>)))"

subsection \<open>Removing a torrent\<close>

fun delete_rows_of :: "string \<Rightarrow> download list \<Rightarrow> world \<Rightarrow> svc_error option \<times> world" where
  "delete_rows_of engine_id [] w = (None, w)"
| "delete_rows_of engine_id (d # ds) w =
     (if dl_engine_id d \<noteq> engine_id then delete_rows_of engine_id ds w
      else (case delete_download (dl_id d) w of
              (Some e, w') \<Rightarrow> (Some e, w')
            | (None, w') \<Rightarrow> delete_rows_of engine_id ds w'))"

definition forget_engine_rows :: "string \<Rightarrow> world \<Rightarrow> svc_error option \<times> world" where
  "forget_engine_rows engine_id w = (case list_downloads w of
     (Inl e, w') \<Rightarrow> (Some e, w')
   | (Inr ds, w') \<Rightarrow> delete_rows_of engine_id ds w')"

definition remove_torrent :: "string \<Rightarrow> world \<Rightarrow> svc_error option \<times> world" where
  "remove_torrent engine_id w = (case owner w engine_id of
     None \<Rightarrow> (Some (unavailable_err w engine_id), w)
   | Some (e, hash) \<Rightarrow> (case engine_remove engine_id hash w of
        (None, w') \<Rightarrow> forget_engine_rows engine_id w'
      | (Some Torrent_Not_Found, w') \<Rightarrow> forget_engine_rows engine_id w'
      | (Some err, w') \<Rightarrow> (Some err, w')))"

subsection \<open>Frames\<close>

text \<open>What the calls leave alone: everything but the download rows, the engines and the counter.\<close>

definition same_rest :: "world \<Rightarrow> world \<Rightarrow> bool" where
  "same_rest w w' = (w_leases w' = w_leases w \<and> w_reserved w' = w_reserved w \<and>
     w_settings w' = w_settings w \<and> w_titles w' = w_titles w \<and> w_favorites w' = w_favorites w \<and>
     w_playback w' = w_playback w \<and> w_jobs w' = w_jobs w \<and> w_trace w' = w_trace w \<and>
     w_releases w' = w_releases w \<and> w_manifests w' = w_manifests w \<and> w_metadata w' = w_metadata w \<and>
     w_preferences w' = w_preferences w \<and> w_sync w' = w_sync w \<and> w_registry w' = w_registry w \<and>
     w_search_queue w' = w_search_queue w \<and> w_refresh_queue w' = w_refresh_queue w \<and>
     w_fault w' = w_fault w \<and> w_free w' = w_free w \<and> w_clock w' = w_clock w)"

lemma same_rest_refl [simp]: "same_rest w w"
  by (simp add: same_rest_def)

lemma same_rest_trans: "same_rest a b \<Longrightarrow> same_rest b c \<Longrightarrow> same_rest a c"
  by (simp add: same_rest_def)

text \<open>A call that only looks.\<close>

definition looked :: "world \<Rightarrow> world \<Rightarrow> bool" where
  "looked w w' = (\<exists>n. w' = w\<lparr>w_tick := n\<rparr>)"

lemma looked_refl [simp]: "looked w w"
  unfolding looked_def by (rule exI[of _ "w_tick w"]) simp

lemma looked_trans: "looked a b \<Longrightarrow> looked b c \<Longrightarrow> looked a c"
  by (auto simp: looked_def)

lemma looked_frame: "looked w w' \<Longrightarrow> same_rest w w' \<and> w_downloads w' = w_downloads w \<and> w_set w' = w_set w"
  by (auto simp: looked_def same_rest_def)

lemma attempt_looked: "attempt w = (e, w') \<Longrightarrow> looked w w'"
  by (auto simp: attempt_def looked_def)

lemma list_downloads_looked: "list_downloads w = (r, w') \<Longrightarrow> looked w w'"
  by (auto simp: list_downloads_def split: prod.splits option.splits dest: attempt_looked)

lemma list_downloads_rows:
  "list_downloads w = (Inr ds, w') \<Longrightarrow> mset ds = mset (w_downloads w)"
  using attempt_looked looked_frame
  by (auto simp: list_downloads_def split: prod.splits option.splits) metis

lemma title_ids_looked: "title_ids_for ids w = (r, w') \<Longrightarrow> looked w w'"
  by (auto simp: title_ids_for_def split: prod.splits option.splits if_splits dest: attempt_looked)

lemma list_favorites_looked: "list_favorites p w = (r, w') \<Longrightarrow> looked w w'"
  by (auto simp: list_favorites_def split: prod.splits option.splits dest: attempt_looked)

lemma list_playback_looked: "list_playback p w = (r, w') \<Longrightarrow> looked w w'"
  by (auto simp: list_playback_def split: prod.splits option.splits dest: attempt_looked)

lemma engine_status_looked: "engine_status e h w = (r, w') \<Longrightarrow> looked w w'"
  by (auto simp: engine_status_def split: prod.splits option.splits dest: attempt_looked)

lemmas calls_looked = list_downloads_looked title_ids_looked list_favorites_looked list_playback_looked
  engine_status_looked

definition rows_ok :: "world \<Rightarrow> bool" where
  "rows_ok w = distinct (map dl_id (w_downloads w))"

lemma delete_download_cases:
  "delete_download i w = (r, w') \<Longrightarrow>
   same_rest w w' \<and> w_set w' = w_set w \<and>
   (case r of None \<Rightarrow> w_downloads w' = delete_row dl_id i (w_downloads w)
            | Some _ \<Rightarrow> w_downloads w' = w_downloads w)"
  by (auto simp: delete_download_def attempt_def same_rest_def split: if_splits option.splits)

lemma distinct_delete_row: "distinct (map key xs) \<Longrightarrow> distinct (map key (delete_row key k xs))"
  by (simp add: delete_row_def distinct_map_filter)

lemma rows_ok_delete: "rows_ok w \<Longrightarrow> delete_download i w = (r, w') \<Longrightarrow> rows_ok w'"
  using delete_download_cases[of i w r w'] by (auto simp: rows_ok_def distinct_delete_row split: option.splits)

lemma delete_rows_of_frame:
  "delete_rows_of engine_id ds w = (r, w') \<Longrightarrow>
   same_rest w w' \<and> w_set w' = w_set w \<and> set (w_downloads w') \<subseteq> set (w_downloads w) \<and>
   (rows_ok w \<longrightarrow> rows_ok w')"
proof (induction engine_id ds w arbitrary: r w' rule: delete_rows_of.induct)
  case (2 engine_id d ds w)
  show ?case
  proof (cases "dl_engine_id d \<noteq> engine_id")
    case False
    obtain x w1 where x: "delete_download (dl_id d) w = (x, w1)" by force
    have f: "same_rest w w1" "w_set w1 = w_set w" "set (w_downloads w1) \<subseteq> set (w_downloads w)"
        "rows_ok w \<longrightarrow> rows_ok w1"
      using delete_download_cases[OF x] rows_ok_delete[OF _ x] by (auto simp: delete_row_def split: option.splits)
    show ?thesis
    proof (cases x)
      case None
      have rest: "delete_rows_of engine_id ds w1 = (r, w')" using 2(3) False x None by simp
      have "same_rest w1 w' \<and> w_set w' = w_set w1 \<and> set (w_downloads w') \<subseteq> set (w_downloads w1) \<and>
          (rows_ok w1 \<longrightarrow> rows_ok w')"
        by (rule 2(2)[OF False x[symmetric] None rest])
      then show ?thesis using f same_rest_trans[of w w1 w'] by (metis subset_trans)
    qed (use 2(3) False x f in auto)
  qed (use 2 in auto)
qed simp

lemma delete_rows_of_done:
  "delete_rows_of engine_id ds w = (None, w') \<Longrightarrow>
   w_downloads w' = filter (\<lambda>r. dl_id r \<notin> dl_id ` {d \<in> set ds. dl_engine_id d = engine_id}) (w_downloads w)"
proof (induction engine_id ds w arbitrary: w' rule: delete_rows_of.induct)
  case (2 engine_id d ds w)
  show ?case
  proof (cases "dl_engine_id d \<noteq> engine_id")
    case True
    then have "{x \<in> set (d # ds). dl_engine_id x = engine_id} = {x \<in> set ds. dl_engine_id x = engine_id}" by auto
    then show ?thesis using 2 True by simp
  next
    case False
    obtain x w1 where x: "delete_download (dl_id d) w = (x, w1)" by force
    with False 2(3) have n: "x = None" and rest: "delete_rows_of engine_id ds w1 = (None, w')"
      by (auto split: option.splits)
    have "w_downloads w1 = delete_row dl_id (dl_id d) (w_downloads w)"
      using delete_download_cases[OF x] n by simp
    moreover have "w_downloads w' = filter (\<lambda>r. dl_id r \<notin> dl_id ` {d \<in> set ds. dl_engine_id d = engine_id}) (w_downloads w1)"
      using 2(2)[OF False x[symmetric] n rest] .
    moreover have "{x \<in> set (d # ds). dl_engine_id x = engine_id} = insert d {x \<in> set ds. dl_engine_id x = engine_id}"
      using False by auto
    ultimately show ?thesis by (auto simp: delete_row_def intro!: filter_cong)
  qed
qed simp

lemma forget_engine_rows_done:
  assumes "forget_engine_rows engine_id w = (None, w')" and "rows_ok w"
  shows "w_downloads w' = filter (\<lambda>r. dl_engine_id r \<noteq> engine_id) (w_downloads w)"
proof -
  obtain ds w1 where l: "list_downloads w = (Inr ds, w1)" and d: "delete_rows_of engine_id ds w1 = (None, w')"
    using assms(1) by (auto simp: forget_engine_rows_def split: prod.splits sum.splits)
  have ds: "set ds = set (w_downloads w)" using list_downloads_rows[OF l] by (metis set_mset_mset)
  have w1: "w_downloads w1 = w_downloads w" using looked_frame[OF list_downloads_looked[OF l]] by simp
  have "dl_id r \<notin> dl_id ` {d \<in> set ds. dl_engine_id d = engine_id} \<longleftrightarrow> dl_engine_id r \<noteq> engine_id"
    if "r \<in> set (w_downloads w)" for r
    using that ds assms(2) by (auto simp: rows_ok_def distinct_map inj_on_def)
  then show ?thesis using delete_rows_of_done[OF d] w1 by (auto intro!: filter_cong)
qed

lemma forget_engine_rows_frame:
  "forget_engine_rows engine_id w = (r, w') \<Longrightarrow>
   same_rest w w' \<and> w_set w' = w_set w \<and> set (w_downloads w') \<subseteq> set (w_downloads w) \<and> (rows_ok w \<longrightarrow> rows_ok w')"
proof -
  assume a: "forget_engine_rows engine_id w = (r, w')"
  obtain x w1 where l: "list_downloads w = (x, w1)" by force
  have f: "same_rest w w1" "w_downloads w1 = w_downloads w" "w_set w1 = w_set w"
    using looked_frame[OF list_downloads_looked[OF l]] by simp_all
  show ?thesis
  proof (cases x)
    case (Inr ds)
    then have "delete_rows_of engine_id ds w1 = (r, w')" using a l by (simp add: forget_engine_rows_def)
    from delete_rows_of_frame[OF this] show ?thesis using f same_rest_trans[of w w1 w'] by (simp add: rows_ok_def)
  qed (use a l f in \<open>auto simp: forget_engine_rows_def rows_ok_def\<close>)
qed

lemma engine_remove_frame:
  "engine_remove route hash w = (r, w') \<Longrightarrow> same_rest w w' \<and> w_downloads w' = w_downloads w"
  by (auto simp: engine_remove_def attempt_def same_rest_def Let_def split: if_splits option.splits)

lemma remove_torrent_frame:
  assumes "remove_torrent engine_id w = (r, w')"
  shows "same_rest w w' \<and> set (w_downloads w') \<subseteq> set (w_downloads w) \<and> (rows_ok w \<longrightarrow> rows_ok w')"
proof (cases "owner w engine_id")
  case (Some p)
  obtain e hash where p: "p = (e, hash)" by force
  obtain x w1 where x: "engine_remove engine_id hash w = (x, w1)" by force
  have f: "same_rest w w1" "w_downloads w1 = w_downloads w" using engine_remove_frame[OF x] by simp_all
  have "forget_engine_rows engine_id w1 = (r, w') \<or> w' = w1"
    using assms Some p x by (auto simp: remove_torrent_def split: option.splits svc_error.splits)
  then show ?thesis
    using f forget_engine_rows_frame[of engine_id w1 r w'] same_rest_trans[of w w1 w'] by (auto simp: rows_ok_def)
qed (use assms in \<open>auto simp: remove_torrent_def\<close>)

lemma remove_torrent_done:
  assumes "remove_torrent engine_id w = (None, w')" and "rows_ok w"
  shows "w_downloads w' = filter (\<lambda>r. dl_engine_id r \<noteq> engine_id) (w_downloads w)"
proof -
  obtain e hash where p: "owner w engine_id = Some (e, hash)"
    using assms(1) by (auto simp: remove_torrent_def split: option.splits)
  obtain x w1 where x: "engine_remove engine_id hash w = (x, w1)" by force
  have f: "w_downloads w1 = w_downloads w" using engine_remove_frame[OF x] by simp
  have "forget_engine_rows engine_id w1 = (None, w')"
    using assms(1) p x by (auto simp: remove_torrent_def split: option.splits svc_error.splits)
  then show ?thesis using forget_engine_rows_done f assms(2) by (auto simp: rows_ok_def)
qed

end
