(* ===== verification/Job_State.thy ===== *)
theory Job_State
  imports Service_World
begin

text \<open>
  The life of a job row (\<open>service.go\<close>): how a failed attempt is classified and parked (\<open>failOrWait\<close>,
  \<open>isTransient\<close>), how a new run numbers its attempt.  A \<open>failure\<close> is what the code asks of an error:
  its text, the retry time when it is a provider's rate limit (\<open>zero_time\<close>: none was given), and
  whether it is a deadline or a cancellation of the context.
\<close>

record failure =
  fl_text :: string
  fl_rate :: "go_time option"
  fl_deadline :: bool
  fl_cancelled :: bool

definition plain_failure :: "string \<Rightarrow> failure" where
  "plain_failure m = \<lparr>fl_text = m, fl_rate = None, fl_deadline = False, fl_cancelled = False\<rparr>"

fun err_text :: "svc_error \<Rightarrow> string" where
  "err_text (Engine_Unavailable route reason) =
     ''download engine unavailable: '' @ route @ '' ('' @ reason @ '')''"
| "err_text (Repo_Error m) = m"
| "err_text (Engine_Error m) = m"
| "err_text Torrent_Not_Found = ''torrent not found in the active engine''"
| "err_text No_Rows = ''sql: no rows in result set''"
| "err_text (Allocation_Exhausted e) = ''the storage Allocation is exhausted''"
| "err_text (Uncertain_Owners ps) = ''refusing new download: cannot account for engine ''
     @ join_with '', '' ps @ '' storage: download engine unavailable''"
| "err_text Streamed_Download = ''cannot remove an actively streamed download''"
| "err_text Unknown_Action = ''unknown download action''"
| "err_text Job_Active = ''active jobs cannot be retried''"
| "err_text Job_Not_Retryable = ''job kind is not retryable''"
| "err_text Bad_Mode = ''mode must be latest or rebuild''"

definition svc_failure :: "svc_error \<Rightarrow> failure" where
  "svc_failure e = plain_failure (err_text e)"

definition is_transient :: "failure \<Rightarrow> bool" where
  "is_transient f =
     (fl_rate f \<noteq> None \<or> fl_deadline f \<or> fl_cancelled f \<or>
      (let t = to_lower (fl_text f) in
       contains t ''timeout'' \<or> contains t ''temporar'' \<or> contains t ''connection reset'' \<or>
       contains t ''http 5'' \<or> contains t ''returned 5''))"

definition fail_or_wait :: "job \<Rightarrow> failure \<Rightarrow> string \<Rightarrow> world \<Rightarrow> job \<times> world" where
  "fail_or_wait job f phase w =
     (let now = now_of w;
          job = job\<lparr>job_error := fl_text f, job_updated_at := now, job_retryable := is_transient f\<rparr> in
      case fl_rate f of
        Some retry_at \<Rightarrow>
          (let due = (if retry_at = zero_time then now + hour else retry_at);
               job = job\<lparr>job_state := ''retry_wait'', job_next_attempt_at := Some due\<rparr> in
           (job, job_log_entry job ''warn'' ''rate-limit'' w))
      | None \<Rightarrow>
          (let job = job\<lparr>job_state := ''failed''\<rparr>;
               job = (if job_retryable job then job\<lparr>job_next_attempt_at := Some (now + hour)\<rparr> else job) in
           (job, job_log_entry job ''error'' phase w)))"

text \<open>Every start of a job looks for an active run of the same dedupe key and numbers its attempt.\<close>

definition job_active :: "job \<Rightarrow> bool" where
  "job_active j = (job_state j = ''queued'' \<or> job_state j = ''running'')"

definition next_attempt :: "string \<Rightarrow> job list \<Rightarrow> int" where
  "next_attempt key jobs = foldl (\<lambda>a j. if job_dedupe_key j = key \<and> job_attempt j \<ge> a
     then job_attempt j + 1 else a) 1 jobs"

definition active_run :: "string \<Rightarrow> job list \<Rightarrow> job option" where
  "active_run key jobs = List.find (\<lambda>j. job_dedupe_key j = key \<and> job_active j) jobs"

subsection \<open>Facts\<close>

lemma fail_or_wait_frame:
  "fail_or_wait job f phase w = (job', w') \<Longrightarrow>
   w_downloads w' = w_downloads w \<and> w_set w' = w_set w \<and> w_leases w' = w_leases w \<and>
   w_reserved w' = w_reserved w \<and> w_settings w' = w_settings w \<and> w_jobs w' = w_jobs w \<and>
   w_fault w' = w_fault w \<and> w_tick w' = w_tick w"
  by (auto simp: fail_or_wait_def job_log_entry_def Let_def split: option.splits)

lemma fail_or_wait_state:
  "fail_or_wait job f phase w = (job', w') \<Longrightarrow>
   job_state job' = (if fl_rate f \<noteq> None then ''retry_wait'' else ''failed'') \<and>
   job_retryable job' = is_transient f \<and>
   (is_transient f \<longrightarrow> job_next_attempt_at job' \<noteq> None) \<and> job_id job' = job_id job \<and>
   job_dedupe_key job' = job_dedupe_key job"
  by (auto simp: fail_or_wait_def Let_def is_transient_def split: option.splits if_splits)

definition attempt_step :: "string \<Rightarrow> int \<Rightarrow> job \<Rightarrow> int" where
  "attempt_step key a j = (if job_dedupe_key j = key \<and> job_attempt j \<ge> a then job_attempt j + 1 else a)"

lemma next_attempt_fold: "next_attempt key jobs = foldl (attempt_step key) 1 jobs"
  unfolding next_attempt_def attempt_step_def ..

lemma attempt_fold_le: "a \<le> foldl (attempt_step key) a js"
proof (induction js arbitrary: a)
  case (Cons j js)
  have "a \<le> attempt_step key a j" by (simp add: attempt_step_def)
  also have "\<dots> \<le> foldl (attempt_step key) (attempt_step key a j) js" by (rule Cons.IH)
  finally show ?case by simp
qed simp

lemma attempt_fold_above:
  "j \<in> set js \<Longrightarrow> job_dedupe_key j = key \<Longrightarrow> job_attempt j < foldl (attempt_step key) a js"
proof (induction js arbitrary: a)
  case (Cons x xs)
  show ?case
  proof (cases "j = x")
    case True
    have "job_attempt x < attempt_step key a x" using True Cons.prems by (simp add: attempt_step_def)
    also have "\<dots> \<le> foldl (attempt_step key) (attempt_step key a x) xs" by (rule attempt_fold_le)
    finally show ?thesis using True by simp
  qed (use Cons in auto)
qed simp

lemma next_attempt_above:
  "j \<in> set jobs \<Longrightarrow> job_dedupe_key j = key \<Longrightarrow> job_attempt j < next_attempt key jobs"
  by (simp add: next_attempt_fold attempt_fold_above)

lemma next_attempt_pos: "1 \<le> next_attempt key jobs"
  by (simp add: next_attempt_fold attempt_fold_le)

end
