(* ===== verification/Config_Store.thy ===== *)
theory Config_Store
  imports Config
begin

text \<open>
  The settings store: \<open>LoadAt\<close> and \<open>Save\<close> of \<open>config.go\<close>, \<open>resetUnsafeMediaTools\<close> of \<open>mediatool.go\<close>
  and the onboarding hints of \<open>onboarding.go\<close>.  A store keeps the file's settings (\<open>base\<close>), the
  effective settings (\<open>value\<close>: the file's under the environment overlay) and the environment-managed
  keys.  \<open>tool_ok\<close> is \<open>ValidateMediaTool\<close>, which runs the program; \<open>storage_ok\<close> says whether the
  directory, the temporary file and the rename all succeed.
\<close>

record store =
  sto_dir :: string
  sto_base :: settings
  sto_value :: settings
  sto_managed :: "string list"
  sto_warnings :: "string list"

definition fill_steps :: "string \<Rightarrow> string list \<Rightarrow> ((settings \<Rightarrow> bool) \<times> (settings \<Rightarrow> settings)) list" where
  "fill_steps goos present = [
     (\<lambda>b. st_instance_name b = [],
        \<lambda>b. b\<lparr>st_instance_name := ''Torrent TV''\<rparr>),
     (\<lambda>b. st_watched_threshold_percent b = 0,
        \<lambda>b. b\<lparr>st_watched_threshold_percent := 90\<rparr>),
     (\<lambda>b. st_preferred_audio_language b = [],
        \<lambda>b. b\<lparr>st_preferred_audio_language := ''en''\<rparr>),
     (\<lambda>b. ''evictionRules'' \<notin> set present,
        \<lambda>b. b\<lparr>st_eviction_rules := [''oldest-completed'']\<rparr>),
     (\<lambda>b. ''metadataProviders'' \<notin> set present,
        \<lambda>b. b\<lparr>st_metadata_providers := [''tmdb'', ''tvmaze'', ''jikan'']\<rparr>),
     (\<lambda>b. ''protectIncomplete'' \<notin> set present,
        \<lambda>b. b\<lparr>st_protect_incomplete := True\<rparr>),
     (\<lambda>b. ''protectLeased'' \<notin> set present,
        \<lambda>b. b\<lparr>st_protect_leased := True\<rparr>),
     (\<lambda>b. ''fileListEnabled'' \<notin> set present,
        \<lambda>b. b\<lparr>st_filelist_enabled := True\<rparr>),
     (\<lambda>b. ''pirateBayWebsiteUrl'' \<notin> set present \<or> st_piratebay_website_url b = [],
        \<lambda>b. b\<lparr>st_piratebay_website_url := ''https://thepiratebay.org''\<rparr>),
     (\<lambda>b. ''pirateBayApiUrl'' \<notin> set present \<or> st_piratebay_api_url b = [],
        \<lambda>b. b\<lparr>st_piratebay_api_url := ''https://apibay.org''\<rparr>),
     (\<lambda>b. st_metadata_language b = [],
        \<lambda>b. b\<lparr>st_metadata_language := ''ro-RO''\<rparr>),
     (\<lambda>b. st_metadata_fallback_language b = [],
        \<lambda>b. b\<lparr>st_metadata_fallback_language := ''en-US''\<rparr>),
     (\<lambda>b. st_artwork_cache_path b = [],
        \<lambda>b. b\<lparr>st_artwork_cache_path := ''data/artwork''\<rparr>),
     (\<lambda>b. st_artwork_cache_max_bytes b = 0,
        \<lambda>b. b\<lparr>st_artwork_cache_max_bytes := 512 * 2 ^ 20\<rparr>),
     (\<lambda>b. st_subdl_url b = [],
        \<lambda>b. b\<lparr>st_subdl_url := ''https://api.subdl.com''\<rparr>),
     (\<lambda>b. st_max_concurrent_jobs b = 0,
        \<lambda>b. b\<lparr>st_max_concurrent_jobs := 10\<rparr>),
     (\<lambda>b. st_title_refresh_timeout_minutes b = 0,
        \<lambda>b. b\<lparr>st_title_refresh_timeout_minutes := 30\<rparr>),
     (\<lambda>b. st_ffprobe_path b = [],
        \<lambda>b. b\<lparr>st_ffprobe_path := default_media_tool_path goos ''ffprobe''\<rparr>),
     (\<lambda>b. st_ffmpeg_path b = [],
        \<lambda>b. b\<lparr>st_ffmpeg_path := default_media_tool_path goos ''ffmpeg''\<rparr>)]"

definition fill_missing :: "string \<Rightarrow> string list \<Rightarrow> settings \<Rightarrow> settings" where
  "fill_missing goos present b = foldl (\<lambda>b (c, u). if c b then u b else b) b (fill_steps goos present)"

text \<open>\<open>resetUnsafeMediaTools\<close>: the base and effective settings and the keys that were reset.\<close>

definition reset_unsafe_media_tools ::
  "string \<Rightarrow> settings \<Rightarrow> settings \<Rightarrow> string list \<Rightarrow> settings \<times> settings \<times> string list" where
  "reset_unsafe_media_tools goos base eff managed =
     (let probe = ''ffprobePath'' \<notin> set managed \<and> \<not> media_tool_name_ok (st_ffprobe_path eff) ''ffprobe'';
          dp = st_ffprobe_path (defaults goos);
          (b1, e1) = (if probe then (base\<lparr>st_ffprobe_path := dp\<rparr>, eff\<lparr>st_ffprobe_path := dp\<rparr>) else (base, eff));
          mpeg = ''ffmpegPath'' \<notin> set managed \<and> \<not> media_tool_name_ok (st_ffmpeg_path e1) ''ffmpeg'';
          dm = st_ffmpeg_path (defaults goos);
          (b2, e2) = (if mpeg then (b1\<lparr>st_ffmpeg_path := dm\<rparr>, e1\<lparr>st_ffmpeg_path := dm\<rparr>) else (b1, e1)) in
      (b2, e2, (if probe then [''ffprobePath''] else []) @ (if mpeg then [''ffmpegPath''] else [])))"

definition load_at ::
  "config_env \<Rightarrow> string \<Rightarrow> (string list \<times> (settings \<Rightarrow> settings)) option \<Rightarrow> bool \<Rightarrow> config_error + store" where
  "load_at env dir file storage_ok =
     (let d = defaults (cf_goos env);
          base = (case file of None \<Rightarrow> d | Some (present, decode) \<Rightarrow> fill_missing (cf_goos env) present (decode d)) in
      case apply_environment env base of
        Inl e \<Rightarrow> Inl e
      | Inr (eff, managed) \<Rightarrow>
          (let (b, v, warnings) =
             reset_unsafe_media_tools (cf_goos env) base (anchor_native_paths eff managed dir) managed in
           case validate env v of
             Some e \<Rightarrow> Inl e
           | None \<Rightarrow>
               if \<not> storage_ok then Inl Storage_Error
               else Inr \<lparr>sto_dir = dir, sto_base = b, sto_value = v, sto_managed = managed,
                 sto_warnings = warnings\<rparr>))"

definition tool_rejected ::
  "(string \<Rightarrow> string \<Rightarrow> bool) \<Rightarrow> string \<Rightarrow> string \<Rightarrow> string \<Rightarrow> string \<Rightarrow> string list \<Rightarrow> bool" where
  "tool_rejected tool_ok key binary next current managed =
     (next \<noteq> current \<and> key \<notin> set managed \<and> \<not> tool_ok next binary)"

definition save_store ::
  "config_env \<Rightarrow> (string \<Rightarrow> string \<Rightarrow> bool) \<Rightarrow> bool \<Rightarrow> bool \<Rightarrow> settings \<Rightarrow> store \<Rightarrow> config_error + store" where
  "save_store env tool_ok storage_ok probe_tools next s =
     (let merged = merge_secrets next (sto_value s);
          normal = merged\<lparr>st_metadata_providers := normalize_metadata_providers (st_metadata_providers merged)\<rparr>;
          persisted = restore_managed_fields normal (sto_base s) (sto_managed s) in
      case apply_environment env persisted of
        Inl e \<Rightarrow> Inl e
      | Inr (eff, managed) \<Rightarrow>
          (case validate env eff of
             Some e \<Rightarrow> Inl e
           | None \<Rightarrow>
               if probe_tools \<and> tool_rejected tool_ok ''ffprobePath'' ''ffprobe'' (st_ffprobe_path eff)
                    (st_ffprobe_path (sto_value s)) managed then Inl (Tool_Probe ''ffprobePath'')
               else if probe_tools \<and> tool_rejected tool_ok ''ffmpegPath'' ''ffmpeg'' (st_ffmpeg_path eff)
                    (st_ffmpeg_path (sto_value s)) managed then Inl (Tool_Probe ''ffmpegPath'')
               else if \<not> storage_ok then Inl Storage_Error
               else Inr (s\<lparr>sto_base := persisted, sto_value := eff, sto_managed := managed\<rparr>)))"

definition missing_required :: "store \<Rightarrow> string list" where
  "missing_required s =
     (if \<not> st_filelist_enabled (sto_value s) then []
      else (if trim_space (st_filelist_username (sto_value s)) = [] then [''fileListUsername''] else []) @
           (if trim_space (st_filelist_passkey (sto_value s)) = [] then [''fileListPasskey''] else []))"

definition defaults_in_use :: "string \<Rightarrow> store \<Rightarrow> string list" where
  "defaults_in_use goos s =
     (let anchored = anchor_native_paths (defaults goos) [] (sto_dir s) in
      (if st_download_root (sto_value s) = st_download_root anchored then [''downloadRoot''] else []) @
      (if st_listen_address (sto_value s) = st_listen_address (defaults goos) then [''listenAddress''] else []))"

subsection \<open>Validated settings\<close>

lemma check_all_None: "check_all cs = None \<longleftrightarrow> list_all (\<lambda>c. \<not> fst c) cs"
  by (induction cs) (auto simp: check_all_def)

lemma validate_bounds:
  "validate env v = None \<Longrightarrow>
     16 * 2 ^ 20 \<le> st_initial_buffer_bytes v \<and> st_initial_buffer_bytes v \<le> st_read_ahead_bytes v \<and>
     (st_allocation_gb v = 0 \<or> 1 / 10 \<le> st_allocation_gb v \<and> st_allocation_gb v \<le> 100000) \<and>
     (st_reserve_gb v = 0 \<or> 1 / 10 \<le> st_reserve_gb v \<and> st_reserve_gb v \<le> 100000) \<and>
     list_all valid_eviction_rule (st_eviction_rules v) \<and>
     1 \<le> st_max_concurrent_jobs v \<and> st_max_concurrent_jobs v \<le> 20 \<and>
     1 \<le> st_piece_wait_timeout_seconds v"
  by (auto simp: validate_def check_all_None retention_gb_invalid_def)

lemma normalize_eviction_rules_not_Nil [simp]: "normalize_eviction_rules rules \<noteq> []"
  by (simp add: normalize_eviction_rules_def Let_def)

lemma normalize_eviction_rules_valid:
  "list_all valid_eviction_rule rules \<Longrightarrow> set (normalize_eviction_rules rules) \<subseteq> set eviction_rule_atoms"
  by (auto simp: normalize_eviction_rules_def Let_def valid_eviction_rule_def list_all_iff
      eviction_rule_atoms_def split: if_splits)

lemma dedupe_from_distinct: "distinct (dedupe_from seen ps) \<and> set (dedupe_from seen ps) \<inter> set seen = {}"
  by (induction seen ps rule: dedupe_from.induct) (auto simp: Let_def)

inductive store_reachable :: "config_env \<Rightarrow> store \<Rightarrow> bool" for env where
  loaded: "load_at env dir file storage_ok = Inr s \<Longrightarrow> store_reachable env s"
| saved: "store_reachable env s \<Longrightarrow> save_store env tool_ok storage_ok probe_tools next s = Inr s' \<Longrightarrow>
    store_reachable env s'"

lemma load_at_valid: "load_at env dir file ok = Inr s \<Longrightarrow> validate env (sto_value s) = None"
  by (auto simp: load_at_def Let_def split: sum.splits prod.splits option.splits if_splits)

lemma save_store_valid: "save_store env t ok p next s = Inr s' \<Longrightarrow> validate env (sto_value s') = None"
  by (auto simp: save_store_def Let_def split: sum.splits prod.splits option.splits if_splits)

text \<open>
  Property C7: whatever is loaded and saved, the settings the server reads satisfy the validation
  rules: the storage limits are off or between 0.1 and 100000 GB, every eviction rule is known, the
  worker count is between 1 and 20.
\<close>

theorem store_value_valid:
  assumes "store_reachable env s"
  shows "validate env (sto_value s) = None \<and>
    list_all valid_eviction_rule (st_eviction_rules (sto_value s)) \<and>
    (st_allocation_gb (sto_value s) = 0 \<or>
      1 / 10 \<le> st_allocation_gb (sto_value s) \<and> st_allocation_gb (sto_value s) \<le> 100000) \<and>
    1 \<le> st_max_concurrent_jobs (sto_value s) \<and> st_max_concurrent_jobs (sto_value s) \<le> 20"
  using assms
proof (induction rule: store_reachable.induct)
  case (loaded dir stored ok s)
  then show ?case using load_at_valid validate_bounds by blast
next
  case (saved s t ok p "next" s')
  then show ?case using save_store_valid validate_bounds by blast
qed

subsection \<open>Fields under the environment\<close>

text \<open>Two settings agree on a field; writing one field leaves the others alone.\<close>

fun field_eq :: "settings_field \<Rightarrow> settings \<Rightarrow> settings \<Rightarrow> bool" where
  "field_eq (Str_Field k g w) a b = (g a = g b)"
| "field_eq (Int_Field k g w) a b = (g a = g b)"
| "field_eq (Bool_Field k g w) a b = (g a = g b)"
| "field_eq (Num_Field k g w) a b = (g a = g b)"
| "field_eq (List_Field k g w) a b = (g a = g b)"

lemma field_independent:
  "list_all (\<lambda>f. list_all (\<lambda>h. field_key f = field_key h \<or> field_eq f (restore_field h b v) v) settings_fields)
     settings_fields"
  unfolding settings_fields_def by simp

lemma field_restored: "f \<in> set settings_fields \<Longrightarrow> field_eq f (restore_field f b v) b"
proof -
  have "list_all (\<lambda>f. field_eq f (restore_field f b v) b) settings_fields"
    unfolding settings_fields_def by simp
  then show "f \<in> set settings_fields \<Longrightarrow> field_eq f (restore_field f b v) b" by (simp add: list_all_iff)
qed

lemma field_key_distinct: "distinct (map field_key settings_fields)"
  unfolding settings_fields_def by simp

lemma field_key_inj:
  "f \<in> set settings_fields \<Longrightarrow> h \<in> set settings_fields \<Longrightarrow> field_key f = field_key h \<Longrightarrow> f = h"
  using field_key_distinct by (auto simp: distinct_map inj_on_def)

lemma field_other:
  "f \<in> set settings_fields \<Longrightarrow> h \<in> set settings_fields \<Longrightarrow> f \<noteq> h \<Longrightarrow> field_eq f (restore_field h b v) v"
  using field_independent[of b v] field_key_inj by (auto simp: list_all_iff)

lemma field_eq_trans: "field_eq f a b \<Longrightarrow> field_eq f b c \<Longrightarrow> field_eq f a c"
  by (cases f) auto

lemma field_eq_refl [simp]: "field_eq f a a"
  by (cases f) auto

lemma restore_fold:
  assumes "set fs \<subseteq> set settings_fields" and "f \<in> set settings_fields"
  shows "field_eq f (foldl (\<lambda>v h. if field_key h \<in> set managed then restore_field h base v else v) target fs)
     (if f \<in> set fs \<and> field_key f \<in> set managed then base else target)"
  using assms(1)
proof (induction fs rule: rev_induct)
  case (snoc h fs)
  let ?v = "foldl (\<lambda>v h. if field_key h \<in> set managed then restore_field h base v else v) target fs"
  have IH: "field_eq f ?v (if f \<in> set fs \<and> field_key f \<in> set managed then base else target)"
    using snoc by simp
  show ?case
  proof (cases "field_key h \<in> set managed")
    case True
    have h: "h \<in> set settings_fields" using snoc by simp
    show ?thesis
    proof (cases "f = h")
      case True
      then show ?thesis using \<open>field_key h \<in> set managed\<close> field_restored[OF assms(2)] by simp
    next
      case False
      then show ?thesis using True field_eq_trans[OF field_other[OF assms(2) h False] IH] by simp
    qed
  next
    case False
    then show ?thesis using IH by (auto split: if_splits)
  qed
qed simp

lemma restore_managed_field:
  "f \<in> set settings_fields \<Longrightarrow>
   field_eq f (restore_managed_fields target base managed) (if field_key f \<in> set managed then base else target)"
  using restore_fold[of settings_fields f managed base target] by (simp add: restore_managed_fields_def)

lemma restored_managed:
  "f \<in> set settings_fields \<Longrightarrow> field_key f \<in> set managed \<Longrightarrow>
   field_eq f (restore_managed_fields target base managed) base"
  using restore_managed_field[of f target base managed] by simp

text \<open>
  Property C8: a save never writes an environment override into the settings file: each field the
  environment manages keeps the value the file had, whatever the client sent.
\<close>

theorem save_keeps_managed_fields:
  assumes "save_store env tool_ok storage_ok probe_tools next s = Inr s'"
    and "f \<in> set settings_fields" and "field_key f \<in> set (sto_managed s)"
  shows "field_eq f (sto_base s') (sto_base s)"
  using assms(1) restored_managed[OF assms(2,3)]
  by (auto simp: save_store_def Let_def split: sum.splits prod.splits option.splits if_splits)

subsection \<open>Secrets\<close>

lemma merge_secrets_keeps:
  "(st_filelist_passkey old \<noteq> [] \<longrightarrow> st_filelist_passkey (merge_secrets next old) \<noteq> []) \<and>
   (st_tmdb_api_key old \<noteq> [] \<longrightarrow> st_tmdb_api_key (merge_secrets next old) \<noteq> []) \<and>
   (st_subdl_api_key old \<noteq> [] \<longrightarrow> st_subdl_api_key (merge_secrets next old) \<noteq> []) \<and>
   (st_portal_api_key old \<noteq> [] \<longrightarrow> st_portal_api_key (merge_secrets next old) \<noteq> [])"
  by (auto simp: merge_secrets_def Let_def)

lemma merge_secrets_qbittorrent:
  "st_qbittorrent_password (merge_secrets next old) =
     (if st_qbittorrent_password next = [] \<and> st_qbittorrent_username next \<noteq> []
      then st_qbittorrent_password old else st_qbittorrent_password next)"
  by (auto simp add: merge_secrets_def Let_def)

subsection \<open>Examples\<close>

definition plain_env :: config_env where
  "plain_env = \<lparr>cf_goos = ''linux'', cf_lookup = (\<lambda>_. None), cf_parse_float = (\<lambda>_. None),
     cf_parse_url = (\<lambda>_. Some \<lparr>up_scheme = ''https'', up_host = ''h'', up_has_user = False\<rparr>),
     cf_valid_prefix = (\<lambda>_. True)\<rparr>"

lemma apply_fields_plain: "apply_fields plain_env fs v m = Inr (v, m)"
  by (induction fs) (simp_all add: plain_env_def)

lemma foldl_same: "foldl (\<lambda>v f. v) a xs = a"
  by (induction xs) auto

lemma restore_none: "restore_managed_fields v b [] = v"
  by (simp add: restore_managed_fields_def foldl_same)

lemmas validate_eval = validate_def check_all_def trim_space_def trim_by_def is_blank_def Let_def
  retention_gb_invalid_def media_tool_name_ok_def is_abs_def has_prefix_def path_base_def elems_def
  to_lower_def lower_byte_def subdl_url_bad_def piratebay_url_bad_def equal_fold_def trim_right_slashes_def
  plain_env_def valid_eviction_rule_def eviction_rule_atoms_def known_providers_def
  normalize_metadata_providers_def default_media_tool_path_def

definition default_store :: store where
  "default_store = \<lparr>sto_dir = ''/srv/tv'', sto_base = defaults ''linux'',
     sto_value = anchor_native_paths (defaults ''linux'') [] ''/srv/tv'', sto_managed = [],
     sto_warnings = []\<rparr>"

lemma anchored_defaults_valid:
  "validate plain_env (anchor_native_paths (defaults ''linux'') [] ''/srv/tv'') = None"
  by (simp add: validate_eval defaults_def anchor_native_paths_def anchor_path_def clean_def path_join_def)

lemma reset_nothing:
  "media_tool_name_ok (st_ffprobe_path eff) ''ffprobe'' \<Longrightarrow>
   media_tool_name_ok (st_ffmpeg_path eff) ''ffmpeg'' \<Longrightarrow>
   reset_unsafe_media_tools goos base eff managed = (base, eff, [])"
  by (simp add: reset_unsafe_media_tools_def)

lemma tool_names: "media_tool_name_ok ''/usr/bin/ffprobe'' ''ffprobe''"
  "media_tool_name_ok ''/usr/bin/ffmpeg'' ''ffmpeg''"
  by (simp_all add: validate_eval)

lemma default_tools:
  "st_ffprobe_path (anchor_native_paths (defaults ''linux'') m dir) = ''/usr/bin/ffprobe''"
  "st_ffmpeg_path (anchor_native_paths (defaults ''linux'') m dir) = ''/usr/bin/ffmpeg''"
  by (simp_all add: anchor_native_paths_def defaults_def default_media_tool_path_def)

lemma plain_goos [simp]: "cf_goos plain_env = ''linux''"
  by (simp add: plain_env_def)

lemma load_default_store: "load_at plain_env ''/srv/tv'' None True = Inr default_store"
  using anchored_defaults_valid
  by (simp add: load_at_def apply_environment_def apply_fields_plain reset_nothing default_tools tool_names Let_def)
    (simp add: default_store_def)

theorem store_value_valid_witness:
  "validate plain_env (sto_value default_store) = None"
  using store_value_valid[OF store_reachable.loaded[OF load_default_store]] by simp

definition moved_settings :: settings where
  "moved_settings = (sto_value default_store)\<lparr>st_download_root := ''media''\<rparr>"

lemma moved_valid: "validate plain_env moved_settings = None"
  by (simp add: validate_eval defaults_def anchor_native_paths_def anchor_path_def clean_def path_join_def
      moved_settings_def default_store_def)

lemma moved_merged: "merge_secrets moved_settings (sto_value default_store) = moved_settings"
  by (simp add: merge_secrets_def moved_settings_def default_store_def defaults_def anchor_native_paths_def)

lemma moved_providers:
  "moved_settings\<lparr>st_metadata_providers :=
     normalize_metadata_providers (st_metadata_providers moved_settings)\<rparr> = moved_settings"
  by (simp add: validate_eval moved_settings_def default_store_def defaults_def anchor_native_paths_def)

lemma moved_saved:
  "save_store plain_env (\<lambda>_ _. True) True True moved_settings default_store =
   Inr (default_store\<lparr>sto_base := moved_settings, sto_value := moved_settings\<rparr>)"
proof -
  have m: "sto_managed default_store = []" by (simp add: default_store_def)
  show ?thesis unfolding save_store_def Let_def moved_merged moved_providers m restore_none
    by (simp add: apply_environment_def apply_fields_plain moved_valid tool_rejected_def m)
qed

definition reloaded :: settings where
  "reloaded = moved_settings\<lparr>st_download_root := ''/srv/tv/media''\<rparr>"

lemma fold_skip: "list_all (\<lambda>(c, u). \<not> c b) cs \<Longrightarrow> foldl (\<lambda>b (c, u). if c b then u b else b) b cs = b"
  by (induction cs) auto

lemma fill_nothing:
  assumes "set [''evictionRules'', ''metadataProviders'', ''protectIncomplete'', ''protectLeased'',
      ''fileListEnabled'', ''pirateBayWebsiteUrl'', ''pirateBayApiUrl''] \<subseteq> set present"
    and "st_instance_name b \<noteq> []" "st_watched_threshold_percent b \<noteq> 0" "st_preferred_audio_language b \<noteq> []"
    "st_piratebay_website_url b \<noteq> []" "st_piratebay_api_url b \<noteq> []" "st_metadata_language b \<noteq> []"
    "st_metadata_fallback_language b \<noteq> []" "st_artwork_cache_path b \<noteq> []"
    "st_artwork_cache_max_bytes b \<noteq> 0" "st_subdl_url b \<noteq> []" "st_max_concurrent_jobs b \<noteq> 0"
    "st_title_refresh_timeout_minutes b \<noteq> 0" "st_ffprobe_path b \<noteq> []" "st_ffmpeg_path b \<noteq> []"
  shows "fill_missing goos present b = b"
proof -
  have "''evictionRules'' \<in> set present" "''metadataProviders'' \<in> set present" "''protectIncomplete'' \<in> set present"
    "''protectLeased'' \<in> set present" "''fileListEnabled'' \<in> set present"
    "''pirateBayWebsiteUrl'' \<in> set present" "''pirateBayApiUrl'' \<in> set present"
    using assms(1) by simp_all
  then have "list_all (\<lambda>(c, u). \<not> c b) (fill_steps goos present)"
    using assms(2-) by (simp add: fill_steps_def)
  then show ?thesis by (simp add: fill_missing_def fold_skip)
qed

lemma moved_filled: "fill_missing ''linux'' (map field_key settings_fields) moved_settings = moved_settings"
proof (rule fill_nothing)
  show "set [''evictionRules'', ''metadataProviders'', ''protectIncomplete'', ''protectLeased'',
      ''fileListEnabled'', ''pirateBayWebsiteUrl'', ''pirateBayApiUrl''] \<subseteq> set (map field_key settings_fields)"
    by (simp add: settings_fields_def)
qed (simp_all add: moved_settings_def default_store_def anchor_native_paths_def defaults_def
    default_media_tool_path_def anchor_path_def is_abs_def has_prefix_def clean_def path_join_def)

lemma moved_anchored: "anchor_native_paths moved_settings [] ''/srv/tv'' = reloaded"
  by (simp add: reloaded_def moved_settings_def default_store_def anchor_native_paths_def anchor_path_def
      defaults_def is_abs_def has_prefix_def clean_def path_join_def)

lemma moved_tools: "reset_unsafe_media_tools ''linux'' moved_settings reloaded [] = (moved_settings, reloaded, [])"
  by (rule reset_nothing)
    (simp_all add: reloaded_def moved_settings_def default_store_def default_tools tool_names)

lemma reloaded_valid: "validate plain_env reloaded = None"
  by (simp add: validate_eval defaults_def anchor_native_paths_def anchor_path_def clean_def path_join_def
      reloaded_def moved_settings_def default_store_def)

lemma moved_loaded:
  "load_at plain_env ''/srv/tv'' (Some (map field_key settings_fields, \<lambda>_. moved_settings)) True =
   Inr \<lparr>sto_dir = ''/srv/tv'', sto_base = moved_settings, sto_value = reloaded, sto_managed = [],
     sto_warnings = []\<rparr>"
proof -
  have "cf_goos plain_env = ''linux''" by (simp add: plain_env_def)
  then show ?thesis
    by (simp add: load_at_def moved_filled apply_environment_def apply_fields_plain moved_anchored moved_tools
        reloaded_valid)
qed

text \<open>
  \<open>Save\<close> does not anchor relative paths: after saving the download root \<open>media\<close> the running
  server reads the relative path, against its working directory, while the next \<open>LoadAt\<close> of the very
  file that was written yields a path next to the settings file.
\<close>

theorem save_leaves_path_relative:
  "\<exists>s' s''. save_store plain_env (\<lambda>_ _. True) True True moved_settings default_store = Inr s' \<and>
     st_download_root (sto_value s') = ''media'' \<and>
     load_at plain_env (sto_dir s') (Some (map field_key settings_fields, \<lambda>_. sto_base s')) True = Inr s'' \<and>
     st_download_root (sto_value s'') = ''/srv/tv/media''"
  using moved_saved moved_loaded
  by (auto simp: default_store_def reloaded_def) (simp add: moved_settings_def)

definition managed_store :: store where
  "managed_store = default_store\<lparr>sto_managed := [''downloadRoot'']\<rparr>"

definition kept_settings :: settings where
  "kept_settings = moved_settings\<lparr>st_download_root := ''data/downloads''\<rparr>"

lemma kept_restored:
  "restore_managed_fields moved_settings (sto_base managed_store) (sto_managed managed_store) = kept_settings"
  unfolding restore_managed_fields_def settings_fields_def
  by (simp add: managed_store_def kept_settings_def) (simp add: default_store_def defaults_def)

lemma kept_valid: "validate plain_env kept_settings = None"
  by (simp add: validate_eval defaults_def anchor_native_paths_def anchor_path_def clean_def path_join_def
      kept_settings_def moved_settings_def default_store_def)

lemma kept_saved:
  "save_store plain_env (\<lambda>_ _. True) True True moved_settings managed_store =
   Inr (managed_store\<lparr>sto_base := kept_settings, sto_value := kept_settings, sto_managed := []\<rparr>)"
proof -
  have m: "merge_secrets moved_settings (sto_value managed_store) = moved_settings"
    using moved_merged by (simp add: managed_store_def)
  show ?thesis unfolding save_store_def Let_def m moved_providers kept_restored
    by (simp add: apply_environment_def apply_fields_plain kept_valid tool_rejected_def)
qed

theorem save_keeps_managed_fields_witness:
  "field_eq (Str_Field ''downloadRoot'' st_download_root (\<lambda>v. st_download_root_update (\<lambda>_. v)))
     kept_settings (sto_base managed_store)"
  using save_keeps_managed_fields[OF kept_saved, of "Str_Field ''downloadRoot'' st_download_root
      (\<lambda>v. st_download_root_update (\<lambda>_. v))"]
  by (simp add: managed_store_def settings_fields_def)

end
