(* ===== verification/Retention.thy ===== *)
theory Retention
  imports Job_State Config_Store
begin

text \<open>
  Storage retention (\<open>internal/application/retention.go\<close>) and the admission gate of a download
  (\<open>ensureAllocationRoom\<close>, \<open>allocationReservation\<close> of \<open>service.go\<close>): the survey of the torrents, the
  protection predicate, the eviction order, one eviction, the enforcement loop.

  The two loops run on fuel; \<open>evictions_bounded\<close> shows that every eviction takes at least one row with
  it, so that one more than the number of rows is always enough.  The names in an eviction event
  are display text and are not modelled; the reservation of a request is its argument \<open>held\<close>.
\<close>

definition gigabytes_to_bytes :: "rat \<Rightarrow> int" where
  "gigabytes_to_bytes gb = trunc_rat (gb * 2 ^ 30)"

subsection \<open>Routes\<close>

record retention_route =
  rr_engine_id :: string
  rr_hash :: string
  rr_rows :: "download list"
  rr_status :: download_status
  rr_favorite :: bool
  rr_watched :: bool
  rr_last_played :: go_time

text \<open>A route always has a row (\<open>survey_rows_nonempty\<close>); the code reads \<open>rows[0]\<close>.\<close>

definition completed_at :: "retention_route \<Rightarrow> go_time" where
  "completed_at r = (case map dl_updated_at (rr_rows r) of
     [] \<Rightarrow> zero_time | t # ts \<Rightarrow> foldl (\<lambda>oldest u. if u < oldest then u else oldest) t ts)"

definition last_activity :: "retention_route \<Rightarrow> go_time" where
  "last_activity r = (if rr_last_played r \<noteq> zero_time then rr_last_played r else completed_at r)"

definition route_incomplete :: "retention_route \<Rightarrow> bool" where
  "route_incomplete r = (ds_progress (rr_status r) < 1 \<or> list_ex (\<lambda>d. dl_progress d < 1) (rr_rows r))"

definition world_row_leased :: "world \<Rightarrow> download \<Rightarrow> bool" where
  "world_row_leased w d = (lease_held (w_leases w) (dl_id d) \<or> dl_leased d)"

definition route_leased :: "world \<Rightarrow> retention_route \<Rightarrow> bool" where
  "route_leased w r = list_ex (world_row_leased w) (rr_rows r)"

definition retention_protected :: "world \<Rightarrow> retention_route \<Rightarrow> settings \<Rightarrow> bool" where
  "retention_protected w r st =
     (if st_protect_incomplete st \<and> route_incomplete r then True
      else if st_protect_leased st \<and> route_leased w r then True
      else if st_protect_favorites st \<and> rr_favorite r then True
      else if st_protect_never_watched st \<and> \<not> rr_watched r then True
      else False)"

subsection \<open>The eviction order\<close>

definition compare_int :: "int \<Rightarrow> int \<Rightarrow> int" where
  "compare_int a b = (if a < b then - 1 else if a > b then 1 else 0)"

definition bool_first :: "bool \<Rightarrow> bool \<Rightarrow> int" where
  "bool_first a b = (if a = b then 0 else if a then - 1 else 1)"

definition compare_eviction_rule :: "string \<Rightarrow> retention_route \<Rightarrow> retention_route \<Rightarrow> int" where
  "compare_eviction_rule rule a b =
     (if rule = ''newest-completed'' then compare_int (completed_at b) (completed_at a)
      else if rule = ''least-recently-played'' then compare_int (last_activity a) (last_activity b)
      else if rule = ''most-recently-played'' then compare_int (last_activity b) (last_activity a)
      else if rule = ''watched-first'' then bool_first (rr_watched a) (rr_watched b)
      else if rule = ''never-watched-first'' then bool_first (\<not> rr_watched a) (\<not> rr_watched b)
      else if rule = ''largest''
        then compare_int (ds_total_bytes (rr_status b)) (ds_total_bytes (rr_status a))
      else if rule = ''smallest''
        then compare_int (ds_total_bytes (rr_status a)) (ds_total_bytes (rr_status b))
      else compare_int (completed_at a) (completed_at b))"

fun eviction_less :: "string list \<Rightarrow> retention_route \<Rightarrow> retention_route \<Rightarrow> bool" where
  "eviction_less [] a b =
     (let c = compare_int (completed_at a) (completed_at b) in
      if c \<noteq> 0 then c < 0 else str_less (rr_engine_id a) (rr_engine_id b))"
| "eviction_less (rule # rules) a b =
     (let c = compare_eviction_rule rule a b in
      if c \<noteq> 0 then c < 0 else eviction_less rules a b)"

definition apply_eviction_rules :: "retention_route list \<Rightarrow> string list \<Rightarrow> retention_route list" where
  "apply_eviction_rules candidates rules = sort_by (eviction_less rules) candidates"

subsection \<open>The survey\<close>

record retention_plan =
  rp_routes :: "retention_route list"
  rp_stored_bytes :: int
  rp_free :: "string + int"
  rp_uncertain :: "string list"

record household_facts =
  hf_favorite_titles :: "string list"
  hf_latest :: "(string \<times> playback_state) list"
  hf_titles :: "(string \<times> string) list"

definition household_profile :: string where "household_profile = ''household''"

definition add_new :: "'a \<Rightarrow> 'a list \<Rightarrow> 'a list" where
  "add_new x xs = (if x \<in> set xs then xs else xs @ [x])"

definition release_ids_of :: "download list \<Rightarrow> string list" where
  "release_ids_of ds = foldl (\<lambda>ids d. if dl_release_id d = [] then ids else add_new (dl_release_id d) ids) [] ds"

definition title_of :: "(string \<times> string) list \<Rightarrow> string \<Rightarrow> string" where
  "title_of titles rid = (case map_of titles rid of None \<Rightarrow> [] | Some t \<Rightarrow> t)"

definition latest_step ::
  "(string \<times> string) list \<Rightarrow> (string \<times> playback_state) list \<Rightarrow> playback_state \<Rightarrow> (string \<times> playback_state) list" where
  "latest_step titles latest p =
     (let t = title_of titles (pb_release_id p) in
      if t = [] then latest
      else (case map_of latest t of
              None \<Rightarrow> upsert fst (t, p) latest
            | Some q \<Rightarrow> if pb_updated_at p > pb_updated_at q then upsert fst (t, p) latest else latest))"

definition retention_household :: "download list \<Rightarrow> world \<Rightarrow> (svc_error + household_facts) \<times> world" where
  "retention_household managed w =
     (case title_ids_for (release_ids_of managed) w of
        (Inl e, w') \<Rightarrow> (Inl e, w')
      | (Inr titles, w') \<Rightarrow>
          (case list_favorites household_profile w' of
             (Inl e, w') \<Rightarrow> (Inl e, w')
           | (Inr favs, w') \<Rightarrow>
               (case list_playback household_profile w' of
                  (Inl e, w') \<Rightarrow> (Inl e, w')
                | (Inr ps, w') \<Rightarrow>
                    (Inr \<lparr>hf_favorite_titles = map fav_title_id favs,
                       hf_latest = foldl (latest_step titles) [] ps, hf_titles = titles\<rparr>, w'))))"

definition fact_step ::
  "household_facts \<Rightarrow> bool \<times> bool \<times> go_time \<Rightarrow> download \<Rightarrow> bool \<times> bool \<times> go_time" where
  "fact_step h facts d =
     (let (favorite, watched, last_played) = facts; t = title_of (hf_titles h) (dl_release_id d) in
      if t = [] then facts
      else (let favorite' = (favorite \<or> t \<in> set (hf_favorite_titles h)) in
            case map_of (hf_latest h) t of
              None \<Rightarrow> (favorite', watched, last_played)
            | Some p \<Rightarrow> (favorite', watched \<or> pb_watched p,
                if last_played = zero_time \<or> pb_updated_at p > last_played then pb_updated_at p
                else last_played)))"

definition route_facts :: "household_facts \<Rightarrow> download list \<Rightarrow> bool \<times> bool \<times> go_time" where
  "route_facts h rows = foldl (fact_step h) (False, False, zero_time) rows"

text \<open>The rows of reachable engines, grouped by route in the order of their first row, and the prefixes of the others.\<close>

definition reachable_rows :: "world \<Rightarrow> download list \<Rightarrow> download list" where
  "reachable_rows w ds = filter (\<lambda>d. owner w (dl_engine_id d) \<noteq> None) ds"

definition route_order :: "download list \<Rightarrow> string list" where
  "route_order ds = foldl (\<lambda>ids d. add_new (dl_engine_id d) ids) [] ds"

definition absent_owners :: "world \<Rightarrow> download list \<Rightarrow> string list" where
  "absent_owners w ds = foldl (\<lambda>ps d. if owner w (dl_engine_id d) = None
     then add_new (route_prefix (dl_engine_id d)) ps else ps) [] ds"

fun survey_routes ::
  "household_facts \<Rightarrow> download list \<Rightarrow> string list \<Rightarrow> retention_plan \<Rightarrow> world \<Rightarrow> retention_plan \<times> world" where
  "survey_routes h rows [] plan w = (plan, w)"
| "survey_routes h rows (route # routes) plan w =
     (case owner w route of
        None \<Rightarrow> survey_routes h rows routes plan w
      | Some (e, hash) \<Rightarrow>
          (case engine_status e hash w of
             (Inl _, w') \<Rightarrow> survey_routes h rows routes
                (plan\<lparr>rp_uncertain := add_new (route_prefix route) (rp_uncertain plan)\<rparr>) w'
           | (Inr st, w') \<Rightarrow>
               (let mine = filter (\<lambda>d. dl_engine_id d = route) rows;
                    (fav, seen, played) = route_facts h mine in
                survey_routes h rows routes
                  (plan\<lparr>rp_routes := rp_routes plan @ [\<lparr>rr_engine_id = route, rr_hash = hash, rr_rows = mine,
                       rr_status = st, rr_favorite = fav, rr_watched = seen, rr_last_played = played\<rparr>],
                     rp_stored_bytes := i64 (rp_stored_bytes plan + ds_total_bytes st)\<rparr>) w')))"

definition retention_survey :: "world \<Rightarrow> (svc_error + retention_plan) \<times> world" where
  "retention_survey w =
     (case list_downloads w of
        (Inl e, w') \<Rightarrow> (Inl e, w')
      | (Inr managed, w') \<Rightarrow>
          (case retention_household managed w' of
             (Inl e, w') \<Rightarrow> (Inl e, w')
           | (Inr h, w') \<Rightarrow>
               (let rows = reachable_rows w' managed;
                    start = \<lparr>rp_routes = [], rp_stored_bytes = 0, rp_free = Inl [],
                      rp_uncertain = absent_owners w' managed\<rparr>;
                    (plan, w'') = survey_routes h rows (route_order rows) start w' in
                (Inr (plan\<lparr>rp_free := w_free w'' (w_tick w'')\<rparr>), w''))))"

subsection \<open>Eviction\<close>

definition retention_deficit :: "retention_plan \<Rightarrow> settings \<Rightarrow> string option" where
  "retention_deficit plan st =
     (if st_allocation_gb st > 0 \<and> i64 (rp_stored_bytes plan - gigabytes_to_bytes (st_allocation_gb st)) > 0
      then Some ''cap''
      else if st_reserve_gb st > 0 \<and>
          (case rp_free plan of Inl _ \<Rightarrow> False | Inr free \<Rightarrow> gigabytes_to_bytes (st_reserve_gb st) > free)
      then Some ''reserve''
      else None)"

definition evict_next ::
  "retention_plan \<Rightarrow> string \<Rightarrow> settings \<Rightarrow> string list \<Rightarrow> world \<Rightarrow>
   (svc_error + retention_route option) \<times> world" where
  "evict_next plan reason st rules w =
     (let candidates = filter (\<lambda>r. \<not> retention_protected w r st) (rp_routes plan) in
      if candidates = [] then (Inr None, w)
      else (let victim = hd (apply_eviction_rules candidates rules) in
            case remove_torrent (rr_engine_id victim) w of
              (Some e, w') \<Rightarrow> (Inl e, w')
            | (None, w') \<Rightarrow>
                (Inr (Some victim), publish ''downloads.evicted'' (rr_engine_id victim) w')))"


subsection \<open>Enforcing the limits\<close>

definition retention_kind :: string where "retention_kind = ''retention''"

type_synonym retention_result = "job \<times> int \<times> int \<times> world"

definition retention_failed :: "job \<Rightarrow> svc_error \<Rightarrow> int \<Rightarrow> int \<Rightarrow> world \<Rightarrow> retention_result" where
  "retention_failed job e evicted freed w =
     (let (job', w') = fail_or_wait job (svc_failure e) retention_kind w in (job', evicted, freed, w'))"

definition note_progress :: "job \<Rightarrow> world \<Rightarrow> job \<times> world" where
  "note_progress job w =
     (let job' = job\<lparr>job_updated_at := now_of w\<rparr>; (_, w') = save_job job' w in
      (job', publish ''job.updated'' (job_id job') w'))"

fun enforce ::
  "nat \<Rightarrow> settings \<Rightarrow> string list \<Rightarrow> job \<Rightarrow> int \<Rightarrow> int \<Rightarrow> retention_plan \<Rightarrow> world \<Rightarrow> retention_result option" where
  "enforce 0 st rules job evicted freed plan w = None"
| "enforce (Suc n) st rules job evicted freed plan w =
     (case retention_deficit plan st of
        None \<Rightarrow> Some (job, evicted, freed, w)
      | Some reason \<Rightarrow>
          (case evict_next plan reason st rules w of
             (Inl e, w1) \<Rightarrow> Some (retention_failed job e evicted freed w1)
           | (Inr None, w1) \<Rightarrow> Some (job, evicted, freed, job_log_entry job ''warn'' retention_kind w1)
           | (Inr (Some victim), w1) \<Rightarrow>
               (let evicted' = evicted + 1;
                    freed' = i64 (freed + ds_total_bytes (rr_status victim));
                    (job', w2) = note_progress job w1 in
                case retention_survey w2 of
                  (Inl e, w3) \<Rightarrow> Some (retention_failed job' e evicted' freed' w3)
                | (Inr plan', w3) \<Rightarrow> enforce n st rules job' evicted' freed' plan' w3)))"

definition finish_retention :: "retention_result \<Rightarrow> world" where
  "finish_retention r =
     (let (job, evicted, freed, w) = r;
          job = (if job_state job = ''running''
                 then job\<lparr>job_label := job_label job @ (if evicted > 0 then '' evicted'' else '' within limits''),
                        job_state := ''completed'', job_retryable := False, job_next_attempt_at := None,
                        job_progress := 1\<rparr>
                 else job);
          job = job\<lparr>job_updated_at := now_of w\<rparr>;
          (_, w) = save_job job w in
      publish ''job.updated'' (job_id job) w)"

definition run_retention_job :: "job \<Rightarrow> world \<Rightarrow> world option" where
  "run_retention_job job w =
     (let st = w_settings w; rules = normalize_eviction_rules (st_eviction_rules st);
          job = job\<lparr>job_state := ''running'', job_progress := 1 / 20, job_updated_at := now_of w\<rparr>;
          (_, w) = save_job job w;
          w = publish ''job.updated'' (job_id job) w in
      case retention_survey w of
        (Inl e, w) \<Rightarrow> Some (finish_retention (retention_failed job e 0 0 w))
      | (Inr plan, w) \<Rightarrow>
          (let w = (if rp_uncertain plan \<noteq> [] then job_log_entry job ''warn'' retention_kind w else w);
               w = (if st_reserve_gb st > 0 \<and> (case rp_free plan of Inl _ \<Rightarrow> True | Inr _ \<Rightarrow> False)
                    then job_log_entry job ''warn'' retention_kind w else w) in
           map_option finish_retention
             (enforce (length (w_downloads w) + 1) st rules job 0 0 plan w)))"

definition run_retention :: "world \<Rightarrow> ((svc_error + job) \<times> world) option" where
  "run_retention w =
     (case list_jobs 200 w of
        (Inl e, w1) \<Rightarrow> Some (Inl e, w1)
      | (Inr jobs, w1) \<Rightarrow>
          (case active_run retention_kind jobs of
             Some j \<Rightarrow> Some (Inr j, w1)
           | None \<Rightarrow>
               (let job = zero_job\<lparr>job_id := retention_kind, job_kind := retention_kind,
                      job_state := ''queued'', job_label := ''Enforce storage allocation and reserve'',
                      job_dedupe_key := retention_kind, job_attempt := next_attempt retention_kind jobs,
                      job_updated_at := now_of w1\<rparr> in
                case save_job job w1 of
                  (Some e, w2) \<Rightarrow> Some (Inl e, w2)
                | (None, w2) \<Rightarrow>
                    (case run_retention_job job (publish ''job.updated'' retention_kind w2) of
                       None \<Rightarrow> None
                     | Some w3 \<Rightarrow> Some (get_job retention_kind w3)))))"

subsection \<open>Admitting a download\<close>

definition release_reservation :: "int \<Rightarrow> world \<Rightarrow> world" where
  "release_reservation held w = (if held \<noteq> 0 then w\<lparr>w_reserved := i64 (w_reserved w - held)\<rparr> else w)"

definition reserve :: "int \<Rightarrow> world \<Rightarrow> world" where
  "reserve bytes w = w\<lparr>w_reserved := i64 (w_reserved w + bytes)\<rparr>"

definition claimed_plan :: "retention_plan \<Rightarrow> int \<Rightarrow> world \<Rightarrow> retention_plan" where
  "claimed_plan plan incoming w =
     plan\<lparr>rp_stored_bytes := i64 (rp_stored_bytes plan + i64 (incoming + w_reserved w))\<rparr>"

text \<open>A survey for admission: refused when an owner's storage cannot be accounted for.\<close>

definition admission_survey :: "int \<Rightarrow> world \<Rightarrow> (svc_error + retention_plan) \<times> world" where
  "admission_survey incoming w =
     (case retention_survey w of
        (Inl e, w1) \<Rightarrow> (Inl e, w1)
      | (Inr plan, w1) \<Rightarrow>
          if rp_uncertain plan \<noteq> [] then (Inl (Uncertain_Owners (rp_uncertain plan)), w1)
          else (Inr (claimed_plan plan incoming w1), w1))"

fun make_room ::
  "nat \<Rightarrow> settings \<Rightarrow> string list \<Rightarrow> torrent_release \<Rightarrow> int \<Rightarrow> retention_plan \<Rightarrow> world \<Rightarrow>
   ((svc_error + retention_plan) \<times> world) option" where
  "make_room 0 st rules rel incoming plan w = None"
| "make_room (Suc n) st rules rel incoming plan w =
     (case retention_deficit plan st of
        None \<Rightarrow> Some (Inr plan, w)
      | Some reason \<Rightarrow>
          (case evict_next plan reason st rules w of
             (Inl e, w1) \<Rightarrow> Some (Inl e, w1)
           | (Inr None, w1) \<Rightarrow>
               if reason = ''cap''
               then Some (Inl (Allocation_Exhausted \<lparr>ae_release = rel_name rel, ae_required_bytes = incoming,
                 ae_free_bytes = i64 (gigabytes_to_bytes (st_allocation_gb st) - i64 (rp_stored_bytes plan - incoming)),
                 ae_capacity_bytes = gigabytes_to_bytes (st_allocation_gb st)\<rparr>), w1)
               else Some (Inr plan, w1)
           | (Inr (Some victim), w1) \<Rightarrow>
               (case admission_survey incoming w1 of
                  (Inl e, w2) \<Rightarrow> Some (Inl e, w2)
                | (Inr plan', w2) \<Rightarrow> make_room n st rules rel incoming plan' w2)))"

text \<open>
  \<open>ensureAllocationRoom\<close>: the error or success, the bytes the request holds afterwards, the world.
  \<open>answer\<close> is what \<open>torrentManifest\<close> answers for the release.
\<close>

definition ensure_allocation_room ::
  "torrent_release \<Rightarrow> int \<Rightarrow> (meta_error + torrent_manifest) \<Rightarrow> int \<Rightarrow> world \<Rightarrow>
   (svc_error option \<times> int \<times> world) option" where
  "ensure_allocation_room rel incoming answer held w =
     (let w0 = release_reservation held w; st = w_settings w0 in
      if st_allocation_gb st \<le> 0 then Some (None, 0, w0)
      else (let need = (if incoming \<le> 0 then incoming_torrent_bytes answer rel else incoming) in
        case admission_survey need w0 of
          (Inl e, w1) \<Rightarrow> Some (Some e, 0, w1)
        | (Inr plan, w1) \<Rightarrow>
            (case make_room (length (w_downloads w1) + 1) st (normalize_eviction_rules (st_eviction_rules st))
                    rel need plan w1 of
               None \<Rightarrow> None
             | Some (Inl e, w2) \<Rightarrow> Some (Some e, 0, w2)
             | Some (Inr _, w2) \<Rightarrow> Some (None, need, reserve need w2))))"

end
