(* ===== verification/Download_Status.thy ===== *)
theory Download_Status
  imports Retention Stream_Range Release_Name
begin

text \<open>
  The live view of the managed downloads (\<open>service.go\<close>: \<open>Downloads\<close>, \<open>liveDownload\<close>,
  \<open>applyDownloadStatus\<close>, \<open>reconcileDownloadPath\<close>, \<open>enrichDownload\<close>, \<open>dedupeManagedDownloads\<close>) and the
  preparation of a row for streaming (\<open>prepareManagedDownload\<close>, \<open>managedTorrentIndices\<close>).

  \<open>control_env\<close> holds what the operations see of the outside: the working directory, \<open>os.Stat\<close>, what an
  engine does to a torrent when it is told to pause, resume or prepare files, and the encoded digest
  behind \<open>sourceID\<close>.  The mutexes of the code serialise requests for one torrent; an operation is
  modelled as it runs under its mutex.
\<close>

datatype engine_op = Op_Pause | Op_Resume | Op_Prepare_Files "int list" "int list"

record control_env =
  ce_cwd :: "string option"
  ce_stat :: "string \<Rightarrow> local_file"
  ce_effect :: "engine_op \<Rightarrow> torrent \<Rightarrow> torrent"
  ce_sha :: "string \<Rightarrow> string"

datatype control_error = Ctl_Service svc_error | Ctl_Path path_error | Ctl_Meta meta_error
  | Ctl_Parse bn_error | Ctl_Tracker tracker_error | Resume_Failed svc_error | File_Gone | No_Progressive
  | Not_Playable | No_Metadata string | Release_Removed | Release_Removal_Failed svc_error
  | Streamed_File | Not_A_Pack | Empty_Season int | Nil_Engine

type_synonym 'a control = "(control_error + 'a) \<times> world"

definition bindw :: "'a control \<Rightarrow> ('a \<Rightarrow> world \<Rightarrow> 'b control) \<Rightarrow> 'b control" where
  "bindw m f = (case m of (Inl e, w) \<Rightarrow> (Inl e, w) | (Inr x, w) \<Rightarrow> f x w)"

definition lift_svc :: "(svc_error + 'a) \<times> world \<Rightarrow> 'a control" where
  "lift_svc m = (case m of (Inl e, w) \<Rightarrow> (Inl (Ctl_Service e), w) | (Inr x, w) \<Rightarrow> (Inr x, w))"

definition lift_err :: "svc_error option \<times> world \<Rightarrow> unit control" where
  "lift_err m = (case m of (Some e, w) \<Rightarrow> (Inl (Ctl_Service e), w) | (None, w) \<Rightarrow> (Inr (), w))"

definition lift_path :: "path_error + 'a \<Rightarrow> world \<Rightarrow> 'a control" where
  "lift_path r w = (case r of Inl e \<Rightarrow> (Inl (Ctl_Path e), w) | Inr x \<Rightarrow> (Inr x, w))"

subsection \<open>Engine calls on a route\<close>

definition live_engine :: "string \<Rightarrow> world \<Rightarrow> engine" where
  "live_engine route w = (case map_of (es_engines (w_set w)) (route_prefix route) of None \<Rightarrow> [] | Some e \<Rightarrow> e)"

definition route_status :: "string \<Rightarrow> string \<Rightarrow> world \<Rightarrow> (svc_error + download_status) \<times> world" where
  "route_status route hash w = engine_status (live_engine route w) hash w"

definition route_files :: "string \<Rightarrow> string \<Rightarrow> world \<Rightarrow> (svc_error + torrent_file list) \<times> world" where
  "route_files route hash w = (case attempt w of
     (Some m, w') \<Rightarrow> (Inl (Engine_Error m), w')
   | (None, w') \<Rightarrow> (case row_of et_hash hash (live_engine route w') of
        None \<Rightarrow> (Inl Torrent_Not_Found, w') | Some t \<Rightarrow> (Inr (et_files t), w')))"

definition engine_call :: "control_env \<Rightarrow> engine_op \<Rightarrow> string \<Rightarrow> string \<Rightarrow> world \<Rightarrow> svc_error option \<times> world" where
  "engine_call env op route hash w = (case attempt w of
     (Some m, w') \<Rightarrow> (Some (Engine_Error m), w')
   | (None, w') \<Rightarrow> (case row_of et_hash hash (live_engine route w') of
        None \<Rightarrow> (Some Torrent_Not_Found, w')
      | Some t \<Rightarrow> (None, w'\<lparr>w_set := (w_set w')\<lparr>es_engines := upsert fst
          (route_prefix route, upsert et_hash ((ce_effect env op t)\<lparr>et_hash := hash\<rparr>) (live_engine route w'))
          (es_engines (w_set w'))\<rparr>\<rparr>)))"

subsection \<open>Telemetry\<close>

definition tracker_error_of :: "download_status \<Rightarrow> string" where
  "tracker_error_of st =
     (if ds_tracker_error st \<noteq> [] then ds_tracker_error st
      else (case List.find (\<lambda>t. ts_status t = 4 \<and> ts_message t \<noteq> []) (ds_trackers st) of
              None \<Rightarrow> [] | Some t \<Rightarrow> ts_message t))"

text \<open>The product of a size and a progress in 0..1 is computed in a \<open>float64\<close>; the model is exact.\<close>

definition apply_download_status :: "download_status \<Rightarrow> torrent_file option \<Rightarrow> download \<Rightarrow> download" where
  "apply_download_status st selected d =
     (let d = d\<lparr>dl_state := ds_state st, dl_piece_size := ds_piece_size st,
            dl_speed_bytes_per_second := ds_speed_bytes_per_second st,
            dl_upload_speed_bytes_per_second := ds_upload_speed_bytes_per_second st,
            dl_eta_seconds := ds_eta_seconds st, dl_peers := ds_peers st, dl_seeds := ds_seeds st,
            dl_error := tracker_error_of st\<rparr>;
          d = (case selected of
                 None \<Rightarrow> d
               | Some f \<Rightarrow> d\<lparr>dl_size_bytes := (if tf_size_bytes f > 0 then tf_size_bytes f else dl_size_bytes d),
                   dl_file_offset := tf_offset f\<rparr>);
          progress = max 0 (min 1 (case selected of None \<Rightarrow> ds_progress st | Some f \<Rightarrow> tf_progress f)) in
      d\<lparr>dl_progress := progress,
        dl_downloaded_bytes := (if dl_size_bytes d > 0 then trunc_rat (of_int (dl_size_bytes d) * progress)
          else ds_downloaded_bytes st)\<rparr>)"

definition reconcile_download_path :: "control_env \<Rightarrow> settings \<Rightarrow> download_status \<Rightarrow> download \<Rightarrow> download" where
  "reconcile_download_path env cfg st d =
     (if ds_save_path st = [] \<or> dl_file_path d = [] then d
      else (case safe_qb_path (ce_cwd env) (st_download_root cfg) (ds_save_path st) (dl_file_path d) of
              Inl _ \<Rightarrow> d | Inr p \<Rightarrow> d\<lparr>dl_absolute_path := p\<rparr>))"

definition file_at :: "int \<Rightarrow> torrent_file list \<Rightarrow> torrent_file option" where
  "file_at i files = List.find (\<lambda>f. tf_index f = i) files"

definition live_download :: "control_env \<Rightarrow> download \<Rightarrow> world \<Rightarrow> download \<times> world" where
  "live_download env d w = (case owner w (dl_engine_id d) of
     None \<Rightarrow> (d, w)
   | Some (_, hash) \<Rightarrow> (case route_status (dl_engine_id d) hash w of
        (Inl _, w1) \<Rightarrow> (d, w1)
      | (Inr st, w1) \<Rightarrow>
          (let (files, w2) = route_files (dl_engine_id d) hash w1;
               selected = (case files of Inl _ \<Rightarrow> None | Inr fs \<Rightarrow> file_at (dl_file_index d) fs) in
           (reconcile_download_path env (w_settings w2) st (apply_download_status st selected d), w2))))"

text \<open>The newest row of each file of a torrent; the keys are compared with the route in lower case.\<close>

definition dedupe_key :: "download \<Rightarrow> string" where
  "dedupe_key d = (if dl_engine_id d \<noteq> [] then to_lower (dl_engine_id d) @ '':'' @ int_text (dl_file_index d) else dl_id d)"

fun dedupe_rows :: "string list \<Rightarrow> download list \<Rightarrow> download list" where
  "dedupe_rows seen [] = []"
| "dedupe_rows seen (d # ds) =
     (if dedupe_key d \<in> set seen then dedupe_rows seen ds
      else d # dedupe_rows (dedupe_key d # seen) ds)"

definition dedupe_managed_downloads :: "download list \<Rightarrow> download list" where
  "dedupe_managed_downloads items = dedupe_rows [] items"

definition two_digits :: "int \<Rightarrow> string" where
  "two_digits n = (if 0 \<le> n \<and> n < 10 then ''0'' @ int_text n else int_text n)"

definition middle_dot :: string where
  "middle_dot = [CHR '' '', CHR 0xC2, CHR 0xB7, CHR '' '']"

definition get_catalog_metadata :: "string \<Rightarrow> world \<Rightarrow> (svc_error + catalog_metadata) \<times> world" where
  "get_catalog_metadata tid w = (case attempt w of
     (Some e, w') \<Rightarrow> (Inl (Repo_Error e), w')
   | (None, w') \<Rightarrow> (case row_of cm_title_id tid (w_metadata w') of
        None \<Rightarrow> (Inl No_Rows, w') | Some m \<Rightarrow> (Inr m, w')))"

definition get_release :: "string \<Rightarrow> world \<Rightarrow> (svc_error + torrent_release) \<times> world" where
  "get_release i w = (case attempt w of
     (Some e, w') \<Rightarrow> (Inl (Repo_Error e), w')
   | (None, w') \<Rightarrow> (case row_of rel_id i (w_releases w') of
        None \<Rightarrow> (Inl No_Rows, w') | Some r \<Rightarrow> (Inr r, w')))"

definition episode_label :: "parsed_release \<Rightarrow> string" where
  "episode_label p = ''S'' @ two_digits (pr_season_start p) @ ''E'' @ two_digits (pr_episode_start p) @
     (if pr_episode_end p > pr_episode_start p then ''-E'' @ two_digits (pr_episode_end p) else [])"

definition name_download :: "torrent_release \<Rightarrow> string \<Rightarrow> download \<Rightarrow> download" where
  "name_download rel tid d =
     (let parsed = parse_release rel;
          d = d\<lparr>dl_parsed := parsed, dl_title_id := tid, dl_display_title := pr_title parsed\<rparr>;
          file = zero_torrent_file\<lparr>tf_index := dl_file_index d, tf_path := dl_file_path d,
            tf_size_bytes := dl_size_bytes d, tf_playable := True\<rparr>;
          d = (if pr_kind parsed = media_series \<and> dl_file_path d \<noteq> []
               then (case episode_source (zero_catalog_source\<lparr>cs_release := rel, cs_parsed := parsed\<rparr>) file of
                       None \<Rightarrow> d
                     | Some e \<Rightarrow> d\<lparr>dl_parsed := cs_parsed e, dl_display_title := pr_title parsed @ middle_dot @
                         episode_label (cs_parsed e) @
                         (if pr_episode_title (cs_parsed e) \<noteq> [] then middle_dot @ pr_episode_title (cs_parsed e) else [])\<rparr>)
               else d) in
      d\<lparr>dl_release_name := rel_name rel, dl_category := rel_category rel,
        dl_release_size_bytes := rel_size_bytes rel, dl_tracker_seeders := rel_seeders rel\<rparr>)"

definition enrich_download :: "torrent_release \<Rightarrow> string \<Rightarrow> download \<Rightarrow> world \<Rightarrow> download \<times> world" where
  "enrich_download rel tid d w =
     (let d = name_download rel tid d in
      case get_catalog_metadata (dl_title_id d) w of
        (Inl _, w') \<Rightarrow> (d, w')
      | (Inr m, w') \<Rightarrow> (d\<lparr>dl_rating := cm_rating m, dl_rating_votes := cm_rating_votes m,
          dl_rating_provider := cm_rating_provider m\<rparr>, w'))"

text \<open>\<open>UpdateDownloadTelemetry\<close>: nothing happens when the row is gone.\<close>

definition update_download_telemetry :: "download \<Rightarrow> world \<Rightarrow> world" where
  "update_download_telemetry d w = (case attempt w of
     (Some e, w') \<Rightarrow> w'
   | (None, w') \<Rightarrow> (case row_of dl_id (dl_id d) (w_downloads w') of
        None \<Rightarrow> w'
      | Some old \<Rightarrow> w'\<lparr>w_downloads := upsert dl_id (merge_download d old) (w_downloads w')\<rparr>))"

subsection \<open>The list of downloads\<close>

record torrent_snapshot =
  sn_status :: "svc_error + download_status"
  sn_files :: "torrent_file list"

definition take_snapshot :: "string \<Rightarrow> string \<Rightarrow> world \<Rightarrow> torrent_snapshot \<times> world" where
  "take_snapshot route hash w = (case route_status route hash w of
     (Inl e, w1) \<Rightarrow> (\<lparr>sn_status = Inl e, sn_files = []\<rparr>, w1)
   | (Inr st, w1) \<Rightarrow> (case route_files route hash w1 of
        (Inl _, w2) \<Rightarrow> (\<lparr>sn_status = Inr st, sn_files = []\<rparr>, w2)
      | (Inr fs, w2) \<Rightarrow> (\<lparr>sn_status = Inr st, sn_files = fs\<rparr>, w2)))"

definition apply_snapshot :: "control_env \<Rightarrow> settings \<Rightarrow> torrent_snapshot \<Rightarrow> download \<Rightarrow> download" where
  "apply_snapshot env cfg sn d = (case sn_status sn of
     Inl e \<Rightarrow> d\<lparr>dl_error := err_text e, dl_state := ''unavailable''\<rparr>
   | Inr st \<Rightarrow> reconcile_download_path env cfg st
       (apply_download_status st (file_at (dl_file_index d) (sn_files sn)) d))"

fun refresh_downloads ::
  "control_env \<Rightarrow> (string \<times> string) list \<Rightarrow> (string \<times> torrent_snapshot) list \<Rightarrow> download list \<Rightarrow> world \<Rightarrow>
   download list \<times> world" where
  "refresh_downloads env titles snaps [] w = ([], w)"
| "refresh_downloads env titles snaps (d # ds) w =
     (let (d, w) = (case get_release (dl_release_id d) w of
                (Inl _, w1) \<Rightarrow> (d, w1)
              | (Inr rel, w1) \<Rightarrow> enrich_download rel (title_of titles (dl_release_id d)) d w1) in
      case owner w (dl_engine_id d) of
        None \<Rightarrow>
          (let d = d\<lparr>dl_error := err_text (unavailable_err w (dl_engine_id d)), dl_state := ''unavailable''\<rparr>;
               (out, w') = refresh_downloads env titles snaps ds (update_download_telemetry d w) in
           (d # out, w'))
      | Some (_, hash) \<Rightarrow>
          (let key = dl_engine_id d @ ''|'' @ hash;
               (sn, w1) = (case map_of snaps key of
                  Some sn \<Rightarrow> (sn, w) | None \<Rightarrow> take_snapshot (dl_engine_id d) hash w);
               d = apply_snapshot env (w_settings w1) sn d;
               (out, w') = refresh_downloads env titles (upsert fst (key, sn) snaps) ds
                 (update_download_telemetry d w1) in
           (d # out, w')))"

definition downloads_view :: "control_env \<Rightarrow> world \<Rightarrow> (svc_error + download list) \<times> world" where
  "downloads_view env w = (case list_downloads w of
     (Inl e, w1) \<Rightarrow> (Inl e, w1)
   | (Inr items, w1) \<Rightarrow>
       (let items = dedupe_managed_downloads items in
        case title_ids_for (filter (\<lambda>i. i \<noteq> []) (map dl_release_id items)) w1 of
          (Inl e, w2) \<Rightarrow> (Inl e, w2)
        | (Inr titles, w2) \<Rightarrow> (let (out, w3) = refresh_downloads env titles [] items w2 in (Inr out, w3))))"

subsection \<open>Preparing a row for streaming\<close>

definition is_subtitle_file :: "string \<Rightarrow> bool" where
  "is_subtitle_file p = (to_lower (file_ext p) \<in> set [''.srt'', ''.ass'', ''.ssa'', ''.vtt''])"

definition managed_torrent_indices ::
  "string \<Rightarrow> torrent_file list \<Rightarrow> int list \<Rightarrow> world \<Rightarrow> int list \<times> world" where
  "managed_torrent_indices route files extra w =
     (let available = map tf_index (filter tf_playable files);
          (rows, w') = list_downloads w;
          held = (case rows of Inl _ \<Rightarrow> [] | Inr ds \<Rightarrow> map dl_file_index (filter (\<lambda>d. dl_engine_id d = route) ds)) in
      (sort (remdups (filter (\<lambda>i. i \<in> set available) (extra @ held))), w'))"

definition resume_if_paused :: "control_env \<Rightarrow> string \<Rightarrow> string \<Rightarrow> download_status \<Rightarrow> world \<Rightarrow> unit control" where
  "resume_if_paused env route hash st w =
     (if is_paused (ds_state st)
      then (case engine_call env Op_Resume route hash w of
              (Some e, w') \<Rightarrow> (Inl (Resume_Failed e), w') | (None, w') \<Rightarrow> (Inr (), w'))
      else (Inr (), w))"

definition save_live_row :: "torrent_file \<Rightarrow> download_status \<Rightarrow> download \<Rightarrow> world \<Rightarrow> download control" where
  "save_live_row selected st d w =
     (if \<not> ds_sequential st \<or> \<not> ds_first_last_priority st then (Inl No_Progressive, w)
      else (let d = (apply_download_status st (Some selected) d)\<lparr>dl_updated_at := now_of w\<rparr> in
            bindw (lift_err (save_download d w)) (\<lambda>_ w'. (Inr d, w'))))"

definition prepare_managed_download :: "control_env \<Rightarrow> download \<Rightarrow> world \<Rightarrow> download control" where
  "prepare_managed_download env d w =
     (if completed_local_file (ce_stat env) d then (Inr d, w)
      else (case owner w (dl_engine_id d) of
         None \<Rightarrow> (Inl (Ctl_Service (unavailable_err w (dl_engine_id d))), w)
       | Some (_, hash) \<Rightarrow>
           (let route = dl_engine_id d in
            (case route_status route hash w of
               (Inl e, w1) \<Rightarrow>
                 if completed_local_file (ce_stat env) d then (Inr d, w1) else (Inl (Ctl_Service e), w1)
             | (Inr st, w1) \<Rightarrow>
            bindw (resume_if_paused env route hash st w1) (\<lambda>_ w2.
            bindw (lift_svc (route_files route hash w2)) (\<lambda>files w3.
            (case List.find (\<lambda>f. tf_index f = dl_file_index d) (rev files) of
               None \<Rightarrow> (Inl File_Gone, w3)
             | Some selected \<Rightarrow>
                 (let (indices, w4) = managed_torrent_indices route files [dl_file_index d] w3;
                      subs = map tf_index (filter (\<lambda>f. is_subtitle_file (tf_path f)) files) in
                  bindw (lift_err (engine_call env (Op_Prepare_Files indices subs) route hash w4)) (\<lambda>_ w5.
                  bindw (lift_svc (route_status route hash w5)) (\<lambda>st w6.
                  save_live_row selected st d w6))))))))))"

end
