(* ===== verification/Download_Prepare.thy ===== *)
theory Download_Prepare
  imports Download_Status
begin

text \<open>
  Preparing a release for playback (\<open>service.go\<close>: \<open>Prepare\<close>, \<open>prepareExistingTorrentFile\<close>,
  \<open>PrepareSeason\<close>, \<open>removeDeadRelease\<close>): reuse of a managed row or torrent, admission, the metainfo,
  handing the torrent to the default engine and the rows that follow.

  \<open>add_env\<close> holds the outside of one request: what trackers and engine answer when the metainfo is
  looked up, the torrent the engine makes of it, the answers to the \<open>Files\<close> calls until the
  deadline, and which acquisition errors are \<open>ErrTorrentRemoved\<close>.  An allocation reservation is the number of bytes it holds; 0 is the zero value.
\<close>

record add_env =
  ae_sources :: source_env
  ae_torrent :: "string \<Rightarrow> torrent"
  ae_polls :: "(string + torrent_file list) list"
  ae_removed :: "string \<Rightarrow> bool"

definition find_download :: "string \<Rightarrow> int \<Rightarrow> world \<Rightarrow> (svc_error + download) \<times> world" where
  "find_download rid i w = (case attempt w of
     (Some e, w') \<Rightarrow> (Inl (Repo_Error e), w')
   | (None, w') \<Rightarrow>
       (case sort_by (\<lambda>a b. (dl_progress a \<ge> 1 \<and> \<not> dl_progress b \<ge> 1) \<or>
                ((dl_progress a \<ge> 1) = (dl_progress b \<ge> 1) \<and> dl_updated_at a > dl_updated_at b))
              (filter (\<lambda>d. dl_release_id d = rid \<and> (i < 0 \<or> dl_file_index d = i)) (w_downloads w')) of
          [] \<Rightarrow> (Inl No_Rows, w') | d # _ \<Rightarrow> (Inr d, w')))"

definition projected_title_id :: "string \<Rightarrow> world \<Rightarrow> (svc_error + string) \<times> world" where
  "projected_title_id rid w = (case title_ids_for [rid] w of
     (Inl e, w') \<Rightarrow> (Inl e, w') | (Inr titles, w') \<Rightarrow> (Inr (title_of titles rid), w'))"

text \<open>The manifest table with the faults of the next two calls.\<close>

definition store_of :: "world \<Rightarrow> manifest_store" where
  "store_of w = \<lparr>mst_rows = w_manifests w, mst_get_fault = w_fault w (w_tick w),
     mst_save_fault = w_fault w (w_tick w + 1)\<rparr>"

definition with_store :: "manifest_store \<times> 'a \<Rightarrow> world \<Rightarrow> 'a \<times> world" where
  "with_store r w = (snd r, w\<lparr>w_manifests := mst_rows (fst r), w_tick := w_tick w + 2\<rparr>)"

definition manifest_for :: "add_env \<Rightarrow> torrent_release \<Rightarrow> world \<Rightarrow> (meta_error + torrent_manifest) \<times> world" where
  "manifest_for env rel w = with_store (torrent_manifest_of (ae_sources env) (store_of w) rel (now_of w)) w"

definition metainfo_for :: "add_env \<Rightarrow> torrent_release \<Rightarrow> world \<Rightarrow> (meta_error + string) \<times> world" where
  "metainfo_for env rel w = (release_metainfo (ae_sources env) (store_of w) rel, w\<lparr>w_tick := w_tick w + 1\<rparr>)"

definition keep_manifest :: "torrent_manifest \<Rightarrow> world \<Rightarrow> world" where
  "keep_manifest m w = (let (st, _) = save_torrent_manifest
       ((store_of w)\<lparr>mst_save_fault := w_fault w (w_tick w)\<rparr>) m (now_of w) in
     w\<lparr>w_manifests := mst_rows st, w_tick := w_tick w + 1\<rparr>)"

definition admit ::
  "add_env \<Rightarrow> torrent_release \<Rightarrow> int \<Rightarrow> int \<Rightarrow> world \<Rightarrow> (int control) option" where
  "admit env rel incoming held w =
     (let (answer, w1) = (if st_allocation_gb (w_settings w) > 0 \<and> incoming \<le> 0
            then manifest_for env rel w else (Inl (Meta_Row []), w)) in
      map_option (\<lambda>(e, claim, w2). (case e of None \<Rightarrow> Inr claim | Some e \<Rightarrow> Inl (Ctl_Service e), w2))
        (ensure_allocation_room rel incoming answer held w1))"

subsection \<open>Rows\<close>

fun pick_file :: "int \<Rightarrow> torrent_file list \<Rightarrow> torrent_file option \<Rightarrow> torrent_file option" where
  "pick_file i [] selected = selected"
| "pick_file i (f # fs) selected =
     (let selected = (if tf_index f = i then Some f else selected);
          selected = (if i < 0 \<and> tf_playable f \<and>
              (case selected of None \<Rightarrow> True | Some s \<Rightarrow> tf_size_bytes f > tf_size_bytes s)
            then Some f else selected) in
      pick_file i fs selected)"

definition source_id :: "control_env \<Rightarrow> string \<Rightarrow> string \<Rightarrow> string" where
  "source_id env rid path = ce_sha env (rid @ [CHR 0x00] @ path)"

definition new_row ::
  "control_env \<Rightarrow> torrent_release \<Rightarrow> string \<Rightarrow> torrent_file \<Rightarrow> string \<Rightarrow> go_time \<Rightarrow> download" where
  "new_row env rel route f apath now = zero_download\<lparr>dl_id := source_id env (rel_id rel) (tf_path f),
     dl_release_id := rel_id rel, dl_engine_id := route, dl_file_index := tf_index f, dl_file_path := tf_path f,
     dl_absolute_path := apath, dl_size_bytes := tf_size_bytes f, dl_file_offset := tf_offset f,
     dl_tracker_id := rel_tracker_id rel, dl_tracker_name := rel_tracker_name rel,
     dl_created_at := now, dl_updated_at := now\<rparr>"

definition keep_created :: "download \<Rightarrow> world \<Rightarrow> download \<times> world" where
  "keep_created d w = (case get_download (dl_id d) w of
     (Inl _, w') \<Rightarrow> (d, w') | (Inr old, w') \<Rightarrow> (d\<lparr>dl_created_at := dl_created_at old\<rparr>, w'))"

definition store_file_row ::
  "control_env \<Rightarrow> torrent_release \<Rightarrow> string \<Rightarrow> torrent_file \<Rightarrow> download_status \<Rightarrow> world \<Rightarrow> download control" where
  "store_file_row env rel route f st w =
     bindw (lift_path (safe_qb_path (ce_cwd env) (st_download_root (w_settings w)) (ds_save_path st) (tf_path f)) w)
       (\<lambda>apath w1. let (d, w2) = keep_created
            (apply_download_status st (Some f) (new_row env rel route f apath (now_of w1))) w1 in
          bindw (lift_err (save_download d w2)) (\<lambda>_ w3. (Inr d, w3)))"

definition name_row :: "torrent_release \<Rightarrow> download \<Rightarrow> world \<Rightarrow> download control" where
  "name_row rel d w = bindw (lift_svc (projected_title_id (rel_id rel) w))
     (\<lambda>tid w1. let (d, w2) = enrich_download rel tid d w1 in (Inr d, w2))"

subsection \<open>Reusing a torrent\<close>

text \<open>The first managed row of the release whose owner is present, and the first one whose owner is not.\<close>

fun first_owned :: "string \<Rightarrow> download list \<Rightarrow> string \<Rightarrow> world \<Rightarrow> (download \<times> string) option \<times> string" where
  "first_owned rid [] absent w = (None, absent)"
| "first_owned rid (d # ds) absent w =
     (if dl_release_id d \<noteq> rid then first_owned rid ds absent w
      else (case owner w (dl_engine_id d) of
              None \<Rightarrow> first_owned rid ds (if absent = [] then dl_engine_id d else absent) w
            | Some (_, hash) \<Rightarrow> (Some (d, hash), absent)))"

definition prepare_existing_torrent_file ::
  "control_env \<Rightarrow> torrent_release \<Rightarrow> int \<Rightarrow> world \<Rightarrow> download control" where
  "prepare_existing_torrent_file env rel i w =
     bindw (lift_svc (list_downloads w)) (\<lambda>rows w1.
     (case first_owned (rel_id rel) rows [] w1 of
        (None, absent) \<Rightarrow>
          (Inl (Ctl_Service (if absent \<noteq> [] then unavailable_err w1 absent else No_Rows)), w1)
      | (Some (d, hash), _) \<Rightarrow>
          bindw (lift_svc (route_files (dl_engine_id d) hash w1)) (\<lambda>files w2.
          (case pick_file i files None of
             None \<Rightarrow> (Inl Not_Playable, w2)
           | Some f \<Rightarrow>
               if \<not> tf_playable f then (Inl Not_Playable, w2)
               else bindw (lift_svc (route_status (dl_engine_id d) hash w2)) (\<lambda>st w3.
                    bindw (store_file_row env rel (dl_engine_id d) f st w3) (\<lambda>row w4.
                    bindw (name_row rel row w4) (\<lambda>row w5.
                    prepare_managed_download env row w5)))))))"

subsection \<open>Adding a torrent\<close>

definition remove_release :: "string \<Rightarrow> world \<Rightarrow> svc_error option \<times> world" where
  "remove_release i w = (case attempt w of
     (Some e, w') \<Rightarrow> (Some (Repo_Error e), w')
   | (None, w') \<Rightarrow>
       if row_of rel_id i (w_releases w') = None then (Some No_Rows, w')
       else (None, w'\<lparr>w_releases := delete_row rel_id i (w_releases w'),
                w_titles := filter (\<lambda>p. fst p \<noteq> i) (w_titles w')\<rparr>))"

definition remove_dead_release :: "torrent_release \<Rightarrow> world \<Rightarrow> control_error \<times> world" where
  "remove_dead_release rel w = (case remove_release (rel_id rel) w of
     (Some e, w') \<Rightarrow> (Release_Removal_Failed e, job_log_entry zero_job ''error'' ''prepare'' w')
   | (None, w') \<Rightarrow> (Release_Removed, publish ''release_removed'' (rel_id rel) w'))"

definition engine_add :: "torrent \<Rightarrow> world \<Rightarrow> string control" where
  "engine_add t w = (if default_engine (w_set w) = None then (Inl Nil_Engine, w)
     else (case attempt w of
       (Some m, w') \<Rightarrow> (Inl (Ctl_Service (Engine_Error m)), w')
     | (None, w') \<Rightarrow>
         (let prefix = es_default (w_set w');
              e = (case map_of (es_engines (w_set w')) prefix of None \<Rightarrow> [] | Some e \<Rightarrow> e);
              e' = (if row_of et_hash (et_hash t) e = None then e @ [t] else e) in
          (Inr (et_hash t), w'\<lparr>w_set := (w_set w')\<lparr>es_engines := upsert fst (prefix, e') (es_engines (w_set w'))\<rparr>\<rparr>))))"

fun await_files :: "string \<Rightarrow> (string + torrent_file list) list \<Rightarrow> control_error + torrent_file list" where
  "await_files prefix [] = Inl (No_Metadata (engine_identity prefix))"
| "await_files prefix (Inl e # polls) = await_files prefix polls"
| "await_files prefix (Inr fs # polls) = (if fs \<noteq> [] then Inr fs else await_files prefix polls)"

definition place_torrent ::
  "control_env \<Rightarrow> add_env \<Rightarrow> torrent_release \<Rightarrow> int \<Rightarrow> string \<Rightarrow> world \<Rightarrow> download control" where
  "place_torrent env add rel i data w =
     bindw (engine_add (ae_torrent add data) w) (\<lambda>hash w1.
     (case await_files (es_default (w_set w1)) (ae_polls add) of
        Inl e \<Rightarrow> (Inl e, w1)
      | Inr files \<Rightarrow>
          (case pick_file i files None of
             None \<Rightarrow> (Inl Not_Playable, w1)
           | Some f \<Rightarrow>
               if \<not> tf_playable f then (Inl Not_Playable, w1)
               else (let route = es_default (w_set w1) @ hash;
                         subs = map tf_index (filter (\<lambda>f. is_subtitle_file (tf_path f)) files);
                         (indices, w2) = managed_torrent_indices route files [tf_index f] w1 in
                     bindw (lift_err (engine_call env (Op_Prepare_Files indices subs) route hash w2)) (\<lambda>_ w3.
                     bindw (lift_svc (route_status route hash w3)) (\<lambda>st w4.
                     bindw (store_file_row env rel route f st w4) (\<lambda>row w5.
                     name_row rel row w5)))))))"

text \<open>What a failed lookup of the metainfo leaves: a release that the tracker removed is dropped.\<close>

definition metainfo_failed :: "add_env \<Rightarrow> torrent_release \<Rightarrow> meta_error \<Rightarrow> world \<Rightarrow> control_error \<times> world" where
  "metainfo_failed add rel e w = (case e of
     Meta_Acquire m \<Rightarrow> if ae_removed add m then remove_dead_release rel w else (Ctl_Meta e, w)
   | _ \<Rightarrow> (Ctl_Meta e, w))"

text \<open>
  Admission, metainfo and the second admission for the parsed size; \<open>k\<close> goes on with the metainfo.  The
  deferred \<open>release\<close> runs on every way out.
\<close>

definition with_admission ::
  "add_env \<Rightarrow> torrent_release \<Rightarrow> (string \<Rightarrow> world \<Rightarrow> 'a control) \<Rightarrow> world \<Rightarrow> 'a control option" where
  "with_admission add rel k w =
     (case admit add rel 0 0 w of
        None \<Rightarrow> None
      | Some (Inl e, w1) \<Rightarrow> Some (Inl e, w1)
      | Some (Inr claim, w1) \<Rightarrow>
          (case metainfo_for add rel w1 of
             (Inl e, w2) \<Rightarrow> (let (err, w3) = metainfo_failed add rel e w2 in Some (Inl err, release_reservation claim w3))
           | (Inr data, w2) \<Rightarrow>
               (case parse_torrent_manifest (rel_id rel) data (now_of w2) of
                  Inl e \<Rightarrow> Some (Inl (Ctl_Parse e), release_reservation claim w2)
                | Inr m \<Rightarrow>
                    (let w3 = keep_manifest (m\<lparr>man_metainfo := data\<rparr>) w2;
                         incoming = (if manifest_total m > 0 then manifest_total m else rel_size_bytes rel) in
                     case (if incoming > rel_size_bytes rel then admit add rel incoming claim w3
                           else Some (Inr claim, w3)) of
                       None \<Rightarrow> None
                     | Some (Inl e, w4) \<Rightarrow> Some (Inl e, w4)
                     | Some (Inr claim, w4) \<Rightarrow>
                         (let (r, w5) = k data w4 in Some (r, release_reservation claim w5))))))"

definition prepare_new ::
  "control_env \<Rightarrow> add_env \<Rightarrow> torrent_release \<Rightarrow> int \<Rightarrow> world \<Rightarrow> download control option" where
  "prepare_new env add rel i w = (case require_eligible (w_registry w) (w_settings w) (rel_tracker_id rel) of
     Inl e \<Rightarrow> Some (Inl (Ctl_Tracker e), w)
   | Inr _ \<Rightarrow> with_admission add rel (place_torrent env add rel i) w)"

definition prepare :: "control_env \<Rightarrow> add_env \<Rightarrow> string \<Rightarrow> int \<Rightarrow> world \<Rightarrow> download control option" where
  "prepare env add rid i w = (case get_release rid w of
     (Inl e, w1) \<Rightarrow> Some (Inl (Ctl_Service e), w1)
   | (Inr rel, w1) \<Rightarrow> (case find_download rid i w1 of
        (Inr row, w2) \<Rightarrow> Some (bindw (name_row rel row w2) (prepare_managed_download env))
      | (Inl No_Rows, w2) \<Rightarrow> (case prepare_existing_torrent_file env rel i w2 of
           (Inr d, w3) \<Rightarrow> Some (Inr d, w3)
         | (Inl (Ctl_Service No_Rows), w3) \<Rightarrow> prepare_new env add rel i w3
         | (Inl e, w3) \<Rightarrow> Some (Inl e, w3))
      | (Inl e, w2) \<Rightarrow> Some (Inl (Ctl_Service e), w2)))"

subsection \<open>A season of a pack\<close>

definition season_files :: "torrent_release \<Rightarrow> int \<Rightarrow> torrent_file list \<Rightarrow> torrent_file list" where
  "season_files rel season files =
     (let parsed = parse_release rel;
          base = zero_catalog_source\<lparr>cs_release := rel, cs_parsed := parsed\<rparr>;
          playable = filter tf_playable files;
          numbered = filter (\<lambda>f. case episode_source base f of
            None \<Rightarrow> False | Some e \<Rightarrow> pr_season_start (cs_parsed e) = season) playable in
      if numbered = [] \<and> (pr_season_start parsed = 0 \<or>
           (pr_season_start parsed \<le> season \<and> season \<le> max (pr_season_start parsed) (pr_season_end parsed)))
      then playable else numbered)"

fun store_season_rows ::
  "control_env \<Rightarrow> torrent_release \<Rightarrow> string \<Rightarrow> string \<Rightarrow> download_status \<Rightarrow> go_time \<Rightarrow> torrent_file list \<Rightarrow> world \<Rightarrow>
   download list control" where
  "store_season_rows env rel route tid st now [] w = (Inr [], w)"
| "store_season_rows env rel route tid st now (f # fs) w =
     bindw (lift_path (safe_qb_path (ce_cwd env) (st_download_root (w_settings w)) (ds_save_path st) (tf_path f)) w)
       (\<lambda>p w1. let (d, w2) = keep_created (apply_download_status st (Some f) (new_row env rel route f p now)) w1 in
        bindw (lift_err (save_download d w2)) (\<lambda>_ w3.
        (let (d, w4) = enrich_download rel tid d w3 in
         bindw (store_season_rows env rel route tid st now fs w4) (\<lambda>ds w5. (Inr (d # ds), w5)))))"

definition store_season ::
  "control_env \<Rightarrow> add_env \<Rightarrow> torrent_release \<Rightarrow> int \<Rightarrow> string \<Rightarrow> string \<Rightarrow> world \<Rightarrow> download list control" where
  "store_season env add rel season route hash w =
     (case await_files (trim_suffix route hash) (ae_polls add) of
        Inl e \<Rightarrow> (Inl e, w)
      | Inr files \<Rightarrow>
          (let selected = season_files rel season files;
               subs = map tf_index (filter (\<lambda>f. is_subtitle_file (tf_path f)) files) in
           if selected = [] then (Inl (Empty_Season season), w)
           else (let (indices, w1) = managed_torrent_indices route files (map tf_index selected) w in
             bindw (lift_err (engine_call env (Op_Prepare_Files indices subs) route hash w1)) (\<lambda>_ w2.
             bindw (lift_svc (route_status route hash w2)) (\<lambda>st w3.
             (let now = now_of w3;
                  w4 = keep_manifest \<lparr>man_release_id = rel_id rel, man_files = files, man_metainfo = [],
                         man_fetched_at = now\<rparr> w3 in
              bindw (lift_svc (projected_title_id (rel_id rel) w4)) (\<lambda>tid w5.
              store_season_rows env rel route tid st now selected w5)))))))"

definition season_number :: "torrent_release \<Rightarrow> int \<Rightarrow> int" where
  "season_number rel season =
     (let s = (if season \<le> 0 then pr_season_start (parse_release rel) else season) in if s \<le> 0 then 1 else s)"

definition season_new ::
  "control_env \<Rightarrow> add_env \<Rightarrow> torrent_release \<Rightarrow> int \<Rightarrow> string \<Rightarrow> world \<Rightarrow> download list control option" where
  "season_new env add rel n absent w =
     (if absent \<noteq> [] then Some (Inl (Ctl_Service (unavailable_err w absent)), w)
      else (case require_eligible (w_registry w) (w_settings w) (rel_tracker_id rel) of
              Inl e \<Rightarrow> Some (Inl (Ctl_Tracker e), w)
            | Inr _ \<Rightarrow> with_admission add rel (\<lambda>data w. bindw (engine_add (ae_torrent add data) w)
                (\<lambda>hash w'. store_season env add rel n (es_default (w_set w') @ hash) hash w')) w))"

definition prepare_season ::
  "control_env \<Rightarrow> add_env \<Rightarrow> string \<Rightarrow> int \<Rightarrow> world \<Rightarrow> download list control option" where
  "prepare_season env add rid season w = (case get_release rid w of
     (Inl e, w1) \<Rightarrow> Some (Inl (Ctl_Service e), w1)
   | (Inr rel, w1) \<Rightarrow>
       if pr_kind (parse_release rel) \<noteq> media_series \<or> rel_file_count rel \<le> 1 then Some (Inl Not_A_Pack, w1)
       else (let n = season_number rel season; (rows, w2) = list_downloads w1;
                 (owned, absent) = first_owned rid (case rows of Inl _ \<Rightarrow> [] | Inr ds \<Rightarrow> ds) [] w2 in
         case owned of
           Some (d, hash) \<Rightarrow>
             if hash \<noteq> [] then Some (store_season env add rel n (dl_engine_id d) hash w2)
             else season_new env add rel n absent w2
         | None \<Rightarrow> season_new env add rel n absent w2))"

end
