(* ===== verification/Download_Manage.thy ===== *)
theory Download_Manage
  imports Download_Prepare
begin

text \<open>
  \<open>Manage\<close> of \<open>service.go\<close>: pause, resume, retry and the two removals of a managed download.
\<close>

fun mark_rows :: "string \<Rightarrow> string \<Rightarrow> download list \<Rightarrow> world \<Rightarrow> control_error option \<times> world" where
  "mark_rows route action [] w = (None, w)"
| "mark_rows route action (d # ds) w =
     (if dl_engine_id d \<noteq> route then mark_rows route action ds w
      else (case save_download (d\<lparr>dl_state := action, dl_updated_at := now_of w\<rparr>) w of
              (Some e, w') \<Rightarrow> (Some (Ctl_Service e), w')
            | (None, w') \<Rightarrow> mark_rows route action ds w'))"

definition mark_managed :: "string \<Rightarrow> string \<Rightarrow> world \<Rightarrow> control_error option \<times> world" where
  "mark_managed route action w = (case list_downloads w of
     (Inl e, w') \<Rightarrow> (Some (Ctl_Service e), w')
   | (Inr rows, w') \<Rightarrow> mark_rows route action rows w')"

definition svc_result :: "svc_error option \<times> world \<Rightarrow> control_error option \<times> world" where
  "svc_result r = (map_option Ctl_Service (fst r), snd r)"

definition remove_managed :: "string \<Rightarrow> world \<Rightarrow> control_error option \<times> world" where
  "remove_managed route w = (case list_downloads w of
     (Inl e, w') \<Rightarrow> (Some (Ctl_Service e), w')
   | (Inr rows, w') \<Rightarrow>
       if list_ex (\<lambda>x. dl_engine_id x = route \<and> world_row_leased w' x) rows
       then (Some (Ctl_Service Streamed_Download), w')
       else svc_result (remove_torrent route w'))"

definition remove_managed_file :: "download \<Rightarrow> world \<Rightarrow> control_error option \<times> world" where
  "remove_managed_file d w =
     (if world_row_leased w d then (Some Streamed_File, w)
      else (case delete_download (dl_id d) w of
              (Some e, w1) \<Rightarrow> (Some (Ctl_Service e), w1)
            | (None, w1) \<Rightarrow> (case list_downloads w1 of
                 (Inl e, w2) \<Rightarrow> (Some (Ctl_Service e), w2)
               | (Inr rows, w2) \<Rightarrow>
                   if list_ex (\<lambda>x. dl_engine_id x = dl_engine_id d) rows then (None, w2)
                   else svc_result (remove_torrent (dl_engine_id d) w2))))"

text \<open>\<open>retry\<close> of a torrent that the engine no longer knows: its rows are forgotten and it is prepared anew.\<close>

definition prepare_again ::
  "control_env \<Rightarrow> add_env \<Rightarrow> download \<Rightarrow> world \<Rightarrow> (control_error option \<times> world) option" where
  "prepare_again env add d w = (case forget_engine_rows (dl_engine_id d) w of
     (Some e, w1) \<Rightarrow> Some (Some (Ctl_Service e), w1)
   | (None, w1) \<Rightarrow> map_option (\<lambda>(r, w2). (case r of Inl e \<Rightarrow> Some e | Inr _ \<Rightarrow> None, w2))
        (prepare env add (dl_release_id d) (dl_file_index d) w1))"

definition manage ::
  "control_env \<Rightarrow> add_env \<Rightarrow> string \<Rightarrow> string \<Rightarrow> world \<Rightarrow> (control_error option \<times> world) option" where
  "manage env add i action w = (case get_download i w of
     (Inl e, w1) \<Rightarrow> Some (Some (Ctl_Service e), w1)
   | (Inr d, w1) \<Rightarrow> (case owner w1 (dl_engine_id d) of
        None \<Rightarrow> Some (Some (Ctl_Service (unavailable_err w1 (dl_engine_id d))), w1)
      | Some (_, hash) \<Rightarrow>
          (let route = dl_engine_id d in
           if action = ''pause'' then
             (case engine_call env Op_Pause route hash w1 of
                (Some e, w2) \<Rightarrow> Some (Some (Ctl_Service e), w2)
              | (None, w2) \<Rightarrow> Some (mark_managed route action w2))
           else if action = ''resume'' \<or> action = ''retry'' then
             (case engine_call env Op_Resume route hash w1 of
                (Some e, w2) \<Rightarrow>
                  if action = ''retry'' \<and> e = Torrent_Not_Found then prepare_again env add d w2
                  else Some (Some (Ctl_Service e), w2)
              | (None, w2) \<Rightarrow> Some (mark_managed route action w2))
           else if action = ''remove'' then Some (remove_managed route w1)
           else if action = ''remove-file'' then Some (remove_managed_file d w1)
           else Some (Some (Ctl_Service Unknown_Action), w1))))"

end
