(* ===== verification/Retention_Facts.thy ===== *)
theory Retention_Facts
  imports Retention
begin

text \<open>
  What retention guarantees: the eviction order is a strict weak order and the victim is least in it,
  a survey describes the rows of the world it was taken in, every eviction shrinks the table, so the
  loops end; the rows the settings protect survive a run; an admitted download fits the Allocation.
\<close>

subsection \<open>The order is a strict weak order\<close>

text \<open>Every rule ranks the routes by a number, so the composed order is lexicographic.\<close>

definition rule_key :: "string \<Rightarrow> retention_route \<Rightarrow> int" where
  "rule_key rule a =
     (if rule = ''newest-completed'' then - completed_at a
      else if rule = ''least-recently-played'' then last_activity a
      else if rule = ''most-recently-played'' then - last_activity a
      else if rule = ''watched-first'' then (if rr_watched a then 0 else 1)
      else if rule = ''never-watched-first'' then (if rr_watched a then 1 else 0)
      else if rule = ''largest'' then - ds_total_bytes (rr_status a)
      else if rule = ''smallest'' then ds_total_bytes (rr_status a)
      else completed_at a)"

lemma compare_rule_key: "compare_eviction_rule rule a b = compare_int (rule_key rule a) (rule_key rule b)"
  by (simp add: compare_eviction_rule_def rule_key_def compare_int_def bool_first_def)

lemma compare_int_neg: "compare_int a b \<noteq> 0 \<longleftrightarrow> a \<noteq> b" "compare_int a b < 0 \<longleftrightarrow> a < b"
  by (simp_all add: compare_int_def)

lemma eviction_less_Cons:
  "eviction_less (rule # rules) a b \<longleftrightarrow>
   rule_key rule a < rule_key rule b \<or> rule_key rule a = rule_key rule b \<and> eviction_less rules a b"
  by (auto simp: compare_rule_key compare_int_neg Let_def)

lemma eviction_less_Nil:
  "eviction_less [] a b \<longleftrightarrow>
   completed_at a < completed_at b \<or> completed_at a = completed_at b \<and> str_less (rr_engine_id a) (rr_engine_id b)"
  by (auto simp: compare_int_neg Let_def)

lemma eviction_less_asym: "eviction_less rules a b \<Longrightarrow> \<not> eviction_less rules b a"
proof (induction rules)
  case Nil
  then show ?case unfolding eviction_less_Nil using str_less_asym by auto
next
  case (Cons r rules)
  then show ?case unfolding eviction_less_Cons by auto
qed

lemma eviction_less_negtrans:
  "\<not> eviction_less rules a b \<Longrightarrow> \<not> eviction_less rules b c \<Longrightarrow> \<not> eviction_less rules a c"
proof (induction rules)
  case Nil
  then show ?case unfolding eviction_less_Nil using str_less_negtrans by (auto simp: not_less)
next
  case (Cons r rules)
  then show ?case unfolding eviction_less_Cons by (auto simp: not_less)
qed

interpretation evictions: strict_weak "eviction_less rules" for rules
  by unfold_locales (use eviction_less_asym eviction_less_negtrans in blast)+

subsection \<open>Plans and the rows they were surveyed from\<close>

definition route_fits :: "world \<Rightarrow> retention_route \<Rightarrow> bool" where
  "route_fits w r = (rr_rows r \<noteq> [] \<and>
     set (rr_rows r) = {d \<in> set (w_downloads w). dl_engine_id d = rr_engine_id r})"

definition plan_fits :: "world \<Rightarrow> retention_plan \<Rightarrow> bool" where
  "plan_fits w plan = list_all (route_fits w) (rp_routes plan)"

lemma route_order_set: "set (route_order ds) = dl_engine_id ` set ds"
proof -
  have "set (foldl (\<lambda>ids d. add_new (dl_engine_id d) ids) acc ds) = set acc \<union> dl_engine_id ` set ds" for acc
    by (induction ds arbitrary: acc) (auto simp: add_new_def)
  then show ?thesis by (simp add: route_order_def)
qed

lemma survey_routes_looked: "survey_routes h rows routes plan w = (plan', w') \<Longrightarrow> looked w w'"
proof (induction h rows routes plan w arbitrary: plan' w' rule: survey_routes.induct)
  case (2 h rows route routes plan w)
  show ?case
  proof (cases "owner w route")
    case (Some p)
    obtain e hash where p: "p = (e, hash)" by force
    obtain x w1 where x: "engine_status e hash w = (x, w1)" by force
    have l: "looked w w1" using engine_status_looked[OF x] .
    show ?thesis
    proof (cases x)
      case (Inl err)
      then have "looked w1 w'" using "2.IH"(2)[OF Some p[symmetric] x[symmetric] Inl] "2.prems" Some p x Inl by simp
      then show ?thesis by (rule looked_trans[OF l])
    next
      case (Inr st)
      obtain a b c where f: "route_facts h (filter (\<lambda>d. dl_engine_id d = route) rows) = (a, b, c)" by (metis prod_cases3)
      then have "looked w1 w'" using "2.IH"(3)[OF Some p[symmetric] x[symmetric] Inr refl refl f[symmetric] refl] "2.prems" Some p x Inr f by (simp add: Let_def)
      then show ?thesis by (rule looked_trans[OF l])
    qed
  qed (use 2 in auto)
qed simp

definition rows_fit :: "download list \<Rightarrow> retention_route \<Rightarrow> bool" where
  "rows_fit rows r = (rr_rows r \<noteq> [] \<and> rr_rows r = filter (\<lambda>d. dl_engine_id d = rr_engine_id r) rows)"

lemma survey_routes_fits:
  "set routes \<subseteq> dl_engine_id ` set rows \<Longrightarrow> survey_routes h rows routes plan w = (plan', w') \<Longrightarrow>
   list_all (rows_fit rows) (rp_routes plan) \<Longrightarrow> list_all (rows_fit rows) (rp_routes plan')"
proof (induction h rows routes plan w rule: survey_routes.induct)
  case (2 h rows route routes plan w)
  have ne: "filter (\<lambda>d. dl_engine_id d = route) rows \<noteq> []"
    using 2(4) by (auto simp: filter_empty_conv)
  have rest: "set routes \<subseteq> dl_engine_id ` set rows" using 2(4) by simp
  show ?case
  proof (cases "owner w route")
    case None
    then show ?thesis using 2(1)[OF None rest _ 2(6)] 2(5) by simp
  next
    case (Some p)
    obtain e hash where p: "p = (e, hash)" by force
    obtain x w1 where x: "engine_status e hash w = (x, w1)" by force
    show ?thesis
    proof (cases x)
      case (Inl err)
      then show ?thesis using 2(2)[OF Some p[symmetric] x[symmetric] Inl rest] 2(5,6) Some p x by simp
    next
      case (Inr st)
      obtain fav seen played where f: "route_facts h (filter (\<lambda>d. dl_engine_id d = route) rows) = (fav, seen, played)"
        by (cases "route_facts h (filter (\<lambda>d. dl_engine_id d = route) rows)") auto
      show ?thesis
        using 2(3)[OF Some p[symmetric] x[symmetric] Inr refl refl f[symmetric] refl rest] 2(5,6) Some p x Inr f ne
        by (auto simp: Let_def rows_fit_def)
    qed
  qed
qed simp

lemma retention_household_looked: "retention_household managed w = (r, w') \<Longrightarrow> looked w w'"
proof -
  assume a: "retention_household managed w = (r, w')"
  obtain x1 w1 where x1: "title_ids_for (release_ids_of managed) w = (x1, w1)" by force
  obtain x2 w2 where x2: "list_favorites household_profile w1 = (x2, w2)" by force
  obtain x3 w3 where x3: "list_playback household_profile w2 = (x3, w3)" by force
  have l: "looked w w1" "looked w1 w2" "looked w2 w3"
    using title_ids_looked[OF x1] list_favorites_looked[OF x2] list_playback_looked[OF x3] .
  have "w' = w1 \<or> w' = w2 \<or> w' = w3"
    using a x1 x2 x3 by (auto simp: retention_household_def split: sum.splits)
  then show ?thesis using l looked_trans by blast
qed

lemma retention_survey_fits:
  assumes "retention_survey w = (Inr plan, w')"
  shows "looked w w' \<and> plan_fits w' plan"
proof -
  obtain managed w1 where l: "list_downloads w = (Inr managed, w1)"
    using assms by (auto simp: retention_survey_def split: prod.splits sum.splits)
  obtain h w2 where h: "retention_household managed w1 = (Inr h, w2)"
    using assms l by (auto simp: retention_survey_def split: prod.splits sum.splits)
  let ?rows = "reachable_rows w2 managed"
  let ?start = "\<lparr>rp_routes = [], rp_stored_bytes = 0, rp_free = Inl [], rp_uncertain = absent_owners w2 managed\<rparr>"
  obtain plan1 w3 where s: "survey_routes h ?rows (route_order ?rows) ?start w2 = (plan1, w3)" by force
  have res: "w' = w3" "rp_routes plan = rp_routes plan1"
    using assms l h s by (auto simp: retention_survey_def Let_def)
  have l1: "looked w w1" using list_downloads_looked[OF l] .
  have l2: "looked w1 w2" using retention_household_looked[OF h] .
  have l3: "looked w2 w3" using survey_routes_looked[OF s] .
  have lw: "looked w w'" using l1 l2 l3 looked_trans res by blast
  have managed: "set managed = set (w_downloads w')"
    using list_downloads_rows[OF l] looked_frame[OF lw] by (metis set_mset_mset)
  have fit: "list_all (rows_fit ?rows) (rp_routes plan1)"
    by (rule survey_routes_fits[OF _ s]) (auto simp: route_order_set)
  have "route_fits w' r" if r: "rows_fit ?rows r" for r
  proof -
    obtain d where d: "d \<in> set ?rows" "dl_engine_id d = rr_engine_id r"
      using r unfolding rows_fit_def by (metis (mono_tags, lifting) filter_False)
    then have o: "owner w2 (rr_engine_id r) \<noteq> None" by (auto simp: reachable_rows_def)
    then have "set (filter (\<lambda>d. dl_engine_id d = rr_engine_id r) ?rows) =
        {d \<in> set (w_downloads w'). dl_engine_id d = rr_engine_id r}"
      using managed by (auto simp: reachable_rows_def)
    then show ?thesis using r unfolding rows_fit_def route_fits_def by metis
  qed
  then have "plan_fits w' plan" using fit res by (simp add: plan_fits_def list_all_iff)
  then show ?thesis using lw by simp
qed

lemma retention_survey_looked: "retention_survey w = (r, w') \<Longrightarrow> looked w w'"
proof -
  assume a: "retention_survey w = (r, w')"
  obtain x1 w1 where x1: "list_downloads w = (x1, w1)" by force
  have l1: "looked w w1" using list_downloads_looked[OF x1] .
  show ?thesis
  proof (cases x1)
    case (Inr managed)
    obtain x2 w2 where x2: "retention_household managed w1 = (x2, w2)" by force
    have l2: "looked w1 w2" using retention_household_looked[OF x2] .
    show ?thesis
    proof (cases x2)
      case Inl
      then show ?thesis using a x1 Inr x2 l1 l2 looked_trans by (auto simp: retention_survey_def)
    next
      case h: (Inr h)
      then obtain plan where "r = Inr plan"
        using a x1 Inr x2 by (auto simp: retention_survey_def Let_def split: prod.splits)
      then show ?thesis using a retention_survey_fits by blast
    qed
  qed (use a x1 l1 in \<open>auto simp: retention_survey_def\<close>)
qed

subsection \<open>One eviction\<close>

lemma evict_next_victim:
  assumes "evict_next plan reason st rules w = (Inr (Some victim), w')"
  shows "victim \<in> set (rp_routes plan) \<and> \<not> retention_protected w victim st \<and>
    (\<forall>r \<in> set (rp_routes plan). \<not> retention_protected w r st \<longrightarrow> \<not> eviction_less rules r victim) \<and>
    (\<exists>w1. remove_torrent (rr_engine_id victim) w = (None, w1) \<and>
      w' = publish ''downloads.evicted'' (rr_engine_id victim) w1)"
proof -
  let ?cs = "filter (\<lambda>r. \<not> retention_protected w r st) (rp_routes plan)"
  have ne: "?cs \<noteq> []" using assms by (auto simp: evict_next_def Let_def split: if_splits)
  then obtain y ys where y: "sort_by (eviction_less rules) ?cs = y # ys"
    by (metis neq_Nil_conv sort_by_eq_Nil)
  have v: "victim = y"
    using assms ne y by (auto simp: evict_next_def apply_eviction_rules_def Let_def split: if_splits prod.splits option.splits)
  have "y \<in> set ?cs" using y by (metis list.set_intros(1) set_sort_by)
  moreover have "\<not> eviction_less rules r y" if "r \<in> set ?cs" for r
    using evictions.sort_by_hd_least[OF y that] .
  moreover have "\<exists>w1. remove_torrent (rr_engine_id victim) w = (None, w1) \<and>
      w' = publish ''downloads.evicted'' (rr_engine_id victim) w1"
    using assms ne by (auto simp: evict_next_def Let_def v split: if_splits prod.splits option.splits)
  ultimately show ?thesis using v by auto
qed

lemma evict_next_others:
  "evict_next plan reason st rules w = (r, w') \<Longrightarrow>
   set (w_downloads w') \<subseteq> set (w_downloads w) \<and> w_leases w' = w_leases w \<and> w_settings w' = w_settings w \<and>
   w_reserved w' = w_reserved w \<and> (rows_ok w \<longrightarrow> rows_ok w')"
  using remove_torrent_frame
  by (auto simp: evict_next_def Let_def publish_def same_rest_def rows_ok_def split: if_splits prod.splits option.splits)
    fastforce+

lemma evict_next_rows:
  assumes "evict_next plan reason st rules w = (Inr (Some victim), w')" and "rows_ok w"
  shows "w_downloads w' = filter (\<lambda>d. dl_engine_id d \<noteq> rr_engine_id victim) (w_downloads w)"
  using evict_next_victim[OF assms(1)] remove_torrent_done[OF _ assms(2)] by (auto simp: publish_def)

lemma evict_next_shrinks:
  assumes "evict_next plan reason st rules w = (Inr (Some victim), w')" and "rows_ok w" and "plan_fits w plan"
  shows "length (w_downloads w') < length (w_downloads w)"
proof -
  have "route_fits w victim" using assms(3) evict_next_victim[OF assms(1)] by (auto simp: plan_fits_def list_all_iff)
  then obtain d where "d \<in> set (w_downloads w)" "dl_engine_id d = rr_engine_id victim"
    unfolding route_fits_def by (cases "rr_rows victim") auto
  then show ?thesis unfolding evict_next_rows[OF assms(1,2)] by (intro length_filter_less) auto
qed

subsection \<open>The enforcement loop\<close>

lemma save_job_frame:
  "save_job j w = (r, w') \<Longrightarrow> w_downloads w' = w_downloads w \<and> w_leases w' = w_leases w \<and> w_set w' = w_set w \<and>
   w_settings w' = w_settings w \<and> w_reserved w' = w_reserved w"
  by (auto simp: save_job_def attempt_def split: option.splits)

lemma note_progress_frame:
  "note_progress job w = (job', w') \<Longrightarrow> w_downloads w' = w_downloads w \<and> w_leases w' = w_leases w \<and>
   job_state job' = job_state job"
  using save_job_frame by (auto simp: note_progress_def publish_def Let_def split: prod.splits)

lemma evictions_bounded:
  assumes "length (w_downloads w) < n" and "rows_ok w" and "plan_fits w plan"
  shows "enforce n st rules job evicted freed plan w \<noteq> None"
  using assms
proof (induction n st rules job evicted freed plan w rule: enforce.induct)
  case (2 n st rules job evicted freed plan w)
  show ?case
  proof (cases "retention_deficit plan st")
    case (Some reason)
    obtain x w1 where x: "evict_next plan reason st rules w = (x, w1)" by force
    show ?thesis
    proof (cases x)
      case (Inr v)
      show ?thesis
      proof (cases v)
        case v: (Some victim)
        obtain job' w2 where np: "note_progress job w1 = (job', w2)" by force
        obtain y w3 where y: "retention_survey w2 = (y, w3)" by force
        show ?thesis
        proof (cases y)
          case p: (Inr plan')
          have "evict_next plan reason st rules w = (Inr (Some victim), w1)" using x Inr v by simp
          then have "length (w_downloads w1) < length (w_downloads w)" "rows_ok w1"
            using evict_next_shrinks 2(3,4) evict_next_others by blast+
          moreover have "w_downloads w3 = w_downloads w1"
            using looked_frame[OF retention_survey_looked[OF y]] note_progress_frame[OF np] by simp
          ultimately have "length (w_downloads w3) < n" "rows_ok w3"
            using 2(2) by (auto simp: rows_ok_def)
          moreover have "plan_fits w3 plan'" using retention_survey_fits y p by blast
          ultimately have "enforce n st rules job' (evicted + 1) (i64 (freed + ds_total_bytes (rr_status victim))) plan' w3 \<noteq> None"
            using 2(1)[OF Some x[symmetric] Inr v refl refl np[symmetric] refl y[symmetric] p] by blast
          then show ?thesis using Some x Inr v np y p by (simp add: Let_def)
        qed (use Some x Inr v np y in \<open>simp add: Let_def\<close>)
      qed (use Some x Inr in simp)
    qed (use Some x in simp)
  qed simp
qed simp

text \<open>The rows a run must not touch: streamed ones and unfinished ones, as the settings say.\<close>

definition held_row :: "settings \<Rightarrow> world \<Rightarrow> download \<Rightarrow> bool" where
  "held_row st w d = (st_protect_leased st \<and> world_row_leased w d \<or>
     st_protect_incomplete st \<and> dl_progress d < 1)"

lemma held_row_protects:
  assumes "route_fits w r" and "d \<in> set (w_downloads w)" and "dl_engine_id d = rr_engine_id r" and "held_row st w d"
  shows "retention_protected w r st"
proof -
  have "d \<in> set (rr_rows r)" using assms(1-3) by (auto simp: route_fits_def)
  then show ?thesis using assms(4)
    by (auto simp: held_row_def retention_protected_def route_leased_def route_incomplete_def list_ex_iff)
qed

lemma delete_rows_of_keeps:
  "delete_rows_of engine_id ds w = (r, w') \<Longrightarrow> d \<in> set (w_downloads w) \<Longrightarrow>
   \<forall>x \<in> set ds. dl_engine_id x = engine_id \<longrightarrow> dl_id x \<noteq> dl_id d \<Longrightarrow> d \<in> set (w_downloads w')"
proof (induction engine_id ds w arbitrary: r w' rule: delete_rows_of.induct)
  case (2 engine_id x ds w)
  show ?case
  proof (cases "dl_engine_id x \<noteq> engine_id")
    case False
    obtain y w1 where y: "delete_download (dl_id x) w = (y, w1)" by force
    have "d \<in> set (w_downloads w1)"
      using delete_download_cases[OF y] 2(4,5) False by (auto simp: delete_row_def split: option.splits)
    then show ?thesis using 2(2)[OF False y[symmetric]] 2(3,5) False y by (cases y) auto
  qed (use 2 in auto)
qed simp

lemma forget_engine_rows_keeps:
  assumes "forget_engine_rows engine_id w = (r, w')" and "d \<in> set (w_downloads w)"
    and "dl_engine_id d \<noteq> engine_id" and "rows_ok w"
  shows "d \<in> set (w_downloads w')"
proof -
  obtain x w1 where l: "list_downloads w = (x, w1)" by force
  have w1: "w_downloads w1 = w_downloads w" using looked_frame[OF list_downloads_looked[OF l]] by simp
  show ?thesis
  proof (cases x)
    case (Inr ds)
    have ds: "set ds = set (w_downloads w)" using list_downloads_rows l Inr by (metis set_mset_mset)
    have "\<forall>x \<in> set ds. dl_engine_id x = engine_id \<longrightarrow> dl_id x \<noteq> dl_id d"
      using ds assms(2-4) by (auto simp: rows_ok_def distinct_map inj_on_def)
    then show ?thesis using delete_rows_of_keeps[of engine_id ds w1 r w' d] assms(1,2) l Inr w1
      by (simp add: forget_engine_rows_def)
  qed (use assms l w1 in \<open>auto simp: forget_engine_rows_def\<close>)
qed

lemma remove_torrent_keeps:
  assumes "remove_torrent engine_id w = (r, w')" and "d \<in> set (w_downloads w)"
    and "dl_engine_id d \<noteq> engine_id" and "rows_ok w"
  shows "d \<in> set (w_downloads w')"
proof (cases "owner w engine_id")
  case (Some p)
  obtain e hash where p: "p = (e, hash)" by force
  obtain x w1 where x: "engine_remove engine_id hash w = (x, w1)" by force
  have f: "w_downloads w1 = w_downloads w" using engine_remove_frame[OF x] by simp
  have "forget_engine_rows engine_id w1 = (r, w') \<or> w' = w1"
    using assms(1) Some p x by (auto simp: remove_torrent_def split: option.splits svc_error.splits)
  then show ?thesis using forget_engine_rows_keeps f assms(2-4) by (auto simp: rows_ok_def)
qed (use assms in \<open>auto simp: remove_torrent_def\<close>)

lemma evict_next_removes:
  "evict_next plan reason st rules w = (r, w') \<Longrightarrow>
   w' = w \<or> (\<exists>victim x w1. victim \<in> set (rp_routes plan) \<and> \<not> retention_protected w victim st \<and>
     remove_torrent (rr_engine_id victim) w = (x, w1) \<and> w_downloads w' = w_downloads w1)"
proof -
  assume a: "evict_next plan reason st rules w = (r, w')"
  let ?cs = "filter (\<lambda>r. \<not> retention_protected w r st) (rp_routes plan)"
  show ?thesis
  proof (cases "?cs = []")
    case False
    let ?v = "hd (apply_eviction_rules ?cs rules)"
    have "?v \<in> set (apply_eviction_rules ?cs rules)"
      using False by (intro hd_in_set) (simp add: apply_eviction_rules_def)
    then have v: "?v \<in> set ?cs" by (simp add: apply_eviction_rules_def)
    obtain x w1 where x: "remove_torrent (rr_engine_id ?v) w = (x, w1)" by force
    have "w_downloads w' = w_downloads w1"
      using a False x by (auto simp: evict_next_def Let_def publish_def split: option.splits)
    then show ?thesis using v x by auto
  qed (use a in \<open>simp add: evict_next_def\<close>)
qed

lemma evict_next_keeps:
  assumes "evict_next plan reason st rules w = (r, w')" and "rows_ok w" and "plan_fits w plan"
    and "d \<in> set (w_downloads w)" and "held_row st w d"
  shows "d \<in> set (w_downloads w') \<and> held_row st w' d"
proof -
  have "w_leases w' = w_leases w" using evict_next_others[OF assms(1)] by blast
  then have h: "held_row st w' d" using assms(5) by (simp add: held_row_def world_row_leased_def)
  from evict_next_removes[OF assms(1)] show ?thesis
  proof (elim disjE exE conjE)
    fix victim x w1
    assume v: "victim \<in> set (rp_routes plan)" "\<not> retention_protected w victim st"
      "remove_torrent (rr_engine_id victim) w = (x, w1)" "w_downloads w' = w_downloads w1"
    then have "route_fits w victim" using assms(3) by (simp add: plan_fits_def list_all_iff)
    then have "dl_engine_id d \<noteq> rr_engine_id victim" using held_row_protects assms(4,5) v(2) by blast
    then show ?thesis using remove_torrent_keeps[OF v(3) assms(4)] assms(2) v(4) h by simp
  qed (use assms h in simp)
qed

lemma retention_failed_frame:
  "retention_failed job e ev fr w = (job', ev', fr', w') \<Longrightarrow>
   w_downloads w' = w_downloads w \<and> w_leases w' = w_leases w \<and> job_state job' = ''failed''"
  using fail_or_wait_frame fail_or_wait_state
  by (auto simp: retention_failed_def svc_failure_def plain_failure_def split: prod.splits)

definition kept :: "settings \<Rightarrow> world \<Rightarrow> world \<Rightarrow> bool" where
  "kept st w w' = (\<forall>d \<in> set (w_downloads w). held_row st w d \<longrightarrow> d \<in> set (w_downloads w') \<and> held_row st w' d)"

lemma kept_trans: "kept st a b \<Longrightarrow> kept st b c \<Longrightarrow> kept st a c"
  by (auto simp: kept_def)

lemma kept_same: "w_downloads w' = w_downloads w \<Longrightarrow> w_leases w' = w_leases w \<Longrightarrow> kept st w w'"
  by (auto simp: kept_def held_row_def world_row_leased_def)

lemma survey_kept: "retention_survey w = (r, w') \<Longrightarrow> kept st w w' \<and> (rows_ok w \<longrightarrow> rows_ok w')"
  using looked_frame[OF retention_survey_looked[of w r w']] kept_same
  by (auto simp: same_rest_def rows_ok_def)

lemma enforce_keeps:
  "enforce n st rules job evicted freed plan w = Some (job', ev, fr, w') \<Longrightarrow> rows_ok w \<Longrightarrow> plan_fits w plan \<Longrightarrow>
   kept st w w'"
proof (induction n st rules job evicted freed plan w rule: enforce.induct)
  case (2 n st rules job evicted freed plan w)
  show ?case
  proof (cases "retention_deficit plan st")
    case (Some reason)
    obtain x w1 where x: "evict_next plan reason st rules w = (x, w1)" by force
    have k1: "kept st w w1" using evict_next_keeps[OF x 2(3,4)] by (simp add: kept_def)
    have ok1: "rows_ok w1" using evict_next_others[OF x] 2(3) by blast
    show ?thesis
    proof (cases x)
      case (Inl e)
      then have "retention_failed job e evicted freed w1 = (job', ev, fr, w')" using 2(2) Some x by simp
      then have "kept st w1 w'" using retention_failed_frame kept_same by blast
      then show ?thesis using k1 kept_trans by blast
    next
      case (Inr v)
      show ?thesis
      proof (cases v)
        case None
        then have "w' = job_log_entry job' ''warn'' retention_kind w1" using 2(2) Some x Inr by auto
        then have "kept st w1 w'" by (intro kept_same) (simp_all add: job_log_entry_def)
        then show ?thesis using k1 kept_trans by blast
      next
        case v: (Some victim)
        obtain job2 w2 where np: "note_progress job w1 = (job2, w2)" by force
        have k2: "kept st w1 w2" "rows_ok w2"
          using note_progress_frame[OF np] kept_same ok1 by (auto simp: rows_ok_def)
        obtain y w3 where y: "retention_survey w2 = (y, w3)" by force
        have k3: "kept st w2 w3" "rows_ok w3" using survey_kept[OF y] k2 by auto
        have k: "kept st w w3" using k1 k2(1) k3(1) kept_trans by blast
        show ?thesis
        proof (cases y)
          case (Inl e)
          then have "retention_failed job2 e (evicted + 1) (i64 (freed + ds_total_bytes (rr_status victim))) w3
              = (job', ev, fr, w')" using 2(2) Some x Inr v np y by (simp add: Let_def)
          then have "kept st w3 w'" using retention_failed_frame kept_same by blast
          then show ?thesis using k kept_trans by blast
        next
          case p: (Inr plan')
          have "plan_fits w3 plan'" using retention_survey_fits y p by blast
          moreover have "enforce n st rules job2 (evicted + 1) (i64 (freed + ds_total_bytes (rr_status victim))) plan' w3
              = Some (job', ev, fr, w')" using 2(2) Some x Inr v np y p by (simp add: Let_def)
          ultimately have "kept st w3 w'"
            using 2(1)[OF Some x[symmetric] Inr v refl refl np[symmetric] refl y[symmetric] p] k3(2) by blast
          then show ?thesis using k kept_trans by blast
        qed
      qed
    qed
  next
    case None
    then show ?thesis using 2(2) by (simp add: kept_same)
  qed
qed simp

lemma evict_next_none:
  "evict_next plan reason st rules w = (Inr None, w') \<Longrightarrow>
   w' = w \<and> list_all (\<lambda>r. retention_protected w r st) (rp_routes plan)"
  by (auto simp: evict_next_def Let_def filter_empty_conv list_all_iff split: if_splits prod.splits option.splits)

subsection \<open>What a survey tells of the storage\<close>

text \<open>What the engine of a route reports, and the bytes that the torrents of all rows take, read off the world itself.\<close>

definition reported :: "world \<Rightarrow> string \<Rightarrow> download_status option" where
  "reported w route = (case owner w route of
     None \<Rightarrow> None | Some (e, hash) \<Rightarrow> map_option et_status (row_of et_hash hash e))"

definition stored_bytes :: "world \<Rightarrow> int" where
  "stored_bytes w = (\<Sum>route\<in>dl_engine_id ` set (w_downloads w).
     case reported w route of None \<Rightarrow> 0 | Some st \<Rightarrow> ds_total_bytes st)"

definition all_reported :: "world \<Rightarrow> bool" where
  "all_reported w = list_all (\<lambda>d. reported w (dl_engine_id d) \<noteq> None) (w_downloads w)"

text \<open>A plan describes the world: its routes are torrents of rows with what their engines report, none twice, and none is left out but those of the owners it names.\<close>

definition describes :: "world \<Rightarrow> retention_plan \<Rightarrow> bool" where
  "describes w plan =
     (plan_fits w plan \<and> distinct (map rr_engine_id (rp_routes plan)) \<and>
      list_all (\<lambda>r. reported w (rr_engine_id r) = Some (rr_status r)) (rp_routes plan) \<and>
      rp_stored_bytes plan = i64 (\<Sum>r\<leftarrow>rp_routes plan. ds_total_bytes (rr_status r)) \<and>
      list_all (\<lambda>d. dl_engine_id d \<in> rr_engine_id ` set (rp_routes plan) \<or>
        route_prefix (dl_engine_id d) \<in> set (rp_uncertain plan)) (w_downloads w))"

lemma reported_looked: "looked w w' \<Longrightarrow> reported w' route = reported w route"
  by (auto simp: looked_def reported_def owner_def)

lemma engine_status_reports:
  "owner w route = Some (e, hash) \<Longrightarrow> engine_status e hash w = (Inr st, w') \<Longrightarrow> reported w route = Some st"
  by (auto simp: engine_status_def reported_def attempt_def split: option.splits)

lemma add_new_set [simp]: "set (add_new x xs) = insert x (set xs)"
  by (auto simp: add_new_def)

lemma route_order_distinct: "distinct (route_order ds)"
proof -
  have "distinct acc \<Longrightarrow> distinct (foldl (\<lambda>ids d. add_new (dl_engine_id d) ids) acc ds)" for acc
    by (induction ds arbitrary: acc) (auto simp: add_new_def)
  then show ?thesis by (simp add: route_order_def)
qed

lemma absent_owners_set:
  "set (absent_owners w ds) = (\<lambda>d. route_prefix (dl_engine_id d)) ` {d \<in> set ds. owner w (dl_engine_id d) = None}"
proof -
  have "set (foldl (\<lambda>ps d. if owner w (dl_engine_id d) = None then add_new (route_prefix (dl_engine_id d)) ps else ps) acc ds) =
      set acc \<union> (\<lambda>d. route_prefix (dl_engine_id d)) ` {d \<in> set ds. owner w (dl_engine_id d) = None}" for acc
    by (induction ds arbitrary: acc) auto
  then show ?thesis by (simp add: absent_owners_def)
qed

text \<open>What the walk over the routes adds to the plan.\<close>

definition adds :: "world \<Rightarrow> string list \<Rightarrow> retention_plan \<Rightarrow> retention_plan \<Rightarrow> retention_route list \<Rightarrow> bool" where
  "adds w routes plan plan' new =
     (rp_routes plan' = rp_routes plan @ new \<and> distinct (map rr_engine_id new) \<and> rr_engine_id ` set new \<subseteq> set routes \<and>
      list_all (\<lambda>r. reported w (rr_engine_id r) = Some (rr_status r)) new \<and>
      rp_stored_bytes plan' = i64 (rp_stored_bytes plan + (\<Sum>r\<leftarrow>new. ds_total_bytes (rr_status r))) \<and>
      set (rp_uncertain plan) \<subseteq> set (rp_uncertain plan') \<and>
      (\<forall>x\<in>set routes. owner w x = None \<or> x \<in> rr_engine_id ` set new \<or> route_prefix x \<in> set (rp_uncertain plan')))"

lemma survey_routes_adds:
  "survey_routes h rows routes plan w = (plan', w') \<Longrightarrow> distinct routes \<Longrightarrow> rp_stored_bytes plan = i64 (rp_stored_bytes plan) \<Longrightarrow>
    \<exists>new. adds w routes plan plan' new"
proof (induction h rows routes plan w arbitrary: plan' w' rule: survey_routes.induct)
  case (1 h rows plan w)
  then show ?case by (intro exI[of _ "[]"]) (auto simp: adds_def)
next
  case (2 h rows route routes plan w)
  show ?case
  proof (cases "owner w route")
    case None
    with 2(1)[OF None, of plan' w'] 2(4-6) obtain new where "adds w routes plan plan' new"
      by auto
    with None show ?thesis by (auto simp: adds_def)
  next
    case (Some p)
    obtain e hash where p: "p = (e, hash)" by force
    obtain x w1 where x: "engine_status e hash w = (x, w1)" by force
    have same: "reported w1 = reported w" "owner w1 = owner w"
      using engine_status_looked[OF x] by (auto simp: fun_eq_iff reported_looked) (auto simp: looked_def owner_def)
    show ?thesis
    proof (cases x)
      case (Inl err)
      then obtain new where new: "adds w1 routes (plan\<lparr>rp_uncertain := add_new (route_prefix route) (rp_uncertain plan)\<rparr>) plan' new"
        using 2(2)[OF Some p[symmetric] x[symmetric] Inl] 2(4-6) Some p x by auto
      then have "route_prefix route \<in> set (rp_uncertain plan')"
        by (auto simp: adds_def)
      with new show ?thesis by (auto simp: adds_def same)
    next
      case (Inr st)
      obtain a b c where f: "route_facts h (filter (\<lambda>d. dl_engine_id d = route) rows) = (a, b, c)"
        by (metis prod_cases3)
      let ?r = "\<lparr>rr_engine_id = route, rr_hash = hash, rr_rows = filter (\<lambda>d. dl_engine_id d = route) rows,
        rr_status = st, rr_favorite = a, rr_watched = b, rr_last_played = c\<rparr>"
      let ?plan = "plan\<lparr>rp_routes := rp_routes plan @ [?r], rp_stored_bytes := i64 (rp_stored_bytes plan + ds_total_bytes st)\<rparr>"
      have rest: "survey_routes h rows routes ?plan w1 = (plan', w')"
        using 2(4) Some p x Inr f by simp
      have "rp_stored_bytes ?plan = i64 (rp_stored_bytes ?plan)"
        using i64_add_left[of _ 0] by simp
      then obtain new where new: "adds w1 routes ?plan plan' new"
        using 2(3)[OF Some p[symmetric] x[symmetric] Inr refl refl f[symmetric] refl] rest 2(5) by auto
      have "adds w (route # routes) plan plan' (?r # new)"
        using new 2(5) engine_status_reports[OF _ x[unfolded Inr]] Some p
        by (auto simp: adds_def same i64_add_left add.assoc)
      then show ?thesis by blast
    qed
  qed
qed

lemma survey_describes:
  assumes "retention_survey w = (Inr plan, w')"
  shows "describes w' plan"
proof -
  obtain managed w1 where l: "list_downloads w = (Inr managed, w1)"
    using assms by (auto simp: retention_survey_def split: prod.splits sum.splits)
  obtain h w2 where h: "retention_household managed w1 = (Inr h, w2)"
    using assms l by (auto simp: retention_survey_def split: prod.splits sum.splits)
  let ?rows = "reachable_rows w2 managed"
  let ?start = "\<lparr>rp_routes = [], rp_stored_bytes = 0, rp_free = Inl [], rp_uncertain = absent_owners w2 managed\<rparr>"
  obtain plan1 w3 where s: "survey_routes h ?rows (route_order ?rows) ?start w2 = (plan1, w3)" by force
  have res: "w' = w3" "plan = plan1\<lparr>rp_free := w_free w3 (w_tick w3)\<rparr>"
    using assms l h s by (auto simp: retention_survey_def Let_def)
  have l3: "looked w2 w'" using survey_routes_looked[OF s] res by simp
  have lw: "looked w w2" using list_downloads_looked[OF l] retention_household_looked[OF h] looked_trans by blast
  have managed: "set managed = set (w_downloads w')"
    using list_downloads_rows[OF l] looked_frame[OF looked_trans[OF lw l3]] by (metis set_mset_mset)
  have "rp_stored_bytes ?start = i64 (rp_stored_bytes ?start)" by (simp add: i64_id)
  from survey_routes_adds[OF s route_order_distinct this] obtain new
    where new: "adds w2 (route_order ?rows) ?start plan1 new" by blast
  have same: "reported w2 = reported w'" using l3 by (auto simp: fun_eq_iff reported_looked)
  have "dl_engine_id d \<in> rr_engine_id ` set new \<or> route_prefix (dl_engine_id d) \<in> set (rp_uncertain plan1)"
    if "d \<in> set (w_downloads w')" for d
  proof (cases "owner w2 (dl_engine_id d)")
    case None
    then show ?thesis using that managed new by (auto simp: adds_def absent_owners_set)
  next
    case (Some p)
    then have "d \<in> set ?rows" using that managed by (simp add: reachable_rows_def)
    then have "dl_engine_id d \<in> set (route_order ?rows)" by (simp add: route_order_set)
    then show ?thesis using new Some by (auto simp: adds_def)
  qed
  then show ?thesis
    using new same retention_survey_fits[OF assms] res by (auto simp: describes_def adds_def list_all_iff plan_fits_def)
qed

lemma described_bytes:
  assumes "describes w plan" "rp_uncertain plan = []"
  shows "all_reported w \<and> rp_stored_bytes plan = i64 (stored_bytes w)"
proof -
  let ?ids = "map rr_engine_id (rp_routes plan)"
  let ?size = "\<lambda>route. case reported w route of None \<Rightarrow> 0 | Some st \<Rightarrow> ds_total_bytes st"
  have "set ?ids \<subseteq> dl_engine_id ` set (w_downloads w)"
  proof
    fix x assume "x \<in> set ?ids"
    then obtain r where r: "r \<in> set (rp_routes plan)" "x = rr_engine_id r" by auto
    then have "route_fits w r" using assms(1) by (simp add: describes_def plan_fits_def list_all_iff)
    then obtain d where "d \<in> set (rr_rows r)" "set (rr_rows r) = {d \<in> set (w_downloads w). dl_engine_id d = rr_engine_id r}"
      unfolding route_fits_def by (metis list.set_sel(1))
    then show "x \<in> dl_engine_id ` set (w_downloads w)"
      using r(2) by (metis (mono_tags, lifting) image_eqI mem_Collect_eq)
  qed
  moreover have "dl_engine_id ` set (w_downloads w) \<subseteq> set ?ids"
    using assms by (auto simp: describes_def list_all_iff)
  ultimately have ids: "dl_engine_id ` set (w_downloads w) = set ?ids" by blast
  have rep: "reported w (rr_engine_id r) = Some (rr_status r)" if "r \<in> set (rp_routes plan)" for r
    using assms(1) that by (simp add: describes_def list_all_iff)
  have "stored_bytes w = (\<Sum>route\<leftarrow>?ids. ?size route)"
    unfolding stored_bytes_def ids using assms(1) by (intro sum.distinct_set_conv_list) (simp add: describes_def)
  also have "\<dots> = (\<Sum>r\<leftarrow>rp_routes plan. ds_total_bytes (rr_status r))"
    unfolding map_map using rep by (intro arg_cong[of _ _ sum_list] map_cong) auto
  finally have "rp_stored_bytes plan = i64 (stored_bytes w)" using assms(1) by (simp add: describes_def)
  moreover have "all_reported w"
    unfolding all_reported_def list_all_iff
  proof
    fix d assume "d \<in> set (w_downloads w)"
    then have "dl_engine_id d \<in> set ?ids" using ids by blast
    then show "reported w (dl_engine_id d) \<noteq> None" using rep by auto
  qed
  ultimately show ?thesis by blast
qed


text \<open>
  The plan and the world after any number of turns: each turn had a limit tripped, removed an unprotected torrent and
  surveyed again.
\<close>

inductive turns :: "settings \<Rightarrow> string list \<Rightarrow> retention_plan \<Rightarrow> world \<Rightarrow> nat \<Rightarrow> retention_plan \<Rightarrow> world \<Rightarrow> bool"
  for st rules where
  stay: "turns st rules plan w 0 plan w"
| turn: "retention_deficit plan st = Some reason \<Longrightarrow> evict_next plan reason st rules w = (Inr (Some victim), w1) \<Longrightarrow>
    note_progress job w1 = (job', w2) \<Longrightarrow> retention_survey w2 = (Inr plan1, w3) \<Longrightarrow>
    turns st rules plan1 w3 n plan' w' \<Longrightarrow> turns st rules plan w (Suc n) plan' w'"

definition same_storage :: "world \<Rightarrow> world \<Rightarrow> bool" where
  "same_storage w w' = (w_downloads w' = w_downloads w \<and> w_set w' = w_set w \<and> w_leases w' = w_leases w)"

text \<open>
  How the loop may end: the job failed; or the storage it leaves is the one of the last survey, after as many turns as
  torrents were counted, and that survey is within the limits or finds protected torrents only.
\<close>

definition loop_end :: "settings \<Rightarrow> string list \<Rightarrow> retention_plan \<Rightarrow> world \<Rightarrow> int \<Rightarrow> retention_result \<Rightarrow> bool" where
  "loop_end st rules plan w evicted r = (case r of (job', evicted', freed', w') \<Rightarrow>
     job_state job' = ''failed'' \<or>
     (\<exists>n plan1 w1. turns st rules plan w n plan1 w1 \<and> evicted' = evicted + int n \<and> same_storage w1 w' \<and>
        describes w' plan1 \<and>
        (retention_deficit plan1 st = None \<or> list_all (\<lambda>r. retention_protected w' r st) (rp_routes plan1))))"

lemma reported_same: "same_storage w w' \<Longrightarrow> reported w' = reported w"
  by (auto simp: fun_eq_iff same_storage_def reported_def owner_def)

lemma describes_same: "same_storage w w' \<Longrightarrow> describes w plan \<Longrightarrow> describes w' plan"
proof -
  assume same: "same_storage w w'"
  then have "route_fits w' = route_fits w" by (simp add: fun_eq_iff same_storage_def route_fits_def)
  then show "describes w plan \<Longrightarrow> describes w' plan"
    using same reported_same[OF same] by (simp add: describes_def plan_fits_def same_storage_def)
qed

lemma protected_same: "same_storage w w' \<Longrightarrow> retention_protected w' r st = retention_protected w r st"
proof -
  assume "same_storage w w'"
  then have "world_row_leased w' = world_row_leased w" by (intro ext) (simp add: same_storage_def world_row_leased_def)
  then show ?thesis by (simp add: retention_protected_def route_leased_def)
qed

lemma loop_end_turn:
  assumes "retention_deficit plan st = Some reason" "evict_next plan reason st rules w = (Inr (Some victim), w1)"
    "note_progress job w1 = (job', w2)" "retention_survey w2 = (Inr plan1, w3)" "loop_end st rules plan1 w3 (evicted + 1) r"
  shows "loop_end st rules plan w evicted r"
proof -
  obtain job2 ev fr w' where r: "r = (job2, ev, fr, w')" by (metis prod_cases4)
  show ?thesis
  proof (cases "job_state job2 = ''failed''")
    case False
    then obtain n p v where e: "turns st rules plan1 w3 n p v" "ev = evicted + 1 + int n" "same_storage v w'"
        "describes w' p" "retention_deficit p st = None \<or> list_all (\<lambda>r. retention_protected w' r st) (rp_routes p)"
      using assms(5) by (auto simp: loop_end_def r)
    have "turns st rules plan w (Suc n) p v" by (rule turns.turn[OF assms(1-4) e(1)])
    moreover have "ev = evicted + int (Suc n)" using e(2) by simp
    ultimately show ?thesis using e(3-5) unfolding loop_end_def r by fastforce
  qed (simp add: loop_end_def r)
qed

lemma enforce_ends:
  "enforce n st rules job evicted freed plan w = Some r \<Longrightarrow> describes w plan \<Longrightarrow> loop_end st rules plan w evicted r"
proof (induction n st rules job evicted freed plan w rule: enforce.induct)
  case (2 n st rules job evicted freed plan w)
  show ?case
  proof (cases "retention_deficit plan st")
    case None
    have "turns st rules plan w 0 plan w" "same_storage w w" by (simp_all add: turns.stay same_storage_def)
    then show ?thesis using 2(2,3) None by (fastforce simp: loop_end_def)
  next
    case (Some reason)
    obtain x w1 where x: "evict_next plan reason st rules w = (x, w1)" by force
    show ?thesis
    proof (cases x)
      case (Inl e)
      then have "r = retention_failed job e evicted freed w1" using 2(2) Some x by simp
      then show ?thesis using retention_failed_frame by (cases r) (auto simp: loop_end_def)
    next
      case (Inr v)
      show ?thesis
      proof (cases v)
        case None
        let ?w = "job_log_entry job ''warn'' retention_kind w1"
        have r: "r = (job, evicted, freed, ?w)" using None 2(2) Some x Inr by simp
        have e: "w1 = w" "list_all (\<lambda>r. retention_protected w r st) (rp_routes plan)"
          using evict_next_none x Inr None by blast+
        have same: "same_storage w ?w" by (simp add: e(1) job_log_entry_def same_storage_def)
        have "list_all (\<lambda>r. retention_protected ?w r st) (rp_routes plan)"
          using e(2) by (simp add: protected_same[OF same])
        then show ?thesis
          using turns.stay[of st rules plan w] same describes_same[OF same 2(3)] unfolding loop_end_def r by fastforce
      next
        case v: (Some victim)
        obtain job2 w2 where np: "note_progress job w1 = (job2, w2)" by force
        obtain y w3 where y: "retention_survey w2 = (y, w3)" by force
        show ?thesis
        proof (cases y)
          case (Inl e)
          then have "r = retention_failed job2 e (evicted + 1) (i64 (freed + ds_total_bytes (rr_status victim))) w3"
            using 2(2) Some x Inr v np y by (simp add: Let_def)
          then show ?thesis using retention_failed_frame by (cases r) (auto simp: loop_end_def)
        next
          case p: (Inr plan')
          have "enforce n st rules job2 (evicted + 1) (i64 (freed + ds_total_bytes (rr_status victim))) plan' w3 = Some r"
            using 2(2) Some x Inr v np y p by (simp add: Let_def)
          then have "loop_end st rules plan' w3 (evicted + 1) r"
            using 2(1)[OF Some x[symmetric] Inr v refl refl np[symmetric] refl y[symmetric] p] survey_describes y p
            by blast
          then show ?thesis by (rule loop_end_turn[OF Some x[unfolded Inr v] np y[unfolded p]])
        qed
      qed
    qed
  qed
qed simp

lemma finish_frame:
  "w_downloads (finish_retention (job, ev, fr, w)) = w_downloads w \<and> w_leases (finish_retention (job, ev, fr, w)) = w_leases w"
  using save_job_frame by (auto simp: finish_retention_def publish_def Let_def split: prod.splits)

lemma run_retention_job_facts:
  assumes "rows_ok w"
  shows "\<exists>w'. run_retention_job job w = Some w' \<and> kept (w_settings w) w w'"
proof -
  let ?st = "w_settings w" and ?rules = "normalize_eviction_rules (st_eviction_rules (w_settings w))"
  let ?job = "job\<lparr>job_state := ''running'', job_progress := 1 / 20, job_updated_at := now_of w\<rparr>"
  obtain x w1 where s: "save_job ?job w = (x, w1)" by force
  define w2 where "w2 = publish ''job.updated'' (job_id ?job) w1"
  have f2: "w_downloads w2 = w_downloads w" "w_leases w2 = w_leases w" "w_settings w2 = ?st"
    using save_job_frame[OF s] by (simp_all add: w2_def publish_def)
  have k2: "kept ?st w w2" "rows_ok w2" using f2 kept_same assms by (auto simp: rows_ok_def)
  obtain y w3 where y: "retention_survey w2 = (y, w3)" by force
  have k3: "kept ?st w w3" "rows_ok w3" using survey_kept[OF y] k2 kept_trans by blast+
  show ?thesis
  proof (cases y)
    case (Inl e)
    obtain j ev fr w4 where r: "retention_failed ?job e 0 0 w3 = (j, ev, fr, w4)"
      by (cases "retention_failed ?job e 0 0 w3") auto
    have "run_retention_job job w = Some (finish_retention (j, ev, fr, w4))"
      using s y Inl r by (simp add: run_retention_job_def Let_def w2_def)
    moreover have "kept ?st w3 (finish_retention (j, ev, fr, w4))"
      using retention_failed_frame[OF r] finish_frame[of j ev fr w4] by (intro kept_same) simp_all
    ultimately show ?thesis using k3 kept_trans by blast
  next
    case (Inr plan)
    let ?w4 = "if rp_uncertain plan \<noteq> [] then job_log_entry ?job ''warn'' retention_kind w3 else w3"
    let ?w5 = "if st_reserve_gb ?st > 0 \<and> (case rp_free plan of Inl _ \<Rightarrow> True | Inr _ \<Rightarrow> False)
       then job_log_entry ?job ''warn'' retention_kind ?w4 else ?w4"
    have f5: "w_downloads ?w5 = w_downloads w3" "w_leases ?w5 = w_leases w3" by (simp_all add: job_log_entry_def)
    have ok5: "rows_ok ?w5" "kept ?st w3 ?w5" using f5 k3 kept_same by (simp_all add: rows_ok_def)
    have "plan_fits w3 plan" using retention_survey_fits y Inr by blast
    then have fits: "plan_fits ?w5 plan" using f5(1) unfolding plan_fits_def route_fits_def by metis
    obtain j ev fr w6 where e: "enforce (length (w_downloads ?w5) + 1) ?st ?rules ?job 0 0 plan ?w5 = Some (j, ev, fr, w6)"
      using evictions_bounded[of ?w5 "length (w_downloads ?w5) + 1" plan] ok5 fits by fastforce
    have "run_retention_job job w = Some (finish_retention (j, ev, fr, w6))"
      unfolding run_retention_job_def Let_def s prod.case w2_def[symmetric] y Inr sum.case e by simp
    moreover have "kept ?st ?w5 w6" by (rule enforce_keeps[OF e ok5(1) fits])
    moreover have "kept ?st w6 (finish_retention (j, ev, fr, w6))"
      using finish_frame[of j ev fr w6] by (intro kept_same) simp_all
    ultimately show ?thesis using k3 ok5 kept_trans by blast
  qed
qed

text \<open>
  Property C1: a retention run always ends, whatever calls fail, and it never removes a download row
  that is being streamed (when streams are protected) or is unfinished (when unfinished downloads
  are protected).
\<close>

theorem run_retention_safe:
  assumes "rows_ok w"
  shows "\<exists>r w'. run_retention w = Some (r, w') \<and>
    (\<forall>d \<in> set (w_downloads w). held_row (w_settings w) w d \<longrightarrow> d \<in> set (w_downloads w'))"
proof -
  obtain x w1 where x: "list_jobs 200 w = (x, w1)" by force
  have f1: "looked w w1" using x by (auto simp: list_jobs_def attempt_def looked_def split: option.splits)
  then have l1: "w_downloads w1 = w_downloads w" "w_leases w1 = w_leases w" "w_settings w1 = w_settings w"
    using looked_frame by (auto simp: same_rest_def)
  show ?thesis
  proof (cases x)
    case (Inr jobs)
    show ?thesis
    proof (cases "active_run retention_kind jobs")
      case None
      let ?job = "zero_job\<lparr>job_id := retention_kind, job_kind := retention_kind, job_state := ''queued'',
        job_label := ''Enforce storage allocation and reserve'', job_dedupe_key := retention_kind,
        job_attempt := next_attempt retention_kind jobs, job_updated_at := now_of w1\<rparr>"
      obtain y w2 where y: "save_job ?job w1 = (y, w2)" by force
      have l2: "w_downloads w2 = w_downloads w" "w_leases w2 = w_leases w" "w_settings w2 = w_settings w"
        using save_job_frame[OF y] l1 by simp_all
      show ?thesis
      proof (cases y)
        case None
        let ?w3 = "publish ''job.updated'' retention_kind w2"
        have "rows_ok ?w3" using assms l2 by (simp add: rows_ok_def publish_def)
        then obtain w4 where w4: "run_retention_job ?job ?w3 = Some w4" "kept (w_settings ?w3) ?w3 w4"
          using run_retention_job_facts by blast
        obtain r w5 where g: "get_job retention_kind w4 = (r, w5)" by force
        have "w_downloads w5 = w_downloads w4"
          using g by (auto simp: get_job_def attempt_def split: option.splits)
        moreover have "kept (w_settings w) w w4"
          using w4(2) l2 by (simp add: kept_def held_row_def world_row_leased_def publish_def)
        moreover have "run_retention w = Some (r, w5)"
          using x Inr \<open>active_run retention_kind jobs = None\<close> y None w4(1) g
          by (simp add: run_retention_def Let_def)
        ultimately show ?thesis by (auto simp: kept_def)
      next
        case (Some e)
        then have "run_retention w = Some (Inl e, w2)"
          using x Inr \<open>active_run retention_kind jobs = None\<close> y by (simp add: run_retention_def Let_def)
        then show ?thesis using l2 by auto
      qed
    next
      case (Some j)
      then have "run_retention w = Some (Inr j, w1)" using x Inr by (simp add: run_retention_def)
      then show ?thesis using l1 by auto
    qed
  next
    case (Inl e)
    then have "run_retention w = Some (Inl e, w1)" using x by (simp add: run_retention_def)
    then show ?thesis using l1 by auto
  qed
qed

text \<open>
  Property C10: the torrent an eviction removes is one of the surveyed, unprotected ones, no other
  unprotected torrent comes before it in the configured order, and exactly its rows leave the table.
\<close>

theorem eviction_victim:
  assumes "evict_next plan reason st rules w = (Inr (Some victim), w')" and "rows_ok w"
  shows "victim \<in> set (rp_routes plan) \<and> \<not> retention_protected w victim st \<and>
    (\<forall>r \<in> set (rp_routes plan). \<not> retention_protected w r st \<longrightarrow> \<not> eviction_less rules r victim) \<and>
    w_downloads w' = filter (\<lambda>d. dl_engine_id d \<noteq> rr_engine_id victim) (w_downloads w)"
  using evict_next_victim[OF assms(1)] evict_next_rows[OF assms] by blast

text \<open>
  Property C11: the enforcement loop started on a survey ends within as many turns as there are rows plus one.  Then the
  job failed; or every turn evicted one torrent after a limit was tripped, and the survey after the last turn describes
  the storage that is left: its routes are the torrents of rows with what their engines report, none twice, none left out
  but those of the owners it names, and it is within the limits, or all that it finds is protected.
\<close>

theorem enforce_outcome:
  assumes "retention_survey w0 = (Inr plan, w)" and "rows_ok w0"
  shows "\<exists>r. enforce (length (w_downloads w) + 1) st rules job evicted freed plan w = Some r \<and>
    loop_end st rules plan w evicted r"
proof -
  have "plan_fits w plan" and "rows_ok w"
    using retention_survey_fits[OF assms(1)] survey_kept[OF assms(1)] assms(2) by auto
  then obtain r where "enforce (length (w_downloads w) + 1) st rules job evicted freed plan w = Some r"
    using evictions_bounded[of w "length (w_downloads w) + 1" plan st rules job evicted freed] by auto
  then show ?thesis using enforce_ends survey_describes[OF assms(1)] by blast
qed

subsection \<open>Admission\<close>

text \<open>A plan for admission: a survey that knows every owner, with the claims of this and all other requests.\<close>

definition admitted_from :: "int \<Rightarrow> retention_plan \<Rightarrow> world \<Rightarrow> bool" where
  "admitted_from need plan w = (plan_fits w plan \<and> all_reported w \<and>
     rp_stored_bytes plan = i64 (stored_bytes w + (need + w_reserved w)))"

lemma admission_survey_from:
  "admission_survey need w0 = (Inr plan, w) \<Longrightarrow> admitted_from need plan w \<and> looked w0 w"
proof -
  assume "admission_survey need w0 = (Inr plan, w)"
  then obtain p where p: "retention_survey w0 = (Inr p, w)" "rp_uncertain p = []" "plan = claimed_plan p need w"
    by (auto simp: admission_survey_def split: prod.splits sum.splits if_splits)
  note described_bytes[OF survey_describes[OF p(1)] p(2)]
  moreover have "i64 (i64 a + i64 b) = i64 (a + b)" for a b
    by (metis i64_add_left add.commute)
  ultimately show ?thesis using retention_survey_fits[OF p(1)] p(3)
    by (auto simp: admitted_from_def claimed_plan_def plan_fits_def)
qed

lemma evict_next_None_same: "evict_next plan reason st rules w = (Inr None, w') \<Longrightarrow> w' = w"
  using evict_next_none by blast

lemma make_room_admits:
  "make_room n st rules rel need plan w = Some (Inr plan', w') \<Longrightarrow> admitted_from need plan w \<Longrightarrow>
   admitted_from need plan' w' \<and> retention_deficit plan' st \<noteq> Some ''cap'' \<and>
   set (w_downloads w') \<subseteq> set (w_downloads w) \<and> w_reserved w' = w_reserved w"
proof (induction n st rules rel need plan w rule: make_room.induct)
  case (2 n st rules rel need plan w)
  show ?case
  proof (cases "retention_deficit plan st")
    case (Some reason)
    obtain x w1 where x: "evict_next plan reason st rules w = (x, w1)" by force
    then obtain v where v: "x = Inr v" using 2(2) Some by (cases x) auto
    show ?thesis
    proof (cases v)
      case None
      then have "w1 = w" using evict_next_None_same x v by blast
      then show ?thesis using None 2(2,3) Some x v by (auto split: if_splits)
    next
      case vv: (Some victim)
      obtain y w2 where y: "admission_survey need w1 = (y, w2)" by force
      then obtain plan2 where p: "y = Inr plan2" using 2(2) Some x v vv by (cases y) auto
      then have "make_room n st rules rel need plan2 w2 = Some (Inr plan', w')"
        using 2(2) Some x v vv y by simp
      moreover have "set (w_downloads w2) \<subseteq> set (w_downloads w)" "w_reserved w2 = w_reserved w"
        using evict_next_others[OF x] looked_frame[of w1 w2] admission_survey_from y p by (auto simp: same_rest_def)
      moreover have "admitted_from need plan2 w2" using admission_survey_from y p by blast
      ultimately show ?thesis
        using 2(1)[OF Some x[symmetric] v vv y[symmetric] p] by (metis subset_trans)
    qed
  qed (use 2 in auto)
qed simp

lemma make_room_returns:
  "length (w_downloads w) < n \<Longrightarrow> rows_ok w \<Longrightarrow> plan_fits w plan \<Longrightarrow>
   make_room n st rules rel need plan w \<noteq> None"
proof (induction n st rules rel need plan w rule: make_room.induct)
  case (2 n st rules rel need plan w)
  show ?case
  proof (cases "retention_deficit plan st")
    case (Some reason)
    obtain x w1 where x: "evict_next plan reason st rules w = (x, w1)" by force
    show ?thesis
    proof (cases x)
      case (Inr v)
      show ?thesis
      proof (cases v)
        case vv: (Some victim)
        obtain y w2 where y: "admission_survey need w1 = (y, w2)" by force
        show ?thesis
        proof (cases y)
          case p: (Inr plan2)
          have e: "evict_next plan reason st rules w = (Inr (Some victim), w1)" using x Inr vv by simp
          have "length (w_downloads w1) < length (w_downloads w)" "rows_ok w1"
            using evict_next_shrinks[OF e 2(3,4)] evict_next_others[OF e] 2(3) by blast+
          moreover have "plan_fits w2 plan2" "looked w1 w2"
            using admission_survey_from y p by (auto simp: admitted_from_def)
          ultimately have "make_room n st rules rel need plan2 w2 \<noteq> None"
            using 2(1)[OF Some x[symmetric] Inr vv y[symmetric] p] 2(2) looked_frame[of w1 w2]
            by (simp add: rows_ok_def)
          then show ?thesis using Some x Inr vv y p by simp
        qed (use Some x Inr vv y in simp)
      qed (use Some x Inr in simp)
    qed (use Some x in simp)
  qed simp
qed simp

lemma room_within_cap:
  assumes "admitted_from need plan w" "retention_deficit plan st \<noteq> Some ''cap''" "st_allocation_gb st > 0"
    "\<bar>stored_bytes w + (need + w_reserved w)\<bar> < 2 ^ 62" "\<bar>gigabytes_to_bytes (st_allocation_gb st)\<bar> < 2 ^ 62"
  shows "stored_bytes w + (need + w_reserved w) \<le> gigabytes_to_bytes (st_allocation_gb st)"
proof -
  have "i64 (rp_stored_bytes plan - gigabytes_to_bytes (st_allocation_gb st)) \<le> 0"
    using assms(2,3) by (auto simp: retention_deficit_def split: if_splits)
  moreover have "rp_stored_bytes plan = stored_bytes w + (need + w_reserved w)"
    using assms(1,4) by (simp add: admitted_from_def i64_id)
  ultimately show ?thesis
    using assms(4,5) by (simp add: i64_id)
qed

text \<open>
  Property C2: under an Allocation admission always answers.  On an error nothing is claimed.  When it lets a download in,
  the claim is what the request needs and is booked, only rows that were there remain, every one of them with an engine
  that tells what its torrent takes, and these bytes together with the claim and what other requests hold are within the
  Allocation, as long as the sum and the Allocation are less than 2^62 bytes.
\<close>

theorem admission_respects_allocation:
  assumes "rows_ok w" and "st_allocation_gb (w_settings w) > 0"
  shows "\<exists>r. ensure_allocation_room rel incoming answer held w = Some r \<and>
    (let need = (if incoming \<le> 0 then incoming_torrent_bytes answer rel else incoming);
         others = w_reserved (release_reservation held w);
         allocation = gigabytes_to_bytes (st_allocation_gb (w_settings w))
     in case r of
          (Some _, claim, _) \<Rightarrow> claim = 0
        | (None, claim, w') \<Rightarrow>
            claim = need \<and> w_reserved w' = i64 (others + need) \<and>
            set (w_downloads w') \<subseteq> set (w_downloads w) \<and> all_reported w' \<and>
            (\<bar>stored_bytes w' + (need + others)\<bar> < 2 ^ 62 \<and> \<bar>allocation\<bar> < 2 ^ 62 \<longrightarrow>
              stored_bytes w' + (need + others) \<le> allocation))"
proof -
  let ?w0 = "release_reservation held w" and ?st = "w_settings w"
  let ?rules = "normalize_eviction_rules (st_eviction_rules ?st)"
  have w0: "w_settings ?w0 = ?st" "w_downloads ?w0 = w_downloads w" by (simp_all add: release_reservation_def)
  define need where "need = (if incoming \<le> 0 then incoming_torrent_bytes answer rel else incoming)"
  obtain x w1 where x: "admission_survey need ?w0 = (x, w1)" by force
  show ?thesis
  proof (cases x)
    case (Inl e)
    then show ?thesis
      using assms(2) x w0 by (simp add: ensure_allocation_room_def Let_def need_def)
  next
    case (Inr plan)
    have adm: "admitted_from need plan w1" and l: "looked ?w0 w1" using admission_survey_from x Inr by blast+
    have same: "w_downloads w1 = w_downloads w" "w_reserved w1 = w_reserved ?w0"
      using looked_frame[OF l] w0 by (simp_all add: same_rest_def)
    have "rows_ok w1" "plan_fits w1 plan" using assms(1) same adm by (auto simp: rows_ok_def admitted_from_def)
    then obtain m where m: "make_room (length (w_downloads w1) + 1) ?st ?rules rel need plan w1 = Some m"
      using make_room_returns[of w1 "length (w_downloads w1) + 1"] by fastforce
    obtain y w2 where y: "m = (y, w2)" by force
    show ?thesis
    proof (cases y)
      case (Inl e)
      then show ?thesis
        using assms(2) x Inr w0 m y by (simp add: ensure_allocation_room_def Let_def need_def)
    next
      case p: (Inr plan2)
      have ans: "ensure_allocation_room rel incoming answer held w = Some (None, need, reserve need w2)"
        using assms(2) x Inr w0 m y p by (simp add: ensure_allocation_room_def Let_def need_def)
      have fin: "admitted_from need plan2 w2" "retention_deficit plan2 ?st \<noteq> Some ''cap''"
          "set (w_downloads w2) \<subseteq> set (w_downloads w)" "w_reserved w2 = w_reserved ?w0"
        using make_room_admits[OF m[unfolded y p] adm] same by auto
      have kept: "all_reported (reserve need w2) = all_reported w2" "stored_bytes (reserve need w2) = stored_bytes w2"
        "w_downloads (reserve need w2) = w_downloads w2" "w_reserved (reserve need w2) = i64 (w_reserved ?w0 + need)"
        using fin(4) reported_same[of w2 "reserve need w2"]
        by (simp_all add: reserve_def same_storage_def all_reported_def stored_bytes_def)
      have "all_reported w2" using fin(1) by (simp add: admitted_from_def)
      then show ?thesis
        using ans fin(3,4) room_within_cap[OF fin(1,2) assms(2)]
        by (simp add: kept Let_def need_def[symmetric])
    qed
  qed
qed

subsection \<open>Examples\<close>

definition sample_row :: "string \<Rightarrow> string \<Rightarrow> int \<Rightarrow> download" where
  "sample_row i route t = zero_download\<lparr>dl_id := i, dl_release_id := i, dl_engine_id := route,
     dl_progress := 1, dl_updated_at := t * second, dl_created_at := t * second\<rparr>"

definition sample_torrent_of :: "string \<Rightarrow> int \<Rightarrow> torrent" where
  "sample_torrent_of hash bytes = \<lparr>et_hash = hash,
     et_status = zero_download_status\<lparr>ds_hash := hash, ds_progress := 1, ds_total_bytes := bytes\<rparr>, et_files = []\<rparr>"

text \<open>Two finished torrents of 1 GiB each, the older one is being streamed; the Allocation is 1 GiB.\<close>

definition sample_world :: world where
  "sample_world = (blank_world ((defaults ''linux'')\<lparr>st_allocation_gb := 1, st_reserve_gb := 0\<rparr>))\<lparr>
     w_set := \<lparr>es_default = ''native:'', es_engines = [(''native:'',
        [sample_torrent_of ''h1'' (2 ^ 30), sample_torrent_of ''h2'' (2 ^ 30)])], es_init_errs = []\<rparr>,
     w_downloads := [sample_row ''a'' ''native:h1'' 10, sample_row ''b'' ''native:h2'' 20],
     w_leases := (\<lambda>_. 0)(''a'' := 1)\<rparr>"

lemma sample_world_ok: "rows_ok sample_world"
  by (simp add: rows_ok_def sample_world_def blank_world_def sample_row_def)

theorem run_retention_safe_witness:
  "\<exists>r w'. run_retention sample_world = Some (r, w') \<and> sample_row ''a'' ''native:h1'' 10 \<in> set (w_downloads w')"
proof -
  have "sample_row ''a'' ''native:h1'' 10 \<in> set (w_downloads sample_world)" by (simp add: sample_world_def blank_world_def)
  moreover have "held_row (w_settings sample_world) sample_world (sample_row ''a'' ''native:h1'' 10)"
    by (simp add: held_row_def sample_world_def blank_world_def world_row_leased_def lease_held_def sample_row_def defaults_def)
  ultimately show ?thesis using run_retention_safe[OF sample_world_ok] by blast
qed

definition roomy_world :: world where
  "roomy_world = sample_world\<lparr>w_settings := (defaults ''linux'')\<lparr>st_allocation_gb := 2, st_reserve_gb := 0\<rparr>\<rparr>"

lemma roomy_admits:
  "case ensure_allocation_room sample_release 0 (Inl (Meta_Row [])) 0 roomy_world of
     Some (None, claim, w') \<Rightarrow> claim = 12 \<and> map dl_id (w_downloads w') = [''a''] \<and> w_reserved w' = 12
   | _ \<Rightarrow> False"
  by code_simp

lemma roomy_ok: "rows_ok roomy_world" "st_allocation_gb (w_settings roomy_world) > 0"
  using sample_world_ok by (simp_all add: roomy_world_def rows_ok_def)

theorem admission_respects_allocation_witness:
  "\<exists>w'. ensure_allocation_room sample_release 0 (Inl (Meta_Row [])) 0 roomy_world = Some (None, 12, w') \<and>
     all_reported w' \<and> set (w_downloads w') \<subseteq> set (w_downloads roomy_world) \<and> w_reserved w' = 12"
proof -
  obtain w' where e: "ensure_allocation_room sample_release 0 (Inl (Meta_Row [])) 0 roomy_world = Some (None, 12, w')"
      "w_reserved w' = 12"
    using roomy_admits by (auto split: option.splits prod.splits)
  have "w_downloads (release_reservation 0 roomy_world) = w_downloads roomy_world" by (simp add: release_reservation_def)
  with e admission_respects_allocation[OF roomy_ok, of sample_release 0 "Inl (Meta_Row [])" 0]
  show ?thesis by (simp add: Let_def)
qed

definition sample_survey :: "(svc_error + retention_plan) \<times> world" where
  "sample_survey = retention_survey sample_world"

lemma sample_survey_plan:
  "case sample_survey of
     (Inr plan, w) \<Rightarrow> (case evict_next plan ''cap'' (w_settings w) [''oldest-completed''] w of
        (Inr (Some v), _) \<Rightarrow> rr_engine_id v = ''native:h2'' | _ \<Rightarrow> False)
   | _ \<Rightarrow> False"
  by code_simp

lemma sample_survey_ok: "sample_survey = (Inr plan, w) \<Longrightarrow> rows_ok w"
  using survey_kept[of sample_world] sample_world_ok by (auto simp: sample_survey_def)

theorem eviction_victim_witness:
  "\<exists>plan w victim w'. evict_next plan ''cap'' (w_settings w) [''oldest-completed''] w = (Inr (Some victim), w') \<and>
     rr_engine_id victim = ''native:h2'' \<and> \<not> retention_protected w victim (w_settings w)"
proof -
  obtain plan w where s: "sample_survey = (Inr plan, w)"
    using sample_survey_plan by (auto split: prod.splits sum.splits)
  obtain r w' where r: "evict_next plan ''cap'' (w_settings w) [''oldest-completed''] w = (r, w')"
    by (metis surj_pair)
  have "\<exists>v. r = Inr (Some v) \<and> rr_engine_id v = ''native:h2''"
    using sample_survey_plan unfolding s r prod.case sum.case by (cases r) (auto split: option.splits)
  then obtain v where rv: "r = Inr (Some v)" and v: "rr_engine_id v = ''native:h2''" by blast
  note e = r[unfolded rv]
  from eviction_victim[OF e sample_survey_ok[OF s]] show ?thesis using e v by blast
qed

theorem enforce_outcome_witness:
  "\<exists>plan w r. enforce (length (w_downloads w) + 1) (w_settings w) [''largest''] zero_job 0 0 plan w = Some r \<and>
     loop_end (w_settings w) [''largest''] plan w 0 r"
proof -
  obtain plan w where s: "retention_survey sample_world = (Inr plan, w)"
    using sample_survey_plan by (auto simp: sample_survey_def split: prod.splits sum.splits)
  from enforce_outcome[OF s sample_world_ok] show ?thesis by blast
qed

end
