(* ===== verification/Download_Facts.thy ===== *)
theory Download_Facts
  imports Download_Manage Retention_Facts
begin

text \<open>
  What preparing, managing and listing downloads guarantee.  \<open>calm\<close> is the frame of everything but the
  admission: claims, leases, settings and trackers stay.  From it follow the balance of the Allocation
  claims (\<open>prepare_gives_back\<close>, \<open>prepare_season_gives_back\<close>), the protection of streamed downloads
  (\<open>manage_keeps_streamed\<close>), the stability of the rows under a refresh (\<open>downloads_view_stable\<close>) and the
  place of a new download (\<open>place_torrent_places\<close>).
\<close>

named_theorems calm_rules \<open>operations that leave the claims, leases, settings and trackers alone\<close>

definition calm :: "world \<Rightarrow> world \<Rightarrow> bool" where
  "calm w w' = (w_reserved w' = w_reserved w \<and> w_leases w' = w_leases w \<and> w_settings w' = w_settings w \<and>
     w_registry w' = w_registry w \<and> (rows_ok w \<longrightarrow> rows_ok w'))"

lemma calm_refl [simp, calm_rules]: "calm w w"
  by (simp add: calm_def)

lemma calm_trans: "calm a b \<Longrightarrow> calm b c \<Longrightarrow> calm a c"
  by (simp add: calm_def)

lemma calm_looked: "looked w w' \<Longrightarrow> calm w w'"
  by (auto simp: looked_def calm_def rows_ok_def)

lemma calm_same_rest: "same_rest w w' \<Longrightarrow> (rows_ok w \<Longrightarrow> rows_ok w') \<Longrightarrow> calm w w'"
  by (simp add: same_rest_def calm_def)

lemma calm_bindw [calm_rules]:
  "calm w (snd m) \<Longrightarrow> (\<And>x v. m = (Inr x, v) \<Longrightarrow> calm v (snd (f x v))) \<Longrightarrow> calm w (snd (bindw m f))"
  by (auto simp: bindw_def split: prod.splits sum.splits intro: calm_trans)

lemma calm_lift [calm_rules]: "calm w (snd m) \<Longrightarrow> calm w (snd (lift_svc m))"
  "calm w (snd m') \<Longrightarrow> calm w (snd (lift_err m'))"
  by (auto simp: lift_svc_def lift_err_def split: prod.splits sum.splits option.splits)

lemma calm_lift_path [calm_rules]: "calm w v \<Longrightarrow> calm w (snd (lift_path r v))"
  by (auto simp: lift_path_def split: sum.splits)

lemma calm_calls [calm_rules]:
  "calm w (snd (list_downloads w))" "calm w (snd (get_download i w))" "calm w (snd (save_download d w))"
  "calm w (snd (delete_download i w))" "calm w (snd (title_ids_for ids w))" "calm w (snd (get_release i w))"
  "calm w (snd (find_download i n w))" "calm w (snd (projected_title_id i w))" "calm w (snd (get_catalog_metadata i w))"
  "calm w (snd (route_status route hash w))" "calm w (snd (route_files route hash w))"
  "calm w (snd (engine_call env op route hash w))" "calm w (snd (remove_release i w))"
  by (auto simp: list_downloads_def get_download_def save_download_def delete_download_def title_ids_for_def
      get_release_def find_download_def projected_title_id_def get_catalog_metadata_def route_status_def
      engine_status_def route_files_def engine_call_def remove_release_def attempt_def calm_def rows_ok_def
      delete_row_def distinct_map_filter intro!: distinct_upsert split: option.splits list.splits)

lemma calm_enrich [calm_rules]: "calm w (snd (enrich_download rel tid d w))"
  using calm_calls(9)[of w "dl_title_id (name_download rel tid d)"]
  by (auto simp: enrich_download_def Let_def split: prod.splits sum.splits)

lemma calm_keep_created [calm_rules]: "calm w (snd (keep_created d w))"
  using calm_calls(2)[of w "dl_id d"] by (auto simp: keep_created_def split: prod.splits sum.splits)

lemma calm_keep_manifest [calm_rules]: "calm w (keep_manifest m w)"
  by (simp add: keep_manifest_def calm_def rows_ok_def split: prod.split)

lemma calm_indices [calm_rules]: "calm w (snd (managed_torrent_indices route files extra w))"
  using calm_calls(1)[of w] by (auto simp: managed_torrent_indices_def Let_def split: prod.split)

lemma calm_split: "calm w (snd p) \<Longrightarrow> (\<And>x v. p = (x, v) \<Longrightarrow> calm v (snd (f x v))) \<Longrightarrow>
    calm w (snd (case p of (x, v) \<Rightarrow> f x v))"
  by (cases p) (auto intro: calm_trans)

lemma calm_store_file_row [calm_rules]: "calm w (snd (store_file_row env rel route f st w))"
  unfolding store_file_row_def Let_def
  by (intro calm_rules calm_split) (simp_all add: calm_refl)

lemma calm_name_row [calm_rules]: "calm w (snd (name_row rel d w))"
  unfolding name_row_def Let_def by (intro calm_rules calm_split) simp_all

lemma calm_resume [calm_rules]: "calm w (snd (resume_if_paused env route hash st w))"
  using calm_calls(12)[of w env Op_Resume route hash]
  by (auto simp: resume_if_paused_def split: prod.splits option.splits)

lemma calm_save_live [calm_rules]: "calm w (snd (save_live_row f st d w))"
  unfolding save_live_row_def Let_def by (auto intro!: calm_rules)

lemma calm_prepare_managed [calm_rules]: "calm w (snd (prepare_managed_download env d w))"
  unfolding prepare_managed_download_def Let_def
  by (auto split: sum.splits option.splits intro!: calm_rules calm_split)

lemma calm_store_season_rows [calm_rules]:
  "calm w (snd (store_season_rows env rel route tid st now fs w))"
  by (induction fs arbitrary: w) (auto simp: Let_def intro!: calm_rules calm_split)

lemma calm_store_season [calm_rules]: "calm w (snd (store_season env add rel season route hash w))"
  unfolding store_season_def Let_def
  by (auto split: sum.splits intro!: calm_rules calm_split intro: calm_trans)

lemma calm_prepare_existing [calm_rules]: "calm w (snd (prepare_existing_torrent_file env rel i w))"
  unfolding prepare_existing_torrent_file_def Let_def
  by (auto split: sum.splits option.splits prod.splits intro!: calm_rules calm_split)

lemma calm_engine_add [calm_rules]: "calm w (snd (engine_add t w))"
  by (auto simp: engine_add_def attempt_def Let_def calm_def rows_ok_def split: option.splits)

lemma calm_place [calm_rules]: "calm w (snd (place_torrent env add rel i data w))"
  unfolding place_torrent_def Let_def
  by (auto split: sum.splits option.splits intro!: calm_rules calm_split)

subsection \<open>Reservations\<close>

lemma calm_evict: "evict_next plan reason st rules w = (r, w') \<Longrightarrow> calm w w'"
proof -
  assume a: "evict_next plan reason st rules w = (r, w')"
  obtain x w1 where x: "remove_torrent (rr_engine_id (hd (apply_eviction_rules
      (filter (\<lambda>r. \<not> retention_protected w r st) (rp_routes plan)) rules))) w = (x, w1)" by force
  have "calm w w1" using remove_torrent_frame[OF x] calm_same_rest[of w w1] by blast
  then show ?thesis using a x
    by (auto simp: evict_next_def Let_def publish_def calm_def rows_ok_def split: if_splits option.splits)
qed

lemma calm_survey: "retention_survey w = (r, w') \<Longrightarrow> calm w w'"
  using retention_survey_looked calm_looked by blast

lemma calm_admission_survey: "admission_survey n w = (r, w') \<Longrightarrow> calm w w'"
  using calm_survey by (auto simp: admission_survey_def split: prod.splits sum.splits if_splits)

lemma calm_make_room: "make_room n st rules rel need plan w = Some (r, w') \<Longrightarrow> calm w w'"
proof (induction n st rules rel need plan w rule: make_room.induct)
  case (2 n st rules rel need plan w)
  show ?case
  proof (cases "retention_deficit plan st")
    case (Some reason)
    obtain x w1 where x: "evict_next plan reason st rules w = (x, w1)" by force
    have c: "calm w w1" using calm_evict[OF x] .
    consider e where "x = Inl e" | "x = Inr None" | v where "x = Inr (Some v)" by (cases x) auto
    then show ?thesis
    proof cases
      case (3 v)
      obtain y w2 where y: "admission_survey need w1 = (y, w2)" by force
      have d: "calm w w2" using calm_trans[OF c calm_admission_survey[OF y]] .
      show ?thesis
      proof (cases y)
        case (Inr plan2)
        then have "calm w2 w'" using "2.IH"[OF Some x[symmetric] 3 refl y[symmetric] Inr] "2.prems" Some x 3 y by simp
        then show ?thesis using d calm_trans by blast
      qed (use "2.prems" Some x 3 y d in simp)
    qed (use "2.prems" Some x c in \<open>auto split: if_splits\<close>)
  qed (use "2.prems" in simp)
qed simp

lemma i64_i64 [simp]: "i64 (i64 x) = i64 x"
  using i64_add_left[of x 0] by simp

lemma i64_undo: "i64 (i64 (x + c) - c) = i64 x"
  using i64_add_left[of "x + c" "- c"] by simp

lemma release_reserved: "w_reserved (release_reservation c w) = (if c = 0 then w_reserved w else i64 (w_reserved w - c))"
  by (simp add: release_reservation_def)

lemma release_fields [simp]: "w_leases (release_reservation c w) = w_leases w"
  "w_settings (release_reservation c w) = w_settings w" "w_registry (release_reservation c w) = w_registry w"
  "rows_ok (release_reservation c w) = rows_ok w" "rows_ok (reserve c w) = rows_ok w"
  by (simp_all add: release_reservation_def reserve_def rows_ok_def)

text \<open>What a request holds afterwards is exactly what it added to the common claim.\<close>

lemma ensure_room_reserved:
  assumes "ensure_allocation_room rel incoming answer held w = Some (e, claim, w')"
    and "i64 (w_reserved w) = w_reserved w"
  shows "w_reserved w' = i64 (w_reserved (release_reservation held w) + claim) \<and> w_leases w' = w_leases w \<and>
    w_settings w' = w_settings w \<and> w_registry w' = w_registry w \<and> (rows_ok w \<longrightarrow> rows_ok w')"
proof -
  let ?free = "release_reservation held w"
  have r0: "i64 (w_reserved ?free) = w_reserved ?free" using assms(2) by (simp add: release_reserved)
  have f0: "w_leases ?free = w_leases w" "w_settings ?free = w_settings w" "w_registry ?free = w_registry w"
    by (simp_all add: release_reservation_def)
  have calm: "calm ?free v \<Longrightarrow> w_reserved v = w_reserved ?free \<and> w_leases v = w_leases w \<and>
      w_settings v = w_settings w \<and> w_registry v = w_registry w \<and> (rows_ok w \<longrightarrow> rows_ok v)" for v
    using f0 by (simp add: calm_def)
  define need where "need = (if incoming \<le> 0 then incoming_torrent_bytes answer rel else incoming)"
  show ?thesis
  proof (cases "st_allocation_gb (w_settings ?free) \<le> 0")
    case True
    then show ?thesis using assms(1) f0 r0 by (auto simp: ensure_allocation_room_def Let_def)
  next
    case False
    obtain x w1 where x: "admission_survey need ?free = (x, w1)" by force
    note c1 = calm_admission_survey[OF x]
    show ?thesis
    proof (cases x)
      case (Inl err)
      then show ?thesis using assms(1) False x calm[OF c1] r0
        by (auto simp: ensure_allocation_room_def Let_def need_def)
    next
      case (Inr plan)
      obtain y w2 where y: "make_room (length (w_downloads w1) + 1) (w_settings ?free)
          (normalize_eviction_rules (st_eviction_rules (w_settings ?free))) rel need plan w1 = Some (y, w2)"
        using assms(1) False x Inr by (auto simp: ensure_allocation_room_def Let_def need_def split: option.splits)
      note c2 = calm[OF calm_trans[OF c1 calm_make_room[OF y]]]
      show ?thesis
        using assms(1) False x Inr y c2 r0
        by (cases y) (auto simp: ensure_allocation_room_def Let_def need_def reserve_def rows_ok_def)
    qed
  qed
qed

lemma manifest_for_calm: "calm w (snd (manifest_for add rel w))"
  by (auto simp: manifest_for_def with_store_def calm_def rows_ok_def)

lemma admit_reserved:
  assumes "admit add rel incoming held w = Some (r, w')" and "i64 (w_reserved w) = w_reserved w"
  shows "w_reserved w' = i64 (w_reserved (release_reservation held w) + (case r of Inl _ \<Rightarrow> 0 | Inr claim \<Rightarrow> claim)) \<and>
    w_leases w' = w_leases w \<and> w_settings w' = w_settings w \<and> w_registry w' = w_registry w \<and>
    (rows_ok w \<longrightarrow> rows_ok w')"
proof -
  obtain answer w1 where a: "(if st_allocation_gb (w_settings w) > 0 \<and> incoming \<le> 0
      then manifest_for add rel w else (Inl (Meta_Row []), w)) = (answer, w1)" by force
  then have c: "calm w w1" using manifest_for_calm[of w add rel] by (auto split: if_splits)
  obtain e claim w2 where e: "ensure_allocation_room rel incoming answer held w1 = Some (e, claim, w2)"
      "w2 = w'" "r = (case e of None \<Rightarrow> Inr claim | Some e \<Rightarrow> Inl (Ctl_Service e))"
    using assms(1) a by (auto simp: admit_def Let_def)
  have z: "e \<noteq> None \<Longrightarrow> claim = 0"
    using e(1) by (auto simp: ensure_allocation_room_def Let_def split: if_splits prod.splits sum.splits option.splits)
  have "w_reserved (release_reservation held w1) = w_reserved (release_reservation held w)"
    using c by (simp add: release_reserved calm_def)
  then show ?thesis using ensure_room_reserved[OF e(1)] assms(2) c e(2,3) z
    by (auto simp: calm_def split: option.splits)
qed

lemma metainfo_failed_calm: "metainfo_failed add rel e w = (err, w') \<Longrightarrow> calm w w'"
  using calm_calls(13)[of w "rel_id rel"]
  by (auto simp: metainfo_failed_def remove_dead_release_def job_log_entry_def publish_def calm_def rows_ok_def
      split: meta_error.splits if_splits prod.splits option.splits)

lemma metainfo_for_calm: "metainfo_for add rel w = (r, w') \<Longrightarrow> calm w w'"
  by (auto simp: metainfo_for_def calm_def rows_ok_def)

lemma release_of_calm: "calm v v' \<Longrightarrow> calm (release_reservation c v) (release_reservation c v')"
  by (simp add: release_reserved calm_def)

lemma with_admission_reserved:
  assumes "with_admission add rel k w = Some (r, w')" and "i64 (w_reserved w) = w_reserved w"
    and "\<And>data v. calm v (snd (k data v))"
  shows "calm w w'"
proof -
  obtain a w1 where a: "admit add rel 0 0 w = Some (a, w1)"
    using assms(1) by (auto simp: with_admission_def split: option.splits)
  have r0: "w_reserved (release_reservation 0 w) = w_reserved w" by (simp add: release_reserved)
  note A = admit_reserved[OF a assms(2)]
  show ?thesis
  proof (cases a)
    case (Inl e)
    then show ?thesis using assms(1) a A r0 assms(2) by (simp add: with_admission_def calm_def)
  next
    case (Inr claim)
    have undone: "calm w (release_reservation claim v)" if "calm w1 v" for v
    proof -
      have "calm (release_reservation claim w1) (release_reservation claim v)" using release_of_calm[OF that] .
      moreover have "calm w (release_reservation claim w1)"
        using A r0 Inr assms(2) i64_undo[of "w_reserved w" claim]
        by (simp add: calm_def release_reserved)
      ultimately show ?thesis using calm_trans by blast
    qed
    obtain m w2 where m: "metainfo_for add rel w1 = (m, w2)" by force
    have c2: "calm w1 w2" using metainfo_for_calm[OF m] .
    show ?thesis
    proof (cases m)
      case (Inl e)
      obtain err w3 where f: "metainfo_failed add rel e w2 = (err, w3)" by force
      have "calm w1 w3" using calm_trans[OF c2 metainfo_failed_calm[OF f]] .
      from undone[OF this] show ?thesis using assms(1) a Inr m Inl f by (simp add: with_admission_def)
    next
      case data: (Inr data)
      show ?thesis
      proof (cases "parse_torrent_manifest (rel_id rel) data (now_of w2)")
        case (Inl e)
        then show ?thesis using undone[OF c2] assms(1) a Inr m data by (simp add: with_admission_def)
      next
        case man: (Inr man)
        let ?mid = "keep_manifest (man\<lparr>man_metainfo := data\<rparr>) w2"
        let ?inc = "if manifest_total man > 0 then manifest_total man else rel_size_bytes rel"
        have c3: "calm w1 ?mid" using calm_trans[OF c2 calm_keep_manifest] .
        then have R3: "w_reserved ?mid = w_reserved w1" by (simp add: calm_def)
        have i3: "i64 (w_reserved ?mid) = w_reserved ?mid" using A R3 by simp
        obtain q where q: "(if ?inc > rel_size_bytes rel then admit add rel ?inc claim ?mid
            else Some (Inr claim, ?mid)) = Some q"
          using assms(1) a Inr m data man by (auto simp: with_admission_def Let_def split: option.splits)
        obtain s w4 where "q = (s, w4)" by force
        note s = q[unfolded this]
        have S: "calm w (case s of Inl _ \<Rightarrow> w4 | Inr c \<Rightarrow> release_reservation c w4)"
        proof (cases "?inc > rel_size_bytes rel")
          case True
          then have s': "admit add rel ?inc claim ?mid = Some (s, w4)" using s by simp
          note B = admit_reserved[OF s' i3]
          have b: "calm w (release_reservation claim ?mid)" using undone[OF c3] .
          show ?thesis
          proof (cases s)
            case (Inl e)
            then show ?thesis using B b assms(2) by (simp add: calm_def)
          next
            case (Inr c)
            then show ?thesis using B b assms(2) i64_undo[of "w_reserved w" c]
              by (simp add: calm_def release_reserved)
          qed
        next
          case False
          then show ?thesis using s undone[OF c3] by auto
        qed
        show ?thesis
        proof (cases s)
          case (Inl e)
          then show ?thesis using S assms(1) a Inr m data man s by (simp add: with_admission_def Let_def)
        next
          case c: (Inr c)
          have "calm (release_reservation c w4) (release_reservation c (snd (k data w4)))"
            using release_of_calm assms(3) by blast
          then have "calm w (release_reservation c (snd (k data w4)))" using S c calm_trans by auto
          then show ?thesis using assms(1) a Inr m data man s c by (simp add: with_admission_def Let_def split: prod.splits)
        qed
      qed
    qed
  qed
qed


subsection \<open>Every request is answered\<close>

lemma ensure_room_returns: "rows_ok w \<Longrightarrow> ensure_allocation_room rel incoming answer held w \<noteq> None"
proof -
  assume "rows_ok w"
  then have ok: "rows_ok (release_reservation held w)" by simp
  define need where "need = (if incoming \<le> 0 then incoming_torrent_bytes answer rel else incoming)"
  obtain x w1 where x: "admission_survey need (release_reservation held w) = (x, w1)" by force
  have ok1: "rows_ok w1" using calm_admission_survey[OF x] ok by (simp add: calm_def)
  show ?thesis
  proof (cases x)
    case (Inr plan)
    then have "plan_fits w1 plan" using admission_survey_from x by (auto simp: admitted_from_def)
    then have "make_room (length (w_downloads w1) + 1) st rules rel need plan w1 \<noteq> None" for st rules
      by (intro make_room_returns ok1) simp_all
    then obtain r w2 where "make_room (length (w_downloads w1) + 1) (w_settings (release_reservation held w))
        (normalize_eviction_rules (st_eviction_rules (w_settings (release_reservation held w)))) rel need plan w1 =
        Some (r, w2)"
      by fastforce
    then show ?thesis using x Inr unfolding ensure_allocation_room_def Let_def need_def[symmetric]
      by (simp split: sum.splits)
  qed (use x in \<open>simp add: ensure_allocation_room_def Let_def need_def\<close>)
qed

lemma admit_returns: "rows_ok w \<Longrightarrow> admit add rel incoming held w \<noteq> None"
proof -
  assume ok: "rows_ok w"
  obtain a w1 where m: "manifest_for add rel w = (a, w1)" by force
  have "rows_ok w1" using manifest_for_calm[of w add rel] m ok by (simp add: calm_def)
  then have "(ensure_allocation_room rel incoming answer held w1 = None) = False"
      "(ensure_allocation_room rel incoming answer held w = None) = False" for answer
    using ok ensure_room_returns by blast+
  then show ?thesis using m by (simp add: admit_def Let_def del: not_None_eq)
qed

lemma with_admission_returns:
  assumes "rows_ok w" and "i64 (w_reserved w) = w_reserved w"
  shows "with_admission add rel k w \<noteq> None"
proof -
  obtain a w1 where a: "admit add rel 0 0 w = Some (a, w1)" using admit_returns[OF assms(1)] by fastforce
  have ok1: "rows_ok w1" using admit_reserved[OF a assms(2)] assms(1) by simp
  obtain m w2 where m: "metainfo_for add rel w1 = (m, w2)" by force
  have ok2: "rows_ok w2" using metainfo_for_calm[OF m] ok1 by (simp add: calm_def)
  have "rows_ok (keep_manifest man w2)" for man using calm_keep_manifest[of w2 man] ok2 by (simp add: calm_def)
  then have no: "(admit add rel inc claim (keep_manifest man w2) = None) = False" for inc claim man
    using admit_returns by blast
  show ?thesis using a m
    by (auto simp: with_admission_def Let_def no split: sum.splits option.splits prod.splits)
qed

lemma prepare_new_answers:
  assumes "rows_ok w" and "i64 (w_reserved w) = w_reserved w"
  shows "\<exists>r w'. prepare_new env add rel i w = Some (r, w') \<and> calm w w'"
proof (cases "require_eligible (w_registry w) (w_settings w) (rel_tracker_id rel)")
  case (Inr x)
  obtain r w' where r: "with_admission add rel (place_torrent env add rel i) w = Some (r, w')"
    using with_admission_returns[OF assms] by fastforce
  have "calm w w'" by (rule with_admission_reserved[OF r assms(2)]) (rule calm_place)
  then show ?thesis using Inr r by (simp add: prepare_new_def)
qed (simp add: prepare_new_def)

lemma season_new_answers:
  assumes "rows_ok w" and "i64 (w_reserved w) = w_reserved w"
  shows "\<exists>r w'. season_new env add rel n absent w = Some (r, w') \<and> calm w w'"
proof (cases "absent \<noteq> [] \<or> (\<exists>e. require_eligible (w_registry w) (w_settings w) (rel_tracker_id rel) = Inl e)")
  case False
  let ?k = "\<lambda>data w. bindw (engine_add (ae_torrent add data) w)
      (\<lambda>hash w'. store_season env add rel n (es_default (w_set w') @ hash) hash w')"
  obtain r w' where r: "with_admission add rel ?k w = Some (r, w')"
    using with_admission_returns[OF assms] by fastforce
  have "calm w w'" by (rule with_admission_reserved[OF r assms(2)]) (intro calm_rules)
  then show ?thesis using False r by (auto simp: season_new_def split: sum.splits)
qed (auto simp: season_new_def)

text \<open>
  Property C14: preparing a file for playback always answers, whatever calls fail, and every way out gives
  back the bytes it claimed on the Allocation: afterwards the claims of the other requests, the stream
  leases, the settings and the registered trackers are as before, and no two rows share an id.
\<close>

theorem prepare_gives_back:
  assumes "rows_ok w" and "- (2 ^ 63) \<le> w_reserved w" "w_reserved w < 2 ^ 63"
  shows "\<exists>r w'. prepare env add rid i w = Some (r, w') \<and> w_reserved w' = w_reserved w \<and>
    w_leases w' = w_leases w \<and> w_settings w' = w_settings w \<and> w_registry w' = w_registry w \<and> rows_ok w'"
proof -
  have i: "i64 (w_reserved w) = w_reserved w" using assms(2,3) by (simp add: i64_id)
  have finish: "\<exists>r w'. prepare env add rid i w = Some (r, w') \<and> calm w w' \<Longrightarrow> ?thesis"
    using assms(1) by (auto simp: calm_def)
  obtain x w1 where x: "get_release rid w = (x, w1)" by force
  have c1: "calm w w1" using calm_calls(6)[of w rid] x by simp
  show ?thesis
  proof (cases x)
    case (Inl e)
    then show ?thesis using x c1 finish by (auto simp: prepare_def)
  next
    case (Inr rel)
    obtain y w2 where y: "find_download rid i w1 = (y, w2)" by force
    have c2: "calm w w2" using calm_trans[OF c1] calm_calls(7)[of w1 rid i] y by simp
    consider row where "y = Inr row" | e where "y = Inl e" "e \<noteq> No_Rows" | "y = Inl No_Rows" by (cases y) auto
    then show ?thesis
    proof cases
      case (1 row)
      obtain r w' where b: "bindw (name_row rel row w2) (prepare_managed_download env) = (r, w')" by force
      have "calm w2 w'" using calm_bindw[of w2 "name_row rel row w2" "prepare_managed_download env",
        OF calm_name_row calm_prepare_managed] b by simp
      then have "calm w w'" using c2 calm_trans by blast
      then show ?thesis using finish x Inr y 1 b by (simp add: prepare_def)
    next
      case (2 e)
      then show ?thesis using finish x Inr y c2 by (cases e) (auto simp: prepare_def)
    next
      case 3
      obtain z w3 where z: "prepare_existing_torrent_file env rel i w2 = (z, w3)" by force
      have c3: "calm w w3" using calm_trans[OF c2] calm_prepare_existing[of w2 env rel i] z by simp
      show ?thesis
      proof (cases "z = Inl (Ctl_Service No_Rows)")
        case True
        have "rows_ok w3" "i64 (w_reserved w3) = w_reserved w3" using c3 assms(1) i by (simp_all add: calm_def)
        then obtain r w' where r: "prepare_new env add rel i w3 = Some (r, w')" "calm w3 w'"
          using prepare_new_answers by blast
        then have "calm w w'" using c3 calm_trans by blast
        then show ?thesis using finish x Inr y 3 z True r by (simp add: prepare_def)
      next
        case False
        then have "\<exists>r. prepare env add rid i w = Some (r, w3)" using x Inr y 3 z
          by (auto simp: prepare_def split: sum.splits control_error.splits svc_error.splits)
        then show ?thesis using finish c3 by blast
      qed
    qed
  qed
qed

text \<open>
  The same of the preparation of a season.
\<close>

theorem prepare_season_gives_back:
  assumes "rows_ok w" and "- (2 ^ 63) \<le> w_reserved w" "w_reserved w < 2 ^ 63"
  shows "\<exists>r w'. prepare_season env add rid season w = Some (r, w') \<and> w_reserved w' = w_reserved w \<and>
    w_leases w' = w_leases w \<and> w_settings w' = w_settings w \<and> w_registry w' = w_registry w \<and> rows_ok w'"
proof -
  have i: "i64 (w_reserved w) = w_reserved w" using assms(2,3) by (simp add: i64_id)
  have finish: "\<exists>r w'. prepare_season env add rid season w = Some (r, w') \<and> calm w w' \<Longrightarrow> ?thesis"
    using assms(1) by (auto simp: calm_def)
  obtain x w1 where x: "get_release rid w = (x, w1)" by force
  have c1: "calm w w1" using calm_calls(6)[of w rid] x by simp
  show ?thesis
  proof (cases x)
    case (Inl e)
    then show ?thesis using x c1 finish by (auto simp: prepare_season_def)
  next
    case (Inr rel)
    show ?thesis
    proof (cases "pr_kind (parse_release rel) \<noteq> media_series \<or> rel_file_count rel \<le> 1")
      case True
      then show ?thesis using x c1 finish Inr by (auto simp: prepare_season_def)
    next
      case False
      obtain rows w2 where l: "list_downloads w1 = (rows, w2)" by force
      have c2: "calm w w2" using calm_trans[OF c1] calm_calls(1)[of w1] l by simp
      obtain owned absent where o: "first_owned rid (case rows of Inl _ \<Rightarrow> [] | Inr ds \<Rightarrow> ds) [] w2 = (owned, absent)" by force
      have ok: "rows_ok w2" "i64 (w_reserved w2) = w_reserved w2" using c2 assms(1) i by (simp_all add: calm_def)
      obtain r w' where n: "season_new env add rel (season_number rel season) absent w2 = Some (r, w')" "calm w2 w'"
        using season_new_answers[OF ok] by blast
      have cn: "calm w w'" using c2 n(2) calm_trans by blast
      have cs: "calm w (snd (store_season env add rel s route hash w2))" for s route hash
        using calm_trans[OF c2 calm_store_season] .
      show ?thesis using finish x Inr False l o n(1) cn cs
        by (auto simp: prepare_season_def Let_def split: option.splits if_splits) (metis prod.collapse)+
    qed
  qed
qed

definition quiet_control :: control_env where
  "quiet_control = \<lparr>ce_cwd = None, ce_stat = (\<lambda>_. Stat_Error), ce_effect = (\<lambda>_ t. t), ce_sha = (\<lambda>s. s)\<rparr>"

definition sample_add :: add_env where
  "sample_add = \<lparr>ae_sources = sample_env, ae_torrent = (\<lambda>_. sample_torrent_of ''h3'' 10), ae_polls = [],
     ae_removed = (\<lambda>_. False)\<rparr>"

text \<open>The sample world with the release of the sample torrent and another request's claim of 5 bytes.\<close>

definition claimed_world :: world where
  "claimed_world = sample_world\<lparr>w_releases := [sample_release], w_reserved := 5\<rparr>"

lemma claimed_world_ok: "rows_ok claimed_world" "w_reserved claimed_world = 5"
  using sample_world_ok by (simp_all add: claimed_world_def rows_ok_def)

theorem prepare_gives_back_witness:
  "\<exists>r w'. prepare quiet_control sample_add ''r1'' 0 claimed_world = Some (r, w') \<and> w_reserved w' = 5"
  using prepare_gives_back[OF claimed_world_ok(1), of quiet_control sample_add "''r1''" 0] claimed_world_ok(2) by auto

theorem prepare_season_gives_back_witness:
  "\<exists>r w'. prepare_season quiet_control sample_add ''r1'' 2 claimed_world = Some (r, w') \<and> w_reserved w' = 5"
  using prepare_season_gives_back[OF claimed_world_ok(1), of quiet_control sample_add "''r1''" 2] claimed_world_ok(2)
  by auto

subsection \<open>A streamed download is never removed by hand\<close>

lemma save_download_ids:
  "save_download d w = (r, w') \<Longrightarrow> dl_id ` set (w_downloads w) \<subseteq> dl_id ` set (w_downloads w')"
proof -
  assume a: "save_download d w = (r, w')"
  have ids: "key ` set (upsert key x xs) = insert (key x) (key ` set xs)" for key :: "download \<Rightarrow> string" and x xs
    by (induction xs) auto
  show ?thesis using a by (auto simp: save_download_def attempt_def ids split: option.splits)
qed

lemma mark_rows_ids:
  "mark_rows route action ds w = (r, w') \<Longrightarrow> dl_id ` set (w_downloads w) \<subseteq> dl_id ` set (w_downloads w')"
proof (induction route action ds w arbitrary: r w' rule: mark_rows.induct)
  case (2 route action d ds w)
  obtain e w1 where s: "save_download (d\<lparr>dl_state := action, dl_updated_at := now_of w\<rparr>) w = (e, w1)" by force
  have "dl_id ` set (w_downloads w) \<subseteq> dl_id ` set (w_downloads w1)" using save_download_ids[OF s] .
  moreover have "dl_id ` set (w_downloads w1) \<subseteq> dl_id ` set (w_downloads w')"
    if "dl_engine_id d = route" "e = None"
    using 2 s that by auto
  ultimately show ?case using 2(1)[of r w'] 2(3) s by (cases "dl_engine_id d = route"; cases e) auto
qed simp

lemma mark_managed_ids:
  "mark_managed route action w = (r, w') \<Longrightarrow> dl_id ` set (w_downloads w) \<subseteq> dl_id ` set (w_downloads w')"
proof -
  assume a: "mark_managed route action w = (r, w')"
  obtain x w1 where l: "list_downloads w = (x, w1)" by force
  have "w_downloads w1 = w_downloads w" using looked_frame[OF list_downloads_looked[OF l]] by simp
  then show ?thesis using a l mark_rows_ids[of route action _ w1 r w']
    by (cases x) (auto simp: mark_managed_def)
qed

lemma engine_call_rows: "engine_call env op route hash w = (r, w') \<Longrightarrow> w_downloads w' = w_downloads w"
  by (auto simp: engine_call_def attempt_def split: option.splits)

lemma get_download_looked: "get_download i w = (r, w') \<Longrightarrow> looked w w'"
  by (auto simp: get_download_def split: prod.splits option.splits dest: attempt_looked)

lemma remove_managed_keeps:
  assumes "remove_managed route w = (r, w')" and "rows_ok w" "x \<in> set (w_downloads w)" "world_row_leased w x"
  shows "x \<in> set (w_downloads w')"
proof -
  obtain y w1 where l: "list_downloads w = (y, w1)" by force
  have f: "w_downloads w1 = w_downloads w" "w_leases w1 = w_leases w"
    using looked_frame[OF list_downloads_looked[OF l]] by (simp_all add: same_rest_def)
  show ?thesis
  proof (cases y)
    case (Inr rows)
    have rows: "set rows = set (w_downloads w)" using list_downloads_rows l Inr by (metis set_mset_mset)
    show ?thesis
    proof (cases "list_ex (\<lambda>x. dl_engine_id x = route \<and> world_row_leased w1 x) rows")
      case False
      then have "dl_engine_id x \<noteq> route" using assms(3,4) rows f by (auto simp: list_ex_iff world_row_leased_def)
      moreover have "remove_torrent route w1 = (fst (remove_torrent route w1), w')"
        using assms(1) l Inr False by (auto simp: remove_managed_def svc_result_def)
      ultimately show ?thesis using remove_torrent_keeps assms(2,3) f by (simp add: rows_ok_def)
    qed (use assms l Inr f in \<open>simp add: remove_managed_def\<close>)
  qed (use assms l f in \<open>simp add: remove_managed_def\<close>)
qed

lemma remove_managed_file_keeps:
  assumes "remove_managed_file d w = (r, w')" and "rows_ok w" "x \<in> set (w_downloads w)" "world_row_leased w x"
    and "d \<in> set (w_downloads w)"
  shows "x \<in> set (w_downloads w')"
proof (cases "world_row_leased w d")
  case False
  then have id: "dl_id x \<noteq> dl_id d" using assms(2-5) by (auto simp: rows_ok_def distinct_map inj_on_def)
  obtain e w1 where del: "delete_download (dl_id d) w = (e, w1)" by force
  have x1: "x \<in> set (w_downloads w1)" "rows_ok w1"
    using delete_download_cases[OF del] rows_ok_delete[OF assms(2) del] assms(3) id
    by (auto simp: delete_row_def split: option.splits)
  show ?thesis
  proof (cases e)
    case None
    obtain y w2 where l: "list_downloads w1 = (y, w2)" by force
    have f: "w_downloads w2 = w_downloads w1" using looked_frame[OF list_downloads_looked[OF l]] by simp
    show ?thesis
    proof (cases y)
      case (Inr rows)
      have rows: "set rows = set (w_downloads w1)" using list_downloads_rows l Inr by (metis set_mset_mset)
      show ?thesis
      proof (cases "list_ex (\<lambda>x. dl_engine_id x = dl_engine_id d) rows")
        case other: False
        then have "dl_engine_id x \<noteq> dl_engine_id d" using rows x1 by (auto simp: list_ex_iff)
        moreover have "remove_torrent (dl_engine_id d) w2 = (fst (remove_torrent (dl_engine_id d) w2), w')"
          using assms(1) False None del l Inr other by (auto simp: remove_managed_file_def svc_result_def)
        ultimately show ?thesis using remove_torrent_keeps x1 f by (simp add: rows_ok_def)
      qed (use assms False None del l Inr f x1 in \<open>simp add: remove_managed_file_def\<close>)
    qed (use assms False None del l f x1 in \<open>simp add: remove_managed_file_def\<close>)
  qed (use assms False del x1 in \<open>simp add: remove_managed_file_def\<close>)
qed (use assms in \<open>simp add: remove_managed_file_def\<close>)

text \<open>
  Property C15: whatever a user asks of a download short of a retry, and whatever calls fail, the row of
  a download that a stream holds stays.
\<close>

theorem manage_keeps_streamed:
  assumes "manage env add i action w = Some (r, w')" and "action \<noteq> ''retry''" and "rows_ok w"
    and "x \<in> set (w_downloads w)" and "world_row_leased w x"
  shows "dl_id x \<in> dl_id ` set (w_downloads w')"
proof -
  obtain y w1 where g: "get_download i w = (y, w1)" by force
  have f: "w_downloads w1 = w_downloads w" "w_leases w1 = w_leases w" "rows_ok w1" "world_row_leased w1 x"
    using looked_frame[OF get_download_looked[OF g]] assms(3,5) by (simp_all add: same_rest_def rows_ok_def world_row_leased_def)
  have stays: "x \<in> set (w_downloads w') \<Longrightarrow> ?thesis" by simp
  have marked: "dl_id ` set (w_downloads w1) \<subseteq> dl_id ` set (w_downloads w') \<Longrightarrow> ?thesis" using f assms(4) by auto
  show ?thesis
  proof (cases y)
    case (Inr d)
    have d: "d \<in> set (w_downloads w1)" using g Inr f
      by (auto simp: get_download_def attempt_def dest!: row_of_key split: option.splits)
    show ?thesis
    proof (cases "owner w1 (dl_engine_id d)")
      case (Some p)
      obtain e hash where p: "p = (e, hash)" by force
      have engine: ?thesis
        if "(case engine_call env op (dl_engine_id d) hash w1 of (c, w2) \<Rightarrow> case c of Some e \<Rightarrow> (Some (Ctl_Service e), w2)
                 | None \<Rightarrow> mark_managed (dl_engine_id d) action w2) = (r, w')" for op
      proof -
        obtain c w2 where c: "engine_call env op (dl_engine_id d) hash w1 = (c, w2)" by force
        show ?thesis using that c engine_call_rows[OF c] mark_managed_ids[of "dl_engine_id d" action w2 r w']
          by (intro marked) (cases c, auto)
      qed
      consider "action = ''pause''" | "action = ''resume''" | "action = ''remove''" | "action = ''remove-file''"
        | "action \<notin> {''pause'', ''resume'', ''remove'', ''remove-file''}" by auto
      then show ?thesis
      proof cases
        case 1
        show ?thesis by (rule engine[of Op_Pause]) (use assms(1) g Inr Some p 1 in \<open>auto simp: manage_def Let_def split: prod.splits option.splits\<close>)
      next
        case 2
        show ?thesis by (rule engine[of Op_Resume]) (use assms(1) g Inr Some p 2 in \<open>auto simp: manage_def Let_def split: prod.splits option.splits\<close>)
      next
        case 3
        then have "remove_managed (dl_engine_id d) w1 = (r, w')" using assms(1) g Inr Some p by (simp add: manage_def)
        then show ?thesis using remove_managed_keeps f assms(4) by (intro stays) auto
      next
        case 4
        then have "remove_managed_file d w1 = (r, w')" using assms(1) g Inr Some p by (simp add: manage_def)
        then show ?thesis using remove_managed_file_keeps f assms(4) d by (intro stays) auto
      qed (use assms(1,2,4) g Inr Some p f in \<open>auto simp: manage_def\<close>)
    qed (use assms(1,4) g Inr f in \<open>simp add: manage_def\<close>)
  qed (use assms(1,4) g f in \<open>simp add: manage_def\<close>)
qed

lemma sample_remove: "case manage quiet_control sample_add ''a'' ''remove'' claimed_world of
    Some (Some e, w') \<Rightarrow> e = Ctl_Service Streamed_Download \<and> map dl_id (w_downloads w') = [''a'', ''b''] | _ \<Rightarrow> False"
  by code_simp

theorem manage_keeps_streamed_witness:
  "\<exists>r w'. manage quiet_control sample_add ''a'' ''remove'' claimed_world = Some (r, w') \<and>
     ''a'' \<in> dl_id ` set (w_downloads w')"
proof -
  obtain r w' where m: "manage quiet_control sample_add ''a'' ''remove'' claimed_world = Some (r, w')"
    using sample_remove by (auto split: option.splits prod.splits)
  have "dl_id (sample_row ''a'' ''native:h1'' 10) \<in> dl_id ` set (w_downloads w')"
    by (rule manage_keeps_streamed[OF m _ claimed_world_ok(1)])
      (simp_all add: claimed_world_def sample_world_def blank_world_def world_row_leased_def lease_held_def sample_row_def)
  then show ?thesis using m by (simp add: sample_row_def)
qed

subsection \<open>The list of downloads\<close>

text \<open>What identifies a row and its file; only the live figures of a row may change under a refresh.\<close>

definition row_core :: "download \<Rightarrow> string \<times> string \<times> string \<times> int \<times> string \<times> int \<times> int \<times> bool \<times> go_time" where
  "row_core d = (dl_id d, dl_release_id d, dl_engine_id d, dl_file_index d, dl_file_path d, dl_size_bytes d,
     dl_file_offset d, dl_leased d, dl_created_at d)"

lemma dedupe_distinct: "distinct (map dedupe_key (dedupe_rows seen ds)) \<and>
    dedupe_key ` set (dedupe_rows seen ds) = dedupe_key ` set ds - set seen"
  by (induction seen ds rule: dedupe_rows.induct) auto

lemma dedupe_subset: "set (dedupe_rows seen ds) \<subseteq> set ds"
  by (induction seen ds rule: dedupe_rows.induct) auto

lemma upsert_core: "row_of dl_id (dl_id new) xs = Some old \<Longrightarrow> row_core new = row_core old \<Longrightarrow>
    map row_core (upsert dl_id new xs) = map row_core xs"
  by (induction xs) (auto simp: row_of_def split: if_splits)

definition same_file :: "download \<Rightarrow> download \<Rightarrow> bool" where
  "same_file a b = (dl_id a = dl_id b \<and> dl_engine_id a = dl_engine_id b \<and> dl_file_index a = dl_file_index b)"

lemma telemetry_core:
  assumes "rows_ok w" and "row_core b \<in> row_core ` set (w_downloads w)" and "same_file d b"
  shows "map row_core (w_downloads (update_download_telemetry d w)) = map row_core (w_downloads w)"
proof (cases "w_fault w (w_tick w)")
  case None
  show ?thesis
  proof (cases "row_of dl_id (dl_id d) (w_downloads w)")
    case (Some old)
    have old: "old \<in> set (w_downloads w)" "dl_id old = dl_id d" using row_of_key[OF Some] by simp_all
    obtain b' where b: "b' \<in> set (w_downloads w)" "row_core b' = row_core b" using assms(2) by force
    then have "old = b'" using old assms(1,3) by (auto simp: rows_ok_def row_core_def same_file_def distinct_map inj_on_def)
    then have core: "row_core (merge_download d old) = row_core old"
      using b assms(3) by (simp add: row_core_def same_file_def merge_download_def)
    have "update_download_telemetry d w = w\<lparr>w_tick := w_tick w + 1,
        w_downloads := upsert dl_id (merge_download d old) (w_downloads w)\<rparr>"
      using None Some by (simp add: update_download_telemetry_def attempt_def)
    then show ?thesis using upsert_core[OF _ core] Some old
      by (simp add: merge_download_def)
  qed (use None in \<open>simp add: update_download_telemetry_def attempt_def\<close>)
qed (simp add: update_download_telemetry_def attempt_def)

lemma enrich_same_file: "enrich_download rel tid d w = (d', w') \<Longrightarrow> same_file d' d"
  by (auto simp: enrich_download_def name_download_def Let_def same_file_def split: prod.splits sum.splits option.splits)

lemma apply_snapshot_same_file: "same_file (apply_snapshot env cfg sn d) d"
  by (auto simp: apply_snapshot_def reconcile_download_path_def apply_download_status_def Let_def same_file_def
      split: sum.splits option.splits)

lemma same_file_trans: "same_file a b \<Longrightarrow> same_file b c \<Longrightarrow> same_file a c"
  by (simp add: same_file_def)

lemma get_release_looked: "get_release i w = (r, w') \<Longrightarrow> looked w w'"
  by (auto simp: get_release_def split: prod.splits option.splits dest: attempt_looked)

lemma enrich_looked: "enrich_download rel tid d w = (d', w') \<Longrightarrow> looked w w'"
  by (auto simp: enrich_download_def get_catalog_metadata_def Let_def dest: attempt_looked
      split: prod.splits sum.splits option.splits)

lemma take_snapshot_looked: "take_snapshot route hash w = (sn, w') \<Longrightarrow> looked w w'"
proof -
  assume a: "take_snapshot route hash w = (sn, w')"
  obtain x w1 where x: "route_status route hash w = (x, w1)" by force
  obtain y w2 where y: "route_files route hash w1 = (y, w2)" by force
  have "looked w w1" using x engine_status_looked by (simp add: route_status_def)
  moreover have "looked w1 w2" using y
    by (auto simp: route_files_def split: prod.splits option.splits dest: attempt_looked)
  ultimately show ?thesis using a x y looked_trans[of w w1 w2]
    by (auto simp: take_snapshot_def split: sum.splits)
qed

lemma refresh_core:
  "refresh_downloads env titles snaps ds w = (out, w') \<Longrightarrow> rows_ok w \<Longrightarrow>
   \<forall>d \<in> set ds. row_core d \<in> row_core ` set (w_downloads w) \<Longrightarrow>
   map row_core (w_downloads w') = map row_core (w_downloads w) \<and> list_all2 same_file out ds"
proof (induction ds arbitrary: snaps w out w')
  case (Cons d ds)
  obtain x wa where g: "get_release (dl_release_id d) w = (x, wa)" by force
  obtain d1 w1 where e: "(case x of Inl _ \<Rightarrow> (d, wa)
      | Inr rel \<Rightarrow> enrich_download rel (title_of titles (dl_release_id d)) d wa) = (d1, w1)" by force
  have first: "(case get_release (dl_release_id d) w of (Inl _, w1) \<Rightarrow> (d, w1)
      | (Inr rel, w1) \<Rightarrow> enrich_download rel (title_of titles (dl_release_id d)) d w1) = (d1, w1)"
    using g e by simp
  have d1: "same_file d1 d" using e enrich_same_file by (cases x) (auto simp: same_file_def)
  have "looked wa w1" using e enrich_looked by (cases x) auto
  then have l1: "w_downloads w1 = w_downloads w" using looked_frame looked_trans[OF get_release_looked[OF g]] by blast
  have step: "map row_core (w_downloads w') = map row_core (w_downloads w) \<and> list_all2 same_file out (d # ds)"
    if rec: "refresh_downloads env titles s ds (update_download_telemetry d2 v) = (rest, w')"
      and out: "out = d2 # rest" and d2: "same_file d2 d" and v: "w_downloads v = w_downloads w" for s d2 v rest
  proof -
    have "map row_core (w_downloads (update_download_telemetry d2 v)) = map row_core (w_downloads v)"
      by (rule telemetry_core[of v d]) (use Cons.prems v d2 in \<open>auto simp: rows_ok_def\<close>)
    then have t: "map row_core (w_downloads (update_download_telemetry d2 v)) = map row_core (w_downloads w)"
      using v by simp
    have "map dl_id xs = map fst (map row_core xs)" for xs by (simp add: row_core_def comp_def)
    then have "map dl_id (w_downloads (update_download_telemetry d2 v)) = map dl_id (w_downloads w)" using t by metis
    then have "rows_ok (update_download_telemetry d2 v)" using Cons.prems(2) by (simp add: rows_ok_def)
    moreover have "row_core ` set (w_downloads (update_download_telemetry d2 v)) = row_core ` set (w_downloads w)"
      using t by (metis list.set_map)
    ultimately show ?thesis using Cons.IH[OF rec] Cons.prems(3) t out d2 by simp
  qed
  show ?case
  proof (cases "owner w1 (dl_engine_id d1)")
    case None
    let ?d2 = "d1\<lparr>dl_error := err_text (unavailable_err w1 (dl_engine_id d1)), dl_state := ''unavailable''\<rparr>"
    obtain rest v where r: "refresh_downloads env titles snaps ds (update_download_telemetry ?d2 w1) = (rest, v)" by force
    have o: "out = ?d2 # rest" "w' = v" using Cons.prems(1) first None r by (simp_all add: Let_def)
    show ?thesis by (rule step[OF _ o(1) _ l1]) (use r o d1 in \<open>simp_all add: same_file_def\<close>)
  next
    case (Some p)
    obtain e hash where p: "p = (e, hash)" by force
    let ?key = "dl_engine_id d1 @ ''|'' @ hash"
    obtain sn w2 where s: "(case map_of snaps ?key of Some sn \<Rightarrow> (sn, w1)
        | None \<Rightarrow> take_snapshot (dl_engine_id d1) hash w1) = (sn, w2)" by force
    have "looked w1 w2" using s take_snapshot_looked by (auto split: option.splits)
    then have l2: "w_downloads w2 = w_downloads w" using looked_frame l1 by metis
    let ?d2 = "apply_snapshot env (w_settings w2) sn d1"
    obtain rest v where r: "refresh_downloads env titles (upsert fst (?key, sn) snaps) ds
        (update_download_telemetry ?d2 w2) = (rest, v)" by force
    have o: "out = ?d2 # rest" "w' = v" using Cons.prems(1) first Some p s r by (simp_all add: Let_def)
    show ?thesis
      by (rule step[OF _ o(1) _ l2]) (use r o same_file_trans[OF apply_snapshot_same_file d1] in simp_all)
  qed
qed simp

lemma same_file_keys: "list_all2 same_file xs ys \<Longrightarrow> map dedupe_key xs = map dedupe_key ys"
  by (induction rule: list_all2_induct) (simp_all add: same_file_def dedupe_key_def)

text \<open>
  Refreshing the list of downloads touches only the live figures of the rows (which rows
  there are, and release, torrent, file, size, offset, lease flag and creation time of each are as before),
  and the list shows every managed file once.
\<close>

theorem downloads_view_stable:
  assumes "downloads_view env w = (Inr out, w')" and "rows_ok w"
  shows "map row_core (w_downloads w') = map row_core (w_downloads w) \<and>
    distinct (map dedupe_key out) \<and> dedupe_key ` set out = dedupe_key ` set (w_downloads w)"
proof (intro conjI)
  obtain items w1 where l: "list_downloads w = (Inr items, w1)"
    using assms(1) by (auto simp: downloads_view_def split: prod.splits sum.splits)
  let ?ds = "dedupe_managed_downloads items"
  obtain titles w2 where t: "title_ids_for (filter (\<lambda>i. i \<noteq> []) (map dl_release_id ?ds)) w1 = (Inr titles, w2)"
    and r: "refresh_downloads env titles [] ?ds w2 = (out, w')"
    using assms(1) l by (auto simp: downloads_view_def Let_def split: prod.splits sum.splits)
  have w2: "w_downloads w2 = w_downloads w"
    using looked_frame looked_trans[OF list_downloads_looked[OF l] title_ids_looked[OF t]] by blast
  have items: "set items = set (w_downloads w)" using list_downloads_rows[OF l] by (metis set_mset_mset)
  have core: "map row_core (w_downloads w') = map row_core (w_downloads w2)" "list_all2 same_file out ?ds"
    using refresh_core[OF r] assms(2) w2 items dedupe_subset[of "[]" items]
    by (auto simp: rows_ok_def dedupe_managed_downloads_def)
  then show "map row_core (w_downloads w') = map row_core (w_downloads w)" using w2 by simp
  have keys: "map dedupe_key out = map dedupe_key ?ds" using same_file_keys core(2) by blast
  then show "distinct (map dedupe_key out)" using dedupe_distinct by (simp add: dedupe_managed_downloads_def)
  have "set (map dedupe_key out) = set (map dedupe_key ?ds)" using keys by simp
  then show "dedupe_key ` set out = dedupe_key ` set (w_downloads w)"
    using dedupe_distinct[of "[]" items] items by (simp add: dedupe_managed_downloads_def)
qed

lemma sample_view: "case downloads_view quiet_control claimed_world of
    (Inr out, w') \<Rightarrow> map dl_id out = [''b'', ''a''] | _ \<Rightarrow> False"
  by code_simp

theorem downloads_view_stable_witness:
  "\<exists>out w'. downloads_view quiet_control claimed_world = (Inr out, w') \<and>
     map row_core (w_downloads w') = map row_core (w_downloads claimed_world)"
proof -
  obtain out w' where "downloads_view quiet_control claimed_world = (Inr out, w')"
    using sample_view by (auto split: prod.splits sum.splits)
  then show ?thesis using downloads_view_stable claimed_world_ok(1) by blast
qed

subsection \<open>Where a new download lies\<close>

lemma bindw_Inr: "bindw m f = (Inr y, w') \<Longrightarrow> \<exists>x v. m = (Inr x, v) \<and> f x v = (Inr y, w')"
  by (auto simp: bindw_def split: prod.splits sum.splits)

lemma pick_file_kept:
  "pick_file i fs sel = Some f \<Longrightarrow>
   (f \<in> set fs \<or> sel = Some f) \<and> (0 \<le> i \<longrightarrow> tf_index f = i \<or> sel = Some f)"
  by (induction i fs sel rule: pick_file.induct) (auto simp: Let_def split: if_splits)

lemma pick_file_largest:
  "pick_file i fs sel = Some f \<Longrightarrow> i < 0 \<Longrightarrow> \<forall>g \<in> set fs. 0 \<le> tf_index g \<Longrightarrow>
   (\<forall>g \<in> set fs. tf_playable g \<longrightarrow> tf_size_bytes g \<le> tf_size_bytes f) \<and>
   (\<forall>s. sel = Some s \<longrightarrow> tf_size_bytes s \<le> tf_size_bytes f)"
proof (induction fs arbitrary: sel)
  case (Cons g fs)
  let ?s = "if tf_playable g \<and> (case sel of None \<Rightarrow> True | Some s \<Rightarrow> tf_size_bytes g > tf_size_bytes s) then Some g else sel"
  have "pick_file i fs ?s = Some f" using Cons.prems by (auto simp: Let_def split: if_splits)
  from Cons.IH[OF this Cons.prems(2)] Cons.prems(3)
  have ih: "\<forall>g \<in> set fs. tf_playable g \<longrightarrow> tf_size_bytes g \<le> tf_size_bytes f"
    "\<And>s. ?s = Some s \<Longrightarrow> tf_size_bytes s \<le> tf_size_bytes f" by auto
  show ?case using ih(1) ih(2)[of g] ih(2)[of "the sel"] 
    by (cases sel; cases "tf_playable g"; cases "tf_size_bytes (the sel) < tf_size_bytes g") auto
qed simp

lemma store_file_row_inside:
  assumes "store_file_row env rel route f st w = (Inr d, w')"
    and "\<And>d. ce_cwd env = Some d \<Longrightarrow> is_abs d" and "path_abs (ce_cwd env) (st_download_root (w_settings w)) = Some r"
  shows "inside r (dl_absolute_path d) \<and> dl_id d \<in> dl_id ` set (w_downloads w') \<and>
    dl_id d = source_id env (rel_id rel) (tf_path f) \<and> dl_file_index d = tf_index f \<and> dl_engine_id d = route"
proof -
  obtain p v where p: "safe_qb_path (ce_cwd env) (st_download_root (w_settings w)) (ds_save_path st) (tf_path f) = Inr p"
    and rest: "(let (d, w2) = keep_created (apply_download_status st (Some f) (new_row env rel route f p (now_of w))) w in
       bindw (lift_err (save_download d w2)) (\<lambda>_ w3. (Inr d, w3))) = (Inr d, w')"
    using bindw_Inr[OF assms(1)[unfolded store_file_row_def]] by (auto simp: lift_path_def split: sum.splits)
  obtain d1 w1 where k: "keep_created (apply_download_status st (Some f) (new_row env rel route f p (now_of w))) w = (d1, w1)"
    by force
  have core: "dl_absolute_path d1 = p" "dl_id d1 = source_id env (rel_id rel) (tf_path f)"
      "dl_file_index d1 = tf_index f" "dl_engine_id d1 = route"
    using k by (auto simp: keep_created_def apply_download_status_def new_row_def Let_def split: prod.splits sum.splits)
  have sv: "save_download d1 w1 = (None, w')" "d1 = d"
    using rest k by (auto simp: bindw_def lift_err_def split: prod.splits option.splits)
  have "dl_id d1 \<in> dl_id ` set (w_downloads w')"
  proof -
    have ids: "key ` set (upsert key x xs) = insert (key x) (key ` set xs)" for key :: "download \<Rightarrow> string" and x xs
      by (induction xs) auto
    show ?thesis using sv(1)
      by (auto simp: save_download_def attempt_def ids merge_download_def dest!: row_of_key split: option.splits)
  qed
  then show ?thesis using core sv(2) safe_qb_path_inside[OF p assms(2,3)] by simp
qed

lemma name_row_same: "name_row rel d w = (Inr d', w') \<Longrightarrow>
    same_file d' d \<and> dl_absolute_path d' = dl_absolute_path d \<and> w_downloads w' = w_downloads w"
proof -
  assume "name_row rel d w = (Inr d', w')"
  then obtain tid v where t: "lift_svc (projected_title_id (rel_id rel) w) = (Inr tid, v)"
      and e: "enrich_download rel tid d v = (d', w')"
    unfolding name_row_def by (auto dest!: bindw_Inr split: prod.splits)
  have "w_downloads v = w_downloads w" using t
    by (auto simp: lift_svc_def projected_title_id_def title_ids_for_def attempt_def split: prod.splits sum.splits option.splits)
  moreover have "dl_absolute_path d' = dl_absolute_path d" using e
    by (auto simp: enrich_download_def name_download_def Let_def split: prod.splits sum.splits option.splits)
  ultimately show ?thesis using enrich_same_file[OF e] looked_frame[OF enrich_looked[OF e]] by simp
qed

text \<open>
  Property C16: a download that \<open>Prepare\<close> adds is for a playable file of the torrent, the one that was asked
  for or the largest one, its path lies inside the download root and its row is stored.
\<close>

theorem place_torrent_places:
  assumes "place_torrent env add rel i data w = (Inr d, w')"
    and "\<And>d. ce_cwd env = Some d \<Longrightarrow> is_abs d" and "path_abs (ce_cwd env) (st_download_root (w_settings w)) = Some r"
  shows "inside r (dl_absolute_path d) \<and> dl_id d \<in> dl_id ` set (w_downloads w') \<and>
    (\<exists>files f. Inr files \<in> set (ae_polls add) \<and> f \<in> set files \<and> tf_playable f \<and>
       dl_id d = source_id env (rel_id rel) (tf_path f) \<and> dl_file_index d = tf_index f \<and>
       (0 \<le> i \<longrightarrow> tf_index f = i) \<and>
       (i < 0 \<and> (\<forall>g \<in> set files. 0 \<le> tf_index g) \<longrightarrow>
          (\<forall>g \<in> set files. tf_playable g \<longrightarrow> tf_size_bytes g \<le> tf_size_bytes f)))"
proof -
  obtain hash w1 where h: "engine_add (ae_torrent add data) w = (Inr hash, w1)"
    and k: "(case await_files (es_default (w_set w1)) (ae_polls add) of
        Inl e \<Rightarrow> (Inl e, w1)
      | Inr files \<Rightarrow>
          (case pick_file i files None of
             None \<Rightarrow> (Inl Not_Playable, w1)
           | Some f \<Rightarrow>
               if \<not> tf_playable f then (Inl Not_Playable, w1)
               else (let route = es_default (w_set w1) @ hash;
                         subs = map tf_index (filter (\<lambda>f. is_subtitle_file (tf_path f)) files);
                         (indices, w2) = managed_torrent_indices route files [tf_index f] w1 in
                     bindw (lift_err (engine_call env (Op_Prepare_Files indices subs) route hash w2)) (\<lambda>_ w3.
                     bindw (lift_svc (route_status route hash w3)) (\<lambda>st w4.
                     bindw (store_file_row env rel route f st w4) (\<lambda>row w5.
                     name_row rel row w5)))))) = (Inr d, w')"
    using bindw_Inr[OF assms(1)[unfolded place_torrent_def]] by blast
  obtain files where fs: "await_files (es_default (w_set w1)) (ae_polls add) = Inr files" using k by (cases "await_files (es_default (w_set w1)) (ae_polls add)") auto
  have files: "Inr files \<in> set (ae_polls add)"
  proof -
    have "await_files p polls = Inr files \<Longrightarrow> Inr files \<in> set polls" for p polls
      by (induction p polls rule: await_files.induct) (auto split: if_splits)
    then show ?thesis using fs by blast
  qed
  obtain f where f: "pick_file i files None = Some f" "tf_playable f"
    using k fs by (auto split: option.splits if_splits)
  let ?route = "es_default (w_set w1) @ hash"
  obtain indices w2 where m: "managed_torrent_indices ?route files [tf_index f] w1 = (indices, w2)" by force
  obtain w3 st w4 row w5 where
      c: "lift_err (engine_call env (Op_Prepare_Files indices (map tf_index (filter (\<lambda>f. is_subtitle_file (tf_path f)) files))) ?route hash w2) = (Inr (), w3)"
    and s: "lift_svc (route_status ?route hash w3) = (Inr st, w4)"
    and sr: "store_file_row env rel ?route f st w4 = (Inr row, w5)" and n: "name_row rel row w5 = (Inr d, w')"
    using k fs f m by (auto simp: Let_def dest!: bindw_Inr)
  have "calm w w1" using h by (auto simp: engine_add_def attempt_def calm_def rows_ok_def Let_def split: if_splits option.splits)
  moreover have "calm w1 w2" using calm_indices[of w1 ?route files "[tf_index f]"] m by simp
  moreover have "calm w2 w3" using calm_lift(2)[OF calm_calls(12)] c by (metis snd_conv)
  moreover have "calm w3 w4" using calm_lift(1)[OF calm_calls(10)] s by (metis snd_conv)
  ultimately have st: "w_settings w4 = w_settings w" by (simp add: calm_def)
  have S: "inside r (dl_absolute_path row) \<and> dl_id row \<in> dl_id ` set (w_downloads w5) \<and>
      dl_id row = source_id env (rel_id rel) (tf_path f) \<and> dl_file_index row = tf_index f \<and> dl_engine_id row = ?route"
    by (rule store_file_row_inside[OF sr assms(2)]) (simp_all add: st assms(3))
  have N: "same_file d row" "dl_absolute_path d = dl_absolute_path row" "w_downloads w' = w_downloads w5"
    using name_row_same[OF n] by simp_all
  have "f \<in> set files" "0 \<le> i \<Longrightarrow> tf_index f = i" using pick_file_kept[OF f(1)] by auto
  moreover have "\<forall>g \<in> set files. tf_playable g \<longrightarrow> tf_size_bytes g \<le> tf_size_bytes f"
    if "i < 0 \<and> (\<forall>g \<in> set files. 0 \<le> tf_index g)" using pick_file_largest[OF f(1)] that by blast
  ultimately show ?thesis using S N files f(2) by (auto simp: same_file_def)
qed

text \<open>A world with a download root that an added torrent saves below, and a torrent of two files.\<close>

definition film_release :: torrent_release where
  "film_release = sample_release\<lparr>rel_name := ''X''\<rparr>"

definition film_files :: "torrent_file list" where
  "film_files = [zero_torrent_file\<lparr>tf_index := 0, tf_path := ''a'', tf_size_bytes := 7, tf_playable := True\<rparr>,
     zero_torrent_file\<lparr>tf_index := 1, tf_path := ''b'', tf_size_bytes := 9, tf_playable := True\<rparr>]"

definition film_torrent :: torrent where
  "film_torrent = \<lparr>et_hash = ''h3'', et_status = zero_download_status\<lparr>ds_hash := ''h3'', ds_save_path := ''/srv/media''\<rparr>,
     et_files = film_files\<rparr>"

definition film_add :: add_env where
  "film_add = sample_add\<lparr>ae_torrent := (\<lambda>_. film_torrent), ae_polls := [Inl ''no metadata'', Inr film_files]\<rparr>"

definition film_world :: world where
  "film_world = claimed_world\<lparr>w_releases := [film_release],
     w_settings := (defaults ''linux'')\<lparr>st_download_root := ''/srv/media''\<rparr>\<rparr>"

lemma film_placed: "case place_torrent quiet_control film_add film_release (-1) ''d4:infode'' film_world of
    (Inr d, w') \<Rightarrow> dl_absolute_path d = ''/srv/media/b'' | _ \<Rightarrow> False"
  by code_simp

theorem place_torrent_places_witness:
  "\<exists>d w' r. place_torrent quiet_control film_add film_release (-1) ''d4:infode'' film_world = (Inr d, w') \<and>
     path_abs None ''/srv/media'' = Some r \<and> inside r (dl_absolute_path d)"
proof -
  obtain d w' where p: "place_torrent quiet_control film_add film_release (-1) ''d4:infode'' film_world = (Inr d, w')"
    using film_placed by (auto split: prod.splits sum.splits)
  obtain r where r: "path_abs None ''/srv/media'' = Some r" by (simp add: path_abs_def is_abs_def has_prefix_def)
  have "inside r (dl_absolute_path d)"
    using place_torrent_places[OF p, of r] r by (simp add: quiet_control_def film_world_def)
  then show ?thesis using p r by blast
qed

end
