(* ===== verification/Update_Release.thy ===== *)
theory Update_Release
  imports Go_Prelude
begin

text \<open>
  Release selection of the updater (\<open>internal/application/updates\<close>: \<open>version.go\<close>, \<open>release.go\<close>): versions,
  the asset of an installation, the trust in release locations and the checksum manifest.

  The semver library (\<open>golang.org/x/mod/semver\<close>), \<open>url.Parse\<close> and the release feed are arguments.
\<close>

record semver_lib =
  sv_valid :: "string \<Rightarrow> bool"
  sv_prerelease :: "string \<Rightarrow> string"
  sv_compare :: "string \<Rightarrow> string \<Rightarrow> int"

record identity =
  id_version :: string
  id_goos :: string
  id_goarch :: string
  id_flavor :: string

datatype update_error = Manual_Only | No_Matching_Release | Untrusted_Asset | Duplicate_Asset string
  | Manifest_Missing | Manifest_Line nat | Manifest_Duplicate nat | Manifest_Entry | Source_Failed string
  | Not_A_Version string

text \<open>What the library documents of \<open>Compare\<close>: the sign turns with the sides.\<close>

definition semver_order :: "semver_lib \<Rightarrow> bool" where
  "semver_order lib = (\<forall>a b. sv_compare lib a b = - sv_compare lib b a)"

subsection \<open>Versions\<close>

definition normalize_version :: "string \<Rightarrow> string" where
  "normalize_version v = trim_prefix (trim_space v) ''v''"

definition version_core :: "string \<Rightarrow> string" where
  "version_core v = takeWhile (\<lambda>c. c \<noteq> CHR ''-'' \<and> c \<noteq> CHR ''+'') v"

definition full_release_core :: "string \<Rightarrow> bool" where
  "full_release_core canonical =
     (let parts = split_on CHR ''.'' (version_core (tl canonical)) in
      length parts = 3 \<and> list_all (\<lambda>p. p \<noteq> [] \<and> list_all is_digit p) parts)"

definition canonical_version :: "semver_lib \<Rightarrow> string \<Rightarrow> string option" where
  "canonical_version lib v =
     (if v = [] then None
      else if \<not> sv_valid lib (''v'' @ v) \<or> \<not> full_release_core (''v'' @ v) then None
      else Some (''v'' @ v))"

definition self_update_capable :: "semver_lib \<Rightarrow> identity \<Rightarrow> bool" where
  "self_update_capable lib i = (canonical_version lib (normalize_version (id_version i)) \<noteq> None)"

definition is_newer :: "semver_lib \<Rightarrow> string \<Rightarrow> string \<Rightarrow> update_error + bool" where
  "is_newer lib current candidate =
     (case canonical_version lib (normalize_version current) of
        None \<Rightarrow> Inl (Not_A_Version current)
      | Some cur \<Rightarrow>
          (case canonical_version lib (normalize_version candidate) of
             None \<Rightarrow> Inl (Not_A_Version candidate)
           | Some cand \<Rightarrow> Inr (sv_compare lib cand cur > 0)))"

subsection \<open>The asset of an installation\<close>

definition asset_name :: "string \<Rightarrow> string \<Rightarrow> string \<Rightarrow> string \<Rightarrow> string option" where
  "asset_name flavor goos goarch version =
     (let base = ''torrent-tv-'' @ version @ ''-''; wide = goarch \<in> set [''amd64'', ''arm64''] in
      if goos = ''linux'' then
        (if flavor = ''gui'' then
           (if wide then Some (base @ ''linux-'' @ goarch @ ''-desktop.tar.gz'') else None)
         else if flavor = ''headless'' then
           (if wide then Some (base @ ''linux-'' @ goarch @ ''-headless.tar.gz'')
            else if goarch = ''arm'' then Some (base @ ''linux-armv7-headless.tar.gz'') else None)
         else None)
      else if goos = ''windows'' then
        (if flavor = ''gui'' \<and> wide then Some (base @ ''windows-'' @ goarch @ ''-desktop.zip'') else None)
      else if goos = ''darwin'' then
        (if flavor = ''gui'' then (if wide then Some (base @ ''macos-'' @ goarch @ ''-cli.tar.gz'') else None)
         else if flavor = ''bundle'' then Some (base @ ''macos-universal-app.zip'')
         else None)
      else None)"

record asset =
  as_name :: string
  as_url :: string
  as_size :: int

definition exact_asset :: "asset list \<Rightarrow> string \<Rightarrow> string + asset option" where
  "exact_asset assets name = (case filter (\<lambda>a. as_name a = name) assets of
     [] \<Rightarrow> Inr None | [a] \<Rightarrow> Inr (Some a) | _ \<Rightarrow> Inl name)"

subsection \<open>Release locations\<close>

record parsed_url =
  pu_scheme :: string
  pu_user :: bool
  pu_host :: string
  pu_path :: string

definition release_owner :: string where "release_owner = ''mihaiflorentin''"
definition release_repo :: string where "release_repo = ''torrent-tv''"
definition release_host :: string where "release_host = ''github.com''"
definition manifest_name :: string where "manifest_name = ''SHA256SUMS''"

definition check_repository_url :: "(string \<Rightarrow> parsed_url option) \<Rightarrow> string \<Rightarrow> string \<Rightarrow> bool" where
  "check_repository_url url raw want = (case url raw of
     None \<Rightarrow> False
   | Some u \<Rightarrow> pu_scheme u = ''https'' \<and> \<not> pu_user u \<and> pu_host u = release_host \<and> pu_path u = want)"

definition repository_path :: "string \<Rightarrow> string \<Rightarrow> string" where
  "repository_path kind rest = ''/'' @ release_owner @ ''/'' @ release_repo @ ''/releases/'' @ kind @ ''/'' @ rest"

subsection \<open>The checksum manifest\<close>

definition hex_digit :: "char \<Rightarrow> bool" where
  "hex_digit c = (is_digit c \<or> c \<in> set ''abcdefABCDEF'')"

definition hex_digest :: "string \<Rightarrow> bool" where
  "hex_digest text = (length text = 64 \<and> list_all hex_digit text)"

definition trim_cr :: "string \<Rightarrow> string" where
  "trim_cr line = rev (dropWhile (\<lambda>c. c = CHR 0x0D) (rev line))"

text \<open>A line of the manifest: blank, an entry (file name and checksum), or malformed.\<close>

definition manifest_line :: "string \<Rightarrow> (string \<times> string) option option" where
  "manifest_line raw =
     (let line = trim_cr raw in
      if trim_space line = [] then Some None
      else (case str_fields line of
              [checksum, filename] \<Rightarrow>
                if hex_digest (to_lower checksum) then Some (Some (trim_prefix filename ''*'', to_lower checksum)) else None
            | _ \<Rightarrow> None))"

fun manifest_scan ::
  "string \<Rightarrow> nat \<Rightarrow> string list \<Rightarrow> string list \<Rightarrow> string \<Rightarrow> update_error + string" where
  "manifest_scan name n [] seen digest = Inr digest"
| "manifest_scan name n (line # rest) seen digest = (case manifest_line line of
     None \<Rightarrow> Inl (Manifest_Line n)
   | Some None \<Rightarrow> manifest_scan name (n + 1) rest seen digest
   | Some (Some (filename, checksum)) \<Rightarrow>
       if filename \<in> set seen then Inl (Manifest_Duplicate n)
       else manifest_scan name (n + 1) rest (filename # seen) (if filename = name then checksum else digest))"

definition manifest_digest :: "string \<Rightarrow> string \<Rightarrow> update_error + string" where
  "manifest_digest text name = (case manifest_scan name 1 (split_on (CHR 0x0A) text) [] [] of
     Inl e \<Rightarrow> Inl e
   | Inr digest \<Rightarrow> if digest = [] then Inl Manifest_Entry else Inr digest)"

subsection \<open>Resolving an announcement\<close>

record repo_release =
  rls_tag :: string
  rls_url :: string
  rls_notes :: string
  rls_draft :: bool
  rls_prerelease :: bool
  rls_published :: go_time
  rls_assets :: "asset list"

record release_feed =
  rf_latest :: "string + repo_release"
  rf_manifest :: "string \<Rightarrow> string + string"

record selection =
  sel_version :: string
  sel_tag :: string
  sel_notes :: string
  sel_released :: go_time
  sel_releases_url :: string
  sel_asset_name :: string
  sel_asset_url :: string
  sel_sha256 :: string
  sel_asset_size :: int

definition trusted_asset ::
  "(string \<Rightarrow> parsed_url option) \<Rightarrow> repo_release \<Rightarrow> string \<Rightarrow> (string \<Rightarrow> update_error) \<Rightarrow> update_error \<Rightarrow>
   update_error + asset" where
  "trusted_asset url rls name dup missing = (case exact_asset (rls_assets rls) name of
     Inl n \<Rightarrow> Inl (dup n)
   | Inr None \<Rightarrow> Inl missing
   | Inr (Some a) \<Rightarrow>
       if check_repository_url url (as_url a) (repository_path ''download'' (rls_tag rls @ ''/'' @ name)) then Inr a
       else Inl Untrusted_Asset)"

definition select_release ::
  "(string \<Rightarrow> parsed_url option) \<Rightarrow> release_feed \<Rightarrow> identity \<Rightarrow> repo_release \<Rightarrow> update_error + selection" where
  "select_release url feed i rls =
     (let version = trim_prefix (rls_tag rls) ''v'' in
      case asset_name (id_flavor i) (id_goos i) (id_goarch i) version of
        None \<Rightarrow> Inl Manual_Only
      | Some name \<Rightarrow> (case trusted_asset url rls name Duplicate_Asset No_Matching_Release of
          Inl e \<Rightarrow> Inl e
        | Inr a \<Rightarrow> (case trusted_asset url rls manifest_name (\<lambda>_. Manifest_Missing) Manifest_Missing of
            Inl e \<Rightarrow> Inl e
          | Inr m \<Rightarrow> (case rf_manifest feed (as_url m) of
              Inl e \<Rightarrow> Inl (Source_Failed e)
            | Inr text \<Rightarrow> (case manifest_digest text name of
                Inl e \<Rightarrow> Inl e
              | Inr digest \<Rightarrow> Inr \<lparr>sel_version = version, sel_tag = rls_tag rls, sel_notes = rls_notes rls,
                  sel_released = rls_published rls, sel_releases_url = rls_url rls, sel_asset_name = name,
                  sel_asset_url = as_url a, sel_sha256 = digest, sel_asset_size = as_size a\<rparr>)))))"

definition resolve_update ::
  "semver_lib \<Rightarrow> (string \<Rightarrow> parsed_url option) \<Rightarrow> release_feed \<Rightarrow> identity \<Rightarrow> string \<Rightarrow> update_error + selection" where
  "resolve_update lib url feed i hint =
     (if \<not> self_update_capable lib i then Inl Manual_Only
      else (let version = normalize_version hint; tag = ''v'' @ version in
        case canonical_version lib version of
          None \<Rightarrow> Inl No_Matching_Release
        | Some canonical \<Rightarrow> (case rf_latest feed of
            Inl e \<Rightarrow> Inl (Source_Failed e)
          | Inr rls \<Rightarrow>
              if rls_draft rls \<or> rls_prerelease rls then Inl No_Matching_Release
              else if rls_tag rls \<noteq> tag then Inl No_Matching_Release
              else if sv_prerelease lib canonical \<noteq> [] then Inl No_Matching_Release
              else if \<not> check_repository_url url (rls_url rls) (repository_path ''tag'' tag) then Inl Untrusted_Asset
              else select_release url feed i rls)))"

subsection \<open>Facts\<close>

text \<open>What a manifest says: its lines are well formed, its file names are distinct.\<close>

definition manifest_entries :: "string \<Rightarrow> (string \<times> string) list option" where
  "manifest_entries text =
     (let rows = map manifest_line (split_on (CHR 0x0A) text) in
      if None \<in> set rows \<or> \<not> distinct (map fst (concat (map (\<lambda>r. case r of Some (Some e) \<Rightarrow> [e] | _ \<Rightarrow> []) rows)))
      then None else Some (concat (map (\<lambda>r. case r of Some (Some e) \<Rightarrow> [e] | _ \<Rightarrow> []) rows)))"

definition row_entries :: "string list \<Rightarrow> (string \<times> string) list" where
  "row_entries lines = concat (map (\<lambda>r. case r of Some (Some e) \<Rightarrow> [e] | _ \<Rightarrow> []) (map manifest_line lines))"

lemma row_entries_simps [simp]: "row_entries [] = []"
  "manifest_line l = Some None \<Longrightarrow> row_entries (l # ls) = row_entries ls"
  "manifest_line l = Some (Some e) \<Longrightarrow> row_entries (l # ls) = e # row_entries ls"
  by (simp_all add: row_entries_def)

lemma manifest_scan_spec:
  "(manifest_scan name n lines seen digest = Inr d) =
   (None \<notin> manifest_line ` set lines \<and> distinct (map fst (row_entries lines)) \<and>
    set (map fst (row_entries lines)) \<inter> set seen = {} \<and>
    d = (case map_of (row_entries lines) name of None \<Rightarrow> digest | Some c \<Rightarrow> c))"
proof (induction name n lines seen digest rule: manifest_scan.induct)
  case (2 name n line rest seen digest)
  consider "manifest_line line = None" | "manifest_line line = Some None"
    | f c where "manifest_line line = Some (Some (f, c))"
    by (metis option.exhaust surj_pair)
  then show ?case
  proof cases
    case 3
    have ih: "f \<notin> set seen \<Longrightarrow> (manifest_scan name (n + 1) rest (f # seen) (if f = name then c else digest) = Inr d) =
      (None \<notin> manifest_line ` set rest \<and> distinct (map fst (row_entries rest)) \<and>
       set (map fst (row_entries rest)) \<inter> set (f # seen) = {} \<and>
       d = (case map_of (row_entries rest) name of None \<Rightarrow> if f = name then c else digest | Some c \<Rightarrow> c))"
      using 2(2)[OF 3 refl refl] by simp
    have "f \<notin> fst ` set (row_entries rest) \<Longrightarrow> f = name \<Longrightarrow> map_of (row_entries rest) name = None"
      by (simp add: map_of_eq_None_iff)
    then show ?thesis using 3 ih by (cases "f = name") (auto split: option.splits)
  qed (use 2 in \<open>auto simp: image_iff\<close>)
qed auto

lemma manifest_line_digest:
  "manifest_line raw = Some (Some (f, c)) \<Longrightarrow> hex_digest c \<and> to_lower c = c"
  by (auto simp: manifest_line_def Let_def split: if_splits list.splits)

text \<open>
  The checksum the updater trusts for an asset is the entry that the manifest has for it, and the
  manifest is used only when every line of it is well formed and no file name occurs twice.
\<close>

theorem manifest_digest_spec:
  "(manifest_digest text name = Inr d) =
   (\<exists>entries. manifest_entries text = Some entries \<and> map_of entries name = Some d)"
proof -
  let ?ls = "split_on (CHR 0x0A) text"
  have e: "manifest_entries text = Some es \<longleftrightarrow>
      None \<notin> manifest_line ` set ?ls \<and> distinct (map fst (row_entries ?ls)) \<and> es = row_entries ?ls" for es
    by (auto simp: manifest_entries_def row_entries_def Let_def)
  have full: "c \<noteq> []" if "map_of (row_entries ?ls) name = Some c" for c
  proof -
    have "(name, c) \<in> set (row_entries ?ls)" using that by (rule map_of_SomeD)
    then obtain l where "manifest_line l = Some (Some (name, c))"
      by (auto simp: row_entries_def split: option.splits)
    then show ?thesis using manifest_line_digest by (fastforce simp: hex_digest_def)
  qed
  have scan: "manifest_scan name 1 ?ls [] [] = Inr x \<longleftrightarrow> None \<notin> manifest_line ` set ?ls \<and>
      distinct (map fst (row_entries ?ls)) \<and>
      x = (case map_of (row_entries ?ls) name of None \<Rightarrow> [] | Some c \<Rightarrow> c)" for x
    using manifest_scan_spec[of name 1 ?ls "[]" "[]" x] by simp
  show ?thesis
  proof (cases "manifest_scan name 1 ?ls [] []")
    case (Inl err)
    then have "\<not> (None \<notin> manifest_line ` set ?ls \<and> distinct (map fst (row_entries ?ls)))" using scan by auto
    then show ?thesis using Inl e by (auto simp: manifest_digest_def)
  next
    case (Inr x)
    then have x: "None \<notin> manifest_line ` set ?ls" "distinct (map fst (row_entries ?ls))"
        "x = (case map_of (row_entries ?ls) name of None \<Rightarrow> [] | Some c \<Rightarrow> c)" using scan by auto
    then have "manifest_entries text = Some (row_entries ?ls)" using e by simp
    then show ?thesis using x(3) Inr full[of x]
      by (cases "map_of (row_entries ?ls) name") (auto simp: manifest_digest_def simp del: map_of_eq_Some_iff)
  qed
qed

lemma exact_asset_unique:
  "exact_asset assets name = Inr (Some a) \<Longrightarrow> filter (\<lambda>x. as_name x = name) assets = [a]"
  by (auto simp: exact_asset_def split: list.splits)

lemma trusted_asset_sound:
  "trusted_asset url rls name dup missing = Inr a \<Longrightarrow>
   filter (\<lambda>x. as_name x = name) (rls_assets rls) = [a] \<and>
   check_repository_url url (as_url a) (repository_path ''download'' (rls_tag rls @ ''/'' @ name))"
  by (auto simp: trusted_asset_def dest: exact_asset_unique split: sum.splits option.splits if_splits)

lemma located:
  "check_repository_url url raw want \<longleftrightarrow>
   url raw = Some \<lparr>pu_scheme = ''https'', pu_user = False, pu_host = ''github.com'', pu_path = want\<rparr>"
  by (cases "url raw") (auto simp: check_repository_url_def release_host_def parsed_url.equality)

lemma asset_name_form:
  "asset_name flavor goos goarch version = Some name \<Longrightarrow> \<exists>kind. name = ''torrent-tv-'' @ version @ ''-'' @ kind"
  by (auto simp: asset_name_def Let_def split: if_splits)

lemma fields_blank:
  assumes "trim_space s = []" shows "str_fields s = []"
proof -
  let ?t = "dropWhile is_blank s"
  have blank: "\<forall>x\<in>set ?t. is_blank x"
    using assms by (auto simp: trim_space_def trim_by_def dropWhile_eq_Nil_conv)
  have "?t = []"
  proof (rule ccontr)
    assume "?t \<noteq> []"
    then show False using hd_dropWhile[of is_blank s] blank by simp
  qed
  then have "list_all is_blank s" by (simp add: dropWhile_eq_Nil_conv list_all_iff)
  then have "fields_acc [] s = []" by (induction s) auto
  then show ?thesis by (simp add: str_fields_def)
qed

text \<open>The lines of a manifest that name a file: the checksum, as it is written, and the name, which may carry a star.\<close>

definition checksum_lines :: "string \<Rightarrow> string \<Rightarrow> string set" where
  "checksum_lines body name = {to_lower checksum |line checksum filename. line \<in> set (split_on (CHR 0x0A) body) \<and>
     str_fields (trim_cr line) = [checksum, filename] \<and> (filename = name \<or> filename = CHR ''*'' # name)}"

lemma row_entries_member: "e \<in> set (row_entries ls) \<longleftrightarrow> (\<exists>line\<in>set ls. manifest_line line = Some (Some e))"
  by (cases e; induction ls) (auto simp: row_entries_def split: option.splits)

lemma entries_lines:
  assumes "manifest_entries body = Some es" "map_of es name = Some d" "name \<noteq> []" "hd name \<noteq> CHR ''*''"
  shows "checksum_lines body name = {d} \<and> length d = 64 \<and> list_all hex_digit d"
proof -
  let ?ls = "split_on (CHR 0x0A) body"
  have es: "es = row_entries ?ls" "None \<notin> manifest_line ` set ?ls" "distinct (map fst es)"
    using assms(1) by (auto simp: manifest_entries_def row_entries_def Let_def split: if_splits)
  have star: "trim_prefix f ''*'' = name \<longleftrightarrow> f = name \<or> f = CHR ''*'' # name" for f
    using assms(3,4) by (cases f) (auto simp: trim_prefix_def has_prefix_def)
  have entry: "(f, c) \<in> set es \<longleftrightarrow> (\<exists>line\<in>set ?ls. manifest_line line = Some (Some (f, c)))" for f c
    unfolding es(1) by (rule row_entries_member)
  have named: "manifest_line line = Some (Some (name, to_lower c))"
    if "line \<in> set ?ls" "str_fields (trim_cr line) = [c, f]" "f = name \<or> f = CHR ''*'' # name" for line c f
  proof -
    have "manifest_line line \<noteq> None" using es(2) that(1) by (metis image_eqI)
    moreover have "trim_space (trim_cr line) \<noteq> []" using that(2) fields_blank by fastforce
    ultimately show ?thesis using that(2,3) star by (auto simp: manifest_line_def Let_def split: if_splits)
  qed
  have "x = d" if "x \<in> checksum_lines body name" for x
  proof -
    from that obtain line c f where "line \<in> set ?ls" "str_fields (trim_cr line) = [c, f]"
        "f = name \<or> f = CHR ''*'' # name" "x = to_lower c"
      by (auto simp: checksum_lines_def)
    then have "(name, x) \<in> set es" using named entry by blast
    then show ?thesis using es(3) assms(2) by (simp add: map_of_eq_Some_iff)
  qed
  moreover have "d \<in> checksum_lines body name"
  proof -
    obtain line where l: "line \<in> set ?ls" "manifest_line line = Some (Some (name, d))"
      using assms(2) entry map_of_SomeD by metis
    then obtain c f where "str_fields (trim_cr line) = [c, f]" "trim_prefix f ''*'' = name" "d = to_lower c"
      by (auto simp: manifest_line_def Let_def split: if_splits list.splits)
    with l(1) star show ?thesis unfolding checksum_lines_def by blast
  qed
  ultimately have "checksum_lines body name = {d}" by blast
  moreover obtain line where "manifest_line line = Some (Some (name, d))"
    using entry[of name d] map_of_SomeD[OF assms(2)] by blast
  then have "hex_digest d" using manifest_line_digest by blast
  ultimately show ?thesis by (simp add: hex_digest_def)
qed

text \<open>
  Property C24: whatever is announced and whatever the feed answers, a selected update is the latest release that the feed
  has, neither a draft nor a prerelease, tagged with the announced version, of three numbers.  The locations of its page,
  of the asset and of the manifest parse to https, no user, the host github.com and the exact paths of the fixed
  repository and that tag; the asset is the only one with its name, which carries the version, and the checksum is the
  only one that the lines of the manifest give for that name, 64 hexadecimal digits.
\<close>

theorem resolve_update_trusted:
  assumes "resolve_update lib url feed i hint = Inr sel"
  shows "\<exists>rls a m body kind. rf_latest feed = Inr rls \<and> \<not> rls_draft rls \<and> \<not> rls_prerelease rls \<and>
    sel_version sel = normalize_version hint \<and> sel_tag sel = rls_tag rls \<and> rls_tag rls = ''v'' @ sel_version sel \<and>
    full_release_core (sel_tag sel) \<and> sv_prerelease lib (sel_tag sel) = [] \<and>
    url (rls_url rls) = Some \<lparr>pu_scheme = ''https'', pu_user = False, pu_host = ''github.com'',
      pu_path = ''/mihaiflorentin/torrent-tv/releases/tag/'' @ sel_tag sel\<rparr> \<and>
    sel_asset_name sel = ''torrent-tv-'' @ sel_version sel @ ''-'' @ kind \<and>
    filter (\<lambda>x. as_name x = sel_asset_name sel) (rls_assets rls) = [a] \<and> as_url a = sel_asset_url sel \<and>
    url (sel_asset_url sel) = Some \<lparr>pu_scheme = ''https'', pu_user = False, pu_host = ''github.com'',
      pu_path = ''/mihaiflorentin/torrent-tv/releases/download/'' @ sel_tag sel @ ''/'' @ sel_asset_name sel\<rparr> \<and>
    filter (\<lambda>x. as_name x = ''SHA256SUMS'') (rls_assets rls) = [m] \<and>
    url (as_url m) = Some \<lparr>pu_scheme = ''https'', pu_user = False, pu_host = ''github.com'',
      pu_path = ''/mihaiflorentin/torrent-tv/releases/download/'' @ sel_tag sel @ ''/SHA256SUMS''\<rparr> \<and>
    rf_manifest feed (as_url m) = Inr body \<and> checksum_lines body (sel_asset_name sel) = {sel_sha256 sel} \<and>
    length (sel_sha256 sel) = 64 \<and> list_all hex_digit (sel_sha256 sel)"
proof -
  obtain c rls where c: "canonical_version lib (normalize_version hint) = Some c"
    and l: "rf_latest feed = Inr rls" "\<not> rls_draft rls" "\<not> rls_prerelease rls"
      "rls_tag rls = ''v'' @ normalize_version hint" "sv_prerelease lib c = []"
      "check_repository_url url (rls_url rls) (repository_path ''tag'' (rls_tag rls))"
    and s: "select_release url feed i rls = Inr sel"
    using assms by (auto simp: resolve_update_def Let_def split: if_splits option.splits sum.splits)
  have core: "full_release_core c" "c = rls_tag rls" using c l(4) by (auto simp: canonical_version_def split: if_splits)
  have v: "trim_prefix (rls_tag rls) ''v'' = normalize_version hint"
    using l(4) trim_prefix_append[of "''v''" "normalize_version hint"] by simp
  obtain name a m body digest where
      n: "asset_name (id_flavor i) (id_goos i) (id_goarch i) (normalize_version hint) = Some name"
    and a: "trusted_asset url rls name Duplicate_Asset No_Matching_Release = Inr a"
    and m: "trusted_asset url rls manifest_name (\<lambda>_. Manifest_Missing) Manifest_Missing = Inr m"
    and t: "rf_manifest feed (as_url m) = Inr body" "manifest_digest body name = Inr digest"
    and sel: "sel = \<lparr>sel_version = normalize_version hint, sel_tag = rls_tag rls, sel_notes = rls_notes rls,
                  sel_released = rls_published rls, sel_releases_url = rls_url rls, sel_asset_name = name,
                  sel_asset_url = as_url a, sel_sha256 = digest, sel_asset_size = as_size a\<rparr>"
    using s v by (auto simp: select_release_def Let_def split: option.splits sum.splits)
  obtain kind where kind: "name = ''torrent-tv-'' @ normalize_version hint @ ''-'' @ kind"
    using asset_name_form[OF n] by blast
  obtain es where es: "manifest_entries body = Some es" "map_of es name = Some digest"
    using t(2) by (auto simp: manifest_digest_spec)
  have sums: "checksum_lines body name = {digest} \<and> length digest = 64 \<and> list_all hex_digit digest"
    by (rule entries_lines[OF es]) (simp_all add: kind)
  note sound = trusted_asset_sound[OF a] trusted_asset_sound[OF m]
  have "repository_path ''tag'' p = ''/mihaiflorentin/torrent-tv/releases/tag/'' @ p"
    "repository_path ''download'' p = ''/mihaiflorentin/torrent-tv/releases/download/'' @ p" for p
    by (simp_all add: repository_path_def release_owner_def release_repo_def)
  note places = this
  show ?thesis
    by (rule exI[of _ rls], rule exI[of _ a], rule exI[of _ m], rule exI[of _ body], rule exI[of _ kind])
      (use l(1-5) core n t(1) kind sums sound[unfolded places] l(6)[unfolded places]
        in \<open>simp add: sel located manifest_name_def\<close>)
qed

text \<open>
  No installation takes a version for an update of itself, and of two versions at most one is newer
  than the other; \<open>Compare\<close> of the semver library is a comparison.
\<close>

theorem is_newer_asymmetric:
  assumes "semver_order lib" and "is_newer lib a b = Inr True"
  shows "is_newer lib b a = Inr False \<and> normalize_version a \<noteq> normalize_version b"
proof -
  obtain ca cb where c: "canonical_version lib (normalize_version a) = Some ca"
      "canonical_version lib (normalize_version b) = Some cb" "sv_compare lib cb ca > 0"
    using assms(2) by (auto simp: is_newer_def split: option.splits)
  have "sv_compare lib ca cb = - sv_compare lib cb ca" "sv_compare lib ca ca = - sv_compare lib ca ca"
    using assms(1) unfolding semver_order_def by blast+
  then show ?thesis using c by (cases "normalize_version a = normalize_version b") (auto simp: is_newer_def)
qed

subsection \<open>An instance\<close>

definition plain_semver :: semver_lib where
  "plain_semver = \<lparr>sv_valid = (\<lambda>_. True), sv_prerelease = (\<lambda>_. []),
     sv_compare = (\<lambda>a b. if a = b then 0 else if str_less a b then - 1 else 1)\<rparr>"

lemma plain_semver_order: "semver_order plain_semver"
  using str_less_asym str_less_total by (auto simp: semver_order_def plain_semver_def)

theorem is_newer_asymmetric_witness: "is_newer plain_semver ''1.3.0'' ''v1.2.0'' = Inr False"
proof -
  have "is_newer plain_semver ''v1.2.0'' ''1.3.0'' = Inr True" by code_simp
  from is_newer_asymmetric[OF plain_semver_order this] show ?thesis by blast
qed

definition github_url :: "string \<Rightarrow> parsed_url option" where
  "github_url s = (if has_prefix s ''https://github.com/''
     then Some \<lparr>pu_scheme = ''https'', pu_user = False, pu_host = ''github.com'', pu_path = drop 18 s\<rparr> else None)"

definition release_base :: string where
  "release_base = ''https://github.com/mihaiflorentin/torrent-tv/releases/''"

definition sample_feed :: release_feed where
  "sample_feed = \<lparr>rf_latest = Inr \<lparr>rls_tag = ''v1.3.0'', rls_url = release_base @ ''tag/v1.3.0'', rls_notes = [],
       rls_draft = False, rls_prerelease = False, rls_published = 7, rls_assets =
        [\<lparr>as_name = ''torrent-tv-1.3.0-linux-armv7-headless.tar.gz'',
          as_url = release_base @ ''download/v1.3.0/torrent-tv-1.3.0-linux-armv7-headless.tar.gz'', as_size = 9\<rparr>,
         \<lparr>as_name = manifest_name, as_url = release_base @ ''download/v1.3.0/SHA256SUMS'', as_size = 2\<rparr>]\<rparr>,
     rf_manifest = (\<lambda>_. Inr (replicate 64 CHR ''A'' @ ''  *torrent-tv-1.3.0-linux-armv7-headless.tar.gz'' @ [CHR 0x0D, CHR 0x0A]))\<rparr>"

definition sample_identity :: identity where
  "sample_identity = \<lparr>id_version = ''1.2.0'', id_goos = ''linux'', id_goarch = ''arm'', id_flavor = ''headless''\<rparr>"

lemma sample_resolves: "case resolve_update plain_semver github_url sample_feed sample_identity '' v1.3.0'' of
    Inr sel \<Rightarrow> sel_sha256 sel = replicate 64 CHR ''a'' | _ \<Rightarrow> False"
  by code_simp

theorem resolve_update_trusted_witness:
  "\<exists>sel. resolve_update plain_semver github_url sample_feed sample_identity '' v1.3.0'' = Inr sel \<and>
     sel_tag sel = ''v1.3.0''"
proof -
  obtain sel where r: "resolve_update plain_semver github_url sample_feed sample_identity '' v1.3.0'' = Inr sel"
    using sample_resolves by (auto split: sum.splits)
  obtain rls where "rf_latest sample_feed = Inr rls" "sel_tag sel = rls_tag rls"
    using resolve_update_trusted[OF r] by blast
  then show ?thesis using r by (auto simp: sample_feed_def)
qed

end
