(* ===== verification/Update_Journal.thy ===== *)
theory Update_Journal
  imports Update_Release Media_Path
begin

text \<open>
  The update transaction (\<open>internal/application/updates\<close>: \<open>recovery.go\<close>, \<open>install_unix.go\<close>, the recovery of
  \<open>manager.go\<close>): the journal, activation, rollback, recovery at start-up and the update helper.

  The disk is the files with their content and the operation record of the journal, which \<open>Save\<close> replaces
  by one rename.  Every system call is one step: at its number \<open>dk_fate\<close> says whether it runs, fails with an
  errno, or the process dies in front of it; a step that fails changes nothing.  So a statement about all
  disks covers every schedule of failures and crashes.  The temporary file of \<open>Save\<close> is not kept.  The
  digest, the random tokens and the clock are arguments.
\<close>

record operation =
  up_id :: string
  up_version :: string
  up_flavor :: string
  up_phase :: string
  up_backup :: string
  up_prior :: string
  up_staged :: "string list"
  up_deadline :: go_time
  up_suppress :: bool
  up_failed :: string

datatype fate = Runs | Fails string | Dies

record disk =
  dk_files :: "string \<Rightarrow> string option"
  dk_journal :: "operation option"
  dk_fate :: "nat \<Rightarrow> fate"
  dk_clock :: "nat \<Rightarrow> go_time"
  dk_part :: nat
  dk_tick :: nat

datatype disk_error = Errno string | Pending_Operation | Operation_Mismatch | Unsupported_Kind
  | Restore_Failed disk_error | Unhealthy string | Parent_Alive | Spawn_Failed string

datatype 'a step = Good 'a | Bad disk_error | Dead

type_synonym 'a disk_act = "disk \<Rightarrow> 'a step \<times> disk"

subsection \<open>Steps\<close>

definition tick :: "disk \<Rightarrow> disk" where
  "tick d = d\<lparr>dk_tick := dk_tick d + 1\<rparr>"

definition prim :: "'a disk_act \<Rightarrow> 'a disk_act" where
  "prim f d = (case dk_fate d (dk_tick d) of
     Runs \<Rightarrow> f (tick d) | Fails e \<Rightarrow> (Bad (Errno e), tick d) | Dies \<Rightarrow> (Dead, tick d))"

definition give :: "'a \<Rightarrow> 'a disk_act" where "give x d = (Good x, d)"
definition fail_with :: "disk_error \<Rightarrow> 'a disk_act" where "fail_with e d = (Bad e, d)"

definition seq :: "'a disk_act \<Rightarrow> ('a \<Rightarrow> 'b disk_act) \<Rightarrow> 'b disk_act" where
  "seq m f d = (case m d of (Good x, d') \<Rightarrow> f x d' | (Bad e, d') \<Rightarrow> (Bad e, d') | (Dead, d') \<Rightarrow> (Dead, d'))"

definition guarded :: "'a disk_act \<Rightarrow> (disk_error \<Rightarrow> 'a disk_act) \<Rightarrow> 'a disk_act" where
  "guarded m h d = (case m d of (Bad e, d') \<Rightarrow> h e d' | r \<Rightarrow> r)"

definition ignore :: "unit disk_act \<Rightarrow> unit disk_act" where
  "ignore m = guarded m (\<lambda>_. give ())"

definition set_file :: "string \<Rightarrow> string option \<Rightarrow> disk \<Rightarrow> disk" where
  "set_file p c d = d\<lparr>dk_files := (dk_files d)(p := c)\<rparr>"

definition read_file :: "string \<Rightarrow> string disk_act" where
  "read_file p = prim (\<lambda>d. case dk_files d p of None \<Rightarrow> (Bad (Errno ''ENOENT''), d) | Some c \<Rightarrow> (Good c, d))"

definition flush :: "unit disk_act" where "flush = prim (give ())"

definition touch :: "string \<Rightarrow> unit disk_act" where
  "touch p = prim (\<lambda>d. if dk_files d p = None then (Bad (Errno ''ENOENT''), d) else (Good (), d))"

definition link_file :: "string \<Rightarrow> string \<Rightarrow> unit disk_act" where
  "link_file src dst = prim (\<lambda>d. if dk_files d src = None then (Bad (Errno ''ENOENT''), d)
     else if dk_files d dst \<noteq> None then (Bad (Errno ''EEXIST''), d)
     else (Good (), set_file dst (dk_files d src) d))"

definition create_file :: "string \<Rightarrow> unit disk_act" where
  "create_file p = prim (\<lambda>d. if dk_files d p \<noteq> None then (Bad (Errno ''EEXIST''), d) else (Good (), set_file p (Some []) d))"

definition write_file :: "string \<Rightarrow> string \<Rightarrow> unit disk_act" where
  "write_file p c = prim (\<lambda>d. (Good (), set_file p (Some c) d))"

definition rename_file :: "string \<Rightarrow> string \<Rightarrow> unit disk_act" where
  "rename_file src dst = prim (\<lambda>d. case dk_files d src of
     None \<Rightarrow> (Bad (Errno ''ENOENT''), d)
   | Some c \<Rightarrow> (Good (), set_file dst (Some c) (set_file src None d)))"

definition below :: "string \<Rightarrow> string \<Rightarrow> bool" where
  "below p q = (q = p \<or> has_prefix q (p @ ''/''))"

definition remove_all :: "string \<Rightarrow> unit disk_act" where
  "remove_all p = prim (\<lambda>d. (Good (), d\<lparr>dk_files := (\<lambda>q. if below p q then None else dk_files d q)\<rparr>))"

subsection \<open>The journal\<close>

definition load_journal :: "operation option disk_act" where
  "load_journal = prim (\<lambda>d. (Good (dk_journal d), d))"

definition save_journal :: "operation \<Rightarrow> unit disk_act" where
  "save_journal op = seq flush (\<lambda>_. seq flush (\<lambda>_. seq flush (\<lambda>_. seq flush (\<lambda>_.
     seq (prim (\<lambda>d. (Good (), d\<lparr>dk_journal := Some op\<rparr>))) (\<lambda>_. flush)))))"

definition clear_journal :: "unit disk_act" where
  "clear_journal = seq (prim (\<lambda>d. (Good (), d\<lparr>dk_journal := None\<rparr>))) (\<lambda>_. flush)"

definition acknowledge_operation :: "string \<Rightarrow> string \<Rightarrow> unit disk_act" where
  "acknowledge_operation i version = seq load_journal (\<lambda>found. case found of
     None \<Rightarrow> fail_with Operation_Mismatch
   | Some op \<Rightarrow>
       if up_phase op \<noteq> ''activated'' then fail_with Operation_Mismatch
       else if up_id op \<noteq> i \<or> up_version op \<noteq> version then fail_with Operation_Mismatch
       else save_journal (op\<lparr>up_phase := ''confirmed''\<rparr>))"

subsection \<open>What to do at start-up\<close>

datatype recovery_action = Recovery_None | Recovery_Acknowledge | Recovery_Rollback | Recovery_Cleanup
  | Recovery_Suppress | Recovery_Manual

record install_state =
  is_version :: string
  is_now :: go_time
  is_activated :: bool
  is_pristine :: bool

definition evaluate_recovery :: "operation \<Rightarrow> install_state \<Rightarrow> recovery_action \<times> operation" where
  "evaluate_recovery op st =
     (if up_failed op \<noteq> [] then (Recovery_Manual, op)
      else if up_phase op = ''staged'' then
        (if is_activated st then (Recovery_Rollback, op\<lparr>up_phase := ''activated''\<rparr>) else (Recovery_Cleanup, op))
      else if up_phase op = ''activated'' then
        (if is_activated st \<and> is_version st = up_version op \<and> is_now st < up_deadline op then (Recovery_Acknowledge, op)
         else if is_activated st \<or> \<not> is_pristine st then (Recovery_Rollback, op)
         else (Recovery_Cleanup, op))
      else if up_phase op = ''confirmed'' then (Recovery_Cleanup, op)
      else if up_phase op = ''rolled-back'' then (Recovery_Suppress, op)
      else (Recovery_Manual, op))"

subsection \<open>The installer\<close>

datatype payload_kind = Payload_File | Payload_Bundle

record payload =
  pl_dir :: string
  pl_kind :: payload_kind
  pl_executable :: string
  pl_bundle :: string

record installer =
  in_dir :: string
  in_executable :: string
  in_bundle :: string
  in_kind :: payload_kind
  in_timeout :: int
  in_sha :: "string \<Rightarrow> string"

definition nibble :: "nat \<Rightarrow> char" where
  "nibble n = ''0123456789abcdef'' ! n"

definition hex_encode :: "string \<Rightarrow> string" where
  "hex_encode s = concat (map (\<lambda>c. let n = of_char c :: nat in [nibble (n div 16), nibble (n mod 16)]) s)"

definition nibble_value :: "char \<Rightarrow> nat option" where
  "nibble_value c = map_of (zip ''0123456789abcdefABCDEF'' ([0 ..< 16] @ [10 ..< 16])) c"

fun hex_decode :: "string \<Rightarrow> string option" where
  "hex_decode [] = Some []"
| "hex_decode [c] = None"
| "hex_decode (a # b # s) = (case (nibble_value a, nibble_value b, hex_decode s) of
     (Some m, Some n, Some r) \<Rightarrow> Some (char_of (16 * m + n) # r) | _ \<Rightarrow> None)"

definition digest_file :: "installer \<Rightarrow> string \<Rightarrow> string disk_act" where
  "digest_file i p = seq (read_file p) (\<lambda>c. give (in_sha i c))"

definition live_path :: "installer \<Rightarrow> string" where
  "live_path i = (if in_kind i = Payload_Bundle then in_bundle i else in_executable i)"

definition prior_state :: "operation \<Rightarrow> string \<Rightarrow> bool \<times> bool" where
  "prior_state op live = (case hex_decode (up_prior op) of
     None \<Rightarrow> (False, False)
   | Some prior \<Rightarrow> if length prior \<noteq> 32 then (False, False) else (live \<noteq> prior, live = prior))"

definition live_state :: "installer \<Rightarrow> operation \<Rightarrow> (bool \<times> bool) disk_act" where
  "live_state i op =
     (if in_kind i = Payload_Bundle then give (False, False)
      else guarded (seq (digest_file i (in_executable i)) (\<lambda>live.
        guarded (seq (digest_file i (up_backup op)) (\<lambda>b. give (if live = b then (False, True) else (True, False))))
          (\<lambda>_. give (prior_state op live))))
        (\<lambda>_. give (False, False)))"

definition now_at :: "disk \<Rightarrow> go_time" where
  "now_at d = dk_clock d (dk_tick d)"

definition backup_and_staging_paths :: "operation \<Rightarrow> string list" where
  "backup_and_staging_paths op = (if up_backup op \<noteq> [] then [up_backup op] else []) @ up_staged op"

fun remove_paths :: "string list \<Rightarrow> unit disk_act" where
  "remove_paths [] = give ()"
| "remove_paths (p # ps) = seq (ignore (remove_all p)) (\<lambda>_. remove_paths ps)"

definition cleanup :: "operation \<Rightarrow> unit disk_act" where
  "cleanup op = seq (remove_paths (backup_and_staging_paths op)) (\<lambda>_. seq flush (\<lambda>_. clear_journal))"

definition new_operation ::
  "string \<Rightarrow> string \<Rightarrow> string \<Rightarrow> string \<Rightarrow> string \<Rightarrow> string list \<Rightarrow> operation" where
  "new_operation dir version flavor token1 token2 staged = \<lparr>up_id = ''op-'' @ token1, up_version = version,
     up_flavor = flavor, up_phase = ''staged'', up_backup = path_join [dir, ''.filelist-backup-'' @ token2],
     up_prior = [], up_staged = staged, up_deadline = zero_time, up_suppress = False, up_failed = []\<rparr>"

definition prepare_update ::
  "installer \<Rightarrow> payload \<Rightarrow> string \<Rightarrow> string \<Rightarrow> string \<Rightarrow> string \<Rightarrow> string \<Rightarrow> operation disk_act" where
  "prepare_update i pl version flavor token1 token2 archive = seq load_journal (\<lambda>found.
     if (case found of None \<Rightarrow> False | Some op \<Rightarrow> up_phase op = ''staged'' \<or> up_phase op = ''activated'')
     then fail_with Pending_Operation
     else (let op = new_operation (in_dir i) version flavor token1 token2 [archive, pl_dir pl] in
       seq (if pl_kind pl = Payload_File
            then guarded (seq (digest_file i (in_executable i)) (\<lambda>s. give (op\<lparr>up_prior := hex_encode s\<rparr>))) (\<lambda>_. give op)
            else give (op\<lparr>up_backup := pl_bundle pl\<rparr>))
         (\<lambda>op. seq (save_journal op) (\<lambda>_. give op))))"

definition copy_backup :: "string \<Rightarrow> string \<Rightarrow> unit disk_act" where
  "copy_backup live b = seq (read_file live) (\<lambda>c. seq (create_file b) (\<lambda>_.
     guarded (\<lambda>d. seq (write_file b (take (dk_part d) c)) (\<lambda>_. seq (write_file b c) (\<lambda>_. seq flush (\<lambda>_. flush))) d)
       (\<lambda>e. seq (ignore (remove_all b)) (\<lambda>_. fail_with e))))"

definition backup_file :: "string \<Rightarrow> string \<Rightarrow> unit disk_act" where
  "backup_file live b = seq
     (guarded (link_file live b) (\<lambda>e.
        if e \<in> set [Errno ''EPERM'', Errno ''EOPNOTSUPP'', Errno ''EMLINK''] then copy_backup live b else fail_with e))
     (\<lambda>_. flush)"

definition restore_file :: "string \<Rightarrow> string \<Rightarrow> unit disk_act" where
  "restore_file b live = seq (rename_file b live) (\<lambda>_. flush)"

definition activate_update :: "installer \<Rightarrow> operation \<Rightarrow> payload \<Rightarrow> operation disk_act" where
  "activate_update i op pl =
     (if in_kind i = Payload_Bundle then fail_with Unsupported_Kind
      else seq (backup_file (in_executable i) (up_backup op)) (\<lambda>_. seq (touch (pl_executable pl)) (\<lambda>_.
        seq (rename_file (pl_executable pl) (in_executable i)) (\<lambda>_. seq flush (\<lambda>_ d.
          (let op = op\<lparr>up_phase := ''activated'', up_deadline := now_at d + in_timeout i\<rparr> in
           seq (save_journal op) (\<lambda>_. give op) d))))))"

definition rollback_update :: "installer \<Rightarrow> operation \<Rightarrow> string \<Rightarrow> unit disk_act" where
  "rollback_update i op reason =
     (if in_kind i = Payload_Bundle then fail_with Unsupported_Kind
      else seq (guarded (seq (restore_file (up_backup op) (live_path i)) (\<lambda>_. give None)) (\<lambda>e. give (Some e))) (\<lambda>err.
        seq (save_journal (op\<lparr>up_phase := ''rolled-back'', up_suppress := True,
               up_failed := (case err of None \<Rightarrow> up_failed op | Some _ \<Rightarrow> reason)\<rparr>)) (\<lambda>_.
          (case err of None \<Rightarrow> give () | Some e \<Rightarrow> fail_with (Restore_Failed e)))))"

definition recover_update :: "installer \<Rightarrow> string \<Rightarrow> recovery_action disk_act" where
  "recover_update i version = seq load_journal (\<lambda>found. case found of
     None \<Rightarrow> give Recovery_None
   | Some op \<Rightarrow> seq (live_state i op) (\<lambda>st d.
       (let (action, _) = evaluate_recovery op \<lparr>is_version = version, is_now = now_at d,
              is_activated = fst st, is_pristine = snd st\<rparr> in
        (case action of
           Recovery_Cleanup \<Rightarrow> seq (cleanup op) (\<lambda>_. give action)
         | Recovery_Rollback \<Rightarrow> seq (rollback_update i op ''startup recovery'') (\<lambda>_. give action)
         | _ \<Rightarrow> give action) d)))"

definition acknowledge_update :: "installer \<Rightarrow> string \<Rightarrow> unit disk_act" where
  "acknowledge_update i version = seq load_journal (\<lambda>found. case found of
     None \<Rightarrow> fail_with Operation_Mismatch
   | Some op \<Rightarrow> seq (acknowledge_operation (up_id op) version) (\<lambda>_. cleanup op))"

subsection \<open>The helper and the running installation\<close>

text \<open>One poll of \<open>awaitHealth\<close>: whether the new installation acknowledged in front of it, is alive, and the window passed.\<close>

record poll =
  po_acks :: bool
  po_late :: bool
  po_alive :: bool

definition child_acks :: "operation \<Rightarrow> disk \<Rightarrow> disk" where
  "child_acks op d = (case dk_journal d of
     None \<Rightarrow> d
   | Some cur \<Rightarrow> if up_phase cur = ''activated'' \<and> up_id cur = up_id op \<and> up_version cur = up_version op
       then d\<lparr>dk_journal := Some (cur\<lparr>up_phase := ''confirmed''\<rparr>)\<rparr> else d)"

fun await_health :: "operation \<Rightarrow> poll list \<Rightarrow> unit disk_act" where
  "await_health op [] = fail_with (Unhealthy ''cancelled'')"
| "await_health op (p # ps) = (\<lambda>d. seq load_journal (\<lambda>found.
     if (case found of None \<Rightarrow> False | Some cur \<Rightarrow> up_phase cur = ''confirmed'') then give ()
     else if po_late p then fail_with (Unhealthy ''not acknowledged'')
     else if \<not> po_alive p then fail_with (Unhealthy ''exited'')
     else await_health op ps) (if po_acks p then child_acks op d else d))"

definition run_helper ::
  "installer \<Rightarrow> operation \<Rightarrow> bool \<Rightarrow> string option \<Rightarrow> poll list \<Rightarrow> unit disk_act" where
  "run_helper i op parent_gone spawn polls =
     (if \<not> parent_gone then fail_with Parent_Alive
      else (case spawn of
              Some e \<Rightarrow> seq (rollback_update i op ''helper launch failed'') (\<lambda>_. fail_with (Spawn_Failed e))
            | None \<Rightarrow> seq (guarded (seq (await_health op polls) (\<lambda>_. give None)) (\<lambda>e. give (Some e))) (\<lambda>err.
                (case err of
                   None \<Rightarrow> cleanup op
                 | Some e \<Rightarrow> seq (rollback_update i op ''unhealthy'') (\<lambda>_. fail_with e)))))"

text \<open>\<open>recoverPending\<close>: \<open>owned\<close> says whether the lock of the journal is free; the answer is suppression.\<close>

fun acknowledge_until :: "nat \<Rightarrow> operation \<Rightarrow> unit disk_act" where
  "acknowledge_until 0 op = give ()"
| "acknowledge_until (Suc n) op = guarded (acknowledge_operation (up_id op) (up_version op))
     (\<lambda>e d. if e = Operation_Mismatch \<or> \<not> now_at d < up_deadline op then give () d else acknowledge_until n op d)"

definition recover_pending :: "installer \<Rightarrow> string \<Rightarrow> bool \<Rightarrow> nat \<Rightarrow> bool disk_act" where
  "recover_pending i version owned n = guarded (seq load_journal (\<lambda>found. case found of
     None \<Rightarrow> give False
   | Some pending \<Rightarrow>
       if \<not> owned then
         seq (if up_phase pending = ''activated'' \<and> up_version pending = version then acknowledge_until n pending else give ())
           (\<lambda>_. give (up_phase pending = ''rolled-back'' \<and> up_suppress pending))
       else seq load_journal (\<lambda>found. case found of
         None \<Rightarrow> give False
       | Some op \<Rightarrow>
           guarded (seq (recover_update i version) (\<lambda>action.
             if action = Recovery_Acknowledge then seq (ignore (acknowledge_update i version)) (\<lambda>_. give False)
             else if action = Recovery_Suppress then seq (ignore clear_journal) (\<lambda>_. give True)
             else give False)) (\<lambda>_. give False)))) (\<lambda>_. give False)"

text \<open>\<open>RunUpdateHelper\<close>; and the part of \<open>install\<close> of \<open>manager.go\<close> that owns the journal.\<close>

definition update_helper :: "installer \<Rightarrow> bool \<Rightarrow> string option \<Rightarrow> poll list \<Rightarrow> unit disk_act" where
  "update_helper i parent_gone spawn polls = seq load_journal (\<lambda>found. case found of
     None \<Rightarrow> give ()
   | Some op \<Rightarrow> if up_phase op \<noteq> ''activated'' then give () else run_helper i op parent_gone spawn polls)"

definition install_update ::
  "installer \<Rightarrow> payload \<Rightarrow> string \<Rightarrow> string \<Rightarrow> string \<Rightarrow> string \<Rightarrow> string \<Rightarrow> operation disk_act" where
  "install_update i pl version flavor token1 token2 archive =
     seq (prepare_update i pl version flavor token1 token2 archive) (\<lambda>op. activate_update i op pl)"

end
