(* ===== verification/Update_Facts.thy ===== *)
theory Update_Facts
  imports Update_Journal
begin

text \<open>
  Crash safety of the update transaction.  \<open>keeps\<close> and \<open>leads\<close> are triples over every way a disk program
  stops, \<open>outcome\<close> tells success from failure and death; from them follow what holds of the installation
  at every moment (\<open>update_keeps_installation\<close>), what the next start makes of an interrupted update
  (\<open>update_recovers\<close>), and what goes wrong where the backup is a copy
  (\<open>interrupted_copy_destroys_installation\<close>).
\<close>

named_theorems keeps_rules \<open>disk programs that keep a predicate\<close>

definition keeps :: "(disk \<Rightarrow> bool) \<Rightarrow> 'a disk_act \<Rightarrow> bool" where
  "keeps P m = (\<forall>d. P d \<longrightarrow> P (snd (m d)))"

lemma keeps_give [keeps_rules]: "keeps P (give x)" "keeps P (fail_with e)"
  by (simp_all add: keeps_def give_def fail_with_def)

lemma keeps_seq [keeps_rules]: "keeps P m \<Longrightarrow> (\<And>x. keeps P (f x)) \<Longrightarrow> keeps P (seq m f)"
proof (unfold keeps_def, intro allI impI)
  fix d assume a: "\<forall>d. P d \<longrightarrow> P (snd (m d))" "\<And>x. \<forall>d. P d \<longrightarrow> P (snd (f x d))" "P d"
  obtain r d1 where m: "m d = (r, d1)" by force
  then have "P d1" using a(1,3) by (metis snd_conv)
  then show "P (snd (seq m f d))" using m a(2) by (cases r) (simp_all add: seq_def)
qed

lemma keeps_guarded [keeps_rules]: "keeps P m \<Longrightarrow> (\<And>e. keeps P (h e)) \<Longrightarrow> keeps P (guarded m h)"
proof (unfold keeps_def, intro allI impI)
  fix d assume a: "\<forall>d. P d \<longrightarrow> P (snd (m d))" "\<And>x. \<forall>d. P d \<longrightarrow> P (snd (h x d))" "P d"
  obtain r d1 where m: "m d = (r, d1)" by force
  then have "P d1" using a(1,3) by (metis snd_conv)
  then show "P (snd (guarded m h d))" using m a(2) by (cases r) (simp_all add: guarded_def)
qed

lemma keeps_ignore [keeps_rules]: "keeps P m \<Longrightarrow> keeps P (ignore m)"
  by (simp add: ignore_def keeps_rules)

lemma keeps_env: "(\<And>e. keeps P (g e)) \<Longrightarrow> keeps P (\<lambda>d. g d d)"
  by (simp add: keeps_def)

text \<open>
  The states of a disk during an update of \<open>old\<close> to \<open>new\<close>: the live executable is one of the two, the backup
  is the old one or absent, the staged executable is the new one or gone, and the record names the backup
  and no path that holds the live executable.
\<close>

definition op_apart :: "installer \<Rightarrow> string \<Rightarrow> operation \<Rightarrow> bool" where
  "op_apart i b op = (up_backup op = b \<and> list_all (\<lambda>p. \<not> below p (in_executable i)) (backup_and_staging_paths op))"

definition links_work :: "disk \<Rightarrow> bool" where
  "links_work d = (\<forall>n e. dk_fate d n = Fails e \<longrightarrow> e \<notin> set [''EPERM'', ''EOPNOTSUPP'', ''EMLINK''])"

definition whole :: "installer \<Rightarrow> string \<Rightarrow> string \<Rightarrow> string \<Rightarrow> string \<Rightarrow> string set \<Rightarrow> disk \<Rightarrow> bool" where
  "whole i b x old new L d = (in_kind i = Payload_File \<and> b \<noteq> in_executable i \<and> x \<noteq> in_executable i \<and> x \<noteq> b \<and>
     dk_files d (in_executable i) \<in> Some ` L \<and> old \<in> L \<and> dk_files d b \<in> {None, Some old} \<and>
     dk_files d x \<in> {None, Some new} \<and> links_work d \<and> (\<forall>op. dk_journal d = Some op \<longrightarrow> op_apart i b op))"

lemma whole_tick [simp]: "whole i b x old new L (tick d) = whole i b x old new L d"
  by (simp add: whole_def tick_def links_work_def)

lemma keeps_prim: "(\<And>d. P (tick d) = P d) \<Longrightarrow> (\<And>d. P d \<Longrightarrow> P (snd (f d))) \<Longrightarrow> keeps P (prim f)"
  by (auto simp: keeps_def prim_def split: fate.splits)

lemma keeps_flush [keeps_rules]: "keeps (whole i b x old new L) flush"
  unfolding flush_def by (rule keeps_prim) (simp_all add: give_def)

lemma keeps_read [keeps_rules]: "keeps (whole i b x old new L) (read_file p)"
  unfolding read_file_def by (rule keeps_prim) (simp_all split: option.splits)

lemma keeps_touch [keeps_rules]: "keeps (whole i b x old new L) (touch p)"
  unfolding touch_def by (rule keeps_prim) simp_all

lemma keeps_digest [keeps_rules]: "keeps (whole i b x old new L) (digest_file j p)"
  by (simp add: digest_file_def keeps_rules)

lemma keeps_save [keeps_rules]: "op_apart i b op \<Longrightarrow> keeps (whole i b x old new L) (save_journal op)"
proof -
  assume op: "op_apart i b op"
  have "keeps (whole i b x old new L) (prim (\<lambda>d. (Good (), d\<lparr>dk_journal := Some op\<rparr>)))"
    by (rule keeps_prim) (use op in \<open>simp_all add: whole_def links_work_def tick_def\<close>)
  then show ?thesis by (simp add: save_journal_def keeps_rules)
qed

lemma keeps_clear [keeps_rules]: "keeps (whole i b x old new L) clear_journal"
proof -
  have "keeps (whole i b x old new L) (prim (\<lambda>d. (Good (), d\<lparr>dk_journal := None\<rparr>)))"
    by (rule keeps_prim) (simp_all add: whole_def links_work_def tick_def)
  then show ?thesis by (simp add: clear_journal_def keeps_rules)
qed

lemma keeps_load:
  assumes "\<And>found. (\<And>op. found = Some op \<Longrightarrow> op_apart i b op) \<Longrightarrow> keeps (whole i b x old new L) (f found)"
  shows "keeps (whole i b x old new L) (seq load_journal f)"
  unfolding keeps_def
proof (intro allI impI)
  fix d assume w: "whole i b x old new L d"
  then have f: "keeps (whole i b x old new L) (f (dk_journal d))" by (intro assms) (simp add: whole_def)
  have t: "whole i b x old new L (tick d)" using w by simp
  have j: "dk_journal (tick d) = dk_journal d" by (simp add: tick_def)
  show "whole i b x old new L (snd (seq load_journal f d))"
  proof (cases "dk_fate d (dk_tick d)")
    case Runs
    then show ?thesis using f t j by (simp add: seq_def load_journal_def prim_def keeps_def)
  qed (use t in \<open>simp_all add: seq_def load_journal_def prim_def\<close>)
qed

lemma keeps_remove: "\<not> below p (in_executable i) \<Longrightarrow> keeps (whole i b x old new L) (remove_all p)"
  unfolding remove_all_def by (rule keeps_prim) (auto simp: whole_def links_work_def tick_def)

lemma keeps_remove_paths:
  "list_all (\<lambda>p. \<not> below p (in_executable i)) ps \<Longrightarrow> keeps (whole i b x old new L) (remove_paths ps)"
  by (induction ps) (auto intro!: keeps_rules keeps_remove)

lemma keeps_cleanup [keeps_rules]: "op_apart i b op \<Longrightarrow> keeps (whole i b x old new L) (cleanup op)"
  unfolding cleanup_def op_apart_def by (intro keeps_rules keeps_remove_paths) simp

lemma keeps_rollback [keeps_rules]: "op_apart i b op \<Longrightarrow> keeps (whole i b x old new L) (rollback_update i op reason)"
proof -
  assume op: "op_apart i b op"
  have r: "keeps (whole i b x old new L) (rename_file b (live_path i))"
    unfolding rename_file_def
    by (rule keeps_prim) (auto simp: whole_def links_work_def tick_def set_file_def live_path_def split: option.splits)
  have "op_apart i b (op\<lparr>up_phase := p, up_suppress := s, up_failed := f\<rparr>)" for p s f
    using op by (auto simp: op_apart_def backup_and_staging_paths_def)
  moreover have "up_backup op = b" using op by (simp add: op_apart_def)
  ultimately show ?thesis using r unfolding rollback_update_def restore_file_def
    by (auto intro!: keeps_rules split: option.splits)
qed

text \<open>While the old installation is live, linking it makes a backup of it.\<close>

lemma keeps_backup: "keeps (whole i b x old new {old}) (backup_file (in_executable i) b)"
proof -
  have "whole i b x old new {old} (snd (guarded (link_file (in_executable i) b) (\<lambda>e.
        if e \<in> set [Errno ''EPERM'', Errno ''EOPNOTSUPP'', Errno ''EMLINK''] then copy_backup (in_executable i) b else fail_with e) d))"
    if w: "whole i b x old new {old} d" for d
  proof (cases "dk_fate d (dk_tick d)")
    case Runs
    have live: "dk_files (tick d) (in_executable i) = Some old" "whole i b x old new {old} (tick d)"
      using w by (auto simp: whole_def links_work_def tick_def)
    then have "whole i b x old new {old} (set_file b (Some old) (tick d))"
      by (auto simp: whole_def links_work_def set_file_def)
    then show ?thesis using Runs live
      by (cases "dk_files (tick d) b") (simp_all add: guarded_def link_file_def prim_def fail_with_def)
  next
    case (Fails e)
    have "e \<notin> set [''EPERM'', ''EOPNOTSUPP'', ''EMLINK'']" using w Fails unfolding whole_def links_work_def by blast
    then show ?thesis using Fails w by (simp add: guarded_def link_file_def prim_def fail_with_def)
  qed (use w in \<open>simp add: guarded_def link_file_def prim_def\<close>)
  then show ?thesis unfolding backup_file_def by (intro keeps_seq keeps_flush) (simp add: keeps_def)
qed

subsection \<open>The transaction\<close>

lemma keeps_seq_val:
  "keeps P m \<Longrightarrow> (\<And>d x d'. m d = (Good x, d') \<Longrightarrow> Q x) \<Longrightarrow> (\<And>x. Q x \<Longrightarrow> keeps P (f x)) \<Longrightarrow> keeps P (seq m f)"
proof (unfold keeps_def, intro allI impI)
  fix d assume a: "\<forall>d. P d \<longrightarrow> P (snd (m d))" "\<And>d x d'. m d = (Good x, d') \<Longrightarrow> Q x"
    "\<And>x. Q x \<Longrightarrow> \<forall>d. P d \<longrightarrow> P (snd (f x d))" "P d"
  obtain r d1 where m: "m d = (r, d1)" by force
  then have "P d1" using a(1,4) by (metis snd_conv)
  then show "P (snd (seq m f d))" using m a(2,3) by (cases r) (simp_all add: seq_def)
qed

definition leads :: "(disk \<Rightarrow> bool) \<Rightarrow> (disk \<Rightarrow> bool) \<Rightarrow> 'a disk_act \<Rightarrow> bool" where
  "leads P Q m = (\<forall>d. P d \<longrightarrow> Q (snd (m d)))"

lemma leads_seq: "keeps P m \<Longrightarrow> (\<And>d. P d \<Longrightarrow> Q d) \<Longrightarrow> (\<And>x. leads P Q (f x)) \<Longrightarrow> leads P Q (seq m f)"
proof (unfold keeps_def leads_def, intro allI impI)
  fix d assume a: "\<forall>d. P d \<longrightarrow> P (snd (m d))" "\<And>d. P d \<Longrightarrow> Q d" "\<And>x. \<forall>d. P d \<longrightarrow> Q (snd (f x d))" "P d"
  obtain r d1 where m: "m d = (r, d1)" by force
  then have "P d1" using a(1,4) by (metis snd_conv)
  then show "Q (snd (seq m f d))" using m a(2,3) by (cases r) (simp_all add: seq_def)
qed

lemma leads_then: "leads P Q m \<Longrightarrow> (\<And>x. keeps Q (f x)) \<Longrightarrow> leads P Q (seq m f)"
proof (unfold keeps_def leads_def, intro allI impI)
  fix d assume a: "\<forall>d. P d \<longrightarrow> Q (snd (m d))" "\<And>x. \<forall>d. Q d \<longrightarrow> Q (snd (f x d))" "P d"
  obtain r d1 where m: "m d = (r, d1)" by force
  then have "Q d1" using a(1,3) by (metis snd_conv)
  then show "Q (snd (seq m f d))" using m a(2) by (cases r) (simp_all add: seq_def)
qed

lemma leads_seq_val:
  "keeps P m \<Longrightarrow> (\<And>d. P d \<Longrightarrow> Q d) \<Longrightarrow> (\<And>d x d'. m d = (Good x, d') \<Longrightarrow> R x) \<Longrightarrow> (\<And>x. R x \<Longrightarrow> leads P Q (f x)) \<Longrightarrow>
   leads P Q (seq m f)"
proof (unfold keeps_def leads_def, intro allI impI)
  fix d assume a: "\<forall>d. P d \<longrightarrow> P (snd (m d))" "\<And>d. P d \<Longrightarrow> Q d" "\<And>d x d'. m d = (Good x, d') \<Longrightarrow> R x"
    "\<And>x. R x \<Longrightarrow> \<forall>d. P d \<longrightarrow> Q (snd (f x d))" "P d"
  obtain r d1 where m: "m d = (r, d1)" by force
  then have "P d1" using a(1,5) by (metis snd_conv)
  then show "Q (snd (seq m f d))" using m a(2-4) by (cases r) (simp_all add: seq_def)
qed

lemma whole_mono: "whole i b x old new {old} d \<Longrightarrow> whole i b x old new {old, new} d"
  by (auto simp: whole_def)

lemma activate_leads:
  assumes "op_apart i b op" and "pl_executable pl = x"
  shows "leads (whole i b x old new {old}) (whole i b x old new {old, new}) (activate_update i op pl)"
proof (cases "in_kind i = Payload_Bundle")
  case False
  have b: "up_backup op = b" using assms(1) by (simp add: op_apart_def)
  have r: "leads (whole i b x old new {old}) (whole i b x old new {old, new}) (rename_file x (in_executable i))"
    unfolding leads_def rename_file_def prim_def
    by (auto simp: whole_def links_work_def tick_def set_file_def split: fate.splits option.splits)
  have op: "op_apart i b (op\<lparr>up_phase := p, up_deadline := t\<rparr>)" for p t
    using assms(1) by (auto simp: op_apart_def backup_and_staging_paths_def)
  have "keeps (whole i b x old new {old, new}) (\<lambda>d. seq (save_journal (op\<lparr>up_phase := ''activated'',
      up_deadline := now_at d + in_timeout i\<rparr>)) (\<lambda>_. give (op\<lparr>up_phase := ''activated'', up_deadline := now_at d + in_timeout i\<rparr>)) d)"
    by (rule keeps_env) (intro keeps_rules op)
  then have rest: "keeps (whole i b x old new {old, new}) (\<lambda>d. let op = op\<lparr>up_phase := ''activated'',
      up_deadline := now_at d + in_timeout i\<rparr> in seq (save_journal op) (\<lambda>_. give op) d)"
    by (simp add: Let_def)
  have "leads (whole i b x old new {old}) (whole i b x old new {old, new}) (seq (rename_file x (in_executable i))
      (\<lambda>_. seq flush (\<lambda>_ d. let op = op\<lparr>up_phase := ''activated'', up_deadline := now_at d + in_timeout i\<rparr> in
         seq (save_journal op) (\<lambda>_. give op) d)))"
    by (rule leads_then[OF r]) (intro keeps_seq keeps_flush rest)
  then show ?thesis unfolding activate_update_def b assms(2)
    using False by (auto intro!: leads_seq keeps_backup keeps_touch whole_mono simp: Let_def)
qed (auto simp: activate_update_def leads_def fail_with_def whole_def)

lemma seq_Good: "seq m f d = (Good y, d') \<Longrightarrow> \<exists>x d1. m d = (Good x, d1) \<and> f x d1 = (Good y, d')"
  by (auto simp: seq_def split: prod.splits step.splits)

lemma guarded_Good: "guarded m h d = (Good y, d') \<Longrightarrow>
    m d = (Good y, d') \<or> (\<exists>e d1. m d = (Bad e, d1) \<and> h e d1 = (Good y, d'))"
  by (auto simp: guarded_def split: prod.splits step.splits)

lemma prepare_value:
  assumes "prepare_update i pl version flavor token1 token2 archive d = (Good op, d')" and "pl_kind pl = Payload_File"
  shows "\<exists>p. op = (new_operation (in_dir i) version flavor token1 token2 [archive, pl_dir pl])\<lparr>up_prior := p\<rparr>"
proof -
  let ?op = "new_operation (in_dir i) version flavor token1 token2 [archive, pl_dir pl]"
  have z: "?op = ?op\<lparr>up_prior := []\<rparr>" by (simp add: new_operation_def)
  obtain found :: "operation option" and d1 where l: "(if case found of None \<Rightarrow> False | Some op \<Rightarrow> up_phase op = ''staged'' \<or> up_phase op = ''activated''
      then fail_with Pending_Operation
      else (let op = ?op in seq (if pl_kind pl = Payload_File
            then guarded (seq (digest_file i (in_executable i)) (\<lambda>s. give (op\<lparr>up_prior := hex_encode s\<rparr>))) (\<lambda>_. give op)
            else give (op\<lparr>up_backup := pl_bundle pl\<rparr>))
         (\<lambda>op. seq (save_journal op) (\<lambda>_. give op)))) d1 = (Good op, d')"
    using seq_Good[OF assms(1)[unfolded prepare_update_def]] by blast
  then have "(seq (guarded (seq (digest_file i (in_executable i)) (\<lambda>s. give (?op\<lparr>up_prior := hex_encode s\<rparr>))) (\<lambda>_. give ?op))
      (\<lambda>op. seq (save_journal op) (\<lambda>_. give op))) d1 = (Good op, d')"
    using assms(2) by (auto simp: fail_with_def Let_def split: if_splits)
  then obtain o2 d2 d3 where g: "guarded (seq (digest_file i (in_executable i)) (\<lambda>s. give (?op\<lparr>up_prior := hex_encode s\<rparr>))) (\<lambda>_. give ?op) d1 = (Good o2, d2)"
    and "op = o2" by (auto dest!: seq_Good simp: give_def)
  then show ?thesis using guarded_Good[OF g] z by (auto dest!: seq_Good simp: give_def)
qed

lemma keeps_prepare:
  assumes "pl_kind pl = Payload_File"
    and "op_apart i b (new_operation (in_dir i) version flavor token1 token2 [archive, pl_dir pl])"
  shows "keeps (whole i b x old new L) (prepare_update i pl version flavor token1 token2 archive)"
proof -
  let ?op = "new_operation (in_dir i) version flavor token1 token2 [archive, pl_dir pl]"
  have p: "op_apart i b (?op\<lparr>up_prior := p\<rparr>)" for p using assms(2) by (auto simp: op_apart_def backup_and_staging_paths_def)
  have v: "op_apart i b o2" if g: "guarded (seq (digest_file i (in_executable i)) (\<lambda>s. give (?op\<lparr>up_prior := hex_encode s\<rparr>)))
      (\<lambda>_. give ?op) d = (Good o2, d')" for d o2 d'
    using guarded_Good[OF g] p assms(2) by (auto dest!: seq_Good simp: give_def)
  have "keeps (whole i b x old new L) (seq (guarded (seq (digest_file i (in_executable i))
      (\<lambda>s. give (?op\<lparr>up_prior := hex_encode s\<rparr>))) (\<lambda>_. give ?op)) (\<lambda>op. seq (save_journal op) (\<lambda>_. give op)))"
    by (rule keeps_seq_val[where Q = "op_apart i b"]) (intro keeps_rules, erule v, intro keeps_rules)
  then show ?thesis unfolding prepare_update_def
    by (intro keeps_load) (simp add: assms(1) Let_def keeps_rules)
qed

lemma keeps_acknowledge [keeps_rules]: "keeps (whole i b x old new L) (acknowledge_operation j v)"
proof -
  have "op_apart i b op \<Longrightarrow> op_apart i b (op\<lparr>up_phase := p\<rparr>)" for op p
    by (auto simp: op_apart_def backup_and_staging_paths_def)
  then show ?thesis unfolding acknowledge_operation_def
    by (intro keeps_load) (auto intro!: keeps_rules split: option.splits)
qed

lemma keeps_live_state [keeps_rules]: "keeps (whole i b x old new L) (live_state j op)"
  unfolding live_state_def by (auto intro!: keeps_rules)

lemma keeps_recover [keeps_rules]: "keeps (whole i b x old new L) (recover_update i v)"
proof -
  have k: "keeps (whole i b x old new L) (\<lambda>d. (case evaluate_recovery op (s d) of (action, _) \<Rightarrow>
        (case action of
           Recovery_Cleanup \<Rightarrow> seq (cleanup op) (\<lambda>_. give action)
         | Recovery_Rollback \<Rightarrow> seq (rollback_update i op ''startup recovery'') (\<lambda>_. give action)
         | _ \<Rightarrow> give action) d))" if "op_apart i b op" for op s
    unfolding Let_def case_prod_beta
    by (rule keeps_env[where g = "\<lambda>e. case fst (evaluate_recovery op (s e)) of
           Recovery_Cleanup \<Rightarrow> seq (cleanup op) (\<lambda>_. give (fst (evaluate_recovery op (s e))))
         | Recovery_Rollback \<Rightarrow> seq (rollback_update i op ''startup recovery'') (\<lambda>_. give (fst (evaluate_recovery op (s e))))
         | _ \<Rightarrow> give (fst (evaluate_recovery op (s e)))"])
      (use that in \<open>auto intro!: keeps_rules split: recovery_action.split\<close>)
  show ?thesis unfolding recover_update_def Let_def
    by (intro keeps_load) (auto intro!: keeps_rules k split: option.splits)
qed

lemma keeps_acknowledge_update [keeps_rules]: "keeps (whole i b x old new L) (acknowledge_update i v)"
  unfolding acknowledge_update_def by (intro keeps_load) (auto intro!: keeps_rules split: option.splits)

lemma keeps_await: "keeps (whole i b x old new L) (await_health op polls)"
proof (induction op polls rule: await_health.induct)
  case (2 op p ps)
  have c: "whole i b x old new L d \<Longrightarrow> whole i b x old new L (child_acks op d)" for d
    by (auto simp: child_acks_def whole_def links_work_def op_apart_def backup_and_staging_paths_def split: option.splits)
  let ?m = "seq load_journal (\<lambda>found.
     if (case found of None \<Rightarrow> False | Some cur \<Rightarrow> up_phase cur = ''confirmed'') then give ()
     else if po_late p then fail_with (Unhealthy ''not acknowledged'')
     else if \<not> po_alive p then fail_with (Unhealthy ''exited'')
     else await_health op ps)"
  have "keeps (whole i b x old new L) ?m" by (intro keeps_load) (use 2 in \<open>simp add: keeps_rules\<close>)
  then show ?case using c by (simp add: keeps_def)
qed (simp add: keeps_rules)

lemma keeps_helper [keeps_rules]: "keeps (whole i b x old new L) (update_helper i gone spawn polls)"
proof -
  have "op_apart i b op \<Longrightarrow> keeps (whole i b x old new L) (run_helper i op gone spawn polls)" for op
    unfolding run_helper_def by (auto intro!: keeps_rules keeps_await split: option.splits)
  then show ?thesis unfolding update_helper_def
    by (intro keeps_load) (auto intro!: keeps_rules split: option.splits)
qed

lemma keeps_until [keeps_rules]: "keeps (whole i b x old new L) (acknowledge_until n op)"
proof (induction n)
  case (Suc n)
  have "keeps (whole i b x old new L) (\<lambda>d. if e = Operation_Mismatch \<or> \<not> now_at d < up_deadline op then give () d
      else acknowledge_until n op d)" for e
    using Suc by (auto simp: keeps_def give_def)
  then show ?case by (simp add: keeps_rules)
qed (simp add: keeps_rules)

lemma keeps_pending [keeps_rules]: "keeps (whole i b x old new L) (recover_pending i v owned n)"
  unfolding recover_pending_def
  by (intro keeps_guarded keeps_load keeps_rules) (auto intro!: keeps_rules keeps_load split: option.splits)

text \<open>What can happen to an installation after an update was tried: its starts, and runs of the helper.\<close>

datatype update_event = Start string bool nat | Helper bool "string option" "poll list"

definition handle_event :: "installer \<Rightarrow> update_event \<Rightarrow> disk \<Rightarrow> disk" where
  "handle_event i ev d = (case ev of
     Start version owned n \<Rightarrow> snd (recover_pending i version owned n d)
   | Helper gone spawn polls \<Rightarrow> snd (update_helper i gone spawn polls d))"

lemma events_whole: "whole i b x old new L d \<Longrightarrow> whole i b x old new L (fold (handle_event i) evs d)"
proof (induction evs arbitrary: d)
  case (Cons ev evs)
  have "whole i b x old new L (handle_event i ev d)"
    using Cons.prems keeps_pending keeps_helper by (cases ev) (auto simp: handle_event_def keeps_def)
  then show ?case using Cons.IH by simp
qed simp

definition update_begins :: "installer \<Rightarrow> payload \<Rightarrow> string \<Rightarrow> string \<Rightarrow> string \<Rightarrow> string \<Rightarrow> disk \<Rightarrow> bool" where
  "update_begins i pl token2 archive old new d =
     (let b = path_join [in_dir i, ''.filelist-backup-'' @ token2]; live = in_executable i; x = pl_executable pl in
      in_kind i = Payload_File \<and> pl_kind pl = Payload_File \<and> x \<noteq> live \<and> x \<noteq> b \<and>
      list_all (\<lambda>p. \<not> below p live) [b, archive, pl_dir pl] \<and>
      dk_files d live = Some old \<and> dk_files d x = Some new \<and> dk_files d b = None \<and> dk_journal d = None)"

lemma install_whole:
  assumes "update_begins i pl token2 archive old new d" and "links_work d"
  shows "whole i (path_join [in_dir i, ''.filelist-backup-'' @ token2]) (pl_executable pl) old new {old, new}
    (snd (install_update i pl version flavor token1 token2 archive d))"
proof -
  let ?b = "path_join [in_dir i, ''.filelist-backup-'' @ token2]" and ?x = "pl_executable pl"
  let ?op = "new_operation (in_dir i) version flavor token1 token2 [archive, pl_dir pl]"
  have bl: "?b \<noteq> in_executable i" using assms(1) by (auto simp: update_begins_def Let_def below_def)
  have op: "op_apart i ?b ?op" using assms(1)
    by (auto simp: update_begins_def Let_def op_apart_def new_operation_def backup_and_staging_paths_def)
  have p: "op_apart i ?b (?op\<lparr>up_prior := p\<rparr>)" for p
    using op by (auto simp: op_apart_def backup_and_staging_paths_def)
  have w: "whole i ?b ?x old new {old} d" using assms bl by (auto simp: update_begins_def Let_def whole_def)
  have k: "pl_kind pl = Payload_File" using assms(1) by (simp add: update_begins_def Let_def)
  have "leads (whole i ?b ?x old new {old}) (whole i ?b ?x old new {old, new})
      (install_update i pl version flavor token1 token2 archive)"
    unfolding install_update_def
  proof (rule leads_seq_val[where R = "op_apart i ?b", OF keeps_prepare[OF k op] whole_mono])
    show "op_apart i ?b x" if "prepare_update i pl version flavor token1 token2 archive d = (Good x, d')" for d x d'
      using prepare_value[OF that k] p by auto
  qed (auto intro: activate_leads)
  then show ?thesis using w by (simp add: leads_def)
qed

text \<open>
  Property C22: on a filesystem with hard links, wherever the update stops (any system call may fail, and the
  process may die in front of any of them), and whatever starts and helper runs follow, with failures
  and crashes of their own: the live executable is always the whole old or the whole new one, and a
  backup, while there is one, is the whole old one.
\<close>

theorem update_keeps_installation:
  assumes "update_begins i pl token2 archive old new d" and "links_work d"
  shows "let d' = fold (handle_event i) evs (snd (install_update i pl version flavor token1 token2 archive d)) in
    dk_files d' (in_executable i) \<in> {Some old, Some new} \<and>
    dk_files d' (path_join [in_dir i, ''.filelist-backup-'' @ token2]) \<in> {None, Some old}"
  using events_whole[OF install_whole[OF assms], of evs version flavor token1]
  by (auto simp: Let_def whole_def)

subsection \<open>An instance, and filesystems without hard links\<close>

definition demo_installer :: installer where
  "demo_installer = \<lparr>in_dir = ''/opt/tv'', in_executable = ''/opt/tv/torrent-tv'', in_bundle = [],
     in_kind = Payload_File, in_timeout = 90 * second,
     in_sha = (\<lambda>s. take 32 (s @ replicate 32 CHR ''0''))\<rparr>"

definition demo_payload :: payload where
  "demo_payload = \<lparr>pl_dir = ''/opt/tv/.stage'', pl_kind = Payload_File, pl_executable = ''/opt/tv/.stage/torrent-tv'',
     pl_bundle = []\<rparr>"

definition demo_disk :: "(nat \<Rightarrow> fate) \<Rightarrow> disk" where
  "demo_disk fates = \<lparr>dk_files = [''/opt/tv/torrent-tv'' \<mapsto> ''old program'', ''/opt/tv/.stage/torrent-tv'' \<mapsto> ''new program''],
     dk_journal = None, dk_fate = fates, dk_clock = (\<lambda>_. 0), dk_part = 3, dk_tick = 0\<rparr>"

lemma demo_begins: "update_begins demo_installer demo_payload ''2'' ''/opt/tv/.archive'' ''old program'' ''new program'' (demo_disk f)"
  by (simp add: update_begins_def Let_def demo_installer_def demo_payload_def demo_disk_def path_join_def clean_def
      is_abs_def has_prefix_def below_def)

theorem update_keeps_installation_witness:
  "dk_files (fold (handle_event demo_installer) [Start ''2.0'' True 0]
     (snd (install_update demo_installer demo_payload ''2.0'' ''headless'' ''1'' ''2'' ''/opt/tv/.archive''
        (demo_disk (\<lambda>n. if n = 12 then Dies else Runs))))) ''/opt/tv/torrent-tv'' \<in> {Some ''old program'', Some ''new program''}"
  using update_keeps_installation[OF demo_begins, of "\<lambda>n. if n = 12 then Dies else Runs" "[Start ''2.0'' True 0]"]
  by (simp add: links_work_def demo_disk_def demo_installer_def Let_def)

text \<open>
  Property C25: where hard links are refused the backup is a copy, and a crash while it is written makes the
  next start destroy the installation: the live executable, never touched by the update, is taken for the new one
  because it differs from the unfinished backup, and the unfinished backup is renamed over it.
\<close>

theorem interrupted_copy_destroys_installation:
  "\<exists>fates. let d = snd (install_update demo_installer demo_payload ''2.0'' ''headless'' ''1'' ''2'' ''/opt/tv/.archive''
        (demo_disk fates)) in
     dk_files d ''/opt/tv/torrent-tv'' = Some ''old program'' \<and>
     dk_files (handle_event demo_installer (Start ''1.0'' True 0) d) ''/opt/tv/torrent-tv'' = Some ''old''"
proof (rule exI)
  let ?f = "\<lambda>n. if n = (8::nat) then Fails ''EPERM'' else if n = 12 then Dies else Runs"
  show "let d = snd (install_update demo_installer demo_payload ''2.0'' ''headless'' ''1'' ''2'' ''/opt/tv/.archive''
        (demo_disk ?f)) in
     dk_files d ''/opt/tv/torrent-tv'' = Some ''old program'' \<and>
     dk_files (handle_event demo_installer (Start ''1.0'' True 0) d) ''/opt/tv/torrent-tv'' = Some ''old''"
    by code_simp
qed

subsection \<open>Recovery on a working disk\<close>

lemma nibble_round: "n < 16 \<Longrightarrow> nibble_value (nibble n) = Some n"
proof -
  have "\<forall>n \<in> set [0 ..< 16]. nibble_value (nibble n) = Some n" by code_simp
  then show "n < 16 \<Longrightarrow> nibble_value (nibble n) = Some n" by simp
qed

lemma hex_round: "hex_decode (hex_encode s) = Some s"
proof (induction s)
  case (Cons c s)
  have "(of_char c :: nat) < 16 * 16" by simp
  then have n: "(of_char c :: nat) div 16 < 16" "(of_char c :: nat) mod 16 < 16"
    by (rule less_mult_imp_div_less) simp
  have "hex_encode (c # s) = nibble (of_char c div 16) # nibble (of_char c mod 16) # hex_encode s"
    by (simp add: hex_encode_def Let_def)
  moreover have "char_of (16 * ((of_char c :: nat) div 16) + (of_char c :: nat) mod 16) = c" by simp
  ultimately show ?case using Cons n by (simp add: nibble_round)
qed (simp add: hex_encode_def)

text \<open>A program with its outcome: what holds when it succeeds, and what holds when it fails or dies.\<close>

definition outcome :: "(disk \<Rightarrow> bool) \<Rightarrow> 'a disk_act \<Rightarrow> ('a \<Rightarrow> disk \<Rightarrow> bool) \<Rightarrow> (disk \<Rightarrow> bool) \<Rightarrow> bool" where
  "outcome P m Q R = (\<forall>d. P d \<longrightarrow> (case m d of (Good x, d') \<Rightarrow> Q x d' | (_, d') \<Rightarrow> R d'))"

lemma outcome_seq: "outcome P m Q R \<Longrightarrow> (\<And>x. outcome (Q x) (f x) S R) \<Longrightarrow> outcome P (seq m f) S R"
proof (unfold outcome_def, intro allI impI)
  fix d
  assume a: "\<forall>d. P d \<longrightarrow> (case m d of (Good x, d') \<Rightarrow> Q x d' | (_, d') \<Rightarrow> R d')"
    "\<And>x. \<forall>d. Q x d \<longrightarrow> (case f x d of (Good y, d') \<Rightarrow> S y d' | (_, d') \<Rightarrow> R d')" "P d"
  obtain r d1 where m: "m d = (r, d1)" by force
  show "case seq m f d of (Good y, d') \<Rightarrow> S y d' | (_, d') \<Rightarrow> R d'"
    using a(1)[THEN spec, of d] a(2)[THEN spec, of _ d1] a(3) m by (cases r) (simp_all add: seq_def)
qed

lemma outcome_prim:
  "(\<And>d. P d \<Longrightarrow> R (tick d)) \<Longrightarrow> (\<And>d. P d \<Longrightarrow> case f (tick d) of (Good x, d') \<Rightarrow> Q x d' | (_, d') \<Rightarrow> R d') \<Longrightarrow>
   outcome P (prim f) Q R"
  by (auto simp: outcome_def prim_def split: fate.splits)

lemma outcome_give: "(\<And>d. P d \<Longrightarrow> Q x d) \<Longrightarrow> outcome P (give x) Q R"
  by (simp add: outcome_def give_def)

definition record_ok :: "installer \<Rightarrow> string \<Rightarrow> string \<Rightarrow> string \<Rightarrow> operation \<Rightarrow> bool" where
  "record_ok i b old version op = (op_apart i b op \<and> up_failed op = [] \<and> up_version op = version \<and>
     up_prior op \<in> {[], hex_encode (in_sha i old)})"

text \<open>
  The states an update leaves when it stops: \<open>phase\<close> 0 in front of the record, 1 with the record, 2 with the
  backup, 3 with the new executable live.
\<close>

definition stopped :: "nat \<Rightarrow> installer \<Rightarrow> string \<Rightarrow> string \<Rightarrow> string \<Rightarrow> string \<Rightarrow> string \<Rightarrow> operation option \<Rightarrow> disk \<Rightarrow> bool" where
  "stopped n i b x old new version rec d =
     (links_work d \<and> dk_journal d = rec \<and>
      (case rec of None \<Rightarrow> n = 0
       | Some op \<Rightarrow> 0 < n \<and> record_ok i b old version op \<and>
           (up_phase op = ''staged'' \<or> (n = 3 \<and> up_phase op = ''activated''))) \<and>
      dk_files d (in_executable i) = Some (if n = 3 then new else old) \<and>
      dk_files d b = (if n < 2 then None else Some old) \<and> (n < 3 \<longrightarrow> dk_files d x = Some new))"

definition halted :: "installer \<Rightarrow> string \<Rightarrow> string \<Rightarrow> string \<Rightarrow> string \<Rightarrow> string \<Rightarrow> disk \<Rightarrow> bool" where
  "halted i b x old new version d = (\<exists>n rec. stopped n i b x old new version rec d)"

lemma stopped_tick [simp]: "stopped n i b x old new version rec (tick d) = stopped n i b x old new version rec d"
  by (simp add: stopped_def tick_def links_work_def)

lemma stopped_halts: "stopped n i b x old new version rec d \<Longrightarrow> halted i b x old new version d"
  by (auto simp: halted_def)

lemma stopped_flush: "outcome (stopped n i b x old new version rec) flush (\<lambda>_. stopped n i b x old new version rec)
    (halted i b x old new version)"
  unfolding flush_def by (rule outcome_prim) (auto simp: give_def stopped_halts)

lemma stopped_save:
  assumes "case rec of None \<Rightarrow> n = 0 \<and> m = 1 | Some _ \<Rightarrow> 0 < n \<and> m = n" and "record_ok i b old version op"
    and "up_phase op = ''staged'' \<or> (n = 3 \<and> up_phase op = ''activated'')"
  shows "outcome (stopped n i b x old new version rec) (save_journal op)
    (\<lambda>_. stopped m i b x old new version (Some op)) (halted i b x old new version)"
proof -
  have "outcome (stopped n i b x old new version rec) (prim (\<lambda>d. (Good (), d\<lparr>dk_journal := Some op\<rparr>)))
      (\<lambda>_. stopped m i b x old new version (Some op)) (halted i b x old new version)"
    by (rule outcome_prim) (use assms in \<open>auto simp: stopped_halts, auto simp: stopped_def links_work_def tick_def split: option.splits\<close>)
  then show ?thesis unfolding save_journal_def
    by (intro outcome_seq[OF stopped_flush] outcome_seq[OF _ stopped_flush])
qed

lemma outcome_weaken: "outcome P m Q R \<Longrightarrow> (\<And>d. P' d \<Longrightarrow> P d) \<Longrightarrow> (\<And>x d. Q x d \<Longrightarrow> Q' x d) \<Longrightarrow> outcome P' m Q' R"
proof (unfold outcome_def, intro allI impI)
  fix d
  assume a: "\<forall>d. P d \<longrightarrow> (case m d of (Good x, d') \<Rightarrow> Q x d' | (_, d') \<Rightarrow> R d')"
    "\<And>d. P' d \<Longrightarrow> P d" "\<And>x d. Q x d \<Longrightarrow> Q' x d" "P' d"
  obtain r d1 where m: "m d = (r, d1)" by force
  show "case m d of (Good x, d') \<Rightarrow> Q' x d' | (_, d') \<Rightarrow> R d'"
    using a(1)[THEN spec, of d] a(2,3) a(4) m by (cases r) simp_all
qed

lemma halted_links: "halted i b x old new version d \<Longrightarrow> links_work d"
  by (auto simp: halted_def stopped_def)

lemma stopped_digest:
  "outcome (stopped 0 i b x old new version None)
     (guarded (seq (digest_file i (in_executable i)) (\<lambda>s. give (op\<lparr>up_prior := hex_encode s\<rparr>))) (\<lambda>_. give op))
     (\<lambda>op2 d. stopped 0 i b x old new version None d \<and> op2 \<in> {op, op\<lparr>up_prior := hex_encode (in_sha i old)\<rparr>})
     (halted i b x old new version)"
proof (unfold outcome_def, intro allI impI)
  fix d assume s: "stopped 0 i b x old new version None d"
  then have t: "stopped 0 i b x old new version None (tick d)" by simp
  have live: "dk_files (tick d) (in_executable i) = Some old" using t by (simp add: stopped_def)
  show "case guarded (seq (digest_file i (in_executable i)) (\<lambda>s. give (op\<lparr>up_prior := hex_encode s\<rparr>))) (\<lambda>_. give op) d of
      (Good op2, d) \<Rightarrow> stopped 0 i b x old new version None d \<and> op2 \<in> {op, op\<lparr>up_prior := hex_encode (in_sha i old)\<rparr>}
    | (_, d) \<Rightarrow> halted i b x old new version d"
    using t live stopped_halts[OF t]
    by (cases "dk_fate d (dk_tick d)")
      (simp_all add: guarded_def seq_def digest_file_def read_file_def prim_def give_def)
qed

lemma stopped_backup:
  assumes "b \<noteq> in_executable i" "x \<noteq> b"
  shows "outcome (stopped 1 i b x old new version (Some op)) (backup_file (in_executable i) b)
    (\<lambda>_. stopped 2 i b x old new version (Some op)) (halted i b x old new version)"
proof -
  have "outcome (stopped 1 i b x old new version (Some op)) (guarded (link_file (in_executable i) b) (\<lambda>e.
        if e \<in> set [Errno ''EPERM'', Errno ''EOPNOTSUPP'', Errno ''EMLINK''] then copy_backup (in_executable i) b else fail_with e))
    (\<lambda>_. stopped 2 i b x old new version (Some op)) (halted i b x old new version)"
  proof (unfold outcome_def, intro allI impI)
    fix d assume s: "stopped 1 i b x old new version (Some op) d"
    then have t: "stopped 1 i b x old new version (Some op) (tick d)" by simp
    have f: "dk_files (tick d) (in_executable i) = Some old" "dk_files (tick d) b = None"
      using t by (simp_all add: stopped_def)
    have l: "stopped 2 i b x old new version (Some op) (set_file b (Some old) (tick d))"
      using t assms by (auto simp: stopped_def set_file_def links_work_def)
    show "case guarded (link_file (in_executable i) b) (\<lambda>e.
        if e \<in> set [Errno ''EPERM'', Errno ''EOPNOTSUPP'', Errno ''EMLINK''] then copy_backup (in_executable i) b else fail_with e) d of
        (Good xa, d) \<Rightarrow> stopped 2 i b x old new version (Some op) d | (_, d) \<Rightarrow> halted i b x old new version d"
    proof (cases "dk_fate d (dk_tick d)")
      case (Fails e)
      have "links_work d" using s by (simp add: stopped_def)
      then have "e \<notin> set [''EPERM'', ''EOPNOTSUPP'', ''EMLINK'']" using Fails unfolding links_work_def by blast
      then show ?thesis using Fails stopped_halts[OF t] by (simp add: guarded_def link_file_def prim_def fail_with_def)
    qed (use f l stopped_halts[OF t] in \<open>simp_all add: guarded_def link_file_def prim_def\<close>)
  qed
  then show ?thesis unfolding backup_file_def by (rule outcome_seq) (rule stopped_flush)
qed

lemma stopped_touch:
  "outcome (stopped 2 i b x old new version rec) (touch p) (\<lambda>_. stopped 2 i b x old new version rec)
    (halted i b x old new version)"
  unfolding touch_def by (rule outcome_prim) (auto simp: stopped_halts)

lemma stopped_rename:
  assumes "b \<noteq> in_executable i" "x \<noteq> b" "x \<noteq> in_executable i"
  shows "outcome (stopped 2 i b x old new version rec) (rename_file x (in_executable i))
    (\<lambda>_. stopped 3 i b x old new version rec) (halted i b x old new version)"
  unfolding rename_file_def
proof (rule outcome_prim)
  fix d assume s: "stopped 2 i b x old new version rec d"
  then show "halted i b x old new version (tick d)" using stopped_halts by simp
  have f: "dk_files (tick d) x = Some new" using s by (simp add: stopped_def tick_def)
  show "case case dk_files (tick d) x of None \<Rightarrow> (Bad (Errno ''ENOENT''), tick d)
      | Some c \<Rightarrow> (Good (), set_file (in_executable i) (Some c) (set_file x None (tick d))) of
      (Good xa, d') \<Rightarrow> stopped 3 i b x old new version rec d' | (_, d') \<Rightarrow> halted i b x old new version d'"
    using s f assms by (auto simp: stopped_def set_file_def links_work_def tick_def split: option.splits)
qed

lemma install_halts:
  assumes "update_begins i pl token2 archive old new d" and "links_work d"
  shows "halted i (path_join [in_dir i, ''.filelist-backup-'' @ token2]) (pl_executable pl) old new version
    (snd (install_update i pl version flavor token1 token2 archive d))"
proof -
  define b where "b = path_join [in_dir i, ''.filelist-backup-'' @ token2]"
  let ?b = b and ?x = "pl_executable pl"
  let ?op = "new_operation (in_dir i) version flavor token1 token2 [archive, pl_dir pl]"
  have opb: "up_backup ?op = b" by (simp only: new_operation_def operation.simps b_def)
  let ?S = "\<lambda>n. stopped n i ?b ?x old new version" and ?H = "halted i ?b ?x old new version"
  have bl: "?b \<noteq> in_executable i" "?x \<noteq> ?b" "?x \<noteq> in_executable i" "in_kind i \<noteq> Payload_Bundle"
      "pl_kind pl = Payload_File"
    using assms(1) by (auto simp: update_begins_def Let_def below_def b_def)
  have ok: "record_ok i ?b old version op \<and> up_phase op = ''staged'' \<and> up_backup op = ?b"
    if "op \<in> {?op, ?op\<lparr>up_prior := hex_encode (in_sha i old)\<rparr>}" for op
    using that assms(1)
    by (auto simp: update_begins_def Let_def record_ok_def op_apart_def new_operation_def backup_and_staging_paths_def b_def)
  have start: "?S 0 None d" using assms by (auto simp: update_begins_def Let_def stopped_def b_def)
  have load: "outcome (?S 0 None) load_journal (\<lambda>found d. found = None \<and> ?S 0 None d) ?H"
    unfolding load_journal_def by (rule outcome_prim) (auto simp: stopped_halts, simp add: stopped_def tick_def)
  have save: "outcome (\<lambda>d. ?S 0 None d \<and> op \<in> {?op, ?op\<lparr>up_prior := hex_encode (in_sha i old)\<rparr>})
      (seq (save_journal op) (\<lambda>_. give op)) (\<lambda>op d. record_ok i ?b old version op \<and> up_phase op = ''staged'' \<and>
        up_backup op = ?b \<and> ?S 1 (Some op) d) ?H" for op
  proof (cases "op \<in> {?op, ?op\<lparr>up_prior := hex_encode (in_sha i old)\<rparr>}")
    case True
    show ?thesis
      by (rule outcome_seq[OF outcome_weaken[OF stopped_save[where n = 0 and m = 1 and rec = None]] outcome_give])
        (use ok[OF True] in auto)
  qed (simp add: outcome_def)
  have prep: "outcome (?S 0 None) (prepare_update i pl version flavor token1 token2 archive)
      (\<lambda>op d. record_ok i ?b old version op \<and> up_phase op = ''staged'' \<and> up_backup op = ?b \<and> ?S 1 (Some op) d) ?H"
    unfolding prepare_update_def
  proof (rule outcome_seq[OF load])
    fix found :: "operation option"
    show "outcome (\<lambda>d. found = None \<and> ?S 0 None d)
        (if case found of None \<Rightarrow> False | Some op \<Rightarrow> up_phase op = ''staged'' \<or> up_phase op = ''activated''
         then fail_with Pending_Operation
         else let op = ?op in seq (if pl_kind pl = Payload_File
            then guarded (seq (digest_file i (in_executable i)) (\<lambda>s. give (op\<lparr>up_prior := hex_encode s\<rparr>))) (\<lambda>_. give op)
            else give (op\<lparr>up_backup := pl_bundle pl\<rparr>))
         (\<lambda>op. seq (save_journal op) (\<lambda>_. give op)))
        (\<lambda>op d. record_ok i ?b old version op \<and> up_phase op = ''staged'' \<and> up_backup op = ?b \<and> ?S 1 (Some op) d) ?H"
    proof (cases found)
      case None
      have "outcome (?S 0 None) (seq (guarded (seq (digest_file i (in_executable i)) (\<lambda>s. give (?op\<lparr>up_prior := hex_encode s\<rparr>))) (\<lambda>_. give ?op))
          (\<lambda>op. seq (save_journal op) (\<lambda>_. give op)))
        (\<lambda>op d. record_ok i ?b old version op \<and> up_phase op = ''staged'' \<and> up_backup op = ?b \<and> ?S 1 (Some op) d) ?H"
        by (rule outcome_seq[OF stopped_digest save])
      then show ?thesis using None bl by (simp add: Let_def)
    qed (simp add: outcome_def)
  qed
  have act: "outcome (\<lambda>d. record_ok i ?b old version op \<and> up_phase op = ''staged'' \<and> up_backup op = ?b \<and> ?S 1 (Some op) d)
      (activate_update i op pl) (\<lambda>_. ?H) ?H" for op
  proof (cases "record_ok i ?b old version op \<and> up_phase op = ''staged'' \<and> up_backup op = ?b")
    case True
    have fin: "outcome (?S 3 (Some op)) (\<lambda>d. let op = op\<lparr>up_phase := ''activated'', up_deadline := now_at d + in_timeout i\<rparr> in
         seq (save_journal op) (\<lambda>_. give op) d) (\<lambda>_. ?H) ?H"
    proof (unfold outcome_def, intro allI impI)
      fix d assume s: "?S 3 (Some op) d"
      let ?op2 = "op\<lparr>up_phase := ''activated'', up_deadline := now_at d + in_timeout i\<rparr>"
      have "outcome (?S 3 (Some op)) (save_journal ?op2) (\<lambda>_. ?S 3 (Some ?op2)) ?H"
        by (rule stopped_save) (use True in \<open>auto simp: record_ok_def op_apart_def backup_and_staging_paths_def\<close>)
      then have o: "outcome (?S 3 (Some op)) (seq (save_journal ?op2) (\<lambda>_. give ?op2)) (\<lambda>_. ?H) ?H"
        by (rule outcome_seq) (auto intro: outcome_give stopped_halts)
      show "case (let op = ?op2 in seq (save_journal op) (\<lambda>_. give op) d) of (Good x, d') \<Rightarrow> ?H d' | (_, d') \<Rightarrow> ?H d'"
        unfolding Let_def by (rule o[unfolded outcome_def, rule_format, OF s])
    qed
    have b: "up_backup op = ?b" using True by blast
    have "outcome (?S 1 (Some op)) (activate_update i op pl) (\<lambda>_. ?H) ?H"
      unfolding activate_update_def b if_not_P[OF bl(4)]
      by (rule outcome_seq[OF stopped_backup[OF bl(1,2)]], rule outcome_seq[OF stopped_touch],
          rule outcome_seq[OF stopped_rename[OF bl(1,2,3)]], rule outcome_seq[OF stopped_flush], rule fin)
    then show ?thesis using True by (simp add: outcome_def)
  qed (unfold outcome_def, blast)
  have "outcome (?S 0 None) (install_update i pl version flavor token1 token2 archive) (\<lambda>_. ?H) ?H"
    unfolding install_update_def by (rule outcome_seq[OF prep act])
  from this[unfolded outcome_def, rule_format, OF start] show ?thesis unfolding b_def[symmetric]
    by (cases "install_update i pl version flavor token1 token2 archive d") (auto split: step.splits)
qed

definition disk_runs :: "disk \<Rightarrow> bool" where
  "disk_runs d = (dk_fate d = (\<lambda>_. Runs))"

lemma disk_runs_prim: "disk_runs d \<Longrightarrow> prim f d = f (tick d)"
  by (simp add: disk_runs_def prim_def)

lemma disk_runs_tick [simp]: "disk_runs (tick d) = disk_runs d" "dk_files (tick d) = dk_files d" "dk_journal (tick d) = dk_journal d"
  by (simp_all add: disk_runs_def tick_def)

lemma disk_runs_update [simp]: "disk_runs (d\<lparr>dk_journal := j\<rparr>) = disk_runs d" "disk_runs (d\<lparr>dk_files := f\<rparr>) = disk_runs d"
  by (simp_all add: disk_runs_def)

lemma disk_runs_save: "disk_runs d \<Longrightarrow> \<exists>d'. save_journal op d = (Good (), d') \<and> disk_runs d' \<and> dk_files d' = dk_files d \<and>
    dk_journal d' = Some op"
  by (simp add: save_journal_def seq_def flush_def disk_runs_prim give_def)

lemma disk_runs_remove_paths:
  "disk_runs d \<Longrightarrow> list_all (\<lambda>p. \<not> below p live) ps \<Longrightarrow>
   \<exists>d'. remove_paths ps d = (Good (), d') \<and> disk_runs d' \<and> dk_files d' live = dk_files d live"
proof (induction ps arbitrary: d)
  case (Cons p ps)
  let ?d = "tick d\<lparr>dk_files := (\<lambda>q. if below p q then None else dk_files (tick d) q)\<rparr>"
  have "ignore (remove_all p) d = (Good (), ?d)"
    using Cons.prems(1) by (simp add: ignore_def guarded_def remove_all_def disk_runs_prim)
  moreover obtain d' where "remove_paths ps ?d = (Good (), d')" "disk_runs d'" "dk_files d' live = dk_files ?d live"
    using Cons.IH[of ?d] Cons.prems by auto
  ultimately show ?case using Cons.prems(2) by (simp add: seq_def)
qed (simp add: give_def)

lemma disk_runs_cleanup:
  assumes "disk_runs d" and "op_apart i b op"
  shows "\<exists>d'. cleanup op d = (Good (), d') \<and> dk_journal d' = None \<and>
    dk_files d' (in_executable i) = dk_files d (in_executable i)"
proof -
  obtain d' where "remove_paths (backup_and_staging_paths op) d = (Good (), d')" "disk_runs d'"
      "dk_files d' (in_executable i) = dk_files d (in_executable i)"
    using disk_runs_remove_paths[of d "in_executable i" "backup_and_staging_paths op"] assms by (auto simp: op_apart_def)
  then show ?thesis by (simp add: cleanup_def seq_def clear_journal_def flush_def disk_runs_prim give_def)
qed

lemma disk_runs_rollback:
  assumes "disk_runs d" and "in_kind i = Payload_File" and "dk_files d (up_backup op) = Some c"
  shows "\<exists>d'. rollback_update i op reason d = (Good (), d') \<and> dk_files d' (in_executable i) = Some c \<and>
    dk_journal d' = Some (op\<lparr>up_phase := ''rolled-back'', up_suppress := True\<rparr>)"
proof -
  let ?d = "set_file (in_executable i) (Some c) (set_file (up_backup op) None (tick d))"
  let ?op = "op\<lparr>up_phase := ''rolled-back'', up_suppress := True, up_failed := up_failed op\<rparr>"
  have r: "disk_runs ?d" using assms(1) by (simp add: set_file_def)
  have "restore_file (up_backup op) (in_executable i) d = (Good (), tick ?d)"
    using assms r by (simp add: restore_file_def seq_def rename_file_def flush_def disk_runs_prim give_def)
  moreover obtain d' where "save_journal ?op (tick ?d) = (Good (), d')" "dk_files d' = dk_files ?d" "dk_journal d' = Some ?op"
    using disk_runs_save[of "tick ?d" ?op] r by auto
  ultimately have "rollback_update i op reason d = (Good (), d')"
    using assms(2) by (simp add: rollback_update_def seq_def guarded_def live_path_def give_def)
  then show ?thesis using \<open>dk_files d' = dk_files ?d\<close> \<open>dk_journal d' = Some ?op\<close> by (simp add: set_file_def)
qed

lemma disk_runs_live_state:
  assumes "disk_runs d" and "in_kind i = Payload_File" and "dk_files d (in_executable i) = Some l"
  shows "live_state i op d = (Good (case dk_files d (up_backup op) of
      Some c \<Rightarrow> if in_sha i l = in_sha i c then (False, True) else (True, False)
    | None \<Rightarrow> prior_state op (in_sha i l)), tick (tick d))"
  using assms by (auto simp: live_state_def guarded_def seq_def digest_file_def read_file_def disk_runs_prim give_def
      split: option.splits)

lemma pristine_prior:
  assumes "up_prior op \<in> {[], hex_encode (in_sha i old)}"
  shows "fst (prior_state op (in_sha i old)) = False"
  using assms hex_round[of "[]"] by (auto simp: prior_state_def hex_round split: if_splits)

lemma evaluate_activated:
  assumes "up_failed op = []" and "is_activated st" and "up_phase op = ''staged'' \<or> up_phase op = ''activated''"
  shows "fst (evaluate_recovery op st) = Recovery_Rollback \<or>
    fst (evaluate_recovery op st) = Recovery_Acknowledge \<and> is_version st = up_version op"
  using assms by (cases "is_version st = up_version op \<and> is_now st < up_deadline op") (auto simp: evaluate_recovery_def)

text \<open>
  Property C23: on a filesystem with hard links, and for programs of different digests, wherever the installation of an
  update stops (any of its calls may fail, and the process may die in front of any of them), the next start on a working
  disk finishes it: the old executable is live again and nothing is pending but a suppression note, or the new one is
  live, of the running version, and its backup is still there for a rollback.  Stops of the helper and of an earlier
  recovery are not covered here, and without hard links the promise fails (C25).
\<close>

theorem update_recovers:
  assumes "update_begins i pl token2 archive old new d" and "links_work d" and "in_sha i old \<noteq> in_sha i new"
  shows "let d1 = snd (install_update i pl version flavor token1 token2 archive d) in
    \<exists>action d2. recover_update i running (d1\<lparr>dk_fate := (\<lambda>_. Runs)\<rparr>) = (Good action, d2) \<and>
     (dk_files d2 (in_executable i) = Some old \<and>
        (case dk_journal d2 of None \<Rightarrow> action \<in> {Recovery_None, Recovery_Cleanup}
         | Some op \<Rightarrow> action = Recovery_Rollback \<and> up_phase op = ''rolled-back'' \<and> up_suppress op \<and> up_failed op = []) \<or>
      action = Recovery_Acknowledge \<and> running = version \<and> dk_files d2 (in_executable i) = Some new \<and>
        dk_files d2 (path_join [in_dir i, ''.filelist-backup-'' @ token2]) = Some old)"
proof -
  define b where "b = path_join [in_dir i, ''.filelist-backup-'' @ token2]"
  define d1 where "d1 = snd (install_update i pl version flavor token1 token2 archive d)"
  define d0 where "d0 = d1\<lparr>dk_fate := (\<lambda>_. Runs)\<rparr>"
  have kind: "in_kind i = Payload_File" "b \<noteq> in_executable i" using assms(1)
    by (auto simp: update_begins_def Let_def b_def below_def)
  obtain n rec where s: "stopped n i b (pl_executable pl) old new version rec d1"
    using install_halts[OF assms(1,2), of version flavor token1] by (auto simp: halted_def b_def d1_def)
  have r: "disk_runs d0" "dk_journal d0 = rec" "dk_files d0 = dk_files d1"
    using s by (simp_all add: d0_def disk_runs_def stopped_def)
  have load: "load_journal d0 = (Good rec, tick d0)" using r by (simp add: load_journal_def disk_runs_prim)
  have goal: ?thesis if "recover_update i running d0 = (Good action, d2)"
      "dk_files d2 (in_executable i) = Some old \<and>
        (case dk_journal d2 of None \<Rightarrow> action \<in> {Recovery_None, Recovery_Cleanup}
         | Some op \<Rightarrow> action = Recovery_Rollback \<and> up_phase op = ''rolled-back'' \<and> up_suppress op \<and> up_failed op = []) \<or>
      action = Recovery_Acknowledge \<and> running = version \<and> dk_files d2 (in_executable i) = Some new \<and>
        dk_files d2 b = Some old" for action d2
    using that unfolding d0_def d1_def b_def Let_def by blast
  show ?thesis
  proof (cases rec)
    case None
    then have "recover_update i running d0 = (Good Recovery_None, tick d0)" "dk_files d1 (in_executable i) = Some old"
      using load s by (simp_all add: recover_update_def seq_def give_def stopped_def)
    then show ?thesis using r None by (intro goal[of Recovery_None "tick d0"]) auto
  next
    case (Some op)
    let ?t = "tick (tick (tick d0))"
    have op: "op_apart i b op" "up_failed op = []" "up_version op = version" "up_backup op = b"
        "up_prior op \<in> {[], hex_encode (in_sha i old)}"
      using s Some by (auto simp: stopped_def record_ok_def op_apart_def)
    have apart: "op_apart i b op" using op by simp
    define st where "st = (case dk_files d0 b of
      Some c \<Rightarrow> if in_sha i (if n = 3 then new else old) = in_sha i c then (False, True) else (True, False)
    | None \<Rightarrow> prior_state op (in_sha i (if n = 3 then new else old)))"
    have ls: "live_state i op (tick d0) = (Good st, ?t)"
      using disk_runs_live_state[of "tick d0" i "if n = 3 then new else old" op] r s kind op(4)
      by (simp add: st_def stopped_def)
    have act: "fst st = (n = 3)"
      using s assms(3) r pristine_prior[OF op(5)] by (auto simp: st_def stopped_def)
    let ?e = "evaluate_recovery op \<lparr>is_version = running, is_now = now_at ?t, is_activated = fst st, is_pristine = snd st\<rparr>"
    have rec: "recover_update i running d0 = (case fst ?e of
           Recovery_Cleanup \<Rightarrow> seq (cleanup op) (\<lambda>_. give (fst ?e))
         | Recovery_Rollback \<Rightarrow> seq (rollback_update i op ''startup recovery'') (\<lambda>_. give (fst ?e))
         | _ \<Rightarrow> give (fst ?e)) ?t"
      by (simp only: recover_update_def seq_def load Some option.case step.case prod.case ls Let_def case_prod_beta
          fst_conv snd_conv)
    have t: "disk_runs ?t" "dk_files ?t = dk_files d0" using r by simp_all
    show ?thesis
    proof (cases "n = 3")
      case False
      then have e: "fst ?e = Recovery_Cleanup"
        using s Some act op by (auto simp: evaluate_recovery_def stopped_def)
      obtain d2 where "cleanup op ?t = (Good (), d2)" "dk_journal d2 = None"
          "dk_files d2 (in_executable i) = dk_files d0 (in_executable i)"
        using disk_runs_cleanup[OF t(1) apart] t(2) by auto
      then show ?thesis using rec e s False r by (intro goal[of Recovery_Cleanup d2])
          (simp_all add: seq_def give_def stopped_def)
    next
      case True
      then have files: "dk_files d0 (in_executable i) = Some new" "dk_files d0 b = Some old"
        using s r by (simp_all add: stopped_def)
      consider "fst ?e = Recovery_Acknowledge" "running = version" | "fst ?e = Recovery_Rollback"
        using evaluate_activated[OF op(2), of "\<lparr>is_version = running, is_now = now_at ?t, is_activated = fst st, is_pristine = snd st\<rparr>"]
          s Some act op(3) True by (auto simp: stopped_def)
      then show ?thesis
      proof cases
        case 1
        then show ?thesis using rec files t by (intro goal[of Recovery_Acknowledge ?t]) (simp_all add: give_def)
      next
        case 2
        obtain d2 where "rollback_update i op ''startup recovery'' ?t = (Good (), d2)"
            "dk_files d2 (in_executable i) = Some old"
            "dk_journal d2 = Some (op\<lparr>up_phase := ''rolled-back'', up_suppress := True\<rparr>)"
          using disk_runs_rollback[OF t(1) kind(1), of op old "''startup recovery''"] t(2) files op(4) by auto
        then show ?thesis using rec 2 op(2) by (intro goal[of Recovery_Rollback d2]) (simp_all add: seq_def give_def)
      qed
    qed
  qed
qed

theorem update_recovers_witness:
  "let d1 = snd (install_update demo_installer demo_payload ''2.0'' ''headless'' ''1'' ''2'' ''/opt/tv/.archive''
      (demo_disk (\<lambda>n. if n = 12 then Dies else Runs))) in
    \<exists>action d2. recover_update demo_installer ''1.0'' (d1\<lparr>dk_fate := (\<lambda>_. Runs)\<rparr>) = (Good action, d2) \<and>
      dk_files d2 ''/opt/tv/torrent-tv'' = Some ''old program''"
proof -
  have l: "links_work (demo_disk (\<lambda>n. if n = 12 then Dies else Runs))" by (simp add: links_work_def demo_disk_def)
  have sha: "in_sha demo_installer ''old program'' \<noteq> in_sha demo_installer ''new program''"
    by (simp add: demo_installer_def)
  have exe: "in_executable demo_installer = ''/opt/tv/torrent-tv''" by (simp add: demo_installer_def)
  have v: "''1.0'' \<noteq> ''2.0''" by simp
  from update_recovers[OF demo_begins l sha, of "''2.0''" "''headless''" "''1''" "''1.0''"] v
  show ?thesis unfolding exe Let_def by blast
qed

end
