(* ===== verification/Portal_Hub.thy ===== *)
theory Portal_Hub
  imports Go_Prelude
begin

text \<open>
  The portal integration hub (\<open>application/portal\<close>): the cached surfaces of the upstream service
  (account controls, donor state, links, promotions), the refresh cycle that rebuilds them, the gated
  account operations and the loop that owns the hub.

  A call of the upstream \<open>Client\<close> takes time, and the hub's lock is not held over it.  What a call
  brings is therefore two things: the answer (\<open>up_settings\<close>, \<open>up_links\<close>, ...) and what happened
  meanwhile (\<open>up_meanwhile\<close>): the state the other goroutines left and the error of the context
  after the call.  \<open>portal\<close> is the \<open>Hub\<close> struct with what composition injects: the supporter key
  the settings reader answers (\<open>live_key\<close>), the clock (\<open>live_now\<close>) and the events given to the sink.
\<close>

subsection \<open>Data of the integration (types.go)\<close>

record link =
  link_id :: int
  link_title :: string
  link_url :: string
  link_description :: string

record snapshot =
  snap_accounts :: bool
  snap_ads :: bool
  snap_donor :: bool
  snap_links :: "link list"

record promotion =
  promo_id :: string
  promo_provider :: string
  promo_title :: string
  promo_text :: string
  promo_image :: string
  promo_link :: string
  promo_screen_time :: int

record notice =
  notice_version :: string
  notice_notes :: string
  notice_released_at :: go_time
  notice_download_url :: string
  notice_binaries :: "(string \<times> string) list"

record session =
  session_token :: string
  session_expires_at :: go_time

record user =
  user_id :: int
  user_email :: string
  user_display_name :: string
  user_role :: string

record account_status =
  status_donor :: bool
  status_donor_until :: "go_time option"

record public_settings =
  settings_accounts :: bool
  settings_ads :: bool

definition no_notice :: notice where
  "no_notice = \<lparr>notice_version = [], notice_notes = [], notice_released_at = zero_time,
     notice_download_url = [], notice_binaries = []\<rparr>"

datatype portal_error = Credentials_Rejected | Portal_Unavailable | Notice_Absent
  | Accounts_Unavailable | Promotions_Unavailable | Superseded | Already_Running
  | Context_Done string | Upstream_Error string

definition is_credentials :: "portal_error \<Rightarrow> bool" where
  "is_credentials e = (e = Credentials_Rejected)"

definition is_unavailable :: "portal_error \<Rightarrow> bool" where
  "is_unavailable e = (e = Portal_Unavailable)"

subsection \<open>The state\<close>

record hub_state =
  hs_accounts :: bool
  hs_ads :: bool
  hs_promotion_live :: bool
  hs_donor :: bool
  hs_donor_until :: go_time
  hs_links :: "link list"
  hs_promotions :: "promotion list"

record portal =
  hub_cache :: hub_state
  hub_generation :: int
  hub_last_key :: string
  hub_notice :: notice
  hub_has_notice :: bool
  hub_running :: bool
  live_key :: string
  live_now :: go_time
  sunk :: "snapshot list"

definition empty_cache :: hub_state where
  "empty_cache = \<lparr>hs_accounts = False, hs_ads = False, hs_promotion_live = False, hs_donor = False,
     hs_donor_until = zero_time, hs_links = [], hs_promotions = []\<rparr>"

definition new_hub :: "string \<Rightarrow> go_time \<Rightarrow> portal" where
  "new_hub key now = \<lparr>hub_cache = empty_cache, hub_generation = 0, hub_last_key = key,
     hub_notice = no_notice, hub_has_notice = False, hub_running = False,
     live_key = key, live_now = now, sunk = []\<rparr>"

definition next_interval :: "(int \<Rightarrow> int) option \<Rightarrow> int \<Rightarrow> int" where
  "next_interval jitter interval =
     (case jitter of
        Some j \<Rightarrow> (let jittered = interval + j interval in
                  if 0 < jittered then jittered else interval)
      | None \<Rightarrow> interval)"

definition effective_poll_interval :: "int \<Rightarrow> int" where
  "effective_poll_interval p = (if 0 < p then p else 30 * second)"

definition snapshot_of :: "hub_state \<Rightarrow> snapshot" where
  "snapshot_of s = \<lparr>snap_accounts = hs_accounts s, snap_ads = hs_ads s \<and> hs_promotion_live s,
     snap_donor = hs_donor s, snap_links = hs_links s\<rparr>"

definition hub_snapshot :: "portal \<Rightarrow> snapshot" where
  "hub_snapshot w = snapshot_of (hub_cache w)"

definition cached_promotions :: "portal \<Rightarrow> promotion list" where
  "cached_promotions w = hs_promotions (hub_cache w)"

definition cached_notice :: "portal \<Rightarrow> notice \<times> bool" where
  "cached_notice w = (hub_notice w, hub_has_notice w)"

definition note_settings :: "portal \<Rightarrow> bool \<times> portal" where
  "note_settings w =
     (let key = live_key w in
      if key = hub_last_key w then (False, w)
      else (True, w\<lparr>hub_last_key := key, hub_generation := hub_generation w + 1\<rparr>))"

definition gate :: "portal_error option \<Rightarrow> int \<Rightarrow> portal \<Rightarrow> portal_error option" where
  "gate ctx g w =
     (case ctx of
        Some e \<Rightarrow> Some e
      | None \<Rightarrow> if hub_generation w \<noteq> g then Some Superseded else None)"

definition snapshot_changed :: "hub_state \<Rightarrow> hub_state \<Rightarrow> bool" where
  "snapshot_changed was now =
     (hs_accounts was \<noteq> hs_accounts now \<or> hs_ads was \<noteq> hs_ads now \<or>
      hs_promotion_live was \<noteq> hs_promotion_live now \<or> hs_donor was \<noteq> hs_donor now \<or>
      hs_donor_until was \<noteq> hs_donor_until now \<or> hs_links was \<noteq> hs_links now)"

definition emit :: "portal \<Rightarrow> portal" where
  "emit w = w\<lparr>sunk := sunk w @ [hub_snapshot w]\<rparr>"

definition commit :: "hub_state \<Rightarrow> portal \<Rightarrow> portal" where
  "commit nxt w =
     (let previous = hub_cache w; w = w\<lparr>hub_cache := nxt\<rparr> in
      if snapshot_changed previous nxt then emit w else w)"

definition drop_donor :: "hub_state \<Rightarrow> hub_state" where
  "drop_donor s = s\<lparr>hs_donor := False, hs_donor_until := zero_time\<rparr>"

definition donor_delay :: "portal \<Rightarrow> int option" where
  "donor_delay w =
     (let s = hub_cache w; delay = hs_donor_until s - live_now w in
      if \<not> hs_donor s \<or> hs_donor_until s = zero_time then None
      else if delay \<le> 0 then None else Some delay)"

definition expire_donor :: "portal \<Rightarrow> portal" where
  "expire_donor w =
     (let s = hub_cache w in
      if hs_donor s \<and> hs_donor_until s \<noteq> zero_time \<and> \<not> live_now w < hs_donor_until s
      then emit (w\<lparr>hub_cache := drop_donor s\<rparr>) else w)"

subsection \<open>The upstream client\<close>

datatype upstream_call = Call_Settings | Call_Links | Call_Status | Call_Promotions | Call_Availability
  | Call_Notice | Call_Account

record upstream =
  up_settings :: "portal_error + public_settings"
  up_links :: "portal_error + link list"
  up_status :: "string \<Rightarrow> portal_error + account_status"
  up_promotions :: "int \<Rightarrow> portal_error + promotion list"
  up_availability :: "portal_error + bool"
  up_notice :: "portal_error + notice"
  up_meanwhile :: "upstream_call \<Rightarrow> portal \<Rightarrow> portal_error option \<times> portal"

text \<open>A call of the cycle and the gate behind it: the answer, or the reason the cycle is stale.\<close>

definition ask :: "upstream \<Rightarrow> upstream_call \<Rightarrow> int \<Rightarrow> portal \<Rightarrow> portal_error option \<times> portal" where
  "ask u c g w = (case up_meanwhile u c w of (ctx, w) \<Rightarrow> (gate ctx g w, w))"

subsection \<open>The refresh cycle\<close>

text \<open>
  A stage takes the candidate state and the errors so far, and yields them extended, or the reason
  the cycle is stale.
\<close>

type_synonym stage =
  "hub_state \<times> portal_error list \<Rightarrow> portal \<Rightarrow>
   (portal_error + hub_state \<times> portal_error list) \<times> portal"

definition then_stage :: "stage \<Rightarrow> stage \<Rightarrow> stage" where
  "then_stage a b x w =
     (case a x w of (Inl stale, w) \<Rightarrow> (Inl stale, w) | (Inr x, w) \<Rightarrow> b x w)"

definition refresh_links :: "upstream \<Rightarrow> int \<Rightarrow> stage" where
  "refresh_links u g x w =
     (let (nxt, errs) = x in
      case ask u Call_Links g w of
        (Some stale, w) \<Rightarrow> (Inl stale, w)
      | (None, w) \<Rightarrow>
          (case up_links u of
             Inl e \<Rightarrow> (Inr (nxt\<lparr>hs_links := []\<rparr>, errs @ [e]), w)
           | Inr links \<Rightarrow> (Inr (nxt\<lparr>hs_links := links\<rparr>, errs), w)))"

definition apply_status :: "go_time \<Rightarrow> account_status \<Rightarrow> hub_state \<Rightarrow> hub_state" where
  "apply_status now status s =
     (let s = drop_donor s in
      if status_donor status then
        (case status_donor_until status of
           Some until \<Rightarrow> if now < until then s\<lparr>hs_donor := True, hs_donor_until := until\<rparr> else s
         | None \<Rightarrow> s\<lparr>hs_donor := True\<rparr>)
      else s)"

definition refresh_account :: "upstream \<Rightarrow> int \<Rightarrow> public_settings \<Rightarrow> stage" where
  "refresh_account u g settings x w =
     (let (nxt, errs) = x in
      if settings_accounts settings then
        (let reply = up_status u (live_key w) in
         case ask u Call_Status g w of
           (Some stale, w) \<Rightarrow> (Inl stale, w)
         | (None, w) \<Rightarrow>
             (case reply of
                Inr status \<Rightarrow> (Inr (apply_status (live_now w) status nxt, errs), w)
              | Inl e \<Rightarrow>
                  if is_credentials e then (Inr (drop_donor nxt, errs), w)
                  else (Inr (drop_donor (nxt\<lparr>hs_accounts := False\<rparr>), errs @ [e]), w)))
      else (Inr (drop_donor nxt, errs), w))"

text \<open>The code delivers in two places; where the slot is live already it does not mark it live again.\<close>

definition deliver_promotions :: "upstream \<Rightarrow> int \<Rightarrow> stage" where
  "deliver_promotions u g x w =
     (let (nxt, errs) = x in
      case ask u Call_Promotions g w of
        (Some stale, w) \<Rightarrow> (Inl stale, w)
      | (None, w) \<Rightarrow>
          (case up_promotions u 5 of
             Inl e \<Rightarrow> (Inr (nxt\<lparr>hs_promotions := [], hs_promotion_live := False\<rparr>, errs @ [e]), w)
           | Inr ps \<Rightarrow> (Inr (nxt\<lparr>hs_promotions := ps, hs_promotion_live := True\<rparr>, errs), w)))"

definition refresh_promotions :: "upstream \<Rightarrow> int \<Rightarrow> public_settings \<Rightarrow> stage" where
  "refresh_promotions u g settings x w =
     (let (nxt, errs) = x in
      if settings_ads settings \<and> \<not> hs_donor nxt \<and> hs_promotion_live nxt then
        deliver_promotions u g (nxt, errs) w
      else if settings_ads settings \<and> \<not> hs_donor nxt then
        (case ask u Call_Availability g w of
           (Some stale, w) \<Rightarrow> (Inl stale, w)
         | (None, w) \<Rightarrow>
             (case up_availability u of
                Inl e \<Rightarrow> (Inr (nxt\<lparr>hs_promotions := []\<rparr>, errs @ [e]), w)
              | Inr available \<Rightarrow>
                  if \<not> available then (Inr (nxt\<lparr>hs_promotions := []\<rparr>, errs), w)
                  else deliver_promotions u g (nxt, errs) w))
      else (Inr (nxt\<lparr>hs_promotions := [], hs_promotion_live := False\<rparr>, errs), w))"

definition settings_lost :: "hub_state \<Rightarrow> hub_state" where
  "settings_lost s = drop_donor (s\<lparr>hs_accounts := False, hs_ads := False,
     hs_promotion_live := False, hs_promotions := []\<rparr>)"

definition refresh_surfaces :: "upstream \<Rightarrow> int \<Rightarrow> public_settings \<Rightarrow> stage" where
  "refresh_surfaces u g settings =
     then_stage (refresh_links u g)
       (then_stage (refresh_account u g settings) (refresh_promotions u g settings))"

definition refresh_cycle ::
    "upstream \<Rightarrow> portal_error option \<Rightarrow> portal \<Rightarrow> portal_error list \<times> portal" where
  "refresh_cycle u ctx w =
     (let (_, w) = note_settings w; g = hub_generation w in
      case ctx of
        Some e \<Rightarrow> ([e], w)
      | None \<Rightarrow>
          (let nxt = hub_cache w in
           case ask u Call_Settings g w of
             (Some stale, w) \<Rightarrow> ([stale], w)
           | (None, w) \<Rightarrow>
               (case up_settings u of
                  Inl e \<Rightarrow> ([e], commit (settings_lost nxt) w)
                | Inr settings \<Rightarrow>
                    (let nxt = nxt\<lparr>hs_accounts := settings_accounts settings,
                                   hs_ads := settings_ads settings\<rparr> in
                     case refresh_surfaces u g settings (nxt, []) w of
                       (Inl stale, w) \<Rightarrow> ([stale], w)
                     | (Inr (nxt, errs), w) \<Rightarrow> (errs, commit nxt w)))))"

definition refresh_notice :: "upstream \<Rightarrow> portal \<Rightarrow> (portal_error + notice option) \<times> portal" where
  "refresh_notice u w =
     (case up_meanwhile u Call_Notice w of (_, w) \<Rightarrow>
       (let w = w\<lparr>hub_notice := no_notice, hub_has_notice := False\<rparr> in
        case up_notice u of
          Inl e \<Rightarrow> (if e = Notice_Absent then (Inr None, w) else (Inl e, w))
        | Inr n \<Rightarrow> (Inr (Some n), w\<lparr>hub_notice := n, hub_has_notice := True\<rparr>)))"

subsection \<open>The gated operations\<close>

definition account_gate_open :: "portal \<Rightarrow> bool" where
  "account_gate_open w = hs_accounts (hub_cache w)"

definition promotions_live :: "portal \<Rightarrow> bool" where
  "promotions_live w = (hs_ads (hub_cache w) \<and> hs_promotion_live (hub_cache w))"

definition observe_account_outcome :: "portal_error option \<Rightarrow> portal \<Rightarrow> portal" where
  "observe_account_outcome e w =
     (case e of
        None \<Rightarrow> w
      | Some e \<Rightarrow>
          if is_credentials e \<or> \<not> is_unavailable e then w
          else
            (let s = hub_cache w; changed = hs_accounts s \<or> hs_donor s;
                 w = w\<lparr>hub_cache := drop_donor (s\<lparr>hs_accounts := False\<rparr>)\<rparr> in
             if changed then emit w else w))"

definition error_of :: "'e + 'a \<Rightarrow> 'e option" where
  "error_of r = (case r of Inl e \<Rightarrow> Some e | Inr _ \<Rightarrow> None)"

text \<open>
  \<open>AccountStatus\<close>, \<open>Login\<close>, \<open>Register\<close> and \<open>Me\<close> delegate a call behind the gate and fold its
  outcome into the state.
\<close>

definition account_operation ::
    "upstream \<Rightarrow> (portal_error + 'a) \<Rightarrow> portal \<Rightarrow> (portal_error + 'a) \<times> portal" where
  "account_operation u reply w =
     (if \<not> account_gate_open w then (Inl Accounts_Unavailable, w)
      else case up_meanwhile u Call_Account w of (_, w) \<Rightarrow>
             (reply, observe_account_outcome (error_of reply) w))"

definition hub_account_status ::
    "upstream \<Rightarrow> string \<Rightarrow> portal \<Rightarrow> (portal_error + account_status) \<times> portal" where
  "hub_account_status u key = account_operation u (up_status u key)"

definition click :: "upstream \<Rightarrow> (portal_error + string) \<Rightarrow> portal \<Rightarrow> (portal_error + string) \<times> portal" where
  "click u reply w =
     (if \<not> promotions_live w then (Inl Promotions_Unavailable, w)
      else case up_meanwhile u Call_Account w of (_, w) \<Rightarrow> (reply, w))"

subsection \<open>The loop\<close>

text \<open>
  \<open>Run\<close> refreshes once and then waits: for its refresh timer (always armed), for the tick of the
  settings poll, for the expiry timer if one is armed, or for the end of its context.  The loop's state is
  the hub and the time the expiry timer is set to.
\<close>

datatype wake = Cancelled | Refresh_Due | Poll_Tick | Expiry_Fired

definition arm_expiry :: "portal \<Rightarrow> go_time option \<Rightarrow> go_time option" where
  "arm_expiry w armed =
     (case donor_delay w of
        Some delay \<Rightarrow>
          (let target = live_now w + delay in if armed \<noteq> Some target then Some target else armed)
      | None \<Rightarrow> None)"

definition wake_enabled :: "wake \<Rightarrow> go_time option \<Rightarrow> portal \<Rightarrow> bool" where
  "wake_enabled k armed w =
     (k = Expiry_Fired \<longrightarrow> (case armed of Some target \<Rightarrow> target \<le> live_now w | None \<Rightarrow> False))"

definition on_wake :: "upstream \<Rightarrow> wake \<Rightarrow> portal \<times> go_time option \<Rightarrow> portal \<times> go_time option" where
  "on_wake u k st =
     (let (w, armed) = st in
      case k of
        Cancelled \<Rightarrow> (w, armed)
      | Refresh_Due \<Rightarrow> (snd (refresh_notice u (snd (refresh_cycle u None w))), armed)
      | Poll_Tick \<Rightarrow>
          (let (changed, w) = note_settings w in
           (if changed then snd (refresh_cycle u None w) else w, armed))
      | Expiry_Fired \<Rightarrow> (expire_donor w, None))"

text \<open>
  One pass of the loop: the expiry timer is set, time passes and others work (\<open>idle\<close>), one of the
  ready channels is taken.  A channel that is not ready gives \<open>None\<close>.
\<close>

record turn =
  turn_upstream :: upstream
  turn_idle :: "portal \<Rightarrow> portal"
  turn_wake :: wake

definition loop_turn :: "turn \<Rightarrow> portal \<times> go_time option \<Rightarrow> (portal \<times> go_time option) option" where
  "loop_turn t st =
     (let (w, armed) = st; armed = arm_expiry w armed; w = turn_idle t w in
      if wake_enabled (turn_wake t) armed w then Some (on_wake (turn_upstream t) (turn_wake t) (w, armed))
      else None)"

fun loop_turns :: "turn list \<Rightarrow> portal \<times> go_time option \<Rightarrow> (portal \<times> go_time option) option" where
  "loop_turns [] st = Some st"
| "loop_turns (t # ts) st =
     (case loop_turn t st of
        None \<Rightarrow> None
      | Some st \<Rightarrow> if turn_wake t = Cancelled then Some st else loop_turns ts st)"

definition run_hub ::
    "upstream \<Rightarrow> portal_error option \<Rightarrow> turn list \<Rightarrow> portal \<Rightarrow> portal_error + portal option" where
  "run_hub u ctx ts w =
     (if hub_running w then Inl Already_Running
      else case ctx of
          Some e \<Rightarrow> Inl e
        | None \<Rightarrow>
            (let w = w\<lparr>hub_running := True\<rparr>; w = snd (refresh_cycle u None w) in
             Inr (case loop_turns ts (w, None) of
                    Some (w, _) \<Rightarrow> Some (w\<lparr>hub_running := False\<rparr>) | None \<Rightarrow> None)))"

end
