(* ===== verification/Portal_Facts.thy ===== *)
theory Portal_Facts
  imports Portal_Hub
begin

text \<open>
  What the portal hub guarantees.  \<open>portal_step\<close> is what other goroutines can do while a call of a
  refresh cycle is under way.  The specification of a cycle (\<open>spec_view\<close>) treats the surfaces one by
  one: each is a function of its own answer.  \<open>refresh_refines_surfaces\<close> shows that a cycle, whatever
  happens meanwhile, either changes nothing or publishes that view for a supporter key that
  did not change under it.
\<close>

subsection \<open>What others do\<close>

inductive portal_step :: "portal \<Rightarrow> portal \<Rightarrow> bool" where
  key_set: "portal_step w (w\<lparr>live_key := k\<rparr>)"
| clock: "live_now w \<le> t \<Longrightarrow> portal_step w (w\<lparr>live_now := t\<rparr>)"
| noted: "portal_step w (snd (note_settings w))"
| outcome: "portal_step w (observe_account_outcome e w)"
| expired: "portal_step w (expire_donor w)"
| committed: "portal_step w (commit nxt w)"
| noticed: "portal_step w (w\<lparr>hub_notice := n, hub_has_notice := b\<rparr>)"

definition others :: "portal \<Rightarrow> portal \<Rightarrow> bool" where
  "others = portal_step\<^sup>*\<^sup>*"

lemma others_refl [simp, intro]: "others w w"
  by (simp add: others_def)

lemma others_trans [trans]: "others a b \<Longrightarrow> others b c \<Longrightarrow> others a c"
  by (simp add: others_def)

lemma others_step: "portal_step a b \<Longrightarrow> others a b"
  by (simp add: others_def r_into_rtranclp)

lemmas cache_ops = commit_def emit_def expire_donor_def observe_account_outcome_def Let_def

lemma portal_step_keeps:
  "portal_step w v \<Longrightarrow> hub_generation w \<le> hub_generation v \<and>
     (hub_generation v = hub_generation w \<longrightarrow> hub_last_key v = hub_last_key w)"
  by (induction rule: portal_step.induct)
    (auto simp: cache_ops note_settings_def split: option.splits)

lemma others_keeps:
  "others w v \<Longrightarrow> hub_generation w \<le> hub_generation v \<and>
     (hub_generation v = hub_generation w \<longrightarrow> hub_last_key v = hub_last_key w)"
  unfolding others_def
proof (induction rule: rtranclp_induct)
  case base
  then show ?case by simp
next
  case (step v v')
  then show ?case using portal_step_keeps [of v v'] by auto
qed

definition meanwhile_ok :: "upstream \<Rightarrow> bool" where
  "meanwhile_ok u = (\<forall>c w. others w (snd (up_meanwhile u c w)))"

text \<open>What happens in a stretch of upstream calls, without the cycle doing anything itself.\<close>

definition drift :: "upstream \<Rightarrow> portal \<Rightarrow> portal \<Rightarrow> bool" where
  "drift u = (\<lambda>w v. \<exists>c. v = snd (up_meanwhile u c w))\<^sup>*\<^sup>*"

lemma drift_refl [simp, intro]: "drift u w w"
  by (simp add: drift_def)

lemma drift_trans [trans]: "drift u a b \<Longrightarrow> drift u b c \<Longrightarrow> drift u a c"
  by (simp add: drift_def)

lemma drift_call: "up_meanwhile u c w = (ctx, v) \<Longrightarrow> drift u w v"
  unfolding drift_def by (rule r_into_rtranclp) (metis snd_conv)

lemma drift_others: "drift u w v \<Longrightarrow> meanwhile_ok u \<Longrightarrow> others w v"
  unfolding drift_def
  by (induction rule: rtranclp_induct) (auto simp: meanwhile_ok_def intro: others_trans)

subsection \<open>The surfaces, one by one\<close>

definition spec_accounts :: "upstream \<Rightarrow> string \<Rightarrow> bool" where
  "spec_accounts u key =
     (case up_settings u of
        Inl _ \<Rightarrow> False
      | Inr s \<Rightarrow> settings_accounts s \<and>
          (case up_status u key of Inl e \<Rightarrow> is_credentials e | Inr _ \<Rightarrow> True))"

definition spec_donor :: "upstream \<Rightarrow> string \<Rightarrow> go_time \<Rightarrow> bool" where
  "spec_donor u key now =
     (case (up_settings u, up_status u key) of
        (Inr s, Inr st) \<Rightarrow> settings_accounts s \<and> status_donor st \<and>
          (case status_donor_until st of None \<Rightarrow> True | Some until \<Rightarrow> now < until)
      | _ \<Rightarrow> False)"

definition spec_ads :: "upstream \<Rightarrow> bool \<Rightarrow> bool \<Rightarrow> bool" where
  "spec_ads u is_donor live =
     (case (up_settings u, up_promotions u 5) of
        (Inr s, Inr _) \<Rightarrow> settings_ads s \<and> \<not> is_donor \<and> (live \<or> up_availability u = Inr True)
      | _ \<Rightarrow> False)"

definition spec_links :: "upstream \<Rightarrow> link list \<Rightarrow> link list" where
  "spec_links u old =
     (case (up_settings u, up_links u) of
        (Inl _, _) \<Rightarrow> old | (Inr _, Inl _) \<Rightarrow> [] | (Inr _, Inr links) \<Rightarrow> links)"

definition spec_view :: "upstream \<Rightarrow> string \<Rightarrow> go_time \<Rightarrow> hub_state \<Rightarrow> snapshot" where
  "spec_view u key now s = \<lparr>snap_accounts = spec_accounts u key,
     snap_ads = spec_ads u (spec_donor u key now) (hs_promotion_live s),
     snap_donor = spec_donor u key now, snap_links = spec_links u (hs_links s)\<rparr>"

subsection \<open>The stages of a cycle\<close>

lemma ask_keeps:
  "ask u c g w = (r, v) \<Longrightarrow> drift u w v \<and> (r = None \<longrightarrow> hub_generation v = g)"
  by (auto simp: ask_def gate_def intro: drift_call split: prod.splits option.splits if_splits)

lemma refresh_links_ends:
  assumes "refresh_links u g (nxt, errs) w = (r, v)"
  shows "drift u w v \<and> (\<forall>nxt' errs'. r = Inr (nxt', errs') \<longrightarrow> hub_generation v = g \<and>
    nxt' = nxt\<lparr>hs_links := (case up_links u of Inl _ \<Rightarrow> [] | Inr links \<Rightarrow> links)\<rparr>)"
  using assms ask_keeps [of u Call_Links g w]
  by (auto simp: refresh_links_def split: prod.splits option.splits sum.splits)

lemma apply_status_fields [simp]:
  "hs_accounts (apply_status now st s) = hs_accounts s"
  "hs_ads (apply_status now st s) = hs_ads s"
  "hs_promotion_live (apply_status now st s) = hs_promotion_live s"
  "hs_links (apply_status now st s) = hs_links s"
  "hs_donor (apply_status now st s) = (status_donor st \<and>
     (case status_donor_until st of None \<Rightarrow> True | Some until \<Rightarrow> now < until))"
  by (auto simp: apply_status_def drop_donor_def Let_def split: option.splits)

lemma refresh_account_ends:
  assumes "refresh_account u g settings (nxt, errs) w = (r, v)"
    and "hub_generation w = g" and "up_settings u = Inr settings"
    and "hs_accounts nxt = settings_accounts settings"
  shows "drift u w v \<and> (\<forall>nxt' errs'. r = Inr (nxt', errs') \<longrightarrow> hub_generation v = g \<and>
    hs_ads nxt' = hs_ads nxt \<and> hs_promotion_live nxt' = hs_promotion_live nxt \<and> hs_links nxt' = hs_links nxt \<and>
    hs_accounts nxt' = spec_accounts u (live_key w) \<and> hs_donor nxt' = spec_donor u (live_key w) (live_now v))"
  using assms ask_keeps [of u Call_Status g w]
  by (auto simp: refresh_account_def spec_accounts_def spec_donor_def drop_donor_def Let_def
      split: prod.splits option.splits sum.splits if_splits)

lemma deliver_ends:
  assumes "deliver_promotions u g (nxt, errs) w = (r, v)"
  shows "drift u w v \<and> (\<forall>nxt' errs'. r = Inr (nxt', errs') \<longrightarrow> hub_generation v = g \<and>
    hs_accounts nxt' = hs_accounts nxt \<and> hs_ads nxt' = hs_ads nxt \<and> hs_donor nxt' = hs_donor nxt \<and>
    hs_links nxt' = hs_links nxt \<and>
    hs_promotion_live nxt' = (case up_promotions u 5 of Inl _ \<Rightarrow> False | Inr _ \<Rightarrow> True))"
  using assms ask_keeps [of u Call_Promotions g w]
  by (auto simp: deliver_promotions_def split: prod.splits option.splits sum.splits)

lemma conjunct_mono:
  "A \<and> (\<forall>x y. r = Inr (x, y) \<longrightarrow> P x) \<Longrightarrow> (A \<Longrightarrow> B) \<Longrightarrow> (\<And>x. P x \<Longrightarrow> Q x) \<Longrightarrow>
     B \<and> (\<forall>x y. r = Inr (x, y) \<longrightarrow> Q x)"
  by blast

lemma refresh_promotions_ends:
  assumes run: "refresh_promotions u g settings (nxt, errs) w = (r, v)"
    and gen: "hub_generation w = g" and set: "up_settings u = Inr settings"
    and ads: "hs_ads nxt = settings_ads settings"
  shows "drift u w v \<and> (\<forall>nxt' errs'. r = Inr (nxt', errs') \<longrightarrow> hub_generation v = g \<and>
    hs_accounts nxt' = hs_accounts nxt \<and> hs_donor nxt' = hs_donor nxt \<and> hs_links nxt' = hs_links nxt \<and>
    (hs_ads nxt' \<and> hs_promotion_live nxt') = spec_ads u (hs_donor nxt) (hs_promotion_live nxt))"
proof -
  consider (live) "settings_ads settings" "\<not> hs_donor nxt" "hs_promotion_live nxt"
    | (hidden) "settings_ads settings" "\<not> hs_donor nxt" "\<not> hs_promotion_live nxt"
    | (off) "\<not> (settings_ads settings \<and> \<not> hs_donor nxt)" by auto
  then show ?thesis
  proof cases
    case live
    then have "deliver_promotions u g (nxt, errs) w = (r, v)"
      using run by (simp add: refresh_promotions_def)
    from deliver_ends [OF this] show ?thesis
      by (rule conjunct_mono) (simp_all add: spec_ads_def live set ads split: sum.splits)
  next
    case hidden
    obtain stale w1 where ask: "ask u Call_Availability g w = (stale, w1)" by fastforce
    note here = ask_keeps [OF ask]
    show ?thesis
    proof (cases "stale = None \<and> up_availability u = Inr True")
      case True
      then have "deliver_promotions u g (nxt, errs) w1 = (r, v)"
        using run hidden ask by (simp add: refresh_promotions_def)
      from deliver_ends [OF this] show ?thesis
        by (rule conjunct_mono) (use here True hidden set ads in
            \<open>auto simp: spec_ads_def intro: drift_trans split: sum.splits\<close>)
    next
      case False
      then show ?thesis using run hidden ask here set ads
        by (auto simp: refresh_promotions_def spec_ads_def split: option.splits sum.splits if_splits)
    qed
  next
    case off
    then show ?thesis using run gen set
      by (auto simp: refresh_promotions_def spec_ads_def split: sum.splits)
  qed
qed

lemma refresh_surfaces_ends:
  assumes run: "refresh_surfaces u g settings (nxt, errs) w = (r, v)"
    and set: "up_settings u = Inr settings"
    and acc: "hs_accounts nxt = settings_accounts settings" and ads: "hs_ads nxt = settings_ads settings"
  shows "drift u w v \<and> (\<forall>nxt' errs'. r = Inr (nxt', errs') \<longrightarrow> hub_generation v = g \<and>
    (\<exists>p q. drift u w p \<and> drift u p q \<and> drift u q v \<and>
       snapshot_of nxt' = spec_view u (live_key p) (live_now q) nxt))"
proof -
  obtain r1 w1 where links: "refresh_links u g (nxt, errs) w = (r1, w1)" by fastforce
  note l = refresh_links_ends [OF links]
  show ?thesis
  proof (cases r1)
    case (Inl stale)
    then show ?thesis using run links l by (auto simp: refresh_surfaces_def then_stage_def)
  next
    case (Inr x)
    obtain n1 e1 where x: "x = (n1, e1)" by fastforce
    obtain r2 w2 where account: "refresh_account u g settings (n1, e1) w1 = (r2, w2)" by fastforce
    have n1: "n1 = nxt\<lparr>hs_links := (case up_links u of Inl _ \<Rightarrow> [] | Inr links \<Rightarrow> links)\<rparr>"
      "hub_generation w1 = g" and w1: "drift u w w1" using l Inr x by auto
    have a: "drift u w1 w2 \<and> (\<forall>nxt' errs'. r2 = Inr (nxt', errs') \<longrightarrow> hub_generation w2 = g \<and>
      hs_ads nxt' = hs_ads n1 \<and> hs_promotion_live nxt' = hs_promotion_live n1 \<and> hs_links nxt' = hs_links n1 \<and>
      hs_accounts nxt' = spec_accounts u (live_key w1) \<and> hs_donor nxt' = spec_donor u (live_key w1) (live_now w2))"
      by (rule refresh_account_ends [OF account n1(2) set]) (simp add: n1 acc)
    show ?thesis
    proof (cases r2)
      case (Inl stale)
      then show ?thesis using run links account a w1 Inr x
        by (auto simp: refresh_surfaces_def then_stage_def intro: drift_trans)
    next
      case (Inr y)
      obtain n2 e2 where y: "y = (n2, e2)" by fastforce
      note a2 = a [THEN conjunct2, rule_format, of n2 e2, unfolded Inr y, OF refl]
      have promo: "refresh_promotions u g settings (n2, e2) w2 = (r, v)"
        using run links account \<open>r1 = Inr x\<close> x Inr y by (simp add: refresh_surfaces_def then_stage_def)
      have "drift u w2 v \<and> (\<forall>nxt' errs'. r = Inr (nxt', errs') \<longrightarrow> hub_generation v = g \<and>
        hs_accounts nxt' = hs_accounts n2 \<and> hs_donor nxt' = hs_donor n2 \<and> hs_links nxt' = hs_links n2 \<and>
        (hs_ads nxt' \<and> hs_promotion_live nxt') = spec_ads u (hs_donor n2) (hs_promotion_live n2))"
        by (rule refresh_promotions_ends [OF promo _ set]) (use a2 n1 ads in auto)
      moreover have "drift u w1 w2" using a by simp
      moreover have "spec_links u (hs_links nxt) = hs_links n1" "hs_promotion_live n1 = hs_promotion_live nxt"
        using set n1 by (simp_all add: spec_links_def split: sum.splits)
      ultimately have fin: "drift u w2 v" "drift u w1 w2"
        "\<And>nxt' errs'. r = Inr (nxt', errs') \<Longrightarrow> hub_generation v = g \<and>
           snapshot_of nxt' = spec_view u (live_key w1) (live_now w2) nxt"
        using a2 by (simp_all add: snapshot_of_def spec_view_def)
      have "drift u w v" using w1 fin by (blast intro: drift_trans)
      then show ?thesis using w1 fin by blast
    qed
  qed
qed

lemma snapshot_commit [simp]: "hub_snapshot (commit nxt w) = snapshot_of nxt"
  "hub_generation (commit nxt w) = hub_generation w" "hub_last_key (commit nxt w) = hub_last_key w"
  by (simp_all add: commit_def emit_def hub_snapshot_def Let_def)

lemma note_settings_notes [simp]:
  "hub_last_key (snd (note_settings w)) = live_key w" "hub_cache (snd (note_settings w)) = hub_cache w"
  by (auto simp: note_settings_def Let_def)

lemma snapshot_settings_lost:
  "up_settings u = Inl e \<Longrightarrow> snapshot_of (settings_lost s) = spec_view u key now s"
  by (simp add: snapshot_of_def settings_lost_def drop_donor_def spec_view_def spec_accounts_def
      spec_donor_def spec_ads_def spec_links_def)

lemma refresh_cycle_ends:
  assumes run: "refresh_cycle u ctx w = (errs, v)"
  shows "(errs \<noteq> [] \<and> drift u (snd (note_settings w)) v) \<or>
    (\<exists>p q nxt x. drift u (snd (note_settings w)) p \<and> drift u p q \<and> drift u q x \<and> v = commit nxt x \<and>
       hub_generation x = hub_generation (snd (note_settings w)) \<and>
       snapshot_of nxt = spec_view u (live_key p) (live_now q) (hub_cache w))"
proof -
  define w0 where "w0 = snd (note_settings w)"
  define g where "g = hub_generation w0"
  obtain stale w1 where ask: "ask u Call_Settings g w0 = (stale, w1)" by fastforce
  note first = ask_keeps [OF ask]
  obtain b where w0: "note_settings w = (b, w0)" using w0_def by (metis prod.collapse)
  have cache: "hub_cache w0 = hub_cache w" by (simp add: w0_def)
  show ?thesis
  proof (cases "ctx = None \<and> stale = None")
    case False
    then have "errs \<noteq> [] \<and> (v = w0 \<or> v = w1)" using run ask
      by (cases ctx; cases stale) (auto simp: refresh_cycle_def w0 Let_def g_def)
    then show ?thesis using first by (auto simp: w0_def)
  next
    case go: True
    show ?thesis
    proof (cases "up_settings u")
      case (Inl e)
      then have "v = commit (settings_lost (hub_cache w)) w1" using run go ask
        by (simp add: refresh_cycle_def w0 Let_def g_def cache)
      then show ?thesis
        using first go snapshot_settings_lost [OF Inl] unfolding w0_def [symmetric] g_def [symmetric]
        by (intro disjI2 exI [of _ w1] exI [of _ "settings_lost (hub_cache w)"]) simp
    next
      case (Inr settings)
      define nxt where "nxt = (hub_cache w)\<lparr>hs_accounts := settings_accounts settings,
        hs_ads := settings_ads settings\<rparr>"
      obtain r x where surf: "refresh_surfaces u g settings (nxt, []) w1 = (r, x)" by fastforce
      note ends = refresh_surfaces_ends [OF surf Inr, unfolded nxt_def, simplified]
      have "(errs, v) = (case r of Inl stale \<Rightarrow> ([stale], x) | Inr (nxt, errs) \<Rightarrow> (errs, commit nxt x))"
        using run go ask Inr surf by (simp add: refresh_cycle_def w0 Let_def g_def cache nxt_def)
      then consider (stale) "errs \<noteq> []" "v = x" | (ok) nxt' errs' where "r = Inr (nxt', errs')" "v = commit nxt' x"
        by (auto split: sum.splits prod.splits)
      then show ?thesis
      proof cases
        case stale
        then show ?thesis using first ends w0_def by (auto intro: drift_trans)
      next
        case ok
        from ends [THEN conjunct2, rule_format, OF exI, OF ok(1)] obtain p q where
          "hub_generation x = g" "drift u w1 p" "drift u p q" "drift u q x"
          "snapshot_of nxt' = spec_view u (live_key p) (live_now q) (hub_cache w)"
          by (auto simp: spec_view_def)
        with ok first show ?thesis unfolding w0_def [symmetric] g_def [symmetric]
          by (blast intro: drift_trans)
      qed
    qed
  qed
qed

text \<open>
  Property C17: A refresh cycle of the portal hub either leaves everything to the others and reports
  an error, or publishes the surfaces of its specification: accounts, donor state, promotions and links
  are each what their own answer says (a lost link list empties only the links, a lost account service hides
  only the account controls, lost settings hide everything but the links).  The answers it publishes were
  heard while the supporter key the hub had noted stayed the one the cycle began with.
\<close>

theorem refresh_refines_surfaces:
  assumes "refresh_cycle u ctx w = (errs, v)" and "meanwhile_ok u"
  shows "(errs \<noteq> [] \<and> drift u (snd (note_settings w)) v) \<or>
    (\<exists>p q. others w p \<and> others p q \<and> hub_last_key v = live_key w \<and>
       hub_snapshot v = spec_view u (live_key p) (live_now q) (hub_cache w))"
  using refresh_cycle_ends [OF assms(1)]
proof (elim disjE exE conjE)
  fix p q nxt x
  assume a: "drift u (snd (note_settings w)) p" "drift u p q" "drift u q x" "v = commit nxt x"
    "hub_generation x = hub_generation (snd (note_settings w))"
    "snapshot_of nxt = spec_view u (live_key p) (live_now q) (hub_cache w)"
  note o = a(1-3) [THEN drift_others, OF assms(2)]
  have "hub_last_key x = live_key w"
    using others_keeps [of "snd (note_settings w)" x] o a(5) by (auto intro: others_trans)
  moreover have "others w p" using o(1) by (blast intro: others_trans others_step noted)
  ultimately show ?thesis using o(2) a(4,6) by auto
qed simp

subsection \<open>The loop and the expiry of donors\<close>

lemma no_timer_past_expiry:
  "hs_donor_until (hub_cache w) \<le> live_now w \<Longrightarrow> arm_expiry w armed = None"
  by (simp add: arm_expiry_def donor_delay_def Let_def)

text \<open>If the timer is armed and fires, the donor state ends.\<close>

lemma fired_expiry_ends_donor:
  assumes "arm_expiry w armed = Some target" and "wake_enabled Expiry_Fired (Some target) v"
    and "hub_cache v = hub_cache w"
  shows "\<not> hs_donor (hub_cache (fst (on_wake u Expiry_Fired (v, Some target))))"
  using assms by (auto simp: arm_expiry_def donor_delay_def on_wake_def wake_enabled_def expire_donor_def
      emit_def drop_donor_def Let_def split: if_splits option.splits)

definition only_waits :: "turn \<Rightarrow> bool" where
  "only_waits t = (turn_wake t \<noteq> Refresh_Due \<and>
     (\<forall>v. \<exists>d. 0 \<le> d \<and> turn_idle t v = v\<lparr>live_now := live_now v + d\<rparr>))"

definition overdue_donor :: "portal \<Rightarrow> bool" where
  "overdue_donor w = (hs_donor (hub_cache w) \<and> hs_donor_until (hub_cache w) \<le> live_now w \<and>
     live_key w = hub_last_key w)"

lemma loop_turn_overdue:
  assumes "loop_turn t (w, armed) = Some (v, armed')" and "only_waits t" and "overdue_donor w"
  shows "overdue_donor v"
proof -
  obtain d where d: "0 \<le> d" "turn_idle t w = w\<lparr>live_now := live_now w + d\<rparr>"
    using assms(2) by (auto simp: only_waits_def)
  have wake: "turn_wake t \<noteq> Refresh_Due" using assms(2) by (simp add: only_waits_def)
  have "arm_expiry w armed = None"
    using assms(3) by (simp add: no_timer_past_expiry overdue_donor_def)
  moreover have "hub_cache (turn_idle t w) = hub_cache w" "live_now (turn_idle t w) = live_now w + d"
    "live_key (turn_idle t w) = live_key w" "hub_last_key (turn_idle t w) = hub_last_key w"
    by (simp_all add: d(2))
  ultimately show ?thesis using assms(1,3) d(1) wake
    by (cases "turn_wake t")
      (auto simp: loop_turn_def on_wake_def wake_enabled_def overdue_donor_def note_settings_def)
qed

text \<open>
  Once the expiry of a cached donor has passed while the loop was busy with another
  wake-up, no timer is armed for it again: however long the loop waits and polls, the donor state stays until
  the next refresh.
\<close>

theorem expired_donor_stays:
  assumes "loop_turns ts (w, armed) = Some (v, armed')" and "list_all only_waits ts" and "overdue_donor w"
  shows "hs_donor (hub_cache v) \<and> hs_donor_until (hub_cache v) \<le> live_now v"
  using assms
proof (induction ts arbitrary: w armed)
  case Nil
  then show ?case by (simp add: overdue_donor_def)
next
  case (Cons t ts)
  then obtain x armed1 where x: "loop_turn t (w, armed) = Some (x, armed1)"
    by (auto split: option.splits)
  then have "overdue_donor x" using Cons.prems loop_turn_overdue by simp
  with x Cons show ?case by (auto simp: overdue_donor_def split: if_splits)
qed

definition sample_upstream :: upstream where
  "sample_upstream = \<lparr>up_settings = Inr \<lparr>settings_accounts = True, settings_ads = True\<rparr>,
     up_links = Inl Portal_Unavailable,
     up_status = (\<lambda>key. if key = ''k'' then Inr \<lparr>status_donor = True, status_donor_until = Some (100 * second)\<rparr>
                        else Inl Credentials_Rejected),
     up_promotions = (\<lambda>n. Inr []), up_availability = Inr True, up_notice = Inl Notice_Absent,
     up_meanwhile = (\<lambda>c w. (None, w))\<rparr>"

definition poll_after :: "int \<Rightarrow> turn" where
  "poll_after d = \<lparr>turn_upstream = sample_upstream,
     turn_idle = (\<lambda>w. w\<lparr>live_now := live_now w + d\<rparr>), turn_wake = Poll_Tick\<rparr>"

definition donor_hub :: portal where
  "donor_hub = snd (refresh_cycle sample_upstream None (new_hub ''k'' 0))"

lemma sample_meanwhile: "meanwhile_ok sample_upstream"
  by (simp add: meanwhile_ok_def sample_upstream_def)

lemma donor_hub_cycle: "refresh_cycle sample_upstream None (new_hub ''k'' 0) = ([Portal_Unavailable], donor_hub)"
  by code_simp

lemma poll_only_waits: "0 \<le> d \<Longrightarrow> only_waits (poll_after d)"
  by (auto simp: only_waits_def poll_after_def)

theorem refresh_refines_surfaces_witness:
  "([Portal_Unavailable] \<noteq> [] \<and> drift sample_upstream (snd (note_settings (new_hub ''k'' 0))) donor_hub) \<or>
    (\<exists>p q. others (new_hub ''k'' 0) p \<and> others p q \<and> hub_last_key donor_hub = live_key (new_hub ''k'' 0) \<and>
       hub_snapshot donor_hub =
         spec_view sample_upstream (live_key p) (live_now q) (hub_cache (new_hub ''k'' 0)))"
  by (rule refresh_refines_surfaces [OF donor_hub_cycle sample_meanwhile])

text \<open>The poll is taken when both it and the expiry timer are ready; half an hour later the donor is still one.\<close>

theorem expired_donor_stays_witness:
  "\<exists>w v. loop_turns [poll_after (100 * second)] (donor_hub, None) = Some (w, Some (100 * second)) \<and>
     loop_turns [poll_after (1800 * second)] (w, Some (100 * second)) = Some (v, None) \<and>
     hs_donor (hub_cache v) \<and> hs_donor_until (hub_cache v) \<le> live_now v"
proof -
  define w where "w = donor_hub\<lparr>live_now := 100 * second\<rparr>"
  have fields: "hub_cache donor_hub = empty_cache\<lparr>hs_accounts := True, hs_ads := True, hs_donor := True,
      hs_donor_until := 100 * second\<rparr>" "live_now donor_hub = 0" "hub_last_key donor_hub = ''k''"
    "live_key donor_hub = ''k''"
    by code_simp+
  have one: "loop_turns [poll_after (100 * second)] (donor_hub, None) = Some (w, Some (100 * second))"
    by (simp add: w_def fields loop_turn_def poll_after_def arm_expiry_def donor_delay_def on_wake_def
        wake_enabled_def note_settings_def empty_cache_def time_units zero_time_def)
  have two: "loop_turns [poll_after (1800 * second)] (w, Some (100 * second)) =
      Some (w\<lparr>live_now := 1900 * second\<rparr>, None)"
    by (simp add: w_def fields loop_turn_def poll_after_def arm_expiry_def donor_delay_def on_wake_def
        wake_enabled_def note_settings_def empty_cache_def time_units zero_time_def)
  have "overdue_donor w" by (simp add: overdue_donor_def w_def fields empty_cache_def)
  with one two expired_donor_stays [OF two] poll_only_waits [of "1800 * second"] show ?thesis
    by (auto simp: time_units)
qed

end
