(* ===== verification/Portal_Client.thy ===== *)
theory Portal_Client
  imports Portal_Hub Torrent_Meta
begin

text \<open>
  The adapter of the upstream service (\<open>adapters/portalclient\<close>) and the local HTTP surface over the hub
  (\<open>adapters/httpapi/portal.go\<close>).  A request is answered by an \<open>answer\<close>: none (the transport failed),
  or a status with a body, which is too long, unreadable or decoded.  Sending requests,
  decoding JSON and parsing URLs are the standard library's: a \<open>fetch\<close> function and
  a \<open>url\<close> function stand for them.
\<close>

subsection \<open>Bounded requests\<close>

datatype 'd body = Read_Failed | Body nat "'d option"

datatype 'd answer = No_Answer string | Answer int "'d body"

definition max_body_bytes :: nat where
  "max_body_bytes = 4 * 2 ^ 20"

definition err_not_found :: portal_error where
  "err_not_found = Upstream_Error ''upstream resource not found''"

definition status_error :: "int \<Rightarrow> portal_error" where
  "status_error status =
     (if status = 404 then err_not_found
      else if status = 401 \<or> status = 403 then Credentials_Rejected
      else if 500 \<le> status then Portal_Unavailable
      else Upstream_Error ''unexpected upstream status'')"

definition decode_body :: "'d body \<Rightarrow> portal_error + 'd" where
  "decode_body b =
     (case b of
        Read_Failed \<Rightarrow> Inl Portal_Unavailable
      | Body len dto \<Rightarrow>
          if max_body_bytes < len then Inl (Upstream_Error ''upstream response exceeded size limit'')
          else (case dto of
                  None \<Rightarrow> Inl (Upstream_Error ''decode upstream response'')
                | Some d \<Rightarrow> Inr d))"

definition do_request :: "'d answer \<Rightarrow> portal_error + 'd" where
  "do_request a =
     (case a of
        No_Answer _ \<Rightarrow> Inl Portal_Unavailable
      | Answer status b \<Rightarrow> if status div 100 \<noteq> 2 then Inl (status_error status) else decode_body b)"

text \<open>Registration ignores the body of a success.\<close>

definition do_bodyless :: "unit answer \<Rightarrow> portal_error + unit" where
  "do_bodyless a =
     (case a of
        No_Answer _ \<Rightarrow> Inl Portal_Unavailable
      | Answer status _ \<Rightarrow> if status div 100 \<noteq> 2 then Inl (status_error status) else Inr ())"

subsection \<open>The operations\<close>

record settings_dto =
  dto_ads_enabled :: bool
  dto_accounts_enabled :: bool
  dto_supporter_enabled :: bool

definition client_settings :: "settings_dto answer \<Rightarrow> portal_error + public_settings" where
  "client_settings a =
     (case do_request a of
        Inl e \<Rightarrow> Inl e
      | Inr dto \<Rightarrow> Inr \<lparr>settings_accounts = dto_accounts_enabled dto, settings_ads = dto_ads_enabled dto\<rparr>)"

definition client_links :: "link list answer \<Rightarrow> portal_error + link list" where
  "client_links a = do_request a"

definition client_notice :: "notice answer \<Rightarrow> portal_error + notice" where
  "client_notice a =
     (case do_request a of
        Inl e \<Rightarrow> Inl (if e = err_not_found then Notice_Absent else e)
      | Inr n \<Rightarrow> Inr n)"

definition promotions_path :: "int \<Rightarrow> string" where
  "promotions_path n = ''/api/v1/ads?count='' @ show_nat (nat (if n < 1 then 1 else n))"

definition client_promotions ::
    "(string \<Rightarrow> promotion list answer) \<Rightarrow> int \<Rightarrow> portal_error + promotion list" where
  "client_promotions fetch n =
     (case do_request (fetch (promotions_path n)) of
        Inl e \<Rightarrow> if e = err_not_found then Inr [] else Inl e
      | Inr ps \<Rightarrow> Inr ps)"

definition client_availability :: "(string \<times> string) list answer \<Rightarrow> portal_error + bool" where
  "client_availability a =
     (case do_request a of
        Inl e \<Rightarrow> if e = err_not_found then Inr False else Inl e
      | Inr weights \<Rightarrow> Inr (weights \<noteq> []))"

record account_dto =
  dto_donor :: bool
  dto_donor_until :: "string option"

definition client_status ::
    "(string \<Rightarrow> go_time option) \<Rightarrow> account_dto answer \<Rightarrow> portal_error + account_status" where
  "client_status parse_rfc3339 a =
     (case do_request a of
        Inl e \<Rightarrow> Inl e
      | Inr dto \<Rightarrow>
          (case dto_donor_until dto of
             None \<Rightarrow> Inr \<lparr>status_donor = dto_donor dto, status_donor_until = None\<rparr>
           | Some raw \<Rightarrow>
               if raw = [] then Inr \<lparr>status_donor = dto_donor dto, status_donor_until = None\<rparr>
               else (case parse_rfc3339 raw of
                       None \<Rightarrow> Inl (Upstream_Error ''decode donor expiry'')
                     | Some t \<Rightarrow> Inr \<lparr>status_donor = dto_donor dto, status_donor_until = Some t\<rparr>)))"

definition client_login :: "(string \<times> go_time option) answer \<Rightarrow> portal_error + session" where
  "client_login a =
     (case do_request a of
        Inl e \<Rightarrow> Inl e
      | Inr (token, expires) \<Rightarrow>
          Inr \<lparr>session_token = token,
               session_expires_at = (case expires of Some t \<Rightarrow> t | None \<Rightarrow> zero_time)\<rparr>)"

definition valid_segment :: "string \<Rightarrow> bool" where
  "valid_segment s =
     (if s = [] \<or> 128 < length s then False
      else if list_ex (\<lambda>c. c \<in> set ''/?#'') s then False
      else \<not> list_ex (\<lambda>c. let n = of_char c :: nat in n \<le> 32 \<or> n = 127) s)"

definition click_path :: "string \<Rightarrow> string \<Rightarrow> string" where
  "click_path provider ident = ''/api/v1/ads/'' @ provider @ ''/'' @ ident @ ''/click''"

text \<open>
  \<open>fetch\<close> yields the status and the \<open>Location\<close> header of the answer, which is not followed; \<open>url\<close>
  yields the scheme, the host and the rendered text of a location that parses.
\<close>

definition client_click ::
    "(string \<Rightarrow> (int \<times> string) option) \<Rightarrow> (string \<Rightarrow> (string \<times> string \<times> string) option) \<Rightarrow>
     string \<Rightarrow> string \<Rightarrow> portal_error + string" where
  "client_click fetch url provider ident =
     (if \<not> valid_segment provider \<or> \<not> valid_segment ident then
        Inl (Upstream_Error ''invalid promotion identifier'')
      else
        (case fetch (click_path provider ident) of
           None \<Rightarrow> Inl Portal_Unavailable
         | Some (status, header) \<Rightarrow>
             if status div 100 \<noteq> 3 \<and> status div 100 \<noteq> 2 then Inl (status_error status)
             else
               (let location = trim_space header in
                if location = [] then
                  Inl (Upstream_Error ''upstream click response carried no destination'')
                else (case url location of
                        None \<Rightarrow> Inl (Upstream_Error ''invalid click destination'')
                      | Some (scheme, host, rendered) \<Rightarrow>
                          if (scheme \<noteq> ''http'' \<and> scheme \<noteq> ''https'') \<or> host = [] then
                            Inl (Upstream_Error ''invalid click destination'')
                          else Inr rendered))))"

subsection \<open>The local surface\<close>

text \<open>A response of a handler: a document, a redirect, an empty 201, or a problem with its status.\<close>

datatype 'a response = Document int 'a | Redirect string | Created | Problem int portal_error

definition portal_problem :: "int \<Rightarrow> portal_error \<Rightarrow> 'a response" where
  "portal_problem credential_status e =
     (if e = Credentials_Rejected then Problem credential_status e
      else if e = Accounts_Unavailable \<or> e = Promotions_Unavailable \<or> e = Portal_Unavailable
      then Problem 503 e else Problem 502 e)"

definition bearer_token :: "string \<Rightarrow> string option" where
  "bearer_token header =
     (let prefix = ''Bearer '' in
      if length header \<le> length prefix \<or> \<not> equal_fold (take (length prefix) header) prefix then None
      else (let token = trim_space (drop (length prefix) header) in
            if token \<noteq> [] then Some token else None))"

definition safe_destination :: "(string \<Rightarrow> (string \<times> string \<times> string) option) \<Rightarrow> string \<Rightarrow> bool" where
  "safe_destination url raw =
     (case url raw of
        None \<Rightarrow> False
      | Some (scheme, host, _) \<Rightarrow> host \<noteq> [] \<and> (scheme = ''http'' \<or> scheme = ''https''))"

definition portal_state :: "portal \<Rightarrow> snapshot response" where
  "portal_state w = Document 200 (hub_snapshot w)"

text \<open>\<open>asked\<close> is the query value \<open>count\<close> when it is a number.\<close>

definition portal_promotions :: "int option \<Rightarrow> portal \<Rightarrow> promotion list response" where
  "portal_promotions asked w =
     (let ps = cached_promotions w; n = int (length ps);
          wanted = min (min (max (case asked of Some k \<Rightarrow> k | None \<Rightarrow> n) 0) n) 50 in
      Document 200 (take (nat wanted) ps))"

definition portal_click ::
    "upstream \<Rightarrow> (string \<Rightarrow> (string \<times> string \<times> string) option) \<Rightarrow> portal_error + string \<Rightarrow>
     portal \<Rightarrow> unit response \<times> portal" where
  "portal_click u url reply w =
     (case click u reply w of
        (Inl e, w) \<Rightarrow> (portal_problem 400 e, w)
      | (Inr destination, w) \<Rightarrow>
          if \<not> safe_destination url destination then
            (Problem 502 (Upstream_Error ''upstream returned an unusable click destination''), w)
          else (Redirect destination, w))"

text \<open>A request body is \<open>None\<close> when it does not decode.  \<open>login\<close> and \<open>register\<close> are the upstream's answers.\<close>

definition portal_login ::
    "upstream \<Rightarrow> (string \<Rightarrow> string \<Rightarrow> portal_error + session) \<Rightarrow> (string \<times> string) option \<Rightarrow>
     portal \<Rightarrow> session response \<times> portal" where
  "portal_login u login request w =
     (case request of
        None \<Rightarrow> (Problem 400 (Upstream_Error ''invalid session request''), w)
      | Some (email, password) \<Rightarrow>
          (let email = trim_space email in
           if email = [] \<or> password = [] then
             (Problem 400 (Upstream_Error ''email and password are required''), w)
           else (case account_operation u (login email password) w of
                   (Inl e, w) \<Rightarrow> (portal_problem 400 e, w)
                 | (Inr session, w) \<Rightarrow> (Document 200 session, w))))"

definition portal_register ::
    "upstream \<Rightarrow> (string \<Rightarrow> string \<Rightarrow> string \<Rightarrow> portal_error + unit) \<Rightarrow> (string \<times> string \<times> string) option \<Rightarrow>
     portal \<Rightarrow> unit response \<times> portal" where
  "portal_register u register request w =
     (case request of
        None \<Rightarrow> (Problem 400 (Upstream_Error ''invalid registration request''), w)
      | Some (email, password, name) \<Rightarrow>
          (let email = trim_space email in
           if email = [] \<or> password = [] then
             (Problem 400 (Upstream_Error ''email and password are required''), w)
           else (case account_operation u (register email password (trim_space name)) w of
                   (Inl e, w) \<Rightarrow> (portal_problem 400 e, w)
                 | (Inr (), w) \<Rightarrow> (Created, w))))"

definition portal_me ::
    "upstream \<Rightarrow> (string \<Rightarrow> portal_error + user) \<Rightarrow> string \<Rightarrow> portal \<Rightarrow> user response \<times> portal" where
  "portal_me u me header w =
     (case bearer_token header of
        None \<Rightarrow> (Problem 401 (Upstream_Error ''missing bearer token''), w)
      | Some token \<Rightarrow>
          (case account_operation u (me token) w of
             (Inl e, w) \<Rightarrow> (portal_problem 401 e, w)
           | (Inr user, w) \<Rightarrow> (Document 200 user, w)))"

subsection \<open>What the boundary guarantees\<close>

text \<open>Only an absolute HTTP or HTTPS location leaves the server, and only while the slot is live.\<close>

lemma click_redirect_safe:
  "portal_click u url reply w = (Redirect d, v) \<Longrightarrow> safe_destination url d \<and> promotions_live w"
  by (auto simp: portal_click_def click_def portal_problem_def split: if_splits sum.splits prod.splits)

lemma click_dots: "valid_segment ''..''" "valid_segment ''%2F''"
  by code_simp+

text \<open>A rejected credential is never taken for an outage, at either boundary.\<close>

lemma credentials_are_no_outage:
  "status_error s = Credentials_Rejected \<longleftrightarrow> s = 401 \<or> s = 403"
  "observe_account_outcome (Some Credentials_Rejected) w = w"
  "portal_problem n Credentials_Rejected = Problem n Credentials_Rejected"
  by (auto simp: status_error_def err_not_found_def observe_account_outcome_def is_credentials_def
      portal_problem_def)

lemma promotions_bounded:
  "portal_promotions asked w = Document n ps \<Longrightarrow> length ps \<le> 50 \<and> set ps \<subseteq> set (cached_promotions w)"
  by (auto simp: portal_promotions_def Let_def dest: in_set_takeD)

end
