(* ===== verification/Catalog_Group.thy ===== *)
theory Catalog_Group
  imports Release_Name Download_Status
begin

text \<open>
  The sources of a catalog title and their grouping into titles (\<open>application/catalog.go\<close>,
  \<open>sqlite/repository.go\<close>): the rows the repository lists for a set of titles, the in-memory filter, the
  fold that builds one title for every title id, the order of a list of titles and the metadata laid
  over a title.  The sets the code keeps while it folds are lists without duplicates.
\<close>

subsection \<open>Listing the sources of titles\<close>

text \<open>
  A row of \<open>releases\<close> joined with its projection.  The projection is what the release parsed to when it
  was stored; the select does not read back whether a season was written in the name.
\<close>

definition stored_source :: "torrent_release \<Rightarrow> string \<Rightarrow> catalog_source" where
  "stored_source r title_id = \<lparr>cs_release = r, cs_parsed = (parse_release r)\<lparr>pr_season_explicit := False\<rparr>,
     cs_title_id = title_id, cs_file_index = None, cs_file_path = [], cs_file_size_bytes = 0,
     cs_library_state = zero_media_state\<rparr>"

definition uploaded_seconds :: "torrent_release \<Rightarrow> int" where
  "uploaded_seconds r = (case rel_uploaded_at r of None \<Rightarrow> 0 | Some t \<Rightarrow> t div second)"

definition source_listed_before :: "catalog_source \<Rightarrow> catalog_source \<Rightarrow> bool" where
  "source_listed_before a b =
     (let x = cs_release a; y = cs_release b in
      if uploaded_seconds x \<noteq> uploaded_seconds y then uploaded_seconds y < uploaded_seconds x
      else str_less (rel_id y) (rel_id x))"

definition tracker_eligible_row :: "string list \<Rightarrow> torrent_release \<Rightarrow> bool" where
  "tracker_eligible_row eligible r = (rel_tracker_id r \<in> set eligible)"

definition join_sources :: "(string \<Rightarrow> bool) \<Rightarrow> string list \<Rightarrow> world \<Rightarrow> catalog_source list" where
  "join_sources wanted eligible w =
     sort_by source_listed_before
       (concat (map (\<lambda>r. case map_of (w_titles w) (rel_id r) of
            Some tid \<Rightarrow> if wanted tid \<and> tracker_eligible_row eligible r \<and> \<not> rel_discovery_excluded r
                        then [stored_source r tid] else []
          | None \<Rightarrow> []) (w_releases w)))"

definition list_catalog_sources :: "string list \<Rightarrow> world \<Rightarrow> (svc_error + catalog_source list) \<times> world" where
  "list_catalog_sources eligible w = (case attempt w of
     (Some e, w') \<Rightarrow> (Inl (Repo_Error e), w')
   | (None, w') \<Rightarrow> (Inr (join_sources (\<lambda>_. True) eligible w'), w'))"

definition sources_by_title_ids ::
    "string list \<Rightarrow> string list \<Rightarrow> world \<Rightarrow> (svc_error + catalog_source list) \<times> world" where
  "sources_by_title_ids ids eligible w =
     (if ids = [] then (Inr [], w)
      else (case attempt w of
              (Some e, w') \<Rightarrow> (Inl (Repo_Error e), w')
            | (None, w') \<Rightarrow> (Inr (join_sources (\<lambda>t. t \<in> set ids) eligible w'), w')))"

subsection \<open>The in-memory filter\<close>

definition contains_fold :: "string list \<Rightarrow> string \<Rightarrow> bool" where
  "contains_fold values target = list_ex (\<lambda>v. equal_fold v target) values"

definition flag_ok :: "bool option \<Rightarrow> bool \<Rightarrow> bool" where
  "flag_ok wanted has = (case wanted of None \<Rightarrow> True | Some b \<Rightarrow> has = b)"

definition text_ok :: "string \<Rightarrow> string \<Rightarrow> bool" where
  "text_ok wanted has = (wanted = [] \<or> equal_fold has wanted)"

definition source_matches :: "catalog_query \<Rightarrow> catalog_source \<Rightarrow> bool" where
  "source_matches q x =
     (let p = cs_parsed x; r = cs_release x; search = to_lower (trim_space (cq_search q)) in
      0 < rel_seeders r \<and> \<not> rel_discovery_excluded r \<and>
      (search = [] \<or> contains (to_lower (pr_title p @ '' '' @ pr_episode_title p @ '' '' @ rel_name r)) search) \<and>
      text_ok (cq_category q) (rel_category r) \<and>
      (cq_categories q = [] \<or> contains_fold (cq_categories q) (rel_category r)) \<and>
      (cq_kind q = [] \<or> pr_kind p = cq_kind q) \<and>
      text_ok (cq_resolution q) (pr_resolution p) \<and> text_ok (cq_hdr q) (pr_hdr p) \<and>
      text_ok (cq_quality q) (pr_quality p) \<and> text_ok (cq_codec q) (pr_video_codec p) \<and>
      cq_min_seeders q \<le> rel_seeders r \<and> flag_ok (cq_freeleech q) (rel_freeleech r) \<and>
      flag_ok (cq_internal q) (rel_internal r) \<and> flag_ok (cq_moderated q) (rel_moderated r))"

definition filter_catalog_sources :: "catalog_source list \<Rightarrow> catalog_query \<Rightarrow> catalog_source list" where
  "filter_catalog_sources items q = filter (source_matches q) items"

definition sources_for_title :: "catalog_source list \<Rightarrow> string \<Rightarrow> catalog_source list" where
  "sources_for_title sources title_id = filter (\<lambda>s. cs_title_id s = title_id) sources"

subsection \<open>Grouping\<close>

definition add_key :: "'a \<Rightarrow> 'a list \<Rightarrow> 'a list" where
  "add_key k ks = (if k \<in> set ks then ks else ks @ [k])"

definition set_non_empty :: "string list \<Rightarrow> string \<Rightarrow> string list" where
  "set_non_empty ks v = (if v \<noteq> [] then add_key v ks else ks)"

definition sorted_keys :: "string list \<Rightarrow> string list" where
  "sorted_keys ks = sort_by str_less (filter (\<lambda>k. k \<noteq> []) ks)"

text \<open>
  The maps of \<open>groupCatalog\<close>, each keyed by the title id on its own, and the order in which the ids came.  The sets are
  lists without duplicates; a key that was never written reads as empty.
\<close>

record group_maps =
  gm_groups :: "string \<Rightarrow> catalog_title option"
  gm_categories :: "string \<Rightarrow> string list"
  gm_resolutions :: "string \<Rightarrow> string list"
  gm_seasons :: "string \<Rightarrow> int list"
  gm_episodes :: "string \<Rightarrow> (int \<times> int) list"
  gm_trackers :: "string \<Rightarrow> (string \<times> tracker_ref) list"
  gm_order :: "string list"

definition no_groups :: group_maps where
  "no_groups = \<lparr>gm_groups = (\<lambda>_. None), gm_categories = (\<lambda>_. []), gm_resolutions = (\<lambda>_. []), gm_seasons = (\<lambda>_. []),
     gm_episodes = (\<lambda>_. []), gm_trackers = (\<lambda>_. []), gm_order = []\<rparr>"

definition new_title :: "catalog_source \<Rightarrow> catalog_title" where
  "new_title x = zero_catalog_title\<lparr>ct_id := cs_title_id x, ct_title := pr_title (cs_parsed x),
     ct_kind := pr_kind (cs_parsed x), ct_year := pr_year (cs_parsed x), ct_imdb := rel_imdb (cs_release x)\<rparr>"

definition begin_title :: "catalog_source \<Rightarrow> group_maps \<Rightarrow> group_maps" where
  "begin_title x gm =
     (let tid = cs_title_id x in
      if gm_groups gm tid \<noteq> None then gm
      else gm\<lparr>gm_groups := (gm_groups gm)(tid \<mapsto> new_title x), gm_categories := (gm_categories gm)(tid := []),
        gm_resolutions := (gm_resolutions gm)(tid := []), gm_seasons := (gm_seasons gm)(tid := []),
        gm_episodes := (gm_episodes gm)(tid := []), gm_trackers := (gm_trackers gm)(tid := []),
        gm_order := gm_order gm @ [tid]\<rparr>)"

definition later_upload :: "go_time option \<Rightarrow> go_time option \<Rightarrow> go_time option" where
  "later_upload newest uploaded =
     (case uploaded of
        None \<Rightarrow> newest
      | Some t \<Rightarrow> (case newest of None \<Rightarrow> Some t | Some n \<Rightarrow> if n < t then Some t else newest))"

definition count_source :: "bool \<Rightarrow> catalog_source \<Rightarrow> catalog_title \<Rightarrow> catalog_title" where
  "count_source include_sources x t =
     (let r = cs_release x;
          t = t\<lparr>ct_source_count := ct_source_count t + 1\<rparr>;
          t = (if rel_size_bytes r > ct_largest_size_bytes t then t\<lparr>ct_largest_size_bytes := rel_size_bytes r\<rparr> else t);
          t = (if rel_seeders r > ct_best_seeders t then t\<lparr>ct_best_seeders := rel_seeders r\<rparr> else t);
          t = t\<lparr>ct_newest_upload := later_upload (ct_newest_upload t) (rel_uploaded_at r)\<rparr>
      in if include_sources then t\<lparr>ct_sources := ct_sources t @ [x]\<rparr> else t)"

definition note_tracker :: "catalog_source \<Rightarrow> (string \<times> tracker_ref) list \<Rightarrow> (string \<times> tracker_ref) list" where
  "note_tracker x refs =
     (let r = cs_release x; name = (if rel_tracker_name r = [] then rel_tracker_id r else rel_tracker_name r) in
      if rel_tracker_id r \<noteq> [] then upsert fst (rel_tracker_id r, \<lparr>tr_id = rel_tracker_id r, tr_name = name\<rparr>) refs
      else refs)"

definition note_seasons :: "catalog_source \<Rightarrow> int list \<Rightarrow> int list" where
  "note_seasons x ns =
     (let p = cs_parsed x in
      if 0 < pr_season_start p then fold add_key [pr_season_start p .. max (pr_season_start p) (pr_season_end p)] ns
      else ns)"

definition note_episode :: "catalog_source \<Rightarrow> (int \<times> int) list \<Rightarrow> (int \<times> int) list" where
  "note_episode x es =
     (let p = cs_parsed x in
      if 0 < pr_episode_start p then add_key (pr_season_start p, pr_episode_start p) es else es)"

definition group_source :: "bool \<Rightarrow> group_maps \<Rightarrow> catalog_source \<Rightarrow> group_maps" where
  "group_source include_sources gm x =
     (let tid = cs_title_id x; gm = begin_title x gm in
      gm\<lparr>gm_groups := (gm_groups gm)(tid := map_option (count_source include_sources x) (gm_groups gm tid)),
        gm_categories := (gm_categories gm)(tid := add_key (rel_category (cs_release x)) (gm_categories gm tid)),
        gm_resolutions := (gm_resolutions gm)(tid := set_non_empty (gm_resolutions gm tid) (pr_resolution (cs_parsed x))),
        gm_trackers := (gm_trackers gm)(tid := note_tracker x (gm_trackers gm tid)),
        gm_seasons := (gm_seasons gm)(tid := note_seasons x (gm_seasons gm tid)),
        gm_episodes := (gm_episodes gm)(tid := note_episode x (gm_episodes gm tid))\<rparr>)"

definition finish_title :: "group_maps \<Rightarrow> string \<Rightarrow> catalog_title" where
  "finish_title gm tid = (the (gm_groups gm tid))\<lparr>ct_categories := sorted_keys (gm_categories gm tid),
     ct_resolutions := sorted_keys (gm_resolutions gm tid),
     ct_season_count := int (length (gm_seasons gm tid)), ct_episode_count := int (length (gm_episodes gm tid)),
     ct_trackers := map (\<lambda>k. the (map_of (gm_trackers gm tid) k)) (sort_by str_less (map fst (gm_trackers gm tid)))\<rparr>"

definition group_catalog :: "catalog_source list \<Rightarrow> bool \<Rightarrow> catalog_title list" where
  "group_catalog items include_sources =
     (let gm = foldl (group_source include_sources) no_groups items in map (finish_title gm) (gm_order gm))"

subsection \<open>Order and metadata of titles\<close>

definition title_before :: "string \<Rightarrow> catalog_title \<Rightarrow> catalog_title \<Rightarrow> bool" where
  "title_before order a b =
     (if order = ''oldest'' then
        (case (ct_newest_upload a, ct_newest_upload b) of
           (None, _) \<Rightarrow> True | (_, None) \<Rightarrow> False | (Some x, Some y) \<Rightarrow> x < y)
      else if order = ''title'' \<or> order = ''title-asc'' then str_less (to_lower (ct_title a)) (to_lower (ct_title b))
      else if order = ''title-desc'' then str_less (to_lower (ct_title b)) (to_lower (ct_title a))
      else if order = ''seeders'' then ct_best_seeders a > ct_best_seeders b
      else if order = ''size'' then ct_largest_size_bytes a > ct_largest_size_bytes b
      else (case (ct_newest_upload a, ct_newest_upload b) of
              (None, _) \<Rightarrow> False | (_, None) \<Rightarrow> True | (Some x, Some y) \<Rightarrow> y < x))"

definition sort_catalog_titles :: "catalog_title list \<Rightarrow> string \<Rightarrow> catalog_title list" where
  "sort_catalog_titles items order = sort_by (title_before order) items"

definition apply_metadata :: "catalog_title \<Rightarrow> catalog_metadata \<Rightarrow> catalog_title" where
  "apply_metadata t m =
     (let t = (if cm_title m \<noteq> [] then t\<lparr>ct_title := cm_title m\<rparr> else t);
          t = t\<lparr>ct_original_title := cm_original_title m, ct_overview := cm_overview m, ct_genres := cm_genres m,
                ct_rating := cm_rating m, ct_rating_votes := cm_rating_votes m,
                ct_rating_provider := cm_rating_provider m\<rparr>;
          t = (if ct_year t = 0 then t\<lparr>ct_year := cm_year m\<rparr> else t);
          t = t\<lparr>ct_release_date := cm_release_date m\<rparr>;
          t = (if cm_poster_path m \<noteq> [] then t\<lparr>ct_poster_url := ''/api/v1/artwork/'' @ ct_id t @ ''/poster''\<rparr> else t) in
      if cm_backdrop_path m \<noteq> [] then t\<lparr>ct_backdrop_url := ''/api/v1/artwork/'' @ ct_id t @ ''/backdrop''\<rparr> else t)"

definition apply_metadata_only :: "catalog_title \<Rightarrow> world \<Rightarrow> catalog_title \<times> world" where
  "apply_metadata_only t w =
     (case get_catalog_metadata (ct_id t) w of
        (Inr m, w) \<Rightarrow> (apply_metadata t m, w) | (Inl _, w) \<Rightarrow> (t, w))"

subsection \<open>What grouping yields\<close>

text \<open>What a title is to say of its sources, stated on the sources themselves.\<close>

definition uploads :: "catalog_source list \<Rightarrow> go_time set" where
  "uploads own = {t. \<exists>x\<in>set own. rel_uploaded_at (cs_release x) = Some t}"

definition seasons_named :: "catalog_source list \<Rightarrow> int set" where
  "seasons_named own = (\<Union>x\<in>set own. let p = cs_parsed x in
     if 0 < pr_season_start p then {pr_season_start p .. max (pr_season_start p) (pr_season_end p)} else {})"

definition episodes_named :: "catalog_source list \<Rightarrow> (int \<times> int) set" where
  "episodes_named own = (\<lambda>x. (pr_season_start (cs_parsed x), pr_episode_start (cs_parsed x))) `
     {x \<in> set own. 0 < pr_episode_start (cs_parsed x)}"

definition tracker_shown :: "catalog_source list \<Rightarrow> string \<Rightarrow> tracker_ref" where
  "tracker_shown own i =
     (let name = rel_tracker_name (cs_release (last (filter (\<lambda>x. rel_tracker_id (cs_release x) = i) own))) in
      \<lparr>tr_id = i, tr_name = (if name = [] then i else name)\<rparr>)"

definition ordered_names :: "string list \<Rightarrow> string set \<Rightarrow> bool" where
  "ordered_names ks names = (set ks = names - {[]} \<and> sorted_wrt str_less ks)"

definition sums_up :: "bool \<Rightarrow> catalog_source list \<Rightarrow> catalog_title \<Rightarrow> bool" where
  "sums_up include_sources own t =
     (let sizes = (\<lambda>x. rel_size_bytes (cs_release x)) ` set own; seeders = (\<lambda>x. rel_seeders (cs_release x)) ` set own;
          trackers = (\<lambda>x. rel_tracker_id (cs_release x)) ` set own in
      own \<noteq> [] \<and> ct_title t = pr_title (cs_parsed (hd own)) \<and> ct_kind t = pr_kind (cs_parsed (hd own)) \<and>
      ct_year t = pr_year (cs_parsed (hd own)) \<and> ct_imdb t = rel_imdb (cs_release (hd own)) \<and>
      ct_source_count t = int (length own) \<and> ct_sources t = (if include_sources then own else []) \<and>
      ct_largest_size_bytes t = Max (insert 0 sizes) \<and> ct_best_seeders t = Max (insert 0 seeders) \<and>
      ct_newest_upload t = (if uploads own = {} then None else Some (Max (uploads own))) \<and>
      ordered_names (ct_categories t) ((\<lambda>x. rel_category (cs_release x)) ` set own) \<and>
      ordered_names (ct_resolutions t) ((\<lambda>x. pr_resolution (cs_parsed x)) ` set own) \<and>
      ct_season_count t = int (card (seasons_named own)) \<and> ct_episode_count t = int (card (episodes_named own)) \<and>
      ordered_names (map tr_id (ct_trackers t)) trackers \<and> set (ct_trackers t) = tracker_shown own ` (trackers - {[]}))"

definition ids_in_order :: "catalog_source list \<Rightarrow> string list" where
  "ids_in_order items = rev (remdups (rev (map cs_title_id items)))"

lemma set_add_key [simp]: "set (add_key k ks) = insert k (set ks)"
  by (auto simp: add_key_def)

lemma distinct_add_key [simp]: "distinct ks \<Longrightarrow> distinct (add_key k ks)"
  by (simp add: add_key_def)

lemma ids_in_order_snoc: "ids_in_order (xs @ [x]) = add_key (cs_title_id x) (ids_in_order xs)"
  by (simp add: ids_in_order_def add_key_def)

lemma ids_in_order_facts: "set (ids_in_order xs) = cs_title_id ` set xs \<and> distinct (ids_in_order xs)"
  by (simp add: ids_in_order_def)

text \<open>The numbers of a title, as they stand while its sources come in.\<close>

definition counted :: "bool \<Rightarrow> catalog_source list \<Rightarrow> catalog_title \<Rightarrow> bool" where
  "counted include_sources own t =
     (own \<noteq> [] \<and> ct_id t = cs_title_id (hd own) \<and> ct_title t = pr_title (cs_parsed (hd own)) \<and>
      ct_kind t = pr_kind (cs_parsed (hd own)) \<and> ct_year t = pr_year (cs_parsed (hd own)) \<and>
      ct_imdb t = rel_imdb (cs_release (hd own)) \<and> ct_source_count t = int (length own) \<and>
      ct_sources t = (if include_sources then own else []) \<and>
      ct_largest_size_bytes t = Max (insert 0 ((\<lambda>x. rel_size_bytes (cs_release x)) ` set own)) \<and>
      ct_best_seeders t = Max (insert 0 ((\<lambda>x. rel_seeders (cs_release x)) ` set own)) \<and>
      ct_newest_upload t = (if uploads own = {} then None else Some (Max (uploads own))))"

lemma finite_uploads: "finite (uploads own)"
proof -
  have "uploads own \<subseteq> (\<lambda>x. the (rel_uploaded_at (cs_release x))) ` set own"
    by (force simp: uploads_def)
  then show ?thesis by (rule finite_subset) simp
qed

lemma uploads_snoc: "uploads (own @ [x]) = set_option (rel_uploaded_at (cs_release x)) \<union> uploads own"
  by (auto simp: uploads_def)

lemma later_upload_Max:
  "later_upload (if uploads own = {} then None else Some (Max (uploads own))) (rel_uploaded_at (cs_release x)) =
   (if uploads (own @ [x]) = {} then None else Some (Max (uploads (own @ [x]))))"
proof (cases "rel_uploaded_at (cs_release x)")
  case None
  then show ?thesis by (simp add: later_upload_def uploads_snoc)
next
  case (Some t)
  then show ?thesis
    using finite_uploads[of own]
    by (cases "uploads own = {}") (simp_all add: later_upload_def uploads_snoc max_def not_less del: Max_less_iff)
qed

lemma Max_snoc: "Max (insert 0 (f ` set (own @ [x]))) = max (f x) (Max (insert 0 (f ` set own)))" for f :: "_ \<Rightarrow> int"
  using Max_insert[of "insert 0 (f ` set own)" "f x"] by (simp add: insert_commute)

lemma counted_new: "counted b [x] (count_source b x (new_title x))"
  by (auto simp: counted_def count_source_def new_title_def zero_catalog_title_def uploads_def later_upload_def Let_def
      max_def split: option.splits)

lemma counted_more:
  assumes "counted b own t" shows "counted b (own @ [x]) (count_source b x t)"
proof -
  have "ct_newest_upload (count_source b x t) = later_upload (ct_newest_upload t) (rel_uploaded_at (cs_release x))"
    by (simp add: count_source_def Let_def)
  moreover have "ct_largest_size_bytes (count_source b x t) = max (rel_size_bytes (cs_release x)) (ct_largest_size_bytes t)"
    "ct_best_seeders (count_source b x t) = max (rel_seeders (cs_release x)) (ct_best_seeders t)"
    by (auto simp: count_source_def Let_def max_def)
  moreover have "ct_source_count (count_source b x t) = ct_source_count t + 1" "ct_id (count_source b x t) = ct_id t"
    "ct_sources (count_source b x t) = ct_sources t @ (if b then [x] else [])" "ct_title (count_source b x t) = ct_title t"
    "ct_kind (count_source b x t) = ct_kind t" "ct_year (count_source b x t) = ct_year t"
    "ct_imdb (count_source b x t) = ct_imdb t"
    by (simp_all add: count_source_def Let_def)
  ultimately show ?thesis
    using assms unfolding counted_def Max_snoc by (simp add: later_upload_Max)
qed

text \<open>The sets of a title.\<close>

lemma fold_add_key: "set (fold add_key ks ns) = set ks \<union> set ns" "distinct ns \<Longrightarrow> distinct (fold add_key ks ns)"
  by (induction ks arbitrary: ns) auto

lemma seasons_snoc:
  "set ns = seasons_named own \<Longrightarrow> distinct ns \<Longrightarrow>
   set (note_seasons x ns) = seasons_named (own @ [x]) \<and> distinct (note_seasons x ns)"
  by (auto simp: note_seasons_def seasons_named_def fold_add_key Let_def)

lemma episodes_snoc:
  "set es = episodes_named own \<Longrightarrow> distinct es \<Longrightarrow>
   set (note_episode x es) = episodes_named (own @ [x]) \<and> distinct (note_episode x es)"
  by (auto simp: note_episode_def episodes_named_def Let_def)

definition shown :: "catalog_source list \<Rightarrow> (string \<times> tracker_ref) list \<Rightarrow> bool" where
  "shown own refs = (distinct (map fst refs) \<and>
     (\<forall>i. map_of refs i = (if i \<noteq> [] \<and> i \<in> (\<lambda>x. rel_tracker_id (cs_release x)) ` set own
        then Some (tracker_shown own i) else None)))"

lemma tracker_shown_snoc:
  "tracker_shown (own @ [x]) i = (if rel_tracker_id (cs_release x) = i
     then \<lparr>tr_id = i, tr_name = (if rel_tracker_name (cs_release x) = [] then i else rel_tracker_name (cs_release x))\<rparr>
     else tracker_shown own i)"
  by (simp add: tracker_shown_def Let_def)

lemma shown_snoc: "shown own refs \<Longrightarrow> shown (own @ [x]) (note_tracker x refs)"
  by (auto simp: shown_def note_tracker_def Let_def map_of_upsert distinct_upsert tracker_shown_snoc)

text \<open>What the maps hold for a title after its sources, whatever other sources came between.\<close>

definition grouped :: "bool \<Rightarrow> catalog_source list \<Rightarrow> group_maps \<Rightarrow> string \<Rightarrow> bool" where
  "grouped b own gm k =
     ((case gm_groups gm k of None \<Rightarrow> own = [] | Some t \<Rightarrow> counted b own t) \<and>
      set (gm_categories gm k) = (\<lambda>x. rel_category (cs_release x)) ` set own \<and> distinct (gm_categories gm k) \<and>
      set (gm_resolutions gm k) = (\<lambda>x. pr_resolution (cs_parsed x)) ` set own - {[]} \<and> distinct (gm_resolutions gm k) \<and>
      set (gm_seasons gm k) = seasons_named own \<and> distinct (gm_seasons gm k) \<and>
      set (gm_episodes gm k) = episodes_named own \<and> distinct (gm_episodes gm k) \<and> shown own (gm_trackers gm k))"

lemma grouped_other:
  "cs_title_id x \<noteq> k \<Longrightarrow> grouped b own (group_source b' gm x) k = grouped b own gm k"
  by (simp add: grouped_def group_source_def begin_title_def Let_def)

lemma grouped_same:
  assumes "grouped b own gm (cs_title_id x)" shows "grouped b (own @ [x]) (group_source b gm x) (cs_title_id x)"
proof -
  let ?k = "cs_title_id x" and ?gm = "group_source b gm x"
  have empty: "own = []" "gm_categories gm ?k = []" "gm_resolutions gm ?k = []" "gm_seasons gm ?k = []" "gm_episodes gm ?k = []"
    "gm_trackers gm ?k = []" if "gm_groups gm ?k = None"
    using assms that
    by (auto simp: grouped_def seasons_named_def episodes_named_def shown_def map_of_eq_None_iff simp flip: ex_in_conv)
  have parts: "gm_categories ?gm ?k = add_key (rel_category (cs_release x)) (gm_categories gm ?k)"
    "gm_resolutions ?gm ?k = set_non_empty (gm_resolutions gm ?k) (pr_resolution (cs_parsed x))"
    "gm_seasons ?gm ?k = note_seasons x (gm_seasons gm ?k)" "gm_episodes ?gm ?k = note_episode x (gm_episodes gm ?k)"
    "gm_trackers ?gm ?k = note_tracker x (gm_trackers gm ?k)"
    using empty by (cases "gm_groups gm ?k"; simp add: group_source_def begin_title_def Let_def)+
  have "\<exists>t. gm_groups ?gm ?k = Some t \<and> counted b (own @ [x]) t"
  proof (cases "gm_groups gm ?k")
    case None
    then show ?thesis
      using counted_new[of b x] empty by (simp add: group_source_def begin_title_def Let_def)
  next
    case (Some t)
    then show ?thesis
      using assms counted_more[of b own t x] by (simp add: grouped_def group_source_def begin_title_def Let_def)
  qed
  then show ?thesis
    using assms seasons_snoc[of "gm_seasons gm ?k" own x] episodes_snoc[of "gm_episodes gm ?k" own x]
      shown_snoc[of own "gm_trackers gm ?k" x]
    by (auto simp: grouped_def parts set_non_empty_def)
qed

lemma fold_grouped: "grouped b (sources_for_title items k) (foldl (group_source b) no_groups items) k"
proof (induction items rule: rev_induct)
  case Nil
  then show ?case
    by (simp add: grouped_def no_groups_def sources_for_title_def seasons_named_def episodes_named_def shown_def)
next
  case (snoc x xs)
  then show ?case
    using grouped_same[of b "sources_for_title xs k" "foldl (group_source b) no_groups xs" x]
    by (cases "cs_title_id x = k") (simp_all add: sources_for_title_def grouped_other)
qed

lemma fold_order:
  "gm_order (foldl (group_source b) no_groups items) = ids_in_order items \<and>
   (\<forall>k. gm_groups (foldl (group_source b) no_groups items) k = None \<longleftrightarrow> k \<notin> cs_title_id ` set items)"
proof (induction items rule: rev_induct)
  case Nil
  then show ?case by (simp add: no_groups_def ids_in_order_def)
next
  case (snoc x xs)
  then show ?case
    using ids_in_order_facts[of xs]
    by (cases "cs_title_id x \<in> cs_title_id ` set xs")
      (auto simp: group_source_def begin_title_def Let_def add_key_def ids_in_order_snoc image_iff)
qed

interpretation names: strict_weak str_less
  by unfold_locales (auto dest: str_less_asym str_less_negtrans)

lemma sorted_distinct_less:
  "distinct xs \<Longrightarrow> sorted_wrt (\<lambda>x y. \<not> str_less y x) xs \<Longrightarrow> sorted_wrt str_less xs"
  by (induction xs) (auto, metis str_less_total)

lemma sort_strings_strict: "distinct xs \<Longrightarrow> sorted_wrt str_less (sort_by str_less xs)"
proof (rule sorted_distinct_less)
  assume "distinct xs"
  then show "distinct (sort_by str_less xs)" by (metis mset_sort_by mset_eq_imp_distinct_iff)
  show "sorted_wrt (\<lambda>x y. \<not> str_less y x) (sort_by str_less xs)"
    by (rule names.sorted_sort_by)
qed

lemma sorted_keys_ordered: "distinct ks \<Longrightarrow> ordered_names (sorted_keys ks) (set ks)"
  by (auto simp: ordered_names_def sorted_keys_def intro: sort_strings_strict)

lemma grouped_sums_up:
  assumes "grouped b own gm k" "own \<noteq> []"
  shows "sums_up b own (finish_title gm k) \<and> ct_id (finish_title gm k) = cs_title_id (hd own)"
proof -
  obtain t where t: "gm_groups gm k = Some t" "counted b own t"
    using assms by (auto simp: grouped_def split: option.splits)
  let ?refs = "gm_trackers gm k" and ?ids = "(\<lambda>x. rel_tracker_id (cs_release x)) ` set own"
  let ?keys = "sort_by str_less (map fst ?refs)"
  have refs: "distinct (map fst ?refs)" and found: "\<And>i. map_of ?refs i = (if i \<noteq> [] \<and> i \<in> ?ids then Some (tracker_shown own i) else None)"
    using assms(1) by (auto simp: grouped_def shown_def)
  have keys: "set ?keys = ?ids - {[]}"
  proof -
    have "i \<in> fst ` set ?refs \<longleftrightarrow> i \<noteq> [] \<and> i \<in> ?ids" for i
      using map_of_eq_None_iff[of ?refs i] found[of i] by (auto split: if_splits)
    then show ?thesis by (simp add: set_eq_iff del: image_iff) blast
  qed
  have rows: "map (\<lambda>i. the (map_of ?refs i)) ?keys = map (tracker_shown own) ?keys"
    using keys by (intro map_cong) (auto simp: found)
  have "map tr_id (map (tracker_shown own) ?keys) = ?keys"
    by (simp add: tracker_shown_def Let_def comp_def)
  then have trackers: "ordered_names (map tr_id (ct_trackers (finish_title gm k))) ?ids"
      "set (ct_trackers (finish_title gm k)) = tracker_shown own ` (?ids - {[]})"
    using keys sort_strings_strict[OF refs] by (simp_all add: finish_title_def rows ordered_names_def del: map_map)
  have cats: "ordered_names (sorted_keys (gm_categories gm k)) ((\<lambda>x. rel_category (cs_release x)) ` set own)"
    using assms(1) sorted_keys_ordered[of "gm_categories gm k"] by (simp add: grouped_def)
  have ress: "ordered_names (sorted_keys (gm_resolutions gm k)) ((\<lambda>x. pr_resolution (cs_parsed x)) ` set own)"
    using assms(1) sorted_keys_ordered[of "gm_resolutions gm k"] by (simp add: grouped_def ordered_names_def)
  have "length (gm_seasons gm k) = card (seasons_named own)" "length (gm_episodes gm k) = card (episodes_named own)"
    using assms(1) by (auto simp: grouped_def dest!: distinct_card)
  then show ?thesis
    using t trackers cats ress by (simp add: sums_up_def counted_def finish_title_def Let_def)
qed

text \<open>
  Property C20: grouping lists one title for every title id among the sources, in the order in which the ids first appear,
  and every title says of the sources of its own id, and of no others, what it is to say: the name, kind, year and identity
  of the first, their number, the greatest size and seeders, the newest upload, the ordered names without blanks of their
  categories, resolutions and trackers, and how many seasons and episodes they name.
\<close>

theorem group_catalog_by_title:
  "map ct_id (group_catalog items b) = ids_in_order items \<and>
   list_all (\<lambda>t. sums_up b (sources_for_title items (ct_id t)) t) (group_catalog items b)"
proof -
  let ?gm = "foldl (group_source b) no_groups items"
  have one: "sums_up b (sources_for_title items k) (finish_title ?gm k) \<and> ct_id (finish_title ?gm k) = k"
    if k: "k \<in> set (ids_in_order items)" for k
  proof -
    have ne: "sources_for_title items k \<noteq> []"
      using k by (auto simp: sources_for_title_def filter_empty_conv ids_in_order_facts)
    then have "hd (sources_for_title items k) \<in> set (sources_for_title items k)" by simp
    then have "cs_title_id (hd (sources_for_title items k)) = k" by (simp add: sources_for_title_def)
    then show ?thesis using grouped_sums_up[OF fold_grouped ne] by simp
  qed
  have "group_catalog items b = map (finish_title ?gm) (ids_in_order items)"
    using fold_order[of b items] by (simp add: group_catalog_def Let_def)
  then show ?thesis
    using one by (simp add: list_all_iff comp_def cong: map_cong)
qed

end
