(* ===== verification/Job_Queue.thy ===== *)
theory Job_Queue
  imports Job_State Catalog_Group
begin

text \<open>
  How background work is asked for (\<open>service.go\<close>): the queues of the workers and what is put on them by
  \<open>SyncCatalog\<close>, \<open>QueueTrackerSearch\<close>, \<open>QueueTitleRefresh\<close>, \<open>ensureMetadata\<close> and \<open>RetryJob\<close>; the due
  jobs that are tried again and the jobs a restart interrupted.

  \<open>server\<close> adds to the world what these operations keep in memory: the catalog syncs that were
  started, the metadata queue with the titles it holds, and whether a metadata provider (and so the
  queue) is set.
  Every queue is a buffered channel of 256.  \<open>digest\<close> is the encoded hash in the key of a search.
\<close>

record meta_request =
  mq_title_id :: string
  mq_imdb :: string
  mq_title :: string
  mq_kind :: media_kind

record server =
  sv_world :: world
  sv_spawned :: "(job \<times> string) list"
  sv_meta_queue :: "meta_request list"
  sv_pending :: "string list"
  sv_provider :: bool

datatype job_error = Job_Svc svc_error | Refused string

definition queue_capacity :: nat where
  "queue_capacity = 256"

definition offer :: "'a \<Rightarrow> 'a list \<Rightarrow> 'a list option" where
  "offer x q = (if length q < queue_capacity then Some (q @ [x]) else None)"

definition rune_count :: "string \<Rightarrow> nat" where
  "rune_count s = length (filter (\<lambda>c. let n = of_char c :: nat in \<not> (128 \<le> n \<and> n < 192)) s)"

definition eligible_trackers :: "world \<Rightarrow> string list" where
  "eligible_trackers w = eligible_ids (w_registry w) (w_settings w)"

definition search_job_key :: "(string \<Rightarrow> string) \<Rightarrow> string \<Rightarrow> string" where
  "search_job_key digest q = ''tracker-search:'' @ digest (to_lower (trim_space q))"

definition with_world :: "server \<Rightarrow> world \<Rightarrow> server" where
  "with_world sv w = sv\<lparr>sv_world := w\<rparr>"

subsection \<open>Repository calls\<close>

definition due_before :: "job \<Rightarrow> job \<Rightarrow> bool" where
  "due_before a b =
     (case (job_next_attempt_at a, job_next_attempt_at b) of
        (Some x, Some y) \<Rightarrow> if x \<noteq> y then x < y else str_less (job_id a) (job_id b)
      | _ \<Rightarrow> False)"

definition job_due :: "go_time \<Rightarrow> job \<Rightarrow> bool" where
  "job_due now j =
     (case job_next_attempt_at j of
        None \<Rightarrow> False
      | Some t \<Rightarrow> t \<le> unix_seconds now \<and>
          (job_state j = ''retry_wait'' \<or> (job_state j = ''failed'' \<and> job_retryable j)))"

definition list_due_jobs :: "nat \<Rightarrow> world \<Rightarrow> (svc_error + job list) \<times> world" where
  "list_due_jobs limit w = (case attempt w of
     (Some e, w') \<Rightarrow> (Inl (Repo_Error e), w')
   | (None, w') \<Rightarrow> (Inr (take (if limit < 1 \<or> limit > 1000 then 500 else limit)
        (sort_by due_before (filter (job_due (now_of w)) (w_jobs w')))), w'))"

text \<open>An error of the query leaves the scanned value invalid, which the code reports as never synchronised.\<close>

definition sync_age :: "string \<Rightarrow> world \<Rightarrow> int \<times> world" where
  "sync_age name w = (case attempt w of
     (Some _, w') \<Rightarrow> (- 1, w')
   | (None, w') \<Rightarrow>
       (case row_of sy_name name (w_sync w') of
          None \<Rightarrow> (- 1, w')
        | Some r \<Rightarrow> (case sy_last r of
             None \<Rightarrow> (- 1, w') | Some t \<Rightarrow> (now_of w div second - t div second, w'))))"

definition record_sync :: "string \<Rightarrow> int \<Rightarrow> string option \<Rightarrow> world \<Rightarrow> world" where
  "record_sync name count_items failed w = (case attempt w of
     (Some _, w') \<Rightarrow> w'
   | (None, w') \<Rightarrow>
       (let old = (case row_of sy_name name (w_sync w') of Some r \<Rightarrow> sy_last r | None \<Rightarrow> None);
            row = \<lparr>sy_name = name,
                   sy_last = (case failed of None \<Rightarrow> Some (unix_seconds (now_of w)) | Some _ \<Rightarrow> old),
                   sy_count = count_items, sy_error = (case failed of None \<Rightarrow> [] | Some m \<Rightarrow> m)\<rparr> in
        w'\<lparr>w_sync := upsert sy_name row (w_sync w')\<rparr>))"

subsection \<open>Catalog synchronisation\<close>

definition sync_label :: "string \<Rightarrow> string" where
  "sync_label mode = (if mode = ''latest'' then ''Fetch latest releases'' else ''Rebuild catalog'')"

definition sync_catalog :: "string \<Rightarrow> server \<Rightarrow> (job_error + job) \<times> server" where
  "sync_catalog mode sv =
     (if mode \<noteq> ''latest'' \<and> mode \<noteq> ''rebuild'' then (Inl (Job_Svc Bad_Mode), sv)
      else
        (let key = ''catalog-'' @ mode;
             start = now_of (sv_world sv);
             (listed, w) = list_jobs 200 (sv_world sv);
             jobs = (case listed of Inr js \<Rightarrow> js | Inl _ \<Rightarrow> []) in
         case active_run key jobs of
           Some existing \<Rightarrow> (Inr existing, with_world sv w)
         | None \<Rightarrow>
             (let job = zero_job\<lparr>job_id := key, job_kind := key, job_state := ''queued'',
                    job_label := sync_label mode, job_dedupe_key := key,
                    job_attempt := next_attempt key jobs, job_updated_at := start\<rparr> in
              case save_job job w of
                (Some e, w) \<Rightarrow> (Inl (Job_Svc e), with_world sv w)
              | (None, w) \<Rightarrow>
                  (Inr job, (with_world sv (publish ''job.updated'' key w))
                     \<lparr>sv_spawned := sv_spawned sv @ [(job, mode)]\<rparr>))))"

subsection \<open>Searches and refreshes\<close>

text \<open>The row of a key, when it can be read and its job is in one of the given states.\<close>

definition existing_in :: "string list \<Rightarrow> svc_error + job \<Rightarrow> job option" where
  "existing_in states r = (case r of Inr j \<Rightarrow> if job_state j \<in> set states then Some j else None | Inl _ \<Rightarrow> None)"

definition search_attempt :: "bool \<Rightarrow> svc_error + job \<Rightarrow> int" where
  "search_attempt force r =
     (case r of
        Inr e \<Rightarrow> if force \<or> job_state e = ''completed'' \<or> job_state e = ''failed''
                then job_attempt e + 1 else job_attempt e
      | Inl _ \<Rightarrow> 1)"

definition enqueue_search :: "job \<Rightarrow> string \<Rightarrow> server \<Rightarrow> (job_error + job) \<times> server" where
  "enqueue_search job q sv =
     (case save_job job (sv_world sv) of
        (Some e, w) \<Rightarrow> (Inl (Job_Svc e), with_world sv w)
      | (None, w) \<Rightarrow>
          (case offer q (w_search_queue w) of
             Some queue \<Rightarrow>
               (let w = w\<lparr>w_search_queue := queue\<rparr>;
                    w = publish ''job.updated'' (job_id job) (job_log_entry job ''info'' ''queue'' w) in
                (Inr job, with_world sv w))
           | None \<Rightarrow>
               (let job = job\<lparr>job_state := ''failed'', job_error := ''tracker search queue is full'',
                      job_updated_at := now_of w\<rparr>;
                    w = job_log_entry job ''error'' ''queue'' (snd (save_job job w)) in
                (Inl (Refused (job_error job)), with_world sv w))))"

definition queue_tracker_search ::
    "(string \<Rightarrow> string) \<Rightarrow> string \<Rightarrow> bool \<Rightarrow> server \<Rightarrow> (job_error + job) \<times> server" where
  "queue_tracker_search digest q force sv =
     (let q = trim_space q in
      if rune_count q < 3 then
        (Inl (Refused ''search query must contain at least three characters''), sv)
      else
        (let key = search_job_key digest q; (found, w) = get_job key (sv_world sv) in
         case existing_in [''queued'', ''running'', ''retry_wait''] found of
           Some existing \<Rightarrow> (Inr existing, with_world sv w)
         | None \<Rightarrow>
             (let (found, w) = get_job key w;
                  job = zero_job\<lparr>job_id := key, job_kind := ''tracker-search'', job_state := ''queued'',
                    job_label := ''Search for '' @ q, job_dedupe_key := key,
                    job_attempt := search_attempt force found, job_updated_at := now_of w\<rparr> in
              enqueue_search job q (with_world sv w))))"

definition refresh_key :: "string \<Rightarrow> string" where
  "refresh_key title_id = ''catalog-title-refresh:'' @ title_id"

definition tracker_refresh_key :: "string \<Rightarrow> string \<Rightarrow> string" where
  "tracker_refresh_key tracker title_id = ''catalog-title-refresh:'' @ tracker @ '':'' @ title_id"

text \<open>Whether one of the keys was synchronised less than an hour ago; the keys are asked in order.\<close>

fun recently_synced :: "string list \<Rightarrow> world \<Rightarrow> bool \<times> world" where
  "recently_synced [] w = (False, w)"
| "recently_synced (k # ks) w =
     (case sync_age k w of
        (age, w) \<Rightarrow> if 0 \<le> age \<and> age < 3600 then (True, w) else recently_synced ks w)"

definition refreshed_answer :: "string \<Rightarrow> world \<Rightarrow> job" where
  "refreshed_answer key w = zero_job\<lparr>job_id := key, job_kind := ''catalog-title-refresh'',
     job_state := ''completed'', job_label := ''Title was refreshed less than one hour ago'',
     job_dedupe_key := key, job_progress := 1, job_updated_at := now_of w\<rparr>"

definition refresh_blocked :: "bool \<Rightarrow> go_time \<Rightarrow> svc_error + job \<Rightarrow> job option" where
  "refresh_blocked force now r =
     (case r of
        Inl _ \<Rightarrow> None
      | Inr e \<Rightarrow> if job_active e \<or> (\<not> force \<and> job_state e = ''failed'' \<and> now - job_updated_at e < 5 * minute)
                then Some e else None)"

definition refresh_attempt :: "bool \<Rightarrow> svc_error + job \<Rightarrow> int" where
  "refresh_attempt force r =
     (let n = (case r of Inr e \<Rightarrow> job_attempt e | Inl _ \<Rightarrow> 0); n = (if force then n + 1 else n) in
      if n < 1 then 1 else n)"

definition enqueue_refresh ::
    "job \<Rightarrow> refresh_request \<Rightarrow> server \<Rightarrow> (job_error + job) \<times> server" where
  "enqueue_refresh job rq sv =
     (case save_job job (sv_world sv) of
        (Some e, w) \<Rightarrow> (Inl (Job_Svc e), with_world sv w)
      | (None, w) \<Rightarrow>
          (case offer rq (w_refresh_queue w) of
             Some queue \<Rightarrow>
               (let w = w\<lparr>w_refresh_queue := queue\<rparr>;
                    w = publish ''job.updated'' (job_id job) (job_log_entry job ''info'' ''queue'' w) in
                (Inr job, with_world sv w))
           | None \<Rightarrow>
               (let job = job\<lparr>job_state := ''failed'', job_error := ''title refresh queue is full'',
                      job_updated_at := now_of w\<rparr> in
                (Inl (Refused (job_error job)), with_world sv (snd (save_job job w))))))"

definition queue_title_refresh ::
    "string \<Rightarrow> string \<Rightarrow> bool \<Rightarrow> server \<Rightarrow> (job_error + job) \<times> server" where
  "queue_title_refresh title_id query force sv =
     (let query = trim_space query in
      if title_id = [] \<or> rune_count query < 3 then (Inl (Refused ''title and refresh query are required''), sv)
      else
        (let key = refresh_key title_id; w = sv_world sv;
             keys = map (\<lambda>t. tracker_refresh_key t title_id) (eligible_trackers w) @ [key];
             (recent, w) = (if force then (False, w) else recently_synced keys w) in
         if recent then (Inr (refreshed_answer key w), with_world sv w)
         else
           (let (found, w) = get_job key w in
            case refresh_blocked force (now_of w) found of
              Some existing \<Rightarrow> (Inr existing, with_world sv w)
            | None \<Rightarrow>
                (let (found, w) = get_job key w;
                     job = zero_job\<lparr>job_id := key, job_kind := ''catalog-title-refresh'',
                       job_state := ''queued'', job_label := ''Refresh all versions of '' @ query,
                       job_dedupe_key := key, job_attempt := refresh_attempt force found,
                       job_updated_at := now_of w\<rparr> in
                 enqueue_refresh job \<lparr>rq_title = title_id, rq_query = query, rq_force = force\<rparr>
                   (with_world sv w)))))"

subsection \<open>Metadata\<close>

definition metadata_key :: "string \<Rightarrow> string" where
  "metadata_key title_id = ''metadata:'' @ title_id"

definition metadata_settled :: "go_time \<Rightarrow> svc_error + catalog_metadata \<Rightarrow> bool" where
  "metadata_settled now r =
     (case r of
        Inl _ \<Rightarrow> False
      | Inr m \<Rightarrow> now < cm_expires_at m \<and>
          ((cm_provider_id m \<noteq> [] \<and> cm_title m \<noteq> [] \<and> 0 < cm_year m) \<or> cm_last_error m \<noteq> []))"

definition enqueue_metadata :: "bool \<Rightarrow> catalog_title \<Rightarrow> server \<Rightarrow> bool \<times> server" where
  "enqueue_metadata force title sv =
     (let i = ct_id title; key = metadata_key i;
          sv = sv\<lparr>sv_pending := sv_pending sv @ [i]\<rparr>;
          forget = (\<lambda>sv. sv\<lparr>sv_pending := filter (\<lambda>p. p \<noteq> i) (sv_pending sv)\<rparr>);
          (found, w) = get_job key (sv_world sv);
          job = zero_job\<lparr>job_id := key, job_kind := ''metadata'', job_state := ''queued'',
            job_label := ''Fetch metadata for '' @ ct_title title, job_dedupe_key := key,
            job_attempt := refresh_attempt force found, job_updated_at := now_of w\<rparr> in
      case save_job job w of
        (Some _, w) \<Rightarrow> (False, forget (with_world sv w))
      | (None, w) \<Rightarrow>
          (let w = job_log_entry job ''info'' ''queue'' w in
           case (if sv_provider sv then
                   offer \<lparr>mq_title_id = i, mq_imdb = ct_imdb title, mq_title = ct_title title,
                           mq_kind = ct_kind title\<rparr> (sv_meta_queue sv) else None) of
             Some queue \<Rightarrow> (True, (with_world sv w)\<lparr>sv_meta_queue := queue\<rparr>)
           | None \<Rightarrow>
               (let job = job\<lparr>job_state := ''failed'', job_error := ''metadata queue is full'',
                      job_updated_at := now_of w\<rparr>;
                    w = job_log_entry job ''error'' ''queue'' (snd (save_job job w)) in
                (False, forget (with_world sv w)))))"

fun ensure_each :: "bool \<Rightarrow> catalog_title list \<Rightarrow> string list \<Rightarrow> nat \<Rightarrow> server \<Rightarrow> nat \<times> server" where
  "ensure_each force titles [] queued sv = (queued, sv)"
| "ensure_each force titles (i # ids) queued sv =
     (case List.find (\<lambda>t. ct_id t = i) titles of
        None \<Rightarrow> ensure_each force titles ids queued sv
      | Some title \<Rightarrow>
          if ct_imdb title = [] then ensure_each force titles ids queued sv
          else
            (let (settled, w) =
                (if force then (False, sv_world sv)
                 else (case get_catalog_metadata i (sv_world sv) of
                         (r, w) \<Rightarrow> (metadata_settled (now_of w) r, w)));
                 sv = with_world sv w in
             if settled \<or> i \<in> set (sv_pending sv) then ensure_each force titles ids queued sv
             else (case enqueue_metadata force title sv of
                     (added, sv) \<Rightarrow> ensure_each force titles ids (if added then queued + 1 else queued) sv)))"

definition ensure_metadata :: "string list \<Rightarrow> bool \<Rightarrow> server \<Rightarrow> nat \<times> server" where
  "ensure_metadata ids force sv =
     (let ids = take 24 ids in
      case sources_by_title_ids ids (eligible_trackers (sv_world sv)) (sv_world sv) of
        (Inl _, w) \<Rightarrow> (0, with_world sv w)
      | (Inr sources, w) \<Rightarrow> ensure_each force (group_catalog sources False) ids 0 (with_world sv w))"

end
