(* ===== verification/Job_Recovery.thy ===== *)
theory Job_Recovery
  imports Job_Queue
begin

text \<open>
  Jobs that are tried again (\<open>service.go\<close>): \<open>RetryJob\<close> sends a finished job back to the operation
  that started it, \<open>retryDueJobs\<close> does so for the jobs whose time has come, \<open>recoverInterruptedJobs\<close>
  settles what a restart interrupted, and \<open>StartScheduler\<close> calls them at the start.  A retention
  run may not end as far as its type says, so a retry is an option; \<open>run_retention_safe\<close> shows that it
  does end.
\<close>

subsection \<open>Retrying\<close>

definition search_label :: "string \<Rightarrow> string" where
  "search_label label =
     (let query = trim_prefix label ''Search for '' in
      if query = label then trim_prefix label ''Search FileList for '' else query)"

definition retry_title_refresh :: "string \<Rightarrow> server \<Rightarrow> (job_error + job) \<times> server" where
  "retry_title_refresh key sv =
     (let title_id = trim_prefix key ''catalog-title-refresh:'' in
      case sources_by_title_ids [title_id] (eligible_trackers (sv_world sv)) (sv_world sv) of
        (Inl _, w) \<Rightarrow> (Inl (Refused ''catalog title is unavailable''), with_world sv w)
      | (Inr sources, w) \<Rightarrow>
          if sources = [] then (Inl (Refused ''catalog title is unavailable''), with_world sv w)
          else queue_title_refresh title_id (ct_title (hd (group_catalog sources False))) True (with_world sv w))"

definition retry_metadata :: "string \<Rightarrow> job \<Rightarrow> server \<Rightarrow> (job_error + job) \<times> server" where
  "retry_metadata i job sv =
     (case ensure_metadata [trim_prefix (job_dedupe_key job) ''metadata:''] True sv of
        (n, sv) \<Rightarrow>
          if n = 0 then
            (Inl (Refused ''metadata title is unavailable, lacks an IMDb id, or is already queued''), sv)
          else (case get_job i (sv_world sv) of
                  (Inl e, w) \<Rightarrow> (Inl (Job_Svc e), with_world sv w)
                | (Inr j, w) \<Rightarrow> (Inr j, with_world sv w)))"

definition retry_retention :: "server \<Rightarrow> ((job_error + job) \<times> server) option" where
  "retry_retention sv =
     (case run_retention (sv_world sv) of
        None \<Rightarrow> None
      | Some (Inl e, w) \<Rightarrow> Some (Inl (Job_Svc e), with_world sv w)
      | Some (Inr j, w) \<Rightarrow> Some (Inr j, with_world sv w))"

definition retry_job ::
    "(string \<Rightarrow> string) \<Rightarrow> string \<Rightarrow> server \<Rightarrow> ((job_error + job) \<times> server) option" where
  "retry_job digest i sv =
     (case get_job i (sv_world sv) of
        (Inl e, w) \<Rightarrow> Some (Inl (Job_Svc e), with_world sv w)
      | (Inr job, w) \<Rightarrow>
          (let sv = with_world sv w in
           if job_active job \<or> job_state job = ''retry_wait'' then Some (Inl (Job_Svc Job_Active), sv)
           else if job_kind job = ''catalog-latest'' then Some (sync_catalog ''latest'' sv)
           else if job_kind job = ''catalog-rebuild'' then Some (sync_catalog ''rebuild'' sv)
           else if job_kind job = ''metadata'' then Some (retry_metadata i job sv)
           else if job_kind job = ''catalog-title-refresh'' then Some (retry_title_refresh (job_dedupe_key job) sv)
           else if job_kind job = ''tracker-search'' then
             Some (queue_tracker_search digest (search_label (job_label job)) True sv)
           else if job_kind job = retention_kind then retry_retention sv
           else Some (Inl (Job_Svc Job_Not_Retryable), sv)))"

definition retry_wanted :: "bool \<Rightarrow> go_time \<Rightarrow> job \<Rightarrow> bool" where
  "retry_wanted waiting_only now job =
     ((case job_next_attempt_at job of Some t \<Rightarrow> t \<le> now | None \<Rightarrow> False) \<and>
      (if waiting_only then job_state job = ''retry_wait''
       else job_state job = ''failed'' \<and> job_retryable job))"

definition retry_one :: "(string \<Rightarrow> string) \<Rightarrow> job \<Rightarrow> server \<Rightarrow> server option" where
  "retry_one digest job sv =
     (let job = job\<lparr>job_state := ''failed'', job_next_attempt_at := None\<rparr>;
          w = job_log_entry job ''info'' ''automatic-retry'' (snd (save_job job (sv_world sv))) in
      case retry_job digest (job_id job) (with_world sv w) of
        None \<Rightarrow> None
      | Some (Inr _, sv) \<Rightarrow> Some sv
      | Some (Inl _, sv) \<Rightarrow>
          Some (with_world sv (job_log_entry job ''error'' ''automatic-retry'' (sv_world sv))))"

fun retry_each :: "(string \<Rightarrow> string) \<Rightarrow> bool \<Rightarrow> go_time \<Rightarrow> job list \<Rightarrow> server \<Rightarrow> server option" where
  "retry_each digest waiting_only now [] sv = Some sv"
| "retry_each digest waiting_only now (j # js) sv =
     (if retry_wanted waiting_only now j then
        (case retry_one digest j sv of
           None \<Rightarrow> None | Some sv \<Rightarrow> retry_each digest waiting_only now js sv)
      else retry_each digest waiting_only now js sv)"

definition retry_due_jobs :: "(string \<Rightarrow> string) \<Rightarrow> bool \<Rightarrow> server \<Rightarrow> server option" where
  "retry_due_jobs digest waiting_only sv =
     (case list_due_jobs 500 (sv_world sv) of
        (Inl _, w) \<Rightarrow> Some (with_world sv w)
      | (Inr jobs, w) \<Rightarrow> retry_each digest waiting_only (now_of w) jobs (with_world sv w))"

subsection \<open>After a restart\<close>

definition adopt_tracker :: "job \<Rightarrow> job" where
  "adopt_tracker job =
     (if job_tracker_id job = [] \<and> job_kind job \<in> {''tracker-search'', ''catalog-latest'',
          ''catalog-rebuild'', ''catalog-title-refresh''}
      then job\<lparr>job_tracker_id := ''filelist''\<rparr> else job)"

definition refresh_query :: "job \<Rightarrow> string option" where
  "refresh_query job =
     (let query = trim_prefix (job_label job) ''Refresh all versions of '' in
      if query = job_label job \<or> rune_count (trim_space query) < 3 then None else Some query)"

definition recover_refresh :: "job \<Rightarrow> string \<Rightarrow> server \<Rightarrow> server" where
  "recover_refresh job query sv =
     (let title_id = trim_prefix (job_dedupe_key job) ''catalog-title-refresh:'';
          (listed, w) = sources_by_title_ids [title_id] (eligible_trackers (sv_world sv)) (sv_world sv);
          excluded = (case listed of
            Inl _ \<Rightarrow> False
          | Inr sources \<Rightarrow> sources \<noteq> [] \<and> \<not> list_ex (\<lambda>s. \<not> rel_discovery_excluded (cs_release s)) sources) in
      if excluded then
        with_world sv (snd (save_job (job\<lparr>job_state := ''failed'',
          job_error := ''category is excluded from discovery'', job_updated_at := now_of w\<rparr>) w))
      else
        (let job = job\<lparr>job_state := ''queued'', job_progress := 0, job_error := [], job_updated_at := now_of w\<rparr>;
             w = snd (save_job job w) in
         case offer \<lparr>rq_title = title_id, rq_query = query, rq_force = False\<rparr> (w_refresh_queue w) of
           Some queue \<Rightarrow> with_world sv (w\<lparr>w_refresh_queue := queue\<rparr>)
         | None \<Rightarrow> with_world sv w))"

definition interrupted_error :: string where
  "interrupted_error = ''interrupted by server restart; safe to retry''"

definition recover_job :: "job \<Rightarrow> server \<Rightarrow> server" where
  "recover_job job sv =
     (let job = adopt_tracker job in
      if \<not> job_active job then sv
      else if job_kind job = ''catalog-title-refresh'' then
        (case refresh_query job of None \<Rightarrow> sv | Some query \<Rightarrow> recover_refresh job query sv)
      else
        (let w = sv_world sv; now = now_of w in
         with_world sv (snd (save_job (job\<lparr>job_state := ''failed'', job_error := interrupted_error,
           job_retryable := True, job_next_attempt_at := Some (now + hour), job_updated_at := now\<rparr>) w))))"

definition recover_interrupted_jobs :: "server \<Rightarrow> server" where
  "recover_interrupted_jobs sv =
     (case list_jobs 500 (sv_world sv) of
        (Inl _, w) \<Rightarrow> with_world sv w
      | (Inr jobs, w) \<Rightarrow> fold recover_job jobs (with_world sv w))"

definition start_scheduler :: "(string \<Rightarrow> string) \<Rightarrow> server \<Rightarrow> server option" where
  "start_scheduler digest sv =
     (case retry_due_jobs digest True (recover_interrupted_jobs sv) of
        None \<Rightarrow> None
      | Some sv \<Rightarrow>
          (case retry_due_jobs digest False sv of
             None \<Rightarrow> None
           | Some sv \<Rightarrow>
               (case retry_retention (snd (sync_catalog ''latest'' sv)) of
                  None \<Rightarrow> None | Some (_, sv) \<Rightarrow> Some sv)))"

datatype ticker = Latest_Tick | Rebuild_Tick | Due_Tick

definition scheduler_tick :: "(string \<Rightarrow> string) \<Rightarrow> ticker \<Rightarrow> server \<Rightarrow> server option" where
  "scheduler_tick digest t sv =
     (case t of
        Latest_Tick \<Rightarrow>
          (case retry_due_jobs digest False sv of
             None \<Rightarrow> None
           | Some sv \<Rightarrow>
               (case retry_retention (snd (sync_catalog ''latest'' sv)) of
                  None \<Rightarrow> None | Some (_, sv) \<Rightarrow> Some sv))
      | Rebuild_Tick \<Rightarrow> Some (snd (sync_catalog ''rebuild'' sv))
      | Due_Tick \<Rightarrow> retry_due_jobs digest True sv)"

subsection \<open>Rows and saves\<close>

definition jobs_ok :: "job list \<Rightarrow> bool" where
  "jobs_ok rows = (distinct (map job_id rows) \<and> distinct (map job_dedupe_key rows))"

lemma merge_job_keys [simp]:
  "job_id (merge_job x old now) = job_id old" "job_dedupe_key (merge_job x old now) = job_dedupe_key x"
  by (simp_all add: merge_job_def)

lemma upsert_replaces:
  "distinct (map key rows) \<Longrightarrow> old \<in> set rows \<Longrightarrow> key x = key old \<Longrightarrow>
     upsert key x rows = map (\<lambda>r. if key r = key old then x else r) rows"
proof (induction rows)
  case (Cons r rows)
  show ?case
  proof (cases "key r = key old")
    case True
    then have "map (\<lambda>r. if key r = key old then x else r) rows = rows"
      using Cons.prems by (intro map_idI) (auto simp: image_iff)
    then show ?thesis using True Cons.prems by simp
  next
    case False
    then show ?thesis using Cons by auto
  qed
qed simp

lemma row_of_distinct: "distinct (map key rows) \<Longrightarrow> r \<in> set rows \<Longrightarrow> row_of key (key r) rows = Some r"
  by (induction rows) (auto simp: row_of_def image_iff)

text \<open>Saving a job of the table replaces its row.\<close>

lemma store_job_replaces:
  assumes "jobs_ok rows" and "old \<in> set rows" and "job_dedupe_key x = job_dedupe_key old"
  shows "store_job x now rows = map (\<lambda>r. if job_id r = job_id old then merge_job x old now else r) rows"
proof -
  have same: "job_dedupe_key r = job_dedupe_key old \<longleftrightarrow> job_id r = job_id old" if "r \<in> set rows" for r
    using assms(1,2) that by (auto simp: jobs_ok_def distinct_map dest: inj_onD)
  have "row_of job_dedupe_key (job_dedupe_key x) rows = Some old"
    using assms row_of_distinct [of job_dedupe_key rows old] by (simp add: jobs_ok_def)
  then have "store_job x now rows = upsert job_dedupe_key (merge_job x old now) rows"
    by (simp add: store_job_def)
  also have "\<dots> = map (\<lambda>r. if job_dedupe_key r = job_dedupe_key old then merge_job x old now else r) rows"
    using assms by (intro upsert_replaces) (simp_all add: jobs_ok_def)
  finally show ?thesis using same by (auto intro: map_cong)
qed

end
