(* ===== verification/Job_Facts.thy ===== *)
theory Job_Facts
  imports Job_Recovery
begin

text \<open>
  What the queues and the recovery guarantee: what becomes of every row after a restart
  (\<open>recovery_settles_rows\<close>), which rows are never taken up again (\<open>child_refresh_abandoned\<close>), and that an
  accepted search is on the queue of its worker (\<open>search_accepted_queued\<close>).
\<close>

subsection \<open>Recovery\<close>

text \<open>A refresh row can be queued again when its label names a query of at least three characters.\<close>

definition names_query :: "job \<Rightarrow> bool" where
  "names_query j = (\<exists>query. job_label j = ''Refresh all versions of '' @ query \<and> 3 \<le> rune_count (trim_space query))"

text \<open>A row that is touched at a time, with the tracker that old rows left out.\<close>

definition adopted :: "job \<Rightarrow> go_time \<Rightarrow> job" where
  "adopted j t = j\<lparr>job_updated_at := unix_seconds t,
     job_tracker_id := (if job_tracker_id j = [] \<and> job_kind j \<in> {''tracker-search'', ''catalog-latest'',
       ''catalog-rebuild'', ''catalog-title-refresh''} then ''filelist'' else job_tracker_id j)\<rparr>"

text \<open>
  What a row may become, every column of it: a finished row and a refresh row that names no query stay as they are; any
  other refresh row is queued from the start; any other interrupted row is failed, retryable and due in an hour.
\<close>

definition row_settled :: "job \<Rightarrow> job \<Rightarrow> bool" where
  "row_settled j j' =
     (if \<not> job_active j \<or> job_kind j = ''catalog-title-refresh'' \<and> \<not> names_query j then j' = j
      else \<exists>t. j' =
        (if job_kind j = ''catalog-title-refresh''
         then (adopted j t)\<lparr>job_state := ''queued'', job_progress := 0, job_error := [],
           job_next_attempt_at := map_option unix_seconds (job_next_attempt_at j)\<rparr>
         else (adopted j t)\<lparr>job_state := ''failed'', job_error := ''interrupted by server restart; safe to retry'',
           job_retryable := True, job_next_attempt_at := Some (unix_seconds (t + hour))\<rparr>))"

lemma row_settled_keys:
  "row_settled j j' \<Longrightarrow> job_id j' = job_id j \<and> job_dedupe_key j' = job_dedupe_key j \<and> job_kind j' = job_kind j"
  by (auto simp: row_settled_def adopted_def split: if_splits)

lemma merge_queued:
  "merge_job ((adopt_tracker j)\<lparr>job_state := st, job_progress := p, job_error := e, job_updated_at := t\<rparr>) j t =
   (adopted j t)\<lparr>job_state := st, job_progress := p, job_error := e,
      job_next_attempt_at := map_option unix_seconds (job_next_attempt_at j)\<rparr>"
  by (cases j) (simp add: merge_job_def adopt_tracker_def adopted_def)

lemma merge_failed:
  "merge_job ((adopt_tracker j)\<lparr>job_state := st, job_error := e, job_retryable := b, job_next_attempt_at := Some n,
      job_updated_at := t\<rparr>) j t =
   (adopted j t)\<lparr>job_state := st, job_error := e, job_retryable := b, job_next_attempt_at := Some (unix_seconds n)\<rparr>"
  by (cases j) (simp add: merge_job_def adopt_tracker_def adopted_def)

lemma refresh_query_names: "refresh_query j = None \<longleftrightarrow> \<not> names_query j"
proof (cases "has_prefix (job_label j) ''Refresh all versions of ''")
  case True
  then obtain q where q: "job_label j = ''Refresh all versions of '' @ q" by (rule has_prefixE)
  then have "names_query j \<longleftrightarrow> 3 \<le> rune_count (trim_space q)" unfolding names_query_def by (metis append_same_eq same_append_eq)
  moreover have "trim_prefix (job_label j) ''Refresh all versions of '' = q" unfolding q by (rule trim_prefix_append)
  ultimately show ?thesis by (simp add: refresh_query_def Let_def q)
next
  case False
  then have "\<not> names_query j" unfolding names_query_def by (metis has_prefix_append)
  with False show ?thesis by (simp add: refresh_query_def Let_def trim_prefix_def)
qed

definition working :: "server \<Rightarrow> bool" where
  "working sv = (w_fault (sv_world sv) = (\<lambda>_. None))"

lemma attempt_working: "w_fault w = (\<lambda>_. None) \<Longrightarrow> attempt w = (None, w\<lparr>w_tick := w_tick w + 1\<rparr>)"
  by (simp add: attempt_def)

lemma join_sources_included:
  "s \<in> set (join_sources wanted eligible w) \<Longrightarrow> \<not> rel_discovery_excluded (cs_release s)"
  by (auto simp: join_sources_def stored_source_def split: option.splits if_splits)

lemma listed_sources_included:
  "sources_by_title_ids ids eligible w = (Inr ss, v) \<Longrightarrow> s \<in> set ss \<Longrightarrow> \<not> rel_discovery_excluded (cs_release s)"
  by (auto simp: sources_by_title_ids_def join_sources_included split: if_splits prod.splits option.splits)

lemma adopt_tracker_keeps [simp]:
  "job_id (adopt_tracker j) = job_id j" "job_dedupe_key (adopt_tracker j) = job_dedupe_key j"
  "job_kind (adopt_tracker j) = job_kind j" "job_state (adopt_tracker j) = job_state j"
  "job_label (adopt_tracker j) = job_label j" "job_active (adopt_tracker j) = job_active j"
  "refresh_query (adopt_tracker j) = refresh_query j"
  by (simp_all add: adopt_tracker_def job_active_def refresh_query_def)

definition replace_job :: "job \<Rightarrow> job list \<Rightarrow> job list" where
  "replace_job j rows = map (\<lambda>r. if job_id r = job_id j then j else r) rows"

lemma save_job_working:
  assumes "w_fault w = (\<lambda>_. None)" and "jobs_ok (w_jobs w)" and "old \<in> set (w_jobs w)"
    and "job_dedupe_key x = job_dedupe_key old"
  shows "w_fault (snd (save_job x w)) = (\<lambda>_. None) \<and> w_refresh_queue (snd (save_job x w)) = w_refresh_queue w \<and>
    w_jobs (snd (save_job x w)) = replace_job (merge_job x old (now_of w)) (w_jobs w)"
  using assms store_job_replaces [OF assms(2,3,4)]
  by (simp add: save_job_def attempt_working replace_job_def)

lemma replace_same: "jobs_ok rows \<Longrightarrow> j \<in> set rows \<Longrightarrow> replace_job j rows = rows"
  unfolding replace_job_def by (rule map_idI) (auto simp: jobs_ok_def distinct_map dest: inj_onD)

lemma recover_refresh_settles:
  assumes "working sv" and "jobs_ok (w_jobs (sv_world sv))" and "j \<in> set (w_jobs (sv_world sv))"
    and "x = adopt_tracker j" and "job_active j" and "job_kind j = ''catalog-title-refresh''"
    and "refresh_query j = Some query"
  shows "working (recover_refresh x query sv) \<and>
    (\<exists>j'. row_settled j j' \<and> w_jobs (sv_world (recover_refresh x query sv)) = replace_job j' (w_jobs (sv_world sv)))"
proof -
  let ?w = "sv_world sv" and ?tid = "trim_prefix (job_dedupe_key x) ''catalog-title-refresh:''"
  define w1 where "w1 = ?w\<lparr>w_tick := w_tick ?w + 1\<rparr>"
  have fault: "w_fault ?w = (\<lambda>_. None)" using assms(1) by (simp add: working_def)
  obtain ss where listed: "sources_by_title_ids [?tid] (eligible_trackers ?w) ?w = (Inr ss, w1)"
    using fault by (simp add: sources_by_title_ids_def attempt_working w1_def)
  have not_excluded: "\<not> (ss \<noteq> [] \<and> \<not> list_ex (\<lambda>s. \<not> rel_discovery_excluded (cs_release s)) ss)"
    using listed_sources_included [OF listed] by (cases ss) auto
  define y where "y = x\<lparr>job_state := ''queued'', job_progress := 0, job_error := [], job_updated_at := now_of w1\<rparr>"
  have w1: "w_fault w1 = (\<lambda>_. None)" "w_jobs w1 = w_jobs ?w" using fault by (simp_all add: w1_def)
  have saved: "w_fault (snd (save_job y w1)) = (\<lambda>_. None)"
    "w_jobs (snd (save_job y w1)) = replace_job (merge_job y j (now_of w1)) (w_jobs ?w)"
    using save_job_working [of w1 j y] w1 assms(2-4) by (simp_all add: y_def)
  have result: "recover_refresh x query sv =
      (case offer \<lparr>rq_title = ?tid, rq_query = query, rq_force = False\<rparr> (w_refresh_queue (snd (save_job y w1))) of
         Some queue \<Rightarrow> with_world sv ((snd (save_job y w1))\<lparr>w_refresh_queue := queue\<rparr>)
       | None \<Rightarrow> with_world sv (snd (save_job y w1)))"
    unfolding recover_refresh_def Let_def listed prod.case sum.case y_def [symmetric]
    by (simp only: not_excluded if_False)
  have "row_settled j (merge_job y j (now_of w1))"
    using assms(4-7) refresh_query_names[of j]
    by (simp add: y_def row_settled_def merge_queued exI[of _ "now_of w1"])
  then show ?thesis unfolding result using saved
    by (auto simp: working_def with_world_def split: option.splits)
qed

lemma recover_job_settles:
  assumes "working sv" and "jobs_ok (w_jobs (sv_world sv))" and "j \<in> set (w_jobs (sv_world sv))"
  shows "working (recover_job j sv) \<and>
    (\<exists>j'. row_settled j j' \<and> w_jobs (sv_world (recover_job j sv)) = replace_job j' (w_jobs (sv_world sv)))"
proof -
  have stay: "working (recover_job j sv) \<and> (\<exists>j'. row_settled j j' \<and>
      w_jobs (sv_world (recover_job j sv)) = replace_job j' (w_jobs (sv_world sv)))"
    if "recover_job j sv = sv" "row_settled j j"
    using that assms by (metis replace_same)
  consider (idle) "\<not> job_active j" | (stuck) "job_active j" "job_kind j = ''catalog-title-refresh''" "refresh_query j = None"
    | (refresh) query where "job_active j" "job_kind j = ''catalog-title-refresh''" "refresh_query j = Some query"
    | (other) "job_active j" "job_kind j \<noteq> ''catalog-title-refresh''" by (cases "refresh_query j") auto
  then show ?thesis
  proof cases
    case idle
    then show ?thesis by (intro stay) (simp_all add: recover_job_def row_settled_def)
  next
    case stuck
    then show ?thesis
      using refresh_query_names[of j] by (intro stay) (simp_all add: recover_job_def row_settled_def)
  next
    case refresh
    then show ?thesis using recover_refresh_settles [OF assms refl refresh] by (simp add: recover_job_def)
  next
    case other
    let ?now = "now_of (sv_world sv)"
    let ?x = "(adopt_tracker j)\<lparr>job_state := ''failed'', job_error := interrupted_error, job_retryable := True,
      job_next_attempt_at := Some (?now + hour), job_updated_at := ?now\<rparr>"
    have step: "recover_job j sv = with_world sv (snd (save_job ?x (sv_world sv)))"
      using other by (simp add: recover_job_def Let_def)
    have kept: "row_settled j (merge_job ?x j ?now)"
      using other by (simp add: row_settled_def merge_failed interrupted_error_def exI[of _ ?now])
    have "w_fault (snd (save_job ?x (sv_world sv))) = (\<lambda>_. None) \<and>
        w_jobs (snd (save_job ?x (sv_world sv))) = replace_job (merge_job ?x j ?now) (w_jobs (sv_world sv))"
      using save_job_working [of "sv_world sv" j ?x] assms by (simp add: working_def)
    then show ?thesis
      using kept unfolding step by (intro conjI exI[of _ "merge_job ?x j ?now"]) (simp_all add: working_def with_world_def)
  qed
qed

lemma replace_job_ids:
  "row_settled j j' \<Longrightarrow> jobs_ok rows \<Longrightarrow> j \<in> set rows \<Longrightarrow> jobs_ok (replace_job j' rows)"
proof -
  assume a: "row_settled j j'" "jobs_ok rows" "j \<in> set rows"
  have "map job_id (replace_job j' rows) = map job_id rows"
    by (simp add: replace_job_def comp_def)
  moreover have "map job_dedupe_key (replace_job j' rows) = map job_dedupe_key rows"
    using a row_settled_keys[OF a(1)] by (auto simp: replace_job_def jobs_ok_def distinct_map dest: inj_onD)
  ultimately show ?thesis using a by (simp add: jobs_ok_def)
qed

lemma recover_fold:
  assumes "working sv" and "jobs_ok (w_jobs (sv_world sv))" and "set js \<subseteq> set (w_jobs (sv_world sv))"
    and "distinct (map job_id js)"
  shows "list_all2 (\<lambda>r r'. if job_id r \<in> job_id ` set js then row_settled r r' else r' = r)
    (w_jobs (sv_world sv)) (w_jobs (sv_world (fold recover_job js sv)))"
  using assms
proof (induction js arbitrary: sv)
  case Nil
  then show ?case by (simp add: list_all2_same)
next
  case (Cons j js)
  let ?rows = "w_jobs (sv_world sv)" and ?sv = "recover_job j sv"
  obtain j' where j': "working ?sv" "row_settled j j'" "w_jobs (sv_world ?sv) = replace_job j' ?rows"
    using recover_job_settles Cons.prems by force
  have ok: "jobs_ok (replace_job j' ?rows)" using replace_job_ids j' Cons.prems by simp
  have sub: "set js \<subseteq> set (replace_job j' ?rows)"
    using Cons.prems row_settled_keys[OF j'(2)] by (force simp: replace_job_def image_iff)
  have ih: "list_all2 (\<lambda>r r'. if job_id r \<in> job_id ` set js then row_settled r r' else r' = r)
      (replace_job j' ?rows) (w_jobs (sv_world (fold recover_job js ?sv)))"
    using Cons.IH [of ?sv] j' ok sub Cons.prems by simp
  have same: "r = j" if "r \<in> set ?rows" "job_id r = job_id j" for r
    using that Cons.prems by (auto simp: jobs_ok_def distinct_map dest: inj_onD)
  show ?case unfolding fold_simps
    by (rule list.rel_mono_strong [OF ih [unfolded replace_job_def list_all2_map1]])
      (use same j'(2) row_settled_keys[OF j'(2)] Cons.prems(4) in \<open>auto split: if_splits\<close>)
qed

lemma recovery_rows:
  assumes "working sv" and "jobs_ok (w_jobs (sv_world sv))" and "length (w_jobs (sv_world sv)) \<le> 500"
  shows "list_all2 row_settled (w_jobs (sv_world sv)) (w_jobs (sv_world (recover_interrupted_jobs sv)))"
proof -
  let ?rows = "w_jobs (sv_world sv)"
  define js where "js = sort_by job_before ?rows"
  define w where "w = (sv_world sv)\<lparr>w_tick := w_tick (sv_world sv) + 1\<rparr>"
  have js: "set js = set ?rows" "distinct (map job_id js)"
    using assms(2) by (simp_all add: js_def jobs_ok_def distinct_map)
      (metis mset_sort_by mset_eq_imp_distinct_iff)
  have "recover_interrupted_jobs sv = fold recover_job js (with_world sv w)"
    using assms by (simp add: recover_interrupted_jobs_def list_jobs_def attempt_working working_def w_def js_def)
  moreover have "list_all2 (\<lambda>r r'. if job_id r \<in> job_id ` set js then row_settled r r' else r' = r) ?rows
      (w_jobs (sv_world (fold recover_job js (with_world sv w))))"
    using recover_fold [of "with_world sv w" js] assms js by (simp add: w_def with_world_def working_def)
  ultimately show ?thesis
    by (auto simp: js elim!: list.rel_mono_strong)
qed

text \<open>
  Property C21: after a restart on a working database that holds at most 500 jobs, every row of the table is accounted for
  column by column: a finished one is as it was; an interrupted one that is no refresh of a title is failed, retryable and
  due in an hour; an interrupted refresh whose label names the query is queued from the start; and an interrupted refresh
  whose label names none is as it was, so nothing settles it.
\<close>

theorem recovery_settles_rows:
  assumes "working sv" and "jobs_ok (w_jobs (sv_world sv))" and "length (w_jobs (sv_world sv)) \<le> 500"
  shows "list_all2 row_settled (w_jobs (sv_world sv)) (w_jobs (sv_world (recover_interrupted_jobs sv)))"
  using assms by (rule recovery_rows)

text \<open>The rows the trackers of a refresh keep for themselves are labelled in another way.\<close>

lemma child_label_unrecovered:
  assumes "job_label j = ''Refresh '' @ tracker @ '' for '' @ query"
    and "\<not> has_prefix (tracker @ '' for '' @ query) ''all versions of ''"
  shows "refresh_query j = None"
proof -
  have "\<not> has_prefix (job_label j) ''Refresh all versions of ''"
    using assms by (simp add: has_prefix_def)
  then show ?thesis by (simp add: refresh_query_def trim_prefix_def)
qed

text \<open>
  The row that a tracker keeps for its part of a title refresh is not recovered: when a
  restart interrupts it, it is left running, and nothing in the recovery will ever settle it.
\<close>

theorem child_refresh_abandoned:
  assumes "working sv" and "jobs_ok (w_jobs (sv_world sv))" and "length (w_jobs (sv_world sv)) \<le> 500"
    and "j \<in> set (w_jobs (sv_world sv))" and "job_kind j = ''catalog-title-refresh''"
    and "job_label j = ''Refresh '' @ tracker @ '' for '' @ query" and "job_state j = ''running''"
    and "\<not> has_prefix (tracker @ '' for '' @ query) ''all versions of ''"
  shows "\<exists>j'. j' \<in> set (w_jobs (sv_world (recover_interrupted_jobs sv))) \<and> job_id j' = job_id j \<and>
    job_state j' = ''running''"
proof -
  have "\<not> names_query j" using child_label_unrecovered [OF assms(6,8)] refresh_query_names by blast
  moreover obtain j' where "j' \<in> set (w_jobs (sv_world (recover_interrupted_jobs sv)))" "row_settled j j'"
    using list_all2_partner [OF recovery_rows [OF assms(1-3)] assms(4)] by blast
  ultimately show ?thesis using assms(5,7) by (auto simp: row_settled_def)
qed

text \<open>Nor can it be retried: its key is taken for the id of a title.\<close>

lemma child_refresh_not_retryable:
  assumes "row_of job_id (job_id j) (w_jobs (sv_world sv)) = Some j"
    and "job_kind j = ''catalog-title-refresh''" and "job_dedupe_key j = tracker_refresh_key t tid"
    and "\<And>r. map_of (w_titles (sv_world sv)) r \<noteq> Some (t @ '':'' @ tid)"
  shows "\<exists>e v. retry_job digest (job_id j) sv = Some (Inl e, v)"
proof (cases "get_job (job_id j) (sv_world sv)")
  case (Pair r w)
  show ?thesis
  proof (cases "r = Inr j \<and> \<not> job_active j \<and> job_state j \<noteq> ''retry_wait''")
    case False
    then show ?thesis using Pair assms(1)
      by (auto simp: retry_job_def get_job_def attempt_def Let_def split: option.splits sum.splits)
  next
    case True
    have titles: "w_titles w = w_titles (sv_world sv)"
      using Pair by (auto simp: get_job_def attempt_def split: option.splits)
    have key: "trim_prefix (job_dedupe_key j) ''catalog-title-refresh:'' = t @ '':'' @ tid"
      by (simp add: assms(3) tracker_refresh_key_def trim_prefix_def has_prefix_def)
    have none: "join_sources (\<lambda>x. x \<in> set [t @ '':'' @ tid]) eligible v = []" if "w_titles v = w_titles (sv_world sv)" for eligible v
      using assms(4) that by (auto simp: join_sources_def concat_eq_Nil_conv split: option.splits)
    obtain r1 v1 where listed: "sources_by_title_ids [t @ '':'' @ tid] (eligible_trackers w) w = (r1, v1)" by fastforce
    have "r1 = Inr [] \<or> (\<exists>e. r1 = Inl e)"
      using listed none titles by (auto simp: sources_by_title_ids_def attempt_def split: option.splits)
    then have "\<exists>e v. retry_title_refresh (job_dedupe_key j) (with_world sv w) = (Inl e, v)"
      using listed by (auto simp: retry_title_refresh_def key with_world_def Let_def)
    then show ?thesis using Pair True assms(2) by (auto simp: retry_job_def job_active_def retention_kind_def)
  qed
qed

subsection \<open>Accepted work is queued\<close>

lemma store_job_row:
  "\<exists>r \<in> set (store_job x now rows). job_dedupe_key r = job_dedupe_key x \<and> job_state r = job_state x"
proof -
  have u: "x' \<in> set (upsert key x' rows)" for key :: "job \<Rightarrow> string" and x'
    by (induction rows) auto
  have m: "job_dedupe_key (merge_job x old now) = job_dedupe_key x \<and> job_state (merge_job x old now) = job_state x" for old
    by (simp add: merge_job_def)
  have n: "job_dedupe_key (new_job_row x now) = job_dedupe_key x \<and> job_state (new_job_row x now) = job_state x"
    by (simp add: new_job_row_def merge_job_def)
  show ?thesis
  proof (cases "row_of job_dedupe_key (job_dedupe_key x) rows")
    case (Some old)
    then have "store_job x now rows = upsert job_dedupe_key (merge_job x old now) rows" by (simp add: store_job_def)
    then show ?thesis using u [of "merge_job x old now" job_dedupe_key] m [of old] by metis
  next
    case none: None
    show ?thesis
    proof (cases "row_of job_id (job_id x) rows")
      case (Some old)
      then have "store_job x now rows = upsert job_id (merge_job x old now) rows" using none by (simp add: store_job_def)
      then show ?thesis using u [of "merge_job x old now" job_id] m [of old] by metis
    next
      case None
      then show ?thesis using none n unfolding store_job_def by auto
    qed
  qed
qed

lemma get_job_same: "get_job k w = (r, v) \<Longrightarrow> w_jobs v = w_jobs w \<and> w_search_queue v = w_search_queue w \<and>
    w_refresh_queue v = w_refresh_queue w \<and> (\<forall>j. r = Inr j \<longrightarrow> j \<in> set (w_jobs w))"
  by (auto simp: get_job_def attempt_def row_of_def split: option.splits dest: find_some_in)

text \<open>
  A search that is accepted is either under way already, and then its row is the answer, or
  is the last entry of the queue of at most 256 searches, and its row is stored as queued.
\<close>

theorem search_accepted_queued:
  assumes "queue_tracker_search digest q force sv = (Inr job, sv')"
  shows "(job \<in> set (w_jobs (sv_world sv)) \<and> job_state job \<in> {''queued'', ''running'', ''retry_wait''} \<and>
      w_jobs (sv_world sv') = w_jobs (sv_world sv) \<and> w_search_queue (sv_world sv') = w_search_queue (sv_world sv)) \<or>
    (w_search_queue (sv_world sv') = w_search_queue (sv_world sv) @ [trim_space q] \<and>
      length (w_search_queue (sv_world sv')) \<le> queue_capacity \<and>
      list_ex (\<lambda>r. job_dedupe_key r = search_job_key digest (trim_space q) \<and> job_state r = ''queued'')
        (w_jobs (sv_world sv')))"
proof -
  let ?key = "search_job_key digest (trim_space q)"
  obtain found w where first: "get_job ?key (sv_world sv) = (found, w)" by fastforce
  note same = get_job_same [OF first]
  have long: "\<not> rune_count (trim_space q) < 3"
    using assms by (auto simp: queue_tracker_search_def Let_def)
  show ?thesis
  proof (cases "existing_in [''queued'', ''running'', ''retry_wait''] found")
    case (Some existing)
    then have "job = existing" "sv' = with_world sv w"
      using assms long first by (simp_all add: queue_tracker_search_def Let_def)
    moreover have "found = Inr existing \<and> job_state existing \<in> {''queued'', ''running'', ''retry_wait''}"
      using Some by (auto simp: existing_in_def split: sum.splits if_splits)
    ultimately show ?thesis using same by (auto simp: with_world_def)
  next
    case None
    obtain found2 w2 where second: "get_job ?key w = (found2, w2)" by fastforce
    note same2 = get_job_same [OF second]
    define j where "j = zero_job\<lparr>job_id := ?key, job_kind := ''tracker-search'', job_state := ''queued'',
      job_label := ''Search for '' @ trim_space q, job_dedupe_key := ?key,
      job_attempt := search_attempt force found2, job_updated_at := now_of w2\<rparr>"
    have queued: "enqueue_search j (trim_space q) (with_world sv w2) = (Inr job, sv')"
      using assms long first second None by (simp add: queue_tracker_search_def Let_def j_def)
    have j: "job_dedupe_key j = ?key" "job_state j = ''queued''" by (simp_all add: j_def)
    have w2: "w_search_queue w2 = w_search_queue (sv_world sv)" using same same2 by simp
    have "w_search_queue (sv_world sv') = w_search_queue w2 @ [trim_space q] \<and>
        length (w_search_queue w2) < queue_capacity \<and> w_jobs (sv_world sv') = store_job j (now_of w2) (w_jobs w2)"
      using queued by (auto simp: enqueue_search_def save_job_def attempt_def offer_def with_world_def
          publish_def job_log_entry_def Let_def split: option.splits if_splits)
    then show ?thesis using w2 store_job_row [of j "now_of w2" "w_jobs w2"] j by (auto simp: list_ex_iff)
  qed
qed

subsection \<open>A concrete server\<close>

definition child_row :: job where
  "child_row = zero_job\<lparr>job_id := tracker_refresh_key ''f'' ''t'', job_tracker_id := ''f'',
     job_kind := ''catalog-title-refresh'', job_state := ''running'',
     job_dedupe_key := tracker_refresh_key ''f'' ''t'', job_label := ''Refresh '' @ ''F'' @ '' for '' @ ''X Y''\<rparr>"

definition search_row :: job where
  "search_row = zero_job\<lparr>job_id := ''tracker-search:k'', job_kind := ''tracker-search'',
     job_state := ''running'', job_dedupe_key := ''tracker-search:k'', job_label := ''Search for X Y''\<rparr>"

definition restarted_server :: "settings \<Rightarrow> server" where
  "restarted_server st = \<lparr>sv_world = (blank_world st)\<lparr>w_jobs := [child_row, search_row]\<rparr>,
     sv_spawned = [], sv_meta_queue = [], sv_pending = [], sv_provider = False\<rparr>"

lemma restarted_facts:
  "working (restarted_server st)" "w_jobs (sv_world (restarted_server st)) = [child_row, search_row]"
  "jobs_ok (w_jobs (sv_world (restarted_server st)))"
  by (simp_all add: restarted_server_def working_def blank_world_def jobs_ok_def child_row_def search_row_def
      tracker_refresh_key_def)

theorem recovery_settles_rows_witness:
  "\<exists>t. w_jobs (sv_world (recover_interrupted_jobs (restarted_server (defaults ''linux'')))) =
     [child_row, search_row\<lparr>job_tracker_id := ''filelist'', job_state := ''failed'',
        job_error := ''interrupted by server restart; safe to retry'', job_retryable := True,
        job_next_attempt_at := Some (unix_seconds (t + hour)), job_updated_at := unix_seconds t\<rparr>]"
proof -
  have "\<not> names_query child_row" by (simp add: names_query_def child_row_def)
  then show ?thesis
    using recovery_settles_rows [OF restarted_facts(1,3), of "defaults ''linux''"]
    unfolding restarted_facts(2) list_all2_Cons1
    by (auto simp: row_settled_def adopted_def job_active_def child_row_def search_row_def zero_job_def)
qed

theorem child_refresh_abandoned_witness:
  "\<exists>j'. j' \<in> set (w_jobs (sv_world (recover_interrupted_jobs (restarted_server (defaults ''linux''))))) \<and>
     job_id j' = tracker_refresh_key ''f'' ''t'' \<and> job_state j' = ''running''"
  using child_refresh_abandoned [OF restarted_facts(1,3), of "defaults ''linux''" child_row "''F''" "''X Y''"]
  by (simp add: restarted_facts(2) child_row_def has_prefix_def)

lemma sample_search:
  "fst (queue_tracker_search (\<lambda>_. ''d'') '' X Y '' False (restarted_server st)) =
     Inr (zero_job\<lparr>job_id := ''tracker-search:d'', job_kind := ''tracker-search'', job_state := ''queued'',
       job_label := ''Search for X Y'', job_dedupe_key := ''tracker-search:d'', job_attempt := 1,
       job_updated_at := 2 * second\<rparr>)"
proof -
  have "trim_space '' X Y '' = ''X Y''" "rune_count ''X Y'' = 3" by code_simp+
  then show ?thesis
    by (simp add: queue_tracker_search_def search_job_key_def get_job_def attempt_def restarted_server_def
        blank_world_def row_of_def child_row_def search_row_def tracker_refresh_key_def existing_in_def
        search_attempt_def with_world_def enqueue_search_def save_job_def offer_def queue_capacity_def now_of_def Let_def)
qed

theorem search_accepted_queued_witness:
  "\<exists>job sv'. let sv = restarted_server (defaults ''linux'') in
     queue_tracker_search (\<lambda>_. ''d'') '' X Y '' False sv = (Inr job, sv') \<and>
     ((job \<in> set (w_jobs (sv_world sv)) \<and> job_state job \<in> {''queued'', ''running'', ''retry_wait''} \<and>
       w_jobs (sv_world sv') = w_jobs (sv_world sv) \<and> w_search_queue (sv_world sv') = w_search_queue (sv_world sv)) \<or>
      (w_search_queue (sv_world sv') = w_search_queue (sv_world sv) @ [trim_space '' X Y ''] \<and>
       length (w_search_queue (sv_world sv')) \<le> queue_capacity \<and>
       list_ex (\<lambda>r. job_dedupe_key r = search_job_key (\<lambda>_. ''d'') (trim_space '' X Y '') \<and> job_state r = ''queued'')
         (w_jobs (sv_world sv'))))"
proof -
  let ?sv = "restarted_server (defaults ''linux'')"
  obtain job sv' where run: "queue_tracker_search (\<lambda>_. ''d'') '' X Y '' False ?sv = (Inr job, sv')"
    using sample_search [of "defaults ''linux''"] by (metis prod.collapse)
  show ?thesis unfolding Let_def
    by (intro exI conjI, rule run, rule search_accepted_queued [OF run])
qed

end
