(* ===== verification/Job_Runs.thy ===== *)
theory Job_Runs
  imports Job_Recovery
begin

text \<open>
  What the workers do with a job (\<open>service.go\<close>): the synchronisation of the catalog, a search, the refresh
  of a title and the lookup of metadata.  The first three ask every eligible tracker; each tracker
  keeps a job row of its own and reports a count or a failure, and the run is failed only when there
  were failures and no success.

  \<open>job_env\<close> holds the calls that leave the service: the trackers, the metadata provider, the upsert of
  releases with its reconciliation, the warm-up of manifests and the wait for a free slot.  Each of them
  may leave the server in any state, which stands for what other goroutines do while it lasts.  The
  trackers of one run are asked one after the other, in registration order.
\<close>

record job_env =
  je_slot :: "string \<Rightarrow> server \<Rightarrow> failure option \<times> server"
  je_latest :: "string \<Rightarrow> server \<Rightarrow> (failure + torrent_release list) \<times> server"
  je_categories :: "string \<Rightarrow> (string \<times> bool) list"
  je_category :: "string \<Rightarrow> string \<Rightarrow> server \<Rightarrow> (failure + torrent_release list) \<times> server"
  je_search :: "string \<Rightarrow> string \<Rightarrow> server \<Rightarrow> (failure + torrent_release list) \<times> server"
  je_upsert :: "torrent_release list \<Rightarrow> server \<Rightarrow> (failure + torrent_release list) \<times> server"
  je_warm :: "job \<Rightarrow> string \<Rightarrow> server \<Rightarrow> server"
  je_expire :: "job \<Rightarrow> string \<Rightarrow> server \<Rightarrow> server"
  je_lookup :: "meta_request \<Rightarrow> server \<Rightarrow> (failure + catalog_metadata) \<times> server"
  je_sha :: "string \<Rightarrow> string"
  je_digest :: "string \<Rightarrow> string"

text \<open>The report of one tracker: its id, the releases it brought and its failure.\<close>

record tracker_report =
  rp_id :: string
  rp_items :: "torrent_release list"
  rp_failure :: "failure option"

definition no_report :: tracker_report where
  "no_report = \<lparr>rp_id = [], rp_items = [], rp_failure = None\<rparr>"

definition eligible_now :: "string \<Rightarrow> server \<Rightarrow> bool" where
  "eligible_now i sv = tracker_eligible (w_registry (sv_world sv)) (w_settings (sv_world sv)) i"

definition server_now :: "server \<Rightarrow> go_time" where
  "server_now sv = now_of (sv_world sv)"

definition save_publish :: "job \<Rightarrow> server \<Rightarrow> server" where
  "save_publish job sv = with_world sv (publish ''job.updated'' (job_id job) (snd (save_job job (sv_world sv))))"

definition log_job :: "job \<Rightarrow> string \<Rightarrow> string \<Rightarrow> server \<Rightarrow> server" where
  "log_job job level phase sv = with_world sv (job_log_entry job level phase (sv_world sv))"

definition announce :: "string \<Rightarrow> string \<Rightarrow> server \<Rightarrow> server" where
  "announce kind subject sv = with_world sv (publish kind subject (sv_world sv))"

definition note_sync :: "string \<Rightarrow> int \<Rightarrow> failure option \<Rightarrow> server \<Rightarrow> server" where
  "note_sync key n f sv = with_world sv (record_sync key n (map_option fl_text f) (sv_world sv))"

subsection \<open>The part of one tracker\<close>

definition child_job :: "string \<Rightarrow> string \<Rightarrow> string \<Rightarrow> string \<Rightarrow> go_time \<Rightarrow> job" where
  "child_job key tracker kind label now = zero_job\<lparr>job_id := key, job_tracker_id := tracker, job_kind := kind,
     job_state := ''running'', job_dedupe_key := key, job_label := label, job_attempt := 1,
     job_updated_at := now\<rparr>"

definition child_completed :: "job \<Rightarrow> server \<Rightarrow> job \<times> server" where
  "child_completed job sv =
     (let job = job\<lparr>job_state := ''completed'', job_progress := 1, job_updated_at := server_now sv\<rparr> in
      (job, save_publish job sv))"

definition child_failed :: "string \<Rightarrow> string \<Rightarrow> failure \<Rightarrow> job \<Rightarrow> server \<Rightarrow> server" where
  "child_failed phase key f job sv =
     (case fail_or_wait job f phase (sv_world sv) of
        (job, w) \<Rightarrow> note_sync key 0 (Some f) (save_publish job (with_world sv w)))"

definition fill_identity :: "string \<Rightarrow> string \<Rightarrow> torrent_release \<Rightarrow> torrent_release" where
  "fill_identity tracker name r =
     (let r = (if rel_tracker_id r = [] then r\<lparr>rel_tracker_id := tracker, rel_tracker_name := name\<rparr> else r) in
      if rel_provider_id r = [] then r\<lparr>rel_provider_id := rel_id r\<rparr> else r)"

definition upsert_tracker_releases ::
    "job_env \<Rightarrow> string \<Rightarrow> string \<Rightarrow> torrent_release list \<Rightarrow> server \<Rightarrow> (failure + torrent_release list) \<times> server" where
  "upsert_tracker_releases env tracker name items sv = je_upsert env (map (fill_identity tracker name) items) sv"

text \<open>The categories of a rebuild, in order, until one of them fails; excluded ones are passed over.\<close>

fun fetch_categories ::
    "job_env \<Rightarrow> string \<Rightarrow> nat \<Rightarrow> nat \<Rightarrow> (string \<times> bool) list \<Rightarrow> torrent_release list \<Rightarrow> job \<Rightarrow> server \<Rightarrow>
     (failure + torrent_release list) \<times> job \<times> server" where
  "fetch_categories env tracker count_all idx [] items job sv = (Inr items, job, sv)"
| "fetch_categories env tracker count_all idx ((c, excluded) # cs) items job sv =
     (if excluded then fetch_categories env tracker count_all (idx + 1) cs items job sv
      else (case je_category env tracker c sv of
              (Inl f, sv) \<Rightarrow> (Inl f, job, sv)
            | (Inr got, sv) \<Rightarrow>
                (let job = job\<lparr>job_progress := rat_of_nat (idx + 1) / rat_of_nat count_all,
                       job_updated_at := server_now sv\<rparr> in
                 fetch_categories env tracker count_all (idx + 1) cs (items @ got) job (save_publish job sv))))"

definition sync_child :: "job_env \<Rightarrow> string \<Rightarrow> string \<Rightarrow> string \<Rightarrow> server \<Rightarrow> tracker_report \<times> server" where
  "sync_child env mode tracker name sv =
     (case je_slot env tracker sv of
        (Some f, sv) \<Rightarrow> (\<lparr>rp_id = tracker, rp_items = [], rp_failure = Some f\<rparr>, sv)
      | (None, sv) \<Rightarrow>
          if \<not> eligible_now tracker sv then (no_report, sv)
          else
            (let key = tracker @ '':'' @ mode;
                 job = child_job key tracker (''catalog-'' @ mode) (name @ '' '' @ mode @ '' sync'') (server_now sv);
                 sv = save_publish job sv;
                 (fetched, job, sv) =
                   (if mode = ''latest'' then (case je_latest env tracker sv of (r, sv) \<Rightarrow> (r, job, sv))
                    else fetch_categories env tracker (length (je_categories env tracker)) 0
                           (je_categories env tracker) [] job sv) in
             if \<not> eligible_now tracker sv then (no_report, snd (child_completed job sv))
             else (case fetched of
                Inl f \<Rightarrow> (\<lparr>rp_id = tracker, rp_items = [], rp_failure = Some f\<rparr>,
                           child_failed ''catalog-sync'' key f job sv)
              | Inr items \<Rightarrow>
                  (case upsert_tracker_releases env tracker name items sv of
                     (Inl f, sv) \<Rightarrow> (\<lparr>rp_id = tracker, rp_items = [], rp_failure = Some f\<rparr>,
                                     child_failed ''catalog-sync'' key f job sv)
                   | (Inr stored, sv) \<Rightarrow>
                       (let (job, sv) = child_completed job sv;
                            sv = note_sync key (int (length stored)) None sv in
                        (\<lparr>rp_id = tracker, rp_items = stored, rp_failure = None\<rparr>,
                         announce ''catalog.updated'' tracker sv))))))"

text \<open>The titles a search brought are refreshed, each once.\<close>

fun queue_found_titles ::
    "(string \<Rightarrow> string) \<Rightarrow> torrent_release list \<Rightarrow> string list \<Rightarrow> server \<Rightarrow> string list \<times> server" where
  "queue_found_titles sha [] seen sv = (seen, sv)"
| "queue_found_titles sha (r # rs) seen sv =
     (let p = parse_release r; tid = catalog_title_id sha r p in
      if rel_discovery_excluded r \<or> tid = [] \<or> tid \<in> set seen \<or> rune_count (trim_space (pr_title p)) < 3
      then queue_found_titles sha rs seen sv
      else queue_found_titles sha rs (tid # seen) (snd (queue_title_refresh tid (pr_title p) False sv)))"

definition search_child :: "job_env \<Rightarrow> string \<Rightarrow> string \<Rightarrow> string \<Rightarrow> server \<Rightarrow> tracker_report \<times> server" where
  "search_child env q tracker name sv =
     (case je_slot env tracker sv of
        (Some f, sv) \<Rightarrow> (\<lparr>rp_id = tracker, rp_items = [], rp_failure = Some f\<rparr>, sv)
      | (None, sv) \<Rightarrow>
          if \<not> eligible_now tracker sv then (no_report, sv)
          else
            (let key = ''tracker-search:'' @ tracker @ '':'' @ je_digest env (to_lower q);
                 job = child_job key tracker ''tracker-search'' (''Search '' @ name @ '' for '' @ q) (server_now sv);
                 (fetched, sv) = je_search env tracker q (save_publish job sv) in
             if \<not> eligible_now tracker sv then (no_report, snd (child_completed job sv))
             else (case fetched of
                Inl f \<Rightarrow> (\<lparr>rp_id = tracker, rp_items = [], rp_failure = Some f\<rparr>,
                           child_failed ''tracker-search'' key f job sv)
              | Inr items \<Rightarrow>
                  (case upsert_tracker_releases env tracker name items sv of
                     (Inl f, sv) \<Rightarrow> (\<lparr>rp_id = tracker, rp_items = [], rp_failure = Some f\<rparr>,
                                     child_failed ''tracker-search'' key f job sv)
                   | (Inr stored, sv) \<Rightarrow>
                       (let (_, sv) = queue_found_titles (je_sha env) stored [] sv;
                            (job, sv) = child_completed job sv;
                            sv = note_sync key (int (length stored)) None sv in
                        (\<lparr>rp_id = tracker, rp_items = stored, rp_failure = None\<rparr>,
                         announce ''catalog.search.completed'' q sv))))))"

text \<open>
  A refresh reads its row again after the upsert, which may have merged titles: a row that is gone is
  not brought back, a row whose key moved is written under its new key.
\<close>

definition refresh_child :: "job_env \<Rightarrow> refresh_request \<Rightarrow> string \<Rightarrow> string \<Rightarrow> server \<Rightarrow> tracker_report \<times> server" where
  "refresh_child env rq tracker name sv =
     (case je_slot env tracker sv of
        (Some f, sv) \<Rightarrow> (\<lparr>rp_id = tracker, rp_items = [], rp_failure = Some f\<rparr>, sv)
      | (None, sv) \<Rightarrow>
          if \<not> eligible_now tracker sv then (no_report, sv)
          else
            (let key = tracker_refresh_key tracker (rq_title rq);
                 job = child_job key tracker ''catalog-title-refresh''
                   (''Refresh '' @ name @ '' for '' @ rq_query rq) (server_now sv);
                 (fetched, sv) = je_search env tracker (rq_query rq) (save_publish job sv) in
             if \<not> eligible_now tracker sv then (no_report, snd (child_completed job sv))
             else (case fetched of
                Inl f \<Rightarrow> (\<lparr>rp_id = tracker, rp_items = [], rp_failure = Some f\<rparr>,
                           child_failed ''title-refresh'' key f job sv)
              | Inr items \<Rightarrow>
                  (case upsert_tracker_releases env tracker name items sv of
                     (upserted, sv) \<Rightarrow>
                       (let failed = (case upserted of Inl f \<Rightarrow> Some f | Inr _ \<Rightarrow> None);
                            stored = (case upserted of Inl _ \<Rightarrow> [] | Inr rs \<Rightarrow> rs);
                            report = \<lparr>rp_id = tracker, rp_items = stored, rp_failure = failed\<rparr>;
                            (fresh, w) = get_job key (sv_world sv); sv = with_world sv w in
                        case fresh of
                          Inl _ \<Rightarrow> (report, sv)
                        | Inr row \<Rightarrow>
                            (let job = job\<lparr>job_id := job_id row, job_dedupe_key := job_dedupe_key row\<rparr>;
                                 key = job_dedupe_key row in
                             case failed of
                               Some f \<Rightarrow> (report, child_failed ''title-refresh'' key f job sv)
                             | None \<Rightarrow>
                                 (let (job, sv) = child_completed job sv;
                                      sv = note_sync key (int (length stored)) None sv in
                                  (report, announce ''catalog.updated'' tracker sv))))))))"

text \<open>All trackers of a run; one that is no longer registered leaves the empty report.\<close>

fun ask_trackers ::
    "(string \<Rightarrow> string \<Rightarrow> server \<Rightarrow> tracker_report \<times> server) \<Rightarrow> string list \<Rightarrow> server \<Rightarrow>
     tracker_report list \<times> server" where
  "ask_trackers child [] sv = ([], sv)"
| "ask_trackers child (i # ids) sv =
     (let (report, sv) = (case lookup_tracker (w_registry (sv_world sv)) i of
            None \<Rightarrow> (no_report, sv) | Some adapter \<Rightarrow> child i (tk_name adapter) sv);
          (reports, sv) = ask_trackers child ids sv in
      (report # reports, sv))"

subsection \<open>Adding up a run\<close>

definition named_failures :: "tracker_report list \<Rightarrow> string list" where
  "named_failures reports = concat (map (\<lambda>r. case rp_failure r of
     None \<Rightarrow> [] | Some f \<Rightarrow> [rp_id r @ '': '' @ fl_text f]) reports)"

definition successful :: "tracker_report list \<Rightarrow> nat" where
  "successful reports = length (filter (\<lambda>r. rp_failure r = None) reports)"

definition report_total :: "tracker_report list \<Rightarrow> nat" where
  "report_total reports = sum_list (map (\<lambda>r. length (rp_items r)) (filter (\<lambda>r. rp_failure r = None) reports))"

definition failures_text :: "tracker_report list \<Rightarrow> string" where
  "failures_text reports = join_with ''; '' (named_failures reports)"

definition run_failed :: "tracker_report list \<Rightarrow> bool" where
  "run_failed reports = (named_failures reports \<noteq> [] \<and> successful reports = 0)"

definition completed_job :: "job \<Rightarrow> string \<Rightarrow> job" where
  "completed_job job failures = job\<lparr>job_state := ''completed'', job_retryable := False,
     job_next_attempt_at := None, job_progress := 1, job_error := failures\<rparr>"

definition failed_job :: "job \<Rightarrow> string \<Rightarrow> job" where
  "failed_job job failures = job\<lparr>job_state := ''failed'', job_error := failures, job_progress := 0\<rparr>"

definition start_job :: "job \<Rightarrow> rat \<Rightarrow> server \<Rightarrow> job \<times> server" where
  "start_job job progress sv =
     (let job = job\<lparr>job_state := ''running'', job_progress := progress, job_error := [],
            job_next_attempt_at := None, job_updated_at := server_now sv\<rparr> in
      (job, save_publish job sv))"

definition catalog_counts :: "string list \<Rightarrow> world \<Rightarrow> (svc_error + nat \<times> nat) \<times> world" where
  "catalog_counts eligible w = (case attempt w of
     (Some e, w') \<Rightarrow> (Inl (Repo_Error e), w')
   | (None, w') \<Rightarrow>
       (let rows = filter (tracker_eligible_row eligible) (w_releases w') in
        (Inr (length rows, length (filter (\<lambda>r. 0 < rel_seeders r \<and> \<not> rel_discovery_excluded r) rows)), w')))"

definition counted_label :: "string \<Rightarrow> nat \<Rightarrow> nat \<Rightarrow> nat \<Rightarrow> string" where
  "counted_label label refreshed retained discoverable =
     label @ middle_dot @ show_nat refreshed @ '' refreshed'' @ middle_dot @ show_nat retained @
     '' retained ('' @ show_nat discoverable @ '' discoverable)''"

definition run_catalog_sync :: "job_env \<Rightarrow> job \<Rightarrow> string \<Rightarrow> server \<Rightarrow> job \<times> server" where
  "run_catalog_sync env job mode sv =
     (let job = job\<lparr>job_state := ''running'', job_progress := 1 / 50, job_updated_at := server_now sv\<rparr>;
          sv = log_job job ''info'' ''start'' (save_publish job sv);
          (reports, sv) = ask_trackers (sync_child env mode) (eligible_trackers (sv_world sv)) sv;
          total = report_total reports;
          job = job\<lparr>job_updated_at := server_now sv\<rparr>;
          (job, sv) =
            (if run_failed reports then (failed_job job (failures_text reports), sv)
             else
               (let job = completed_job job (failures_text reports) in
                case catalog_counts (eligible_trackers (sv_world sv)) (sv_world sv) of
                  (Inl _, w) \<Rightarrow> (job, with_world sv w)
                | (Inr (retained, discoverable), w) \<Rightarrow>
                    (job\<lparr>job_label := counted_label (job_label job) total retained discoverable\<rparr>, with_world sv w)));
          sv = save_publish job sv;
          sv = log_job job (if job_state job = ''completed'' then ''info'' else ''error'') ''complete'' sv in
      (job, announce ''catalog.updated'' (job_id job) sv))"

text \<open>\<open>Search\<close>: the stored releases of all trackers, or the failures when there is nothing else.\<close>

definition search_all :: "job_env \<Rightarrow> string \<Rightarrow> server \<Rightarrow> (failure + torrent_release list) \<times> server" where
  "search_all env q sv =
     (let q = trim_space q; eligible = eligible_trackers (sv_world sv) in
      if rune_count q < 3 \<or> eligible = [] then (Inr [], sv)
      else (case ask_trackers (search_child env q) eligible sv of
              (reports, sv) \<Rightarrow>
                if run_failed reports then (Inl (plain_failure (failures_text reports)), sv)
                else (Inr (concat (map rp_items (filter (\<lambda>r. rp_failure r = None) reports))),
                      announce ''catalog.search.completed'' q sv)))"

text \<open>The failures the rows of the trackers still carry for this query.\<close>

fun row_failures :: "(string \<Rightarrow> string) \<Rightarrow> string \<Rightarrow> string list \<Rightarrow> world \<Rightarrow> string list \<times> world" where
  "row_failures digest q [] w = ([], w)"
| "row_failures digest q (i # ids) w =
     (let (row, w) = get_job (''tracker-search:'' @ i @ '':'' @ digest (to_lower (trim_space q))) w;
          own = (case row of Inr j \<Rightarrow> if job_error j \<noteq> [] then [i @ '': '' @ job_error j] else [] | Inl _ \<Rightarrow> []);
          (rest, w) = row_failures digest q ids w in
      (own @ rest, w))"

definition read_job :: "string \<Rightarrow> server \<Rightarrow> job \<times> server" where
  "read_job key sv = (case get_job key (sv_world sv) of
     (Inr j, w) \<Rightarrow> (j, with_world sv w) | (Inl _, w) \<Rightarrow> (zero_job, with_world sv w))"

definition run_tracker_search :: "job_env \<Rightarrow> string \<Rightarrow> server \<Rightarrow> job \<times> server" where
  "run_tracker_search env q sv =
     (let (job, sv) = read_job (search_job_key (je_digest env) q) sv;
          (job, sv) = start_job job (1 / 10) sv;
          (found, sv) = search_all env q (log_job job ''info'' ''tracker-search'' sv);
          job = job\<lparr>job_updated_at := server_now sv\<rparr>;
          (failures, w) = row_failures (je_digest env) q (eligible_trackers (sv_world sv)) (sv_world sv);
          sv = with_world sv w;
          (job, sv) = (case found of
              Inl f \<Rightarrow> (case fail_or_wait job f ''tracker-search'' (sv_world sv) of
                         (job, w) \<Rightarrow> (job, with_world sv w))
            | Inr _ \<Rightarrow> (let job = completed_job job (join_with ''; '' failures) in
                       (job, log_job job ''info'' ''complete'' sv))) in
      (job, save_publish job sv))"

text \<open>\<open>titleRefreshKeyID\<close>: what follows the last colon of a key.\<close>

definition title_refresh_key_id :: "string \<Rightarrow> string" where
  "title_refresh_key_id key = rev (takeWhile (\<lambda>c. c \<noteq> CHR '':'') (rev key))"

definition run_title_refresh :: "job_env \<Rightarrow> refresh_request \<Rightarrow> server \<Rightarrow> job \<times> server" where
  "run_title_refresh env rq sv =
     (let key = refresh_key (rq_title rq);
          (job, sv) = read_job key sv;
          job = (if job_id job = [] then zero_job\<lparr>job_id := key, job_kind := ''catalog-title-refresh'',
                   job_label := ''Refresh all versions of '' @ rq_query rq, job_dedupe_key := key\<rparr> else job);
          (job, sv) = start_job job (1 / 20) sv;
          sv = log_job job ''info'' ''tracker-search'' sv;
          (reports, sv) = ask_trackers (refresh_child env rq) (eligible_trackers (sv_world sv)) sv;
          (fresh, w) = get_job key (sv_world sv); sv = with_world sv w in
      case fresh of
        Inl _ \<Rightarrow> (job, sv)
      | Inr row \<Rightarrow>
          (let job = (if job_dedupe_key row \<noteq> []
                 then job\<lparr>job_id := job_id row, job_dedupe_key := job_dedupe_key row\<rparr> else job);
               title_id = title_refresh_key_id (job_dedupe_key job);
               sv = je_warm env job title_id sv;
               sv = (if rq_force rq then je_expire env job title_id sv else sv);
               job = job\<lparr>job_updated_at := server_now sv\<rparr>;
               (job, sv) =
                 (if run_failed reports then (failed_job job (failures_text reports), sv)
                  else ((completed_job job (failures_text reports))\<lparr>job_label := ''Refreshed '' @ rq_query rq @
                          middle_dot @ show_nat (report_total reports) @ '' releases''\<rparr>,
                        snd (ensure_metadata [title_id] (rq_force rq) sv)));
               sv = with_world sv (snd (save_job job (sv_world sv)));
               sv = log_job job (if job_state job = ''completed'' then ''info'' else ''error'') ''complete'' sv;
               sv = announce ''job.updated'' (job_id job) sv in
           (job, announce ''catalog.updated'' title_id sv)))"

subsection \<open>Metadata lookups\<close>

definition save_catalog_metadata :: "catalog_metadata \<Rightarrow> world \<Rightarrow> world" where
  "save_catalog_metadata m w = (case attempt w of
     (Some _, w') \<Rightarrow> w'
   | (None, w') \<Rightarrow> w'\<lparr>w_metadata := upsert cm_title_id
       (m\<lparr>cm_fetched_at := unix_seconds (cm_fetched_at m), cm_expires_at := unix_seconds (cm_expires_at m)\<rparr>)
       (w_metadata w')\<rparr>)"

text \<open>A failed lookup is cached for ten minutes; a row that holds a match keeps it.\<close>

definition failed_metadata ::
    "string \<Rightarrow> failure \<Rightarrow> go_time \<Rightarrow> svc_error + catalog_metadata \<Rightarrow> catalog_metadata" where
  "failed_metadata title_id f now existing =
     (let fresh = zero_catalog_metadata\<lparr>cm_title_id := title_id, cm_provider := ''tmdb'', cm_fetched_at := now,
            cm_expires_at := now + 10 * minute, cm_last_error := fl_text f\<rparr> in
      case existing of
        Inr m \<Rightarrow> if cm_provider_id m \<noteq> []
                then m\<lparr>cm_expires_at := cm_expires_at fresh, cm_last_error := cm_last_error fresh\<rparr> else fresh
      | Inl _ \<Rightarrow> fresh)"

definition retarget :: "string \<Rightarrow> string \<Rightarrow> string" where
  "retarget title_id key =
     (let moved = trim_prefix key ''metadata:'' in if key \<noteq> [] \<and> moved \<noteq> [] then moved else title_id)"

definition forget_pending :: "string \<Rightarrow> server \<Rightarrow> server" where
  "forget_pending i sv = sv\<lparr>sv_pending := filter (\<lambda>p. p \<noteq> i) (sv_pending sv)\<rparr>"

definition run_metadata_request :: "job_env \<Rightarrow> meta_request \<Rightarrow> server \<Rightarrow> server" where
  "run_metadata_request env rq sv =
     (case je_slot env ''metadata'' sv of
        (Some _, sv) \<Rightarrow> sv
      | (None, sv) \<Rightarrow>
          (let requested = mq_title_id rq; key = metadata_key requested;
               (job, sv) = read_job key sv;
               job = (if job_id job = [] then zero_job\<lparr>job_id := key, job_kind := ''metadata'', job_dedupe_key := key\<rparr>
                      else job);
               job = job\<lparr>job_attempt := (if job_attempt job < 1 then 1 else job_attempt job)\<rparr>;
               (job, sv) = start_job job (1 / 10) sv;
               (found, sv) = je_lookup env rq (log_job job ''info'' ''metadata'' sv);
               (fresh, w) = get_job key (sv_world sv); sv = with_world sv w in
           case fresh of
             Inl _ \<Rightarrow> forget_pending requested sv
           | Inr row \<Rightarrow>
               (let title_id = retarget requested (job_dedupe_key row);
                    job = (if job_dedupe_key row \<noteq> []
                      then job\<lparr>job_id := job_id row, job_dedupe_key := job_dedupe_key row\<rparr> else job);
                    now = server_now sv;
                    (metadata, job, sv) =
                      (case found of
                         Inl f \<Rightarrow>
                           (let (existing, w) = get_catalog_metadata title_id (sv_world sv);
                                sv = log_job job ''error'' ''metadata-match'' (with_world sv w);
                                (job, w) = fail_or_wait job f ''metadata'' (sv_world sv) in
                            (failed_metadata title_id f now existing, job, with_world sv w))
                       | Inr m \<Rightarrow>
                           (m\<lparr>cm_title_id := title_id,
                              cm_kind := (if cm_kind m = [] then mq_kind rq else cm_kind m)\<rparr>,
                            job\<lparr>job_state := ''completed'', job_progress := 1, job_retryable := False,
                                job_next_attempt_at := None\<rparr>, sv));
                    sv = with_world sv (save_catalog_metadata metadata (sv_world sv));
                    job = job\<lparr>job_updated_at := server_now sv\<rparr>;
                    sv = with_world sv (snd (save_job job (sv_world sv)));
                    sv = (case found of Inr _ \<Rightarrow> log_job job ''info'' ''complete'' sv | Inl _ \<Rightarrow> sv);
                    (_, w) = sources_by_title_ids [title_id] (eligible_trackers (sv_world sv)) (sv_world sv);
                    sv = announce ''metadata.updated'' title_id (with_world sv w) in
                forget_pending title_id (forget_pending requested sv))))"

subsection \<open>The workers\<close>

text \<open>A worker takes the first request of its queue.\<close>

definition search_worker :: "job_env \<Rightarrow> server \<Rightarrow> server" where
  "search_worker env sv =
     (case w_search_queue (sv_world sv) of
        [] \<Rightarrow> sv
      | q # queue \<Rightarrow> snd (run_tracker_search env q (with_world sv ((sv_world sv)\<lparr>w_search_queue := queue\<rparr>))))"

definition refresh_worker :: "job_env \<Rightarrow> server \<Rightarrow> server" where
  "refresh_worker env sv =
     (case w_refresh_queue (sv_world sv) of
        [] \<Rightarrow> sv
      | rq # queue \<Rightarrow> snd (run_title_refresh env rq (with_world sv ((sv_world sv)\<lparr>w_refresh_queue := queue\<rparr>))))"

definition metadata_worker :: "job_env \<Rightarrow> server \<Rightarrow> server" where
  "metadata_worker env sv =
     (case sv_meta_queue sv of
        [] \<Rightarrow> sv
      | rq # queue \<Rightarrow> run_metadata_request env rq (sv\<lparr>sv_meta_queue := queue\<rparr>))"

subsection \<open>What a run reports\<close>

text \<open>A run fails exactly when it asked a tracker and every tracker failed.\<close>

lemma run_failed_iff:
  "run_failed reports \<longleftrightarrow> reports \<noteq> [] \<and> list_all (\<lambda>r. rp_failure r \<noteq> None) reports"
proof -
  have "named_failures reports = [] \<longleftrightarrow> list_all (\<lambda>r. rp_failure r = None) reports"
    by (induction reports) (auto simp: named_failures_def split: option.splits)
  moreover have "successful reports = 0 \<longleftrightarrow> list_all (\<lambda>r. rp_failure r \<noteq> None) reports"
    by (induction reports) (auto simp: successful_def)
  ultimately show ?thesis by (cases reports) (auto simp: run_failed_def)
qed

lemma ask_trackers_length: "ask_trackers child ids sv = (reports, v) \<Longrightarrow> length reports = length ids"
  by (induction ids arbitrary: sv reports v) (auto simp: Let_def split: prod.splits)

lemma run_catalog_sync_settles:
  assumes "run_catalog_sync env job mode sv = (job', v)"
  shows "job_state job' = ''failed'' \<or> (job_state job' = ''completed'' \<and> job_next_attempt_at job' = None)"
  using assms
  by (auto simp: run_catalog_sync_def Let_def failed_job_def completed_job_def split: prod.splits sum.splits if_splits)

text \<open>A failed lookup never takes away a match; it is asked for again after ten minutes.\<close>

lemma failed_lookup_keeps_match:
  "cm_provider_id m \<noteq> [] \<Longrightarrow> failed_metadata title_id f now (Inr m) =
     m\<lparr>cm_expires_at := now + 10 * minute, cm_last_error := fl_text f\<rparr>"
  by (simp add: failed_metadata_def Let_def zero_catalog_metadata_def)

text \<open>A request that was taken up leaves its title free to be asked for again.\<close>

lemma metadata_not_left_pending:
  assumes "je_slot env ''metadata'' sv = (None, v)"
  shows "mq_title_id rq \<notin> set (sv_pending (run_metadata_request env rq sv))"
  using assms
  by (auto simp: run_metadata_request_def forget_pending_def Let_def split: prod.splits sum.splits)

text \<open>The id behind the last colon is the title of either form of a refresh key.\<close>

lemma title_refresh_key_id_of:
  assumes "CHR '':'' \<notin> set title_id"
  shows "title_refresh_key_id (refresh_key title_id) = title_id"
    and "title_refresh_key_id (tracker_refresh_key tracker title_id) = title_id"
proof -
  have "takeWhile (\<lambda>c. c \<noteq> CHR '':'') (rev title_id @ CHR '':'' # rest) = rev title_id" for rest
    using assms by (subst takeWhile_append2) auto
  then have "title_refresh_key_id (p @ '':'' @ title_id) = title_id" for p
    by (simp add: title_refresh_key_id_def)
  from this [of "''catalog-title-refresh''"] this [of "''catalog-title-refresh:'' @ tracker"]
  show "title_refresh_key_id (refresh_key title_id) = title_id"
    and "title_refresh_key_id (tracker_refresh_key tracker title_id) = title_id"
    by (simp_all add: refresh_key_def tracker_refresh_key_def)
qed

end
