(* ===== verification/Catalog_Seasons.thy ===== *)
theory Catalog_Seasons
  imports Catalog_Group
begin

text \<open>
  The seasons of a series (\<open>buildSeasons\<close> and \<open>buildTorrentOnlySeasons\<close> of \<open>application/catalog.go\<close>).
  A Go map from (season, episode) to sources is an association list; the code visits maps in the order
  of their sorted keys, so the order of the entries of the lists does not matter.
\<close>

type_synonym episode_groups = "((int \<times> int) \<times> catalog_source list) list"

definition numbered :: "string \<Rightarrow> int \<Rightarrow> string" where
  "numbered word n = word @ '' '' @ int_text n"

definition upload_nanos :: "catalog_source \<Rightarrow> int" where
  "upload_nanos s = (case rel_uploaded_at (cs_release s) of None \<Rightarrow> 0 | Some t \<Rightarrow> t)"

definition index_or_zero :: "catalog_source \<Rightarrow> int" where
  "index_or_zero s = (case cs_file_index s of None \<Rightarrow> 0 | Some i \<Rightarrow> i)"

definition source_before :: "catalog_source \<Rightarrow> catalog_source \<Rightarrow> bool" where
  "source_before a b =
     (if upload_nanos a \<noteq> upload_nanos b then upload_nanos b < upload_nanos a
      else if rel_id (cs_release a) \<noteq> rel_id (cs_release b)
      then str_less (rel_id (cs_release b)) (rel_id (cs_release a))
      else index_or_zero a < index_or_zero b)"

definition sort_sources :: "catalog_source list \<Rightarrow> catalog_source list" where
  "sort_sources sources = sort_by source_before sources"

definition first_source_path :: "catalog_episode \<Rightarrow> string" where
  "first_source_path e = (case ce_sources e of [] \<Rightarrow> [] | s # _ \<Rightarrow> cs_file_path s)"

definition new_episode :: "int \<Rightarrow> int \<Rightarrow> string \<Rightarrow> string \<Rightarrow> catalog_source list \<Rightarrow> catalog_episode" where
  "new_episode number season title air_date sources = \<lparr>ce_number = number, ce_title = title,
     ce_season = season, ce_air_date = air_date, ce_source_count = int (length sources),
     ce_sources = sources, ce_library_state = zero_media_state\<rparr>"

definition own_title :: "int \<Rightarrow> catalog_source list \<Rightarrow> string" where
  "own_title n sources =
     (let name = pr_episode_title (cs_parsed (hd sources)) in
      if name = [] then numbered ''Episode'' n else name)"

definition packs_of :: "(int \<times> catalog_source list) list \<Rightarrow> int \<Rightarrow> catalog_source list" where
  "packs_of packs n = (case map_of packs n of Some ss \<Rightarrow> ss | None \<Rightarrow> [])"

definition sorted_numbers :: "int list \<Rightarrow> int list" where
  "sorted_numbers ns = sort_by (<) ns"

subsection \<open>Without a provider\<close>

definition torrent_only_season ::
    "episode_groups \<Rightarrow> (int \<times> catalog_source list) list \<Rightarrow> int \<Rightarrow> catalog_season" where
  "torrent_only_season eps packs number =
     (let own = sort_by (\<lambda>a b. snd (fst a) < snd (fst b)) (filter (\<lambda>p. fst (fst p) = number) eps);
          episodes = map (\<lambda>p. let items = sort_sources (snd p) in
             new_episode (snd (fst p)) number (own_title (snd (fst p)) items) [] items) own in
      \<lparr>cn_number = number, cn_title = numbered ''Season'' number, cn_episode_count = int (length episodes),
       cn_episodes = episodes, cn_unknown = [], cn_pack_sources = packs_of packs number,
       cn_library_state = zero_media_state\<rparr>)"

definition build_torrent_only_seasons ::
    "episode_groups \<Rightarrow> (int \<times> catalog_source list) list \<Rightarrow> catalog_season list" where
  "build_torrent_only_seasons eps packs =
     map (torrent_only_season eps packs)
       (sorted_numbers (remdups (map (\<lambda>p. fst (fst p)) eps @ map fst packs)))"

subsection \<open>With the structure of a provider\<close>

definition season_by_number :: "series_season list \<Rightarrow> int \<Rightarrow> series_season option" where
  "season_by_number seasons n = map_of (rev (map (\<lambda>s. (sn_number s, s)) seasons)) n"

definition offset_step :: "(int \<times> int) list \<times> int \<Rightarrow> series_season \<Rightarrow> (int \<times> int) list \<times> int" where
  "offset_step acc s =
     (if 1 \<le> sn_number s
      then (upsert fst (sn_number s, snd acc) (fst acc), snd acc + sn_episode_count s) else acc)"

definition season_offset :: "series_season list \<Rightarrow> int \<Rightarrow> int" where
  "season_offset seasons n =
     (case map_of (fst (foldl offset_step ([], 0) seasons)) n of Some off \<Rightarrow> off | None \<Rightarrow> 0)"

definition align :: "series_season list \<Rightarrow> int \<Rightarrow> int \<Rightarrow> bool \<Rightarrow> (int \<times> int) option" where
  "align seasons season n explicit =
     (let in_window = (case season_by_number seasons season of
            Some entry \<Rightarrow> 1 \<le> n \<and> n \<le> sn_episode_count entry | None \<Rightarrow> False) in
      if in_window then Some (season, n)
      else if explicit then None
      else (case List.find (\<lambda>s. 1 \<le> sn_number s \<and> (season < 1 \<or> sn_number s = season) \<and>
                season_offset seasons (sn_number s) < n \<and>
                n \<le> season_offset seasons (sn_number s) + sn_episode_count s) seasons of
              Some s \<Rightarrow> Some (sn_number s, n - season_offset seasons (sn_number s))
            | None \<Rightarrow> None))"

record placement =
  pl_aligned :: episode_groups
  pl_unknown :: "(int \<times> catalog_episode) list"
  pl_numbers :: "int list"

definition multi_add :: "'k \<Rightarrow> 'a list \<Rightarrow> ('k \<times> 'a list) list \<Rightarrow> ('k \<times> 'a list) list" where
  "multi_add k xs m = upsert fst (k, (case map_of m k of Some ys \<Rightarrow> ys | None \<Rightarrow> []) @ xs) m"

definition place_group ::
    "series_season list \<Rightarrow> int \<times> int \<Rightarrow> bool \<Rightarrow> catalog_source list \<Rightarrow> placement \<Rightarrow> placement" where
  "place_group seasons key explicit sources pl =
     (if sources = [] then pl
      else
        (let claimed = fst key; pl = pl\<lparr>pl_numbers := add_key claimed (pl_numbers pl)\<rparr> in
         case align seasons claimed (snd key) explicit of
           Some (season, episode) \<Rightarrow>
             pl\<lparr>pl_aligned := multi_add (season, episode) sources (pl_aligned pl),
                pl_numbers := add_key season (pl_numbers pl)\<rparr>
         | None \<Rightarrow>
             pl\<lparr>pl_unknown := pl_unknown pl @
                  [(claimed, new_episode (snd key) claimed (own_title (snd key) sources) [] sources)]\<rparr>))"

definition place_key ::
    "series_season list \<Rightarrow> placement \<Rightarrow> (int \<times> int) \<times> catalog_source list \<Rightarrow> placement" where
  "place_key seasons pl entry =
     (let key = fst entry; special = (\<lambda>s. fst key = 0 \<and> pr_season_explicit (cs_parsed s)) in
      place_group seasons key True (filter special (snd entry))
        (place_group seasons key False (filter (\<lambda>s. \<not> special s) (snd entry)) pl))"

definition key_before :: "(int \<times> int) \<times> 'a \<Rightarrow> (int \<times> int) \<times> 'a \<Rightarrow> bool" where
  "key_before a b =
     (if fst (fst a) \<noteq> fst (fst b) then fst (fst a) < fst (fst b) else snd (fst a) < snd (fst b))"

definition place_all :: "series_season list \<Rightarrow> episode_groups \<Rightarrow> placement" where
  "place_all seasons eps = foldl (place_key seasons)
     \<lparr>pl_aligned = [], pl_unknown = [], pl_numbers = []\<rparr> (sort_by key_before eps)"

definition season_title :: "series_season option \<Rightarrow> int \<Rightarrow> string" where
  "season_title entry number =
     (case entry of
        Some e \<Rightarrow> if sn_name e \<noteq> [] then sn_name e
                  else if number = 0 then ''Specials'' else numbered ''Season'' number
      | None \<Rightarrow> if number = 0 then ''Specials'' else numbered ''Season'' number)"

text \<open>The last entry of a provider's episode list that carries a text wins.\<close>

definition episode_text :: "(series_episode \<Rightarrow> string) \<Rightarrow> series_season option \<Rightarrow> int \<Rightarrow> string" where
  "episode_text f entry n =
     (case entry of
        None \<Rightarrow> []
      | Some e \<Rightarrow> (case map_of (rev (map (\<lambda>x. (se_number x, f x)) (filter (\<lambda>x. f x \<noteq> []) (sn_episodes e)))) n of
           Some t \<Rightarrow> t | None \<Rightarrow> []))"

definition unknown_before :: "catalog_episode \<Rightarrow> catalog_episode \<Rightarrow> bool" where
  "unknown_before a b =
     (if ce_number a \<noteq> ce_number b then ce_number a < ce_number b
      else str_less (first_source_path a) (first_source_path b))"

definition render_season ::
    "series_season list \<Rightarrow> (int \<times> catalog_source list) list \<Rightarrow> placement \<Rightarrow> int \<Rightarrow> catalog_season" where
  "render_season seasons packs pl number =
     (let entry = season_by_number seasons number;
          own = sort_by (\<lambda>a b. snd (fst a) < snd (fst b)) (filter (\<lambda>p. fst (fst p) = number) (pl_aligned pl));
          episodes = map (\<lambda>p. let n = snd (fst p); items = sort_sources (snd p); title = episode_text se_name entry n in
             new_episode n number (if title = [] then numbered ''Episode'' n else title)
               (episode_text se_air_date entry n) items) own;
          unknown = map snd (filter (\<lambda>p. fst p = number) (pl_unknown pl)) in
      \<lparr>cn_number = number, cn_title = season_title entry number, cn_episode_count = int (length episodes),
       cn_episodes = episodes, cn_unknown = sort_by unknown_before unknown,
       cn_pack_sources = packs_of packs number, cn_library_state = zero_media_state\<rparr>)"

definition build_seasons ::
    "episode_groups \<Rightarrow> (int \<times> catalog_source list) list \<Rightarrow> series_seasons option \<Rightarrow> catalog_season list" where
  "build_seasons eps packs provider =
     (case provider of
        None \<Rightarrow> build_torrent_only_seasons eps packs
      | Some p \<Rightarrow>
          (let seasons = sr_seasons p; pl = place_all seasons eps;
               numbers = sorted_numbers (foldl (\<lambda>ns n. add_key n ns) (pl_numbers pl) (map fst packs)) in
           map (render_season seasons packs pl) numbers))"

subsection \<open>No source is lost or moved\<close>

definition season_sources :: "catalog_season \<Rightarrow> catalog_source list" where
  "season_sources cn = concat (map ce_sources (cn_episodes cn)) @ concat (map ce_sources (cn_unknown cn))"

definition bag :: "('a \<Rightarrow> 'b list) \<Rightarrow> 'a list \<Rightarrow> 'b multiset" where
  "bag f xs = mset (concat (map f xs))"

lemma bag_simps [simp]: "bag f [] = {#}" "bag f (x # xs) = mset (f x) + bag f xs"
  "bag f (xs @ ys) = bag f xs + bag f ys"
  by (simp_all add: bag_def)

lemma bag_alt: "bag f xs = sum_mset (image_mset (\<lambda>x. mset (f x)) (mset xs))"
  by (induction xs) auto

lemma bag_sort_by [simp]: "bag f (sort_by lt xs) = bag f xs"
  by (simp add: bag_alt)

lemma bag_map: "bag f (map g xs) = bag (\<lambda>x. f (g x)) xs"
  by (simp add: bag_def comp_def)

lemma bag_cong: "(\<And>x. mset (f x) = mset (g x)) \<Longrightarrow> bag f xs = bag g xs"
  by (induction xs) auto

lemma bag_add: "bag (\<lambda>x. f x @ g x) xs = bag f xs + bag g xs"
  by (induction xs) auto

lemma bag_none: "(\<And>x. x \<in> set xs \<Longrightarrow> f x = []) \<Longrightarrow> bag f xs = {#}"
  by (induction xs) auto

lemma bag_pick: "distinct ns \<Longrightarrow> k \<in> set ns \<Longrightarrow> bag (\<lambda>n. if k = n then f else []) ns = mset f"
  by (induction ns) (auto intro: bag_none)

lemma bag_partition:
  assumes "distinct ns" and "\<And>x. x \<in> set xs \<Longrightarrow> g x \<in> set ns"
  shows "bag (\<lambda>n. concat (map f (filter (\<lambda>x. g x = n) xs))) ns = bag f xs"
  using assms(2)
proof (induction xs)
  case Nil
  then show ?case by (simp add: bag_none)
next
  case (Cons x xs)
  have "bag (\<lambda>n. concat (map f (filter (\<lambda>x. g x = n) (x # xs)))) ns =
      bag (\<lambda>n. (if g x = n then f x else []) @ concat (map f (filter (\<lambda>x. g x = n) xs))) ns"
    by (rule bag_cong) simp
  also have "\<dots> = mset (f x) + bag f xs"
    using Cons assms(1) by (simp add: bag_add bag_pick)
  finally show ?case by simp
qed

lemma bag_upsert:
  "map_of m k = Some ys \<Longrightarrow> bag snd (upsert fst (k, ys @ xs) m) = bag snd m + mset xs"
  "map_of m k = None \<Longrightarrow> bag snd (upsert fst (k, xs) m) = bag snd m + mset xs"
  by (induction m) (auto split: if_splits)

lemma bag_multi_add: "bag snd (multi_add k xs m) = bag snd m + mset xs"
  by (cases "map_of m k") (simp_all add: multi_add_def bag_upsert)

interpretation number_order: strict_weak "(<) :: int \<Rightarrow> int \<Rightarrow> bool"
  by unfold_locales auto

lemma sorted_numbers_facts:
  "set (sorted_numbers ns) = set ns" "distinct ns \<Longrightarrow> sorted_wrt (<) (sorted_numbers ns)"
  "distinct ns \<Longrightarrow> distinct (sorted_numbers ns)"
proof -
  have d: "distinct (sorted_numbers ns)" if "distinct ns"
    using that by (metis mset_sort_by sorted_numbers_def mset_eq_imp_distinct_iff)
  show "distinct ns \<Longrightarrow> distinct (sorted_numbers ns)" by (rule d)
  show "set (sorted_numbers ns) = set ns" by (simp add: sorted_numbers_def)
  assume "distinct ns"
  then show "sorted_wrt (<) (sorted_numbers ns)"
    using number_order.sorted_sort_by [of ns] d
    by (simp add: sorted_numbers_def not_less strict_sorted_iff)
qed

lemma align_season:
  "align seasons s n explicit = Some (t, k) \<Longrightarrow> (t = s \<or> s < 1) \<and> 1 \<le> k"
  by (auto simp: align_def Let_def dest: find_some_in split: option.splits if_splits)

text \<open>Whether \<open>x\<close> may stand in season \<open>n\<close>: its group claims that season, or no season at all.\<close>

definition claims :: "episode_groups \<Rightarrow> int \<Rightarrow> catalog_source \<Rightarrow> bool" where
  "claims eps n x = list_ex (\<lambda>p. x \<in> set (snd p) \<and> (fst (fst p) = n \<or> fst (fst p) < 1)) eps"

definition placed :: "episode_groups \<Rightarrow> placement \<Rightarrow> bool" where
  "placed eps pl = (distinct (pl_numbers pl) \<and>
     (\<forall>p \<in> set (pl_aligned pl). fst (fst p) \<in> set (pl_numbers pl) \<and>
        (\<forall>x \<in> set (snd p). claims eps (fst (fst p)) x)) \<and>
     (\<forall>p \<in> set (pl_unknown pl). fst p \<in> set (pl_numbers pl) \<and>
        (\<forall>x \<in> set (ce_sources (snd p)). claims eps (fst p) x)))"

definition pl_sources :: "placement \<Rightarrow> catalog_source multiset" where
  "pl_sources pl = bag snd (pl_aligned pl) + bag (\<lambda>p. ce_sources (snd p)) (pl_unknown pl)"

lemma set_multi_add:
  "p \<in> set (multi_add k xs m) \<Longrightarrow> p \<in> set m \<or> (fst p = k \<and> set (snd p) \<subseteq> set xs \<union> (\<Union>q \<in> {q \<in> set m. fst q = k}. set (snd q)))"
  using set_upsert_subset [of fst "(k, (case map_of m k of Some ys \<Rightarrow> ys | None \<Rightarrow> []) @ xs)" m]
  by (fastforce simp: multi_add_def split: option.splits dest: map_of_SomeD)

lemma place_group_placed:
  assumes "placed eps pl" and "\<And>x. x \<in> set sources \<Longrightarrow> \<exists>p \<in> set eps. fst p = key \<and> x \<in> set (snd p)"
  shows "placed eps (place_group seasons key explicit sources pl) \<and>
    pl_sources (place_group seasons key explicit sources pl) = pl_sources pl + mset sources"
proof (cases "sources = []")
  case True
  then show ?thesis using assms by (simp add: place_group_def)
next
  case ne: False
  have claim: "claims eps n x" if "x \<in> set sources" "n = fst key \<or> fst key < 1" for n x
    using assms(2) [OF that(1)] that(2) unfolding claims_def list_ex_iff by auto
  show ?thesis
  proof (cases "align seasons (fst key) (snd key) explicit")
    case None
    then show ?thesis using ne assms(1) claim
      by (auto simp: place_group_def Let_def placed_def pl_sources_def new_episode_def distinct_add_key)
  next
    case (Some a)
    obtain s e where a: "a = (s, e)" by fastforce
    have s: "s = fst key \<or> fst key < 1" using align_season Some a by blast
    let ?m = "multi_add (s, e) sources (pl_aligned pl)"
    have "fst (fst p) \<in> insert s (set (pl_numbers pl)) \<and> (\<forall>x \<in> set (snd p). claims eps (fst (fst p)) x)"
      if "p \<in> set ?m" for p
      using set_multi_add [OF that] assms(1) claim [OF _ s] by (fastforce simp: placed_def)
    then show ?thesis using ne Some a assms(1)
      by (auto simp: place_group_def placed_def pl_sources_def distinct_add_key bag_multi_add)
  qed
qed

lemma place_key_placed:
  assumes "placed eps pl" and "p \<in> set eps"
  shows "placed eps (place_key seasons pl p) \<and> pl_sources (place_key seasons pl p) = pl_sources pl + mset (snd p)"
proof -
  let ?special = "\<lambda>s. fst (fst p) = 0 \<and> pr_season_explicit (cs_parsed s)"
  let ?pl = "place_group seasons (fst p) False (filter (\<lambda>s. \<not> ?special s) (snd p)) pl"
  have one: "placed eps ?pl \<and> pl_sources ?pl = pl_sources pl + mset (filter (\<lambda>s. \<not> ?special s) (snd p))"
    by (rule place_group_placed) (use assms in auto)
  have "placed eps (place_group seasons (fst p) True (filter ?special (snd p)) ?pl) \<and>
      pl_sources (place_group seasons (fst p) True (filter ?special (snd p)) ?pl) =
      pl_sources ?pl + mset (filter ?special (snd p))"
    by (rule place_group_placed) (use assms one in auto)
  moreover have "mset (filter (\<lambda>s. \<not> ?special s) (snd p)) + mset (filter ?special (snd p)) = mset (snd p)"
    using multiset_partition [of "mset (snd p)" ?special] by (simp add: union_commute)
  ultimately show ?thesis using one by (simp add: place_key_def Let_def add.assoc)
qed

lemma place_all_placed: "placed eps (place_all seasons eps) \<and> pl_sources (place_all seasons eps) = bag snd eps"
proof -
  have "placed eps (foldl (place_key seasons) pl xs) \<and> pl_sources (foldl (place_key seasons) pl xs) = pl_sources pl + bag snd xs"
    if "placed eps pl" "set xs \<subseteq> set eps" for pl xs
    using that
  proof (induction xs arbitrary: pl)
    case (Cons p ps)
    have "placed eps (place_key seasons pl p) \<and> pl_sources (place_key seasons pl p) = pl_sources pl + mset (snd p)"
      by (rule place_key_placed) (use Cons.prems in auto)
    then show ?case using Cons.IH [of "place_key seasons pl p"] Cons.prems by (simp add: add.assoc)
  qed simp
  from this [of "\<lparr>pl_aligned = [], pl_unknown = [], pl_numbers = []\<rparr>" "sort_by key_before eps"]
  show ?thesis by (simp add: place_all_def placed_def pl_sources_def)
qed

lemma bag_sources:
  "mset (season_sources cn) = bag ce_sources (cn_episodes cn) + bag ce_sources (cn_unknown cn)"
  by (simp add: season_sources_def bag_def)

lemma season_sources_render:
  "mset (season_sources (render_season seasons packs pl n)) =
     bag snd (filter (\<lambda>p. fst (fst p) = n) (pl_aligned pl)) +
     bag (\<lambda>p. ce_sources (snd p)) (filter (\<lambda>p. fst p = n) (pl_unknown pl))"
proof -
  have "bag (\<lambda>p. sort_sources (snd p)) ps = bag snd ps" for ps :: episode_groups
    by (rule bag_cong) (simp add: sort_sources_def)
  then show ?thesis
    by (simp add: bag_sources render_season_def Let_def new_episode_def bag_map)
qed

lemma torrent_only_sources:
  "mset (season_sources (torrent_only_season eps packs n)) = bag snd (filter (\<lambda>p. fst (fst p) = n) eps)"
proof -
  have "bag (\<lambda>p. sort_sources (snd p)) ps = bag snd ps" for ps :: episode_groups
    by (rule bag_cong) (simp add: sort_sources_def)
  then show ?thesis
    by (simp add: bag_sources torrent_only_season_def Let_def new_episode_def bag_map)
qed

lemma set_bag: "x \<in># bag f xs \<longleftrightarrow> (\<exists>y \<in> set xs. x \<in> set (f y))"
  by (simp add: bag_def)

lemma foldl_add_key: "set (foldl (\<lambda>ns n. add_key n ns) ns ks) = set ns \<union> set ks"
  "distinct ns \<Longrightarrow> distinct (foldl (\<lambda>ns n. add_key n ns) ns ks)"
  by (induction ks arbitrary: ns) (auto simp: distinct_add_key)

definition seasons_ok :: "episode_groups \<Rightarrow> catalog_season list \<Rightarrow> bool" where
  "seasons_ok eps out = (bag season_sources out = bag snd eps \<and> sorted_wrt (<) (map cn_number out) \<and>
     list_all (\<lambda>cn. list_all (claims eps (cn_number cn)) (season_sources cn)) out)"

lemma torrent_only_ok: "seasons_ok eps (build_torrent_only_seasons eps packs)"
proof -
  define ns where "ns = sorted_numbers (remdups (map (\<lambda>p. fst (fst p)) eps @ map fst packs))"
  have ns: "sorted_wrt (<) ns" "distinct ns" "\<And>p. p \<in> set eps \<Longrightarrow> fst (fst p) \<in> set ns"
    by (simp_all add: ns_def sorted_numbers_facts del: remdups_append2)
  have out: "build_torrent_only_seasons eps packs = map (torrent_only_season eps packs) ns"
    by (simp add: build_torrent_only_seasons_def ns_def)
  have "bag season_sources (map (torrent_only_season eps packs) ns) =
      bag (\<lambda>n. concat (map snd (filter (\<lambda>p. fst (fst p) = n) eps))) ns"
    unfolding bag_map by (rule bag_cong) (simp add: torrent_only_sources bag_def)
  also have "\<dots> = bag snd eps" by (rule bag_partition) (use ns in auto)
  finally have bag: "bag season_sources (map (torrent_only_season eps packs) ns) = bag snd eps" .
  have "claims eps n x" if "x \<in> set (season_sources (torrent_only_season eps packs n))" for n x
  proof -
    have "x \<in># bag snd (filter (\<lambda>p. fst (fst p) = n) eps)"
      using that unfolding torrent_only_sources [of eps packs n, symmetric] by simp
    then show ?thesis unfolding set_bag claims_def list_ex_iff by auto (metis fst_conv snd_conv)
  qed
  then show ?thesis using bag ns
    by (simp add: seasons_ok_def out list_all_iff torrent_only_season_def Let_def comp_def)
qed

lemma rendered_ok: "seasons_ok eps (build_seasons eps packs (Some provider))"
proof -
  define seasons where "seasons = sr_seasons provider"
  define pl where "pl = place_all seasons eps"
  define ns where "ns = sorted_numbers (foldl (\<lambda>ns n. add_key n ns) (pl_numbers pl) (map fst packs))"
  have pl: "placed eps pl" "pl_sources pl = bag snd eps"
    using place_all_placed by (simp_all add: pl_def)
  have ns: "sorted_wrt (<) ns" "distinct ns" "set (pl_numbers pl) \<subseteq> set ns"
    using pl(1) by (simp_all add: ns_def sorted_numbers_facts foldl_add_key placed_def)
  have out: "build_seasons eps packs (Some provider) = map (render_season seasons packs pl) ns"
    by (simp add: build_seasons_def ns_def pl_def seasons_def Let_def)
  have "bag season_sources (map (render_season seasons packs pl) ns) =
      bag (\<lambda>n. concat (map snd (filter (\<lambda>p. fst (fst p) = n) (pl_aligned pl))) @
               concat (map (\<lambda>p. ce_sources (snd p)) (filter (\<lambda>p. fst p = n) (pl_unknown pl)))) ns"
    unfolding bag_map by (rule bag_cong) (simp add: season_sources_render bag_def)
  also have "\<dots> = bag snd (pl_aligned pl) + bag (\<lambda>p. ce_sources (snd p)) (pl_unknown pl)"
    unfolding bag_add
    by (intro arg_cong2 [where f = "(+)"] bag_partition) (use ns pl in \<open>auto simp: placed_def\<close>)
  finally have bag: "bag season_sources (map (render_season seasons packs pl) ns) = bag snd eps"
    using pl by (simp add: pl_sources_def)
  have "claims eps n x" if "x \<in> set (season_sources (render_season seasons packs pl n))" for n x
  proof -
    have "x \<in># bag snd (filter (\<lambda>p. fst (fst p) = n) (pl_aligned pl)) +
        bag (\<lambda>p. ce_sources (snd p)) (filter (\<lambda>p. fst p = n) (pl_unknown pl))"
      using that unfolding season_sources_render [of seasons packs pl n, symmetric] by simp
    then show ?thesis using pl(1) by (auto simp: set_bag placed_def)
  qed
  then show ?thesis using bag ns
    by (simp add: seasons_ok_def out list_all_iff render_season_def Let_def comp_def)
qed

text \<open>
  Property C19: However the files of a series are numbered and whatever the provider says, its
  seasons hold every source exactly once, in ascending order of their numbers, and a source stands in the
  season its own numbering claims unless it claims none.
\<close>

theorem build_seasons_conserves:
  "bag season_sources (build_seasons eps packs provider) = bag snd eps \<and>
   sorted_wrt (<) (map cn_number (build_seasons eps packs provider)) \<and>
   list_all (\<lambda>cn. list_all (claims eps (cn_number cn)) (season_sources cn)) (build_seasons eps packs provider)"
proof (cases provider)
  case None
  then show ?thesis using torrent_only_ok by (simp add: build_seasons_def seasons_ok_def)
next
  case (Some p)
  then show ?thesis using rendered_ok [of eps packs p] by (simp add: seasons_ok_def)
qed

text \<open>
  The list of sources a title is read with has lost the mark of a written season, so a release named as a
  special (season 0) is aligned by absolute number.
\<close>

definition marked :: "catalog_source \<Rightarrow> catalog_source" where
  "marked s = s\<lparr>cs_parsed := (cs_parsed s)\<lparr>pr_season_explicit := True\<rparr>\<rparr>"

definition one_season :: series_seasons where
  "one_season = \<lparr>sr_provider = [], sr_provider_id = [], sr_language = [], sr_genres = [],
     sr_seasons = [\<lparr>sn_number = 1, sn_name = ''S'', sn_episode_count = 10, sn_episodes = []\<rparr>],
     sr_fetched_at = 0, sr_expires_at = 0\<rparr>"

text \<open>The numbers of the seasons with those of their episodes and unknown files.\<close>

definition outline :: "catalog_season list \<Rightarrow> (int \<times> int list \<times> int list) list" where
  "outline out = map (\<lambda>cn. (cn_number cn, map ce_number (cn_episodes cn), map ce_number (cn_unknown cn))) out"

lemma one_season_align:
  "align (sr_seasons one_season) 0 5 False = Some (1, 5)" "align (sr_seasons one_season) 0 5 True = None"
  by code_simp+

lemma place_special:
  "place_all (sr_seasons one_season) [((0, 5), [s])] =
     (if pr_season_explicit (cs_parsed s)
      then \<lparr>pl_aligned = [], pl_unknown = [(0, new_episode 5 0 (own_title 5 [s]) [] [s])], pl_numbers = [0]\<rparr>
      else \<lparr>pl_aligned = [((1, 5), [s])], pl_unknown = [], pl_numbers = [0, 1]\<rparr>)"
  by (simp add: place_all_def sort_by_def place_key_def place_group_def one_season_align add_key_def
      multi_add_def)

text \<open>
  A source read from the catalog does not carry the mark of a written season, so a
  single file that its name calls episode 5 of season 0 is shown as episode 5 of season 1 when the provider
  lists no specials; with the mark it stays apart, in season 0.
\<close>

theorem stored_special_misplaced:
  "outline (build_seasons [((0, 5), [stored_source r t])] [] (Some one_season)) = [(0, [], []), (1, [5], [])] \<and>
   outline (build_seasons [((0, 5), [marked (stored_source r t)])] [] (Some one_season)) = [(0, [], [5])]"
  by (simp add: build_seasons_def place_special stored_source_def marked_def outline_def render_season_def
      sorted_numbers_def sort_by_def new_episode_def Let_def)

end
