(* ===== verification/Catalog_State.thy ===== *)
theory Catalog_State
  imports Catalog_Seasons
begin

text \<open>
  The state of the library laid over the catalog (\<open>application/catalog.go\<close>): what is downloaded, transferring
  and watched of a source, and how the states of sources make those of episodes, packs, seasons and
  titles.
\<close>

definition empty_media_state :: media_state where
  "empty_media_state = zero_media_state\<lparr>ms_download_state := ''none'', ms_transfer_state := ''idle'',
     ms_watch_state := ''unwatched''\<rparr>"

record catalog_state_index =
  ix_downloads :: "download list"
  ix_playback :: "playback_state list"

text \<open>
  The code indexes both lists by release and the playback by source; looking up an index is the same as
  filtering the list.  Of two playback rows of one source the later in the list wins.
\<close>

definition downloads_by_release :: "catalog_state_index \<Rightarrow> string \<Rightarrow> download list" where
  "downloads_by_release ix r = filter (\<lambda>d. dl_release_id d = r) (ix_downloads ix)"

definition playback_by_release :: "catalog_state_index \<Rightarrow> string \<Rightarrow> playback_state list" where
  "playback_by_release ix r = filter (\<lambda>p. pb_release_id p = r) (ix_playback ix)"

definition playback_by_source :: "catalog_state_index \<Rightarrow> string \<Rightarrow> playback_state option" where
  "playback_by_source ix s = List.find (\<lambda>p. pb_source_id p = s) (rev (ix_playback ix))"

definition catalog_state :: "world \<Rightarrow> (svc_error + catalog_state_index) \<times> world" where
  "catalog_state w =
     (case list_downloads w of
        (Inl e, w) \<Rightarrow> (Inl e, w)
      | (Inr ds, w) \<Rightarrow>
          (case list_playback household_profile w of
             (Inl e, w) \<Rightarrow> (Inl e, w)
           | (Inr ps, w) \<Rightarrow> (Inr \<lparr>ix_downloads = ds, ix_playback = ps\<rparr>, w)))"

definition apply_playback_state :: "media_state \<Rightarrow> playback_state \<Rightarrow> media_state" where
  "apply_playback_state st p =
     (let st = (if pb_watched p then st\<lparr>ms_watch_state := ''watched''\<rparr>
                else if 0 < pb_position_ms p \<and> ms_watch_state st \<noteq> ''watched''
                then st\<lparr>ms_watch_state := ''inProgress''\<rparr> else st) in
      if 0 < pb_updated_at p \<and> (ms_position_ms st = 0 \<or> pb_watched p)
      then st\<lparr>ms_position_ms := pb_position_ms p, ms_duration_ms := pb_duration_ms p\<rparr> else st)"

definition select_download :: "catalog_source \<Rightarrow> download option \<Rightarrow> download \<Rightarrow> download option" where
  "select_download source selected d =
     (if (case cs_file_index source of Some i \<Rightarrow> dl_file_index d \<noteq> i | None \<Rightarrow> False) then selected
      else if cs_file_index source = None \<and> 1 < rel_file_count (cs_release source) then selected
      else (case selected of
              None \<Rightarrow> Some d
            | Some s \<Rightarrow>
                if dl_progress s < dl_progress d \<or>
                   (dl_progress d = dl_progress s \<and> dl_created_at s < dl_created_at d)
                then Some d else selected))"

definition download_phase :: "download \<Rightarrow> string \<times> string" where
  "download_phase d =
     (let name = to_lower (dl_state d) in
      if 999 / 1000 \<le> dl_progress d then (''downloaded'', ''complete'')
      else if dl_error d \<noteq> [] then (''error'', ''error'')
      else if contains name ''paused'' \<or> contains name ''stopped'' then (''downloading'', ''paused'')
      else if contains name ''queued'' then (''queued'', ''queued'')
      else (''downloading'', ''active''))"

text \<open>The playback rows of a release until one of them makes the source watched.\<close>

fun watch_release :: "catalog_source \<Rightarrow> playback_state list \<Rightarrow> media_state \<Rightarrow> media_state" where
  "watch_release source [] st = st"
| "watch_release source (p # ps) st =
     (if (case cs_file_index source of Some i \<Rightarrow> pb_file_index p \<noteq> i | None \<Rightarrow> False)
      then watch_release source ps st
      else (let st = apply_playback_state st p in
            if ms_watch_state st = ''watched'' then st else watch_release source ps st))"

definition source_state :: "catalog_state_index \<Rightarrow> catalog_source \<Rightarrow> media_state" where
  "source_state ix source =
     (let result = empty_media_state;
          selected = foldl (select_download source) None
            (downloads_by_release ix (rel_id (cs_release source)));
          result = (case selected of
            None \<Rightarrow> result
          | Some d \<Rightarrow>
              (let st = result\<lparr>ms_download_id := dl_id d, ms_progress := dl_progress d,
                     ms_download_state := fst (download_phase d), ms_transfer_state := snd (download_phase d)\<rparr> in
               case playback_by_source ix (dl_id d) of
                 Some p \<Rightarrow> apply_playback_state st p | None \<Rightarrow> st)) in
      if ms_watch_state result = ''unwatched''
      then watch_release source (playback_by_release ix (rel_id (cs_release source))) result
      else result)"

subsection \<open>Aggregation\<close>

definition transfer_rank :: "string \<Rightarrow> int" where
  "transfer_rank s =
     (if s = ''complete'' then 1 else if s = ''paused'' then 2 else if s = ''queued'' then 3
      else if s = ''active'' then 4 else if s = ''error'' then 5 else 0)"

definition merge_transfer_state :: "string \<Rightarrow> string \<Rightarrow> string" where
  "merge_transfer_state current nxt = (if transfer_rank current < transfer_rank nxt then nxt else current)"

definition most_progress :: "media_state \<Rightarrow> media_state \<Rightarrow> media_state" where
  "most_progress result st =
     (let result = result\<lparr>ms_transfer_state := merge_transfer_state (ms_transfer_state result) (ms_transfer_state st)\<rparr> in
      if ms_progress result < ms_progress st
      then result\<lparr>ms_progress := ms_progress st, ms_download_id := ms_download_id st\<rparr> else result)"

definition how_many :: "('a \<Rightarrow> bool) \<Rightarrow> 'a list \<Rightarrow> nat" where
  "how_many p xs = length (filter p xs)"

definition aggregate_media_states :: "media_state list \<Rightarrow> bool \<Rightarrow> media_state" where
  "aggregate_media_states states require_all =
     (if states = [] then empty_media_state
      else
        (let downloaded = how_many (\<lambda>s. ms_download_state s = ''downloaded'') states;
             managed = how_many (\<lambda>s. ms_download_state s \<noteq> ''none'') states;
             watched = how_many (\<lambda>s. ms_watch_state s = ''watched'') states;
             started = how_many (\<lambda>s. ms_watch_state s \<noteq> ''unwatched'') states;
             result = foldl most_progress empty_media_state states in
         if require_all then
           (let result = (if downloaded = length states then result\<lparr>ms_download_state := ''downloaded''\<rparr>
                          else if 0 < managed then result\<lparr>ms_download_state := ''partial''\<rparr> else result) in
            if watched = length states then result\<lparr>ms_watch_state := ''watched''\<rparr>
            else if 0 < started then result\<lparr>ms_watch_state := ''partial''\<rparr> else result)
         else
           (let result = (if 0 < downloaded then result\<lparr>ms_download_state := ''downloaded''\<rparr>
                          else if 0 < managed then result\<lparr>ms_download_state := ''downloading''\<rparr> else result) in
            if 0 < watched then result\<lparr>ms_watch_state := ''watched''\<rparr>
            else if 0 < started then result\<lparr>ms_watch_state := ''inProgress''\<rparr> else result)))"

definition aggregate_source_state :: "catalog_source list \<Rightarrow> media_state" where
  "aggregate_source_state sources = aggregate_media_states (map cs_library_state sources) False"

definition aggregate_episode_state :: "catalog_episode list \<Rightarrow> media_state" where
  "aggregate_episode_state episodes = aggregate_media_states (map ce_library_state episodes) True"

definition aggregate_season_state :: "catalog_season list \<Rightarrow> media_state" where
  "aggregate_season_state seasons = aggregate_media_states (map cn_library_state seasons) True"

definition sources_state :: "catalog_state_index \<Rightarrow> catalog_source list \<Rightarrow> media_state" where
  "sources_state ix sources =
     (let result = aggregate_source_state (map (\<lambda>s. s\<lparr>cs_library_state := source_state ix s\<rparr>) sources) in
      if ms_download_state result = ''none'' then
        foldl (\<lambda>st d. st\<lparr>ms_download_state := ''partial'', ms_download_id := dl_id d,
                        ms_progress := max (ms_progress st) (dl_progress d)\<rparr>) result
          (concat (map (\<lambda>s. downloads_by_release ix (rel_id (cs_release s))) sources))
      else result)"

text \<open>\<open>packSourceState\<close>: the files of one release among the episodes of a season.\<close>

definition pack_files :: "string \<Rightarrow> catalog_episode list \<Rightarrow> catalog_source list" where
  "pack_files release_id episodes =
     filter (\<lambda>s. rel_id (cs_release s) = release_id) (concat (map ce_sources episodes))"

definition file_weight :: "catalog_source \<Rightarrow> int" where
  "file_weight s = (if cs_file_size_bytes s \<le> 0 then 1 else cs_file_size_bytes s)"

definition pack_pick :: "rat \<Rightarrow> string \<Rightarrow> media_state \<Rightarrow> string" where
  "pack_pick progress ident st =
     (if ms_download_id st \<noteq> [] \<and> (ident = [] \<or> progress \<le> ms_progress st) then ms_download_id st else ident)"

definition pack_source_state :: "string \<Rightarrow> catalog_episode list \<Rightarrow> media_state" where
  "pack_source_state release_id episodes =
     (let files = pack_files release_id episodes; states = map cs_library_state files in
      if states = [] then empty_media_state
      else
        (let result = aggregate_media_states states True;
             ident = foldl (pack_pick (ms_progress result)) (ms_download_id result) states;
             total = sum_list (map file_weight files);
             weighted = sum_list (map (\<lambda>f. ms_progress (cs_library_state f) * of_int (file_weight f)) files);
             downloaded = how_many (\<lambda>s. ms_download_state s = ''downloaded'') states;
             failed = how_many (\<lambda>s. ms_download_state s = ''error'') states;
             downloading = how_many (\<lambda>s. ms_download_state s = ''downloading'') states;
             queued = how_many (\<lambda>s. ms_download_state s = ''queued'') states;
             managed = how_many (\<lambda>s. ms_download_state s \<in> {''downloaded'', ''error'', ''downloading'', ''queued'', ''partial''}) states;
             progress = (if 0 < total then weighted / of_int total else ms_progress result);
             phase = (if downloaded = length states then ''downloaded'' else if 0 < failed then ''error''
                      else if 0 < downloading then ''downloading'' else if 0 < queued then ''queued''
                      else if 0 < managed then ''partial'' else ''none'') in
         result\<lparr>ms_download_id := ident, ms_progress := progress, ms_download_state := phase\<rparr>))"

subsection \<open>Laying the state over a detail\<close>

definition with_state :: "(catalog_source \<Rightarrow> media_state) \<Rightarrow> catalog_source \<Rightarrow> catalog_source" where
  "with_state f s = s\<lparr>cs_library_state := f s\<rparr>"

definition episode_with_state :: "(catalog_source \<Rightarrow> media_state) \<Rightarrow> catalog_episode \<Rightarrow> catalog_episode" where
  "episode_with_state f e =
     (let sources = map (with_state f) (ce_sources e) in
      e\<lparr>ce_sources := sources, ce_library_state := aggregate_source_state sources\<rparr>)"

definition season_with_state :: "catalog_state_index \<Rightarrow> catalog_season \<Rightarrow> catalog_season" where
  "season_with_state ix cn =
     (let episodes = map (episode_with_state (source_state ix)) (cn_episodes cn);
          unknown = map (episode_with_state (source_state ix)) (cn_unknown cn);
          all = episodes @ unknown in
      cn\<lparr>cn_episodes := episodes, cn_unknown := unknown,
         cn_pack_sources := map (\<lambda>s. s\<lparr>cs_library_state := pack_source_state (rel_id (cs_release s)) all\<rparr>) (cn_pack_sources cn),
         cn_library_state := aggregate_episode_state all\<rparr>)"

definition blank_season :: "catalog_season \<Rightarrow> catalog_season" where
  "blank_season cn =
     (let blank = with_state (\<lambda>_. empty_media_state);
          clear = (\<lambda>e. e\<lparr>ce_library_state := empty_media_state, ce_sources := map blank (ce_sources e)\<rparr>) in
      cn\<lparr>cn_library_state := empty_media_state, cn_pack_sources := map blank (cn_pack_sources cn),
         cn_episodes := map clear (cn_episodes cn), cn_unknown := map clear (cn_unknown cn)\<rparr>)"

definition blank_detail :: "catalog_detail \<Rightarrow> catalog_detail" where
  "blank_detail d =
     (let blank = with_state (\<lambda>_. empty_media_state) in
      d\<lparr>cd_title := (cd_title d)\<lparr>ct_library_state := empty_media_state,
            ct_sources := map blank (ct_sources (cd_title d))\<rparr>,
        cd_sources := map blank (cd_sources d), cd_seasons := map blank_season (cd_seasons d)\<rparr>)"

definition apply_catalog_state :: "catalog_detail \<Rightarrow> world \<Rightarrow> catalog_detail \<times> world" where
  "apply_catalog_state d w =
     (let d = blank_detail d in
      case catalog_state w of
        (Inl _, w) \<Rightarrow> (d, w)
      | (Inr ix, w) \<Rightarrow>
          (let seasons = map (season_with_state ix) (cd_seasons d);
               sources = map (with_state (source_state ix)) (cd_sources d);
               title = (cd_title d)\<lparr>ct_sources := map (with_state (source_state ix)) (ct_sources (cd_title d))\<rparr>;
               title = title\<lparr>ct_library_state := (if ct_kind title = media_movie
                 then aggregate_source_state sources else aggregate_season_state seasons)\<rparr> in
           (d\<lparr>cd_title := title, cd_sources := sources, cd_seasons := seasons\<rparr>, w)))"

subsection \<open>What the states say\<close>

lemma how_many_all: "how_many p xs = length xs \<longleftrightarrow> list_all p xs"
  unfolding how_many_def list_all_iff by (metis filter_True length_filter_less less_irrefl)

lemma how_many_some: "0 < how_many p xs \<longleftrightarrow> list_ex p xs"
  by (induction xs) (auto simp: how_many_def)

lemma most_progress_keeps [simp]:
  "ms_download_state (most_progress r s) = ms_download_state r"
  "ms_watch_state (most_progress r s) = ms_watch_state r"
  by (simp_all add: most_progress_def Let_def)

lemma fold_progress_keeps [simp]:
  "ms_download_state (foldl most_progress r ss) = ms_download_state r"
  "ms_watch_state (foldl most_progress r ss) = ms_watch_state r"
  by (induction ss arbitrary: r) simp_all

lemma most_progress_max: "ms_progress (most_progress r s) = max (ms_progress r) (ms_progress s)"
  by (simp add: most_progress_def Let_def max_def)

text \<open>A whole is downloaded, or watched, exactly when it has parts and every part is.\<close>

lemma whole_downloaded:
  "ms_download_state (aggregate_media_states states True) = ''downloaded'' \<longleftrightarrow>
     states \<noteq> [] \<and> list_all (\<lambda>s. ms_download_state s = ''downloaded'') states"
  by (auto simp: aggregate_media_states_def Let_def how_many_all empty_media_state_def)

lemma whole_watched:
  "ms_watch_state (aggregate_media_states states True) = ''watched'' \<longleftrightarrow>
     states \<noteq> [] \<and> list_all (\<lambda>s. ms_watch_state s = ''watched'') states"
  by (auto simp: aggregate_media_states_def Let_def how_many_all empty_media_state_def)

text \<open>Of alternative sources one suffices.\<close>

lemma any_watched:
  "ms_watch_state (aggregate_media_states states False) = ''watched'' \<longleftrightarrow>
     list_ex (\<lambda>s. ms_watch_state s = ''watched'') states"
proof -
  have "0 < how_many (\<lambda>s. ms_watch_state s = ''watched'') states \<longleftrightarrow>
      list_ex (\<lambda>s. ms_watch_state s = ''watched'') states"
    by (rule how_many_some)
  then show ?thesis
    by (simp add: aggregate_media_states_def Let_def empty_media_state_def zero_media_state_def)
qed

end
