(* ===== verification/Catalog_Views.thy ===== *)
theory Catalog_Views
  imports Catalog_State Job_Queue
begin

text \<open>
  The catalog as it is answered: the query for the title ids of a page (\<open>sqlite/repository.go\<close>), the page of
  titles and the detail of one title (\<open>application/catalog.go\<close>), and the cached seasons of a provider.
  The categories of a family and the seasons of the provider are arguments; a cursor is the offset it
  encodes.
\<close>

subsection \<open>The query\<close>

definition blacklisted_names :: "string list" where
  "blacklisted_names = map cat_name (filter cat_default_blacklisted categories)"

text \<open>\<open>LIKE\<close> with an escaped pattern is containment, and ignores the case of ASCII letters.\<close>

definition like_contains :: "string \<Rightarrow> string \<Rightarrow> bool" where
  "like_contains text_value search = contains (to_lower text_value) (to_lower search)"

definition catalog_filter :: "catalog_query \<Rightarrow> catalog_source \<Rightarrow> bool" where
  "catalog_filter q s =
     (let r = cs_release s; p = cs_parsed s; search = trim_space (cq_search q) in
      0 < rel_seeders r \<and> \<not> rel_discovery_excluded r \<and>
      tracker_eligible_row (cq_tracker_i_ds q) r \<and> rel_category r \<notin> set blacklisted_names \<and>
      (search = [] \<or> like_contains (pr_title p) search \<or> like_contains (pr_episode_title p) search \<or>
         like_contains (rel_name r) search) \<and>
      text_ok (cq_category q) (rel_category r) \<and> text_ok (cq_kind q) (pr_kind p) \<and>
      text_ok (cq_resolution q) (pr_resolution p) \<and> text_ok (cq_hdr q) (pr_hdr p) \<and>
      text_ok (cq_quality q) (pr_quality p) \<and> text_ok (cq_codec q) (pr_video_codec p) \<and>
      (cq_categories q = [] \<or> contains_fold (cq_categories q) (rel_category r)) \<and>
      (0 < cq_min_seeders q \<longrightarrow> cq_min_seeders q \<le> rel_seeders r) \<and>
      flag_ok (cq_freeleech q) (rel_freeleech r) \<and> flag_ok (cq_internal q) (rel_internal r) \<and>
      flag_ok (cq_moderated q) (rel_moderated r))"

record title_row =
  tw_id :: string
  tw_newest :: int
  tw_sort :: string
  tw_seeders :: int
  tw_bytes :: int
  tw_rating :: rat

definition min_text :: "string \<Rightarrow> string \<Rightarrow> string" where
  "min_text a b = (if str_less b a then b else a)"

definition title_row_of :: "catalog_metadata list \<Rightarrow> catalog_source list \<Rightarrow> string \<Rightarrow> title_row" where
  "title_row_of metadata sources tid =
     (let own = sources_for_title sources tid; one = hd own in
      \<lparr>tw_id = tid,
       tw_newest = foldl (\<lambda>a s. max a (uploaded_seconds (cs_release s))) (uploaded_seconds (cs_release one)) own,
       tw_sort = foldl (\<lambda>a s. min_text a (pr_sort_title (cs_parsed s))) (pr_sort_title (cs_parsed one)) own,
       tw_seeders = foldl (\<lambda>a s. max a (rel_seeders (cs_release s))) (rel_seeders (cs_release one)) own,
       tw_bytes = foldl (\<lambda>a s. max a (rel_size_bytes (cs_release s))) (rel_size_bytes (cs_release one)) own,
       tw_rating = (case row_of cm_title_id tid metadata of Some m \<Rightarrow> cm_rating m | None \<Rightarrow> 0)\<rparr>)"

text \<open>The orders of a page; ties are broken by the title id.\<close>

definition row_before :: "string \<Rightarrow> title_row \<Rightarrow> title_row \<Rightarrow> bool" where
  "row_before order a b =
     (let up = str_less (tw_id a) (tw_id b); down = str_less (tw_id b) (tw_id a);
          rated = (0 < tw_rating a); other_rated = (0 < tw_rating b) in
      if order = ''oldest'' then tw_newest a < tw_newest b \<or> (tw_newest a = tw_newest b \<and> up)
      else if order = ''title'' \<or> order = ''title-asc'' then
        str_less (tw_sort a) (tw_sort b) \<or> (tw_sort a = tw_sort b \<and> up)
      else if order = ''title-desc'' then
        str_less (tw_sort b) (tw_sort a) \<or> (tw_sort a = tw_sort b \<and> down)
      else if order = ''seeders'' then tw_seeders b < tw_seeders a \<or> (tw_seeders a = tw_seeders b \<and> up)
      else if order = ''size'' then tw_bytes b < tw_bytes a \<or> (tw_bytes a = tw_bytes b \<and> up)
      else if order = ''rating'' \<or> order = ''rating-desc'' \<or> order = ''rating-asc'' then
        (if rated \<noteq> other_rated then rated
         else if tw_rating a \<noteq> tw_rating b then
           (if order = ''rating-asc'' then tw_rating a < tw_rating b else tw_rating b < tw_rating a)
         else up)
      else tw_newest b < tw_newest a \<or> (tw_newest a = tw_newest b \<and> down))"

record 'a page =
  page_items :: "'a list"
  page_next :: "int option"
  page_total :: int

definition page_limit :: "int \<Rightarrow> int" where
  "page_limit n = (if n < 1 \<or> 100 < n then 24 else n)"

definition page_offset :: "int \<Rightarrow> int" where
  "page_offset n = (if n < 0 then 0 else n)"

definition joined_rows :: "world \<Rightarrow> catalog_source list" where
  "joined_rows w = concat (map (\<lambda>r. case map_of (w_titles w) (rel_id r) of
     Some tid \<Rightarrow> [stored_source r tid] | None \<Rightarrow> []) (w_releases w))"

definition title_page :: "catalog_query \<Rightarrow> world \<Rightarrow> string page" where
  "title_page q w =
     (let sources = filter (catalog_filter q) (joined_rows w); ids = ids_in_order sources;
          rows = sort_by (row_before (cq_sort q)) (map (title_row_of (w_metadata w) sources) ids);
          start = page_offset (cq_offset q);
          items = map tw_id (take (nat (page_limit (cq_limit q))) (drop (nat start) rows)) in
      \<lparr>page_items = items,
       page_next = (if start + int (length items) < int (length ids)
                    then Some (start + int (length items)) else None),
       page_total = int (length ids)\<rparr>)"

text \<open>Two statements, each of which may fail.\<close>

definition query_title_ids :: "catalog_query \<Rightarrow> world \<Rightarrow> (svc_error + string page) \<times> world" where
  "query_title_ids q w = (case attempt w of
     (Some e, w) \<Rightarrow> (Inl (Repo_Error e), w)
   | (None, w) \<Rightarrow> (case attempt w of
        (Some e, w) \<Rightarrow> (Inl (Repo_Error e), w) | (None, w) \<Rightarrow> (Inr (title_page q w), w)))"

subsection \<open>The page of titles\<close>

fun dress_titles :: "catalog_title list \<Rightarrow> world \<Rightarrow> catalog_title list \<times> world" where
  "dress_titles [] w = ([], w)"
| "dress_titles (t # ts) w =
     (let (t, w) = apply_metadata_only t w; (ts, w) = dress_titles ts w in
      (t\<lparr>ct_library_state := empty_media_state\<rparr> # ts, w))"

definition catalog_titles ::
    "(string \<Rightarrow> world \<Rightarrow> (svc_error + string list) \<times> world) \<Rightarrow> catalog_query \<Rightarrow> world \<Rightarrow>
     (svc_error + catalog_title page) \<times> world" where
  "catalog_titles family_categories q w =
     (let q = (if cq_tracker_i_ds q = [] then q\<lparr>cq_tracker_i_ds := eligible_trackers w\<rparr> else q);
          run = (\<lambda>q w. case query_title_ids q w of
              (Inl e, w) \<Rightarrow> (Inl e, w)
            | (Inr ids, w) \<Rightarrow>
                (case sources_by_title_ids (page_items ids) (cq_tracker_i_ds q) w of
                   (Inl e, w) \<Rightarrow> (Inl e, w)
                 | (Inr sources, w) \<Rightarrow>
                     (let (grouped, w) = dress_titles (group_catalog sources False) w;
                          (state, w) = catalog_state w;
                          grouped = (case state of
                            Inl _ \<Rightarrow> grouped
                          | Inr ix \<Rightarrow> map (\<lambda>t. t\<lparr>ct_library_state :=
                              sources_state ix (sources_for_title sources (ct_id t))\<rparr>) grouped);
                          items = concat (map (\<lambda>i. case List.find (\<lambda>t. ct_id t = i) grouped of
                              Some t \<Rightarrow> [t] | None \<Rightarrow> []) (page_items ids)) in
                      (Inr \<lparr>page_items = items, page_next = page_next ids, page_total = page_total ids\<rparr>, w)))) in
      if cq_family q \<noteq> [] then
        (case family_categories (cq_family q) w of
           (Inl e, w) \<Rightarrow> (Inl e, w)
         | (Inr cs, w) \<Rightarrow>
             if cs = [] then (Inr \<lparr>page_items = [], page_next = None, page_total = 0\<rparr>, w)
             else run (q\<lparr>cq_categories := cs\<rparr>) w)
      else run q w)"

subsection \<open>The detail of a title\<close>

definition managed_title_ids :: "download list \<Rightarrow> world \<Rightarrow> (svc_error + (string \<times> string) list) \<times> world" where
  "managed_title_ids ds w =
     title_ids_for (map dl_release_id (filter (\<lambda>d. dl_release_id d \<noteq> []) ds)) w"

text \<open>Downloaded releases of the title that no eligible tracker lists any more.\<close>

fun extra_sources ::
    "string \<Rightarrow> (string \<times> string) list \<Rightarrow> download list \<Rightarrow> string list \<Rightarrow> world \<Rightarrow> catalog_source list \<times> world" where
  "extra_sources tid titles [] seen w = ([], w)"
| "extra_sources tid titles (d # ds) seen w =
     (let own = (case map_of titles (dl_release_id d) of Some t \<Rightarrow> t | None \<Rightarrow> []) in
      if own = tid \<and> dl_release_id d \<notin> set seen then
        (case get_release (dl_release_id d) w of
           (Inl _, w) \<Rightarrow> extra_sources tid titles ds (dl_release_id d # seen) w
         | (Inr r, w) \<Rightarrow>
             (let (rest, w) = extra_sources tid titles ds (dl_release_id d # seen) w in
              ((stored_source r own)\<lparr>cs_parsed := parse_release r\<rparr> # rest, w)))
      else extra_sources tid titles ds seen w)"

text \<open>The manifest of a pack, taken from the engine of a download when it is not cached.\<close>

definition cached_manifest :: "string \<Rightarrow> world \<Rightarrow> (svc_error + torrent_manifest) \<times> world" where
  "cached_manifest rid w = (case attempt w of
     (Some e, w') \<Rightarrow> (Inl (Repo_Error e), w')
   | (None, w') \<Rightarrow> (case row_of man_release_id rid (w_manifests w') of
        None \<Rightarrow> (Inl No_Rows, w') | Some m \<Rightarrow> (Inr m, w')))"

fun engine_manifest :: "string \<Rightarrow> download list \<Rightarrow> world \<Rightarrow> (svc_error + torrent_manifest) \<times> world" where
  "engine_manifest rid [] w = (Inl No_Rows, w)"
| "engine_manifest rid (d # ds) w =
     (if dl_release_id d \<noteq> rid then engine_manifest rid ds w
      else (case owner w (dl_engine_id d) of
              None \<Rightarrow> engine_manifest rid ds w
            | Some (_, hash) \<Rightarrow>
                (case route_files (dl_engine_id d) hash w of
                   (Inl _, w) \<Rightarrow> engine_manifest rid ds w
                 | (Inr files, w) \<Rightarrow>
                     if files = [] then engine_manifest rid ds w
                     else
                       (let m = zero_torrent_manifest\<lparr>man_release_id := rid, man_files := files,
                              man_fetched_at := now_of w\<rparr> in
                        case attempt w of
                          (Some e, w') \<Rightarrow> (Inl (Repo_Error e), w')
                        | (None, w') \<Rightarrow>
                            (Inr m, w'\<lparr>w_manifests := upsert man_release_id (stored_manifest m (now_of w)) (w_manifests w')\<rparr>)))))"

definition catalog_torrent_manifest :: "string \<Rightarrow> world \<Rightarrow> (svc_error + torrent_manifest) \<times> world" where
  "catalog_torrent_manifest rid w =
     (case cached_manifest rid w of
        (Inr m, w) \<Rightarrow> (Inr m, w)
      | (Inl No_Rows, w) \<Rightarrow>
          (case default_engine (w_set w) of
             None \<Rightarrow> (Inl No_Rows, w)
           | Some _ \<Rightarrow>
               (case list_downloads w of
                  (Inl e, w) \<Rightarrow> (Inl e, w) | (Inr ds, w) \<Rightarrow> engine_manifest rid ds w))
      | (Inl e, w) \<Rightarrow> (Inl e, w))"

definition apply_cached_metadata :: "catalog_title \<Rightarrow> server \<Rightarrow> catalog_title \<times> server" where
  "apply_cached_metadata t sv =
     (case get_catalog_metadata (ct_id t) (sv_world sv) of
        (r, w) \<Rightarrow>
          (let sv = with_world sv w;
               t' = (case r of Inr m \<Rightarrow> apply_metadata t m | Inl _ \<Rightarrow> t);
               wanted = (case r of Inr m \<Rightarrow> \<not> now_of w < cm_expires_at m | Inl e \<Rightarrow> e = No_Rows) in
           if wanted \<and> sv_provider sv \<and> ct_imdb t' \<noteq> [] then (t', snd (ensure_metadata [ct_id t'] False sv))
           else (t', sv)))"

record episode_table =
  et_episodes :: episode_groups
  et_packs :: "(int \<times> catalog_source list) list"

definition pack_seasons :: "parsed_release \<Rightarrow> int list" where
  "pack_seasons p =
     (if pr_season_start p = 0 then [1]
      else [pr_season_start p .. max (pr_season_start p) (pr_season_end p)])"

definition episode_key :: "catalog_source \<Rightarrow> int \<times> int" where
  "episode_key s = (pr_season_start (cs_parsed s), pr_episode_start (cs_parsed s))"

definition pack_episodes :: "catalog_source \<Rightarrow> torrent_file list \<Rightarrow> catalog_source list" where
  "pack_episodes source files =
     concat (map (\<lambda>f. if tf_playable f
       then (case episode_source source f of Some v \<Rightarrow> [v] | None \<Rightarrow> []) else []) files)"

definition file_source :: "catalog_source \<Rightarrow> episode_table \<times> world \<Rightarrow> episode_table \<times> world" where
  "file_source source st =
     (let (tb, w) = st; p = cs_parsed source in
      if 0 < pr_episode_start p then
        (tb\<lparr>et_episodes := multi_add (episode_key source) [source] (et_episodes tb)\<rparr>, w)
      else
        (let (virtual, w) =
               (if 1 < rel_file_count (cs_release source) then
                  (case catalog_torrent_manifest (rel_id (cs_release source)) w of
                     (Inl _, w) \<Rightarrow> ([], w)
                   | (Inr m, w) \<Rightarrow> (pack_episodes source (man_files m), w))
                else ([], w)) in
         (tb\<lparr>et_episodes := fold (\<lambda>v. multi_add (episode_key v) [v]) virtual (et_episodes tb),
             et_packs := fold (\<lambda>n. multi_add n [source]) (pack_seasons p) (et_packs tb)\<rparr>, w)))"

definition catalog_detail_of ::
    "(catalog_title \<Rightarrow> server \<Rightarrow> series_seasons option \<times> server) \<Rightarrow> string \<Rightarrow> server \<Rightarrow>
     (job_error + catalog_detail) \<times> server" where
  "catalog_detail_of provider_seasons tid sv =
     (case sources_by_title_ids [tid] (eligible_trackers (sv_world sv)) (sv_world sv) of
        (Inl e, w) \<Rightarrow> (Inl (Job_Svc e), with_world sv w)
      | (Inr matched, w) \<Rightarrow>
      case list_downloads w of
        (Inl e, w) \<Rightarrow> (Inl (Job_Svc e), with_world sv w)
      | (Inr ds, w) \<Rightarrow>
      case managed_title_ids ds w of
        (Inl e, w) \<Rightarrow> (Inl (Job_Svc e), with_world sv w)
      | (Inr titles, w) \<Rightarrow>
          (let (extra, w) = extra_sources tid titles ds (map (\<lambda>s. rel_id (cs_release s)) matched) w;
               sources = matched @ extra; sv = with_world sv w in
           if sources = [] then (Inl (Refused ''catalog title not found''), sv)
           else
             (let title = hd (group_catalog sources True);
                  title = title\<lparr>ct_trackers := filter (\<lambda>t. tr_id t \<in> set (eligible_trackers w)) (ct_trackers title)\<rparr>;
                  (title, sv) = apply_cached_metadata title sv in
              if ct_kind title = media_movie then
                (let (d, w) = apply_catalog_state \<lparr>cd_title = title, cd_seasons = [], cd_sources = sources\<rparr> (sv_world sv) in
                 (Inr d, with_world sv w))
              else
                (let (tb, w) = fold file_source sources (\<lparr>et_episodes = [], et_packs = []\<rparr>, sv_world sv);
                     (provider, sv) = (if ct_kind title = media_series \<and> sv_provider sv
                        then provider_seasons title (with_world sv w) else (None, with_world sv w));
                     (d, w) = apply_catalog_state \<lparr>cd_title = title,
                        cd_seasons = build_seasons (et_episodes tb) (et_packs tb) provider, cd_sources = []\<rparr> (sv_world sv) in
                 (Inr d, with_world sv w)))))"

subsection \<open>Paging\<close>

lemma page_limit_pos: "1 \<le> page_limit n \<and> page_limit n \<le> 100"
  by (simp add: page_limit_def)

text \<open>The rows of a query, in order, before they are cut into pages.\<close>

definition title_rows :: "catalog_query \<Rightarrow> world \<Rightarrow> string list" where
  "title_rows q w = map tw_id (sort_by (row_before (cq_sort q)) (map (title_row_of (w_metadata w)
     (filter (catalog_filter q) (joined_rows w))) (ids_in_order (filter (catalog_filter q) (joined_rows w)))))"

lemma title_page_slice:
  "page_items (title_page q w) =
     take (nat (page_limit (cq_limit q))) (drop (nat (page_offset (cq_offset q))) (title_rows q w)) \<and>
   page_total (title_page q w) = int (length (title_rows q w))"
  by (simp add: title_page_def title_rows_def Let_def take_map drop_map)

lemma title_rows_set: "mset (title_rows q w) = mset (ids_in_order (filter (catalog_filter q) (joined_rows w)))"
proof -
  have "tw_id (title_row_of m ss t) = t" for m ss t by (simp add: title_row_of_def Let_def)
  then show ?thesis by (simp add: title_rows_def image_mset.compositionality comp_def)
qed

lemma title_rows_distinct: "distinct (title_rows q w)"
  by (metis title_rows_set ids_in_order_facts mset_eq_imp_distinct_iff)

text \<open>A cursor moves on by at least one title, and stops exactly at the end.\<close>

lemma title_page_advances:
  assumes "page_next (title_page q w) = Some n"
  shows "page_offset (cq_offset q) < n \<and> n < page_total (title_page q w) \<and>
    n = page_offset (cq_offset q) + page_limit (cq_limit q)"
proof -
  define rows where "rows = title_rows q w"
  define o1 where "o1 = page_offset (cq_offset q)"
  define l where "l = page_limit (cq_limit q)"
  have pos: "0 \<le> o1" "1 \<le> l" using page_limit_pos by (simp_all add: o1_def l_def page_offset_def)
  have "n = o1 + int (length (page_items (title_page q w))) \<and> n < page_total (title_page q w)"
    using assms by (simp add: title_page_def Let_def o1_def split: if_splits)
  moreover have "length (page_items (title_page q w)) = min (nat l) (length rows - nat o1)"
    by (simp add: title_page_slice rows_def o1_def l_def)
  moreover have "page_total (title_page q w) = int (length rows)" by (simp add: title_page_slice rows_def)
  ultimately show ?thesis using pos unfolding o1_def [symmetric] l_def [symmetric] by linarith
qed

end
