(* ===== verification/Household.thy ===== *)
theory Household
  imports Catalog_Views
begin

text \<open>
  What the household watches (\<open>service.go\<close>: playback positions and preferences, favorites and the
  household state; the library built from it is in Families).  Positions are \<open>int64\<close> milliseconds
  that a client sends; the comparison with the threshold multiplies them, so it is written with its
  wrap-around.
\<close>

subsection \<open>Rows\<close>

definition get_playback :: "string \<Rightarrow> world \<Rightarrow> (svc_error + playback_state) \<times> world" where
  "get_playback source w = (case attempt w of
     (Some e, w') \<Rightarrow> (Inl (Repo_Error e), w')
   | (None, w') \<Rightarrow>
       (case row_of (\<lambda>p. (pb_profile_id p, pb_source_id p)) (household_profile, source) (w_playback w') of
          None \<Rightarrow> (Inl No_Rows, w') | Some p \<Rightarrow> (Inr p, w')))"

definition save_playback :: "playback_state \<Rightarrow> world \<Rightarrow> svc_error option \<times> world" where
  "save_playback p w = (case attempt w of
     (Some e, w') \<Rightarrow> (Some (Repo_Error e), w')
   | (None, w') \<Rightarrow> (None, w'\<lparr>w_playback := upsert (\<lambda>p. (pb_profile_id p, pb_source_id p))
       (p\<lparr>pb_updated_at := unix_seconds (pb_updated_at p)\<rparr>) (w_playback w')\<rparr>))"

definition get_preferences :: "string \<Rightarrow> world \<Rightarrow> (svc_error + playback_preferences) \<times> world" where
  "get_preferences source w = (case attempt w of
     (Some e, w') \<Rightarrow> (Inl (Repo_Error e), w')
   | (None, w') \<Rightarrow>
       (case row_of (\<lambda>p. (pp_profile_id p, pp_source_id p)) (household_profile, source) (w_preferences w') of
          None \<Rightarrow> (Inl No_Rows, w') | Some p \<Rightarrow> (Inr p, w')))"

definition save_preferences :: "playback_preferences \<Rightarrow> world \<Rightarrow> svc_error option \<times> world" where
  "save_preferences p w = (case attempt w of
     (Some e, w') \<Rightarrow> (Some (Repo_Error e), w')
   | (None, w') \<Rightarrow> (None, w'\<lparr>w_preferences := upsert (\<lambda>p. (pp_profile_id p, pp_source_id p))
       (p\<lparr>pp_updated_at := unix_seconds (pp_updated_at p)\<rparr>) (w_preferences w')\<rparr>))"

definition write_favorite :: "string \<Rightarrow> bool \<Rightarrow> world \<Rightarrow> svc_error option \<times> world" where
  "write_favorite title_id wanted w = (case attempt w of
     (Some e, w') \<Rightarrow> (Some (Repo_Error e), w')
   | (None, w') \<Rightarrow>
       (let same = (\<lambda>f. fav_profile_id f = household_profile \<and> fav_title_id f = title_id) in
        (None, w'\<lparr>w_favorites :=
           (if \<not> wanted then filter (\<lambda>f. \<not> same f) (w_favorites w')
            else if list_ex same (w_favorites w') then w_favorites w'
            else w_favorites w' @ [\<lparr>fav_profile_id = household_profile, fav_title_id = title_id,
                   fav_release_id = title_id, fav_created_at = unix_seconds (now_of w)\<rparr>])\<rparr>)))"

subsection \<open>Preferences\<close>

definition playback_preferences_of :: "string \<Rightarrow> world \<Rightarrow> (svc_error + playback_preferences) \<times> world" where
  "playback_preferences_of source w =
     (case get_preferences source w of
        (Inl No_Rows, w) \<Rightarrow>
          (Inr (zero_playback_preferences\<lparr>pp_profile_id := household_profile, pp_source_id := source,
             pp_audio_language := st_preferred_audio_language (w_settings w), pp_audio_track_index := - 1,
             pp_subtitle_language := st_preferred_subtitle_language (w_settings w),
             pp_subtitle_mode := ''auto''\<rparr>), w)
      | (r, w) \<Rightarrow> (r, w))"

definition clean_preferences :: "settings \<Rightarrow> playback_preferences \<Rightarrow> playback_preferences" where
  "clean_preferences st v =
     (let tidy = (\<lambda>s. to_lower (trim_space s));
          v = v\<lparr>pp_audio_language := tidy (pp_audio_language v), pp_subtitle_language := tidy (pp_subtitle_language v),
                pp_subtitle_provider := tidy (pp_subtitle_provider v),
                pp_subtitle_candidate_id := trim_space (pp_subtitle_candidate_id v),
                pp_subtitle_mode := tidy (pp_subtitle_mode v)\<rparr>;
          v = (if pp_audio_language v = [] then v\<lparr>pp_audio_language := st_preferred_audio_language st\<rparr> else v);
          v = (if pp_subtitle_language v = [] then v\<lparr>pp_subtitle_language := st_preferred_subtitle_language st\<rparr> else v) in
      if pp_subtitle_mode v = [] then v\<lparr>pp_subtitle_mode := ''auto''\<rparr> else v)"

definition preferences_error :: "playback_preferences \<Rightarrow> string option" where
  "preferences_error v =
     (if pp_audio_track_index v < - 1 then Some ''audioTrackIndex cannot be below -1''
      else if pp_subtitle_mode v \<notin> {''auto'', ''off'', ''selected''} then
        Some ''subtitleMode must be auto, off, or selected''
      else if pp_subtitle_mode v = ''selected'' \<and>
              (pp_subtitle_provider v = [] \<or> pp_subtitle_candidate_id v = []) then
        Some ''selected subtitles require provider and candidate id''
      else None)"

definition update_preferences ::
    "string \<Rightarrow> playback_preferences \<Rightarrow> world \<Rightarrow> (job_error + playback_preferences) \<times> world" where
  "update_preferences source v w =
     (case get_download source w of
        (Inl e, w) \<Rightarrow> (Inl (Job_Svc e), w)
      | (Inr _, w) \<Rightarrow>
          (let v = clean_preferences (w_settings w) v in
           case preferences_error v of
             Some m \<Rightarrow> (Inl (Refused m), w)
           | None \<Rightarrow>
               (let v = v\<lparr>pp_profile_id := household_profile, pp_source_id := source, pp_updated_at := now_of w\<rparr> in
                case save_preferences v w of
                  (Some e, w) \<Rightarrow> (Inl (Job_Svc e), w) | (None, w) \<Rightarrow> (Inr v, w))))"

subsection \<open>Positions\<close>

definition watch_rule :: "int \<Rightarrow> int \<Rightarrow> int \<Rightarrow> bool \<Rightarrow> bool" where
  "watch_rule threshold position duration watched =
     (if 0 < duration \<and> i64 (duration * threshold) \<le> i64 (position * 100) then True
      else if watched \<and> 0 < position \<and> 0 < duration \<and> i64 (position * 200) < i64 (duration * threshold) then False
      else watched)"

definition update_playback ::
    "string \<Rightarrow> int \<Rightarrow> int \<Rightarrow> world \<Rightarrow> (job_error + playback_state) \<times> world" where
  "update_playback source position duration w =
     (if position < 0 \<or> duration < 0 then (Inl (Refused ''positionMs and durationMs cannot be negative''), w)
      else
        (let position = (if 0 < duration \<and> duration < position then duration else position) in
         case get_download source w of
           (Inl e, w) \<Rightarrow> (Inl (Job_Svc e), w)
         | (Inr d, w) \<Rightarrow>
             (case get_playback source w of
                (r, w) \<Rightarrow>
                  (if (case r of Inl e \<Rightarrow> e \<noteq> No_Rows | Inr _ \<Rightarrow> False)
                   then (Inl (Job_Svc (case r of Inl e \<Rightarrow> e | Inr _ \<Rightarrow> No_Rows)), w)
                   else
                     (let p = (case r of Inr p \<Rightarrow> p | Inl _ \<Rightarrow> zero_playback_state);
                          p = p\<lparr>pb_profile_id := household_profile, pb_source_id := source,
                                pb_release_id := dl_release_id d, pb_file_index := dl_file_index d,
                                pb_file_path := dl_file_path d, pb_position_ms := position,
                                pb_duration_ms := duration,
                                pb_watched := watch_rule (st_watched_threshold_percent (w_settings w))
                                  position duration (pb_watched p),
                                pb_updated_at := now_of w\<rparr> in
                      case save_playback p w of
                        (Some e, w) \<Rightarrow> (Inl (Job_Svc e), w) | (None, w) \<Rightarrow> (Inr p, w))))))"

definition set_watched :: "string \<Rightarrow> bool \<Rightarrow> world \<Rightarrow> (svc_error + playback_state) \<times> world" where
  "set_watched source watched w =
     (let finish = (\<lambda>p w.
        (let p = p\<lparr>pb_watched := watched\<rparr>;
             p = (if watched \<and> 0 < pb_duration_ms p then p\<lparr>pb_position_ms := pb_duration_ms p\<rparr> else p);
             p = (if \<not> watched then p\<lparr>pb_position_ms := 0\<rparr> else p);
             p = p\<lparr>pb_updated_at := now_of w\<rparr> in
         case save_playback p w of (Some e, w) \<Rightarrow> (Inl e, w) | (None, w) \<Rightarrow> (Inr p, w))) in
      case get_playback source w of
        (Inr p, w) \<Rightarrow> finish p w
      | (Inl No_Rows, w) \<Rightarrow>
          (case get_download source w of
             (Inl e, w) \<Rightarrow> (Inl e, w)
           | (Inr d, w) \<Rightarrow> finish (zero_playback_state\<lparr>pb_profile_id := household_profile,
               pb_source_id := source, pb_release_id := dl_release_id d, pb_file_index := dl_file_index d,
               pb_file_path := dl_file_path d\<rparr>) w)
      | (Inl e, w) \<Rightarrow> (Inl e, w))"

subsection \<open>Favorites\<close>

definition set_favorite :: "(string \<Rightarrow> string) \<Rightarrow> string \<Rightarrow> bool \<Rightarrow> world \<Rightarrow> svc_error option \<times> world" where
  "set_favorite sha release_id wanted w =
     (case title_ids_for [release_id] w of
        (Inl e, w) \<Rightarrow> (Some e, w)
      | (Inr titles, w) \<Rightarrow>
          (let own = (case map_of titles release_id of Some t \<Rightarrow> t | None \<Rightarrow> []) in
           if own \<noteq> [] then write_favorite own wanted w
           else (case get_release release_id w of
                   (Inl e, w) \<Rightarrow> (Some e, w)
                 | (Inr r, w) \<Rightarrow> write_favorite (catalog_title_id sha r (parse_release r)) wanted w)))"

definition set_title_favorite :: "string \<Rightarrow> bool \<Rightarrow> world \<Rightarrow> svc_error option \<times> world" where
  "set_title_favorite title_id wanted w =
     (case sources_by_title_ids [title_id] (eligible_trackers w) w of
        (Inl e, w) \<Rightarrow> (Some e, w)
      | (Inr sources, w) \<Rightarrow>
          if sources \<noteq> [] then write_favorite title_id wanted w
          else (case list_downloads w of
                  (Inl e, w) \<Rightarrow> (Some e, w)
                | (Inr ds, w) \<Rightarrow>
                    (case managed_title_ids ds w of
                       (Inl e, w) \<Rightarrow> (Some e, w)
                     | (Inr titles, w) \<Rightarrow>
                         if list_ex (\<lambda>d. (case map_of titles (dl_release_id d) of Some t \<Rightarrow> t | None \<Rightarrow> []) = title_id) ds
                         then write_favorite title_id wanted w else (Some No_Rows, w))))"

subsection \<open>The household state\<close>

definition better_household_download :: "download \<Rightarrow> download \<Rightarrow> bool" where
  "better_household_download candidate current =
     (if (1 \<le> dl_progress candidate) \<noteq> (1 \<le> dl_progress current) then 1 \<le> dl_progress candidate
      else dl_updated_at current < dl_updated_at candidate)"

definition household_item_of ::
    "playback_state \<Rightarrow> bool \<Rightarrow> catalog_source list \<Rightarrow> string \<Rightarrow> catalog_state_index option \<Rightarrow> server \<Rightarrow>
     household_item option \<times> server" where
  "household_item_of p favorite sources title_id library sv =
     (case get_release (pb_release_id p) (sv_world sv) of
        (Inl _, w) \<Rightarrow> (None, with_world sv w)
      | (Inr r, w) \<Rightarrow>
          (let parsed = parse_release r; sv = with_world sv w;
               base = zero_catalog_source\<lparr>cs_release := r, cs_parsed := parsed\<rparr>;
               file = zero_torrent_file\<lparr>tf_index := pb_file_index p, tf_path := pb_file_path p, tf_playable := True\<rparr>;
               numbers = (if pr_kind parsed = media_series \<and> pb_file_path p \<noteq> [] then
                  (case episode_source base file of
                     Some e \<Rightarrow> episode_key e | None \<Rightarrow> (pr_season_start parsed, pr_episode_start parsed))
                 else (pr_season_start parsed, pr_episode_start parsed));
               item = zero_household_item\<lparr>hi_release := r, hi_playback_state := p, hi_favorite := favorite,
                 hi_title_id := title_id, hi_season_number := fst numbers, hi_episode_number := snd numbers\<rparr> in
           if sources = [] then (Some item, sv)
           else
             (let (title, sv) = apply_cached_metadata (hd (group_catalog sources False)) sv;
                  title = (case library of
                    None \<Rightarrow> title | Some ix \<Rightarrow> title\<lparr>ct_library_state := sources_state ix sources\<rparr>) in
              (Some (item\<lparr>hi_catalog := Some title, hi_title_id := ct_id title\<rparr>), sv))))"

definition item_key :: "household_item \<Rightarrow> string" where
  "item_key item =
     (if hi_title_id item \<noteq> [] then hi_title_id item
      else (case hi_catalog item of
              Some t \<Rightarrow> if ct_id t \<noteq> [] then ct_id t
                        else if pb_source_id (hi_playback_state item) \<noteq> [] then pb_source_id (hi_playback_state item)
                        else rel_id (hi_release item)
            | None \<Rightarrow> if pb_source_id (hi_playback_state item) \<noteq> [] then pb_source_id (hi_playback_state item)
                       else rel_id (hi_release item)))"

text \<open>A list of the state takes an item when it has room and none of its key.\<close>

definition take_item :: "nat \<Rightarrow> household_item \<Rightarrow> household_item list \<Rightarrow> household_item list" where
  "take_item cap item items =
     (if length items < cap \<and> item_key item \<notin> item_key ` set items then items @ [item] else items)"

definition no_list_wants :: "household_state \<Rightarrow> playback_state \<Rightarrow> bool" where
  "no_list_wants st p =
     (30 \<le> length (hs_recent st) \<and> (\<not> pb_watched p \<or> 50 \<le> length (hs_watched st)) \<and>
      (pb_watched p \<or> pb_position_ms p \<le> 0 \<or> 50 \<le> length (hs_continue_watching st)))"

definition file_item :: "playback_state \<Rightarrow> household_item \<Rightarrow> household_state \<Rightarrow> household_state" where
  "file_item p item st =
     (let st = st\<lparr>hs_recent := take_item 30 item (hs_recent st)\<rparr>;
          st = (if pb_watched p then st\<lparr>hs_watched := take_item 50 item (hs_watched st)\<rparr> else st) in
      if \<not> pb_watched p \<and> 0 < pb_position_ms p
      then st\<lparr>hs_continue_watching := take_item 50 item (hs_continue_watching st)\<rparr> else st)"

definition text_of :: "(string \<times> string) list \<Rightarrow> string \<Rightarrow> string" where
  "text_of m k = (case map_of m k of Some v \<Rightarrow> v | None \<Rightarrow> [])"

fun file_playback ::
    "(string \<times> string) list \<Rightarrow> (string \<Rightarrow> catalog_source list) \<Rightarrow> catalog_state_index option \<Rightarrow>
     playback_state list \<Rightarrow> household_state \<Rightarrow> server \<Rightarrow> household_state \<times> server" where
  "file_playback titles sources library [] st sv = (st, sv)"
| "file_playback titles sources library (p # ps) st sv =
     (if no_list_wants st p then file_playback titles sources library ps st sv
      else
        (let tid = text_of titles (pb_release_id p) in
         case household_item_of p False (sources tid) tid library sv of
           (None, sv) \<Rightarrow> file_playback titles sources library ps st sv
         | (Some item, sv) \<Rightarrow> file_playback titles sources library ps (file_item p item st) sv))"

text \<open>The download that stands for a title: a complete one before others, then the latest.\<close>

definition title_download :: "(string \<times> string) list \<Rightarrow> download list \<Rightarrow> string \<Rightarrow> download option" where
  "title_download titles ds tid =
     foldl (\<lambda>best d. case best of
         None \<Rightarrow> Some d | Some b \<Rightarrow> if better_household_download d b then Some d else best) None
       (filter (\<lambda>d. tid \<noteq> [] \<and> text_of titles (dl_release_id d) = tid) ds)"

definition favorite_playback ::
    "(string \<times> string) list \<Rightarrow> playback_state list \<Rightarrow> download list \<Rightarrow> catalog_source list \<Rightarrow> string \<Rightarrow>
     playback_state" where
  "favorite_playback titles playback ds sources tid =
     (let latest = List.find (\<lambda>p. tid \<noteq> [] \<and> text_of titles (pb_release_id p) = tid) playback;
          kept = (case latest of Some p \<Rightarrow> list_ex (\<lambda>d. dl_id d = pb_source_id p) ds | None \<Rightarrow> False) in
      case title_download titles ds tid of
        Some d \<Rightarrow>
          if latest = None \<or> \<not> kept then
            (case List.find (\<lambda>p. pb_source_id p = dl_id d) (rev playback) of
               Some saved \<Rightarrow> saved
             | None \<Rightarrow> zero_playback_state\<lparr>pb_profile_id := household_profile, pb_source_id := dl_id d,
                 pb_release_id := dl_release_id d, pb_file_index := dl_file_index d, pb_file_path := dl_file_path d\<rparr>)
          else the latest
      | None \<Rightarrow>
          (case latest of
             Some p \<Rightarrow> p
           | None \<Rightarrow> zero_playback_state\<lparr>pb_profile_id := household_profile,
               pb_release_id := rel_id (cs_release (hd sources)), pb_file_index := - 1\<rparr>))"

fun file_favorites ::
    "(string \<times> string) list \<Rightarrow> (string \<Rightarrow> catalog_source list) \<Rightarrow> catalog_state_index option \<Rightarrow>
     playback_state list \<Rightarrow> download list \<Rightarrow> favorite list \<Rightarrow> server \<Rightarrow> household_item list \<times> server" where
  "file_favorites titles sources library playback ds [] sv = ([], sv)"
| "file_favorites titles sources library playback ds (f # fs) sv =
     (let own = sources (fav_title_id f) in
      if own = [] then file_favorites titles sources library playback ds fs sv
      else
        (let p = favorite_playback titles playback ds own (fav_title_id f);
             (item, sv) = household_item_of p True own (fav_title_id f) library sv;
             (rest, sv) = file_favorites titles sources library playback ds fs sv in
         ((case item of Some i \<Rightarrow> i # rest | None \<Rightarrow> rest), sv)))"

text \<open>Titles without an eligible source are shown by one release of their own.\<close>

fun orphan_sources ::
    "(string \<times> string) list \<Rightarrow> string list \<Rightarrow> catalog_source list \<Rightarrow> world \<Rightarrow> catalog_source list \<times> world" where
  "orphan_sources titles [] sources w = (sources, w)"
| "orphan_sources titles (r # rs) sources w =
     (let tid = text_of titles r in
      if tid \<noteq> [] \<and> sources_for_title sources tid = [] then
        (case get_release r w of
           (Inl _, w) \<Rightarrow> orphan_sources titles rs sources w
         | (Inr rel, w) \<Rightarrow> orphan_sources titles rs
             (sources @ [(stored_source rel tid)\<lparr>cs_parsed := parse_release rel\<rparr>]) w)
      else orphan_sources titles rs sources w)"

definition mark_favorites :: "favorite list \<Rightarrow> household_item list \<Rightarrow> household_item list" where
  "mark_favorites fs items =
     map (\<lambda>i. i\<lparr>hi_favorite := list_ex (\<lambda>f. fav_title_id f = hi_title_id i) fs\<rparr>) items"

definition load_household_state :: "server \<Rightarrow> (svc_error + household_state) \<times> server" where
  "load_household_state sv =
     (case list_playback household_profile (sv_world sv) of
        (Inl e, w) \<Rightarrow> (Inl e, with_world sv w)
      | (Inr playback, w) \<Rightarrow>
      case list_favorites household_profile w of
        (Inl e, w) \<Rightarrow> (Inl e, with_world sv w)
      | (Inr favorites, w) \<Rightarrow>
          (let (downloads, w) = list_downloads w;
               ds = (case downloads of Inr ds \<Rightarrow> ds | Inl _ \<Rightarrow> []);
               release_ids = filter (\<lambda>r. r \<noteq> []) (map pb_release_id playback @ map dl_release_id ds);
               (listed, w) = title_ids_for release_ids w;
               titles = (case listed of Inr ts \<Rightarrow> ts | Inl _ \<Rightarrow> []);
               ids = sort_by str_less (remdups (map snd titles));
               ids = foldl (\<lambda>ks f. add_key (fav_title_id f) ks) ids favorites;
               (found, w) = sources_by_title_ids ids (eligible_trackers w) w;
               (sources, w) = orphan_sources titles release_ids (case found of Inr ss \<Rightarrow> ss | Inl _ \<Rightarrow> []) w;
               (index, w) = catalog_state w;
               library = (case index of Inr ix \<Rightarrow> Some ix | Inl _ \<Rightarrow> None);
               (st, sv) = file_playback titles (sources_for_title sources) library playback
                 \<lparr>hs_favorites = [], hs_continue_watching = [], hs_recent = [], hs_watched = []\<rparr> (with_world sv w);
               (favs, sv) = file_favorites titles (sources_for_title sources) library playback ds favorites sv in
           (Inr \<lparr>hs_favorites = favs, hs_continue_watching = mark_favorites favorites (hs_continue_watching st),
                 hs_recent = mark_favorites favorites (hs_recent st),
                 hs_watched = mark_favorites favorites (hs_watched st)\<rparr>, sv)))"

end
