(* ===== verification/Household_Facts.thy ===== *)
theory Household_Facts
  imports Household
begin

text \<open>
  What the household state and a saved position guarantee: the lists are bounded and free of
  duplicates, passing over a row that no list wants changes nothing, and a position is held against
  the threshold exactly as long as the products fit into 64 bits.
\<close>

subsection \<open>The lists\<close>

definition list_ok :: "nat \<Rightarrow> (playback_state \<Rightarrow> bool) \<Rightarrow> household_item list \<Rightarrow> bool" where
  "list_ok cap p items = (length items \<le> cap \<and> distinct (map item_key items) \<and>
     list_all (\<lambda>i. p (hi_playback_state i)) items)"

definition in_progress :: "playback_state \<Rightarrow> bool" where
  "in_progress p = (\<not> pb_watched p \<and> 0 < pb_position_ms p)"

definition lists_ok :: "household_state \<Rightarrow> bool" where
  "lists_ok st = (list_ok 30 (\<lambda>_. True) (hs_recent st) \<and> list_ok 50 pb_watched (hs_watched st) \<and>
     list_ok 50 in_progress (hs_continue_watching st))"

lemma take_item_ok: "list_ok cap p items \<Longrightarrow> p (hi_playback_state item) \<Longrightarrow> list_ok cap p (take_item cap item items)"
  by (auto simp: list_ok_def take_item_def)

lemma file_item_ok: "lists_ok st \<Longrightarrow> hi_playback_state item = p \<Longrightarrow> lists_ok (file_item p item st)"
  by (simp add: lists_ok_def file_item_def in_progress_def take_item_ok Let_def)

lemma household_item_of_playback:
  "household_item_of p favorite sources tid library sv = (Some item, sv') \<Longrightarrow> hi_playback_state item = p"
  by (auto simp: household_item_of_def Let_def split: prod.splits sum.splits if_splits)

text \<open>The rows that are passed over are exactly those that would not change any list.\<close>

lemma skipped_rows_change_nothing: "no_list_wants st p \<Longrightarrow> file_item p item st = st"
  by (auto simp: no_list_wants_def file_item_def take_item_def Let_def)

lemma file_playback_ok:
  "file_playback titles sources library ps st sv = (st', sv') \<Longrightarrow> lists_ok st \<Longrightarrow> lists_ok st'"
proof (induction ps arbitrary: st sv)
  case (Cons p ps)
  show ?case
  proof (cases "no_list_wants st p")
    case True
    then show ?thesis using Cons by simp
  next
    case False
    obtain item sv1 where item:
      "household_item_of p False (sources (text_of titles (pb_release_id p)))
         (text_of titles (pb_release_id p)) library sv = (item, sv1)" by force
    show ?thesis
    proof (cases item)
      case None
      then show ?thesis using Cons False item by simp
    next
      case (Some i)
      then show ?thesis
        using Cons False item file_item_ok household_item_of_playback by simp
    qed
  qed
qed simp

lemma mark_favorites_ok: "list_ok cap p (mark_favorites fs items) = list_ok cap p items"
proof -
  have "item_key (i\<lparr>hi_favorite := b\<rparr>) = item_key i" for i b
    by (simp add: item_key_def split: option.split)
  then show ?thesis by (simp add: list_ok_def mark_favorites_def comp_def list_all_iff)
qed

lemma marked_favorites: "list_all (\<lambda>i. hi_favorite i = list_ex (\<lambda>f. fav_title_id f = hi_title_id i) fs) (mark_favorites fs items)"
  by (simp add: mark_favorites_def list_all_iff)

text \<open>
  The lists of the household state never outgrow their bounds, show every title once, and hold
  what their name says: what is under watched is watched, what is under continue watching was started
  and is not watched.
\<close>

theorem household_lists_bounded:
  assumes "load_household_state sv = (Inr st, sv')"
  shows "lists_ok st"
proof -
  have empty: "lists_ok \<lparr>hs_favorites = [], hs_continue_watching = [], hs_recent = [], hs_watched = []\<rparr>"
    by (simp add: lists_ok_def list_ok_def)
  show ?thesis
    using assms file_playback_ok [OF _ empty]
    by (fastforce simp: load_household_state_def lists_ok_def mark_favorites_ok Let_def
        split: prod.splits sum.splits)
qed

subsection \<open>Positions\<close>

definition threshold_reached :: "int \<Rightarrow> int \<Rightarrow> int \<Rightarrow> bool" where
  "threshold_reached percent position duration = (0 < duration \<and> duration * percent \<le> position * 100)"

lemma watch_rule_exact:
  assumes "0 \<le> position" "position \<le> duration" "duration < 2 ^ 55" "0 \<le> percent" "percent \<le> 100"
  shows "watch_rule percent position duration watched \<longleftrightarrow>
    threshold_reached percent position duration \<or>
    (watched \<and> \<not> (0 < position \<and> position * 200 < duration * percent))"
proof -
  define m where "m = duration * percent"
  have "m \<le> duration * 100" using assms unfolding m_def by (intro mult_left_mono) auto
  moreover have "0 \<le> m" using assms by (simp add: m_def)
  ultimately have "i64 m = m" using assms(3) by (intro i64_id) simp_all
  moreover have "i64 (position * 100) = position * 100" using assms by (intro i64_id) auto
  moreover have "i64 (position * 200) = position * 200" using assms by (intro i64_id) auto
  ultimately show ?thesis using assms by (auto simp: watch_rule_def threshold_reached_def m_def)
qed

lemma save_playback_row:
  "save_playback p w = (None, w') \<Longrightarrow>
     row_of (\<lambda>p. (pb_profile_id p, pb_source_id p)) (pb_profile_id p, pb_source_id p) (w_playback w') =
       Some (p\<lparr>pb_updated_at := unix_seconds (pb_updated_at p)\<rparr>)"
  using row_of_upsert_same [of "\<lambda>p. (pb_profile_id p, pb_source_id p)" "p\<lparr>pb_updated_at := unix_seconds (pb_updated_at p)\<rparr>"]
  by (auto simp: save_playback_def split: prod.splits option.splits)

lemma update_playback_saved:
  assumes "update_playback source position duration w = (Inr p, w')" and "0 < duration"
  obtains q v where "save_playback p v = (None, w')" "0 \<le> position"
    "pb_profile_id p = household_profile" "pb_source_id p = source" "pb_position_ms p = min position duration"
    "pb_watched p = watch_rule (st_watched_threshold_percent (w_settings w)) (min position duration) duration q"
    "q \<Longrightarrow> list_ex (\<lambda>x. pb_source_id x = source \<and> pb_watched x) (w_playback w)"
proof -
  have pos: "\<not> (position < 0 \<or> duration < 0)" using assms(1) by (auto simp: update_playback_def)
  obtain d w1 where d: "get_download source w = (Inr d, w1)"
    using assms(1) pos by (auto simp: update_playback_def Let_def split: prod.splits sum.splits)
  obtain r w2 where r: "get_playback source w1 = (r, w2)" by force
  have w: "w_settings w2 = w_settings w" "w_playback w1 = w_playback w"
    using d r by (auto simp: get_download_def get_playback_def attempt_def split: prod.splits option.splits)
  have ok: "\<not> (case r of Inl e \<Rightarrow> e \<noteq> No_Rows | Inr _ \<Rightarrow> False)"
    using assms(1) pos d r by (auto simp: update_playback_def Let_def split: if_splits sum.splits)
  define old where "old = (case r of Inr p \<Rightarrow> p | Inl _ \<Rightarrow> zero_playback_state)"
  define row where "row = old\<lparr>pb_profile_id := household_profile, pb_source_id := source,
    pb_release_id := dl_release_id d, pb_file_index := dl_file_index d, pb_file_path := dl_file_path d,
    pb_position_ms := min position duration, pb_duration_ms := duration,
    pb_watched := watch_rule (st_watched_threshold_percent (w_settings w2)) (min position duration) duration (pb_watched old),
    pb_updated_at := now_of w2\<rparr>"
  have cut: "(if 0 < duration \<and> duration < position then duration else position) = min position duration"
    using assms(2) by auto
  have saved: "save_playback row w2 = (None, w') \<and> p = row"
    using assms(1) pos d r ok unfolding update_playback_def Let_def cut
    by (auto simp: row_def old_def split: prod.splits option.splits)
  have known: "list_ex (\<lambda>x. pb_source_id x = source \<and> pb_watched x) (w_playback w)" if old: "pb_watched old"
  proof -
    obtain q where "r = Inr q" using old by (cases r) (simp_all add: old_def zero_playback_state_def)
    then have "q \<in> set (w_playback w) \<and> pb_source_id q = source"
      using r w by (auto simp: get_playback_def attempt_def split: prod.splits option.splits dest: row_of_key)
    then show ?thesis using old \<open>r = Inr q\<close> by (auto simp: list_ex_iff old_def)
  qed
  show ?thesis
    by (rule that [of w2 "pb_watched old"]) (use saved pos w known in \<open>simp_all add: row_def\<close>)
qed

text \<open>
  A saved position becomes the row of its source.  Up to 2 to the 55 milliseconds the row lies within the duration
  and is watched exactly when the threshold is reached, or when it was watched before and the new position is
  not well short of the threshold.
\<close>

theorem update_playback_saves:
  assumes "update_playback source position duration w = (Inr p, w')" and "duration < 2 ^ 55" and "0 < duration"
    and "0 \<le> st_watched_threshold_percent (w_settings w)" and "st_watched_threshold_percent (w_settings w) \<le> 100"
  shows "pb_source_id p = source \<and> 0 \<le> pb_position_ms p \<and> pb_position_ms p \<le> duration \<and>
    row_of (\<lambda>p. (pb_profile_id p, pb_source_id p)) (household_profile, source) (w_playback w') =
      Some (p\<lparr>pb_updated_at := unix_seconds (pb_updated_at p)\<rparr>) \<and>
    (threshold_reached (st_watched_threshold_percent (w_settings w)) (min position duration) duration \<longrightarrow> pb_watched p) \<and>
    (pb_watched p \<longrightarrow> threshold_reached (st_watched_threshold_percent (w_settings w)) (min position duration) duration \<or>
       list_ex (\<lambda>q. pb_source_id q = source \<and> pb_watched q) (w_playback w))"
proof -
  obtain v q where v: "save_playback p v = (None, w')" "0 \<le> position"
    "pb_profile_id p = household_profile" "pb_source_id p = source" "pb_position_ms p = min position duration"
    "pb_watched p = watch_rule (st_watched_threshold_percent (w_settings w)) (min position duration) duration q"
    "q \<Longrightarrow> list_ex (\<lambda>x. pb_source_id x = source \<and> pb_watched x) (w_playback w)"
    using update_playback_saved [OF assms(1,3)] by blast
  have "pb_watched p \<longleftrightarrow> threshold_reached (st_watched_threshold_percent (w_settings w)) (min position duration) duration \<or>
      (q \<and> \<not> (0 < min position duration \<and>
         min position duration * 200 < duration * st_watched_threshold_percent (w_settings w)))"
    unfolding v(6) by (rule watch_rule_exact) (use assms v in auto)
  then show ?thesis using save_playback_row [OF v(1)] v assms(3) by auto
qed

text \<open>Beyond, the product wraps: one millisecond of an absurdly long file counts as watched.\<close>

lemma watch_rule_wraps: "watch_rule 80 1 (2 ^ 60) False \<and> \<not> threshold_reached 80 1 (2 ^ 60)"
  by (simp add: watch_rule_def threshold_reached_def i64_def)

subsection \<open>A small household\<close>

definition small_household :: server where
  "small_household = \<lparr>sv_world = (blank_world (defaults ''linux''))\<lparr>
       w_releases := [zero_torrent_release\<lparr>rel_id := ''r'', rel_name := ''A''\<rparr>],
       w_titles := [(''r'', ''t'')],
       w_downloads := [zero_download\<lparr>dl_id := ''s'', dl_release_id := ''r''\<rparr>],
       w_playback := [zero_playback_state\<lparr>pb_profile_id := household_profile, pb_source_id := ''s'',
         pb_release_id := ''r'', pb_position_ms := 5, pb_duration_ms := 10\<rparr>]\<rparr>,
     sv_spawned = [], sv_meta_queue = [], sv_pending = [], sv_provider = False\<rparr>"

lemma small_household_loads:
  "map (\<lambda>i. pb_source_id (hi_playback_state i))
     (case fst (load_household_state small_household) of Inr st \<Rightarrow> hs_continue_watching st | Inl _ \<Rightarrow> []) = [''s'']"
  by code_simp

theorem household_lists_bounded_witness:
  "case load_household_state small_household of
     (Inr st, _) \<Rightarrow> lists_ok st \<and> map (\<lambda>i. pb_source_id (hi_playback_state i)) (hs_continue_watching st) = [''s'']
   | (Inl _, _) \<Rightarrow> False"
  using small_household_loads household_lists_bounded [of small_household]
  by (auto split: prod.splits sum.splits)

lemma small_position: "map_sum id (\<lambda>p. (pb_position_ms p, pb_watched p))
    (fst (update_playback ''s'' 9 10 (sv_world small_household))) = Inr (9, True)"
  by code_simp

lemma default_threshold: "st_watched_threshold_percent (w_settings (sv_world small_household)) = 90"
  by code_simp

theorem update_playback_saves_witness:
  "\<exists>p w'. update_playback ''s'' 9 10 (sv_world small_household) = (Inr p, w') \<and> pb_position_ms p = 9 \<and>
     row_of (\<lambda>p. (pb_profile_id p, pb_source_id p)) (household_profile, ''s'') (w_playback w') =
       Some (p\<lparr>pb_updated_at := unix_seconds (pb_updated_at p)\<rparr>) \<and> pb_watched p"
proof -
  obtain p w' where p: "update_playback ''s'' 9 10 (sv_world small_household) = (Inr p, w')"
    "pb_position_ms p = 9" "pb_watched p"
    using small_position by (cases "update_playback ''s'' 9 10 (sv_world small_household)"; cases "fst (update_playback ''s'' 9 10 (sv_world small_household))") auto
  show ?thesis using update_playback_saves [OF p(1)] p default_threshold by auto
qed

end
