(* ===== verification/Catalog_Merge.thy ===== *)
theory Catalog_Merge
  imports Title_Identity Job_Queue
begin

text \<open>
  The catalog projection (\<open>sqlite/reconcile.go\<close> and \<open>UpsertReleases\<close> of \<open>sqlite/repository.go\<close>): releases
  are stored, every family they touch is resolved again from its evidence, and what belonged to a title
  that lost its last release follows to the title that took them all.

  The columns of a projection other than its title id are what the name of the release parses to, so
  the table is the list of pairs of release and title.  A transaction fails as a whole.  Go visits maps in
  any order: the families are a list in that order, and \<open>order\<close> stands for the order in which the titles that
  lost releases are visited.
\<close>

type_synonym family_key = "media_kind \<times> string"

definition family_of :: "torrent_release \<Rightarrow> family_key" where
  "family_of r = (pr_kind (parse_release r), pr_sort_title (parse_release r))"

definition evidence_of :: "torrent_release \<Rightarrow> release_evidence" where
  "evidence_of r = \<lparr>ev_release = rel_id r, ev_title = pr_title (parse_release r),
     ev_sort_title = pr_sort_title (parse_release r), ev_imdb = rel_imdb r, ev_year = pr_year (parse_release r)\<rparr>"

definition projected :: "world \<Rightarrow> torrent_release list" where
  "projected w = filter (\<lambda>r. map_of (w_titles w) (rel_id r) \<noteq> None) (w_releases w)"

definition family_evidence :: "family_key \<Rightarrow> world \<Rightarrow> release_evidence list" where
  "family_evidence key w = map evidence_of (filter (\<lambda>r. family_of r = key) (projected w))"

subsection \<open>Moving what belongs to a title\<close>

definition refresh_prefix :: string where
  "refresh_prefix = ''catalog-title-refresh:''"

definition retarget_title_id_key :: "string \<Rightarrow> string \<Rightarrow> string \<Rightarrow> string option" where
  "retarget_title_id_key key old new =
     (if key = refresh_prefix @ old then Some (refresh_prefix @ new)
      else if key = ''metadata:'' @ old then Some (''metadata:'' @ new)
      else if has_prefix key refresh_prefix then
        (let rest = drop (length refresh_prefix) key in
         case index_of rest '':'' of
           Some i \<Rightarrow> if 0 < i \<and> drop (i + 1) rest = old
                     then Some (refresh_prefix @ take (i + 1) rest @ new) else None
         | None \<Rightarrow> None)
      else None)"

definition title_key_matches :: "string \<Rightarrow> string \<Rightarrow> bool" where
  "title_key_matches old key =
     (key = refresh_prefix @ old \<or> key = ''metadata:'' @ old \<or>
      (has_prefix key refresh_prefix \<and>
       (case index_of (drop (length refresh_prefix) key) '':'' of
          Some i \<Rightarrow> drop (i + 1) (drop (length refresh_prefix) key) = old | None \<Rightarrow> False)))"

definition move_metadata :: "string \<Rightarrow> string \<Rightarrow> catalog_metadata list \<Rightarrow> catalog_metadata list" where
  "move_metadata old new rows =
     (let rows = (if new \<in> cm_title_id ` set rows then rows
                  else map (\<lambda>m. if cm_title_id m = old then m\<lparr>cm_title_id := new\<rparr> else m) rows) in
      filter (\<lambda>m. cm_title_id m \<noteq> old) rows)"

definition move_favorites :: "string \<Rightarrow> string \<Rightarrow> favorite list \<Rightarrow> favorite list" where
  "move_favorites old new rows =
     (let rows = map (\<lambda>f. if fav_title_id f = old \<and>
                \<not> list_ex (\<lambda>g. fav_profile_id g = fav_profile_id f \<and> fav_title_id g = new) rows
              then f\<lparr>fav_title_id := new, fav_release_id := new\<rparr> else f) rows in
      filter (\<lambda>f. fav_title_id f \<noteq> old) rows)"

definition move_job :: "string \<Rightarrow> string \<Rightarrow> job \<Rightarrow> job list \<Rightarrow> job list" where
  "move_job old new ref rows =
     (case retarget_title_id_key (job_dedupe_key ref) old new of
        None \<Rightarrow> rows
      | Some key \<Rightarrow>
          (let mine = (\<lambda>j. job_id j = job_id ref \<and> job_active j \<and> job_dedupe_key j = job_dedupe_key ref);
               rows = (if key \<in> job_dedupe_key ` set rows then rows
                       else map (\<lambda>j. if mine j then j\<lparr>job_dedupe_key := key\<rparr> else j) rows) in
           filter (\<lambda>j. \<not> (job_active j \<and> job_dedupe_key j = job_dedupe_key ref)) rows))"

definition move_jobs :: "string \<Rightarrow> string \<Rightarrow> job list \<Rightarrow> job list" where
  "move_jobs old new rows =
     fold (move_job old new) (filter (\<lambda>j. job_active j \<and> title_key_matches old (job_dedupe_key j)) rows) rows"

definition move_sync :: "string \<Rightarrow> string \<Rightarrow> string \<Rightarrow> sync_row list \<Rightarrow> sync_row list" where
  "move_sync old new name rows =
     (case retarget_title_id_key name old new of
        None \<Rightarrow> rows
      | Some key \<Rightarrow>
          if key = name then rows
          else (let rows = (if key \<in> sy_name ` set rows then rows
                            else map (\<lambda>r. if sy_name r = name then r\<lparr>sy_name := key\<rparr> else r) rows) in
                filter (\<lambda>r. sy_name r \<noteq> name) rows))"

definition move_syncs :: "string \<Rightarrow> string \<Rightarrow> sync_row list \<Rightarrow> sync_row list" where
  "move_syncs old new rows =
     fold (move_sync old new) (filter (title_key_matches old) (map sy_name rows)) rows"

definition move_extinct_group_dependents :: "string \<Rightarrow> string \<Rightarrow> world \<Rightarrow> world" where
  "move_extinct_group_dependents old new w =
     w\<lparr>w_metadata := move_metadata old new (w_metadata w),
       w_favorites := move_favorites old new (w_favorites w),
       w_jobs := move_jobs old new (w_jobs w),
       w_sync := move_syncs old new (w_sync w)\<rparr>"

subsection \<open>Reconciling families\<close>

text \<open>The title ids of a family are written release by release; what moved is noted by its old id.\<close>

definition move_release ::
    "(string \<times> string) list \<Rightarrow> release_evidence \<Rightarrow> (string \<times> string) list \<times> (string \<times> string list) list \<Rightarrow>
     (string \<times> string) list \<times> (string \<times> string list) list" where
  "move_release resolved ev st =
     (let (titles, moved) = st;
          new = (case map_of resolved (ev_release ev) of Some t \<Rightarrow> t | None \<Rightarrow> []);
          old = (case map_of titles (ev_release ev) of Some t \<Rightarrow> t | None \<Rightarrow> []) in
      if old = new \<or> new = [] then st
      else (upsert fst (ev_release ev, new) titles,
            upsert fst (old, (case map_of moved old of
               Some ts \<Rightarrow> if new \<in> set ts then ts else ts @ [new] | None \<Rightarrow> [new])) moved))"

definition follow_merge :: "string \<times> string list \<Rightarrow> world \<Rightarrow> world" where
  "follow_merge m w =
     (case m of
        (old, [new]) \<Rightarrow>
          if old \<in> snd ` set (w_titles w) then w else move_extinct_group_dependents old new w
      | _ \<Rightarrow> w)"

definition reconcile_family ::
    "(string \<Rightarrow> string) \<Rightarrow> ((string \<times> string list) list \<Rightarrow> (string \<times> string list) list) \<Rightarrow>
     family_key \<Rightarrow> world \<Rightarrow> world" where
  "reconcile_family sha order key w =
     (let evs = family_evidence key w;
          resolved = resolve_family_title_ids sha (fst key) (snd key) evs;
          (titles, moved) = fold (move_release resolved) evs (w_titles w, []) in
      if evs = [] then w else fold follow_merge (order moved) (w\<lparr>w_titles := titles\<rparr>))"

definition reconcile_families ::
    "(string \<Rightarrow> string) \<Rightarrow> ((string \<times> string list) list \<Rightarrow> (string \<times> string list) list) \<Rightarrow>
     family_key list \<Rightarrow> world \<Rightarrow> world" where
  "reconcile_families sha order keys w = fold (reconcile_family sha order) keys w"

text \<open>The families of all projections; a transaction is one attempt.\<close>

definition all_families :: "world \<Rightarrow> family_key list" where
  "all_families w = remdups (map family_of (projected w))"

definition reconcile_all ::
    "(string \<Rightarrow> string) \<Rightarrow> ((string \<times> string list) list \<Rightarrow> (string \<times> string list) list) \<Rightarrow>
     (family_key list \<Rightarrow> family_key list) \<Rightarrow> world \<Rightarrow> svc_error option \<times> world" where
  "reconcile_all sha order visit w =
     (case attempt w of
        (Some e, w') \<Rightarrow> (Some (Repo_Error e), w')
      | (None, w') \<Rightarrow> (None, reconcile_families sha order (visit (all_families w')) w'))"

subsection \<open>Storing releases\<close>

definition path_escape_char :: "char \<Rightarrow> string" where
  "path_escape_char c =
     (let n = of_char c :: nat;
          hex = (\<lambda>d. ''0123456789ABCDEF'' ! d) in
      if (97 \<le> n \<and> n \<le> 122) \<or> (65 \<le> n \<and> n \<le> 90) \<or> (48 \<le> n \<and> n \<le> 57) \<or>
         c \<in> set ''-_.~$&+:=@'' then [c]
      else [CHR ''%'', hex (n div 16), hex (n mod 16)])"

definition candidate_release_id :: "torrent_release \<Rightarrow> string" where
  "candidate_release_id x = rel_tracker_id x @ '':'' @ concat (map path_escape_char (rel_provider_id x))"

definition same_provider :: "torrent_release \<Rightarrow> torrent_release \<Rightarrow> bool" where
  "same_provider a b = (rel_tracker_id a = rel_tracker_id b \<and> rel_provider_id a = rel_provider_id b)"

text \<open>The row after the insert: a known release keeps its id, and its IMDb id when none comes with the new one.\<close>

definition release_row :: "torrent_release list \<Rightarrow> torrent_release \<Rightarrow> torrent_release" where
  "release_row rows x =
     (let x = x\<lparr>rel_uploaded_at := map_option unix_seconds (rel_uploaded_at x)\<rparr> in
      case List.find (same_provider x) rows of
        Some old \<Rightarrow> x\<lparr>rel_id := rel_id old, rel_imdb := (if rel_imdb x = [] then rel_imdb old else rel_imdb x)\<rparr>
      | None \<Rightarrow> x\<lparr>rel_id := candidate_release_id x\<rparr>)"

text \<open>An id that another provider already uses violates the primary key.\<close>

definition id_taken :: "torrent_release list \<Rightarrow> torrent_release \<Rightarrow> bool" where
  "id_taken rows x = (List.find (same_provider x) rows = None \<and> candidate_release_id x \<in> rel_id ` set rows)"

definition upsert_release ::
    "(string \<Rightarrow> string) \<Rightarrow> torrent_release \<Rightarrow> world \<times> family_key list \<Rightarrow> torrent_release \<times> world \<times> family_key list" where
  "upsert_release sha x st =
     (let (w, keys) = st;
          row = release_row (w_releases w) x;
          stored = x\<lparr>rel_id := rel_id row\<rparr>;
          keys = (case map_of (w_titles w) (rel_id row) of
              Some _ \<Rightarrow> (case row_of rel_id (rel_id row) (w_releases w) of
                 Some old \<Rightarrow> add_key (family_of old) keys | None \<Rightarrow> keys)
            | None \<Rightarrow> keys) in
      (stored,
       w\<lparr>w_releases := upsert rel_id row (w_releases w),
         w_titles := upsert fst (rel_id row, catalog_title_id sha stored (parse_release stored)) (w_titles w)\<rparr>,
       add_key (family_of stored) keys))"

fun upsert_each ::
    "(string \<Rightarrow> string) \<Rightarrow> torrent_release list \<Rightarrow> world \<times> family_key list \<Rightarrow>
     svc_error + (torrent_release list \<times> world \<times> family_key list)" where
  "upsert_each sha [] st = Inr ([], st)"
| "upsert_each sha (x # xs) st =
     (if id_taken (w_releases (fst st)) x then Inl (Repo_Error ''UNIQUE constraint failed: releases.id'')
      else (case upsert_release sha x st of
              (stored, st) \<Rightarrow>
                (case upsert_each sha xs st of
                   Inl e \<Rightarrow> Inl e | Inr (out, st) \<Rightarrow> Inr (stored # out, st))))"

definition upsert_releases ::
    "(string \<Rightarrow> string) \<Rightarrow> ((string \<times> string list) list \<Rightarrow> (string \<times> string list) list) \<Rightarrow>
     (family_key list \<Rightarrow> family_key list) \<Rightarrow> torrent_release list \<Rightarrow> world \<Rightarrow>
     (svc_error + torrent_release list) \<times> world" where
  "upsert_releases sha order visit items w =
     (if items = [] then (Inr [], w)
      else (case List.find (\<lambda>x. trim_space (rel_tracker_id x) = [] \<or> trim_space (rel_provider_id x) = []) items of
         Some x \<Rightarrow> (Inl (Repo_Error (''release missing required tracker or provider identity: '' @ rel_name x)), w)
       | None \<Rightarrow>
           (case attempt w of
              (Some e, w') \<Rightarrow> (Inl (Repo_Error e), w')
            | (None, w') \<Rightarrow>
                (case upsert_each sha items (w', []) of
                   Inl e \<Rightarrow> (Inl e, w')
                 | Inr (out, w2, keys) \<Rightarrow> (Inr out, reconcile_families sha order (visit keys) w2)))))"

end
