(* ===== verification/Merge_Facts.thy ===== *)
theory Merge_Facts
  imports Catalog_Merge Job_Recovery
begin

text \<open>
  What the catalog projection guarantees: storing releases and reconciling keep every release under the
  title that the specification of its family gives it, reconciling again changes nothing, and the
  tables that follow a merge keep their keys unique.
\<close>

subsection \<open>Titles after reconciling\<close>

definition projection_ok :: "world \<Rightarrow> bool" where
  "projection_ok w = (distinct (map rel_id (w_releases w)) \<and> distinct (map fst (w_titles w)) \<and>
     fst ` set (w_titles w) \<subseteq> rel_id ` set (w_releases w))"

definition members :: "family_key \<Rightarrow> world \<Rightarrow> torrent_release set" where
  "members key w = {r \<in> set (w_releases w). family_of r = key \<and> rel_id r \<in> fst ` set (w_titles w)}"

definition family_resolved_in :: "(string \<Rightarrow> string) \<Rightarrow> family_key \<Rightarrow> world \<Rightarrow> bool" where
  "family_resolved_in sha key w = (\<forall>r \<in> members key w. \<exists>t. map_of (w_titles w) (rel_id r) = Some t \<and>
     family_spec sha (fst key) (snd key) (evidence_of ` members key w) (evidence_of r) t)"

definition catalog_resolved :: "(string \<Rightarrow> string) \<Rightarrow> world \<Rightarrow> bool" where
  "catalog_resolved sha w = (\<forall>key. family_resolved_in sha key w)"

lemma catalog_resolvedD: "catalog_resolved sha w \<Longrightarrow> family_resolved_in sha k w"
  unfolding catalog_resolved_def by blast

lemma projection_tick [simp]:
  "projection_ok (w\<lparr>w_tick := n\<rparr>) = projection_ok w" "members k (w\<lparr>w_tick := n\<rparr>) = members k w"
  "family_resolved_in sha k (w\<lparr>w_tick := n\<rparr>) = family_resolved_in sha k w"
  "catalog_resolved sha (w\<lparr>w_tick := n\<rparr>) = catalog_resolved sha w"
  by (simp_all add: projection_ok_def members_def family_resolved_in_def catalog_resolved_def)

lemma set_projected: "set (projected w) = {r \<in> set (w_releases w). rel_id r \<in> fst ` set (w_titles w)}"
  by (auto simp: projected_def map_of_eq_None_iff)

lemma set_family_evidence: "set (family_evidence key w) = evidence_of ` members key w"
  by (auto simp: family_evidence_def set_projected members_def)

lemma ev_release_evidence [simp]: "ev_release (evidence_of r) = rel_id r"
  by (simp add: evidence_of_def)

lemma distinct_family_evidence:
  "projection_ok w \<Longrightarrow> distinct (map ev_release (family_evidence key w))"
  by (simp add: projection_ok_def family_evidence_def projected_def comp_def distinct_map_filter)

definition target :: "(string \<times> string) list \<Rightarrow> string \<Rightarrow> string option" where
  "target resolved r = (case map_of resolved r of Some t \<Rightarrow> if t = [] then None else Some t | None \<Rightarrow> None)"

lemma move_release_titles:
  "map_of (fst (fold (move_release resolved) evs (titles, moved))) r =
     (if r \<in> ev_release ` set evs \<and> target resolved r \<noteq> None then target resolved r else map_of titles r)"
proof (induction evs arbitrary: titles moved)
  case (Cons ev evs)
  obtain titles1 moved1 where st: "move_release resolved ev (titles, moved) = (titles1, moved1)" by force
  have "map_of titles1 q = (if q = ev_release ev \<and> target resolved q \<noteq> None then target resolved q else map_of titles q)" for q
    using st by (auto simp: move_release_def target_def Let_def map_of_upsert split: option.splits if_splits)
  then show ?case using Cons st by auto
qed simp

lemma move_release_keys:
  "ev_release ` set evs \<subseteq> fst ` set titles \<Longrightarrow>
     map fst (fst (fold (move_release resolved) evs (titles, moved))) = map fst titles"
proof (induction evs arbitrary: titles moved)
  case (Cons ev evs)
  obtain titles1 moved1 where st: "move_release resolved ev (titles, moved) = (titles1, moved1)" by force
  have "map fst (upsert fst (k, v) titles) = map fst titles" if "k \<in> fst ` set titles" for k v
    using that by (induction titles) auto
  then have "map fst titles1 = map fst titles"
    using st Cons.prems by (auto simp: move_release_def Let_def split: if_splits)
  moreover from this have "fst ` set titles1 = fst ` set titles" by (metis list.set_map)
  ultimately show ?case using Cons st by simp
qed simp

lemma follow_merge_titles [simp]:
  "w_titles (follow_merge m w) = w_titles w" "w_releases (follow_merge m w) = w_releases w"
  by (simp_all add: follow_merge_def move_extinct_group_dependents_def split: prod.split list.split)

lemma follow_merges_titles [simp]:
  "w_titles (fold follow_merge ms w) = w_titles w" "w_releases (fold follow_merge ms w) = w_releases w"
  by (induction ms arbitrary: w) simp_all

lemma reconcile_family_titles:
  assumes "projection_ok w"
  shows "w_releases (reconcile_family sha order key w) = w_releases w \<and>
    map fst (w_titles (reconcile_family sha order key w)) = map fst (w_titles w) \<and>
    map_of (w_titles (reconcile_family sha order key w)) r =
      (if r \<in> rel_id ` members key w \<and> target (resolve_family_title_ids sha (fst key) (snd key) (family_evidence key w)) r \<noteq> None
       then target (resolve_family_title_ids sha (fst key) (snd key) (family_evidence key w)) r
       else map_of (w_titles w) r)"
proof -
  let ?evs = "family_evidence key w"
  let ?res = "resolve_family_title_ids sha (fst key) (snd key) ?evs"
  obtain titles moved where m: "fold (move_release ?res) ?evs (w_titles w, []) = (titles, moved)" by force
  have ids: "ev_release ` set ?evs = rel_id ` members key w"
    by (simp add: set_family_evidence image_image)
  have keys: "ev_release ` set ?evs \<subseteq> fst ` set (w_titles w)"
    unfolding ids by (auto simp: members_def)
  have out: "w_titles (reconcile_family sha order key w) = titles \<and>
      w_releases (reconcile_family sha order key w) = w_releases w"
    using m by (auto simp: reconcile_family_def Let_def)
  show ?thesis
    using out move_release_titles [of ?res ?evs "w_titles w" "[]" r]
      move_release_keys [OF keys, of ?res "[]"] unfolding m ids by simp
qed

lemma reconcile_family_members:
  assumes "projection_ok w"
  shows "members k (reconcile_family sha order key w) = members k w \<and> projection_ok (reconcile_family sha order key w)"
proof -
  have "fst ` set (w_titles (reconcile_family sha order key w)) = fst ` set (w_titles w)"
    using reconcile_family_titles [OF assms] by (metis list.set_map)
  then show ?thesis using reconcile_family_titles [OF assms] assms by (auto simp: members_def projection_ok_def)
qed

lemma family_resolves:
  assumes "[] \<notin> range sha" and "projection_ok w" and "r \<in> members key w"
  shows "\<exists>t. target (resolve_family_title_ids sha (fst key) (snd key) (family_evidence key w)) (rel_id r) = Some t \<and>
    map_of (resolve_family_title_ids sha (fst key) (snd key) (family_evidence key w)) (rel_id r) = Some t \<and>
    family_spec sha (fst key) (snd key) (evidence_of ` members key w) (evidence_of r) t"
proof -
  obtain t where t: "map_of (resolve_family_title_ids sha (fst key) (snd key) (family_evidence key w)) (rel_id r) = Some t"
    "family_spec sha (fst key) (snd key) (evidence_of ` members key w) (evidence_of r) t"
    using family_resolved [OF assms(1) distinct_family_evidence [OF assms(2)], of "evidence_of r" key "fst key" "snd key"] assms(3)
    by (auto simp: set_family_evidence)
  have "t \<in> range sha"
    using t(2) by (auto simp: family_spec_def imdb_title_id_def fallback_id_def catalog_title_id_def split: if_splits)
  then have "t \<noteq> []" using assms(1) by metis
  then show ?thesis using t by (simp add: target_def)
qed

lemma reconcile_family_resolves:
  assumes "[] \<notin> range sha" and "projection_ok w" and "k = key \<or> family_resolved_in sha k w"
  shows "family_resolved_in sha k (reconcile_family sha order key w)"
proof -
  let ?w = "reconcile_family sha order key w"
  have same: "members k ?w = members k w" using reconcile_family_members [OF assms(2)] by blast
  have "\<exists>t. map_of (w_titles ?w) (rel_id r) = Some t \<and>
      family_spec sha (fst k) (snd k) (evidence_of ` members k w) (evidence_of r) t" if r: "r \<in> members k w" for r
  proof (cases "k = key")
    case True
    have "rel_id r \<in> rel_id ` members key w" using r True by simp
    then show ?thesis
      using family_resolves [OF assms(1,2), of r key] r True reconcile_family_titles [OF assms(2), of sha order key "rel_id r"]
      by auto
  next
    case False
    have "rel_id r \<notin> rel_id ` members key w"
      using r False assms(2) by (auto simp: members_def projection_ok_def distinct_map dest: inj_onD)
    then have "map_of (w_titles ?w) (rel_id r) = map_of (w_titles w) (rel_id r)"
      using reconcile_family_titles [OF assms(2), of sha order key "rel_id r"] by simp
    then show ?thesis using assms(3) False r by (auto simp: family_resolved_in_def)
  qed
  then show ?thesis by (simp add: family_resolved_in_def same)
qed

lemma reconcile_families_resolves:
  assumes "[] \<notin> range sha" and "projection_ok w" and "\<And>k. k \<in> set keys \<or> family_resolved_in sha k w"
  shows "projection_ok (reconcile_families sha order keys w) \<and> catalog_resolved sha (reconcile_families sha order keys w)"
  using assms(2,3)
proof (induction keys arbitrary: w)
  case Nil
  then show ?case by (simp add: reconcile_families_def catalog_resolved_def)
next
  case (Cons key keys)
  let ?w = "reconcile_family sha order key w"
  have "projection_ok ?w" using reconcile_family_members [OF Cons.prems(1)] by simp
  moreover have "k \<in> set keys \<or> family_resolved_in sha k ?w" for k
    using reconcile_family_resolves [OF assms(1) Cons.prems(1), of k key] Cons.prems(2) [of k] by auto
  ultimately show ?case using Cons.IH [of ?w] by (simp add: reconcile_families_def)
qed

subsection \<open>Reconciling again\<close>

lemma no_move:
  "(\<And>ev. ev \<in> set evs \<Longrightarrow> map_of resolved (ev_release ev) = map_of titles (ev_release ev)) \<Longrightarrow>
     fold (move_release resolved) evs (titles, moved) = (titles, moved)"
  by (induction evs) (auto simp: move_release_def Let_def)

lemma reconcile_family_settled:
  assumes "[] \<notin> range sha" and "projection_ok w" and "family_resolved_in sha key w" and "order [] = []"
  shows "reconcile_family sha order key w = w"
proof -
  let ?res = "resolve_family_title_ids sha (fst key) (snd key) (family_evidence key w)"
  have "map_of ?res (ev_release ev) = map_of (w_titles w) (ev_release ev)" if "ev \<in> set (family_evidence key w)" for ev
  proof -
    obtain r where r: "r \<in> members key w" "ev = evidence_of r" using \<open>ev \<in> _\<close> by (auto simp: set_family_evidence)
    show ?thesis
      using family_resolves [OF assms(1,2) r(1)] assms(3) r family_spec_unique unfolding family_resolved_in_def by fastforce
  qed
  then have "fold (move_release ?res) (family_evidence key w) (w_titles w, []) = (w_titles w, [])" by (rule no_move)
  then show ?thesis using assms(4) by (simp add: reconcile_family_def Let_def)
qed

lemma reconcile_families_settled:
  assumes "[] \<notin> range sha" and "projection_ok w" and "catalog_resolved sha w" and "order [] = []"
  shows "reconcile_families sha order keys w = w"
proof -
  have "reconcile_family sha order k w = w" for k
    by (rule reconcile_family_settled) (use assms catalog_resolvedD in \<open>blast\<close>)+
  then show ?thesis by (induction keys) (simp_all add: reconcile_families_def)
qed

subsection \<open>Storing releases\<close>

lemma parse_release_name: "rel_name a = rel_name b \<Longrightarrow> parse_release a = parse_release b"
  by (simp add: parse_release_def)

lemma family_of_name: "rel_name a = rel_name b \<Longrightarrow> family_of a = family_of b"
  by (simp add: family_of_def parse_release_name [of a b])

lemma release_row_name [simp]: "rel_name (release_row rows x) = rel_name x"
  by (simp add: release_row_def Let_def split: option.split)

definition batch_ok :: "(string \<Rightarrow> string) \<Rightarrow> world \<times> family_key list \<Rightarrow> bool" where
  "batch_ok sha st = (projection_ok (fst st) \<and> (\<forall>k. k \<in> set (snd st) \<or> family_resolved_in sha k (fst st)))"

lemma fst_set_upsert: "fst ` set (upsert fst p xs) = insert (fst p) (fst ` set xs)"
  by (induction xs) auto

lemma upsert_release_ok:
  assumes ok: "batch_ok sha (w, keys)" and up: "upsert_release sha x (w, keys) = (stored, w', keys')"
  shows "batch_ok sha (w', keys')"
proof -
  define row where "row = release_row (w_releases w) x"
  have d: "distinct (map rel_id (w_releases w))" "distinct (map fst (w_titles w))"
      "fst ` set (w_titles w) \<subseteq> rel_id ` set (w_releases w)"
    using ok by (simp_all add: batch_ok_def projection_ok_def)
  have rel: "w_releases w' = upsert rel_id row (w_releases w)"
    and tit: "w_titles w' = upsert fst (rel_id row, catalog_title_id sha stored (parse_release stored)) (w_titles w)"
    and name: "rel_name stored = rel_name x"
    using up by (auto simp: upsert_release_def Let_def row_def)
  have fam: "family_of row \<in> set keys'"
    using up family_of_name [of row stored] by (auto simp: upsert_release_def Let_def row_def)
  have sub: "set keys \<subseteq> set keys'"
    using up by (auto simp: upsert_release_def Let_def split: option.splits)
  have old: "family_of y \<in> set keys'"
    if y: "y \<in> set (w_releases w)" "rel_id y = rel_id row" "rel_id row \<in> fst ` set (w_titles w)" for y
  proof -
    have "row_of rel_id (rel_id row) (w_releases w) = Some y"
      using row_of_distinct [OF d(1) y(1)] y(2) by simp
    moreover obtain t where "map_of (w_titles w) (rel_id row) = Some t"
      using y(3) by (metis map_of_eq_None_iff not_Some_eq)
    ultimately show ?thesis using up by (auto simp: upsert_release_def Let_def row_def)
  qed
  have known: "family_of y \<in> set keys'"
    if "y \<in> set (w_releases w)" "rel_id y = rel_id row" "(rel_id row, t) \<in> set (w_titles w)" for y t
    using old [OF that(1,2)] that(3) by (metis fst_conv image_eqI)
  have set': "set (w_releases w') = insert row {y \<in> set (w_releases w). rel_id y \<noteq> rel_id row}"
    unfolding rel by (rule set_upsert [OF d(1)])
  have fst': "fst ` set (w_titles w') = insert (rel_id row) (fst ` set (w_titles w))"
    unfolding tit by (simp add: fst_set_upsert)
  have "members k w' = members k w" if "k \<notin> set keys'" for k
    using that fam known unfolding members_def set' fst' by auto
  moreover have "map_of (w_titles w') (rel_id r) = map_of (w_titles w) (rel_id r)"
    if "k \<notin> set keys'" "r \<in> members k w" for k r
    using that known unfolding tit by (auto simp: map_of_upsert members_def)
  ultimately have "family_resolved_in sha k w'" if "k \<notin> set keys'" for k
    using that ok sub unfolding batch_ok_def family_resolved_in_def by (metis (no_types, lifting) fst_conv snd_conv subsetD)
  moreover have "projection_ok w'"
    unfolding projection_ok_def
  proof (intro conjI)
    show "distinct (map rel_id (w_releases w'))" unfolding rel by (rule distinct_upsert [OF d(1)])
    show "distinct (map fst (w_titles w'))" unfolding tit by (rule distinct_upsert [OF d(2)])
    show "fst ` set (w_titles w') \<subseteq> rel_id ` set (w_releases w')" using d(3) unfolding fst' set'
      by (auto simp: image_iff) (metis fst_conv image_eqI imageE subsetD)
  qed
  ultimately show ?thesis by (auto simp: batch_ok_def)
qed

lemma upsert_each_ok:
  "batch_ok sha st \<Longrightarrow> upsert_each sha xs st = Inr (out, st') \<Longrightarrow> batch_ok sha st'"
proof (induction xs arbitrary: st out)
  case (Cons x xs)
  obtain w keys stored w1 keys1 where st: "st = (w, keys)" "upsert_release sha x (w, keys) = (stored, w1, keys1)"
    by (metis prod.collapse)
  then have "batch_ok sha (w1, keys1)" using Cons.prems(1) by (blast intro: upsert_release_ok)
  then show ?case using Cons.prems(2) Cons.IH st by (auto split: if_splits sum.splits)
qed simp

text \<open>
  Property C18: Storing releases, whatever they are and in whatever order Go visits its maps, keeps the catalog
  resolved: every release is under the title that the specification of its family determines from the
  evidence in the tables.
\<close>

theorem upsert_keeps_catalog_resolved:
  assumes "upsert_releases sha order visit items w = (Inr out, w')"
    and "[] \<notin> range sha" and "projection_ok w" and "catalog_resolved sha w" and "\<And>ks. set (visit ks) = set ks"
  shows "projection_ok w' \<and> catalog_resolved sha w'"
proof (cases "items = []")
  case True
  then show ?thesis using assms by (simp add: upsert_releases_def)
next
  case False
  obtain w1 w2 keys where w1: "attempt w = (None, w1)" "upsert_each sha items (w1, []) = Inr (out, w2, keys)"
    "w' = reconcile_families sha order (visit keys) w2"
    using assms(1) False by (auto simp: upsert_releases_def split: option.splits prod.splits sum.splits)
  have "w1 = w\<lparr>w_tick := w_tick w + 1\<rparr>" using w1(1) by (simp add: attempt_def)
  then have "batch_ok sha (w1, [])"
    using assms(3,4) catalog_resolvedD by (auto simp: batch_ok_def)
  then have ok: "batch_ok sha (w2, keys)" using upsert_each_ok w1(2) by blast
  show ?thesis
    unfolding w1(3) by (rule reconcile_families_resolves) (use ok assms(2,5) in \<open>auto simp: batch_ok_def\<close>)
qed

text \<open>
  The reconciliation at the start brings every release under the title its family determines, and a second one
  changes nothing.
\<close>

theorem reconcile_all_idempotent:
  assumes "reconcile_all sha order visit w = (None, w1)" and "reconcile_all sha order visit w1 = (None, w2)"
    and "[] \<notin> range sha" and "projection_ok w" and "\<And>ks. set (visit ks) = set ks" and "order [] = []"
  shows "catalog_resolved sha w1 \<and> w2 = w1\<lparr>w_tick := w_tick w1 + 1\<rparr>"
proof -
  define v where "v = w\<lparr>w_tick := w_tick w + 1\<rparr>"
  have w1: "w1 = reconcile_families sha order (visit (all_families v)) v"
    using assms(1) by (auto simp: reconcile_all_def attempt_def v_def split: option.splits)
  have v: "projection_ok v" using assms(4) by (simp add: v_def)
  have "k \<in> set (visit (all_families v)) \<or> family_resolved_in sha k v" for k
    using assms(5) by (auto simp: all_families_def set_projected family_resolved_in_def members_def)
  then have one: "projection_ok w1 \<and> catalog_resolved sha w1"
    unfolding w1 using reconcile_families_resolves [OF assms(3) v] by blast
  have "projection_ok (w1\<lparr>w_tick := w_tick w1 + 1\<rparr>) \<and> catalog_resolved sha (w1\<lparr>w_tick := w_tick w1 + 1\<rparr>)"
    using one by simp
  then have "w2 = w1\<lparr>w_tick := w_tick w1 + 1\<rparr>"
    using assms(2,3,6) reconcile_families_settled by (auto simp: reconcile_all_def attempt_def split: option.splits)
  then show ?thesis using one by simp
qed

subsection \<open>What follows a merge\<close>

definition favors :: "world \<Rightarrow> string \<Rightarrow> string \<Rightarrow> bool" where
  "favors w p t = list_ex (\<lambda>f. fav_profile_id f = p \<and> fav_title_id f = t) (w_favorites w)"

definition keys_unique :: "world \<Rightarrow> bool" where
  "keys_unique w = (distinct (map cm_title_id (w_metadata w)) \<and>
     distinct (map (\<lambda>f. (fav_profile_id f, fav_title_id f)) (w_favorites w)) \<and>
     jobs_ok (w_jobs w) \<and> distinct (map sy_name (w_sync w)))"

lemma distinct_map_replace:
  assumes "distinct (map key rows)" and "\<And>x. x \<in> set rows \<Longrightarrow> p x \<Longrightarrow> key (f x) \<notin> key ` set rows"
    and "\<And>x y. x \<in> set rows \<Longrightarrow> y \<in> set rows \<Longrightarrow> p x \<Longrightarrow> p y \<Longrightarrow> key (f x) = key (f y) \<Longrightarrow> key x = key y"
  shows "distinct (map key (map (\<lambda>x. if p x then f x else x) rows))"
proof -
  define g where "g x = (if p x then f x else x)" for x
  have inj: "inj_on key (set rows)" "distinct rows" using assms(1) by (simp_all add: distinct_map)
  have "x = y" if xy: "x \<in> set rows" "y \<in> set rows" "key (g x) = key (g y)" for x y
  proof -
    have "key x = key y"
      using xy assms(2) [of x] assms(2) [of y] assms(3) [of x y] imageI [of x "set rows" key] imageI [of y "set rows" key]
      by (cases "p x"; cases "p y") (auto simp: g_def)
    then show ?thesis using inj(1) xy by (auto dest: inj_onD)
  qed
  then have "inj_on (\<lambda>x. key (g x)) (set rows)" by (rule inj_onI)
  then have "distinct (map key (map g rows))" using inj(2) by (simp add: distinct_map comp_def)
  moreover have "g = (\<lambda>x. if p x then f x else x)" by (rule ext) (simp add: g_def)
  ultimately show ?thesis by (simp only:)
qed

lemma if_both: "(c \<Longrightarrow> P a) \<Longrightarrow> (\<not> c \<Longrightarrow> P b) \<Longrightarrow> P (if c then a else b)"
  by simp

lemma move_metadata_unique: "distinct (map cm_title_id rows) \<Longrightarrow> distinct (map cm_title_id (move_metadata old new rows))"
proof -
  assume d: "distinct (map cm_title_id rows)"
  have "distinct (map cm_title_id (map (\<lambda>m. if cm_title_id m = old then m\<lparr>cm_title_id := new\<rparr> else m) rows))"
    if "new \<notin> cm_title_id ` set rows"
    by (rule distinct_map_replace) (use d that in simp_all)
  then show ?thesis using d unfolding move_metadata_def Let_def
    by (intro distinct_map_filter if_both [where P = "\<lambda>rows. distinct (map cm_title_id rows)"])
qed

lemma move_metadata_gone: "old \<noteq> new \<Longrightarrow> old \<notin> cm_title_id ` set (move_metadata old new rows)"
  by (auto simp: move_metadata_def Let_def)

lemma move_favorites_unique:
  "distinct (map (\<lambda>f. (fav_profile_id f, fav_title_id f)) rows) \<Longrightarrow>
     distinct (map (\<lambda>f. (fav_profile_id f, fav_title_id f)) (move_favorites old new rows))"
  unfolding move_favorites_def Let_def
  by (rule distinct_map_filter, rule distinct_map_replace) (auto simp: list_ex_iff)

lemma move_job_ok:
  assumes "jobs_ok rows"
  shows "jobs_ok (move_job old new ref rows)"
proof (cases "retarget_title_id_key (job_dedupe_key ref) old new")
  case None
  then show ?thesis using assms by (simp add: move_job_def)
next
  case (Some key)
  let ?mine = "\<lambda>j. job_id j = job_id ref \<and> job_active j \<and> job_dedupe_key j = job_dedupe_key ref"
  let ?rows = "map (\<lambda>j. if ?mine j then j\<lparr>job_dedupe_key := key\<rparr> else j) rows"
  have "map job_id ?rows = map job_id rows" by simp
  then have ids: "distinct (map job_id ?rows)" using assms by (metis jobs_ok_def)
  have keys: "distinct (map job_dedupe_key ?rows)" if "key \<notin> job_dedupe_key ` set rows"
    by (rule distinct_map_replace) (use assms that in \<open>auto simp: jobs_ok_def\<close>)
  have "jobs_ok (if key \<in> job_dedupe_key ` set rows then rows else ?rows)"
    by (rule if_both) (use assms ids keys in \<open>auto simp only: jobs_ok_def\<close>)
  then show ?thesis using Some by (simp add: move_job_def Let_def jobs_ok_def distinct_map_filter)
qed

lemma move_jobs_ok: "jobs_ok rows \<Longrightarrow> jobs_ok (move_jobs old new rows)"
proof -
  have "jobs_ok rows \<Longrightarrow> jobs_ok (fold (move_job old new) refs rows)" for refs
    by (induction refs arbitrary: rows) (simp_all add: move_job_ok)
  then show "jobs_ok rows \<Longrightarrow> jobs_ok (move_jobs old new rows)" by (simp add: move_jobs_def)
qed

lemma move_syncs_unique: "distinct (map sy_name rows) \<Longrightarrow> distinct (map sy_name (move_syncs old new rows))"
proof -
  have one: "distinct (map sy_name (move_sync old new name rows))" if d: "distinct (map sy_name rows)" for name rows
  proof (cases "retarget_title_id_key name old new")
    case (Some key)
    have "distinct (map sy_name (map (\<lambda>r. if sy_name r = name then r\<lparr>sy_name := key\<rparr> else r) rows))"
      if "key \<notin> sy_name ` set rows"
      by (rule distinct_map_replace) (use d that in simp_all)
    then have "distinct (map sy_name (filter (\<lambda>r. sy_name r \<noteq> name) (if key \<in> sy_name ` set rows then rows
        else map (\<lambda>r. if sy_name r = name then r\<lparr>sy_name := key\<rparr> else r) rows)))"
      using d by (intro distinct_map_filter if_both [where P = "\<lambda>rows. distinct (map sy_name rows)"])
    then show ?thesis using d Some by (simp add: move_sync_def Let_def)
  qed (simp add: move_sync_def d)
  have "distinct (map sy_name rows) \<Longrightarrow> distinct (map sy_name (fold (move_sync old new) names rows))" for names
    by (induction names arbitrary: rows) (simp_all add: one)
  then show "distinct (map sy_name rows) \<Longrightarrow> distinct (map sy_name (move_syncs old new rows))"
    by (simp add: move_syncs_def)
qed

lemma move_favorites_favors:
  assumes "old \<noteq> new"
  shows "list_ex (\<lambda>f. fav_profile_id f = p \<and> fav_title_id f = t) (move_favorites old new rows) \<longleftrightarrow>
    t \<noteq> old \<and> (list_ex (\<lambda>f. fav_profile_id f = p \<and> fav_title_id f = t) rows \<or>
      (t = new \<and> list_ex (\<lambda>f. fav_profile_id f = p \<and> fav_title_id f = old) rows))"
proof -
  define taken where "taken q = (\<exists>g \<in> set rows. fav_profile_id g = q \<and> fav_title_id g = new)" for q
  have moved: "set (move_favorites old new rows) = {f \<in> set rows. fav_title_id f \<noteq> old} \<union>
      (\<lambda>f. f\<lparr>fav_title_id := new, fav_release_id := new\<rparr>) ` {f \<in> set rows. fav_title_id f = old \<and> \<not> taken (fav_profile_id f)}"
    using assms by (auto simp: move_favorites_def Let_def list_ex_iff taken_def)
  have "(\<exists>f \<in> set (move_favorites old new rows). fav_profile_id f = p \<and> fav_title_id f = t) \<longleftrightarrow>
      (\<exists>f \<in> set rows. fav_title_id f \<noteq> old \<and> fav_profile_id f = p \<and> fav_title_id f = t) \<or>
      (\<exists>f \<in> set rows. fav_title_id f = old \<and> \<not> taken (fav_profile_id f) \<and> fav_profile_id f = p \<and> t = new)"
    unfolding moved by (simp add: bex_Un) blast
  then show ?thesis using assms unfolding list_ex_iff taken_def by blast
qed

text \<open>
  When a title follows a merge, no key of a table is doubled, the favorites of the old title become favorites of
  the new one and no others change, and nothing of the old title's metadata stays.
\<close>

theorem merge_keeps_tables:
  assumes "keys_unique w" and "old \<noteq> new"
  shows "keys_unique (move_extinct_group_dependents old new w) \<and>
    old \<notin> cm_title_id ` set (w_metadata (move_extinct_group_dependents old new w)) \<and>
    favors (move_extinct_group_dependents old new w) p t =
      (t \<noteq> old \<and> (favors w p t \<or> (t = new \<and> favors w p old)))"
  using assms move_favorites_favors [OF assms(2)]
  by (simp add: keys_unique_def move_extinct_group_dependents_def move_metadata_unique move_favorites_unique
      move_jobs_ok move_syncs_unique favors_def move_metadata_gone)

subsection \<open>A release that gains an identity\<close>

definition known_release :: torrent_release where
  "known_release = zero_torrent_release\<lparr>rel_id := ''t:1'', rel_tracker_id := ''t'', rel_provider_id := ''1'',
     rel_name := ''A''\<rparr>"

definition own_title_id :: string where
  "own_title_id = catalog_title_id plain_digest known_release (parse_release known_release)"

definition small_catalog :: "string \<Rightarrow> world" where
  "small_catalog title = (blank_world (defaults ''linux''))\<lparr>w_releases := [known_release],
     w_titles := [(''t:1'', title)],
     w_favorites := [\<lparr>fav_profile_id = ''household'', fav_title_id = own_title_id,
       fav_release_id = own_title_id, fav_created_at = 0\<rparr>]\<rparr>"

lemma single_resolved:
  assumes "w_releases w = [r]" and "w_titles w = [(rel_id r, t)]"
  shows "projection_ok w" and "catalog_resolved sha w \<longleftrightarrow>
    family_spec sha (fst (family_of r)) (snd (family_of r)) {evidence_of r} (evidence_of r) t"
proof -
  have "members key w = (if family_of r = key then {r} else {})" for key using assms by (auto simp: members_def)
  then show "catalog_resolved sha w \<longleftrightarrow>
      family_spec sha (fst (family_of r)) (snd (family_of r)) {evidence_of r} (evidence_of r) t"
    using assms by (auto simp: catalog_resolved_def family_resolved_in_def)
  show "projection_ok w" using assms by (simp add: projection_ok_def)
qed

lemma family_spec_alone:
  "family_spec sha (fst (family_of r)) (snd (family_of r)) {evidence_of r} (evidence_of r)
     (catalog_title_id sha (r\<lparr>rel_imdb := to_lower (trim_space (rel_imdb r))\<rparr>) (parse_release r))"
proof -
  define i where "i = to_lower (trim_space (rel_imdb r))"
  have e: "ev_id (evidence_of r) = i" by (simp add: ev_id_def evidence_of_def i_def)
  have low: "to_lower i = i" using ev_id_lower [of "evidence_of r"] unfolding e .
  have none: "joinable k {evidence_of r} y = {}" if "i = []" for k y
    using that e by (simp add: joinable_def family_ids_def)
  show ?thesis
  proof (cases "i = []")
    case True
    have "fallback_id sha (fst (family_of r)) (snd (family_of r)) (evidence_of r) =
        catalog_title_id sha (r\<lparr>rel_imdb := []\<rparr>) (parse_release r)"
      by (simp add: fallback_id_def catalog_title_id_def family_of_def evidence_of_def zero_torrent_release_def)
    then show ?thesis unfolding i_def [symmetric] using True by (simp add: family_spec_def e none)
  next
    case False
    then show ?thesis unfolding i_def [symmetric]
      by (simp add: family_spec_def e low imdb_title_id_def catalog_title_id_def family_of_def)
  qed
qed

lemma plain_digest_ok: "[] \<notin> range plain_digest"
  by (auto simp: plain_digest_def)

lemma small_catalog_ok: "projection_ok (small_catalog t)" "catalog_resolved plain_digest (small_catalog own_title_id)"
proof -
  have r: "w_releases (small_catalog t) = [known_release]" "w_titles (small_catalog t) = [(rel_id known_release, t)]" for t
    by (simp_all add: small_catalog_def known_release_def)
  show "projection_ok (small_catalog t)" using single_resolved(1) [OF r] .
  have "to_lower (trim_space []) = []" by code_simp
  then have "known_release\<lparr>rel_imdb := to_lower (trim_space (rel_imdb known_release))\<rparr> = known_release"
    by (simp add: known_release_def zero_torrent_release_def)
  then show "catalog_resolved plain_digest (small_catalog own_title_id)"
    using family_spec_alone [of plain_digest known_release] single_resolved(2) [OF r]
    by (simp add: own_title_id_def)
qed

definition found_release :: torrent_release where
  "found_release = known_release\<lparr>rel_imdb := ''tt1''\<rparr>"

definition found_title_id :: string where
  "found_title_id = catalog_title_id plain_digest found_release (parse_release found_release)"

lemma upsert_found:
  "upsert_releases plain_digest id id [found_release] (small_catalog own_title_id) =
     (Inr [found_release], (small_catalog own_title_id)\<lparr>w_tick := 1, w_releases := [found_release],
        w_titles := [(''t:1'', found_title_id)]\<rparr>)"
proof -
  define w where "w = (small_catalog own_title_id)\<lparr>w_tick := 1, w_releases := [found_release],
    w_titles := [(rel_id found_release, found_title_id)]\<rparr>"
  have "found_release\<lparr>rel_imdb := to_lower (trim_space (rel_imdb found_release))\<rparr> = found_release"
  proof -
    have "to_lower (trim_space ''tt1'') = ''tt1''" by code_simp
    then show ?thesis by (simp add: found_release_def)
  qed
  then have "catalog_resolved plain_digest w" "projection_ok w"
    using single_resolved(1) [of w found_release found_title_id] single_resolved(2) [of w found_release found_title_id plain_digest]
      family_spec_alone [of plain_digest found_release] by (simp_all add: w_def found_title_id_def)
  then have stay: "reconcile_families plain_digest id keys w = w" for keys
    using reconcile_families_settled [OF plain_digest_ok] by simp
  have trim: "trim_space ''t'' = ''t''" "trim_space ''1'' = ''1''" by code_simp+
  have row: "release_row [known_release] found_release = found_release"
    by (simp add: release_row_def found_release_def known_release_def zero_torrent_release_def same_provider_def)
  have "upsert_each plain_digest [found_release] ((small_catalog own_title_id)\<lparr>w_tick := 1\<rparr>, []) =
      Inr ([found_release], w, [family_of found_release])"
  proof -
    have fam: "family_of known_release = family_of found_release"
      by (rule family_of_name) (simp add: found_release_def)
    have stored: "found_release\<lparr>rel_id := ''t:1''\<rparr> = found_release"
      by (simp add: found_release_def known_release_def)
    have rid: "rel_id known_release = ''t:1''" "rel_id found_release = ''t:1''"
      by (simp_all add: known_release_def found_release_def)
    have same: "same_provider found_release known_release"
      by (simp add: same_provider_def found_release_def)
    show ?thesis
      by (simp add: id_taken_def upsert_release_def small_catalog_def row Let_def same rid fam stored row_of_def add_key_def
          w_def found_title_id_def)
  qed
  moreover have "rel_tracker_id found_release = ''t''" "rel_provider_id found_release = ''1''" "rel_id found_release = ''t:1''"
    by (simp_all add: found_release_def known_release_def)
  moreover have "attempt (small_catalog own_title_id) = (None, (small_catalog own_title_id)\<lparr>w_tick := 1\<rparr>)"
    by (simp add: attempt_def small_catalog_def blank_world_def)
  ultimately show ?thesis using stay trim by (simp add: upsert_releases_def w_def)
qed

text \<open>
  When the only release of a favorite title is stored again with an IMDb id, the projection is written with the new title
  before the families are reconciled, so nothing is seen to move: the favorite stays on a title
  that has no release any more.
\<close>

theorem identified_release_loses_favorite:
  "let w = snd (upsert_releases plain_digest id id [found_release] (small_catalog own_title_id)) in
     favors w ''household'' own_title_id \<and> w_titles w = [(''t:1'', found_title_id)] \<and>
     \<not> favors w ''household'' found_title_id"
proof -
  have "own_title_id \<noteq> found_title_id"
  proof
    assume "own_title_id = found_title_id"
    moreover have "parse_release found_release = parse_release known_release"
      by (rule parse_release_name) (simp add: found_release_def)
    ultimately have "pr_sort_title (parse_release known_release) @ [CHR 0x00] @ int_text (pr_year (parse_release known_release)) =
        ''imdb:'' @ to_lower ''tt1''"
      by (simp add: own_title_id_def found_title_id_def catalog_title_id_def plain_digest_def found_release_def
          known_release_def zero_torrent_release_def)
    then have "CHR 0x00 \<in> set (''imdb:'' @ to_lower ''tt1'')" by (metis in_set_conv_decomp append_Cons append_Nil)
    moreover have "to_lower ''tt1'' = ''tt1''" by code_simp
    ultimately show False by simp
  qed
  then show ?thesis unfolding upsert_found by (simp add: favors_def small_catalog_def)
qed

theorem upsert_keeps_catalog_resolved_witness:
  "catalog_resolved plain_digest
     (snd (upsert_releases plain_digest id id [found_release] (small_catalog own_title_id)))"
  using upsert_keeps_catalog_resolved [of plain_digest id id "[found_release]" "small_catalog own_title_id"]
    upsert_found plain_digest_ok small_catalog_ok by simp

theorem reconcile_all_idempotent_witness:
  "\<exists>w1 w2. reconcile_all plain_digest id id (small_catalog ''x'') = (None, w1) \<and>
     reconcile_all plain_digest id id w1 = (None, w2) \<and> catalog_resolved plain_digest w1 \<and>
     w2 = w1\<lparr>w_tick := w_tick w1 + 1\<rparr>"
proof -
  have runs: "\<exists>v. reconcile_all plain_digest id id w = (None, v) \<and> w_fault v = (\<lambda>_. None)"
    if "w_fault w = (\<lambda>_. None)" for w
  proof -
    have "w_fault (follow_merge m v) = w_fault v" for m v
      by (simp add: follow_merge_def move_extinct_group_dependents_def split: prod.split list.split)
    then have "w_fault (fold follow_merge ms v) = w_fault v" for ms v by (induction ms arbitrary: v) simp_all
    then have "w_fault (reconcile_family plain_digest id k v) = w_fault v" for k v
      by (simp add: reconcile_family_def Let_def split: prod.split)
    then have "w_fault (reconcile_families plain_digest id ks v) = w_fault v" for ks v
      by (induction ks arbitrary: v) (simp_all add: reconcile_families_def)
    then show ?thesis using that by (simp add: reconcile_all_def attempt_def)
  qed
  obtain w1 where w1: "reconcile_all plain_digest id id (small_catalog ''x'') = (None, w1)" "w_fault w1 = (\<lambda>_. None)"
    using runs [of "small_catalog ''x''"] by (auto simp: small_catalog_def blank_world_def)
  obtain w2 where w2: "reconcile_all plain_digest id id w1 = (None, w2)" using runs [OF w1(2)] by blast
  show ?thesis
    using reconcile_all_idempotent [OF w1(1) w2 plain_digest_ok small_catalog_ok(1)] w1 w2 by auto
qed

theorem merge_keeps_tables_witness:
  "favors (move_extinct_group_dependents own_title_id ''n'' (small_catalog own_title_id)) ''household'' ''n'' \<and>
   \<not> favors (move_extinct_group_dependents own_title_id ''n'' (small_catalog own_title_id)) ''household'' own_title_id"
proof -
  have k: "keys_unique (small_catalog own_title_id)"
    by (simp add: keys_unique_def small_catalog_def blank_world_def jobs_ok_def)
  have "own_title_id \<noteq> ''n''" by (simp add: own_title_id_def catalog_title_id_def plain_digest_def)
  then show ?thesis
    using merge_keeps_tables [OF k, of own_title_id "''n''" "''household''"]
    by (simp add: favors_def small_catalog_def)
qed

subsection \<open>A queued job of a merged title\<close>

text \<open>
  A queued refresh of the old title is dropped when the new title has a row of the same kind, even a
  finished one.
\<close>

lemma merge_drops_queued_job:
  "move_jobs ''o'' ''n''
     [zero_job\<lparr>job_id := ''a'', job_dedupe_key := refresh_prefix @ ''o'', job_state := ''queued''\<rparr>,
      zero_job\<lparr>job_id := ''b'', job_dedupe_key := refresh_prefix @ ''n'', job_state := ''completed''\<rparr>] =
   [zero_job\<lparr>job_id := ''b'', job_dedupe_key := refresh_prefix @ ''n'', job_state := ''completed''\<rparr>]"
  by code_simp

text \<open>A job that waits to be tried again keeps the key of the title that is gone.\<close>

lemma merge_leaves_waiting_job:
  "job_state j = ''retry_wait'' \<Longrightarrow> move_jobs old new [j] = [j]"
  by (simp add: move_jobs_def job_active_def)

end
