(* ===== verification/Families.thy ===== *)
theory Families
  imports Household
begin

text \<open>
  The Category families of the catalog and of the library: the aggregate rows behind the tiles and the stored
  art picks (\<open>sqlite/repository.go\<close>), the tiles themselves (\<open>application/families.go\<close>), the deduplicated
  library and its families (\<open>application/families_library.go\<close>) and the quarter the art is chosen for
  (\<open>domain/families.go\<close>).  \<open>digest\<close> is \<open>sha256.Sum256\<close>.  A Go map keyed by title is the list of its values in
  the order they were first met; what is answered from it is sorted by an order that no two of them tie in.
\<close>

subsection \<open>The quarter of a time\<close>

text \<open>\<open>time.Time.Year\<close> and \<open>Month\<close> in UTC: the proleptic Gregorian calendar, counted from the first of March of
  year 0 in eras of 400 years; the result is the year and the month.\<close>

definition civil :: "int \<Rightarrow> int \<times> int" where
  "civil days =
     (let z = days + 719468; era = z div 146097; doe = z mod 146097;
          yoe = (doe - doe div 1460 + doe div 36524 - doe div 146096) div 365;
          doy = doe - (365 * yoe + yoe div 4 - yoe div 100); mp = (5 * doy + 2) div 153;
          m = (if mp < 10 then mp + 3 else mp - 9) in
      (yoe + era * 400 + (if m \<le> 2 then 1 else 0), m))"

definition show_int :: "int \<Rightarrow> string" where
  "show_int i = (if i < 0 then CHR ''-'' # show_nat (nat (- i)) else show_nat (nat i))"

definition art_quarter :: "go_time \<Rightarrow> string" where
  "art_quarter t = (let (y, m) = civil (t div (86400 * second)) in
     show_int y @ ''-Q'' @ show_int ((m - 1) div 3 + 1))"

subsection \<open>The rows of the catalog\<close>

record family_title_row =
  fr_category :: string
  fr_title_id :: string
  fr_uploaded_at :: int
  fr_seeders :: int
  fr_rating :: rat
  fr_art_kind :: string

record family_art =
  far_url :: string
  far_source :: string
  far_title_id :: string

record family_summary =
  fs_key :: string
  fs_name :: string
  fs_count :: int
  fs_newest_title :: string
  fs_newest_id :: string
  fs_categories :: "string list"
  fs_art :: family_art

definition bundled_family_art_url :: "string \<Rightarrow> string" where
  "bundled_family_art_url key = ''/api/v1/catalog/families/'' @ key @ ''/art.svg''"

text \<open>The service with the table \<open>family_art\<close>: the title picked for a family and quarter.\<close>

record family_desk =
  fd_world :: world
  fd_picks :: "((string \<times> string) \<times> string) list"

definition row_group :: "catalog_source \<Rightarrow> string \<times> string" where
  "row_group s = (rel_category (cs_release s), cs_title_id s)"

definition art_kind_of :: "catalog_metadata option \<Rightarrow> string" where
  "art_kind_of m = (case m of
     None \<Rightarrow> []
   | Some m \<Rightarrow> if cm_backdrop_path m \<noteq> [] then ''backdrop''
               else if cm_poster_path m \<noteq> [] then ''poster'' else [])"

definition family_row_of ::
    "catalog_metadata list \<Rightarrow> catalog_source list \<Rightarrow> string \<times> string \<Rightarrow> family_title_row" where
  "family_row_of metadata sources g =
     (let own = filter (\<lambda>s. row_group s = g) sources; one = hd own; m = row_of cm_title_id (snd g) metadata in
      \<lparr>fr_category = fst g, fr_title_id = snd g,
       fr_uploaded_at = foldl (\<lambda>a s. max a (uploaded_seconds (cs_release s))) (uploaded_seconds (cs_release one)) own,
       fr_seeders = foldl (\<lambda>a s. max a (rel_seeders (cs_release s))) (rel_seeders (cs_release one)) own,
       fr_rating = (case m of Some m \<Rightarrow> cm_rating m | None \<Rightarrow> 0),
       fr_art_kind = art_kind_of m\<rparr>)"

text \<open>\<open>CatalogFamilyRows\<close>: one row per category and title of the discoverable catalog.\<close>

definition family_rows :: "string list \<Rightarrow> world \<Rightarrow> family_title_row list" where
  "family_rows eligible w =
     (let sources = filter (\<lambda>s. catalog_filter (zero_catalog_query\<lparr>cq_tracker_i_ds := eligible\<rparr>) s \<and>
                               rel_category (cs_release s) \<noteq> []) (joined_rows w) in
      map (family_row_of (w_metadata w) sources) (remdups (map row_group sources)))"

definition catalog_family_rows :: "string list \<Rightarrow> world \<Rightarrow> (svc_error + family_title_row list) \<times> world" where
  "catalog_family_rows eligible w = (case attempt w of
     (Some e, w') \<Rightarrow> (Inl (Repo_Error e), w') | (None, w') \<Rightarrow> (Inr (family_rows eligible w'), w'))"

definition family_art_pick :: "string \<Rightarrow> string \<Rightarrow> family_desk \<Rightarrow> (svc_error + string) \<times> family_desk" where
  "family_art_pick key quarter d = (case attempt (fd_world d) of
     (Some e, w) \<Rightarrow> (Inl (Repo_Error e), d\<lparr>fd_world := w\<rparr>)
   | (None, w) \<Rightarrow> ((case map_of (fd_picks d) (key, quarter) of None \<Rightarrow> Inl No_Rows | Some i \<Rightarrow> Inr i),
                  d\<lparr>fd_world := w\<rparr>))"

definition save_family_art_pick :: "string \<Rightarrow> string \<Rightarrow> string \<Rightarrow> family_desk \<Rightarrow> svc_error option \<times> family_desk" where
  "save_family_art_pick key quarter title_id d = (case attempt (fd_world d) of
     (Some e, w) \<Rightarrow> (Some (Repo_Error e), d\<lparr>fd_world := w\<rparr>)
   | (None, w) \<Rightarrow> (None, d\<lparr>fd_world := w, fd_picks := upsert fst ((key, quarter), title_id) (fd_picks d)\<rparr>))"

subsection \<open>The tiles of the catalog\<close>

record family_title =
  ft_id :: string
  ft_newest :: int
  ft_seeders :: int
  ft_rating :: rat
  ft_art_kind :: string

record family_agg =
  fa_categories :: "string list"
  fa_titles :: "family_title list"

definition fold_title_row :: "family_title_row \<Rightarrow> family_title \<Rightarrow> family_title" where
  "fold_title_row row t =
     (let t = (if fr_uploaded_at row > ft_newest t then t\<lparr>ft_newest := fr_uploaded_at row\<rparr> else t);
          t = (if fr_seeders row > ft_seeders t then t\<lparr>ft_seeders := fr_seeders row\<rparr> else t);
          t = (if fr_rating row > ft_rating t then t\<lparr>ft_rating := fr_rating row\<rparr> else t) in
      if ft_art_kind t = [] \<or> fr_art_kind row = ''backdrop'' then t\<lparr>ft_art_kind := fr_art_kind row\<rparr> else t)"

definition new_family_title :: "string \<Rightarrow> family_title" where
  "new_family_title i = \<lparr>ft_id = i, ft_newest = 0, ft_seeders = 0, ft_rating = 0, ft_art_kind = []\<rparr>"

definition fold_agg_row :: "family_title_row \<Rightarrow> family_agg \<Rightarrow> family_agg" where
  "fold_agg_row row agg =
     (let title = (case row_of ft_id (fr_title_id row) (fa_titles agg) of
         Some t \<Rightarrow> t | None \<Rightarrow> new_family_title (fr_title_id row)) in
      \<lparr>fa_categories = add_key (fr_category row) (fa_categories agg),
       fa_titles = upsert ft_id (fold_title_row row title) (fa_titles agg)\<rparr>)"

definition empty_agg :: family_agg where
  "empty_agg = \<lparr>fa_categories = [], fa_titles = []\<rparr>"

definition fold_family_row :: "family_title_row \<Rightarrow> (string \<times> family_agg) list \<Rightarrow> (string \<times> family_agg) list" where
  "fold_family_row row aggs =
     (case family_for_category (fr_category row) of
        None \<Rightarrow> aggs
      | Some key \<Rightarrow>
          upsert fst (key, fold_agg_row row (case map_of aggs key of Some a \<Rightarrow> a | None \<Rightarrow> empty_agg)) aggs)"

definition family_aggs :: "family_title_row list \<Rightarrow> (string \<times> family_agg) list" where
  "family_aggs rows = fold fold_family_row rows []"

text \<open>\<open>newestFamilyTitle\<close> runs over a map; the result does not depend on the order of the titles.\<close>

definition newer_family_title :: "family_title \<Rightarrow> string \<times> int \<Rightarrow> string \<times> int" where
  "newer_family_title t b =
     (if fst b = [] \<or> ft_newest t > snd b \<or> (ft_newest t = snd b \<and> str_less (fst b) (ft_id t))
      then (ft_id t, ft_newest t) else b)"

definition newest_family_title :: "family_title list \<Rightarrow> string" where
  "newest_family_title titles = fst (fold newer_family_title titles ([], 0))"

definition art_before :: "family_title \<Rightarrow> family_title \<Rightarrow> bool" where
  "art_before a b =
     (if (0 < ft_rating a) \<noteq> (0 < ft_rating b) then 0 < ft_rating a
      else if ft_rating a \<noteq> ft_rating b then ft_rating b < ft_rating a
      else if ft_seeders a \<noteq> ft_seeders b then ft_seeders b < ft_seeders a
      else str_less (ft_id a) (ft_id b))"

definition family_art_pool :: nat where
  "family_art_pool = 10"

definition rank_family_art :: "family_title list \<Rightarrow> string list" where
  "rank_family_art titles =
     take family_art_pool (map ft_id (filter (\<lambda>t. ft_art_kind t \<noteq> []) (sort_by art_before titles)))"

definition catalog_art :: "string \<Rightarrow> string \<Rightarrow> family_art" where
  "catalog_art i kind = \<lparr>far_url = ''/api/v1/artwork/'' @ i @ ''/'' @ kind, far_source = ''catalog'', far_title_id = i\<rparr>"

definition family_art_of ::
    "(string \<Rightarrow> string) \<Rightarrow> string \<Rightarrow> string \<Rightarrow> family_title list \<Rightarrow> family_desk \<Rightarrow> family_art \<times> family_desk" where
  "family_art_of digest key quarter titles d =
     (let kind = (\<lambda>i. case row_of ft_id i titles of Some t \<Rightarrow> ft_art_kind t | None \<Rightarrow> []);
          draw = (\<lambda>d. case pick_family_art digest key quarter (rank_family_art titles) of
              None \<Rightarrow> (\<lparr>far_url = bundled_family_art_url key, far_source = ''bundled'', far_title_id = []\<rparr>, d)
            | Some i \<Rightarrow> (catalog_art i (kind i), snd (save_family_art_pick key quarter i d))) in
      case family_art_pick key quarter d of
        (Inl _, d) \<Rightarrow> draw d
      | (Inr stored, d) \<Rightarrow> if kind stored \<noteq> [] then (catalog_art stored (kind stored), d) else draw d)"

definition family_tile :: "string \<times> string \<Rightarrow> family_agg \<Rightarrow> family_summary" where
  "family_tile f agg = \<lparr>fs_key = fst f, fs_name = snd f, fs_count = int (length (fa_titles agg)),
     fs_newest_title = [], fs_newest_id = newest_family_title (fa_titles agg),
     fs_categories = sort_by str_less (fa_categories agg),
     fs_art = \<lparr>far_url = [], far_source = [], far_title_id = []\<rparr>\<rparr>"

fun family_tiles ::
    "(string \<Rightarrow> string) \<Rightarrow> string \<Rightarrow> (string \<times> family_agg) list \<Rightarrow> (string \<times> string) list \<Rightarrow> family_desk \<Rightarrow>
     family_summary list \<times> family_desk" where
  "family_tiles digest quarter aggs [] d = ([], d)"
| "family_tiles digest quarter aggs (f # fs) d =
     (case map_of aggs (fst f) of
        None \<Rightarrow> family_tiles digest quarter aggs fs d
      | Some agg \<Rightarrow>
          if fa_titles agg = [] then family_tiles digest quarter aggs fs d
          else (let (art, d) = family_art_of digest (fst f) quarter (fa_titles agg) d;
                    (items, d) = family_tiles digest quarter aggs fs d in
                ((family_tile f agg)\<lparr>fs_art := art\<rparr> # items, d)))"

fun dressed_names :: "catalog_title list \<Rightarrow> world \<Rightarrow> (string \<times> string) list \<times> world" where
  "dressed_names [] w = ([], w)"
| "dressed_names (t # ts) w =
     (let (t, w) = apply_metadata_only t w; (ns, w) = dressed_names ts w in ((ct_id t, ct_title t) # ns, w))"

definition family_title_names :: "string list \<Rightarrow> world \<Rightarrow> (svc_error + (string \<times> string) list) \<times> world" where
  "family_title_names ids w =
     (if ids = [] then (Inr [], w)
      else (case sources_by_title_ids ids (eligible_trackers w) w of
              (Inl e, w) \<Rightarrow> (Inl e, w)
            | (Inr sources, w) \<Rightarrow> (let (ns, w) = dressed_names (group_catalog sources False) w in (Inr ns, w))))"

definition build_families ::
    "(string \<Rightarrow> string) \<Rightarrow> string \<Rightarrow> family_desk \<Rightarrow> (svc_error + family_summary list) \<times> family_desk" where
  "build_families digest quarter d =
     (case catalog_family_rows (eligible_trackers (fd_world d)) (fd_world d) of
        (Inl e, w) \<Rightarrow> (Inl e, d\<lparr>fd_world := w\<rparr>)
      | (Inr rows, w) \<Rightarrow>
          (let (items, d) = family_tiles digest quarter (family_aggs rows) category_families (d\<lparr>fd_world := w\<rparr>) in
           case family_title_names (filter (\<lambda>i. i \<noteq> []) (map fs_newest_id items)) (fd_world d) of
             (Inl e, w) \<Rightarrow> (Inl e, d\<lparr>fd_world := w\<rparr>)
           | (Inr names, w) \<Rightarrow>
               (Inr (map (\<lambda>t. t\<lparr>fs_newest_title := text_of names (fs_newest_id t)\<rparr>) items), d\<lparr>fd_world := w\<rparr>)))"

subsection \<open>The library\<close>

definition library_key :: "household_item \<Rightarrow> string" where
  "library_key item =
     (let tid = (if hi_title_id item = [] then (case hi_catalog item of Some t \<Rightarrow> ct_id t | None \<Rightarrow> [])
                 else hi_title_id item);
          src = pb_source_id (hi_playback_state item) in
      if tid \<noteq> [] then ''title:'' @ tid @ ''|category:'' @ to_lower (rel_category (hi_release item))
      else if src \<noteq> [] then ''source:'' @ src else ''release:'' @ rel_id (hi_release item))"

definition item_updated :: "household_item \<Rightarrow> go_time" where
  "item_updated item = pb_updated_at (hi_playback_state item)"

definition keep_latest :: "household_item \<Rightarrow> household_item list \<Rightarrow> household_item list" where
  "keep_latest item items =
     (case row_of library_key (library_key item) items of
        None \<Rightarrow> items @ [item]
      | Some current \<Rightarrow> if item_updated current < item_updated item then upsert library_key item items else items)"

definition library_before :: "household_item \<Rightarrow> household_item \<Rightarrow> bool" where
  "library_before a b =
     (if item_updated a \<noteq> item_updated b then item_updated b < item_updated a
      else str_less (rel_id (hi_release a)) (rel_id (hi_release b)))"

definition library_items :: "household_state \<Rightarrow> household_item list" where
  "library_items st = hs_favorites st @ hs_continue_watching st @ hs_watched st @ hs_recent st"

definition dedupe_library_items :: "household_state \<Rightarrow> household_item list" where
  "dedupe_library_items st = sort_by library_before (fold keep_latest (library_items st) [])"

definition library_title_key :: "household_item \<Rightarrow> string" where
  "library_title_key item =
     (let tid = (case hi_catalog item of Some t \<Rightarrow> ct_id t | None \<Rightarrow> []); src = pb_source_id (hi_playback_state item) in
      if hi_title_id item \<noteq> [] then ''title:'' @ hi_title_id item
      else if tid \<noteq> [] then ''title:'' @ tid
      else if src \<noteq> [] then ''source:'' @ src else ''release:'' @ rel_id (hi_release item))"

definition library_title_name :: "household_item \<Rightarrow> string" where
  "library_title_name item = (case hi_catalog item of
     Some t \<Rightarrow> if ct_title t \<noteq> [] then ct_title t else rel_name (hi_release item)
   | None \<Rightarrow> rel_name (hi_release item))"

record library_group =
  lg_titles :: "string list"
  lg_categories :: "string list"
  lg_newest :: household_item
  lg_art :: "catalog_title list"

definition empty_group :: library_group where
  "empty_group = \<lparr>lg_titles = [], lg_categories = [], lg_newest = zero_household_item, lg_art = []\<rparr>"

definition has_art :: "catalog_title \<Rightarrow> bool" where
  "has_art t = (ct_id t \<noteq> [] \<and> (ct_backdrop_url t \<noteq> [] \<or> ct_poster_url t \<noteq> []))"

definition add_to_group :: "household_item \<Rightarrow> library_group \<Rightarrow> library_group" where
  "add_to_group item g =
     (let titles = add_key (library_title_key item) (lg_titles g) in
      \<lparr>lg_titles = titles,
       lg_categories = add_key (rel_category (hi_release item)) (lg_categories g),
       lg_newest = (if length titles = 1 \<or> item_updated (lg_newest g) < item_updated item then item else lg_newest g),
       lg_art = (case hi_catalog item of
          Some t \<Rightarrow> if has_art t then upsert ct_id t (lg_art g) else lg_art g | None \<Rightarrow> lg_art g)\<rparr>)"

definition add_library_item :: "household_item \<Rightarrow> (string \<times> library_group) list \<Rightarrow> (string \<times> library_group) list" where
  "add_library_item item groups =
     (case family_for_category (rel_category (hi_release item)) of
        None \<Rightarrow> groups
      | Some key \<Rightarrow>
          upsert fst (key, add_to_group item (case map_of groups key of Some g \<Rightarrow> g | None \<Rightarrow> empty_group)) groups)"

definition rated_before :: "catalog_title \<Rightarrow> catalog_title \<Rightarrow> bool" where
  "rated_before a b =
     (if ct_rating a \<noteq> ct_rating b then ct_rating b < ct_rating a else str_less (ct_id a) (ct_id b))"

definition library_art :: "(string \<Rightarrow> string) \<Rightarrow> string \<Rightarrow> string \<Rightarrow> catalog_title list \<Rightarrow> family_art" where
  "library_art digest key quarter titles =
     (case pick_family_art digest key quarter (map ct_id (take family_art_pool (sort_by rated_before titles))) of
        None \<Rightarrow> \<lparr>far_url = bundled_family_art_url key, far_source = ''bundled'', far_title_id = []\<rparr>
      | Some i \<Rightarrow>
          (let url = (case row_of ct_id i titles of
              Some t \<Rightarrow> if ct_backdrop_url t = [] then ct_poster_url t else ct_backdrop_url t | None \<Rightarrow> []) in
           \<lparr>far_url = url, far_source = ''catalog'', far_title_id = i\<rparr>))"

definition library_tile :: "(string \<Rightarrow> string) \<Rightarrow> string \<Rightarrow> string \<times> string \<Rightarrow> library_group \<Rightarrow> family_summary" where
  "library_tile digest quarter f g = \<lparr>fs_key = fst f, fs_name = snd f, fs_count = int (length (lg_titles g)),
     fs_newest_title = library_title_name (lg_newest g),
     fs_newest_id = (case hi_catalog (lg_newest g) of Some t \<Rightarrow> ct_id t | None \<Rightarrow> []),
     fs_categories = sorted_keys (lg_categories g), fs_art = library_art digest (fst f) quarter (lg_art g)\<rparr>"

definition library_families :: "(string \<Rightarrow> string) \<Rightarrow> household_item list \<Rightarrow> string \<Rightarrow> family_summary list" where
  "library_families digest items quarter =
     (let groups = fold add_library_item items [] in
      concat (map (\<lambda>f. case map_of groups (fst f) of
        None \<Rightarrow> [] | Some g \<Rightarrow> [library_tile digest quarter f g]) category_families))"

definition library_family_items :: "household_item list \<Rightarrow> string \<Rightarrow> string \<Rightarrow> household_item list" where
  "library_family_items items family_key category =
     sort_by (\<lambda>a b. item_updated b < item_updated a)
       (filter (\<lambda>item. family_for_category (rel_category (hi_release item)) = Some family_key \<and>
          (category = [] \<or> equal_fold (rel_category (hi_release item)) category)) items)"

end
