(* ===== verification/Family_Flight.thy ===== *)
theory Family_Flight
  imports Families
begin

text \<open>
  The cache of the tiles (\<open>application/families.go\<close>): a stale cache is answered as it is while one background
  computation, the flight, refreshes it.  What the callers and the flight do under \<open>familyMu\<close> is a function of
  the state; \<open>family_step\<close> interleaves them with changes of the catalog and with the stopping of the service.
  \<open>fm_seen\<close> is a ghost: the catalogs there have been since the tiles were last declared stale.
\<close>

datatype flight_phase =
    Started
  | Reading nat go_time
  | Answered nat go_time "svc_error + family_summary list"

record family_memo =
  fm_at :: go_time
  fm_quarter :: string
  fm_items :: "family_summary list option"
  fm_gen :: nat
  fm_flight :: "flight_phase option"
  fm_waiting :: nat
  fm_released :: "(svc_error + family_summary list) list"
  fm_stopping :: bool
  fm_desk :: family_desk
  fm_seen :: "family_desk set"

definition family_cache_ttl :: int where
  "family_cache_ttl = 10 * minute"

text \<open>\<open>now.Sub(at)\<close> of a zero \<open>at\<close> saturates above every bound.\<close>

definition families_fresh :: "go_time \<Rightarrow> family_memo \<Rightarrow> bool" where
  "families_fresh now m =
     (fm_items m \<noteq> None \<and> fm_quarter m = art_quarter now \<and>
      now - fm_at m < family_cache_ttl \<and> fm_at m \<le> now)"

definition start_flight :: "family_memo \<Rightarrow> family_memo" where
  "start_flight m =
     (case fm_flight m of
        Some _ \<Rightarrow> m
      | None \<Rightarrow> if fm_stopping m then m else m\<lparr>fm_flight := Some Started\<rparr>)"

definition invalidate_families :: "family_memo \<Rightarrow> family_memo" where
  "invalidate_families m = m\<lparr>fm_at := zero_time, fm_quarter := [], fm_items := None, fm_gen := fm_gen m + 1,
     fm_seen := {fm_desk m}\<rparr>"

definition refresh_families :: "family_memo \<Rightarrow> family_memo" where
  "refresh_families m = start_flight (m\<lparr>fm_at := zero_time, fm_gen := fm_gen m + 1, fm_seen := {fm_desk m}\<rparr>)"

definition warm_families :: "go_time \<Rightarrow> family_memo \<Rightarrow> family_memo" where
  "warm_families now m = (if families_fresh now m then m else start_flight m)"

datatype families_answer = Served "family_summary list" | Waiting | Service_Stopping

definition catalog_families :: "go_time \<Rightarrow> family_memo \<Rightarrow> families_answer \<times> family_memo" where
  "catalog_families now m =
     (case fm_items m of
        Some items \<Rightarrow> (Served items, if families_fresh now m then m else start_flight m)
      | None \<Rightarrow>
          (let m = start_flight m in
           if fm_flight m = None then (Service_Stopping, m)
           else (Waiting, m\<lparr>fm_waiting := fm_waiting m + 1\<rparr>)))"

text \<open>A caller whose context ends gives up waiting; the flight does not depend on it.\<close>

definition give_up :: "family_memo \<Rightarrow> family_memo" where
  "give_up m = m\<lparr>fm_waiting := fm_waiting m - 1\<rparr>"

subsection \<open>The flight\<close>

definition flight_reads :: "go_time \<Rightarrow> family_memo \<Rightarrow> family_memo" where
  "flight_reads now m = m\<lparr>fm_flight := Some (Reading (fm_gen m) now)\<rparr>"

definition flight_builds :: "(string \<Rightarrow> string) \<Rightarrow> nat \<Rightarrow> go_time \<Rightarrow> family_memo \<Rightarrow> family_memo" where
  "flight_builds digest gen now m =
     (let (res, d) = build_families digest (art_quarter now) (fm_desk m) in
      m\<lparr>fm_flight := Some (Answered gen now res), fm_desk := d, fm_seen := insert d (fm_seen m)\<rparr>)"

definition land_flight :: "svc_error + family_summary list \<Rightarrow> family_memo \<Rightarrow> family_memo" where
  "land_flight res m = m\<lparr>fm_flight := None, fm_waiting := 0,
     fm_released := fm_released m @ replicate (fm_waiting m) res\<rparr>"

definition flight_stores ::
    "nat \<Rightarrow> go_time \<Rightarrow> svc_error + family_summary list \<Rightarrow> family_memo \<Rightarrow> family_memo" where
  "flight_stores gen now res m =
     (case res of
        Inl _ \<Rightarrow> land_flight res m
      | Inr items \<Rightarrow>
          (let changed = (fm_gen m \<noteq> gen);
               m = m\<lparr>fm_at := (if changed then zero_time else now), fm_quarter := art_quarter now,
                     fm_items := Some items\<rparr> in
           if changed then m\<lparr>fm_flight := Some Started\<rparr> else land_flight res m))"

subsection \<open>The interleaving\<close>

inductive family_step :: "(string \<Rightarrow> string) \<Rightarrow> family_memo \<Rightarrow> family_memo \<Rightarrow> bool" for digest where
  catalog_changes: "family_step digest m (m\<lparr>fm_desk := d, fm_seen := insert d (fm_seen m)\<rparr>)"
| invalidates: "family_step digest m (invalidate_families m)"
| refreshes: "family_step digest m (refresh_families m)"
| warms: "0 \<le> now \<Longrightarrow> family_step digest m (warm_families now m)"
| asks: "0 \<le> now \<Longrightarrow> family_step digest m (snd (catalog_families now m))"
| gives_up: "0 < fm_waiting m \<Longrightarrow> family_step digest m (give_up m)"
| reads: "fm_flight m = Some Started \<Longrightarrow> 0 \<le> now \<Longrightarrow> family_step digest m (flight_reads now m)"
| builds: "fm_flight m = Some (Reading gen now) \<Longrightarrow> family_step digest m (flight_builds digest gen now m)"
| stores: "fm_flight m = Some (Answered gen now res) \<Longrightarrow> family_step digest m (flight_stores gen now res m)"
| stops: "family_step digest m (m\<lparr>fm_stopping := True\<rparr>)"

inductive_cases family_stepE: "family_step digest m m'"

text \<open>A service that starts on a catalog.\<close>

definition first_memo :: "family_desk \<Rightarrow> family_memo" where
  "first_memo d = \<lparr>fm_at = zero_time, fm_quarter = [], fm_items = None, fm_gen = 0, fm_flight = None,
     fm_waiting = 0, fm_released = [], fm_stopping = False, fm_desk = d, fm_seen = {d}\<rparr>"

inductive family_run :: "(string \<Rightarrow> string) \<Rightarrow> family_desk \<Rightarrow> family_memo \<Rightarrow> bool" for digest d where
  starts: "family_run digest d (first_memo d)"
| moves: "family_run digest d m \<Longrightarrow> family_step digest m m' \<Longrightarrow> family_run digest d m'"

subsection \<open>Correctness\<close>

text \<open>Tiles built from a catalog there was since the tiles were last declared stale.\<close>

definition built_from :: "(string \<Rightarrow> string) \<Rightarrow> string \<Rightarrow> family_desk set \<Rightarrow> svc_error + family_summary list \<Rightarrow> bool" where
  "built_from digest quarter seen res = (\<exists>d \<in> seen. fst (build_families digest quarter d) = res)"

lemma built_from_mono: "built_from digest q seen res \<Longrightarrow> seen \<subseteq> seen' \<Longrightarrow> built_from digest q seen' res"
  unfolding built_from_def by blast

definition cache_current :: "(string \<Rightarrow> string) \<Rightarrow> family_memo \<Rightarrow> bool" where
  "cache_current digest m =
     (case fm_items m of
        None \<Rightarrow> True
      | Some items \<Rightarrow> fm_at m = zero_time \<or> (0 \<le> fm_at m \<and> built_from digest (fm_quarter m) (fm_seen m) (Inr items)))"

definition flight_current :: "(string \<Rightarrow> string) \<Rightarrow> family_memo \<Rightarrow> bool" where
  "flight_current digest m =
     (case fm_flight m of
        None \<Rightarrow> fm_waiting m = 0
      | Some Started \<Rightarrow> True
      | Some (Reading gen now) \<Rightarrow> gen \<le> fm_gen m \<and> 0 \<le> now
      | Some (Answered gen now res) \<Rightarrow> gen \<le> fm_gen m \<and> 0 \<le> now \<and>
          (gen = fm_gen m \<longrightarrow> built_from digest (art_quarter now) (fm_seen m) res))"

definition memo_ok :: "(string \<Rightarrow> string) \<Rightarrow> family_memo \<Rightarrow> bool" where
  "memo_ok digest m = (fm_desk m \<in> fm_seen m \<and> cache_current digest m \<and> flight_current digest m)"

end
