(* ===== verification/Family_Facts.thy ===== *)
theory Family_Facts
  imports Family_Flight
begin

text \<open>
  The cache of the tiles never passes an old catalog for a fresh one and releases everybody who waits for it; a
  tile tells the titles of its family, and the library keeps the latest item of every title.
\<close>

subsection \<open>The cache\<close>

lemma fresh_not_zero: "families_fresh now m \<Longrightarrow> 0 \<le> now \<Longrightarrow> fm_at m \<noteq> zero_time"
  by (auto simp: families_fresh_def zero_time_def family_cache_ttl_def minute_def second_def)

lemma start_flight_ok: "memo_ok digest m \<Longrightarrow> memo_ok digest (start_flight m)"
  by (auto simp: memo_ok_def start_flight_def cache_current_def flight_current_def split: option.splits)

lemma declared_stale_ok:
  assumes "memo_ok digest m"
  shows "memo_ok digest (m\<lparr>fm_at := zero_time, fm_gen := fm_gen m + 1, fm_seen := {fm_desk m}\<rparr>)"
    and "memo_ok digest (invalidate_families m)"
  using assms by (auto simp: memo_ok_def invalidate_families_def cache_current_def flight_current_def
    split: option.splits flight_phase.splits)

lemma catalog_change_ok:
  "memo_ok digest m \<Longrightarrow> memo_ok digest (m\<lparr>fm_desk := c, fm_seen := insert c (fm_seen m)\<rparr>)"
  by (auto simp: memo_ok_def cache_current_def flight_current_def
    intro: built_from_mono split: option.splits flight_phase.splits)

lemma catalog_families_ok: "memo_ok digest m \<Longrightarrow> memo_ok digest (snd (catalog_families now m))"
  using start_flight_ok[of digest m]
  by (auto simp: catalog_families_def Let_def memo_ok_def cache_current_def flight_current_def
    split: option.splits flight_phase.splits)

lemma flight_reads_ok: "memo_ok digest m \<Longrightarrow> 0 \<le> now \<Longrightarrow> memo_ok digest (flight_reads now m)"
  by (auto simp: memo_ok_def flight_reads_def cache_current_def flight_current_def split: option.splits)

lemma flight_builds_ok:
  assumes "memo_ok digest m" "fm_flight m = Some (Reading gen now)"
  shows "memo_ok digest (flight_builds digest gen now m)"
proof -
  obtain res d where b: "build_families digest (art_quarter now) (fm_desk m) = (res, d)" by fastforce
  have wider: "built_from digest q (fm_seen m) r \<Longrightarrow> built_from digest q (insert d (fm_seen m)) r" for q r
    by (erule built_from_mono) blast
  have "built_from digest (art_quarter now) (insert d (fm_seen m)) res"
    using assms(1) b by (auto simp: memo_ok_def built_from_def intro!: bexI[of _ "fm_desk m"])
  with assms b wider show ?thesis
    by (auto simp: memo_ok_def flight_builds_def cache_current_def flight_current_def split: option.splits)
qed

lemma flight_stores_ok:
  "memo_ok digest m \<Longrightarrow> fm_flight m = Some (Answered gen now res) \<Longrightarrow> memo_ok digest (flight_stores gen now res m)"
  by (auto simp: memo_ok_def flight_stores_def land_flight_def cache_current_def flight_current_def Let_def
    split: option.splits sum.splits)

lemma family_step_ok: "family_step digest m m' \<Longrightarrow> memo_ok digest m \<Longrightarrow> memo_ok digest m'"
proof (induction rule: family_step.induct)
  case (gives_up m)
  then show ?case
    by (auto simp: memo_ok_def give_up_def cache_current_def flight_current_def
      split: option.splits flight_phase.splits)
next
  case (stops m)
  then show ?case
    by (auto simp: memo_ok_def cache_current_def flight_current_def split: option.splits flight_phase.splits)
next
  case (refreshes m)
  then show ?case unfolding refresh_families_def by (intro start_flight_ok declared_stale_ok)
qed (auto simp: warm_families_def catalog_change_ok start_flight_ok declared_stale_ok
  catalog_families_ok flight_reads_ok flight_builds_ok flight_stores_ok)

lemma family_run_ok: "family_run digest d m \<Longrightarrow> memo_ok digest m"
proof (induction rule: family_run.induct)
  case starts
  show ?case by (simp add: first_memo_def memo_ok_def cache_current_def flight_current_def)
qed (blast intro: family_step_ok)

text \<open>A flight left alone: each turn is the step its phase allows.\<close>

definition flight_turn :: "(string \<Rightarrow> string) \<Rightarrow> go_time \<Rightarrow> family_memo \<Rightarrow> family_memo" where
  "flight_turn digest clock m =
     (case fm_flight m of
        None \<Rightarrow> m
      | Some Started \<Rightarrow> flight_reads clock m
      | Some (Reading gen now) \<Rightarrow> flight_builds digest gen now m
      | Some (Answered gen now res) \<Rightarrow> flight_stores gen now res m)"

fun flight_turns :: "(string \<Rightarrow> string) \<Rightarrow> go_time \<Rightarrow> nat \<Rightarrow> family_memo \<Rightarrow> family_memo" where
  "flight_turns digest clock 0 m = m"
| "flight_turns digest clock (Suc n) m = flight_turns digest clock n (flight_turn digest clock m)"

definition landed :: "family_memo \<Rightarrow> family_memo \<Rightarrow> bool" where
  "landed m m' = (fm_flight m' = None \<and> fm_waiting m' = 0 \<and>
     (\<exists>res. fm_released m' = fm_released m @ replicate (fm_waiting m) res \<and>
        (case res of Inl _ \<Rightarrow> True | Inr items \<Rightarrow> fm_items m' = Some items \<and> fm_at m' \<noteq> zero_time)))"

lemma flight_turns_landed: "fm_flight m = None \<Longrightarrow> flight_turns digest clock n m = m"
  by (induction n) (auto simp: flight_turn_def)

lemma answered_lands:
  assumes "fm_flight m = Some (Answered gen now res)" "(\<exists>e. res = Inl e) \<or> gen = fm_gen m" "0 \<le> now"
  shows "landed m (flight_turn digest clock m)"
  using assms by (cases res) (auto simp: landed_def flight_turn_def flight_stores_def land_flight_def zero_time_def second_def)

lemma early_turn:
  assumes "fm_flight m = Some p" "p = Started \<or> (\<exists>gen now. p = Reading gen now)"
  shows "fm_flight (flight_turn digest clock m) \<noteq> None"
    and "fm_waiting (flight_turn digest clock m) = fm_waiting m"
    and "fm_released (flight_turn digest clock m) = fm_released m"
  using assms by (auto simp: flight_turn_def flight_reads_def flight_builds_def split: prod.splits)

lemma turn_lands:
  assumes "fm_flight m = Some p" "p = Started \<or> (\<exists>gen now. p = Reading gen now)"
    "landed (flight_turn digest clock m) m'"
  shows "landed m m'"
  using assms(3) early_turn[OF assms(1,2)] by (simp add: landed_def)

lemma reading_lands:
  assumes "fm_flight m = Some (Reading gen now)" "gen = fm_gen m" "0 \<le> now"
  shows "landed m (flight_turns digest clock 2 m)"
proof -
  define m1 where "m1 = flight_turn digest clock m"
  obtain res d where "build_families digest (art_quarter now) (fm_desk m) = (res, d)" by fastforce
  then have "fm_flight m1 = Some (Answered gen now res)" "fm_gen m1 = fm_gen m"
    using assms(1) by (simp_all add: m1_def flight_turn_def flight_builds_def)
  then have "landed m1 (flight_turn digest clock m1)" using answered_lands assms(2,3) by simp
  then show ?thesis
    using turn_lands[OF assms(1), of digest clock] by (simp add: numeral_2_eq_2 m1_def)
qed

lemma started_lands:
  assumes "fm_flight m = Some Started" "0 \<le> clock"
  shows "landed m (flight_turns digest clock 3 m)"
proof -
  define m1 where "m1 = flight_turn digest clock m"
  have "fm_flight m1 = Some (Reading (fm_gen m) clock)" "fm_gen m1 = fm_gen m"
    using assms(1) by (simp_all add: m1_def flight_turn_def flight_reads_def)
  then have "landed m1 (flight_turns digest clock 2 m1)" using reading_lands assms(2) by simp
  then show ?thesis
    using turn_lands[OF assms(1), of digest clock] by (simp add: numeral_3_eq_3 numeral_2_eq_2 m1_def)
qed

lemma turns_add: "flight_turns digest clock (a + b) m = flight_turns digest clock b (flight_turns digest clock a m)"
  by (induction a arbitrary: m) auto

lemma landed_stays: "landed m (flight_turns digest clock k m) \<Longrightarrow> k \<le> n \<Longrightarrow> landed m (flight_turns digest clock n m)"
  using flight_turns_landed[of "flight_turns digest clock k m" digest clock "n - k"] turns_add[of digest clock k "n - k" m]
  by (auto simp: landed_def)

lemma answered_ends:
  assumes "fm_flight m = Some (Answered gen now res)" "0 \<le> now" "0 \<le> clock"
  shows "landed m (flight_turns digest clock 4 m)"
proof (cases "(\<exists>e. res = Inl e) \<or> gen = fm_gen m")
  case True
  then have "landed m (flight_turns digest clock 1 m)"
    using answered_lands[OF assms(1) True assms(2)] by simp
  then show ?thesis by (rule landed_stays) simp
next
  case False
  define m1 where "m1 = flight_turn digest clock m"
  from False have m1: "fm_flight m1 = Some Started" "fm_waiting m1 = fm_waiting m" "fm_released m1 = fm_released m"
    using assms(1) by (auto simp: m1_def flight_turn_def flight_stores_def split: sum.splits)
  then have "landed m1 (flight_turns digest clock 3 m1)" using assms(3) by (intro started_lands)
  then have "landed m (flight_turns digest clock 3 m1)" using m1 by (simp add: landed_def)
  then show ?thesis by (simp add: m1_def eval_nat_numeral)
qed

lemma reading_ends:
  assumes "fm_flight m = Some (Reading gen now)" "0 \<le> now" "0 \<le> clock"
  shows "landed m (flight_turns digest clock 5 m)"
proof -
  define m1 where "m1 = flight_turn digest clock m"
  obtain res d where "build_families digest (art_quarter now) (fm_desk m) = (res, d)" by fastforce
  then have "fm_flight m1 = Some (Answered gen now res)"
    using assms(1) by (simp add: m1_def flight_turn_def flight_builds_def)
  then have "landed m1 (flight_turns digest clock 4 m1)" using answered_ends assms(2,3) by blast
  then show ?thesis using turn_lands[OF assms(1), of digest clock] by (simp add: m1_def eval_nat_numeral)
qed

text \<open>
  A computation that is left alone, whatever the state it was reached in, ends within five of its own
  steps: everybody who waited then has its result, and if that is a list of tiles, it is the cache and counts as
  computed at a time of its own.
\<close>

theorem flight_lands:
  assumes "family_run digest d m" "fm_flight m \<noteq> None" "0 \<le> clock"
  shows "landed m (flight_turns digest clock 5 m)"
proof -
  from assms(1) have ok: "flight_current digest m" using family_run_ok memo_ok_def by blast
  from assms(2) obtain p where p: "fm_flight m = Some p" by blast
  show ?thesis
  proof (cases p)
    case Started
    with p started_lands[OF _ assms(3)] have "landed m (flight_turns digest clock 3 m)" by simp
    then show ?thesis by (rule landed_stays) simp
  next
    case (Reading gen now)
    then show ?thesis using p ok reading_ends[OF _ _ assms(3)] by (simp add: flight_current_def)
  next
    case (Answered gen now res)
    with p ok answered_ends[OF _ _ assms(3)] have "landed m (flight_turns digest clock 4 m)"
      by (simp add: flight_current_def)
    then show ?thesis by (rule landed_stays) simp
  qed
qed

text \<open>
  Property C27: whatever the order of requests, catalog changes, refreshes, invalidations, stops and background
  computations: tiles that \<open>CatalogFamilies\<close> takes for fresh are those of the quarter of the request, built from a
  catalog there has been since the tiles were last declared stale; and when requests wait, on a cold cache or while the
  service stops, a computation is under way which, left to itself, ends within five of its steps and hands all of them
  the one answer it came to.
\<close>

theorem family_cache_current:
  assumes "family_run digest d m" "0 \<le> now"
  shows "(families_fresh now m \<longrightarrow>
      (\<exists>items. fm_items m = Some items \<and> built_from digest (art_quarter now) (fm_seen m) (Inr items))) \<and>
    (0 < fm_waiting m \<longrightarrow> fm_flight m \<noteq> None \<and>
      (\<exists>res. let m' = flight_turns digest now 5 m in fm_flight m' = None \<and> fm_waiting m' = 0 \<and>
        fm_released m' = fm_released m @ replicate (fm_waiting m) res))"
proof -
  have ok: "memo_ok digest m" using assms(1) by (rule family_run_ok)
  have "\<exists>items. fm_items m = Some items \<and> built_from digest (art_quarter now) (fm_seen m) (Inr items)"
    if "families_fresh now m"
  proof -
    from that obtain items where items: "fm_items m = Some items" "fm_quarter m = art_quarter now"
      by (auto simp: families_fresh_def)
    with ok fresh_not_zero[OF that assms(2)] show ?thesis
      by (auto simp: memo_ok_def cache_current_def)
  qed
  moreover have "fm_flight m \<noteq> None" if "0 < fm_waiting m"
    using ok that by (cases "fm_flight m") (simp_all add: memo_ok_def flight_current_def)
  moreover have "landed m (flight_turns digest now 5 m)" if "fm_flight m \<noteq> None"
    using flight_lands[OF assms(1) that assms(2)] .
  ultimately show ?thesis
    by (auto simp: landed_def Let_def)
qed

subsection \<open>The tiles\<close>

definition rows_of_family :: "family_title_row list \<Rightarrow> string \<Rightarrow> family_title_row list" where
  "rows_of_family rows key = filter (\<lambda>r. family_for_category (fr_category r) = Some key) rows"

lemma family_aggs_snoc: "family_aggs (rows @ [r]) = fold_family_row r (family_aggs rows)"
  by (simp add: family_aggs_def)

lemma family_aggs_spec:
  "map_of (family_aggs rows) key =
     (if rows_of_family rows key = [] then None else Some (fold fold_agg_row (rows_of_family rows key) empty_agg))"
proof (induction rows rule: rev_induct)
  case Nil
  show ?case by (simp add: family_aggs_def rows_of_family_def)
next
  case (snoc r rows)
  then show ?case
    by (cases "family_for_category (fr_category r)")
      (auto simp: family_aggs_snoc fold_family_row_def rows_of_family_def map_of_upsert)
qed

text \<open>The latest upload of a title, and never before the epoch.\<close>

definition title_newest :: "family_title_row list \<Rightarrow> string \<Rightarrow> int" where
  "title_newest rows i = foldl max 0 (map fr_uploaded_at (filter (\<lambda>r. fr_title_id r = i) rows))"

definition agg_tells :: "family_title_row list \<Rightarrow> family_agg \<Rightarrow> bool" where
  "agg_tells rows agg =
     (distinct (map ft_id (fa_titles agg)) \<and> ft_id ` set (fa_titles agg) = fr_title_id ` set rows \<and>
      distinct (fa_categories agg) \<and> set (fa_categories agg) = fr_category ` set rows \<and>
      (\<forall>t \<in> set (fa_titles agg). ft_newest t = title_newest rows (ft_id t)))"

lemma fold_title_row_fields [simp]:
  "ft_id (fold_title_row row t) = ft_id t"
  "ft_newest (fold_title_row row t) = max (ft_newest t) (fr_uploaded_at row)"
  by (auto simp: fold_title_row_def Let_def)

lemma title_newest_snoc:
  "title_newest (rows @ [r]) i =
     (if fr_title_id r = i then max (title_newest rows i) (fr_uploaded_at r) else title_newest rows i)"
  by (simp add: title_newest_def)

lemma title_newest_none: "i \<notin> fr_title_id ` set rows \<Longrightarrow> title_newest rows i = 0"
proof -
  assume "i \<notin> fr_title_id ` set rows"
  then have "filter (\<lambda>r. fr_title_id r = i) rows = []" by (auto simp: filter_empty_conv)
  then show ?thesis by (simp add: title_newest_def)
qed

lemma agg_tells_step:
  assumes "agg_tells rows agg"
  shows "agg_tells (rows @ [r]) (fold_agg_row r agg)"
proof -
  define t0 where "t0 = (case row_of ft_id (fr_title_id r) (fa_titles agg) of
    Some t \<Rightarrow> t | None \<Rightarrow> new_family_title (fr_title_id r))"
  have t0: "ft_id t0 = fr_title_id r" "ft_newest t0 = title_newest rows (fr_title_id r)"
    using assms row_of_None[of ft_id "fr_title_id r" "fa_titles agg"]
    by (auto simp: t0_def agg_tells_def new_family_title_def title_newest_none dest: row_of_key split: option.splits)
  have upd: "fold_agg_row r agg = \<lparr>fa_categories = add_key (fr_category r) (fa_categories agg),
      fa_titles = upsert ft_id (fold_title_row r t0) (fa_titles agg)\<rparr>"
    by (simp add: fold_agg_row_def t0_def)
  have ids: "ft_id ` {y \<in> A. ft_id y \<noteq> k} = ft_id ` A - {k}" for A k by auto
  show ?thesis
    using assms t0 distinct_upsert[of ft_id "fa_titles agg" "fold_title_row r t0"]
    by (auto simp: upd agg_tells_def set_upsert title_newest_snoc distinct_add_key ids)
qed

lemma agg_tells_fold: "agg_tells rows (fold fold_agg_row rows empty_agg)"
  by (induction rows rule: rev_induct) (simp_all add: agg_tells_step, simp add: agg_tells_def empty_agg_def)

definition not_newer :: "family_title \<Rightarrow> family_title \<Rightarrow> bool" where
  "not_newer t u = (ft_newest u < ft_newest t \<or> (ft_newest u = ft_newest t \<and> \<not> str_less (ft_id t) (ft_id u)))"

lemma not_newer_linear: "not_newer t u \<or> not_newer u t"
  using str_less_asym by (fastforce simp: not_newer_def)

lemma not_newer_trans: "not_newer t u \<Longrightarrow> not_newer u v \<Longrightarrow> not_newer t v"
  using str_less_negtrans by (fastforce simp: not_newer_def)

lemma newest_family_title_max:
  assumes "titles \<noteq> []" "[] \<notin> ft_id ` set titles"
  shows "\<exists>t \<in> set titles. fold newer_family_title titles ([], 0) = (ft_id t, ft_newest t) \<and>
    (\<forall>u \<in> set titles. not_newer t u)"
  using assms
proof (induction titles rule: rev_induct)
  case (snoc x xs)
  show ?case
  proof (cases "xs = []")
    case True
    then show ?thesis by (simp add: newer_family_title_def not_newer_def)
  next
    case False
    with snoc obtain t where t: "t \<in> set xs" "fold newer_family_title xs ([], 0) = (ft_id t, ft_newest t)"
      "\<forall>u \<in> set xs. not_newer t u"
      by auto
    have step: "fold newer_family_title (xs @ [x]) ([], 0) = (if not_newer t x then (ft_id t, ft_newest t) else (ft_id x, ft_newest x))"
    proof -
      have "ft_id t \<noteq> []" using t(1) snoc(3) by force
      then show ?thesis using t(2) by (auto simp: newer_family_title_def not_newer_def)
    qed
    show ?thesis
    proof (cases "not_newer t x")
      case True
      then show ?thesis using step t by (auto intro: bexI[of _ t])
    next
      case False
      then have "not_newer x t" using not_newer_linear by blast
      then have "\<forall>u \<in> set (xs @ [x]). not_newer x u"
        using t(3) not_newer_trans not_newer_linear by (metis Un_iff empty_iff empty_set list.simps(15) set_append insert_iff)
      then show ?thesis using step False by (auto intro: bexI[of _ x])
    qed
  qed
qed simp

definition tile_tells :: "family_title_row list \<Rightarrow> family_summary \<Rightarrow> bool" where
  "tile_tells rows t =
     (let own = rows_of_family rows (fs_key t) in
      category_family_by_key (fs_key t) = Some (fs_key t, fs_name t) \<and>
      fs_count t = int (card (fr_title_id ` set own)) \<and> 0 < fs_count t \<and>
      set (fs_categories t) = fr_category ` set own \<and> sorted_wrt str_less (fs_categories t) \<and>
      fs_newest_id t \<in> fr_title_id ` set own \<and>
      (\<forall>i \<in> fr_title_id ` set own. title_newest own i \<le> title_newest own (fs_newest_id t)))"

lemma art_before_alt:
  "art_before a b =
     (ft_rating b < ft_rating a \<or> (ft_rating a = ft_rating b \<and>
       (ft_seeders b < ft_seeders a \<or> (ft_seeders a = ft_seeders b \<and> str_less (ft_id a) (ft_id b)))))"
  by (auto simp: art_before_def)

interpretation art_order: strict_weak art_before
proof
  show "art_before x y \<Longrightarrow> \<not> art_before y x" for x y
    using str_less_asym[of "ft_id x" "ft_id y"] unfolding art_before_alt by linarith
  show "\<not> art_before x y \<Longrightarrow> \<not> art_before y z \<Longrightarrow> \<not> art_before x z" for x y z
    using str_less_negtrans[of "ft_id x" "ft_id y" "ft_id z"] unfolding art_before_alt by linarith
qed

interpretation library_order: strict_weak library_before
proof
  show "library_before x y \<Longrightarrow> \<not> library_before y x" for x y
    by (auto simp: library_before_def dest: str_less_asym split: if_splits)
  show "\<not> library_before x y \<Longrightarrow> \<not> library_before y z \<Longrightarrow> \<not> library_before x z" for x y z
    using str_less_negtrans[of "rel_id (hi_release x)" "rel_id (hi_release y)" "rel_id (hi_release z)"]
    by (auto simp: library_before_def split: if_splits)
qed

lemma family_tile_tells:
  assumes "rows_of_family rows (fst f) \<noteq> []" "category_family_by_key (fst f) = Some f"
    "[] \<notin> fr_title_id ` set rows"
  shows "tile_tells rows (family_tile f (fold fold_agg_row (rows_of_family rows (fst f)) empty_agg))"
proof -
  define own where "own = rows_of_family rows (fst f)"
  define agg where "agg = fold fold_agg_row own empty_agg"
  have agg: "agg_tells own agg" unfolding agg_def by (rule agg_tells_fold)
  have "set own \<subseteq> set rows" by (auto simp: own_def rows_of_family_def)
  then have "fa_titles agg \<noteq> []" "[] \<notin> ft_id ` set (fa_titles agg)"
    using agg assms(1,3) by (auto simp: agg_tells_def own_def)
  from newest_family_title_max[OF this] obtain t where t: "t \<in> set (fa_titles agg)"
    "newest_family_title (fa_titles agg) = ft_id t" "\<forall>u \<in> set (fa_titles agg). not_newer t u"
    by (auto simp: newest_family_title_def)
  have newest: "\<forall>i \<in> fr_title_id ` set own. title_newest own i \<le> title_newest own (ft_id t)"
    using t agg by (auto simp: agg_tells_def not_newer_def) (smt (verit) image_iff)
  have card: "length (fa_titles agg) = card (fr_title_id ` set own)"
    using agg distinct_card[of "map ft_id (fa_titles agg)"] by (simp add: agg_tells_def)
  have some: "0 < card (fr_title_id ` set own)" using \<open>fa_titles agg \<noteq> []\<close> card by (metis length_greater_0_conv)
  have newest_in: "ft_id t \<in> fr_title_id ` set own" using t(1) agg by (auto simp: agg_tells_def)
  have cats: "sorted_wrt str_less (sort_by str_less (fa_categories agg))"
    "set (sort_by str_less (fa_categories agg)) = fr_category ` set own"
    using agg sort_strings_strict[of "fa_categories agg"] by (simp_all add: agg_tells_def)
  have "tile_tells rows (family_tile f agg)"
    unfolding tile_tells_def family_tile_def family_summary.simps Let_def own_def[symmetric]
    using assms(2) card some newest_in newest cats t(2) by simp
  then show ?thesis by (simp add: agg_def own_def)
qed

lemma known_families: "\<forall>f \<in> set category_families. category_family_by_key (fst f) = Some f"
  by code_simp

lemma family_tiles_tell:
  assumes "[] \<notin> fr_title_id ` set rows" "set fs \<subseteq> set category_families"
  shows "(let items = fst (family_tiles digest quarter (family_aggs rows) fs d) in
    map fs_key items = filter (\<lambda>k. rows_of_family rows k \<noteq> []) (map fst fs) \<and> (\<forall>t \<in> set items. tile_tells rows t))"
  using assms(2)
proof (induction fs arbitrary: d)
  case (Cons f fs)
  have known: "category_family_by_key (fst f) = Some f" using Cons(2) known_families by auto
  show ?case
  proof (cases "rows_of_family rows (fst f) = []")
    case True
    then show ?thesis using Cons by (simp add: family_aggs_spec Let_def)
  next
    case False
    define agg where "agg = fold fold_agg_row (rows_of_family rows (fst f)) empty_agg"
    have tells: "tile_tells rows ((family_tile f agg)\<lparr>fs_art := a\<rparr>)" for a
      using family_tile_tells[OF False known assms(1)] by (simp add: agg_def tile_tells_def Let_def)
    have "fa_titles agg \<noteq> []"
      using agg_tells_fold[of "rows_of_family rows (fst f)"] False by (auto simp: agg_tells_def agg_def)
    moreover have "map_of (family_aggs rows) (fst f) = Some agg" using False by (simp add: family_aggs_spec agg_def)
    moreover obtain art d1 where "family_art_of digest (fst f) quarter (fa_titles agg) d = (art, d1)" by fastforce
    moreover obtain items d2 where
      rest: "family_tiles digest quarter (family_aggs rows) fs d1 = (items, d2)" by fastforce
    ultimately have "fst (family_tiles digest quarter (family_aggs rows) (f # fs) d) = (family_tile f agg)\<lparr>fs_art := art\<rparr> # items"
      by simp
    moreover have "fs_key ((family_tile f agg)\<lparr>fs_art := art\<rparr>) = fst f" by (simp add: family_tile_def)
    ultimately show ?thesis
      using Cons(1)[of d1] Cons(2) False tells rest by (simp add: Let_def)
  qed
qed (simp add: Let_def)

definition rows_read :: "family_desk \<Rightarrow> family_title_row list" where
  "rows_read d = family_rows (eligible_trackers (fd_world d)) (fd_world d)"

lemma family_rows_tick: "family_rows eligible (w\<lparr>w_tick := n\<rparr>) = family_rows eligible w"
  by (simp add: family_rows_def joined_rows_def)

lemma build_families_items:
  assumes "build_families digest quarter d = (Inr items, d')"
  obtains d1 names where "items = map (\<lambda>t. t\<lparr>fs_newest_title := text_of names (fs_newest_id t)\<rparr>)
    (fst (family_tiles digest quarter (family_aggs (rows_read d)) category_families d1))"
proof -
  have eq: "items = map (\<lambda>t. t\<lparr>fs_newest_title := text_of names (fs_newest_id t)\<rparr>) (fst r) \<Longrightarrow>
    r = family_tiles digest quarter (family_aggs (rows_read d)) category_families d1 \<Longrightarrow> thesis" for names r d1
    using that by blast
  show thesis
    using assms
    by (auto simp: build_families_def catalog_family_rows_def attempt_def family_rows_tick rows_read_def[symmetric] Let_def
      split: option.splits prod.splits sum.splits intro: eq[of _ "(_, _)", OF _ sym])
qed

text \<open>
  The tiles are, in display order, exactly the families of the categories the discoverable catalog has;
  each counts the different titles of its family, lists their tracker categories once and in order, and names a
  title no other title of the family has a later upload than.
\<close>

theorem tiles_tell_catalog:
  assumes "build_families digest quarter d = (Inr items, d')" "[] \<notin> fr_title_id ` set (rows_read d)"
  shows "map fs_key items = filter (\<lambda>k. rows_of_family (rows_read d) k \<noteq> []) (map fst category_families) \<and>
    (\<forall>t \<in> set items. tile_tells (rows_read d) t)"
proof -
  from build_families_items[OF assms(1)] obtain d1 names where
    items: "items = map (\<lambda>t. t\<lparr>fs_newest_title := text_of names (fs_newest_id t)\<rparr>)
      (fst (family_tiles digest quarter (family_aggs (rows_read d)) category_families d1))" by blast
  have same: "tile_tells rows (t\<lparr>fs_newest_title := n\<rparr>) = tile_tells rows t" for rows t n
    by (simp add: tile_tells_def)
  show ?thesis
    using family_tiles_tell[OF assms(2) order_refl, of digest quarter d1]
    by (simp add: items Let_def same comp_def)
qed

text \<open>The candidates for the image: those with art, none outranked by one left out.\<close>

lemma rank_family_art_best:
  assumes "a \<in> set titles" "b \<in> set titles" "ft_art_kind a \<noteq> []" "distinct (map ft_id titles)"
    "ft_id b \<in> set (rank_family_art titles)" "ft_id a \<notin> set (rank_family_art titles)"
  shows "ft_art_kind b \<noteq> [] \<and> \<not> art_before a b"
proof -
  define arts where "arts = filter (\<lambda>t. ft_art_kind t \<noteq> []) (sort_by art_before titles)"
  have inj: "inj_on ft_id (set titles)" using assms(4) by (simp add: distinct_map)
  have sub: "set arts \<subseteq> set titles" by (auto simp: arts_def)
  have srt: "sorted_wrt (\<lambda>x y. \<not> art_before y x) arts"
    unfolding arts_def by (intro sorted_wrt_filter art_order.sorted_sort_by)
  have rank: "set (rank_family_art titles) = ft_id ` set (take family_art_pool arts)"
    by (simp add: rank_family_art_def arts_def take_map)
  from assms(5) rank obtain c where c: "c \<in> set (take family_art_pool arts)" "ft_id c = ft_id b" by auto
  then have b: "b \<in> set (take family_art_pool arts)"
    using inj sub assms(2) set_take_subset[of family_art_pool arts] by (metis inj_onD subsetD)
  have "a \<in> set arts" using assms(1,3) by (simp add: arts_def)
  moreover have "a \<notin> set (take family_art_pool arts)" using assms(6) rank by blast
  ultimately have "a \<in> set (drop family_art_pool arts)"
    by (metis Un_iff append_take_drop_id set_append)
  moreover have "sorted_wrt (\<lambda>x y. \<not> art_before y x) (take family_art_pool arts @ drop family_art_pool arts)"
    using srt by simp
  ultimately have "\<not> art_before a b" using b unfolding sorted_wrt_append by blast
  moreover have "b \<in> set arts" using b by (rule in_set_takeD)
  ultimately show ?thesis by (simp add: arts_def)
qed

lemma rank_family_art_bounded: "length (rank_family_art titles) \<le> 10"
  by (simp add: rank_family_art_def family_art_pool_def)

subsection \<open>The library\<close>

definition keeps_latest :: "household_item list \<Rightarrow> household_item list \<Rightarrow> bool" where
  "keeps_latest given kept =
     (distinct (map library_key kept) \<and> set kept \<subseteq> set given \<and>
      (\<forall>i \<in> set given. \<exists>k \<in> set kept. library_key k = library_key i \<and> item_updated i \<le> item_updated k))"

lemma keep_latest_step:
  assumes "keeps_latest given kept"
  shows "keeps_latest (given @ [i]) (keep_latest i kept)"
proof (cases "row_of library_key (library_key i) kept")
  case None
  then have "keep_latest i kept = kept @ [i]" by (simp add: keep_latest_def)
  moreover have "library_key i \<notin> library_key ` set kept" using None by (simp add: row_of_None)
  ultimately show ?thesis using assms by (auto simp: keeps_latest_def)
next
  case (Some c)
  have c: "library_key c = library_key i" "c \<in> set kept" using row_of_key[OF Some] by auto
  show ?thesis
  proof (cases "item_updated c < item_updated i")
    case True
    have upd: "set (upsert library_key i kept) = insert i {y \<in> set kept. library_key y \<noteq> library_key i}"
      by (rule set_upsert) (use assms in \<open>simp add: keeps_latest_def\<close>)
    have "\<exists>k \<in> set (upsert library_key i kept). library_key k = library_key j \<and> item_updated j \<le> item_updated k"
      if "j \<in> set given" for j
    proof -
      from assms that obtain k where k: "k \<in> set kept" "library_key k = library_key j" "item_updated j \<le> item_updated k"
        by (auto simp: keeps_latest_def)
      show ?thesis
      proof (cases "library_key j = library_key i")
        case same: True
        then have "k = c" using k c assms unfolding keeps_latest_def distinct_map by (metis inj_onD)
        then show ?thesis using k same True by (auto simp: upd)
      qed (use k in \<open>auto simp: upd\<close>)
    qed
    moreover have "distinct (map library_key (upsert library_key i kept))"
      using assms by (simp add: keeps_latest_def distinct_upsert)
    ultimately show ?thesis using Some True assms
      by (auto simp: keeps_latest_def keep_latest_def upd)
  next
    case False
    then show ?thesis using Some c assms by (force simp: keeps_latest_def keep_latest_def)
  qed
qed

lemma keep_latest_fold: "keeps_latest given (fold keep_latest given [])"
  by (induction given rule: rev_induct) (simp_all add: keep_latest_step, simp add: keeps_latest_def)

text \<open>
  The library has one item for every title and category (or source, or release) of the household
  state, an item of the state that no other of its key was updated after, and lists them newest first.
\<close>

theorem library_keeps_latest:
  "keeps_latest (library_items st) (dedupe_library_items st) \<and>
   sorted_wrt (\<lambda>a b. item_updated b \<le> item_updated a) (dedupe_library_items st)"
proof -
  have "sorted_wrt (\<lambda>a b. \<not> library_before b a) (dedupe_library_items st)"
    unfolding dedupe_library_items_def by (rule library_order.sorted_sort_by)
  then have "sorted_wrt (\<lambda>a b. item_updated b \<le> item_updated a) (dedupe_library_items st)"
    by (rule sorted_wrt_mono_rel[rotated]) (auto simp: library_before_def split: if_splits)
  moreover have "keeps_latest (library_items st) (dedupe_library_items st)"
    using keep_latest_fold[of "library_items st"]
    by (simp add: keeps_latest_def dedupe_library_items_def) (metis mset_sort_by mset_map mset_eq_imp_distinct_iff)
  ultimately show ?thesis by blast
qed

subsection \<open>Examples\<close>

text \<open>A catalog of one film.\<close>

definition film_release :: torrent_release where
  "film_release = zero_torrent_release\<lparr>rel_id := ''r'', rel_tracker_id := ''t'', rel_name := ''a'',
     rel_category := ''Movies'', rel_seeders := 3\<rparr>"

definition film_desk :: family_desk where
  "film_desk = \<lparr>fd_world = (blank_world (defaults ''linux''))\<lparr>w_releases := [film_release], w_titles := [(''r'', ''x'')],
     w_registry := \<lparr>reg_order = [''t''], reg_entries = [(''t'',
       \<lparr>te_adapter = sample_adapter ''t'', te_enabled = (\<lambda>_. True), te_configured = (\<lambda>_. True)\<rparr>)]\<rparr>\<rparr>,
     fd_picks = []\<rparr>"

lemma film_builds:
  "(case build_families id (art_quarter 0) film_desk of
      (Inl _, _) \<Rightarrow> False | (Inr items, _) \<Rightarrow> map fs_newest_title items = [''a''])"
  by code_simp

lemma film_rows: "map fr_title_id (rows_read film_desk) = [''x'']"
  by code_simp

lemma film_built:
  obtains items d where "build_families id (art_quarter 0) film_desk = (Inr items, d)" "map fs_newest_title items = [''a'']"
proof -
  obtain r d where b: "build_families id (art_quarter 0) film_desk = (r, d)" by fastforce
  with film_builds obtain items where "r = Inr items" "map fs_newest_title items = [''a'']"
    by (cases r) simp_all
  with b show thesis by (intro that) simp_all
qed

lemma film_desk_runs: "\<exists>m. family_run id film_desk m \<and> families_fresh 0 m"
proof -
  obtain items d where b: "build_families id (art_quarter 0) film_desk = (Inr items, d)" by (rule film_built)
  define m1 where "m1 = snd (catalog_families 0 (first_memo film_desk))"
  have m1: "family_run id film_desk m1"
    unfolding m1_def by (rule family_run.moves[OF family_run.starts family_step.asks]) simp
  have m1': "fm_flight m1 = Some Started" "fm_desk m1 = film_desk"
    by (simp_all add: m1_def catalog_families_def first_memo_def start_flight_def Let_def)
  define m2 where "m2 = flight_reads 0 m1"
  have m2: "family_run id film_desk m2"
    unfolding m2_def by (rule family_run.moves[OF m1]) (rule family_step.reads, simp_all add: m1')
  have m2': "fm_flight m2 = Some (Reading (fm_gen m1) 0)" "fm_desk m2 = film_desk" "fm_gen m2 = fm_gen m1"
    by (simp_all add: m2_def flight_reads_def m1')
  define m3 where "m3 = flight_builds id (fm_gen m1) 0 m2"
  have m3: "family_run id film_desk m3"
    unfolding m3_def by (rule family_run.moves[OF m2]) (rule family_step.builds, rule m2'(1))
  have m3': "fm_flight m3 = Some (Answered (fm_gen m1) 0 (Inr items))" "fm_gen m3 = fm_gen m1"
    using b by (simp_all add: m3_def flight_builds_def m2'(2,3))
  have "family_run id film_desk (flight_stores (fm_gen m1) 0 (Inr items) m3)"
    by (rule family_run.moves[OF m3]) (rule family_step.stores, rule m3'(1))
  moreover have "families_fresh 0 (flight_stores (fm_gen m1) 0 (Inr items) m3)"
    using m3'(2) by (simp add: flight_stores_def families_fresh_def land_flight_def family_cache_ttl_def minute_def second_def)
  ultimately show ?thesis by blast
qed

lemma film_desk_waits: "\<exists>m. family_run id film_desk m \<and> fm_waiting m = 1"
proof -
  let ?m = "snd (catalog_families 0 (first_memo film_desk))"
  have "family_run id film_desk ?m"
    by (rule family_run.moves[OF family_run.starts family_step.asks]) simp
  moreover have "fm_waiting ?m = 1"
    by (simp add: catalog_families_def first_memo_def start_flight_def Let_def)
  ultimately show ?thesis by blast
qed

theorem family_cache_current_witness:
  "(\<exists>m items. family_run id film_desk m \<and> fm_items m = Some items \<and>
     built_from id (art_quarter 0) (fm_seen m) (Inr items)) \<and>
   (\<exists>m res. family_run id film_desk m \<and> fm_waiting m = 1 \<and>
     fm_released (flight_turns id 0 5 m) = fm_released m @ [res])"
proof
  obtain m where m: "family_run id film_desk m" "families_fresh 0 m" using film_desk_runs by blast
  from family_cache_current[OF m(1), of 0] m show "\<exists>m items. family_run id film_desk m \<and> fm_items m = Some items \<and>
     built_from id (art_quarter 0) (fm_seen m) (Inr items)" by auto
  obtain n where n: "family_run id film_desk n" "fm_waiting n = 1" using film_desk_waits by blast
  from family_cache_current[OF n(1), of 0] n show "\<exists>m res. family_run id film_desk m \<and> fm_waiting m = 1 \<and>
     fm_released (flight_turns id 0 5 m) = fm_released m @ [res]" by (auto simp: Let_def)
qed

theorem flight_lands_witness:
  "landed (refresh_families (first_memo film_desk)) (flight_turns id 0 5 (refresh_families (first_memo film_desk)))"
proof (rule flight_lands[of _ film_desk])
  show "family_run id film_desk (refresh_families (first_memo film_desk))"
    by (rule family_run.moves[OF family_run.starts family_step.refreshes])
qed (simp_all add: refresh_families_def start_flight_def first_memo_def)

theorem tiles_tell_catalog_witness:
  "\<exists>items d'. build_families id (art_quarter 0) film_desk = (Inr items, d') \<and> map fs_newest_title items = [''a''] \<and>
     (\<forall>t \<in> set items. tile_tells (rows_read film_desk) t)"
proof -
  obtain items d' where b: "build_families id (art_quarter 0) film_desk = (Inr items, d')"
    and n: "map fs_newest_title items = [''a'']" by (rule film_built)
  have "[] \<notin> fr_title_id ` set (rows_read film_desk)" using film_rows by (metis image_set list.set(1,2) list.distinct(1) singletonD)
  from tiles_tell_catalog[OF b this] b n show ?thesis by (intro exI[of _ items] exI[of _ d'] conjI) simp_all
qed

end
