(* ===== verification/Update_Stage.thy ===== *)
theory Update_Stage
  imports Update_Journal
begin

text \<open>
  Staging and extraction of an update (\<open>internal/application/updates/stage.go\<close>): the bounded and hashed download,
  the rules for the members of the release archive, the unpacking of a tar.gz and of a zip, and the checks of the
  payload.

  The file system is the list of its physical paths, as elements, with a folder, a file or a symbolic link at each;
  \<open>walk\<close> follows links as the kernel does, forty at most.  The readers of \<open>archive/tar\<close>, \<open>archive/zip\<close>, \<open>debug/buildinfo\<close>,
  \<open>debug/elf\<close>, \<open>debug/pe\<close>, \<open>debug/macho\<close> and \<open>encoding/xml\<close>, \<open>codesign\<close> and SHA-256 are the arguments in
  \<open>stage_libs\<close>.  A member may carry a device error, which stands for a failing call while it is written.
\<close>

subsection \<open>The file system\<close>

datatype node = Folder | Plain string | Link string

type_synonym vfs = "(string list \<times> node) list"

definition is_folder :: "vfs \<Rightarrow> string list \<Rightarrow> bool" where
  "is_folder fs p = (p = [] \<or> map_of fs p = Some Folder)"

fun walk :: "nat \<Rightarrow> vfs \<Rightarrow> string list \<Rightarrow> string list \<Rightarrow> string list option" where
  "walk links fs cur [] = Some cur"
| "walk links fs cur (p # ps) =
     (if \<not> is_folder fs cur then None
      else if p = [] \<or> p = ''.'' then walk links fs cur ps
      else if p = ''..'' then walk links fs (butlast cur) ps
      else (case map_of fs (cur @ [p]) of
              None \<Rightarrow> None
            | Some (Link t) \<Rightarrow>
                (case links of
                   0 \<Rightarrow> None
                 | Suc n \<Rightarrow> walk n fs (if is_abs t then [] else cur) (split_on CHR ''/'' t @ ps))
            | Some _ \<Rightarrow> walk links fs (cur @ [p]) ps))"

definition folder_at :: "vfs \<Rightarrow> string list \<Rightarrow> string list option" where
  "folder_at fs p = (case walk 40 fs [] p of None \<Rightarrow> None | Some q \<Rightarrow> if is_folder fs q then Some q else None)"

definition content_at :: "vfs \<Rightarrow> string list \<Rightarrow> string option" where
  "content_at fs p = (case walk 40 fs [] p of
     None \<Rightarrow> None | Some q \<Rightarrow> (case map_of fs q of Some (Plain c) \<Rightarrow> Some c | _ \<Rightarrow> None))"

text \<open>Creating a name fails when it exists, even as a link: \<open>mkdir\<close>, \<open>symlink\<close> and \<open>open\<close> with \<open>O_EXCL\<close>.\<close>

definition make_node :: "string list \<Rightarrow> node \<Rightarrow> vfs \<Rightarrow> vfs option" where
  "make_node p n fs = (if p = [] then None
     else (case folder_at fs (butlast p) of
             None \<Rightarrow> None
           | Some d \<Rightarrow> if map_of fs (d @ [last p]) = None then Some ((d @ [last p], n) # fs) else None))"

text \<open>\<open>os.MkdirAll\<close>, on the reversed path.\<close>

fun mkdir_rev :: "string list \<Rightarrow> vfs \<Rightarrow> vfs option" where
  "mkdir_rev [] fs = Some fs"
| "mkdir_rev (p # rs) fs =
     (if folder_at fs (rev (p # rs)) \<noteq> None then Some fs
      else (case mkdir_rev rs fs of None \<Rightarrow> None | Some fs \<Rightarrow> make_node (rev (p # rs)) Folder fs))"

definition mkdir_all :: "string list \<Rightarrow> vfs \<Rightarrow> vfs option" where
  "mkdir_all p = mkdir_rev (rev p)"

definition under :: "string list \<Rightarrow> string list \<Rightarrow> bool" where
  "under base p = (take (length base) p = base)"

definition remove_tree :: "string list \<Rightarrow> vfs \<Rightarrow> vfs" where
  "remove_tree base fs = filter (\<lambda>e. \<not> under base (fst e)) fs"

subsection \<open>Staging the download\<close>

datatype stage_error = Staging_Limit | Checksum_Mismatch | Archive_Invalid string | Binary_Identity string
  | Unsupported_Archive | Stage_Failed string

record stage_limits =
  lm_compressed :: int
  lm_expanded :: int
  lm_entries :: int

definition default_limits :: stage_limits where
  "default_limits = \<lparr>lm_compressed = 512 * 1048576, lm_expanded = 1024 * 1048576, lm_entries = 4096\<rparr>"

definition limits_ok :: "stage_limits \<Rightarrow> bool" where
  "limits_ok l = (0 < lm_compressed l \<and> 0 < lm_expanded l \<and> 0 < lm_entries l)"

text \<open>
  A body is the pieces its reads return, and how it ends: with an end of file of its own, with one that comes
  together with the last piece, or with an error.
\<close>

datatype body_end = Own_Eof | Joined_Eof | Broken string

text \<open>\<open>io.Copy\<close> from the \<open>boundedReader\<close>.\<close>

fun copy_bounded :: "int \<Rightarrow> string list \<Rightarrow> body_end \<Rightarrow> string \<Rightarrow> stage_error + string" where
  "copy_bounded remaining [] e acc =
     (if remaining \<le> 0 then Inl Staging_Limit
      else (case e of Broken m \<Rightarrow> Inl (Stage_Failed m) | _ \<Rightarrow> Inr acc))"
| "copy_bounded remaining (c # cs) e acc =
     (if remaining \<le> 0 \<or> remaining < int (length c) then Inl Staging_Limit
      else if cs = [] \<and> e = Joined_Eof then Inr (acc @ c)
      else copy_bounded (remaining - int (length c)) cs e (acc @ c))"

record staged =
  sg_selection :: selection
  sg_path :: "string list"
  sg_digest :: string

definition same_digest :: "string \<Rightarrow> string \<Rightarrow> bool" where
  "same_digest digest expected = (length digest = 32 \<and> hex_encode digest = to_lower expected)"

definition stage_name :: "string list \<Rightarrow> string \<Rightarrow> string list" where
  "stage_name dest token = dest @ [''.filelist-stage-'' @ token @ ''.part'']"

text \<open>\<open>disk_error\<close> is what flushing or closing the file answers.\<close>

definition stage_archive ::
    "(string \<Rightarrow> string) \<Rightarrow> string \<Rightarrow> string list \<Rightarrow> selection \<Rightarrow> string list \<times> body_end \<Rightarrow> string option \<Rightarrow>
     stage_limits \<Rightarrow> vfs \<Rightarrow> (stage_error + staged) \<times> vfs" where
  "stage_archive sha token dest sel body disk_error limits fs =
     (if \<not> hex_digest (sel_sha256 sel) then (Inl (Stage_Failed ''checksum''), fs)
      else if \<not> limits_ok limits then (Inl (Stage_Failed ''limits''), fs)
      else (case mkdir_all dest fs of
         None \<Rightarrow> (Inl (Stage_Failed ''destination''), fs)
       | Some fs \<Rightarrow>
           (case make_node (stage_name dest token) (Plain []) fs of
              None \<Rightarrow> (Inl (Stage_Failed ''create''), fs)
            | Some _ \<Rightarrow>
                (case copy_bounded (lm_compressed limits) (fst body) (snd body) [] of
                   Inl e \<Rightarrow> (Inl e, fs)
                 | Inr content \<Rightarrow>
                     (case disk_error of
                        Some m \<Rightarrow> (Inl (Stage_Failed m), fs)
                      | None \<Rightarrow>
                          if \<not> same_digest (sha content) (sel_sha256 sel) then (Inl Checksum_Mismatch, fs)
                          else (case make_node (stage_name dest token) (Plain content) fs of
                                  None \<Rightarrow> (Inl (Stage_Failed ''create''), fs)
                                | Some fs' \<Rightarrow> (Inr \<lparr>sg_selection = sel, sg_path = stage_name dest token,
                                                sg_digest = sha content\<rparr>, fs')))))))"

subsection \<open>The rules of an archive\<close>

record stage_target =
  tg_goos :: string
  tg_goarch :: string
  tg_goarm :: int
  tg_flavor :: string

definition target_of :: "identity \<Rightarrow> stage_target" where
  "target_of i = \<lparr>tg_goos = id_goos i, tg_goarch = id_goarch i,
     tg_goarm = (if id_goos i = ''linux'' \<and> id_goarch i = ''arm'' then 7 else 0), tg_flavor = id_flavor i\<rparr>"

record extraction =
  ex_root :: "string list"
  ex_target :: stage_target
  ex_limits :: stage_limits
  ex_seen :: "string list"
  ex_expanded :: int
  ex_bundle :: string
  ex_entries :: int
  ex_fs :: vfs

definition new_extraction :: "string list \<Rightarrow> stage_target \<Rightarrow> stage_limits \<Rightarrow> vfs \<Rightarrow> extraction" where
  "new_extraction base t l fs = \<lparr>ex_root = base, ex_target = t, ex_limits = l, ex_seen = [], ex_expanded = 0,
     ex_bundle = [], ex_entries = 0, ex_fs = fs\<rparr>"

definition first_path_element :: "string \<Rightarrow> string" where
  "first_path_element name = takeWhile (\<lambda>c. c \<noteq> CHR ''/'') name"

definition clean_archive_name :: "string \<Rightarrow> string" where
  "clean_archive_name name = trim_prefix (clean (trim_suffix name ''/'')) ''./''"

definition is_app :: "string \<Rightarrow> bool" where
  "is_app name = has_suffix name ''.app''"

definition mark_bundle :: "string \<Rightarrow> extraction \<Rightarrow> stage_error option \<times> extraction" where
  "mark_bundle name x =
     (let first = first_path_element name; bundle = (tg_flavor (ex_target x) = ''bundle'') in
      if \<not> is_app first then
        (if bundle then Some (Archive_Invalid ''outside the bundle directory'') else None, x)
      else if \<not> bundle then (Some (Archive_Invalid ''only the bundle flavor carries .app content''), x)
      else (let x = (if ex_bundle x = [] then x\<lparr>ex_bundle := first\<rparr> else x) in
            if ex_bundle x \<noteq> first then (Some (Archive_Invalid ''multiple .app directories''), x) else (None, x)))"

text \<open>The destination of a member, \<open>None\<close> for the root of the archive.\<close>

definition member_path :: "string \<Rightarrow> extraction \<Rightarrow> (stage_error + string list option) \<times> extraction" where
  "member_path name x =
     (let x = x\<lparr>ex_entries := ex_entries x + 1\<rparr>; name' = clean_archive_name name in
      if lm_entries (ex_limits x) < ex_entries x then (Inl (Archive_Invalid ''too many members''), x)
      else if name = [] then (Inl (Archive_Invalid ''empty member name''), x)
      else if CHR 0x5C \<in> set name \<or> CHR 0x00 \<in> set name then (Inl (Archive_Invalid ''separator''), x)
      else if has_prefix name ''/'' then (Inl (Archive_Invalid ''absolute member name''), x)
      else if name' = ''.'' then (Inr None, x)
      else if ''..'' \<in> set (split_on CHR ''/'' name') then (Inl (Archive_Invalid ''escapes''), x)
      else if name' \<in> set (ex_seen x) then (Inl (Archive_Invalid ''duplicate member''), x)
      else (case mark_bundle name' (x\<lparr>ex_seen := name' # ex_seen x\<rparr>) of
              (Some e, x) \<Rightarrow> (Inl e, x)
            | (None, x) \<Rightarrow> (Inr (Some (ex_root x @ split_on CHR ''/'' name')), x)))"

definition account_size :: "int \<Rightarrow> extraction \<Rightarrow> stage_error option \<times> extraction" where
  "account_size n x =
     (if n < 0 then (Some (Archive_Invalid ''negative size''), x)
      else if lm_expanded (ex_limits x) < i64 (ex_expanded x + n) then (Some Staging_Limit, x)
      else (None, x\<lparr>ex_expanded := i64 (ex_expanded x + n)\<rparr>))"

definition check_link_target :: "string \<Rightarrow> string \<Rightarrow> extraction \<Rightarrow> stage_error option" where
  "check_link_target member target x =
     (let first = first_path_element member; resolved = clean (path_join [path_dir member, target]) in
      if tg_flavor (ex_target x) \<noteq> ''bundle'' \<or> \<not> is_app first then Some (Archive_Invalid ''symlink outside a bundle'')
      else if is_abs target then Some (Archive_Invalid ''symlink targets an absolute path'')
      else if resolved = ''.'' \<or> first_path_element resolved \<noteq> first
      then Some (Archive_Invalid ''symlink resolves outside the bundle'') else None)"

subsection \<open>Unpacking\<close>

datatype member_kind = Folder_Member | File_Member | Link_Member | Other_Member

record member =
  me_name :: string
  me_kind :: member_kind
  me_size :: int
  me_data :: string
  me_link :: string
  me_fault :: "string option"

text \<open>What the reader of an archive yields: its members, and an error or the tail of the gzip stream behind them.\<close>

record archive =
  ar_opens :: bool
  ar_members :: "member list"
  ar_error :: "string option"
  ar_tail :: "string option"

definition with_fs :: "extraction \<Rightarrow> string \<Rightarrow> vfs option \<Rightarrow> stage_error option \<times> extraction" where
  "with_fs x what r = (case r of None \<Rightarrow> (Some (Stage_Failed what), x) | Some fs \<Rightarrow> (None, x\<lparr>ex_fs := fs\<rparr>))"

text \<open>\<open>writeFileVerified\<close>: at most the declared bytes are taken, and none fewer.\<close>

definition write_verified :: "string list \<Rightarrow> member \<Rightarrow> extraction \<Rightarrow> stage_error option \<times> extraction" where
  "write_verified dest m x =
     (let data = take (nat (me_size m)) (me_data m) in
      case make_node dest (Plain data) (ex_fs x) of
        None \<Rightarrow> (Some (Stage_Failed ''create member''), x)
      | Some fs \<Rightarrow>
          (case me_fault m of
             Some e \<Rightarrow> (Some (Stage_Failed e), x)
           | None \<Rightarrow> if int (length data) \<noteq> me_size m then (Some (Archive_Invalid ''short member''), x)
                     else (None, x\<lparr>ex_fs := fs\<rparr>)))"

definition write_file_member :: "string list \<Rightarrow> member \<Rightarrow> extraction \<Rightarrow> stage_error option \<times> extraction" where
  "write_file_member dest m x =
     (case account_size (me_size m) x of
        (Some e, x) \<Rightarrow> (Some e, x)
      | (None, x) \<Rightarrow>
          (case with_fs x ''create member directory'' (mkdir_all (butlast dest) (ex_fs x)) of
             (Some e, x) \<Rightarrow> (Some e, x)
           | (None, x) \<Rightarrow> write_verified dest m x))"

definition write_link_member :: "string list \<Rightarrow> string \<Rightarrow> string \<Rightarrow> extraction \<Rightarrow> stage_error option \<times> extraction" where
  "write_link_member dest name target x =
     (case check_link_target name target x of
        Some e \<Rightarrow> (Some e, x)
      | None \<Rightarrow>
          (case with_fs x ''create parent directory'' (mkdir_all (butlast dest) (ex_fs x)) of
             (Some e, x) \<Rightarrow> (Some e, x)
           | (None, x) \<Rightarrow> with_fs x ''create symlink'' (make_node dest (Link target) (ex_fs x))))"

definition tar_member :: "member \<Rightarrow> extraction \<Rightarrow> stage_error option \<times> extraction" where
  "tar_member m x =
     (case member_path (me_name m) x of
        (Inl e, x) \<Rightarrow> (Some e, x)
      | (Inr None, x) \<Rightarrow> (None, x)
      | (Inr (Some dest), x) \<Rightarrow>
          (case me_kind m of
             Folder_Member \<Rightarrow> with_fs x ''create directory'' (mkdir_all dest (ex_fs x))
           | File_Member \<Rightarrow> write_file_member dest m x
           | Link_Member \<Rightarrow> write_link_member dest (clean_archive_name (me_name m)) (me_link m) x
           | Other_Member \<Rightarrow> (Some (Archive_Invalid ''not a regular file or directory''), x)))"

text \<open>A zip does not skip an entry for its root: creating the empty path fails.  A link is read as 4096 bytes at most.\<close>

definition zip_member :: "member \<Rightarrow> extraction \<Rightarrow> stage_error option \<times> extraction" where
  "zip_member m x =
     (let name = trim_suffix (me_name m) ''/'' in
      case member_path name x of
        (Inl e, x) \<Rightarrow> (Some e, x)
      | (Inr None, x) \<Rightarrow> (Some (Stage_Failed ''archive root''), x)
      | (Inr (Some dest), x) \<Rightarrow>
          (case me_kind m of
             Link_Member \<Rightarrow>
               (case me_fault m of
                  Some e \<Rightarrow> (Some (Archive_Invalid e), x)
                | None \<Rightarrow> write_link_member dest (clean_archive_name name) (take 4096 (me_data m)) x)
           | Other_Member \<Rightarrow> (Some (Archive_Invalid ''not a regular file or directory''), x)
           | Folder_Member \<Rightarrow> with_fs x ''create directory'' (mkdir_all dest (ex_fs x))
           | File_Member \<Rightarrow> write_file_member dest m x))"

fun unpack :: "(member \<Rightarrow> extraction \<Rightarrow> stage_error option \<times> extraction) \<Rightarrow> member list \<Rightarrow> extraction \<Rightarrow>
    stage_error option \<times> extraction" where
  "unpack step [] x = (None, x)"
| "unpack step (m # ms) x = (case step m x of (Some e, x) \<Rightarrow> (Some e, x) | (None, x) \<Rightarrow> unpack step ms x)"

definition gzip_tail :: "string option \<Rightarrow> stage_error option" where
  "gzip_tail tail = (case tail of
     None \<Rightarrow> Some (Archive_Invalid ''gzip stream ends prematurely'')
   | Some t \<Rightarrow> if 65536 < length t then Some (Archive_Invalid ''gzip tail too long'')
               else if list_all (\<lambda>c. c = CHR 0x00) t then None else Some (Archive_Invalid ''gzip tail carries nonzero bytes''))"

definition extract_tar_gz :: "archive \<Rightarrow> extraction \<Rightarrow> stage_error option \<times> extraction" where
  "extract_tar_gz a x =
     (if \<not> ar_opens a then (Some (Stage_Failed ''read gzip stream''), x)
      else (case unpack tar_member (ar_members a) x of
              (Some e, x) \<Rightarrow> (Some e, x)
            | (None, x) \<Rightarrow> (case ar_error a of
                Some m \<Rightarrow> (Some (Archive_Invalid m), x) | None \<Rightarrow> (gzip_tail (ar_tail a), x))))"

definition extract_zip :: "archive \<Rightarrow> extraction \<Rightarrow> stage_error option \<times> extraction" where
  "extract_zip a x =
     (if \<not> ar_opens a then (Some (Archive_Invalid ''read zip archive''), x) else unpack zip_member (ar_members a) x)"

subsection \<open>The payload\<close>

datatype macho_file = Fat "nat list" | Thin nat | Not_Macho

text \<open>What the readers say of an executable: the build settings, and the machine of each header that can be read.\<close>

record executable_info =
  xi_settings :: "(string \<times> string) list option"
  xi_elf :: "nat option"
  xi_pe :: "nat option"
  xi_macho :: macho_file

datatype xml_element = Key_Element "string option" | String_Element "string option" | Other_Element

record stage_libs =
  sl_untar :: "string \<Rightarrow> archive"
  sl_unzip :: "string \<Rightarrow> archive"
  sl_executable :: "string \<Rightarrow> executable_info"
  sl_plist :: "string \<Rightarrow> xml_element list \<times> bool"
  sl_codesign :: "(vfs \<Rightarrow> string list \<Rightarrow> bool) option"

definition identity_failed :: "string \<Rightarrow> stage_error option" where
  "identity_failed what = Some (Binary_Identity what)"

definition macho_cpu :: "string \<Rightarrow> nat" where
  "macho_cpu goarch = (if goarch = ''amd64'' then 0x1000007 else if goarch = ''arm64'' then 0x100000C else 0)"

definition check_macho_arch :: "executable_info \<Rightarrow> stage_target \<Rightarrow> stage_error option" where
  "check_macho_arch info t =
     (case xi_macho info of
        Fat cpus \<Rightarrow>
          if tg_flavor t \<noteq> ''bundle'' then identity_failed ''universal binary''
          else if macho_cpu (tg_goarch t) \<in> set cpus then None else identity_failed ''slice''
      | Thin cpu \<Rightarrow> if cpu \<noteq> macho_cpu (tg_goarch t) then identity_failed ''Mach-O cpu'' else None
      | Not_Macho \<Rightarrow> identity_failed ''Mach-O'')"

definition expected_machine :: "string \<Rightarrow> string \<Rightarrow> nat option" where
  "expected_machine goos goarch =
     (if goos = ''linux'' then map_of [(''amd64'', 62), (''arm64'', 183), (''arm'', 40)] goarch
      else map_of [(''amd64'', 0x8664), (''arm64'', 0xAA64)] goarch)"

definition check_header_machine :: "executable_info \<Rightarrow> stage_target \<Rightarrow> stage_error option" where
  "check_header_machine info t =
     (if tg_goos t = ''darwin'' then check_macho_arch info t
      else if tg_goos t = ''linux'' \<or> tg_goos t = ''windows'' then
        (case (if tg_goos t = ''linux'' then xi_elf info else xi_pe info) of
           None \<Rightarrow> identity_failed ''header''
         | Some machine \<Rightarrow>
             (case expected_machine (tg_goos t) (tg_goarch t) of
                None \<Rightarrow> identity_failed ''unsupported arch''
              | Some want \<Rightarrow> if machine \<noteq> want then identity_failed ''machine'' else None))
      else identity_failed ''unsupported platform'')"

definition universal_bundle :: "executable_info \<Rightarrow> stage_target \<Rightarrow> bool" where
  "universal_bundle info t =
     (tg_goos t = ''darwin'' \<and> tg_flavor t = ''bundle'' \<and> (case xi_macho info of Fat _ \<Rightarrow> True | _ \<Rightarrow> False))"

definition composition_path :: string where
  "composition_path = ''github.com/mihaiflorentin/torrent-tv/internal/composition''"

definition spec_value :: "string \<Rightarrow> string option" where
  "spec_value spec =
     (if has_prefix spec (composition_path @ ''.'')
      then map_option snd (cut_at CHR ''='' (drop (length composition_path + 1) spec)) else None)"

fun injected_in :: "string list \<Rightarrow> string option" where
  "injected_in [] = None"
| "injected_in (f # fs) =
     (let spec = (if f = ''-X'' \<and> fs \<noteq> [] then Some (hd fs)
                  else if has_prefix f ''-X='' then Some (trim_prefix f ''-X='') else None) in
      case (case spec of None \<Rightarrow> None | Some s \<Rightarrow> spec_value s) of Some v \<Rightarrow> Some v | None \<Rightarrow> injected_in fs)"

definition injected_version :: "string \<Rightarrow> string option" where
  "injected_version ldflags = injected_in (str_fields ldflags)"

definition setting :: "(string \<times> string) list \<Rightarrow> string \<Rightarrow> string" where
  "setting settings k = (case map_of (rev settings) k of Some v \<Rightarrow> v | None \<Rightarrow> [])"

definition verify_executable :: "executable_info \<Rightarrow> selection \<Rightarrow> stage_target \<Rightarrow> stage_error option" where
  "verify_executable info sel t =
     (case xi_settings info of
        None \<Rightarrow> identity_failed ''build info''
      | Some settings \<Rightarrow>
          if setting settings ''GOOS'' \<noteq> tg_goos t then identity_failed ''GOOS''
          else (case check_header_machine info t of
             Some e \<Rightarrow> Some e
           | None \<Rightarrow>
               if setting settings ''GOARCH'' \<noteq> tg_goarch t \<and> \<not> universal_bundle info t then identity_failed ''GOARCH''
               else if tg_goos t = ''linux'' \<and> tg_goarch t = ''arm'' \<and> setting settings ''GOARM'' \<noteq> ''7''
               then identity_failed ''GOARM''
               else if contains (setting settings ''-tags'') ''headless'' \<and> tg_flavor t \<noteq> ''headless''
               then identity_failed ''headless tag''
               else (case injected_version (setting settings ''-ldflags'') of
                       None \<Rightarrow> None
                     | Some v \<Rightarrow> if v \<noteq> normalize_version (sel_version sel) then identity_failed ''version'' else None)))"

record bundle_info =
  bi_identifier :: string
  bi_executable :: string
  bi_version :: string
  bi_short :: string

definition bundle_field :: "string \<Rightarrow> string \<Rightarrow> bundle_info \<Rightarrow> bundle_info" where
  "bundle_field key v info =
     (if key = ''CFBundleIdentifier'' then info\<lparr>bi_identifier := v\<rparr>
      else if key = ''CFBundleExecutable'' then info\<lparr>bi_executable := v\<rparr>
      else if key = ''CFBundleVersion'' then info\<lparr>bi_version := v\<rparr>
      else if key = ''CFBundleShortVersionString'' then info\<lparr>bi_short := v\<rparr> else info)"

fun plist_scan :: "xml_element list \<Rightarrow> string \<Rightarrow> bundle_info \<Rightarrow> bundle_info option" where
  "plist_scan [] key info = Some info"
| "plist_scan (Key_Element None # es) key info = None"
| "plist_scan (Key_Element (Some t) # es) key info = plist_scan es t info"
| "plist_scan (String_Element None # es) key info = None"
| "plist_scan (String_Element (Some t) # es) key info = plist_scan es [] (bundle_field key t info)"
| "plist_scan (Other_Element # es) key info = plist_scan es key info"

definition read_bundle_info :: "stage_libs \<Rightarrow> string \<Rightarrow> bundle_info option" where
  "read_bundle_info libs content =
     (let (es, whole) = sl_plist libs content in
      case plist_scan es [] \<lparr>bi_identifier = [], bi_executable = [], bi_version = [], bi_short = []\<rparr> of
        None \<Rightarrow> None
      | Some info \<Rightarrow>
          if \<not> whole then None
          else if bi_identifier info = [] \<or> bi_executable info = [] \<or> bi_version info = [] \<or> bi_short info = []
          then None else Some info)"

definition below_path :: "string list \<Rightarrow> string \<Rightarrow> string list" where
  "below_path p name = norm_parts True (rev p) (split_on CHR ''/'' name)"

text \<open>\<open>Lstat\<close> does not follow the last element.\<close>

definition regular_at :: "vfs \<Rightarrow> string list \<Rightarrow> bool" where
  "regular_at fs p = (p \<noteq> [] \<and> (case folder_at fs (butlast p) of
     None \<Rightarrow> False | Some d \<Rightarrow> (case map_of fs (d @ [last p]) of Some (Plain _) \<Rightarrow> True | _ \<Rightarrow> False)))"

definition verify_bundle ::
    "stage_libs \<Rightarrow> vfs \<Rightarrow> string list \<Rightarrow> selection \<Rightarrow> stage_target \<Rightarrow> stage_error option" where
  "verify_bundle libs fs bundle sel t =
     (if tg_goos t \<noteq> ''darwin'' then identity_failed ''bundle requires darwin''
      else (case content_at fs (bundle @ [''Contents'', ''Info.plist'']) of
         None \<Rightarrow> identity_failed ''Info.plist''
       | Some content \<Rightarrow>
           (case read_bundle_info libs content of
              None \<Rightarrow> identity_failed ''Info.plist''
            | Some info \<Rightarrow>
                (let exe = below_path (bundle @ [''Contents'', ''MacOS'']) (bi_executable info) in
                 if bi_identifier info \<noteq> ''com.torrenttv.app'' then identity_failed ''bundle identifier''
                 else if bi_short info \<noteq> sel_version sel \<or> bi_version info \<noteq> sel_version sel
                 then identity_failed ''bundle versions''
                 else if \<not> regular_at fs exe then identity_failed ''bundle executable''
                 else (case content_at fs exe of
                         None \<Rightarrow> identity_failed ''build info''
                       | Some c \<Rightarrow>
                           (case verify_executable (sl_executable libs c) sel t of
                              Some e \<Rightarrow> Some e
                            | None \<Rightarrow>
                                (case sl_codesign libs of
                                   None \<Rightarrow> identity_failed ''signature verification unavailable''
                                 | Some check \<Rightarrow> if check fs bundle then None else identity_failed ''codesign'')))))))"

text \<open>The names in a folder: \<open>os.ReadDir\<close>.\<close>

definition find_bundle_dir :: "vfs \<Rightarrow> string list \<Rightarrow> stage_error + string list" where
  "find_bundle_dir fs dir =
     (let apps = filter (\<lambda>p. p \<noteq> [] \<and> butlast p = dir \<and> is_app (last p) \<and> map_of fs p = Some Folder)
                   (remdups (map fst fs)) in
      if length apps = 1 then Inr (hd apps) else Inl (Archive_Invalid ''expected exactly one .app directory''))"

record stage_payload =
  sp_dir :: "string list"
  sp_kind :: payload_kind
  sp_executable :: "string list"
  sp_bundle :: "string list"

definition verify_payload ::
    "stage_libs \<Rightarrow> vfs \<Rightarrow> string list \<Rightarrow> selection \<Rightarrow> stage_target \<Rightarrow> stage_error + stage_payload" where
  "verify_payload libs fs dir sel t =
     (if tg_flavor t = ''bundle'' then
        (case find_bundle_dir fs dir of
           Inl e \<Rightarrow> Inl e
         | Inr bundle \<Rightarrow>
             (case verify_bundle libs fs bundle sel t of
                Some e \<Rightarrow> Inl e
              | None \<Rightarrow> Inr \<lparr>sp_dir = dir, sp_kind = Payload_Bundle, sp_executable = [], sp_bundle = bundle\<rparr>))
      else
        (let exe = dir @ [if tg_goos t = ''windows'' then ''torrent-tv.exe'' else ''torrent-tv''] in
         if \<not> regular_at fs exe then Inl (Archive_Invalid ''payload executable'')
         else (case content_at fs exe of
                 None \<Rightarrow> Inl (Binary_Identity ''build info'')
               | Some c \<Rightarrow>
                   (case verify_executable (sl_executable libs c) sel t of
                      Some e \<Rightarrow> Inl e
                    | None \<Rightarrow> Inr \<lparr>sp_dir = dir, sp_kind = Payload_File, sp_executable = exe, sp_bundle = []\<rparr>))))"

definition extract_into :: "stage_libs \<Rightarrow> staged \<Rightarrow> extraction \<Rightarrow> (stage_error + stage_payload) \<times> vfs" where
  "extract_into libs s x =
     (let name = sel_asset_name (sg_selection s);
          content = (case content_at (ex_fs x) (sg_path s) of None \<Rightarrow> [] | Some c \<Rightarrow> c);
          unpacked = (if content_at (ex_fs x) (sg_path s) = None then (Some (Stage_Failed ''open staged archive''), x)
                      else if has_suffix name ''.tar.gz'' then extract_tar_gz (sl_untar libs content) x
                      else if has_suffix name ''.zip'' then extract_zip (sl_unzip libs content) x
                      else (Some Unsupported_Archive, x)) in
      case unpacked of
        (Some e, x) \<Rightarrow> (Inl e, ex_fs x)
      | (None, x) \<Rightarrow> (verify_payload libs (ex_fs x) (ex_root x) (sg_selection s) (ex_target x), ex_fs x))"

definition extract_dir :: "string list \<Rightarrow> string \<Rightarrow> string list" where
  "extract_dir dest token = dest @ [''.filelist-extract-'' @ token]"

definition extract_release ::
    "stage_libs \<Rightarrow> string \<Rightarrow> string list \<Rightarrow> staged \<Rightarrow> stage_target \<Rightarrow> stage_limits \<Rightarrow> vfs \<Rightarrow>
     (stage_error + stage_payload) \<times> vfs" where
  "extract_release libs token dest s t limits fs =
     (if \<not> limits_ok limits then (Inl (Stage_Failed ''limits''), fs)
      else (case make_node (extract_dir dest token) Folder fs of
         None \<Rightarrow> (Inl (Stage_Failed ''create staging directory''), fs)
       | Some fs \<Rightarrow>
           (case extract_into libs s (new_extraction (extract_dir dest token) t limits fs) of
              (Inl e, fs) \<Rightarrow> (Inl e, remove_tree (extract_dir dest token) fs)
            | (Inr p, fs) \<Rightarrow> (Inr p, fs))))"

end
