(* ===== verification/Stage_Facts.thy ===== *)
theory Stage_Facts
  imports Update_Stage
begin

text \<open>
  What staging guarantees: an accepted download has the digest of the manifest; unpacking a release of single files
  writes nothing outside its own folder.  What it does not: the links of a bundle are judged by their names alone,
  and the sum of the declared sizes wraps.
\<close>

subsection \<open>The download\<close>

lemma copy_bounded_takes:
  "copy_bounded n cs e acc = Inr content \<Longrightarrow> content = acc @ concat cs \<and> int (length (concat cs)) \<le> max 0 n"
  by (induction n cs e acc rule: copy_bounded.induct)
    (auto split: if_splits body_end.splits)

lemma make_node_same:
  assumes "make_node p n fs = Some fs'" "make_node p n' fs = r"
  shows "\<exists>q. fs' = (q, n) # fs \<and> map_of fs q = None"
  using assms by (auto simp: make_node_def split: if_splits option.splits)

text \<open>
  A staged archive is the whole body, no longer than the bound, with the digest the manifest gives for
  it; and a file that was there before keeps its content.
\<close>

theorem stage_archive_sound:
  assumes "stage_archive sha token dest sel body err limits fs = (Inr s, fs')"
  shows "\<exists>p fs1. mkdir_all dest fs = Some fs1 \<and> map_of fs1 p = None \<and>
    fs' = (p, Plain (concat (fst body))) # fs1 \<and>
    hex_encode (sha (concat (fst body))) = to_lower (sel_sha256 sel) \<and>
    int (length (concat (fst body))) \<le> lm_compressed limits"
proof -
  obtain fs1 content where fs1: "mkdir_all dest fs = Some fs1" "limits_ok limits"
    "copy_bounded (lm_compressed limits) (fst body) (snd body) [] = Inr content"
    "same_digest (sha content) (sel_sha256 sel)"
    "make_node (stage_name dest token) (Plain content) fs1 = Some fs'"
    using assms by (auto simp: stage_archive_def split: if_splits option.splits sum.splits)
  with copy_bounded_takes[OF fs1(3)] make_node_same[OF fs1(5) refl] show ?thesis
    by (auto simp: same_digest_def limits_ok_def)
qed

text \<open>A body of exactly the bound is refused unless its end comes with its last piece.\<close>

lemma exact_bound_refused:
  "0 < length c \<Longrightarrow> copy_bounded (int (length c)) [c] Own_Eof acc = Inl Staging_Limit"
  "0 < length c \<Longrightarrow> copy_bounded (int (length c)) [c] Joined_Eof acc = Inr (acc @ c)"
  by simp_all

subsection \<open>Paths without links\<close>

definition plain_path :: "string list \<Rightarrow> bool" where
  "plain_path p = list_all plain_elem p"

definition linkless :: "vfs \<Rightarrow> string list \<Rightarrow> string list \<Rightarrow> bool" where
  "linkless fs cur ps = (\<forall>k t. map_of fs (cur @ take k ps) \<noteq> Some (Link t))"

lemma linkless_Cons: "linkless fs cur (p # ps) \<Longrightarrow> linkless fs (cur @ [p]) ps"
  unfolding linkless_def by (metis append.assoc append_Cons append_Nil take_Suc_Cons)

lemma walk_straight:
  "walk links fs cur ps = Some q \<Longrightarrow> plain_path ps \<Longrightarrow> linkless fs cur ps \<Longrightarrow> q = cur @ ps"
proof (induction ps arbitrary: cur)
  case (Cons p ps)
  have "map_of fs (cur @ [p]) \<noteq> Some (Link t)" for t
    using Cons(4) unfolding linkless_def by (metis take_Suc_Cons take0)
  with Cons(2,3) have "walk links fs (cur @ [p]) ps = Some q"
    by (auto simp: plain_path_def plain_elem_def split: if_splits option.splits node.splits)
  from Cons(1)[OF this _ linkless_Cons[OF Cons(4)]] Cons(3) show ?case by (simp add: plain_path_def)
qed simp

lemma folder_at_straight:
  assumes "folder_at fs p = Some q" "plain_path p" "linkless fs [] p"
  shows "q = p"
proof -
  have "walk 40 fs [] p = Some q" using assms(1) by (auto simp: folder_at_def split: option.splits if_splits)
  from walk_straight[OF this assms(2,3)] show ?thesis by simp
qed

lemma linkless_butlast: "linkless fs [] p \<Longrightarrow> linkless fs [] (butlast p)"
  unfolding linkless_def by (auto simp: butlast_conv_take)

lemma plain_butlast: "plain_path p \<Longrightarrow> plain_path (butlast p)"
  by (auto simp: plain_path_def list_all_iff dest: in_set_butlastD)

lemma make_node_straight:
  assumes "make_node p n fs = Some fs'" "plain_path p" "linkless fs [] p"
  shows "fs' = (p, n) # fs \<and> map_of fs p = None"
proof -
  obtain d where d: "p \<noteq> []" "folder_at fs (butlast p) = Some d" "map_of fs (d @ [last p]) = None"
    "fs' = (d @ [last p], n) # fs"
    using assms(1) by (auto simp: make_node_def split: if_splits option.splits)
  from folder_at_straight[OF d(2) plain_butlast[OF assms(2)] linkless_butlast[OF assms(3)]]
  show ?thesis using d by simp
qed

definition fresh_folders :: "vfs \<Rightarrow> string list \<Rightarrow> vfs \<Rightarrow> bool" where
  "fresh_folders new p fs = (\<forall>e \<in> set new. snd e = Folder \<and> map_of fs (fst e) = None \<and>
     fst e \<noteq> [] \<and> (\<exists>k. fst e = take k p))"

lemma mkdir_rev_adds:
  "mkdir_rev rs fs = Some fs' \<Longrightarrow> plain_path (rev rs) \<Longrightarrow> linkless fs [] (rev rs) \<Longrightarrow>
   \<exists>new. fs' = new @ fs \<and> fresh_folders new (rev rs) fs"
proof (induction rs arbitrary: fs')
  case (Cons p rs)
  show ?case
  proof (cases "folder_at fs (rev (p # rs)) = None")
    case True
    with Cons(2) obtain fs1 where fs1: "mkdir_rev rs fs = Some fs1" "make_node (rev (p # rs)) Folder fs1 = Some fs'"
      by (auto split: option.splits)
    have "plain_path (rev rs)" "linkless fs [] (rev rs)"
      using Cons(3) linkless_butlast[OF Cons(4)] by (simp_all add: plain_path_def butlast_append)
    with Cons(1)[OF fs1(1)] obtain new where new: "fs1 = new @ fs" "fresh_folders new (rev rs) fs" by blast
    have "linkless fs1 [] (rev (p # rs))"
      using Cons(4) new unfolding linkless_def fresh_folders_def
      by (auto simp: map_add_def dest!: map_of_SomeD split: option.splits)
    from make_node_straight[OF fs1(2) Cons(3) this] new
    have "fs' = ((rev (p # rs), Folder) # new) @ fs" "map_of fs (rev (p # rs)) = None"
      by (auto simp: map_add_def split: option.splits)
    moreover have "\<exists>k. q = take k (rev (p # rs))" if "\<exists>k. q = take k (rev rs)" for q
      using that by (metis rev.simps(2) take_append append_Nil2 diff_is_0_eq nle_le take_all take0)
    then have "fresh_folders new (rev (p # rs)) fs" using new(2) by (auto simp: fresh_folders_def)
    ultimately show ?thesis
      by (intro exI[of _ "(rev (p # rs), Folder) # new"]) (auto simp: fresh_folders_def intro: exI[of _ "Suc (length rs)"])
  next
    case False
    with Cons(2) show ?thesis by (auto simp: fresh_folders_def intro: exI[of _ "[]"])
  qed
qed (auto simp: fresh_folders_def)

subsection \<open>Member names\<close>

definition dotted :: "string \<Rightarrow> bool" where
  "dotted p = (p = ''..'' \<or> plain_elem p)"

lemma norm_parts_dotted:
  "\<forall>p \<in> set ps. CHR ''/'' \<notin> set p \<Longrightarrow> list_all dotted st \<Longrightarrow> list_all dotted (norm_parts r st ps)"
proof (induction ps arbitrary: st)
  case (Cons p ps)
  consider "p = [] \<or> p = ''.''" | "p = ''..''" | "p \<noteq> []" "p \<noteq> ''.''" "p \<noteq> ''..''" by blast
  then show ?case
  proof cases
    case 2
    define st' where "st' = (case st of [] \<Rightarrow> if r then [] else [''..''] | t # u \<Rightarrow> if t = ''..'' then ''..'' # st else u)"
    have "norm_parts r st (p # ps) = norm_parts r st' ps" using 2 by (cases st) (simp_all add: st'_def)
    moreover have "list_all dotted st'" using Cons(3) by (cases st) (auto simp: st'_def, simp add: dotted_def)
    ultimately show ?thesis using Cons(1)[of st'] Cons(2) by simp
  next
    case 3
    then have "dotted p" using Cons(2) by (simp add: plain_elem_def dotted_def)
    then show ?thesis using Cons(1)[of "p # st"] Cons(2,3) 3 by simp
  qed (use Cons in auto)
qed simp

lemma clean_parts:
  assumes "\<not> is_abs name" "clean name \<noteq> ''.''"
  shows "\<exists>ps. ps \<noteq> [] \<and> clean name = join_with ''/'' ps \<and> list_all dotted ps"
proof -
  have "\<forall>p \<in> set (split_on CHR ''/'' name). CHR ''/'' \<notin> set p" using split_on_no_sep by blast
  then have "list_all dotted (norm_parts False [] (split_on CHR ''/'' name))" by (rule norm_parts_dotted) simp
  with assms show ?thesis by (auto simp: clean_def Let_def split: if_splits)
qed

lemma dotted_no_sep: "dotted p \<Longrightarrow> CHR ''/'' \<notin> set p"
  by (auto simp: dotted_def plain_elem_def)

lemma parts_split: "ps \<noteq> [] \<Longrightarrow> list_all dotted ps \<Longrightarrow> split_on CHR ''/'' (join_with ''/'' ps) = ps"
  by (rule split_join) (auto simp: list_all_iff dest: dotted_no_sep)

lemma clean_archive_name_parts:
  assumes "\<not> has_prefix name ''/''" "clean_archive_name name \<noteq> ''.''"
    "''..'' \<notin> set (split_on CHR ''/'' (clean_archive_name name))"
  shows "plain_path (split_on CHR ''/'' (clean_archive_name name))"
proof -
  have rel: "\<not> is_abs (trim_suffix name ''/'')"
  proof
    assume "is_abs (trim_suffix name ''/'')"
    then obtain r where "trim_suffix name ''/'' = CHR ''/'' # r" by (auto elim: is_absE)
    then have "take 1 name = ''/''"
      by (cases name) (auto simp: trim_suffix_def take_Cons' split: if_splits)
    then show False using assms(1) by (simp add: has_prefix_def)
  qed
  show ?thesis
  proof (cases "clean (trim_suffix name ''/'') = ''.''")
    case True
    then show ?thesis using assms(2) by (simp add: clean_archive_name_def trim_prefix_def has_prefix_def)
  next
    case False
    from clean_parts[OF rel this] obtain ps where ps: "ps \<noteq> []" "list_all dotted ps"
      "clean (trim_suffix name ''/'') = join_with ''/'' ps" by blast
    have "\<not> has_prefix (join_with ''/'' ps) ''./''"
    proof
      assume "has_prefix (join_with ''/'' ps) ''./''"
      then obtain r where "join_with ''/'' ps = ''./'' @ r" by (rule has_prefixE)
      then have "split_on CHR ''/'' (join_with ''/'' ps) = ''.'' # split_on CHR ''/'' r" by simp
      then have eq: "ps = ''.'' # split_on CHR ''/'' r" by (simp only: parts_split[OF ps(1,2)])
      have "dotted ''.''" using ps(2) unfolding eq list.pred_inject by (rule conjunct1)
      then show False by (simp add: dotted_def plain_elem_def)
    qed
    then have "clean_archive_name name = join_with ''/'' ps" by (simp add: clean_archive_name_def ps(3) trim_prefix_def)
    then have same: "split_on CHR ''/'' (clean_archive_name name) = ps" by (simp only: parts_split[OF ps(1,2)])
    have no_dots: "''..'' \<notin> set ps" using assms(3) unfolding same .
    have "list_all plain_elem ps"
      unfolding list_all_iff
    proof
      fix p assume p: "p \<in> set ps"
      then have "dotted p" using ps(2) by (simp add: list_all_iff)
      moreover have "p \<noteq> ''..''" using p no_dots by metis
      ultimately show "plain_elem p" by (simp only: dotted_def simp_thms)
    qed
    then show ?thesis unfolding plain_path_def same .
  qed
qed

subsection \<open>Unpacking stays inside\<close>

text \<open>A folder whose path is free of links, with nothing in it.\<close>

definition real_folder :: "vfs \<Rightarrow> string list \<Rightarrow> bool" where
  "real_folder fs p = (plain_path p \<and> map_of fs [] = None \<and> (\<forall>k. take k p \<noteq> [] \<longrightarrow> map_of fs (take k p) = Some Folder))"

definition beneath :: "string list \<Rightarrow> string list \<Rightarrow> bool" where
  "beneath base p = (under base p \<and> p \<noteq> base)"

definition grown :: "string list \<Rightarrow> vfs \<Rightarrow> vfs \<Rightarrow> bool" where
  "grown base fs0 fs = (\<exists>new. fs = new @ fs0 \<and> (\<forall>e \<in> set new. beneath base (fst e) \<and> (\<forall>t. snd e \<noteq> Link t)))"

lemma grown_add:
  assumes "grown base fs0 fs" "\<forall>e \<in> set new. beneath base (fst e) \<and> (\<forall>t. snd e \<noteq> Link t)"
  shows "grown base fs0 (new @ fs)"
proof -
  from assms(1) obtain old where old: "fs = old @ fs0" "\<forall>e \<in> set old. beneath base (fst e) \<and> (\<forall>t. snd e \<noteq> Link t)"
    unfolding grown_def by blast
  show ?thesis unfolding grown_def
    by (rule exI[of _ "new @ old"]) (use old assms(2) in auto)
qed

lemma grown_outside:
  assumes "grown base fs0 fs" "\<not> beneath base q"
  shows "map_of fs q = map_of fs0 q"
proof -
  from assms(1) obtain new where new: "fs = new @ fs0" "\<forall>e \<in> set new. beneath base (fst e) \<and> (\<forall>t. snd e \<noteq> Link t)"
    unfolding grown_def by blast
  have "map_of new q = None"
    using new(2) assms(2) by (auto simp: map_of_eq_None_iff)
  then show ?thesis using new(1) by (simp add: map_add_def)
qed

lemma grown_inside:
  assumes "grown base fs0 fs" "map_of fs0 q = None"
  shows "map_of fs q \<noteq> Some (Link t)"
proof
  assume a: "map_of fs q = Some (Link t)"
  from assms(1) obtain new where new: "fs = new @ fs0" "\<forall>e \<in> set new. beneath base (fst e) \<and> (\<forall>t. snd e \<noteq> Link t)"
    unfolding grown_def by blast
  have "map_of new q = Some (Link t)" using a assms(2) new(1) by (simp add: map_add_def split: option.splits)
  then have "(q, Link t) \<in> set new" by (rule map_of_SomeD)
  then show False using new(2) by fastforce
qed

definition tame :: "vfs \<Rightarrow> extraction \<Rightarrow> bool" where
  "tame fs0 x = (real_folder fs0 (ex_root x) \<and> (\<forall>q. beneath (ex_root x) q \<longrightarrow> map_of fs0 q = None) \<and>
     tg_flavor (ex_target x) \<noteq> ''bundle'' \<and> grown (ex_root x) fs0 (ex_fs x))"

lemma beneath_take: "parts \<noteq> [] \<Longrightarrow> \<not> beneath base (take k (base @ parts)) \<Longrightarrow> take k (base @ parts) = take k base"
  by (cases "k \<le> length base") (auto simp: beneath_def under_def)

lemma tame_linkless:
  assumes "tame fs0 x"
  shows "linkless (ex_fs x) [] (ex_root x @ parts)"
  unfolding linkless_def
proof (intro allI)
  fix k t
  let ?q = "take k (ex_root x @ parts)"
  show "map_of (ex_fs x) ([] @ ?q) \<noteq> Some (Link t)"
  proof (cases "beneath (ex_root x) ?q")
    case True
    then have "map_of fs0 ?q = None" using assms by (simp add: tame_def)
    then show ?thesis using grown_inside[of "ex_root x" fs0 "ex_fs x"] assms by (simp add: tame_def)
  next
    case False
    have q: "?q = take k (ex_root x)"
    proof (cases "parts = []")
      case False
      then show ?thesis using \<open>\<not> beneath (ex_root x) ?q\<close> by (rule beneath_take)
    qed simp
    have "grown (ex_root x) fs0 (ex_fs x)" using assms by (simp add: tame_def)
    then have "map_of (ex_fs x) ?q = map_of fs0 ?q" using False by (rule grown_outside)
    moreover have "map_of fs0 (take k (ex_root x)) \<noteq> Some (Link t)"
      using assms by (cases "take k (ex_root x) = []") (auto simp: tame_def real_folder_def)
    ultimately show ?thesis unfolding q by simp
  qed
qed

lemma fresh_folders_beneath:
  assumes "tame fs0 x" "fresh_folders new (ex_root x @ parts) (ex_fs x)" "e \<in> set new"
  shows "beneath (ex_root x) (fst e) \<and> (\<forall>t. snd e \<noteq> Link t)"
proof -
  from assms(2,3) obtain k where e: "snd e = Folder" "map_of (ex_fs x) (fst e) = None" "fst e = take k (ex_root x @ parts)"
    "fst e \<noteq> []"
    by (auto simp: fresh_folders_def)
  have "beneath (ex_root x) (fst e)"
  proof (rule ccontr)
    assume out: "\<not> beneath (ex_root x) (fst e)"
    have q: "fst e = take k (ex_root x)"
    proof (cases "parts = []")
      case False
      have "\<not> beneath (ex_root x) (take k (ex_root x @ parts))" using out unfolding e(3) .
      then show ?thesis unfolding e(3) by (rule beneath_take[OF False])
    next
      case True
      show ?thesis unfolding e(3) True by simp
    qed
    have "grown (ex_root x) fs0 (ex_fs x)" using assms(1) by (simp add: tame_def)
    from grown_outside[OF this out] e(2) have "map_of fs0 (fst e) = None" by simp
    moreover have "map_of fs0 (take k (ex_root x)) = Some Folder" using assms(1) e(4) q by (simp add: tame_def real_folder_def)
    ultimately show False using q by simp
  qed
  with e(1) show ?thesis by simp
qed

lemma tame_mkdir:
  assumes "tame fs0 x" "mkdir_all (ex_root x @ parts) (ex_fs x) = Some fs" "plain_path parts"
  shows "tame fs0 (x\<lparr>ex_fs := fs\<rparr>)"
proof -
  have plain: "plain_path (ex_root x @ parts)" using assms(1,3) by (simp add: tame_def real_folder_def plain_path_def)
  have "linkless (ex_fs x) [] (ex_root x @ parts)" using assms(1) by (rule tame_linkless)
  with mkdir_rev_adds[of "rev (ex_root x @ parts)" "ex_fs x" fs] assms(2) plain
  obtain new where new: "fs = new @ ex_fs x" "fresh_folders new (ex_root x @ parts) (ex_fs x)"
    by (auto simp: mkdir_all_def)
  then have "grown (ex_root x) fs0 fs"
    using grown_add fresh_folders_beneath[OF assms(1) new(2)] assms(1) by (auto simp: tame_def)
  then show ?thesis using assms(1) by (simp add: tame_def)
qed

lemma tame_make:
  assumes "tame fs0 x" "make_node (ex_root x @ parts) (Plain c) (ex_fs x) = Some fs" "plain_path parts" "parts \<noteq> []"
  shows "tame fs0 (x\<lparr>ex_fs := fs\<rparr>)"
proof -
  have plain: "plain_path (ex_root x @ parts)" using assms(1,3) by (simp add: tame_def real_folder_def plain_path_def)
  from make_node_straight[OF assms(2) plain tame_linkless[OF assms(1)]]
  have "fs = [(ex_root x @ parts, Plain c)] @ ex_fs x" by simp
  moreover have "beneath (ex_root x) (ex_root x @ parts)" using assms(4) by (simp add: beneath_def under_def)
  ultimately have "grown (ex_root x) fs0 fs"
    using grown_add[of "ex_root x" fs0 "ex_fs x" "[(ex_root x @ parts, Plain c)]"] assms(1) by (simp add: tame_def)
  then show ?thesis using assms(1) by (simp add: tame_def)
qed

lemma account_size_tame:
  "tame fs0 x \<Longrightarrow> account_size n x = (r, x') \<Longrightarrow> tame fs0 x' \<and> ex_root x' = ex_root x"
  by (auto simp: account_size_def tame_def split: if_splits)

lemma mark_bundle_tame:
  "tame fs0 x \<Longrightarrow> mark_bundle n x = (r, x') \<Longrightarrow> tame fs0 x' \<and> ex_root x' = ex_root x"
  by (auto simp: mark_bundle_def tame_def Let_def split: if_splits)

lemma member_path_tame:
  assumes "tame fs0 x" "member_path name x = (r, x')"
  shows "tame fs0 x'" "ex_root x' = ex_root x"
    "r = Inr (Some dest) \<Longrightarrow> \<exists>parts. dest = ex_root x @ parts \<and> plain_path parts \<and> parts \<noteq> []"
proof -
  define n where "n = clean_archive_name name"
  define x1 where "x1 = x\<lparr>ex_entries := ex_entries x + 1\<rparr>"
  define x2 where "x2 = x1\<lparr>ex_seen := n # ex_seen x1\<rparr>"
  have x1: "tame fs0 x1" "ex_root x1 = ex_root x" using assms(1) by (simp_all add: x1_def tame_def)
  have x2: "tame fs0 x2" "ex_root x2 = ex_root x" using x1 by (simp_all add: x2_def tame_def)
  obtain b x3 where b: "mark_bundle n x2 = (b, x3)" by fastforce
  have x3: "tame fs0 x3" "ex_root x3 = ex_root x" using mark_bundle_tame[OF x2(1) b] x2(2) by simp_all
  have cases: "x' = x1 \<and> (\<forall>d. r \<noteq> Inr (Some d)) \<or>
    (x' = x3 \<and> (\<forall>d. r = Inr (Some d) \<longrightarrow> d = ex_root x3 @ split_on CHR ''/'' n \<and> \<not> has_prefix name ''/'' \<and> n \<noteq> ''.'' \<and>
      ''..'' \<notin> set (split_on CHR ''/'' n)))"
    using assms(2) unfolding member_path_def Let_def n_def[symmetric] x1_def[symmetric] x2_def[symmetric] b
    by (simp split: if_splits option.splits) auto
  then show "tame fs0 x'" "ex_root x' = ex_root x" using x1 x3 by auto
  show "\<exists>parts. dest = ex_root x @ parts \<and> plain_path parts \<and> parts \<noteq> []" if "r = Inr (Some dest)"
  proof -
    from cases that have "dest = ex_root x @ split_on CHR ''/'' n" "\<not> has_prefix name ''/''" "n \<noteq> ''.''"
      "''..'' \<notin> set (split_on CHR ''/'' n)" using x3(2) by auto
    then have "plain_path (split_on CHR ''/'' n)"
      unfolding n_def by (intro clean_archive_name_parts)
    moreover have "split_on CHR ''/'' n \<noteq> []" by (rule split_on_not_Nil)
    ultimately show ?thesis
      using \<open>dest = ex_root x @ split_on CHR ''/'' n\<close> by (intro exI[of _ "split_on CHR ''/'' n"] conjI)
  qed
qed

definition stays :: "vfs \<Rightarrow> extraction \<Rightarrow> extraction \<Rightarrow> bool" where
  "stays fs0 x x' = (tame fs0 x' \<and> ex_root x' = ex_root x)"

lemma stays_refl: "tame fs0 x \<Longrightarrow> stays fs0 x x"
  by (simp add: stays_def)

lemma mkdir_stays:
  assumes "tame fs0 x" "plain_path parts" "with_fs x what (mkdir_all (ex_root x @ parts) (ex_fs x)) = (r, x')"
  shows "stays fs0 x x'"
  using assms tame_mkdir[OF assms(1) _ assms(2)] by (auto simp: with_fs_def stays_def split: option.splits)

lemma write_verified_stays:
  assumes "tame fs0 x" "plain_path parts" "parts \<noteq> []" "write_verified (ex_root x @ parts) m x = (r, x')"
  shows "stays fs0 x x'"
  using assms(1,4) tame_make[OF assms(1) _ assms(2,3)]
  by (auto simp: write_verified_def stays_def Let_def split: option.splits if_splits)

lemma write_file_stays:
  assumes "tame fs0 x" "plain_path parts" "parts \<noteq> []" "write_file_member (ex_root x @ parts) m x = (r, x')"
  shows "stays fs0 x x'"
proof -
  obtain a x1 where a: "account_size (me_size m) x = (a, x1)" by fastforce
  have x1: "tame fs0 x1" "ex_root x1 = ex_root x" using account_size_tame[OF assms(1) a] by simp_all
  obtain b x2 where b: "with_fs x1 ''create member directory'' (mkdir_all (ex_root x1 @ butlast parts) (ex_fs x1)) = (b, x2)"
    by fastforce
  have x2: "tame fs0 x2" "ex_root x2 = ex_root x"
    using mkdir_stays[OF x1(1) plain_butlast[OF assms(2)] b] x1(2) by (simp_all add: stays_def)
  have bl: "butlast (ex_root x @ parts) = ex_root x1 @ butlast parts" using assms(3) x1(2) by (simp add: butlast_append)
  consider "x' = x1" | "x' = x2" | "write_verified (ex_root x2 @ parts) m x2 = (r, x')"
    using assms(4) x2(2) unfolding write_file_member_def a prod.case bl b by (auto split: option.splits)
  then show ?thesis
    using x1 x2 write_verified_stays[OF x2(1) assms(2,3)] by cases (auto simp: stays_def)
qed

lemma write_link_refused:
  assumes "tame fs0 x"
  shows "\<exists>e. write_link_member dest name target x = (Some e, x)"
  using assms by (auto simp: write_link_member_def check_link_target_def tame_def Let_def)

lemma tar_member_stays:
  assumes "tame fs0 x" "tar_member m x = (r, x')"
  shows "stays fs0 x x'"
proof -
  obtain d x1 where d: "member_path (me_name m) x = (d, x1)" by fastforce
  note x1 = member_path_tame[OF assms(1) d]
  show ?thesis
  proof (cases "\<exists>dest. d = Inr (Some dest)")
    case False
    then have "x' = x1" using assms(2) by (auto simp: tar_member_def d split: sum.splits option.splits)
    then show ?thesis using x1(1,2) by (simp add: stays_def)
  next
    case True
    then obtain dest parts where p: "d = Inr (Some dest)" "dest = ex_root x1 @ parts" "plain_path parts" "parts \<noteq> []"
      using x1(2,3) by auto
    have "stays fs0 x1 x'"
    proof (cases "me_kind m")
      case Folder_Member
      with assms(2) p d have "with_fs x1 ''create directory'' (mkdir_all (ex_root x1 @ parts) (ex_fs x1)) = (r, x')"
        by (simp add: tar_member_def)
      then show ?thesis by (rule mkdir_stays[OF x1(1) p(3)])
    next
      case File_Member
      with assms(2) p d have "write_file_member (ex_root x1 @ parts) m x1 = (r, x')" by (simp add: tar_member_def)
      then show ?thesis by (rule write_file_stays[OF x1(1) p(3,4)])
    next
      case Link_Member
      with assms(2) p(1) d show ?thesis
        using write_link_refused[OF x1(1), of dest "clean_archive_name (me_name m)" "me_link m"] x1(1)
        by (auto simp: tar_member_def stays_def)
    next
      case Other_Member
      with assms(2) p(1) d show ?thesis using x1(1) by (simp add: tar_member_def stays_def)
    qed
    then show ?thesis using x1(2) by (simp add: stays_def)
  qed
qed

lemma zip_member_stays:
  assumes "tame fs0 x" "zip_member m x = (r, x')"
  shows "stays fs0 x x'"
proof -
  obtain d x1 where d: "member_path (trim_suffix (me_name m) ''/'') x = (d, x1)" by fastforce
  note x1 = member_path_tame[OF assms(1) d]
  show ?thesis
  proof (cases "\<exists>dest. d = Inr (Some dest)")
    case False
    then have "x' = x1" using assms(2) by (auto simp: zip_member_def Let_def d split: sum.splits option.splits)
    then show ?thesis using x1(1,2) by (simp add: stays_def)
  next
    case True
    then obtain dest parts where p: "d = Inr (Some dest)" "dest = ex_root x1 @ parts" "plain_path parts" "parts \<noteq> []"
      using x1(2,3) by auto
    have "stays fs0 x1 x'"
    proof (cases "me_kind m")
      case Folder_Member
      with assms(2) p d have "with_fs x1 ''create directory'' (mkdir_all (ex_root x1 @ parts) (ex_fs x1)) = (r, x')"
        by (simp add: zip_member_def Let_def)
      then show ?thesis by (rule mkdir_stays[OF x1(1) p(3)])
    next
      case File_Member
      with assms(2) p d have "write_file_member (ex_root x1 @ parts) m x1 = (r, x')" by (simp add: zip_member_def Let_def)
      then show ?thesis by (rule write_file_stays[OF x1(1) p(3,4)])
    next
      case Link_Member
      with assms(2) p(1) d show ?thesis
        using write_link_refused[OF x1(1), of dest "clean_archive_name (trim_suffix (me_name m) ''/'')" "take 4096 (me_data m)"] x1(1)
        by (auto simp: zip_member_def Let_def stays_def split: option.splits)
    next
      case Other_Member
      with assms(2) p(1) d show ?thesis using x1(1) by (simp add: zip_member_def Let_def stays_def)
    qed
    then show ?thesis using x1(2) by (simp add: stays_def)
  qed
qed

lemma unpack_stays:
  assumes "\<And>m x r x'. tame fs0 x \<Longrightarrow> step m x = (r, x') \<Longrightarrow> stays fs0 x x'"
  shows "tame fs0 x \<Longrightarrow> unpack step ms x = (r, x') \<Longrightarrow> stays fs0 x x'"
proof (induction ms arbitrary: x)
  case (Cons m ms)
  obtain a x1 where a: "step m x = (a, x1)" by fastforce
  have x1: "stays fs0 x x1" using assms[OF Cons(2) a] .
  then show ?case
    using Cons(3) Cons(1)[of x1] by (cases a) (auto simp: a stays_def)
qed (simp add: stays_def)

lemma extract_into_stays:
  assumes "tame fs0 x" "extract_into libs s x = (r, fs)"
  shows "\<exists>x'. fs = ex_fs x' \<and> stays fs0 x x'"
proof -
  have tar: "stays fs0 x x'" if "extract_tar_gz a x = (e, x')" for a e x'
  proof (cases "ar_opens a")
    case True
    obtain b x1 where b: "unpack tar_member (ar_members a) x = (b, x1)" by fastforce
    have "stays fs0 x x1" by (rule unpack_stays[of fs0 tar_member, OF _ assms(1) b]) (rule tar_member_stays)
    moreover have "x' = x1" using that True by (auto simp: extract_tar_gz_def b split: option.splits)
    ultimately show ?thesis by simp
  qed (use that assms(1) in \<open>simp add: extract_tar_gz_def stays_def\<close>)
  have zip: "stays fs0 x x'" if "extract_zip a x = (e, x')" for a e x'
  proof (cases "ar_opens a")
    case True
    then have u: "unpack zip_member (ar_members a) x = (e, x')" using that by (simp add: extract_zip_def)
    show ?thesis by (rule unpack_stays[of fs0 zip_member, OF _ assms(1) u]) (rule zip_member_stays)
  qed (use that assms(1) in \<open>simp add: extract_zip_def stays_def\<close>)
  obtain b x1 where b: "(if content_at (ex_fs x) (sg_path s) = None then (Some (Stage_Failed ''open staged archive''), x)
      else if has_suffix (sel_asset_name (sg_selection s)) ''.tar.gz''
      then extract_tar_gz (sl_untar libs (case content_at (ex_fs x) (sg_path s) of None \<Rightarrow> [] | Some c \<Rightarrow> c)) x
      else if has_suffix (sel_asset_name (sg_selection s)) ''.zip''
      then extract_zip (sl_unzip libs (case content_at (ex_fs x) (sg_path s) of None \<Rightarrow> [] | Some c \<Rightarrow> c)) x
      else (Some Unsupported_Archive, x)) = (b, x1)" by fastforce
  have "stays fs0 x x1" using b tar zip stays_refl[OF assms(1)] by (simp split: if_splits)
  moreover have "fs = ex_fs x1" using assms(2) unfolding extract_into_def Let_def b by (auto split: option.splits)
  ultimately show ?thesis by blast
qed

text \<open>
  Property C28: unpacking a release of single files, whatever the archive says, changes nothing outside the folder
  made for it; and when it is refused, nothing at all.
\<close>

theorem extraction_stays_inside:
  assumes "extract_release libs token dest s t limits fs = (r, fs')" "tg_flavor t \<noteq> ''bundle''"
    "real_folder fs dest" "plain_elem (''.filelist-extract-'' @ token)"
    "\<forall>q. under (extract_dir dest token) q \<longrightarrow> map_of fs q = None"
    "\<not> under (extract_dir dest token) q \<or> (\<exists>e. r = Inl e)"
  shows "map_of fs' q = map_of fs q"
proof -
  define d where "d = extract_dir dest token"
  have ends: "butlast d = dest" "last d = ''.filelist-extract-'' @ token" "d \<noteq> []"
    by (simp_all add: d_def extract_dir_def)
  have links: "linkless fs [] d"
    unfolding linkless_def
  proof (intro allI)
    fix k n
    show "map_of fs ([] @ take k d) \<noteq> Some (Link n)"
    proof (cases "k \<le> length dest")
      case True
      then have "take k d = take k dest" by (simp add: d_def extract_dir_def)
      then show ?thesis using assms(3) by (cases "take k dest = []") (auto simp: real_folder_def)
    next
      case False
      then have "take k d = d" by (simp add: d_def extract_dir_def)
      then show ?thesis using assms(5) by (simp add: d_def under_def)
    qed
  qed
  have plain: "plain_path d" using assms(3,4) by (simp add: d_def extract_dir_def real_folder_def plain_path_def)
  show ?thesis
  proof (cases "limits_ok limits \<and> make_node d Folder fs \<noteq> None")
    case False
    then have "fs' = fs" "\<exists>e. r = Inl e"
      using assms(1) by (auto simp: extract_release_def d_def split: if_splits option.splits)
    then show ?thesis by simp
  next
    case True
    then obtain fs1 where fs1: "make_node d Folder fs = Some fs1" by blast
    from make_node_straight[OF this plain links] have fs1': "fs1 = (d, Folder) # fs" by simp
    have "real_folder fs1 d"
      unfolding real_folder_def
    proof (intro conjI allI impI plain)
      show "map_of fs1 [] = None" using assms(3) ends(3) by (simp add: fs1' real_folder_def)
      fix k assume k: "take k d \<noteq> []"
      show "map_of fs1 (take k d) = Some Folder"
      proof (cases "take k d = d")
        case False
        have "k \<le> length dest"
        proof (rule ccontr)
          assume "\<not> k \<le> length dest"
          then have "length d \<le> k" by (simp add: d_def extract_dir_def)
          then show False using False by simp
        qed
        then have "take k d = take k dest" by (simp add: d_def extract_dir_def)
        then show ?thesis using False k assms(3) by (auto simp: fs1' real_folder_def)
      qed (simp add: fs1')
    qed
    then have "tame fs1 (new_extraction d t limits fs1)"
      using assms(2,5) by (auto simp: tame_def new_extraction_def grown_def fs1' beneath_def d_def)
    moreover obtain r1 fs2 where r1: "extract_into libs s (new_extraction d t limits fs1) = (r1, fs2)" by fastforce
    ultimately obtain x' where x': "fs2 = ex_fs x'" "stays fs1 (new_extraction d t limits fs1) x'"
      using extract_into_stays by blast
    then have grown: "grown d fs1 fs2" by (auto simp: stays_def tame_def new_extraction_def)
    have out: "map_of fs2 q = map_of fs q" if "\<not> under d q" for q
      using grown_outside[OF grown, of q] that by (auto simp: beneath_def fs1' under_def)
    have res: "r = r1" "fs' = (case r1 of Inl _ \<Rightarrow> remove_tree d fs2 | Inr _ \<Rightarrow> fs2)"
      using assms(1) True fs1 r1 by (auto simp: extract_release_def d_def split: sum.splits)
    have gone: "map_of (remove_tree d fs2) q = (if under d q then None else map_of fs2 q)"
      unfolding remove_tree_def by (induction fs2) auto
    show ?thesis
      using out[of q] gone res assms(5,6) unfolding d_def[symmetric] by (cases r1) auto
  qed
qed

subsection \<open>What is not guaranteed\<close>

definition folder_member :: "string \<Rightarrow> member" where
  "folder_member n = \<lparr>me_name = n, me_kind = Folder_Member, me_size = 0, me_data = [], me_link = [], me_fault = None\<rparr>"

definition link_member :: "string \<Rightarrow> string \<Rightarrow> member" where
  "link_member n t = \<lparr>me_name = n, me_kind = Link_Member, me_size = 0, me_data = [], me_link = t, me_fault = None\<rparr>"

definition file_member :: "string \<Rightarrow> string \<Rightarrow> member" where
  "file_member n c = \<lparr>me_name = n, me_kind = File_Member, me_size = int (length c), me_data = c, me_link = [], me_fault = None\<rparr>"

text \<open>Each link of this bundle resolves inside it by name; the second leaves it through the first.\<close>

definition chained_bundle :: archive where
  "chained_bundle = \<lparr>ar_opens = True, ar_members = [folder_member ''A.app/a/'', link_member ''A.app/a/b'' ''..'',
     link_member ''A.app/c'' ''a/b/../..'', file_member ''A.app/c/new'' ''x''], ar_error = None, ar_tail = Some []\<rparr>"

definition sample_libs :: "archive \<Rightarrow> stage_libs" where
  "sample_libs a = \<lparr>sl_untar = (\<lambda>_. a), sl_unzip = (\<lambda>_. a),
     sl_executable = (\<lambda>_. \<lparr>xi_settings = Some [(''GOOS'', ''linux''), (''GOARCH'', ''amd64'')], xi_elf = Some 62,
       xi_pe = None, xi_macho = Not_Macho\<rparr>),
     sl_plist = (\<lambda>_. ([], True)), sl_codesign = None\<rparr>"

definition sample_staged :: staged where
  "sample_staged = \<lparr>sg_selection = \<lparr>sel_version = ''1.0.0'', sel_tag = ''v1.0.0'', sel_notes = [], sel_released = 0,
     sel_releases_url = [], sel_asset_name = ''a.tar.gz'', sel_asset_url = [], sel_sha256 = [], sel_asset_size = 0\<rparr>,
     sg_path = [''i'', ''s''], sg_digest = []\<rparr>"

definition install_fs :: vfs where
  "install_fs = [([''i''], Folder), ([''i'', ''s''], Plain [])]"

definition bundle_target :: stage_target where
  "bundle_target = \<lparr>tg_goos = ''darwin'', tg_goarch = ''arm64'', tg_goarm = 0, tg_flavor = ''bundle''\<rparr>"

definition bundle_state :: "string list \<Rightarrow> int \<Rightarrow> vfs \<Rightarrow> extraction" where
  "bundle_state seen n fs = \<lparr>ex_root = [''i'', ''.filelist-extract-t''], ex_target = bundle_target, ex_limits = default_limits,
     ex_seen = seen, ex_expanded = n, ex_bundle = (if seen = [] then [] else ''A.app''), ex_entries = int (length seen), ex_fs = fs\<rparr>"

definition unpacked_fs :: "nat \<Rightarrow> vfs" where
  "unpacked_fs n = drop (5 - n) [([''i'', ''new''], Plain ''x''),
     ([''i'', ''.filelist-extract-t'', ''A.app'', ''c''], Link ''a/b/../..''),
     ([''i'', ''.filelist-extract-t'', ''A.app'', ''a'', ''b''], Link ''..''),
     ([''i'', ''.filelist-extract-t'', ''A.app'', ''a''], Folder), ([''i'', ''.filelist-extract-t'', ''A.app''], Folder)] @
     ([''i'', ''.filelist-extract-t''], Folder) # install_fs"

lemma chained_members:
  "tar_member (folder_member ''A.app/a/'') (bundle_state [] 0 (unpacked_fs 0)) = (None, bundle_state [''A.app/a''] 0 (unpacked_fs 2))"
  "tar_member (link_member ''A.app/a/b'' ''..'') (bundle_state [''A.app/a''] 0 (unpacked_fs 2)) =
     (None, bundle_state [''A.app/a/b'', ''A.app/a''] 0 (unpacked_fs 3))"
  "tar_member (link_member ''A.app/c'' ''a/b/../..'') (bundle_state [''A.app/a/b'', ''A.app/a''] 0 (unpacked_fs 3)) =
     (None, bundle_state [''A.app/c'', ''A.app/a/b'', ''A.app/a''] 0 (unpacked_fs 4))"
  "tar_member (file_member ''A.app/c/new'' ''x'') (bundle_state [''A.app/c'', ''A.app/a/b'', ''A.app/a''] 0 (unpacked_fs 4)) =
     (None, bundle_state [''A.app/c/new'', ''A.app/c'', ''A.app/a/b'', ''A.app/a''] 1 (unpacked_fs 5))"
  by code_simp+

lemma chained_payload:
  "verify_payload (sample_libs chained_bundle) (unpacked_fs 5) [''i'', ''.filelist-extract-t''] (sg_selection sample_staged) bundle_target =
   Inl (Binary_Identity ''Info.plist'')"
  by code_simp

lemma chained_folder: "make_node [''i'', ''.filelist-extract-t''] Folder install_fs = Some (unpacked_fs 0)"
  by code_simp

lemma chained_removed: "remove_tree [''i'', ''.filelist-extract-t''] (unpacked_fs 5) = ([''i'', ''new''], Plain ''x'') # install_fs"
  by code_simp

lemma chained_source: "content_at (unpacked_fs 0) [''i'', ''s''] = Some []"
  by code_simp

text \<open>
  Property C29: the links of a bundle are checked by their names, not by where they lead, so a chain of two links
  writes a file into the installation folder; it stays there when the archive is refused and its own folder removed.
\<close>

theorem chained_links_escape:
  "extract_release (sample_libs chained_bundle) ''t'' [''i''] sample_staged bundle_target default_limits install_fs =
     (Inl (Binary_Identity ''Info.plist''), ([''i'', ''new''], Plain ''x'') # install_fs)"
proof -
  define x4 where "x4 = bundle_state [''A.app/c/new'', ''A.app/c'', ''A.app/a/b'', ''A.app/a''] 1 (unpacked_fs 5)"
  have unpacked: "extract_tar_gz chained_bundle (bundle_state [] 0 (unpacked_fs 0)) = (None, x4)"
    by (simp add: extract_tar_gz_def chained_bundle_def chained_members gzip_tail_def x4_def)
  have start: "new_extraction [''i'', ''.filelist-extract-t''] bundle_target default_limits (unpacked_fs 0) =
      bundle_state [] 0 (unpacked_fs 0)" "ex_fs (bundle_state [] 0 (unpacked_fs 0)) = unpacked_fs 0"
    by (simp_all add: new_extraction_def bundle_state_def)
  have x4: "ex_fs x4 = unpacked_fs 5" "ex_root x4 = [''i'', ''.filelist-extract-t'']" "ex_target x4 = bundle_target"
    by (simp_all add: x4_def bundle_state_def)
  have libs: "sl_untar (sample_libs chained_bundle) c = chained_bundle" "has_suffix (sel_asset_name (sg_selection sample_staged)) ''.tar.gz''"
    "sg_path sample_staged = [''i'', ''s'']" for c
    by (simp_all add: sample_libs_def sample_staged_def has_suffix_def)
  have "extract_into (sample_libs chained_bundle) sample_staged (bundle_state [] 0 (unpacked_fs 0)) =
      (Inl (Binary_Identity ''Info.plist''), unpacked_fs 5)"
    unfolding extract_into_def Let_def start libs chained_source by (simp add: libs unpacked x4 chained_payload)
  moreover have "limits_ok default_limits" by (simp add: limits_ok_def default_limits_def)
  moreover have "extract_dir [''i''] ''t'' = [''i'', ''.filelist-extract-t'']" by (simp add: extract_dir_def)
  ultimately show ?thesis
    by (simp add: extract_release_def chained_folder start(1) chained_removed)
qed

text \<open>The running sum of the declared sizes wraps: a member that declares almost everything is let in.\<close>

lemma declared_sizes_wrap:
  "ex_expanded x = 1 \<Longrightarrow> 0 < lm_expanded (ex_limits x) \<Longrightarrow>
   account_size (2 ^ 63 - 1) x = (None, x\<lparr>ex_expanded := - (2 ^ 63)\<rparr>)"
  by (simp add: account_size_def i64_def)

text \<open>The version is read from the first variable of the package that is set, whichever it is.\<close>

lemma any_variable_is_the_version:
  "injected_version (''-X '' @ composition_path @ ''.Commit=abc -X '' @ composition_path @ ''.Version=1.0.0'') = Some ''abc''"
  by code_simp

theorem extraction_stays_inside_witness:
  "map_of (snd (extract_release (sample_libs (chained_bundle\<lparr>ar_members := [file_member ''torrent-tv'' ''x'']\<rparr>)) ''t'' [''i'']
     sample_staged \<lparr>tg_goos = ''linux'', tg_goarch = ''amd64'', tg_goarm = 0, tg_flavor = ''headless''\<rparr> default_limits install_fs))
     [''i'', ''new''] = None"
proof -
  let ?libs = "sample_libs (chained_bundle\<lparr>ar_members := [file_member ''torrent-tv'' ''x'']\<rparr>)"
  let ?t = "\<lparr>tg_goos = ''linux'', tg_goarch = ''amd64'', tg_goarm = 0, tg_flavor = ''headless''\<rparr>"
  obtain r fs' where e: "extract_release ?libs ''t'' [''i''] sample_staged ?t default_limits install_fs = (r, fs')"
    by fastforce
  have real: "real_folder install_fs [''i'']"
    by (auto simp: real_folder_def plain_path_def plain_elem_def install_fs_def take_Cons' split: if_splits)
  have free: "\<forall>q. under (extract_dir [''i''] ''t'') q \<longrightarrow> map_of install_fs q = None"
    by (auto simp: under_def extract_dir_def install_fs_def)
  have "map_of fs' [''i'', ''new''] = map_of install_fs [''i'', ''new'']"
    by (rule extraction_stays_inside[OF e _ real _ free]) (simp_all add: plain_elem_def under_def extract_dir_def)
  then show ?thesis using e by (simp add: install_fs_def)
qed

theorem stage_archive_sound_witness:
  "\<exists>s fs'. stage_archive (\<lambda>_. replicate 32 (CHR ''a'')) ''t'' [''i'']
      ((sg_selection sample_staged)\<lparr>sel_sha256 := hex_encode (replicate 32 (CHR ''a''))\<rparr>) ([''ab'', ''c''], Own_Eof) None
      default_limits install_fs = (Inr s, fs') \<and> (\<exists>p. fs' = (p, Plain ''abc'') # install_fs)"
proof -
  let ?sel = "(sg_selection sample_staged)\<lparr>sel_sha256 := hex_encode (replicate 32 (CHR ''a''))\<rparr>"
  obtain r fs' where e: "stage_archive (\<lambda>_. replicate 32 (CHR ''a'')) ''t'' [''i''] ?sel ([''ab'', ''c''], Own_Eof) None
      default_limits install_fs = (r, fs')" by fastforce
  have "isl (fst (stage_archive (\<lambda>_. replicate 32 (CHR ''a'')) ''t'' [''i''] ?sel ([''ab'', ''c''], Own_Eof) None
      default_limits install_fs)) = False" by code_simp
  then obtain s where s: "r = Inr s" using e by (cases r) auto
  have "mkdir_all [''i''] install_fs = Some install_fs" by code_simp
  with stage_archive_sound[OF e[unfolded s]] e s show ?thesis by auto
qed

end
