(* ===== verification/Update_Manager.thy ===== *)
theory Update_Manager
  imports Update_Stage
begin

text \<open>
  The update coordinator (\<open>internal/application/updates/manager.go\<close>): the cached status, the notify-only checks, the
  single accepted operation, its response barrier and the installation pipeline.

  What the coordinator does under its mutex is a function of \<open>coordinator\<close>; \<open>coordinator_step\<close> interleaves checks,
  applies, flushed responses and the installation.  A check reads the status in one critical section and commits its
  result in another, so a check that is under way is a pending status.  The notice of the portal, the resolver and
  the installation are nondeterministic.
\<close>

subsection \<open>Supervision and cadence\<close>

datatype supervision = Supervision_Plain | Supervision_Systemd

definition cgroup_indicates_systemd_service :: "string \<Rightarrow> bool" where
  "cgroup_indicates_systemd_service cgroup =
     list_ex (\<lambda>line. list_ex (\<lambda>e. has_suffix e ''.service'') (split_on CHR ''/'' (trim_space line)))
       (split_on (CHR 0x0A) cgroup)"

definition supervision_from_environment :: "string \<Rightarrow> string \<Rightarrow> supervision" where
  "supervision_from_environment notify_socket cgroup =
     (if notify_socket \<noteq> [] then Supervision_Systemd
      else if cgroup_indicates_systemd_service cgroup then Supervision_Systemd else Supervision_Plain)"

definition detect_supervision :: "string \<Rightarrow> string \<Rightarrow> string option \<Rightarrow> supervision" where
  "detect_supervision goos notify_socket cgroup =
     (if goos \<noteq> ''linux'' then Supervision_Plain
      else supervision_from_environment notify_socket (case cgroup of None \<Rightarrow> [] | Some c \<Rightarrow> c))"

definition default_check_interval :: int where "default_check_interval = hour"

definition check_interval :: "int \<Rightarrow> int" where
  "check_interval configured = (if configured \<le> 0 then default_check_interval else configured)"

definition jittered :: "int \<Rightarrow> (int \<Rightarrow> int) option \<Rightarrow> int" where
  "jittered interval jitter = (case jitter of
     None \<Rightarrow> interval
   | Some f \<Rightarrow> if 0 < i64 (interval + f interval) then i64 (interval + f interval) else interval)"

text \<open>The arguments a relaunched installation serves with; the codec is \<open>encoding/json\<close>.\<close>

definition set_relaunch_args :: "(string list \<Rightarrow> string option) \<Rightarrow> string list \<Rightarrow> string option \<Rightarrow> bool \<times> string option" where
  "set_relaunch_args encode args marker =
     (if args = [] then (True, None)
      else (case encode args of None \<Rightarrow> (False, marker) | Some e \<Rightarrow> (True, Some e)))"

definition take_relaunch_args ::
    "(string \<Rightarrow> string list option) \<Rightarrow> string option \<Rightarrow> string list option \<times> string option" where
  "take_relaunch_args decode marker =
     (case marker of
        None \<Rightarrow> (None, None)
      | Some raw \<Rightarrow>
          if raw = [] then (None, marker)
          else (case decode raw of None \<Rightarrow> (None, None) | Some args \<Rightarrow> (if args = [] then None else Some args, None)))"

subsection \<open>Capability\<close>

record installation =
  il_dir :: string
  il_executable :: string
  il_wired :: bool
  il_bundles :: bool
  il_files :: bool
  il_writable :: bool

fun bundle_above :: "nat \<Rightarrow> string \<Rightarrow> string" where
  "bundle_above 0 dir = []"
| "bundle_above (Suc n) dir =
     (if has_suffix (path_base dir) ''.app'' then dir
      else (let parent = path_dir dir in if parent = dir then [] else bundle_above n parent))"

definition bundle_path :: "string \<Rightarrow> string" where
  "bundle_path executable = bundle_above 4 (path_dir executable)"

definition capable :: "semver_lib \<Rightarrow> identity \<Rightarrow> installation \<Rightarrow> bool" where
  "capable lib i inst =
     (self_update_capable lib i \<and> il_wired inst \<and> il_dir inst \<noteq> [] \<and> il_executable inst \<noteq> [] \<and>
      (if id_flavor i = ''bundle'' then il_bundles inst \<and> bundle_path (il_executable inst) \<noteq> [] else il_files inst) \<and>
      il_writable inst)"

subsection \<open>The coordinator\<close>

record update_status =
  us_current :: string
  us_available :: bool
  us_latest :: string
  us_notes :: string
  us_released :: string
  us_self_update :: bool
  us_applying :: bool

datatype update_event = Status_Event update_status | Failed_Event string

datatype apply_error = Apply_Busy | Apply_Manual_Only | Apply_Failed string | Apply_Cancelled

datatype operation_phase = Checking | Checked update_status | Committed update_status | Installing

text \<open>\<open>co_pending\<close>: the background checks between their two critical sections.  \<open>co_barrier\<close>: \<open>Some False\<close> is a barrier not released.\<close>

record coordinator =
  co_version :: string
  co_status :: update_status
  co_applying :: bool
  co_barrier :: "bool option"
  co_idle :: bool
  co_operation :: "operation_phase option"
  co_pending :: "update_status list"
  co_events :: "update_event list"

definition new_coordinator :: "semver_lib \<Rightarrow> identity \<Rightarrow> installation \<Rightarrow> coordinator" where
  "new_coordinator lib i inst = \<lparr>co_version = id_version i,
     co_status = \<lparr>us_current = id_version i, us_available = False, us_latest = [], us_notes = [], us_released = [],
       us_self_update = capable lib i inst, us_applying = False\<rparr>,
     co_applying = False, co_barrier = None, co_idle = True, co_operation = None, co_pending = [], co_events = []\<rparr>"

definition emit_update :: "update_event \<Rightarrow> coordinator \<Rightarrow> coordinator" where
  "emit_update e c = c\<lparr>co_events := co_events c @ [e]\<rparr>"

definition base_status :: "coordinator \<Rightarrow> update_status" where
  "base_status c = \<lparr>us_current = co_version c, us_available = False, us_latest = [], us_notes = [], us_released = [],
     us_self_update = us_self_update (co_status c), us_applying = us_applying (co_status c)\<rparr>"

text \<open>What a check found: no notice, a release that is not newer, or a newer one.\<close>

record found_release =
  fd_version :: string
  fd_notes :: string
  fd_released :: string

definition checked_status :: "found_release option \<Rightarrow> update_status \<Rightarrow> update_status" where
  "checked_status found st = (case found of
     None \<Rightarrow> st
   | Some r \<Rightarrow> st\<lparr>us_available := True, us_latest := fd_version r, us_notes := fd_notes r, us_released := fd_released r\<rparr>)"

datatype check_error = Notice_Error string | Resolver_Error update_error

text \<open>\<open>show_time\<close> is the format RFC 3339.\<close>

definition check_found ::
    "semver_lib \<Rightarrow> (string \<Rightarrow> parsed_url option) \<Rightarrow> (go_time \<Rightarrow> string) \<Rightarrow> release_feed \<Rightarrow> identity \<Rightarrow> string + string option \<Rightarrow>
     check_error + found_release option" where
  "check_found lib url show_time feed i notice =
     (case notice of
        Inl e \<Rightarrow> Inl (Notice_Error e)
      | Inr None \<Rightarrow> Inr None
      | Inr (Some hint) \<Rightarrow>
          (case resolve_update lib url feed i hint of
             Inl e \<Rightarrow> Inl (Resolver_Error e)
           | Inr sel \<Rightarrow>
               (case is_newer lib (id_version i) (sel_version sel) of
                  Inl e \<Rightarrow> Inl (Resolver_Error e)
                | Inr newer \<Rightarrow> Inr (if newer then Some \<lparr>fd_version = sel_version sel, fd_notes = sel_notes sel,
                    fd_released = (if sel_released sel = zero_time then [] else show_time (sel_released sel))\<rparr> else None))))"

definition neutral_message :: "(check_error \<Rightarrow> string) \<Rightarrow> check_error \<Rightarrow> string" where
  "neutral_message show_error e =
     (if e = Resolver_Error Manual_Only then ''this installation cannot update itself automatically'' else show_error e)"

definition commit_status :: "update_status \<Rightarrow> coordinator \<Rightarrow> coordinator" where
  "commit_status st c = (if st \<noteq> co_status c then emit_update (Status_Event st) (c\<lparr>co_status := st\<rparr>) else c)"

definition begin_operation :: "coordinator \<Rightarrow> apply_error option \<times> coordinator" where
  "begin_operation c =
     (if co_applying c then (Some Apply_Busy, c)
      else if \<not> us_self_update (co_status c) then (Some Apply_Manual_Only, c)
      else (None, c\<lparr>co_applying := True, co_idle := False, co_operation := Some Checking\<rparr>))"

definition finish_operation :: "string option \<Rightarrow> coordinator \<Rightarrow> coordinator" where
  "finish_operation failure c =
     (let was = us_applying (co_status c); st = (co_status c)\<lparr>us_applying := False\<rparr>;
          c = c\<lparr>co_applying := False, co_barrier := None, co_status := st, co_idle := True, co_operation := None\<rparr>;
          c = (case failure of None \<Rightarrow> c | Some m \<Rightarrow> emit_update (Failed_Event m) c) in
      if was then emit_update (Status_Event st) c else c)"

definition accept_operation :: "bool \<Rightarrow> coordinator \<Rightarrow> coordinator" where
  "accept_operation released c =
     (let st = (co_status c)\<lparr>us_applying := True\<rparr> in
      emit_update (Status_Event st) (c\<lparr>co_barrier := Some released, co_status := st, co_operation := Some Installing\<rparr>))"

text \<open>The end of the check of an apply: an installation that is current releases the token, a newer release is accepted.\<close>

definition after_check :: "bool \<Rightarrow> update_status \<Rightarrow> coordinator \<Rightarrow> coordinator" where
  "after_check released st c = (if \<not> us_available st then finish_operation None c else accept_operation released c)"

text \<open>\<open>cancelled\<close>: the request ended while it was checked, which is not a failure.\<close>

definition check_failed :: "bool \<Rightarrow> string \<Rightarrow> coordinator \<Rightarrow> coordinator" where
  "check_failed cancelled m c = finish_operation (if cancelled then None else Some m) c"

definition response_flushed :: "coordinator \<Rightarrow> coordinator" where
  "response_flushed c = c\<lparr>co_barrier := None\<rparr>"

text \<open>\<open>awaitBarrier\<close> reads the barrier, and passes when it is released, when the flush window ends or when there is none.\<close>

definition await_barrier :: "bool option \<Rightarrow> bool \<Rightarrow> bool \<Rightarrow> string option" where
  "await_barrier barrier released_or_timeout context_ended =
     (if barrier = None then None else if released_or_timeout then None
      else if context_ended then Some ''context'' else None)"

subsection \<open>The installation\<close>

text \<open>One attempt to download and unpack: the archive was staged and unpacked, or a call failed.\<close>

datatype attempt_result = Not_Downloaded string | Not_Staged string | Not_Verified string | Unpacked stage_payload

text \<open>At most three attempts; \<open>ended\<close> says whether the context ends in the pause after one.  The failure of an attempt stays noted.\<close>

fun stage_attempts :: "nat \<Rightarrow> attempt_result list \<Rightarrow> bool list \<Rightarrow> string option \<Rightarrow> string option \<times> stage_payload option" where
  "stage_attempts n [] ended failure = (failure, None)"
| "stage_attempts n (r # rs) ended failure =
     (case r of
        Not_Downloaded m \<Rightarrow> (Some (''download release asset: '' @ m), None)
      | Unpacked p \<Rightarrow> (failure, Some p)
      | Not_Staged m \<Rightarrow>
          (if 2 \<le> n then (Some (''stage release asset: '' @ m), None)
           else if ended \<noteq> [] \<and> hd ended then (Some ''download release asset: context'', None)
           else stage_attempts (n + 1) rs (tl ended) (Some (''stage release asset: '' @ m)))
      | Not_Verified m \<Rightarrow>
          (if 2 \<le> n then (Some (''verify staged release: '' @ m), None)
           else if ended \<noteq> [] \<and> hd ended then (Some ''download release asset: context'', None)
           else stage_attempts (n + 1) rs (tl ended) (Some (''verify staged release: '' @ m))))"

text \<open>The steps behind it, in order: each may fail with a message; a process that exits does not return.\<close>

record pipeline =
  pi_barrier :: "string option"
  pi_drain :: "string option"
  pi_attempts :: "attempt_result list"
  pi_ended :: "bool list"
  pi_journal :: "string option"
  pi_transaction :: "string option"
  pi_supervision :: supervision
  pi_relaunch :: "string option"
  pi_handoff :: "string option"

datatype install_end = Exits | Returns "string option"

definition run_pipeline :: "pipeline \<Rightarrow> install_end" where
  "run_pipeline p =
     (if pi_barrier p \<noteq> None then Returns (pi_barrier p)
      else if pi_drain p \<noteq> None then Returns (map_option (\<lambda>m. ''drain serving before handoff: '' @ m) (pi_drain p))
      else (case stage_attempts 0 (pi_attempts p) (pi_ended p) None of
         (failure, None) \<Rightarrow> Returns failure
       | (failure, Some payload) \<Rightarrow>
           if pi_journal p \<noteq> None then Returns (map_option (\<lambda>m. ''acquire update ownership: '' @ m) (pi_journal p))
           else if pi_transaction p \<noteq> None then Returns (pi_transaction p)
           else if pi_supervision p = Supervision_Systemd then Exits
           else if pi_relaunch p \<noteq> None then Returns (map_option (\<lambda>m. ''record relaunch arguments: '' @ m) (pi_relaunch p))
           else if pi_handoff p \<noteq> None then Returns (map_option (\<lambda>m. ''update handoff: '' @ m) (pi_handoff p))
           else Exits))"

subsection \<open>The interleaving\<close>

inductive coordinator_step :: "coordinator \<Rightarrow> coordinator \<Rightarrow> bool" where
  check_reads: "coordinator_step c (c\<lparr>co_pending := checked_status found (base_status c) # co_pending c\<rparr>)"
| check_commits: "i < length (co_pending c) \<Longrightarrow>
    coordinator_step c (commit_status (co_pending c ! i) (c\<lparr>co_pending := take i (co_pending c) @ drop (i + 1) (co_pending c)\<rparr>))"
| apply_begins: "begin_operation c = (None, c') \<Longrightarrow> coordinator_step c c'"
| apply_reads: "co_operation c = Some Checking \<Longrightarrow>
    coordinator_step c (c\<lparr>co_operation := Some (Checked (checked_status found (base_status c)))\<rparr>)"
| apply_fails: "co_operation c = Some Checking \<Longrightarrow> coordinator_step c (check_failed cancelled m c)"
| apply_commits: "co_operation c = Some (Checked st) \<Longrightarrow>
    coordinator_step c ((commit_status st c)\<lparr>co_operation := Some (Committed st)\<rparr>)"
| apply_decides: "co_operation c = Some (Committed st) \<Longrightarrow> coordinator_step c (after_check released st c)"
| flushes: "coordinator_step c (response_flushed c)"
| install_returns: "co_operation c = Some Installing \<Longrightarrow> run_pipeline p = Returns failure \<Longrightarrow>
    coordinator_step c (finish_operation failure c)"

inductive coordinator_run :: "coordinator \<Rightarrow> coordinator \<Rightarrow> bool" for c0 where
  starts: "coordinator_run c0 c0"
| moves: "coordinator_run c0 c \<Longrightarrow> coordinator_step c c' \<Longrightarrow> coordinator_run c0 c'"

text \<open>The startup sequence: recovery first, then one automatic apply unless it is suppressed or not possible.\<close>

definition startup_apply :: "bool \<Rightarrow> coordinator \<Rightarrow> coordinator" where
  "startup_apply suppressed c =
     (if suppressed \<or> \<not> us_self_update (co_status c) then c else snd (begin_operation c))"

end
