(* ===== verification/Manager_Facts.thy ===== *)
theory Manager_Facts
  imports Update_Manager
begin

text \<open>
  The coordinator runs one operation at a time and none on an installation that cannot update itself; the flag
  \<open>applying\<close> of its status is another matter, since a check commits what it read before.
\<close>

definition coordinator_ok :: "bool \<Rightarrow> coordinator \<Rightarrow> bool" where
  "coordinator_ok possible c =
     (co_applying c = (co_operation c \<noteq> None) \<and> co_idle c = (co_operation c = None) \<and>
      (co_barrier c \<noteq> None \<longrightarrow> co_operation c = Some Installing) \<and>
      us_self_update (co_status c) = possible \<and> (\<forall>st \<in> set (co_pending c). us_self_update st = possible) \<and>
      (\<forall>st. co_operation c = Some (Checked st) \<longrightarrow> us_self_update st = possible) \<and>
      (co_operation c \<noteq> None \<longrightarrow> possible))"

lemma coordinator_fields [simp]:
  "us_self_update (base_status c) = us_self_update (co_status c)"
  "us_self_update (checked_status found st) = us_self_update st"
  "us_applying (checked_status found st) = us_applying st"
  "us_applying (base_status c) = us_applying (co_status c)"
  by (auto simp: base_status_def checked_status_def split: option.splits)

lemma commit_fields [simp]:
  "co_status (commit_status st c) = st" "co_applying (commit_status st c) = co_applying c" "co_idle (commit_status st c) = co_idle c"
  "co_barrier (commit_status st c) = co_barrier c" "co_operation (commit_status st c) = co_operation c"
  "co_pending (commit_status st c) = co_pending c"
  by (auto simp: commit_status_def emit_update_def)

lemma finish_fields [simp]:
  "co_status (finish_operation f c) = (co_status c)\<lparr>us_applying := False\<rparr>" "co_applying (finish_operation f c) = False"
  "co_idle (finish_operation f c) = True" "co_barrier (finish_operation f c) = None"
  "co_operation (finish_operation f c) = None" "co_pending (finish_operation f c) = co_pending c"
  by (auto simp: finish_operation_def emit_update_def Let_def split: option.splits)

lemma accept_fields [simp]:
  "co_status (accept_operation r c) = (co_status c)\<lparr>us_applying := True\<rparr>" "co_applying (accept_operation r c) = co_applying c"
  "co_idle (accept_operation r c) = co_idle c" "co_barrier (accept_operation r c) = Some r"
  "co_operation (accept_operation r c) = Some Installing" "co_pending (accept_operation r c) = co_pending c"
  by (auto simp: accept_operation_def emit_update_def Let_def)

lemma coordinator_step_ok: "coordinator_step c c' \<Longrightarrow> coordinator_ok possible c \<Longrightarrow> coordinator_ok possible c'"
proof (induction rule: coordinator_step.induct)
  case (check_commits i c)
  have "co_pending c ! i \<in> set (co_pending c)" using check_commits(1) by simp
  moreover have "set (take i (co_pending c) @ drop (i + 1) (co_pending c)) \<subseteq> set (co_pending c)"
    using set_take_subset set_drop_subset by fastforce
  ultimately show ?case using check_commits(2) unfolding coordinator_ok_def by auto
qed (auto simp: coordinator_ok_def begin_operation_def check_failed_def after_check_def response_flushed_def split: if_splits)

lemma coordinator_run_ok: "coordinator_run c0 c \<Longrightarrow> coordinator_ok possible c0 \<Longrightarrow> coordinator_ok possible c"
  by (induction rule: coordinator_run.induct) (auto intro: coordinator_step_ok)

lemma new_coordinator_ok: "coordinator_ok (capable lib i inst) (new_coordinator lib i inst)"
  by (simp add: coordinator_ok_def new_coordinator_def)

text \<open>
  Property C30: whatever checks, applies, flushed responses and installations interleave, the token is taken exactly
  while an operation runs and the waiters are held exactly as long; a response barrier exists only for an
  accepted installation; and an installation that was found unable to update itself never runs an operation.
\<close>

theorem one_operation_at_a_time:
  assumes "coordinator_run (new_coordinator lib i inst) c"
  shows "co_applying c = (co_operation c \<noteq> None) \<and> co_idle c = (\<not> co_applying c) \<and>
    (co_barrier c = None \<or> co_operation c = Some Installing) \<and> (co_operation c = None \<or> capable lib i inst)"
  using coordinator_run_ok[OF assms new_coordinator_ok] by (auto simp: coordinator_ok_def)

text \<open>A second apply is refused and changes nothing while the first one runs.\<close>

lemma second_apply_refused:
  "coordinator_run (new_coordinator lib i inst) c \<Longrightarrow> co_operation c \<noteq> None \<Longrightarrow> begin_operation c = (Some Apply_Busy, c)"
  using coordinator_run_ok[OF _ new_coordinator_ok] by (fastforce simp: coordinator_ok_def begin_operation_def)

subsection \<open>The stale flag\<close>

text \<open>Checks alone never take the flag back: each carries on what the status says.\<close>

definition all_applying :: "coordinator \<Rightarrow> bool" where
  "all_applying c = (us_applying (co_status c) \<and> (\<forall>st \<in> set (co_pending c). us_applying st))"

inductive checks_only :: "coordinator \<Rightarrow> coordinator \<Rightarrow> bool" where
  none_more: "checks_only c c"
| one_reads: "checks_only c0 c \<Longrightarrow> checks_only c0 (c\<lparr>co_pending := checked_status found (base_status c) # co_pending c\<rparr>)"
| one_commits: "checks_only c0 c \<Longrightarrow> i < length (co_pending c) \<Longrightarrow>
    checks_only c0 (commit_status (co_pending c ! i) (c\<lparr>co_pending := take i (co_pending c) @ drop (i + 1) (co_pending c)\<rparr>))"

lemma checks_keep_applying: "checks_only c0 c \<Longrightarrow> all_applying c0 \<Longrightarrow> all_applying c"
proof (induction rule: checks_only.induct)
  case (one_commits c0 c i)
  have "co_pending c ! i \<in> set (co_pending c)" using one_commits(2) by simp
  moreover have "set (take i (co_pending c) @ drop (i + 1) (co_pending c)) \<subseteq> set (co_pending c)"
    using set_take_subset set_drop_subset by fastforce
  moreover have "all_applying c" using one_commits(3,4) by blast
  ultimately show ?case unfolding all_applying_def by auto
next
  case (one_reads c0 c found)
  then have "all_applying c" by blast
  then show ?case by (simp add: all_applying_def)
qed

definition newer :: found_release where
  "newer = \<lparr>fd_version = ''2.0.0'', fd_notes = [], fd_released = []\<rparr>"

text \<open>An apply is accepted; a check reads the status; the installation fails; the check commits what it read.\<close>

definition accepted_from :: "coordinator \<Rightarrow> coordinator" where
  "accepted_from c =
     (let c1 = snd (begin_operation c); st = checked_status (Some newer) (base_status c1) in
      after_check True st ((commit_status st (c1\<lparr>co_operation := Some (Checked st)\<rparr>))\<lparr>co_operation := Some (Committed st)\<rparr>))"

lemma accepted_reached:
  assumes "coordinator_run c0 c" "co_operation c = None" "\<not> co_applying c" "us_self_update (co_status c)"
  shows "coordinator_run c0 (accepted_from c)" "co_operation (accepted_from c) = Some Installing"
    "us_applying (co_status (accepted_from c))" "co_pending (accepted_from c) = co_pending c"
proof -
  define c1 where "c1 = snd (begin_operation c)"
  have b: "begin_operation c = (None, c1)" "co_operation c1 = Some Checking"
    using assms(3,4) by (simp_all add: c1_def begin_operation_def)
  define st where "st = checked_status (Some newer) (base_status c1)"
  have av: "us_available st" by (simp add: st_def checked_status_def)
  define c2 where "c2 = c1\<lparr>co_operation := Some (Checked st)\<rparr>"
  define c3 where "c3 = (commit_status st c2)\<lparr>co_operation := Some (Committed st)\<rparr>"
  have eq: "accepted_from c = after_check True st c3"
    by (simp add: accepted_from_def Let_def c1_def st_def c2_def c3_def)
  have r1: "coordinator_run c0 c1" using assms(1) by (rule coordinator_run.moves) (rule apply_begins[OF b(1)])
  have r2: "coordinator_run c0 c2" unfolding c2_def st_def by (rule coordinator_run.moves[OF r1]) (rule apply_reads[OF b(2)])
  have r3: "coordinator_run c0 c3" unfolding c3_def
    by (rule coordinator_run.moves[OF r2]) (rule apply_commits, simp add: c2_def)
  show "coordinator_run c0 (accepted_from c)" unfolding eq
    by (rule coordinator_run.moves[OF r3]) (rule apply_decides, simp add: c3_def)
  show "co_operation (accepted_from c) = Some Installing" "us_applying (co_status (accepted_from c))"
    using av by (simp_all add: eq after_check_def)
  show "co_pending (accepted_from c) = co_pending c"
    using av b(1) by (auto simp: eq after_check_def c3_def c2_def begin_operation_def split: if_splits)
qed

definition failing_pipeline :: pipeline where
  "failing_pipeline = \<lparr>pi_barrier = None, pi_drain = Some ''d'', pi_attempts = [], pi_ended = [], pi_journal = None,
     pi_transaction = None, pi_supervision = Supervision_Plain, pi_relaunch = None, pi_handoff = None\<rparr>"

text \<open>
  Property C31: on an installation that can update itself, a check that read the status during an operation and
  commits after its failure leaves the status saying that an update is applied while none is, and no number of
  later checks takes that back (the end of a later operation does); a check that read it before leaves an operation
  running that the status denies.
\<close>

theorem stale_check_misreports:
  assumes "capable lib i inst"
  shows "(\<exists>c. coordinator_run (new_coordinator lib i inst) c \<and> co_operation c = None \<and>
      (\<forall>c'. checks_only c c' \<longrightarrow> us_applying (co_status c'))) \<and>
    (\<exists>c. coordinator_run (new_coordinator lib i inst) c \<and> co_operation c = Some Installing \<and> \<not> us_applying (co_status c))"
proof
  let ?c0 = "new_coordinator lib i inst"
  have c0: "coordinator_run ?c0 ?c0" "co_operation ?c0 = None" "\<not> co_applying ?c0" "us_self_update (co_status ?c0)"
    "co_pending ?c0 = []" "\<not> us_applying (co_status ?c0)"
    using assms by (auto simp: new_coordinator_def intro: coordinator_run.starts)
  show "\<exists>c. coordinator_run ?c0 c \<and> co_operation c = None \<and> (\<forall>c'. checks_only c c' \<longrightarrow> us_applying (co_status c'))"
  proof -
    define c1 where "c1 = accepted_from ?c0"
    note c1 = accepted_reached[OF c0(1-4), folded c1_def]
    define st where "st = checked_status None (base_status c1)"
    define c2 where "c2 = c1\<lparr>co_pending := [st]\<rparr>"
    have r2: "coordinator_run ?c0 c2"
      using coordinator_run.moves[OF c1(1) check_reads[of c1 None]] c1(4) c0(5) by (simp add: c2_def st_def)
    define c3 where "c3 = finish_operation (Some ''drain serving before handoff: d'') c2"
    have r3: "coordinator_run ?c0 c3" unfolding c3_def
      by (rule coordinator_run.moves[OF r2]) (rule install_returns[of _ failing_pipeline],
        simp_all add: c2_def c1(2) run_pipeline_def failing_pipeline_def)
    have p3: "co_pending c3 = [st]" by (simp add: c3_def c2_def)
    define c4 where "c4 = commit_status st (c3\<lparr>co_pending := []\<rparr>)"
    have r4: "coordinator_run ?c0 c4"
      using coordinator_run.moves[OF r3 check_commits[of 0 c3]] p3 by (simp add: c4_def)
    have "all_applying c4" using c1(3) by (simp add: all_applying_def c4_def st_def)
    moreover have "co_operation c4 = None" by (simp add: c4_def c3_def)
    ultimately show ?thesis using r4 checks_keep_applying unfolding all_applying_def by blast
  qed
  show "\<exists>c. coordinator_run ?c0 c \<and> co_operation c = Some Installing \<and> \<not> us_applying (co_status c)"
  proof -
    define st where "st = checked_status None (base_status ?c0)"
    define c1 where "c1 = ?c0\<lparr>co_pending := [st]\<rparr>"
    have r1: "coordinator_run ?c0 c1"
      using coordinator_run.moves[OF c0(1) check_reads[of ?c0 None]] c0(5) by (simp add: c1_def st_def)
    have "co_operation c1 = None" "\<not> co_applying c1" "us_self_update (co_status c1)" using c0 by (simp_all add: c1_def)
    note c2 = accepted_reached[OF r1 this]
    have p2: "co_pending (accepted_from c1) = [st]" using c2(4) by (simp add: c1_def)
    have "coordinator_run ?c0 (commit_status st ((accepted_from c1)\<lparr>co_pending := []\<rparr>))"
      using coordinator_run.moves[OF c2(1) check_commits[of 0 "accepted_from c1"]] p2 by simp
    then show ?thesis using c2(2) c0(6)
      by (intro exI[of _ "commit_status st ((accepted_from c1)\<lparr>co_pending := []\<rparr>)"]) (simp add: st_def)
  qed
qed

subsection \<open>The attempts\<close>

text \<open>No fourth archive is downloaded; an attempt that worked leaves the failure of the one before noted.\<close>

lemma three_attempts: "stage_attempts 0 (a # b # c # rs) ended f = stage_attempts 0 [a, b, c] ended f"
  by (auto split: attempt_result.splits)

lemma retried_failure_kept:
  "stage_attempts 0 [Not_Verified m, Unpacked p] [] None = (Some (''verify staged release: '' @ m), Some p)"
  by simp

subsection \<open>Examples\<close>

definition sample_installation :: installation where
  "sample_installation = \<lparr>il_dir = ''/i'', il_executable = ''/i/x'', il_wired = True, il_bundles = True, il_files = True,
     il_writable = True\<rparr>"

lemma sample_capable: "capable plain_semver sample_identity sample_installation"
  by code_simp

theorem one_operation_at_a_time_witness:
  "co_operation (accepted_from (new_coordinator plain_semver sample_identity sample_installation)) \<noteq> None \<and>
   co_applying (accepted_from (new_coordinator plain_semver sample_identity sample_installation))"
proof -
  let ?c0 = "new_coordinator plain_semver sample_identity sample_installation"
  have "coordinator_run ?c0 (accepted_from ?c0)" "co_operation (accepted_from ?c0) = Some Installing"
    using accepted_reached[of ?c0 ?c0] sample_capable by (auto simp: new_coordinator_def intro: coordinator_run.starts)
  with one_operation_at_a_time[OF this(1)] show ?thesis by simp
qed

theorem stale_check_misreports_witness:
  "\<exists>c. coordinator_run (new_coordinator plain_semver sample_identity sample_installation) c \<and> co_operation c = None \<and>
     us_applying (co_status c)"
  using stale_check_misreports[OF sample_capable] checks_only.none_more by blast

end
