(* ===== verification/Http_Stream.thy ===== *)
theory Http_Stream
  imports Stream_Range Config_Store Torrent_Meta
begin

text \<open>
  The stream route (\<open>internal/adapters/httpapi/api.go\<close>): the reading of a \<open>Range\<close> header, the guards of
  a request, and the body, which is sent in chunks that double up to the read-ahead, each of them handed
  out by \<open>ReadableRangePath\<close> and copied from the file it names in buffers of one MiB.  What the engine,
  the file system and the client do while the chunk at a position is sent is the \<open>chunk_world\<close> of that
  position.  The loop does not end when a chunk is empty, so it is a partial function; for validated
  settings it always ends.
\<close>

subsection \<open>Ranges\<close>

text \<open>\<open>parseRange\<close>: start, end, whether the answer is partial, and whether the header is accepted.\<close>

definition parse_range :: "string \<Rightarrow> int \<Rightarrow> int \<times> int \<times> bool \<times> bool" where
  "parse_range h len =
     (if len \<le> 0 then (0, 0, False, False)
      else if h = [] then (0, len - 1, False, True)
      else if \<not> has_prefix (to_lower h) ''bytes='' \<or> contains h '','' then (0, 0, True, False)
      else (case cut_at CHR ''-'' (drop 6 h) of
              None \<Rightarrow> (0, 0, True, False)
            | Some (a, b) \<Rightarrow>
                if a = [] then
                  (case parse_int64 b of
                     None \<Rightarrow> (0, 0, True, False)
                   | Some n \<Rightarrow> if n \<le> 0 then (0, 0, True, False)
                               else (len - min n len, len - 1, True, True))
                else
                  (case parse_int64 a of
                     None \<Rightarrow> (0, 0, True, False)
                   | Some s \<Rightarrow>
                       if s < 0 \<or> len \<le> s then (0, 0, True, False)
                       else if b = [] then (s, len - 1, True, True)
                       else (case parse_int64 b of
                               None \<Rightarrow> (0, 0, True, False)
                             | Some e \<Rightarrow> if e < s then (0, 0, True, False) else (s, min e (len - 1), True, True)))))"

subsection \<open>Copying\<close>

text \<open>What the client does with the next buffer: takes it, is gone, or takes only some bytes of it.\<close>

datatype client_turn = Takes | Gone | Breaks nat

definition copy_buffer :: int where
  "copy_buffer = 2 ^ 20"

text \<open>\<open>copyRange\<close> after the seek: the bytes that reached the client, and whether all of them did.\<close>

function copy_from :: "(int \<Rightarrow> client_turn) \<Rightarrow> string \<Rightarrow> int \<Rightarrow> int \<Rightarrow> string \<times> bool" where
  "copy_from client content pos remaining =
     (if remaining \<le> 0 then ([], True)
      else let want = min remaining copy_buffer;
               piece = take (nat want) (drop (nat pos) content)
        in (case client pos of
              Gone \<Rightarrow> ([], False)
            | Breaks k \<Rightarrow> (take k piece, False)
            | Takes \<Rightarrow>
                if int (length piece) < want then (piece, False)
                else let (rest, ok) = copy_from client content (pos + want) (remaining - want) in (piece @ rest, ok)))"
  by pat_completeness auto

termination
  by (relation "measure (\<lambda>(_, _, _, remaining). nat remaining)") (auto simp: copy_buffer_def)

declare copy_from.simps [simp del]

record chunk_world =
  cw_stat :: "string \<Rightarrow> local_file"
  cw_view :: engine_view
  cw_content :: "string \<Rightarrow> string option"
  cw_client :: "int \<Rightarrow> client_turn"

definition copy_range :: "chunk_world \<Rightarrow> string \<Rightarrow> int \<Rightarrow> int \<Rightarrow> string \<times> bool" where
  "copy_range cw path offset cnt =
     (case cw_content cw path of None \<Rightarrow> ([], False) | Some c \<Rightarrow> copy_from (cw_client cw) c offset cnt)"

subsection \<open>The body\<close>

text \<open>The path a chunk is read from: the first one was looked up by the handler.\<close>

definition chunk_path ::
  "string option \<Rightarrow> string \<Rightarrow> download \<Rightarrow> (int \<Rightarrow> chunk_world) \<Rightarrow> int \<Rightarrow> int \<Rightarrow> int \<Rightarrow> string \<Rightarrow> range_error + string" where
  "chunk_path cwd base d cw start position chunk path =
     (if position \<noteq> start
      then readable_range_path cwd base (cw_stat (cw position)) (cw_view (cw position)) d position chunk
      else Inr path)"

partial_function (option) stream_chunks ::
  "string option \<Rightarrow> string \<Rightarrow> download \<Rightarrow> int \<Rightarrow> (int \<Rightarrow> chunk_world) \<Rightarrow> int \<Rightarrow> int \<Rightarrow> int \<Rightarrow> int \<Rightarrow> string \<Rightarrow>
   string option" where
  "stream_chunks cwd base d ahead cw start fin position chunk_size path =
     (if position > fin then Some []
      else let chunk = min (min chunk_size ahead) (fin - position + 1) in
        (case chunk_path cwd base d cw start position chunk path of
           Inl _ \<Rightarrow> Some []
         | Inr p \<Rightarrow>
             (case copy_range (cw position) p position chunk of
                (sent, ok) \<Rightarrow>
                  if \<not> ok then Some sent
                  else Option.bind
                    (stream_chunks cwd base d ahead cw start fin (i64 (position + chunk)) (i64 (chunk * 2)) p)
                    (\<lambda>rest. Some (sent @ rest)))))"

subsection \<open>The handler\<close>

text \<open>The answer: its status, the headers that depend on the request, and the bytes that are sent.\<close>

record stream_reply =
  sr_status :: int
  sr_retry :: bool
  sr_range :: "(int \<times> int) option"
  sr_type :: string
  sr_length :: int
  sr_body :: string
  sr_released :: bool

definition stream_problem :: "int \<Rightarrow> bool \<Rightarrow> bool \<Rightarrow> stream_reply" where
  "stream_problem status retry released =
     \<lparr>sr_status = status, sr_retry = retry, sr_range = None, sr_type = ''application/json'', sr_length = 0,
      sr_body = [], sr_released = released\<rparr>"

definition filepath_ext :: "string \<Rightarrow> string" where
  "filepath_ext p = (if CHR ''.'' \<in> set p then CHR ''.'' # rev (takeWhile (\<lambda>c. c \<noteq> CHR ''.'') (rev p)) else [])"

text \<open>The table of the system for other extensions (\<open>mime.TypeByExtension\<close>) is an argument.\<close>

definition content_type :: "(string \<Rightarrow> string) \<Rightarrow> string \<Rightarrow> string" where
  "content_type mime p =
     (let e = to_lower (filepath_ext p) in
      if e = ''.mkv'' then ''video/matroska''
      else if e = ''.mp4'' \<or> e = ''.m4v'' then ''video/mp4''
      else if e = ''.webm'' then ''video/webm''
      else if e = ''.avi'' then ''video/x-msvideo''
      else if e = ''.ts'' \<or> e = ''.m2ts'' then ''video/mp2t''
      else if mime e \<noteq> [] then mime e else ''application/octet-stream'')"

datatype acquire_failure = Source_Gone | Acquire_Failed

definition stream ::
  "(string \<Rightarrow> string) \<Rightarrow> string option \<Rightarrow> settings \<Rightarrow> bool \<Rightarrow> string \<Rightarrow> acquire_failure + download \<Rightarrow>
   (int \<Rightarrow> chunk_world) \<Rightarrow> stream_reply option" where
  "stream mime cwd st head_only wanted acquired cw =
     (case acquired of
        Inl Source_Gone \<Rightarrow> Some (stream_problem 404 False False)
      | Inl Acquire_Failed \<Rightarrow> Some (stream_problem 503 True False)
      | Inr d \<Rightarrow>
          (case parse_range wanted (dl_size_bytes d) of
             (start, fin, partial, ok) \<Rightarrow>
               if \<not> ok then Some (stream_problem 416 False True)
               else let first = min (st_stream_start_bytes st) (fin - start + 1);
                        base = st_download_root st;
                        answer = (\<lambda>body. \<lparr>sr_status = (if partial then 206 else 200), sr_retry = False,
                          sr_range = (if partial then Some (start, fin) else None), sr_type = content_type mime (dl_file_path d),
                          sr_length = fin - start + 1, sr_body = body, sr_released = True\<rparr>)
                 in if validate_source_path cwd base d \<noteq> None then Some (stream_problem 409 False True)
                    else if head_only then Some (answer [])
                    else (case readable_range_path cwd base (cw_stat (cw start)) (cw_view (cw start)) d start first of
                            Inl _ \<Rightarrow> Some (stream_problem 503 True True)
                          | Inr path \<Rightarrow>
                              map_option answer
                                (stream_chunks cwd base d (st_read_ahead_bytes st) cw start fin start first path))))"

text \<open>\<open>downloadDTO\<close> tells the client whether to play the file locally or while it grows.\<close>

definition playback_mode :: "download \<Rightarrow> string" where
  "playback_mode d =
     (let state = to_lower (dl_state d) in
      if 1 \<le> dl_progress d \<or> state = ''seeding'' \<or> has_suffix state ''up'' \<or> state = ''completed''
      then ''local'' else ''progressive'')"

subsection \<open>Facts\<close>

lemma parse_range_ok:
  "parse_range h len = (s, e, partial, True) \<Longrightarrow> 0 \<le> s \<and> s \<le> e \<and> e < len \<and> (\<not> partial \<longrightarrow> s = 0 \<and> e = len - 1)"
  by (auto simp: parse_range_def split: if_splits option.splits prod.splits)

definition slice_of :: "string \<Rightarrow> int \<Rightarrow> int \<Rightarrow> string" where
  "slice_of c s n = take (nat n) (drop (nat s) c)"

lemma slice_of_0 [simp]: "n \<le> 0 \<Longrightarrow> slice_of c s n = []"
  by (simp add: slice_of_def)

lemma slice_of_split:
  "0 \<le> s \<Longrightarrow> 0 \<le> a \<Longrightarrow> 0 \<le> b \<Longrightarrow> slice_of c s (a + b) = slice_of c s a @ slice_of c (s + a) b"
  by (simp add: slice_of_def nat_add_distrib take_add add.commute)

lemma slice_of_within: "0 \<le> a \<Longrightarrow> a \<le> n \<Longrightarrow> 0 \<le> s \<Longrightarrow> \<exists>t. slice_of c s n = slice_of c s a @ t"
  using slice_of_split[of s a "n - a" c] by simp

text \<open>Copying sends a first part of what was asked for, all of it when it says so.\<close>

lemma copy_from_sends:
  assumes "copy_from client c pos n = (sent, ok)" "0 \<le> pos"
  shows "(\<exists>t. slice_of c pos n = sent @ t) \<and> (ok \<longrightarrow> sent = slice_of c pos n)"
  using assms
proof (induction client c pos n arbitrary: sent ok rule: copy_from.induct)
  case (1 client c pos n)
  show ?case
  proof (cases "n \<le> 0")
    case True
    with 1(2) show ?thesis by (auto simp: copy_from.simps[of client c pos n])
  next
    case False
    define want where "want = min n copy_buffer"
    define piece where "piece = take (nat want) (drop (nat pos) c)"
    have w: "0 < want" "want \<le> n" using False by (auto simp: want_def copy_buffer_def)
    have p: "piece = slice_of c pos want" by (simp add: piece_def slice_of_def)
    obtain t where t: "slice_of c pos n = piece @ t"
      using slice_of_within[of want n pos c] w 1(3) by (auto simp: p)
    note eq = 1(2)[unfolded copy_from.simps[of client c pos n] Let_def, folded want_def, folded piece_def]
    show ?thesis
    proof (cases "client pos")
      case Takes
      show ?thesis
      proof (cases "int (length piece) < want")
        case True
        with eq False Takes t show ?thesis by auto
      next
        case full: False
        then have len: "int (length piece) = want" using w by (simp add: piece_def)
        obtain rest ok' where r: "copy_from client c (pos + want) (n - want) = (rest, ok')" by fastforce
        have sent: "sent = piece @ rest" "ok = ok'" using eq False Takes full r by auto
        have ih: "(\<exists>t. slice_of c (pos + want) (n - want) = rest @ t) \<and>
            (ok' \<longrightarrow> rest = slice_of c (pos + want) (n - want))"
          using 1(1)[OF False want_def piece_def Takes full r] w 1(3) by simp
        have "slice_of c pos n = piece @ slice_of c (pos + want) (n - want)"
          using slice_of_split[of pos want "n - want" c] w 1(3) p by simp
        with ih sent len w show ?thesis by (cases "n = want") auto
      qed
    next
      case Gone
      with eq False show ?thesis by auto
    next
      case (Breaks k)
      with eq False have "sent = take k piece" "\<not> ok" by auto
      with t show ?thesis by (metis append_assoc append_take_drop_id)
    qed
  qed
qed

lemma validate_stream_limits:
  "validate env v = None \<Longrightarrow> 0 < st_stream_start_bytes v \<and> 0 < st_read_ahead_bytes v \<and> st_read_ahead_bytes v \<le> 2 ^ 31"
  by (auto simp: validate_def check_all_None)

text \<open>One turn of the loop, where the arithmetic is exact.\<close>

lemma stream_chunk_turn:
  assumes "position \<le> fin" "chunk = min (min chunk_size ahead) (fin - position + 1)"
    "0 < chunk_size" "0 < ahead" "ahead \<le> 2 ^ 31" "0 \<le> position" "fin < 2 ^ 63 - 1"
  shows "stream_chunks cwd base d ahead cw start fin position chunk_size path =
    (case chunk_path cwd base d cw start position chunk path of
       Inl _ \<Rightarrow> Some []
     | Inr p \<Rightarrow> (case copy_range (cw position) p position chunk of (sent, ok) \<Rightarrow>
         if \<not> ok then Some sent
         else Option.bind (stream_chunks cwd base d ahead cw start fin (position + chunk) (chunk * 2) p)
           (\<lambda>rest. Some (sent @ rest))))"
proof -
  have c: "0 < chunk" "chunk \<le> ahead" "position + chunk \<le> fin + 1" using assms by auto
  then have i: "i64 (position + chunk) = position + chunk" "i64 (chunk * 2) = chunk * 2"
    using assms by (auto intro!: i64_id)
  show ?thesis
    by (subst stream_chunks.simps, unfold Let_def assms(2)[symmetric] i) (use assms(1) in simp)
qed

text \<open>With settings that were validated, the loop ends.\<close>

lemma stream_chunks_returns:
  assumes "0 < chunk_size" "0 < ahead" "ahead \<le> 2 ^ 31" "0 \<le> position" "fin < 2 ^ 63 - 1"
  shows "\<exists>body. stream_chunks cwd base d ahead cw start fin position chunk_size path = Some body"
  using assms
proof (induction "nat (fin + 1 - position)" arbitrary: position chunk_size path rule: less_induct)
  case less
  show ?case
  proof (cases "fin < position")
    case True
    then show ?thesis by (subst stream_chunks.simps) simp
  next
    case False
    define chunk where "chunk = min (min chunk_size ahead) (fin - position + 1)"
    have c: "0 < chunk" "position + chunk \<le> fin + 1" using less.prems False by (auto simp: chunk_def)
    have "\<exists>body. stream_chunks cwd base d ahead cw start fin (position + chunk) (chunk * 2) p = Some body" for p
      by (rule less.hyps) (use c less.prems False in auto)
    then show ?thesis
      using stream_chunk_turn[OF _ chunk_def less.prems] False by (auto split: sum.splits prod.splits) (metis bind.bind_lunit)
  qed
qed

definition opens_below :: "string option \<Rightarrow> string \<Rightarrow> string \<Rightarrow> bool" where
  "opens_below cwd base p = (\<exists>r q. path_abs cwd base = Some r \<and> path_abs cwd p = Some q \<and> inside r q)"

text \<open>
  A body in pieces, from a position to the end of the range: each is a first part of the bytes at its position in the file
  that was handed out for it, a file below the root, and only the last piece may be short.
\<close>

fun piecewise :: "string option \<Rightarrow> string \<Rightarrow> download \<Rightarrow> (int \<Rightarrow> chunk_world) \<Rightarrow> int \<Rightarrow> int \<Rightarrow>
    (int \<times> string \<times> string) list \<Rightarrow> bool" where
  "piecewise cwd base d cw fin pos [] = True"
| "piecewise cwd base d cw fin pos ((n, path, sent) # rest) =
     (0 < n \<and> pos + n \<le> fin + 1 \<and> opens_below cwd base path \<and>
      (\<exists>m. n \<le> m \<and> pos + m \<le> fin + 1 \<and>
        readable_range_path cwd base (cw_stat (cw pos)) (cw_view (cw pos)) d pos m = Inr path) \<and>
      (\<exists>content missing. cw_content (cw pos) path = Some content \<and> slice_of content pos n = sent @ missing \<and>
        (rest \<noteq> [] \<longrightarrow> int (length sent) = n)) \<and>
      piecewise cwd base d cw fin (pos + n) rest)"

definition body_of :: "(int \<times> string \<times> string) list \<Rightarrow> string" where
  "body_of pieces = concat (map (\<lambda>(n, path, sent). sent) pieces)"

text \<open>Nothing fails: every part of the download is handed out, its file is long enough, and the client takes it.\<close>

definition undisturbed :: "string option \<Rightarrow> string \<Rightarrow> download \<Rightarrow> (int \<Rightarrow> chunk_world) \<Rightarrow> bool" where
  "undisturbed cwd base d cw = (\<forall>pos n. 0 \<le> pos \<longrightarrow> 0 < n \<longrightarrow> pos + n \<le> dl_size_bytes d \<longrightarrow>
     cw_client (cw pos) = (\<lambda>_. Takes) \<and> (\<exists>p content.
       readable_range_path cwd base (cw_stat (cw pos)) (cw_view (cw pos)) d pos n = Inr p \<and>
       cw_content (cw pos) p = Some content \<and> dl_size_bytes d \<le> int (length content)))"

lemma copy_from_all:
  assumes "0 \<le> pos" "pos + n \<le> int (length c)"
  shows "snd (copy_from (\<lambda>_. Takes) c pos n)"
  using assms
proof (induction "nat n" arbitrary: pos n rule: less_induct)
  case less
  show ?case
  proof (cases "n \<le> 0")
    case True
    then show ?thesis by (simp add: copy_from.simps)
  next
    case False
    then have w: "0 < min n copy_buffer" "0 < n" "0 < copy_buffer" by (simp_all add: copy_buffer_def)
    have l: "int (length (take (nat (min n copy_buffer)) (drop (nat pos) c))) = min n copy_buffer"
      using less.prems w by (auto simp: min_def)
    have "snd (copy_from (\<lambda>_. Takes) c (pos + min n copy_buffer) (n - min n copy_buffer))"
      by (rule less.hyps) (use less.prems w False in auto)
    with False l show ?thesis by (subst copy_from.simps) (simp add: Let_def case_prod_beta)
  qed
qed

lemma copy_range_sends:
  assumes "copy_range cw p pos n = (sent, ok)" "0 \<le> pos" "cw_content cw p = Some c"
  shows "(\<exists>t. slice_of c pos n = sent @ t) \<and> (ok \<longrightarrow> sent = slice_of c pos n)"
  using assms copy_from_sends[OF _ assms(2)] by (auto simp: copy_range_def)

text \<open>All of a chunk was copied only when the file holds it.\<close>

lemma copy_from_full:
  "copy_from client c pos n = (sent, True) \<Longrightarrow> 0 \<le> pos \<Longrightarrow> 0 \<le> n \<Longrightarrow> int (length sent) = n"
proof (induction client c pos n arbitrary: sent rule: copy_from.induct)
  case (1 client c pos n)
  show ?case
  proof (cases "n \<le> 0")
    case True
    with 1(2,4) show ?thesis by (auto simp: copy_from.simps[of client c pos n])
  next
    case False
    define want where "want = min n copy_buffer"
    define piece where "piece = take (nat want) (drop (nat pos) c)"
    have w: "0 < want" "want \<le> n" using False by (auto simp: want_def copy_buffer_def)
    note eq = 1(2)[unfolded copy_from.simps[of client c pos n] Let_def, folded want_def, folded piece_def]
    have takes: "client pos = Takes" "\<not> int (length piece) < want"
      using eq False by (auto split: client_turn.splits if_splits)
    obtain rest ok' where r: "copy_from client c (pos + want) (n - want) = (rest, ok')" by fastforce
    have sent: "sent = piece @ rest" "ok'" using eq False takes r by auto
    have "int (length piece) = want" using takes(2) w by (simp add: piece_def)
    moreover have "int (length rest) = n - want"
      using 1(1)[OF False want_def piece_def takes, of rest] r sent(2) 1(3) w by simp
    ultimately show ?thesis using sent(1) by simp
  qed
qed

lemma stream_chunks_pieces:
  assumes "stream_chunks cwd base d ahead cw start fin position chunk_size path = Some body"
    "position = start \<longrightarrow> opens_below cwd base path \<and> start + chunk_size \<le> fin + 1 \<and>
      readable_range_path cwd base (cw_stat (cw start)) (cw_view (cw start)) d start chunk_size = Inr path"
    "\<And>x. cwd = Some x \<Longrightarrow> is_abs x"
    "0 < chunk_size" "0 < ahead" "ahead \<le> 2 ^ 31" "0 \<le> start" "start \<le> position" "position \<le> fin + 1"
    "fin < 2 ^ 63 - 1" "fin < dl_size_bytes d"
  shows "\<exists>pieces. piecewise cwd base d cw fin position pieces \<and> body = body_of pieces \<and>
    (undisturbed cwd base d cw \<longrightarrow> int (length body) = fin + 1 - position)"
  using assms
proof (induction "nat (fin + 1 - position)" arbitrary: position chunk_size path body rule: less_induct)
  case less
  show ?case
  proof (cases "fin < position")
    case True
    with less.prems(1,9) show ?thesis
      by (intro exI[of _ "[]"]) (subst (asm) stream_chunks.simps, simp add: body_of_def)
  next
    case False
    define chunk where "chunk = min (min chunk_size ahead) (fin - position + 1)"
    have c: "0 < chunk" "chunk \<le> ahead" "position + chunk \<le> fin + 1" "chunk \<le> chunk_size"
      using less.prems False by (auto simp: chunk_def)
    have pos: "0 \<le> position" using less.prems by simp
    have in_size: "position + chunk \<le> dl_size_bytes d" using c less.prems(11) by simp
    define got where "got = chunk_path cwd base d cw start position chunk path"
    have eq: "(case got of Inl _ \<Rightarrow> Some [] | Inr p \<Rightarrow> (case copy_range (cw position) p position chunk of (sent, ok) \<Rightarrow>
        if \<not> ok then Some sent
        else Option.bind (stream_chunks cwd base d ahead cw start fin (position + chunk) (chunk * 2) p)
          (\<lambda>rest. Some (sent @ rest)))) = Some body"
      unfolding got_def less.prems(1)[symmetric]
      by (rule stream_chunk_turn[symmetric]) (use False chunk_def less.prems pos in auto)
    show ?thesis
    proof (cases got)
      case (Inl e)
      have "\<not> undisturbed cwd base d cw"
        using Inl c pos in_size unfolding undisturbed_def got_def chunk_path_def by (metis Inl_Inr_False)
      with eq Inl show ?thesis by (intro exI[of _ "[]"]) (simp add: body_of_def)
    next
      case (Inr p)
      have handed: "\<exists>m. chunk \<le> m \<and> position + m \<le> fin + 1 \<and>
          readable_range_path cwd base (cw_stat (cw position)) (cw_view (cw position)) d position m = Inr p"
      proof (cases "position = start")
        case True
        then have "p = path" using Inr by (simp add: got_def chunk_path_def)
        then show ?thesis using less.prems(2) True c by (intro exI[of _ chunk_size]) auto
      next
        case False
        then show ?thesis using Inr c by (intro exI[of _ chunk]) (simp add: got_def chunk_path_def)
      qed
      then have below: "opens_below cwd base p"
        unfolding opens_below_def using less.prems(3) readable_path_below by blast
      obtain sent ok where s: "copy_range (cw position) p position chunk = (sent, ok)" by fastforce
      show ?thesis
      proof (cases "cw_content (cw position) p")
        case None
        then have "body = []" using s eq Inr by (simp add: copy_range_def)
        moreover have "\<not> undisturbed cwd base d cw"
        proof
          assume u: "undisturbed cwd base d cw"
          obtain m where m: "chunk \<le> m" "position + m \<le> fin + 1"
              "readable_range_path cwd base (cw_stat (cw position)) (cw_view (cw position)) d position m = Inr p"
            using handed by blast
          then have "0 < m" "position + m \<le> dl_size_bytes d" using c(1) less.prems(11) by auto
          with u pos m(3) None show False unfolding undisturbed_def by fastforce
        qed
        ultimately show ?thesis by (intro exI[of _ "[]"]) (simp add: body_of_def)
      next
        case content: (Some content)
        note sends = copy_range_sends[OF s pos content]
        have calm: "ok" if u: "undisturbed cwd base d cw"
        proof -
          obtain m where m: "chunk \<le> m" "position + m \<le> fin + 1"
              "readable_range_path cwd base (cw_stat (cw position)) (cw_view (cw position)) d position m = Inr p"
            using handed by blast
          then have "0 < m" "position + m \<le> dl_size_bytes d" using c(1) less.prems(11) by auto
          with u pos m(3) content have "cw_client (cw position) = (\<lambda>_. Takes)" "dl_size_bytes d \<le> int (length content)"
            unfolding undisturbed_def by fastforce+
          then show ok using s content copy_from_all[OF pos, of chunk content] in_size by (simp add: copy_range_def)
        qed
        show ?thesis
        proof (cases ok)
          case False
          with eq Inr s have "body = sent" by simp
          with sends calm False c handed below content show ?thesis
            by (intro exI[of _ "[(chunk, p, sent)]"]) (auto simp: body_of_def)
        next
          case True
          then obtain rest where r: "stream_chunks cwd base d ahead cw start fin (position + chunk) (chunk * 2) p = Some rest"
            "body = sent @ rest" using eq Inr s by (auto simp: bind_eq_Some_conv)
          have full: "int (length sent) = chunk"
            using copy_from_full[of "cw_client (cw position)" content position chunk sent] s True content pos c(1)
            by (simp add: copy_range_def)
          obtain pieces where ps: "piecewise cwd base d cw fin (position + chunk) pieces" "rest = body_of pieces"
              "undisturbed cwd base d cw \<longrightarrow> int (length rest) = fin + 1 - (position + chunk)"
            using less.hyps[OF _ r(1)] less.prems c False by fastforce
          show ?thesis
          proof (intro exI[of _ "(chunk, p, sent) # pieces"] conjI impI)
            show "piecewise cwd base d cw fin position ((chunk, p, sent) # pieces)"
              using c handed below content sends full ps(1) by auto
            show "body = body_of ((chunk, p, sent) # pieces)" using r(2) ps(2) by (simp add: body_of_def)
            show "int (length body) = fin + 1 - position" if "undisturbed cwd base d cw"
              using r(2) full ps(3) that by simp
          qed
        qed
      qed
    qed
  qed
qed

text \<open>
  Property C32: with validated settings every request for a source that was found is answered.  An answer that carries
  content declares the length of the range that was asked for; its body comes in pieces that follow each other from the
  first byte of the range and stay within it, each of them the bytes at its position in the file that
  \<open>ReadableRangePath\<close> handed out for it, which lies below the download root, and none but the last cut short; and the
  whole range is sent when every part is handed out, its file is long enough and the client takes it.
\<close>

theorem stream_serves_range:
  assumes "validate env st = None" "dl_size_bytes d < 2 ^ 63" "\<And>x. cwd = Some x \<Longrightarrow> is_abs x"
  shows "\<exists>r. stream mime cwd st False wanted (Inr d) cw = Some r \<and>
    (sr_status r \<in> {200, 206} \<longrightarrow>
      (\<exists>s e pieces. parse_range wanted (dl_size_bytes d) = (s, e, sr_status r = 206, True) \<and>
        0 \<le> s \<and> s \<le> e \<and> e < dl_size_bytes d \<and> sr_length r = e - s + 1 \<and>
        piecewise cwd (st_download_root st) d cw e s pieces \<and> sr_body r = body_of pieces \<and>
        (undisturbed cwd (st_download_root st) d cw \<longrightarrow> int (length (sr_body r)) = sr_length r)))"
proof -
  let ?base = "st_download_root st"
  obtain s e partial ok where pr: "parse_range wanted (dl_size_bytes d) = (s, e, partial, ok)" by (metis prod_cases4)
  define first where "first = min (st_stream_start_bytes st) (e - s + 1)"
  note limits = validate_stream_limits[OF assms(1)]
  show ?thesis
  proof (cases "\<not> ok \<or> validate_source_path cwd ?base d \<noteq> None \<or>
      (\<exists>x. readable_range_path cwd ?base (cw_stat (cw s)) (cw_view (cw s)) d s first = Inl x)")
    case True
    then show ?thesis by (auto simp: stream_def pr Let_def stream_problem_def first_def[symmetric])
  next
    case False
    then obtain path where path: "readable_range_path cwd ?base (cw_stat (cw s)) (cw_view (cw s)) d s first = Inr path"
      by (metis sum.exhaust)
    have "parse_range wanted (dl_size_bytes d) = (s, e, partial, True)" using False pr by simp
    from parse_range_ok[OF this] have b: "0 \<le> s" "s \<le> e" "e < dl_size_bytes d" by auto
    have f: "0 < first" "e < 2 ^ 63 - 1" "s + first \<le> e + 1" using b limits assms(2) by (auto simp: first_def)
    obtain body where body: "stream_chunks cwd ?base d (st_read_ahead_bytes st) cw s e s first path = Some body"
      using stream_chunks_returns[OF f(1) _ _ b(1) f(2)] limits by blast
    have below: "opens_below cwd ?base path"
      unfolding opens_below_def using path assms(3) by (rule readable_path_below)
    obtain pieces where ps: "piecewise cwd ?base d cw e s pieces" "body = body_of pieces"
        "undisturbed cwd ?base d cw \<longrightarrow> int (length body) = e + 1 - s"
      using stream_chunks_pieces[OF body _ assms(3) f(1)] limits b f below path by fastforce
    have "stream mime cwd st False wanted (Inr d) cw = Some \<lparr>sr_status = (if partial then 206 else 200), sr_retry = False,
        sr_range = (if partial then Some (s, e) else None), sr_type = content_type mime (dl_file_path d),
        sr_length = e - s + 1, sr_body = body, sr_released = True\<rparr>"
      using False pr path body by (simp add: stream_def Let_def first_def[symmetric])
    with ps b pr False show ?thesis by auto
  qed
qed

text \<open>The header a player sends is read as the range it means.\<close>

lemma no_comma_number: "CHR '','' \<notin> set (show_nat n)" "CHR ''-'' \<notin> set (show_nat n)"
  using show_nat_digits[of n] by (auto simp: list_all_iff is_digit_def)

lemma contains_char: "contains s [c] \<longleftrightarrow> c \<in> set s"
proof (induction s)
  case (Cons a s)
  then show ?case by (auto simp: contains_def has_prefix_def)
qed (simp add: contains_def)

lemma parse_range_header:
  assumes "a \<le> b" "int b < len" "len < 2 ^ 63"
  shows "parse_range (''bytes='' @ show_nat a @ ''-'' @ show_nat b) len = (int a, int b, True, True)"
proof -
  have h: "has_prefix (to_lower (''bytes='' @ s)) ''bytes=''" "drop 6 (''bytes='' @ s) = s" "''bytes='' @ s \<noteq> []" for s
    by (simp_all add: has_prefix_def to_lower_def lower_byte_def)
  have n: "\<not> contains (''bytes='' @ show_nat a @ ''-'' @ show_nat b) '',''"
    using no_comma_number by (simp add: contains_char)
  have c: "cut_at CHR ''-'' (show_nat a @ ''-'' @ show_nat b) = Some (show_nat a, show_nat b)"
    using cut_at_append[OF no_comma_number(2)[of a], of "show_nat b"] by simp
  have p: "parse_int64 (show_nat a) = Some (int a)" "parse_int64 (show_nat b) = Some (int b)"
    using assms by (auto intro: parse_int64_show)
  have l: "\<not> len \<le> 0" using assms by linarith
  show ?thesis
    unfolding parse_range_def by (simp only: h n c p l if_False option.case prod.case) (use assms in simp)
qed

text \<open>The limits are needed: with no read-ahead the next chunk is empty and the loop never ends.\<close>

lemma no_read_ahead_spins:
  assumes "start \<le> fin" "- (2 ^ 63) \<le> start" "fin < 2 ^ 63 - 1" "0 < chunk_size \<or> chunk_size = 0" "cw_content (cw start) path = Some c"
  shows "stream_chunks cwd base d 0 cw start fin start chunk_size path = None"
proof -
  have "\<not> (ahead = 0 \<and> start \<le> fin \<and> - (2 ^ 63) \<le> start \<and> fin < 2 ^ 63 - 1 \<and> position = start \<and> 0 \<le> chunk_size \<and>
      cw_content (cw start) path = Some c)"
    if "stream_chunks cwd base d ahead cw start fin position chunk_size path = Some y"
    for cwd base d ahead cw start fin position chunk_size path y
  proof (rule stream_chunks.raw_induct[OF _ that])
    fix loop :: "string option \<Rightarrow> string \<Rightarrow> download \<Rightarrow> int \<Rightarrow> (int \<Rightarrow> chunk_world) \<Rightarrow> int \<Rightarrow> int \<Rightarrow> int \<Rightarrow> int \<Rightarrow> string \<Rightarrow> string option"
      and cwd base d ahead cw start fin position chunk_size path y
    assume ih: "\<And>cwd base d ahead cw start fin position chunk_size path y.
        loop cwd base d ahead cw start fin position chunk_size path = Some y \<Longrightarrow>
        \<not> (ahead = 0 \<and> start \<le> fin \<and> - (2 ^ 63) \<le> start \<and> fin < 2 ^ 63 - 1 \<and> position = start \<and> 0 \<le> chunk_size \<and>
          cw_content (cw start) path = Some c)"
    assume step: "(if fin < position then Some [] else let chunk = min (min chunk_size ahead) (fin - position + 1)
        in case chunk_path cwd base d cw start position chunk path of Inl _ \<Rightarrow> Some []
           | Inr p \<Rightarrow> (case copy_range (cw position) p position chunk of (sent, ok) \<Rightarrow> if \<not> ok then Some sent
              else Option.bind (loop cwd base d ahead cw start fin (i64 (position + chunk)) (i64 (chunk * 2)) p)
                (\<lambda>rest. Some (sent @ rest)))) = Some y"
    have "i64 0 = 0" by (simp add: i64_def)
    show "\<not> (ahead = 0 \<and> start \<le> fin \<and> - (2 ^ 63) \<le> start \<and> fin < 2 ^ 63 - 1 \<and> position = start \<and> 0 \<le> chunk_size \<and>
        cw_content (cw start) path = Some c)"
    proof
      assume a: "ahead = 0 \<and> start \<le> fin \<and> - (2 ^ 63) \<le> start \<and> fin < 2 ^ 63 - 1 \<and> position = start \<and> 0 \<le> chunk_size \<and>
        cw_content (cw start) path = Some c"
      have chunk: "min (min chunk_size ahead) (fin - position + 1) = 0" using a by auto

      obtain rest where "loop cwd base d ahead cw start fin start 0 path = Some rest"
        using step a \<open>i64 0 = 0\<close>
        by (simp add: chunk Let_def chunk_path_def copy_range_def copy_from.simps i64_id bind_eq_Some_conv)
      from ih[OF this] a show False by simp
    qed
  qed
  from this[of cwd base d 0 cw start fin start chunk_size path] assms show ?thesis
    by (cases "stream_chunks cwd base d 0 cw start fin start chunk_size path") auto
qed

subsection \<open>Examples\<close>

definition quiet_world :: chunk_world where
  "quiet_world = \<lparr>cw_stat = (\<lambda>_. Stat_File 10),
     cw_view = \<lparr>vw_owner = False, vw_status = Inl [], vw_prepare = None, vw_pieces = [], vw_reads = []\<rparr>,
     cw_content = (\<lambda>_. Some ''0123456789''), cw_client = (\<lambda>_. Takes)\<rparr>"

definition media_settings :: settings where
  "media_settings = (anchor_native_paths (defaults ''linux'') [] ''/srv/tv'')\<lparr>st_download_root := ''/srv/media''\<rparr>"

lemma media_settings_valid: "validate plain_env media_settings = None"
  by (simp add: media_settings_def validate_eval defaults_def anchor_native_paths_def anchor_path_def clean_def path_join_def)

lemma media_settings_root: "st_download_root media_settings = ''/srv/media''"
  by (simp add: media_settings_def)

lemma local_download_all:
  "0 \<le> pos \<Longrightarrow> 0 < n \<Longrightarrow> pos + n \<le> 10 \<Longrightarrow>
   readable_range_path None ''/srv/media'' (\<lambda>_. Stat_File 10)
     \<lparr>vw_owner = False, vw_status = Inl [], vw_prepare = None, vw_pieces = [], vw_reads = []\<rparr>
     local_download pos n = Inr ''/srv/media/a/b.mkv''"
  by (simp add: readable_range_path_def completed_local_file_def local_download_def zero_download_def
      local_readable_path_def validate_source_path_def range_outside_def i64_id path_eval)

lemma quiet_undisturbed: "undisturbed None ''/srv/media'' local_download (\<lambda>_. quiet_world)"
proof -
  have sz: "dl_size_bytes local_download = 10" by (simp add: local_download_def)
  show ?thesis
    unfolding undisturbed_def sz using local_download_all by (simp add: quiet_world_def)
qed

theorem stream_serves_range_witness:
  "\<exists>r. stream (\<lambda>_. []) None media_settings False ''bytes=2-5'' (Inr local_download) (\<lambda>_. quiet_world) = Some r \<and>
     sr_status r = 206 \<and> sr_length r = 4 \<and> length (sr_body r) = 4"
proof -
  have pr: "parse_range ''bytes=2-5'' 10 = (2, 5, True, True)" by code_simp
  have sz: "dl_size_bytes local_download = 10" by (simp add: local_download_def)
  have src: "validate_source_path None ''/srv/media'' local_download = None"
    by (simp add: validate_source_path_def local_download_def zero_download_def path_eval)
  obtain r where r: "stream (\<lambda>_. []) None media_settings False ''bytes=2-5'' (Inr local_download) (\<lambda>_. quiet_world) = Some r"
    "sr_status r \<in> {200, 206} \<Longrightarrow> sr_length r = 4 \<and> length (sr_body r) = 4"
    using stream_serves_range[OF media_settings_valid, of local_download None "\<lambda>_. []" "''bytes=2-5''" "\<lambda>_. quiet_world"]
      quiet_undisturbed
    by (auto simp: sz pr media_settings_root)
  have first: "0 < min (st_stream_start_bytes media_settings) 4"
    using validate_stream_limits[OF media_settings_valid] by simp
  have path: "readable_range_path None ''/srv/media'' (cw_stat quiet_world) (cw_view quiet_world) local_download 2
      (min (st_stream_start_bytes media_settings) 4) = Inr ''/srv/media/a/b.mkv''"
    using local_download_all[of 2 "min (st_stream_start_bytes media_settings) 4"] first by (simp add: quiet_world_def)
  have "sr_status r = 206"
    using r(1) by (auto simp: stream_def sz pr media_settings_root src path Let_def)
  with r show ?thesis by auto
qed

end
