(* ===== verification/Http_Trust.thy ===== *)
theory Http_Trust
  imports Go_Prelude Torrent_Meta
begin

text \<open>
  Who may talk to the server (\<open>internal/adapters/httpapi/trust.go\<close>, \<open>internalfetch.go\<close> and \<open>trusted\<close> of
  \<open>api.go\<close>): addresses and prefixes as \<open>net/netip\<close> reads them, the host and origin rules of the client and
  the administration tier, and the chain of checks every request passes before a handler sees it.  The
  scheme and host \<open>net/url\<close> finds in an origin are an argument; everything else of the standard library
  that the rules use is written out.
\<close>

subsection \<open>Addresses\<close>

text \<open>The bytes of an address; an IPv6 address carries the name of its zone.\<close>

datatype ip_addr = IPv4 "nat list" | IPv6 "nat list" string

definition octet :: "string \<Rightarrow> nat option" where
  "octet s =
     (if s = [] \<or> \<not> list_all is_digit s \<or> (1 < length s \<and> hd s = CHR ''0'') then None
      else case dec_nat 0 s of Some n \<Rightarrow> if n \<le> 255 then Some n else None | None \<Rightarrow> None)"

fun all_some :: "'a option list \<Rightarrow> 'a list option" where
  "all_some [] = Some []"
| "all_some (None # xs) = None"
| "all_some (Some x # xs) = map_option (\<lambda>ys. x # ys) (all_some xs)"

definition parse_ipv4 :: "string \<Rightarrow> nat list option" where
  "parse_ipv4 s = (let parts = split_on CHR ''.'' s in if length parts = 4 then all_some (map octet parts) else None)"

definition hex_nibble :: "char \<Rightarrow> nat option" where
  "hex_nibble c =
     (let n = of_char (lower_byte c) :: nat in
      if 48 \<le> n \<and> n \<le> 57 then Some (n - 48) else if 97 \<le> n \<and> n \<le> 102 then Some (n - 87) else None)"

definition is_hex :: "char \<Rightarrow> bool" where
  "is_hex c = (hex_nibble c \<noteq> None)"

definition hex_value :: "string \<Rightarrow> nat" where
  "hex_value s = foldl (\<lambda>a c. 16 * a + the (hex_nibble c)) 0 s"

text \<open>The groups of an IPv6 address: the bytes read so far, the place of the ellipsis and the rest.\<close>

function ipv6_groups :: "nat list \<Rightarrow> nat option \<Rightarrow> string \<Rightarrow> (nat list \<times> nat option \<times> string) option" where
  "ipv6_groups bytes gap s =
     (if 16 \<le> length bytes then Some (bytes, gap, s)
      else let ds = takeWhile is_hex s; rest = dropWhile is_hex s in
        if ds = [] \<or> 4 < length ds then None
        else if rest \<noteq> [] \<and> hd rest = CHR ''.'' then
          (if gap = None \<and> length bytes \<noteq> 12 \<or> 16 < length bytes + 4 then None
           else map_option (\<lambda>v4. (bytes @ v4, gap, [])) (parse_ipv4 s))
        else let bytes' = bytes @ [hex_value ds div 256, hex_value ds mod 256] in
          if rest = [] then Some (bytes', gap, [])
          else if hd rest \<noteq> CHR '':'' \<or> length rest = 1 then None
          else if rest ! 1 = CHR '':'' then
            (if gap \<noteq> None then None
             else if length rest = 2 then Some (bytes', Some (length bytes'), [])
             else ipv6_groups bytes' (Some (length bytes')) (drop 2 rest))
          else ipv6_groups bytes' gap (tl rest))"
  by pat_completeness auto

termination
proof (relation "measure (\<lambda>(_, _, s). length s)", simp, goal_cases)
  case (1 bytes gap s ds rest)
  then show ?case using length_dropWhile_le[of is_hex s] by (cases "dropWhile is_hex s") auto
next
  case (2 bytes gap s ds rest)
  then show ?case using length_dropWhile_le[of is_hex s] by (cases "dropWhile is_hex s") auto
qed

declare ipv6_groups.simps [simp del]

definition parse_ipv6 :: "string \<Rightarrow> ip_addr option" where
  "parse_ipv6 s0 =
     (case (case cut_at CHR ''%'' s0 of None \<Rightarrow> Some (s0, []) | Some (a, z) \<Rightarrow> if z = [] then None else Some (a, z)) of
        None \<Rightarrow> None
      | Some (s, zone) \<Rightarrow>
          if s = ''::'' then Some (IPv6 (replicate 16 0) zone)
          else (case (if has_prefix s ''::'' then ipv6_groups [] (Some 0) (drop 2 s) else ipv6_groups [] None s) of
                  None \<Rightarrow> None
                | Some (bytes, gap, rest) \<Rightarrow>
                    if rest \<noteq> [] then None
                    else if length bytes < 16 then
                      (case gap of None \<Rightarrow> None
                       | Some g \<Rightarrow> Some (IPv6 (take g bytes @ replicate (16 - length bytes) 0 @ drop g bytes) zone))
                    else if gap \<noteq> None then None
                    else Some (IPv6 bytes zone)))"

definition parse_addr :: "string \<Rightarrow> ip_addr option" where
  "parse_addr s =
     (case dropWhile (\<lambda>c. c \<notin> {CHR ''.'', CHR '':'', CHR ''%''}) s of
        [] \<Rightarrow> None
      | c # _ \<Rightarrow> if c = CHR ''.'' then map_option IPv4 (parse_ipv4 s)
                 else if c = CHR '':'' then parse_ipv6 s else None)"

definition unmap_addr :: "ip_addr \<Rightarrow> ip_addr" where
  "unmap_addr a =
     (case a of
        IPv6 b z \<Rightarrow> if take 12 b = replicate 10 0 @ [255, 255] then IPv4 (drop 12 b) else a
      | IPv4 _ \<Rightarrow> a)"

definition is_loopback :: "ip_addr \<Rightarrow> bool" where
  "is_loopback a = (case a of IPv4 b \<Rightarrow> b ! 0 = 127 | IPv6 b z \<Rightarrow> b = replicate 15 0 @ [1])"

definition is_private :: "ip_addr \<Rightarrow> bool" where
  "is_private a =
     (case a of
        IPv4 b \<Rightarrow> b ! 0 = 10 \<or> b ! 0 = 172 \<and> b ! 1 div 16 = 1 \<or> b ! 0 = 192 \<and> b ! 1 = 168
      | IPv6 b z \<Rightarrow> b ! 0 div 2 = 126)"

definition is_link_local :: "ip_addr \<Rightarrow> bool" where
  "is_link_local a =
     (case a of IPv4 b \<Rightarrow> b ! 0 = 169 \<and> b ! 1 = 254 | IPv6 b z \<Rightarrow> b ! 0 = 254 \<and> b ! 1 div 64 = 2)"

definition is_unspecified :: "ip_addr \<Rightarrow> bool" where
  "is_unspecified a = (a = IPv4 (replicate 4 0) \<or> a = IPv6 (replicate 16 0) [])"

text \<open>\<open>netip.ParsePrefix\<close> and \<open>Contains\<close>.\<close>

definition parse_prefix :: "string \<Rightarrow> (ip_addr \<times> nat) option" where
  "parse_prefix s =
     (if CHR ''/'' \<notin> set s then None
      else let bits = rev (takeWhile (\<lambda>c. c \<noteq> CHR ''/'') (rev s));
               addr = rev (tl (dropWhile (\<lambda>c. c \<noteq> CHR ''/'') (rev s))) in
        (case parse_addr addr of
           None \<Rightarrow> None
         | Some ip \<Rightarrow>
             if (case ip of IPv6 b z \<Rightarrow> z \<noteq> [] | IPv4 _ \<Rightarrow> False) then None
             else if 1 < length bits \<and> (\<not> is_digit (hd bits) \<or> hd bits = CHR ''0'') then None
             else (case parse_int64 bits of
                     None \<Rightarrow> None
                   | Some n \<Rightarrow> if n < 0 \<or> (case ip of IPv4 _ \<Rightarrow> 32 | IPv6 _ _ \<Rightarrow> 128) < n then None
                               else Some (ip, nat n))))"

definition bytes_value :: "nat list \<Rightarrow> int" where
  "bytes_value b = foldl (\<lambda>a x. 256 * a + int x) 0 b"

definition prefix_contains :: "ip_addr \<times> nat \<Rightarrow> ip_addr \<Rightarrow> bool" where
  "prefix_contains p a =
     (case (fst p, a) of
        (IPv4 b, IPv4 x) \<Rightarrow> bytes_value b div 2 ^ (32 - snd p) = bytes_value x div 2 ^ (32 - snd p)
      | (IPv6 b _, IPv6 x z) \<Rightarrow> z = [] \<and> bytes_value b div 2 ^ (128 - snd p) = bytes_value x div 2 ^ (128 - snd p)
      | _ \<Rightarrow> False)"

subsection \<open>Hosts\<close>

definition last_colon :: "string \<Rightarrow> (string \<times> string) option" where
  "last_colon s =
     (if CHR '':'' \<notin> set s then None
      else Some (rev (tl (dropWhile (\<lambda>c. c \<noteq> CHR '':'') (rev s))), rev (takeWhile (\<lambda>c. c \<noteq> CHR '':'') (rev s))))"

text \<open>\<open>net.SplitHostPort\<close>.\<close>

definition split_host_port :: "string \<Rightarrow> (string \<times> string) option" where
  "split_host_port s =
     (case last_colon s of
        None \<Rightarrow> None
      | Some (before_colon, port) \<Rightarrow>
          if s \<noteq> [] \<and> hd s = CHR ''['' then
            (if CHR '']'' \<notin> set s then None
             else let host = tl (takeWhile (\<lambda>c. c \<noteq> CHR '']'') s);
                      rest = tl (dropWhile (\<lambda>c. c \<noteq> CHR '']'') s) in
               if rest = [] \<or> before_colon \<noteq> CHR ''['' # host @ '']'' then None
               else if CHR ''['' \<in> set (tl s) \<or> CHR '']'' \<in> set rest then None
               else Some (host, port))
          else if CHR '':'' \<in> set before_colon \<or> CHR ''['' \<in> set s \<or> CHR '']'' \<in> set s then None
          else Some (before_colon, port))"

definition host_only :: "string \<Rightarrow> string" where
  "host_only hostport =
     (let h = to_lower (trim_space hostport) in
      case split_host_port h of
        Some (host, _) \<Rightarrow> host
      | None \<Rightarrow> trim_by (\<lambda>c. c = CHR ''['' \<or> c = CHR '']'') h)"

text \<open>\<open>URL.Hostname\<close> of a host with an optional port.\<close>

definition url_hostname :: "string \<Rightarrow> string" where
  "url_hostname hp =
     (let host = (case last_colon hp of
                    Some (a, port) \<Rightarrow> if list_all is_digit port then a else hp
                  | None \<Rightarrow> hp)
      in if has_prefix host ''['' \<and> has_suffix host '']'' then butlast (tl host) else host)"

definition is_lan_name :: "string \<Rightarrow> bool" where
  "is_lan_name h =
     (h \<noteq> [] \<and> (h = ''localhost'' \<or> \<not> contains h ''.'' \<or>
       list_ex (has_suffix h) [''.local'', ''.lan'', ''.home.arpa'']))"

subsection \<open>The policy\<close>

text \<open>The allowlists; none means the rules of the LAN.\<close>

record trust_policy =
  tp_origins :: "string list option"
  tp_hosts :: "string list option"

definition split_list :: "string \<Rightarrow> string list" where
  "split_list raw = filter (\<lambda>p. p \<noteq> []) (map (\<lambda>p. to_lower (trim_space p)) (split_on CHR '','' raw))"

definition trim_slashes :: "string \<Rightarrow> string" where
  "trim_slashes s = rev (dropWhile (\<lambda>c. c = CHR ''/'') (rev s))"

definition new_trust_policy :: "(string \<Rightarrow> string) \<Rightarrow> trust_policy" where
  "new_trust_policy getenv =
     (let origins = split_list (getenv ''TORRENT_TV_ALLOWED_ORIGINS'');
          hosts = split_list (getenv ''TORRENT_TV_ALLOWED_HOSTS'') in
      \<lparr>tp_origins = (if origins = [] then None else Some (map trim_slashes origins)),
       tp_hosts = (if hosts = [] then None else Some (map host_only hosts))\<rparr>)"

definition host_allowed :: "trust_policy \<Rightarrow> string \<Rightarrow> bool" where
  "host_allowed p hostport = (case tp_hosts p of None \<Rightarrow> True | Some hs \<Rightarrow> host_only hostport \<in> set hs)"

text \<open>The scheme and host of a parsed origin.\<close>

type_synonym url_parser = "string \<Rightarrow> (string \<times> string) option"

definition is_lan_origin :: "url_parser \<Rightarrow> string \<Rightarrow> bool" where
  "is_lan_origin parse origin =
     (case parse origin of
        None \<Rightarrow> False
      | Some (scheme, host) \<Rightarrow>
          (scheme = ''http'' \<or> scheme = ''https'') \<and>
          (let h = to_lower (url_hostname host) in
           h \<noteq> [] \<and>
           (case parse_addr h of
              Some a \<Rightarrow> is_loopback (unmap_addr a) \<or> is_private (unmap_addr a) \<or> is_link_local (unmap_addr a)
            | None \<Rightarrow> is_lan_name h)))"

definition admin_host_allowed :: "trust_policy \<Rightarrow> string \<Rightarrow> bool" where
  "admin_host_allowed p hostport =
     (case tp_hosts p of
        Some hs \<Rightarrow> host_only hostport \<in> set hs
      | None \<Rightarrow> parse_addr (host_only hostport) \<noteq> None \<or> is_lan_name (host_only hostport))"

definition same_origin :: "url_parser \<Rightarrow> string \<Rightarrow> string \<Rightarrow> bool" where
  "same_origin parse origin host =
     (case parse origin of
        None \<Rightarrow> False
      | Some (scheme, h) \<Rightarrow> (scheme = ''http'' \<or> scheme = ''https'') \<and> h \<noteq> [] \<and> equal_fold h host)"

definition builtin_client_origins :: "string list" where
  "builtin_client_origins = [''https://appassets.androidplatform.net'']"

definition is_tv_client_origin :: "string \<Rightarrow> bool" where
  "is_tv_client_origin origin =
     (let l = trim_slashes (to_lower origin) in l = ''null'' \<or> l \<in> set builtin_client_origins)"

definition origin_allowed :: "url_parser \<Rightarrow> trust_policy \<Rightarrow> string \<Rightarrow> string \<Rightarrow> bool \<Rightarrow> bool" where
  "origin_allowed parse p origin host admin =
     (if origin = [] \<or> same_origin parse origin host then True
      else (case tp_origins p of
              Some os \<Rightarrow> trim_slashes (to_lower origin) \<in> set os \<and> (\<not> admin \<or> is_tv_client_origin origin)
            | None \<Rightarrow> is_tv_client_origin origin \<or> (\<not> admin \<and> is_lan_origin parse origin)))"

definition is_admin_path :: "string \<Rightarrow> bool" where
  "is_admin_path path =
     list_ex (\<lambda>prefix. path = prefix \<or> has_prefix path (prefix @ ''/''))
       [''/api/v1/settings'', ''/api/v1/dependencies'', ''/api/v1/updates'']"

subsection \<open>The checks of a request\<close>

record http_request =
  rq_method :: string
  rq_path :: string
  rq_host :: string
  rq_origin :: string
  rq_remote :: string
  rq_local :: "string option"
  rq_internal :: string

text \<open>What becomes of a request; one that is let in has the origin that is echoed to the browser, if any.\<close>

datatype verdict =
  Untrusted_Client | Host_Refused | Admin_Host_Refused | Origin_Refused
| Preflight "string option" | Reached "string option"

definition guard :: "url_parser \<Rightarrow> trust_policy \<Rightarrow> http_request \<Rightarrow> verdict" where
  "guard parse p rq =
     (if \<not> host_allowed p (rq_host rq) then Host_Refused
      else if \<not> has_prefix (rq_path rq) ''/api/v1'' then Reached None
      else let admin = is_admin_path (rq_path rq) in
        if admin \<and> \<not> admin_host_allowed p (rq_host rq) then Admin_Host_Refused
        else if \<not> origin_allowed parse p (rq_origin rq) (rq_host rq) admin then Origin_Refused
        else let echoed = (if rq_origin rq = [] then None else Some (rq_origin rq)) in
          if rq_method rq = ''OPTIONS'' then Preflight echoed else Reached echoed)"

definition trusted_prefixes :: "string list \<Rightarrow> (ip_addr \<times> nat) list" where
  "trusted_prefixes cidrs = List.map_filter parse_prefix cidrs"

definition client_trusted :: "string list \<Rightarrow> string \<Rightarrow> bool" where
  "client_trusted cidrs remote =
     (case split_host_port remote of
        None \<Rightarrow> False
      | Some (host, _) \<Rightarrow>
          (case parse_addr host of
             None \<Rightarrow> False
           | Some a \<Rightarrow> list_ex (\<lambda>p. prefix_contains p a) (trusted_prefixes cidrs)))"

definition is_own_address :: "string \<Rightarrow> string option \<Rightarrow> bool" where
  "is_own_address remote local_addr =
     (case split_host_port remote of
        None \<Rightarrow> False
      | Some (host, _) \<Rightarrow>
          (case parse_addr host of
             None \<Rightarrow> False
           | Some a \<Rightarrow>
               is_loopback (unmap_addr a) \<or>
               (case Option.bind local_addr split_host_port of
                  None \<Rightarrow> False
                | Some (lh, _) \<Rightarrow>
                    (case parse_addr lh of None \<Rightarrow> False | Some b \<Rightarrow> unmap_addr b = unmap_addr a))))"

definition internal_fetch :: "string \<Rightarrow> http_request \<Rightarrow> bool" where
  "internal_fetch token rq =
     (rq_internal rq \<noteq> [] \<and> rq_internal rq = token \<and> has_prefix (rq_path rq) ''/api/v1/streams/'' \<and>
      (rq_method rq = ''GET'' \<or> rq_method rq = ''HEAD'') \<and> is_own_address (rq_remote rq) (rq_local rq))"

definition admit_request :: "url_parser \<Rightarrow> trust_policy \<Rightarrow> string list \<Rightarrow> string \<Rightarrow> http_request \<Rightarrow> verdict" where
  "admit_request parse p cidrs token rq =
     (if internal_fetch token rq then Reached None
      else if \<not> client_trusted cidrs (rq_remote rq) then Untrusted_Client
      else guard parse p rq)"

text \<open>\<open>internalStreamURL\<close>: where the media tools of the server find its own stream route.\<close>

definition join_host_port :: "string \<Rightarrow> string \<Rightarrow> string" where
  "join_host_port host port =
     (if CHR '':'' \<in> set host then CHR ''['' # host @ '']:'' @ port else host @ '':'' @ port)"

definition internal_stream_host :: "string \<Rightarrow> string option" where
  "internal_stream_host listen =
     (case split_host_port listen of
        None \<Rightarrow> None
      | Some (host, port) \<Rightarrow>
          if port = [] then None
          else let wild = (host = [] \<or> (case parse_addr host of Some a \<Rightarrow> is_unspecified a | None \<Rightarrow> False)) in
            Some (join_host_port (if wild then ''127.0.0.1'' else host) port))"

subsection \<open>Facts\<close>

lemma lower_blank [simp]: "is_blank (lower_byte c) = is_blank c"
  by (auto simp: is_blank_def lower_byte_def Let_def of_char_of)

lemma trim_by_map: "(\<And>c. p (f c) = p c) \<Longrightarrow> trim_by p (map f s) = map f (trim_by p s)"
proof -
  assume a: "\<And>c. p (f c) = p c"
  have d: "dropWhile p (map f s) = map f (dropWhile p s)" for s by (induction s) (auto simp: a)
  show ?thesis by (simp add: trim_by_def d rev_map)
qed

lemma host_only_fold: "equal_fold a b \<Longrightarrow> host_only a = host_only b"
proof -
  assume "equal_fold a b"
  then have "to_lower a = to_lower b" by (simp add: equal_fold_def)
  moreover have "to_lower (trim_space s) = trim_space (to_lower s)" for s
    by (simp add: to_lower_def trim_space_def trim_by_map)
  ultimately show ?thesis by (simp add: host_only_def)
qed

text \<open>The media tools are let in to read streams, and for nothing else.\<close>

lemma internal_fetch_streams:
  assumes "internal_fetch token rq"
  shows "has_prefix (rq_path rq) ''/api/v1/streams/'' \<and> \<not> is_admin_path (rq_path rq)"
proof -
  have p: "has_prefix (rq_path rq) ''/api/v1/streams/''" using assms by (simp add: internal_fetch_def)
  then obtain t where "rq_path rq = ''/api/v1/streams/'' @ t" by (rule has_prefixE)
  with p show ?thesis by (simp add: is_admin_path_def has_prefix_def)
qed

lemma admin_path_api:
  assumes "is_admin_path path"
  shows "has_prefix path ''/api/v1''"
proof -
  define roots where "roots = [''/api/v1/settings'', ''/api/v1/dependencies'', ''/api/v1/updates'']"
  from assms obtain prefix where p: "prefix \<in> set roots" "path = prefix \<or> has_prefix path (prefix @ ''/'')"
    by (auto simp only: is_admin_path_def roots_def[symmetric] list_ex_iff)
  have "\<exists>t. path = prefix @ t"
    using p(2) by (metis append_Nil2 append_assoc has_prefixE)
  moreover have "\<exists>u. prefix = ''/api/v1'' @ u" using p(1) by (auto simp: roots_def)
  ultimately show ?thesis by (metis append_assoc has_prefix_append)
qed

lemma lan_name_literal:
  "is_lan_name h \<longleftrightarrow> h \<noteq> [] \<and> (CHR ''.'' \<notin> set h \<or>
     (\<exists>l. h = l @ ''.local'' \<or> h = l @ ''.lan'' \<or> h = l @ ''.home.arpa''))"
proof -
  have suffix: "has_suffix h s \<longleftrightarrow> (\<exists>l. h = l @ s)" for s
  proof
    assume "has_suffix h s"
    then show "\<exists>l. h = l @ s" unfolding has_suffix_def by (metis append_take_drop_id)
  qed (auto simp: has_suffix_def)
  have dot: "contains h ''.'' \<longleftrightarrow> CHR ''.'' \<in> set h"
    by (induction h) (auto simp: contains_def has_prefix_def)
  show ?thesis by (auto simp: is_lan_name_def suffix dot)
qed

lemma tv_client_literal:
  "is_tv_client_origin origin \<longleftrightarrow>
   trim_slashes (to_lower origin) \<in> {''null'', ''https://appassets.androidplatform.net''}"
  by (auto simp: is_tv_client_origin_def builtin_client_origins_def Let_def)

lemma same_origin_literal:
  "same_origin parse origin host \<longleftrightarrow>
   (\<exists>scheme h. parse origin = Some (scheme, h) \<and> scheme \<in> {''http'', ''https''} \<and> h \<noteq> [] \<and> to_lower h = to_lower host)"
  by (auto simp: same_origin_def equal_fold_def split: option.splits prod.splits)

text \<open>
  Property C33: where no allowlist is set, an administration request is let in, or its preflight answered, exactly when it
  comes from a trusted client, names the server by an address, a name of one label or a name under \<open>local\<close>, \<open>lan\<close> or
  \<open>home.arpa\<close>, and has no origin, an http or https origin of the very authority it names, \<open>null\<close> or the origin of
  the Android client.  So a page of a name that was rebound to the address of the server is refused, and so is any other
  page, of the internet or of the local network, but one without an origin of its own; the token of the media tools does
  not help.
\<close>

theorem no_foreign_administration:
  assumes "tp_hosts p = None" "tp_origins p = None" "is_admin_path (rq_path rq)"
  shows "admit_request parse p cidrs token rq \<notin> {Untrusted_Client, Host_Refused, Admin_Host_Refused, Origin_Refused} \<longleftrightarrow>
    client_trusted cidrs (rq_remote rq) \<and>
    (let name = host_only (rq_host rq) in
     parse_addr name \<noteq> None \<or> name \<noteq> [] \<and> CHR ''.'' \<notin> set name \<or>
     (\<exists>l. name = l @ ''.local'' \<or> name = l @ ''.lan'' \<or> name = l @ ''.home.arpa'')) \<and>
    (rq_origin rq = [] \<or>
     (\<exists>scheme h. parse (rq_origin rq) = Some (scheme, h) \<and> scheme \<in> {''http'', ''https''} \<and> h \<noteq> [] \<and>
       to_lower h = to_lower (rq_host rq)) \<or>
     trim_slashes (to_lower (rq_origin rq)) \<in> {''null'', ''https://appassets.androidplatform.net''})"
proof -
  have i: "\<not> internal_fetch token rq" using internal_fetch_streams assms(3) by blast
  have api: "has_prefix (rq_path rq) ''/api/v1''" using admin_path_api assms(3) by blast
  have host: "admin_host_allowed p (rq_host rq) \<longleftrightarrow>
      (let name = host_only (rq_host rq) in
       parse_addr name \<noteq> None \<or> name \<noteq> [] \<and> CHR ''.'' \<notin> set name \<or>
       (\<exists>l. name = l @ ''.local'' \<or> name = l @ ''.lan'' \<or> name = l @ ''.home.arpa''))"
    by (auto simp: admin_host_allowed_def assms(1) lan_name_literal Let_def)
  have origin: "origin_allowed parse p (rq_origin rq) (rq_host rq) True \<longleftrightarrow> rq_origin rq = [] \<or>
      same_origin parse (rq_origin rq) (rq_host rq) \<or> is_tv_client_origin (rq_origin rq)"
    by (simp add: origin_allowed_def assms(2))
  have "admit_request parse p cidrs token rq \<notin> {Untrusted_Client, Host_Refused, Admin_Host_Refused, Origin_Refused} \<longleftrightarrow>
      client_trusted cidrs (rq_remote rq) \<and> admin_host_allowed p (rq_host rq) \<and>
      origin_allowed parse p (rq_origin rq) (rq_host rq) True"
    by (simp add: admit_request_def guard_def Let_def i api assms(3) host_allowed_def assms(1))
  then show ?thesis
    unfolding host origin same_origin_literal tv_client_literal by blast
qed

text \<open>An empty list is no list: a variable of separators alone leaves the open policy of the LAN in force.\<close>

lemma blank_list_is_no_list: "new_trust_policy (\<lambda>_. '' , '') = \<lparr>tp_origins = None, tp_hosts = None\<rparr>"
  by (simp add: new_trust_policy_def split_list_def trim_space_def trim_by_def is_blank_def)

text \<open>What the own address of the server cannot be mistaken for: a client elsewhere never passes as a media tool.\<close>

lemma internal_fetch_local:
  assumes "internal_fetch token rq"
  shows "\<exists>host port a. split_host_port (rq_remote rq) = Some (host, port) \<and> parse_addr host = Some a \<and>
    (is_loopback (unmap_addr a) \<or>
     (\<exists>l lh lp b. rq_local rq = Some l \<and> split_host_port l = Some (lh, lp) \<and> parse_addr lh = Some b \<and> unmap_addr b = unmap_addr a))"
  using assms by (fastforce simp: internal_fetch_def is_own_address_def bind_eq_Some_conv split: option.splits prod.splits)

subsection \<open>Examples\<close>

definition rebound_request :: http_request where
  "rebound_request = \<lparr>rq_method = ''PUT'', rq_path = ''/api/v1/settings'', rq_host = ''evil.example:8097'',
     rq_origin = ''http://evil.example:8097'', rq_remote = ''192.168.7.3:5555'', rq_local = None, rq_internal = []\<rparr>"

definition sample_parser :: url_parser where
  "sample_parser s = (if has_prefix s ''http://'' then Some (''http'', drop 7 s) else None)"

definition open_policy :: trust_policy where
  "open_policy = new_trust_policy (\<lambda>_. [])"

lemma rebound_facts:
  "tp_hosts open_policy = None" "tp_origins open_policy = None" "is_admin_path (rq_path rebound_request)"
  "client_trusted [''192.168.0.0/16''] (rq_remote rebound_request)"
  by code_simp+

text \<open>A page of a rebound name is refused; the same request by the address of the server, from its own page, is let in.\<close>

theorem no_foreign_administration_witness:
  "admit_request sample_parser open_policy [''192.168.0.0/16''] ''t'' rebound_request
     \<in> {Untrusted_Client, Host_Refused, Admin_Host_Refused, Origin_Refused} \<and>
   admit_request sample_parser open_policy [''192.168.0.0/16''] ''t''
     (rebound_request\<lparr>rq_host := ''192.168.7.2:8097'', rq_origin := ''http://192.168.7.2:8097''\<rparr>)
     \<notin> {Untrusted_Client, Host_Refused, Admin_Host_Refused, Origin_Refused}"
proof
  have name: "host_only (rq_host rebound_request) = ''evil.example''" "parse_addr ''evil.example'' = None"
    by code_simp+
  have "\<not> (\<exists>l. ''evil.example'' = l @ ''.local'' \<or> ''evil.example'' = l @ ''.lan'' \<or> ''evil.example'' = l @ ''.home.arpa'')"
    using lan_name_literal[of "''evil.example''"] by (simp add: is_lan_name_def contains_def has_prefix_def has_suffix_def)
  with name show "admit_request sample_parser open_policy [''192.168.0.0/16''] ''t'' rebound_request
      \<in> {Untrusted_Client, Host_Refused, Admin_Host_Refused, Origin_Refused}"
    using no_foreign_administration[OF rebound_facts(1,2,3), of sample_parser "[''192.168.0.0/16'']" "''t''"]
    by (auto simp: Let_def)
next
  let ?rq = "rebound_request\<lparr>rq_host := ''192.168.7.2:8097'', rq_origin := ''http://192.168.7.2:8097''\<rparr>"
  have "parse_addr (host_only ''192.168.7.2:8097'') \<noteq> None" "sample_parser ''http://192.168.7.2:8097'' = Some (''http'', ''192.168.7.2:8097'')"
    by code_simp+
  then show "admit_request sample_parser open_policy [''192.168.0.0/16''] ''t'' ?rq
      \<notin> {Untrusted_Client, Host_Refused, Admin_Host_Refused, Origin_Refused}"
    using no_foreign_administration[OF rebound_facts(1,2), of ?rq sample_parser "[''192.168.0.0/16'']" "''t''"]
      rebound_facts(3,4) by (simp add: Let_def)
qed

end
