(* ===== verification/Http_Encoding.thy ===== *)
theory Http_Encoding
  imports Go_Prelude
begin

text \<open>
  The buffering of JSON answers (\<open>internal/adapters/httpapi/encoding.go\<close>): a handler talks to a
  \<open>jsonWriter\<close> as it would to the connection; an answer 200 of JSON is kept until the handler is done and
  then tagged, answered 304, or compressed; everything else passes through.  What a handler does is a list
  of calls, so that the same list can be played on the bare connection.  The compression and the reading
  of a weight are arguments.
\<close>

unbundle bit_operations_syntax

subsection \<open>The connection\<close>

type_synonym header_map = "(string \<times> string) list"

definition header_get :: "header_map \<Rightarrow> string \<Rightarrow> string" where
  "header_get h k = (case map_of h k of Some v \<Rightarrow> v | None \<Rightarrow> [])"

definition header_set :: "string \<Rightarrow> string \<Rightarrow> header_map \<Rightarrow> header_map" where
  "header_set k v h = (k, v) # filter (\<lambda>(k', _). k' \<noteq> k) h"

definition header_add :: "string \<Rightarrow> string \<Rightarrow> header_map \<Rightarrow> header_map" where
  "header_add k v h = h @ [(k, v)]"

record json_request =
  jr_method :: string
  jr_range :: string
  jr_if_none_match :: string
  jr_accept_encoding :: string

text \<open>What has gone to the client: the status with the headers of that moment, and the bytes.\<close>

record connection =
  cn_sent :: "(int \<times> header_map) option"
  cn_body :: string
  cn_flushes :: nat

definition fresh_connection :: connection where
  "fresh_connection = \<lparr>cn_sent = None, cn_body = [], cn_flushes = 0\<rparr>"

definition conn_status :: "int \<Rightarrow> header_map \<Rightarrow> connection \<Rightarrow> connection" where
  "conn_status st h c = (if cn_sent c = None then c\<lparr>cn_sent := Some (st, h)\<rparr> else c)"

definition conn_write :: "json_request \<Rightarrow> string \<Rightarrow> header_map \<Rightarrow> connection \<Rightarrow> connection" where
  "conn_write rq p h c =
     (let c' = conn_status 200 h c in
      if jr_method rq = ''HEAD'' then c' else c'\<lparr>cn_body := cn_body c' @ p\<rparr>)"

definition conn_flush :: "header_map \<Rightarrow> connection \<Rightarrow> connection" where
  "conn_flush h c = (let c' = conn_status 200 h c in c'\<lparr>cn_flushes := cn_flushes c' + 1\<rparr>)"

subsection \<open>Tags and compression\<close>

definition fnv_step :: "64 word \<Rightarrow> char \<Rightarrow> 64 word" where
  "fnv_step h b = (h XOR of_nat (of_char b)) * 1099511628211"

definition fnv64a :: "string \<Rightarrow> 64 word" where
  "fnv64a s = foldl fnv_step 14695981039346656037 s"

definition digit36 :: "nat \<Rightarrow> char" where
  "digit36 d = char_of (if d < 10 then 48 + d else 87 + d)"

fun show36 :: "nat \<Rightarrow> string" where
  "show36 n = (if n < 36 then [digit36 n] else show36 (n div 36) @ [digit36 (n mod 36)])"

declare show36.simps [simp del]

definition quote_mark :: char where
  "quote_mark = char_of (34 :: nat)"

definition etag_of :: "string \<Rightarrow> string" where
  "etag_of body = quote_mark # show36 (unat (fnv64a body)) @ [quote_mark]"

definition etag_matches :: "string \<Rightarrow> string \<Rightarrow> bool" where
  "etag_matches header etag =
     list_ex (\<lambda>part. trim_space part = ''*'' \<or> trim_prefix (trim_space part) ''W/'' = etag) (split_on CHR '','' header)"

fun accepts_part :: "(string \<Rightarrow> rat option) \<Rightarrow> string list \<Rightarrow> bool" where
  "accepts_part parse_float [] = False"
| "accepts_part parse_float (part # parts) =
     (let (name, params) = (case cut_at CHR '';'' (trim_space part) of Some np \<Rightarrow> np | None \<Rightarrow> (trim_space part, [])) in
      if \<not> equal_fold (trim_space name) ''gzip'' then accepts_part parse_float parts
      else let ps = filter (\<lambda>c. c \<noteq> CHR '' '') (to_lower params) in
        if has_prefix ps ''q='' then (case parse_float (drop 2 ps) of None \<Rightarrow> True | Some f \<Rightarrow> 0 < f)
        else True)"

definition accepts_gzip :: "(string \<Rightarrow> rat option) \<Rightarrow> string \<Rightarrow> bool" where
  "accepts_gzip parse_float v = accepts_part parse_float (split_on CHR '','' v)"

definition gzip_min_bytes :: nat where
  "gzip_min_bytes = 1024"

subsection \<open>The writer\<close>

record json_writer =
  jw_headers :: header_map
  jw_buf :: string
  jw_buffered :: bool
  jw_decided :: bool
  jw_out :: connection

definition json_writer_of :: "header_map \<Rightarrow> json_writer" where
  "json_writer_of h = \<lparr>jw_headers = h, jw_buf = [], jw_buffered = False, jw_decided = False, jw_out = fresh_connection\<rparr>"

definition jw_write_header :: "json_request \<Rightarrow> int \<Rightarrow> json_writer \<Rightarrow> json_writer" where
  "jw_write_header rq st j =
     (let h = jw_headers j;
          j' = (if jw_decided j then j
                else j\<lparr>jw_decided := True,
                       jw_buffered := (st = 200 \<and> has_prefix (header_get h ''Content-Type'') ''application/json'' \<and>
                         header_get h ''Content-Encoding'' = [] \<and> header_get h ''Content-Range'' = [] \<and> jr_range rq = [])\<rparr>)
      in if jw_buffered j' then j' else j'\<lparr>jw_out := conn_status st h (jw_out j')\<rparr>)"

definition jw_write :: "json_request \<Rightarrow> string \<Rightarrow> json_writer \<Rightarrow> json_writer" where
  "jw_write rq p j =
     (let j' = (if jw_decided j then j else jw_write_header rq 200 j) in
      if jw_buffered j' then j'\<lparr>jw_buf := jw_buf j' @ p\<rparr>
      else j'\<lparr>jw_out := conn_write rq p (jw_headers j') (jw_out j')\<rparr>)"

definition jw_flush :: "json_writer \<Rightarrow> json_writer" where
  "jw_flush j = (if jw_buffered j then j else j\<lparr>jw_out := conn_flush (jw_headers j) (jw_out j)\<rparr>)"

definition jw_finish :: "(string \<Rightarrow> string) \<Rightarrow> (string \<Rightarrow> rat option) \<Rightarrow> (nat \<Rightarrow> string) \<Rightarrow> json_request \<Rightarrow> json_writer \<Rightarrow> connection" where
  "jw_finish gz parse_float itoa rq j =
     (if \<not> jw_buffered j then jw_out j
      else let body = jw_buf j;
               h = (if jr_method rq = ''GET'' then header_set ''ETag'' (etag_of body) (jw_headers j) else jw_headers j)
        in if jr_method rq = ''GET'' \<and> etag_matches (jr_if_none_match rq) (etag_of body)
           then conn_status 304 h (jw_out j)
           else let h1 = header_add ''Vary'' ''Accept-Encoding'' h;
                    zip = (gzip_min_bytes \<le> length body \<and> accepts_gzip parse_float (jr_accept_encoding rq));
                    body' = (if zip then gz body else body);
                    h2 = (if zip then header_set ''Content-Encoding'' ''gzip'' h1 else h1);
                    h3 = header_set ''Content-Length'' (itoa (length body')) h2;
                    c = conn_status 200 h3 (jw_out j)
             in if jr_method rq \<noteq> ''HEAD'' then conn_write rq body' h3 c else c)"

subsection \<open>A handler and its two audiences\<close>

datatype handler_call = Set_Header string string | Write_Header int | Write_Body string | Flush_Out

fun json_call :: "json_request \<Rightarrow> json_writer \<Rightarrow> handler_call \<Rightarrow> json_writer" where
  "json_call rq j (Set_Header k v) = j\<lparr>jw_headers := header_set k v (jw_headers j)\<rparr>"
| "json_call rq j (Write_Header st) = jw_write_header rq st j"
| "json_call rq j (Write_Body p) = jw_write rq p j"
| "json_call rq j Flush_Out = jw_flush j"

definition json_encoding ::
  "(string \<Rightarrow> string) \<Rightarrow> (string \<Rightarrow> rat option) \<Rightarrow> (nat \<Rightarrow> string) \<Rightarrow> json_request \<Rightarrow> header_map \<Rightarrow> handler_call list \<Rightarrow> connection" where
  "json_encoding gz parse_float itoa rq h calls =
     jw_finish gz parse_float itoa rq (foldl (json_call rq) (json_writer_of h) calls)"

text \<open>The same calls on the bare connection.\<close>

fun bare_call :: "json_request \<Rightarrow> header_map \<times> connection \<Rightarrow> handler_call \<Rightarrow> header_map \<times> connection" where
  "bare_call rq (h, c) (Set_Header k v) = (header_set k v h, c)"
| "bare_call rq (h, c) (Write_Header st) = (h, conn_status st h c)"
| "bare_call rq (h, c) (Write_Body p) = (h, conn_write rq p h c)"
| "bare_call rq (h, c) Flush_Out = (h, conn_flush h c)"

definition bare_answer :: "json_request \<Rightarrow> header_map \<Rightarrow> handler_call list \<Rightarrow> connection" where
  "bare_answer rq h calls = snd (foldl (bare_call rq) (h, fresh_connection) calls)"

subsection \<open>Facts\<close>

text \<open>
  Three states: nothing has been answered yet; the answer passes through; or the body of an answer 200 is kept,
  of which the connection has seen nothing.
\<close>

definition untouched :: "json_writer \<Rightarrow> connection \<Rightarrow> bool" where
  "untouched j c = (\<not> jw_decided j \<and> \<not> jw_buffered j \<and> jw_buf j = [] \<and> jw_out j = fresh_connection \<and> c = fresh_connection)"

definition passing :: "json_writer \<Rightarrow> connection \<Rightarrow> bool" where
  "passing j c = (jw_decided j \<and> \<not> jw_buffered j \<and> jw_out j = c \<and> cn_sent c \<noteq> None)"

definition keeping :: "json_request \<Rightarrow> json_writer \<Rightarrow> connection \<Rightarrow> bool" where
  "keeping rq j c =
     (jw_decided j \<and> jw_buffered j \<and> jw_out j = fresh_connection \<and> map_option fst (cn_sent c) = Some 200 \<and>
      cn_body c = (if jr_method rq = ''HEAD'' then [] else jw_buf j))"

definition in_step :: "json_request \<Rightarrow> json_writer \<Rightarrow> header_map \<times> connection \<Rightarrow> bool" where
  "in_step rq j b = (jw_headers j = fst b \<and> (untouched j (snd b) \<or> passing j (snd b) \<or> keeping rq j (snd b)))"

lemmas writer_defs = jw_write_header_def jw_write_def jw_flush_def conn_status_def conn_write_def conn_flush_def Let_def

lemma passing_call: "passing j c \<Longrightarrow> in_step rq (json_call rq j call) (bare_call rq (jw_headers j, c) call)"
  by (cases call) (auto simp: in_step_def passing_def writer_defs)

lemma keeping_call: "keeping rq j c \<Longrightarrow> in_step rq (json_call rq j call) (bare_call rq (jw_headers j, c) call)"
  by (cases call) (auto simp: in_step_def keeping_def writer_defs)

lemma untouched_call:
  "untouched j c \<Longrightarrow> call \<noteq> Flush_Out \<Longrightarrow> in_step rq (json_call rq j call) (bare_call rq (jw_headers j, c) call)"
  by (cases call) (auto simp: in_step_def untouched_def passing_def keeping_def writer_defs fresh_connection_def)

text \<open>A handler that flushes has answered something.\<close>

fun early_flush :: "handler_call list \<Rightarrow> bool" where
  "early_flush (Flush_Out # _) = True"
| "early_flush (Set_Header _ _ # calls) = early_flush calls"
| "early_flush _ = False"

lemma untouched_stays:
  "untouched (json_call rq j call) c' \<Longrightarrow> early_flush (call # calls) = early_flush calls \<and> \<not> jw_decided j"
  by (cases call; cases j; cases "jw_out j") (auto simp: untouched_def writer_defs fresh_connection_def split: if_splits)

lemma in_step_calls:
  "in_step rq j b \<Longrightarrow> \<not> untouched j (snd b) \<or> \<not> early_flush calls \<Longrightarrow>
   in_step rq (foldl (json_call rq) j calls) (foldl (bare_call rq) b calls)"
proof (induction calls arbitrary: j b)
  case (Cons call calls)
  have b: "b = (jw_headers j, snd b)" using Cons.prems(1) by (cases b) (simp add: in_step_def)
  have "call \<noteq> Flush_Out \<or> \<not> untouched j (snd b)" using Cons.prems(2) by auto
  then have s: "in_step rq (json_call rq j call) (bare_call rq b call)"
    using Cons.prems(1) passing_call keeping_call untouched_call b unfolding in_step_def by metis
  have "\<not> untouched (json_call rq j call) (snd (bare_call rq b call)) \<or> \<not> early_flush calls"
    using Cons.prems untouched_stays[of rq j call "snd (bare_call rq b call)" calls]
    unfolding in_step_def passing_def keeping_def by blast
  from Cons.IH[OF s this] show ?case by simp
qed simp

lemma jw_kept:
  assumes "\<not> early_flush calls"
  shows "let j = foldl (json_call rq) (json_writer_of h) calls; c = bare_answer rq h calls in
    jw_headers j = fst (foldl (bare_call rq) (h, fresh_connection) calls) \<and>
    (jw_out j = c \<and> \<not> jw_buffered j \<or> keeping rq j c)"
proof -
  have "in_step rq (json_writer_of h) (h, fresh_connection)"
    by (simp add: in_step_def untouched_def json_writer_of_def fresh_connection_def)
  from in_step_calls[OF this, of calls] assms show ?thesis
    by (auto simp: in_step_def untouched_def passing_def bare_answer_def Let_def)
qed

text \<open>
  Property C34: for a handler that does not flush before it answers, the middleware is transparent: the client reads
  the status and the bytes the handler would have sent on the bare connection, except that a GET whose tag matches
  is answered 304 without a body; compression only happens when the client accepts it.
\<close>

theorem json_encoding_transparent:
  assumes "\<not> early_flush calls" "\<And>b. gunzip (gz b) = b"
  shows "let bare = bare_answer rq h calls; enc = json_encoding gz parse_float itoa rq h calls in
    enc = bare \<or>
    (map_option fst (cn_sent bare) = Some 200 \<and>
     (\<exists>st hs. cn_sent enc = Some (st, hs) \<and>
       (if st = 304 then jr_method rq = ''GET'' \<and> cn_body enc = [] \<and> etag_matches (jr_if_none_match rq) (etag_of (cn_body bare))
        else st = 200 \<and>
          (cn_body enc = cn_body bare \<or>
           gunzip (cn_body enc) = cn_body bare \<and> header_get hs ''Content-Encoding'' = ''gzip'' \<and>
           accepts_gzip parse_float (jr_accept_encoding rq)))))"
proof -
  define j where "j = foldl (json_call rq) (json_writer_of h) calls"
  define bare where "bare = bare_answer rq h calls"
  have "jw_out j = bare \<and> \<not> jw_buffered j \<or> keeping rq j bare"
    using jw_kept[OF assms(1), of rq h] by (simp add: Let_def j_def bare_def)
  then show ?thesis
  proof
    assume "jw_out j = bare \<and> \<not> jw_buffered j"
    then show ?thesis by (simp add: json_encoding_def jw_finish_def j_def bare_def)
  next
    assume k: "keeping rq j bare"
    then have "map_option fst (cn_sent bare) = Some 200" "jw_buffered j" "jw_out j = fresh_connection"
      "cn_body bare = (if jr_method rq = ''HEAD'' then [] else jw_buf j)"
      by (auto simp: keeping_def)
    then show ?thesis
      by (auto simp: json_encoding_def jw_finish_def j_def[symmetric] bare_def[symmetric] conn_status_def conn_write_def
          fresh_connection_def Let_def assms(2) header_get_def header_set_def)
  qed
qed

subsection \<open>Examples\<close>

definition sample_get :: json_request where
  "sample_get = \<lparr>jr_method = ''GET'', jr_range = [], jr_if_none_match = ''*'', jr_accept_encoding = ''gzip''\<rparr>"

definition sample_calls :: "handler_call list" where
  "sample_calls = [Set_Header ''Content-Type'' ''application/json'', Write_Header 200, Write_Body ''{'', Write_Body ''}'']"

lemma sample_bare: "bare_answer sample_get [] sample_calls =
    \<lparr>cn_sent = Some (200, [(''Content-Type'', ''application/json'')]), cn_body = ''{}'', cn_flushes = 0\<rparr>"
  by (simp add: bare_answer_def sample_calls_def sample_get_def fresh_connection_def header_set_def conn_status_def conn_write_def)

lemma sample_encoded: "map_option fst (cn_sent (json_encoding rev (\<lambda>_. None) (\<lambda>_. []) sample_get [] sample_calls)) = Some 304"
  by (simp add: json_encoding_def sample_calls_def json_writer_of_def jw_finish_def writer_defs sample_get_def
      header_set_def header_get_def has_prefix_def etag_matches_def trim_space_def trim_by_def is_blank_def fresh_connection_def)

theorem json_encoding_transparent_witness:
  "cn_body (json_encoding rev (\<lambda>_. None) (\<lambda>_. []) sample_get [] sample_calls) = [] \<and> etag_matches ''*'' (etag_of ''{}'')"
proof -
  have "\<not> early_flush sample_calls" by (simp add: sample_calls_def)
  from json_encoding_transparent[OF this, of rev rev sample_get "[]" "\<lambda>_. None" "\<lambda>_. []"] sample_encoded
  show ?thesis by (auto simp: sample_bare Let_def split: if_splits) (simp_all add: sample_get_def)
qed

end
