(* ===== verification/Event_Bus.thy ===== *)
theory Event_Bus
  imports Domain_Model Torrent_Meta
begin

text \<open>
  Events (\<open>publish\<close>, \<open>SubscribeEvents\<close>, \<open>CloseEventStreams\<close>, \<open>pruneHistory\<close> of \<open>service.go\<close>, the journal of
  \<open>repository.go\<close>) and the event stream of the HTTP interface (\<open>events\<close> of \<open>api.go\<close>).  A subscription is a
  channel of 32 events that is closed when it is full; the handler subscribes, then replays the journal after
  the id the client names, then sends what the channel brings.  Publishing takes place under one lock, so
  \<open>publish\<close>, a subscription and a cancellation are each one step of an interleaving with the steps of the
  handler.
\<close>

subsection \<open>The journal\<close>

definition append_event :: "string \<Rightarrow> string \<Rightarrow> go_time \<Rightarrow> int \<Rightarrow> event list \<Rightarrow> event list" where
  "append_event kind payload now i journal =
     journal @ [\<lparr>ev_id = i, ev_kind = kind, ev_payload = payload, ev_created_at = now\<rparr>]"

definition list_events :: "int \<Rightarrow> int \<Rightarrow> event list \<Rightarrow> event list" where
  "list_events after limit journal =
     take (nat (if limit < 1 \<or> 500 < limit then 100 else limit)) (filter (\<lambda>e. after < ev_id e) journal)"

text \<open>The rows are in the order of their ids, so the newest are the last.\<close>

definition prune_events :: "go_time \<Rightarrow> int \<Rightarrow> event list \<Rightarrow> event list" where
  "prune_events cutoff min_keep journal =
     (let kept = map ev_id (drop (length journal - nat (max 0 min_keep)) journal) in
      filter (\<lambda>e. \<not> (ev_created_at e div second < cutoff div second \<and> ev_id e \<notin> set kept)) journal)"

definition event_journal_min_retain :: int where
  "event_journal_min_retain = 1000"

subsection \<open>The bus\<close>

record channel =
  ch_buf :: "event list"
  ch_member :: bool
  ch_closed :: bool

record bus =
  bus_journal :: "event list"
  bus_next :: int
  bus_channels :: "channel list"
  bus_closed :: bool
  bus_stopping :: bool

definition channel_capacity :: nat where
  "channel_capacity = 32"

text \<open>One subscriber in the fan-out: it gets the event, or is closed and forgotten when it is full.\<close>

definition deliver :: "event \<Rightarrow> channel \<Rightarrow> channel" where
  "deliver e c =
     (if \<not> ch_member c then c
      else if length (ch_buf c) < channel_capacity then c\<lparr>ch_buf := ch_buf c @ [e]\<rparr>
      else c\<lparr>ch_member := False, ch_closed := True\<rparr>)"

definition publish_event :: "string \<Rightarrow> string \<Rightarrow> go_time \<Rightarrow> bool \<Rightarrow> bus \<Rightarrow> bus" where
  "publish_event kind payload now stored b =
     (if bus_stopping b \<or> \<not> stored then b
      else let journal = append_event kind payload now (bus_next b) (bus_journal b) in
        b\<lparr>bus_journal := journal, bus_next := bus_next b + 1, bus_channels := map (deliver (last journal)) (bus_channels b)\<rparr>)"

definition subscribe_events :: "bus \<Rightarrow> nat \<times> bus" where
  "subscribe_events b =
     (length (bus_channels b),
      b\<lparr>bus_channels := bus_channels b @
        [\<lparr>ch_buf = [], ch_member = \<not> bus_closed b, ch_closed = bus_closed b\<rparr>]\<rparr>)"

definition close_channel :: "channel \<Rightarrow> channel" where
  "close_channel c = (if ch_member c then c\<lparr>ch_member := False, ch_closed := True\<rparr> else c)"

definition cancel_subscription :: "nat \<Rightarrow> bus \<Rightarrow> bus" where
  "cancel_subscription i b =
     (if i < length (bus_channels b)
      then b\<lparr>bus_channels := (bus_channels b)[i := close_channel (bus_channels b ! i)]\<rparr> else b)"

definition close_event_streams :: "bus \<Rightarrow> bus" where
  "close_event_streams b = b\<lparr>bus_closed := True, bus_channels := map close_channel (bus_channels b)\<rparr>"

definition prune_history :: "go_time \<Rightarrow> bus \<Rightarrow> bus" where
  "prune_history now b =
     b\<lparr>bus_journal := prune_events (now - 30 * 24 * hour) event_journal_min_retain (bus_journal b)\<rparr>"

subsection \<open>The event stream of a client\<close>

datatype sse_phase = Opened | Live | Ended

record sse =
  ss_chan :: nat
  ss_replay :: bool
  ss_after :: int
  ss_delivered :: int
  ss_sent :: "event list"
  ss_phase :: sse_phase

text \<open>\<open>strconv.ParseInt\<close> whose error is ignored: a number out of range is the nearest one, anything else zero.\<close>

definition parse_int64_lossy :: "string \<Rightarrow> int" where
  "parse_int64_lossy s =
     (case parse_int64 s of
        Some n \<Rightarrow> n
      | None \<Rightarrow>
          (let neg = (s \<noteq> [] \<and> hd s = CHR ''-'');
               ds = (if s \<noteq> [] \<and> (hd s = CHR ''-'' \<or> hd s = CHR ''+'') then tl s else s) in
           if ds = [] \<or> dec_nat 0 ds = None then 0 else if neg then - (2 ^ 63) else 2 ^ 63 - 1))"

text \<open>The start of the handler: the query parameter, if it is there, and the header of a reconnecting browser.\<close>

definition open_stream :: "string option \<Rightarrow> string \<Rightarrow> bus \<Rightarrow> bus \<times> sse" where
  "open_stream query header b =
     (let after_query = parse_int64_lossy (case query of None \<Rightarrow> [] | Some q \<Rightarrow> q);
          after = (case parse_int64 header of
                     Some n \<Rightarrow> if header \<noteq> [] \<and> after_query < n then n else after_query
                   | None \<Rightarrow> after_query);
          (i, b') = subscribe_events b
      in (b', \<lparr>ss_chan = i, ss_replay = (query \<noteq> None \<or> header \<noteq> []), ss_after = after, ss_delivered = after,
               ss_sent = [], ss_phase = Opened\<rparr>))"

definition send_event :: "event \<Rightarrow> sse \<Rightarrow> sse" where
  "send_event e s = s\<lparr>ss_sent := ss_sent s @ [e], ss_delivered := max (ss_delivered s) (ev_id e)\<rparr>"

definition replay :: "bool \<Rightarrow> bus \<Rightarrow> sse \<Rightarrow> sse" where
  "replay readable b s =
     (foldl (\<lambda>t e. send_event e t) s
        (if ss_replay s \<and> readable then list_events (ss_after s) 200 (bus_journal b) else []))\<lparr>ss_phase := Live\<rparr>"

definition receive :: "event \<Rightarrow> sse \<Rightarrow> sse" where
  "receive e s = (if ss_replay s \<and> ev_id e \<le> ss_delivered s then s else send_event e s)"

definition pop_channel :: "nat \<Rightarrow> bus \<Rightarrow> bus" where
  "pop_channel i b = b\<lparr>bus_channels := (bus_channels b)[i := (bus_channels b ! i)\<lparr>ch_buf := tl (ch_buf (bus_channels b ! i))\<rparr>]\<rparr>"

text \<open>What the others do meanwhile, with the events that are published by it.\<close>

inductive bus_step :: "nat \<Rightarrow> bus \<Rightarrow> event list \<Rightarrow> bus \<Rightarrow> bool" for mine where
  publishes: "bus_step mine b (if bus_stopping b \<or> \<not> stored then [] else [last (bus_journal (publish_event kind payload now stored b))])
    (publish_event kind payload now stored b)"
| prunes: "bus_step mine b [] (prune_history now b)"
| subscribes: "bus_step mine b [] (snd (subscribe_events b))"
| cancels: "i \<noteq> mine \<Longrightarrow> bus_step mine b [] (cancel_subscription i b)"
| drains: "i \<noteq> mine \<Longrightarrow> i < length (bus_channels b) \<Longrightarrow> bus_step mine b [] (pop_channel i b)"
| closes: "bus_step mine b [] (close_event_streams b)"
| stops: "bus_step mine b [] (b\<lparr>bus_stopping := True\<rparr>)"

text \<open>The handler and the others, after the replay.\<close>

inductive live_step :: "bus \<times> sse \<Rightarrow> event list \<Rightarrow> bus \<times> sse \<Rightarrow> bool" where
  others: "bus_step (ss_chan s) b es b' \<Longrightarrow> live_step (b, s) es (b', s)"
| receives: "ss_phase s = Live \<Longrightarrow> ch_buf (bus_channels b ! ss_chan s) = e # rest \<Longrightarrow>
    live_step (b, s) [] (pop_channel (ss_chan s) b, receive e s)"
| ends: "ss_phase s = Live \<Longrightarrow> ch_buf (bus_channels b ! ss_chan s) = [] \<Longrightarrow> ch_closed (bus_channels b ! ss_chan s) \<Longrightarrow>
    live_step (b, s) [] (cancel_subscription (ss_chan s) b, s\<lparr>ss_phase := Ended\<rparr>)"
| leaves: "ss_phase s = Live \<Longrightarrow> live_step (b, s) [] (cancel_subscription (ss_chan s) b, s\<lparr>ss_phase := Ended\<rparr>)"

inductive bus_run :: "nat \<Rightarrow> bus \<Rightarrow> event list \<Rightarrow> bus \<Rightarrow> bool" for mine where
  stays: "bus_run mine b [] b"
| goes: "bus_run mine b es b' \<Longrightarrow> bus_step mine b' es' b'' \<Longrightarrow> bus_run mine b (es @ es') b''"

inductive live_run :: "bus \<times> sse \<Rightarrow> event list \<Rightarrow> bus \<times> sse \<Rightarrow> bool" where
  waits: "live_run x [] x"
| moves: "live_run x es y \<Longrightarrow> live_step y es' z \<Longrightarrow> live_run x (es @ es') z"

end
