(* ===== verification/Event_Facts.thy ===== *)
theory Event_Facts
  imports Event_Bus
begin

text \<open>
  What a client of the event stream gets: the invariant of the bus, the exactly-once delivery of a stream whose
  backlog fits one replay, and the events a longer backlog loses.
\<close>

definition rising :: "event list \<Rightarrow> bool" where
  "rising es = sorted_wrt (\<lambda>a b. ev_id a < ev_id b) es"

lemma rising_simps [simp]:
  "rising []" "rising (e # es) \<longleftrightarrow> (\<forall>x \<in> set es. ev_id e < ev_id x) \<and> rising es"
  "rising (xs @ ys) \<longleftrightarrow> rising xs \<and> rising ys \<and> (\<forall>x \<in> set xs. \<forall>y \<in> set ys. ev_id x < ev_id y)"
  by (auto simp: rising_def sorted_wrt_append)

lemma rising_filter: "rising es \<Longrightarrow> rising (filter P es)"
  by (simp add: rising_def sorted_wrt_filter)

lemma rising_take: "rising es \<Longrightarrow> rising (take n es)"
  by (simp add: rising_def sorted_wrt_take)

definition channel_ok :: "int \<Rightarrow> channel \<Rightarrow> bool" where
  "channel_ok n c = (rising (ch_buf c) \<and> (\<forall>e \<in> set (ch_buf c). 1 \<le> ev_id e \<and> ev_id e < n) \<and> (ch_member c \<longrightarrow> \<not> ch_closed c))"

text \<open>The newest event is in the journal, the ids ascend, and only a channel that is closed has left the fan-out.\<close>

definition bus_ok :: "bus \<Rightarrow> bool" where
  "bus_ok b =
     (1 \<le> bus_next b \<and> rising (bus_journal b) \<and> (\<forall>e \<in> set (bus_journal b). 1 \<le> ev_id e \<and> ev_id e < bus_next b) \<and>
      (bus_next b = 1 \<or> (\<exists>e \<in> set (bus_journal b). ev_id e = bus_next b - 1)) \<and>
      list_all (channel_ok (bus_next b)) (bus_channels b))"

lemma channel_ok_mono: "channel_ok n c \<Longrightarrow> n \<le> m \<Longrightarrow> channel_ok m c"
  by (fastforce simp: channel_ok_def)

lemma channel_ok_deliver: "channel_ok n c \<Longrightarrow> 1 \<le> n \<Longrightarrow> ev_id e = n \<Longrightarrow> channel_ok (n + 1) (deliver e c)"
  by (fastforce simp: channel_ok_def deliver_def)

lemma channel_ok_close: "channel_ok n c \<Longrightarrow> channel_ok n (close_channel c)"
  by (simp add: channel_ok_def close_channel_def)

lemma channel_ok_pop: "channel_ok n c \<Longrightarrow> channel_ok n (c\<lparr>ch_buf := tl (ch_buf c)\<rparr>)"
  by (cases "ch_buf c") (auto simp: channel_ok_def)

lemma bus_ok_publish:
  assumes "bus_ok b"
  shows "bus_ok (publish_event kind payload now stored b)"
proof (cases "bus_stopping b \<or> \<not> stored")
  case False
  define e where "e = \<lparr>ev_id = bus_next b, ev_kind = kind, ev_payload = payload, ev_created_at = now\<rparr>"
  have p: "publish_event kind payload now stored b = b\<lparr>bus_journal := bus_journal b @ [e], bus_next := bus_next b + 1,
      bus_channels := map (deliver e) (bus_channels b)\<rparr>"
    using False by (simp add: publish_event_def append_event_def e_def Let_def)
  have "list_all (channel_ok (bus_next b + 1)) (map (deliver e) (bus_channels b))"
    using assms channel_ok_deliver[of "bus_next b" _ e] by (auto simp: bus_ok_def list_all_iff e_def)
  then show ?thesis using assms unfolding p by (fastforce simp: bus_ok_def e_def)
qed (simp add: publish_event_def assms)

lemma prune_keeps_newest:
  assumes "rising es" "e \<in> set es" "\<forall>x \<in> set es. ev_id x \<le> ev_id e"
  shows "e \<in> set (prune_events cutoff event_journal_min_retain es)"
proof -
  have "es \<noteq> []" using assms(2) by auto
  then have "e = last es"
    using assms by (induction es) (auto simp: less_le_not_le split: if_splits)
  then have "last (drop (length es - 1000) es) = e" "drop (length es - 1000) es \<noteq> []"
    using \<open>es \<noteq> []\<close> diff_less[of 1000 "length es"] by (simp_all add: last_drop not_le)
  then have "e \<in> set (drop (length es - 1000) es)" using last_in_set by metis
  then have "e \<in> set (drop (length es - nat (max 0 event_journal_min_retain)) es)"
    by (simp add: event_journal_min_retain_def)
  then show ?thesis using assms(2) by (auto simp: prune_events_def Let_def)
qed

lemma bus_ok_prune: "bus_ok b \<Longrightarrow> bus_ok (prune_history now b)"
proof -
  assume b: "bus_ok b"
  have "bus_next b = 1 \<or> (\<exists>e \<in> set (prune_events c event_journal_min_retain (bus_journal b)). ev_id e = bus_next b - 1)" for c
  proof (cases "bus_next b = 1")
    case False
    then obtain e where "e \<in> set (bus_journal b)" "ev_id e = bus_next b - 1" using b by (auto simp: bus_ok_def)
    with b show ?thesis using prune_keeps_newest[of "bus_journal b" e c] by (fastforce simp: bus_ok_def)
  qed simp
  with b show ?thesis
    by (auto simp: bus_ok_def prune_history_def prune_events_def Let_def intro: rising_filter)
qed

text \<open>One channel changes.\<close>

lemma bus_ok_channel:
  assumes "bus_ok b" "i < length (bus_channels b)" "channel_ok (bus_next b) (bus_channels b ! i) \<Longrightarrow> channel_ok (bus_next b) c"
  shows "bus_ok (b\<lparr>bus_channels := (bus_channels b)[i := c]\<rparr>)"
proof -
  have "list_all (channel_ok (bus_next b)) ((bus_channels b)[i := c])"
    using assms by (simp add: bus_ok_def list_all_length nth_list_update)
  then show ?thesis using assms(1) by (simp add: bus_ok_def)
qed

lemma bus_ok_cancel: "bus_ok b \<Longrightarrow> bus_ok (cancel_subscription i b)"
  by (simp add: cancel_subscription_def bus_ok_channel channel_ok_close)

lemma bus_ok_pop: "bus_ok b \<Longrightarrow> i < length (bus_channels b) \<Longrightarrow> bus_ok (pop_channel i b)"
  by (simp add: pop_channel_def bus_ok_channel channel_ok_pop)

lemma bus_ok_step: "bus_step mine b es b' \<Longrightarrow> bus_ok b \<Longrightarrow> bus_ok b'"
  by (induction rule: bus_step.induct)
    (auto simp: bus_ok_publish bus_ok_prune bus_ok_cancel bus_ok_pop,
     auto simp: bus_ok_def subscribe_events_def close_event_streams_def list_all_iff channel_ok_def close_channel_def)

lemma bus_ok_run: "bus_run mine b es b' \<Longrightarrow> bus_ok b \<Longrightarrow> bus_ok b'"
  by (induction rule: bus_run.induct) (auto intro: bus_ok_step)

subsection \<open>Exactly once\<close>

abbreviation mine :: "bus \<Rightarrow> sse \<Rightarrow> channel" where
  "mine b s \<equiv> bus_channels b ! ss_chan s"

text \<open>The events the client asked for, of a list.\<close>

definition wanted :: "sse \<Rightarrow> event list \<Rightarrow> event list" where
  "wanted s es = filter (\<lambda>e. ss_after s < ev_id e) es"

lemma wanted_append [simp]: "wanted s (xs @ ys) = wanted s xs @ wanted s ys"
  by (simp add: wanted_def)

text \<open>What waits in the channel and will not be skipped.\<close>

definition awaiting :: "bus \<Rightarrow> sse \<Rightarrow> event list" where
  "awaiting b s = filter (\<lambda>e. ss_delivered s < ev_id e) (ch_buf (mine b s))"

definition stream_ok :: "event list \<Rightarrow> bus \<Rightarrow> sse \<Rightarrow> bool" where
  "stream_ok due b s =
     (bus_ok b \<and> ss_chan s < length (bus_channels b) \<and> ss_replay s \<and> ss_phase s \<noteq> Opened \<and>
      rising (ss_sent s) \<and> (\<forall>e \<in> set (ss_sent s). ss_after s < ev_id e \<and> ev_id e < bus_next b) \<and>
      ss_delivered s = (if ss_sent s = [] then ss_after s else ev_id (last (ss_sent s))) \<and>
      (\<exists>missed. ss_sent s @ awaiting b s @ missed = due \<and> (ch_member (mine b s) \<longrightarrow> missed = [])))"

lemma delivered_splits: "stream_ok due b s \<Longrightarrow> ev_id e = bus_next b \<Longrightarrow> ss_delivered s < ev_id e \<longleftrightarrow> ss_after s < ev_id e"
proof -
  assume s: "stream_ok due b s" and e: "ev_id e = bus_next b"
  show ?thesis
  proof (cases "ss_sent s = []")
    case False
    then have "last (ss_sent s) \<in> set (ss_sent s)" by simp
    then have l: "ss_after s < ev_id (last (ss_sent s))" "ev_id (last (ss_sent s)) < bus_next b"
      using s unfolding stream_ok_def by blast+
    have "ss_delivered s = ev_id (last (ss_sent s))" using s False by (simp add: stream_ok_def)
    with l e show ?thesis by linarith
  qed (use s in \<open>simp add: stream_ok_def\<close>)
qed

lemma stream_ok_others:
  assumes "stream_ok due b s" "bus_ok b'" "bus_next b \<le> bus_next b'" "ss_chan s < length (bus_channels b')"
    "ch_buf (mine b' s) = ch_buf (mine b s)" "ch_member (mine b' s) \<Longrightarrow> ch_member (mine b s)"
  shows "stream_ok due b' s"
  using assms by (fastforce simp: stream_ok_def awaiting_def)

lemma stream_ok_publish:
  assumes s: "stream_ok due b s"
  shows "stream_ok (due @ wanted s (if bus_stopping b \<or> \<not> stored then [] else [last (bus_journal (publish_event kind payload now stored b))]))
    (publish_event kind payload now stored b) s"
proof (cases "bus_stopping b \<or> \<not> stored")
  case True
  then show ?thesis using s by (simp add: publish_event_def wanted_def)
next
  case False
  define e where "e = \<lparr>ev_id = bus_next b, ev_kind = kind, ev_payload = payload, ev_created_at = now\<rparr>"
  have p: "publish_event kind payload now stored b = b\<lparr>bus_journal := bus_journal b @ [e], bus_next := bus_next b + 1,
      bus_channels := map (deliver e) (bus_channels b)\<rparr>"
    using False by (simp add: publish_event_def append_event_def e_def Let_def)
  have ok: "bus_ok (publish_event kind payload now stored b)" using s bus_ok_publish by (auto simp: stream_ok_def)
  have id: "ev_id e = bus_next b" by (simp add: e_def)
  note news = delivered_splits[OF s id]
  obtain missed where m: "ss_sent s @ awaiting b s @ missed = due" "ch_member (mine b s) \<longrightarrow> missed = []"
    using s by (auto simp: stream_ok_def)
  have chan: "mine (publish_event kind payload now stored b) s = deliver e (mine b s)"
    using s by (simp add: p stream_ok_def)
  have "\<exists>missed'. ss_sent s @ awaiting (publish_event kind payload now stored b) s @ missed' = due @ wanted s [e] \<and>
      (ch_member (mine (publish_event kind payload now stored b) s) \<longrightarrow> missed' = [])"
  proof (cases "ch_member (mine b s) \<and> length (ch_buf (mine b s)) < channel_capacity")
    case True
    then have "awaiting (publish_event kind payload now stored b) s = awaiting b s @ wanted s [e]"
      by (auto simp: awaiting_def chan deliver_def wanted_def news)
    with m True show ?thesis by auto
  next
    case full: False
    then have "awaiting (publish_event kind payload now stored b) s = awaiting b s"
      "\<not> ch_member (mine (publish_event kind payload now stored b) s)"
      by (auto simp: awaiting_def chan deliver_def)
    with m show ?thesis by (intro exI[of _ "missed @ wanted s [e]"]) simp
  qed
  moreover have "(if bus_stopping b \<or> \<not> stored then [] else [last (bus_journal (publish_event kind payload now stored b))]) = [e]"
    unfolding p using False by simp
  ultimately show ?thesis
    using s ok by (fastforce simp: stream_ok_def p)
qed

lemma stream_ok_bus: "bus_step (ss_chan s) b es b' \<Longrightarrow> stream_ok due b s \<Longrightarrow> stream_ok (due @ wanted s es) b' s"
proof (induction rule: bus_step.induct)
  case publishes
  then show ?case by (rule stream_ok_publish)
next
  case (prunes b now)
  show ?case
    using stream_ok_others[OF prunes, of "prune_history now b"] prunes bus_ok_prune
    by (auto simp: wanted_def prune_history_def stream_ok_def)
next
  case (subscribes b)
  then have c: "mine (snd (subscribe_events b)) s = mine b s" "ss_chan s < length (bus_channels (snd (subscribe_events b)))"
    by (auto simp: subscribe_events_def stream_ok_def nth_append)
  have "bus_ok (snd (subscribe_events b))" using subscribes bus_ok_step[OF bus_step.subscribes] by (simp add: stream_ok_def)
  with c show ?case
    using stream_ok_others[OF subscribes, of "snd (subscribe_events b)"] by (simp add: wanted_def) (simp add: subscribe_events_def)
next
  case (cancels i b)
  then show ?case
    using stream_ok_others[OF cancels(2), of "cancel_subscription i b"] bus_ok_cancel[of b i]
    by (auto simp: wanted_def cancel_subscription_def stream_ok_def)
next
  case (drains i b)
  then show ?case
    using stream_ok_others[OF drains(3), of "pop_channel i b"] bus_ok_pop[of b i]
    by (auto simp: wanted_def pop_channel_def stream_ok_def)
next
  case (closes b)
  have "bus_ok (close_event_streams b)" using closes bus_ok_step[OF bus_step.closes] by (simp add: stream_ok_def)
  note ok = this
  have c: "mine (close_event_streams b) s = close_channel (mine b s)" "bus_next (close_event_streams b) = bus_next b"
    "length (bus_channels (close_event_streams b)) = length (bus_channels b)" "ss_chan s < length (bus_channels b)"
    using closes by (auto simp: close_event_streams_def stream_ok_def)
  have "stream_ok due (close_event_streams b) s"
    by (rule stream_ok_others[OF closes ok]) (simp_all only: c close_channel_def order_refl, simp_all split: if_splits)
  then show ?case by (simp add: wanted_def)
next
  case (stops b)
  have "bus_ok (b\<lparr>bus_stopping := True\<rparr>)" using stops by (auto simp: stream_ok_def bus_ok_def)
  then show ?case
    using stream_ok_others[OF stops, of "b\<lparr>bus_stopping := True\<rparr>"] stops by (auto simp: wanted_def stream_ok_def)
qed

lemma stream_ok_receive:
  assumes s: "stream_ok due b s" and buf: "ch_buf (mine b s) = e # rest"
  shows "stream_ok due (pop_channel (ss_chan s) b) (receive e s)"
proof -
  have i: "ss_chan s < length (bus_channels b)" and b: "bus_ok b" using s by (simp_all add: stream_ok_def)
  have c: "channel_ok (bus_next b) (mine b s)" using b i by (simp add: bus_ok_def list_all_length)
  have rest: "rising rest" "\<forall>x \<in> set rest. ev_id e < ev_id x" "ev_id e < bus_next b"
    using c buf by (auto simp: channel_ok_def)
  have pop: "mine (pop_channel (ss_chan s) b) s = (mine b s)\<lparr>ch_buf := rest\<rparr>" "bus_next (pop_channel (ss_chan s) b) = bus_next b"
    "length (bus_channels (pop_channel (ss_chan s) b)) = length (bus_channels b)"
    using i buf by (simp_all add: pop_channel_def)
  obtain missed where m: "ss_sent s @ awaiting b s @ missed = due" "ch_member (mine b s) \<longrightarrow> missed = []"
    using s by (auto simp: stream_ok_def)
  have replay: "ss_replay s" using s by (simp add: stream_ok_def)
  show ?thesis
  proof (cases "ev_id e \<le> ss_delivered s")
    case True
    then have "awaiting (pop_channel (ss_chan s) b) s = awaiting b s" by (simp add: awaiting_def pop buf)
    moreover have "receive e s = s" using True replay by (simp add: receive_def)
    ultimately show ?thesis
      using s m bus_ok_pop[OF b i] by (auto simp: stream_ok_def pop)
  next
    case False
    define s' where "s' = receive e s"
    have s': "ss_sent s' = ss_sent s @ [e]" "ss_delivered s' = ev_id e" "ss_chan s' = ss_chan s" "ss_after s' = ss_after s"
      "ss_replay s' = ss_replay s" "ss_phase s' = ss_phase s"
      using False by (auto simp: s'_def receive_def send_event_def)
    have after: "ss_after s < ev_id e" "\<forall>x \<in> set (ss_sent s). ev_id x < ev_id e"
    proof -
      have d: "ss_after s \<le> ss_delivered s" "\<forall>x \<in> set (ss_sent s). ev_id x \<le> ss_delivered s"
        using s by (cases "ss_sent s" rule: rev_cases; force simp: stream_ok_def)+
      from d False show "ss_after s < ev_id e" by simp
      from d False show "\<forall>x \<in> set (ss_sent s). ev_id x < ev_id e" by fastforce
    qed
    have p: "awaiting b s = e # rest"
      using False rest(2) by (auto simp: awaiting_def buf filter_id_conv)
    have p': "awaiting (pop_channel (ss_chan s) b) s' = rest"
      using rest(2) by (auto simp: awaiting_def s' pop filter_id_conv)
    have "ss_sent s' @ awaiting (pop_channel (ss_chan s) b) s' @ missed = due"
      using m p by (simp add: p' s')
    then show ?thesis
      unfolding s'_def[symmetric]
      using s m(2) after rest(3) bus_ok_pop[OF b i] by (auto simp: stream_ok_def s' pop)
  qed
qed

lemma stream_ok_same:
  "stream_ok due b s \<Longrightarrow> ss_chan s' = ss_chan s \<and> ss_replay s' = ss_replay s \<and> ss_phase s' \<noteq> Opened \<and> ss_sent s' = ss_sent s \<and>
     ss_after s' = ss_after s \<and> ss_delivered s' = ss_delivered s \<Longrightarrow> stream_ok due b s'"
  unfolding stream_ok_def awaiting_def by metis

lemma stream_ok_leave: "stream_ok due b s \<Longrightarrow> stream_ok due (cancel_subscription (ss_chan s) b) (s\<lparr>ss_phase := Ended\<rparr>)"
proof -
  assume s: "stream_ok due b s"
  then have b: "bus_ok (cancel_subscription (ss_chan s) b)" and i: "ss_chan s < length (bus_channels b)"
    using bus_ok_cancel by (auto simp: stream_ok_def)
  have c: "mine (cancel_subscription (ss_chan s) b) s = close_channel (mine b s)"
    "bus_next (cancel_subscription (ss_chan s) b) = bus_next b"
    "length (bus_channels (cancel_subscription (ss_chan s) b)) = length (bus_channels b)"
    using i by (simp_all add: cancel_subscription_def)
  have "stream_ok due (cancel_subscription (ss_chan s) b) s"
    by (rule stream_ok_others[OF s b]) (simp_all only: c close_channel_def order_refl i, simp_all split: if_splits)
  moreover have "ss_chan (s\<lparr>ss_phase := Ended\<rparr>) = ss_chan s \<and> ss_replay (s\<lparr>ss_phase := Ended\<rparr>) = ss_replay s \<and>
    ss_phase (s\<lparr>ss_phase := Ended\<rparr>) \<noteq> Opened \<and> ss_sent (s\<lparr>ss_phase := Ended\<rparr>) = ss_sent s \<and>
    ss_after (s\<lparr>ss_phase := Ended\<rparr>) = ss_after s \<and> ss_delivered (s\<lparr>ss_phase := Ended\<rparr>) = ss_delivered s"
    by simp
  ultimately show ?thesis by (rule stream_ok_same)
qed

lemma live_step_ok: "live_step (b, s) es (b', s') \<Longrightarrow> stream_ok due b s \<Longrightarrow>
    stream_ok (due @ wanted s es) b' s' \<and> ss_after s' = ss_after s"
  by (erule live_step.cases)
    (auto simp: wanted_def[of _ "[]"] intro: stream_ok_bus stream_ok_receive stream_ok_leave,
     auto simp: receive_def send_event_def)

lemma live_run_ok: "live_run x es y \<Longrightarrow> stream_ok due (fst x) (snd x) \<Longrightarrow>
    stream_ok (due @ wanted (snd x) es) (fst y) (snd y) \<and> ss_after (snd y) = ss_after (snd x)"
proof (induction rule: live_run.induct)
  case (moves x es y es' z)
  then show ?case using live_step_ok[of "fst y" "snd y" es' "fst z" "snd z"] by (fastforce simp: wanted_def)
qed (simp add: wanted_def)

text \<open>The replay of a backlog: its events are sent and the last one is the mark.\<close>

lemma send_all:
  "rising es \<Longrightarrow> \<forall>e \<in> set es. ss_delivered s < ev_id e \<Longrightarrow>
   foldl (\<lambda>t e. send_event e t) s es =
     s\<lparr>ss_sent := ss_sent s @ es, ss_delivered := (if es = [] then ss_delivered s else ev_id (last es))\<rparr>"
  by (induction es arbitrary: s) (auto simp: send_event_def)

lemma replayed:
  assumes "bus_ok b" "ss_replay s" "ss_sent s = []" "ss_delivered s = ss_after s"
  shows "replay True b s = (let es = take 200 (wanted s (bus_journal b)) in
    s\<lparr>ss_sent := es, ss_delivered := (if es = [] then ss_after s else ev_id (last es)), ss_phase := Live\<rparr>)"
proof -
  define es where "es = take 200 (wanted s (bus_journal b))"
  have es: "list_events (ss_after s) 200 (bus_journal b) = es" by (simp add: list_events_def es_def wanted_def)
  have "rising es" "\<forall>e \<in> set es. ss_delivered s < ev_id e"
    using assms by (auto simp: es_def wanted_def bus_ok_def rising_filter rising_take dest!: in_set_takeD)
  from send_all[OF this] show ?thesis by (simp add: replay_def assms es Let_def es_def[symmetric])
qed

lemma replay_stream_ok:
  assumes b: "bus_ok b" and s: "ss_replay s" "ss_sent s = []" "ss_delivered s = ss_after s"
    and i: "ss_chan s < length (bus_channels b)" and short: "length (wanted s (bus_journal b)) \<le> 200"
  shows "stream_ok (wanted s (bus_journal b)) b (replay True b s)"
proof -
  define es where "es = wanted s (bus_journal b)"
  have r: "replay True b s = s\<lparr>ss_sent := es, ss_delivered := (if es = [] then ss_after s else ev_id (last es)), ss_phase := Live\<rparr>"
    using replayed[OF b s] short by (simp add: es_def[symmetric] Let_def)
  have rising: "rising es" "\<forall>e \<in> set es. ss_after s < ev_id e \<and> ev_id e < bus_next b"
    using b by (auto simp: es_def wanted_def bus_ok_def rising_filter)
  have buf: "\<forall>x \<in> set (ch_buf (mine b s)). 1 \<le> ev_id x \<and> ev_id x < bus_next b"
    using b i by (simp add: bus_ok_def list_all_length channel_ok_def)
  have mark: "bus_next b = 1 \<or> bus_next b - 1 \<le> (if es = [] then ss_after s else ev_id (last es))"
  proof (cases "bus_next b = 1")
    case False
    then obtain e where e: "e \<in> set (bus_journal b)" "ev_id e = bus_next b - 1" using b by (auto simp: bus_ok_def)
    show ?thesis
    proof (cases "e \<in> set es")
      case True
      with rising(1) have "ev_id e \<le> ev_id (last es)"
        by (cases es rule: rev_cases) (auto simp: less_imp_le)
      with e True show ?thesis by auto
    next
      case out: False
      then have "ev_id e \<le> ss_after s" using e by (auto simp: es_def wanted_def)
      moreover have "es = []"
      proof (rule ccontr)
        assume "es \<noteq> []"
        then have "last es \<in> set es" by simp
        with rising(2) e calculation show False by force
      qed
      ultimately show ?thesis using e by simp
    qed
  qed simp
  then have "awaiting b (replay True b s) = []"
    using buf by (fastforce simp: awaiting_def r filter_empty_conv)
  then show ?thesis
    using b s i rising by (auto simp: stream_ok_def r es_def[symmetric])
qed

lemma opened:
  "open_stream query header b0 = (b1, s1) \<Longrightarrow> bus_ok b0 \<Longrightarrow>
   bus_ok b1 \<and> ss_chan s1 < length (bus_channels b1) \<and> ss_sent s1 = [] \<and> ss_delivered s1 = ss_after s1 \<and>
   ss_replay s1 = (query \<noteq> None \<or> header \<noteq> []) \<and> ch_buf (mine b1 s1) = [] \<and> bus_next b1 = bus_next b0 \<and>
   bus_journal b1 = bus_journal b0"
  using bus_ok_step[OF bus_step.subscribes[of 0 b0]]
  by (auto simp: open_stream_def Let_def subscribe_events_def)

lemma bus_step_length: "bus_step i b es b' \<Longrightarrow> length (bus_channels b) \<le> length (bus_channels b') \<and> bus_next b \<le> bus_next b'"
  by (induction rule: bus_step.induct)
    (auto simp: publish_event_def Let_def prune_history_def subscribe_events_def cancel_subscription_def pop_channel_def close_event_streams_def)

lemma bus_run_length: "bus_run i b es b' \<Longrightarrow> length (bus_channels b) \<le> length (bus_channels b') \<and> bus_next b \<le> bus_next b'"
  by (induction rule: bus_run.induct) (use bus_step_length in fastforce)+

text \<open>
  Property C35: whatever is published, pruned, subscribed and cancelled meanwhile, a client that names the last event
  it has, and has missed no more than 200, gets every event of the journal after it and every event that is
  published from then on, each once and in order, as long as its channel does not overflow; and what it has got is
  always a first part of that.
\<close>

theorem events_exactly_once:
  assumes "bus_ok b0" "open_stream query header b0 = (b1, s1)" "query \<noteq> None \<or> header \<noteq> []"
    "bus_run (ss_chan s1) b1 es0 b2" "length (wanted s1 (bus_journal b2)) \<le> 200"
    "live_run (b2, replay True b2 s1) es (b3, s3)"
  shows "rising (ss_sent s3) \<and>
    (\<exists>missed. ss_sent s3 @ awaiting b3 s3 @ missed = wanted s1 (bus_journal b2 @ es) \<and>
      (ch_member (mine b3 s3) \<longrightarrow> missed = []))"
proof -
  note op = opened[OF assms(2,1)]
  have "bus_ok b2" using bus_ok_run[OF assms(4)] op by blast
  moreover have "ss_chan s1 < length (bus_channels b2)" using bus_run_length[OF assms(4)] op by linarith
  ultimately have "stream_ok (wanted s1 (bus_journal b2)) b2 (replay True b2 s1)"
    using replay_stream_ok op assms(3,5) by blast
  then have "stream_ok (wanted s1 (bus_journal b2) @ wanted (replay True b2 s1) es) b3 s3"
    using live_run_ok[OF assms(6)] by simp
  moreover have "ss_after (replay True b2 s1) = ss_after s1"
    using replayed[OF \<open>bus_ok b2\<close>] op assms(3) by (simp add: Let_def)
  ultimately show ?thesis by (auto simp: stream_ok_def wanted_def)
qed

subsection \<open>A longer backlog\<close>

text \<open>The channel only brings what was published after the subscription.\<close>

lemma bus_step_channel:
  "bus_step i b es b' \<Longrightarrow> i < length (bus_channels b) \<Longrightarrow>
   set (ch_buf (bus_channels b' ! i)) \<subseteq> set (ch_buf (bus_channels b ! i)) \<union> set es \<and> (\<forall>e \<in> set es. bus_next b \<le> ev_id e)"
  by (induction rule: bus_step.induct)
    (auto simp: publish_event_def append_event_def Let_def prune_history_def subscribe_events_def cancel_subscription_def
      pop_channel_def close_event_streams_def deliver_def close_channel_def nth_append nth_list_update split: if_splits)

lemma bus_run_channel:
  "bus_run i b es b' \<Longrightarrow> i < length (bus_channels b) \<Longrightarrow>
   set (ch_buf (bus_channels b' ! i)) \<subseteq> set (ch_buf (bus_channels b ! i)) \<union> set es \<and> (\<forall>e \<in> set es. bus_next b \<le> ev_id e)"
proof (induction rule: bus_run.induct)
  case (goes b es b' es' b'')
  have "i < length (bus_channels b')" "bus_next b \<le> bus_next b'" using bus_run_length[OF goes(1)] goes(4) by auto
  with bus_step_channel[OF goes(2)] goes(3,4) show ?case by fastforce
qed simp

lemma live_step_sent:
  "live_step (b, s) es (b', s') \<Longrightarrow> ss_chan s < length (bus_channels b) \<Longrightarrow>
   ss_chan s' = ss_chan s \<and> bus_next b \<le> bus_next b' \<and> length (bus_channels b) \<le> length (bus_channels b') \<and>
   set (ss_sent s') \<union> set (ch_buf (mine b' s')) \<subseteq> set (ss_sent s) \<union> set (ch_buf (mine b s)) \<union> set es \<and>
   (\<forall>e \<in> set es. bus_next b \<le> ev_id e)"
proof (erule live_step.cases, goal_cases)
  case (1 t c fs c')
  then show ?case using bus_step_channel[of "ss_chan s" b es b'] bus_step_length[of "ss_chan s" b es b'] by auto
next
  case (2 t c e rest)
  then show ?case by (auto simp: receive_def send_event_def pop_channel_def split: if_splits)
qed (auto simp: cancel_subscription_def close_channel_def)

lemma live_run_sent:
  "live_run x es y \<Longrightarrow> ss_chan (snd x) < length (bus_channels (fst x)) \<Longrightarrow>
   ss_chan (snd y) = ss_chan (snd x) \<and> bus_next (fst x) \<le> bus_next (fst y) \<and>
   length (bus_channels (fst x)) \<le> length (bus_channels (fst y)) \<and>
   set (ss_sent (snd y)) \<union> set (ch_buf (mine (fst y) (snd y))) \<subseteq>
     set (ss_sent (snd x)) \<union> set (ch_buf (mine (fst x) (snd x))) \<union> set es \<and>
   (\<forall>e \<in> set es. bus_next (fst x) \<le> ev_id e)"
proof (induction rule: live_run.induct)
  case (moves x es y es' z)
  have "ss_chan (snd y) < length (bus_channels (fst y))" using moves(3,4) by auto
  with live_step_sent[of "fst y" "snd y" es' "fst z" "snd z"] moves(2-4) show ?case by fastforce
qed simp

lemma long_replay_stream_ok:
  assumes b: "bus_ok b" and s: "ss_replay s" "ss_sent s = []" "ss_delivered s = ss_after s"
    and i: "ss_chan s < length (bus_channels b)"
  shows "stream_ok (take 200 (wanted s (bus_journal b)) @ awaiting b (replay True b s)) b (replay True b s)"
proof -
  define es where "es = take 200 (wanted s (bus_journal b))"
  have r: "replay True b s = s\<lparr>ss_sent := es, ss_delivered := (if es = [] then ss_after s else ev_id (last es)), ss_phase := Live\<rparr>"
    using replayed[OF b s] by (simp add: es_def[symmetric] Let_def)
  have "rising es" "\<forall>e \<in> set es. ss_after s < ev_id e \<and> ev_id e < bus_next b"
    using b by (auto simp: es_def wanted_def bus_ok_def rising_filter rising_take dest!: in_set_takeD)
  then show ?thesis
    unfolding es_def[symmetric] using b s i by (auto simp: stream_ok_def r)
qed

lemma live_step_grows: "live_step (b, s) es (b', s') \<Longrightarrow> \<exists>rest. ss_sent s' = ss_sent s @ rest"
  by (erule live_step.cases) (auto simp: receive_def send_event_def)

lemma live_run_grows: "live_run x es y \<Longrightarrow> \<exists>rest. ss_sent (snd y) = ss_sent (snd x) @ rest"
proof (induction rule: live_run.induct)
  case (moves x es y es' z)
  then show ?case using live_step_grows[of "fst y" "snd y" es' "fst z" "snd z"] by fastforce
qed simp

text \<open>
  Property C36: of a backlog of more than 200 events, though the journal keeps at least a thousand for the replay, exactly
  the first 200 are replayed; then come, in order, those the channel holds behind them and everything that is
  published from then on, as long as the channel does not overflow.  An event of the old journal behind the first 200
  is never among them, while every event that follows the replay has a higher id: the client names one of these
  when it reconnects, so it never gets the others.
\<close>

theorem long_backlog_lost:
  assumes "bus_ok b0" "open_stream query header b0 = (b1, s1)" "query \<noteq> None \<or> header \<noteq> []"
    "bus_run (ss_chan s1) b1 es0 b2" "e \<in> set (bus_journal b0)" "e \<in> set (drop 200 (wanted s1 (bus_journal b2)))"
    "live_run (b2, replay True b2 s1) es (b3, s3)"
  shows "e \<notin> set (ss_sent s3) \<and> ss_after s1 < ev_id e \<and>
    (\<exists>rest missed. ss_sent s3 = take 200 (wanted s1 (bus_journal b2)) @ rest \<and>
      rest @ awaiting b3 s3 @ missed = awaiting b2 (replay True b2 s1) @ es \<and> (ch_member (mine b3 s3) \<longrightarrow> missed = []) \<and>
      (\<forall>x \<in> set rest. ev_id e < ev_id x))"
proof -
  note op = opened[OF assms(2,1)]
  have b2: "bus_ok b2" using bus_ok_run[OF assms(4)] op by blast
  have i: "ss_chan s1 < length (bus_channels b1)" "ss_chan s1 < length (bus_channels b2)" "bus_next b1 \<le> bus_next b2"
    using bus_run_length[OF assms(4)] op by auto
  define ws where "ws = wanted s1 (bus_journal b2)"
  define s2 where "s2 = replay True b2 s1"
  have s2: "ss_sent s2 = take 200 ws" "ss_chan s2 = ss_chan s1" "ss_after s2 = ss_after s1"
    using replayed[OF b2] op assms(3) by (simp_all add: Let_def ws_def s2_def)
  have old: "ev_id e < bus_next b1" "ss_after s1 < ev_id e"
    using assms(1,5,6) op by (auto simp: bus_ok_def wanted_def dest: in_set_dropD)
  have ids: "\<forall>x \<in> set es. bus_next b2 \<le> ev_id x" using live_run_sent[OF assms(7)] i by (simp add: s2[unfolded s2_def])
  then have "\<forall>x \<in> set es. ss_after s1 < ev_id x" using old i(3) by fastforce
  then have es: "wanted s2 es = es" by (simp add: wanted_def s2)
  have "stream_ok (take 200 ws @ awaiting b2 s2) b2 s2"
    using long_replay_stream_ok[OF b2] op assms(3) i(2) by (simp add: ws_def s2_def)
  then have "stream_ok ((take 200 ws @ awaiting b2 s2) @ es) b3 s3"
    using live_run_ok[OF assms(7)[folded s2_def]] by (simp only: fst_conv snd_conv es)
  then obtain missed where m: "ss_sent s3 @ awaiting b3 s3 @ missed = take 200 ws @ awaiting b2 s2 @ es"
    "ch_member (mine b3 s3) \<longrightarrow> missed = []"
    by (auto simp: stream_ok_def)
  obtain rest where rest: "ss_sent s3 = take 200 ws @ rest" using live_run_grows[OF assms(7)] by (auto simp: s2[unfolded s2_def])
  with m(1) have due: "rest @ awaiting b3 s3 @ missed = awaiting b2 s2 @ es" by simp
  have "\<forall>x \<in> set (ch_buf (mine b2 s1)). ev_id e < ev_id x"
    using bus_run_channel[OF assms(4) i(1)] op old by fastforce
  then have "\<forall>x \<in> set (awaiting b2 s2 @ es). ev_id e < ev_id x"
    using ids old i(3) by (fastforce simp: awaiting_def s2)
  then have later: "\<forall>x \<in> set rest. ev_id e < ev_id x" unfolding due[symmetric] by simp
  have "rising ws" using b2 by (simp add: ws_def wanted_def bus_ok_def rising_filter)
  then have "e \<notin> set (take 200 ws)"
    using assms(6) rising_simps(3)[of "take 200 ws" "drop 200 ws"] by (fastforce simp: ws_def)
  with later rest old m(2) due show ?thesis unfolding ws_def s2_def by auto
qed

subsection \<open>Examples\<close>

definition some_event :: "int \<Rightarrow> event" where
  "some_event i = \<lparr>ev_id = i, ev_kind = ''catalog.updated'', ev_payload = [], ev_created_at = 0\<rparr>"

definition bus_of :: "nat \<Rightarrow> bus" where
  "bus_of n = \<lparr>bus_journal = map (\<lambda>k. some_event (int k + 1)) [0 ..< n], bus_next = int n + 1, bus_channels = [],
     bus_closed = False, bus_stopping = False\<rparr>"

lemma bus_of_ok: "bus_ok (bus_of n)"
proof -
  have "rising (map (\<lambda>k. some_event (int k + 1)) [0 ..< n])"
    by (simp add: rising_def sorted_wrt_map some_event_def sorted_wrt_iff_nth_less)
  moreover have "bus_next (bus_of n) = 1 \<or> (\<exists>e \<in> set (bus_journal (bus_of n)). ev_id e = bus_next (bus_of n) - 1)"
    by (cases n) (auto simp: bus_of_def some_event_def)
  ultimately show ?thesis by (simp add: bus_ok_def bus_of_def some_event_def)
qed

text \<open>A client that has the second of three events, and one event that is published later.\<close>

lemma bus_of_open:
  "open_stream (Some ''2'') [] (bus_of n) = (snd (subscribe_events (bus_of n)),
     \<lparr>ss_chan = 0, ss_replay = True, ss_after = 2, ss_delivered = 2, ss_sent = [], ss_phase = Opened\<rparr>)"
  by (simp add: open_stream_def subscribe_events_def bus_of_def Let_def parse_int64_lossy_def parse_int64_def
      is_digit_def digit_val_def)

lemma filter_upt: "m \<le> n \<Longrightarrow> filter (\<lambda>k. m \<le> k) [0 ..< n] = [m ..< n]"
  by (induction n) (auto simp: le_Suc_eq filter_empty_conv)

lemma bus_of_wanted:
  assumes "2 \<le> n" "ss_after s = 2"
  shows "wanted s (bus_journal (bus_of n)) = map (\<lambda>k. some_event (int k + 1)) [2 ..< n]"
proof -
  have "wanted s (bus_journal (bus_of n)) = map (\<lambda>k. some_event (int k + 1)) (filter (\<lambda>k. 2 \<le> k) [0 ..< n])"
    unfolding wanted_def bus_of_def by (simp add: filter_map comp_def some_event_def assms(2))
  then show ?thesis using filter_upt[OF assms(1)] by simp
qed

lemma asked: "Some ''2'' \<noteq> None \<or> ([] :: string) \<noteq> []"
  by simp

lemma subscribed_journal: "bus_journal (snd (subscribe_events b)) = bus_journal b"
  by (simp add: subscribe_events_def)

theorem events_exactly_once_witness:
  "ss_sent (replay True (snd (subscribe_events (bus_of 3)))
     \<lparr>ss_chan = 0, ss_replay = True, ss_after = 2, ss_delivered = 2, ss_sent = [], ss_phase = Opened\<rparr>) = [some_event 3]"
proof -
  define b where "b = snd (subscribe_events (bus_of 3))"
  define s where "s = \<lparr>ss_chan = 0, ss_replay = True, ss_after = 2, ss_delivered = 2, ss_sent = ([] :: event list), ss_phase = Opened\<rparr>"
  have w: "wanted s (bus_journal b) = [some_event 3]"
    using bus_of_wanted[of 3 s] by (simp add: b_def s_def subscribed_journal upt_rec)
  have p: "ch_member (mine b (replay True b s))" "awaiting b (replay True b s) = []"
    by (simp_all add: b_def s_def subscribe_events_def bus_of_def awaiting_def replay_def list_events_def some_event_def send_event_def upt_rec)
  have short: "length (wanted s (bus_journal b)) \<le> 200" by (simp add: w)
  have "\<exists>missed. ss_sent (replay True b s) @ awaiting b (replay True b s) @ missed = wanted s (bus_journal b @ []) \<and>
      (ch_member (mine b (replay True b s)) \<longrightarrow> missed = [])"
    using events_exactly_once[OF bus_of_ok bus_of_open[of 3] asked bus_run.stays, folded b_def s_def, OF short live_run.waits] by blast
  then have "ss_sent (replay True b s) = [some_event 3]" using p w by simp
  then show ?thesis by (simp only: b_def s_def)
qed

theorem long_backlog_lost_witness:
  "\<exists>b s. live_run (snd (subscribe_events (bus_of 203)), replay True (snd (subscribe_events (bus_of 203)))
       \<lparr>ss_chan = 0, ss_replay = True, ss_after = 2, ss_delivered = 2, ss_sent = [], ss_phase = Opened\<rparr>)
       [some_event 204] (b, s) \<and> some_event 203 \<notin> set (ss_sent s) \<and> ss_delivered s = 204"
proof -
  define b where "b = snd (subscribe_events (bus_of 203))"
  define s where "s = \<lparr>ss_chan = 0, ss_replay = True, ss_after = 2, ss_delivered = 2, ss_sent = ([] :: event list), ss_phase = Opened\<rparr>"
  have ok: "bus_ok b" using bus_ok_step[OF bus_step.subscribes bus_of_ok] by (simp add: b_def)
  have w: "wanted s (bus_journal b) = map (\<lambda>k. some_event (int k + 1)) [2 ..< 203]"
    using bus_of_wanted[of 203 s] by (simp add: b_def subscribed_journal s_def)
  have parts: "take 200 [2 ..< 203] = [2 ..< 202]" "drop 200 [2 ..< 203] = [202]" by (simp_all add: take_upt drop_upt upt_rec)
  define es where "es = map (\<lambda>k. some_event (int k + 1)) [2 ..< 202]"
  have ne: "[2 ..< 202] \<noteq> []" "last [2 ..< 202] = 201" using last_upt[of 2 202] by (simp_all del: upt_rec_numeral)
  have es: "es \<noteq> []" "ev_id (last es) = 202" unfolding es_def last_map[OF ne(1)] using ne by (simp_all only: map_is_Nil_conv not_False_eq_True) (simp add: some_event_def)
  have s: "ss_replay s" "ss_sent s = []" "ss_delivered s = ss_after s" "ss_chan s = 0" by (simp_all add: s_def)
  define s2 where "s2 = replay True b s"
  have s2: "ss_chan s2 = 0" "ss_phase s2 = Live" "ss_replay s2" "ss_delivered s2 = 202"
    using replayed[OF ok s(1-3), unfolded w take_map parts(1) es_def[symmetric] Let_def] s(1,4) es by (simp_all add: s2_def)
  define b2 where "b2 = publish_event ''catalog.updated'' [] 0 True b"
  have b2: "bus_channels b2 ! 0 = \<lparr>ch_buf = [some_event 204], ch_member = True, ch_closed = False\<rparr>"
    "last (bus_journal b2) = some_event 204" "\<not> bus_stopping b"
    by (simp_all add: b2_def b_def publish_event_def append_event_def subscribe_events_def bus_of_def deliver_def
        channel_capacity_def Let_def some_event_def)
  have "live_run (b, s2) ([] @ [some_event 204]) (b2, s2)"
    using live_run.moves[OF live_run.waits live_step.others[OF bus_step.publishes[of "ss_chan s2" b True "''catalog.updated''" "[]" 0]]]
    by (simp add: b2(3) b2_def[symmetric] b2(2))
  then have run: "live_run (b, s2) (([] @ [some_event 204]) @ []) (pop_channel (ss_chan s2) b2, receive (some_event 204) s2)"
    by (rule live_run.moves) (rule live_step.receives[where rest = "[]"], simp_all add: s2 b2)
  have e: "some_event 203 \<in> set (bus_journal (bus_of 203))"
    unfolding bus_of_def by (simp only: bus.select_convs set_map image_iff set_upt) (rule bexI[of _ 202], simp_all)
  have lost: "some_event 203 \<in> set (drop 200 (wanted s (bus_journal b)))" by (simp add: w drop_map parts)
  have "some_event 203 \<notin> set (ss_sent (receive (some_event 204) s2))"
    using long_backlog_lost[OF bus_of_ok bus_of_open[of 203] asked bus_run.stays e, folded b_def s_def, OF lost run[unfolded s2_def]]
    by (simp add: s2_def)
  moreover have "ss_delivered (receive (some_event 204) s2) = 204"
    by (simp add: receive_def send_event_def s2 some_event_def)
  ultimately show ?thesis using run unfolding b_def[symmetric] s_def[symmetric] s2_def[symmetric] by auto
qed

end
