(* ===== verification/Title_Details.thy ===== *)
theory Title_Details
  imports Domain_Model Catalog_Group
begin

text \<open>
  The extended description of a title and of its seasons (\<open>internal/application/titleinfo.go\<close>,
  \<open>seasoninfo.go\<close>, the caches of \<open>repository.go\<close>): what a request shows from the cache, what a fetch of the
  provider stores, and what is presented.  A fetch runs under a deadline of its own; once it has passed, the
  database refuses the statement that would store the outcome, as \<open>database/sql\<close> documents.  Every read of the
  database may fail, the read of a cache included, which the code takes for a row that is missing.  Documents of
  seasons are kept encoded; the codec of \<open>encoding/json\<close> is an argument.
\<close>

subsection \<open>Data\<close>

record title_info =
  ti_title_id :: string
  ti_provider :: string
  ti_provider_id :: string
  ti_kind :: media_kind
  ti_language :: string
  ti_tagline :: string
  ti_overview :: string
  ti_release_date :: string
  ti_last_air_date :: string
  ti_status :: string
  ti_runtime_minutes :: int
  ti_rating :: rat
  ti_rating_votes :: int
  ti_rating_provider :: string
  ti_genres :: "string list"
  ti_cast :: "cast_entry list"
  ti_directors :: "string list"
  ti_creators :: "string list"
  ti_countries :: "string list"
  ti_original_language :: string
  ti_seasons :: int
  ti_episodes :: int
  ti_certification :: string
  ti_available :: bool
  ti_fetched_at :: go_time
  ti_expires_at :: go_time

definition zero_title_info :: title_info where
  "zero_title_info = \<lparr>ti_title_id = [], ti_provider = [], ti_provider_id = [], ti_kind = [], ti_language = [],
     ti_tagline = [], ti_overview = [], ti_release_date = [], ti_last_air_date = [], ti_status = [],
     ti_runtime_minutes = 0, ti_rating = 0, ti_rating_votes = 0, ti_rating_provider = [], ti_genres = [], ti_cast = [],
     ti_directors = [], ti_creators = [], ti_countries = [], ti_original_language = [], ti_seasons = 0, ti_episodes = 0,
     ti_certification = [], ti_available = False, ti_fetched_at = zero_time, ti_expires_at = zero_time\<rparr>"

type_synonym info_key = "string \<times> string \<times> media_kind \<times> string"

definition info_key_of :: "title_info \<Rightarrow> info_key" where
  "info_key_of i = (ti_provider i, ti_provider_id i, ti_kind i, ti_language i)"

text \<open>A column of seconds.\<close>

definition whole_seconds :: "go_time \<Rightarrow> go_time" where
  "whole_seconds t = t div second * second"

definition save_title_info :: "title_info \<Rightarrow> title_info list \<Rightarrow> title_info list" where
  "save_title_info i = upsert info_key_of
     (i\<lparr>ti_fetched_at := whole_seconds (ti_fetched_at i), ti_expires_at := whole_seconds (ti_expires_at i)\<rparr>)"

definition get_title_info :: "info_key \<Rightarrow> title_info list \<Rightarrow> title_info option" where
  "get_title_info k rows = row_of info_key_of k rows"

definition delete_title_info :: "info_key \<Rightarrow> title_info list \<Rightarrow> title_info list" where
  "delete_title_info k rows = delete_row info_key_of k rows"

definition title_info_backoff :: int where
  "title_info_backoff = 10 * minute"

subsection \<open>What is shown\<close>

definition artwork_url :: "string \<Rightarrow> string \<Rightarrow> string" where
  "artwork_url title_id rest = ''/api/v1/artwork/'' @ title_id @ ''/'' @ rest"

definition present_member :: "(nat \<Rightarrow> string) \<Rightarrow> nat \<times> cast_entry \<Rightarrow> cast_entry" where
  "present_member url = (\<lambda>(i, m). m\<lparr>ca_image_url := (if ca_image_path m \<noteq> [] then url i else ca_image_url m), ca_image_path := []\<rparr>)"

definition present_cast :: "(nat \<Rightarrow> string) \<Rightarrow> cast_entry list \<Rightarrow> cast_entry list" where
  "present_cast url cast = map (present_member url) (enumerate 0 cast)"

definition present_title_info :: "string \<Rightarrow> title_info \<Rightarrow> catalog_metadata \<Rightarrow> title_info" where
  "present_title_info title_id info md =
     info\<lparr>ti_title_id := title_id,
          ti_cast := present_cast (\<lambda>i. artwork_url title_id (''cast-'' @ show_nat i)) (ti_cast info),
          ti_overview := (if ti_overview info = [] then cm_overview md else ti_overview info),
          ti_release_date := (if ti_release_date info = [] then cm_release_date md else ti_release_date info),
          ti_rating := (if ti_rating info = 0 then cm_rating md else ti_rating info),
          ti_rating_votes := (if ti_rating info = 0 then cm_rating_votes md else ti_rating_votes info),
          ti_rating_provider := (if ti_rating info = 0 then cm_rating_provider md else ti_rating_provider info),
          ti_genres := (if ti_genres info = [] then cm_genres md else ti_genres info)\<rparr>"

definition degraded_title_info :: "string \<Rightarrow> catalog_metadata \<Rightarrow> title_info" where
  "degraded_title_info title_id md =
     (let info = present_title_info title_id (zero_title_info\<lparr>ti_provider := cm_provider md,
            ti_provider_id := cm_provider_id md, ti_kind := cm_kind md, ti_language := cm_language md\<rparr>) md
      in info\<lparr>ti_available := (ti_overview info \<noteq> [] \<or> ti_release_date info \<noteq> [] \<or> 0 < ti_rating info \<or> ti_genres info \<noteq> [])\<rparr>)"

subsection \<open>The fetch\<close>

text \<open>
  What happens while one request is served: the time it comes, whether the cache can be read then, the time the
  provider has answered, the answer, whether the outcome can be stored by then (not when the deadline of the fetch has
  passed), and whether the request waited for it.
\<close>

datatype 'd provider_answer = Described 'd | Refused_Answer | Cancelled_Fetch

record 'd visit =
  vi_now :: go_time
  vi_read :: bool
  vi_then :: go_time
  vi_answer :: "'d provider_answer"
  vi_alive :: bool
  vi_waits :: bool

definition store_if :: "bool \<Rightarrow> title_info \<Rightarrow> title_info list \<Rightarrow> title_info list" where
  "store_if alive i rows = (if alive then save_title_info i rows else rows)"

definition stamped :: "info_key \<Rightarrow> go_time \<Rightarrow> title_info \<Rightarrow> title_info" where
  "stamped k now f =
     (case k of (p, pid, kind, lang) \<Rightarrow>
        let f1 = f\<lparr>ti_provider := p, ti_provider_id := pid, ti_kind := kind, ti_language := lang, ti_available := True\<rparr>;
            f2 = (if ti_fetched_at f1 = zero_time then f1\<lparr>ti_fetched_at := now\<rparr> else f1)
        in if ti_fetched_at f2 < ti_expires_at f2 then f2
           else f2\<lparr>ti_expires_at := ti_fetched_at f2 + 30 * 24 * hour\<rparr>)"

definition fetch_title_info ::
  "info_key \<Rightarrow> title_info option \<Rightarrow> title_info visit \<Rightarrow> title_info list \<Rightarrow> title_info option \<times> title_info list" where
  "fetch_title_info k cached v rows =
     (case vi_answer v of
        Cancelled_Fetch \<Rightarrow> (case cached of Some c \<Rightarrow> if ti_available c then Some c else None | None \<Rightarrow> None, rows)
      | Refused_Answer \<Rightarrow>
          (case cached of
             Some c \<Rightarrow> if ti_available c
               then (let c' = c\<lparr>ti_expires_at := vi_then v + title_info_backoff\<rparr> in (Some c', store_if (vi_alive v) c' rows))
               else (None, store_if (vi_alive v) (case k of (p, pid, kind, lang) \<Rightarrow>
                 zero_title_info\<lparr>ti_provider := p, ti_provider_id := pid, ti_kind := kind, ti_language := lang,
                   ti_fetched_at := vi_then v, ti_expires_at := vi_then v + title_info_backoff\<rparr>) rows)
           | None \<Rightarrow> (None, store_if (vi_alive v) (case k of (p, pid, kind, lang) \<Rightarrow>
                 zero_title_info\<lparr>ti_provider := p, ti_provider_id := pid, ti_kind := kind, ti_language := lang,
                   ti_fetched_at := vi_then v, ti_expires_at := vi_then v + title_info_backoff\<rparr>) rows))
      | Described f \<Rightarrow> (let f' = stamped k (vi_then v) f in (Some f', store_if (vi_alive v) f' rows)))"

text \<open>
  The cache in front of the provider: the details to show, if any, whether the provider was asked, and the cache
  afterwards.  A read that fails leaves nothing cached, like a row that is missing.  Requests that come while a fetch runs share it (\<open>flightGroup\<close>); they are given its answer.
\<close>

definition title_info_lookup ::
  "info_key \<Rightarrow> title_info visit \<Rightarrow> title_info list \<Rightarrow> title_info option \<times> bool \<times> title_info list" where
  "title_info_lookup k v rows =
     (let cached = (if vi_read v then get_title_info k rows else None) in
      if (case cached of Some c \<Rightarrow> vi_now v < ti_expires_at c | None \<Rightarrow> False)
      then (if ti_available (the cached) then cached else None, False, rows)
      else (case fetch_title_info k cached v rows of (i, rows') \<Rightarrow> (if vi_waits v then i else None, True, rows')))"

definition title_info_kind :: "catalog_metadata \<Rightarrow> media_kind option \<Rightarrow> media_kind" where
  "title_info_kind md sources_kind =
     (if cm_kind md \<noteq> [] then cm_kind md else case sources_kind of Some k \<Rightarrow> k | None \<Rightarrow> media_movie)"

text \<open>
  \<open>TitleInfo\<close>: the metadata is \<open>None\<close> when it is missing or cannot be read; the kind of the releases of the title is
  looked up where the metadata has none, and is \<open>None\<close> when there are no releases or they cannot be read.
\<close>

definition title_info_of ::
  "string \<Rightarrow> catalog_metadata option \<Rightarrow> bool \<Rightarrow> media_kind option \<Rightarrow> string \<Rightarrow> title_info visit \<Rightarrow> title_info list \<Rightarrow>
   title_info \<times> bool \<times> title_info list" where
  "title_info_of title_id found capable sources_kind language v rows =
     (case found of
        None \<Rightarrow> (degraded_title_info title_id zero_catalog_metadata, False, rows)
      | Some md \<Rightarrow>
          if cm_provider md = [] \<or> cm_provider_id md = [] \<or> \<not> capable then (degraded_title_info title_id md, False, rows)
          else (case title_info_lookup (cm_provider md, cm_provider_id md, title_info_kind md sources_kind, language) v rows of
                  (i, asked, rows') \<Rightarrow>
                    (case i of Some i \<Rightarrow> present_title_info title_id i md | None \<Rightarrow> degraded_title_info title_id md, asked, rows')))"

text \<open>\<open>castPhotoPath\<close>: the artwork kind of a cast photo back to the path it was made from.\<close>

definition cast_photo_path ::
  "string \<Rightarrow> catalog_metadata option \<Rightarrow> media_kind option \<Rightarrow> string \<Rightarrow> title_info list \<Rightarrow> string option" where
  "cast_photo_path kind found sources_kind language rows =
     (case parse_int64 (trim_prefix kind ''cast-'') of
        None \<Rightarrow> None
      | Some i \<Rightarrow>
          if i < 0 then None
          else (case found of
                  None \<Rightarrow> None
                | Some md \<Rightarrow>
                    (case get_title_info (cm_provider md, cm_provider_id md, title_info_kind md sources_kind, language) rows of
                       None \<Rightarrow> None
                     | Some info \<Rightarrow>
                         if int (length (ti_cast info)) \<le> i \<or> ca_image_path (ti_cast info ! nat i) = [] then None
                         else Some (ca_image_path (ti_cast info ! nat i)))))"

subsection \<open>Seasons\<close>

type_synonym season_key = "string \<times> string \<times> int \<times> string"

definition season_key_of :: "season_cache_entry \<Rightarrow> season_key" where
  "season_key_of e = (sc_provider e, sc_provider_id e, sc_season e, sc_language e)"

definition save_season_cache :: "season_cache_entry \<Rightarrow> season_cache_entry list \<Rightarrow> season_cache_entry list" where
  "save_season_cache e = upsert season_key_of
     (e\<lparr>sc_fetched_at := whole_seconds (sc_fetched_at e), sc_expires_at := whole_seconds (sc_expires_at e)\<rparr>)"

definition get_season_cache :: "season_key \<Rightarrow> season_cache_entry list \<Rightarrow> season_cache_entry option" where
  "get_season_cache k rows = row_of season_key_of k rows"

definition delete_season_cache :: "string \<Rightarrow> string \<Rightarrow> string \<Rightarrow> season_cache_entry list \<Rightarrow> season_cache_entry list" where
  "delete_season_cache p pid lang rows =
     filter (\<lambda>e. \<not> (sc_provider e = p \<and> sc_provider_id e = pid \<and> sc_language e = lang)) rows"

text \<open>A forced refresh drops the details of the title and all documents of its seasons.\<close>

definition expire_title_info ::
  "catalog_metadata option \<Rightarrow> media_kind option \<Rightarrow> string \<Rightarrow> title_info list \<times> season_cache_entry list \<Rightarrow>
   title_info list \<times> season_cache_entry list" where
  "expire_title_info found sources_kind language caches =
     (case found of
        None \<Rightarrow> caches
      | Some md \<Rightarrow>
          if cm_provider md = [] \<or> cm_provider_id md = [] then caches
          else (delete_title_info (cm_provider md, cm_provider_id md, title_info_kind md sources_kind, language) (fst caches),
                delete_season_cache (cm_provider md) (cm_provider_id md) language (snd caches)))"

definition season_info_ttl :: int where
  "season_info_ttl = 30 * 24 * hour"

definition season_fetch ::
  "season_key \<Rightarrow> season_cache_entry option \<Rightarrow> string visit \<Rightarrow> season_cache_entry list \<Rightarrow>
   string option \<times> season_cache_entry list" where
  "season_fetch k cached v rows =
     (case k of (p, pid, n, lang) \<Rightarrow>
        let have = (case cached of Some c \<Rightarrow> sc_available c | None \<Rightarrow> False);
            entry = \<lparr>sc_provider = p, sc_provider_id = pid, sc_season = n, sc_language = lang, sc_available = False,
                     sc_payload = [], sc_fetched_at = vi_then v, sc_expires_at = zero_time\<rparr>;
            store = (\<lambda>e. if vi_alive v then save_season_cache e rows else rows)
        in case vi_answer v of
             Cancelled_Fetch \<Rightarrow> (if have then Some (sc_payload (the cached)) else None, rows)
           | Refused_Answer \<Rightarrow>
               if have then (Some (sc_payload (the cached)), store (entry\<lparr>sc_available := True, sc_payload := sc_payload (the cached),
                   sc_fetched_at := sc_fetched_at (the cached), sc_expires_at := vi_then v + title_info_backoff\<rparr>))
               else (None, store (entry\<lparr>sc_payload := ''null'', sc_expires_at := vi_then v + title_info_backoff\<rparr>))
           | Described payload \<Rightarrow>
               (Some payload, store (entry\<lparr>sc_available := True, sc_payload := payload, sc_expires_at := vi_then v + season_info_ttl\<rparr>)))"

definition season_payload ::
  "season_key \<Rightarrow> bool \<Rightarrow> string visit \<Rightarrow> season_cache_entry list \<Rightarrow> string option \<times> bool \<times> season_cache_entry list" where
  "season_payload k capable v rows =
     (if \<not> capable then (None, False, rows)
      else let cached = (if vi_read v then get_season_cache k rows else None) in
        if (case cached of Some c \<Rightarrow> vi_now v < sc_expires_at c | None \<Rightarrow> False)
        then (if sc_available (the cached) then Some (sc_payload (the cached)) else None, False, rows)
        else (case season_fetch k cached v rows of
                (p, rows') \<Rightarrow> (if vi_waits v then p else None, True, rows')))"

text \<open>After a forced refresh the provider is asked for everything again.\<close>

lemma expired_asks_again:
  assumes "cm_provider md \<noteq> []" "cm_provider_id md \<noteq> []"
    "expire_title_info (Some md) sk lang (infos, seasons) = (infos', seasons')"
  shows "fst (snd (title_info_lookup (cm_provider md, cm_provider_id md, title_info_kind md sk, lang) v infos')) \<and>
    fst (snd (season_payload (cm_provider md, cm_provider_id md, n, lang) True w seasons'))"
proof -
  have eq: "infos' = delete_title_info (cm_provider md, cm_provider_id md, title_info_kind md sk, lang) infos"
    "seasons' = delete_season_cache (cm_provider md) (cm_provider_id md) lang seasons"
    using assms by (simp_all add: expire_title_info_def)
  have "get_title_info (cm_provider md, cm_provider_id md, title_info_kind md sk, lang) infos' = None"
    by (auto simp: eq get_title_info_def delete_title_info_def row_of_def delete_row_def find_None_iff)
  moreover have "get_season_cache (cm_provider md, cm_provider_id md, n, lang) seasons' = None"
    by (auto simp: eq get_season_cache_def delete_season_cache_def row_of_def find_None_iff season_key_of_def)
  ultimately show ?thesis by (simp add: title_info_lookup_def season_payload_def split: prod.splits)
qed

subsection \<open>The contract of a stale-if-error cache\<close>

text \<open>
  What the two caches have in common, for one key: \<open>row\<close> is what is stored, with whether it is usable and when it
  expires, and \<open>ask\<close> serves one visit.
\<close>

locale stale_cache =
  fixes row :: "'s \<Rightarrow> (bool \<times> 'd \<times> go_time) option"
    and ask :: "'p visit \<Rightarrow> 's \<Rightarrow> 'd option \<times> bool \<times> 's"
  assumes fresh: "vi_read v \<Longrightarrow> row s = Some (av, d, expires) \<Longrightarrow> vi_now v < expires \<Longrightarrow> ask v s = (if av then Some d else None, False, s)"
    and expired: "\<not> vi_read v \<or> row s = None \<or> (\<exists>av d expires. row s = Some (av, d, expires) \<and> expires \<le> vi_now v) \<Longrightarrow> fst (snd (ask v s))"
    and usable: "vi_read v \<Longrightarrow> row s = Some (True, d, expires) \<Longrightarrow>
      (vi_waits v \<or> vi_now v < expires \<longrightarrow> fst (ask v s) \<noteq> None) \<and> (\<exists>d' e'. row (snd (snd (ask v s))) = Some (True, d', e'))"
    and kept: "vi_read v \<Longrightarrow> row s = Some (True, d, expires) \<Longrightarrow> vi_answer v = Refused_Answer \<or> vi_answer v = Cancelled_Fetch \<Longrightarrow>
      (vi_waits v \<longrightarrow> fst (ask v s) = Some d) \<and> (\<exists>e'. row (snd (snd (ask v s))) = Some (True, d, e'))"
    and remembered: "fst (snd (ask v s)) \<Longrightarrow> vi_answer v = Refused_Answer \<Longrightarrow> vi_alive v \<Longrightarrow>
      \<exists>av d. row (snd (snd (ask v s))) = Some (av, d, whole_seconds (vi_then v + title_info_backoff))"
    and forgotten: "\<not> vi_alive v \<Longrightarrow> snd (snd (ask v s)) = s"
    and unread: "\<not> vi_read v \<Longrightarrow> vi_answer v = Refused_Answer \<Longrightarrow> vi_alive v \<Longrightarrow>
      \<exists>d. row (snd (snd (ask v s))) = Some (False, d, whole_seconds (vi_then v + title_info_backoff))"
begin

text \<open>A list of visits: their answers, whether they asked, and the cache in the end.\<close>

fun visits :: "'p visit list \<Rightarrow> 's \<Rightarrow> ('d option \<times> bool) list \<times> 's" where
  "visits [] s = ([], s)"
| "visits (v # vs) s =
     (case ask v s of (d, asked, s') \<Rightarrow> (case visits vs s' of (rest, s'') \<Rightarrow> ((d, asked) # rest, s'')))"

lemma visits_Nil: "fst (visits [] s) = []"
  by simp

lemma visits_Cons: "fst (visits (v # vs) s) = (fst (ask v s), fst (snd (ask v s))) # fst (visits vs (snd (snd (ask v s))))"
  by (simp split: prod.splits)

lemma visits_usable:
  "row s = Some (True, d, expires) \<Longrightarrow> list_all vi_read vs \<Longrightarrow>
   list_all2 (\<lambda>v a. vi_waits v \<longrightarrow> fst a \<noteq> None) vs (fst (visits vs s))"
proof (induction vs arbitrary: s d expires)
  case (Cons v vs)
  from usable[OF _ Cons.prems(1), of v] Cons.prems(2) obtain d' e' where "row (snd (snd (ask v s))) = Some (True, d', e')"
    "vi_waits v \<longrightarrow> fst (ask v s) \<noteq> None" by auto
  with Cons show ?case by (simp add: visits_Cons del: visits.simps)
qed simp

text \<open>While nothing new can be had, the answers are the details that are stored.\<close>

lemma visits_kept:
  "row s = Some (True, d, expires) \<Longrightarrow> list_all vi_read vs \<Longrightarrow> list_all (\<lambda>v. vi_answer v = Refused_Answer \<or> vi_answer v = Cancelled_Fetch) vs \<Longrightarrow>
   list_all2 (\<lambda>v a. vi_waits v \<longrightarrow> fst a = Some d) vs (fst (visits vs s))"
proof (induction vs arbitrary: s expires)
  case (Cons v vs)
  from kept[OF _ Cons.prems(1), of v] Cons.prems(2,3) obtain e' where "row (snd (snd (ask v s))) = Some (True, d, e')"
    "vi_waits v \<longrightarrow> fst (ask v s) = Some d" by auto
  with Cons show ?case by (simp add: visits_Cons del: visits.simps)
qed simp

lemma visits_quiet:
  "row s = Some (av, d, expires) \<Longrightarrow> list_all (\<lambda>v. vi_read v \<and> vi_now v < expires) vs \<Longrightarrow>
   list_all (\<lambda>a. \<not> snd a) (fst (visits vs s))"
  by (induction vs) (simp_all add: visits_Nil visits_Cons fresh del: visits.simps)

text \<open>After a failure that was stored nobody asks for ten minutes.\<close>

lemma backoff:
  assumes "fst (snd (ask v s))" "vi_answer v = Refused_Answer" "vi_alive v"
    "list_all (\<lambda>w. vi_read w \<and> vi_now w < whole_seconds (vi_then v + title_info_backoff)) vs"
  shows "list_all (\<lambda>a. \<not> snd a) (fst (visits vs (snd (snd (ask v s)))))"
  using remembered[OF assms(1-3)] visits_quiet assms(4) by blast

text \<open>A failure that came too late to be stored leaves everybody asking.\<close>

lemma no_backoff:
  "row s = None \<Longrightarrow> list_all (\<lambda>v. \<not> vi_alive v) vs \<Longrightarrow> list_all snd (fst (visits vs s))"
  by (induction vs) (simp_all add: visits_Nil visits_Cons forgotten expired del: visits.simps)

text \<open>
  A cache that could not be read while nothing new could be had: whatever was stored is gone, and the visits of the next
  ten minutes get nothing.
\<close>

lemma dropped:
  assumes "\<not> vi_read v" "vi_answer v = Refused_Answer" "vi_alive v"
    "list_all (\<lambda>w. vi_read w \<and> vi_now w < whole_seconds (vi_then v + title_info_backoff)) vs"
  shows "list_all (\<lambda>a. a = (None, False)) (fst (visits vs (snd (snd (ask v s)))))"
proof -
  obtain d where "row (snd (snd (ask v s))) = Some (False, d, whole_seconds (vi_then v + title_info_backoff))"
    using unread[OF assms(1-3)] by blast
  from fresh[OF _ this] have "ask w (snd (snd (ask v s))) = (None, False, snd (snd (ask v s)))"
    if "vi_read w \<and> vi_now w < whole_seconds (vi_then v + title_info_backoff)" for w
    using that by simp
  then show ?thesis using assms(4)
    by (induction vs) (simp_all add: visits_Nil visits_Cons del: visits.simps)
qed

end

text \<open>The details of a row without its times.\<close>

definition ageless :: "title_info \<Rightarrow> title_info" where
  "ageless c = c\<lparr>ti_fetched_at := 0, ti_expires_at := 0\<rparr>"

definition info_row :: "info_key \<Rightarrow> title_info list \<Rightarrow> (bool \<times> title_info \<times> go_time) option" where
  "info_row k rows = map_option (\<lambda>c. (ti_available c, ageless c, ti_expires_at c)) (get_title_info k rows)"

definition info_ask :: "info_key \<Rightarrow> title_info visit \<Rightarrow> title_info list \<Rightarrow> title_info option \<times> bool \<times> title_info list" where
  "info_ask k v rows = (case title_info_lookup k v rows of (i, asked, rows') \<Rightarrow> (map_option ageless i, asked, rows'))"

lemma get_saved:
  assumes "info_key_of i = k"
  shows "get_title_info k (save_title_info i rows) =
    Some (i\<lparr>ti_fetched_at := whole_seconds (ti_fetched_at i), ti_expires_at := whole_seconds (ti_expires_at i)\<rparr>)"
proof -
  define i' where "i' = i\<lparr>ti_fetched_at := whole_seconds (ti_fetched_at i), ti_expires_at := whole_seconds (ti_expires_at i)\<rparr>"
  have "info_key_of i' = k" using assms by (simp add: i'_def info_key_of_def)
  then show ?thesis
    using row_of_upsert_same[of info_key_of i' rows] by (simp add: get_title_info_def save_title_info_def i'_def[symmetric])
qed

lemma get_key: "get_title_info k rows = Some c \<Longrightarrow> info_key_of c = k"
  unfolding get_title_info_def by (drule row_of_key) simp

lemma stamped_key [simp]: "info_key_of (stamped k now f) = k" "ti_available (stamped k now f)"
  by (auto simp: stamped_def info_key_of_def Let_def split: prod.splits)

lemma negative_key: "info_key_of (case k of (p, pid, kind, lang) \<Rightarrow> zero_title_info\<lparr>ti_provider := p, ti_provider_id := pid,
    ti_kind := kind, ti_language := lang, ti_fetched_at := x, ti_expires_at := y\<rparr>) = k"
  by (simp add: info_key_of_def split: prod.splits)

lemma stale_key: "get_title_info k rows = Some c \<Longrightarrow> info_key_of (c\<lparr>ti_expires_at := x\<rparr>) = k"
  using get_key[of k rows c] by (simp add: info_key_of_def)

lemma ageless_times [simp]: "ageless (c\<lparr>ti_expires_at := x\<rparr>) = ageless c" "ageless (c\<lparr>ti_fetched_at := y\<rparr>) = ageless c" "ageless (c\<lparr>ti_fetched_at := y, ti_expires_at := x\<rparr>) = ageless c"
  by (simp_all add: ageless_def)

lemma negative_expiry: "ti_expires_at (case k of (p, pid, kind, lang) \<Rightarrow> zero_title_info\<lparr>ti_provider := p, ti_provider_id := pid,
    ti_kind := kind, ti_language := lang, ti_fetched_at := x, ti_expires_at := y\<rparr>) = y"
  by (simp split: prod.splits)

interpretation infos: stale_cache "info_row k" "info_ask k" for k :: info_key
proof (unfold_locales, goal_cases)
  case (1 v s av d expires)
  then show ?case by (auto simp: info_row_def info_ask_def title_info_lookup_def Let_def)
next
  case (2 v s)
  then show ?case by (cases "get_title_info k s") (auto simp: info_row_def info_ask_def title_info_lookup_def Let_def split: prod.splits)
next
  case (3 v s d expires)
  then obtain c where c: "get_title_info k s = Some c" "ti_available c" "expires = ti_expires_at c" by (auto simp: info_row_def)
  show ?case
    using 3(1) by (cases "vi_now v < ti_expires_at c"; cases "vi_answer v"; cases "vi_alive v")
      (simp_all add: c info_row_def info_ask_def title_info_lookup_def fetch_title_info_def store_if_def Let_def
        get_saved stale_key[OF c(1)])
next
  case (4 v s d expires)
  then obtain c where c: "get_title_info k s = Some c" "ti_available c" "expires = ti_expires_at c" "d = ageless c"
    by (auto simp: info_row_def)
  show ?case
    using 4(1,3) by (cases "vi_now v < ti_expires_at c"; cases "vi_alive v")
      (auto simp: c info_row_def info_ask_def title_info_lookup_def fetch_title_info_def store_if_def Let_def
        get_saved stale_key[OF c(1)])
next
  case (5 v s)
  show ?case
  proof (cases "if vi_read v then get_title_info k s else None")
    case None
    with 5 show ?thesis
      by (auto simp: info_row_def info_ask_def title_info_lookup_def fetch_title_info_def store_if_def get_saved[OF negative_key] negative_expiry Let_def)
  next
    case (Some c)
    then have read: "vi_read v" "get_title_info k s = Some c" by (auto split: if_splits)
    with 5 have old: "\<not> vi_now v < ti_expires_at c" by (auto simp: info_ask_def title_info_lookup_def)
    with read 5 show ?thesis
      by (cases "ti_available c") (auto simp: info_row_def info_ask_def title_info_lookup_def fetch_title_info_def store_if_def
        Let_def get_saved[OF negative_key] negative_expiry get_saved stale_key[OF read(2)])
  qed
next
  case (6 v s)
  then show ?case
    by (auto simp: info_ask_def title_info_lookup_def fetch_title_info_def store_if_def Let_def
        split: option.splits prod.splits provider_answer.splits if_splits)
next
  case (7 v s)
  then show ?case
    by (simp add: info_row_def info_ask_def title_info_lookup_def fetch_title_info_def store_if_def get_saved[OF negative_key]
        negative_expiry Let_def) (simp add: zero_title_info_def split: prod.splits)
qed

text \<open>The seasons.\<close>

definition season_row :: "season_key \<Rightarrow> season_cache_entry list \<Rightarrow> (bool \<times> string \<times> go_time) option" where
  "season_row k rows = map_option (\<lambda>e. (sc_available e, sc_payload e, sc_expires_at e)) (get_season_cache k rows)"

lemma season_saved:
  assumes "season_key_of e = k"
  shows "season_row k (save_season_cache e rows) = Some (sc_available e, sc_payload e, whole_seconds (sc_expires_at e))"
proof -
  define e' where "e' = e\<lparr>sc_fetched_at := whole_seconds (sc_fetched_at e), sc_expires_at := whole_seconds (sc_expires_at e)\<rparr>"
  have "season_key_of e' = k" using assms by (simp add: e'_def season_key_of_def)
  then have "get_season_cache k (save_season_cache e rows) = Some e'"
    using row_of_upsert_same[of season_key_of e' rows] by (simp add: get_season_cache_def save_season_cache_def e'_def[symmetric])
  then show ?thesis by (simp add: season_row_def e'_def)
qed

lemmas season_defs = season_row_def season_payload_def season_fetch_def Let_def

interpretation seasons: stale_cache "season_row k" "season_payload k True" for k :: season_key
proof (unfold_locales, goal_cases)
  case (1 v s av d expires)
  then show ?case by (auto simp: season_defs)
next
  case (2 v s)
  then show ?case by (cases "get_season_cache k s") (auto simp: season_defs split: prod.splits)
next
  case (3 v s d expires)
  then obtain c where c: "get_season_cache k s = Some c" "sc_available c" "expires = sc_expires_at c" by (auto simp: season_row_def)
  obtain p pid n lang where k: "k = (p, pid, n, lang)" by (metis prod_cases4)
  show ?case
    using 3(1) by (cases "vi_now v < sc_expires_at c"; cases "vi_answer v"; cases "vi_alive v")
      (simp_all add: c c[unfolded k] k season_payload_def season_fetch_def Let_def season_saved season_key_of_def,
       simp_all add: season_row_def c[unfolded k])
next
  case (4 v s d expires)
  then obtain c where c: "get_season_cache k s = Some c" "sc_available c" "expires = sc_expires_at c" "d = sc_payload c"
    by (auto simp: season_row_def)
  obtain p pid n lang where k: "k = (p, pid, n, lang)" by (metis prod_cases4)
  show ?case
    using 4(1,3) by (cases "vi_now v < sc_expires_at c"; cases "vi_alive v")
      (auto simp add: c c[unfolded k] k season_payload_def season_fetch_def Let_def season_saved season_key_of_def,
       auto simp add: season_row_def c[unfolded k])
next
  case (5 v s)
  obtain p pid n lang where k: "k = (p, pid, n, lang)" by (metis prod_cases4)
  have old: "\<not> (case if vi_read v then get_season_cache k s else None of Some c \<Rightarrow> vi_now v < sc_expires_at c | None \<Rightarrow> False)"
    using 5(1) by (auto simp: season_payload_def Let_def)
  with 5 show ?case
    by (auto simp: k season_payload_def season_fetch_def Let_def season_saved season_key_of_def)
next
  case (6 v s)
  then show ?case
    by (auto simp: season_payload_def season_fetch_def Let_def split: option.splits prod.splits provider_answer.splits if_splits)
next
  case (7 v s)
  obtain p pid n lang where k: "k = (p, pid, n, lang)" by (metis prod_cases4)
  from 7 show ?case by (simp add: k season_payload_def season_fetch_def Let_def season_saved season_key_of_def)
qed

subsection \<open>The Info panel\<close>

text \<open>
  A list of visits to the panel of one title, one after the other: for each whether the metadata and the list of the
  releases can be read, and what happens in it.  What is shown and whether the provider was asked.
\<close>

type_synonym panel_visit = "bool \<times> bool \<times> title_info visit"

fun panel_visits ::
  "string \<Rightarrow> catalog_metadata \<Rightarrow> media_kind option \<Rightarrow> string \<Rightarrow> panel_visit list \<Rightarrow> title_info list \<Rightarrow> (title_info \<times> bool) list" where
  "panel_visits title_id md sk lang [] rows = []"
| "panel_visits title_id md sk lang ((found, listed, v) # vs) rows =
     (case title_info_of title_id (if found then Some md else None) True (if listed then sk else None) lang v rows of
        (a, asked, rows') \<Rightarrow> (a, asked) # panel_visits title_id md sk lang vs rows')"

definition panel_key :: "catalog_metadata \<Rightarrow> media_kind option \<Rightarrow> string \<Rightarrow> info_key" where
  "panel_key md sk lang = (cm_provider md, cm_provider_id md, title_info_kind md sk, lang)"

text \<open>The visits in which the title is found with its kind.\<close>

definition identified :: "catalog_metadata \<Rightarrow> panel_visit \<Rightarrow> bool" where
  "identified md = (\<lambda>(found, listed, v). found \<and> (listed \<or> cm_kind md \<noteq> []))"

lemma lookup_available: "title_info_lookup k v rows = (Some i, asked, rows') \<Longrightarrow> ti_available i"
  by (auto simp: title_info_lookup_def fetch_title_info_def Let_def
      split: option.splits if_splits prod.splits provider_answer.splits)

lemma saved_elsewhere: "info_key_of i \<noteq> k \<Longrightarrow> get_title_info k (save_title_info i rows) = get_title_info k rows"
  by (simp add: get_title_info_def save_title_info_def row_of_upsert_other info_key_of_def)

lemma negative_elsewhere: "(p, pid, kind, lang) \<noteq> k \<Longrightarrow> get_title_info k (save_title_info (zero_title_info\<lparr>ti_provider := p,
    ti_provider_id := pid, ti_kind := kind, ti_language := lang, ti_fetched_at := x, ti_expires_at := y\<rparr>) rows) = get_title_info k rows"
  by (rule saved_elsewhere) (simp add: info_key_of_def)

lemma lookup_elsewhere:
  assumes "k' \<noteq> k"
  shows "get_title_info k (snd (snd (title_info_lookup k' v rows))) = get_title_info k rows"
proof -
  obtain p pid kind lang where k': "k' = (p, pid, kind, lang)" by (metis prod_cases4)
  have stale: "get_title_info k (save_title_info (c\<lparr>ti_expires_at := x\<rparr>) rows) = get_title_info k rows"
    if "get_title_info k' rows = Some c" for c x
    using stale_key[OF that, of x] assms by (simp add: saved_elsewhere)
  have "get_title_info k (save_title_info (stamped k' x f) rows) = get_title_info k rows" for x f
    using assms by (simp add: saved_elsewhere)
  with stale assms show ?thesis
    by (auto simp: title_info_lookup_def fetch_title_info_def Let_def store_if_def k' negative_elsewhere
        split: option.splits if_splits prod.splits provider_answer.splits)
qed

text \<open>One visit in which the title is found is one lookup; in any other the row of the title stays as it is.\<close>

lemma visit_identified:
  assumes "cm_provider md \<noteq> []" "cm_provider_id md \<noteq> []" "identified md (found, listed, v)"
    "title_info_lookup (panel_key md sk lang) v rows = (i, asked, rows')"
  shows "title_info_of title_id (if found then Some md else None) True (if listed then sk else None) lang v rows =
    (case i of Some c \<Rightarrow> present_title_info title_id c md | None \<Rightarrow> degraded_title_info title_id md, asked, rows')"
  using assms by (auto simp: title_info_of_def identified_def panel_key_def title_info_kind_def)

lemma visit_keeps_row:
  assumes "\<And>i asked rows'. title_info_lookup (panel_key md sk lang) v rows = (i, asked, rows') \<Longrightarrow> P (info_row (panel_key md sk lang) rows')"
    "P (info_row (panel_key md sk lang) rows)"
    "title_info_of title_id (if found then Some md else None) True (if listed then sk else None) lang v rows = (a, asked, rows')"
  shows "P (info_row (panel_key md sk lang) rows')"
proof (cases "found \<and> cm_provider md \<noteq> [] \<and> cm_provider_id md \<noteq> []")
  case True
  then obtain i where l: "title_info_lookup (panel_key md (if listed then sk else None) lang) v rows = (i, asked, rows')"
    using assms(3) by (auto simp: title_info_of_def panel_key_def split: prod.splits)
  show ?thesis
  proof (cases "panel_key md (if listed then sk else None) lang = panel_key md sk lang")
    case True
    with l assms(1) show ?thesis by simp
  next
    case False
    from lookup_elsewhere[OF this, of v rows] l assms(2) show ?thesis by (simp add: info_row_def)
  qed
next
  case False
  then have "rows' = rows" using assms(3) by (auto simp: title_info_of_def split: if_splits)
  with assms(2) show ?thesis by simp
qed

lemma lookup_asks: "title_info_lookup k v rows = (i, asked, rows') \<Longrightarrow> info_ask k v rows = (map_option ageless i, asked, rows')"
  by (simp add: info_ask_def)

lemma present_available [simp]: "ti_available (present_title_info title_id c md) = ti_available c"
  by (simp add: present_title_info_def)

lemma panel_usable:
  assumes "cm_provider md \<noteq> []" "cm_provider_id md \<noteq> []"
  shows "info_row (panel_key md sk lang) rows = Some (True, d, expires) \<Longrightarrow> list_all (\<lambda>(found, listed, v). vi_read v) vs \<Longrightarrow>
    list_all2 (\<lambda>(found, listed, v) a. identified md (found, listed, v) \<and> vi_waits v \<longrightarrow> ti_available (fst a))
      vs (panel_visits title_id md sk lang vs rows)"
proof (induction vs arbitrary: rows d expires)
  case (Cons x vs)
  obtain found listed v where x: "x = (found, listed, v)" by (cases x)
  obtain i asked rows1 where l: "title_info_lookup (panel_key md sk lang) v rows = (i, asked, rows1)" by (metis prod_cases3)
  have read: "vi_read v" using Cons.prems(2) x by simp
  note u = infos.usable[OF read Cons.prems(1), unfolded lookup_asks[OF l]]
  obtain a asked' rows' where a: "title_info_of title_id (if found then Some md else None) True (if listed then sk else None) lang v rows = (a, asked', rows')"
    by (metis prod_cases3)
  have "\<exists>d e. info_row (panel_key md sk lang) rows' = Some (True, d, e)"
    by (rule visit_keeps_row[where P = "\<lambda>r. \<exists>d e. r = Some (True, d, e)", OF _ _ a]) (use u l Cons.prems(1) in auto)
  then have "list_all2 (\<lambda>(found, listed, v) a. identified md (found, listed, v) \<and> vi_waits v \<longrightarrow> ti_available (fst a))
      vs (panel_visits title_id md sk lang vs rows')"
    using Cons.IH Cons.prems(2) by auto
  moreover have "identified md x \<and> vi_waits v \<longrightarrow> ti_available a"
    using visit_identified[OF assms _ l, of found listed title_id] a u lookup_available[of "panel_key md sk lang" v rows] l
    by (auto simp: x)
  ultimately show ?case by (simp add: x a)
qed simp

lemma panel_kept:
  assumes "cm_provider md \<noteq> []" "cm_provider_id md \<noteq> []"
  shows "info_row (panel_key md sk lang) rows = Some (True, d, expires) \<Longrightarrow>
    list_all (\<lambda>(found, listed, v). vi_read v \<and> (vi_answer v = Refused_Answer \<or> vi_answer v = Cancelled_Fetch)) vs \<Longrightarrow>
    list_all2 (\<lambda>(found, listed, v) a. identified md (found, listed, v) \<and> vi_waits v \<longrightarrow>
      (\<exists>c'. ageless c' = d \<and> fst a = present_title_info title_id c' md)) vs (panel_visits title_id md sk lang vs rows)"
proof (induction vs arbitrary: rows expires)
  case (Cons x vs)
  obtain found listed v where x: "x = (found, listed, v)" by (cases x)
  obtain i asked rows1 where l: "title_info_lookup (panel_key md sk lang) v rows = (i, asked, rows1)" by (metis prod_cases3)
  have v: "vi_read v" "vi_answer v = Refused_Answer \<or> vi_answer v = Cancelled_Fetch" using Cons.prems(2) x by auto
  note u = infos.kept[OF v(1) Cons.prems(1) v(2), unfolded lookup_asks[OF l]]
  obtain a asked' rows' where a: "title_info_of title_id (if found then Some md else None) True (if listed then sk else None) lang v rows = (a, asked', rows')"
    by (metis prod_cases3)
  have "\<exists>e. info_row (panel_key md sk lang) rows' = Some (True, d, e)"
    by (rule visit_keeps_row[where P = "\<lambda>r. \<exists>e. r = Some (True, d, e)", OF _ _ a]) (use u l Cons.prems(1) in auto)
  then have "list_all2 (\<lambda>(found, listed, v) a. identified md (found, listed, v) \<and> vi_waits v \<longrightarrow>
      (\<exists>c'. ageless c' = d \<and> fst a = present_title_info title_id c' md)) vs (panel_visits title_id md sk lang vs rows')"
    using Cons.IH Cons.prems(2) by auto
  moreover have "identified md x \<and> vi_waits v \<longrightarrow> (\<exists>c'. ageless c' = d \<and> a = present_title_info title_id c' md)"
    using visit_identified[OF assms _ l, of found listed title_id] a u by (auto simp: x)
  ultimately show ?case by (simp add: x a)
qed simp

text \<open>
  Property C37: once the details of a title have been stored, and as long as the cache can be read when a visit comes,
  whatever the provider answers and however late, every one of a sequence of visits to the panel that finds the title with
  its kind and waits is shown details; and while the provider only fails, the details that were stored.  Visits in
  which the metadata or the list of the releases cannot be read may lie between them.
\<close>

theorem details_survive_outages:
  assumes "cm_provider md \<noteq> []" "cm_provider_id md \<noteq> []"
    "get_title_info (panel_key md sk lang) rows = Some c" "ti_available c" "list_all (\<lambda>(found, listed, v). vi_read v) vs"
  shows "list_all2 (\<lambda>(found, listed, v) a. found \<and> (listed \<or> cm_kind md \<noteq> []) \<and> vi_waits v \<longrightarrow> ti_available (fst a))
      vs (panel_visits title_id md sk lang vs rows) \<and>
    (list_all (\<lambda>(found, listed, v). vi_answer v = Refused_Answer \<or> vi_answer v = Cancelled_Fetch) vs \<longrightarrow>
     list_all2 (\<lambda>(found, listed, v) a. found \<and> (listed \<or> cm_kind md \<noteq> []) \<and> vi_waits v \<longrightarrow>
         (\<exists>c'. ageless c' = ageless c \<and> fst a = present_title_info title_id c' md))
       vs (panel_visits title_id md sk lang vs rows))"
proof -
  have row: "info_row (panel_key md sk lang) rows = Some (True, ageless c, ti_expires_at c)"
    using assms(3,4) by (simp add: info_row_def)
  have "list_all (\<lambda>(found, listed, v). vi_read v \<and> (vi_answer v = Refused_Answer \<or> vi_answer v = Cancelled_Fetch)) vs"
    if "list_all (\<lambda>(found, listed, v). vi_answer v = Refused_Answer \<or> vi_answer v = Cancelled_Fetch) vs"
    using that assms(5) by (auto simp: list_all_iff)
  with panel_usable[OF assms(1,2) row assms(5), of title_id] panel_kept[OF assms(1,2) row, of vs title_id] show ?thesis
    by (simp add: identified_def split_def)
qed

text \<open>
  A read that fails is taken for a missing row: when the provider fails too, the row that remembers the failure
  replaces the details that were stored, and the visits of the next ten minutes are shown none and do not ask, though a
  failed refresh is to keep what is stored.
\<close>

theorem unread_details_dropped:
  assumes "cm_provider md \<noteq> []" "cm_provider_id md \<noteq> []" "identified md (found, listed, v)" "\<not> vi_read v"
    "vi_answer v = Refused_Answer" "vi_alive v"
    "title_info_of title_id (if found then Some md else None) True (if listed then sk else None) lang v rows = (a, asked, rows')"
    "list_all (\<lambda>w. vi_read w \<and> vi_now w < whole_seconds (vi_then v + title_info_backoff)) ws"
  shows "\<exists>c. get_title_info (panel_key md sk lang) rows' = Some c \<and> \<not> ti_available c \<and>
    list_all (\<lambda>b. b = (degraded_title_info title_id md, False)) (panel_visits title_id md sk lang (map (\<lambda>w. (True, True, w)) ws) rows')"
proof -
  obtain i asked1 rows1 where l: "title_info_lookup (panel_key md sk lang) v rows = (i, asked1, rows1)" by (metis prod_cases3)
  with visit_identified[OF assms(1-3) l, of title_id] assms(7) have "rows' = rows1" by simp
  with infos.unread[OF assms(4-6), of "panel_key md sk lang" rows] lookup_asks[OF l]
  obtain d where row: "info_row (panel_key md sk lang) rows' = Some (False, d, whole_seconds (vi_then v + title_info_backoff))" by auto
  then obtain c where c: "get_title_info (panel_key md sk lang) rows' = Some c" "\<not> ti_available c"
    "ti_expires_at c = whole_seconds (vi_then v + title_info_backoff)"
    by (auto simp: info_row_def)
  have "title_info_of title_id (Some md) True sk lang w rows' = (degraded_title_info title_id md, False, rows')"
    if "vi_read w \<and> vi_now w < whole_seconds (vi_then v + title_info_backoff)" for w
    using that assms(1,2) c by (simp add: title_info_of_def title_info_lookup_def panel_key_def)
  then have "list_all (\<lambda>b. b = (degraded_title_info title_id md, False)) (panel_visits title_id md sk lang (map (\<lambda>w. (True, True, w)) ws) rows')"
    using assms(8) by (induction ws) simp_all
  with c show ?thesis by blast
qed

text \<open>A failure that is stored keeps the panel from asking for ten minutes.\<close>

lemma failure_remembered:
  assumes "cm_provider md \<noteq> []" "cm_provider_id md \<noteq> []" "get_title_info (panel_key md sk lang) rows = None"
    "vi_answer v = Refused_Answer" "vi_alive v"
    "list_all (\<lambda>w. vi_read w \<and> vi_now w < whole_seconds (vi_then v + title_info_backoff)) vs"
  shows "map snd (panel_visits title_id md sk lang (map (\<lambda>w. (True, True, w)) (v # vs)) rows) = True # replicate (length vs) False"
proof -
  obtain i asked rows' where l: "title_info_lookup (panel_key md sk lang) v rows = (i, asked, rows')" by (metis prod_cases3)
  have asked: "fst (snd (info_ask (panel_key md sk lang) v rows))"
    using assms(3) infos.expired[of v "panel_key md sk lang" rows] by (simp add: info_row_def)
  obtain av d where row: "info_row (panel_key md sk lang) rows' = Some (av, d, whole_seconds (vi_then v + title_info_backoff))"
    using infos.remembered[OF asked assms(4,5)] lookup_asks[OF l] by auto
  then obtain c where c: "get_title_info (panel_key md sk lang) rows' = Some c" "ti_expires_at c = whole_seconds (vi_then v + title_info_backoff)"
    by (auto simp: info_row_def)
  have "\<exists>a. title_info_of title_id (Some md) True sk lang w rows' = (a, False, rows')"
    if "vi_read w \<and> vi_now w < whole_seconds (vi_then v + title_info_backoff)" for w
    using that assms(1,2) c by (simp add: title_info_of_def title_info_lookup_def panel_key_def)
  then have "map snd (panel_visits title_id md sk lang (map (\<lambda>w. (True, True, w)) vs) rows') = replicate (length vs) False"
    using assms(6) by (induction vs) fastforce+
  with l asked lookup_asks[OF l] assms(1,2) show ?thesis by (simp add: title_info_of_def panel_key_def)
qed

text \<open>
  A failure that comes when the deadline of the fetch has passed is not stored, since the statement runs
  under the same deadline: while the provider is that slow, every visit to the panel of a title asks it again,
  though failures are to be remembered for ten minutes.
\<close>

theorem late_failures_hammer:
  assumes "cm_provider md \<noteq> []" "cm_provider_id md \<noteq> []" "get_title_info (panel_key md sk lang) rows = None"
    "list_all (\<lambda>(found, listed, v). identified md (found, listed, v) \<and> \<not> vi_alive v) vs"
  shows "list_all snd (panel_visits title_id md sk lang vs rows)"
  using assms(4)
proof (induction vs)
  case (Cons x vs)
  obtain found listed v where x: "x = (found, listed, v)" by (cases x)
  obtain i asked rows' where l: "title_info_lookup (panel_key md sk lang) v rows = (i, asked, rows')" by (metis prod_cases3)
  have "asked" "rows' = rows"
    using infos.expired[of v "panel_key md sk lang" rows] infos.forgotten[of v "panel_key md sk lang" rows] lookup_asks[OF l] Cons.prems assms(3)
    by (auto simp: x info_row_def)
  with Cons visit_identified[OF assms(1,2) _ l, of found listed title_id] show ?case by (simp add: x)
qed simp

text \<open>The same contract of the seasons.\<close>

lemma season_survives_outages:
  assumes "get_season_cache k rows = Some e" "sc_available e" "list_all vi_read vs"
    "list_all (\<lambda>v. vi_answer v = Refused_Answer \<or> vi_answer v = Cancelled_Fetch) vs"
  shows "list_all2 (\<lambda>v a. vi_waits v \<longrightarrow> fst a = Some (sc_payload e)) vs (fst (seasons.visits k vs rows))"
  by (rule seasons.visits_kept[OF _ assms(3,4)]) (simp add: season_row_def assms)

text \<open>The address of a cast photo leads back to the path of that member.\<close>

lemma trim_cast: "trim_prefix (''cast-'' @ s) ''cast-'' = s"
  by (rule trim_prefix_append)

lemma cast_photo_found:
  assumes "get_title_info (panel_key md sk lang) rows = Some c" "i < length (ti_cast c)" "int i < 2 ^ 63"
    "ca_image_path (ti_cast c ! i) \<noteq> []"
  shows "cast_photo_path (''cast-'' @ show_nat i) (Some md) sk lang rows = Some (ca_image_path (ti_cast c ! i)) \<and>
    ca_image_url (ti_cast (present_title_info title_id c md) ! i) = artwork_url title_id (''cast-'' @ show_nat i)"
  using assms parse_int64_show[OF assms(3)] unfolding cast_photo_path_def trim_cast
  by (simp add: panel_key_def present_title_info_def present_cast_def present_member_def nth_enumerate_eq)

text \<open>No path of the provider leaves the server.\<close>

lemma present_hides_paths: "m \<in> set (ti_cast (present_title_info title_id c md)) \<Longrightarrow> ca_image_path m = []"
  by (auto simp: present_title_info_def present_cast_def present_member_def)

subsection \<open>Examples\<close>

definition sample_metadata :: catalog_metadata where
  "sample_metadata = zero_catalog_metadata\<lparr>cm_provider := ''tmdb'', cm_provider_id := ''603'', cm_kind := media_movie\<rparr>"

definition sample_details :: title_info where
  "sample_details = zero_title_info\<lparr>ti_provider := ''tmdb'', ti_provider_id := ''603'', ti_kind := media_movie,
     ti_language := ''en'', ti_overview := ''O'', ti_available := True, ti_expires_at := 0\<rparr>"

definition failing_visit :: "bool \<Rightarrow> bool \<Rightarrow> title_info visit" where
  "failing_visit readable alive =
     \<lparr>vi_now = hour, vi_read = readable, vi_then = hour + 30 * second, vi_answer = Refused_Answer, vi_alive = alive, vi_waits = True\<rparr>"

lemma sample_known: "cm_provider sample_metadata \<noteq> []" "cm_provider_id sample_metadata \<noteq> []" "cm_kind sample_metadata \<noteq> []"
  by (simp_all add: sample_metadata_def media_movie_def)

lemma sample_overview: "ti_overview sample_details = ''O''"
  by (simp add: sample_details_def)

lemma sample_stored: "get_title_info (panel_key sample_metadata None ''en'') [sample_details] = Some sample_details" "ti_available sample_details"
  by (simp_all add: get_title_info_def row_of_def info_key_of_def panel_key_def sample_details_def sample_metadata_def
      title_info_kind_def media_movie_def zero_title_info_def)

text \<open>A visit whose failure is stored, one that finds no metadata, and one whose failure comes too late.\<close>

theorem details_survive_outages_witness:
  "\<exists>a b c. panel_visits ''t'' sample_metadata None ''en'' [(True, False, failing_visit True True), (False, True, failing_visit True True),
       (True, True, failing_visit True False)] [sample_details] = [a, b, c] \<and> ti_available (fst a) \<and> ti_available (fst c) \<and>
     ti_overview (fst c) = ''O''"
proof -
  define vs where "vs = [(True, False, failing_visit True True), (False, True, failing_visit True True), (True, True, failing_visit True False)]"
  have reads: "list_all (\<lambda>(found, listed, v). vi_read v) vs"
    "list_all (\<lambda>(found, listed, v). vi_answer v = Refused_Answer \<or> vi_answer v = Cancelled_Fetch) vs"
    by (simp_all add: vs_def failing_visit_def)
  note shown = details_survive_outages[OF sample_known(1,2) sample_stored reads(1), of "''t''"]
  have waits: "vi_waits (failing_visit x y)" for x y by (simp add: failing_visit_def)
  obtain a b c where abc: "panel_visits ''t'' sample_metadata None ''en'' vs [sample_details] = [a, b, c]"
    using conjunct1[OF shown] unfolding vs_def by (simp only: list_all2_Cons1 list_all2_Nil) blast
  have "ti_available (fst a)" "ti_available (fst c)"
    using conjunct1[OF shown] unfolding abc unfolding vs_def by (simp_all add: waits sample_known(3))
  moreover obtain c' where c': "ageless c' = ageless sample_details" "fst c = present_title_info ''t'' c' sample_metadata"
    using mp[OF conjunct2[OF shown] reads(2)] unfolding abc unfolding vs_def by (auto simp: waits sample_known(3))
  moreover have "ti_overview (ageless x) = ti_overview x" for x by (simp add: ageless_def)
  then have "ti_overview c' = ''O''" using c'(1) by (metis sample_overview)
  ultimately show ?thesis using abc by (simp add: vs_def present_title_info_def)
qed

theorem unread_details_dropped_witness:
  "\<exists>a rows. title_info_of ''t'' (Some sample_metadata) True None ''en'' (failing_visit False True) [sample_details] = (a, True, rows) \<and>
     (\<exists>c. get_title_info (panel_key sample_metadata None ''en'') rows = Some c \<and> \<not> ti_available c) \<and>
     panel_visits ''t'' sample_metadata None ''en'' [(True, True, failing_visit True True)] rows =
       [(degraded_title_info ''t'' sample_metadata, False)]"
proof -
  obtain a asked rows where run: "title_info_of ''t'' (Some sample_metadata) True None ''en'' (failing_visit False True) [sample_details] = (a, asked, rows)"
    by (metis prod_cases3)
  have known: "identified sample_metadata (True, True, failing_visit False True)" by (simp add: identified_def)
  have v: "\<not> vi_read (failing_visit False True)" "vi_answer (failing_visit False True) = Refused_Answer" "vi_alive (failing_visit False True)"
    by (simp_all add: failing_visit_def)
  have later: "list_all (\<lambda>w. vi_read w \<and> vi_now w < whole_seconds (vi_then (failing_visit False True) + title_info_backoff)) [failing_visit True True]"
    by (simp add: failing_visit_def whole_seconds_def title_info_backoff_def time_units)
  have "asked" using run by (auto simp: title_info_of_def title_info_lookup_def sample_known failing_visit_def split: prod.splits)
  with unread_details_dropped[OF sample_known(1,2) known v _ later, of "''t''" None "''en''" "[sample_details]" a asked rows] run
  show ?thesis by (auto simp: Let_def split: prod.splits)
qed

theorem late_failures_hammer_witness:
  "list_all snd (panel_visits ''t'' sample_metadata None ''en'' [(True, True, failing_visit True False), (True, False, failing_visit True False)] [])"
  by (rule late_failures_hammer[OF sample_known(1,2)])
    (simp_all add: get_title_info_def row_of_def failing_visit_def identified_def sample_known(3))

end
