(* ===== verification/Season_Details.thy ===== *)
theory Season_Details
  imports Title_Details Event_Bus Families
begin

text \<open>
  The seasons of a series (\<open>internal/application/seasoninfo.go\<close> above its cache): the list, a season, an episode
  whose description is asked for separately, and the images of a season, which are addressed by their place in
  the stored document.  \<open>encoding/json\<close> is a pair of functions for each kind of document.  The read and the write that store an
  episode in its document are taken to work.
\<close>

subsection \<open>Documents\<close>

record season_codec =
  cd_list :: "title_seasons \<Rightarrow> string"
  cd_unlist :: "string \<Rightarrow> title_seasons option"
  cd_season :: "season_info \<Rightarrow> string"
  cd_unseason :: "string \<Rightarrow> season_info option"

text \<open>A provider answers with a document, which may be too empty to count as an answer.\<close>

definition document_visit :: "('d \<Rightarrow> string option) \<Rightarrow> 'd visit \<Rightarrow> string visit" where
  "document_visit f v =
     \<lparr>vi_now = vi_now v, vi_read = vi_read v, vi_then = vi_then v,
      vi_answer = (case vi_answer v of
        Described d \<Rightarrow> (case f d of Some p \<Rightarrow> Described p | None \<Rightarrow> Refused_Answer)
      | Refused_Answer \<Rightarrow> Refused_Answer | Cancelled_Fetch \<Rightarrow> Cancelled_Fetch),
      vi_alive = vi_alive v, vi_waits = vi_waits v\<rparr>"

definition series_metadata :: "catalog_metadata option \<Rightarrow> media_kind option \<Rightarrow> catalog_metadata option" where
  "series_metadata found sk =
     (case found of
        None \<Rightarrow> None
      | Some md \<Rightarrow> if cm_provider md = [] \<or> cm_provider_id md = [] \<or> title_info_kind md sk \<noteq> media_series then None else Some md)"

definition season_list_key :: int where
  "season_list_key = - 1"

definition season_artwork_url :: "string \<Rightarrow> int \<Rightarrow> string \<Rightarrow> string" where
  "season_artwork_url title_id n rest = artwork_url title_id (''season-'' @ show_int n @ ''-'' @ rest)"

definition present_summary :: "string \<Rightarrow> season_summary \<Rightarrow> season_summary" where
  "present_summary title_id s =
     s\<lparr>ss_poster_url := (if ss_poster_path s \<noteq> [] then season_artwork_url title_id (ss_number s) ''poster'' else ss_poster_url s),
       ss_poster_path := []\<rparr>"

definition empty_seasons :: "string \<Rightarrow> title_seasons" where
  "empty_seasons title_id = \<lparr>tl_title_id = title_id, tl_provider = [], tl_provider_id = [], tl_language = [],
     tl_seasons = [], tl_available = False, tl_fetched_at = zero_time, tl_expires_at = zero_time\<rparr>"

definition title_seasons_of ::
  "season_codec \<Rightarrow> string \<Rightarrow> catalog_metadata option \<Rightarrow> media_kind option \<Rightarrow> string \<Rightarrow> bool \<Rightarrow> title_seasons visit \<Rightarrow>
   season_cache_entry list \<Rightarrow> title_seasons \<times> bool \<times> season_cache_entry list" where
  "title_seasons_of cd title_id found sk lang capable v rows =
     (case series_metadata found sk of
        None \<Rightarrow> (empty_seasons title_id, False, rows)
      | Some md \<Rightarrow>
          (case season_payload (cm_provider md, cm_provider_id md, season_list_key, lang) capable
                  (document_visit (\<lambda>l. if tl_seasons l = [] then None else Some (cd_list cd l)) v) rows of
             (p, asked, rows') \<Rightarrow>
               (case Option.bind p (cd_unlist cd) of
                  None \<Rightarrow> (empty_seasons title_id, asked, rows')
                | Some l \<Rightarrow>
                    if tl_seasons l = [] then (empty_seasons title_id, asked, rows')
                    else (l\<lparr>tl_title_id := title_id, tl_provider := cm_provider md, tl_provider_id := cm_provider_id md,
                            tl_language := lang, tl_available := True,
                            tl_seasons := map (present_summary title_id) (tl_seasons l)\<rparr>, asked, rows'))))"

subsection \<open>One season\<close>

definition load_season ::
  "season_codec \<Rightarrow> catalog_metadata \<Rightarrow> int \<Rightarrow> string \<Rightarrow> bool \<Rightarrow> season_info visit \<Rightarrow> season_cache_entry list \<Rightarrow>
   season_info option \<times> bool \<times> season_cache_entry list" where
  "load_season cd md n lang capable v rows =
     (case season_payload (cm_provider md, cm_provider_id md, n, lang) capable
             (document_visit (\<lambda>s. if si_episodes s = [] \<and> si_overview s = [] \<and> si_cast s = [] then None
                                  else Some (cd_season cd s)) v) rows of
        (p, asked, rows') \<Rightarrow>
          (map_option (\<lambda>s. s\<lparr>si_provider := cm_provider md, si_provider_id := cm_provider_id md, si_language := lang,
             si_number := n, si_available := True\<rparr>) (Option.bind p (cd_unseason cd)), asked, rows'))"

definition present_episode :: "string \<Rightarrow> int \<Rightarrow> episode_info \<Rightarrow> episode_info" where
  "present_episode title_id n e =
     e\<lparr>ei_still_url := (if ei_still_path e \<noteq> [] then season_artwork_url title_id n (''still-'' @ show_int (ei_number e)) else ei_still_url e),
       ei_still_path := [],
       ei_guest_stars := present_cast (\<lambda>g. season_artwork_url title_id n (''guest-'' @ show_int (ei_number e) @ ''-'' @ show_nat g))
         (ei_guest_stars e)\<rparr>"

definition present_season_info :: "string \<Rightarrow> season_info \<Rightarrow> season_info" where
  "present_season_info title_id s =
     s\<lparr>si_title_id := title_id,
       si_poster_url := (if si_poster_path s \<noteq> [] then season_artwork_url title_id (si_number s) ''poster'' else si_poster_url s),
       si_poster_path := [],
       si_cast := present_cast (\<lambda>i. season_artwork_url title_id (si_number s) (''cast-'' @ show_nat i)) (si_cast s),
       si_episodes := map (present_episode title_id (si_number s)) (si_episodes s)\<rparr>"

definition empty_season :: "string \<Rightarrow> int \<Rightarrow> season_info" where
  "empty_season title_id n = \<lparr>si_title_id = title_id, si_provider = [], si_provider_id = [], si_language = [],
     si_number = n, si_name = [], si_overview = [], si_air_date = [], si_poster_url = [], si_poster_path = [],
     si_cast = [], si_episodes = [], si_available = False, si_fetched_at = zero_time, si_expires_at = zero_time\<rparr>"

text \<open>\<open>SeasonInfo\<close>: the left result is the refusal of a negative number.\<close>

definition season_info_of ::
  "season_codec \<Rightarrow> string \<Rightarrow> catalog_metadata option \<Rightarrow> media_kind option \<Rightarrow> string \<Rightarrow> bool \<Rightarrow> int \<Rightarrow> season_info visit \<Rightarrow>
   season_cache_entry list \<Rightarrow> (unit + season_info) \<times> bool \<times> season_cache_entry list" where
  "season_info_of cd title_id found sk lang capable n v rows =
     (if n < 0 then (Inl (), False, rows)
      else (case series_metadata found sk of
              None \<Rightarrow> (Inr (empty_season title_id n), False, rows)
            | Some md \<Rightarrow>
                (case load_season cd md n lang capable v rows of
                   (None, asked, rows') \<Rightarrow> (Inr (empty_season title_id n), asked, rows')
                 | (Some s, asked, rows') \<Rightarrow> (Inr (present_season_info title_id s), asked, rows'))))"

subsection \<open>One episode\<close>

definition merge_episode :: "episode_info \<Rightarrow> episode_info \<Rightarrow> episode_info" where
  "merge_episode base detail =
     base\<lparr>ei_name := (if ei_name detail \<noteq> [] \<and> ei_name base = [] then ei_name detail else ei_name base),
          ei_overview := (if ei_overview detail \<noteq> [] then ei_overview detail else ei_overview base),
          ei_runtime := (if 0 < ei_runtime detail then ei_runtime detail else ei_runtime base),
          ei_air_date := (if ei_air_date detail \<noteq> [] \<and> ei_air_date base = [] then ei_air_date detail else ei_air_date base),
          ei_lazy_detail := False\<rparr>"

definition store_episode ::
  "season_codec \<Rightarrow> catalog_metadata \<Rightarrow> int \<Rightarrow> string \<Rightarrow> episode_info \<Rightarrow> season_cache_entry list \<Rightarrow> season_cache_entry list" where
  "store_episode cd md n lang e rows =
     (case get_season_cache (cm_provider md, cm_provider_id md, n, lang) rows of
        None \<Rightarrow> rows
      | Some entry \<Rightarrow>
          if \<not> sc_available entry then rows
          else (case cd_unseason cd (sc_payload entry) of
                  None \<Rightarrow> rows
                | Some s \<Rightarrow>
                    save_season_cache (entry\<lparr>sc_payload := cd_season cd (s\<lparr>si_episodes :=
                      map (\<lambda>x. if ei_number x = ei_number e then e else x) (si_episodes s)\<rparr>)\<rparr>) rows))"

text \<open>The answer of \<open>EpisodeDetail\<close>, where the provider has it; the last result says whether it was asked.\<close>

type_synonym lazy_answer = "(string + episode_info) option"

definition season_episode ::
  "season_codec \<Rightarrow> string \<Rightarrow> catalog_metadata option \<Rightarrow> media_kind option \<Rightarrow> string \<Rightarrow> bool \<Rightarrow> int \<Rightarrow> int \<Rightarrow> season_info visit \<Rightarrow>
   lazy_answer \<Rightarrow> season_cache_entry list \<Rightarrow> (unit + episode_info option) \<times> bool \<times> season_cache_entry list" where
  "season_episode cd title_id found sk lang capable n episode v lazy_detail rows =
     (if n < 0 \<or> episode < 0 then (Inl (), False, rows)
      else (case series_metadata found sk of
              None \<Rightarrow> (Inr None, False, rows)
            | Some md \<Rightarrow>
                (case load_season cd md n lang capable v rows of
                   (None, _, rows') \<Rightarrow> (Inr None, False, rows')
                 | (Some s, _, rows') \<Rightarrow>
                     (case find (\<lambda>e. ei_number e = episode) (si_episodes s) of
                        None \<Rightarrow> (Inr None, False, rows')
                      | Some e \<Rightarrow>
                          (case (if ei_lazy_detail e then lazy_detail else None) of
                             Some (Inr detail) \<Rightarrow>
                               (Inr (Some (present_episode title_id n (merge_episode e detail))), True,
                                store_episode cd md n lang (merge_episode e detail) rows')
                           | Some (Inl _) \<Rightarrow> (Inr (Some (present_episode title_id n e)), True, rows')
                           | None \<Rightarrow> (Inr (Some (present_episode title_id n e)), False, rows'))))))"

subsection \<open>Images\<close>

datatype season_image = Poster_Image | Cast_Image string | Still_Image string | Guest_Image string string

definition digits_only :: "string \<Rightarrow> bool" where
  "digits_only s = (s \<noteq> [] \<and> list_all is_digit s)"

definition after_prefix :: "string \<Rightarrow> string \<Rightarrow> string option" where
  "after_prefix p s = (if has_prefix s p then Some (drop (length p) s) else None)"

text \<open>The pattern \<open>seasonImageKind\<close>: the number of the season and which image is meant.\<close>

definition season_image_kind :: "string \<Rightarrow> (string \<times> season_image) option" where
  "season_image_kind kind =
     (case after_prefix ''season-'' kind of
        None \<Rightarrow> None
      | Some r \<Rightarrow>
          (case cut_at CHR ''-'' r of
             None \<Rightarrow> None
           | Some (n, rest) \<Rightarrow>
               if \<not> digits_only n then None
               else if rest = ''poster'' then Some (n, Poster_Image)
               else (case cut_at CHR ''-'' rest of
                       None \<Rightarrow> None
                     | Some (what, r2) \<Rightarrow>
                         if what = ''cast'' \<and> digits_only r2 then Some (n, Cast_Image r2)
                         else if what = ''still'' \<and> digits_only r2 then Some (n, Still_Image r2)
                         else if what = ''guest'' then
                           (case cut_at CHR ''-'' r2 of
                              None \<Rightarrow> None
                            | Some (e, g) \<Rightarrow> if digits_only e \<and> digits_only g then Some (n, Guest_Image e g) else None)
                         else None)))"

definition pick_member :: "cast_entry list \<Rightarrow> string \<Rightarrow> string" where
  "pick_member xs i =
     (case parse_int64 i of
        None \<Rightarrow> []
      | Some k \<Rightarrow> if k < 0 \<or> int (length xs) \<le> k then [] else ca_image_path (xs ! nat k))"

text \<open>The last matching element of a loop that does not stop.\<close>

definition last_match :: "('a \<Rightarrow> bool) \<Rightarrow> ('a \<Rightarrow> string) \<Rightarrow> 'a list \<Rightarrow> string" where
  "last_match P f xs = foldl (\<lambda>acc x. if P x then f x else acc) [] xs"

definition stored_document :: "season_key \<Rightarrow> (string \<Rightarrow> 'd option) \<Rightarrow> season_cache_entry list \<Rightarrow> 'd option" where
  "stored_document k decode rows =
     (case get_season_cache k rows of None \<Rightarrow> None | Some e \<Rightarrow> if sc_available e then decode (sc_payload e) else None)"

definition season_poster_path :: "season_info \<Rightarrow> int \<Rightarrow> title_seasons option \<Rightarrow> string" where
  "season_poster_path detail season seasons =
     (if si_poster_path detail \<noteq> [] then si_poster_path detail
      else case seasons of
          Some l \<Rightarrow> last_match (\<lambda>s. ss_number s = season) ss_poster_path (tl_seasons l)
        | None \<Rightarrow> [])"

definition season_image_of :: "season_info \<Rightarrow> int \<Rightarrow> title_seasons option \<Rightarrow> season_image \<Rightarrow> string \<times> string" where
  "season_image_of detail season seasons img =
     (case img of
        Poster_Image \<Rightarrow> (season_poster_path detail season seasons, ''poster'')
      | Cast_Image i \<Rightarrow> (pick_member (si_cast detail) i, ''profile'')
      | Still_Image e \<Rightarrow> (last_match (\<lambda>x. ei_number x = parse_int64_lossy e) ei_still_path (si_episodes detail), ''still'')
      | Guest_Image e g \<Rightarrow>
          (last_match (\<lambda>x. ei_number x = parse_int64_lossy e) (\<lambda>x. pick_member (ei_guest_stars x) g) (si_episodes detail),
           ''profile''))"

definition season_image_path ::
  "season_codec \<Rightarrow> catalog_metadata option \<Rightarrow> string \<Rightarrow> season_cache_entry list \<Rightarrow> string \<Rightarrow> (string \<times> string) option" where
  "season_image_path cd found lang rows kind =
     (case (season_image_kind kind, found) of
        (Some (n, img), Some md) \<Rightarrow>
          (let season = parse_int64_lossy n;
               detail = (case stored_document (cm_provider md, cm_provider_id md, season, lang) (cd_unseason cd) rows of
                           Some s \<Rightarrow> s | None \<Rightarrow> empty_season [] 0);
               seasons = stored_document (cm_provider md, cm_provider_id md, season_list_key, lang) (cd_unlist cd) rows;
               (path, fetch) = season_image_of detail season seasons img
           in if path = [] then None else Some (path, fetch))
      | _ \<Rightarrow> None)"

subsection \<open>Facts\<close>

lemma find_mapped:
  "find P xs = Some e \<Longrightarrow> (\<And>x. P (f x) = P x) \<Longrightarrow> find P (map f xs) = Some (f e)"
  by (induction xs) (auto split: if_splits)

lemma find_holds: "find P xs = Some e \<Longrightarrow> P e"
  by (induction xs) (auto split: if_splits)

lemma present_merged [simp]: "ei_lazy_detail (merge_episode e d) = False" "ei_number (merge_episode e d) = ei_number e"
  by (simp_all add: merge_episode_def)

lemma fresh_season:
  assumes "get_season_cache (cm_provider md, cm_provider_id md, n, lang) rows = Some entry" "sc_available entry"
    "vi_read v" "vi_now v < sc_expires_at entry" "cd_unseason cd (sc_payload entry) = Some s"
  shows "load_season cd md n lang True v rows = (Some (s\<lparr>si_provider := cm_provider md, si_provider_id := cm_provider_id md,
    si_language := lang, si_number := n, si_available := True\<rparr>), False, rows)"
  using assms by (simp add: load_season_def season_payload_def document_visit_def)

text \<open>The document of a season with the description of an episode.\<close>

definition enriched :: "season_info \<Rightarrow> int \<Rightarrow> episode_info \<Rightarrow> season_info" where
  "enriched s episode detail = s\<lparr>si_episodes := map (\<lambda>x. if ei_number x = episode
     then merge_episode (the (find (\<lambda>e. ei_number e = episode) (si_episodes s))) detail else x) (si_episodes s)\<rparr>"

text \<open>
  An episode whose description came from a request of its own is stored in the document of its season:
  until that expires the provider is not asked again, and the same episode is shown.
\<close>

theorem episode_asked_once:
  assumes "cd_unseason cd (sc_payload entry) = Some s"
    "cd_unseason cd (cd_season cd (enriched s episode detail)) = Some (enriched s episode detail)"
    "series_metadata found sk = Some md"
    "get_season_cache (cm_provider md, cm_provider_id md, n, lang) rows = Some entry" "sc_available entry"
    "vi_read v" "vi_now v < sc_expires_at entry" "vi_read v'" "vi_now v' < whole_seconds (sc_expires_at entry)"
    "season_episode cd title_id found sk lang True n episode v (Some (Inr detail)) rows = (r, True, rows')"
  shows "season_episode cd title_id found sk lang True n episode v' again rows' = (r, False, rows')"
proof -
  note load = fresh_season[OF assms(4-7,1)]
  obtain e where e: "find (\<lambda>e. ei_number e = episode) (si_episodes s) = Some e" "ei_lazy_detail e" "0 \<le> n" "0 \<le> episode"
    using assms(3,10) load by (auto simp: season_episode_def split: if_splits option.splits)
  have num: "ei_number e = episode" using find_holds[OF e(1)] by simp
  define m where "m = merge_episode e detail"
  define s' where "s' = enriched s episode detail"
  have s': "s' = s\<lparr>si_episodes := map (\<lambda>x. if ei_number x = ei_number m then m else x) (si_episodes s)\<rparr>"
    using num e(1) by (simp add: s'_def enriched_def m_def)
  have m: "ei_number m = episode" "\<not> ei_lazy_detail m" using num by (simp_all add: m_def)
  have r: "r = Inr (Some (present_episode title_id n m))" "rows' = store_episode cd md n lang m rows"
    using assms(3,10) load e by (auto simp: season_episode_def m_def)
  define entry' where "entry' = entry\<lparr>sc_payload := cd_season cd s'\<rparr>"
  have stored: "rows' = save_season_cache entry' rows"
    by (simp add: r store_episode_def assms(1,4,5) entry'_def s')
  have key: "season_key_of entry' = (cm_provider md, cm_provider_id md, n, lang)"
    using assms(4) unfolding get_season_cache_def by (drule_tac row_of_key) (simp add: entry'_def season_key_of_def)
  have row: "season_row (cm_provider md, cm_provider_id md, n, lang) rows' =
      Some (True, cd_season cd s', whole_seconds (sc_expires_at entry))"
    using season_saved[OF key, of rows] assms(5) by (simp add: stored entry'_def)
  then obtain c where c: "get_season_cache (cm_provider md, cm_provider_id md, n, lang) rows' = Some c" "sc_available c"
    "sc_payload c = cd_season cd s'" "sc_expires_at c = whole_seconds (sc_expires_at entry)"
    by (auto simp: season_row_def)
  have load': "load_season cd md n lang True v' rows' = (Some (s'\<lparr>si_provider := cm_provider md, si_provider_id := cm_provider_id md,
      si_language := lang, si_number := n, si_available := True\<rparr>), False, rows')"
    using fresh_season[OF c(1,2)] c(3,4) assms(2,8,9) by (simp add: s'_def)
  have "find (\<lambda>e. ei_number e = episode) (si_episodes s') = Some m"
    using find_mapped[OF e(1), of "\<lambda>x. if ei_number x = ei_number m then m else x"] num m by (simp add: s')
  then show ?thesis
    using assms(3) load' e(3,4) m by (simp add: season_episode_def r)
qed

text \<open>The addresses of images are read as they were made.\<close>

lemma digits_show: "digits_only (show_nat n)"
  using show_nat_digits[of n] by (simp add: digits_only_def)

lemma no_dash: "CHR ''-'' \<notin> set (show_nat n)"
  using show_nat_digits[of n] by (auto simp: list_all_iff is_digit_def)

lemma lossy_show: "int n < 2 ^ 63 \<Longrightarrow> parse_int64_lossy (show_nat n) = int n"
  by (simp add: parse_int64_lossy_def parse_int64_show)

lemma after_season: "after_prefix ''season-'' (''season-'' @ s) = Some s"
  unfolding after_prefix_def by (simp only: has_prefix_append append_eq_conv_conj if_True) simp

lemma cut_word: "CHR ''-'' \<notin> set w \<Longrightarrow> cut_at CHR ''-'' (w @ ''-'' @ s) = Some (w, s)"
  using cut_at_append[of "CHR ''-''" w s] by simp

lemma image_kinds:
  "season_image_kind (''season-'' @ show_nat n @ ''-'' @ ''cast'' @ ''-'' @ show_nat i) = Some (show_nat n, Cast_Image (show_nat i))"
  "season_image_kind (''season-'' @ show_nat n @ ''-'' @ ''still'' @ ''-'' @ show_nat i) = Some (show_nat n, Still_Image (show_nat i))"
  "season_image_kind (''season-'' @ show_nat n @ ''-'' @ ''guest'' @ ''-'' @ show_nat i @ ''-'' @ show_nat j) =
     Some (show_nat n, Guest_Image (show_nat i) (show_nat j))"
proof -
  have words: "CHR ''-'' \<notin> set ''cast''" "CHR ''-'' \<notin> set ''still''" "CHR ''-'' \<notin> set ''guest''" by simp_all
  have away: "''cast'' @ ''-'' @ s \<noteq> ''poster''" "''still'' @ ''-'' @ s \<noteq> ''poster''" "''guest'' @ ''-'' @ s \<noteq> ''poster''" for s
    by simp_all
  have other: "''still'' \<noteq> ''cast''" "''guest'' \<noteq> ''cast''" "''guest'' \<noteq> ''still''" by simp_all
  show "season_image_kind (''season-'' @ show_nat n @ ''-'' @ ''cast'' @ ''-'' @ show_nat i) = Some (show_nat n, Cast_Image (show_nat i))"
    "season_image_kind (''season-'' @ show_nat n @ ''-'' @ ''still'' @ ''-'' @ show_nat i) = Some (show_nat n, Still_Image (show_nat i))"
    "season_image_kind (''season-'' @ show_nat n @ ''-'' @ ''guest'' @ ''-'' @ show_nat i @ ''-'' @ show_nat j) =
      Some (show_nat n, Guest_Image (show_nat i) (show_nat j))"
    unfolding season_image_kind_def
    by (simp_all only: after_season cut_word[OF no_dash] cut_word[OF words(1)] cut_word[OF words(2)] cut_word[OF words(3)]
        digits_show away other option.case prod.case if_True if_False simp_thms)
qed

lemma last_match_unique:
  assumes "distinct (map g xs)" "x \<in> set xs"
  shows "last_match (\<lambda>y. g y = g x) f xs = f x"
proof -
  have none: "foldl (\<lambda>acc y. if g y = k then f y else acc) a ys = a" if "k \<notin> g ` set ys" for a ys k
    using that by (induction ys arbitrary: a) auto
  obtain ys zs where "xs = ys @ x # zs" using split_list[OF assms(2)] by blast
  with assms(1) none[of "g x"] show ?thesis by (auto simp: last_match_def)
qed

text \<open>
  The address of every image a season shows, of a member of its cast, of the still of an episode or of
  one of its guests, leads back to exactly the path the provider gave for it.
\<close>

theorem season_images_found:
  assumes "get_season_cache (cm_provider md, cm_provider_id md, int n, lang) rows = Some entry" "sc_available entry"
    "cd_unseason cd (sc_payload entry) = Some s" "int n < 2 ^ 63" "int i < 2 ^ 63"
    "distinct (map ei_number (si_episodes s))" "e \<in> set (si_episodes s)" "ei_number e = int k" "int k < 2 ^ 63"
  shows "(i < length (si_cast s) \<and> ca_image_path (si_cast s ! i) \<noteq> [] \<longrightarrow>
      season_image_path cd (Some md) lang rows (''season-'' @ show_nat n @ ''-'' @ ''cast'' @ ''-'' @ show_nat i) =
        Some (ca_image_path (si_cast s ! i), ''profile'')) \<and>
    (ei_still_path e \<noteq> [] \<longrightarrow>
      season_image_path cd (Some md) lang rows (''season-'' @ show_nat n @ ''-'' @ ''still'' @ ''-'' @ show_nat k) =
        Some (ei_still_path e, ''still'')) \<and>
    (i < length (ei_guest_stars e) \<and> ca_image_path (ei_guest_stars e ! i) \<noteq> [] \<longrightarrow>
      season_image_path cd (Some md) lang rows (''season-'' @ show_nat n @ ''-'' @ ''guest'' @ ''-'' @ show_nat k @ ''-'' @ show_nat i) =
        Some (ca_image_path (ei_guest_stars e ! i), ''profile''))"
proof -
  have pick: "pick_member xs (show_nat i) = ca_image_path (xs ! i)" if "i < length xs" for xs
    using that parse_int64_show[OF assms(5)] by (simp add: pick_member_def)
  note one = last_match_unique[OF assms(6,7), unfolded assms(8)]
  show ?thesis
    using assms(1-3) one pick
    by (auto simp: season_image_path_def stored_document_def season_image_of_def image_kinds lossy_show[OF assms(4)] lossy_show[OF assms(9)] Let_def
        simp del: append.simps)
qed

subsection \<open>Examples\<close>

definition plain_episode :: episode_info where
  "plain_episode = \<lparr>ei_number = 2, ei_name = ''E'', ei_air_date = [], ei_runtime = 0, ei_rating = 0, ei_vote_count = 0,
     ei_overview = [], ei_still_url = [], ei_still_path = ''/s.jpg'', ei_directors = [], ei_writers = [],
     ei_guest_stars = [\<lparr>ca_name = ''G'', ca_character = [], ca_image_url = [], ca_image_path = ''/g.jpg''\<rparr>],
     ei_filler = False, ei_recap = False, ei_lazy_detail = True\<rparr>"

definition plain_season :: season_info where
  "plain_season = (empty_season [] 1)\<lparr>si_episodes := [plain_episode]\<rparr>"

definition told_episode :: episode_info where
  "told_episode = plain_episode\<lparr>ei_overview := ''what happens''\<rparr>"

definition two_documents :: season_codec where
  "two_documents = \<lparr>cd_list = (\<lambda>_. []), cd_unlist = (\<lambda>_. None), cd_season = (\<lambda>_. ''second''),
     cd_unseason = (\<lambda>p. if p = ''first'' then Some plain_season else Some (enriched plain_season 2 told_episode))\<rparr>"

definition stored_season :: season_cache_entry where
  "stored_season = \<lparr>sc_provider = ''jikan'', sc_provider_id = ''1'', sc_season = 1, sc_language = ''en'', sc_available = True,
     sc_payload = ''first'', sc_fetched_at = 0, sc_expires_at = hour\<rparr>"

definition series_known :: catalog_metadata where
  "series_known = zero_catalog_metadata\<lparr>cm_provider := ''jikan'', cm_provider_id := ''1'', cm_kind := media_series\<rparr>"

definition early_visit :: "season_info visit" where
  "early_visit = \<lparr>vi_now = 0, vi_read = True, vi_then = 0, vi_answer = Refused_Answer, vi_alive = True, vi_waits = True\<rparr>"

lemma stored_season_found:
  "get_season_cache (cm_provider series_known, cm_provider_id series_known, 1, ''en'') [stored_season] = Some stored_season"
  by (simp add: get_season_cache_def row_of_def season_key_of_def stored_season_def series_known_def)

lemma series_known_series: "series_metadata (Some series_known) None = Some series_known"
  by (simp add: series_metadata_def series_known_def title_info_kind_def media_series_def)

lemma first_document: "cd_unseason two_documents (sc_payload stored_season) = Some plain_season"
  by (simp add: two_documents_def stored_season_def)

theorem episode_asked_once_witness:
  "\<exists>r rows. season_episode two_documents ''t'' (Some series_known) None ''en'' True 1 2 early_visit (Some (Inr told_episode)) [stored_season] =
       (r, True, rows) \<and>
     season_episode two_documents ''t'' (Some series_known) None ''en'' True 1 2 early_visit (Some (Inr told_episode)) rows = (r, False, rows)"
proof -
  have codec: "cd_unseason two_documents (cd_season two_documents (enriched plain_season 2 told_episode)) =
      Some (enriched plain_season 2 told_episode)"
    by (simp add: two_documents_def)
  have times: "sc_available stored_season" "vi_read early_visit" "vi_now early_visit < sc_expires_at stored_season" "vi_read early_visit"
    "vi_now early_visit < whole_seconds (sc_expires_at stored_season)"
    by (simp_all add: stored_season_def early_visit_def whole_seconds_def time_units)
  have load: "load_season two_documents series_known 1 ''en'' True early_visit [stored_season] =
      (Some (plain_season\<lparr>si_provider := cm_provider series_known, si_provider_id := cm_provider_id series_known,
        si_language := ''en'', si_number := 1, si_available := True\<rparr>), False, [stored_season])"
    using fresh_season[OF stored_season_found times(1-3) first_document] .
  obtain r rows where "season_episode two_documents ''t'' (Some series_known) None ''en'' True 1 2 early_visit
      (Some (Inr told_episode)) [stored_season] = (r, True, rows)"
    by (simp add: season_episode_def series_known_series load plain_season_def plain_episode_def)
  with episode_asked_once[OF first_document codec series_known_series stored_season_found times this] show ?thesis by blast
qed

theorem season_images_found_witness:
  "season_image_path two_documents (Some series_known) ''en'' [stored_season] ''season-1-still-2'' = Some (''/s.jpg'', ''still'')"
proof -
  have "plain_episode \<in> set (si_episodes plain_season)" "distinct (map ei_number (si_episodes plain_season))"
    "ei_number plain_episode = int 2" "ei_still_path plain_episode = ''/s.jpg''" "sc_available stored_season"
    by (simp_all add: plain_season_def plain_episode_def stored_season_def)
  note e = this
  have shown: "show_nat (Suc 0) = ''1''" "show_nat 2 = ''2''" by code_simp+
  have found: "get_season_cache (cm_provider series_known, cm_provider_id series_known, int 1, ''en'') [stored_season] = Some stored_season"
    using stored_season_found by simp
  show ?thesis
    using season_images_found[OF found e(5) first_document _ _ e(2) e(1) e(3), of 0] e(4)
    by (simp add: shown)
qed

end
