(* ===== verification/Outbound.thy ===== *)
theory Outbound
  imports Domain_Model Torrent_Meta
begin

text \<open>
  Calls to other services: the retry of rate-limited requests (\<open>internal/platform/outbound/retry.go\<close>) and the chain
  of metadata providers (\<open>internal/application/metaprovider.go\<close>).  What a service answers to the n-th request, and
  the random part of a delay, are arguments.
\<close>

subsection \<open>Retries\<close>

record retry_policy =
  po_provider :: string
  po_attempts :: int
  po_max_inline_delay :: int

definition effective_policy :: "retry_policy \<Rightarrow> retry_policy" where
  "effective_policy p =
     p\<lparr>po_attempts := (if po_attempts p < 1 then 3 else po_attempts p),
       po_max_inline_delay := (if po_max_inline_delay p \<le> 0 then 15 * second else po_max_inline_delay p)\<rparr>"

text \<open>The errors of \<open>net/http\<close> carry the address of the request, with its credentials.\<close>

datatype transport_error = Url_Error string string string | Other_Error string

definition redact :: "string \<Rightarrow> transport_error \<Rightarrow> string" where
  "redact provider e =
     (case e of
        Other_Error m \<Rightarrow> m
      | Url_Error op url cause \<Rightarrow>
          (if provider = [] then ''outbound'' else provider) @ '' '' @ to_lower op @ '' request failed: '' @ cause)"

record answer_headers =
  ah_retry_after :: string
  ah_rate_limit_reset :: string

datatype 'r request_result =
  Not_Made transport_error
| Not_Sent transport_error
| Answered_With int answer_headers 'r

text \<open>The date form of \<open>Retry-After\<close> is read by \<open>parse_time\<close>; \<open>dice\<close> is below a quarter of the base and one.\<close>

definition retry_delay :: "(string \<Rightarrow> go_time option) \<Rightarrow> go_time \<Rightarrow> int \<Rightarrow> answer_headers \<Rightarrow> int \<Rightarrow> int" where
  "retry_delay parse_time now dice h attempt =
     (let after = trim_space (ah_retry_after h);
          reset = trim_space (ah_rate_limit_reset h);
          base = second * 2 ^ nat (min (attempt - 1) 5);
          from_reset = (if reset = [] then None else map_option (\<lambda>u. max (u * second - now) second) (parse_int64 reset));
          from_date = (if after = [] then None else map_option (\<lambda>t. max (t - now) second) (parse_time after));
          from_seconds = (if after = [] then None else case parse_int64 after of
             Some s \<Rightarrow> if 0 \<le> s then Some (i64 (s * second)) else None | None \<Rightarrow> None)
      in case from_seconds of
           Some d \<Rightarrow> d
         | None \<Rightarrow> (case from_date of
             Some d \<Rightarrow> d
           | None \<Rightarrow> (case from_reset of Some d \<Rightarrow> d | None \<Rightarrow> base + dice)))"

datatype 'r outbound_result = Responded 'r | Outbound_Failed string | Rate_Limited go_time int | Context_Ended

text \<open>What the world does with attempt \<open>n\<close>: the time, the answer, the dice, and whether the wait is cancelled.\<close>

record 'r attempt_world =
  aw_now :: go_time
  aw_result :: "'r request_result"
  aw_dice :: int
  aw_cancelled :: bool

text \<open>The loop, with the delays that were waited.\<close>

function outbound_loop ::
  "(string \<Rightarrow> go_time option) \<Rightarrow> retry_policy \<Rightarrow> (int \<Rightarrow> 'r attempt_world) \<Rightarrow> int \<Rightarrow> 'r outbound_result option \<Rightarrow>
   'r outbound_result option \<times> int list" where
  "outbound_loop parse_time p aw attempt last_limit =
     (if po_attempts p < attempt then (last_limit, [])
      else let w = aw attempt in
        (case aw_result w of
           Not_Made e \<Rightarrow> (Some (Outbound_Failed (redact (po_provider p) e)), [])
         | Not_Sent e \<Rightarrow> (Some (Outbound_Failed (redact (po_provider p) e)), [])
         | Answered_With status h r \<Rightarrow>
             if status \<noteq> 429 then (Some (Responded r), [])
             else let delay = retry_delay parse_time (aw_now w) (aw_dice w) h attempt;
                      limit = Rate_Limited (aw_now w + delay) attempt
               in if attempt = po_attempts p \<or> po_max_inline_delay p < delay then (Some limit, [])
                  else if aw_cancelled w then (Some Context_Ended, [])
                  else (case outbound_loop parse_time p aw (attempt + 1) (Some limit) of
                          (r, waits) \<Rightarrow> (r, delay # waits))))"
  by pat_completeness auto

termination
  by (relation "measure (\<lambda>(_, p, _, attempt, _). nat (po_attempts p + 1 - attempt))") auto

declare outbound_loop.simps [simp del]

definition outbound_do ::
  "(string \<Rightarrow> go_time option) \<Rightarrow> retry_policy \<Rightarrow> (int \<Rightarrow> 'r attempt_world) \<Rightarrow> 'r outbound_result option \<times> int list" where
  "outbound_do parse_time p aw = outbound_loop parse_time (effective_policy p) aw 1 None"

subsection \<open>Providers\<close>

text \<open>What one provider answers to each kind of question.\<close>

record ('q, 's, 'd) metadata_provider =
  mp_lookup :: "'q \<Rightarrow> string + catalog_metadata"
  mp_seasons :: "string \<Rightarrow> string + 's"
  mp_details :: "(string \<Rightarrow> string + 'd) option"

definition new_metadata_chain ::
  "(string \<times> ('q, 's, 'd) metadata_provider option) list \<Rightarrow> (string \<times> ('q, 's, 'd) metadata_provider) list" where
  "new_metadata_chain entries =
     foldl (\<lambda>m (i, p). case p of
         None \<Rightarrow> m
       | Some q \<Rightarrow> if i = [] \<or> i \<in> fst ` set m then m else m @ [(i, q)]) [] entries"

fun priority_from :: "string set \<Rightarrow> string list \<Rightarrow> (string \<times> 'p) list \<Rightarrow> string list" where
  "priority_from seen [] m = []"
| "priority_from seen (i # is) m =
     (if i \<in> fst ` set m \<and> i \<notin> seen then i # priority_from (insert i seen) is m else priority_from seen is m)"

definition chain_priority :: "string list option \<Rightarrow> (string \<times> 'p) list \<Rightarrow> string list" where
  "chain_priority order m = (case order of None \<Rightarrow> [] | Some is \<Rightarrow> priority_from {} is m)"

text \<open>The errors of the providers that failed before, joined, or the first success stamped with its provider.\<close>

fun ask_chain ::
  "'q \<Rightarrow> (string \<times> ('q, 's, 'd) metadata_provider) list \<Rightarrow> string list \<Rightarrow> string list \<Rightarrow> string list + catalog_metadata" where
  "ask_chain q m [] errs = Inl errs"
| "ask_chain q m (i # is) errs =
     (case map_of m i of
        None \<Rightarrow> Inl errs
      | Some p \<Rightarrow>
          (case mp_lookup p q of
             Inr md \<Rightarrow> Inr (if cm_provider md = [] then md\<lparr>cm_provider := i\<rparr> else md)
           | Inl e \<Rightarrow> ask_chain q m is (errs @ [i @ '': '' @ e])))"

definition chain_lookup ::
  "'q \<Rightarrow> string list option \<Rightarrow> (string \<times> ('q, 's, 'd) metadata_provider) list \<Rightarrow> string list + catalog_metadata" where
  "chain_lookup q order m =
     (let is = chain_priority order m in
      if is = [] then Inl [''no metadata providers are configured or available''] else ask_chain q m is [])"

text \<open>A plain name in the quotes of \<open>%q\<close>.\<close>

definition quoted :: "string \<Rightarrow> string" where
  "quoted s = CHR 0x22 # s @ [CHR 0x22]"

definition chain_seasons :: "string \<Rightarrow> string \<Rightarrow> (string \<times> ('q, 's, 'd) metadata_provider) list \<Rightarrow> string + 's" where
  "chain_seasons provider pid m =
     (case map_of m provider of None \<Rightarrow> Inl (''unknown metadata provider '' @ quoted provider) | Some p \<Rightarrow> mp_seasons p pid)"

definition chain_details :: "string \<Rightarrow> string \<Rightarrow> (string \<times> ('q, 's, 'd) metadata_provider) list \<Rightarrow> string + 'd" where
  "chain_details provider pid m =
     (case map_of m provider of
        None \<Rightarrow> Inl (''unknown metadata provider '' @ quoted provider)
      | Some p \<Rightarrow> (case mp_details p of
          None \<Rightarrow> Inl (''metadata provider '' @ quoted provider @ '' does not serve title details'')
        | Some f \<Rightarrow> f pid))"

subsection \<open>Facts\<close>

lemma outbound_loop_bounds:
  assumes "1 \<le> attempt" "attempt \<le> po_attempts p" "outbound_loop parse_time p aw attempt lst = (r, waits)"
  shows "r \<noteq> None \<and> int (length waits) \<le> po_attempts p - attempt \<and> (\<forall>d \<in> set waits. d \<le> po_max_inline_delay p) \<and>
    (\<forall>x. r = Some (Responded x) \<longrightarrow>
       (\<exists>n status h. attempt \<le> n \<and> n \<le> po_attempts p \<and> aw_result (aw n) = Answered_With status h x \<and> status \<noteq> 429))"
  using assms
proof (induction parse_time p aw attempt lst arbitrary: r waits rule: outbound_loop.induct)
  case (1 parse_time p aw attempt lst)
  have small: "\<not> po_attempts p < attempt" using 1(3) by simp
  note step = 1(4)[unfolded outbound_loop.simps[of parse_time p aw attempt lst] if_not_P[OF small] Let_def]
  show ?case
  proof (cases "aw_result (aw attempt)")
    case (Answered_With status h x)
    show ?thesis
    proof (cases "status \<noteq> 429")
      case True
      with Answered_With 1(2,3) step show ?thesis by auto
    next
      case False
      define delay where "delay = retry_delay parse_time (aw_now (aw attempt)) (aw_dice (aw attempt)) h attempt"
      show ?thesis
      proof (cases "attempt = po_attempts p \<or> po_max_inline_delay p < delay \<or> aw_cancelled (aw attempt)")
        case True
        with Answered_With False 1(2,3) step show ?thesis
          by (auto simp: delay_def[symmetric] split: if_splits)
      next
        case go: False
        obtain r' waits' where l: "outbound_loop parse_time p aw (attempt + 1) (Some (Rate_Limited (aw_now (aw attempt) + delay) attempt)) = (r', waits')"
          by fastforce
        have eq: "r = r'" "waits = delay # waits'"
          using Answered_With False go step l by (simp_all add: delay_def[symmetric])
        have "r' \<noteq> None \<and> int (length waits') \<le> po_attempts p - (attempt + 1) \<and> (\<forall>d \<in> set waits'. d \<le> po_max_inline_delay p) \<and>
          (\<forall>x. r' = Some (Responded x) \<longrightarrow>
             (\<exists>n status h. attempt + 1 \<le> n \<and> n \<le> po_attempts p \<and> aw_result (aw n) = Answered_With status h x \<and> status \<noteq> 429))"
          by (rule 1(1)[OF small refl Answered_With _ delay_def refl _ _ _ _ l]) (use False go 1(2,3) in auto)
        then show ?thesis using go eq by force
      qed
    qed
  qed (use step small in auto)
qed

text \<open>
  A call to another service always answers, after at most as many requests as the policy allows (three
  where it allows none), waits no longer than the policy bounds between them, and hands out only an answer that is
  not a rate limit.
\<close>

theorem outbound_bounded:
  "\<exists>r waits. outbound_do parse_time p aw = (Some r, waits) \<and>
     int (length waits) < po_attempts (effective_policy p) \<and>
     (\<forall>d \<in> set waits. d \<le> po_max_inline_delay (effective_policy p)) \<and>
     (\<forall>x. r = Responded x \<longrightarrow> (\<exists>n status h. 1 \<le> n \<and> n \<le> po_attempts (effective_policy p) \<and>
        aw_result (aw n) = Answered_With status h x \<and> status \<noteq> 429))"
proof -
  obtain r waits where l: "outbound_loop parse_time (effective_policy p) aw 1 None = (r, waits)" by fastforce
  have one: "1 \<le> po_attempts (effective_policy p)" by (simp add: effective_policy_def)
  from outbound_loop_bounds[OF _ one l] l show ?thesis by (cases r) (auto simp: outbound_do_def)
qed

text \<open>A service that limits the first request is asked again after the second it names.\<close>

lemma outbound_bounded_witness:
  "let p = \<lparr>po_provider = ''tmdb'', po_attempts = 2, po_max_inline_delay = 0\<rparr>;
       aw = (\<lambda>n. \<lparr>aw_now = 0, aw_result = (if n = 1 then Answered_With 429 \<lparr>ah_retry_after = ''1'', ah_rate_limit_reset = []\<rparr> ()
                                    else Answered_With 200 \<lparr>ah_retry_after = [], ah_rate_limit_reset = []\<rparr> ()),
              aw_dice = 0, aw_cancelled = False\<rparr>)
   in \<exists>r waits. outbound_do (\<lambda>_. None) p aw = (Some r, waits) \<and> r = Responded () \<and> waits = [second] \<and> int (length waits) < 2"
proof -
  define p where "p = \<lparr>po_provider = ''tmdb'', po_attempts = 2, po_max_inline_delay = 0\<rparr>"
  define aw where "aw = (\<lambda>n::int. \<lparr>aw_now = 0, aw_result = (if n = 1 then Answered_With 429 \<lparr>ah_retry_after = ''1'', ah_rate_limit_reset = []\<rparr> ()
                                    else Answered_With 200 \<lparr>ah_retry_after = [], ah_rate_limit_reset = []\<rparr> ()),
              aw_dice = 0, aw_cancelled = False\<rparr>)"
  have policy: "po_attempts (effective_policy p) = 2" by (simp add: effective_policy_def p_def)
  obtain r waits where w: "outbound_do (\<lambda>_. None) p aw = (Some r, waits)" "int (length waits) < 2"
    using outbound_bounded[of "\<lambda>_. None" p aw] policy by auto
  have parse: "parse_int64 ''1'' = Some 1" "trim_space ''1'' = ''1''" "trim_space [] = []"
    by (simp_all add: parse_int64_def is_digit_def digit_val_def trim_space_def trim_by_def is_blank_def)
  have delay: "retry_delay (\<lambda>_. None) 0 0 \<lparr>ah_retry_after = ''1'', ah_rate_limit_reset = []\<rparr> 1 = second"
    by (simp add: retry_delay_def Let_def parse i64_def second_def)
  have "outbound_do (\<lambda>_. None) p aw = (Some (Responded ()), [second])"
    by (simp add: outbound_do_def outbound_loop.simps aw_def p_def effective_policy_def delay second_def)
  with w show ?thesis unfolding p_def[symmetric] aw_def[symmetric] Let_def by simp
qed

text \<open>A delay that is given in seconds wraps: the service asks for 292 years and gets its next request at once.\<close>

lemma retry_after_wraps:
  "retry_delay (\<lambda>_. None) now dice \<lparr>ah_retry_after = ''9223372037'', ah_rate_limit_reset = []\<rparr> 1 < 0"
proof -
  have "parse_int64 ''9223372037'' = Some 9223372037" by (simp add: parse_int64_def is_digit_def digit_val_def)
  moreover have "trim_space ''9223372037'' = ''9223372037''" by (simp add: trim_space_def trim_by_def is_blank_def)
  moreover have "i64 (9223372037 * second) < 0" by (simp add: i64_def second_def)
  ultimately show ?thesis by (simp add: retry_delay_def Let_def)
qed

text \<open>An error of the transport names neither the path nor the query of the request.\<close>

lemma redact_same: "redact provider (Url_Error op u cause) = redact provider (Url_Error op v cause)"
  by (simp add: redact_def)

text \<open>The chain asks the providers it knows, each once and in the order of the settings.\<close>

lemma priority_from_known: "set (priority_from seen is m) \<subseteq> fst ` set m - seen"
  by (induction seen "is" m rule: priority_from.induct) auto

lemma priority_from_distinct: "distinct (priority_from seen is m)"
  by (induction seen "is" m rule: priority_from.induct) (auto dest: subsetD[OF priority_from_known])

lemma known_map_of: "i \<in> fst ` set m \<Longrightarrow> \<exists>p. map_of m i = Some p"
  by (metis domIff dom_map_of_conv_image_fst option.exhaust)

text \<open>A provider that failed, and one that answered with \<open>md\<close>.\<close>

definition provider_failed :: "'q \<Rightarrow> (string \<times> ('q, 's, 'd) metadata_provider) list \<Rightarrow> string \<Rightarrow> bool" where
  "provider_failed q m i = (case map_of m i of Some p \<Rightarrow> (case mp_lookup p q of Inl _ \<Rightarrow> True | Inr _ \<Rightarrow> False) | None \<Rightarrow> False)"

definition provider_answered :: "'q \<Rightarrow> (string \<times> ('q, 's, 'd) metadata_provider) list \<Rightarrow> catalog_metadata \<Rightarrow> string \<Rightarrow> bool" where
  "provider_answered q m md i =
     (case map_of m i of
        Some p \<Rightarrow> (case mp_lookup p q of Inr x \<Rightarrow> md = (if cm_provider x = [] then x\<lparr>cm_provider := i\<rparr> else x) | Inl _ \<Rightarrow> False)
      | None \<Rightarrow> False)"

lemma ask_chain_answer:
  "set is \<subseteq> fst ` set m \<Longrightarrow>
   (case ask_chain q m is errs of
      Inr md \<Rightarrow> \<exists>ys i zs. is = ys @ i # zs \<and> provider_answered q m md i \<and> list_all (provider_failed q m) ys
    | Inl es \<Rightarrow> list_all (provider_failed q m) is)"
proof (induction "is" arbitrary: errs)
  case (Cons i "is")
  then obtain p where p: "map_of m i = Some p" using known_map_of[of i m] by auto
  show ?case
  proof (cases "mp_lookup p q")
    case (Inl e)
    have fails: "provider_failed q m i" using p Inl by (simp add: provider_failed_def)
    have step: "ask_chain q m (i # is) errs = ask_chain q m is (errs @ [i @ '': '' @ e])" using p Inl by simp
    note ih = Cons.IH[of "errs @ [i @ '': '' @ e]"]
    show ?thesis
    proof (cases "ask_chain q m is (errs @ [i @ '': '' @ e])")
      case (Inr md)
      with ih Cons.prems obtain ys j zs where "is = ys @ j # zs" "provider_answered q m md j" "list_all (provider_failed q m) ys"
        by auto
      with fails have "i # is = (i # ys) @ j # zs \<and> provider_answered q m md j \<and> list_all (provider_failed q m) (i # ys)" by simp
      then show ?thesis unfolding step Inr sum.case by blast
    qed (use ih Cons.prems fails step in auto)
  next
    case (Inr x)
    define md where "md = (if cm_provider x = [] then x\<lparr>cm_provider := i\<rparr> else x)"
    have here: "provider_answered q m md i" using p Inr by (simp add: provider_answered_def md_def)
    have step: "ask_chain q m (i # is) errs = Inr md" using p Inr by (simp add: md_def)
    have "\<exists>ys j zs. i # is = ys @ j # zs \<and> provider_answered q m md j \<and> list_all (provider_failed q m) ys"
      by (rule exI[where x = "[]"], rule exI[where x = i], rule exI[where x = "is"]) (simp add: here)
    then show ?thesis unfolding step sum.case .
  qed
qed simp

text \<open>
  The chain of metadata providers answers with the success of the first provider, in the order of the
  settings, that has one, stamped with its name; it fails only when every provider listed and known has failed.
\<close>

theorem chain_first_success:
  "case chain_lookup q order m of
     Inr md \<Rightarrow> \<exists>ys i zs. chain_priority order m = ys @ i # zs \<and> provider_answered q m md i \<and> list_all (provider_failed q m) ys
   | Inl es \<Rightarrow> list_all (provider_failed q m) (chain_priority order m)"
proof -
  have "set (chain_priority order m) \<subseteq> fst ` set m"
    using priority_from_known[of "{}" _ m] by (auto simp: chain_priority_def split: option.splits)
  note answer = ask_chain_answer[OF this, where q = q and errs = "[]"]
  show ?thesis
  proof (cases "chain_priority order m = []")
    case True
    then show ?thesis by (simp add: chain_lookup_def)
  next
    case False
    then have "chain_lookup q order m = ask_chain q m (chain_priority order m) []" by (simp add: chain_lookup_def Let_def)
    with answer show ?thesis by simp
  qed
qed

end
