(* ===== verification/Subtitle_Text.thy ===== *)
theory Subtitle_Text
  imports Go_Regexp Stream_Range Event_Bus
begin

text \<open>
  The conversion of subtitles (\<open>internal/application/subtitles.go\<close>): the cleaning of cue texts, WebVTT for browsers
  and SAMI for television sets.  Case folding and white space are those of ASCII, as in the other texts of the
  library.
\<close>

subsection \<open>Replacing matches\<close>

text \<open>
  \<open>ReplaceAllStringFunc\<close> for patterns that match no empty text and look at nothing around their match.  A repetition
  of a pattern that is never empty is its optional repetition as many times as the text has bytes.
\<close>

function rx_replace :: "rx \<Rightarrow> (string \<Rightarrow> string) \<Rightarrow> string \<Rightarrow> string" where
  "rx_replace r f s =
     (case rx_find r s of
        None \<Rightarrow> s
      | Some (i, j, c) \<Rightarrow> if j = 0 \<or> s = [] then s else take i s @ f (slice s i j) @ rx_replace r f (drop j s))"
  by pat_completeness auto

termination
  by (relation "measure (\<lambda>(_, _, s). length s)") auto

declare rx_replace.simps [simp del]

definition matches_in :: "rx \<Rightarrow> string \<Rightarrow> bool" where
  "matches_in r s = (rx_find r s \<noteq> None)"

text \<open>The text of a group, which is empty where the group took no part in the match.\<close>

definition group_text :: "string \<Rightarrow> capture list \<Rightarrow> nat \<Rightarrow> string" where
  "group_text s c k = (case captured s c k of None \<Rightarrow> [] | Some t \<Rightarrow> t)"

abbreviation newline :: char where
  "newline \<equiv> CHR 0x0A"

abbreviation backslash :: char where
  "backslash \<equiv> CHR 0x5C"

subsection \<open>The patterns\<close>

definition rx_spaces :: rx where
  "rx_spaces = Many rx_space"

definition angle_open :: rx where
  "angle_open = Alt (Lit ''<'') (word_ci ''&lt;'')"

definition angle_close :: rx where
  "angle_close = Alt (Lit ''>'') (word_ci ''&gt;'')"

definition cue_break_tag :: rx where
  "cue_break_tag = cats [angle_open, rx_spaces, Opt (Lit ''/''), rx_spaces, word_ci ''br'', rx_spaces, Opt (Lit ''/''), rx_spaces,
     angle_close]"

definition cue_ass_break :: rx where
  "cue_ass_break = Cat (Lit [backslash]) (one_of ''Nn'')"

definition cue_override :: rx where
  "cue_override = cats [Lit [CHR ''{'', backslash], Many (\<lambda>c. c \<noteq> CHR ''}''), Lit ''}'']"

definition font_attribute :: rx where
  "font_attribute =
     Alt (Cat (Opt (word_ci ''&gt;'')) (Cls (\<lambda>c. c \<noteq> CHR ''>'' \<and> c \<noteq> CHR ''&'')))
         (Cat (Lit ''&'') (Alt (Cls (\<lambda>c. lower_byte c \<noteq> CHR ''g''))
            (Cat (word_ci ''g'') (Alt (Cls (\<lambda>c. lower_byte c \<noteq> CHR ''t'')) (Cat (word_ci ''t'') (Cls (\<lambda>c. c \<noteq> CHR '';'')))))))"

definition cue_font_tag :: "nat \<Rightarrow> rx" where
  "cue_font_tag n = cats [angle_open, Opt (Lit ''/''), word_ci ''font'', Opt (Cat (Cls rx_space) (opt_times n font_attribute)), angle_close]"

definition style_letter :: rx where
  "style_letter = Cls (\<lambda>c. lower_byte c \<in> {CHR ''i'', CHR ''b'', CHR ''u''})"

definition cue_escaped_tag :: rx where
  "cue_escaped_tag = cats [word_ci ''&lt;'', Cap 1 (Cat (Opt (Lit ''/'')) style_letter), word_ci ''&gt;'']"

definition cue_format_tag :: rx where
  "cue_format_tag = cats [Lit ''<'', Opt (Lit ''/''), style_letter, Lit ''>'']"

definition ass_format_block :: rx where
  "ass_format_block = cats [Lit [CHR ''{'', backslash], Cap 1 style_letter, Cap 2 (one_of ''01''), Lit ''}'']"

definition clock_rx :: "nat \<Rightarrow> rx" where
  "clock_rx k = cats [Opt (Cat (Cap k (digits_rx 1 3)) (Lit '':'')), Cap (k + 1) (digits_rx 1 2), Lit '':'', Cap (k + 2) (digits_rx 2 2),
     one_of '',.'', Cap (k + 3) (digits_rx 3 3)]"

definition time_line :: rx where
  "time_line = cats [clock_rx 1, rx_spaces, Lit ''-->'', rx_spaces, clock_rx 5]"

definition ass_clock_rx :: "nat \<Rightarrow> rx" where
  "ass_clock_rx k = cats [Cap k (Cat (Cls is_digit) (Many is_digit)), Lit '':'', Cap (k + 1) (digits_rx 2 2), Lit '':'',
     Cap (k + 2) (digits_rx 2 2), Lit ''.'', Cap (k + 3) (digits_rx 2 2)]"

definition ass_field :: rx where
  "ass_field = Cat (Many (\<lambda>c. c \<noteq> CHR '','')) (Lit '','')"

definition ass_line :: rx where
  "ass_line = cats [Line_Start, word_ci ''dialogue:'', ass_field, ass_clock_rx 1, Lit '','', ass_clock_rx 5, Lit '','',
     ass_field, ass_field, ass_field, ass_field, ass_field, ass_field, Cap 9 (Many (\<lambda>c. c \<noteq> newline)), Line_End]"

definition vtt_clock_rx :: rx where
  "vtt_clock_rx = cats [Opt (Cat (digits_rx 1 3) (Lit '':'')), digits_rx 2 2, Lit '':'', digits_rx 2 2, Lit ''.'', digits_rx 3 3]"

definition vtt_cue_timing :: rx where
  "vtt_cue_timing = cats [vtt_clock_rx, Many (\<lambda>c. c = CHR '' '' \<or> c = CHR 9), Lit ''-->'', Many (\<lambda>c. c = CHR '' '' \<or> c = CHR 9), vtt_clock_rx]"

subsection \<open>Cue texts\<close>

definition escape_cue_markup :: "string \<Rightarrow> string" where
  "escape_cue_markup s = concat (map (\<lambda>c. if c = CHR ''&'' then ''&amp;'' else if c = CHR ''<'' then ''&lt;''
     else if c = CHR ''>'' then ''&gt;'' else [c]) s)"

definition html_escape :: "string \<Rightarrow> string" where
  "html_escape s = concat (map (\<lambda>c. if c = CHR ''&'' then ''&amp;'' else if c = CHR 0x27 then ''&#39;''
     else if c = CHR ''<'' then ''&lt;'' else if c = CHR ''>'' then ''&gt;'' else if c = CHR 0x22 then ''&#34;'' else [c]) s)"

definition style_tag :: "string \<Rightarrow> string" where
  "style_tag block =
     (case rx_find ass_format_block block of
        None \<Rightarrow> []
      | Some (_, _, c) \<Rightarrow>
          (if group_text block c 2 = ''1'' then ''<'' else ''</'') @ to_lower (group_text block c 1) @ ''>'')"

definition unescaped_tag :: "string \<Rightarrow> string" where
  "unescaped_tag block =
     (case rx_find cue_escaped_tag block of None \<Rightarrow> [] | Some (_, _, c) \<Rightarrow> ''<'' @ group_text block c 1 @ ''>'')"

definition kept_lines :: "string \<Rightarrow> string list" where
  "kept_lines s = filter (\<lambda>l. l \<noteq> []) (map trim_space (split_on newline s))"

definition normalize_cue_text :: "string \<Rightarrow> bool \<Rightarrow> bool \<Rightarrow> string" where
  "normalize_cue_text s keep_formatting ass =
     (let s = filter (\<lambda>c. c \<noteq> CHR 0x0D) s;
          s = rx_replace cue_break_tag (\<lambda>_. [newline]) s;
          s = (if ass then rx_replace cue_ass_break (\<lambda>_. [newline]) s else s);
          s = rx_replace ass_format_block style_tag s;
          s = rx_replace cue_override (\<lambda>_. []) s;
          s = rx_replace (cue_font_tag (length s)) (\<lambda>_. []) s;
          s = rx_replace cue_escaped_tag unescaped_tag s;
          s = (if keep_formatting then s else rx_replace cue_format_tag (\<lambda>_. []) s)
      in join_with [newline] (kept_lines s))"

definition break_lines :: "string \<Rightarrow> string" where
  "break_lines s = concat (map (\<lambda>c. if c = newline then ''<br>'' else [c]) s)"

definition clean_cue :: "string \<Rightarrow> bool \<Rightarrow> string" where
  "clean_cue s ass = break_lines (html_escape (normalize_cue_text s False ass))"

subsection \<open>Times\<close>

definition go_mod :: "int \<Rightarrow> int \<Rightarrow> int" where
  "go_mod a b = a - b * go_div a b"

text \<open>\<open>%0nd\<close>: a sign counts.\<close>

definition pad_int :: "nat \<Rightarrow> int \<Rightarrow> string" where
  "pad_int n i =
     (if i < 0 then CHR ''-'' # replicate (n - 1 - length (nat_text (nat (- i)))) (CHR ''0'') @ nat_text (nat (- i))
      else replicate (n - length (nat_text (nat i))) (CHR ''0'') @ nat_text (nat i))"

definition vtt_time :: "int \<Rightarrow> string" where
  "vtt_time ms = pad_int 2 (go_div ms 3600000) @ '':'' @ pad_int 2 (go_mod (go_div ms 60000) 60) @ '':'' @
     pad_int 2 (go_mod (go_div ms 1000) 60) @ ''.'' @ pad_int 3 (go_mod ms 1000)"

definition vtt_clock_ms :: "string \<Rightarrow> capture list \<Rightarrow> nat \<Rightarrow> int" where
  "vtt_clock_ms s c k =
     (let hours = (if group_text s c k \<noteq> [] then parse_int64_lossy (group_text s c k) else 0);
          minutes = parse_int64_lossy (group_text s c (k + 1));
          seconds = parse_int64_lossy (group_text s c (k + 2));
          millis = parse_int64_lossy (group_text s c (k + 3))
      in i64 (((hours * 60 + minutes) * 60 + seconds) * 1000 + millis))"

definition ass_ms :: "string \<Rightarrow> capture list \<Rightarrow> nat \<Rightarrow> int" where
  "ass_ms s c k =
     (let v = (\<lambda>n. parse_int64_lossy (group_text s c (k + n)))
      in i64 (((v 0 * 60 + v 1) * 60 + v 2) * 1000 + v 3 * 10))"

subsection \<open>WebVTT\<close>

datatype convert_error = Binary_Subtitle | Not_WebVTT | Not_SAMI | No_Cues | No_Browser_Format string

fun crlf :: "string \<Rightarrow> string" where
  "crlf (a # b # s) = (if a = CHR 0x0D \<and> b = newline then newline # crlf s else a # crlf (b # s))"
| "crlf s = s"

definition byte_order_mark :: string where
  "byte_order_mark = [CHR 0xEF, CHR 0xBB, CHR 0xBF]"

definition cue_settings :: string where
  "cue_settings = '' align:center line:80% position:50%''"

definition position_line :: "string \<Rightarrow> string" where
  "position_line l = (case rx_find vtt_cue_timing l of None \<Rightarrow> l | Some (i, j, _) \<Rightarrow> slice l i j @ cue_settings)"

definition position_cue_lines :: "string \<Rightarrow> string" where
  "position_cue_lines s = join_with [newline] (map position_line (split_on newline s))"

definition filled :: "string \<Rightarrow> bool" where
  "filled l = (trim_space l \<noteq> [])"

function sanitize_lines :: "string list \<Rightarrow> string list" where
  "sanitize_lines [] = []"
| "sanitize_lines (l # ls) =
     (if \<not> matches_in vtt_cue_timing l then l # sanitize_lines ls
      else let cleaned = normalize_cue_text (join_with [newline] (takeWhile filled ls)) True False
        in l # (if cleaned \<noteq> [] then [cleaned] else []) @ sanitize_lines (dropWhile filled ls))"
  by pat_completeness auto

termination
  by (relation "measure length") (auto simp: le_imp_less_Suc length_dropWhile_le)

definition sanitize_vtt_cues :: "string \<Rightarrow> string" where
  "sanitize_vtt_cues s = join_with [newline] (sanitize_lines (split_on newline s))"

text \<open>\<open>restampWebVTTCuePositioning\<close>: what is written back, if anything.\<close>

definition restamp :: "string \<Rightarrow> string option" where
  "restamp s = (let stamped = position_cue_lines (sanitize_vtt_cues s) in if stamped = s then None else Some stamped)"

definition dot_commas :: "string \<Rightarrow> string" where
  "dot_commas s = map (\<lambda>c. if c = CHR '','' then CHR ''.'' else c) s"

definition ass_matches :: "string \<Rightarrow> (string \<times> capture list) list" where
  "ass_matches s = concat (map (\<lambda>l. case rx_find ass_line l of None \<Rightarrow> [] | Some (_, _, c) \<Rightarrow> [(l, c)]) (split_on newline s))"

definition ass_vtt_cue :: "nat \<times> string \<times> capture list \<Rightarrow> string" where
  "ass_vtt_cue = (\<lambda>(n, l, c). nat_text n @ [newline] @ vtt_time (ass_ms l c 1) @ '' --> '' @ vtt_time (ass_ms l c 5) @ [newline] @
     normalize_cue_text (escape_cue_markup (group_text l c 9)) True True @ [newline, newline])"

definition vtt_header :: string where
  "vtt_header = ''WEBVTT'' @ [newline, newline]"

definition to_web_vtt :: "string \<Rightarrow> string \<Rightarrow> convert_error + string" where
  "to_web_vtt data format =
     (if CHR 0x00 \<in> set data then Inl Binary_Subtitle
      else let s = crlf (trim_prefix data byte_order_mark) in
        if format = ''.vtt'' then
          (if \<not> has_prefix (trim_space s) ''WEBVTT'' then Inl Not_WebVTT else Inr (position_cue_lines (sanitize_vtt_cues s)))
        else if format = ''.srt'' then
          Inr (position_cue_lines (sanitize_vtt_cues (vtt_header @ rx_replace time_line dot_commas s)))
        else if format = ''.ass'' \<or> format = ''.ssa'' then
          (if ass_matches s = [] then Inl No_Cues
           else Inr (position_cue_lines (vtt_header @ concat (map ass_vtt_cue (enumerate 1 (ass_matches s))))))
        else Inl (No_Browser_Format format))"

subsection \<open>SAMI\<close>

type_synonym sami_cue = "int \<times> int \<times> string"

function srt_cues :: "string list \<Rightarrow> sami_cue list" where
  "srt_cues [] = []"
| "srt_cues (l # ls) =
     (case rx_find time_line l of
        None \<Rightarrow> srt_cues ls
      | Some (_, _, c) \<Rightarrow>
          (vtt_clock_ms l c 1, vtt_clock_ms l c 5, clean_cue (join_with [newline] (takeWhile filled ls)) False)
          # srt_cues (drop 1 (dropWhile filled ls)))"
  by pat_completeness auto

termination
  by (relation "measure length") (auto simp: le_imp_less_Suc length_dropWhile_le diff_le_self intro: le_less_trans[OF diff_le_self])

definition ass_cues :: "string \<Rightarrow> sami_cue list" where
  "ass_cues s = map (\<lambda>(l, c). (ass_ms l c 1, ass_ms l c 5, clean_cue (group_text l c 9) True)) (ass_matches s)"

definition sami_head :: string where
  "sami_head = ''<SAMI><HEAD><STYLE><!-- P { font-family: sans-serif; color: white; text-align: center; } --></STYLE></HEAD><BODY>'' @ [newline]"

definition sami_sync :: "sami_cue \<Rightarrow> string" where
  "sami_sync = (\<lambda>(start, fin, s). ''<SYNC Start='' @ int_text start @ ''><P Class=SUBTTL>'' @ s @ ''</P>'' @ [newline] @
     ''<SYNC Start='' @ int_text fin @ ''><P Class=SUBTTL>&nbsp;</P>'' @ [newline])"

definition sami_foot :: string where
  "sami_foot = ''</BODY></SAMI>'' @ [newline]"

definition to_sami :: "string \<Rightarrow> string \<Rightarrow> convert_error + string" where
  "to_sami data format =
     (if CHR 0x00 \<in> set data then Inl Binary_Subtitle
      else let s = crlf (trim_prefix data byte_order_mark) in
        if format = ''.smi'' \<or> format = ''.sami'' then
          (if \<not> contains (to_upper s) ''<SAMI'' then Inl Not_SAMI else Inr s)
        else let cues = (if format = ''.ass'' \<or> format = ''.ssa'' then ass_cues s else srt_cues (split_on newline s)) in
          if cues = [] then Inl No_Cues else Inr (sami_head @ concat (map sami_sync cues) @ sami_foot))"

subsection \<open>Facts\<close>

lemma blank_newline: "is_blank newline"
  by (simp add: is_blank_def)

lemma set_trim_space: "set (trim_space s) \<subseteq> set s"
  by (auto simp: trim_space_def trim_by_def dest!: set_dropWhileD)

lemma trim_by_twice: "trim_by p (trim_by p s) = trim_by p s"
proof -
  define a where "a = dropWhile p s"
  define b where "b = rev (dropWhile p (rev a))"
  have ends: "b = [] \<or> \<not> p (last b)"
    by (metis b_def dropWhile_eq_Nil_conv hd_dropWhile last_rev rev_is_Nil_conv set_rev)
  have front: "b = [] \<or> \<not> p (hd b)"
  proof (cases "b = []")
    case False
    obtain t where t: "a = b @ t"
      by (metis b_def rev_append rev_rev_ident takeWhile_dropWhile_id)
    have "a \<noteq> []" "hd a = hd b" using t False by auto
    then show ?thesis using hd_dropWhile[of p s] a_def by metis
  qed simp
  have "dropWhile p b = b" using front by (cases b) auto
  moreover have "dropWhile p (rev b) = rev b" using ends by (cases "rev b") (auto simp: rev_swap)
  ultimately show ?thesis by (simp add: trim_by_def b_def[symmetric] a_def[symmetric])
qed

lemma filled_kept: "l \<in> set (kept_lines s) \<Longrightarrow> filled l \<and> newline \<notin> set l"
  using split_on_no_sep set_trim_space
  by (fastforce simp: kept_lines_def filled_def trim_space_def trim_by_twice)

text \<open>A cleaned text has no blank lines, so it cannot end its cue early.\<close>

lemma cleaned_lines:
  assumes "normalize_cue_text s keep ass \<noteq> []"
  shows "list_all filled (split_on newline (normalize_cue_text s keep ass))"
proof -
  obtain t where t: "normalize_cue_text s keep ass = join_with [newline] (kept_lines t)"
    by (auto simp: normalize_cue_text_def Let_def)
  then have "kept_lines t \<noteq> []" using assms by auto
  then have "split_on newline (join_with [newline] (kept_lines t)) = kept_lines t"
    using filled_kept by (intro split_join) (auto simp: list_all_iff)
  then show ?thesis using t filled_kept by (auto simp: list_all_iff)
qed

text \<open>What a television set is given: cues whose texts are lines between breaks, without any markup of their own.\<close>

definition plain_line :: "string \<Rightarrow> bool" where
  "plain_line l = (filled l \<and> newline \<notin> set l \<and> CHR ''<'' \<notin> set l \<and> CHR ''>'' \<notin> set l \<and> CHR 0x22 \<notin> set l)"

definition plain_text :: "string \<Rightarrow> bool" where
  "plain_text t = (\<exists>ls. t = join_with ''<br>'' ls \<and> list_all plain_line ls)"

lemma html_escape_simps [simp]: "html_escape [] = []" "html_escape (a @ b) = html_escape a @ html_escape b"
  by (simp_all add: html_escape_def)

lemma html_escape_newline [simp]: "html_escape (newline # s) = newline # html_escape s"
  by (simp add: html_escape_def)

lemma html_escape_plain: "CHR ''<'' \<notin> set (html_escape s)" "CHR ''>'' \<notin> set (html_escape s)" "CHR 0x22 \<notin> set (html_escape s)"
  by (auto simp: html_escape_def split: if_splits)

lemma html_escape_no_newline: "newline \<notin> set s \<Longrightarrow> newline \<notin> set (html_escape s)"
  by (auto simp: html_escape_def split: if_splits)

lemma filled_iff: "filled s \<longleftrightarrow> (\<exists>c \<in> set s. \<not> is_blank c)"
proof -
  have "trim_space s = [] \<longleftrightarrow> (\<forall>c \<in> set (dropWhile is_blank s). is_blank c)"
    by (simp add: trim_space_def trim_by_def)
  also have "\<dots> \<longleftrightarrow> (\<forall>c \<in> set s. is_blank c)" by (induction s) auto
  finally have "trim_space s = [] \<longleftrightarrow> (\<forall>c \<in> set s. is_blank c)" .
  then show ?thesis by (auto simp: filled_def)
qed

lemma html_escape_filled: "filled s \<Longrightarrow> filled (html_escape s)"
  by (fastforce simp: filled_iff html_escape_def is_blank_def split: if_splits)

lemma break_lines_none: "newline \<notin> set s \<Longrightarrow> break_lines s = s"
  by (induction s) (auto simp: break_lines_def)

lemma break_lines_append: "break_lines (a @ b) = break_lines a @ break_lines b"
  by (simp add: break_lines_def)

lemma break_join:
  "(\<And>l. l \<in> set ls \<Longrightarrow> newline \<notin> set l) \<Longrightarrow>
   break_lines (html_escape (join_with [newline] ls)) = join_with ''<br>'' (map html_escape ls)"
proof (induction ls rule: induct_list012)
  case (3 w v ws)
  have n: "break_lines (newline # x) = ''<br>'' @ break_lines x" for x by (simp add: break_lines_def)
  have "break_lines (html_escape (join_with [newline] (v # ws))) = join_with ''<br>'' (map html_escape (v # ws))"
    by (rule 3(2)) (simp add: 3(3))
  moreover have "break_lines (html_escape w) = html_escape w"
    by (simp add: break_lines_none html_escape_no_newline 3(3))
  ultimately show ?case by (simp add: break_lines_append n)
next
  case 1
  then show ?case by (simp add: break_lines_def)
qed (simp add: break_lines_none html_escape_no_newline)

lemma clean_cue_plain: "plain_text (clean_cue s ass)"
proof -
  obtain t where t: "normalize_cue_text s False ass = join_with [newline] (kept_lines t)"
    by (auto simp: normalize_cue_text_def Let_def)
  have "clean_cue s ass = join_with ''<br>'' (map html_escape (kept_lines t))"
    unfolding clean_cue_def t by (rule break_join) (use filled_kept in blast)
  moreover have "list_all plain_line (map html_escape (kept_lines t))"
    using filled_kept html_escape_plain html_escape_no_newline html_escape_filled
    by (auto simp: list_all_iff plain_line_def)
  ultimately show ?thesis unfolding plain_text_def by blast
qed

lemma srt_cues_plain: "(a, b, t) \<in> set (srt_cues ls) \<Longrightarrow> plain_text t"
  by (induction ls rule: srt_cues.induct) (auto simp: clean_cue_plain split: option.splits)

text \<open>
  Property C38: whatever a text subtitle contains, the SAMI document made from it is the frame of the converter around
  its cues, and the text of a cue is lines between breaks that hold no markup and are not blank: a subtitle cannot put a
  tag or a cue of its own into the document.
\<close>

theorem sami_holds_plain_cues:
  assumes "to_sami data format = Inr doc" "format \<notin> {''.smi'', ''.sami''}"
  shows "\<exists>cues. cues \<noteq> [] \<and> doc = sami_head @ concat (map sami_sync cues) @ sami_foot \<and>
    list_all (\<lambda>(_, _, t). plain_text t) cues"
proof -
  define s where "s = crlf (trim_prefix data byte_order_mark)"
  define cues where "cues = (if format = ''.ass'' \<or> format = ''.ssa'' then ass_cues s else srt_cues (split_on newline s))"
  have no_sami: "\<not> (format = ''.smi'' \<or> format = ''.sami'')" using assms(2) by blast
  have "(if CHR 0x00 \<in> set data then Inl Binary_Subtitle
    else if cues = [] then Inl No_Cues else Inr (sami_head @ concat (map sami_sync cues) @ sami_foot)) = Inr doc"
    using assms(1) unfolding to_sami_def Let_def s_def[symmetric] cues_def[symmetric] if_not_P[OF no_sami] .
  then have "cues \<noteq> []" "doc = sami_head @ concat (map sami_sync cues) @ sami_foot"
    by (simp_all only: split: if_splits) simp_all
  moreover have "plain_text t" if "(a, b, t) \<in> set cues" for a b t
    using that srt_cues_plain by (auto simp: cues_def ass_cues_def clean_cue_plain split: if_splits)
  ultimately show ?thesis by (auto simp: list_all_iff)
qed

text \<open>
  The cleaning is documented to be idempotent and to leave no break tag; a tag that is hidden in front of an override
  survives the first pass, and is a break in the second.
\<close>

lemma cleaning_not_idempotent:
  "normalize_cue_text (''<{'' @ [backslash] @ ''a}br>x'') True False = ''<br>x'' \<and>
   normalize_cue_text ''<br>x'' True False = ''x''"
proof -
  have "normalize_cue_text (''<{'' @ [backslash] @ ''a}br>x'') True False = ''<br>x''" by code_simp
  moreover have "normalize_cue_text ''<br>x'' True False = ''x''" by code_simp
  ultimately show ?thesis by (rule conjI)
qed

lemma sami_holds_plain_cues_witness:
  "\<exists>doc cues. to_sami (''00:00:01,500 --> 00:00:02,000'' @ [newline] @ ''a<b>c'') ''.srt'' = Inr doc \<and>
     cues \<noteq> [] \<and> doc = sami_head @ concat (map sami_sync cues) @ sami_foot \<and> list_all (\<lambda>(_, _, t). plain_text t) cues"
proof -
  have "isl (to_sami (''00:00:01,500 --> 00:00:02,000'' @ [newline] @ ''a<b>c'') ''.srt'') = False" by code_simp
  then obtain doc where doc: "to_sami (''00:00:01,500 --> 00:00:02,000'' @ [newline] @ ''a<b>c'') ''.srt'' = Inr doc"
    by (auto simp: isl_def) (metis sum.exhaust)
  have "''.srt'' \<notin> {''.smi'', ''.sami''}" by simp
  from sami_holds_plain_cues[OF doc this] doc show ?thesis by blast
qed

end
