(* ===== verification/Subtitle_Search.thy ===== *)
theory Subtitle_Search
  imports Subtitle_Text Download_Status
begin

text \<open>
  The search for subtitles (\<open>SearchSubtitles\<close> and the functions on names of \<open>internal/application/subtitles.go\<close>,
  \<open>internal/domain/language_name.go\<close>): what the torrent contains, what is embedded in the media file, and what the
  providers offer.  Letters are those of ASCII and all bytes above 127.  The answers of the providers and of the media
  probe are arguments; the scores of providers are exact numbers.
\<close>

subsection \<open>Languages\<close>

definition language_names :: "(string \<times> string) list" where
  "language_names =
     map (\<lambda>n. (n, ''ro'')) [''romanian'', ''romana'', ''roman'', ''romaneste'', ''moldovan'', ''moldavian'', ''mol''] @
     map (\<lambda>n. (n, ''en'')) [''english'', ''engleza'', ''ingles'', ''englisch'', ''anglais''] @
     map (\<lambda>n. (n, ''fr'')) [''french'', ''francais'', ''franceza'', ''frances'', ''franzosisch''] @
     map (\<lambda>n. (n, ''de'')) [''german'', ''deutsch'', ''germana'', ''aleman''] @
     map (\<lambda>n. (n, ''es'')) [''spanish'', ''espanol'', ''castellano'', ''spaniola''] @
     map (\<lambda>n. (n, ''it'')) [''italian'', ''italiano'', ''italiana''] @
     map (\<lambda>n. (n, ''pt'')) [''portuguese'', ''portugues'', ''portugheza''] @
     map (\<lambda>n. (n, ''nl'')) [''dutch'', ''nederlands'', ''olandeza''] @
     map (\<lambda>n. (n, ''hu'')) [''hungarian'', ''magyar'', ''maghiara''] @
     map (\<lambda>n. (n, ''pl'')) [''polish'', ''polski'', ''poloneza''] @
     map (\<lambda>n. (n, ''cs'')) [''czech'', ''cestina'', ''ceha''] @
     map (\<lambda>n. (n, ''sk'')) [''slovak'', ''slovencina''] @
     map (\<lambda>n. (n, ''bg'')) [''bulgarian'', ''balgarski'', ''bulgara''] @
     map (\<lambda>n. (n, ''sr'')) [''serbian'', ''srpski'', ''sarba''] @
     map (\<lambda>n. (n, ''hr'')) [''croatian'', ''hrvatski'', ''croata''] @
     map (\<lambda>n. (n, ''sl'')) [''slovenian'', ''slovene'', ''slovenscina''] @
     map (\<lambda>n. (n, ''el'')) [''greek'', ''ellinika'', ''greaca''] @
     map (\<lambda>n. (n, ''tr'')) [''turkish'', ''turkce'', ''turca''] @
     map (\<lambda>n. (n, ''ru'')) [''russian'', ''russkij'', ''rusa''] @
     map (\<lambda>n. (n, ''uk'')) [''ukrainian'', ''ucraineana''] @
     [(''swedish'', ''sv''), (''svenska'', ''sv''), (''danish'', ''da''), (''dansk'', ''da''), (''norwegian'', ''no''), (''norsk'', ''no''),
      (''finnish'', ''fi''), (''suomi'', ''fi''), (''arabic'', ''ar''), (''araba'', ''ar''), (''hebrew'', ''he''), (''ivrit'', ''he''),
      (''persian'', ''fa''), (''farsi'', ''fa''), (''hindi'', ''hi''), (''japanese'', ''ja''), (''nihongo'', ''ja''), (''korean'', ''ko''),
      (''chinese'', ''zh''), (''mandarin'', ''zh''), (''cantonese'', ''zh''), (''thai'', ''th''), (''vietnamese'', ''vi''),
      (''indonesian'', ''id''), (''malay'', ''ms''), (''filipino'', ''tl''), (''tagalog'', ''tl''), (''cmn'', ''zh''), (''yue'', ''zh''),
      (''fil'', ''tl'')]"

text \<open>\<open>languageFold\<close>: the two bytes of a letter with a diacritic.\<close>

definition folded_letter :: "char \<Rightarrow> char \<Rightarrow> char option" where
  "folded_letter a b =
     (let n = (of_char b :: nat) in
      if a = CHR 0xC3 then
        (if n \<in> {0xA0, 0xA1, 0xA2, 0xA3, 0xA4, 0xA5} then Some CHR ''a''
         else if n = 0xA7 then Some CHR ''c''
         else if n \<in> {0xA8, 0xA9, 0xAA, 0xAB} then Some CHR ''e''
         else if n \<in> {0xAD, 0xAE, 0xAF} then Some CHR ''i''
         else if n = 0xB1 then Some CHR ''n''
         else if n \<in> {0xB3, 0xB4, 0xB5, 0xB6} then Some CHR ''o''
         else if n \<in> {0xBA, 0xBC} then Some CHR ''u'' else None)
      else if a = CHR 0xC4 then
        (if n = 0x83 then Some CHR ''a'' else if n = 0x8D then Some CHR ''c'' else if n = 0x9B then Some CHR ''e''
         else if n = 0xB1 then Some CHR ''i'' else None)
      else if a = CHR 0xC5 then
        (if n = 0x82 then Some CHR ''l'' else if n = 0x91 then Some CHR ''o'' else if n \<in> {0x9F, 0xA1} then Some CHR ''s''
         else if n = 0xA3 then Some CHR ''t'' else if n = 0xB1 then Some CHR ''u'' else if n = 0xBE then Some CHR ''z'' else None)
      else if a = CHR 0xC8 then (if n = 0x99 then Some CHR ''s'' else if n = 0x9B then Some CHR ''t'' else None)
      else None)"

fun language_fold :: "string \<Rightarrow> string" where
  "language_fold (a # b # s) = (case folded_letter a b of Some c \<Rightarrow> c # language_fold s | None \<Rightarrow> a # language_fold (b # s))"
| "language_fold s = s"

definition language_from_name :: "string \<Rightarrow> string" where
  "language_from_name value =
     (let word = language_fold (to_lower (trim_space value)) in
      if word = [] then []
      else if normalize_language word \<noteq> [] then normalize_language word
      else case map_of language_names word of Some c \<Rightarrow> c | None \<Rightarrow> [])"

definition same_language :: "string \<Rightarrow> string \<Rightarrow> bool" where
  "same_language a b = (normalize_language a = normalize_language b)"

text \<open>\<open>subtitleNameTokens.Split\<close>: a separator at either end leaves an empty token there.\<close>

definition letter_byte :: "char \<Rightarrow> bool" where
  "letter_byte c = (is_letter c \<or> 128 \<le> (of_char c :: nat))"

function name_tokens :: "string \<Rightarrow> string list" where
  "name_tokens s =
     (let w = takeWhile letter_byte s; r = dropWhile letter_byte s in
      if r = [] then [w] else w # name_tokens (dropWhile (\<lambda>c. \<not> letter_byte c) r))"
  by pat_completeness auto

termination
proof (relation "measure length")
  fix s :: string and w r
  assume "w = takeWhile letter_byte s" "r = dropWhile letter_byte s" "\<not> r = []"
  then obtain c t where "r = c # t" "\<not> letter_byte c" by (metis hd_dropWhile list.exhaust_sel)
  then have "length (dropWhile (\<lambda>c. \<not> letter_byte c) r) < length r"
    by (simp add: length_dropWhile_le less_Suc_eq_le)
  also have "length r \<le> length s" using \<open>r = dropWhile letter_byte s\<close> by (simp add: length_dropWhile_le)
  finally show "(dropWhile (\<lambda>c. \<not> letter_byte c) r, s) \<in> measure length" by simp
qed simp

declare name_tokens.simps [simp del]

definition subtitle_name_markers :: "string list" where
  "subtitle_name_markers = [''cc'', ''forced'', ''sdh'', ''sub'', ''subs'', ''subtitle'', ''subtitles'', ''subtitrari'']"

text \<open>The last three tokens, from the end on.\<close>

fun last_language :: "string list \<Rightarrow> string" where
  "last_language [] = []"
| "last_language (t # ts) =
     (if language_from_name t \<noteq> [] then language_from_name t
      else if t \<in> set subtitle_name_markers then last_language ts else [])"

definition subtitle_language :: "string \<Rightarrow> string" where
  "subtitle_language name =
     (let base = trim_suffix (to_lower (path_base name)) (to_lower (file_ext name));
          dir = path_base (path_dir name);
          parent = filter (\<lambda>t. t \<noteq> []) (name_tokens (to_lower dir));
          code = last_language (take 3 (rev (name_tokens base)))
      in if code \<noteq> [] then code
         else if dir \<noteq> ''.'' \<and> dir \<noteq> ''/'' \<and> length parent = 1 then language_from_name (hd parent) else [])"

subsection \<open>Names\<close>

definition subtitle_file :: "string \<Rightarrow> bool" where
  "subtitle_file p = (to_lower (file_ext p) \<in> {''.srt'', ''.ass'', ''.ssa'', ''.vtt''})"

definition same_stem :: "string \<Rightarrow> string \<Rightarrow> bool" where
  "same_stem media sub =
     has_prefix (to_lower (trim_suffix (path_base sub) (file_ext sub))) (to_lower (trim_suffix (path_base media) (file_ext media)))"

definition episode_separators :: rx where
  "episode_separators = Many (\<lambda>c. c \<in> set '' ._-'')"

definition episode_pattern :: rx where
  "episode_pattern = Alt
     (cats [word_ci ''s'', Cap 1 (digits_rx 1 2), episode_separators, word_ci ''e'', Cap 2 (digits_rx 1 3)])
     (cats [Cap 3 (digits_rx 1 2), word_ci ''x'', Cap 4 (digits_rx 1 3)])"

definition file_episode_key :: "string \<Rightarrow> string" where
  "file_episode_key p =
     (let b = path_base p in
      case rx_find episode_pattern b of
        None \<Rightarrow> []
      | Some (_, _, c) \<Rightarrow>
          if group_text b c 1 \<noteq> [] then group_text b c 1 @ '':'' @ group_text b c 2 else group_text b c 3 @ '':'' @ group_text b c 4)"

definition episode_matches :: "string \<Rightarrow> string \<Rightarrow> bool" where
  "episode_matches media sub = (file_episode_key media = [] \<or> file_episode_key sub = [] \<or> file_episode_key media = file_episode_key sub)"

definition spaced :: "string \<Rightarrow> string list" where
  "spaced p = str_fields (map (\<lambda>c. if c = CHR ''.'' \<or> c = CHR ''_'' \<or> c = CHR ''-'' then CHR '' '' else c)
     (to_lower (trim_suffix (path_base p) (file_ext p))))"

definition filename_similarity :: "string \<Rightarrow> string \<Rightarrow> int" where
  "filename_similarity left right =
     (let haystack = '' '' @ join_with '' '' (spaced right) @ '' '';
          hits = int (length (filter (\<lambda>w. 1 < length w \<and> contains haystack ('' '' @ w @ '' '')) (spaced left)))
      in if file_episode_key left \<noteq> [] \<and> file_episode_key right \<noteq> [] then
           (if file_episode_key left \<noteq> file_episode_key right then - 1000 else hits + 20)
         else hits)"

subsection \<open>Data\<close>

record subtitle_candidate =
  sn_id :: string
  sn_provider :: string
  sn_provider_label :: string
  sn_language :: string
  sn_title :: string
  sn_file_name :: string
  sn_release_name :: string
  sn_format :: string
  sn_uploader :: string
  sn_hearing_impaired :: bool
  sn_forced :: bool
  sn_default :: bool
  sn_description :: string
  sn_score :: rat
  sn_cached :: bool

record media_subtitle_track =
  mt_index :: int
  mt_ordinal :: int
  mt_language :: string
  mt_title :: string
  mt_codec :: string
  mt_bitmap :: bool
  mt_default :: bool
  mt_forced :: bool
  mt_hearing_impaired :: bool
  mt_probed_at :: go_time

record subtitle_asset =
  sa_id :: string
  sa_source_id :: string
  sa_provider :: string
  sa_candidate_id :: string
  sa_name :: string
  sa_language :: string
  sa_url :: string
  sa_format :: string
  sa_mime_type :: string
  sa_path :: string
  sa_created_at :: go_time
  sa_last_used_at :: go_time

type_synonym provider_warning = "string \<times> string"

datatype search_scope = Scope_All | Scope_Local | Scope_Remote

definition parse_subtitle_search_scope :: "string \<Rightarrow> search_scope option" where
  "parse_subtitle_search_scope value =
     (let scope = to_lower (trim_space value) in
      if scope = [] \<or> scope = ''all'' then Some Scope_All
      else if scope = ''local'' then Some Scope_Local
      else if scope = ''remote'' then Some Scope_Remote else None)"

record subtitle_query =
  sq_release :: torrent_release
  sq_media_path :: string
  sq_language :: string
  sq_fallback_language :: string

record subtitle_download =
  sd_data :: string
  sd_format :: string
  sd_name :: string
  sd_language :: string

record subtitle_provider =
  pv_name :: string
  pv_test :: "string + string"
  pv_search :: "subtitle_query \<Rightarrow> string + subtitle_candidate list"
  pv_download :: "string \<Rightarrow> string + subtitle_download"

text \<open>What is outside: the control of engines and files, the size and time of a file, the probe of media, the providers.\<close>

record subtitle_env =
  se_control :: control_env
  se_version :: "string \<Rightarrow> (int \<times> int) option"
  se_probe :: "(string \<Rightarrow> string + media_subtitle_track list) option"
  se_providers :: "subtitle_provider list"

type_synonym probe_memo = "((string \<times> int \<times> int) \<times> media_subtitle_track list) list"

subsection \<open>Embedded tracks\<close>

definition embedded_track_language :: "media_subtitle_track \<Rightarrow> string" where
  "embedded_track_language t =
     (if language_from_name (mt_language t) \<noteq> [] then language_from_name (mt_language t)
      else case List.find (\<lambda>w. language_from_name w \<noteq> []) (name_tokens (to_lower (mt_title t))) of
          Some w \<Rightarrow> language_from_name w | None \<Rightarrow> [])"

definition embedded_score :: "media_subtitle_track \<Rightarrow> string \<Rightarrow> string \<Rightarrow> string \<Rightarrow> rat" where
  "embedded_score t lang requested fallback =
     260 + (if lang = [] then - 10
            else if same_language requested lang then 25
            else if requested \<noteq> [] \<and> \<not> same_language fallback lang then - 200 else 0)
         + (if mt_forced t then - 15 else 0) + (if mt_hearing_impaired t then - 5 else 0) + (if mt_default t then 3 else 0)"

definition embedded_track_label :: "media_subtitle_track \<Rightarrow> string" where
  "embedded_track_label t =
     (let parts = (if trim_space (mt_title t) \<noteq> [] then [trim_space (mt_title t)] else []) @
            (if trim_space (mt_language t) \<noteq> [] \<and> \<not> equal_fold (mt_language t) ''und'' then [to_upper (mt_language t)] else []) @
            (if mt_forced t then [''Forced''] else []) @ (if mt_hearing_impaired t then [''SDH''] else [])
      in join_with middle_dot (if parts = [] then [''Embedded subtitle '' @ int_text (mt_index t)] else parts))"

definition embedded_track_title :: "media_subtitle_track \<Rightarrow> string \<Rightarrow> string" where
  "embedded_track_title t label = (if trim_space (mt_title t) \<noteq> [] then trim_space (mt_title t) else label)"

definition embedded_candidate :: "string \<Rightarrow> string \<Rightarrow> string \<Rightarrow> media_subtitle_track \<Rightarrow> subtitle_candidate" where
  "embedded_candidate release language fallback t =
     \<lparr>sn_id = int_text (mt_index t), sn_provider = ''embedded'', sn_provider_label = ''Embedded'',
      sn_language = embedded_track_language t, sn_title = embedded_track_title t (embedded_track_label t),
      sn_file_name = embedded_track_label t, sn_release_name = release, sn_format = mt_codec t, sn_uploader = [],
      sn_hearing_impaired = mt_hearing_impaired t, sn_forced = mt_forced t, sn_default = mt_default t,
      sn_description = ''Embedded in the media file'',
      sn_score = embedded_score t (embedded_track_language t) language fallback, sn_cached = False\<rparr>"

definition probe_subtitles ::
  "subtitle_env \<Rightarrow> (string \<Rightarrow> string + media_subtitle_track list) \<Rightarrow> string \<Rightarrow> probe_memo \<Rightarrow>
   (string + media_subtitle_track list) \<times> probe_memo" where
  "probe_subtitles env probe path memo =
     (case se_version env path of
        None \<Rightarrow> (probe path, memo)
      | Some (bytes, modified) \<Rightarrow>
          (case map_of memo (path, bytes, modified) of
             Some ts \<Rightarrow> (Inr ts, memo)
           | None \<Rightarrow> (case probe path of
               Inl e \<Rightarrow> (Inl e, memo)
             | Inr ts \<Rightarrow> (Inr ts, ((path, bytes, modified), ts) # memo))))"

text \<open>The embedded part of a search: candidates, warnings and the memo of the probe.\<close>

definition embedded_part ::
  "subtitle_env \<Rightarrow> download \<Rightarrow> string \<Rightarrow> string \<Rightarrow> string \<Rightarrow> probe_memo \<Rightarrow>
   (subtitle_candidate list \<times> provider_warning list) \<times> probe_memo" where
  "embedded_part env d release language fallback memo =
     (case se_probe env of
        None \<Rightarrow> (([], []), memo)
      | Some probe \<Rightarrow>
          if dl_absolute_path d = [] then (([], []), memo)
          else if \<not> completed_local_file (ce_stat (se_control env)) d
          then (([], [(''embedded'', ''Embedded subtitles are available after the download completes'')]), memo)
          else (case probe_subtitles env probe (dl_absolute_path d) memo of
                  (Inl e, memo') \<Rightarrow> (([], [(''embedded'', e)]), memo')
                | (Inr ts, memo') \<Rightarrow>
                    let bitmaps = length (filter mt_bitmap ts) in
                    ((map (embedded_candidate release language fallback) (filter (\<lambda>t. \<not> mt_bitmap t) ts),
                      if 0 < bitmaps then [(''embedded'', nat_text bitmaps @
                        '' picture-based subtitle track(s) (PGS, VobSub) cannot be shown and were skipped'')] else []), memo')))"

subsection \<open>Contained files and providers\<close>

definition contained_candidate :: "download \<Rightarrow> string \<Rightarrow> string \<Rightarrow> string \<Rightarrow> torrent_file \<Rightarrow> subtitle_candidate option" where
  "contained_candidate d release language fallback f =
     (let lang = subtitle_language (tf_path f); name = path_base (tf_path f) in
      if \<not> subtitle_file (tf_path f) \<or> \<not> episode_matches (dl_file_path d) (tf_path f) then None
      else if language \<noteq> [] \<and> lang \<noteq> [] \<and> \<not> same_language language lang \<and> \<not> same_language fallback lang then None
      else Some \<lparr>sn_id = int_text (tf_index f), sn_provider = ''contained'', sn_provider_label = ''Included'', sn_language = lang,
        sn_title = name, sn_file_name = name, sn_release_name = release,
        sn_format = trim_prefix (to_lower (file_ext name)) ''.'', sn_uploader = [], sn_hearing_impaired = False,
        sn_forced = False, sn_default = False, sn_description = ''Included in the torrent'',
        sn_score = 300 + (if same_stem (dl_file_path d) (tf_path f) then 50 else 0) + (if same_language language lang then 25 else 0),
        sn_cached = False\<rparr>)"

definition asset_key :: "subtitle_asset \<Rightarrow> string \<times> string \<times> string \<times> string" where
  "asset_key a = (sa_source_id a, sa_provider a, sa_candidate_id a, sa_format a)"

definition has_subtitle_asset ::
  "string \<Rightarrow> string \<Rightarrow> string \<Rightarrow> subtitle_asset list \<Rightarrow> world \<Rightarrow> (svc_error + bool) \<times> world" where
  "has_subtitle_asset source provider candidate assets w = (case attempt w of
     (Some e, w') \<Rightarrow> (Inl (Repo_Error e), w')
   | (None, w') \<Rightarrow> (Inr (list_ex (\<lambda>a. sa_source_id a = source \<and> sa_provider a = provider \<and> sa_candidate_id a = candidate) assets), w'))"

fun mark_found ::
  "string \<Rightarrow> string \<Rightarrow> string \<Rightarrow> subtitle_asset list \<Rightarrow> subtitle_candidate list \<Rightarrow> world \<Rightarrow> subtitle_candidate list \<times> world" where
  "mark_found source provider language assets [] w = ([], w)"
| "mark_found source provider language assets (c # cs) w =
     (let lang = normalize_language (sn_language c);
          c = c\<lparr>sn_provider := provider, sn_language := lang,
                sn_score := sn_score c + 100 + (if same_language language lang then 25 else 0)\<rparr>;
          (known, w1) = has_subtitle_asset source provider (sn_id c) assets w;
          (rest, w2) = mark_found source provider language assets cs w1
      in (c\<lparr>sn_cached := (if known = Inr True then True else sn_cached c)\<rparr> # rest, w2))"

fun ask_providers ::
  "subtitle_provider list \<Rightarrow> subtitle_query \<Rightarrow> string \<Rightarrow> subtitle_asset list \<Rightarrow> world \<Rightarrow>
   (subtitle_candidate list \<times> provider_warning list) \<times> world" where
  "ask_providers [] q source assets w = (([], []), w)"
| "ask_providers (p # ps) q source assets w =
     (case pv_search p q of
        Inl e \<Rightarrow> (case ask_providers ps q source assets w of ((cs, ws), w') \<Rightarrow> ((cs, (pv_name p, e) # ws), w'))
      | Inr found \<Rightarrow>
          (let (marked, w1) = mark_found source (pv_name p) (sq_language q) assets found w in
           case ask_providers ps q source assets w1 of ((cs, ws), w') \<Rightarrow> ((marked @ cs, ws), w')))"

definition contained_part ::
  "download \<Rightarrow> string \<Rightarrow> string \<Rightarrow> string \<Rightarrow> world \<Rightarrow> subtitle_candidate list control" where
  "contained_part d release language fallback w = (case owner w (dl_engine_id d) of
     None \<Rightarrow> (Inl (Ctl_Service (unavailable_err w (dl_engine_id d))), w)
   | Some (_, hash) \<Rightarrow>
       bindw (lift_svc (route_files (dl_engine_id d) hash w)) (\<lambda>files w.
         (Inr (List.map_filter (contained_candidate d release language fallback) files), w)))"

text \<open>The three parts of a search, for a download, its release and the language to fall back to.\<close>

definition search_parts ::
  "subtitle_env \<Rightarrow> subtitle_asset list \<Rightarrow> string \<Rightarrow> string \<Rightarrow> string \<Rightarrow> search_scope \<Rightarrow> probe_memo \<Rightarrow> download \<Rightarrow>
   torrent_release \<Rightarrow> world \<Rightarrow> ((subtitle_candidate list \<times> provider_warning list) \<times> probe_memo) control" where
  "search_parts env assets source language fallback scope memo d release w =
     bindw (if scope = Scope_Remote then (Inr [], w) else contained_part d (rel_name release) language fallback w)
       (\<lambda>local w.
         let ((embedded, warnings), memo) = (if scope = Scope_Remote then (([], []), memo)
                else embedded_part env d (rel_name release) language fallback memo);
             ((found, failures), w) = (if scope = Scope_Local then (([], []), w)
                else ask_providers (se_providers env)
                  \<lparr>sq_release = release, sq_media_path = dl_file_path d, sq_language = language,
                   sq_fallback_language = fallback\<rparr> source assets w)
         in (Inr ((sort_by (\<lambda>a b. sn_score b < sn_score a) (local @ embedded @ found), warnings @ failures), memo), w))"

definition search_subtitles ::
  "subtitle_env \<Rightarrow> subtitle_asset list \<Rightarrow> string \<Rightarrow> string \<Rightarrow> search_scope \<Rightarrow> probe_memo \<Rightarrow> world \<Rightarrow>
   ((subtitle_candidate list \<times> provider_warning list) \<times> probe_memo) control" where
  "search_subtitles env assets source language scope memo w =
     bindw (lift_svc (get_download source w)) (\<lambda>d0 w.
       let (d, w) = live_download (se_control env) d0 w in
       bindw (lift_svc (get_release (dl_release_id d) w)) (\<lambda>release w.
         search_parts env assets source language
           (if same_language language (st_preferred_subtitle_language (w_settings w))
            then st_fallback_subtitle_language (w_settings w) else [])
           scope memo d release w))"

definition test_subtitle_provider :: "subtitle_provider list \<Rightarrow> string \<Rightarrow> string + string" where
  "test_subtitle_provider ps name =
     (case List.find (\<lambda>p. pv_name p = name) ps of Some p \<Rightarrow> pv_test p | None \<Rightarrow> Inl ''unknown subtitle provider'')"

subsection \<open>Facts\<close>

interpretation better: strict_weak "\<lambda>a b. sn_score b < sn_score a"
  by unfold_locales auto

text \<open>What a provider offers is in the answer, under its name.\<close>

definition offered :: "subtitle_provider list \<Rightarrow> subtitle_query \<Rightarrow> subtitle_candidate list \<Rightarrow> provider_warning list \<Rightarrow> bool" where
  "offered ps q items warnings =
     list_all (\<lambda>p. case pv_search p q of
        Inl e \<Rightarrow> (pv_name p, e) \<in> set warnings
      | Inr found \<Rightarrow> list_all (\<lambda>c. \<exists>x \<in> set items. sn_id x = sn_id c \<and> sn_provider x = pv_name p) found) ps"

lemma offered_mono: "offered ps q a b \<Longrightarrow> set a \<subseteq> set c \<Longrightarrow> set b \<subseteq> set d \<Longrightarrow> offered ps q c d"
  unfolding offered_def list_all_iff by (fastforce split: sum.splits)

lemma mark_found_keeps:
  "mark_found source provider language assets cs w = (xs, w') \<Longrightarrow>
   list_all2 (\<lambda>c x. sn_id x = sn_id c \<and> sn_provider x = provider) cs xs"
  by (induction source provider language assets cs w arbitrary: xs w' rule: mark_found.induct)
    (auto simp: Let_def split: prod.splits)

lemma ask_providers_offered: "ask_providers ps q source assets w = ((cs, ws), w') \<Longrightarrow> offered ps q cs ws"
proof (induction ps q source assets w arbitrary: cs ws w' rule: ask_providers.induct)
  case (2 p ps q source assets w)
  show ?case
  proof (cases "pv_search p q")
    case (Inl e)
    obtain cs' ws' where r: "ask_providers ps q source assets w = ((cs', ws'), w')" "cs = cs'" "ws = (pv_name p, e) # ws'"
      using 2(3) Inl by (auto split: prod.splits)
    have "offered ps q cs ws" by (rule offered_mono[OF 2(1)[OF Inl r(1)]]) (auto simp: r)
    then show ?thesis using Inl by (simp add: offered_def r(3))
  next
    case (Inr found)
    obtain marked w1 where m: "mark_found source (pv_name p) (sq_language q) assets found w = (marked, w1)" by fastforce
    obtain cs' where r: "ask_providers ps q source assets w1 = ((cs', ws), w')" "cs = marked @ cs'"
      using 2(3) Inr m by (auto split: prod.splits)
    have "offered ps q cs' ws" by (rule 2(2)[OF Inr refl m[symmetric] r(1)])
    then have "offered ps q cs ws" by (rule offered_mono) (auto simp: r(2))
    moreover have "list_all (\<lambda>c. \<exists>x \<in> set cs. sn_id x = sn_id c \<and> sn_provider x = pv_name p) found"
      using list_all2_partner[OF mark_found_keeps[OF m]] by (fastforce simp: r(2) list_all_iff)
    ultimately show ?thesis using Inr by (simp add: offered_def)
  qed
qed (simp add: offered_def)

lemma same_episode_not_matched: "\<not> episode_matches ''Show.S01E02.mkv'' ''Show.1x02.srt''"
  by code_simp

text \<open>
  A track in the requested language comes before every other; a forced track for the hard of hearing in the fallback
  language falls behind one of which nothing is known.
\<close>

lemma requested_language_first:
  assumes "lang \<noteq> []" "same_language requested lang" "\<not> same_language requested other"
  shows "embedded_score u other requested fallback < embedded_score t lang requested fallback"
  using assms by (simp add: embedded_score_def)

lemma fallback_behind_unknown:
  assumes "lang \<noteq> []" "\<not> same_language requested lang" "same_language fallback lang"
    "mt_forced t" "mt_hearing_impaired t" "\<not> mt_default t" "\<not> mt_forced u" "\<not> mt_hearing_impaired u"
  shows "embedded_score t lang requested fallback < embedded_score u [] requested fallback"
  using assms by (simp add: embedded_score_def)

definition outlives ::
  "((subtitle_candidate list \<times> provider_warning list) \<times> probe_memo) control \<Rightarrow> search_scope \<Rightarrow> string \<Rightarrow> subtitle_provider list \<Rightarrow>
   ((subtitle_candidate list \<times> provider_warning list) \<times> probe_memo) control \<Rightarrow> bool" where
  "outlives bare scope language ps full =
     (case bare of
        (Inl e, w1) \<Rightarrow> full = (Inl e, w1)
      | (Inr ((local, _), _), w1) \<Rightarrow>
          (\<exists>items warnings memo' w2 q. full = (Inr ((items, warnings), memo'), w2) \<and>
             mset local \<subseteq># mset items \<and> sorted_wrt (\<lambda>a b. sn_score b \<le> sn_score a) items \<and> sq_language q = language \<and>
             (scope \<noteq> Scope_Local \<longrightarrow> offered ps q items warnings)))"

lemma search_parts_outlive:
  "outlives (search_parts (env\<lparr>se_providers := [], se_probe := None\<rparr>) assets source language fallback scope memo d release w)
     scope language (se_providers env) (search_parts env assets source language fallback scope memo d release w)"
proof -
  obtain r w3 where c: "(if scope = Scope_Remote then (Inr [], w)
      else contained_part d (rel_name release) language fallback w) = (r, w3)" by (metis prod.exhaust)
  show ?thesis
  proof (cases r)
    case (Inl e)
    then show ?thesis unfolding search_parts_def c by (simp add: bindw_def outlives_def)
  next
    case (Inr local)
    define q where "q = \<lparr>sq_release = release, sq_media_path = dl_file_path d, sq_language = language, sq_fallback_language = fallback\<rparr>"
    obtain emb wn memo' where e: "(if scope = Scope_Remote then (([], []), memo)
        else embedded_part env d (rel_name release) language fallback memo) = ((emb, wn), memo')" by (metis prod.exhaust)
    obtain found fl w4 where f: "(if scope = Scope_Local then (([], []), w3)
        else ask_providers (se_providers env) q source assets w3) = ((found, fl), w4)" by (metis prod.exhaust)
    let ?items = "sort_by (\<lambda>a b. sn_score b < sn_score a) (local @ emb @ found)"
    have full: "search_parts env assets source language fallback scope memo d release w = (Inr ((?items, wn @ fl), memo'), w4)"
      unfolding search_parts_def c bindw_def Inr prod.case sum.case q_def[symmetric] e f Let_def by (rule refl)
    have bare: "search_parts (env\<lparr>se_providers := [], se_probe := None\<rparr>) assets source language fallback scope memo d release w =
      (Inr ((sort_by (\<lambda>a b. sn_score b < sn_score a) local, []), memo), w3)"
      unfolding search_parts_def c by (simp add: bindw_def Inr embedded_part_def)
    have off: "scope \<noteq> Scope_Local \<longrightarrow> offered (se_providers env) q ?items (wn @ fl)"
    proof
      assume "scope \<noteq> Scope_Local"
      then have "offered (se_providers env) q found fl" using f ask_providers_offered by auto
      then show "offered (se_providers env) q ?items (wn @ fl)" by (rule offered_mono) auto
    qed
    have "sorted_wrt (\<lambda>a b. sn_score b \<le> sn_score a) ?items"
      using better.sorted_sort_by[of "local @ emb @ found"] by (simp add: not_less)
    moreover have "mset (sort_by (\<lambda>a b. sn_score b < sn_score a) local) \<subseteq># mset ?items" by simp
    moreover have "sq_language q = language" by (simp add: q_def)
    ultimately show ?thesis unfolding full bare outlives_def using off by auto
  qed
qed

text \<open>
  A search fails only for reasons of its own torrent and never because of a provider or of the probe of the
  media file; it shows every subtitle the torrent contains and everything each provider offers, names every provider
  that failed, and puts better candidates first.
\<close>

theorem search_outlives_providers:
  "case search_subtitles (env\<lparr>se_providers := [], se_probe := None\<rparr>) assets source language scope memo w of
     (Inl e, w1) \<Rightarrow> search_subtitles env assets source language scope memo w = (Inl e, w1)
   | (Inr ((local, _), _), w1) \<Rightarrow>
       (\<exists>items warnings memo' w2 q. search_subtitles env assets source language scope memo w = (Inr ((items, warnings), memo'), w2) \<and>
          mset local \<subseteq># mset items \<and> sorted_wrt (\<lambda>a b. sn_score b \<le> sn_score a) items \<and> sq_language q = language \<and>
          (scope \<noteq> Scope_Local \<longrightarrow> offered (se_providers env) q items warnings))"
proof -
  have "outlives (search_subtitles (env\<lparr>se_providers := [], se_probe := None\<rparr>) assets source language scope memo w)
    scope language (se_providers env) (search_subtitles env assets source language scope memo w)"
  proof -
    obtain r0 w0 where get: "get_download source w = (r0, w0)" by fastforce
    show ?thesis
    proof (cases r0)
      case (Inl e)
      then show ?thesis by (simp add: search_subtitles_def get bindw_def lift_svc_def outlives_def)
    next
      case (Inr d0)
      obtain d w1 where live: "live_download (se_control env) d0 w0 = (d, w1)" by fastforce
      obtain r1 w2 where rel: "get_release (dl_release_id d) w1 = (r1, w2)" by fastforce
      show ?thesis
        using search_parts_outlive
        by (cases r1) (simp_all add: search_subtitles_def get live rel Inr bindw_def lift_svc_def, simp add: outlives_def)
    qed
  qed
  then show ?thesis unfolding outlives_def .
qed

definition sample_subtitle :: subtitle_candidate where
  "sample_subtitle = \<lparr>sn_id = ''7'', sn_provider = [], sn_provider_label = [], sn_language = ''ron'', sn_title = [], sn_file_name = [],
     sn_release_name = [], sn_format = [], sn_uploader = [], sn_hearing_impaired = False, sn_forced = False, sn_default = False,
     sn_description = [], sn_score = 0, sn_cached = False\<rparr>"

definition sample_providers :: "subtitle_provider list" where
  "sample_providers =
     [\<lparr>pv_name = ''down'', pv_test = Inl [], pv_search = (\<lambda>_. Inl ''timeout''), pv_download = (\<lambda>_. Inl [])\<rparr>,
      \<lparr>pv_name = ''up'', pv_test = Inl [], pv_search = (\<lambda>_. Inr [sample_subtitle]), pv_download = (\<lambda>_. Inl [])\<rparr>]"

definition sample_subtitle_env :: subtitle_env where
  "sample_subtitle_env = \<lparr>se_control = \<lparr>ce_cwd = None, ce_stat = (\<lambda>_. Stat_Error), ce_effect = (\<lambda>_ t. t), ce_sha = (\<lambda>x. x)\<rparr>,
     se_version = (\<lambda>_. None), se_probe = None, se_providers = sample_providers\<rparr>"

definition sample_subtitle_world :: world where
  "sample_subtitle_world = (blank_world (defaults ''linux''))\<lparr>w_downloads := [zero_download\<lparr>dl_id := ''d'', dl_release_id := ''r''\<rparr>],
     w_releases := [zero_torrent_release\<lparr>rel_id := ''r''\<rparr>]\<rparr>"

lemma search_outlives_providers_witness:
  "\<exists>items warnings memo' w2. search_subtitles sample_subtitle_env [] ''d'' ''ro'' Scope_Remote [] sample_subtitle_world =
       (Inr ((items, warnings), memo'), w2) \<and>
     (\<exists>x \<in> set items. sn_id x = ''7'' \<and> sn_provider x = ''up'') \<and> (''down'', ''timeout'') \<in> set warnings"
proof -
  let ?bare = "search_subtitles (sample_subtitle_env\<lparr>se_providers := [], se_probe := None\<rparr>) [] ''d'' ''ro'' Scope_Remote [] sample_subtitle_world"
  define d where "d = zero_download\<lparr>dl_id := ''d'', dl_release_id := ''r''\<rparr>"
  define W where "W = sample_subtitle_world\<lparr>w_tick := 1\<rparr>"
  have get: "get_download ''d'' sample_subtitle_world = (Inr d, W)"
    by (simp add: get_download_def attempt_def W_def d_def sample_subtitle_world_def blank_world_def row_of_def)
  have "owner W (dl_engine_id d) = None"
    by (simp add: owner_def resolve_def W_def sample_subtitle_world_def blank_world_def d_def zero_download_def split: option.splits prod.splits)
  then have live: "live_download c d W = (d, W)" for c by (simp add: live_download_def)
  have rel: "get_release (dl_release_id d) W = (Inr (zero_torrent_release\<lparr>rel_id := ''r''\<rparr>), W\<lparr>w_tick := 2\<rparr>)"
    by (simp add: get_release_def attempt_def W_def d_def sample_subtitle_world_def blank_world_def row_of_def)
  have "\<exists>ws m w1. ?bare = (Inr (([], ws), m), w1)"
    by (simp add: search_subtitles_def get live rel bindw_def lift_svc_def search_parts_def)
  then obtain ws m w1 where bare: "?bare = (Inr (([], ws), m), w1)" by blast
  from search_outlives_providers[of sample_subtitle_env "[]" "''d''" "''ro''" Scope_Remote "[]" sample_subtitle_world]
  obtain items warnings memo' w2 q where
    r: "search_subtitles sample_subtitle_env [] ''d'' ''ro'' Scope_Remote [] sample_subtitle_world = (Inr ((items, warnings), memo'), w2)"
      "offered (se_providers sample_subtitle_env) q items warnings"
    unfolding bare by auto
  from r(2) have "(''down'', ''timeout'') \<in> set warnings" "\<exists>x \<in> set items. sn_id x = ''7'' \<and> sn_provider x = ''up''"
    by (simp_all add: offered_def sample_subtitle_env_def sample_providers_def sample_subtitle_def)
  with r(1) show ?thesis by blast
qed

end
