(* ===== verification/Subtitle_Charset.thy ===== *)
theory Subtitle_Charset
  imports Go_Prelude
begin

text \<open>
  The reading of subtitle files in the encodings they come in (\<open>internal/application/subtitles_charset.go\<close>), with the
  parts of \<open>unicode/utf8\<close> and \<open>unicode/utf16\<close> it uses.  The code pages are those of \<open>golang.org/x/text\<close>, an argument.
\<close>

subsection \<open>UTF-8 and UTF-16\<close>

definition bytes_of :: "nat list \<Rightarrow> string" where
  "bytes_of ns = map char_of ns"

definition surrogate :: "nat \<Rightarrow> bool" where
  "surrogate n = (0xD800 \<le> n \<and> n < 0xE000)"

definition scalar :: "nat \<Rightarrow> bool" where
  "scalar n = (n < 0x110000 \<and> \<not> surrogate n)"

definition utf8_of :: "nat \<Rightarrow> string" where
  "utf8_of r =
     (let n = (if scalar r then r else 0xFFFD) in bytes_of (
        if n < 0x80 then [n]
        else if n < 0x800 then [0xC0 + n div 64, 0x80 + n mod 64]
        else if n < 0x10000 then [0xE0 + n div 4096, 0x80 + n div 64 mod 64, 0x80 + n mod 64]
        else [0xF0 + n div 262144, 0x80 + n div 4096 mod 64, 0x80 + n div 64 mod 64, 0x80 + n mod 64]))"

definition utf8_text :: "nat list \<Rightarrow> string" where
  "utf8_text rs = concat (map utf8_of rs)"

text \<open>The width of the rune at the front of a text, zero where there is none.\<close>

definition continues :: "nat \<Rightarrow> nat \<Rightarrow> string \<Rightarrow> bool" where
  "continues lo hi s = (case s of [] \<Rightarrow> False | c # _ \<Rightarrow> lo \<le> (of_char c :: nat) \<and> of_char c \<le> hi)"

definition rune_length :: "string \<Rightarrow> nat" where
  "rune_length s =
     (case s of
        [] \<Rightarrow> 0
      | c # t \<Rightarrow>
          (let b = (of_char c :: nat);
               lo = (if b = 0xE0 then 0xA0 else if b = 0xF0 then 0x90 else 0x80);
               hi = (if b = 0xED then 0x9F else if b = 0xF4 then 0x8F else 0xBF);
               second = continues lo hi t;
               third = continues 0x80 0xBF (drop 1 t);
               fourth = continues 0x80 0xBF (drop 2 t)
           in if b < 0x80 then 1
              else if 0xC2 \<le> b \<and> b < 0xE0 then (if second then 2 else 0)
              else if 0xE0 \<le> b \<and> b < 0xF0 then (if second \<and> third then 3 else 0)
              else if 0xF0 \<le> b \<and> b < 0xF5 then (if second \<and> third \<and> fourth then 4 else 0)
              else 0))"

function valid_utf8 :: "string \<Rightarrow> bool" where
  "valid_utf8 s = (if s = [] then True else if rune_length s = 0 then False else valid_utf8 (drop (rune_length s) s))"
  by pat_completeness auto

termination
  by (relation "measure length") auto

declare valid_utf8.simps [simp del]

text \<open>\<open>ToValidUTF8\<close>: a run of other bytes becomes one replacement character.\<close>

definition replacement :: string where
  "replacement = [CHR 0xEF, CHR 0xBF, CHR 0xBD]"

function to_valid :: "bool \<Rightarrow> string \<Rightarrow> string" where
  "to_valid bad s =
     (case s of
        [] \<Rightarrow> []
      | c # t \<Rightarrow>
          if rune_length s = 0 then (if bad then [] else replacement) @ to_valid True t
          else take (rune_length s) s @ to_valid False (drop (rune_length s) s))"
  by pat_completeness auto

termination
  by (relation "measure (\<lambda>(_, s). length s)") auto

declare to_valid.simps [simp del]

fun utf16_decode :: "nat list \<Rightarrow> nat list" where
  "utf16_decode [] = []"
| "utf16_decode [u] = [if surrogate u then 0xFFFD else u]"
| "utf16_decode (u # v # us) =
     (if surrogate u \<and> u < 0xDC00 \<and> surrogate v \<and> 0xDC00 \<le> v
      then ((u - 0xD800) * 1024 + (v - 0xDC00) + 0x10000) # utf16_decode us
      else (if surrogate u then 0xFFFD else u) # utf16_decode (v # us))"

fun utf16_units :: "bool \<Rightarrow> string \<Rightarrow> nat list" where
  "utf16_units big (a # b # s) = (if big then of_char a * 256 + of_char b else of_char b * 256 + of_char a) # utf16_units big s"
| "utf16_units big s = []"

definition decode_utf16 :: "string \<Rightarrow> bool \<Rightarrow> string" where
  "decode_utf16 data big = utf8_text (utf16_decode (utf16_units big data))"

fun zeros_at :: "bool \<Rightarrow> string \<Rightarrow> nat" where
  "zeros_at snd_byte (a # b # s) = (if (if snd_byte then b else a) = CHR 0x00 then 1 else 0) + zeros_at snd_byte s"
| "zeros_at snd_byte s = 0"

definition sniff_utf16 :: "string \<Rightarrow> bool option" where
  "sniff_utf16 data =
     (let n = min (length data) 4096 - min (length data) 4096 mod 2;
          evens = zeros_at False (take n data);
          odds = zeros_at True (take n data);
          pairs = n div 2
      in if n < 4 then None
         else if pairs * 3 \<le> odds * 10 \<and> evens = 0 then Some False
         else if pairs * 3 \<le> evens * 10 \<and> odds = 0 then Some True
         else None)"

subsection \<open>Code pages\<close>

datatype code_page = Windows1250 | Windows1251 | Windows1252 | Windows1253 | Windows1254 | Windows1255 | Windows1256 | Windows1257

definition legacy_charmaps :: "(string \<times> code_page) list" where
  "legacy_charmaps =
     map (\<lambda>l. (l, Windows1250)) [''ro'', ''pl'', ''cs'', ''sk'', ''hu'', ''hr'', ''sl'', ''bs''] @
     map (\<lambda>l. (l, Windows1251)) [''ru'', ''bg'', ''uk'', ''sr'', ''mk'', ''be''] @
     [(''el'', Windows1253), (''tr'', Windows1254), (''he'', Windows1255), (''ar'', Windows1256)] @
     map (\<lambda>l. (l, Windows1257)) [''lt'', ''lv'', ''et'']"

fun romanian_cedillas :: "string \<Rightarrow> string" where
  "romanian_cedillas (a # b # s) =
     (if a = CHR 0xC5 \<and> b = CHR 0x9F then CHR 0xC8 # CHR 0x99 # romanian_cedillas s
      else if a = CHR 0xC5 \<and> b = CHR 0xA3 then CHR 0xC8 # CHR 0x9B # romanian_cedillas s
      else if a = CHR 0xC5 \<and> b = CHR 0x9E then CHR 0xC8 # CHR 0x98 # romanian_cedillas s
      else if a = CHR 0xC5 \<and> b = CHR 0xA2 then CHR 0xC8 # CHR 0x9A # romanian_cedillas s
      else a # romanian_cedillas (b # s))"
| "romanian_cedillas s = s"

definition normalize_romanian :: "string \<Rightarrow> string \<Rightarrow> string" where
  "normalize_romanian s lang = (if lang = ''ro'' then romanian_cedillas s else s)"

definition has_romanian_cedilla_byte :: "string \<Rightarrow> bool" where
  "has_romanian_cedilla_byte data = list_ex (\<lambda>b. b = CHR 0xBA \<or> b = CHR 0xFE \<or> b = CHR 0xAA \<or> b = CHR 0xDE) data"

definition decode_legacy :: "(code_page \<Rightarrow> string \<Rightarrow> string option) \<Rightarrow> string \<Rightarrow> string \<Rightarrow> string" where
  "decode_legacy decoder data lang =
     (let guess = (lang = [] \<and> has_romanian_cedilla_byte data);
          (page, romanian) = (case map_of legacy_charmaps lang of
             Some p \<Rightarrow> (p, lang = ''ro'')
           | None \<Rightarrow> if guess then (Windows1250, True) else (Windows1252, lang = ''ro''))
      in case decoder page data of
           None \<Rightarrow> to_valid False data
         | Some s \<Rightarrow> if romanian then romanian_cedillas s else s)"

definition decode_subtitle_text :: "(code_page \<Rightarrow> string \<Rightarrow> string option) \<Rightarrow> string \<Rightarrow> string \<Rightarrow> string" where
  "decode_subtitle_text decoder data lang =
     (if has_prefix data [CHR 0xFF, CHR 0xFE] then normalize_romanian (decode_utf16 (drop 2 data) False) lang
      else if has_prefix data [CHR 0xFE, CHR 0xFF] then normalize_romanian (decode_utf16 (drop 2 data) True) lang
      else let data = trim_prefix data [CHR 0xEF, CHR 0xBB, CHR 0xBF] in
        (case sniff_utf16 data of
           Some big \<Rightarrow> normalize_romanian (decode_utf16 data big) lang
         | None \<Rightarrow> if valid_utf8 data then normalize_romanian data lang else decode_legacy decoder data lang))"

subsection \<open>Facts\<close>

definition utf16_of :: "nat \<Rightarrow> nat list" where
  "utf16_of n = (if n < 0x10000 then [n] else [0xD800 + (n - 0x10000) div 1024, 0xDC00 + (n - 0x10000) mod 1024])"

definition utf16_bytes :: "bool \<Rightarrow> nat list \<Rightarrow> string" where
  "utf16_bytes big us = concat (map (\<lambda>u. if big then bytes_of [u div 256, u mod 256] else bytes_of [u mod 256, u div 256]) us)"

definition utf16_text :: "bool \<Rightarrow> nat list \<Rightarrow> string" where
  "utf16_text big rs = utf16_bytes big (concat (map utf16_of rs))"

lemma units_of_bytes: "list_all (\<lambda>u. u < 65536) us \<Longrightarrow> utf16_units big (utf16_bytes big us) = us"
proof (induction us)
  case (Cons u us)
  then have "u div 256 < 256" by auto
  then show ?case using Cons by (cases big) (simp_all add: utf16_bytes_def bytes_of_def)
qed (simp add: utf16_bytes_def)

lemma decode_not_surrogate: "\<not> surrogate u \<Longrightarrow> utf16_decode (u # us) = u # utf16_decode us"
  by (cases us) auto

lemma decode_of_scalar:
  assumes "scalar n"
  shows "utf16_decode (utf16_of n @ us) = n # utf16_decode us"
proof (cases "n < 0x10000")
  case True
  then show ?thesis using assms by (simp add: utf16_of_def scalar_def decode_not_surrogate)
next
  case False
  define m where "m = n - 0x10000"
  have m: "m < 1024 * 1024" "n = m + 0x10000" using assms False by (auto simp: m_def scalar_def)
  have d: "m div 1024 < 1024" using m(1) by (simp add: less_mult_imp_div_less)
  have s: "surrogate (0xD800 + m div 1024)" "surrogate (0xDC00 + m mod 1024)" "0xD800 + m div 1024 < 0xDC00"
    using d by (auto simp: surrogate_def)
  have "utf16_of n @ us = (0xD800 + m div 1024) # (0xDC00 + m mod 1024) # us"
    using False by (simp add: utf16_of_def m_def)
  moreover have "m div 1024 * 1024 + m mod 1024 + 0x10000 = n" using m(2) by simp
  ultimately show ?thesis using s by simp
qed

lemma utf16_of_range: "scalar n \<Longrightarrow> list_all (\<lambda>u. u < 65536) (utf16_of n)"
proof -
  assume "scalar n"
  then have n: "n < 0x110000" by (simp add: scalar_def)
  have "(n - 0x10000) div 1024 < 1024" using n by (intro less_mult_imp_div_less) simp
  moreover have "(n - 0x10000) mod 1024 < 1024" by simp
  ultimately show ?thesis by (auto simp: utf16_of_def simp del: mod_less_divisor)
qed

lemma utf16_decode_text: "list_all scalar rs \<Longrightarrow> utf16_decode (concat (map utf16_of rs)) = rs"
  by (induction rs) (simp_all add: decode_of_scalar)

lemma decode_utf16_text:
  assumes "list_all scalar rs"
  shows "decode_utf16 (utf16_text big rs) big = utf8_text rs"
proof -
  have "list_all (\<lambda>u. u < 65536) (concat (map utf16_of rs))"
    using assms utf16_of_range by (fastforce simp: list_all_iff)
  then show ?thesis using assms by (simp add: decode_utf16_def utf16_text_def units_of_bytes utf16_decode_text)
qed

lemma of_char_small: "n < 256 \<Longrightarrow> (of_char (char_of n :: char) :: nat) = n"
  by simp

lemma continues_Cons: "n < 256 \<Longrightarrow> continues lo hi (char_of n # s) \<longleftrightarrow> lo \<le> n \<and> n \<le> hi"
  by (simp add: continues_def)

lemma rune_length_utf8:
  assumes "scalar n"
  shows "rune_length (utf8_of n @ s) = length (utf8_of n) \<and> 0 < length (utf8_of n)"
proof -
  have top: "n < 0x110000" and sur: "\<not> surrogate n" using assms by (simp_all add: scalar_def)
  consider (one) "n < 0x80" | (two) "0x80 \<le> n" "n < 0x800" | (three) "0x800 \<le> n" "n < 0x10000" | (four) "0x10000 \<le> n"
    by linarith
  then show ?thesis
  proof cases
    case one
    then show ?thesis using assms by (simp add: utf8_of_def bytes_of_def rune_length_def)
  next
    case two
    define b where "b = 0xC0 + n div 64"
    have b: "0xC2 \<le> b" "b < 0xE0" using two by (auto simp: b_def)
    have e: "utf8_of n = [char_of b, char_of (0x80 + n mod 64)]"
      using two assms by (simp add: utf8_of_def bytes_of_def b_def)
    have "0x80 + n mod 64 < 256" "0x80 + n mod 64 \<le> 0xBF"
      using mod_less_divisor[of 64 n] by linarith+
    then show ?thesis using b unfolding e by (simp add: rune_length_def of_char_small continues_Cons)
  next
    case three
    define b where "b = 0xE0 + n div 4096"
    define c where "c = 0x80 + n div 64 mod 64"
    define d where "d = 0x80 + n mod 64"
    have b: "0xE0 \<le> b" "b < 0xF0" using three by (auto simp: b_def)
    have e: "utf8_of n = [char_of b, char_of c, char_of d]"
      using three assms by (simp add: utf8_of_def bytes_of_def b_def c_def d_def)
    have r: "0x80 \<le> c" "c \<le> 0xBF" "0x80 \<le> d" "d \<le> 0xBF"
      using mod_less_divisor[of 64 "n div 64"] mod_less_divisor[of 64 n] by (simp_all add: c_def d_def)
    have lo: "b = 0xE0 \<Longrightarrow> 0xA0 \<le> c" using three(1) by (simp add: b_def c_def)
    have hi: "c \<le> 0x9F" if "b = 0xED"
    proof -
      have "n div 4096 = 13" using that by (simp add: b_def)
      then have "0xD000 \<le> n" "n < 0xE000" by auto
      then have "n < 0xD800" using sur by (simp add: surrogate_def)
      then have "n div 64 < 864" "832 \<le> n div 64" using \<open>0xD000 \<le> n\<close> by auto
      moreover have "n div 64 div 64 = 13" using \<open>n div 4096 = 13\<close> by (simp add: div_mult2_eq[symmetric])
      then have "n div 64 - 832 = n div 64 mod 64" using minus_div_mult_eq_mod[of "n div 64" 64] by simp
      ultimately have "n div 64 mod 64 < 32" by linarith
      then show ?thesis by (simp add: c_def)
    qed
    show ?thesis using b r lo hi unfolding e
      by (simp add: rune_length_def of_char_small continues_Cons)
  next
    case four
    define b where "b = 0xF0 + n div 262144"
    define c where "c = 0x80 + n div 4096 mod 64"
    define d where "d = 0x80 + n div 64 mod 64"
    define f where "f = 0x80 + n mod 64"
    have b: "0xF0 \<le> b" "b < 0xF5" using top by (auto simp: b_def)
    have e: "utf8_of n = [char_of b, char_of c, char_of d, char_of f]"
      using four assms by (simp add: utf8_of_def bytes_of_def b_def c_def d_def f_def)
    have r: "0x80 \<le> c" "c \<le> 0xBF" "0x80 \<le> d" "d \<le> 0xBF" "0x80 \<le> f" "f \<le> 0xBF"
      using mod_less_divisor[of 64 "n div 64"] mod_less_divisor[of 64 n] mod_less_divisor[of 64 "n div 4096"]
      by (simp_all add: c_def d_def f_def)
    have lo: "0x90 \<le> c" if "b = 0xF0"
    proof -
      have "n div 4096 < 64" "16 \<le> n div 4096" using that four by (auto simp: b_def)
      then show ?thesis by (simp add: c_def)
    qed
    have hi: "c \<le> 0x8F" if "b = 0xF4"
    proof -
      have "n div 4096 < 272" "256 \<le> n div 4096" using that top by (auto simp: b_def)
      moreover have "n div 4096 div 64 = 4" using that by (simp add: b_def div_mult2_eq[symmetric])
      then have "n div 4096 - 256 = n div 4096 mod 64" using minus_div_mult_eq_mod[of "n div 4096" 64] by simp
      ultimately have "n div 4096 mod 64 < 16" by linarith
      then show ?thesis by (simp add: c_def)
    qed
    show ?thesis using b r lo hi unfolding e
      by (simp add: rune_length_def of_char_small continues_Cons)
  qed
qed

lemma valid_utf8_text: "list_all scalar rs \<Longrightarrow> valid_utf8 (utf8_text rs)"
proof (induction rs)
  case Nil
  then show ?case by (simp add: utf8_text_def valid_utf8.simps)
next
  case (Cons n rs)
  have eq: "utf8_text (n # rs) = utf8_of n @ utf8_text rs" by (simp add: utf8_text_def)
  have l: "rune_length (utf8_text (n # rs)) = length (utf8_of n)" "0 < length (utf8_of n)"
    using rune_length_utf8[of n "utf8_text rs"] Cons.prems unfolding eq by auto
  have "drop (length (utf8_of n)) (utf8_text (n # rs)) = utf8_text rs" by (simp add: eq)
  then show ?case using Cons l by (subst valid_utf8.simps) (auto simp: eq)
qed

lemma zeros_none: "CHR 0x00 \<notin> set s \<Longrightarrow> zeros_at b s = 0"
  by (induction b s rule: zeros_at.induct) auto

lemma sniff_text: "CHR 0x00 \<notin> set s \<Longrightarrow> sniff_utf16 s = None"
proof -
  assume "CHR 0x00 \<notin> set s"
  then have z: "zeros_at b (take k s) = 0" for b k by (intro zeros_none) (auto dest: in_set_takeD)
  define n where "n = min (length s) 4096 - min (length s) 4096 mod 2"
  have "\<not> n < 4 \<Longrightarrow> 0 < n div 2" by simp
  then show ?thesis unfolding sniff_utf16_def Let_def n_def[symmetric] z by auto
qed

lemma utf8_of_bytes:
  assumes "scalar n" "c \<in> set (utf8_of n)"
  shows "(of_char c :: nat) < 0xF5 \<and> (of_char c = (0::nat) \<longrightarrow> n = 0)"
proof -
  have "n < 0x110000" using assms(1) by (simp add: scalar_def)
  then have d: "n div 262144 < 5" "n < 0x10000 \<Longrightarrow> n div 4096 < 16" "n < 0x800 \<Longrightarrow> n div 64 < 32" by auto
  have m: "k mod 64 < 64" for k :: nat by simp
  show ?thesis
    using assms d m[of n] m[of "n div 64"] m[of "n div 4096"]
    by (auto simp: utf8_of_def bytes_of_def of_char_small simp del: mod_less_divisor split: if_splits)
qed

lemma utf8_text_bytes:
  assumes "list_all scalar rs" "c \<in> set (utf8_text rs)"
  shows "(of_char c :: nat) < 0xF5 \<and> (of_char c = (0::nat) \<longrightarrow> 0 \<in> set rs)"
  using assms utf8_of_bytes by (fastforce simp: utf8_text_def list_all_iff)

lemma has_prefix_in: "has_prefix s p \<Longrightarrow> c \<in> set p \<Longrightarrow> c \<in> set s"
  by (auto elim!: has_prefixE)

lemma utf8_no_marks:
  assumes "list_all scalar rs"
  shows "\<not> has_prefix (utf8_text rs) [CHR 0xFF, CHR 0xFE]" "\<not> has_prefix (utf8_text rs) [CHR 0xFE, CHR 0xFF]"
proof -
  have "CHR 0xFF \<notin> set (utf8_text rs)" using utf8_text_bytes[OF assms, of "CHR 0xFF"] by auto
  then show "\<not> has_prefix (utf8_text rs) [CHR 0xFF, CHR 0xFE]" "\<not> has_prefix (utf8_text rs) [CHR 0xFE, CHR 0xFF]"
    using has_prefix_in[of "utf8_text rs" "[CHR 0xFF, CHR 0xFE]" "CHR 0xFF"]
      has_prefix_in[of "utf8_text rs" "[CHR 0xFE, CHR 0xFF]" "CHR 0xFF"] by (simp_all add: disj_commute) blast+
qed

lemma char_of_0 [simp]: "char_of (0::nat) = CHR 0x00"
  by code_simp

lemma char_of_zero: "n < 256 \<Longrightarrow> (char_of n = CHR 0x00) = (n = (0::nat))"
proof
  assume "n < 256" "char_of n = CHR 0x00"
  then have "(of_char (char_of n :: char) :: nat) = of_char (CHR 0x00)" by simp
  then show "n = 0" using \<open>n < 256\<close> by simp
qed simp

text \<open>
  The text that is recognised without a mark: of its first 2048 units at least three of ten are Latin and none has a
  lower byte of zero, and its first unit is not read as a mark.
\<close>

definition units_of :: "nat list \<Rightarrow> nat list" where
  "units_of rs = concat (map utf16_of rs)"

definition mostly_latin :: "nat list \<Rightarrow> bool" where
  "mostly_latin us =
     (2 \<le> length us \<and> list_all (\<lambda>u. u mod 256 \<noteq> 0) (take 2048 us) \<and>
      3 * length (take 2048 us) \<le> 10 * length (filter (\<lambda>u. u < 256) (take 2048 us)) \<and>
      hd us \<notin> {0xFEFF, 0xFFFE, 0xEFBB, 0xBBEF})"

lemma utf16_bytes_Cons: "utf16_bytes big (u # us) =
    (if big then [char_of (u div 256), char_of (u mod 256)] else [char_of (u mod 256), char_of (u div 256)]) @ utf16_bytes big us"
  by (simp add: utf16_bytes_def bytes_of_def)

lemma length_utf16_bytes: "length (utf16_bytes big us) = 2 * length us"
  by (induction us) (simp_all add: utf16_bytes_Cons, simp add: utf16_bytes_def)

lemma take_utf16_bytes: "take (2 * k) (utf16_bytes big us) = utf16_bytes big (take k us)"
proof (induction us arbitrary: k)
  case (Cons u us)
  then show ?case by (cases k; cases big) (simp_all add: utf16_bytes_Cons, simp_all add: utf16_bytes_def)
qed (simp add: utf16_bytes_def)

lemma zeros_of_bytes:
  "list_all (\<lambda>u. u < 65536) us \<Longrightarrow>
   zeros_at (\<not> big) (utf16_bytes big us) = length (filter (\<lambda>u. u < 256) us) \<and>
   zeros_at big (utf16_bytes big us) = length (filter (\<lambda>u. u mod 256 = 0) us)"
proof (induction us)
  case (Cons u us)
  then have "u div 256 < 256" by auto
  then have z: "(char_of (u div 256) = CHR 0x00) = (u < 256)" "(char_of u = CHR 0x00) = (u mod 256 = 0)"
    using char_of_zero[of "u mod 256"] by (simp_all add: char_of_zero div_eq_0_iff)
  show ?case using Cons by (cases big) (simp_all add: utf16_bytes_Cons z)
qed (simp add: utf16_bytes_def)

lemma units_of_range: "list_all scalar rs \<Longrightarrow> list_all (\<lambda>u. u < 65536) (units_of rs)"
  using utf16_of_range by (auto simp: units_of_def list_all_iff)

lemma sniff_units:
  assumes "list_all (\<lambda>u. u < 65536) us" "mostly_latin us"
  shows "sniff_utf16 (utf16_bytes big us) = Some big"
proof -
  define k where "k = min (length us) 2048"
  have n: "min (length (utf16_bytes big us)) 4096 - min (length (utf16_bytes big us)) 4096 mod 2 = 2 * k"
    by (simp add: length_utf16_bytes k_def min_def)
  have t: "take k us = take 2048 us" "length (take 2048 us) = k" by (simp_all add: k_def min_def)
  have "list_all (\<lambda>u. u < 65536) (take 2048 us)" using assms(1) by (auto simp: list_all_iff dest: in_set_takeD)
  note z = zeros_of_bytes[OF this, of big]
  have "filter (\<lambda>u. u mod 256 = 0) (take 2048 us) = []" using assms(2) by (simp add: mostly_latin_def list_all_iff filter_empty_conv)
  with z have low: "zeros_at big (utf16_bytes big (take 2048 us)) = 0" by simp
  have high: "k * 3 \<le> zeros_at (\<not> big) (utf16_bytes big (take 2048 us)) * 10"
    using assms(2) conjunct1[OF z] t(2) by (simp add: mostly_latin_def)
  have "2 \<le> k" using assms(2) by (simp add: k_def mostly_latin_def)
  then show ?thesis unfolding sniff_utf16_def Let_def n take_utf16_bytes t(1) using low high by (cases big) simp_all
qed

lemma no_mark_units:
  assumes "list_all (\<lambda>u. u < 65536) us" "mostly_latin us"
  shows "\<not> has_prefix (utf16_bytes big us) [CHR 0xFF, CHR 0xFE]" "\<not> has_prefix (utf16_bytes big us) [CHR 0xFE, CHR 0xFF]"
    "\<not> has_prefix (utf16_bytes big us) [CHR 0xEF, CHR 0xBB, CHR 0xBF]"
proof -
  obtain u rest where us: "us = u # rest" using assms(2) by (cases us) (auto simp: mostly_latin_def)
  have u: "u < 65536" "u \<noteq> 0xFEFF" "u \<noteq> 0xFFFE" "u \<noteq> 0xEFBB" "u \<noteq> 0xBBEF" using assms us by (auto simp: mostly_latin_def)
  have byte: "of_char c = n" if "char_of n = c" "n < 256" for n :: nat and c :: char using that by auto
  have d: "u div 256 < 256" "u mod 256 < 256" "u = u div 256 * 256 + u mod 256" using u(1) by auto
  have "\<not> (char_of (u div 256) = (x :: char) \<and> char_of (u mod 256) = (y :: char))" if "of_char x * 256 + of_char y \<in> {0xFEFF, 0xFFFE, 0xEFBB, 0xBBEF :: nat}" for x y
  proof
    assume "char_of (u div 256) = x \<and> char_of (u mod 256) = y"
    then have "of_char x = u div 256" "of_char y = u mod 256" using byte d(1,2) by metis+
    with that d(3) u show False by auto
  qed
  note no = this
  have ne: "\<not> (char_of (u div 256) = CHR 0xFF \<and> char_of (u mod 256) = CHR 0xFE)" "\<not> (char_of (u div 256) = CHR 0xFE \<and> char_of (u mod 256) = CHR 0xFF)"
    "\<not> (char_of (u div 256) = CHR 0xEF \<and> char_of (u mod 256) = CHR 0xBB)" "\<not> (char_of (u div 256) = CHR 0xBB \<and> char_of (u mod 256) = CHR 0xEF)"
    by (rule no, simp)+
  show "\<not> has_prefix (utf16_bytes big us) [CHR 0xFF, CHR 0xFE]" "\<not> has_prefix (utf16_bytes big us) [CHR 0xFE, CHR 0xFF]"
    "\<not> has_prefix (utf16_bytes big us) [CHR 0xEF, CHR 0xBB, CHR 0xBF]"
    using ne by (cases big; auto simp: us utf16_bytes_Cons has_prefix_def)+
qed

lemma decode_unmarked:
  assumes "\<not> has_prefix data [CHR 0xFF, CHR 0xFE]" "\<not> has_prefix data [CHR 0xFE, CHR 0xFF]"
    "trim_prefix data [CHR 0xEF, CHR 0xBB, CHR 0xBF] = s"
  shows "sniff_utf16 s = None \<Longrightarrow> valid_utf8 s \<Longrightarrow> decode_subtitle_text decoder data lang = normalize_romanian s lang"
    "sniff_utf16 s = Some big \<Longrightarrow> decode_subtitle_text decoder data lang = normalize_romanian (decode_utf16 s big) lang"
  unfolding decode_subtitle_text_def Let_def if_not_P[OF assms(1)] if_not_P[OF assms(2)] assms(3) by simp_all

text \<open>
  Property C39: a text without NUL is read alike from UTF-16 of either byte order with its mark, from UTF-8 with its
  mark and, when it does not itself begin with that mark, without it, and from UTF-16 of either byte order without a
  mark when its beginning is mostly Latin, as subtitles with their numbers and times in ASCII are.
\<close>

theorem subtitle_encodings_agree:
  assumes "list_all scalar rs" "0 \<notin> set rs"
  shows "decode_subtitle_text decoder ([CHR 0xFF, CHR 0xFE] @ utf16_text False rs) lang = normalize_romanian (utf8_text rs) lang \<and>
    decode_subtitle_text decoder ([CHR 0xFE, CHR 0xFF] @ utf16_text True rs) lang = normalize_romanian (utf8_text rs) lang \<and>
    decode_subtitle_text decoder ([CHR 0xEF, CHR 0xBB, CHR 0xBF] @ utf8_text rs) lang = normalize_romanian (utf8_text rs) lang \<and>
    (\<not> has_prefix (utf8_text rs) [CHR 0xEF, CHR 0xBB, CHR 0xBF] \<longrightarrow>
       decode_subtitle_text decoder (utf8_text rs) lang = normalize_romanian (utf8_text rs) lang) \<and>
    (mostly_latin (units_of rs) \<longrightarrow>
       decode_subtitle_text decoder (utf16_text big rs) lang = normalize_romanian (utf8_text rs) lang)"
proof -
  have nul: "CHR 0x00 \<notin> set (utf8_text rs)" using utf8_text_bytes[OF assms(1), of "CHR 0x00"] assms(2) by auto
  have le: "decode_subtitle_text decoder ([CHR 0xFF, CHR 0xFE] @ utf16_text False rs) lang = normalize_romanian (utf8_text rs) lang"
    using decode_utf16_text[OF assms(1), of False] by (simp add: decode_subtitle_text_def has_prefix_def)
  have be: "decode_subtitle_text decoder ([CHR 0xFE, CHR 0xFF] @ utf16_text True rs) lang = normalize_romanian (utf8_text rs) lang"
    using decode_utf16_text[OF assms(1), of True] by (simp add: decode_subtitle_text_def has_prefix_def)
  note utf8 = sniff_text[OF nul] valid_utf8_text[OF assms(1)]
  have marked: "decode_subtitle_text decoder ([CHR 0xEF, CHR 0xBB, CHR 0xBF] @ utf8_text rs) lang = normalize_romanian (utf8_text rs) lang"
    by (rule decode_unmarked(1)[OF _ _ trim_prefix_append utf8]) (simp_all add: has_prefix_def)
  have bare: "decode_subtitle_text decoder (utf8_text rs) lang = normalize_romanian (utf8_text rs) lang"
    if "\<not> has_prefix (utf8_text rs) [CHR 0xEF, CHR 0xBB, CHR 0xBF]"
    using that by (intro decode_unmarked(1)[OF utf8_no_marks[OF assms(1)] _ utf8]) (simp add: trim_prefix_def)
  have plain: "decode_subtitle_text decoder (utf16_text big rs) lang = normalize_romanian (utf8_text rs) lang"
    if a: "mostly_latin (units_of rs)"
  proof -
    have bytes: "utf16_text big rs = utf16_bytes big (units_of rs)" by (simp add: utf16_text_def units_of_def)
    note m = no_mark_units[OF units_of_range[OF assms(1)] a, of big]
    have t: "trim_prefix (utf16_bytes big (units_of rs)) [CHR 0xEF, CHR 0xBB, CHR 0xBF] = utf16_bytes big (units_of rs)"
      using m(3) by (simp add: trim_prefix_def)
    show ?thesis
      using decode_unmarked(2)[OF m(1,2) t sniff_units[OF units_of_range[OF assms(1)] a], of decoder lang]
        decode_utf16_text[OF assms(1), of big] by (simp add: bytes)
  qed
  show ?thesis using le be marked bare plain by blast
qed

text \<open>A text that is not, of three Cyrillic letters, is not recognised without its mark: it is taken for other characters.\<close>

lemma unmarked_cyrillic_garbled:
  "decode_subtitle_text decoder (utf16_text False [0x43F, 0x440, 0x438]) ''en'' =
     [CHR ''?'', CHR 0x04, CHR ''@'', CHR 0x04, CHR ''8'', CHR 0x04] \<and>
   decode_subtitle_text decoder ([CHR 0xFF, CHR 0xFE] @ utf16_text False [0x43F, 0x440, 0x438]) ''en'' = utf8_text [0x43F, 0x440, 0x438]"
proof
  have c: "char_of (63 :: nat) = CHR ''?''" "char_of (64 :: nat) = CHR ''@''" "char_of (56 :: nat) = CHR ''8''" "char_of (4 :: nat) = CHR 0x04"
    by code_simp+
  have t: "utf16_text False [0x43F, 0x440, 0x438] = [CHR ''?'', CHR 0x04, CHR ''@'', CHR 0x04, CHR ''8'', CHR 0x04]"
    by (simp add: utf16_text_def utf16_of_def utf16_bytes_def bytes_of_def c[symmetric] del: char_of_mod_256)
  have "sniff_utf16 [CHR ''?'', CHR 0x04, CHR ''@'', CHR 0x04, CHR ''8'', CHR 0x04] = None" by code_simp
  moreover have "rune_length (c # s) = 1" if "(of_char c :: nat) < 0x80" for c s using that by (simp add: rune_length_def)
  then have "valid_utf8 [CHR ''?'', CHR 0x04, CHR ''@'', CHR 0x04, CHR ''8'', CHR 0x04]"
    by (simp add: valid_utf8.simps)
  ultimately show "decode_subtitle_text decoder (utf16_text False [0x43F, 0x440, 0x438]) ''en'' =
     [CHR ''?'', CHR 0x04, CHR ''@'', CHR 0x04, CHR ''8'', CHR 0x04]"
    unfolding t by (simp add: decode_subtitle_text_def has_prefix_def trim_prefix_def normalize_romanian_def)
  have "list_all scalar [0x43F, 0x440, 0x438]" by (simp add: scalar_def surrogate_def)
  from decode_utf16_text[OF this, of False]
  show "decode_subtitle_text decoder ([CHR 0xFF, CHR 0xFE] @ utf16_text False [0x43F, 0x440, 0x438]) ''en'' = utf8_text [0x43F, 0x440, 0x438]"
    by (simp add: decode_subtitle_text_def has_prefix_def normalize_romanian_def)
qed

lemma subtitle_encodings_agree_witness:
  "decode_subtitle_text (\<lambda>_ _. None) (utf16_text False [0x41, 0x219, 0x42, 0x1F3AC]) ''en'' = utf8_text [0x41, 0x219, 0x42, 0x1F3AC] \<and>
   decode_subtitle_text (\<lambda>_ _. None) ([CHR 0xFF, CHR 0xFE] @ utf16_text False [0x41, 0x219, 0x42, 0x1F3AC]) ''en'' =
     utf8_text [0x41, 0x219, 0x42, 0x1F3AC]"
proof -
  have h: "list_all scalar [0x41, 0x219, 0x42, 0x1F3AC]" "0 \<notin> set [0x41, 0x219, 0x42, 0x1F3AC :: nat]"
    by (simp_all add: scalar_def surrogate_def)
  have n: "normalize_romanian x ''en'' = x" for x by (simp add: normalize_romanian_def)
  have "mostly_latin (units_of [0x41, 0x219, 0x42, 0x1F3AC])"
    by (simp add: mostly_latin_def units_of_def utf16_of_def)
  with subtitle_encodings_agree[OF h, of "\<lambda>_ _. None" "''en''" False] show ?thesis unfolding n by blast
qed

end
