(* ===== verification/Subtitle_Prepare.thy ===== *)
theory Subtitle_Prepare
  imports Subtitle_Search Subtitle_Charset
begin

text \<open>
  The preparation of a subtitle (\<open>PrepareSubtitle\<close>, \<open>unpackSubtitle\<close>, \<open>pruneSubtitleCache\<close>, \<open>SubtitlePath\<close> of
  \<open>internal/application/subtitles.go\<close>, the table of assets of \<open>sqlite/repository.go\<close>): a subtitle is taken from the
  torrent, the media file or a provider, read, converted and kept in the cache folder with a row that names it.  The
  reader of archives, the code pages, the digest and what files and tools answer are arguments; the cache folders are
  a list of files.
\<close>

subsection \<open>Archives\<close>

record zip_entry =
  ze_name :: string
  ze_size :: int
  ze_content :: "string option"

datatype unpack_error = Sub_Empty_Or_Large | Sub_Bad_Archive string | Sub_Expands | Sub_No_Text | Sub_Unsupported string

definition max_subtitle_source_bytes :: int where
  "max_subtitle_source_bytes = 10 * 2 ^ 20"

definition supported_subtitle_ext :: "string \<Rightarrow> bool" where
  "supported_subtitle_ext ext = (to_lower ext \<in> {''.srt'', ''.vtt'', ''.ass'', ''.ssa'', ''.smi'', ''.sami''})"

definition sniff_subtitle_format :: "string \<Rightarrow> string" where
  "sniff_subtitle_format data =
     (let s = trim_space (to_lower (trim_prefix data byte_order_mark)) in
      if has_prefix s ''webvtt'' then ''.vtt''
      else if contains s ''[script info]'' \<and> contains s ''dialogue:'' then ''.ass''
      else if contains s ''<sami'' then ''.smi''
      else if contains s ''-->'' then ''.srt'' else [])"

fun zip_candidates :: "int \<Rightarrow> zip_entry list \<Rightarrow> unpack_error + zip_entry list" where
  "zip_candidates expanded [] = Inr []"
| "zip_candidates expanded (f # fs) =
     (let name = clean (ze_name f) in
      if is_abs name \<or> name = ''..'' \<or> has_prefix name ''../'' then zip_candidates expanded fs
      else if \<not> supported_subtitle_ext (to_lower (file_ext name)) \<or> max_subtitle_source_bytes < ze_size f
      then zip_candidates expanded fs
      else if 50 * 2 ^ 20 < expanded + ze_size f then Inl Sub_Expands
      else (case zip_candidates (expanded + ze_size f) fs of Inl e \<Rightarrow> Inl e | Inr cs \<Rightarrow> Inr (f # cs)))"

definition readable_entry :: "zip_entry \<Rightarrow> bool" where
  "readable_entry f = (case ze_content f of None \<Rightarrow> False | Some s \<Rightarrow> int (length s) \<le> max_subtitle_source_bytes)"

definition unpack_zip :: "string \<Rightarrow> zip_entry list \<Rightarrow> unpack_error + string \<times> string" where
  "unpack_zip media entries =
     (case zip_candidates 0 entries of
        Inl e \<Rightarrow> Inl e
      | Inr cs \<Rightarrow>
          (case List.find readable_entry
                  (sort_by (\<lambda>a b. filename_similarity media (ze_name b) < filename_similarity media (ze_name a)) cs) of
             None \<Rightarrow> Inl Sub_No_Text
           | Some f \<Rightarrow> Inr (the (ze_content f), to_lower (file_ext (ze_name f)))))"

definition is_zip :: "string \<Rightarrow> bool" where
  "is_zip data = (has_prefix data (''PK'' @ [CHR 0x03, CHR 0x04]) \<or> has_prefix data (''PK'' @ [CHR 0x05, CHR 0x06]) \<or>
     has_prefix data (''PK'' @ [CHR 0x07, CHR 0x08]))"

definition unpack_subtitle ::
  "(string \<Rightarrow> string + zip_entry list) \<Rightarrow> string \<Rightarrow> string \<Rightarrow> string \<Rightarrow> string \<Rightarrow> unpack_error + string \<times> string" where
  "unpack_subtitle unzip data format name media =
     (if data = [] \<or> max_subtitle_source_bytes < int (length data) then Inl Sub_Empty_Or_Large
      else if is_zip data then (case unzip data of Inl e \<Rightarrow> Inl (Sub_Bad_Archive e) | Inr entries \<Rightarrow> unpack_zip media entries)
      else let f1 = (if equal_fold format ''.zip'' then [] else format);
               f2 = (if f1 = [] then file_ext name else f1);
               f3 = to_lower (if equal_fold f2 ''.zip'' \<or> f2 = [] then sniff_subtitle_format data else f2)
        in if supported_subtitle_ext f3 then Inr (data, f3) else Inl (Sub_Unsupported f3))"

subsection \<open>The table of assets\<close>

definition asset_ext :: "string \<Rightarrow> string" where
  "asset_ext format = (if format = ''vtt'' then ''.vtt'' else ''.smi'')"

definition asset_url :: "string \<Rightarrow> string \<Rightarrow> string" where
  "asset_url i format = ''/api/v1/subtitles/'' @ i @ asset_ext format"

definition get_subtitle_asset ::
  "string \<times> string \<times> string \<times> string \<Rightarrow> subtitle_asset list \<Rightarrow> world \<Rightarrow> (svc_error + subtitle_asset) \<times> world" where
  "get_subtitle_asset k assets w = (case attempt w of
     (Some e, w') \<Rightarrow> (Inl (Repo_Error e), w')
   | (None, w') \<Rightarrow> (case row_of asset_key k assets of
        None \<Rightarrow> (Inl No_Rows, w') | Some a \<Rightarrow> (Inr (a\<lparr>sa_url := asset_url (sa_id a) (sa_format a)\<rparr>), w')))"

definition merge_asset :: "subtitle_asset \<Rightarrow> subtitle_asset \<Rightarrow> subtitle_asset" where
  "merge_asset a old = old\<lparr>sa_id := sa_id a, sa_name := sa_name a, sa_language := sa_language a,
     sa_mime_type := sa_mime_type a, sa_path := sa_path a, sa_last_used_at := unix_seconds (sa_last_used_at a)\<rparr>"

text \<open>The id is the primary key: a row with another key and the same id refuses the statement.\<close>

definition save_subtitle_asset ::
  "subtitle_asset \<Rightarrow> subtitle_asset list \<Rightarrow> world \<Rightarrow> svc_error option \<times> subtitle_asset list \<times> world" where
  "save_subtitle_asset a assets w = (case attempt w of
     (Some e, w') \<Rightarrow> (Some (Repo_Error e), assets, w')
   | (None, w') \<Rightarrow>
       if list_ex (\<lambda>x. sa_id x = sa_id a \<and> asset_key x \<noteq> asset_key a) assets
       then (Some (Repo_Error ''constraint failed''), assets, w')
       else let a = a\<lparr>sa_created_at := (if sa_created_at a = zero_time then now_of w' else sa_created_at a),
                      sa_last_used_at := (if sa_last_used_at a = zero_time then now_of w' else sa_last_used_at a)\<rparr>
         in (None, upsert asset_key (case row_of asset_key (asset_key a) assets of
              None \<Rightarrow> a\<lparr>sa_url := [], sa_created_at := unix_seconds (sa_created_at a),
                        sa_last_used_at := unix_seconds (sa_last_used_at a)\<rparr>
            | Some old \<Rightarrow> merge_asset a old) assets, w'))"

subsection \<open>The cache folder\<close>

record cached_file =
  cf_path :: string
  cf_content :: string
  cf_mod :: go_time

definition cached_exists :: "string \<Rightarrow> cached_file list \<Rightarrow> bool" where
  "cached_exists p files = list_ex (\<lambda>f. cf_path f = p) files"

definition write_cached :: "string \<Rightarrow> string \<Rightarrow> go_time \<Rightarrow> cached_file list \<Rightarrow> cached_file list" where
  "write_cached p content now files = upsert cf_path \<lparr>cf_path = p, cf_content = content, cf_mod = now\<rparr> files"

definition bytes_in :: "cached_file list \<Rightarrow> int" where
  "bytes_in files = sum_list (map (\<lambda>f. int (length (cf_content f))) files)"

text \<open>The files that are removed, the oldest first; \<open>removable\<close> says whether \<open>os.Remove\<close> succeeds.\<close>

fun prune_loop :: "(string \<Rightarrow> bool) \<Rightarrow> int \<Rightarrow> string \<Rightarrow> int \<Rightarrow> cached_file list \<Rightarrow> string list" where
  "prune_loop removable maximum keep tot [] = []"
| "prune_loop removable maximum keep tot (f # fs) =
     (if tot \<le> maximum then []
      else if cf_path f = keep \<or> \<not> removable (cf_path f) then prune_loop removable maximum keep tot fs
      else cf_path f # prune_loop removable maximum keep (tot - int (length (cf_content f))) fs)"

definition cache_listing :: "string \<Rightarrow> cached_file list \<Rightarrow> cached_file list" where
  "cache_listing dir files =
     filter (\<lambda>f. path_dir (cf_path f) = clean dir \<and> (file_ext (cf_path f) = ''.smi'' \<or> file_ext (cf_path f) = ''.vtt'')) files"

definition prune_subtitle_cache ::
  "(string \<Rightarrow> bool) \<Rightarrow> string \<Rightarrow> int \<Rightarrow> string \<Rightarrow> cached_file list \<Rightarrow> cached_file list" where
  "prune_subtitle_cache removable dir maximum keep files =
     (let listed = cache_listing dir files;
          gone = prune_loop removable maximum keep (bytes_in listed) (sort_by (\<lambda>a b. cf_mod a < cf_mod b) listed)
      in filter (\<lambda>f. cf_path f \<notin> set gone) files)"

definition hex_id :: "string \<Rightarrow> bool" where
  "hex_id s = (length s = 32 \<and> list_all (\<lambda>c. is_digit c \<or> c \<in> set ''abcdef'') s)"

datatype serve_error = Bad_Asset_Id | Asset_Gone

definition subtitle_path :: "string \<Rightarrow> string \<Rightarrow> string \<Rightarrow> cached_file list \<Rightarrow> serve_error + string" where
  "subtitle_path cache i requested files =
     (if \<not> hex_id i then Inl Bad_Asset_Id
      else let p = path_join [cache, i @ asset_ext requested] in if cached_exists p files then Inr p else Inl Asset_Gone)"

subsection \<open>Where a subtitle comes from\<close>

datatype subtitle_error = Sub_Control control_error | Sub_Incomplete | Sub_Bad_Id | Sub_Not_Found | Sub_Size | Sub_Path path_error
  | Sub_Range range_error | Sub_Read string | Sub_No_Probe | Sub_Probe string | Sub_Picture int string | Sub_Extract string
  | Sub_Unknown_Provider | Sub_Download string | Sub_Unpack unpack_error | Sub_Convert convert_error | Sub_Cache string

type_synonym 'a subtitle_result = "(subtitle_error + 'a) \<times> world"

definition bind_sub :: "'a subtitle_result \<Rightarrow> ('a \<Rightarrow> world \<Rightarrow> 'b subtitle_result) \<Rightarrow> 'b subtitle_result" where
  "bind_sub m f = (case m of (Inl e, w) \<Rightarrow> (Inl e, w) | (Inr x, w) \<Rightarrow> f x w)"

definition lift_sub :: "'a control \<Rightarrow> 'a subtitle_result" where
  "lift_sub m = (case m of (Inl e, w) \<Rightarrow> (Inl (Sub_Control e), w) | (Inr x, w) \<Rightarrow> (Inr x, w))"

text \<open>
  What files, tools and libraries answer: the engine while a range is read, the content of a file, the text of the
  embedded track with an ordinal, the members of an archive, a code page, the hexadecimal digits of a digest, and the
  failures of the cache folder.
\<close>

record subtitle_io =
  si_env :: subtitle_env
  si_view :: engine_view
  si_read :: "string \<Rightarrow> string + string"
  si_extract :: "int \<Rightarrow> string + string"
  si_unzip :: "string \<Rightarrow> string + zip_entry list"
  si_decoder :: "code_page \<Rightarrow> string \<Rightarrow> string option"
  si_digest :: "string \<Rightarrow> string"
  si_mkdir :: "string option"
  si_write :: "string option"
  si_removable :: "string \<Rightarrow> bool"

definition contained_source ::
  "subtitle_io \<Rightarrow> settings \<Rightarrow> download \<Rightarrow> string \<Rightarrow> world \<Rightarrow> (subtitle_download \<times> string) subtitle_result" where
  "contained_source io cfg d candidate w =
     (case parse_int64 candidate of
        None \<Rightarrow> (Inl Sub_Bad_Id, w)
      | Some index \<Rightarrow>
          (case owner w (dl_engine_id d) of
             None \<Rightarrow> (Inl (Sub_Control (Ctl_Service (unavailable_err w (dl_engine_id d)))), w)
           | Some (_, hash) \<Rightarrow>
               bind_sub (lift_sub (lift_svc (route_files (dl_engine_id d) hash w))) (\<lambda>files w.
               bind_sub (lift_sub (lift_svc (route_status (dl_engine_id d) hash w))) (\<lambda>status w.
                 case List.find (\<lambda>f. tf_index f = index \<and> subtitle_file (tf_path f)) files of
                   None \<Rightarrow> (Inl Sub_Not_Found, w)
                 | Some f \<Rightarrow>
                     if tf_size_bytes f \<le> 0 \<or> max_subtitle_source_bytes < tf_size_bytes f then (Inl Sub_Size, w)
                     else (case safe_qb_content_path (ce_cwd (se_control (si_env io))) (st_download_root cfg) status (tf_path f) of
                        Inl e \<Rightarrow> (Inl (Sub_Path e), w)
                      | Inr p \<Rightarrow>
                          (case readable_range_path (ce_cwd (se_control (si_env io))) (st_download_root cfg)
                                  (ce_stat (se_control (si_env io))) (si_view io)
                                  (d\<lparr>dl_file_path := tf_path f, dl_absolute_path := p, dl_file_offset := tf_offset f,
                                     dl_size_bytes := tf_size_bytes f\<rparr>) 0 (tf_size_bytes f) of
                             Inl e \<Rightarrow> (Inl (Sub_Range e), w)
                           | Inr p' \<Rightarrow>
                               (case si_read io p' of
                                  Inl e \<Rightarrow> (Inl (Sub_Read e), w)
                                | Inr content \<Rightarrow>
                                    (Inr (\<lparr>sd_data = content, sd_format = file_ext p', sd_name = path_base p', sd_language = []\<rparr>,
                                          subtitle_language (tf_path f)), w))))))))"

definition embedded_source ::
  "subtitle_io \<Rightarrow> download \<Rightarrow> string \<Rightarrow> probe_memo \<Rightarrow> (subtitle_error + subtitle_download \<times> string) \<times> probe_memo" where
  "embedded_source io d candidate memo =
     (case se_probe (si_env io) of
        None \<Rightarrow> (Inl Sub_No_Probe, memo)
      | Some probe \<Rightarrow>
          (case parse_int64 candidate of
             None \<Rightarrow> (Inl Sub_Bad_Id, memo)
           | Some index \<Rightarrow>
               if index < 0 then (Inl Sub_Bad_Id, memo)
               else (case probe_subtitles (si_env io) probe (dl_absolute_path d) memo of
                  (Inl e, memo') \<Rightarrow> (Inl (Sub_Probe e), memo')
                | (Inr ts, memo') \<Rightarrow>
                    (case List.find (\<lambda>t. mt_index t = index) ts of
                       None \<Rightarrow> (Inl Sub_Not_Found, memo')
                     | Some t \<Rightarrow>
                         if mt_bitmap t then (Inl (Sub_Picture index (mt_codec t)), memo')
                         else (case si_extract io (mt_ordinal t) of
                            Inl e \<Rightarrow> (Inl (Sub_Extract e), memo')
                          | Inr content \<Rightarrow>
                              (Inr (\<lparr>sd_data = content, sd_format = ''.vtt'',
                                     sd_name = ''Embedded subtitle '' @ candidate @ ''.vtt'', sd_language = []\<rparr>,
                                    embedded_track_language t), memo'))))))"

definition provider_source :: "subtitle_io \<Rightarrow> string \<Rightarrow> string \<Rightarrow> subtitle_error + subtitle_download \<times> string" where
  "provider_source io provider candidate =
     (case List.find (\<lambda>p. pv_name p = provider) (se_providers (si_env io)) of
        None \<Rightarrow> Inl Sub_Unknown_Provider
      | Some p \<Rightarrow>
          (case pv_download p candidate of
             Inl e \<Rightarrow> Inl (Sub_Download e)
           | Inr src \<Rightarrow> Inr (src, normalize_language (sd_language src))))"

subsection \<open>Preparing\<close>

record subtitle_state =
  sy_assets :: "subtitle_asset list"
  sy_files :: "cached_file list"
  sy_memo :: probe_memo

definition subtitle_target :: "string option \<Rightarrow> string" where
  "subtitle_target requested = (case requested of None \<Rightarrow> ''sami'' | Some f \<Rightarrow> if to_lower f = ''vtt'' then ''vtt'' else ''sami'')"

text \<open>The modification time an embedded track is held against.\<close>

definition embedded_stale :: "subtitle_io \<Rightarrow> download \<Rightarrow> string \<Rightarrow> go_time" where
  "embedded_stale io d provider =
     (if provider \<noteq> ''embedded'' then zero_time
      else case se_version (si_env io) (dl_absolute_path d) of None \<Rightarrow> zero_time | Some (_, modified) \<Rightarrow> modified)"

definition restamp_file :: "subtitle_io \<Rightarrow> string \<Rightarrow> go_time \<Rightarrow> cached_file list \<Rightarrow> cached_file list" where
  "restamp_file io p now files =
     (case row_of cf_path p files of
        None \<Rightarrow> files
      | Some f \<Rightarrow>
          (case restamp (cf_content f) of
             None \<Rightarrow> files
           | Some s \<Rightarrow> if si_write io = None then write_cached p s now files else files))"

text \<open>An asset that is there already, if it is still good.\<close>

definition cached_subtitle ::
  "subtitle_io \<Rightarrow> string \<times> string \<times> string \<times> string \<Rightarrow> go_time \<Rightarrow> subtitle_state \<Rightarrow> world \<Rightarrow>
   subtitle_asset option \<times> subtitle_state \<times> world" where
  "cached_subtitle io k stale sy w =
     (case get_subtitle_asset k (sy_assets sy) w of
        (Inl _, w1) \<Rightarrow> (None, sy, w1)
      | (Inr a, w1) \<Rightarrow>
          if sa_created_at a + second < stale \<or> \<not> cached_exists (sa_path a) (sy_files sy) then (None, sy, w1)
          else let files = (if sa_format a = ''vtt'' then restamp_file io (sa_path a) (now_of w1) (sy_files sy) else sy_files sy);
                   a = a\<lparr>sa_last_used_at := now_of w1\<rparr>;
                   (_, assets, w2) = save_subtitle_asset a (sy_assets sy) w1
            in (Some a, sy\<lparr>sy_files := files, sy_assets := assets\<rparr>, w2))"

definition subtitle_source ::
  "subtitle_io \<Rightarrow> settings \<Rightarrow> download \<Rightarrow> string \<Rightarrow> string \<Rightarrow> probe_memo \<Rightarrow> world \<Rightarrow>
   (subtitle_download \<times> string) subtitle_result \<times> probe_memo" where
  "subtitle_source io cfg d provider candidate memo w =
     (if provider = ''contained'' then (contained_source io cfg d candidate w, memo)
      else if provider = ''embedded'' then (case embedded_source io d candidate memo of (r, memo') \<Rightarrow> ((r, w), memo'))
      else ((provider_source io provider candidate, w), memo))"

text \<open>The text of the asset.\<close>

definition converted_text ::
  "subtitle_io \<Rightarrow> string \<Rightarrow> string \<Rightarrow> string \<Rightarrow> subtitle_download \<times> string \<Rightarrow> subtitle_error + string" where
  "converted_text io media provider target = (\<lambda>(src, language).
     case unpack_subtitle (si_unzip io) (sd_data src) (sd_format src) (sd_name src) media of
       Inl e \<Rightarrow> Inl (Sub_Unpack e)
     | Inr (content, format) \<Rightarrow>
         (let s = (if provider \<noteq> ''embedded'' then decode_subtitle_text (si_decoder io) content language else content) in
          case (if target = ''vtt'' then to_web_vtt s format else to_sami s format) of
            Inl e \<Rightarrow> Inl (Sub_Convert e)
          | Inr out \<Rightarrow> Inr out))"

definition asset_seed :: "string \<Rightarrow> string \<Rightarrow> string \<Rightarrow> string \<Rightarrow> string \<Rightarrow> string" where
  "asset_seed source provider candidate target out =
     source @ [CHR 0x00] @ provider @ [CHR 0x00] @ candidate @ [CHR 0x00] @ target @ [CHR 0x00] @ out"

definition new_asset :: "string \<times> string \<times> string \<times> string \<Rightarrow> string \<Rightarrow> string \<Rightarrow> string \<Rightarrow> string \<Rightarrow> go_time \<Rightarrow> subtitle_asset" where
  "new_asset = (\<lambda>(source, provider, candidate, target) i p name language now.
     \<lparr>sa_id = i, sa_source_id = source, sa_provider = provider, sa_candidate_id = candidate, sa_name = name,
      sa_language = language, sa_url = asset_url i target, sa_format = target,
      sa_mime_type = (if target = ''vtt'' then ''text/vtt; charset=utf-8'' else ''application/x-sami; charset=utf-8''),
      sa_path = p, sa_created_at = now, sa_last_used_at = now\<rparr>)"

definition store_subtitle ::
  "subtitle_io \<Rightarrow> settings \<Rightarrow> string \<times> string \<times> string \<times> string \<Rightarrow> string \<Rightarrow> string \<Rightarrow> string \<Rightarrow> subtitle_state \<Rightarrow> world \<Rightarrow>
   (subtitle_error + subtitle_asset) \<times> subtitle_state \<times> world" where
  "store_subtitle io cfg k name language out sy w =
     (case k of (source, provider, candidate, target) \<Rightarrow>
        let i = si_digest io (asset_seed source provider candidate target out);
            cache = st_subtitle_cache_path cfg;
            p = path_join [cache, i @ asset_ext target] in
        case si_mkdir io of
          Some e \<Rightarrow> (Inl (Sub_Cache e), sy, w)
        | None \<Rightarrow>
            (case si_write io of
               Some e \<Rightarrow> (Inl (Sub_Cache e), sy, w)
             | None \<Rightarrow>
                 (let sy = sy\<lparr>sy_files := prune_subtitle_cache (si_removable io) cache (st_subtitle_cache_max_bytes cfg) p
                          (write_cached p out (now_of w) (sy_files sy))\<rparr>;
                      a = new_asset k i p name language (now_of w);
                      (failed, assets, w) = save_subtitle_asset a (sy_assets sy) w
                  in (case failed of
                        Some e \<Rightarrow> (Inl (Sub_Control (Ctl_Service e)), sy, w)
                      | None \<Rightarrow> (Inr a, sy\<lparr>sy_assets := assets\<rparr>, w)))))"

definition prepare_subtitle ::
  "subtitle_io \<Rightarrow> string \<Rightarrow> string \<Rightarrow> string \<Rightarrow> string option \<Rightarrow> subtitle_state \<Rightarrow> world \<Rightarrow>
   (subtitle_error + subtitle_asset) \<times> subtitle_state \<times> world" where
  "prepare_subtitle io source provider candidate requested sy w =
     (let cfg = w_settings w; target = subtitle_target requested; k = (source, provider, candidate, target) in
      case get_download source w of
        (Inl e, w1) \<Rightarrow> (Inl (Sub_Control (Ctl_Service e)), sy, w1)
      | (Inr d0, w1) \<Rightarrow>
          (case live_download (se_control (si_env io)) d0 w1 of
             (d, w2) \<Rightarrow>
               if provider = ''embedded'' \<and> \<not> completed_local_file (ce_stat (se_control (si_env io))) d
               then (Inl Sub_Incomplete, sy, w2)
               else (case cached_subtitle io k (embedded_stale io d provider) sy w2 of
                  (Some a, sy1, w3) \<Rightarrow> (Inr a, sy1, w3)
                | (None, sy1, w3) \<Rightarrow>
                    (case subtitle_source io cfg d provider candidate (sy_memo sy1) w3 of
                       ((Inl e, w4), memo) \<Rightarrow> (Inl e, sy1\<lparr>sy_memo := memo\<rparr>, w4)
                     | ((Inr (src, language), w4), memo) \<Rightarrow>
                         (case converted_text io (dl_file_path d) provider target (src, language) of
                            Inl e \<Rightarrow> (Inl e, sy1\<lparr>sy_memo := memo\<rparr>, w4)
                          | Inr out \<Rightarrow> store_subtitle io cfg k (sd_name src) language out (sy1\<lparr>sy_memo := memo\<rparr>) w4)))))"

subsection \<open>Facts\<close>

lemma prune_loop_gone:
  "p \<in> set (prune_loop removable maximum keep tot fs) \<Longrightarrow> p \<noteq> keep \<and> removable p \<and> p \<in> cf_path ` set fs"
  by (induction removable maximum keep tot fs rule: prune_loop.induct) (auto split: if_splits)

lemma keep_kept:
  "cached_exists keep files \<Longrightarrow> cached_exists keep (prune_subtitle_cache removable dir maximum keep files)"
  using prune_loop_gone by (fastforce simp: cached_exists_def list_ex_iff prune_subtitle_cache_def Let_def)

lemma write_cached_exists: "cached_exists q (write_cached p content now files) \<longleftrightarrow> q = p \<or> cached_exists q files"
  unfolding write_cached_def cached_exists_def list_ex_iff
  by (induction files) auto

lemma restamp_exists: "cached_exists q (restamp_file io p now files) \<longleftrightarrow> cached_exists q files"
proof -
  have "cached_exists p files" if "row_of cf_path p files = Some f" for f
    using row_of_key[OF that] by (auto simp: cached_exists_def list_ex_iff)
  then show ?thesis
    by (auto simp: restamp_file_def write_cached_exists split: option.splits if_splits)
qed

text \<open>Rows that name files of the cache folder of the settings.\<close>

definition assets_here :: "string \<Rightarrow> subtitle_asset list \<Rightarrow> bool" where
  "assets_here cache assets =
     list_all (\<lambda>a. hex_id (sa_id a) \<and> sa_path a = path_join [cache, sa_id a @ asset_ext (sa_format a)]) assets"

lemma upsert_all: "list_all P xs \<Longrightarrow> P x \<Longrightarrow> list_all P (upsert key x xs)"
  using set_upsert_subset[of key x xs] by (auto simp: list_all_iff)

lemma save_here:
  assumes "save_subtitle_asset a assets w = (r, assets', w')" "assets_here cache assets"
    "hex_id (sa_id a)" "sa_path a = path_join [cache, sa_id a @ asset_ext (sa_format a)]"
  shows "assets_here cache assets'"
proof -
  have "sa_format old = sa_format a" if "row_of asset_key (asset_key a) assets = Some old" for old
    using row_of_key[OF that] by (auto simp: asset_key_def)
  then show ?thesis
    using assms unfolding assets_here_def
    by (auto simp: save_subtitle_asset_def merge_asset_def Let_def asset_key_def split: option.splits if_splits prod.splits
        intro!: upsert_all)
qed

lemma served:
  "hex_id i \<Longrightarrow> cached_exists (path_join [cache, i @ asset_ext f]) files \<Longrightarrow>
   subtitle_path cache i f files = Inr (path_join [cache, i @ asset_ext f])"
  by (simp add: subtitle_path_def)

lemma cached_subtitle_served:
  assumes "cached_subtitle io k stale sy w = (r, sy', w')" "assets_here cache (sy_assets sy)"
  shows "assets_here cache (sy_assets sy') \<and>
    (case r of None \<Rightarrow> sy' = sy
     | Some a \<Rightarrow> subtitle_path cache (sa_id a) (sa_format a) (sy_files sy') = Inr (sa_path a) \<and> sa_url a = asset_url (sa_id a) (sa_format a))"
proof -
  obtain g w1 where g: "get_subtitle_asset k (sy_assets sy) w = (g, w1)" by fastforce
  show ?thesis
  proof (cases g)
    case (Inl e)
    then show ?thesis using assms g by (auto simp: cached_subtitle_def)
  next
    case (Inr a)
    then obtain row where row: "row_of asset_key k (sy_assets sy) = Some row" "a = row\<lparr>sa_url := asset_url (sa_id row) (sa_format row)\<rparr>"
      using g by (auto simp: get_subtitle_asset_def split: option.splits prod.splits)
    have here: "hex_id (sa_id a)" "sa_path a = path_join [cache, sa_id a @ asset_ext (sa_format a)]"
      "sa_url a = asset_url (sa_id a) (sa_format a)"
      using assms(2) row_of_key[OF row(1)] row(2) by (auto simp: assets_here_def list_all_iff)
    show ?thesis
    proof (cases "sa_created_at a + second < stale \<or> \<not> cached_exists (sa_path a) (sy_files sy)")
      case True
      then show ?thesis using assms g Inr by (auto simp: cached_subtitle_def)
    next
      case False
      define a' where "a' = a\<lparr>sa_last_used_at := now_of w1\<rparr>"
      obtain x assets w2 where s: "save_subtitle_asset a' (sy_assets sy) w1 = (x, assets, w2)" by (metis prod.exhaust)
      have out: "r = Some a'" "sy_assets sy' = assets"
        "sy_files sy' = (if sa_format a = ''vtt'' then restamp_file io (sa_path a) (now_of w1) (sy_files sy) else sy_files sy)"
        using assms(1) g Inr False s by (auto simp: cached_subtitle_def Let_def a'_def[symmetric])
      have "cached_exists (sa_path a) (sy_files sy')" using False by (simp add: out(3) restamp_exists)
      moreover have "assets_here cache assets"
        using save_here[OF s assms(2)] here by (simp add: a'_def)
      ultimately show ?thesis using here served[of "sa_id a" cache "sa_format a"] out(1,2) by (simp add: a'_def)
    qed
  qed
qed

lemma store_subtitle_served:
  assumes "store_subtitle io cfg (source, provider, candidate, target) name language out sy w = (Inr a, sy', w')"
    "assets_here (st_subtitle_cache_path cfg) (sy_assets sy)" "\<And>s. hex_id (si_digest io s)"
  shows "subtitle_path (st_subtitle_cache_path cfg) (sa_id a) (sa_format a) (sy_files sy') = Inr (sa_path a) \<and>
    sa_url a = asset_url (sa_id a) (sa_format a) \<and> assets_here (st_subtitle_cache_path cfg) (sy_assets sy')"
proof -
  define i where "i = si_digest io (asset_seed source provider candidate target out)"
  define p where "p = path_join [st_subtitle_cache_path cfg, i @ asset_ext target]"
  define files where "files = prune_subtitle_cache (si_removable io) (st_subtitle_cache_path cfg) (st_subtitle_cache_max_bytes cfg) p
    (write_cached p out (now_of w) (sy_files sy))"
  have io: "si_mkdir io = None" "si_write io = None"
    using assms(1) by (auto simp: store_subtitle_def Let_def split: option.splits)
  define a0 where "a0 = new_asset (source, provider, candidate, target) i p name language (now_of w)"
  have a0: "sa_id a0 = i" "sa_path a0 = p" "sa_format a0 = target" "sa_url a0 = asset_url i target"
    by (simp_all add: a0_def new_asset_def)
  obtain x assets w2 where s: "save_subtitle_asset a0 (sy_assets sy) w = (x, assets, w2)" by (metis prod.exhaust)
  have o1: "a = a0" "sy_files sy' = files" "sy_assets sy' = assets"
    using assms(1) io s unfolding store_subtitle_def Let_def prod.case option.case i_def[symmetric] p_def[symmetric] a0_def[symmetric]
      files_def[symmetric]
    by (auto split: option.splits)
  have "cached_exists p files" unfolding files_def by (rule keep_kept) (simp add: write_cached_exists)
  then have "subtitle_path (st_subtitle_cache_path cfg) i target files = Inr p"
    unfolding p_def by (intro served) (simp_all add: i_def assms(3))
  moreover have "assets_here (st_subtitle_cache_path cfg) assets"
    by (rule save_here[OF s assms(2)]) (simp_all add: a0 i_def p_def assms(3))
  ultimately show ?thesis by (simp add: o1 a0)
qed

text \<open>
  Property C40: whatever is in the cache and whatever it has to give up for the new file, an asset that is prepared can be
  fetched: the address that is answered leads to its file, as long as the rows name files of the cache folder of the
  settings, which preparing keeps.
\<close>

theorem prepared_subtitle_served:
  assumes "prepare_subtitle io source provider candidate requested sy w = (Inr a, sy', w')"
    "assets_here (st_subtitle_cache_path (w_settings w)) (sy_assets sy)" "\<And>s. hex_id (si_digest io s)"
  shows "subtitle_path (st_subtitle_cache_path (w_settings w)) (sa_id a) (sa_format a) (sy_files sy') = Inr (sa_path a) \<and>
    sa_url a = asset_url (sa_id a) (sa_format a) \<and>
    assets_here (st_subtitle_cache_path (w_settings w)) (sy_assets sy')"
proof -
  define cache where "cache = st_subtitle_cache_path (w_settings w)"
  define k where "k = (source, provider, candidate, subtitle_target requested)"
  obtain d0 w1 where get: "get_download source w = (Inr d0, w1)"
    using assms(1) by (auto simp: prepare_subtitle_def Let_def split: prod.splits sum.splits)
  obtain d w2 where live: "live_download (se_control (si_env io)) d0 w1 = (d, w2)" by fastforce
  obtain c sy1 w3 where c: "cached_subtitle io k (embedded_stale io d provider) sy w2 = (c, sy1, w3)" by (metis prod.exhaust)
  note steps = assms(1)[unfolded prepare_subtitle_def Let_def get live k_def[symmetric] c prod.case sum.case]
  have going: "\<not> (provider = ''embedded'' \<and> \<not> completed_local_file (ce_stat (se_control (si_env io))) d)"
    using steps by (auto split: if_splits)
  note steps = steps[unfolded if_not_P[OF going] prod.case]
  note found = cached_subtitle_served[OF c assms(2)]
  show ?thesis
  proof (cases c)
    case (Some b)
    then show ?thesis using steps found by simp
  next
    case None
    obtain r w4 memo where src: "subtitle_source io (w_settings w) d provider candidate (sy_memo sy1) w3 = ((r, w4), memo)"
      by (metis prod.exhaust)
    obtain x language where r: "r = Inr (x, language)" using steps None src by (cases r) auto
    obtain out where out: "converted_text io (dl_file_path d) provider (subtitle_target requested) (x, language) = Inr out"
      using steps None src r by (cases "converted_text io (dl_file_path d) provider (subtitle_target requested) (x, language)") auto
    have "store_subtitle io (w_settings w) (source, provider, candidate, subtitle_target requested) (sd_name x) language out
      (sy1\<lparr>sy_memo := memo\<rparr>) w4 = (Inr a, sy', w')"
      using steps None src r out by (simp add: k_def)
    from store_subtitle_served[OF this] show ?thesis using assms(2,3) found None by simp
  qed
qed

text \<open>
  A row may name a file of another folder: when the setting has changed, the old file is still there, so preparing answers
  with its row, but its address is looked up in the new folder.
\<close>

lemma moved_cache_loses_subtitle:
  assumes "get_download source w = (Inr d0, w1)" "live_download (se_control (si_env io)) d0 w1 = (d, w2)" "provider \<noteq> ''embedded''"
    "get_subtitle_asset (source, provider, candidate, ''sami'') (sy_assets sy) w2 = (Inr b, w3)"
    "\<not> sa_created_at b + second < zero_time" "cached_exists (sa_path b) (sy_files sy)" "sa_format b = ''sami''"
    "\<not> cached_exists (path_join [st_subtitle_cache_path (w_settings w), sa_id b @ ''.smi'']) (sy_files sy)" "hex_id (sa_id b)"
  shows "\<exists>a sy' w'. prepare_subtitle io source provider candidate None sy w = (Inr a, sy', w') \<and>
    subtitle_path (st_subtitle_cache_path (w_settings w)) (sa_id a) (sa_format a) (sy_files sy') = Inl Asset_Gone"
proof -
  obtain x assets w4 where s: "save_subtitle_asset (b\<lparr>sa_last_used_at := now_of w3\<rparr>) (sy_assets sy) w3 = (x, assets, w4)"
    by (metis prod.exhaust)
  have "prepare_subtitle io source provider candidate None sy w =
    (Inr (b\<lparr>sa_last_used_at := now_of w3\<rparr>), sy\<lparr>sy_files := sy_files sy, sy_assets := assets\<rparr>, w4)"
    using assms s by (simp add: prepare_subtitle_def subtitle_target_def cached_subtitle_def embedded_stale_def Let_def)
  then show ?thesis using assms(7-9) by (auto simp: subtitle_path_def asset_ext_def)
qed

text \<open>The cache folder.\<close>

interpretation older: strict_weak "\<lambda>a b. cf_mod a < cf_mod b"
  by unfold_locales auto

definition spared :: "(string \<Rightarrow> bool) \<Rightarrow> string \<Rightarrow> cached_file \<Rightarrow> bool" where
  "spared removable keep f = (cf_path f = keep \<or> \<not> removable (cf_path f))"

lemma bytes_in_simps [simp]: "bytes_in [] = 0" "bytes_in (f # fs) = int (length (cf_content f)) + bytes_in fs"
  by (simp_all add: bytes_in_def)

lemma prune_loop_result:
  assumes "sorted_wrt (\<lambda>a b. \<not> cf_mod b < cf_mod a) fs" "distinct (map cf_path fs)"
  shows "(let gone = set (prune_loop removable maximum keep tot fs); rest = filter (\<lambda>f. cf_path f \<notin> gone) fs in
      (tot - bytes_in fs + bytes_in rest \<le> maximum \<or> list_all (spared removable keep) rest) \<and>
      (\<forall>f \<in> set fs. cf_path f \<in> gone \<longrightarrow> (\<forall>g \<in> set rest. \<not> spared removable keep g \<longrightarrow> \<not> cf_mod g < cf_mod f)))"
  using assms
proof (induction removable maximum keep tot fs rule: prune_loop.induct)
  case (2 removable maximum keep tot f fs)
  have sub: "sorted_wrt (\<lambda>a b. \<not> cf_mod b < cf_mod a) fs" "distinct (map cf_path fs)" "cf_path f \<notin> cf_path ` set fs"
    using 2(3,4) by auto
  show ?case
  proof (cases "tot \<le> maximum")
    case True
    then show ?thesis by (simp add: Let_def)
  next
    case big: False
    show ?thesis
    proof (cases "spared removable keep f")
      case True
      have l: "prune_loop removable maximum keep tot (f # fs) = prune_loop removable maximum keep tot fs"
        using True big by (auto simp: spared_def)
      have "cf_path f \<notin> set (prune_loop removable maximum keep tot fs)" using prune_loop_gone sub(3) by blast
      then show ?thesis using 2(1)[OF big _ sub(1,2)] True unfolding l Let_def by (auto simp: spared_def)
    next
      case False
      define t where "t = tot - int (length (cf_content f))"
      define gone where "gone = set (prune_loop removable maximum keep t fs)"
      have l: "set (prune_loop removable maximum keep tot (f # fs)) = insert (cf_path f) gone"
        using False big by (auto simp: spared_def gone_def t_def)
      have rest: "filter (\<lambda>g. cf_path g \<notin> insert (cf_path f) gone) (f # fs) = filter (\<lambda>g. cf_path g \<notin> gone) fs"
        using sub(3) by (auto intro!: filter_cong) (metis image_eqI)
      have ih: "(t - bytes_in fs + bytes_in (filter (\<lambda>g. cf_path g \<notin> gone) fs) \<le> maximum \<or>
          list_all (spared removable keep) (filter (\<lambda>g. cf_path g \<notin> gone) fs)) \<and>
        (\<forall>h \<in> set fs. cf_path h \<in> gone \<longrightarrow> (\<forall>g \<in> set (filter (\<lambda>g. cf_path g \<notin> gone) fs). \<not> spared removable keep g \<longrightarrow> \<not> cf_mod g < cf_mod h))"
        using 2(2)[OF big _ sub(1,2)] False unfolding Let_def gone_def t_def by (simp add: spared_def)
      have first: "\<forall>g \<in> set fs. \<not> cf_mod g < cf_mod f" using 2(3) by simp
      have other: "cf_path h \<noteq> cf_path f" if "h \<in> set fs" for h using that sub(3) by (metis image_eqI)
      show ?thesis unfolding l Let_def rest
        using ih first by (auto simp: t_def dest: other)
    qed
  qed
qed simp

text \<open>
  Pruning takes only listed files of the cache folder, never the file that was just written; it stops when
  the folder fits its limit or only files are left that cannot be removed, and it takes the files in the order of their
  age: none that is left could have been removed and is older than one that was.
\<close>

theorem prune_takes_oldest:
  assumes "distinct (map cf_path files)"
  shows "let kept = prune_subtitle_cache removable dir maximum keep files in
    (bytes_in (cache_listing dir kept) \<le> maximum \<or> list_all (spared removable keep) (cache_listing dir kept)) \<and>
    (\<forall>f \<in> set files. f \<notin> set kept \<longrightarrow>
       f \<in> set (cache_listing dir files) \<and> \<not> spared removable keep f \<and>
       (\<forall>g \<in> set (cache_listing dir kept). \<not> spared removable keep g \<longrightarrow> \<not> cf_mod g < cf_mod f))"
proof -
  define listed where "listed = cache_listing dir files"
  define order where "order = sort_by (\<lambda>a b. cf_mod a < cf_mod b) listed"
  define gone where "gone = set (prune_loop removable maximum keep (bytes_in listed) order)"
  define kept where "kept = prune_subtitle_cache removable dir maximum keep files"
  have m: "mset order = mset listed" by (simp add: order_def)
  have kept: "kept = filter (\<lambda>f. cf_path f \<notin> gone) files"
    by (simp add: kept_def prune_subtitle_cache_def Let_def gone_def order_def listed_def)
  have still: "cache_listing dir kept = filter (\<lambda>f. cf_path f \<notin> gone) listed"
    by (simp add: kept cache_listing_def listed_def conj_commute)
  have "distinct (map cf_path listed)" using assms by (simp add: listed_def cache_listing_def distinct_map_filter)
  then have d: "distinct (map cf_path order)" using m by (metis mset_eq_imp_distinct_iff mset_map)
  have s: "sorted_wrt (\<lambda>a b. \<not> cf_mod b < cf_mod a) order" unfolding order_def by (rule older.sorted_sort_by)
  have bytes: "bytes_in xs = sum_mset (image_mset (\<lambda>f. int (length (cf_content f))) (mset xs))" for xs
    by (simp add: bytes_in_def sum_mset_sum_list[symmetric])
  have fits: "bytes_in order = bytes_in listed"
    "bytes_in (filter (\<lambda>f. cf_path f \<notin> gone) order) = bytes_in (filter (\<lambda>f. cf_path f \<notin> gone) listed)"
    unfolding bytes by (simp_all add: m mset_filter)
  have sets: "set order = set listed" using m by (metis set_mset_mset)
  have fromgone: "f \<in> set listed \<and> \<not> spared removable keep f" if mem: "f \<in> set files" and out: "cf_path f \<in> gone" for f
  proof -
    obtain g where "g \<in> set listed" "cf_path g = cf_path f" "\<not> spared removable keep f"
      using prune_loop_gone out unfolding gone_def sets[symmetric] spared_def by fastforce
    moreover have "g \<in> set files" using \<open>g \<in> set listed\<close> by (simp add: listed_def cache_listing_def)
    ultimately show ?thesis using assms mem by (metis distinct_map inj_onD)
  qed
  show ?thesis
    using prune_loop_result[OF s d, of removable maximum keep "bytes_in listed"] fits sets fromgone
    unfolding Let_def kept_def[symmetric] still gone_def[symmetric] listed_def[symmetric]
    by (auto simp: kept list_all_iff)
qed

lemma prune_takes_oldest_witness:
  "let files = [\<lparr>cf_path = ''c/a.vtt'', cf_content = ''xxx'', cf_mod = 2\<rparr>, \<lparr>cf_path = ''c/b.vtt'', cf_content = ''xxx'', cf_mod = 1\<rparr>];
       kept = prune_subtitle_cache (\<lambda>_. True) ''c'' 4 ''c/a.vtt'' files
   in (bytes_in (cache_listing ''c'' kept) \<le> 4 \<or> list_all (spared (\<lambda>_. True) ''c/a.vtt'') (cache_listing ''c'' kept)) \<and>
      map cf_path kept = [''c/a.vtt'']"
proof -
  define files where "files = [\<lparr>cf_path = ''c/a.vtt'', cf_content = ''xxx'', cf_mod = 2\<rparr>, \<lparr>cf_path = ''c/b.vtt'', cf_content = ''xxx'', cf_mod = 1\<rparr>]"
  have d: "distinct (map cf_path files)" by (simp add: files_def)
  have k: "map cf_path (prune_subtitle_cache (\<lambda>_. True) ''c'' 4 ''c/a.vtt'' files) = [''c/a.vtt'']"
    unfolding files_def by code_simp
  show ?thesis
    unfolding files_def[symmetric] using prune_takes_oldest[OF d, of "\<lambda>_. True" "''c''" 4 "''c/a.vtt''"] k
    by (simp add: Let_def)
qed

definition one_provider :: subtitle_io where
  "one_provider = \<lparr>si_env = \<lparr>se_control = \<lparr>ce_cwd = None, ce_stat = (\<lambda>_. Stat_Error), ce_effect = (\<lambda>_ t. t), ce_sha = (\<lambda>x. x)\<rparr>,
       se_version = (\<lambda>_. None), se_probe = None,
       se_providers = [\<lparr>pv_name = ''up'', pv_test = Inl [], pv_search = (\<lambda>_. Inr []),
         pv_download = (\<lambda>_. Inr \<lparr>sd_data = ''WEBVTT'', sd_format = ''.vtt'', sd_name = ''a.vtt'', sd_language = ''en''\<rparr>)\<rparr>]\<rparr>,
     si_view = \<lparr>vw_owner = False, vw_status = Inl [], vw_prepare = None, vw_pieces = [], vw_reads = []\<rparr>,
     si_read = (\<lambda>_. Inl []), si_extract = (\<lambda>_. Inl []), si_unzip = (\<lambda>_. Inl []), si_decoder = (\<lambda>_ _. None),
     si_digest = (\<lambda>_. replicate 32 CHR ''a''), si_mkdir = None, si_write = None, si_removable = (\<lambda>_. True)\<rparr>"

lemma prepared_subtitle_served_witness:
  "\<exists>a sy' w'. prepare_subtitle one_provider ''d'' ''up'' ''7'' (Some ''vtt'') \<lparr>sy_assets = [], sy_files = [], sy_memo = []\<rparr> sample_subtitle_world =
       (Inr a, sy', w') \<and>
     subtitle_path (st_subtitle_cache_path (w_settings sample_subtitle_world)) (sa_id a) (sa_format a) (sy_files sy') = Inr (sa_path a)"
proof -
  define sy where "sy = \<lparr>sy_assets = [], sy_files = [], sy_memo = []\<rparr>"
  have done': "(case prepare_subtitle one_provider ''d'' ''up'' ''7'' (Some ''vtt'') \<lparr>sy_assets = [], sy_files = [], sy_memo = []\<rparr>
      sample_subtitle_world of (Inr _, _) \<Rightarrow> True | (Inl _, _) \<Rightarrow> False)"
    by code_simp
  obtain a sy' w' where p: "prepare_subtitle one_provider ''d'' ''up'' ''7'' (Some ''vtt'') sy sample_subtitle_world = (Inr a, sy', w')"
    using done' unfolding sy_def[symmetric] by (auto split: prod.splits sum.splits)
  have "assets_here (st_subtitle_cache_path (w_settings sample_subtitle_world)) (sy_assets sy)" by (simp add: assets_here_def sy_def)
  moreover have "hex_id (si_digest one_provider s)" for s by (auto simp: one_provider_def hex_id_def list_all_iff)
  ultimately show ?thesis using prepared_subtitle_served[OF p] p unfolding sy_def by blast
qed

end
