(* ===== verification/Sibling_Episode.thy ===== *)
theory Sibling_Episode
  imports Catalog_Views Download_Prepare
begin

text \<open>
  The episode after or before the one that plays (\<open>siblingEpisode\<close>, \<open>NextEpisode\<close>, \<open>PreviousEpisode\<close> of
  \<open>internal/application/service.go\<close>): the place of the current episode in the seasons of its title, the nearest episode
  in the direction that is asked for, and the preparation of its best source.
\<close>

type_synonym season_episode_key = "int \<times> int"

type_synonym keyed_episode = "season_episode_key \<times> catalog_source list"

definition keyed_episodes :: "catalog_detail \<Rightarrow> keyed_episode list" where
  "keyed_episodes detail =
     concat (map (\<lambda>s. map (\<lambda>e. ((cn_number s, ce_number e), ce_sources e)) (cn_episodes s)) (cd_seasons detail))"

definition key_before :: "season_episode_key \<Rightarrow> season_episode_key \<Rightarrow> bool" where
  "key_before a b = (fst a < fst b \<or> fst a = fst b \<and> snd a < snd b)"

definition is_current :: "torrent_release \<Rightarrow> download \<Rightarrow> catalog_source \<Rightarrow> bool" where
  "is_current release current s =
     (rel_id (cs_release s) = dl_release_id current \<and>
      (case cs_file_index s of Some i \<Rightarrow> i = dl_file_index current | None \<Rightarrow> rel_file_count release \<le> 1))"

definition current_key :: "torrent_release \<Rightarrow> download \<Rightarrow> keyed_episode list \<Rightarrow> season_episode_key" where
  "current_key release current eps =
     foldl (\<lambda>k (key, sources). if list_ex (is_current release current) sources then key else k)
       (pr_season_start (parse_release release), pr_episode_start (parse_release release)) eps"

text \<open>One turn of the loop; an episode number of zero stands for no choice yet.\<close>

definition sibling_step ::
  "bool \<Rightarrow> season_episode_key \<Rightarrow> keyed_episode \<Rightarrow> keyed_episode \<Rightarrow> keyed_episode" where
  "sibling_step forward current = (\<lambda>(chosen, candidates) (key, sources).
     if (if forward then \<not> key_before current key else \<not> key_before key current) then (chosen, candidates)
     else if snd chosen = 0 \<or> (if forward then key_before key chosen else key_before chosen key) then (key, sources)
     else (chosen, candidates))"

definition nearest_sibling :: "bool \<Rightarrow> season_episode_key \<Rightarrow> keyed_episode list \<Rightarrow> keyed_episode" where
  "nearest_sibling forward current eps = foldl (sibling_step forward current) ((0, 0), []) eps"

definition better_source :: "download \<Rightarrow> catalog_source \<Rightarrow> catalog_source \<Rightarrow> bool" where
  "better_source current a b =
     (let same = (\<lambda>s. rel_id (cs_release s) = dl_release_id current) in
      if same a \<noteq> same b then same a else rel_seeders (cs_release b) < rel_seeders (cs_release a))"

datatype sibling_error = Sibling_Service svc_error | Sibling_Detail job_error | Sibling_Prepare control_error

definition sibling_episode ::
  "control_env \<Rightarrow> add_env \<Rightarrow> (catalog_title \<Rightarrow> server \<Rightarrow> series_seasons option \<times> server) \<Rightarrow> string \<Rightarrow> bool \<Rightarrow> server \<Rightarrow>
   ((sibling_error + download option) \<times> server) option" where
  "sibling_episode env add provider_seasons source forward sv =
     (case get_download source (sv_world sv) of
        (Inl e, w) \<Rightarrow> Some (Inl (Sibling_Service e), with_world sv w)
      | (Inr current, w) \<Rightarrow>
          (case get_release (dl_release_id current) w of
             (Inl e, w) \<Rightarrow> Some (Inl (Sibling_Service e), with_world sv w)
           | (Inr release, w) \<Rightarrow>
               if pr_kind (parse_release release) \<noteq> media_series then Some (Inr None, with_world sv w)
               else (case title_ids_for [rel_id release] w of
                  (Inl e, w) \<Rightarrow> Some (Inl (Sibling_Service e), with_world sv w)
                | (Inr projected, w) \<Rightarrow>
                    (case catalog_detail_of provider_seasons
                            (case map_of projected (rel_id release) of Some t \<Rightarrow> t | None \<Rightarrow> []) (with_world sv w) of
                       (Inl e, sv) \<Rightarrow> Some (Inl (Sibling_Detail e), sv)
                     | (Inr detail, sv) \<Rightarrow>
                         (let eps = keyed_episodes detail; key = current_key release current eps in
                          if snd key = 0 then Some (Inr None, sv)
                          else (case sort_by (better_source current) (snd (nearest_sibling forward key eps)) of
                             [] \<Rightarrow> Some (Inr None, sv)
                           | s # _ \<Rightarrow>
                               (case prepare env add (rel_id (cs_release s)) (case cs_file_index s of Some i \<Rightarrow> i | None \<Rightarrow> - 1)
                                       (sv_world sv) of
                                  None \<Rightarrow> None
                                | Some (Inl e, w) \<Rightarrow> Some (Inl (Sibling_Prepare e), with_world sv w)
                                | Some (Inr d, w) \<Rightarrow> Some (Inr (Some d), with_world sv w))))))))"

subsection \<open>Facts\<close>

text \<open>The order of the episodes in one direction.\<close>

definition ahead :: "bool \<Rightarrow> season_episode_key \<Rightarrow> season_episode_key \<Rightarrow> bool" where
  "ahead forward a b = (if forward then key_before a b else key_before b a)"

interpretation towards: strict_weak "ahead forward" for forward
  by unfold_locales (auto simp: ahead_def key_before_def split: if_splits)

lemma ahead_total: "a \<noteq> b \<Longrightarrow> ahead f a b \<or> ahead f b a"
  by (cases a; cases b) (auto simp: ahead_def key_before_def)

lemma ahead_back: "ahead (\<not> f) a b = ahead f b a"
  by (simp add: ahead_def)

lemma sibling_step_ahead:
  "sibling_step f cur (chosen, cs) (key, ss) =
     (if ahead f cur key \<and> (snd chosen = 0 \<or> ahead f key chosen) then (key, ss) else (chosen, cs))"
  by (auto simp: sibling_step_def ahead_def)

text \<open>The choice among some episodes: none is ahead of the current one, or it is one of them and no other comes before it.\<close>

definition chosen_from :: "bool \<Rightarrow> season_episode_key \<Rightarrow> keyed_episode \<Rightarrow> keyed_episode list \<Rightarrow> bool" where
  "chosen_from f cur choice eps =
     (if \<exists>e \<in> set eps. ahead f cur (fst e)
      then choice \<in> set eps \<and> ahead f cur (fst choice) \<and> (\<forall>e \<in> set eps. ahead f cur (fst e) \<longrightarrow> \<not> ahead f (fst e) (fst choice))
      else choice = ((0, 0), []))"

lemma nearest_chosen:
  "list_all (\<lambda>e. snd (fst e) \<noteq> 0) eps \<Longrightarrow> chosen_from f cur (nearest_sibling f cur eps) eps"
proof (induction eps rule: rev_induct)
  case (snoc e eps)
  define c where "c = nearest_sibling f cur eps"
  have ih: "chosen_from f cur c eps" using snoc by (simp add: c_def)
  have step: "nearest_sibling f cur (eps @ [e]) =
    (if ahead f cur (fst e) \<and> (snd (fst c) = 0 \<or> ahead f (fst e) (fst c)) then e else c)"
    by (cases e; cases c) (auto simp: nearest_sibling_def c_def[unfolded nearest_sibling_def, symmetric] sibling_step_ahead)
  show ?case
  proof (cases "\<exists>x \<in> set eps. ahead f cur (fst x)")
    case True
    then have c: "c \<in> set eps" "ahead f cur (fst c)" "\<forall>x \<in> set eps. ahead f cur (fst x) \<longrightarrow> \<not> ahead f (fst x) (fst c)"
      using ih by (auto simp: chosen_from_def)
    then have "snd (fst c) \<noteq> 0" using snoc.prems by (auto simp: list_all_iff)
    then show ?thesis using c step towards.trans[of f "fst _" "fst e" "fst c"] towards.irrefl
      by (auto simp: chosen_from_def intro: towards.trans)
  next
    case False
    then have "c = ((0, 0), [])" using ih by (simp add: chosen_from_def)
    then show ?thesis using False step towards.irrefl by (auto simp: chosen_from_def)
  qed
qed (simp add: nearest_sibling_def chosen_from_def)

text \<open>
  Among numbered episodes the one that follows is the nearest one in its direction, with its sources, and
  none is offered only when there is none; and from the next episode the previous one is where the walk began.
\<close>

theorem siblings_are_neighbours:
  assumes "list_all (\<lambda>e. snd (fst e) \<noteq> 0) eps"
  shows "chosen_from forward cur (nearest_sibling forward cur eps) eps \<and>
    (cur \<in> fst ` set eps \<longrightarrow> (\<exists>e \<in> set eps. ahead forward cur (fst e)) \<longrightarrow>
       fst (nearest_sibling (\<not> forward) (fst (nearest_sibling forward cur eps)) eps) = cur)"
proof -
  have first: "chosen_from forward cur (nearest_sibling forward cur eps) eps" by (rule nearest_chosen[OF assms])
  have "fst (nearest_sibling (\<not> forward) (fst (nearest_sibling forward cur eps)) eps) = cur"
    if cur: "cur \<in> fst ` set eps" and some: "\<exists>e \<in> set eps. ahead forward cur (fst e)"
  proof -
    define n where "n = fst (nearest_sibling forward cur eps)"
    have n: "ahead forward cur n" "\<forall>e \<in> set eps. ahead forward cur (fst e) \<longrightarrow> \<not> ahead forward (fst e) n"
      using first some by (auto simp: chosen_from_def n_def)
    define b where "b = nearest_sibling (\<not> forward) n eps"
    have "\<exists>e \<in> set eps. ahead (\<not> forward) n (fst e)" using cur n(1) by (auto simp: ahead_back)
    then have b: "b \<in> set eps" "ahead forward (fst b) n" "\<forall>e \<in> set eps. ahead forward (fst e) n \<longrightarrow> \<not> ahead forward (fst b) (fst e)"
      using nearest_chosen[OF assms, of "\<not> forward" n] by (auto simp: chosen_from_def b_def ahead_back)
    have "\<not> ahead forward cur (fst b)" using b(1,2) n(2) by blast
    moreover have "\<not> ahead forward (fst b) cur" using b(3) cur n(1) by auto
    ultimately have "fst b = cur" using ahead_total by blast
    then show ?thesis by (simp add: b_def n_def)
  qed
  then show ?thesis using first by blast
qed

text \<open>An episode with the number zero is taken for no choice: the one behind it is offered instead.\<close>

lemma episode_zero_skipped: "fst (nearest_sibling True (1, 5) [((2, 0), a), ((2, 1), b)]) = (2, 1)"
  by (simp add: nearest_sibling_def sibling_step_def key_before_def)

lemma siblings_are_neighbours_witness:
  "let eps = [((1, 1), []), ((1, 2), []), ((2, 1), [])] in
   list_all (\<lambda>e. snd (fst e) \<noteq> 0) eps \<and> fst (nearest_sibling True (1, 2) eps) = (2, 1) \<and>
   fst (nearest_sibling (\<not> True) (fst (nearest_sibling True (1, 2) eps)) eps) = (1, 2)"
proof -
  define eps :: "keyed_episode list" where "eps = [((1, 1), []), ((1, 2), []), ((2, 1), [])]"
  have ok: "list_all (\<lambda>e. snd (fst e) \<noteq> 0) eps" by (simp add: eps_def)
  have "(1, 2) \<in> fst ` set eps" "\<exists>e \<in> set eps. ahead True (1, 2) (fst e)" by (simp_all add: eps_def ahead_def key_before_def)
  then have "fst (nearest_sibling (\<not> True) (fst (nearest_sibling True (1, 2) eps)) eps) = (1, 2)"
    using siblings_are_neighbours[OF ok, of True "(1, 2)"] by blast
  moreover have "fst (nearest_sibling True (1, 2) eps) = (2, 1)"
    by (simp add: eps_def nearest_sibling_def sibling_step_def key_before_def)
  ultimately show ?thesis using ok unfolding eps_def Let_def by blast
qed

end
