(* ===== verification/Gui_Supervisor.thy ===== *)
theory Gui_Supervisor
  imports Go_Prelude
begin

text \<open>
  The life of the server inside the desktop application (\<open>internal/gui/supervisor.go\<close>): \<open>Start\<close>, \<open>Stop\<close>, \<open>Restart\<close> and
  the goroutine that serves, as tasks whose critical sections interleave.  A server is a number, a callback of
  \<open>OnStateChange\<close> too; what \<open>CanStart\<close>, the construction of a server and its \<open>ListenAndServe\<close> answer is chosen by the
  environment at every step.
\<close>

subsection \<open>State\<close>

datatype phase = Stopped | Starting | Running | Halting | Failed

datatype call_error = Not_Stopped | Start_Refused string | Not_Running

type_synonym transition = "nat option \<times> phase \<times> string option"

text \<open>
  The last four fields are no part of the program: the transitions with the callback each was committed under, the
  newest first, the calls the callbacks received, the servers that were closed, and whether a nil server was stopped.
\<close>

record supervisor =
  su_state :: phase
  su_err :: "string option"
  su_app :: "nat option"
  su_address :: string
  su_on_change :: "nat option"
  su_next :: nat
  su_log :: "transition list"
  su_fired :: "transition list"
  su_closed :: "nat list"
  su_panicked :: bool

definition new_supervisor :: supervisor where
  "new_supervisor = \<lparr>su_state = Stopped, su_err = None, su_app = None, su_address = [], su_on_change = None, su_next = 0,
     su_log = [], su_fired = [], su_closed = [], su_panicked = False\<rparr>"

definition on_state_change :: "nat \<Rightarrow> supervisor \<Rightarrow> supervisor" where
  "on_state_change f s = s\<lparr>su_on_change := Some f\<rparr>"

definition running_address :: "supervisor \<Rightarrow> string option" where
  "running_address s = (if su_state s \<noteq> Running \<or> su_address s = [] then None else Some (su_address s))"

definition engine_default :: "(nat \<Rightarrow> string) \<Rightarrow> supervisor \<Rightarrow> string" where
  "engine_default engine s = (if su_state s \<noteq> Running then [] else case su_app s of None \<Rightarrow> [] | Some a \<Rightarrow> engine a)"

definition refresh_target :: "supervisor \<Rightarrow> nat option" where
  "refresh_target s = su_app s"

definition transition :: "phase \<Rightarrow> string option \<Rightarrow> supervisor \<Rightarrow> supervisor" where
  "transition st e s = s\<lparr>su_state := st, su_err := e, su_log := (su_on_change s, st, e) # su_log s\<rparr>"

definition fire :: "nat option \<Rightarrow> phase \<Rightarrow> string option \<Rightarrow> supervisor \<Rightarrow> supervisor" where
  "fire f st e s = (if f \<noteq> None then s\<lparr>su_fired := su_fired s @ [(f, st, e)]\<rparr> else s)"

definition close_app :: "nat option \<Rightarrow> supervisor \<Rightarrow> supervisor" where
  "close_app a s = (case a of None \<Rightarrow> s\<lparr>su_panicked := True\<rparr> | Some i \<Rightarrow> s\<lparr>su_closed := i # su_closed s\<rparr>)"

subsection \<open>Tasks\<close>

text \<open>
  Where a call or the goroutine of a server stands.  A task that is to fire a callback carries the one \<open>transition\<close>
  answered; the flag of a stop says that a restart goes on with a start.
\<close>

datatype task =
    Start_Call | Fire_Starting "nat option" | Run_Construct | Run_Refused string | Run_Built nat string
  | Fire_Running "nat option" nat | Run_Serving nat | Run_Broken nat string | Run_Close "nat option" nat string
  | Fire_Failed "nat option" string
  | Stop_Call bool | Fire_Halting "nat option" "nat option" bool | Stop_Down "nat option" bool | Stop_Finish bool
  | Fire_Stopped "nat option" bool

record choice =
  ch_refused :: "string option"
  ch_built :: "string + string"
  ch_served :: "string option"

text \<open>\<open>Start\<close>: the refusals leave the state alone.\<close>

definition start_call :: "choice \<Rightarrow> supervisor \<Rightarrow> call_error + supervisor \<times> task list" where
  "start_call c s =
     (if su_state s \<noteq> Stopped \<and> su_state s \<noteq> Failed then Inl Not_Stopped
      else case ch_refused c of
        Some e \<Rightarrow> Inl (Start_Refused e)
      | None \<Rightarrow> Inr (transition Starting None s, [Fire_Starting (su_on_change s)]))"

text \<open>\<open>run\<close>, section by section.\<close>

definition construct_app :: "choice \<Rightarrow> supervisor \<Rightarrow> supervisor \<times> task list" where
  "construct_app c s =
     (case ch_built c of
        Inl e \<Rightarrow> (s, [Run_Refused e])
      | Inr address \<Rightarrow> (s\<lparr>su_next := su_next s + 1\<rparr>, [Run_Built (su_next s) address]))"

definition run_refused :: "string \<Rightarrow> supervisor \<Rightarrow> supervisor \<times> task list" where
  "run_refused e s = (transition Failed (Some e) s, [Fire_Failed (su_on_change s) e])"

definition run_built :: "nat \<Rightarrow> string \<Rightarrow> supervisor \<Rightarrow> supervisor \<times> task list" where
  "run_built a address s =
     (transition Running None (s\<lparr>su_app := Some a, su_address := address\<rparr>), [Fire_Running (su_on_change s) a])"

definition serve_failed :: "nat \<Rightarrow> string \<Rightarrow> supervisor \<Rightarrow> supervisor \<times> task list" where
  "serve_failed a e s =
     (if su_state s = Running
      then (transition Failed (Some e) (s\<lparr>su_app := None\<rparr>), [Run_Close (su_on_change s) a e])
      else (s, []))"

text \<open>\<open>Stop\<close>, and \<open>Restart\<close>, which goes on whatever a stop of a server that does not run says.\<close>

definition stop_call :: "bool \<Rightarrow> supervisor \<Rightarrow> call_error + supervisor \<times> task list" where
  "stop_call again s =
     (if su_state s \<noteq> Running then Inl Not_Running
      else Inr (transition Halting None s, [Fire_Halting (su_on_change s) (su_app s) again]))"

definition stop_finish :: "bool \<Rightarrow> supervisor \<Rightarrow> supervisor \<times> task list" where
  "stop_finish again s = ((transition Stopped None s)\<lparr>su_app := None\<rparr>, [Fire_Stopped (su_on_change s) again])"

definition then_start :: "bool \<Rightarrow> task list" where
  "then_start again = (if again then [Start_Call] else [])"

fun task_step :: "choice \<Rightarrow> task \<Rightarrow> supervisor \<Rightarrow> supervisor \<times> task list" where
  "task_step c Start_Call s = (case start_call c s of Inl e \<Rightarrow> (s, []) | Inr r \<Rightarrow> r)"
| "task_step c (Fire_Starting f) s = (fire f Starting None s, [Run_Construct])"
| "task_step c Run_Construct s = construct_app c s"
| "task_step c (Run_Refused e) s = run_refused e s"
| "task_step c (Run_Built a address) s = run_built a address s"
| "task_step c (Fire_Running f a) s = (fire f Running None s, [Run_Serving a])"
| "task_step c (Run_Serving a) s = (s, case ch_served c of None \<Rightarrow> [] | Some e \<Rightarrow> [Run_Broken a e])"
| "task_step c (Run_Broken a e) s = serve_failed a e s"
| "task_step c (Run_Close f a e) s = (close_app (Some a) s, [Fire_Failed f e])"
| "task_step c (Fire_Failed f e) s = (fire f Failed (Some e) s, [])"
| "task_step c (Stop_Call again) s = (case stop_call again s of Inl e \<Rightarrow> (s, then_start again) | Inr r \<Rightarrow> r)"
| "task_step c (Fire_Halting f a again) s = (fire f Halting None s, [Stop_Down a again])"
| "task_step c (Stop_Down a again) s = (close_app a s, [Stop_Finish again])"
| "task_step c (Stop_Finish again) s = stop_finish again s"
| "task_step c (Fire_Stopped f again) s = (fire f Stopped None s, then_start again)"

text \<open>Every call may begin at any time; any task may go on at any time.\<close>

inductive supervisor_run :: "supervisor \<Rightarrow> task multiset \<Rightarrow> bool" where
  begins: "supervisor_run new_supervisor {#}"
| listens: "supervisor_run s ts \<Longrightarrow> supervisor_run (on_state_change f s) ts"
| called: "supervisor_run s ts \<Longrightarrow> t \<in> {Start_Call, Stop_Call False, Stop_Call True} \<Longrightarrow> supervisor_run s (add_mset t ts)"
| acts: "supervisor_run s (add_mset t ts) \<Longrightarrow> task_step c t s = (s', new) \<Longrightarrow> supervisor_run s' (mset new + ts)"

subsection \<open>What is kept\<close>

definition follows :: "phase \<Rightarrow> phase \<Rightarrow> bool" where
  "follows a b = ((a, b) \<in> {(Stopped, Starting), (Failed, Starting), (Starting, Running), (Starting, Failed),
     (Running, Halting), (Running, Failed), (Halting, Stopped)})"

definition newest :: "transition list \<Rightarrow> phase" where
  "newest l = (case l of [] \<Rightarrow> Stopped | t # _ \<Rightarrow> fst (snd t))"

fun legal :: "transition list \<Rightarrow> bool" where
  "legal [] = True"
| "legal (t # l) = (follows (newest l) (fst (snd t)) \<and> legal l)"

fun building :: "task \<Rightarrow> bool" where
  "building (Fire_Starting _) = True"
| "building Run_Construct = True"
| "building (Run_Refused _) = True"
| "building (Run_Built _ _) = True"
| "building _ = False"

fun halts :: "task \<Rightarrow> bool" where
  "halts (Fire_Halting _ _ _) = True"
| "halts (Stop_Down _ _) = True"
| "halts (Stop_Finish _) = True"
| "halts _ = False"

fun aims :: "nat option \<Rightarrow> task \<Rightarrow> bool" where
  "aims app (Fire_Halting _ a _) = (a = app)"
| "aims app (Stop_Down a _) = (a = app)"
| "aims app _ = True"

fun owes :: "task \<Rightarrow> transition list" where
  "owes (Fire_Starting f) = [(f, Starting, None)]"
| "owes (Fire_Running f _) = [(f, Running, None)]"
| "owes (Run_Close f _ e) = [(f, Failed, Some e)]"
| "owes (Fire_Failed f e) = [(f, Failed, Some e)]"
| "owes (Fire_Halting f _ _) = [(f, Halting, None)]"
| "owes (Fire_Stopped f _) = [(f, Stopped, None)]"
| "owes _ = []"

definition heard :: "transition multiset \<Rightarrow> transition multiset" where
  "heard = filter_mset (\<lambda>t. fst t \<noteq> None)"

definition owed :: "task multiset \<Rightarrow> transition multiset" where
  "owed ts = \<Sum>\<^sub># (image_mset (\<lambda>t. heard (mset (owes t))) ts)"

definition tally :: "(task \<Rightarrow> bool) \<Rightarrow> task multiset \<Rightarrow> nat" where
  "tally P ts = size (filter_mset P ts)"

lemma heard_simps [simp]:
  "heard {#} = {#}" "heard (add_mset t l) = (if fst t \<noteq> None then add_mset t (heard l) else heard l)"
  by (simp_all add: heard_def)

lemma owed_simps [simp]: "owed {#} = {#}" "owed (add_mset t ts) = heard (mset (owes t)) + owed ts"
  by (simp_all add: owed_def)

lemma tally_simps [simp]:
  "tally P {#} = 0" "tally P (add_mset t ts) = (if P t then 1 else 0) + tally P ts"
  by (simp_all add: tally_def)

lemma newest_simps [simp]: "newest [] = Stopped" "newest (t # l) = fst (snd t)"
  by (simp_all add: newest_def)

lemma follows_simps [simp]:
  "follows Stopped st = (st = Starting)" "follows Failed st = (st = Starting)"
  "follows Starting st = (st = Running \<or> st = Failed)" "follows Running st = (st = Halting \<or> st = Failed)"
  "follows Halting st = (st = Stopped)"
  by (auto simp: follows_def)

text \<open>The three parts of the invariant, each kept on its own.\<close>

definition lawful :: "supervisor \<Rightarrow> task multiset \<Rightarrow> bool" where
  "lawful s ts =
     (legal (su_log s) \<and> su_state s = newest (su_log s) \<and>
      tally building ts = (if su_state s = Starting then 1 else 0) \<and>
      tally halts ts = (if su_state s = Halting then 1 else 0))"

definition owned :: "supervisor \<Rightarrow> task multiset \<Rightarrow> bool" where
  "owned s ts =
     ((su_app s \<noteq> None) = (su_state s = Running \<or> su_state s = Halting) \<and>
      \<not> su_panicked s \<and> (\<forall>t\<in>#ts. aims (su_app s) t))"

definition announced :: "supervisor \<Rightarrow> task multiset \<Rightarrow> bool" where
  "announced s ts = (mset (su_fired s) + owed ts = heard (mset (su_log s)))"

lemmas section_defs = start_call_def construct_app_def run_refused_def run_built_def serve_failed_def stop_call_def
  stop_finish_def then_start_def transition_def close_app_def fire_def

lemma lawful_step:
  assumes "lawful s (add_mset t ts)" "task_step c t s = (s', new)"
  shows "lawful s' (mset new + ts)"
  using assms
  by (cases t) (auto simp: lawful_def section_defs split: if_splits option.splits sum.splits)

lemma announced_step:
  assumes "announced s (add_mset t ts)" "task_step c t s = (s', new)"
  shows "announced s' (mset new + ts)"
  using assms
  by (cases t) (auto simp: announced_def section_defs split: if_splits option.splits sum.splits)

lemma halts_aims: "\<not> halts t \<Longrightarrow> aims a t"
  by (cases t) simp_all

lemma none_halts_aims: "tally halts ts = 0 \<Longrightarrow> t \<in># ts \<Longrightarrow> aims a t"
  by (induction ts) (auto split: if_splits intro: halts_aims)

lemma owned_step:
  assumes "owned s (add_mset t ts)" "lawful s (add_mset t ts)" "task_step c t s = (s', new)"
  shows "owned s' (mset new + ts)"
proof (cases "halts t \<or> su_state s = Starting \<or> su_state s = Running")
  case True
  with assms(2) have "tally halts ts = 0 \<or> su_state s = Running"
    by (auto simp: lawful_def split: if_splits)
  with assms have none: "\<And>a u. u \<in># ts \<Longrightarrow> aims a u"
    by (auto simp: lawful_def split: if_splits dest: none_halts_aims)
  with assms True show ?thesis
    by (cases t) (auto simp: owned_def lawful_def section_defs split: if_splits option.splits sum.splits)
next
  case False
  with assms show ?thesis
    by (cases t) (auto simp: owned_def lawful_def section_defs split: if_splits option.splits sum.splits)
qed

text \<open>The invariant, by rule induction.\<close>

lemma run_lawful: "supervisor_run s ts \<Longrightarrow> lawful s ts"
proof (induction rule: supervisor_run.induct)
  case (acts s t ts c s' new)
  from lawful_step[OF acts.IH acts.hyps(2)] show ?case .
qed (auto simp: lawful_def new_supervisor_def on_state_change_def)

lemma run_owned: "supervisor_run s ts \<Longrightarrow> owned s ts"
proof (induction rule: supervisor_run.induct)
  case (acts s t ts c s' new)
  from owned_step[OF acts.IH run_lawful[OF acts.hyps(1)] acts.hyps(2)] show ?case .
qed (auto simp: owned_def new_supervisor_def on_state_change_def)

lemma run_announced: "supervisor_run s ts \<Longrightarrow> announced s ts"
proof (induction rule: supervisor_run.induct)
  case (acts s t ts c s' new)
  from announced_step[OF acts.IH acts.hyps(2)] show ?case .
qed (auto simp: announced_def new_supervisor_def on_state_change_def)

subsection \<open>Runs that were written out\<close>

text \<open>A script names, one after the other, the task that goes on; a task that is not there ends it.\<close>

datatype move = Listen nat | Call task | Go choice task

fun is_call :: "task \<Rightarrow> bool" where
  "is_call Start_Call = True"
| "is_call (Stop_Call _) = True"
| "is_call _ = False"

fun play :: "move list \<Rightarrow> supervisor \<times> task list \<Rightarrow> (supervisor \<times> task list) option" where
  "play [] st = Some st"
| "play (Listen f # ms) (s, ts) = play ms (on_state_change f s, ts)"
| "play (Call t # ms) (s, ts) = (if is_call t then play ms (s, t # ts) else None)"
| "play (Go c t # ms) (s, ts) =
     (if t \<in> set ts then (case task_step c t s of (s', new) \<Rightarrow> play ms (s', new @ remove1 t ts)) else None)"

lemma is_call_cases: "is_call t \<Longrightarrow> t \<in> {Start_Call, Stop_Call False, Stop_Call True}"
  by (cases t) auto

lemma play_runs:
  "supervisor_run s (mset ts) \<Longrightarrow> play ms (s, ts) = Some (s', ts') \<Longrightarrow> supervisor_run s' (mset ts')"
proof (induction ms "(s, ts)" arbitrary: s ts rule: play.induct)
  case (4 c t ms s ts)
  obtain s1 new where step: "task_step c t s = (s1, new)"
    by fastforce
  from 4 have "t \<in> set ts"
    by (simp split: if_splits)
  with 4 step have "supervisor_run s (add_mset t (mset (remove1 t ts)))"
    by simp
  from supervisor_run.acts[OF this step] 4 step \<open>t \<in> set ts\<close> show ?case
    by (auto simp: ac_simps)
next
  case (3 t ms s ts)
  then show ?case
    by (auto split: if_splits dest: is_call_cases intro: supervisor_run.called)
qed (auto intro: supervisor_run.listens)

lemma script_runs: "play ms (new_supervisor, []) = Some (s, ts) \<Longrightarrow> supervisor_run s (mset ts)"
  using play_runs[OF _ , of new_supervisor "[]" ms s ts] supervisor_run.begins by simp

definition quiet_choice :: choice where
  "quiet_choice = \<lparr>ch_refused = None, ch_built = Inr '':8097'', ch_served = None\<rparr>"

definition broken_choice :: choice where
  "broken_choice = quiet_choice\<lparr>ch_served := Some ''accept''\<rparr>"

definition boot_script :: "nat \<Rightarrow> move list" where
  "boot_script a = [Call Start_Call, Go quiet_choice Start_Call, Go quiet_choice (Fire_Starting (Some 7)),
     Go quiet_choice Run_Construct, Go quiet_choice (Run_Built a '':8097'')]"

definition stop_script :: "nat \<Rightarrow> move list" where
  "stop_script a = [Call (Stop_Call False), Go quiet_choice (Stop_Call False),
     Go quiet_choice (Fire_Halting (Some 7) (Some a) False), Go quiet_choice (Stop_Down (Some a) False),
     Go quiet_choice (Stop_Finish False), Go quiet_choice (Fire_Stopped (Some 7) False)]"

lemmas script_simps = boot_script_def stop_script_def quiet_choice_def broken_choice_def new_supervisor_def
  on_state_change_def section_defs

subsection \<open>Properties\<close>

text \<open>
  However starts, stops, restarts and the servers themselves interleave, the phases follow the life cycle, at
  most one server is under construction, exactly while the server starts, at most one stop is under way, exactly while
  it stops and of the server that is there, there is a server exactly while it runs or stops, so that no stop meets a
  nil server, and every change of the phase is announced exactly once to the callback that was registered.
\<close>

theorem supervisor_serialized:
  assumes "supervisor_run s ts"
  shows "legal (su_log s) \<and> su_state s = newest (su_log s) \<and>
    tally building ts = (if su_state s = Starting then 1 else 0) \<and>
    tally halts ts = (if su_state s = Halting then 1 else 0) \<and>
    ((su_app s \<noteq> None) = (su_state s = Running \<or> su_state s = Halting)) \<and>
    \<not> su_panicked s \<and> (\<forall>t\<in>#ts. aims (su_app s) t) \<and>
    mset (su_fired s) + owed ts = heard (mset (su_log s))"
  using run_lawful[OF assms] run_owned[OF assms] run_announced[OF assms]
  by (simp add: lawful_def owned_def announced_def)

theorem supervisor_serialized_witness:
  "\<exists>s ts. supervisor_run s ts \<and> su_state s = Running \<and> su_app s = Some 0 \<and> tally building ts = 0 \<and>
    mset (su_fired s) + owed ts = heard (mset (su_log s))"
proof -
  let ?r = "the (play (Listen 7 # boot_script 0) (new_supervisor, []))"
  have run: "supervisor_run (fst ?r) (mset (snd ?r))"
    by (rule script_runs[of "Listen 7 # boot_script 0"]) (simp add: script_simps)
  have there: "su_state (fst ?r) = Running" "su_app (fst ?r) = Some 0"
    by (simp_all add: script_simps)
  from supervisor_serialized[OF run] there(1)
  have "tally building (mset (snd ?r)) = 0 \<and>
      mset (su_fired (fst ?r)) + owed (mset (snd ?r)) = heard (mset (su_log (fst ?r)))"
    by simp
  with run there show ?thesis
    by blast
qed

text \<open>
  An address is answered as running only while there is a server, whose engine can then be named.
\<close>

lemma running_address_live:
  "supervisor_run s ts \<Longrightarrow> running_address s = Some addr \<Longrightarrow>
    \<exists>a. su_app s = Some a \<and> engine_default engine s = engine a \<and> refresh_target s = Some a"
  using run_owned by (fastforce simp: running_address_def engine_default_def refresh_target_def owned_def split: if_splits)

text \<open>
  The callbacks run outside the lock, so one can be overtaken: here the server is stopped for good, and the last thing
  its listener hears is that it runs.
\<close>

theorem announcement_overtaken:
  "\<exists>s. supervisor_run s {#} \<and> su_state s = Stopped \<and>
    map (fst \<circ> snd) (su_fired s) = [Starting, Halting, Stopped, Running]"
proof -
  let ?ms = "Listen 7 # boot_script 0 @ stop_script 0 @ [Go quiet_choice (Fire_Running (Some 7) 0), Go quiet_choice (Run_Serving 0)]"
  let ?s = "fst (the (play ?ms (new_supervisor, [])))"
  have "play ?ms (new_supervisor, []) = Some (?s, [])" "su_state ?s = Stopped"
    "map (fst \<circ> snd) (su_fired ?s) = [Starting, Halting, Stopped, Running]"
    by (simp_all add: script_simps)
  with script_runs[of ?ms ?s "[]"] show ?thesis
    by (intro exI[of _ ?s]) simp
qed

text \<open>
  A serve error is booked on whatever server runs when it is booked: here server 0 breaks, is stopped and replaced
  before its goroutine takes the lock; then server 1 is declared failed and dropped, it is never closed and goes on
  serving, and server 0 is closed a second time.
\<close>

theorem stale_failure_drops_successor:
  "\<exists>s. supervisor_run s {#Run_Serving 1#} \<and> su_state s = Failed \<and> su_app s = None \<and> su_closed s = [0, 0]"
proof -
  let ?ms = "Listen 7 # boot_script 0 @ [Go quiet_choice (Fire_Running (Some 7) 0), Go broken_choice (Run_Serving 0)] @
    stop_script 0 @ boot_script 1 @ [Go quiet_choice (Fire_Running (Some 7) 1), Go quiet_choice (Run_Broken 0 ''accept''),
    Go quiet_choice (Run_Close (Some 7) 0 ''accept''), Go quiet_choice (Fire_Failed (Some 7) ''accept'')]"
  let ?s = "fst (the (play ?ms (new_supervisor, [])))"
  have "play ?ms (new_supervisor, []) = Some (?s, [Run_Serving 1])" "su_state ?s = Failed" "su_app ?s = None"
    "su_closed ?s = [0, 0]"
    by (simp_all add: script_simps)
  with script_runs[of ?ms ?s "[Run_Serving 1]"] show ?thesis
    by (intro exI[of _ ?s]) simp
qed

text \<open>
  The phase is failed before the broken server is closed: a start is let through, and its server runs while the old
  one still holds its database and its engine.
\<close>

theorem restart_overlaps_broken_server:
  "\<exists>s ts. supervisor_run s ts \<and> su_state s = Running \<and> su_app s = Some 1 \<and> su_closed s = [] \<and>
    Run_Close (Some 7) 0 ''accept'' \<in># ts"
proof -
  let ?ms = "Listen 7 # boot_script 0 @ [Go quiet_choice (Fire_Running (Some 7) 0), Go broken_choice (Run_Serving 0),
    Go quiet_choice (Run_Broken 0 ''accept'')] @ boot_script 1"
  let ?r = "the (play ?ms (new_supervisor, []))"
  have "play ?ms (new_supervisor, []) = Some (fst ?r, snd ?r)" "su_state (fst ?r) = Running" "su_app (fst ?r) = Some 1"
    "su_closed (fst ?r) = []" "Run_Close (Some 7) 0 ''accept'' \<in> set (snd ?r)"
    by (simp_all add: script_simps)
  with script_runs[of ?ms "fst ?r" "snd ?r"] show ?thesis
    by (intro exI[of _ "fst ?r"] exI[of _ "mset (snd ?r)"]) simp
qed

end
