(* ===== verification/Log_Tail.thy ===== *)
theory Log_Tail
  imports Go_Prelude
begin

text \<open>
  The log pages of the desktop application (\<open>internal/gui/bindings.go\<close>, \<open>readLogTail\<close>): the complete lines of the
  server's log from a byte offset on, at most a window of them, and the offset the next call passes.
\<close>

definition newline :: char where "newline = CHR 0x0A"

definition log_tail_cap :: nat where "log_tail_cap = 256 * 1024"

record log_page =
  lt_lines :: "string list"
  lt_next :: nat
  lt_size :: nat

datatype log_file = No_Log | Log_Error string | Log_Bytes nat string

text \<open>The bytes up to the last newline: \<open>data[:LastIndexByte(data, newline) + 1]\<close>.\<close>

definition complete_lines :: "string \<Rightarrow> string" where
  "complete_lines d = rev (dropWhile (\<lambda>c. c \<noteq> newline) (rev d))"

definition lines_of :: "string \<Rightarrow> string list" where
  "lines_of d = (if d = [] then [] else split_on newline (trim_suffix d [newline]))"

definition window_start :: "nat \<Rightarrow> nat \<Rightarrow> nat \<Rightarrow> nat" where
  "window_start cap extent offset = (if extent - offset > cap then extent - cap else offset)"

text \<open>
  \<open>extent\<close> is what \<open>Stat\<close> reported and \<open>bytes\<close> what the file holds when it is read, which may be more or less by then.
\<close>

definition tail_page :: "nat \<Rightarrow> nat \<Rightarrow> string \<Rightarrow> int \<Rightarrow> log_page" where
  "tail_page cap extent bytes offset =
     (let from = (if offset > int extent \<or> offset < 0 then 0 else nat offset);
          start = window_start cap extent from;
          data = take (extent - start) (drop start bytes);
          snapped = (if start \<noteq> from
                     then (case cut_at newline data of
                             Some (head, rest) \<Rightarrow> (start + length head + 1, rest)
                           | None \<Rightarrow> (extent, []))
                     else (start, data));
          kept = complete_lines (snd snapped)
      in \<lparr>lt_lines = lines_of kept, lt_next = fst snapped + length kept, lt_size = extent\<rparr>)"

definition read_log_tail :: "log_file \<Rightarrow> int \<Rightarrow> string + log_page" where
  "read_log_tail f offset =
     (case f of
        No_Log \<Rightarrow> Inr \<lparr>lt_lines = [], lt_next = 0, lt_size = 0\<rparr>
      | Log_Error e \<Rightarrow> Inl e
      | Log_Bytes extent bytes \<Rightarrow> Inr (tail_page log_tail_cap extent bytes offset))"

subsection \<open>Lines\<close>

definition ended :: "string list \<Rightarrow> string" where
  "ended ls = concat (map (\<lambda>l. l @ [newline]) ls)"

lemma ended_simps [simp]: "ended [] = []" "ended (l # ls) = l @ newline # ended ls" "ended (ks @ ls) = ended ks @ ended ls"
  by (simp_all add: ended_def)

lemma complete_prefix: "\<exists>r. d = complete_lines d @ r \<and> newline \<notin> set r"
proof (intro exI conjI)
  show "d = complete_lines d @ rev (takeWhile (\<lambda>c. c \<noteq> newline) (rev d))"
    unfolding complete_lines_def by (metis rev_append rev_rev_ident takeWhile_dropWhile_id)
  show "newline \<notin> set (rev (takeWhile (\<lambda>c. c \<noteq> newline) (rev d)))"
    by (auto dest: set_takeWhileD)
qed

lemma complete_ends: "complete_lines d = [] \<or> (\<exists>p. complete_lines d = p @ [newline])"
proof (cases "dropWhile (\<lambda>c. c \<noteq> newline) (rev d)")
  case (Cons c cs)
  then have "c = newline"
    using hd_dropWhile[of "\<lambda>c. c \<noteq> newline" "rev d"] by simp
  with Cons show ?thesis by (simp add: complete_lines_def)
qed (simp add: complete_lines_def)

lemma complete_append: "newline \<notin> set r \<Longrightarrow> complete_lines (p @ newline # r) = p @ [newline]"
proof -
  assume "newline \<notin> set r"
  then have "dropWhile (\<lambda>c. c \<noteq> newline) (rev r @ newline # rev p) = newline # rev p"
    by (induction r rule: rev_induct) auto
  then show ?thesis by (simp add: complete_lines_def)
qed

lemma complete_none: "newline \<notin> set d \<Longrightarrow> complete_lines d = []"
  by (auto simp: complete_lines_def)

lemma ended_join: "ws \<noteq> [] \<Longrightarrow> ended ws = join_with [newline] ws @ [newline]"
  by (induction ws rule: induct_list012) simp_all

lemma lines_of_ended: "d = [] \<or> (\<exists>p. d = p @ [newline]) \<Longrightarrow> ended (lines_of d) = d"
  by (auto simp: lines_of_def trim_suffix_def has_suffix_def ended_join)

lemma lines_plain: "d = [] \<or> (\<exists>p. d = p @ [newline]) \<Longrightarrow> l \<in> set (lines_of d) \<Longrightarrow> newline \<notin> set l"
  by (auto simp: lines_of_def split: if_splits dest: split_on_no_sep)

text \<open>What comes before a complete line does not change what is complete.\<close>

lemma complete_after: "complete_lines (complete_lines c @ d) = complete_lines c @ complete_lines d"
proof -
  obtain r where r: "d = complete_lines d @ r" "newline \<notin> set r"
    using complete_prefix by blast
  consider "complete_lines d = []" "complete_lines c = []" | p where "complete_lines d = p @ [newline]"
    | p where "complete_lines d = []" "complete_lines c = p @ [newline]"
    using complete_ends by blast
  then show ?thesis
  proof cases
    case 1 with r show ?thesis by (simp add: complete_none)
  next
    case (2 p)
    with r complete_append[of r "complete_lines c @ p"] show ?thesis by simp
  next
    case (3 p)
    with r complete_append[of r p] show ?thesis by simp
  qed
qed

subsection \<open>Polling\<close>

text \<open>Within the window, a page is what the file holds of whole lines from the offset on.\<close>

lemma page_exact:
  assumes "offset \<le> length bytes" "length bytes - offset \<le> cap"
  shows "ended (lt_lines (tail_page cap (length bytes) bytes (int offset))) = complete_lines (drop offset bytes)"
    and "lt_next (tail_page cap (length bytes) bytes (int offset)) = offset + length (complete_lines (drop offset bytes))"
  using assms by (simp_all add: tail_page_def window_start_def Let_def lines_of_ended complete_ends)

text \<open>A viewer polls a file that grows: the contents it meets, one after the other.\<close>

fun poll :: "nat \<Rightarrow> string list \<Rightarrow> nat \<Rightarrow> string list \<times> nat" where
  "poll cap [] offset = ([], offset)"
| "poll cap (bytes # later) offset =
     (let page = tail_page cap (length bytes) bytes (int offset); (ls, next) = poll cap later (lt_next page)
      in (lt_lines page @ ls, next))"

fun grows :: "nat \<Rightarrow> string \<Rightarrow> string list \<Rightarrow> bool" where
  "grows cap seen [] = True"
| "grows cap seen (bytes # later) =
     (has_prefix bytes seen \<and> length bytes - length (complete_lines seen) \<le> cap \<and> grows cap bytes later)"

lemma complete_le: "length (complete_lines d) \<le> length d"
  using complete_prefix[of d] by (metis le_add1 length_append)

lemma complete_grows:
  assumes "has_prefix bytes seen"
  shows "complete_lines bytes = complete_lines seen @ complete_lines (drop (length (complete_lines seen)) bytes)"
proof -
  from assms obtain t where t: "bytes = seen @ t"
    by (rule has_prefixE)
  obtain r where r: "seen = complete_lines seen @ r"
    using complete_prefix by blast
  then have "bytes = complete_lines seen @ (r @ t)"
    using t by simp
  then show ?thesis
    by (metis append_eq_conv_conj complete_after)
qed

lemma poll_from:
  "grows cap seen files \<Longrightarrow>
    ended (fst (poll cap files (length (complete_lines seen)))) =
      drop (length (complete_lines seen)) (complete_lines (last (seen # files))) \<and>
    has_prefix (complete_lines (last (seen # files))) (complete_lines seen)"
proof (induction files arbitrary: seen)
  case (Cons bytes later)
  let ?n = "length (complete_lines seen)"
  from Cons.prems have pre: "has_prefix bytes seen" and fits: "length bytes - ?n \<le> cap" and rest: "grows cap bytes later"
    by auto
  from pre have le: "?n \<le> length bytes"
    using complete_le[of seen] by (auto elim!: has_prefixE)
  note page = page_exact[OF le fits]
  note split = complete_grows[OF pre]
  then have "?n + length (complete_lines (drop ?n bytes)) = length (complete_lines bytes)"
    by (metis length_append)
  with page(2) have next_offset: "lt_next (tail_page cap (length bytes) bytes (int ?n)) = length (complete_lines bytes)"
    by simp
  let ?later = "poll cap later (length (complete_lines bytes))"
  have lst: "last (seen # bytes # later) = last (bytes # later)"
    by simp
  from Cons.IH[OF rest] obtain t where t: "complete_lines (last (bytes # later)) = complete_lines bytes @ t"
    by (auto elim: has_prefixE)
  with Cons.IH[OF rest] have "ended (fst ?later) = t"
    by simp
  with page(1) next_offset
  have "ended (fst (poll cap (bytes # later) ?n)) = complete_lines (drop ?n bytes) @ t"
    by (simp add: case_prod_beta)
  moreover have "complete_lines (last (bytes # later)) = complete_lines seen @ complete_lines (drop ?n bytes) @ t"
    by (subst t, subst split) simp
  ultimately show ?case
    unfolding lst by simp
qed (simp add: has_prefix_def)

lemma lines_of_id: "(\<And>l. l \<in> set ls \<Longrightarrow> newline \<notin> set l) \<Longrightarrow> lines_of (ended ls) = ls"
  by (cases "ls = []") (simp_all add: lines_of_def ended_join trim_suffix_def has_suffix_def split_join)

lemma page_plain: "l \<in> set (lt_lines (tail_page cap extent bytes offset)) \<Longrightarrow> newline \<notin> set l"
  unfolding tail_page_def Let_def log_page.simps by (rule lines_plain[OF complete_ends])

lemma poll_plain: "l \<in> set (fst (poll cap files offset)) \<Longrightarrow> newline \<notin> set l"
  by (induction files arbitrary: offset) (auto simp: case_prod_beta Let_def dest: page_plain)

subsection \<open>Properties\<close>

text \<open>
  A viewer that polls the log while the file grows, and never lets more than a window go by, is shown every
  complete line of the file exactly once, in the order of the file, and no line before it is complete.
\<close>

theorem polled_log_exact:
  assumes "grows cap [] files" "files \<noteq> []"
  shows "fst (poll cap files 0) = lines_of (complete_lines (last files))"
proof -
  have "ended (fst (poll cap files 0)) = complete_lines (last files)"
    using poll_from[OF assms(1)] assms(2) by (simp add: complete_none)
  then show ?thesis
    by (metis lines_of_id poll_plain)
qed

definition log_files :: "string list" where
  "log_files = [''a'' @ [newline] @ ''b'', ''a'' @ [newline] @ ''bc'' @ [newline] @ [newline] @ ''d'']"

lemma log_files_grow: "grows 8 [] log_files"
  by code_simp

theorem polled_log_exact_witness:
  "fst (poll 8 log_files 0) = [''a'', ''bc'', []]"
proof -
  have "lines_of (complete_lines (last log_files)) = [''a'', ''bc'', []]"
    by code_simp
  with polled_log_exact[OF log_files_grow] show ?thesis
    by (simp add: log_files_def)
qed

text \<open>
  Past the window the head of the kept bytes is dropped up to its first newline, whether or not the window cut a line:
  a line that begins exactly where the window begins is whole, and is lost.
\<close>

lemma whole_line_dropped:
  assumes "newline \<notin> set line" "length (line @ newline # rest) = cap" "offset < length before + 1"
  shows "lt_lines (tail_page cap (length (before @ newline # line @ newline # rest))
      (before @ newline # line @ newline # rest) (int offset)) = lines_of (complete_lines rest)"
proof -
  define bytes where "bytes = before @ newline # line @ newline # rest"
  have len: "length bytes = length before + 1 + cap" using assms(2) by (simp add: bytes_def)
  have start: "window_start cap (length bytes) offset = length before + 1"
    using assms(3) by (simp add: window_start_def len)
  have base: "(if int offset > int (length bytes) \<or> int offset < 0 then 0 else nat (int offset)) = offset"
    using assms(3) by (simp add: len)
  have "drop (length before + 1) bytes = line @ newline # rest" by (simp add: bytes_def)
  then have data: "take (length bytes - (length before + 1)) (drop (length before + 1) bytes) = line @ newline # rest"
    using assms(2) by (simp add: len)
  have "cut_at newline (line @ newline # rest) = Some (line, rest)"
    using assms(1) by (rule cut_at_append)
  then show ?thesis
    using assms(3) unfolding bytes_def[symmetric] tail_page_def Let_def base start data by simp
qed

lemma cut_at_nowhere: "c \<notin> set s \<Longrightarrow> cut_at c s = None"
proof -
  assume "c \<notin> set s"
  then have "dropWhile (\<lambda>x. x \<noteq> c) s = []" by auto
  then show ?thesis by (simp only: cut_at_def list.case)
qed

text \<open>
  A line longer than the window: nothing is shown, but the offset moves to the end of what is there, so that the end of
  the line, when it comes, is shown as a line of its own.
\<close>

lemma long_line_torn:
  assumes "newline \<notin> set half" "newline \<notin> set rest" "cap < length half" "length rest < cap"
  shows "poll cap [half, half @ rest @ [newline]] 0 = ([rest], length half + length rest + 1)"
proof -
  have "newline \<notin> set (take cap (drop (length half - cap) half))"
    using assms(1) by (auto dest: in_set_takeD in_set_dropD)
  then have "cut_at newline (take cap (drop (length half - cap) half)) = None" by (rule cut_at_nowhere)
  with assms have first: "tail_page cap (length half) half 0 = \<lparr>lt_lines = [], lt_next = length half, lt_size = length half\<rparr>"
    by (simp add: tail_page_def Let_def window_start_def complete_lines_def lines_of_def)
  have "complete_lines (rest @ [newline]) = rest @ [newline]"
    using complete_append[of "[]" rest] by simp
  moreover have "lines_of (rest @ [newline]) = [rest]"
    using lines_of_id[of "[rest]"] assms(2) by simp
  ultimately show ?thesis
    using assms first
    by (simp add: Let_def tail_page_def[of cap "Suc (length half + length rest)"] window_start_def)
qed

end
