(* ===== verification/Spec2Isabelle.thy ===== *)
theory Spec2Isabelle
  imports Stream_Range Title_Identity Download_Facts Update_Facts Portal_Facts Portal_Client
    Job_Facts Job_Runs Household_Facts Merge_Facts Family_Facts Stage_Facts Manager_Facts
    Http_Stream Http_Trust Http_Encoding Event_Facts Title_Details Season_Details Outbound Subtitle_Prepare
    Sibling_Episode Gui_Supervisor Log_Tail
begin

text \<open>
  Verification library of the Torrent TV server, the Go program under \<open>src/\<close>.

  The program.  The server keeps a catalog of releases read from torrent trackers, groups them into titles, hands a
  release to a torrent engine when a client plays it, streams the file while it is fetched, and keeps what it stores
  within the disk space it was given.  \<open>internal/domain\<close> holds its data and rules, \<open>internal/application\<close> the service
  with its jobs, \<open>internal/adapters\<close> the database (\<open>sqlite\<close>), the HTTP server (\<open>httpapi\<close>), the client of the portal
  (\<open>portalclient\<close>) and the bindings to engines and providers, \<open>internal/platform\<close> the settings and the outbound
  calls, \<open>internal/application/updates\<close> the self-update.

  Conventions.  A struct is a record with its fields in the order of the source, and a short prefix; an enumeration or
  an error type is a datatype.  A string is a list of bytes.  An \<open>int64\<close> is an \<open>int\<close>; where the code adds or
  multiplies without a check \<open>i64\<close> writes the wrap-around out.  A duration or a time is a number of nanoseconds.  A
  call that may fail takes its outcome from the state of the world (\<open>attempt\<close> in Service_World reads the next entry of
  a schedule of faults), so that every theorem holds for every pattern of failures.  A table is a list of rows with a
  key (\<open>upsert\<close>, \<open>row_of\<close>, \<open>delete_row\<close> in Go_Prelude).  What lives outside \<open>src/\<close> (digests, JSON, URL and
  time parsers, archive readers, gzip, what engines, trackers and providers answer) is an argument.

  Foundations.  Go_Prelude: the fragment of Go and of its library that all theories share, the laws of sorting (locale
  \<open>strict_weak\<close>) and of keyed tables (locale \<open>row_store\<close>).  Go_Regexp: the regular expressions of Go and a matcher by
  preference.  Domain_Model, Domain_Rules: the data and the rules of \<open>internal/domain\<close>.

  Torrents and files.  Torrent_Meta (\<open>torrentmeta.go\<close>): the bencode reader \<open>read_bnode\<close>, the manifest
  \<open>parse_torrent_manifest\<close> and the rules for its paths; what is accepted names plain relative paths
  (\<open>parse_torrent_manifest_sound\<close>), every document is read back (\<open>read_bnode_encode\<close>).  Torrent_Lookup: its cache.
  Media_Path (\<open>safeJoin\<close> and its kind) and Stream_Range (\<open>streaming.go\<close>): a path that is handed out for a range lies
  below the download root (\<open>readable_range_path_inside\<close>) and a torrent range is complete (\<open>torrent_readable_pieces\<close>).
  The polls of an open loop are a finite list; the time between them is not modelled.

  Settings.  Config and Config_Store (\<open>platform/config\<close>): defaults, validation, the overlay of the environment, load
  and save; a store always holds valid settings (\<open>store_value_valid\<close>) and a save never writes an override into the file
  (\<open>save_keeps_managed_fields\<close>).

  The service (\<open>service.go\<close>, \<open>retention.go\<close>, \<open>engine.go\<close>, \<open>trackers.go\<close>).  Service_World is the state it works
  on and its calls of the database and of the engines; Engine_Set and Tracker_Registry the registries; Stream_Leases the
  interleaving of \<open>Acquire\<close> and \<open>Release\<close> as a step relation, which settles (\<open>leases_settle\<close>).  Retention with
  Retention_Facts: the survey, the protection of rows, the order of eviction (a \<open>strict_weak\<close> order), the loops
  \<open>enforce\<close> and \<open>make_room\<close>.  They run on fuel, one unit more than there are rows, and the theorems
  \<open>enforce_outcome\<close>, \<open>run_retention_safe\<close> and \<open>admission_respects_allocation\<close> show that this is always enough, since
  an eviction takes at least one row away.  \<open>reported\<close> and \<open>stored_bytes\<close> say, apart from the survey of the code, what
  the engines report of the rows, and \<open>describes\<close> when a survey tells exactly that.  Download_Status, Download_Prepare, Download_Manage and Download_Facts: the
  live view, \<open>Prepare\<close>, \<open>PrepareSeason\<close> and \<open>Manage\<close>; what is claimed on the Allocation is given back on every way out.
  Job_State, Job_Queue, Job_Recovery, Job_Runs and Job_Facts: failure classes, the queues of the workers (their
  capacity is that of the source, 256), retries, the recovery after a restart and what the workers do.

  The catalog.  Release_Name and Title_Identity (\<open>domain/catalog.go\<close>): the parser of release names and the ids of
  titles, which equal a specification that does not depend on the order (\<open>family_ids_order_free\<close>).  Catalog_Group,
  Catalog_Seasons, Catalog_State and Catalog_Views (\<open>application/catalog.go\<close>, the queries of \<open>sqlite\<close>): sources,
  titles, seasons, the states laid over them, pages; the grouping keeps the separate maps of the code, and \<open>sums_up\<close>
  says on its own what a title has to say of its sources.  Catalog_Merge and Merge_Facts (\<open>sqlite/reconcile.go\<close>): storing
  releases and the reconciliation of the families they touch, a refinement of that specification.  Household and
  Household_Facts: positions, favorites and the lists of the household with their bounds of 30 and 50.  Families,
  Family_Flight and Family_Facts (\<open>families.go\<close>, \<open>families_library.go\<close>): the tiles, the library and the
  single-flight cache of the tiles as an interleaving; a computation left alone lands within five of its steps.
  Title_Details and Season_Details (\<open>titleinfo.go\<close>, \<open>seasoninfo.go\<close>): the caches of provider data, whose contract is
  the locale \<open>stale_cache\<close> (while the cache can be read a usable row stays usable whatever the provider does; a stored
  failure keeps everybody from asking for ten minutes; a read that fails loses what is stored when the provider fails
  too), interpreted on the rows of details and on those of seasons; the addresses of images lead back to their paths.  Outbound (\<open>retry.go\<close>, \<open>metaprovider.go\<close>): the retry loop, bounded by its policy, and the
  chain of providers.  Sibling_Episode (\<open>siblingEpisode\<close>): the next and the previous episode are neighbours.

  Subtitles (\<open>subtitles.go\<close>, \<open>subtitles_charset.go\<close>, \<open>language_name.go\<close>).  Subtitle_Text: the cleaning of cues and the
  conversion to WebVTT and SAMI, whose cues hold no markup of the subtitle (\<open>sami_holds_plain_cues\<close>); a repetition of a
  group in a pattern is bounded by the length of the text, which is enough as the group is never empty.
  Subtitle_Charset: the encodings, which agree on the text (\<open>subtitle_encodings_agree\<close>; UTF-16 without a mark only where
  the text is mostly Latin).  Subtitle_Search: languages and
  episodes of names, and the search, which no provider can break (\<open>search_outlives_providers\<close>).  Subtitle_Prepare:
  archives, the table of assets and the cache folder; a prepared subtitle can be fetched (\<open>prepared_subtitle_served\<close>) and
  pruning takes the oldest files (\<open>prune_takes_oldest\<close>).

  The HTTP surface.  Http_Trust (\<open>trust.go\<close>, \<open>internalfetch.go\<close>): who is let in, for the administration routes as an
  equivalence with the names and origins written out.  Http_Encoding (\<open>encoding.go\<close>): the
  middleware for JSON answers is transparent.  Http_Stream (\<open>api.go\<close>): the stream route over Stream_Range; its loop is a
  \<open>partial_function\<close>, and \<open>stream_serves_range\<close> proves that it returns, since every turn moves the position by at least
  one byte when the settings are valid, and that the body is made of consecutive pieces of the files handed out.  Event_Bus and Event_Facts (\<open>publish\<close>, \<open>SubscribeEvents\<close>, \<open>events\<close>): the journal,
  the channels of 32 events and the replay of 200, as an interleaving with everything else the server does.

  The portal (\<open>application/portal\<close>, \<open>adapters/portalclient\<close>).  Portal_Hub, Portal_Facts, Portal_Client: a refresh
  cycle implements one step of a specification by surfaces (\<open>refresh_refines_surfaces\<close>), though other goroutines change
  the hub during its calls.

  The self-update (\<open>application/updates\<close>).  Update_Release: what may be selected.  Update_Stage and Stage_Facts
  (\<open>stage.go\<close>): the download and the unpacking over a file system with links; a path is followed over at most 40 links,
  as the kernel does, and fails beyond.  Update_Journal and Update_Facts (\<open>recovery.go\<close>, \<open>install_unix.go\<close>): the
  transaction over a disk on which every call may fail or be the last; \<open>keeps\<close> and \<open>leads\<close> are triples over all ways
  a program can go.  Update_Manager and Manager_Facts (\<open>manager.go\<close>): the coordinator with its token as an interleaving of
  critical sections, and the pipeline with its three attempts.

  The desktop application (\<open>internal/gui\<close>).  Gui_Supervisor (\<open>supervisor.go\<close>): starts, stops, restarts and the goroutine
  that serves as tasks whose critical sections interleave (\<open>supervisor_serialized\<close>).  Log_Tail (\<open>readLogTail\<close>): a viewer that
  keeps up is shown every complete line once (\<open>polled_log_exact\<close>).

  How the parts meet.  Admission (Retention) runs inside \<open>Prepare\<close> (Download_Prepare) over the same world as the
  jobs; Catalog_Merge changes the tables that Household and Job_Queue read; the stream route composes the lease, the
  validated settings of Config_Store and the ranges of Stream_Range; a staged payload (Update_Stage) is what the
  transaction (Update_Journal) installs, and the coordinator (Update_Manager) decides when; Season_Details reads the
  caches of Title_Details; a contained subtitle is read as a range of Stream_Range; Sibling_Episode walks the detail of
  Catalog_Views and ends in \<open>Prepare\<close>.

  Some theorems record what the code does against its own comments (\<open>long_backlog_lost\<close>, \<open>chained_links_escape\<close>,
  \<open>stale_check_misreports\<close>, \<open>interrupted_copy_destroys_installation\<close>, and lemmas such as \<open>late_failures_hammer\<close>, \<open>unread_details_dropped\<close>,
  \<open>retry_after_wraps\<close>, \<open>expired_donor_stays\<close>, \<open>moved_cache_loses_subtitle\<close>, \<open>identified_release_loses_favorite\<close>,
  \<open>stale_failure_drops_successor\<close>): they hold of the code as it is.

  Not modelled.  The routing and the JSON of the HTTP server beyond the routes named above; the bindings to the torrent engines and the clients of trackers and
  providers, which are third-party code and network I/O; the file exchange of Windows and macOS updates; the windows,
  the tray and the other bindings of the desktop application, the wiring and the start-up.  SQL text is modelled by what it means on rows, not parsed.  Goroutines are modelled
  where the code lets them interleave (leases, the portal, the event bus, the cache of the tiles, the update
  coordinator); elsewhere an operation is sequential, under the mutex it holds.
\<close>

end
